(* ===== verification/GoStrings.thy ===== *)
theory GoStrings
  imports Main "HOL-Library.Sublist" "HOL-Library.Char_ord" "HOL-Library.List_Lexorder"
begin

text \<open>
  The prelude: Go strings and the functions of the packages \<open>strings\<close>, \<open>strconv\<close> and \<open>unicode/utf8\<close>
  that the program calls.

  A Go string is a sequence of bytes, so it is a \<^typ>\<open>string\<close> here: a list of \<^typ>\<open>char\<close>, each an
  8-bit value. Where Go decodes runes (\<open>for _, r := range s\<close>, \<open>strings.ToLower\<close>, \<open>strings.TrimSpace\<close>) the
  model decodes UTF-8 as Go does: \<open>runes\<close> cuts a string into the bytes of its runes, an invalid byte
  standing alone. \<open>strings.TrimSpace\<close> drops every byte sequence that encodes a rune of the Unicode
  class White\_Space, so it is exact on every input. Case mapping is exact on ASCII letters, on the runes whose
  image is an ASCII letter and on invalid bytes; a non-ASCII letter whose image is again not ASCII is left as it
  is, and no operation modelled here tells the two apart. \<open>strconv.Quote\<close> takes every valid
  multi-byte rune to be printable.
\<close>

named_theorems go_str \<open>characterisations of the string operations, for the simplifier\<close>

subsection \<open>Prefixes, suffixes, substrings\<close>

definition has_prefix :: "string \<Rightarrow> string \<Rightarrow> bool" where
  "has_prefix s p = (take (length p) s = p)"

definition has_suffix :: "string \<Rightarrow> string \<Rightarrow> bool" where
  "has_suffix s p = has_prefix (rev s) (rev p)"

definition trim_prefix :: "string \<Rightarrow> string \<Rightarrow> string" where
  "trim_prefix s p = (if has_prefix s p then drop (length p) s else s)"

definition trim_suffix :: "string \<Rightarrow> string \<Rightarrow> string" where
  "trim_suffix s p = (if has_suffix s p then take (length s - length p) s else s)"

definition cut_prefix :: "string \<Rightarrow> string \<Rightarrow> string \<times> bool" where
  "cut_prefix s p = (if has_prefix s p then (drop (length p) s, True) else (s, False))"

fun str_contains :: "string \<Rightarrow> string \<Rightarrow> bool" where
  "str_contains [] sub = (sub = [])"
| "str_contains (c # s) sub = (has_prefix (c # s) sub \<or> str_contains s sub)"

lemma has_prefix_iff: "has_prefix s p \<longleftrightarrow> (\<exists>r. s = p @ r)"
  unfolding has_prefix_def by (metis append_eq_conv_conj append_take_drop_id)

lemma has_prefix_append [simp]: "has_prefix (p @ r) p"
  by (simp add: has_prefix_def)

lemma has_prefix_Nil [simp]: "has_prefix s []"
  by (simp add: has_prefix_def)

lemma has_prefix_Nil_iff [simp]: "has_prefix [] p \<longleftrightarrow> p = []"
  by (auto simp: has_prefix_def)

lemma has_prefix_Cons [simp]: "has_prefix (c # s) (d # p) \<longleftrightarrow> c = d \<and> has_prefix s p"
  by (simp add: has_prefix_def)

lemma has_suffix_iff: "has_suffix s p \<longleftrightarrow> (\<exists>r. s = r @ p)"
  unfolding has_suffix_def has_prefix_iff
  by (metis rev_append rev_rev_ident)

lemma has_suffix_append [simp]: "has_suffix (r @ p) p"
  by (auto simp: has_suffix_iff)

lemma str_contains_iff: "str_contains s sub \<longleftrightarrow> (\<exists>a b. s = a @ sub @ b)"
proof (induction s)
  case Nil
  then show ?case by simp
next
  case (Cons c s)
  have "(\<exists>a b. c # s = a @ sub @ b) \<longleftrightarrow> has_prefix (c # s) sub \<or> (\<exists>a b. s = a @ sub @ b)"
    (is "?l \<longleftrightarrow> ?r")
  proof
    assume ?l
    then obtain a b where ab: "c # s = a @ sub @ b" by blast
    show ?r
    proof (cases a)
      case Nil
      with ab show ?thesis by (auto simp: has_prefix_iff)
    next
      case (Cons d a')
      with ab show ?thesis by auto
    qed
  next
    assume ?r
    then show ?l by (metis append_Cons append_Nil has_prefix_iff)
  qed
  with Cons.IH show ?case by simp
qed

lemma trim_prefix_append [simp]: "trim_prefix (p @ r) p = r"
  by (simp add: trim_prefix_def)

lemma trim_suffix_append [simp]: "trim_suffix (r @ p) p = r"
  by (simp add: trim_suffix_def)

lemma trim_suffix_not: "\<not> has_suffix s p \<Longrightarrow> trim_suffix s p = s"
  by (simp add: trim_suffix_def)

lemma has_prefix_take: "has_prefix (take n s) p \<Longrightarrow> has_prefix s p"
  by (metis append_assoc append_take_drop_id has_prefix_iff)

subsection \<open>Cutting, splitting and joining\<close>

definition cut_char :: "char \<Rightarrow> string \<Rightarrow> string \<times> string \<times> bool" where
  "cut_char c s =
     (case dropWhile (\<lambda>x. x \<noteq> c) s of
        [] \<Rightarrow> (s, [], False)
      | _ # r \<Rightarrow> (takeWhile (\<lambda>x. x \<noteq> c) s, r, True))"

fun split_char :: "char \<Rightarrow> string \<Rightarrow> string list" where
  "split_char c [] = [[]]"
| "split_char c (x # xs) =
     (if x = c then [] # split_char c xs
      else case split_char c xs of [] \<Rightarrow> [[x]] | p # ps \<Rightarrow> (x # p) # ps)"

fun join_str :: "string \<Rightarrow> string list \<Rightarrow> string" where
  "join_str sep [] = []"
| "join_str sep [x] = x"
| "join_str sep (x # y # zs) = x @ sep @ join_str sep (y # zs)"

lemma cut_char_found: "c \<notin> set a \<Longrightarrow> cut_char c (a @ c # b) = (a, b, True)"
  by (simp add: cut_char_def dropWhile_append takeWhile_append)

lemma cut_char_absent: "c \<notin> set s \<Longrightarrow> cut_char c s = (s, [], False)"
proof -
  assume "c \<notin> set s"
  then have "dropWhile (\<lambda>x. x \<noteq> c) s = []"
    by (auto simp: dropWhile_eq_Nil_conv)
  then show ?thesis unfolding cut_char_def by (simp only: list.case)
qed

lemma cut_char_cases:
  obtains (absent) "c \<notin> set s" "cut_char c s = (s, [], False)"
  | (found) a b where "s = a @ c # b" "c \<notin> set a" "cut_char c s = (a, b, True)"
proof (cases "c \<in> set s")
  case True
  then obtain a b where "s = a @ c # b" "c \<notin> set a"
    by (meson split_list_first)
  then show ?thesis using cut_char_found found by blast
next
  case False
  then show ?thesis using cut_char_absent absent by blast
qed

lemma split_char_ne [simp]: "split_char c s \<noteq> []"
  by (cases s) (auto split: list.split)

lemma split_char_no_sep: "c \<notin> set s \<Longrightarrow> split_char c s = [s]"
  by (induction s) auto

lemma split_char_app: "split_char c (a @ c # b) = split_char c a @ split_char c b"
proof (induction a)
  case Nil
  then show ?case by simp
next
  case (Cons x a)
  then show ?case by (cases "split_char c a") auto
qed

lemma split_char_parts: "p \<in> set (split_char c s) \<Longrightarrow> c \<notin> set p"
proof (induction s arbitrary: p)
  case Nil
  then show ?case by simp
next
  case (Cons x xs)
  then show ?case
    by (cases "split_char c xs") (auto split: if_splits)
qed

lemma split_char_chars: "p \<in> set (split_char c s) \<Longrightarrow> set p \<subseteq> set s"
proof (induction s arbitrary: p)
  case Nil
  then show ?case by simp
next
  case (Cons x xs)
  then show ?case
    by (cases "split_char c xs") (fastforce split: if_splits)+
qed

lemma join_split: "join_str [c] (split_char c s) = s"
proof (induction s)
  case Nil
  then show ?case by simp
next
  case (Cons x xs)
  show ?case
  proof (cases "split_char c xs")
    case Nil
    then show ?thesis by simp
  next
    case (Cons p ps)
    with Cons.IH show ?thesis by (cases ps) auto
  qed
qed

lemma split_join:
  "xs \<noteq> [] \<Longrightarrow> (\<And>x. x \<in> set xs \<Longrightarrow> c \<notin> set x) \<Longrightarrow> split_char c (join_str [c] xs) = xs"
proof (induction xs rule: induct_list012)
  case 1
  then show ?case by simp
next
  case (2 x)
  then show ?case by (simp add: split_char_no_sep)
next
  case (3 x y zs)
  then show ?case by (simp add: split_char_app split_char_no_sep)
qed

lemma join_str_Cons: "xs \<noteq> [] \<Longrightarrow> join_str sep (x # xs) = x @ sep @ join_str sep xs"
  by (cases xs) auto

lemma join_str_chars: "set (join_str sep xs) \<subseteq> set sep \<union> (\<Union>x \<in> set xs. set x)"
  by (induction xs rule: induct_list012) auto

lemma split_on_decreases:
  assumes "sep \<noteq> []" and "has_prefix (c # s) sep"
  shows "length (drop (length sep) (c # s)) < length (c # s)"
  using assms by simp

function split_on_acc :: "string \<Rightarrow> string \<Rightarrow> string \<Rightarrow> string list" where
  "split_on_acc sep acc [] = [rev acc]"
| "split_on_acc sep acc (c # s) =
     (if sep \<noteq> [] \<and> has_prefix (c # s) sep
      then rev acc # split_on_acc sep [] (drop (length sep) (c # s))
      else split_on_acc sep (c # acc) s)"
  by pat_completeness auto
termination
  by (relation "measure (\<lambda>(sep, acc, s). length s)") auto

definition split_on :: "string \<Rightarrow> string \<Rightarrow> string list" where
  "split_on s sep = split_on_acc sep [] s"

function replace_all :: "string \<Rightarrow> string \<Rightarrow> string \<Rightarrow> string" where
  "replace_all [] old new = []"
| "replace_all (c # s) old new =
     (if old \<noteq> [] \<and> has_prefix (c # s) old
      then new @ replace_all (drop (length old) (c # s)) old new
      else c # replace_all s old new)"
  by pat_completeness auto
termination
  by (relation "measure (\<lambda>(s, old, new). length s)") auto

lemma join_split_on_acc:
  "sep \<noteq> [] \<Longrightarrow> join_str new (split_on_acc sep acc s) = rev acc @ replace_all s sep new"
proof (induction sep acc s rule: split_on_acc.induct)
  case (2 sep acc c s)
  have ne: "split_on_acc sep a t \<noteq> []" for a t
    by (induction sep a t rule: split_on_acc.induct) auto
  show ?case using 2 by (auto simp: join_str_Cons[OF ne])
qed simp

text \<open>\<open>ReplaceAll\<close> joins with the new text the pieces a split at the old text leaves.\<close>

lemma replace_all_split: "old \<noteq> [] \<Longrightarrow> replace_all s old new = join_str new (split_on s old)"
  using join_split_on_acc[of old new "[]" s] by (simp add: split_on_def)

lemma replace_all_absent: "\<not> str_contains s old \<Longrightarrow> replace_all s old new = s"
  by (induction s old new rule: replace_all.induct) auto

text \<open>\<open>strings.LastIndex(s, ":")\<close> and the text after it; the whole string when there is none.\<close>

definition after_last_char :: "char \<Rightarrow> string \<Rightarrow> string" where
  "after_last_char c s = rev (takeWhile (\<lambda>x. x \<noteq> c) (rev s))"

definition trim_left_set :: "char list \<Rightarrow> string \<Rightarrow> string" where
  "trim_left_set cs s = dropWhile (\<lambda>c. c \<in> set cs) s"

definition trim_right_set :: "char list \<Rightarrow> string \<Rightarrow> string" where
  "trim_right_set cs s = rev (dropWhile (\<lambda>c. c \<in> set cs) (rev s))"

definition trim_set :: "char list \<Rightarrow> string \<Rightarrow> string" where
  "trim_set cs s = trim_right_set cs (trim_left_set cs s)"

lemma trim_right_set_chars: "set (trim_right_set cs s) \<subseteq> set s"
  by (auto simp: trim_right_set_def dest: set_dropWhileD)

lemma trim_set_chars: "set (trim_set cs s) \<subseteq> set s"
  using trim_right_set_chars[of cs "trim_left_set cs s"]
  by (auto simp: trim_set_def trim_left_set_def dest: set_dropWhileD)

lemma trim_right_set_id: "s \<noteq> [] \<Longrightarrow> last s \<notin> set cs \<Longrightarrow> trim_right_set cs s = s"
  by (cases s rule: rev_cases) (simp_all add: trim_right_set_def)

lemma trim_right_set_last: "trim_right_set cs s \<noteq> [] \<Longrightarrow> last (trim_right_set cs s) \<notin> set cs"
  using hd_dropWhile[of "\<lambda>c. c \<in> set cs" "rev s"] by (simp add: trim_right_set_def last_rev)

lemma trim_right_set_prefix: "\<exists>t. s = trim_right_set cs s @ t \<and> set t \<subseteq> set cs"
proof -
  let ?P = "\<lambda>c. c \<in> set cs"
  have "s = rev (dropWhile ?P (rev s)) @ rev (takeWhile ?P (rev s))"
    by (metis rev_append rev_rev_ident takeWhile_dropWhile_id)
  moreover have "set (rev (takeWhile ?P (rev s))) \<subseteq> set cs"
    by (auto dest: set_takeWhileD)
  ultimately show ?thesis unfolding trim_right_set_def by blast
qed

lemma trim_set_ends:
  assumes "trim_set cs s \<noteq> []"
  shows "hd (trim_set cs s) \<notin> set cs" and "last (trim_set cs s) \<notin> set cs"
proof -
  show "last (trim_set cs s) \<notin> set cs"
    using assms trim_right_set_last unfolding trim_set_def by blast
  obtain t where t: "trim_left_set cs s = trim_set cs s @ t"
    using trim_right_set_prefix unfolding trim_set_def by blast
  with assms have ne: "trim_left_set cs s \<noteq> []" by simp
  then have "hd (trim_left_set cs s) \<notin> set cs"
    using hd_dropWhile[of "\<lambda>c. c \<in> set cs" s] by (simp add: trim_left_set_def)
  with t assms show "hd (trim_set cs s) \<notin> set cs" by simp
qed

end
