(* ===== verification/GoUnicode.thy ===== *)
theory GoUnicode
  imports GoStrings
begin

text \<open>
  The part of the prelude that decodes UTF-8: \<open>strings.TrimSpace\<close>, the rune loop, case mapping
  and case folding, as functions on byte strings.
\<close>

subsection \<open>strings.TrimSpace\<close>

text \<open>The UTF-8 encodings of the White\_Space runes, the ASCII ones first.\<close>

definition space_seqs :: "string list" where
  "space_seqs =
     [[CHR 0x20], [CHR 0x0A], [CHR 0x09], [CHR 0x0D], [CHR 0x0B], [CHR 0x0C],
      [CHR 0xC2, CHR 0x85], [CHR 0xC2, CHR 0xA0], [CHR 0xE1, CHR 0x9A, CHR 0x80],
      [CHR 0xE2, CHR 0x80, CHR 0x80], [CHR 0xE2, CHR 0x80, CHR 0x81], [CHR 0xE2, CHR 0x80, CHR 0x82],
      [CHR 0xE2, CHR 0x80, CHR 0x83], [CHR 0xE2, CHR 0x80, CHR 0x84], [CHR 0xE2, CHR 0x80, CHR 0x85],
      [CHR 0xE2, CHR 0x80, CHR 0x86], [CHR 0xE2, CHR 0x80, CHR 0x87], [CHR 0xE2, CHR 0x80, CHR 0x88],
      [CHR 0xE2, CHR 0x80, CHR 0x89], [CHR 0xE2, CHR 0x80, CHR 0x8A], [CHR 0xE2, CHR 0x80, CHR 0xA8],
      [CHR 0xE2, CHR 0x80, CHR 0xA9], [CHR 0xE2, CHR 0x80, CHR 0xAF], [CHR 0xE2, CHR 0x81, CHR 0x9F],
      [CHR 0xE3, CHR 0x80, CHR 0x80]]"

fun skip_seq :: "string list \<Rightarrow> string \<Rightarrow> string option" where
  "skip_seq [] s = None"
| "skip_seq (p # ps) s =
     (if p \<noteq> [] \<and> has_prefix s p then Some (drop (length p) s) else skip_seq ps s)"

lemma skip_seq_Some: "skip_seq ps s = Some r \<Longrightarrow> \<exists>p \<in> set ps. p \<noteq> [] \<and> s = p @ r"
  by (induction ps) (auto simp: has_prefix_iff split: if_splits)

lemma skip_seq_None: "skip_seq ps s = None \<longleftrightarrow> (\<forall>p \<in> set ps. p \<noteq> [] \<longrightarrow> \<not> has_prefix s p)"
  by (induction ps) auto

lemma skip_seq_shorter: "skip_seq ps s = Some r \<Longrightarrow> length r < length s"
  by (auto dest: skip_seq_Some)

function drop_seqs :: "string list \<Rightarrow> string \<Rightarrow> string" where
  "drop_seqs ps s = (case skip_seq ps s of None \<Rightarrow> s | Some r \<Rightarrow> drop_seqs ps r)"
  by pat_completeness auto
termination
  by (relation "measure (\<lambda>(ps, s). length s)") (auto dest: skip_seq_shorter)

declare drop_seqs.simps [simp del]

lemma drop_seqs_done: "skip_seq ps (drop_seqs ps s) = None"
proof (induction ps s rule: drop_seqs.induct)
  case (1 ps s)
  then show ?case by (cases "skip_seq ps s") (simp_all add: drop_seqs.simps[of ps s])
qed

lemma drop_seqs_id: "skip_seq ps s = None \<Longrightarrow> drop_seqs ps s = s"
  by (simp add: drop_seqs.simps)

lemma drop_seqs_suffix: "\<exists>a. s = a @ drop_seqs ps s"
proof (induction ps s rule: drop_seqs.induct)
  case (1 ps s)
  show ?case
  proof (cases "skip_seq ps s")
    case None
    then show ?thesis by (simp add: drop_seqs.simps)
  next
    case (Some r)
    from 1[OF Some] obtain a where "r = a @ drop_seqs ps r" by blast
    moreover from Some obtain p where "s = p @ r" by (auto dest: skip_seq_Some)
    ultimately show ?thesis using Some
      by (metis append.assoc drop_seqs.simps option.simps(5))
  qed
qed

definition trim_space :: "string \<Rightarrow> string" where
  "trim_space s = rev (drop_seqs (map rev space_seqs) (rev (drop_seqs space_seqs s)))"

definition is_blank :: "string \<Rightarrow> bool" where
  "is_blank s = (trim_space s = [])"

lemma trim_space_infix: "\<exists>a b. s = a @ trim_space s @ b"
proof -
  let ?l = "drop_seqs space_seqs s"
  obtain a where a: "s = a @ ?l" using drop_seqs_suffix by blast
  obtain b where "rev ?l = b @ drop_seqs (map rev space_seqs) (rev ?l)"
    using drop_seqs_suffix by blast
  then have "?l = trim_space s @ rev b"
    unfolding trim_space_def by (metis rev_append rev_rev_ident)
  with a show ?thesis by metis
qed

lemma trim_space_chars: "set (trim_space s) \<subseteq> set s"
  using trim_space_infix[of s] by (metis Un_upper1 Un_upper2 order_trans set_append)

lemma trim_space_idem [simp, go_str]: "trim_space (trim_space s) = trim_space s"
proof -
  let ?l = "drop_seqs space_seqs s" and ?R = "map rev space_seqs"
  obtain b where b: "rev ?l = b @ drop_seqs ?R (rev ?l)"
    using drop_seqs_suffix by blast
  then have l: "?l = trim_space s @ rev b"
    unfolding trim_space_def by (metis rev_append rev_rev_ident)
  have "skip_seq space_seqs ?l = None" by (rule drop_seqs_done)
  then have "skip_seq space_seqs (trim_space s) = None"
    using l unfolding skip_seq_None by (metis append_assoc has_prefix_iff)
  then have 1: "drop_seqs space_seqs (trim_space s) = trim_space s" by (rule drop_seqs_id)
  have "skip_seq ?R (rev (trim_space s)) = None"
    unfolding trim_space_def by (simp add: drop_seqs_done)
  then have "drop_seqs ?R (rev (trim_space s)) = rev (trim_space s)" by (rule drop_seqs_id)
  with 1 show ?thesis by (simp add: trim_space_def)
qed

lemma trim_space_Nil [simp, go_str]: "trim_space [] = []"
  using trim_space_chars[of "[]"] by simp

text \<open>
  A string is trimmed exactly when no encoded space begins it and none ends it; a byte that occurs in no encoded
  space separates the two conditions.
\<close>

definition left_trimmed :: "string \<Rightarrow> bool" where
  "left_trimmed s = (skip_seq space_seqs s = None)"

definition right_trimmed :: "string \<Rightarrow> bool" where
  "right_trimmed s = (skip_seq (map rev space_seqs) (rev s) = None)"

definition solid :: "char \<Rightarrow> bool" where
  "solid c = list_all (\<lambda>p. c \<notin> set p) space_seqs"

lemma trim_fixed_iff: "trim_space t = t \<longleftrightarrow> left_trimmed t \<and> right_trimmed t"
proof
  let ?R = "map rev space_seqs" and ?l = "drop_seqs space_seqs t"
  assume t: "trim_space t = t"
  obtain a where a: "t = a @ ?l" using drop_seqs_suffix by blast
  obtain b where b: "rev ?l = b @ drop_seqs ?R (rev ?l)" using drop_seqs_suffix by blast
  have "rev (drop_seqs ?R (rev ?l)) = t" using t by (simp add: trim_space_def)
  with b have "length t \<le> length ?l"
    by (metis length_append length_rev le_add2)
  with a have la: "?l = t"
    by (metis add_diff_cancel_right' append_Nil length_0_conv length_append diff_is_0_eq)
  then have "left_trimmed t" unfolding left_trimmed_def using drop_seqs_done by metis
  moreover have "right_trimmed t"
    using t la drop_seqs_done[of ?R "rev t"] by (simp add: right_trimmed_def trim_space_def rev_swap)
  ultimately show "left_trimmed t \<and> right_trimmed t" ..
next
  assume "left_trimmed t \<and> right_trimmed t"
  then show "trim_space t = t"
    by (simp add: left_trimmed_def right_trimmed_def trim_space_def drop_seqs_id)
qed

lemma left_trimmed_Nil [simp]: "left_trimmed []" and right_trimmed_Nil [simp]: "right_trimmed []"
  by (auto simp: left_trimmed_def right_trimmed_def skip_seq_None)

lemma trim_space_left_trimmed [simp]: "left_trimmed (trim_space s)"
  and trim_space_right_trimmed [simp]: "right_trimmed (trim_space s)"
  using trim_fixed_iff[of "trim_space s"] by simp_all

lemma has_prefix_solid: "c \<notin> set p \<Longrightarrow> has_prefix (a @ c # b) p \<longleftrightarrow> has_prefix a p"
proof (induction a arbitrary: p)
  case Nil
  then show ?case by (cases p) auto
next
  case (Cons x a)
  then show ?case by (cases p) auto
qed

lemma left_trimmed_solid: "solid c \<Longrightarrow> left_trimmed (a @ c # b) \<longleftrightarrow> left_trimmed a"
  by (auto simp: left_trimmed_def skip_seq_None solid_def list_all_iff has_prefix_solid)

lemma right_trimmed_solid: "solid c \<Longrightarrow> right_trimmed (a @ c # b) \<longleftrightarrow> right_trimmed b"
  by (auto simp: right_trimmed_def skip_seq_None solid_def list_all_iff has_prefix_solid)

lemma trim_fixed_solid:
  "solid c \<Longrightarrow> trim_space (a @ c # b) = a @ c # b \<longleftrightarrow> left_trimmed a \<and> right_trimmed b"
  by (simp add: trim_fixed_iff left_trimmed_solid right_trimmed_solid)

lemma left_trimmed_solid_hd: "s \<noteq> [] \<Longrightarrow> solid (hd s) \<Longrightarrow> left_trimmed s"
  using left_trimmed_solid[of "hd s" "[]" "tl s"] by simp

lemma right_trimmed_solid_last: "s \<noteq> [] \<Longrightarrow> solid (last s) \<Longrightarrow> right_trimmed s"
  using right_trimmed_solid[of "last s" "butlast s" "[]"] by simp

lemma trim_space_solid_ends:
  "s \<noteq> [] \<Longrightarrow> solid (hd s) \<Longrightarrow> solid (last s) \<Longrightarrow> trim_space s = s"
  by (simp add: trim_fixed_iff left_trimmed_solid_hd right_trimmed_solid_last)

lemma trim_space_all_solid: "\<forall>c \<in> set s. solid c \<Longrightarrow> trim_space s = s"
  by (cases "s = []") (auto intro: trim_space_solid_ends)

definition word_char :: "char \<Rightarrow> bool" where
  "word_char c = (CHR 0x21 \<le> c \<and> c \<le> CHR 0x7E)"

lemma word_char_solid: "word_char c \<Longrightarrow> solid c"
  by (auto simp: word_char_def solid_def space_seqs_def less_eq_char_def)

lemma trim_space_words: "\<forall>c \<in> set s. word_char c \<Longrightarrow> trim_space s = s"
  by (simp add: trim_space_all_solid word_char_solid)

lemma trim_space_ends_plain:
  assumes "trim_space s \<noteq> []"
  shows "hd (trim_space s) \<notin> set [CHR 0x20, CHR 0x0A, CHR 0x09, CHR 0x0D]"
    and "last (trim_space s) \<notin> set [CHR 0x20, CHR 0x0A, CHR 0x09, CHR 0x0D]"
proof -
  obtain c u where cu: "trim_space s = c # u" using assms by (cases "trim_space s") auto
  then have "left_trimmed (c # u)" by (metis trim_space_left_trimmed)
  with cu show "hd (trim_space s) \<notin> set [CHR 0x20, CHR 0x0A, CHR 0x09, CHR 0x0D]"
    unfolding left_trimmed_def skip_seq_None by (auto simp: space_seqs_def)
  obtain d v where dv: "rev (trim_space s) = d # v" using assms by (cases "rev (trim_space s)") auto
  then have "last (trim_space s) = d" by (metis last_rev list.sel(1) rev_rev_ident)
  moreover have "right_trimmed (rev (d # v))" using dv by (metis rev_rev_ident trim_space_right_trimmed)
  ultimately show "last (trim_space s) \<notin> set [CHR 0x20, CHR 0x0A, CHR 0x09, CHR 0x0D]"
    unfolding right_trimmed_def skip_seq_None by (auto simp: space_seqs_def)
qed

subsection \<open>Runes\<close>

abbreviation byte_of :: "char \<Rightarrow> nat" where
  "byte_of c \<equiv> of_char c"

definition cont_byte :: "char \<Rightarrow> bool" where
  "cont_byte c = (0x80 \<le> byte_of c \<and> byte_of c \<le> 0xBF)"

text \<open>The range \<open>utf8.DecodeRune\<close> accepts for the second byte, by the first.\<close>

definition second_ok :: "nat \<Rightarrow> char \<Rightarrow> bool" where
  "second_ok b c =
     (cont_byte c \<and> (b = 0xE0 \<longrightarrow> 0xA0 \<le> byte_of c) \<and> (b = 0xED \<longrightarrow> byte_of c \<le> 0x9F) \<and>
      (b = 0xF0 \<longrightarrow> 0x90 \<le> byte_of c) \<and> (b = 0xF4 \<longrightarrow> byte_of c \<le> 0x8F))"

text \<open>The width of the first rune: 1 for an ASCII byte and for a byte that starts no valid encoding.\<close>

definition rune_width :: "string \<Rightarrow> nat" where
  "rune_width s =
     (case s of
        [] \<Rightarrow> 0
      | [_] \<Rightarrow> 1
      | c # d # t \<Rightarrow>
          (let b = byte_of c in
           if 0xC2 \<le> b \<and> b \<le> 0xDF \<and> cont_byte d then 2
           else if 0xE0 \<le> b \<and> b \<le> 0xEF \<and> second_ok b d \<and> (case t of e # _ \<Rightarrow> cont_byte e | [] \<Rightarrow> False) then 3
           else if 0xF0 \<le> b \<and> b \<le> 0xF4 \<and> second_ok b d
                \<and> (case t of e # f # _ \<Rightarrow> cont_byte e \<and> cont_byte f | _ \<Rightarrow> False) then 4
           else 1))"

lemma rune_width_pos: "s \<noteq> [] \<Longrightarrow> 0 < rune_width s"
  by (auto simp: rune_width_def Let_def split: list.splits)

lemma rune_width_ascii: "byte_of c < 0x80 \<Longrightarrow> rune_width (c # s) = 1"
  by (auto simp: rune_width_def Let_def split: list.splits)

function runes :: "string \<Rightarrow> string list" where
  "runes [] = []"
| "runes (c # s) = take (rune_width (c # s)) (c # s) # runes (drop (rune_width (c # s)) (c # s))"
  by pat_completeness auto
termination
proof (relation "measure length")
  fix c :: char and s
  have "0 < rune_width (c # s)" by (rule rune_width_pos) simp
  then show "(drop (rune_width (c # s)) (c # s), c # s) \<in> measure length" by simp
qed simp

lemma runes_concat [simp]: "concat (runes s) = s"
  by (induction s rule: runes.induct) auto

definition is_ascii :: "string \<Rightarrow> bool" where
  "is_ascii s = list_all (\<lambda>c. byte_of c < 0x80) s"

lemma runes_ascii: "is_ascii s \<Longrightarrow> runes s = map (\<lambda>c. [c]) s"
  by (induction s) (auto simp: is_ascii_def rune_width_ascii)

text \<open>What \<open>WriteRune\<close> emits for a decoded rune: the encoding of U+FFFD for an invalid byte.\<close>

definition canon_rune :: "string \<Rightarrow> string" where
  "canon_rune r =
     (case r of [c] \<Rightarrow> if byte_of c < 0x80 then r else [CHR 0xEF, CHR 0xBF, CHR 0xBD] | _ \<Rightarrow> r)"

definition to_valid_runes :: "string \<Rightarrow> string" where
  "to_valid_runes s = concat (map canon_rune (runes s))"

lemma to_valid_runes_ascii: "is_ascii s \<Longrightarrow> to_valid_runes s = s"
  by (auto simp: to_valid_runes_def runes_ascii canon_rune_def is_ascii_def list_all_iff o_def
      intro!: map_idI cong: map_cong)

subsection \<open>Case\<close>

definition is_upper :: "char \<Rightarrow> bool" where
  "is_upper c = (CHR ''A'' \<le> c \<and> c \<le> CHR ''Z'')"

definition is_lower :: "char \<Rightarrow> bool" where
  "is_lower c = (CHR ''a'' \<le> c \<and> c \<le> CHR ''z'')"

definition is_digit :: "char \<Rightarrow> bool" where
  "is_digit c = (CHR ''0'' \<le> c \<and> c \<le> CHR ''9'')"

definition lower_char :: "char \<Rightarrow> char" where
  "lower_char c = (if is_upper c then char_of (byte_of c + 32) else c)"

definition upper_char :: "char \<Rightarrow> char" where
  "upper_char c = (if is_lower c then char_of (byte_of c - 32) else c)"

definition lower_rune :: "string \<Rightarrow> string" where
  "lower_rune r =
     (if r = [CHR 0xE2, CHR 0x84, CHR 0xAA] then ''k''
      else if r = [CHR 0xC4, CHR 0xB0] then ''i''
      else map lower_char (canon_rune r))"

definition upper_rune :: "string \<Rightarrow> string" where
  "upper_rune r =
     (if r = [CHR 0xC4, CHR 0xB1] then ''I''
      else if r = [CHR 0xC5, CHR 0xBF] then ''S''
      else map upper_char (canon_rune r))"

text \<open>The representative \<open>strings.EqualFold\<close> compares by: simple folding of the ASCII letters, the Kelvin sign
and the long s.\<close>

definition fold_rune :: "string \<Rightarrow> string" where
  "fold_rune r =
     (if r = [CHR 0xE2, CHR 0x84, CHR 0xAA] then ''k''
      else if r = [CHR 0xC5, CHR 0xBF] then ''s''
      else map lower_char (canon_rune r))"

definition to_lower :: "string \<Rightarrow> string" where
  "to_lower s = concat (map lower_rune (runes s))"

definition to_upper :: "string \<Rightarrow> string" where
  "to_upper s = concat (map upper_rune (runes s))"

definition equal_fold :: "string \<Rightarrow> string \<Rightarrow> bool" where
  "equal_fold s t = (map fold_rune (runes s) = map fold_rune (runes t))"

lemma to_lower_ascii: "is_ascii s \<Longrightarrow> to_lower s = map lower_char s"
proof (induction s)
  case Nil
  then show ?case by (simp add: to_lower_def)
next
  case (Cons c s)
  then show ?case
    by (auto simp: to_lower_def is_ascii_def rune_width_ascii lower_rune_def canon_rune_def)
qed

lemma lower_char_idem [simp]: "lower_char (lower_char c) = lower_char c"
proof (cases "is_upper c")
  case True
  then have "65 \<le> byte_of c" "byte_of c \<le> 90"
    by (auto simp: is_upper_def less_eq_char_def)
  then have "of_char (char_of (byte_of c + 32) :: char) = byte_of c + 32"
    by simp
  with True \<open>65 \<le> byte_of c\<close> show ?thesis
    by (auto simp: lower_char_def is_upper_def less_eq_char_def)
next
  case False
  then show ?thesis by (simp add: lower_char_def)
qed

lemma lower_char_ascii: "byte_of c < 0x80 \<Longrightarrow> byte_of (lower_char c) < 0x80"
  by (auto simp: lower_char_def is_upper_def less_eq_char_def)

end
