(* ===== verification/GoNumbers.thy ===== *)
theory GoNumbers
  imports GoUnicode
begin

text \<open>
  The part of the prelude that formats and reads numbers: \<open>strconv.Itoa\<close>, \<open>FormatInt\<close>, \<open>FormatBool\<close>,
  \<open>ParseInt\<close>, \<open>Atoi\<close> and \<open>Quote\<close>. Go's \<open>int\<close> is 64 bits wide on the platforms the program is built
  for; a number out of range is an error whose value is the nearest bound, as in Go.
\<close>

definition digit_char :: "nat \<Rightarrow> char" where
  "digit_char d = char_of (48 + d)"

definition digit_val :: "char \<Rightarrow> nat" where
  "digit_val c = byte_of c - 48"

fun nat_text :: "nat \<Rightarrow> string" where
  "nat_text n = (if n < 10 then [digit_char n] else nat_text (n div 10) @ [digit_char (n mod 10)])"

declare nat_text.simps [simp del]

definition itoa :: "int \<Rightarrow> string" where
  "itoa i = (if i < 0 then CHR ''-'' # nat_text (nat (- i)) else nat_text (nat i))"

definition format_bool :: "bool \<Rightarrow> string" where
  "format_bool b = (if b then ''true'' else ''false'')"

definition all_digits :: "string \<Rightarrow> bool" where
  "all_digits s = (s \<noteq> [] \<and> list_all is_digit s)"

definition digits_val :: "string \<Rightarrow> nat" where
  "digits_val s = foldl (\<lambda>n c. 10 * n + digit_val c) 0 s"

datatype num_error = ErrSyntax | ErrRange int

definition max_int64 :: int where "max_int64 = 9223372036854775807"
definition min_int64 :: int where "min_int64 = -9223372036854775808"

definition parse_int64 :: "string \<Rightarrow> num_error + int" where
  "parse_int64 s =
     (let neg = has_prefix s ''-'';
          body = (if neg \<or> has_prefix s ''+'' then tl s else s)
      in if \<not> all_digits body then Inl ErrSyntax
         else let n = int (digits_val body); v = (if neg then - n else n)
              in if v > max_int64 then Inl (ErrRange max_int64)
                 else if v < min_int64 then Inl (ErrRange min_int64)
                 else Inr v)"

text \<open>The value of \<open>n, _ := strconv.Atoi(s)\<close>, the error dropped.\<close>

definition atoi_value :: "string \<Rightarrow> int" where
  "atoi_value s = (case parse_int64 s of Inr v \<Rightarrow> v | Inl (ErrRange v) \<Rightarrow> v | Inl ErrSyntax \<Rightarrow> 0)"

lemma digit_char_digit: "d < 10 \<Longrightarrow> is_digit (digit_char d) \<and> digit_val (digit_char d) = d"
  by (auto simp: digit_char_def digit_val_def is_digit_def less_eq_char_def)

lemma digits_val_snoc: "digits_val (s @ [c]) = 10 * digits_val s + digit_val c"
  by (simp add: digits_val_def)

lemma nat_text_digits: "all_digits (nat_text n)"
proof (induction n rule: nat_text.induct)
  case (1 n)
  show ?case
  proof (cases "n < 10")
    case True
    then show ?thesis by (simp add: nat_text.simps[of n] all_digits_def digit_char_digit)
  next
    case False
    with 1 show ?thesis by (simp add: nat_text.simps[of n] all_digits_def digit_char_digit)
  qed
qed

lemma nat_text_val: "digits_val (nat_text n) = n"
proof (induction n rule: nat_text.induct)
  case (1 n)
  show ?case
  proof (cases "n < 10")
    case True
    then show ?thesis
      by (simp add: nat_text.simps[of n] digits_val_def digit_char_digit)
  next
    case False
    with 1 show ?thesis
      by (simp add: nat_text.simps[of n] digits_val_snoc digit_char_digit)
  qed
qed

lemma all_digits_no_sign: "all_digits s \<Longrightarrow> \<not> has_prefix s ''-'' \<and> \<not> has_prefix s ''+''"
  by (cases s) (auto simp: all_digits_def is_digit_def less_eq_char_def)

lemma parse_int64_digits:
  "all_digits s \<Longrightarrow> parse_int64 s =
     (if int (digits_val s) > max_int64 then Inl (ErrRange max_int64) else Inr (int (digits_val s)))"
  using all_digits_no_sign[of s] by (simp add: parse_int64_def Let_def min_int64_def)

lemma parse_itoa: "min_int64 \<le> i \<Longrightarrow> i \<le> max_int64 \<Longrightarrow> parse_int64 (itoa i) = Inr i"
proof (cases "i < 0")
  case True
  assume "min_int64 \<le> i" "i \<le> max_int64"
  with True show ?thesis
    using nat_text_digits[of "nat (- i)"] nat_text_val[of "nat (- i)"]
    by (simp add: itoa_def parse_int64_def Let_def has_prefix_def max_int64_def)
next
  case False
  assume "min_int64 \<le> i" "i \<le> max_int64"
  with False show ?thesis
    using nat_text_digits[of "nat i"] nat_text_val[of "nat i"]
    by (simp add: itoa_def parse_int64_digits)
qed

lemma parse_int64_range: "parse_int64 s = Inr v \<Longrightarrow> min_int64 \<le> v \<and> v \<le> max_int64"
  by (auto simp: parse_int64_def Let_def split: if_splits)

lemma itoa_words: "\<forall>c \<in> set (itoa i). word_char c"
proof -
  have "word_char c" if "is_digit c \<or> c = CHR ''-''" for c
    using that by (auto simp: word_char_def is_digit_def less_eq_char_def)
  moreover have "\<forall>c \<in> set (nat_text n). is_digit c" for n
    using nat_text_digits[of n] by (simp add: all_digits_def list_all_iff)
  ultimately show ?thesis by (auto simp: itoa_def)
qed

lemma trim_space_itoa [simp]: "trim_space (itoa i) = itoa i"
  by (rule trim_space_words[OF itoa_words])

subsection \<open>strconv.Quote\<close>

definition hex_digit :: "nat \<Rightarrow> char" where
  "hex_digit n = (if n < 10 then char_of (48 + n) else char_of (87 + n))"

definition hex2 :: "char \<Rightarrow> string" where
  "hex2 c = [hex_digit (byte_of c div 16), hex_digit (byte_of c mod 16)]"

definition quote_byte :: "char \<Rightarrow> string" where
  "quote_byte c =
     (if c = CHR 0x22 then [CHR 0x5C, CHR 0x22]
      else if c = CHR 0x5C then [CHR 0x5C, CHR 0x5C]
      else if c = CHR 0x07 then [CHR 0x5C, CHR ''a'']
      else if c = CHR 0x08 then [CHR 0x5C, CHR ''b'']
      else if c = CHR 0x0C then [CHR 0x5C, CHR ''f'']
      else if c = CHR 0x0A then [CHR 0x5C, CHR ''n'']
      else if c = CHR 0x0D then [CHR 0x5C, CHR ''r'']
      else if c = CHR 0x09 then [CHR 0x5C, CHR ''t'']
      else if c = CHR 0x0B then [CHR 0x5C, CHR ''v'']
      else if byte_of c < 0x20 \<or> 0x7F \<le> byte_of c then [CHR 0x5C, CHR ''x''] @ hex2 c
      else [c])"

definition quote_rune :: "string \<Rightarrow> string" where
  "quote_rune r = (case r of [c] \<Rightarrow> quote_byte c | _ \<Rightarrow> r)"

definition go_quote :: "string \<Rightarrow> string" where
  "go_quote s = [CHR 0x22] @ concat (map quote_rune (runes s)) @ [CHR 0x22]"

end
