(* ===== verification/GoUrl.thy ===== *)
theory GoUrl
  imports GoNumbers
begin

text \<open>
  \<open>net/url\<close> as far as the program uses it: \<open>Parse\<close>, \<open>URL.Hostname\<close>, \<open>URL.String\<close> and \<open>PathUnescape\<close>, for the
  Go release the module names (1.26, which rejects a second colon in a host). An IP literal in brackets is
  accepted when it consists of hexadecimal digits, colons and dots; the finer checks of \<open>netip.ParseAddr\<close> and zones
  are left out.
\<close>

record url =
  u_scheme :: string
  u_opaque :: string
  u_user :: "(string \<times> string option) option"
  u_host :: string
  u_path :: string
  u_raw_path :: string
  u_omit_host :: bool
  u_force_query :: bool
  u_raw_query :: string
  u_fragment :: string
  u_raw_fragment :: string

definition empty_url :: url where
  "empty_url = \<lparr>u_scheme = [], u_opaque = [], u_user = None, u_host = [], u_path = [], u_raw_path = [], u_omit_host = False,
                u_force_query = False, u_raw_query = [], u_fragment = [], u_raw_fragment = []\<rparr>"

definition is_alpha :: "char \<Rightarrow> bool" where
  "is_alpha c = (is_upper c \<or> is_lower c)"

definition is_hex :: "char \<Rightarrow> bool" where
  "is_hex c = (is_digit c \<or> (CHR ''a'' \<le> c \<and> c \<le> CHR ''f'') \<or> (CHR ''A'' \<le> c \<and> c \<le> CHR ''F''))"

definition unhex :: "char \<Rightarrow> nat" where
  "unhex c = (if is_digit c then byte_of c - 48
              else if CHR ''a'' \<le> c then byte_of c - 87 else byte_of c - 55)"

text \<open>\<open>unescape\<close> outside the query: percent decoding, an error for a malformed escape.\<close>

fun unescape :: "string \<Rightarrow> string option" where
  "unescape [] = Some []"
| "unescape (c # s) =
     (if c = CHR ''%''
      then (case s of
              a # b # t \<Rightarrow> if is_hex a \<and> is_hex b
                            then map_option (Cons (char_of (16 * unhex a + unhex b))) (unescape t)
                            else None
            | _ \<Rightarrow> None)
      else map_option (Cons c) (unescape s))"

definition host_char_ok :: "char \<Rightarrow> bool" where
  "host_char_ok c =
     (is_alpha c \<or> is_digit c \<or> 0x80 \<le> byte_of c \<or>
      c \<in> set ''-_.~!$&()*+,;=:[]<>'' \<or> c = CHR 0x27 \<or> c = CHR 0x22)"

text \<open>\<open>unescape\<close> for a host: only non-ASCII bytes and the percent sign itself may be escaped.\<close>

fun unescape_host :: "string \<Rightarrow> string option" where
  "unescape_host [] = Some []"
| "unescape_host (c # s) =
     (if c = CHR ''%''
      then (case s of
              a # b # t \<Rightarrow> if is_hex a \<and> is_hex b \<and> (8 \<le> unhex a \<or> (a = CHR ''2'' \<and> b = CHR ''5''))
                            then map_option (Cons (char_of (16 * unhex a + unhex b))) (unescape_host t)
                            else None
            | _ \<Rightarrow> None)
      else if host_char_ok c then map_option (Cons c) (unescape_host s)
      else None)"

definition PathUnescape :: "string \<Rightarrow> string option" where
  "PathUnescape s = unescape s"

fun get_scheme :: "string \<Rightarrow> string \<Rightarrow> (string \<times> string) option" where
  "get_scheme acc [] = Some ([], rev acc)"
| "get_scheme acc (c # s) =
     (if is_alpha c then get_scheme (c # acc) s
      else if is_digit c \<or> c \<in> set ''+-.''
        then (if acc = [] then Some ([], c # s) else get_scheme (c # acc) s)
      else if c = CHR '':'' then (if acc = [] then None else Some (rev acc, s))
      else Some ([], rev acc @ c # s))"

definition valid_optional_port :: "string \<Rightarrow> bool" where
  "valid_optional_port p = (case p of [] \<Rightarrow> True | c # t \<Rightarrow> c = CHR '':'' \<and> list_all is_digit t)"

definition valid_userinfo :: "string \<Rightarrow> bool" where
  "valid_userinfo s =
     list_all (\<lambda>c. is_alpha c \<or> is_digit c \<or> c \<in> set ''-._:~!$&()*+,;=%@'' \<or> c = CHR 0x27) s"

definition ip_literal_ok :: "string \<Rightarrow> bool" where
  "ip_literal_ok s = (s \<noteq> [] \<and> list_all (\<lambda>c. is_hex c \<or> c = CHR '':'' \<or> c = CHR ''.'') s)"

definition parse_host :: "string \<Rightarrow> string option" where
  "parse_host host =
     (if has_prefix host ''[''
      then (let (lit, port, found) = cut_char (CHR '']'') (tl host)
            in if found \<and> ip_literal_ok lit \<and> valid_optional_port port then Some host else None)
      else if CHR '':'' \<in> set host
      then (if valid_optional_port (dropWhile (\<lambda>c. c \<noteq> CHR '':'') host) then unescape_host host else None)
      else unescape_host host)"

definition parse_authority :: "string \<Rightarrow> ((string \<times> string option) option \<times> string) option" where
  "parse_authority auth =
     (if CHR ''@'' \<notin> set auth then map_option (\<lambda>h. (None, h)) (parse_host auth)
      else let hostpart = after_last_char (CHR ''@'') auth;
               userinfo = take (length auth - length hostpart - 1) auth
           in case parse_host hostpart of
                None \<Rightarrow> None
              | Some h \<Rightarrow>
                  if \<not> valid_userinfo userinfo then None
                  else (let (name, pass, haspass) = cut_char (CHR '':'') userinfo
                        in case unescape name of
                             None \<Rightarrow> None
                           | Some n \<Rightarrow>
                               if \<not> haspass then Some (Some (n, None), h)
                               else map_option (\<lambda>p. (Some (n, Some p), h)) (unescape pass)))"

definition has_ctl_byte :: "string \<Rightarrow> bool" where
  "has_ctl_byte s = list_ex (\<lambda>c. byte_of c < 0x20 \<or> byte_of c = 0x7F) s"

definition split_query :: "string \<Rightarrow> string \<times> bool \<times> string" where
  "split_query rest =
     (let (a, b, found) = cut_char (CHR ''?'') rest
      in if found \<and> b = [] then (a, True, []) else (a, False, b))"

definition set_path :: "url \<Rightarrow> string \<Rightarrow> url option" where
  "set_path u p = map_option (\<lambda>q. u\<lparr>u_path := q, u_raw_path := p\<rparr>) (unescape p)"

definition parse_nofrag :: "string \<Rightarrow> url option" where
  "parse_nofrag raw =
     (if has_ctl_byte raw then None
      else if raw = ''*'' then Some (empty_url\<lparr>u_path := ''*'', u_raw_path := ''*''\<rparr>)
      else case get_scheme [] raw of
        None \<Rightarrow> None
      | Some (sch, rest0) \<Rightarrow>
          (let (rest, force, query) = split_query rest0;
               u = empty_url\<lparr>u_scheme := to_lower sch, u_force_query := force, u_raw_query := query\<rparr>
           in if \<not> has_prefix rest ''/'' \<and> u_scheme u \<noteq> [] then Some (u\<lparr>u_opaque := rest\<rparr>)
              else if \<not> has_prefix rest ''/'' \<and> CHR '':'' \<in> set (takeWhile (\<lambda>c. c \<noteq> CHR ''/'') rest) then None
              else if (u_scheme u \<noteq> [] \<or> \<not> has_prefix rest ''///'') \<and> has_prefix rest ''//''
              then (let body = drop 2 rest;
                        auth = takeWhile (\<lambda>c. c \<noteq> CHR ''/'') body;
                        path = dropWhile (\<lambda>c. c \<noteq> CHR ''/'') body
                    in case parse_authority auth of
                         None \<Rightarrow> None
                       | Some (user, host) \<Rightarrow> set_path (u\<lparr>u_user := user, u_host := host\<rparr>) path)
              else set_path (u\<lparr>u_omit_host := u_scheme u \<noteq> [] \<and> has_prefix rest ''/''\<rparr>) rest))"

definition url_parse :: "string \<Rightarrow> url option" where
  "url_parse raw =
     (let (body, frag, found) = cut_char (CHR ''#'') raw
      in case parse_nofrag body of
           None \<Rightarrow> None
         | Some u \<Rightarrow> if frag = [] then Some u else map_option (\<lambda>f. u\<lparr>u_fragment := f, u_raw_fragment := frag\<rparr>) (unescape frag))"

definition url_hostname :: "url \<Rightarrow> string" where
  "url_hostname u =
     (let h = u_host u;
          port = after_last_char (CHR '':'') h;
          h' = (if CHR '':'' \<in> set h \<and> list_all is_digit port
                then take (length h - length port - 1) h else h)
      in if has_prefix h' ''['' \<and> has_suffix h' '']'' then butlast (tl h') else h')"

subsection \<open>URL.String\<close>

datatype url_part = UrlPath | UrlHost | UrlUser | UrlFragment

definition should_escape :: "url_part \<Rightarrow> char \<Rightarrow> bool" where
  "should_escape part c =
     (if is_alpha c \<or> is_digit c then False
      else if part = UrlHost \<and> (c \<in> set ''!$&()*+,;=:[]<>'' \<or> c = CHR 0x27 \<or> c = CHR 0x22) then False
      else if c \<in> set ''-_.~'' then False
      else if c \<in> set ''$&+,/:;=?@'' then
        (case part of UrlPath \<Rightarrow> c = CHR ''?'' | UrlUser \<Rightarrow> c \<in> set ''@/?:'' | UrlFragment \<Rightarrow> False | UrlHost \<Rightarrow> True)
      else if part = UrlFragment \<and> c \<in> set ''!()*'' then False
      else True)"

definition upper_hex :: "nat \<Rightarrow> char" where
  "upper_hex n = (if n < 10 then char_of (48 + n) else char_of (55 + n))"

definition escape_part :: "url_part \<Rightarrow> string \<Rightarrow> string" where
  "escape_part part s =
     concat (map (\<lambda>c. if should_escape part c then [CHR ''%'', upper_hex (byte_of c div 16), upper_hex (byte_of c mod 16)]
                      else [c]) s)"

definition valid_encoded :: "url_part \<Rightarrow> string \<Rightarrow> bool" where
  "valid_encoded part s =
     list_all (\<lambda>c. c \<in> set ''!$&()*+,;=:@[]%'' \<or> c = CHR 0x27 \<or> \<not> should_escape part c) s"

text \<open>The path as it was written when that is a valid encoding, else the decoded path escaped afresh.\<close>

definition escaped_path :: "url \<Rightarrow> string" where
  "escaped_path u =
     (if valid_encoded UrlPath (u_raw_path u) then u_raw_path u
      else if u_path u = ''*'' then ''*'' else escape_part UrlPath (u_path u))"

definition escaped_fragment :: "url \<Rightarrow> string" where
  "escaped_fragment u =
     (if valid_encoded UrlFragment (u_raw_fragment u) then u_raw_fragment u else escape_part UrlFragment (u_fragment u))"

definition userinfo_string :: "string \<times> string option \<Rightarrow> string" where
  "userinfo_string ui =
     (case ui of (name, pass) \<Rightarrow> escape_part UrlUser name @
        (case pass of None \<Rightarrow> [] | Some p \<Rightarrow> CHR '':'' # escape_part UrlUser p))"

definition url_authority :: "url \<Rightarrow> string" where
  "url_authority u =
     (if u_scheme u = [] \<and> u_host u = [] \<and> u_user u = None then []
      else if u_omit_host u \<and> u_host u = [] \<and> u_user u = None then []
      else (if u_host u \<noteq> [] \<or> u_path u \<noteq> [] \<or> u_user u \<noteq> None then ''//'' else []) @
           (case u_user u of None \<Rightarrow> [] | Some ui \<Rightarrow> userinfo_string ui @ ''@'') @ escape_part UrlHost (u_host u))"

definition url_string :: "url \<Rightarrow> string" where
  "url_string u =
     (let sch = (if u_scheme u \<noteq> [] then u_scheme u @ '':'' else []);
          body = (if u_opaque u \<noteq> [] then u_opaque u
                  else let auth = url_authority u; path = escaped_path u;
                           slash = (if path \<noteq> [] \<and> hd path \<noteq> CHR ''/'' \<and> u_host u \<noteq> [] then ''/'' else []);
                           dot = (if sch @ auth @ slash = [] \<and> CHR '':'' \<in> set (takeWhile (\<lambda>c. c \<noteq> CHR ''/'') path)
                                  then ''./'' else [])
                       in auth @ slash @ dot @ path)
      in sch @ body @ (if u_force_query u \<or> u_raw_query u \<noteq> [] then CHR ''?'' # u_raw_query u else []) @
         (if u_fragment u \<noteq> [] then CHR ''#'' # escaped_fragment u else []))"

end
