(* ===== verification/GoPath.thy ===== *)
theory GoPath
  imports GoStrings
begin

text \<open>
  \<open>path.Clean\<close>, on the segments of a slash-separated path, and a reference semantics of path resolution:
  \<open>walk\<close> follows the segments of a path from a directory given as a stack of names and fails when a
  \<open>..\<close> would leave the directory it started from. The safety properties of the path validators are stated
  against \<open>walk\<close>.
\<close>

definition path_segments :: "string \<Rightarrow> string list" where
  "path_segments p = filter (\<lambda>s. s \<noteq> [] \<and> s \<noteq> ''.'') (split_char (CHR ''/'') p)"

text \<open>One segment on the stack of the segments kept so far: a \<open>..\<close> removes the last kept name;
with nothing to remove it is dropped in a rooted path and kept in a relative one.\<close>

definition clean_step :: "bool \<Rightarrow> string list \<Rightarrow> string \<Rightarrow> string list" where
  "clean_step rooted stack s =
     (if s = ''..''
      then (if stack \<noteq> [] \<and> last stack \<noteq> ''..'' then butlast stack
            else if rooted then stack else stack @ [s])
      else stack @ [s])"

definition clean_segments :: "bool \<Rightarrow> string list \<Rightarrow> string list" where
  "clean_segments rooted segs = foldl (clean_step rooted) [] segs"

definition path_is_abs :: "string \<Rightarrow> bool" where
  "path_is_abs p = has_prefix p ''/''"

definition path_clean :: "string \<Rightarrow> string" where
  "path_clean p =
     (let rooted = path_is_abs p;
          body = join_str ''/'' (clean_segments rooted (path_segments p))
      in if p = [] then ''.''
         else if rooted then CHR ''/'' # body
         else if body = [] then ''.''
         else body)"

text \<open>Whether some segment is \<open>..\<close>.\<close>

definition has_parent_segment :: "string \<Rightarrow> bool" where
  "has_parent_segment p = list_ex (\<lambda>s. s = ''..'') (split_char (CHR ''/'') p)"

fun walk :: "string list \<Rightarrow> string list \<Rightarrow> string list option" where
  "walk dir [] = Some dir"
| "walk dir (s # segs) =
     (if s = [] \<or> s = ''.'' then walk dir segs
      else if s = ''..'' then (if dir = [] then None else walk (butlast dir) segs)
      else walk (dir @ [s]) segs)"

lemma walk_app: "walk dir (xs @ ys) = (case walk dir xs of None \<Rightarrow> None | Some d \<Rightarrow> walk d ys)"
  by (induction dir xs rule: walk.induct) auto

lemma walk_no_parent: "''..'' \<notin> set segs \<Longrightarrow>
    walk dir segs = Some (dir @ filter (\<lambda>s. s \<noteq> [] \<and> s \<noteq> ''.'') segs)"
  by (induction dir segs rule: walk.induct) auto

lemma clean_segments_no_parent:
  "''..'' \<notin> set segs \<Longrightarrow> clean_segments rooted segs = segs"
proof -
  have "''..'' \<notin> set segs \<Longrightarrow> foldl (clean_step rooted) st segs = st @ segs" for st
    by (induction segs arbitrary: st) (auto simp: clean_step_def)
  then show "''..'' \<notin> set segs \<Longrightarrow> ?thesis" by (simp add: clean_segments_def)
qed

lemma has_parent_segment_iff: "has_parent_segment p \<longleftrightarrow> ''..'' \<in> set (split_char (CHR ''/'') p)"
  by (auto simp: has_parent_segment_def list_ex_iff)

lemma path_clean_abs_no_parent:
  assumes "path_is_abs p" and "\<not> has_parent_segment p"
  shows "path_clean p = CHR ''/'' # join_str ''/'' (path_segments p)"
proof -
  have "''..'' \<notin> set (path_segments p)"
    using assms(2) by (simp add: has_parent_segment_iff path_segments_def)
  moreover have "p \<noteq> []" using assms(1) by (auto simp: path_is_abs_def)
  ultimately show ?thesis
    using assms(1) by (simp add: path_clean_def Let_def clean_segments_no_parent)
qed

lemma path_clean_rel_no_parent:
  assumes "\<not> path_is_abs p" and "\<not> has_parent_segment p"
  shows "path_clean p = (if path_segments p = [] then ''.'' else join_str ''/'' (path_segments p))"
proof -
  have nd: "''..'' \<notin> set (path_segments p)"
    using assms(2) by (simp add: has_parent_segment_iff path_segments_def)
  have "join_str ''/'' (path_segments p) \<noteq> []" if "path_segments p \<noteq> []"
  proof -
    from that obtain x xs where xs: "path_segments p = x # xs" by (auto simp: neq_Nil_conv)
    then have "x \<in> set (path_segments p)" by simp
    then have "x \<noteq> []" by (simp add: path_segments_def)
    with xs show ?thesis by (cases xs) auto
  qed
  then show ?thesis
    using assms(1) nd by (auto simp: path_clean_def Let_def clean_segments_no_parent path_segments_def)
qed

end
