(* ===== verification/OptFibe.thy ===== *)
theory OptFibe
  imports GoUrl GoPath
begin

text \<open>
  \<open>internal/optfibe\<close>: the layout of \<open>/opt/fibe\<close>, the guard on checkout paths that come from outside, and the
  path a source checkout is placed at. The lemmas show that a path component made from user input can never be a
  traversal, and that every generated checkout path passes the guard.
\<close>

subsection \<open>Layout (layout.go)\<close>

definition BuildsPath :: string where "BuildsPath = ''/opt/fibe/builds''"
definition PlaygroundsPath :: string where "PlaygroundsPath = ''/opt/fibe/playgrounds''"
definition TraefikPath :: string where "TraefikPath = ''/opt/fibe/traefik''"

definition RuntimePrerequisiteDirs :: "string list" where
  "RuntimePrerequisiteDirs = [PlaygroundsPath, TraefikPath, BuildsPath]"

definition PlaygroundPath :: "string \<Rightarrow> string" where
  "PlaygroundPath project = PlaygroundsPath @ ''/'' @ trim_space project"

definition DockerConfigDir :: "string \<Rightarrow> string" where
  "DockerConfigDir project = PlaygroundPath project @ ''/docker-config''"

definition TraefikDockerConfigDir :: string where
  "TraefikDockerConfigDir = TraefikPath @ ''/docker-config''"

definition TraefikACMEPath :: string where
  "TraefikACMEPath = TraefikPath @ ''/acme.json''"

definition ValidRemoteCheckoutPath :: "string \<Rightarrow> string \<Rightarrow> bool" where
  "ValidRemoteCheckoutPath raw0 playgroundBase =
     (let raw = trim_space raw0
      in if raw = [] \<or> CHR 0x00 \<in> set raw \<or> \<not> path_is_abs raw then False
         else if has_parent_segment raw then False
         else let clean = path_clean raw;
                  checkoutRoot = trim_right_set ''/'' playgroundBase @ ''/props/''
              in has_prefix clean checkoutRoot \<and> clean \<noteq> trim_suffix checkoutRoot ''/'')"

subsection \<open>Source paths (source\_paths.go)\<close>

definition component_char :: "char \<Rightarrow> bool" where
  "component_char c = (is_lower c \<or> is_digit c \<or> c = CHR ''_'' \<or> c = CHR ''.'')"

text \<open>Replacing each maximal run of bytes outside a class by one dash.\<close>

fun squeeze :: "(char \<Rightarrow> bool) \<Rightarrow> bool \<Rightarrow> string \<Rightarrow> string" where
  "squeeze ok inrun [] = []"
| "squeeze ok inrun (c # s) =
     (if ok c then c # squeeze ok False s
      else if inrun then squeeze ok True s
      else CHR ''-'' # squeeze ok True s)"

definition safePathComponent :: "string \<Rightarrow> string" where
  "safePathComponent raw =
     (let out = trim_set ''-.'' (squeeze component_char False (to_lower (trim_space raw)))
      in if out = [] then ''source'' else out)"

definition pathParts :: "string \<Rightarrow> string list" where
  "pathParts p =
     filter (\<lambda>s. s \<noteq> []) (map (\<lambda>s. trim_space (trim_suffix s ''.git'')) (split_char (CHR ''/'') (trim_set ''/'' p)))"

definition pathPartsSlug :: "string list \<Rightarrow> string \<Rightarrow> string" where
  "pathPartsSlug parts fallback =
     (if 2 \<le> length parts
      then safePathComponent (parts ! (length parts - 2) @ ''-'' @ parts ! (length parts - 1))
      else if length parts = 1 then safePathComponent (parts ! 0)
      else safePathComponent fallback)"

definition urlRepoPathSlug :: "string \<Rightarrow> string option" where
  "urlRepoPathSlug raw =
     (case url_parse raw of
        None \<Rightarrow> None
      | Some u \<Rightarrow> if u_host u = [] then None else Some (pathPartsSlug (pathParts (u_path u)) (u_host u)))"

definition repoSlugInput :: "string \<Rightarrow> string" where
  "repoSlugInput raw = trim_suffix (trim_right_set ''/'' (trim_space raw)) ''.git''"

definition pathSlugFromRepoURL :: "string \<Rightarrow> string" where
  "pathSlugFromRepoURL raw0 =
     (let raw = repoSlugInput raw0
      in if raw = [] then ''source''
         else case urlRepoPathSlug raw of
                Some slug \<Rightarrow> slug
              | None \<Rightarrow>
                  pathPartsSlug (pathParts (map (\<lambda>c. if c = CHR '':'' then CHR ''/'' else c)
                    (trim_prefix raw ''git@''))) raw)"

definition SourceCheckoutParentPath :: "string \<Rightarrow> string \<Rightarrow> string" where
  "SourceCheckoutParentPath project repoURL = PlaygroundPath project @ ''/props/'' @ pathSlugFromRepoURL repoURL"

definition defaultSourceBranch :: string where "defaultSourceBranch = ''main''"

definition SourceCheckoutPath :: "string \<Rightarrow> string \<Rightarrow> string \<Rightarrow> string" where
  "SourceCheckoutPath project repoURL branch =
     SourceCheckoutParentPath project repoURL @ ''/'' @
     safePathComponent (if branch = [] then defaultSourceBranch else branch)"

subsection \<open>A component is never a traversal\<close>

definition safe_component :: "string \<Rightarrow> bool" where
  "safe_component s =
     (s \<noteq> [] \<and> (\<forall>c \<in> set s. component_char c \<or> c = CHR ''-'') \<and>
      hd s \<notin> set ''-.'' \<and> last s \<notin> set ''-.'')"

lemma squeeze_chars: "c \<in> set (squeeze ok b s) \<Longrightarrow> ok c \<or> c = CHR ''-''"
  by (induction ok b s rule: squeeze.induct) (auto split: if_splits)

lemma safePathComponent_safe: "safe_component (safePathComponent raw)"
proof -
  let ?q = "squeeze component_char False (to_lower (trim_space raw))"
  let ?out = "trim_set ''-.'' ?q"
  show ?thesis
  proof (cases "?out = []")
    case True
    then show ?thesis
      by (simp add: safePathComponent_def safe_component_def component_char_def is_lower_def less_eq_char_def)
  next
    case False
    have "\<forall>c \<in> set ?out. component_char c \<or> c = CHR ''-''"
      using trim_set_chars[of "''-.''" ?q] squeeze_chars by blast
    with False trim_set_ends[OF False] show ?thesis
      by (simp add: safePathComponent_def safe_component_def Let_def)
  qed
qed

lemma component_char_plain:
  "component_char c \<or> c = CHR ''-'' \<Longrightarrow> word_char c \<and> c \<noteq> CHR ''/'' \<and> c \<noteq> CHR 0x00"
  by (auto simp: component_char_def word_char_def is_lower_def is_digit_def less_eq_char_def)

lemma safe_component_no_slash: "safe_component s \<Longrightarrow> CHR ''/'' \<notin> set s"
  using component_char_plain by (fastforce simp: safe_component_def)

lemma safe_component_no_nul: "safe_component s \<Longrightarrow> CHR 0x00 \<notin> set s"
  using component_char_plain by (fastforce simp: safe_component_def)

lemma safe_component_not_dots: "safe_component s \<Longrightarrow> s \<noteq> [] \<and> s \<noteq> ''.'' \<and> s \<noteq> ''..''"
  by (auto simp: safe_component_def)

lemma safe_component_last_solid: "safe_component s \<Longrightarrow> solid (last s)"
  using component_char_plain word_char_solid last_in_set[of s] unfolding safe_component_def by blast

definition no_traversal :: "string \<Rightarrow> bool" where
  "no_traversal s =
     (s \<noteq> [] \<and> s \<noteq> ''.'' \<and> s \<noteq> ''..'' \<and> CHR ''/'' \<notin> set s \<and> CHR 0x00 \<notin> set s \<and>
      hd s \<notin> set ''-.'' \<and> last s \<notin> set ''-.'')"

lemma pathSlugFromRepoURL_safe: "safe_component (pathSlugFromRepoURL raw)"
proof -
  have p: "safe_component (pathPartsSlug parts f)" for parts f
    by (simp add: pathPartsSlug_def safePathComponent_safe)
  have "safe_component ''source''"
    by (simp add: safe_component_def component_char_def is_lower_def less_eq_char_def)
  then show ?thesis
    by (auto simp: pathSlugFromRepoURL_def urlRepoPathSlug_def Let_def p split: option.splits)
qed

subsection \<open>Generated checkout paths pass the guard\<close>

definition plain_project :: "string \<Rightarrow> bool" where
  "plain_project project =
     (let p = trim_space project
      in p \<noteq> [] \<and> CHR ''/'' \<notin> set p \<and> CHR 0x00 \<notin> set p \<and> p \<noteq> ''.'' \<and> p \<noteq> ''..'')"

lemma path_of_segments:
  assumes "segs \<noteq> []" and "\<And>s. s \<in> set segs \<Longrightarrow> s \<noteq> [] \<and> s \<noteq> ''.'' \<and> s \<noteq> ''..'' \<and> CHR ''/'' \<notin> set s"
  shows "\<not> has_parent_segment (CHR ''/'' # join_str ''/'' segs)"
    and "path_clean (CHR ''/'' # join_str ''/'' segs) = CHR ''/'' # join_str ''/'' segs"
proof -
  let ?p = "CHR ''/'' # join_str ''/'' segs"
  have sp: "split_char (CHR ''/'') ?p = [] # segs"
    using assms split_join[of segs] by auto
  then show np: "\<not> has_parent_segment ?p"
    using assms(2) by (auto simp: has_parent_segment_iff)
  have "path_segments ?p = segs"
    using assms(2) sp unfolding path_segments_def by (auto intro!: filter_True)
  then show "path_clean ?p = ?p"
    using path_clean_abs_no_parent[OF _ np] by (simp add: path_is_abs_def)
qed

lemma path_segments_last: "path_segments s \<noteq> [] \<Longrightarrow> last (CHR ''/'' # join_str ''/'' (path_segments s)) \<noteq> CHR ''/''"
proof -
  assume ne: "path_segments s \<noteq> []"
  have seg: "\<forall>x \<in> set (path_segments s). x \<noteq> [] \<and> CHR ''/'' \<notin> set x"
    unfolding path_segments_def using split_char_parts by auto
  have "xs \<noteq> [] \<Longrightarrow> \<forall>x \<in> set xs. x \<noteq> [] \<and> CHR ''/'' \<notin> set x \<Longrightarrow>
      join_str ''/'' xs \<noteq> [] \<and> last (join_str ''/'' xs) \<noteq> CHR ''/''" for xs
    by (induction xs rule: induct_list012) (auto dest: last_in_set)
  from this[OF ne seg] show ?thesis by simp
qed

lemma SourceCheckoutPath_segments:
  "SourceCheckoutPath project repoURL branch =
     CHR ''/'' # join_str ''/'' [''opt'', ''fibe'', ''playgrounds'', trim_space project, ''props'',
       pathSlugFromRepoURL repoURL, safePathComponent (if branch = [] then defaultSourceBranch else branch)]"
  by (simp add: SourceCheckoutPath_def SourceCheckoutParentPath_def PlaygroundPath_def PlaygroundsPath_def)

lemma trim_right_slash_id: "s \<noteq> [] \<Longrightarrow> last s \<noteq> CHR ''/'' \<Longrightarrow> trim_right_set ''/'' s = s"
  by (rule trim_right_set_id) simp_all

lemma ValidRemoteCheckoutPath_generated:
  assumes "plain_project project"
  shows "ValidRemoteCheckoutPath (SourceCheckoutPath project repoURL branch) (PlaygroundPath project)"
proof -
  let ?br = "safePathComponent (if branch = [] then defaultSourceBranch else branch)"
  let ?sl = "pathSlugFromRepoURL repoURL"
  let ?segs = "[''opt'', ''fibe'', ''playgrounds'', trim_space project, ''props'', ?sl, ?br]"
  let ?p = "SourceCheckoutPath project repoURL branch"
  let ?root = "PlaygroundPath project @ ''/props/''"
  have sb: "safe_component ?br" and ss: "safe_component ?sl"
    by (rule safePathComponent_safe, rule pathSlugFromRepoURL_safe)
  note plain = assms[unfolded plain_project_def Let_def]
  have p: "?p = CHR ''/'' # join_str ''/'' ?segs" by (rule SourceCheckoutPath_segments)
  have segs: "s \<noteq> [] \<and> s \<noteq> ''.'' \<and> s \<noteq> ''..'' \<and> CHR ''/'' \<notin> set s" if "s \<in> set ?segs" for s
    using that plain safe_component_not_dots[OF sb] safe_component_not_dots[OF ss]
      safe_component_no_slash[OF sb] safe_component_no_slash[OF ss] by auto
  have ends: "hd ?p = CHR ''/''" "last ?p = last ?br" "?p \<noteq> []"
    using safe_component_not_dots[OF sb] p
    by (simp, simp add: SourceCheckoutPath_def, simp)
  have "solid (CHR ''/'')" by (simp add: solid_def space_seqs_def)
  then have trim: "trim_space ?p = ?p"
    using ends safe_component_last_solid[OF sb] by (auto intro: trim_space_solid_ends)
  have nul: "CHR 0x00 \<notin> set ?p"
    using plain safe_component_no_nul[OF sb] safe_component_no_nul[OF ss]
    by (auto simp: SourceCheckoutPath_def SourceCheckoutParentPath_def PlaygroundPath_def PlaygroundsPath_def)
  have np: "\<not> has_parent_segment ?p" and clean: "path_clean ?p = ?p"
    unfolding p using path_of_segments[of ?segs] segs by blast+
  have "last (PlaygroundPath project) \<noteq> CHR ''/''"
    using plain last_in_set[of "trim_space project"]
    by (metis PlaygroundPath_def append_assoc last_appendR)
  then have root: "trim_right_set ''/'' (PlaygroundPath project) = PlaygroundPath project"
    by (simp add: trim_right_slash_id PlaygroundPath_def)
  have strip: "trim_suffix ?root ''/'' = PlaygroundPath project @ ''/props''"
    using trim_suffix_append[of "PlaygroundPath project @ ''/props''" "''/''"] by simp
  have pre: "?p = ?root @ ?sl @ ''/'' @ ?br"
    by (simp add: SourceCheckoutPath_def SourceCheckoutParentPath_def)
  then have "has_prefix ?p ?root" by (metis has_prefix_append append_assoc)
  moreover have "?p \<noteq> PlaygroundPath project @ ''/props''" using pre by simp
  moreover have "path_is_abs ?p" unfolding p by (simp add: path_is_abs_def)
  ultimately show ?thesis
    using trim nul np clean root strip ends(3)
    unfolding ValidRemoteCheckoutPath_def Let_def by simp
qed

text \<open>What the guard accepts stays strictly below the checkout root, followed segment by segment.\<close>

lemma ValidRemoteCheckoutPath_below:
  assumes "ValidRemoteCheckoutPath raw base"
  obtains rest where "path_clean (trim_space raw) = trim_right_set ''/'' base @ ''/props/'' @ rest" and "rest \<noteq> []"
    and "walk [] (split_char (CHR ''/'') (trim_space raw)) = Some (path_segments (trim_space raw))"
proof -
  let ?raw = "trim_space raw" and ?root = "trim_right_set ''/'' base @ ''/props/''"
  from assms have np: "\<not> has_parent_segment ?raw" and pre: "has_prefix (path_clean ?raw) ?root"
    by (auto simp: ValidRemoteCheckoutPath_def Let_def split: if_splits)
  from pre obtain rest where rest: "path_clean ?raw = ?root @ rest" unfolding has_prefix_iff by blast
  moreover have "rest \<noteq> []"
  proof
    assume "rest = []"
    with rest have "last (path_clean ?raw) = CHR ''/''" and "path_clean ?raw \<noteq> ''/''" by auto
    moreover have "path_is_abs ?raw"
      using assms by (auto simp: ValidRemoteCheckoutPath_def Let_def split: if_splits)
    ultimately show False using path_clean_abs_no_parent[OF _ np] path_segments_last[of ?raw]
      by (cases "path_segments ?raw = []") auto
  qed
  moreover have "walk [] (split_char (CHR ''/'') ?raw) = Some (path_segments ?raw)"
    using np walk_no_parent unfolding has_parent_segment_iff path_segments_def by simp
  ultimately show ?thesis using that by simp
qed

subsection \<open>Properties\<close>

text \<open>A directory name made from text of the user, the slug of a repository or a branch, is never empty, \<open>.\<close>
or \<open>..\<close>, has no slash and no NUL byte, and starts and ends with a letter, a digit or an underscore.\<close>

theorem path_component_never_traverses:
  "no_traversal (safePathComponent raw) \<and> no_traversal (pathSlugFromRepoURL raw)"
  using safePathComponent_safe[of raw] pathSlugFromRepoURL_safe[of raw]
    safe_component_not_dots safe_component_no_slash safe_component_no_nul
  unfolding no_traversal_def safe_component_def by blast

text \<open>The path a checkout is placed at passes the guard on paths that come back from outside, for every
repository URL and branch, when the project name is one path segment.\<close>

theorem generated_checkout_path_valid:
  assumes "plain_project project"
  shows "ValidRemoteCheckoutPath (SourceCheckoutPath project repoURL branch) (PlaygroundPath project)"
  using assms by (rule ValidRemoteCheckoutPath_generated)

theorem generated_checkout_path_valid_witness:
  "ValidRemoteCheckoutPath (SourceCheckoutPath ''demo'' ''git@github.com:a/../b.git'' ''feat/x'') (PlaygroundPath ''demo'')"
  by (rule generated_checkout_path_valid) code_simp

text \<open>The guard is sound: a path it accepts, followed segment by segment from the root, never climbs above it,
and it ends strictly below the checkout root.\<close>

theorem checkout_guard_sound:
  assumes "ValidRemoteCheckoutPath raw base"
  shows "walk [] (split_char (CHR ''/'') (trim_space raw)) = Some (path_segments (trim_space raw)) \<and>
    (\<exists>rest. rest \<noteq> [] \<and> path_clean (trim_space raw) = trim_right_set ''/'' base @ ''/props/'' @ rest)"
  using assms ValidRemoteCheckoutPath_below by blast

theorem checkout_guard_sound_witness:
  "path_clean (trim_space ''/opt/p//props/a-b/main'') = ''/opt/p/props/a-b/main'' \<and>
   walk [] (split_char (CHR ''/'') (trim_space ''/opt/p//props/a-b/main'')) =
     Some (path_segments (trim_space ''/opt/p//props/a-b/main''))"
proof -
  have "ValidRemoteCheckoutPath ''/opt/p//props/a-b/main'' ''/opt/p/''" by code_simp
  from checkout_guard_sound[OF this] have "walk [] (split_char (CHR ''/'') (trim_space ''/opt/p//props/a-b/main'')) =
     Some (path_segments (trim_space ''/opt/p//props/a-b/main''))" by blast
  moreover have "path_clean (trim_space ''/opt/p//props/a-b/main'') = ''/opt/p/props/a-b/main''" by code_simp
  ultimately show ?thesis by blast
qed

end
