(* ===== verification/GoValues.thy ===== *)
theory GoValues
  imports GoNumbers "HOL-Library.AList" "HOL-Library.Multiset"
begin

text \<open>
  The values of Go's type \<open>any\<close> that JSON and YAML decoding hand to the program, and Go maps.

  \<^item> \<open>any\<close> has one constructor for each dynamic type a type switch of the program names. Integers carry
    their Go kind; a finite float is carried as the decimal text \<open>strconv.FormatFloat(v, 'f', -1, bits)\<close> prints
    for it, which determines it; \<open>FInf True\<close> is the negative infinity. \<open>AOther\<close> stands for a value of any other dynamic type, such as a YAML timestamp.
  \<^item> A Go map is an association list with distinct keys. Go iterates over a map in an unspecified order; the
    order of the list is the order of one iteration, so a lemma about every list covers every execution, and the
    lemmas about permuted lists say where the order does not matter.
  \<^item> A \<open>map[string]any\<close> is shared: a function that changes the map it was handed changes the document. A function
    of the model returns the changed map and its caller stores it back. \<open>AsMap\<close> of a \<open>map[any]any\<close> is a copy,
    so what is written to it is lost unless the code stores it; \<open>store_back\<close> makes that difference.
\<close>

datatype ikind = KInt | KInt8 | KInt16 | KInt32 | KInt64 | KUint | KUint8 | KUint16 | KUint32 | KUint64

datatype fkind = KFloat32 | KFloat64

datatype go_float = FNaN | FInf bool | FDec string

datatype any =
    ANil
  | AStr string
  | ABool bool
  | AInt ikind int
  | AFloat fkind go_float
  | AMap "(string \<times> any) list"
  | AAnyMap "(any \<times> any) list"
  | ASeq "any list"
  | AStrs "string list"
  | AMaps "(string \<times> any) list list"
  | AOther string

type_synonym 'v smap = "(string \<times> 'v) list"
type_synonym doc = "any smap"

definition wf_map :: "'v smap \<Rightarrow> bool" where
  "wf_map m = distinct (map fst m)"

abbreviation put_key :: "string \<Rightarrow> 'v \<Rightarrow> 'v smap \<Rightarrow> 'v smap" where
  "put_key \<equiv> AList.update"

abbreviation del_key :: "string \<Rightarrow> 'v smap \<Rightarrow> 'v smap" where
  "del_key \<equiv> AList.delete"

definition has_key :: "'v smap \<Rightarrow> string \<Rightarrow> bool" where
  "has_key m k = (map_of m k \<noteq> None)"

text \<open>\<open>m[k]\<close> for a \<open>map[string]any\<close>: \<open>nil\<close> when the key is missing; for a \<open>map[string]string\<close>: the empty string.\<close>

definition any_at :: "doc \<Rightarrow> string \<Rightarrow> any" where
  "any_at m k = (case map_of m k of Some v \<Rightarrow> v | None \<Rightarrow> ANil)"

definition str_at :: "string smap \<Rightarrow> string \<Rightarrow> string" where
  "str_at m k = (case map_of m k of Some v \<Rightarrow> v | None \<Rightarrow> [])"

text \<open>Two maps with the same entries, whatever their iteration order.\<close>

definition same_map :: "'v smap \<Rightarrow> 'v smap \<Rightarrow> bool" where
  "same_map m n = (map_of m = map_of n)"

definition sorted_keys :: "'v smap \<Rightarrow> string list" where
  "sorted_keys m = sort (map fst m)"

subsection \<open>The interface of a finite map\<close>

locale finite_map_ops =
  fixes look :: "'m \<Rightarrow> 'k \<Rightarrow> 'v option"
    and put :: "'k \<Rightarrow> 'v \<Rightarrow> 'm \<Rightarrow> 'm"
    and del :: "'k \<Rightarrow> 'm \<Rightarrow> 'm"
  assumes look_put: "look (put k v m) k' = (if k' = k then Some v else look m k')"
    and look_del: "look (del k m) k' = (if k' = k then None else look m k')"
begin

lemma look_puts: "look (fold (\<lambda>(k, v). put k v) kvs m) k = (map_of m' ++ map_of (rev kvs)) k"
  if "look m k = map_of m' k"
  using that
proof (induction kvs arbitrary: m m')
  case Nil
  then show ?case by simp
next
  case (Cons kv kvs)
  obtain a b where kv: "kv = (a, b)" by (cases kv)
  have "look (put a b m) k = map_of ((a, b) # m') k"
    using Cons.prems by (simp add: look_put)
  from Cons.IH[OF this] kv show ?case
    by (auto simp: map_add_def map_of_append split: option.splits)
qed

lemma look_puts_other: "k \<notin> fst ` set kvs \<Longrightarrow> look (fold (\<lambda>(k, v). put k v) kvs m) k = look m k"
  by (induction kvs arbitrary: m) (auto simp: look_put)

lemma look_puts_distinct:
  "distinct (map fst kvs) \<Longrightarrow> (k, v) \<in> set kvs \<Longrightarrow> look (fold (\<lambda>(k, v). put k v) kvs m) k = Some v"
proof (induction kvs arbitrary: m)
  case Nil
  then show ?case by simp
next
  case (Cons kv kvs)
  show ?case
  proof (cases "kv = (k, v)")
    case True
    with Cons.prems(1) have "k \<notin> fst ` set kvs" by auto
    with True show ?thesis by (simp add: look_puts_other look_put)
  next
    case False
    with Cons show ?thesis by auto
  qed
qed

lemma look_dels: "look (fold del ks m) k = (if k \<in> set ks then None else look m k)"
  by (induction ks arbitrary: m) (auto simp: look_del)

lemma look_put_same: "look (put k v m) k = Some v"
  by (simp add: look_put)

lemma look_put_other: "k' \<noteq> k \<Longrightarrow> look (put k v m) k' = look m k'"
  by (simp add: look_put)

end

interpretation amap: finite_map_ops "map_of :: 'v smap \<Rightarrow> string \<Rightarrow> 'v option" put_key del_key
  by unfold_locales (auto simp: update_conv delete_conv)

lemma wf_map_put [simp]: "wf_map m \<Longrightarrow> wf_map (put_key k v m)"
  by (simp add: wf_map_def distinct_update)

lemma wf_map_del [simp]: "wf_map m \<Longrightarrow> wf_map (del_key k m)"
  by (simp add: wf_map_def distinct_delete)

lemma wf_map_Nil [simp]: "wf_map []"
  by (simp add: wf_map_def)

lemma wf_map_perm: "mset m = mset n \<Longrightarrow> wf_map m = wf_map n"
proof -
  assume "mset m = mset n"
  then have "mset (map fst m) = mset (map fst n)" by (simp only: mset_map)
  then show ?thesis unfolding wf_map_def by (rule mset_eq_imp_distinct_iff)
qed

lemma same_map_perm:
  assumes "mset m = mset n" and "wf_map m"
  shows "same_map m n"
proof -
  have "wf_map n" using wf_map_perm[OF assms(1)] assms(2) by blast
  moreover have "set m = set n" using assms(1) by (metis set_mset_mset)
  ultimately show ?thesis
    using assms(2) unfolding same_map_def wf_map_def by (simp only: map_of_inject_set)
qed

lemma sorted_keys_perm: "mset m = mset n \<Longrightarrow> sorted_keys m = sorted_keys n"
  unfolding sorted_keys_def by (metis mset_map sorted_list_of_multiset_mset)

lemma set_sorted_keys [simp]: "set (sorted_keys m) = fst ` set m"
  by (simp add: sorted_keys_def)

lemma has_key_iff: "has_key m k \<longleftrightarrow> k \<in> fst ` set m"
  by (metis has_key_def map_of_eq_None_iff)

lemma has_key_put [simp]: "has_key (put_key k v m) k' \<longleftrightarrow> k' = k \<or> has_key m k'"
  by (simp add: has_key_def amap.look_put)

lemma has_key_del [simp]: "has_key (del_key k m) k' \<longleftrightarrow> k' \<noteq> k \<and> has_key m k'"
  by (simp add: has_key_def amap.look_del)

subsection \<open>AsMap\<close>

definition string_map_key :: "any \<Rightarrow> string option" where
  "string_map_key a = (case a of AStr s \<Rightarrow> Some (trim_space s) | _ \<Rightarrow> None)"

fun copy_any_map :: "doc \<Rightarrow> (any \<times> any) list \<Rightarrow> doc option" where
  "copy_any_map out [] = Some out"
| "copy_any_map out ((k, v) # kvs) =
     (case string_map_key k of None \<Rightarrow> None | Some key \<Rightarrow> copy_any_map (put_key key v out) kvs)"

definition as_map :: "any \<Rightarrow> doc option" where
  "as_map a =
     (case a of AMap m \<Rightarrow> Some m | AAnyMap kvs \<Rightarrow> copy_any_map [] kvs | _ \<Rightarrow> None)"

text \<open>Where \<open>m[k]\<close> is a \<open>map[string]any\<close> that a callee has changed in place into \<open>v\<close>, the document sees the change;
the copy made of any other value is dropped.\<close>

definition store_back :: "string \<Rightarrow> doc \<Rightarrow> doc \<Rightarrow> doc" where
  "store_back k v m = (case map_of m k of Some (AMap _) \<Rightarrow> put_key k (AMap v) m | _ \<Rightarrow> m)"

lemma as_map_simps [simp]:
  "as_map (AMap m) = Some m"
  "as_map ANil = None"
  "as_map (AStr s) = None"
  "as_map (ABool b) = None"
  "as_map (AInt k i) = None"
  "as_map (AFloat fk f) = None"
  "as_map (ASeq xs) = None"
  "as_map (AStrs ss) = None"
  "as_map (AMaps ms) = None"
  "as_map (AOther s) = None"
  "as_map (AAnyMap kvs) = copy_any_map [] kvs"
  by (simp_all add: as_map_def)

lemma as_map_Some_cases:
  assumes "as_map a = Some m"
  obtains "a = AMap m" | kvs where "a = AAnyMap kvs" "copy_any_map [] kvs = Some m"
  using assms by (cases a) auto

lemma copy_any_map_wf: "copy_any_map out kvs = Some m \<Longrightarrow> wf_map out \<Longrightarrow> wf_map m"
  by (induction kvs arbitrary: out) (auto split: option.splits)

lemma any_at_put [simp]: "any_at (put_key k v m) k' = (if k' = k then v else any_at m k')"
  by (simp add: any_at_def amap.look_put)

lemma any_at_del [simp]: "any_at (del_key k m) k' = (if k' = k then ANil else any_at m k')"
  by (simp add: any_at_def amap.look_del)

lemma str_at_put [simp]: "str_at (put_key k v m) k' = (if k' = k then v else str_at m k')"
  by (simp add: str_at_def amap.look_put)

lemma store_back_other: "k' \<noteq> k \<Longrightarrow> map_of (store_back k v m) k' = map_of m k'"
  by (auto simp: store_back_def amap.look_put split: option.splits any.splits)

lemma store_back_same: "map_of m k = Some (AMap w) \<Longrightarrow> map_of (store_back k v m) k = Some (AMap v)"
  by (simp add: store_back_def amap.look_put)

subsection \<open>Walking a document\<close>

text \<open>Rewriting every string of a tree of \<open>map[string]any\<close> and \<open>[]any\<close>, the shape the token passes share.\<close>

fun map_strings :: "(string \<Rightarrow> string) \<Rightarrow> any \<Rightarrow> any" where
  "map_strings f (AMap m) = AMap (map (\<lambda>(k, v). (k, map_strings f v)) m)"
| "map_strings f (ASeq xs) = ASeq (map (map_strings f) xs)"
| "map_strings f (AStr s) = AStr (f s)"
| "map_strings f a = a"

text \<open>The strings such a walk meets.\<close>

fun strings_in :: "any \<Rightarrow> string list" where
  "strings_in (AMap m) = concat (map (\<lambda>(k, v). strings_in v) m)"
| "strings_in (ASeq xs) = concat (map strings_in xs)"
| "strings_in (AStr s) = [s]"
| "strings_in a = []"

lemma strings_in_map_strings: "strings_in (map_strings f a) = map f (strings_in a)"
proof (induction f a rule: map_strings.induct)
  case (1 f m)
  then have "\<forall>kv \<in> set m. strings_in (map_strings f (snd kv)) = map f (strings_in (snd kv))" by auto
  then show ?case by (induction m) (auto simp: case_prod_beta)
next
  case (2 f xs)
  then show ?case by (induction xs) auto
qed auto

lemma map_strings_ident: "(\<forall>s \<in> set (strings_in a). f s = s) \<Longrightarrow> map_strings f a = a"
proof (induction f a rule: map_strings.induct)
  case (1 f m)
  have "map (\<lambda>(k, v). (k, map_strings f v)) m = m"
    by (rule map_idI) (use 1 in \<open>force\<close>)
  then show ?case by simp
next
  case (2 f xs)
  have "map (map_strings f) xs = xs"
    by (rule map_idI) (use 2 in \<open>force\<close>)
  then show ?case by simp
qed auto

end
