(* ===== verification/Domain.thy ===== *)
theory Domain
  imports GoValues
begin

text \<open>
  \<open>internal/domain\<close>: the records the other parts exchange, the lifecycle status names, the parsers
  of build platforms and Docker build arguments, and the status snapshot the API reports. A pointer field is an
  option; a \<open>time.Time\<close> is an integer of nanoseconds (the code compares and stores instants, never their zone);
  a \<open>float64\<close> that is only passed through is a \<^typ>\<open>go_float\<close>.
\<close>

subsection \<open>Status names (types.go)\<close>

definition StatusPending :: string where "StatusPending = ''pending''"
definition StatusInProgress :: string where "StatusInProgress = ''in_progress''"
definition StatusRunning :: string where "StatusRunning = ''running''"
definition StatusError :: string where "StatusError = ''error''"
definition StatusHasChanges :: string where "StatusHasChanges = ''has_changes''"
definition StatusCompleted :: string where "StatusCompleted = ''completed''"
definition StatusStopped :: string where "StatusStopped = ''stopped''"
definition StatusStopping :: string where "StatusStopping = ''stopping''"
definition StatusDestroying :: string where "StatusDestroying = ''destroying''"

definition AsyncQueued :: string where "AsyncQueued = ''queued''"
definition AsyncRunning :: string where "AsyncRunning = ''running''"
definition AsyncSuccess :: string where "AsyncSuccess = ''success''"
definition AsyncError :: string where "AsyncError = ''error''"
definition BuildStatusPending :: string where "BuildStatusPending = ''pending''"
definition BuildStatusBuilding :: string where "BuildStatusBuilding = ''building''"
definition BuildStatusSuccess :: string where "BuildStatusSuccess = ''success''"
definition BuildStatusFailed :: string where "BuildStatusFailed = ''failed''"

lemmas status_defs = StatusPending_def StatusInProgress_def StatusRunning_def StatusError_def
  StatusHasChanges_def StatusCompleted_def StatusStopped_def StatusStopping_def StatusDestroying_def

subsection \<open>Records (types.go)\<close>

record creation_step =
  step_name :: string
  step_label :: string
  step_status :: string
  step_started_at :: "int option"
  step_completed_at :: "int option"
  step_error_message :: string

record service_url =
  url_name :: string
  url_type :: string
  url_url :: string
  url_visibility :: string
  url_auth_required :: bool
  url_status :: string
  url_health :: string
  url_running :: "bool option"
  url_exit_code :: "int option"

record service_info =
  svc_name :: string
  svc_status :: string
  svc_image :: string
  svc_health :: string
  svc_running :: bool
  svc_exit_code :: "int option"

record build_snapshot =
  snap_id :: int
  snap_service_name :: string
  snap_status :: string
  snap_commit_sha :: string
  snap_short_commit_sha :: string
  snap_image_ref :: string
  snap_error_message :: string
  snap_started_at :: "int option"
  snap_completed_at :: "int option"
  snap_created_at :: "int option"

record build_status =
  bst_service_name :: string
  bst_prop_id :: int
  bst_prop_name :: string
  bst_branch :: string
  bst_running :: "build_snapshot option"
  bst_latest :: "build_snapshot option"
  bst_active :: "build_snapshot option"

record playground =
  pg_id :: int
  pg_name :: string
  pg_status :: string
  pg_state_reason :: "string option"
  pg_state_reasons :: "string list"
  pg_playspec_id :: "int option"
  pg_playspec_name :: "string option"
  pg_marquee_id :: "int option"
  pg_service_branches :: doc
  pg_expires_at :: "int option"
  pg_created_at :: int
  pg_updated_at :: int
  pg_compose_project :: "string option"
  pg_marquee_name :: "string option"
  pg_root_domain :: "string option"
  pg_routing_scheme :: "string option"
  pg_internal_password :: "string option"
  pg_env_overrides :: "string smap"
  pg_last_applied_at :: "int option"
  pg_error_message :: "string option"
  pg_error_details :: "doc option"
  pg_build_warnings :: "string list"
  pg_build_statuses :: "build_status list"
  pg_service_urls :: "service_url list"
  pg_services :: "service_info list"
  pg_generated_compose_yaml :: string
  pg_creation_steps :: "creation_step list"
  pg_repair_reason :: "string option"
  pg_repair_lock_until :: "int option"
  pg_needs_recreation :: "bool option"
  pg_time_remaining :: "go_float option"
  pg_expiration_percentage :: "go_float option"

record marquee =
  mq_id :: int
  mq_name :: string
  mq_host :: string
  mq_port :: int
  mq_user :: string
  mq_status :: string
  mq_domains_input :: "string option"
  mq_https_enabled :: "bool option"
  mq_tls_certificate_source :: "string option"
  mq_acme_email :: "string option"
  mq_build_platform :: "string option"
  mq_runtime_launchable :: bool
  mq_chat_launchable :: bool
  mq_created_at :: int
  mq_updated_at :: int

record prop_branch =
  pb_name :: string
  pb_default :: bool
  pb_head_sha :: string
  pb_last_synced_at :: "int option"

record source_prop =
  pr_id :: int
  pr_name :: string
  pr_repository_url :: string
  pr_private :: bool
  pr_default_branch :: string
  pr_status :: string
  pr_provider :: string
  pr_last_synced_at :: "int option"
  pr_created_at :: int
  pr_updated_at :: int
  pr_branches :: "string list"
  pr_branch_records :: "prop_branch list"

record playspec =
  ps_id :: "int option"
  ps_name :: string
  ps_description :: "string option"
  ps_locked :: "bool option"
  ps_persist_volumes :: "bool option"
  ps_playground_count :: "int option"
  ps_created_at :: "int option"
  ps_updated_at :: "int option"
  ps_services :: "any list"
  ps_base_compose_yaml :: string

record build_record =
  br_id :: int
  br_playground_id :: "int option"
  br_prop_id :: "int option"
  br_service_name :: string
  br_branch :: string
  br_commit_sha :: string
  br_status :: string
  br_image_ref :: string
  br_dockerfile_path :: string
  br_build_target :: string
  br_build_args_digest :: string
  br_build_identity_digest :: string
  br_build_platform :: string
  br_build_cache_key :: string
  br_reused :: bool
  br_logs :: string
  br_error_message :: "string option"
  br_started_at :: "int option"
  br_completed_at :: "int option"
  br_created_at :: int
  br_updated_at :: int

record api_error =
  ae_code :: string
  ae_message :: string
  ae_details :: "doc option"

record async_operation =
  ao_id :: string
  ao_status :: string
  ao_status_url :: string
  ao_payload :: "doc option"
  ao_error :: "api_error option"
  ao_created_at :: int
  ao_updated_at :: int

record playground_status =
  pst_id :: int
  pst_name :: string
  pst_status :: string
  pst_creation_step :: string
  pst_creation_step_label :: string
  pst_error_step :: string
  pst_error_step_label :: string
  pst_creation_steps :: "creation_step list"
  pst_services :: "service_info list"
  pst_service_urls :: "service_url list"
  pst_build_statuses :: "build_status list"
  pst_error_message :: "string option"
  pst_error_details :: "doc option"
  pst_needs_recreation :: bool
  pst_expires_at :: "int option"
  pst_time_remaining :: "go_float option"
  pst_expiration_percentage :: "go_float option"
  pst_updated_at :: int

subsection \<open>The build platform (build\_platform.go)\<close>

datatype build_platform = PlatformDefault | PlatformLinuxAMD64 | PlatformLinuxARM64

definition platform_string :: "build_platform \<Rightarrow> string" where
  "platform_string p =
     (case p of PlatformDefault \<Rightarrow> [] | PlatformLinuxAMD64 \<Rightarrow> ''linux/amd64''
      | PlatformLinuxARM64 \<Rightarrow> ''linux/arm64'')"

definition ParseBuildPlatform :: "string \<Rightarrow> string + build_platform" where
  "ParseBuildPlatform raw =
     (let raw = trim_space raw
      in if raw = [] then Inr PlatformDefault
         else if raw = ''linux/amd64'' then Inr PlatformLinuxAMD64
         else if raw = ''linux/arm64'' then Inr PlatformLinuxARM64
         else Inl ''build platform must be linux/amd64 or linux/arm64'')"

subsection \<open>Marquee domains and Docker build arguments (helpers.go)\<close>

definition marqueeDomainSeparator :: "char \<Rightarrow> bool" where
  "marqueeDomainSeparator r = (r = CHR '','' \<or> r = CHR 0x0A \<or> r = CHR 0x0D \<or> r = CHR 0x09 \<or> r = CHR '' '')"

text \<open>\<open>strings.FieldsFunc\<close>: the maximal runs of bytes that are no separators.\<close>

fun fields_acc :: "(char \<Rightarrow> bool) \<Rightarrow> string \<Rightarrow> string \<Rightarrow> string list" where
  "fields_acc sep acc [] = (if acc = [] then [] else [rev acc])"
| "fields_acc sep acc (c # s) =
     (if sep c then (if acc = [] then fields_acc sep [] s else rev acc # fields_acc sep [] s)
      else fields_acc sep (c # acc) s)"

definition fields_func :: "(char \<Rightarrow> bool) \<Rightarrow> string \<Rightarrow> string list" where
  "fields_func sep s = fields_acc sep [] s"

definition FirstDomainFromInput :: "string option \<Rightarrow> string" where
  "FirstDomainFromInput input =
     (case input of
        None \<Rightarrow> []
      | Some s \<Rightarrow>
          (case filter (\<lambda>d. d \<noteq> []) (map trim_space (fields_func marqueeDomainSeparator s)) of
             [] \<Rightarrow> [] | d # _ \<Rightarrow> d))"

definition arg_head :: "char \<Rightarrow> bool" where
  "arg_head c = (is_upper c \<or> is_lower c \<or> c = CHR ''_'')"

definition arg_char :: "char \<Rightarrow> bool" where
  "arg_char c = (arg_head c \<or> is_digit c)"

text \<open>The pattern \<open>^[A-Za-z_][A-Za-z0-9_]*$\<close>.\<close>

definition dockerBuildArgNamePattern :: "string \<Rightarrow> bool" where
  "dockerBuildArgNamePattern s = (case s of [] \<Rightarrow> False | c # t \<Rightarrow> arg_head c \<and> list_all arg_char t)"

record build_arg_part =
  bap_value :: string
  bap_effective :: bool
  bap_valid :: bool

definition normalizeDockerBuildArgPart :: "string \<Rightarrow> build_arg_part" where
  "normalizeDockerBuildArgPart raw0 =
     (let raw = trim_space raw0
      in if raw = [] then \<lparr>bap_value = [], bap_effective = False, bap_valid = True\<rparr>
         else let (k, v, hasValue) = cut_char (CHR ''='') raw;
                  key = trim_space k; val = trim_space v
              in if key = [] then \<lparr>bap_value = [], bap_effective = False, bap_valid = True\<rparr>
                 else if \<not> dockerBuildArgNamePattern key
                   then \<lparr>bap_value = [], bap_effective = False, bap_valid = False\<rparr>
                 else if hasValue
                   then \<lparr>bap_value = key @ ''='' @ val, bap_effective = True, bap_valid = True\<rparr>
                 else \<lparr>bap_value = key, bap_effective = True, bap_valid = True\<rparr>)"

definition NormalizeDockerBuildArg :: "string \<Rightarrow> string \<times> bool" where
  "NormalizeDockerBuildArg raw =
     (let n = normalizeDockerBuildArgPart raw in (bap_value n, bap_effective n \<and> bap_valid n))"

fun parse_build_arg_parts :: "string list \<Rightarrow> string list option" where
  "parse_build_arg_parts [] = Some []"
| "parse_build_arg_parts (p # ps) =
     (let n = normalizeDockerBuildArgPart p
      in if \<not> bap_valid n then None
         else map_option (\<lambda>out. if bap_effective n then bap_value n # out else out)
                (parse_build_arg_parts ps))"

definition ParseDockerBuildArgs :: "string \<Rightarrow> string list option" where
  "ParseDockerBuildArgs raw = parse_build_arg_parts (split_char (CHR '','') raw)"

subsection \<open>The status snapshot (playground\_status.go)\<close>

record creation_summary =
  sum_step :: string
  sum_label :: string
  sum_error_name :: string
  sum_error_label :: string

definition playgroundCreationStepFinalized :: "creation_step \<Rightarrow> bool" where
  "playgroundCreationStepFinalized s = (step_name s = ''finalize'' \<and> step_status s = ''completed'')"

definition lastPlaygroundErrorStep :: "creation_step list \<Rightarrow> string \<times> string" where
  "lastPlaygroundErrorStep steps =
     (case filter (\<lambda>s. step_status s = ''error'') (rev steps) of
        [] \<Rightarrow> ([], []) | s # _ \<Rightarrow> (step_name s, step_label s))"

definition emptyPlaygroundCreationStepSummary :: "string \<Rightarrow> creation_summary" where
  "emptyPlaygroundCreationStepSummary status =
     (if status = StatusRunning \<or> status = StatusCompleted
      then \<lparr>sum_step = ''completed'', sum_label = ''Completed'', sum_error_name = [], sum_error_label = []\<rparr>
      else if trim_space status \<noteq> []
      then \<lparr>sum_step = trim_space status, sum_label = [], sum_error_name = [], sum_error_label = []\<rparr>
      else \<lparr>sum_step = ''pending'', sum_label = [], sum_error_name = [], sum_error_label = []\<rparr>)"

definition playgroundCreationStepSummary :: "playground \<Rightarrow> creation_summary" where
  "playgroundCreationStepSummary p =
     (if pg_creation_steps p = [] then emptyPlaygroundCreationStepSummary (pg_status p)
      else let latest = last (pg_creation_steps p);
               (ename, elabel) = lastPlaygroundErrorStep (pg_creation_steps p)
           in if playgroundCreationStepFinalized latest
              then \<lparr>sum_step = ''completed'', sum_label = ''Completed'',
                    sum_error_name = ename, sum_error_label = elabel\<rparr>
              else \<lparr>sum_step = step_name latest, sum_label = step_label latest,
                    sum_error_name = ename, sum_error_label = elabel\<rparr>)"

definition StatusSnapshot :: "playground \<Rightarrow> int \<Rightarrow> playground_status" where
  "StatusSnapshot p now =
     (let s = playgroundCreationStepSummary p
      in \<lparr>pst_id = pg_id p, pst_name = pg_name p, pst_status = pg_status p,
          pst_creation_step = sum_step s, pst_creation_step_label = sum_label s,
          pst_error_step = sum_error_name s, pst_error_step_label = sum_error_label s,
          pst_creation_steps = pg_creation_steps p, pst_services = pg_services p,
          pst_service_urls = pg_service_urls p, pst_build_statuses = pg_build_statuses p,
          pst_error_message = pg_error_message p, pst_error_details = pg_error_details p,
          pst_needs_recreation = (pg_needs_recreation p = Some True),
          pst_expires_at = pg_expires_at p, pst_time_remaining = pg_time_remaining p,
          pst_expiration_percentage = pg_expiration_percentage p, pst_updated_at = now\<rparr>)"

subsection \<open>Facts\<close>

lemma ParseBuildPlatform_string: "ParseBuildPlatform (platform_string p) = Inr p"
  by (cases p) (simp_all add: ParseBuildPlatform_def platform_string_def trim_space_words word_char_def
      less_eq_char_def)

lemma ParseBuildPlatform_Inr: "ParseBuildPlatform raw = Inr p \<Longrightarrow> platform_string p = trim_space raw"
  by (auto simp: ParseBuildPlatform_def platform_string_def Let_def split: if_splits)

lemma arg_char_word: "arg_char c \<Longrightarrow> word_char c"
  by (auto simp: arg_char_def arg_head_def word_char_def is_upper_def is_lower_def is_digit_def less_eq_char_def)

lemma arg_char_not_sep: "arg_char c \<Longrightarrow> c \<noteq> CHR ''='' \<and> c \<noteq> CHR '',''"
  by (auto simp: arg_char_def arg_head_def is_upper_def is_lower_def is_digit_def less_eq_char_def)

lemma build_arg_name_chars: "dockerBuildArgNamePattern s \<Longrightarrow> c \<in> set s \<Longrightarrow> arg_char c"
  by (auto simp: dockerBuildArgNamePattern_def arg_char_def list_all_iff split: list.splits)

lemma build_arg_name_ne: "dockerBuildArgNamePattern s \<Longrightarrow> s \<noteq> []"
  by (auto simp: dockerBuildArgNamePattern_def)

lemma build_arg_name_trim: "dockerBuildArgNamePattern s \<Longrightarrow> trim_space s = s"
  by (meson arg_char_word build_arg_name_chars trim_space_words)

text \<open>An accepted argument has one of two shapes, and each shape is a fixed point of the normalisation.\<close>

inductive normal_build_arg :: "string \<Rightarrow> bool" where
  bare: "dockerBuildArgNamePattern k \<Longrightarrow> normal_build_arg k"
| assigned: "dockerBuildArgNamePattern k \<Longrightarrow> trim_space v = v \<Longrightarrow> normal_build_arg (k @ CHR ''='' # v)"

lemma normalize_part_normal:
  assumes "bap_valid (normalizeDockerBuildArgPart raw)" "bap_effective (normalizeDockerBuildArgPart raw)"
  shows "normal_build_arg (bap_value (normalizeDockerBuildArgPart raw))"
  using assms unfolding normalizeDockerBuildArgPart_def
  by (auto simp: Let_def split: prod.splits if_splits intro: normal_build_arg.intros)

lemma normal_build_arg_fixed:
  assumes "normal_build_arg p"
  shows "normalizeDockerBuildArgPart p = \<lparr>bap_value = p, bap_effective = True, bap_valid = True\<rparr>"
  using assms
proof cases
  case bare
  then have "CHR ''='' \<notin> set p" using build_arg_name_chars arg_char_not_sep by blast
  with bare show ?thesis
    by (simp add: normalizeDockerBuildArgPart_def build_arg_name_trim build_arg_name_ne cut_char_absent)
next
  case (assigned k v)
  have "solid (CHR ''='')" by (simp add: solid_def space_seqs_def)
  moreover have "left_trimmed k" "right_trimmed v"
    using assigned build_arg_name_trim[of k] trim_fixed_iff by blast+
  ultimately have "trim_space p = p" using assigned(1) trim_fixed_solid by blast
  moreover have "CHR ''='' \<notin> set k" using assigned build_arg_name_chars arg_char_not_sep by blast
  ultimately show ?thesis using assigned
    by (simp add: normalizeDockerBuildArgPart_def build_arg_name_trim build_arg_name_ne cut_char_found)
qed

lemma normalize_part_chars:
  "c \<in> set (bap_value (normalizeDockerBuildArgPart raw)) \<Longrightarrow> c \<in> set raw \<or> c = CHR ''=''"
proof -
  assume c: "c \<in> set (bap_value (normalizeDockerBuildArgPart raw))"
  show ?thesis
  proof (cases rule: cut_char_cases[of "CHR ''=''" "trim_space raw"])
    case absent
    with c have "c \<in> set (trim_space (trim_space raw))"
      by (auto simp: normalizeDockerBuildArgPart_def Let_def split: if_splits)
    then show ?thesis using trim_space_chars by fastforce
  next
    case (found a b)
    with c have "c \<in> set (trim_space a) \<or> c = CHR ''='' \<or> c \<in> set (trim_space b)"
      by (auto simp: normalizeDockerBuildArgPart_def Let_def split: if_splits)
    then have "c \<in> set a \<or> c = CHR ''='' \<or> c \<in> set b" using trim_space_chars by fastforce
    moreover have "set a \<union> set b \<subseteq> set raw"
      using found(1) trim_space_chars[of raw] by auto
    ultimately show ?thesis by blast
  qed
qed

lemma parse_build_arg_parts_normal:
  "parse_build_arg_parts ps = Some out \<Longrightarrow> p \<in> set out \<Longrightarrow> normal_build_arg p"
proof (induction ps arbitrary: out)
  case Nil
  then show ?case by simp
next
  case (Cons q ps)
  then show ?case
    by (auto simp: Let_def split: if_splits intro: normalize_part_normal)
qed

lemma parse_build_arg_parts_chars:
  "parse_build_arg_parts ps = Some out \<Longrightarrow> p \<in> set out \<Longrightarrow> (\<And>q. q \<in> set ps \<Longrightarrow> CHR '','' \<notin> set q) \<Longrightarrow>
   CHR '','' \<notin> set p"
proof (induction ps arbitrary: out)
  case Nil
  then show ?case by simp
next
  case (Cons q ps)
  have "CHR '','' \<notin> set (bap_value (normalizeDockerBuildArgPart q))"
    using Cons.prems(3)[of q] normalize_part_chars[of "CHR '',''" q] by auto
  with Cons show ?case by (auto simp: Let_def split: if_splits)
qed

lemma parse_build_arg_parts_fixed:
  "(\<And>p. p \<in> set ps \<Longrightarrow> normal_build_arg p) \<Longrightarrow> parse_build_arg_parts ps = Some ps"
  by (induction ps) (simp_all add: normal_build_arg_fixed Let_def)

lemma ParseDockerBuildArgs_join:
  assumes "ParseDockerBuildArgs raw = Some parts" and "parts \<noteq> []"
  shows "ParseDockerBuildArgs (join_str '','' parts) = Some parts"
proof -
  have n: "\<And>p. p \<in> set parts \<Longrightarrow> normal_build_arg p"
    using assms(1) parse_build_arg_parts_normal unfolding ParseDockerBuildArgs_def by blast
  have "\<And>p. p \<in> set parts \<Longrightarrow> CHR '','' \<notin> set p"
    using assms(1) parse_build_arg_parts_chars split_char_parts unfolding ParseDockerBuildArgs_def by blast
  then have "split_char (CHR '','') (join_str '','' parts) = parts"
    using assms(2) split_join by blast
  then show ?thesis by (simp add: ParseDockerBuildArgs_def parse_build_arg_parts_fixed n)
qed

subsection \<open>Properties\<close>

text \<open>Whatever the parser of Docker build arguments accepts, joining its parts with commas and parsing the text
again gives the same parts: an accepted list is a stored form of itself.\<close>

theorem docker_build_args_roundtrip:
  assumes "ParseDockerBuildArgs raw = Some parts" and "parts \<noteq> []"
  shows "ParseDockerBuildArgs (join_str '','' parts) = Some parts"
  using assms by (rule ParseDockerBuildArgs_join)

theorem docker_build_args_roundtrip_witness:
  "ParseDockerBuildArgs (join_str '','' [''A=1'', ''B'']) = Some [''A=1'', ''B'']"
  by (rule docker_build_args_roundtrip[of "'' A = 1 ,, B''"]) code_simp+

end
