(* ===== verification/TemplateScalars.thy ===== *)
theory TemplateScalars
  imports GoValues
begin

text \<open>
  \<open>internal/composefile/template\<close>, scalars and tokens: \<open>scalar_values.go\<close>, \<open>maps.go\<close>, \<open>refs.go\<close> and
  \<open>tokens.go\<close>. A string is scanned for \<open>$$var__NAME\<close>, \<open>$$random__NAME\<close> and
  \<open>$$root_domain\<close>; the two passes over a document share \<^term>\<open>map_strings\<close>. The lemmas characterise the scan
  by the segments it cuts a string into.
\<close>

subsection \<open>Scalars (scalar\_values.go)\<close>

definition float_text :: "go_float \<Rightarrow> string" where
  "float_text f = (case f of FNaN \<Rightarrow> ''NaN'' | FInf neg \<Rightarrow> (if neg then ''-Inf'' else ''+Inf'') | FDec s \<Rightarrow> s)"

definition templateScalarString :: "any \<Rightarrow> string \<times> bool" where
  "templateScalarString v =
     (case v of
        AStr s \<Rightarrow> (s, s \<noteq> [])
      | ABool b \<Rightarrow> (format_bool b, True)
      | AInt _ i \<Rightarrow> (itoa i, True)
      | AFloat _ f \<Rightarrow> (float_text f, True)
      | _ \<Rightarrow> ([], False))"

definition templateScalarText :: "any \<Rightarrow> string" where
  "templateScalarText v = (case v of AStr s \<Rightarrow> s | _ \<Rightarrow> fst (templateScalarString v))"

definition finiteTemplateScalar :: "any \<Rightarrow> bool" where
  "finiteTemplateScalar v = (case v of AFloat _ f \<Rightarrow> (case f of FDec _ \<Rightarrow> True | _ \<Rightarrow> False) | _ \<Rightarrow> True)"

definition isTemplateLiteralScalar :: "any \<Rightarrow> bool" where
  "isTemplateLiteralScalar v =
     (case v of AStr _ \<Rightarrow> finiteTemplateScalar v | ABool _ \<Rightarrow> finiteTemplateScalar v
      | AInt _ _ \<Rightarrow> finiteTemplateScalar v | AFloat _ _ \<Rightarrow> finiteTemplateScalar v | _ \<Rightarrow> False)"

definition isUnsignedDigitString :: "string \<Rightarrow> bool" where
  "isUnsignedDigitString s = (s \<noteq> [] \<and> list_all is_digit s)"

definition coerceTemplateScalar :: "string \<Rightarrow> any" where
  "coerceTemplateScalar s =
     (if s = [] then AStr []
      else if equal_fold s ''true'' then ABool True
      else if equal_fold s ''false'' then ABool False
      else if isUnsignedDigitString s then (case parse_int64 s of Inl _ \<Rightarrow> AStr s | Inr i \<Rightarrow> AInt KInt64 i)
      else AStr s)"

text \<open>Coercing never changes what a value prints as, up to the case of a boolean and the leading zeros of a number.\<close>

lemma isUnsignedDigitString_all_digits: "isUnsignedDigitString s \<longleftrightarrow> all_digits s"
  by (simp add: isUnsignedDigitString_def all_digits_def)

lemma coerceTemplateScalar_literal: "isTemplateLiteralScalar (coerceTemplateScalar s)"
  by (simp add: coerceTemplateScalar_def isTemplateLiteralScalar_def finiteTemplateScalar_def split: sum.splits)

lemma coerceTemplateScalar_text:
  "templateScalarText (coerceTemplateScalar s) = s \<or>
   (equal_fold s ''true'' \<and> templateScalarText (coerceTemplateScalar s) = ''true'') \<or>
   (equal_fold s ''false'' \<and> templateScalarText (coerceTemplateScalar s) = ''false'') \<or>
   (all_digits s \<and> templateScalarText (coerceTemplateScalar s) = itoa (int (digits_val s)))"
  by (auto simp: coerceTemplateScalar_def templateScalarText_def templateScalarString_def format_bool_def
      isUnsignedDigitString_all_digits parse_int64_digits split: sum.splits if_splits)

subsection \<open>Reference tokens (refs.go)\<close>

definition name_char :: "char \<Rightarrow> bool" where
  "name_char c = (is_upper c \<or> is_lower c \<or> is_digit c \<or> c = CHR ''_'')"

text \<open>The pattern \<open>^[A-Za-z0-9_]+$\<close>.\<close>

definition templateVariableNamePattern :: "string \<Rightarrow> bool" where
  "templateVariableNamePattern s = (s \<noteq> [] \<and> list_all name_char s)"

text \<open>The pattern \<open>\$\$(var|random)__([A-Za-z0-9_]+)\<close> at the head of a string: the prefix and the name matched.\<close>

definition match_reference :: "string \<Rightarrow> (string \<times> string) option" where
  "match_reference s =
     (let try = (\<lambda>p. if has_prefix s p
                     then (case takeWhile name_char (drop (length p) s) of [] \<Rightarrow> None | n \<Rightarrow> Some (p, n))
                     else None)
      in case try ''$$var__'' of Some r \<Rightarrow> Some r | None \<Rightarrow> try ''$$random__'')"

text \<open>A string cut into plain bytes and the matches of the pattern, leftmost first, none overlapping.\<close>

datatype template_segment = Plain char | Reference string string

definition segment_text :: "template_segment \<Rightarrow> string" where
  "segment_text g = (case g of Plain c \<Rightarrow> [c] | Reference p n \<Rightarrow> p @ n)"

lemma match_reference_Some:
  assumes "match_reference s = Some (p, n)"
  shows "has_prefix s (p @ n)" "p = ''$$var__'' \<or> p = ''$$random__''" "templateVariableNamePattern n"
proof -
  have key: "has_prefix s (p @ n) \<and> n \<noteq> [] \<and> list_all name_char n"
    if a: "has_prefix s p" and b: "n = takeWhile name_char (drop (length p) s)" and c: "n \<noteq> []"
  proof -
    obtain r where s: "s = p @ r" using a unfolding has_prefix_iff by blast
    then have "n = takeWhile name_char r" using b by simp
    then have "r = n @ dropWhile name_char r" by simp
    then have "has_prefix s (p @ n)" using s unfolding has_prefix_iff by (metis append_assoc)
    moreover have "list_all name_char n"
      using \<open>n = takeWhile name_char r\<close> by (auto simp: list_all_iff dest: set_takeWhileD)
    ultimately show ?thesis using c by simp
  qed
  have shape: "(p = ''$$var__'' \<or> p = ''$$random__'') \<and> has_prefix s p \<and>
      n = takeWhile name_char (drop (length p) s) \<and> n \<noteq> []"
    using assms by (auto simp: match_reference_def Let_def split: if_splits list.splits option.splits)
  then show "has_prefix s (p @ n)" "p = ''$$var__'' \<or> p = ''$$random__''" "templateVariableNamePattern n"
    using key by (auto simp: templateVariableNamePattern_def)
qed

function template_segments :: "string \<Rightarrow> template_segment list" where
  "template_segments [] = []"
| "template_segments (c # s) =
     (case match_reference (c # s) of
        None \<Rightarrow> Plain c # template_segments s
      | Some (p, n) \<Rightarrow> Reference p n # template_segments (drop (length p + length n) (c # s)))"
  by pat_completeness auto
termination
proof (relation "measure length")
  fix c :: char and s r p n
  assume "match_reference (c # s) = Some r" and "(p, n) = r"
  then have "p \<noteq> []" using match_reference_Some(2)[of "c # s" p n] by auto
  then show "(drop (length p + length n) (c # s), c # s) \<in> measure length" by (cases p) auto
qed auto

declare template_segments.simps(2) [simp del]

lemma template_segments_text: "concat (map segment_text (template_segments s)) = s"
proof (induction s rule: template_segments.induct)
  case 1
  then show ?case by simp
next
  case (2 c s)
  show ?case
  proof (cases "match_reference (c # s)")
    case None
    with 2 show ?thesis by (simp add: template_segments.simps(2) segment_text_def)
  next
    case (Some r)
    obtain p n where r: "r = (p, n)" by (cases r)
    obtain t where t: "c # s = p @ n @ t"
      using match_reference_Some(1)[of "c # s" p n] Some r unfolding has_prefix_iff by auto
    have d: "drop (length p + length n) (c # s) = t" unfolding t by simp
    have "concat (map segment_text (template_segments t)) = t"
      using 2(2)[OF Some r[symmetric]] unfolding d by blast
    moreover have "template_segments (c # s) = Reference p n # template_segments t"
      using Some r d by (simp add: template_segments.simps(2))
    ultimately have "concat (map segment_text (template_segments (c # s))) = segment_text (Reference p n) @ t"
      by (simp only: list.map concat.simps)
    then have "concat (map segment_text (template_segments (c # s))) = (p @ n) @ t"
      by (simp only: segment_text_def template_segment.case)
    then show ?thesis unfolding t by simp
  qed
qed

lemma template_segments_names:
  "Reference p n \<in> set (template_segments s) \<Longrightarrow>
   (p = ''$$var__'' \<or> p = ''$$random__'') \<and> templateVariableNamePattern n"
proof (induction s rule: template_segments.induct)
  case 1
  then show ?case by simp
next
  case (2 c s)
  show ?case
  proof (cases "match_reference (c # s)")
    case None
    with 2 show ?thesis by (auto simp: template_segments.simps(2))
  next
    case (Some r)
    obtain q m where r: "r = (q, m)" by (cases r)
    have "template_segments (c # s) = Reference q m # template_segments (drop (length q + length m) (c # s))"
      using Some r by (simp add: template_segments.simps(2))
    with 2(3) consider "p = q \<and> n = m"
      | "Reference p n \<in> set (template_segments (drop (length q + length m) (c # s)))" by auto
    then show ?thesis
    proof cases
      case 1
      then show ?thesis using match_reference_Some(2,3)[of "c # s" q m] Some r by blast
    next
      case 2
      with \<open>r = (q, m)\<close> Some "2.IH"(2)[of r q m] show ?thesis by blast
    qed
  qed
qed

definition containsTemplateVariable :: "string \<Rightarrow> bool" where
  "containsTemplateVariable s = (str_contains s ''$$var__'' \<or> str_contains s ''$$random__'')"

definition ContainsVariable :: "string \<Rightarrow> bool" where
  "ContainsVariable s = containsTemplateVariable s"

definition HasUnresolvedTokens :: "string \<Rightarrow> bool" where
  "HasUnresolvedTokens s = (containsTemplateVariable s \<or> str_contains s ''$$root_domain'')"

lemma no_reference_without_token:
  "\<not> containsTemplateVariable s \<Longrightarrow> template_segments s = map Plain s"
proof (induction s rule: template_segments.induct)
  case 1
  then show ?case by simp
next
  case (2 c s)
  have "match_reference (c # s) = None"
  proof (rule ccontr)
    assume "match_reference (c # s) \<noteq> None"
    then obtain p n where r: "match_reference (c # s) = Some (p, n)" by auto
    then obtain t where "c # s = [] @ p @ (n @ t)"
      using match_reference_Some(1)[of "c # s" p n] unfolding has_prefix_iff by auto
    then have "str_contains (c # s) p" unfolding str_contains_iff by blast
    with 2(3) match_reference_Some(2)[OF r] show False by (auto simp: containsTemplateVariable_def)
  qed
  moreover have "\<not> containsTemplateVariable s"
    using 2(3) by (auto simp: containsTemplateVariable_def)
  ultimately show ?case using 2(1) by (simp add: template_segments.simps(2))
qed

subsection \<open>Token passes (tokens.go)\<close>

fun containsRootDomainToken :: "any \<Rightarrow> bool" where
  "containsRootDomainToken (AMap m) = (\<exists>kv \<in> set m. containsRootDomainToken (snd kv))"
| "containsRootDomainToken (ASeq xs) = (\<exists>x \<in> set xs. containsRootDomainToken x)"
| "containsRootDomainToken (AStr s) = str_contains s ''$$root_domain''"
| "containsRootDomainToken _ = False"

definition replaceRootDomainToken :: "any \<Rightarrow> string \<Rightarrow> any" where
  "replaceRootDomainToken v rootDomain = map_strings (\<lambda>s. replace_all s ''$$root_domain'' rootDomain) v"

text \<open>A document is the root map; walking it walks \<^term>\<open>AMap\<close> of it.\<close>

definition doc_strings :: "(string \<Rightarrow> string) \<Rightarrow> doc \<Rightarrow> doc" where
  "doc_strings f m = map (\<lambda>(k, v). (k, map_strings f v)) m"

definition ApplyRootDomainToken :: "doc \<Rightarrow> string \<Rightarrow> string + doc" where
  "ApplyRootDomainToken rendered rootDomain0 =
     (let rootDomain = trim_space rootDomain0
      in if \<not> containsRootDomainToken (AMap rendered) then Inr rendered
         else if rootDomain = [] then Inl ''$$root_domain requires a selected Marquee with domains_input''
         else Inr (doc_strings (\<lambda>s. replace_all s ''$$root_domain'' rootDomain) rendered))"

definition templateTokenValue :: "string \<Rightarrow> string smap \<Rightarrow> string option" where
  "templateTokenValue token vars = map_of vars (trim_prefix (trim_prefix token ''$$var__'') ''$$random__'')"

definition replaceTemplateTokens :: "string \<Rightarrow> string smap \<Rightarrow> string" where
  "replaceTemplateTokens s vars =
     concat (map (\<lambda>g. case g of Plain c \<Rightarrow> [c]
                      | Reference p n \<Rightarrow>
                          (case templateTokenValue (p @ n) vars of Some v \<Rightarrow> v | None \<Rightarrow> p @ n))
               (template_segments s))"

definition replaceInlineTemplateVariables :: "any \<Rightarrow> string smap \<Rightarrow> any" where
  "replaceInlineTemplateVariables v vars = map_strings (\<lambda>s. replaceTemplateTokens s vars) v"

lemma containsRootDomainToken_iff:
  "containsRootDomainToken a \<longleftrightarrow> (\<exists>s \<in> set (strings_in a). str_contains s ''$$root_domain'')"
  by (induction a rule: containsRootDomainToken.induct) (auto simp: case_prod_beta)

lemma name_char_not_dollar: "list_all name_char n \<Longrightarrow> CHR ''$'' \<notin> set n"
  by (auto simp: list_all_iff name_char_def is_upper_def is_lower_def is_digit_def less_eq_char_def)

lemma templateTokenValue_reference:
  assumes "p = ''$$var__'' \<or> p = ''$$random__''" and "templateVariableNamePattern n"
  shows "templateTokenValue (p @ n) vars = map_of vars n"
proof -
  have nd: "\<not> has_prefix n (CHR ''$'' # q)" for q
    using assms(2) name_char_not_dollar[of n]
    by (cases n) (auto simp: templateVariableNamePattern_def)
  have n1: "trim_prefix n (CHR ''$'' # q) = n" for q using nd by (simp add: trim_prefix_def)
  from assms(1) show ?thesis
  proof
    assume "p = ''$$var__''"
    then have "trim_prefix (p @ n) ''$$var__'' = n" using trim_prefix_append by blast
    then show ?thesis by (simp only: templateTokenValue_def n1)
  next
    assume p: "p = ''$$random__''"
    then have "trim_prefix (p @ n) ''$$var__'' = p @ n" by (simp add: trim_prefix_def)
    moreover have "trim_prefix (p @ n) ''$$random__'' = n" using p trim_prefix_append by blast
    ultimately show ?thesis by (simp only: templateTokenValue_def)
  qed
qed

text \<open>Substitution, segment by segment: each reference to a known name is its value, everything else is kept.\<close>

definition subst_segment :: "string smap \<Rightarrow> template_segment \<Rightarrow> string" where
  "subst_segment vars g =
     (case g of Plain c \<Rightarrow> [c]
      | Reference p n \<Rightarrow> (case map_of vars n of Some v \<Rightarrow> v | None \<Rightarrow> p @ n))"

lemma subst_segment_same_map: "map_of vars = map_of vars' \<Longrightarrow> subst_segment vars = subst_segment vars'"
  by (rule ext) (simp only: subst_segment_def)

lemma replaceTemplateTokens_segments:
  "replaceTemplateTokens s vars = concat (map (subst_segment vars) (template_segments s))"
proof -
  have "map (\<lambda>g. case g of Plain c \<Rightarrow> [c]
      | Reference p n \<Rightarrow> (case templateTokenValue (p @ n) vars of Some v \<Rightarrow> v | None \<Rightarrow> p @ n))
      (template_segments s) = map (subst_segment vars) (template_segments s)"
    using template_segments_names templateTokenValue_reference
    by (intro map_cong refl) (auto simp: subst_segment_def split: template_segment.splits)
  then show ?thesis unfolding replaceTemplateTokens_def by (rule arg_cong)
qed

lemma replaceTemplateTokens_same_map:
  "map_of vars = map_of vars' \<Longrightarrow> replaceTemplateTokens s vars = replaceTemplateTokens s vars'"
  using subst_segment_same_map[of vars vars'] by (simp only: replaceTemplateTokens_segments)

lemma replaceTemplateTokens_no_token: "\<not> containsTemplateVariable s \<Longrightarrow> replaceTemplateTokens s vars = s"
  by (simp add: replaceTemplateTokens_segments no_reference_without_token subst_segment_def o_def)

lemma ApplyRootDomainToken_Inr:
  assumes "ApplyRootDomainToken rendered d = Inr out"
  shows "out = (if containsRootDomainToken (AMap rendered)
     then doc_strings (\<lambda>s. replace_all s ''$$root_domain'' (trim_space d)) rendered else rendered)"
  using assms by (auto simp: ApplyRootDomainToken_def Let_def split: if_splits)

lemma AMap_doc_strings: "AMap (doc_strings f m) = map_strings f (AMap m)"
  by (simp add: doc_strings_def)

lemma map_of_doc_strings: "map_of (doc_strings f m) k = map_option (map_strings f) (map_of m k)"
  by (induction m) (auto simp: doc_strings_def)

lemma wf_doc_strings [simp]: "wf_map (doc_strings f m) = wf_map m"
  by (simp add: wf_map_def doc_strings_def case_prod_beta' comp_def)

subsection \<open>Properties\<close>

text \<open>The root domain pass fails exactly when a token is present and no domain is given. Otherwise it replaces
the token in every string of the document, piece by piece, and leaves a document without the token as it is.\<close>

theorem root_domain_pass:
  "ApplyRootDomainToken rendered d =
     (if \<not> (\<exists>s \<in> set (strings_in (AMap rendered)). str_contains s ''$$root_domain'') then Inr rendered
      else if trim_space d = [] then Inl ''$$root_domain requires a selected Marquee with domains_input''
      else Inr (doc_strings (\<lambda>s. join_str (trim_space d) (split_on s ''$$root_domain'')) rendered))"
  by (simp add: ApplyRootDomainToken_def Let_def containsRootDomainToken_iff replace_all_split
      del: strings_in.simps containsRootDomainToken.simps)

text \<open>Scanning for variable references loses nothing: the segments of a string spell it, every reference found
starts with one of the two prefixes and has a legal variable name, and its value is looked up under that name.\<close>

theorem reference_scan_sound:
  "concat (map segment_text (template_segments s)) = s \<and>
   replaceTemplateTokens s vars = concat (map (subst_segment vars) (template_segments s)) \<and>
   (\<nexists>p n. Reference p n \<in> set (template_segments s) \<and>
      \<not> ((p = ''$$var__'' \<or> p = ''$$random__'') \<and> templateVariableNamePattern n))"
  using template_segments_text replaceTemplateTokens_segments template_segments_names by blast

end
