(* ===== verification/TemplatePaths.thy ===== *)
theory TemplatePaths
  imports TemplateScalars
begin

text \<open>
  \<open>internal/composefile/template/paths.go\<close>: the path bindings a template variable declares, their parsing into
  segments and the write of a value at a path of the document, which creates the maps and list items it needs.
  The lemmas give the round trip of escaping and splitting, and what reading the written path yields.
\<close>

subsection \<open>Bindings of a variable\<close>

definition appendNonEmptyStrings :: "string list \<Rightarrow> string list \<Rightarrow> string list" where
  "appendNonEmptyStrings out vs = out @ filter (\<lambda>s. s \<noteq> []) vs"

definition appendStringPathValues :: "string list \<Rightarrow> any list \<Rightarrow> string list" where
  "appendStringPathValues out vs =
     out @ concat (map (\<lambda>v. case v of AStr s \<Rightarrow> if s = [] then [] else [s] | _ \<Rightarrow> []) vs)"

definition appendTemplatePathValues :: "string list \<Rightarrow> any \<Rightarrow> string list" where
  "appendTemplatePathValues out v =
     (case v of
        AStr s \<Rightarrow> if s \<noteq> [] then out @ [s] else out
      | AStrs ss \<Rightarrow> appendNonEmptyStrings out ss
      | ASeq vs \<Rightarrow> appendStringPathValues out vs
      | _ \<Rightarrow> out)"

definition templatePathValues :: "doc \<Rightarrow> string list" where
  "templatePathValues d =
     (let out = (case any_at d ''path'' of AStr s \<Rightarrow> if s \<noteq> [] then [s] else [] | _ \<Rightarrow> [])
      in appendTemplatePathValues out (any_at d ''paths''))"

subsection \<open>Checks of the binding fields\<close>

definition path_char :: "char \<Rightarrow> bool" where
  "path_char c = (name_char c \<or> c \<in> {CHR ''.'', CHR ''/'', CHR 0x5C, CHR ''['', CHR '']'', CHR ''-''})"

definition templatePathPattern :: "string \<Rightarrow> bool" where
  "templatePathPattern s = (s \<noteq> [] \<and> list_all path_char s)"

definition variable_prefix :: "string \<Rightarrow> string" where
  "variable_prefix name = ''Variable '' @ go_quote name @ '' ''"

definition validateTemplatePathString :: "string \<Rightarrow> string \<Rightarrow> string \<Rightarrow> string list" where
  "validateTemplatePathString name field p =
     (if p = [] then [variable_prefix name @ field @ '' must be a non-empty template path'']
      else if \<not> templatePathPattern p then [variable_prefix name @ field @ '' must match Fibe template path syntax'']
      else [])"

definition indexed_paths :: "nat \<Rightarrow> string" where
  "indexed_paths i = ''paths['' @ itoa (int i) @ '']''"

definition validateTemplatePathStringList :: "string \<Rightarrow> string list \<Rightarrow> string list" where
  "validateTemplatePathStringList name vs =
     concat (map (\<lambda>(i, v). validateTemplatePathString name (indexed_paths i) v) (enumerate 0 vs))"

definition validateTemplatePathAnyList :: "string \<Rightarrow> any list \<Rightarrow> string list" where
  "validateTemplatePathAnyList name vs =
     concat (map (\<lambda>(i, v). case v of
         AStr s \<Rightarrow> validateTemplatePathString name (indexed_paths i) s
       | _ \<Rightarrow> [variable_prefix name @ indexed_paths i @ '' must be a string'']) (enumerate 0 vs))"

definition validateTemplatePathField :: "string \<Rightarrow> string \<Rightarrow> any \<Rightarrow> string list" where
  "validateTemplatePathField name field raw =
     (case raw of AStr p \<Rightarrow> validateTemplatePathString name field p
      | _ \<Rightarrow> [variable_prefix name @ field @ '' must be a string''])"

definition validateTemplatePathsField :: "string \<Rightarrow> any \<Rightarrow> string list" where
  "validateTemplatePathsField name raw =
     (case raw of
        AStr p \<Rightarrow> validateTemplatePathString name ''paths'' p
      | AStrs ps \<Rightarrow> validateTemplatePathStringList name ps
      | ASeq ps \<Rightarrow> validateTemplatePathAnyList name ps
      | _ \<Rightarrow> [variable_prefix name @ ''paths must be a string or an array of strings''])"

definition validateTemplatePathFields :: "string \<Rightarrow> doc \<Rightarrow> string list" where
  "validateTemplatePathFields name d =
     (case map_of d ''path'' of Some raw \<Rightarrow> validateTemplatePathField name ''path'' raw | None \<Rightarrow> []) @
     (case map_of d ''paths'' of Some raw \<Rightarrow> validateTemplatePathsField name raw | None \<Rightarrow> [])"

subsection \<open>Splitting a path\<close>

definition addTemplatePathPart :: "string list \<Rightarrow> string \<Rightarrow> string list" where
  "addTemplatePathPart parts raw =
     (if raw = [] then parts
      else if has_prefix raw ''['' \<and> has_suffix raw '']''
              \<and> isUnsignedDigitString (trim_suffix (trim_prefix raw ''['') '']'')
        then parts @ [trim_suffix (trim_prefix raw ''['') '']'']
      else parts @ [raw])"

fun split_path_loop :: "string list \<Rightarrow> string \<Rightarrow> string \<Rightarrow> string list" where
  "split_path_loop parts cur [] = addTemplatePathPart parts cur"
| "split_path_loop parts cur (c # s) =
     (if c = CHR 0x5C \<and> has_prefix s ''.'' then split_path_loop parts (cur @ ''.'') (tl s)
      else if c = CHR ''.'' then split_path_loop (addTemplatePathPart parts cur) [] s
      else split_path_loop parts (cur @ [c]) s)"

definition splitTemplatePath :: "string \<Rightarrow> string list" where
  "splitTemplatePath p = split_path_loop [] [] (to_valid_runes p)"

subsection \<open>Writing at a path\<close>

definition path_error :: string where
  "path_error = ''path was not found or is not traversable''"

definition longestExistingPathKey :: "doc \<Rightarrow> string list \<Rightarrow> string \<times> nat" where
  "longestExistingPathKey cur parts =
     (case filter (\<lambda>n. has_key cur (join_str ''.'' (take n parts))) (rev [2 ..< Suc (length parts)]) of
        n # _ \<Rightarrow> (join_str ''.'' (take n parts), n)
      | [] \<Rightarrow> (hd parts, 1))"

lemma longestExistingPathKey_pos: "0 < snd (longestExistingPathKey cur parts)"
proof (cases "filter (\<lambda>n. has_key cur (join_str ''.'' (take n parts))) (rev [2 ..< Suc (length parts)])")
  case Nil
  then show ?thesis by (simp add: longestExistingPathKey_def)
next
  case (Cons n ns)
  then have "n \<in> set (rev [2 ..< Suc (length parts)])"
    by (metis filter_eq_ConsD in_set_conv_decomp)
  then have "0 < n" by auto
  then show ?thesis unfolding longestExistingPathKey_def Cons by simp
qed

text \<open>The list extended with \<open>nil\<close> up to an index.\<close>

definition grow :: "any list \<Rightarrow> nat \<Rightarrow> any list" where
  "grow xs i = xs @ replicate (Suc i - length xs) ANil"

function (sequential) setMapPath :: "doc \<Rightarrow> string list \<Rightarrow> any \<Rightarrow> string + doc"
  and setPathChild :: "any \<Rightarrow> string list \<Rightarrow> any \<Rightarrow> bool \<Rightarrow> string + any"
  and setSlicePath :: "any list \<Rightarrow> string list \<Rightarrow> any \<Rightarrow> string + any list" where
  "setMapPath cur [] v = Inl path_error"
| "setMapPath cur (p # ps) v =
     (let key = fst (longestExistingPathKey cur (p # ps));
          rest = drop (snd (longestExistingPathKey cur (p # ps))) (p # ps)
      in if rest = [] then Inr (put_key key v cur)
         else case setPathChild (any_at cur key) rest v (has_key cur key) of
                Inl e \<Rightarrow> Inl e
              | Inr next \<Rightarrow> Inr (put_key key next cur))"
| "setPathChild child [] v exists = Inr v"
| "setPathChild child (p # ps) v exists =
     (case as_map child of
        Some m \<Rightarrow> (case setMapPath m (p # ps) v of Inl e \<Rightarrow> Inl e | Inr m' \<Rightarrow> Inr (AMap m'))
      | None \<Rightarrow>
         (case child of
            ASeq xs \<Rightarrow> (case setSlicePath xs (p # ps) v of Inl e \<Rightarrow> Inl e | Inr xs' \<Rightarrow> Inr (ASeq xs'))
          | _ \<Rightarrow>
             if exists then Inl path_error
             else if isUnsignedDigitString p
               then (case setSlicePath [] (p # ps) v of Inl e \<Rightarrow> Inl e | Inr xs' \<Rightarrow> Inr (ASeq xs'))
             else (case setMapPath [] (p # ps) v of Inl e \<Rightarrow> Inl e | Inr m' \<Rightarrow> Inr (AMap m'))))"
| "setSlicePath xs [] v = Inl path_error"
| "setSlicePath xs (p # ps) v =
     (if \<not> isUnsignedDigitString p then Inl path_error
      else let i = nat (atoi_value p); ys = grow xs i
           in if ps = [] then Inr (ys[i := v])
              else case setPathChild (ys ! i) ps v (i < length xs) of
                     Inl e \<Rightarrow> Inl e
                   | Inr c \<Rightarrow> Inr (ys[i := c]))"
  by pat_completeness auto
termination
proof (relation "measure (\<lambda>x. case x of Inl (_, ps, _) \<Rightarrow> 2 * length ps
    | Inr (Inl (_, ps, _, _)) \<Rightarrow> 2 * length ps + 1 | Inr (Inr (_, ps, _)) \<Rightarrow> 2 * length ps)", goal_cases)
  case (2 cur p ps v key rest)
  have "0 < snd (longestExistingPathKey cur (p # ps))" by (rule longestExistingPathKey_pos)
  with 2 show ?case by auto
qed auto

declare setMapPath.simps(2) [simp del] setPathChild.simps(2) [simp del] setSlicePath.simps(2) [simp del]

definition setPath :: "doc \<Rightarrow> string list \<Rightarrow> any \<Rightarrow> string + doc" where
  "setPath root parts v = (if parts = [] then Inl path_error else setMapPath root parts v)"

subsection \<open>Hostnames\<close>

text \<open>In a \<open>map[any]any\<close> of services the copy that \<open>AsMap\<close> makes is dropped, but a service that is a
\<open>map[string]any\<close> is reached through it, unless a later entry has the same trimmed name.\<close>

fun strip_loose_services :: "(any \<times> any) list \<Rightarrow> (any \<times> any) list" where
  "strip_loose_services [] = []"
| "strip_loose_services ((k, v) # kvs) =
     (k, if string_map_key k \<in> set (map (string_map_key \<circ> fst) kvs) then v
         else (case v of AMap s \<Rightarrow> AMap (del_key ''hostname'' s) | _ \<Rightarrow> v)) # strip_loose_services kvs"

definition strip_service :: "any \<Rightarrow> any" where
  "strip_service raw = (case as_map raw of Some s \<Rightarrow> AMap (del_key ''hostname'' s) | None \<Rightarrow> raw)"

definition stripHostnameFields :: "doc \<Rightarrow> doc" where
  "stripHostnameFields rendered =
     (case any_at rendered ''services'' of
        AMap services \<Rightarrow> put_key ''services'' (AMap (map (\<lambda>(k, v). (k, strip_service v)) services)) rendered
      | AAnyMap kvs \<Rightarrow>
          (if copy_any_map [] kvs = None then rendered
           else put_key ''services'' (AAnyMap (strip_loose_services kvs)) rendered)
      | _ \<Rightarrow> rendered)"

subsection \<open>Escaping and splitting\<close>

fun escape_dots :: "string \<Rightarrow> string" where
  "escape_dots [] = []"
| "escape_dots (c # s) = (if c = CHR ''.'' then [CHR 0x5C, c] else [c]) @ escape_dots s"

text \<open>A segment survives escaping when it is not empty, has no backslash and is not a bracketed index.\<close>

definition plain_segment :: "string \<Rightarrow> bool" where
  "plain_segment s = (s \<noteq> [] \<and> CHR 0x5C \<notin> set s \<and> \<not> has_prefix s ''['' \<and> is_ascii s)"

lemma split_path_loop_escaped:
  "CHR 0x5C \<notin> set s \<Longrightarrow> split_path_loop parts cur (escape_dots s @ t) = split_path_loop parts (cur @ s) t"
  by (induction s arbitrary: cur) auto

lemma split_path_loop_segment:
  "CHR 0x5C \<notin> set s \<Longrightarrow> split_path_loop parts [] (escape_dots s @ t) = split_path_loop parts s t"
  using split_path_loop_escaped[of s parts "[]" t] by simp

lemma addTemplatePathPart_plain: "plain_segment s \<Longrightarrow> addTemplatePathPart parts s = parts @ [s]"
  by (simp add: addTemplatePathPart_def plain_segment_def)

lemma split_path_loop_segments:
  "segs \<noteq> [] \<Longrightarrow> \<forall>s \<in> set segs. plain_segment s \<Longrightarrow>
   split_path_loop parts [] (join_str ''.'' (map escape_dots segs)) = parts @ segs"
proof (induction segs arbitrary: parts rule: induct_list012)
  case 1
  then show ?case by simp
next
  case (2 s)
  then show ?case
    using split_path_loop_segment[of s parts "[]"] by (simp add: addTemplatePathPart_plain plain_segment_def)
next
  case (3 s s' ss)
  then have "split_path_loop (parts @ [s]) [] (join_str ''.'' (map escape_dots (s' # ss))) = (parts @ [s]) @ s' # ss"
    by simp
  with 3(3,4) show ?case
    using split_path_loop_segment[of s parts "''.'' @ join_str ''.'' (map escape_dots (s' # ss))"]
    by (simp add: addTemplatePathPart_plain plain_segment_def)
qed

lemma is_ascii_escape_dots: "is_ascii s \<Longrightarrow> is_ascii (escape_dots s)"
  by (induction s) (auto simp: is_ascii_def)

lemma is_ascii_join: "is_ascii sep \<Longrightarrow> \<forall>s \<in> set ss. is_ascii s \<Longrightarrow> is_ascii (join_str sep ss)"
  by (induction ss rule: induct_list012) (auto simp: is_ascii_def)

lemma splitTemplatePath_escaped:
  assumes "segs \<noteq> []" and "\<forall>s \<in> set segs. plain_segment s"
  shows "splitTemplatePath (join_str ''.'' (map escape_dots segs)) = segs"
proof -
  have "is_ascii (join_str ''.'' (map escape_dots segs))"
    using assms(2) by (intro is_ascii_join) (auto simp: plain_segment_def is_ascii_escape_dots, simp add: is_ascii_def)
  then show ?thesis
    using split_path_loop_segments[OF assms, of "[]"] by (simp add: splitTemplatePath_def to_valid_runes_ascii)
qed

subsection \<open>Reading what was written\<close>

text \<open>The path followed by the same key choice the write makes.\<close>

function read_path :: "any \<Rightarrow> string list \<Rightarrow> any option" where
  "read_path v [] = Some v"
| "read_path v (p # ps) =
     (case v of
        AMap m \<Rightarrow>
          (case map_of m (fst (longestExistingPathKey m (p # ps))) of
             None \<Rightarrow> None
           | Some c \<Rightarrow> read_path c (drop (snd (longestExistingPathKey m (p # ps))) (p # ps)))
      | ASeq xs \<Rightarrow>
          (if isUnsignedDigitString p \<and> nat (atoi_value p) < length xs
           then read_path (xs ! nat (atoi_value p)) ps else None)
      | _ \<Rightarrow> None)"
  by pat_completeness auto
termination
proof (relation "measure (\<lambda>(_, ps). length ps)", goal_cases)
  case (2 v p ps m c)
  have "0 < snd (longestExistingPathKey m (p # ps))" by (rule longestExistingPathKey_pos)
  then show ?case by auto
qed auto

declare read_path.simps(2) [simp del]

lemma join_str_longer: "ps \<noteq> [] \<Longrightarrow> length p < length (join_str ''.'' (p # ps))"
  by (simp add: join_str_Cons)

text \<open>Writing at the chosen key does not change the choice.\<close>

lemma longestExistingPathKey_put:
  assumes "longestExistingPathKey cur (p # ps) = (key, n)"
  shows "longestExistingPathKey (put_key key v cur) (p # ps) = (key, n)"
proof -
  let ?P = "\<lambda>m i. has_key m (join_str ''.'' (take i (p # ps)))"
  let ?is = "rev [2 ..< Suc (length (p # ps))]"
  have "filter (?P (put_key key v cur)) ?is = filter (?P cur) ?is"
  proof (rule filter_cong[OF refl])
    fix i assume i: "i \<in> set ?is"
    show "?P (put_key key v cur) i = ?P cur i"
    proof (cases "filter (?P cur) ?is")
      case Nil
      with assms have "key = p" by (simp add: longestExistingPathKey_def)
      moreover have "2 \<le> i" "ps \<noteq> []" using i by auto
      then obtain j where "i = Suc (Suc j)" by (metis add_2_eq_Suc le_Suc_ex)
      with \<open>ps \<noteq> []\<close> have "length p < length (join_str ''.'' (take i (p # ps)))"
        using join_str_longer[of "take (Suc j) ps" p] by simp
      ultimately show ?thesis by auto
    next
      case (Cons k ks)
      with assms have "key = join_str ''.'' (take k (p # ps))"
        by (auto simp only: longestExistingPathKey_def list.case prod.inject)
      moreover have "?P cur k" using Cons by (metis filter_eq_ConsD)
      ultimately show ?thesis by auto
    qed
  qed
  with assms show ?thesis by (simp only: longestExistingPathKey_def)
qed

lemma as_map_AMap_cases:
  "as_map a = None \<Longrightarrow> (case a of AMap m \<Rightarrow> f m | ASeq xs \<Rightarrow> g xs | _ \<Rightarrow> h) = (case a of ASeq xs \<Rightarrow> g xs | _ \<Rightarrow> h)"
  by (cases a) auto

lemma written_path_read:
  "setMapPath cur ps v = Inr m \<Longrightarrow> read_path (AMap m) ps = Some v"
  "setPathChild child ps v ex = Inr a \<Longrightarrow> read_path a ps = Some v"
  "setSlicePath xs ps v = Inr ys \<Longrightarrow> read_path (ASeq ys) ps = Some v"
proof (induction cur ps v and child ps v ex and xs ps v arbitrary: m and a and ys
    rule: setMapPath_setPathChild_setSlicePath.induct)
  case (2 cur p ps v)
  obtain key n where kn: "longestExistingPathKey cur (p # ps) = (key, n)" by fastforce
  obtain c where "m = put_key key c cur" and "read_path c (drop n (p # ps)) = Some v"
    using 2 kn by (auto simp: setMapPath.simps(2) Let_def split: if_splits sum.splits)
  with longestExistingPathKey_put[OF kn, of c] show ?case
    by (simp add: read_path.simps(2) amap.look_put)
next
  case (4 child p ps v ex)
  then show ?case
    by (auto simp: setPathChild.simps(2) split: option.splits any.splits if_splits sum.splits)
next
  case (6 xs p ps v)
  then show ?case
    by (auto simp: setSlicePath.simps(2) read_path.simps(2) Let_def grow_def split: if_splits sum.splits)
qed auto

lemma setPath_read: "setPath root parts v = Inr root' \<Longrightarrow> read_path (AMap root') parts = Some v"
  by (auto simp: setPath_def written_path_read(1) split: if_splits)

text \<open>A write changes one key of the root, the one its path starts with.\<close>

lemma setPath_frame:
  assumes "setPath root parts v = Inr root'" and "k \<noteq> fst (longestExistingPathKey root parts)"
  shows "map_of root' k = map_of root k"
  using assms by (cases parts) (auto simp: setPath_def setMapPath.simps(2) Let_def amap.look_put split: if_splits sum.splits)

lemma setPath_wf: "setPath root parts v = Inr root' \<Longrightarrow> wf_map root \<Longrightarrow> wf_map root'"
  by (cases parts) (auto simp: setPath_def setMapPath.simps(2) Let_def split: if_splits sum.splits)

text \<open>A list grows to the index written, whatever it is: an index that overflows 64 bits reads as the largest one.\<close>

lemma setSlicePath_length:
  assumes "setSlicePath xs (p # ps) v = Inr ys"
  shows "length ys = max (length xs) (Suc (nat (atoi_value p)))"
  using assms by (auto simp: setSlicePath.simps(2) Let_def grow_def split: if_splits sum.splits)

subsection \<open>Properties\<close>

text \<open>Escaping the dots of path segments, joining them with dots and splitting gives the segments back.\<close>

theorem template_path_roundtrip:
  assumes "segs \<noteq> []" and "\<forall>s \<in> set segs. plain_segment s"
  shows "splitTemplatePath (join_str ''.'' (map escape_dots segs)) = segs"
  using assms by (rule splitTemplatePath_escaped)

theorem template_path_roundtrip_witness:
  "splitTemplatePath (join_str ''.'' (map escape_dots [''services'', ''a.b'', ''0''])) = [''services'', ''a.b'', ''0'']"
  by (rule template_path_roundtrip) code_simp+

text \<open>After a successful write, reading the document at the path gives the value written, and every key of the
root other than the one the path starts with is as it was.\<close>

theorem path_write_read:
  assumes "setPath root parts v = Inr root'"
  shows "read_path (AMap root') parts = Some v \<and>
    (\<forall>k. k \<noteq> fst (longestExistingPathKey root parts) \<longrightarrow> map_of root' k = map_of root k)"
  using setPath_read[OF assms] setPath_frame[OF assms] by blast

theorem path_write_read_witness:
  "\<exists>root'. setPath [(''a.b'', AMap [(''c'', ASeq [])]), (''z'', ANil)] [''a'', ''b'', ''c'', ''1'', ''d''] (AStr ''v'') = Inr root'
     \<and> read_path (AMap root') [''a'', ''b'', ''c'', ''1'', ''d''] = Some (AStr ''v'') \<and> map_of root' ''z'' = Some ANil"
proof -
  let ?root = "[(''a.b'', AMap [(''c'', ASeq [])]), (''z'', ANil)]" and ?p = "[''a'', ''b'', ''c'', ''1'', ''d'']"
  have "fst (longestExistingPathKey ?root ?p) = ''a.b''" by code_simp
  moreover have w: "setPath ?root ?p (AStr ''v'') =
      Inr [(''a.b'', AMap [(''c'', ASeq [ANil, AMap [(''d'', AStr ''v'')]])]), (''z'', ANil)]" by code_simp
  ultimately show ?thesis using path_write_read[OF w] by auto
qed

text \<open>A write at a list index makes the list as long as the index asks for: nothing bounds it, and an index that
overflows 64 bits is taken as the largest one, because the error of the conversion is dropped.\<close>

theorem list_write_unbounded:
  assumes "setSlicePath xs (p # ps) v = Inr ys"
  shows "length ys = max (length xs) (Suc (nat (atoi_value p))) \<and>
    (all_digits p \<and> max_int64 < int (digits_val p) \<longrightarrow> 2 ^ 63 \<le> length ys)"
proof -
  have len: "length ys = max (length xs) (Suc (nat (atoi_value p)))" by (rule setSlicePath_length[OF assms])
  moreover have "2 ^ 63 \<le> length ys" if "all_digits p" "max_int64 < int (digits_val p)"
  proof -
    have "atoi_value p = max_int64" using that by (simp add: atoi_value_def parse_int64_digits)
    then have "Suc (nat (atoi_value p)) = 2 ^ 63" by (simp add: max_int64_def)
    then show ?thesis using len by simp
  qed
  ultimately show ?thesis by blast
qed

theorem list_write_unbounded_witness:
  "length [ANil, ANil, AStr ''v''] = max (length [ANil]) (Suc (nat (atoi_value ''2'')))"
proof -
  have "setSlicePath [ANil] [''2''] (AStr ''v'') = Inr [ANil, ANil, AStr ''v'']" by code_simp
  from list_write_unbounded[OF this] show ?thesis by blast
qed

end
