(* ===== verification/TemplateRefs.thy ===== *)
theory TemplateRefs
  imports TemplatePaths
begin

text \<open>
  \<open>internal/composefile/template/references.go\<close>: which variables a document refers to inline, which of the
  declared ones it never uses, and which path bindings point at a service it does not have. A Go set
  (\<open>map[string]bool\<close>) is the list of its members in one iteration order; the messages are sorted, and the lemmas
  show that the order does not reach them.
\<close>

definition addTemplateVariableReferenceNames :: "string \<Rightarrow> string list" where
  "addTemplateVariableReferenceNames s =
     concat (map (\<lambda>g. case g of Plain _ \<Rightarrow> [] | Reference _ n \<Rightarrow> [n]) (template_segments s))"

definition inlineTemplateVariableNames :: "any \<Rightarrow> string list" where
  "inlineTemplateVariableNames v = remdups (concat (map addTemplateVariableReferenceNames (strings_in v)))"

definition definitionHasPathBinding :: "doc \<Rightarrow> bool" where
  "definitionHasPathBinding d = (templatePathValues d \<noteq> [])"

definition missingInlineTemplateVariables :: "string list \<Rightarrow> doc \<Rightarrow> string list" where
  "missingInlineTemplateVariables names defs = filter (\<lambda>n. \<not> has_key defs n) names"

definition unusedTemplateVariables :: "string list \<Rightarrow> doc \<Rightarrow> string list" where
  "unusedTemplateVariables names defs =
     map fst (filter (\<lambda>(name, raw). \<not> (name = [] \<or> name \<in> set names) \<and>
        \<not> (case as_map raw of Some d \<Rightarrow> definitionHasPathBinding d | None \<Rightarrow> False)) defs)"

definition templateServiceNames :: "any \<Rightarrow> string list" where
  "templateServiceNames v =
     (case as_map v of
        None \<Rightarrow> []
      | Some root \<Rightarrow> (case as_map (any_at root ''services'') of None \<Rightarrow> [] | Some services \<Rightarrow> map fst services))"

definition missingTemplateServiceRoot :: "string \<Rightarrow> string list \<Rightarrow> string" where
  "missingTemplateServiceRoot p services =
     (case splitTemplatePath p of
        a # b # _ \<Rightarrow> if a \<noteq> ''services'' \<or> b \<in> set services then [] else b
      | _ \<Rightarrow> [])"

definition invalidTemplateServicePathItems :: "string \<Rightarrow> any \<Rightarrow> string list \<Rightarrow> string list" where
  "invalidTemplateServicePathItems name raw services =
     (case as_map raw of
        None \<Rightarrow> []
      | Some d \<Rightarrow>
          map (\<lambda>s. name @ '':'' @ s)
            (filter (\<lambda>s. s \<noteq> []) (map (\<lambda>p. missingTemplateServiceRoot p services) (templatePathValues d))))"

definition invalidTemplateServicePaths :: "doc \<Rightarrow> string list \<Rightarrow> string list" where
  "invalidTemplateServicePaths defs services =
     concat (map (\<lambda>(name, raw). invalidTemplateServicePathItems name raw services) defs)"

definition sorted_section :: "string \<Rightarrow> string list \<Rightarrow> string list" where
  "sorted_section title items = (if items = [] then [] else [title @ join_str '', '' (sort items)])"

definition validateTemplateVariableReferences :: "any \<Rightarrow> doc \<Rightarrow> string option" where
  "validateTemplateVariableReferences v defs =
     (let names = inlineTemplateVariableNames v;
          serviceNames = templateServiceNames v;
          missing = missingInlineTemplateVariables names defs;
          unused = unusedTemplateVariables names defs;
          invalidPaths = invalidTemplateServicePaths defs serviceNames
      in if missing = [] \<and> unused = [] \<and> invalidPaths = [] then None
         else Some (join_str ''; ''
           (sorted_section ''undeclared template variables: '' missing @
            sorted_section ''unused template variables: '' unused @
            sorted_section ''template variable paths target missing services: '' invalidPaths)))"

subsection \<open>What an absent error means\<close>

text \<open>A document refers to a name when the scan of one of its strings finds a token of that name.\<close>

definition refers_to :: "any \<Rightarrow> string \<Rightarrow> bool" where
  "refers_to v n = (\<exists>s \<in> set (strings_in v). \<exists>p. Reference p n \<in> set (template_segments s))"

lemma addTemplateVariableReferenceNames_iff:
  "n \<in> set (addTemplateVariableReferenceNames s) \<longleftrightarrow> (\<exists>p. Reference p n \<in> set (template_segments s))"
  by (force simp: addTemplateVariableReferenceNames_def split: template_segment.splits)

lemma inlineTemplateVariableNames_iff: "n \<in> set (inlineTemplateVariableNames v) \<longleftrightarrow> refers_to v n"
  by (simp add: inlineTemplateVariableNames_def refers_to_def addTemplateVariableReferenceNames_iff)

lemma distinct_inlineTemplateVariableNames [simp]: "distinct (inlineTemplateVariableNames v)"
  by (simp add: inlineTemplateVariableNames_def)

lemma sorted_section_empty [simp]: "sorted_section t xs = [] \<longleftrightarrow> xs = []"
  by (simp add: sorted_section_def)

lemma validateTemplateVariableReferences_None:
  assumes "validateTemplateVariableReferences v defs = None"
  shows "refers_to v n \<Longrightarrow> has_key defs n"
    and "(n, raw) \<in> set defs \<Longrightarrow> n \<noteq> [] \<Longrightarrow> \<not> refers_to v n \<Longrightarrow>
           \<exists>d. as_map raw = Some d \<and> templatePathValues d \<noteq> []"
    and "(n, raw) \<in> set defs \<Longrightarrow> as_map raw = Some d \<Longrightarrow> p \<in> set (templatePathValues d) \<Longrightarrow>
           missingTemplateServiceRoot p (templateServiceNames v) = []"
proof -
  have miss: "missingInlineTemplateVariables (inlineTemplateVariableNames v) defs = []"
    and un: "unusedTemplateVariables (inlineTemplateVariableNames v) defs = []"
    and inv: "invalidTemplateServicePaths defs (templateServiceNames v) = []"
    using assms by (auto simp: validateTemplateVariableReferences_def Let_def split: if_splits)
  show "refers_to v n \<Longrightarrow> has_key defs n"
    using miss by (auto simp: missingInlineTemplateVariables_def filter_empty_conv
        inlineTemplateVariableNames_iff)
  show "\<exists>d. as_map raw = Some d \<and> templatePathValues d \<noteq> []"
    if "(n, raw) \<in> set defs" "n \<noteq> []" "\<not> refers_to v n"
    using un that unfolding unusedTemplateVariables_def definitionHasPathBinding_def
    by (force simp: filter_empty_conv inlineTemplateVariableNames_iff split: option.splits)
  show "missingTemplateServiceRoot p (templateServiceNames v) = []"
    if "(n, raw) \<in> set defs" "as_map raw = Some d" "p \<in> set (templatePathValues d)"
    using inv that unfolding invalidTemplateServicePaths_def invalidTemplateServicePathItems_def
    by (fastforce simp: filter_empty_conv)
qed

subsection \<open>The order of a map does not reach the messages\<close>

lemma mset_concat_map: "mset (concat (map f xs)) = (\<Sum>x \<in># mset xs. mset (f x))"
  by (induction xs) auto

lemma mset_concat_map_perm: "mset xs = mset ys \<Longrightarrow> mset (concat (map f xs)) = mset (concat (map f ys))"
  by (simp only: mset_concat_map)

lemma sort_perm: "mset xs = mset ys \<Longrightarrow> sort xs = sort ys"
  by (metis sorted_list_of_multiset_mset)

lemma sorted_section_perm: "mset xs = mset ys \<Longrightarrow> sorted_section t xs = sorted_section t ys"
  using sort_perm[of xs ys] by (auto simp: sorted_section_def)

lemma empty_perm: "mset xs = mset ys \<Longrightarrow> xs = [] \<longleftrightarrow> ys = []"
  by auto

lemma has_key_perm:
  assumes "mset m = mset n"
  shows "has_key m k = has_key n k"
  using assms by (simp only: has_key_iff set_mset_mset[symmetric])

lemma validateTemplateVariableReferences_perm:
  assumes p: "mset defs = mset defs'"
  shows "validateTemplateVariableReferences v defs = validateTemplateVariableReferences v defs'"
proof -
  have m: "missingInlineTemplateVariables names defs = missingInlineTemplateVariables names defs'" for names
    unfolding missingInlineTemplateVariables_def has_key_perm[OF p] by (rule refl)
  have u: "mset (unusedTemplateVariables names defs) = mset (unusedTemplateVariables names defs')" for names
    unfolding unusedTemplateVariables_def by (simp only: mset_map mset_filter p)
  have i: "mset (invalidTemplateServicePaths defs ss) = mset (invalidTemplateServicePaths defs' ss)" for ss
    unfolding invalidTemplateServicePaths_def by (rule mset_concat_map_perm[OF p])
  show ?thesis
    unfolding validateTemplateVariableReferences_def Let_def m sorted_section_perm[OF u]
      sorted_section_perm[OF i] empty_perm[OF u] empty_perm[OF i] by (rule refl)
qed

end
