(* ===== verification/TemplateValues.thy ===== *)
theory TemplateValues
  imports TemplateRefs
begin

text \<open>
  \<open>internal/composefile/template\<close>, the variables' definitions and values: \<open>values.go\<close>, \<open>validation.go\<close>,
  \<open>declarations.go\<close> and \<open>random.go\<close>. The regular expressions of \<open>validation\<close> fields belong to the \<open>regexp2\<close>
  package: a definition that uses them takes the package's compile function, whose result matches a value or fails
  (the 500 ms limit is one such failure). A source of random bytes is a function of its own state.
\<close>

type_synonym regex_engine = "string \<Rightarrow> string + (string \<Rightarrow> string + bool)"

text \<open>\<open>readRandomBytes(b[:])\<close>: an error, or the count returned and the sixteen bytes left in \<open>b\<close>.\<close>

type_synonym 'r random_source = "'r \<Rightarrow> (string + int \<times> string) \<times> 'r"

definition random_bytes :: "string \<Rightarrow> string" where
  "random_bytes bs = take 16 (bs @ replicate 16 (CHR 0x00))"

definition RandomSecret :: "'r random_source \<Rightarrow> 'r \<Rightarrow> (string + string) \<times> 'r" where
  "RandomSecret rd r =
     (case rd r of
        (Inl e, r') \<Rightarrow> (Inl e, r')
      | (Inr (n, bs), r') \<Rightarrow>
          (if n \<noteq> 16 then (Inl (''random source returned '' @ itoa n @ '' bytes, want 16''), r')
           else (Inr (concat (map hex2 (random_bytes bs))), r')))"

subsection \<open>Patterns and defaults (validation.go)\<close>

definition forbiddenTemplateDefaultTokens :: "string list" where
  "forbiddenTemplateDefaultTokens = [''$$var__'', ''$$random__'', ''$$root_domain'']"

definition variable_error :: "string \<Rightarrow> string \<Rightarrow> string" where
  "variable_error name msg = ''variable '' @ go_quote name @ '' '' @ msg"

definition validateTemplateDefault :: "string \<Rightarrow> doc \<Rightarrow> string option" where
  "validateTemplateDefault name d =
     (let (text, ok) = templateScalarString (any_at d ''default'')
      in if ok \<and> list_ex (\<lambda>t. str_contains text t) forbiddenTemplateDefaultTokens
         then Some (variable_error name ''default must be a literal'') else None)"

definition validateTemplateVariablePatternFormat :: "string \<Rightarrow> string \<Rightarrow> string option" where
  "validateTemplateVariablePatternFormat name pattern =
     (if \<not> has_prefix pattern ''/'' \<or> \<not> has_suffix pattern ''/'' \<or> length pattern < 2
      then Some (variable_error name ''validation must be wrapped in /.../'') else None)"

definition compileTemplateVariablePattern ::
    "regex_engine \<Rightarrow> string \<Rightarrow> string \<Rightarrow> string + (string \<Rightarrow> string + bool)" where
  "compileTemplateVariablePattern rx name pattern =
     (case validateTemplateVariablePatternFormat name pattern of
        Some e \<Rightarrow> Inl e
      | None \<Rightarrow>
          (case rx (trim_suffix (trim_prefix pattern ''/'') ''/'') of
             Inl e \<Rightarrow> Inl (variable_error name (''validation regex is invalid: '' @ e))
           | Inr re \<Rightarrow> Inr re))"

definition validateTemplateVariablePatternDeclaration :: "regex_engine \<Rightarrow> string \<Rightarrow> doc \<Rightarrow> string option" where
  "validateTemplateVariablePatternDeclaration rx name d =
     (case map_of d ''validation'' of
        Some (AStr pattern) \<Rightarrow>
          (if pattern = [] then None
           else case compileTemplateVariablePattern rx name pattern of Inl e \<Rightarrow> Some e | Inr _ \<Rightarrow> None)
      | _ \<Rightarrow> None)"

definition validateTemplateVariablePattern :: "regex_engine \<Rightarrow> string \<Rightarrow> string \<Rightarrow> string \<Rightarrow> string option" where
  "validateTemplateVariablePattern rx name pattern v =
     (case compileTemplateVariablePattern rx name pattern of
        Inl e \<Rightarrow> Some e
      | Inr re \<Rightarrow>
          (if v = [] then None
           else case re v of
                  Inl e \<Rightarrow> Some (variable_error name (''validation regex evaluation failed: '' @ e))
                | Inr matched \<Rightarrow>
                    (if matched then None else Some (variable_error name ''fails validation pattern''))))"

subsection \<open>Field types (values.go)\<close>

definition validateTemplateVariableNameField :: "string \<Rightarrow> doc \<Rightarrow> string list" where
  "validateTemplateVariableNameField name d =
     (case any_at d ''name'' of
        ANil \<Rightarrow> [variable_prefix name @ ''is missing name'']
      | AStr display \<Rightarrow> if trim_space display = [] then [variable_prefix name @ ''is missing name''] else []
      | _ \<Rightarrow> [variable_prefix name @ ''name must be a string''])"

definition validateTemplateBooleanField :: "string \<Rightarrow> doc \<Rightarrow> string \<Rightarrow> string list" where
  "validateTemplateBooleanField name d field =
     (case map_of d field of
        None \<Rightarrow> []
      | Some (ABool _) \<Rightarrow> []
      | Some _ \<Rightarrow> [variable_prefix name @ field @ '' must be a boolean''])"

definition validateTemplateDefaultField :: "string \<Rightarrow> doc \<Rightarrow> string list" where
  "validateTemplateDefaultField name d =
     (if any_at d ''default'' = ANil \<or> isTemplateLiteralScalar (any_at d ''default'') then []
      else [variable_prefix name @ ''default must be a string, number, boolean, or null''])"

definition validateTemplateValidationField :: "string \<Rightarrow> doc \<Rightarrow> string list" where
  "validateTemplateValidationField name d =
     (case map_of d ''validation'' of
        None \<Rightarrow> []
      | Some (AStr _) \<Rightarrow> []
      | Some _ \<Rightarrow> [variable_prefix name @ ''validation must be a string''])"

definition validateTemplateVariableDefinitionFields :: "string \<Rightarrow> doc \<Rightarrow> string list" where
  "validateTemplateVariableDefinitionFields name d =
     validateTemplateVariableNameField name d @
     validateTemplateBooleanField name d ''required'' @
     validateTemplateBooleanField name d ''random'' @
     validateTemplateDefaultField name d @
     validateTemplateValidationField name d @
     validateTemplatePathFields name d"

subsection \<open>Values (values.go)\<close>

record value_result =
  vr_value :: any
  vr_has_value :: bool
  vr_err :: "string option"

definition templateVariableValue ::
    "'r random_source \<Rightarrow> string \<Rightarrow> doc \<Rightarrow> string smap \<Rightarrow> 'r \<Rightarrow> value_result \<times> 'r" where
  "templateVariableValue rd name d provided r =
     (if str_at provided name \<noteq> []
      then (\<lparr>vr_value = coerceTemplateScalar (str_at provided name), vr_has_value = True, vr_err = None\<rparr>, r)
      else let (text, ok) = templateScalarString (any_at d ''default'') in
        if ok then (\<lparr>vr_value = coerceTemplateScalar text, vr_has_value = True, vr_err = None\<rparr>, r)
        else if any_at d ''random'' = ABool True
        then (case RandomSecret rd r of
                (Inl e, r') \<Rightarrow>
                  (\<lparr>vr_value = ANil, vr_has_value = False,
                    vr_err = Some (variable_error name (''random value generation failed: '' @ e))\<rparr>, r')
              | (Inr secret, r') \<Rightarrow> (\<lparr>vr_value = AStr secret, vr_has_value = True, vr_err = None\<rparr>, r'))
        else (\<lparr>vr_value = ANil, vr_has_value = False, vr_err = None\<rparr>, r))"

definition validateTemplateVariableValuePattern :: "regex_engine \<Rightarrow> string \<Rightarrow> doc \<Rightarrow> any \<Rightarrow> string option" where
  "validateTemplateVariableValuePattern rx name d v =
     (case map_of d ''validation'' of
        Some (AStr pattern) \<Rightarrow>
          (if pattern = [] then None else validateTemplateVariablePattern rx name pattern (templateScalarText v))
      | _ \<Rightarrow> None)"

record compiled_definition =
  cd_name :: string
  cd_value :: any
  cd_has_value :: bool

definition templatePlaceholderValue :: string where
  "templatePlaceholderValue = ''placeholder''"

definition inlineTemplateValue :: "compiled_definition \<Rightarrow> string" where
  "inlineTemplateValue c = (if \<not> cd_has_value c then templatePlaceholderValue else templateScalarText (cd_value c))"

definition opt_list :: "'a option \<Rightarrow> 'a list" where
  "opt_list x = (case x of None \<Rightarrow> [] | Some v \<Rightarrow> [v])"

definition compileTemplateVariableDefinitionValue ::
    "regex_engine \<Rightarrow> 'r random_source \<Rightarrow> string \<Rightarrow> doc \<Rightarrow> string smap \<Rightarrow> 'r \<Rightarrow> (value_result \<times> string list) \<times> 'r" where
  "compileTemplateVariableDefinitionValue rx rd name d provided r =
     (let (val, r') = templateVariableValue rd name d provided r
      in ((val,
           validateTemplateVariableDefinitionFields name d @
           opt_list (vr_err val) @
           opt_list (validateTemplateDefault name d) @
           (if any_at d ''required'' = ABool True \<and> \<not> vr_has_value val
            then [variable_prefix name @ ''is required''] else []) @
           opt_list (validateTemplateVariableValuePattern rx name d (vr_value val))), r'))"

text \<open>The compiled definition when the name and the shape are right, and the errors.\<close>

definition compileTemplateVariableDefinition ::
    "regex_engine \<Rightarrow> 'r random_source \<Rightarrow> string \<Rightarrow> any \<Rightarrow> string smap \<Rightarrow> 'r
     \<Rightarrow> (compiled_definition option \<times> string list) \<times> 'r" where
  "compileTemplateVariableDefinition rx rd key raw provided r =
     (if \<not> templateVariableNamePattern key then ((None, [variable_prefix key @ ''has invalid name'']), r)
      else case as_map raw of
             None \<Rightarrow> ((None, [variable_prefix key @ ''definition must be an object'']), r)
           | Some d \<Rightarrow>
               (let ((val, errs), r') = compileTemplateVariableDefinitionValue rx rd key d provided r
                in ((Some \<lparr>cd_name = key, cd_value = vr_value val, cd_has_value = vr_has_value val\<rparr>, errs), r')))"

record compiled_variables =
  cv_inline :: "string smap"
  cv_path :: doc

definition undeclaredTemplateInputs :: "doc \<Rightarrow> string smap \<Rightarrow> string list" where
  "undeclaredTemplateInputs defs provided =
     map (\<lambda>(k, _). variable_prefix k @ ''is not declared'') (filter (\<lambda>(k, _). \<not> has_key defs k) provided)"

fun compile_definitions ::
    "regex_engine \<Rightarrow> 'r random_source \<Rightarrow> string smap \<Rightarrow> doc \<Rightarrow> compiled_variables \<Rightarrow> string list \<Rightarrow> 'r
     \<Rightarrow> compiled_variables \<times> string list" where
  "compile_definitions rx rd provided [] out errs r = (out, errs)"
| "compile_definitions rx rd provided ((key, raw) # defs) out errs r =
     (let ((c, es), r') = compileTemplateVariableDefinition rx rd key raw provided r;
          out' = (case c of None \<Rightarrow> out
                  | Some d \<Rightarrow> \<lparr>cv_inline = put_key (cd_name d) (inlineTemplateValue d) (cv_inline out),
                             cv_path = put_key (cd_name d) (cd_value d) (cv_path out)\<rparr>)
      in compile_definitions rx rd provided defs out' (errs @ es) r')"

definition joined_errors :: "string list \<Rightarrow> string option" where
  "joined_errors errs = (if errs = [] then None else Some (join_str ''; '' (sort errs)))"

definition compileTemplateVariableValues ::
    "regex_engine \<Rightarrow> 'r random_source \<Rightarrow> doc \<Rightarrow> string smap \<Rightarrow> 'r \<Rightarrow> compiled_variables \<times> string option" where
  "compileTemplateVariableValues rx rd defs provided r =
     (let (out, errs) = compile_definitions rx rd provided defs \<lparr>cv_inline = [], cv_path = []\<rparr> [] r
      in (out, joined_errors (errs @ undeclaredTemplateInputs defs provided)))"

subsection \<open>Declarations (declarations.go)\<close>

definition validateTemplateVariableDeclarationFields :: "regex_engine \<Rightarrow> string \<Rightarrow> doc \<Rightarrow> string list" where
  "validateTemplateVariableDeclarationFields rx name d =
     validateTemplateVariableDefinitionFields name d @
     opt_list (validateTemplateDefault name d) @
     opt_list (validateTemplateVariablePatternDeclaration rx name d)"

definition validateTemplateVariableDeclaration :: "regex_engine \<Rightarrow> string \<Rightarrow> any \<Rightarrow> string list" where
  "validateTemplateVariableDeclaration rx key raw =
     (let plain = ''Variable '' @ [CHR 0x22] @ key @ [CHR 0x22] in
      if \<not> templateVariableNamePattern key then [plain @ '' has invalid name'']
      else case as_map raw of
             None \<Rightarrow> [plain @ '' definition must be an object'']
           | Some d \<Rightarrow> validateTemplateVariableDeclarationFields rx key d)"

definition validateTemplateVariableDefinitions :: "regex_engine \<Rightarrow> doc \<Rightarrow> string list" where
  "validateTemplateVariableDefinitions rx defs =
     concat (map (\<lambda>(key, raw). validateTemplateVariableDeclaration rx key raw) defs)"

definition joinTemplateDeclarationErrors :: "string list \<Rightarrow> string option" where
  "joinTemplateDeclarationErrors messages = joined_errors messages"

subsection \<open>What compiling yields\<close>

lemma joined_errors_None [simp]: "joined_errors errs = None \<longleftrightarrow> errs = []"
  by (simp add: joined_errors_def)

lemma joined_errors_perm: "mset xs = mset ys \<Longrightarrow> joined_errors xs = joined_errors ys"
  using sort_perm[of xs ys] by (auto simp: joined_errors_def)

lemma opt_list_Nil [simp]: "opt_list x = [] \<longleftrightarrow> x = None"
  by (simp add: opt_list_def split: option.splits)

lemma validateTemplateVariableDefinitions_perm:
  "mset defs = mset defs' \<Longrightarrow>
   mset (validateTemplateVariableDefinitions rx defs) = mset (validateTemplateVariableDefinitions rx defs')"
  unfolding validateTemplateVariableDefinitions_def by (rule mset_concat_map_perm)

lemma validateTemplateVariableDefinitions_Nil:
  assumes "validateTemplateVariableDefinitions rx defs = []" and "(key, raw) \<in> set defs"
  obtains d where "templateVariableNamePattern key" and "as_map raw = Some d"
    and "validateTemplateVariableDefinitionFields key d = []"
proof -
  have "validateTemplateVariableDeclaration rx key raw = []"
    using assms by (auto simp: validateTemplateVariableDefinitions_def)
  then show ?thesis
    using that by (auto simp: validateTemplateVariableDeclaration_def validateTemplateVariableDeclarationFields_def
        Let_def split: if_splits option.splits)
qed

text \<open>The errors of earlier definitions are kept, and so is every name compiled before.\<close>

lemma compile_definitions_errs_app: "\<exists>es. snd (compile_definitions rx rd provided defs out errs r) = errs @ es"
proof (induction defs arbitrary: out errs r)
  case Nil
  then show ?case by simp
next
  case (Cons kr defs)
  obtain key raw where kr: "kr = (key, raw)" by (cases kr)
  obtain c es r' where c: "compileTemplateVariableDefinition rx rd key raw provided r = ((c, es), r')"
    by (metis prod.exhaust)
  show ?case
    using Cons.IH[of _ "errs @ es" r'] kr c by (fastforce simp: Let_def)
qed

lemma compile_definitions_errs:
  "snd (compile_definitions rx rd provided defs out errs r) = [] \<Longrightarrow> errs = []"
  using compile_definitions_errs_app[of rx rd provided defs out errs r] by auto

lemma compile_definitions_inline_keys:
  assumes "snd (compile_definitions rx rd provided defs out errs r) = []"
  shows "has_key (cv_inline (fst (compile_definitions rx rd provided defs out errs r))) n \<longleftrightarrow>
    has_key (cv_inline out) n \<or> n \<in> fst ` set defs"
  using assms
proof (induction defs arbitrary: out errs r)
  case Nil
  then show ?case by simp
next
  case (Cons kr defs)
  obtain key raw where kr: "kr = (key, raw)" by (cases kr)
  obtain c es r' where c: "compileTemplateVariableDefinition rx rd key raw provided r = ((c, es), r')"
    by (metis prod.exhaust)
  have "es = []"
    using Cons.prems kr c compile_definitions_errs by (fastforce simp: Let_def)
  then obtain d where d: "c = Some d" "cd_name d = key"
    using c by (auto simp: compileTemplateVariableDefinition_def Let_def case_prod_beta
        split: if_splits option.splits)
  show ?case using Cons kr c d by (auto simp: Let_def)
qed

lemma compile_definitions_each:
  assumes "snd (compile_definitions rx rd provided defs out errs r) = []" and "(key, raw) \<in> set defs"
  shows "\<exists>r'. snd (fst (compileTemplateVariableDefinition rx rd key raw provided r')) = []"
  using assms
proof (induction defs arbitrary: out errs r)
  case Nil
  then show ?case by simp
next
  case (Cons kr defs)
  obtain k a where kr: "kr = (k, a)" by (cases kr)
  obtain c es r' where c: "compileTemplateVariableDefinition rx rd k a provided r = ((c, es), r')"
    by (metis prod.exhaust)
  obtain out' where step: "compile_definitions rx rd provided (kr # defs) out errs r =
      compile_definitions rx rd provided defs out' (errs @ es) r'"
    using kr c by (simp add: Let_def)
  show ?case
  proof (cases "kr = (key, raw)")
    case True
    have "es = []" using Cons.prems(1) compile_definitions_errs unfolding step by fastforce
    then show ?thesis using True kr c by (intro exI[of _ r]) simp
  next
    case False
    with Cons.prems Cons.IH[of out' "errs @ es" r'] show ?thesis unfolding step by auto
  qed
qed

text \<open>A value that a variable takes when it compiles without error: supplied, default or random.\<close>

definition has_source :: "string smap \<Rightarrow> string \<Rightarrow> doc \<Rightarrow> bool" where
  "has_source provided n d =
     (str_at provided n \<noteq> [] \<or> snd (templateScalarString (any_at d ''default'')) \<or> any_at d ''random'' = ABool True)"

text \<open>The text of a supplied value matches the pattern \<open>/p/\<close> of its variable.\<close>

definition matches_pattern :: "regex_engine \<Rightarrow> string \<Rightarrow> string \<Rightarrow> bool" where
  "matches_pattern rx pattern text =
     (case rx (trim_suffix (trim_prefix pattern ''/'') ''/'') of Inl _ \<Rightarrow> False | Inr re \<Rightarrow> re text = Inr True)"

lemma compiled_definition_checks:
  assumes "snd (fst (compileTemplateVariableDefinition rx rd n raw provided r)) = []" and "as_map raw = Some d"
  shows "any_at d ''required'' = ABool True \<Longrightarrow> has_source provided n d"
    and "map_of d ''validation'' = Some (AStr p) \<Longrightarrow> p \<noteq> [] \<Longrightarrow> str_at provided n \<noteq> [] \<Longrightarrow>
      templateScalarText (coerceTemplateScalar (str_at provided n)) \<noteq> [] \<Longrightarrow>
      matches_pattern rx p (templateScalarText (coerceTemplateScalar (str_at provided n)))"
proof -
  have name: "templateVariableNamePattern n"
    using assms(1) by (auto simp: compileTemplateVariableDefinition_def split: if_splits)
  have errs: "snd (fst (compileTemplateVariableDefinitionValue rx rd n d provided r)) = []"
    using assms name by (simp add: compileTemplateVariableDefinition_def Let_def case_prod_beta)
  show "has_source provided n d" if "any_at d ''required'' = ABool True"
    using errs that by (auto simp: compileTemplateVariableDefinitionValue_def templateVariableValue_def has_source_def
        case_prod_beta split: if_splits)
  show "matches_pattern rx p (templateScalarText (coerceTemplateScalar (str_at provided n)))"
    if "map_of d ''validation'' = Some (AStr p)" "p \<noteq> []" "str_at provided n \<noteq> []"
      "templateScalarText (coerceTemplateScalar (str_at provided n)) \<noteq> []"
  proof -
    have "validateTemplateVariablePattern rx n p (templateScalarText (coerceTemplateScalar (str_at provided n))) = None"
      using errs that by (simp add: compileTemplateVariableDefinitionValue_def templateVariableValue_def
          validateTemplateVariableValuePattern_def case_prod_beta split: if_splits)
    then show ?thesis
      using that(4) by (auto simp: validateTemplateVariablePattern_def compileTemplateVariablePattern_def
          matches_pattern_def split: option.splits sum.splits if_splits)
  qed
qed

end
