(* ===== verification/TemplateRender.thy ===== *)
theory TemplateRender
  imports TemplateValues
begin

text \<open>
  \<open>internal/composefile/template/variables.go\<close> and \<open>declarations.go\<close>: rendering the \<open>x-fibe.gg\<close> variables of a
  document, and checking their declarations without rendering.

  The code keeps two pointers into the document, to the \<open>x-fibe.gg\<close> map and to its \<open>variables\<close> map, and reads
  them again after every path write. The store of the model keeps the document and, for each pointer, nothing
  while the document still holds the map it points to, or the map as it was when a write put another value in its
  place. (A block decoded as a \<open>map[any]any\<close>, which the decoders of the program do not produce, is a copy from
  the start; what its copy shares with the document below the first level is not tracked.)
\<close>

subsection \<open>The block\<close>

record variable_block =
  vb_definitions :: doc
  vb_xfibe :: doc
  vb_has_xfibe :: bool
  vb_has_block :: bool
  vb_invalid_block :: bool

definition templateVariableBlockFrom :: "doc \<Rightarrow> variable_block" where
  "templateVariableBlockFrom rendered =
     (case as_map (any_at rendered ''x-fibe.gg'') of
        None \<Rightarrow> \<lparr>vb_definitions = [], vb_xfibe = [], vb_has_xfibe = False, vb_has_block = False, vb_invalid_block = False\<rparr>
      | Some x \<Rightarrow>
          (case map_of x ''variables'' of
             None \<Rightarrow> \<lparr>vb_definitions = [], vb_xfibe = x, vb_has_xfibe = True, vb_has_block = False, vb_invalid_block = False\<rparr>
           | Some raw \<Rightarrow>
               (case as_map raw of
                  Some defs \<Rightarrow> \<lparr>vb_definitions = defs, vb_xfibe = x, vb_has_xfibe = True, vb_has_block = True,
                                vb_invalid_block = False\<rparr>
                | None \<Rightarrow> \<lparr>vb_definitions = [], vb_xfibe = x, vb_has_xfibe = True, vb_has_block = True,
                           vb_invalid_block = True\<rparr>)))"

definition needsCompilation :: "variable_block \<Rightarrow> doc \<Rightarrow> string smap \<Rightarrow> bool" where
  "needsCompilation b rendered vars =
     (vb_has_block b \<or> vars \<noteq> [] \<or> inlineTemplateVariableNames (AMap rendered) \<noteq> [] \<or>
      containsRootDomainToken (AMap rendered))"

definition ValidateDeclarations :: "regex_engine \<Rightarrow> doc \<Rightarrow> string list" where
  "ValidateDeclarations rx rendered =
     (let block = templateVariableBlockFrom rendered
      in if vb_invalid_block block then [''x-fibe.gg.variables must be an object'']
         else if \<not> needsCompilation block rendered [] then []
         else sort (validateTemplateVariableDefinitions rx (vb_definitions block) @
                    opt_list (validateTemplateVariableReferences (AMap rendered) (vb_definitions block))))"

subsection \<open>Messages of the phases\<close>

fun appendTemplateErrorMessages :: "string list \<Rightarrow> string list \<Rightarrow> string list" where
  "appendTemplateErrorMessages messages [] = messages"
| "appendTemplateErrorMessages messages (m # ms) =
     (if m = [] \<or> m \<in> set messages then appendTemplateErrorMessages messages ms
      else appendTemplateErrorMessages (messages @ [m]) ms)"

definition uniqueTemplateErrorMessages :: "string option list \<Rightarrow> string list" where
  "uniqueTemplateErrorMessages errs =
     fold (\<lambda>e messages. case e of None \<Rightarrow> messages
                        | Some text \<Rightarrow> appendTemplateErrorMessages messages (split_on text ''; '')) errs []"

definition joinTemplateErrors :: "string option list \<Rightarrow> string option" where
  "joinTemplateErrors errs =
     (case uniqueTemplateErrorMessages errs of [] \<Rightarrow> None | ms \<Rightarrow> Some (join_str ''; '' ms))"

subsection \<open>Path writes\<close>

record template_store =
  ts_doc :: doc
  ts_xfibe_copy :: "doc option"
  ts_definitions_copy :: "doc option"

definition map_or_empty :: "any \<Rightarrow> doc" where
  "map_or_empty v = (case v of AMap m \<Rightarrow> m | _ \<Rightarrow> [])"

definition ts_xfibe :: "template_store \<Rightarrow> doc" where
  "ts_xfibe st = (case ts_xfibe_copy st of Some x \<Rightarrow> x | None \<Rightarrow> map_or_empty (any_at (ts_doc st) ''x-fibe.gg''))"

definition ts_definitions :: "template_store \<Rightarrow> doc" where
  "ts_definitions st =
     (case ts_definitions_copy st of Some d \<Rightarrow> d | None \<Rightarrow> map_or_empty (any_at (ts_xfibe st) ''variables''))"

text \<open>The pointers of a block just read.\<close>

definition template_store_of :: "doc \<Rightarrow> template_store" where
  "template_store_of rendered =
     (let block = templateVariableBlockFrom rendered
      in \<lparr>ts_doc = rendered,
          ts_xfibe_copy = (case any_at rendered ''x-fibe.gg'' of AMap _ \<Rightarrow> None | _ \<Rightarrow> Some (vb_xfibe block)),
          ts_definitions_copy = (case any_at (vb_xfibe block) ''variables'' of AMap _ \<Rightarrow> None
                                 | _ \<Rightarrow> Some (vb_definitions block))\<rparr>)"

text \<open>Whether a write replaces the \<open>x-fibe.gg\<close> map as a whole, or its \<open>variables\<close> map.\<close>

definition replaces_xfibe :: "doc \<Rightarrow> string list \<Rightarrow> bool" where
  "replaces_xfibe d parts =
     (let (key, n) = longestExistingPathKey d parts in key = ''x-fibe.gg'' \<and> drop n parts = [])"

definition replaces_definitions :: "doc \<Rightarrow> string list \<Rightarrow> bool" where
  "replaces_definitions d parts =
     (let (key, n) = longestExistingPathKey d parts;
          rest = drop n parts;
          (key', n') = longestExistingPathKey (map_or_empty (any_at d ''x-fibe.gg'')) rest
      in key = ''x-fibe.gg'' \<and> rest \<noteq> [] \<and> key' = ''variables'' \<and> drop n' rest = [])"

definition write_path :: "template_store \<Rightarrow> string list \<Rightarrow> any \<Rightarrow> string + template_store" where
  "write_path st parts v =
     (case setPath (ts_doc st) parts v of
        Inl e \<Rightarrow> Inl e
      | Inr d \<Rightarrow>
          (let freeze_x = (parts \<noteq> [] \<and> replaces_xfibe (ts_doc st) parts);
               freeze_d = (parts \<noteq> [] \<and> ts_xfibe_copy st = None \<and> replaces_definitions (ts_doc st) parts)
           in Inr \<lparr>ts_doc = d,
                   ts_xfibe_copy = (if freeze_x then Some (ts_xfibe st) else ts_xfibe_copy st),
                   ts_definitions_copy = (if freeze_x \<or> freeze_d then Some (ts_definitions st)
                                          else ts_definitions_copy st)\<rparr>))"

fun write_paths :: "string \<Rightarrow> any \<Rightarrow> string list \<Rightarrow> string list \<times> template_store \<Rightarrow> string list \<times> template_store" where
  "write_paths name v [] (errs, st) = (errs, st)"
| "write_paths name v (p # ps) (errs, st) =
     (case write_path st (splitTemplatePath p) v of
        Inl e \<Rightarrow>
          write_paths name v ps
            (errs @ [variable_prefix name @ ''path '' @ go_quote p @ '' could not be written: '' @ e], st)
      | Inr st' \<Rightarrow> write_paths name v ps (errs, st'))"

definition appendTemplatePathWriteErrors ::
    "string \<Rightarrow> any \<Rightarrow> string list \<times> template_store \<Rightarrow> string list \<times> template_store" where
  "appendTemplatePathWriteErrors name v acc =
     (case as_map (any_at (ts_definitions (snd acc)) name) of
        None \<Rightarrow> acc
      | Some d \<Rightarrow> write_paths name v (templatePathValues d) acc)"

definition applyTemplatePathVariables :: "template_store \<Rightarrow> doc \<Rightarrow> string + template_store" where
  "applyTemplatePathVariables st values =
     (let (errs, st') = fold (\<lambda>(name, v). appendTemplatePathWriteErrors name v) values ([], st)
      in case joined_errors errs of Some e \<Rightarrow> Inl e | None \<Rightarrow> Inr st')"

subsection \<open>Rendering\<close>

definition removeTemplateVariablesBlock :: "doc \<Rightarrow> doc \<Rightarrow> doc" where
  "removeTemplateVariablesBlock rendered xfibe =
     (let x = del_key ''variables'' xfibe
      in if x = [] then del_key ''x-fibe.gg'' rendered else put_key ''x-fibe.gg'' (AMap x) rendered)"

definition ApplyVariables :: "regex_engine \<Rightarrow> 'r random_source \<Rightarrow> doc \<Rightarrow> string smap \<Rightarrow> 'r \<Rightarrow> string + doc" where
  "ApplyVariables rx rd rendered vars r =
     (let block = templateVariableBlockFrom rendered
      in if vb_invalid_block block then Inl ''x-fibe.gg.variables must be an object''
         else if \<not> needsCompilation block rendered vars then Inr rendered
         else
           let declarationErr = joinTemplateDeclarationErrors
                 (validateTemplateVariableDefinitions rx (vb_definitions block));
               inlineErr = validateTemplateVariableReferences (AMap rendered) (vb_definitions block);
               (values, compileErr) = compileTemplateVariableValues rx rd (vb_definitions block) vars r
           in case joinTemplateErrors [declarationErr, compileErr, inlineErr] of
                Some e \<Rightarrow> Inl e
              | None \<Rightarrow>
                  (case applyTemplatePathVariables
                          (template_store_of (doc_strings (\<lambda>s. replaceTemplateTokens s (cv_inline values)) rendered))
                          (cv_path values) of
                     Inl e \<Rightarrow> Inl e
                   | Inr st \<Rightarrow>
                       (let stripped = stripHostnameFields (ts_doc st)
                        in if vb_has_xfibe block
                           then Inr (removeTemplateVariablesBlock stripped
                                  (ts_xfibe (st\<lparr>ts_doc := stripped\<rparr>)))
                           else Inr stripped)))"

subsection \<open>No phase's error is lost\<close>

text \<open>Every message starts with a letter, so splitting a joined text at \<open>"; "\<close> leaves a piece that is not empty.\<close>

definition msg_ok :: "string \<Rightarrow> bool" where
  "msg_ok e = (e \<noteq> [] \<and> hd e \<noteq> CHR '';'')"

lemma msg_ok_variable [simp]:
  "msg_ok (variable_prefix n @ t)" "msg_ok (variable_error n t)"
  by (simp_all add: msg_ok_def variable_prefix_def variable_error_def)

lemma in_opt_list [simp]: "e \<in> set (opt_list x) \<longleftrightarrow> x = Some e"
  by (auto simp: opt_list_def split: option.splits)

lemma validateTemplatePathString_ok: "\<forall>e \<in> set (validateTemplatePathString n f p). msg_ok e"
  by (simp add: validateTemplatePathString_def)

lemma concat_map_ok: "(\<And>x. \<forall>e \<in> set (f x). P e) \<Longrightarrow> \<forall>e \<in> set (concat (map f xs)). P e"
  by auto

lemma path_lists_ok:
  "\<forall>e \<in> set (validateTemplatePathStringList n ps). msg_ok e"
  "\<forall>e \<in> set (validateTemplatePathAnyList n vs). msg_ok e"
proof -
  show "\<forall>e \<in> set (validateTemplatePathStringList n ps). msg_ok e"
    unfolding validateTemplatePathStringList_def
    by (rule concat_map_ok) (simp add: case_prod_beta validateTemplatePathString_ok)
  have "\<forall>e \<in> set (case v of AStr s \<Rightarrow> validateTemplatePathString n f s | _ \<Rightarrow> [variable_prefix n @ t]). msg_ok e"
    for v f t by (cases v) (simp_all add: validateTemplatePathString_ok)
  then show "\<forall>e \<in> set (validateTemplatePathAnyList n vs). msg_ok e"
    unfolding validateTemplatePathAnyList_def by (intro concat_map_ok) (simp add: case_prod_beta)
qed

lemma validateTemplatePathFields_ok: "\<forall>e \<in> set (validateTemplatePathFields n d). msg_ok e"
proof -
  have "\<forall>e \<in> set (validateTemplatePathField n f raw). msg_ok e" for f raw
    by (cases raw) (simp_all add: validateTemplatePathField_def validateTemplatePathString_ok)
  moreover have "\<forall>e \<in> set (validateTemplatePathsField n raw). msg_ok e" for raw
    by (cases raw) (simp_all add: validateTemplatePathsField_def validateTemplatePathString_ok path_lists_ok)
  ultimately show ?thesis
    by (cases "map_of d ''path''"; cases "map_of d ''paths''") (auto simp: validateTemplatePathFields_def)
qed

lemma single_field_ok:
  "\<forall>e \<in> set (validateTemplateVariableNameField n d). msg_ok e"
  "\<forall>e \<in> set (validateTemplateBooleanField n d f). msg_ok e"
  "\<forall>e \<in> set (validateTemplateDefaultField n d). msg_ok e"
  "\<forall>e \<in> set (validateTemplateValidationField n d). msg_ok e"
proof -
  show "\<forall>e \<in> set (validateTemplateVariableNameField n d). msg_ok e"
    by (cases "any_at d ''name''") (simp_all add: validateTemplateVariableNameField_def)
  have some: "\<forall>e \<in> set (case raw of ABool b \<Rightarrow> [] | _ \<Rightarrow> [variable_prefix n @ t]). msg_ok e"
    "\<forall>e \<in> set (case raw of AStr s \<Rightarrow> [] | _ \<Rightarrow> [variable_prefix n @ t]). msg_ok e" for raw t
    by (cases raw; simp)+
  show "\<forall>e \<in> set (validateTemplateBooleanField n d f). msg_ok e"
    using some(1) by (cases "map_of d f") (simp_all add: validateTemplateBooleanField_def)
  show "\<forall>e \<in> set (validateTemplateDefaultField n d). msg_ok e"
    by (simp add: validateTemplateDefaultField_def)
  show "\<forall>e \<in> set (validateTemplateValidationField n d). msg_ok e"
    using some(2) by (cases "map_of d ''validation''") (simp_all add: validateTemplateValidationField_def)
qed

lemma definition_fields_ok: "\<forall>e \<in> set (validateTemplateVariableDefinitionFields n d). msg_ok e"
  unfolding validateTemplateVariableDefinitionFields_def set_append ball_Un
  by (intro conjI single_field_ok validateTemplatePathFields_ok)

lemma pattern_errors_ok:
  "validateTemplateDefault n d = Some e \<Longrightarrow> msg_ok e"
  "compileTemplateVariablePattern rx n pat = Inl e \<Longrightarrow> msg_ok e"
  "validateTemplateVariablePattern rx n pat v = Some e \<Longrightarrow> msg_ok e"
  by (auto simp: validateTemplateDefault_def compileTemplateVariablePattern_def validateTemplateVariablePattern_def
      validateTemplateVariablePatternFormat_def Let_def split: if_splits option.splits sum.splits prod.splits)

lemma pattern_field_errors_ok:
  "validateTemplateVariablePatternDeclaration rx n d = Some e \<Longrightarrow> msg_ok e"
  "validateTemplateVariableValuePattern rx n d v = Some e \<Longrightarrow> msg_ok e"
  using pattern_errors_ok(2,3)
  by (auto simp: validateTemplateVariablePatternDeclaration_def validateTemplateVariableValuePattern_def
      split: option.splits any.splits if_splits sum.splits)

lemma declarations_ok: "\<forall>e \<in> set (validateTemplateVariableDefinitions rx defs). msg_ok e"
proof -
  have "msg_ok e" if "e \<in> set (validateTemplateVariableDeclaration rx k raw)" for e k raw
    using that definition_fields_ok
    by (auto simp: validateTemplateVariableDeclaration_def validateTemplateVariableDeclarationFields_def Let_def
        msg_ok_def[of "CHR ''V'' # _"] split: if_splits option.splits
        dest: pattern_errors_ok(1) pattern_field_errors_ok(1))
  then show ?thesis by (auto simp: validateTemplateVariableDefinitions_def)
qed

lemma templateVariableValue_err_ok: "vr_err (fst (templateVariableValue rd n d prov r)) = Some e \<Longrightarrow> msg_ok e"
  by (auto simp: templateVariableValue_def split: if_splits prod.splits sum.splits)

lemma compile_definition_ok:
  "\<forall>e \<in> set (snd (fst (compileTemplateVariableDefinition rx rd k raw prov r))). msg_ok e"
  using definition_fields_ok
  by (auto simp: compileTemplateVariableDefinition_def compileTemplateVariableDefinitionValue_def Let_def
      case_prod_beta split: option.splits
      dest: pattern_errors_ok(1) pattern_field_errors_ok(2) templateVariableValue_err_ok)

lemma compile_definitions_ok:
  "\<forall>e \<in> set errs. msg_ok e \<Longrightarrow>
   \<forall>e \<in> set (snd (compile_definitions rx rd prov defs out errs r)). msg_ok e"
proof (induction defs arbitrary: out errs r)
  case Nil
  then show ?case by simp
next
  case (Cons kr defs)
  obtain k raw where kr: "kr = (k, raw)" by (cases kr)
  have "\<forall>e \<in> set (errs @ snd (fst (compileTemplateVariableDefinition rx rd k raw prov r))). msg_ok e"
    using Cons.prems compile_definition_ok[of rx rd k raw prov r] by auto
  from Cons.IH[OF this] show ?case by (simp add: kr Let_def case_prod_beta)
qed

lemma join_str_hd: "xs \<noteq> [] \<Longrightarrow> hd xs \<noteq> [] \<Longrightarrow> join_str sep xs \<noteq> [] \<and> hd (join_str sep xs) = hd (hd xs)"
  by (cases "tl xs = []") (auto simp: join_str_Cons neq_Nil_conv)

lemma joined_errors_ok:
  assumes "joined_errors errs = Some e" and "\<forall>m \<in> set errs. msg_ok m"
  shows "msg_ok e"
proof -
  have ne: "sort errs \<noteq> []" and e: "e = join_str ''; '' (sort errs)"
    using assms(1) by (auto simp: joined_errors_def split: if_splits) (metis length_0_conv length_sort)
  then have "msg_ok (hd (sort errs))" using assms(2) hd_in_set[OF ne] by simp
  with ne e join_str_hd[OF ne] show ?thesis by (simp add: msg_ok_def)
qed

lemma sorted_section_ok: "msg_ok t \<Longrightarrow> \<forall>e \<in> set (sorted_section t xs). msg_ok e"
  by (simp add: sorted_section_def msg_ok_def)

lemma references_error_ok:
  assumes "validateTemplateVariableReferences v defs = Some e"
  shows "msg_ok e"
proof -
  let ?xs = "sorted_section ''undeclared template variables: ''
      (missingInlineTemplateVariables (inlineTemplateVariableNames v) defs) @
    sorted_section ''unused template variables: '' (unusedTemplateVariables (inlineTemplateVariableNames v) defs) @
    sorted_section ''template variable paths target missing services: ''
      (invalidTemplateServicePaths defs (templateServiceNames v))"
  have e: "e = join_str ''; '' ?xs" and ne: "?xs \<noteq> []"
    using assms by (auto simp only: validateTemplateVariableReferences_def Let_def option.simps append_is_Nil_conv
        sorted_section_empty split: if_splits)
  have "\<forall>x \<in> set ?xs. msg_ok x"
    unfolding set_append ball_Un by (intro conjI sorted_section_ok) (simp_all add: msg_ok_def)
  then have "msg_ok (hd ?xs)" using hd_in_set[OF ne] by blast
  then show ?thesis using join_str_hd[OF ne] unfolding e msg_ok_def by metis
qed

lemma split_on_acc_first: "\<exists>x ps. split_on_acc sep acc s = (rev acc @ x) # ps"
proof (induction sep acc s rule: split_on_acc.induct)
  case (2 sep acc c s)
  then show ?case by (cases "sep \<noteq> [] \<and> has_prefix (c # s) sep") auto
qed auto

lemma msg_ok_first_piece:
  assumes "msg_ok e"
  obtains p ps where "split_on e ''; '' = p # ps" "p \<noteq> []"
proof -
  obtain c s where e: "e = c # s" "c \<noteq> CHR '';''" using assms by (cases e) (auto simp: msg_ok_def)
  then have "split_on e ''; '' = split_on_acc ''; '' [c] s" by (simp add: split_on_def)
  then show ?thesis using split_on_acc_first[of "''; ''" "[c]" s] that by auto
qed

lemma set_appendTemplateErrorMessages:
  "set (appendTemplateErrorMessages ms xs) = set ms \<union> (set xs - {[]})"
  by (induction ms xs rule: appendTemplateErrorMessages.induct) auto

lemma set_uniqueTemplateErrorMessages:
  "set (uniqueTemplateErrorMessages errs) =
     (\<Union>e \<in> set errs. case e of None \<Rightarrow> {} | Some t \<Rightarrow> set (split_on t ''; '') - {[]})"
proof -
  have "set (fold (\<lambda>e messages. case e of None \<Rightarrow> messages
      | Some text \<Rightarrow> appendTemplateErrorMessages messages (split_on text ''; '')) errs ms)
    = set ms \<union> (\<Union>e \<in> set errs. case e of None \<Rightarrow> {} | Some t \<Rightarrow> set (split_on t ''; '') - {[]})" for ms
    by (induction errs arbitrary: ms) (auto simp: set_appendTemplateErrorMessages split: option.splits)
  then show ?thesis by (simp add: uniqueTemplateErrorMessages_def)
qed

lemma joinTemplateErrors_None:
  assumes "joinTemplateErrors errs = None" and "\<And>e. Some e \<in> set errs \<Longrightarrow> msg_ok e"
  shows "Some e \<notin> set errs"
proof
  assume in_errs: "Some e \<in> set errs"
  obtain p ps where "split_on e ''; '' = p # ps" "p \<noteq> []"
    using msg_ok_first_piece[OF assms(2)[OF in_errs]] .
  then have "p \<in> set (uniqueTemplateErrorMessages errs)"
    using in_errs unfolding set_uniqueTemplateErrorMessages by force
  with assms(1) show False by (auto simp: joinTemplateErrors_def split: list.splits)
qed

lemma undeclared_ok: "\<forall>e \<in> set (undeclaredTemplateInputs defs prov). msg_ok e"
  by (auto simp: undeclaredTemplateInputs_def)

subsection \<open>What a successful rendering guarantees\<close>

text \<open>A document that needed rendering and was rendered passed every phase.\<close>

lemma ApplyVariables_phases:
  assumes "ApplyVariables rx rd rendered vars r = Inr out"
    and "needsCompilation (templateVariableBlockFrom rendered) rendered vars"
  shows "validateTemplateVariableDefinitions rx (vb_definitions (templateVariableBlockFrom rendered)) = []"
    and "validateTemplateVariableReferences (AMap rendered) (vb_definitions (templateVariableBlockFrom rendered)) = None"
    and "snd (compileTemplateVariableValues rx rd (vb_definitions (templateVariableBlockFrom rendered)) vars r) = None"
proof -
  let ?defs = "vb_definitions (templateVariableBlockFrom rendered)"
  let ?es = "[joinTemplateDeclarationErrors (validateTemplateVariableDefinitions rx ?defs),
      snd (compileTemplateVariableValues rx rd ?defs vars r),
      validateTemplateVariableReferences (AMap rendered) ?defs]"
  have join: "joinTemplateErrors ?es = None"
    using assms by (auto simp: ApplyVariables_def Let_def case_prod_beta split: if_splits option.splits)
  have ok: "msg_ok e" if es: "Some e \<in> set ?es" for e
  proof -
    have compiled: "\<forall>m \<in> set (snd (compile_definitions rx rd vars ?defs \<lparr>cv_inline = [], cv_path = []\<rparr> [] r)
        @ undeclaredTemplateInputs ?defs vars). msg_ok m"
      unfolding set_append ball_Un by (intro conjI compile_definitions_ok undeclared_ok) simp
    consider "joined_errors (validateTemplateVariableDefinitions rx ?defs) = Some e"
      | "joined_errors (snd (compile_definitions rx rd vars ?defs \<lparr>cv_inline = [], cv_path = []\<rparr> [] r)
          @ undeclaredTemplateInputs ?defs vars) = Some e"
      | "validateTemplateVariableReferences (AMap rendered) ?defs = Some e"
      using es by (auto simp: joinTemplateDeclarationErrors_def compileTemplateVariableValues_def case_prod_beta)
    then show ?thesis
      using joined_errors_ok declarations_ok compiled references_error_ok by cases blast+
  qed
  have none: "\<And>e. Some e \<notin> set ?es" using joinTemplateErrors_None[OF join ok] by blast
  show "validateTemplateVariableDefinitions rx ?defs = []"
    using none by (cases "joined_errors (validateTemplateVariableDefinitions rx ?defs)")
      (auto simp: joinTemplateDeclarationErrors_def)
  show "validateTemplateVariableReferences (AMap rendered) ?defs = None"
    using none by (cases "validateTemplateVariableReferences (AMap rendered) ?defs") auto
  show "snd (compileTemplateVariableValues rx rd ?defs vars r) = None"
    using none by (cases "snd (compileTemplateVariableValues rx rd ?defs vars r)") auto
qed

text \<open>Compiling without an error gives every declared name, and no other, an inline value.\<close>

lemma compiled_inline_keys:
  assumes "snd (compileTemplateVariableValues rx rd defs vars r) = None"
  shows "has_key (cv_inline (fst (compileTemplateVariableValues rx rd defs vars r))) n \<longleftrightarrow> n \<in> fst ` set defs"
    and "\<And>k. has_key vars k \<Longrightarrow> has_key defs k"
proof -
  let ?c = "compile_definitions rx rd vars defs \<lparr>cv_inline = [], cv_path = []\<rparr> [] r"
  have errs: "snd ?c = []" "undeclaredTemplateInputs defs vars = []"
    using assms by (auto simp: compileTemplateVariableValues_def case_prod_beta)
  show "has_key (cv_inline (fst (compileTemplateVariableValues rx rd defs vars r))) n \<longleftrightarrow> n \<in> fst ` set defs"
    using compile_definitions_inline_keys[OF errs(1)]
    by (simp add: compileTemplateVariableValues_def case_prod_beta has_key_def)
  show "has_key defs k" if "has_key vars k" for k
    using errs(2) that by (auto simp: undeclaredTemplateInputs_def filter_empty_conv has_key_iff)
qed

text \<open>So the substitution of an accepted document leaves no reference as it was.\<close>

lemma replaceTemplateTokens_total:
  assumes "\<And>p n. Reference p n \<in> set (template_segments s) \<Longrightarrow> has_key vars n"
  shows "replaceTemplateTokens s vars =
    concat (map (\<lambda>g. case g of Plain c \<Rightarrow> [c] | Reference p n \<Rightarrow> str_at vars n) (template_segments s))"
proof -
  have "subst_segment vars g = (case g of Plain c \<Rightarrow> [c] | Reference p n \<Rightarrow> str_at vars n)"
    if "g \<in> set (template_segments s)" for g
    using assms that by (cases g) (fastforce simp: subst_segment_def str_at_def has_key_def)+
  then show ?thesis unfolding replaceTemplateTokens_segments by (metis map_cong)
qed

text \<open>The result has no \<open>variables\<close> block and no service with a fixed hostname.\<close>

lemma removeTemplateVariablesBlock_spec:
  "\<not> has_key (map_or_empty (any_at (removeTemplateVariablesBlock d x) ''x-fibe.gg'')) ''variables''"
  "k \<noteq> ''x-fibe.gg'' \<Longrightarrow> map_of (removeTemplateVariablesBlock d x) k = map_of d k"
  by (auto simp: removeTemplateVariablesBlock_def Let_def map_or_empty_def has_key_def amap.look_put amap.look_del)

lemma strip_service_no_hostname: "as_map (strip_service raw) = Some s \<Longrightarrow> \<not> has_key s ''hostname''"
  by (auto simp: strip_service_def split: option.splits)

lemma stripHostnameFields_spec:
  assumes "any_at (stripHostnameFields d) ''services'' = AMap services" and "(n, raw) \<in> set services"
    and "as_map raw = Some s"
  shows "\<not> has_key s ''hostname''"
  using assms strip_service_no_hostname
  by (auto simp: stripHostnameFields_def split: any.splits if_splits)

lemma ApplyVariables_output:
  assumes "ApplyVariables rx rd rendered vars r = Inr out"
    and "needsCompilation (templateVariableBlockFrom rendered) rendered vars"
  obtains d x where "out = (if vb_has_xfibe (templateVariableBlockFrom rendered)
      then removeTemplateVariablesBlock (stripHostnameFields d) x else stripHostnameFields d)"
  using assms by (fastforce simp: ApplyVariables_def Let_def case_prod_beta split: if_splits option.splits sum.splits)

lemma ApplyVariables_hostnames:
  assumes "ApplyVariables rx rd rendered vars r = Inr out"
    and "needsCompilation (templateVariableBlockFrom rendered) rendered vars"
    and "any_at out ''services'' = AMap services" and "(n, raw) \<in> set services" and "as_map raw = Some s"
  shows "\<not> has_key s ''hostname''"
proof -
  obtain d x where out: "out = (if vb_has_xfibe (templateVariableBlockFrom rendered)
      then removeTemplateVariablesBlock (stripHostnameFields d) x else stripHostnameFields d)"
    using ApplyVariables_output[OF assms(1,2)] .
  have "any_at out ''services'' = any_at (stripHostnameFields d) ''services''"
    unfolding out any_at_def by (simp add: removeTemplateVariablesBlock_spec(2))
  with assms(3-5) show ?thesis using stripHostnameFields_spec by metis
qed

lemma ApplyVariables_no_variables:
  assumes "ApplyVariables rx rd rendered vars r = Inr out"
    and "needsCompilation (templateVariableBlockFrom rendered) rendered vars"
    and "vb_has_xfibe (templateVariableBlockFrom rendered)"
  shows "\<not> has_key (map_or_empty (any_at out ''x-fibe.gg'')) ''variables''"
  using ApplyVariables_output[OF assms(1,2)] assms(3) removeTemplateVariablesBlock_spec(1) by metis

text \<open>The messages of the declaration phases do not depend on the order of the definitions.\<close>

lemma declaration_phases_perm:
  assumes "mset defs = mset defs'"
  shows "joinTemplateDeclarationErrors (validateTemplateVariableDefinitions rx defs) =
         joinTemplateDeclarationErrors (validateTemplateVariableDefinitions rx defs')"
    and "validateTemplateVariableReferences v defs = validateTemplateVariableReferences v defs'"
  unfolding joinTemplateDeclarationErrors_def
  by (rule joined_errors_perm[OF validateTemplateVariableDefinitions_perm[OF assms]],
      rule validateTemplateVariableReferences_perm[OF assms])

lemma compiled_each:
  assumes "snd (compileTemplateVariableValues rx rd defs vars r) = None" and "(n, raw) \<in> set defs"
  shows "\<exists>r'. snd (fst (compileTemplateVariableDefinition rx rd n raw vars r')) = []"
  using assms by (intro compile_definitions_each) (auto simp: compileTemplateVariableValues_def case_prod_beta)

subsection \<open>Properties\<close>

definition demo_regex :: regex_engine where
  "demo_regex p = Inr (\<lambda>v. Inr (has_prefix v p))"

definition demo_random :: "unit random_source" where
  "demo_random r = (Inr (16, []), r)"

definition demo_document :: doc where
  "demo_document =
     [(''services'', AMap [(''web'', AMap [(''image'', AStr ''x:$$var__tag''), (''hostname'', AStr ''h'')])]),
      (''x-fibe.gg'', AMap [(''variables'', AMap [(''tag'', AMap [(''name'', AStr ''Tag''), (''required'', ABool True),
        (''validation'', AStr ''/v/'')])])])]"

lemma demo_document_renders:
  "needsCompilation (templateVariableBlockFrom demo_document) demo_document [(''tag'', ''v1'')]"
  "ApplyVariables demo_regex demo_random demo_document [(''tag'', ''v1'')] () =
     Inr [(''services'', AMap [(''web'', AMap [(''image'', AStr ''x:v1'')])])]"
  "vb_definitions (templateVariableBlockFrom demo_document) =
     [(''tag'', AMap [(''name'', AStr ''Tag''), (''required'', ABool True), (''validation'', AStr ''/v/'')])]"
  by code_simp+

text \<open>A document that rendering accepts refers to declared variables only, is given values for declared
variables only, and every declaration has a legal name, a well-typed definition and a use, inline or by path. The
errors of the three phases are joined and deduplicated on the way, and none of them is lost.\<close>

theorem rendering_accepts_only_declared:
  assumes "ApplyVariables rx rd rendered vars r = Inr out"
    and "needsCompilation (templateVariableBlockFrom rendered) rendered vars"
  shows "(\<forall>n. refers_to (AMap rendered) n \<longrightarrow> has_key (vb_definitions (templateVariableBlockFrom rendered)) n) \<and>
    (\<forall>k. has_key vars k \<longrightarrow> has_key (vb_definitions (templateVariableBlockFrom rendered)) k) \<and>
    (\<forall>n raw. (n, raw) \<in> set (vb_definitions (templateVariableBlockFrom rendered)) \<longrightarrow>
       templateVariableNamePattern n \<and>
       (\<exists>d. as_map raw = Some d \<and> validateTemplateVariableDefinitionFields n d = [] \<and>
          (refers_to (AMap rendered) n \<or> templatePathValues d \<noteq> [])))"
proof -
  let ?defs = "vb_definitions (templateVariableBlockFrom rendered)"
  note ph = ApplyVariables_phases[OF assms]
  have "templateVariableNamePattern n \<and> (\<exists>d. as_map raw = Some d \<and>
      validateTemplateVariableDefinitionFields n d = [] \<and> (refers_to (AMap rendered) n \<or> templatePathValues d \<noteq> []))"
    if kr: "(n, raw) \<in> set ?defs" for n raw
  proof -
    obtain d where d: "templateVariableNamePattern n" "as_map raw = Some d"
      "validateTemplateVariableDefinitionFields n d = []"
      using validateTemplateVariableDefinitions_Nil[OF ph(1) kr] .
    moreover have "n \<noteq> []" using d(1) by (simp add: templateVariableNamePattern_def)
    ultimately show ?thesis using validateTemplateVariableReferences_None(2)[OF ph(2) kr] by auto
  qed
  then show ?thesis
    using validateTemplateVariableReferences_None(1)[OF ph(2)] compiled_inline_keys(2)[OF ph(3)] by blast
qed

theorem rendering_accepts_only_declared_witness:
  "\<exists>d. as_map (AMap [(''name'', AStr ''Tag''), (''required'', ABool True), (''validation'', AStr ''/v/'')]) = Some d \<and>
     validateTemplateVariableDefinitionFields ''tag'' d = []"
  using rendering_accepts_only_declared[OF demo_document_renders(2,1)] unfolding demo_document_renders(3) by auto

text \<open>In a document that rendering accepts, every required variable has a value, supplied, default or random,
and every value supplied for a variable with a validation pattern matches the pattern, in the form it is written in
after coercion.\<close>

theorem rendering_checks_values:
  assumes "ApplyVariables rx rd rendered vars r = Inr out"
    and "needsCompilation (templateVariableBlockFrom rendered) rendered vars"
    and "(n, raw) \<in> set (vb_definitions (templateVariableBlockFrom rendered))" and "as_map raw = Some d"
  shows "(any_at d ''required'' = ABool True \<longrightarrow> has_source vars n d) \<and>
    (\<forall>p. map_of d ''validation'' = Some (AStr p) \<longrightarrow> p \<noteq> [] \<longrightarrow> str_at vars n \<noteq> [] \<longrightarrow>
       templateScalarText (coerceTemplateScalar (str_at vars n)) \<noteq> [] \<longrightarrow>
       matches_pattern rx p (templateScalarText (coerceTemplateScalar (str_at vars n))))"
proof -
  obtain r' where "snd (fst (compileTemplateVariableDefinition rx rd n raw vars r')) = []"
    using compiled_each[OF ApplyVariables_phases(3)[OF assms(1,2)] assms(3)] by blast
  from compiled_definition_checks[OF this assms(4)] show ?thesis by blast
qed

theorem rendering_checks_values_witness:
  "matches_pattern demo_regex ''/v/'' ''v1''"
proof -
  have "templateScalarText (coerceTemplateScalar (str_at [(''tag'', ''v1'')] ''tag'')) = ''v1''" by code_simp
  then show ?thesis
    using rendering_checks_values[OF demo_document_renders(2,1), of "''tag''"
        "AMap [(''name'', AStr ''Tag''), (''required'', ABool True), (''validation'', AStr ''/v/'')]"
        "[(''name'', AStr ''Tag''), (''required'', ABool True), (''validation'', AStr ''/v/'')]"]
    by (simp add: demo_document_renders(3) str_at_def)
qed

text \<open>A rendered document has no \<open>variables\<close> block left and no service with a fixed hostname.\<close>

theorem rendering_strips_block_and_hostnames:
  assumes "ApplyVariables rx rd rendered vars r = Inr out"
    and "needsCompilation (templateVariableBlockFrom rendered) rendered vars"
    and "any_at out ''services'' = AMap services" and "(n, raw) \<in> set services" and "as_map raw = Some s"
  shows "\<not> has_key s ''hostname'' \<and> (vb_has_xfibe (templateVariableBlockFrom rendered) \<longrightarrow>
    \<not> has_key (map_or_empty (any_at out ''x-fibe.gg'')) ''variables'')"
  using ApplyVariables_hostnames[OF assms] ApplyVariables_no_variables[OF assms(1,2)] by blast

theorem rendering_strips_block_and_hostnames_witness:
  "\<not> has_key [(''image'', AStr ''x:v1'')] ''hostname''"
  using rendering_strips_block_and_hostnames[OF demo_document_renders(2,1),
      of "[(''web'', AMap [(''image'', AStr ''x:v1'')])]" "''web''" "AMap [(''image'', AStr ''x:v1'')]"
        "[(''image'', AStr ''x:v1'')]"]
  by (simp add: any_at_def)

text \<open>Substitution in an accepted document is total: in every string of the document each reference is
replaced by the value compiled for its name, and every other byte is kept.\<close>

theorem rendering_replaces_every_reference:
  assumes "ApplyVariables rx rd rendered vars r = Inr out"
    and "needsCompilation (templateVariableBlockFrom rendered) rendered vars"
    and "s \<in> set (strings_in (AMap rendered))"
  shows "replaceTemplateTokens s (cv_inline (fst (compileTemplateVariableValues rx rd
      (vb_definitions (templateVariableBlockFrom rendered)) vars r))) =
    concat (map (\<lambda>g. case g of Plain c \<Rightarrow> [c] | Reference p n \<Rightarrow>
      str_at (cv_inline (fst (compileTemplateVariableValues rx rd
        (vb_definitions (templateVariableBlockFrom rendered)) vars r))) n) (template_segments s))"
proof (rule replaceTemplateTokens_total)
  fix p n assume "Reference p n \<in> set (template_segments s)"
  then have "refers_to (AMap rendered) n" using assms(3) unfolding refers_to_def by blast
  then show "has_key (cv_inline (fst (compileTemplateVariableValues rx rd
      (vb_definitions (templateVariableBlockFrom rendered)) vars r))) n"
    using validateTemplateVariableReferences_None(1)[OF ApplyVariables_phases(2)[OF assms(1,2)]]
      compiled_inline_keys(1)[OF ApplyVariables_phases(3)[OF assms(1,2)]] has_key_iff by blast
qed

theorem rendering_replaces_every_reference_witness:
  "replaceTemplateTokens ''x:$$var__tag'' (cv_inline (fst (compileTemplateVariableValues demo_regex demo_random
      (vb_definitions (templateVariableBlockFrom demo_document)) [(''tag'', ''v1'')] ()))) = ''x:v1''"
proof -
  have "''x:$$var__tag'' \<in> set (strings_in (AMap demo_document))" by code_simp
  note total = rendering_replaces_every_reference[OF demo_document_renders(2,1) this]
  show ?thesis unfolding total by code_simp
qed

text \<open>What the declaration checks report does not depend on the order in which the definitions are visited.\<close>

theorem declaration_errors_order_independent:
  assumes "mset defs = mset defs'"
  shows "joinTemplateDeclarationErrors (validateTemplateVariableDefinitions rx defs) =
      joinTemplateDeclarationErrors (validateTemplateVariableDefinitions rx defs') \<and>
    validateTemplateVariableReferences v defs = validateTemplateVariableReferences v defs'"
  using declaration_phases_perm[OF assms] by blast

theorem declaration_errors_order_independent_witness:
  "validateTemplateVariableReferences (AStr ''$$var__a'') [(''b'', ANil), (''c'', ANil)] =
   validateTemplateVariableReferences (AStr ''$$var__a'') [(''c'', ANil), (''b'', ANil)]"
  using declaration_errors_order_independent[of "[(''b'', ANil), (''c'', ANil)]" "[(''c'', ANil), (''b'', ANil)]"
      demo_regex "AStr ''$$var__a''"] by simp

definition clash_definition :: "string \<Rightarrow> any" where
  "clash_definition v = AMap [(''name'', AStr v), (''path'', AStr ''services.web.image''), (''default'', AStr v)]"

definition clash_document :: "doc \<Rightarrow> doc" where
  "clash_document defs = [(''services'', AMap [(''web'', AMap [])]), (''x-fibe.gg'', AMap [(''variables'', AMap defs)])]"

text \<open>The order does reach the result of rendering: two variables bound to the same path are accepted, and
the one visited last wins, so two iteration orders of the same definitions give different documents.\<close>

theorem path_clash_depends_on_map_order:
  "ApplyVariables demo_regex demo_random
     (clash_document [(''A'', clash_definition ''one''), (''B'', clash_definition ''two'')]) [] () =
     Inr [(''services'', AMap [(''web'', AMap [(''image'', AStr ''two'')])])] \<and>
   ApplyVariables demo_regex demo_random
     (clash_document [(''B'', clash_definition ''two''), (''A'', clash_definition ''one'')]) [] () =
     Inr [(''services'', AMap [(''web'', AMap [(''image'', AStr ''one'')])])]"
  by (rule conjI; code_simp)

end
