(* ===== verification/GitRepos.thy ===== *)
theory GitRepos
  imports GoUrl
begin

text \<open>
  \<open>internal/git\<close>: which repository targets the program accepts (\<open>repositories.go\<close>) and whether one embeds
  credentials (\<open>credentials.go\<close>). The comparison and redaction of URLs, which print a parsed URL again, are not
  modelled. The lemmas say what an accepted GitHub name is and that the path of an accepted target has no traversal.
\<close>

definition repo_name_char :: "char \<Rightarrow> bool" where
  "repo_name_char c = (is_upper c \<or> is_lower c \<or> is_digit c \<or> c \<in> set ''._-'')"

text \<open>The pattern \<open>^[A-Za-z0-9._-]+$\<close>.\<close>

definition githubRepositoryNamePattern :: "string \<Rightarrow> bool" where
  "githubRepositoryNamePattern s = (s \<noteq> [] \<and> list_all repo_name_char s)"

definition isGitHubHost :: "string \<Rightarrow> bool" where
  "isGitHubHost host = (equal_fold host ''github.com'' \<or> equal_fold host ''www.github.com'')"

definition RepositoryHost :: "string \<Rightarrow> bool" where
  "RepositoryHost raw0 =
     (let raw = trim_space raw0 in
      if raw = [] then False
      else if has_prefix raw ''git@'' then
        (let (userHost, _, ok) = cut_char (CHR '':'') raw
         in if \<not> ok then False
            else let (_, host, ok') = cut_char (CHR ''@'') userHost in ok' \<and> isGitHubHost host)
      else if \<not> str_contains raw ''://'' then False
      else case url_parse raw of None \<Rightarrow> False | Some u \<Rightarrow> isGitHubHost (url_hostname u))"

definition repositorySegmentIsDot :: "string \<Rightarrow> bool" where
  "repositorySegmentIsDot s = (s = ''.'' \<or> s = ''..'')"

definition validatedGitHubFullName :: "string \<Rightarrow> string \<Rightarrow> string option" where
  "validatedGitHubFullName owner0 repo0 =
     (let owner = trim_space owner0; repo = trim_space repo0
      in if \<not> githubRepositoryNamePattern owner \<or> \<not> githubRepositoryNamePattern repo \<or>
            repositorySegmentIsDot owner \<or> repositorySegmentIsDot repo
         then None else Some (owner @ ''/'' @ repo))"

definition githubRepositoryURLScheme :: "string \<Rightarrow> bool" where
  "githubRepositoryURLScheme s = (to_lower s = ''https'' \<or> to_lower s = ''ssh'')"

definition cloneableRepositoryScheme :: "string \<Rightarrow> bool" where
  "cloneableRepositoryScheme s = (to_lower s \<in> {''http'', ''https'', ''ssh'', ''git''})"

definition urlHasQueryOrFragment :: "url \<Rightarrow> bool" where
  "urlHasQueryOrFragment u = (u_force_query u \<or> u_raw_query u \<noteq> [] \<or> u_fragment u \<noteq> [])"

definition repositoryPathSegmentSafe :: "string \<Rightarrow> bool" where
  "repositoryPathSegmentSafe segment =
     (let s = trim_space segment in
      if s = [] then False
      else let s' = (case PathUnescape s of Some d \<Rightarrow> trim_space d | None \<Rightarrow> s)
           in if s' = [] \<or> CHR ''/'' \<in> set s' \<or> CHR 0x5C \<in> set s' then False
              else \<not> repositorySegmentIsDot s')"

definition repositoryPathSegmentsSafe :: "string \<Rightarrow> bool" where
  "repositoryPathSegmentsSafe repoPath =
     (let trimmed = trim_set ''/'' (trim_space repoPath)
      in trimmed \<noteq> [] \<and> list_all repositoryPathSegmentSafe (split_char (CHR ''/'') trimmed))"

definition githubURLFullName :: "string \<Rightarrow> string option" where
  "githubURLFullName raw =
     (case url_parse raw of
        None \<Rightarrow> None
      | Some u \<Rightarrow>
          if \<not> RepositoryHost raw \<or> \<not> githubRepositoryURLScheme (u_scheme u) \<or> urlHasQueryOrFragment u then None
          else if \<not> repositoryPathSegmentsSafe (u_path u) then None
          else case split_char (CHR ''/'') (trim_set ''/'' (u_path u)) of
                 [owner, repo] \<Rightarrow> validatedGitHubFullName owner (trim_suffix repo ''.git'')
               | _ \<Rightarrow> None)"

definition githubSSHFullName :: "string \<Rightarrow> string option" where
  "githubSSHFullName raw =
     (if \<not> RepositoryHost raw then None
      else let (_, repoPath, ok) = cut_char (CHR '':'') raw
           in if \<not> ok then None
              else case split_char (CHR ''/'') (trim_suffix (trim_right_set ''/'' repoPath) ''.git'') of
                     [owner, repo] \<Rightarrow> validatedGitHubFullName owner repo
                   | _ \<Rightarrow> None)"

definition githubShortFullName :: "string \<Rightarrow> string option" where
  "githubShortFullName raw =
     (let (repoSpec, _, _) = cut_char (CHR ''@'') raw
      in case split_char (CHR ''/'') (trim_right_set ''/'' repoSpec) of
           [owner, repo] \<Rightarrow> validatedGitHubFullName owner (trim_suffix repo ''.git'')
         | _ \<Rightarrow> None)"

definition RepositoryFullName :: "string \<Rightarrow> string option" where
  "RepositoryFullName raw0 =
     (let raw = trim_space raw0 in
      if raw = [] then None
      else if has_prefix raw ''git@'' then githubSSHFullName raw
      else if \<not> str_contains raw ''://'' then githubShortFullName raw
      else githubURLFullName raw)"

definition normalizeSCPRepositoryURL :: "string \<Rightarrow> string option" where
  "normalizeSCPRepositoryURL raw =
     (let (userHost, repoPath, ok) = cut_char (CHR '':'') raw in
      if \<not> ok \<or> \<not> repositoryPathSegmentsSafe repoPath
         \<or> list_ex (\<lambda>c. c \<in> set ''/?# '' \<or> c = CHR 0x09 \<or> c = CHR 0x0D \<or> c = CHR 0x0A) userHost
         \<or> list_ex (\<lambda>c. c \<in> set ''?# '' \<or> c = CHR 0x09 \<or> c = CHR 0x0D \<or> c = CHR 0x0A) repoPath
      then None
      else let (user, host, ok') = cut_char (CHR ''@'') userHost
           in if \<not> ok' \<or> user = [] \<or> host = [] then None
              else Some (user @ ''@'' @ to_lower host @ '':'' @ repoPath))"

definition validSCPRepositoryURL :: "string \<Rightarrow> bool" where
  "validSCPRepositoryURL raw = (normalizeSCPRepositoryURL raw \<noteq> None)"

definition CloneableRepositoryURL :: "string \<Rightarrow> bool" where
  "CloneableRepositoryURL raw0 =
     (let raw = trim_space raw0 in
      if raw = [] \<or> list_ex (\<lambda>c. c = CHR '' '' \<or> c = CHR 0x09 \<or> c = CHR 0x0D \<or> c = CHR 0x0A) raw then False
      else if RepositoryHost raw then RepositoryFullName raw \<noteq> None
      else if (case url_parse raw of None \<Rightarrow> False
               | Some u \<Rightarrow> cloneableRepositoryScheme (u_scheme u) \<and> u_host u \<noteq> [] \<and>
                   repositoryPathSegmentsSafe (u_path u) \<and> \<not> urlHasQueryOrFragment u) then True
      else validSCPRepositoryURL raw)"

definition RepositoryURLHasCredentials :: "string \<Rightarrow> bool" where
  "RepositoryURLHasCredentials raw =
     (case url_parse (trim_space raw) of
        None \<Rightarrow> False
      | Some u \<Rightarrow>
          (case u_user u of
             None \<Rightarrow> False
           | Some (_, Some _) \<Rightarrow> True
           | Some (_, None) \<Rightarrow> to_lower (u_scheme u) \<in> {''http'', ''https'', ''git+http'', ''git+https''}))"

text \<open>\<open>strings.Replace(s, "://", "://***@", 1)\<close> on a string that contains the separator.\<close>

fun insert_userinfo :: "string \<Rightarrow> string" where
  "insert_userinfo [] = []"
| "insert_userinfo (c # s) = (if has_prefix (c # s) ''://'' then ''://***@'' @ drop 2 s else c # insert_userinfo s)"

definition RedactRepositoryCredentials :: "string \<Rightarrow> string" where
  "RedactRepositoryCredentials raw =
     (case url_parse (trim_space raw) of
        None \<Rightarrow> raw
      | Some u \<Rightarrow>
          (if u_user u = None \<or> \<not> RepositoryURLHasCredentials (trim_space raw) then raw
           else let redacted = url_string (u\<lparr>u_user := None\<rparr>)
                in if str_contains redacted ''://'' then insert_userinfo redacted else ''***@'' @ redacted))"

definition normalizeRepositoryURL :: "string \<Rightarrow> string" where
  "normalizeRepositoryURL raw0 =
     (let raw = trim_suffix (trim_right_set ''/'' (trim_space raw0)) ''.git''
      in case (case url_parse raw of
                 None \<Rightarrow> None
               | Some u \<Rightarrow> if u_scheme u \<noteq> [] \<and> u_host u \<noteq> []
                   then Some (url_string (u\<lparr>u_scheme := to_lower (u_scheme u), u_host := to_lower (u_host u)\<rparr>)) else None) of
           Some t \<Rightarrow> t
         | None \<Rightarrow> (case normalizeSCPRepositoryURL raw of Some t \<Rightarrow> t | None \<Rightarrow> raw))"

definition SameRepositoryURL :: "string \<Rightarrow> string \<Rightarrow> bool" where
  "SameRepositoryURL left right =
     (case RepositoryFullName left of
        Some l \<Rightarrow> (case RepositoryFullName right of None \<Rightarrow> False | Some r \<Rightarrow> equal_fold l r)
      | None \<Rightarrow> normalizeRepositoryURL left = normalizeRepositoryURL right)"

subsection \<open>Facts\<close>

definition github_name :: "string \<Rightarrow> bool" where
  "github_name s = (githubRepositoryNamePattern s \<and> \<not> repositorySegmentIsDot s)"

lemma repo_name_char_plain:
  "repo_name_char c \<Longrightarrow> word_char c \<and> c \<noteq> CHR ''/'' \<and> c \<noteq> CHR ''@'' \<and> c \<noteq> CHR '':''"
  by (auto simp: repo_name_char_def word_char_def is_upper_def is_lower_def is_digit_def less_eq_char_def)

lemma github_name_chars: "github_name s \<Longrightarrow> c \<in> set s \<Longrightarrow> repo_name_char c"
  by (auto simp: github_name_def githubRepositoryNamePattern_def list_all_iff)

lemma github_name_trim: "github_name s \<Longrightarrow> trim_space s = s"
  using github_name_chars repo_name_char_plain by (intro trim_space_words) blast

lemma github_name_no_slash: "github_name s \<Longrightarrow> CHR ''/'' \<notin> set s"
  using github_name_chars repo_name_char_plain by blast

lemma validatedGitHubFullName_Some:
  "validatedGitHubFullName o' r = Some f \<Longrightarrow> \<exists>owner repo. f = owner @ ''/'' @ repo \<and> github_name owner \<and> github_name repo"
  by (auto simp: validatedGitHubFullName_def github_name_def Let_def split: if_splits)

lemma validatedGitHubFullName_names:
  "github_name owner \<Longrightarrow> github_name repo \<Longrightarrow> validatedGitHubFullName owner repo = Some (owner @ ''/'' @ repo)"
  by (simp add: validatedGitHubFullName_def github_name_trim Let_def) (simp add: github_name_def)

lemma RepositoryFullName_Some:
  assumes "RepositoryFullName raw = Some f"
  shows "\<exists>owner repo. f = owner @ ''/'' @ repo \<and> github_name owner \<and> github_name repo"
proof -
  have "\<exists>o' r. validatedGitHubFullName o' r = Some f"
    using assms by (auto simp: RepositoryFullName_def githubSSHFullName_def githubShortFullName_def
        githubURLFullName_def Let_def split: if_splits prod.splits option.splits list.splits)
  then show ?thesis using validatedGitHubFullName_Some by blast
qed

lemma trim_right_slash_name:
  assumes "github_name s"
  shows "trim_right_set ''/'' (p @ s) = p @ s"
proof -
  have "s \<noteq> []" and "last s \<noteq> CHR ''/''"
    using assms github_name_no_slash[OF assms] last_in_set[of s]
    unfolding github_name_def githubRepositoryNamePattern_def by metis+
  then show ?thesis by (intro trim_right_set_id) simp_all
qed

lemma split_owner_repo:
  "github_name owner \<Longrightarrow> CHR ''/'' \<notin> set repo \<Longrightarrow> split_char (CHR ''/'') (owner @ ''/'' @ repo) = [owner, repo]"
  using split_char_app[of "CHR ''/''" owner repo] by (simp add: split_char_no_sep github_name_no_slash)

lemma github_name_ne: "github_name s \<Longrightarrow> s \<noteq> []"
  by (simp add: github_name_def githubRepositoryNamePattern_def)

lemma full_name_chars:
  assumes "github_name owner" "github_name repo" "c \<in> set (owner @ ''/'' @ repo)"
  shows "word_char c \<and> c \<noteq> CHR ''@'' \<and> c \<noteq> CHR '':''"
  using assms github_name_chars[of owner c] github_name_chars[of repo c] repo_name_char_plain[of c]
  by (auto simp: word_char_def less_eq_char_def)

lemma short_name_fixed:
  assumes "github_name owner" "github_name repo" "\<not> has_suffix repo ''.git''"
    and "tail = [] \<or> (\<exists>ref. tail = CHR ''@'' # ref)"
  shows "githubShortFullName (owner @ ''/'' @ repo @ tail) = Some (owner @ ''/'' @ repo)"
proof -
  let ?s = "owner @ ''/'' @ repo"
  have at: "CHR ''@'' \<notin> set ?s" using full_name_chars[OF assms(1,2)] by blast
  have "fst (cut_char (CHR ''@'') (?s @ tail)) = ?s"
    using assms(4) cut_char_absent[OF at] cut_char_found[OF at] by auto
  then obtain x y where cut: "cut_char (CHR ''@'') (owner @ ''/'' @ repo @ tail) = (?s, x, y)"
    by (metis append.assoc prod.collapse)
  have "trim_right_set ''/'' ?s = ?s"
    using trim_right_slash_name[OF assms(2), of "owner @ ''/''"] by simp
  moreover have "split_char (CHR ''/'') ?s = [owner, repo]"
    using split_owner_repo[OF assms(1) github_name_no_slash[OF assms(2)]] .
  ultimately show ?thesis
    using cut trim_suffix_not[OF assms(3)] validatedGitHubFullName_names[OF assms(1,2)]
    by (simp add: githubShortFullName_def)
qed

lemma has_suffix_after_sep: "c \<notin> set p \<Longrightarrow> has_suffix (a @ c # b) p \<longleftrightarrow> has_suffix b p"
  using has_prefix_solid[of c "rev p" "rev b" "rev a"] by (simp add: has_suffix_def)

lemma github_com_host: "isGitHubHost ''github.com''"
  by code_simp

lemma ssh_name_fixed:
  assumes "github_name owner" "github_name repo" "dotgit = [] \<and> \<not> has_suffix repo ''.git'' \<or> dotgit = ''.git''"
    and "trim_space (''git@github.com:'' @ owner @ ''/'' @ repo @ dotgit) = ''git@github.com:'' @ owner @ ''/'' @ repo @ dotgit"
  shows "githubSSHFullName (''git@github.com:'' @ owner @ ''/'' @ repo @ dotgit) = Some (owner @ ''/'' @ repo)"
proof -
  let ?p = "owner @ ''/'' @ repo @ dotgit" and ?raw = "''git@github.com:'' @ owner @ ''/'' @ repo @ dotgit"
  have cut: "cut_char (CHR '':'') ?raw = (''git@github.com'', ?p, True)"
    using cut_char_found[of "CHR '':''" "''git@github.com''" ?p] by simp
  have "cut_char (CHR ''@'') ''git@github.com'' = (''git'', ''github.com'', True)" by code_simp
  then have host: "RepositoryHost ?raw"
    using cut assms(4) github_com_host by (simp add: RepositoryHost_def)
  have last: "last ?p \<noteq> CHR ''/''"
  proof -
    have "last repo \<noteq> CHR ''/''"
      using github_name_ne[OF assms(2)] last_in_set[of repo] github_name_no_slash[OF assms(2)] by metis
    then show ?thesis using assms(3) github_name_ne[OF assms(2)] by auto
  qed
  then have "trim_right_set ''/'' ?p = ?p" by (intro trim_right_set_id) simp_all
  moreover have "trim_suffix ?p ''.git'' = owner @ ''/'' @ repo"
  proof (cases "dotgit = ''.git''")
    case True
    then show ?thesis using trim_suffix_append[of "owner @ ''/'' @ repo" "''.git''"] by simp
  next
    case False
    with assms(3) have suf: "dotgit = []" "\<not> has_suffix repo ''.git''" by auto
    have "\<not> has_suffix (owner @ ''/'' @ repo) ''.git''"
      using has_suffix_after_sep[of "CHR ''/''" "''.git''" owner repo] suf(2) by simp
    with suf(1) show ?thesis by (simp add: trim_suffix_not)
  qed
  ultimately show ?thesis
    using host cut split_owner_repo[OF assms(1) github_name_no_slash[OF assms(2)]]
      validatedGitHubFullName_names[OF assms(1,2)] by (simp add: githubSSHFullName_def)
qed

subsection \<open>Properties\<close>

text \<open>A GitHub repository name, from whichever of the accepted spellings it was read, is an owner and a
repository, each a non-empty name of letters, digits, dots, dashes and underscores that is no traversal.\<close>

theorem repository_full_name_shape:
  assumes "RepositoryFullName raw = Some f"
  shows "\<exists>owner repo. f = owner @ ''/'' @ repo \<and> github_name owner \<and> github_name repo"
  using RepositoryFullName_Some[OF assms] .

theorem repository_full_name_shape_witness:
  "\<exists>owner repo. ''fibegg/fibe'' = owner @ ''/'' @ repo \<and> github_name owner \<and> github_name repo"
proof -
  have "RepositoryFullName ''https://github.com/fibegg/fibe.git/'' = Some ''fibegg/fibe''" by code_simp
  from repository_full_name_shape[OF this] show ?thesis .
qed

text \<open>The spellings of one repository agree: the short form, the short form with a reference, and the SSH form
with and without the \<open>.git\<close> ending are read as the same name.\<close>

theorem repository_spellings_agree:
  assumes "github_name owner" and "github_name repo" and "\<not> has_suffix repo ''.git''"
    and "dotgit = [] \<or> dotgit = ''.git''"
  shows "githubShortFullName (owner @ ''/'' @ repo) = Some (owner @ ''/'' @ repo) \<and>
    githubShortFullName (owner @ ''/'' @ repo @ ''@'' @ ref) = Some (owner @ ''/'' @ repo) \<and>
    RepositoryFullName (''git@github.com:'' @ owner @ ''/'' @ repo @ dotgit) = Some (owner @ ''/'' @ repo)"
proof -
  let ?raw = "''git@github.com:'' @ owner @ ''/'' @ repo @ dotgit"
  have w1: "\<forall>c \<in> set ''git@github.com:''. word_char c" and w2: "\<forall>c \<in> set ''.git''. word_char c" by code_simp+
  have w3: "\<forall>c \<in> set owner. word_char c" "\<forall>c \<in> set ''/''. word_char c" "\<forall>c \<in> set repo. word_char c"
    using full_name_chars[OF assms(1,2)] unfolding set_append by blast+
  have w4: "\<forall>c \<in> set dotgit. word_char c"
    using assms(4)
  proof
    assume "dotgit = ''.git''"
    then show ?thesis by (rule ssubst) (rule w2)
  qed simp
  have "\<forall>c \<in> set ?raw. word_char c"
    unfolding set_append ball_Un by (intro conjI w1 w3 w4)
  then have t: "trim_space ?raw = ?raw" by (rule trim_space_words)
  have "githubSSHFullName ?raw = Some (owner @ ''/'' @ repo)"
    using assms(3,4) by (intro ssh_name_fixed[OF assms(1,2) _ t]) blast
  then show ?thesis
    using short_name_fixed[OF assms(1-3), of "[]"] short_name_fixed[OF assms(1-3), of "''@'' @ ref"] t
    by (simp add: RepositoryFullName_def)
qed

theorem repository_spellings_agree_witness:
  "githubShortFullName (''a'' @ ''/'' @ ''b.c'' @ ''@'' @ ''v1'') = Some (''a'' @ ''/'' @ ''b.c'')"
proof -
  have "github_name ''a''" "github_name ''b.c''" "\<not> has_suffix ''b.c'' ''.git''" by code_simp+
  from repository_spellings_agree[OF this, of "''.git''" "''v1''"] show ?thesis by blast
qed

end
