(* ===== verification/ServiceLabels.thy ===== *)
theory ServiceLabels
  imports GoPath Domain TemplateScalars
begin

text \<open>
  \<open>internal/composefile/service\<close>, labels: \<open>labels.go\<close>, \<open>helpers.go\<close> and \<open>label_predicates.go\<close>. Labels come as a
  map or as a list of \<open>KEY=VALUE\<close> items and are read into one string map; the predicates check the values of the
  labels the program acts on. The lemmas relate the two label forms, and say what an accepted path or branch cannot
  contain.
\<close>

subsection \<open>Helpers (helpers.go)\<close>

definition isBlank :: "string \<Rightarrow> bool" where
  "isBlank s = (trim_space s = [])"

definition hasBlankMapKey :: "'v smap \<Rightarrow> bool" where
  "hasBlankMapKey m = (\<exists>kv \<in> set m. trim_space (fst kv) = [])"

fun clean_unique_loop :: "string list \<Rightarrow> string list \<Rightarrow> string list" where
  "clean_unique_loop out [] = out"
| "clean_unique_loop out (v # vs) =
     (let v = trim_space v
      in if v = [] \<or> v \<in> set out then clean_unique_loop out vs else clean_unique_loop (out @ [v]) vs)"

definition cleanUniqueStrings :: "string list \<Rightarrow> string list" where
  "cleanUniqueStrings vs = clean_unique_loop [] vs"

subsection \<open>Labels (labels.go)\<close>

definition allowedFibeLabels :: "string list" where
  "allowedFibeLabels = map (\<lambda>s. ''fibe.gg/'' @ s)
     [''repo_url'', ''source_mount'', ''dockerfile'', ''branch'', ''start_command'', ''port'', ''visibility'',
      ''subdomain'', ''path_rule'', ''production'', ''build_target'', ''build_args'']"

definition booleanFibeLabels :: "string list" where
  "booleanFibeLabels = [''fibe.gg/production'']"

definition zerodowntime_reason :: string where
  "zerodowntime_reason =
     ''zero-downtime and healthcheck labels are outside fibe-distilled'' @ [CHR 0x27] @ ''s stateless runtime scope''"

definition unsupportedFibeLabelReasons :: "string smap" where
  "unsupportedFibeLabelReasons =
     [(''fibe.gg/env_file'', ''env-file default resolution is outside fibe-distilled; use explicit launch env overrides or Compose environment values''),
      (''fibe.gg/job_watch'', ''is outside fibe-distilled; job-watch services belong to Fibe Tricks/job-mode Playgrounds''),
      (''fibe.gg/zerodowntime'', zerodowntime_reason),
      (''fibe.gg/healthcheck_path'', zerodowntime_reason),
      (''fibe.gg/healthcheck_interval'', zerodowntime_reason),
      (''fibe.gg/healthcheck_timeout'', zerodowntime_reason),
      (''fibe.gg/healthcheck_retries'', zerodowntime_reason),
      (''fibe.gg/healthcheck_start_period'', zerodowntime_reason)]"

text \<open>The pattern \<open>^[a-z0-9]([a-z0-9-]*[a-z0-9])?$\<close>.\<close>

definition sub_char :: "char \<Rightarrow> bool" where
  "sub_char c = (is_lower c \<or> is_digit c)"

definition subdomainPattern :: "string \<Rightarrow> bool" where
  "subdomainPattern s =
     (s \<noteq> [] \<and> sub_char (hd s) \<and> sub_char (last s) \<and> list_all (\<lambda>c. sub_char c \<or> c = CHR ''-'') s)"

record labelItem =
  li_key :: string
  li_value :: string
  li_has_value :: bool

definition splitLabelItem :: "string \<Rightarrow> labelItem" where
  "splitLabelItem label =
     (let (k, v, h) = cut_char (CHR ''='') label in \<lparr>li_key = trim_space k, li_value = v, li_has_value = h\<rparr>)"

definition addLabelItem :: "string \<Rightarrow> doc \<Rightarrow> doc" where
  "addLabelItem raw out =
     (let item = splitLabelItem raw
      in if li_key item = [] then out
         else if \<not> li_has_value item then put_key (li_key item) (AStr []) out
         else put_key (li_key item) (AStr (li_value item)) out)"

definition strings_of :: "any list \<Rightarrow> string list" where
  "strings_of vs = concat (map (\<lambda>v. case v of AStr s \<Rightarrow> [s] | _ \<Rightarrow> []) vs)"

text \<open>The entries of a loose map whose keys are strings, with the keys trimmed.\<close>

definition loose_entries :: "(any \<times> any) list \<Rightarrow> (string \<times> any) list" where
  "loose_entries kvs = concat (map (\<lambda>(k, v). case string_map_key k of Some t \<Rightarrow> [(t, v)] | None \<Rightarrow> []) kvs)"

definition normalizeLabelsAny :: "any \<Rightarrow> doc" where
  "normalizeLabelsAny raw =
     (case raw of
        AMap m \<Rightarrow> m
      | AAnyMap kvs \<Rightarrow> fold (\<lambda>(k, v). put_key k v) (loose_entries kvs) []
      | ASeq vs \<Rightarrow> fold addLabelItem (strings_of vs) []
      | AStrs ss \<Rightarrow> fold addLabelItem ss []
      | _ \<Rightarrow> [])"

definition normalizeStringLabel :: "string \<Rightarrow> string smap \<Rightarrow> string smap" where
  "normalizeStringLabel label out =
     (let item = splitLabelItem label
      in if li_key item = [] then out
         else if \<not> li_has_value item then put_key (li_key item) [] out
         else put_key (li_key item) (li_value item) out)"

definition normalizeStringLabelPair :: "string \<Rightarrow> string \<Rightarrow> string smap \<Rightarrow> string smap" where
  "normalizeStringLabelPair k v out =
     (if CHR ''='' \<in> set v \<and> has_prefix v ''fibe.gg/''
      then (let (a, b, _) = cut_char (CHR ''='') v in put_key a b out)
      else put_key k v out)"

definition normalizeLabelPair :: "string \<Rightarrow> any \<Rightarrow> string smap \<Rightarrow> string smap" where
  "normalizeLabelPair k0 v out =
     (let k = trim_space k0 in
      case v of
        AStr s \<Rightarrow> normalizeStringLabelPair k s out
      | ABool b \<Rightarrow> put_key k (format_bool b) out
      | AInt KInt i \<Rightarrow> put_key k (itoa i) out
      | AInt KInt64 i \<Rightarrow> put_key k (itoa i) out
      | AFloat KFloat64 f \<Rightarrow> put_key k (float_text f) out
      | _ \<Rightarrow> if k \<noteq> [] then put_key k [] out else out)"

definition NormalizeLabels :: "any \<Rightarrow> string smap" where
  "NormalizeLabels raw =
     (case raw of
        AMap m \<Rightarrow> fold (\<lambda>(k, v). normalizeLabelPair k v) m []
      | AAnyMap kvs \<Rightarrow> fold (\<lambda>(k, v). normalizeLabelPair k v) (loose_entries kvs) []
      | ASeq vs \<Rightarrow> fold normalizeStringLabel (strings_of vs) []
      | AStrs ss \<Rightarrow> fold normalizeStringLabel ss []
      | _ \<Rightarrow> [])"

subsection \<open>Predicates (label\_predicates.go)\<close>

definition unsafeRepoPathSyntax :: "string \<Rightarrow> bool" where
  "unsafeRepoPathSyntax raw = (CHR 0x00 \<in> set raw \<or> has_prefix raw ''/'' \<or> has_parent_segment raw)"

definition safeCleanRepoPath :: "string \<Rightarrow> bool" where
  "safeCleanRepoPath clean = (clean \<noteq> ''.'' \<and> clean \<noteq> ''..'' \<and> \<not> has_prefix clean ''../'')"

definition validRepoRelativePath :: "string \<Rightarrow> bool" where
  "validRepoRelativePath raw0 =
     (let raw = trim_space raw0
      in if raw = [] then True
         else if unsafeRepoPathSyntax raw then False
         else if ContainsVariable raw then True
         else safeCleanRepoPath (path_clean raw))"

definition validGitBranchShape :: "string \<Rightarrow> bool" where
  "validGitBranchShape raw =
     (if has_prefix raw ''-'' \<or> has_prefix raw ''/'' \<or> has_suffix raw ''/'' then False
      else \<not> str_contains raw ''//'' \<and> \<not> str_contains raw ''..'' \<and> \<not> str_contains raw [CHR ''@'', CHR 0x7B] \<and> \<not> has_suffix raw ''.'')"

definition validGitBranchComponents :: "string \<Rightarrow> bool" where
  "validGitBranchComponents raw =
     list_all (\<lambda>p. \<not> (p = [] \<or> has_prefix p ''.'' \<or> has_suffix p ''.lock'')) (split_char (CHR ''/'') raw)"

definition invalidGitBranchRune :: "char \<Rightarrow> bool" where
  "invalidGitBranchRune r = (byte_of r \<le> 0x20 \<or> byte_of r = 0x7F \<or> r \<in> set ''~^:?*['' \<or> r = CHR 0x5C)"

definition validGitBranchName :: "string \<Rightarrow> bool" where
  "validGitBranchName raw0 =
     (let raw = trim_space raw0
      in if raw = [] then True
         else validGitBranchShape raw \<and> validGitBranchComponents raw \<and> \<not> list_ex invalidGitBranchRune raw)"

definition validDockerBuildArgs :: "string \<Rightarrow> bool" where
  "validDockerBuildArgs raw =
     (case ParseDockerBuildArgs raw of None \<Rightarrow> False | Some parts \<Rightarrow> parts \<noteq> [])"

definition validContainerPath :: "string \<Rightarrow> bool" where
  "validContainerPath raw0 =
     (let raw = trim_space raw0
      in if raw = [] then True
         else if CHR 0x00 \<in> set raw \<or> has_parent_segment raw then False
         else if ContainsVariable raw then True
         else if \<not> has_prefix raw ''/'' then False
         else path_clean raw \<noteq> ''/'')"

subsection \<open>Facts\<close>

lemma clean_unique_loop_distinct: "distinct out \<Longrightarrow> distinct (clean_unique_loop out vs)"
  by (induction out vs rule: clean_unique_loop.induct) (simp_all add: Let_def)

lemma clean_unique_loop_set: "set (clean_unique_loop out vs) = set out \<union> (set (map trim_space vs) - {[]})"
proof (induction vs arbitrary: out)
  case Nil
  then show ?case by simp
next
  case (Cons v vs)
  show ?case by (cases "trim_space v = [] \<or> trim_space v \<in> set out") (auto simp: Let_def Cons.IH)
qed

lemma cleanUniqueStrings_spec:
  "distinct (cleanUniqueStrings vs)"
  "set (cleanUniqueStrings vs) = set (map trim_space vs) - {[]}"
  by (simp_all add: cleanUniqueStrings_def clean_unique_loop_distinct clean_unique_loop_set del: set_map)

text \<open>An entry that both label forms can write, and read alike.\<close>

definition plain_label :: "string \<times> string \<Rightarrow> bool" where
  "plain_label = (\<lambda>(k, v). k \<noteq> [] \<and> trim_space k = k \<and> CHR ''='' \<notin> set k \<and>
     \<not> (CHR ''='' \<in> set v \<and> has_prefix v ''fibe.gg/''))"

lemma normalizeStringLabel_plain:
  "plain_label (k, v) \<Longrightarrow> normalizeStringLabel (k @ CHR ''='' # v) out = put_key k v out"
  by (simp add: plain_label_def normalizeStringLabel_def splitLabelItem_def cut_char_found Let_def)

lemma normalizeLabelPair_plain:
  "plain_label (k, v) \<Longrightarrow> normalizeLabelPair k (AStr v) out = put_key k v out"
  by (auto simp: plain_label_def normalizeLabelPair_def normalizeStringLabelPair_def Let_def)

lemma fold_label_list:
  "\<forall>kv \<in> set kvs. plain_label kv \<Longrightarrow>
   fold normalizeStringLabel (map (\<lambda>(k, v). k @ CHR ''='' # v) kvs) out = fold (\<lambda>(k, v). put_key k v) kvs out"
  by (induction kvs arbitrary: out) (auto simp: normalizeStringLabel_plain)

lemma fold_label_map:
  "\<forall>kv \<in> set kvs. plain_label kv \<Longrightarrow>
   fold (\<lambda>(k, v). normalizeLabelPair k v) (map (\<lambda>(k, v). (k, AStr v)) kvs) out = fold (\<lambda>(k, v). put_key k v) kvs out"
  by (induction kvs arbitrary: out) (auto simp: normalizeLabelPair_plain)

lemma strings_of_AStr [simp]: "strings_of (map AStr ss) = ss"
  by (induction ss) (simp_all add: strings_of_def)

text \<open>What the path predicates accept, followed from the checkout root.\<close>

lemma walk_path_segments:
  "\<not> has_parent_segment p \<Longrightarrow> walk [] (split_char (CHR ''/'') p) = Some (path_segments p)"
  using walk_no_parent unfolding has_parent_segment_iff path_segments_def by simp

lemma validRepoRelativePath_inside:
  assumes "validRepoRelativePath raw" and "trim_space raw \<noteq> []" and "\<not> ContainsVariable (trim_space raw)"
  shows "walk [] (split_char (CHR ''/'') (trim_space raw)) = Some (path_segments (trim_space raw))"
    and "path_segments (trim_space raw) \<noteq> []"
    and "\<not> path_is_abs (trim_space raw) \<and> CHR 0x00 \<notin> set (trim_space raw)"
proof -
  let ?p = "trim_space raw"
  have safe: "\<not> unsafeRepoPathSyntax ?p" "safeCleanRepoPath (path_clean ?p)"
    using assms by (auto simp: validRepoRelativePath_def Let_def split: if_splits)
  then have np: "\<not> has_parent_segment ?p" and abs: "\<not> path_is_abs ?p" and nul: "CHR 0x00 \<notin> set ?p"
    by (auto simp: unsafeRepoPathSyntax_def path_is_abs_def)
  show "walk [] (split_char (CHR ''/'') ?p) = Some (path_segments ?p)" by (rule walk_path_segments[OF np])
  show "path_segments ?p \<noteq> []"
    using safe(2) path_clean_rel_no_parent[OF abs np] by (auto simp: safeCleanRepoPath_def)
  show "\<not> path_is_abs ?p \<and> CHR 0x00 \<notin> set ?p" using abs nul by blast
qed

lemma validContainerPath_below_root:
  assumes "validContainerPath raw" and "trim_space raw \<noteq> []" and "\<not> ContainsVariable (trim_space raw)"
  shows "path_is_abs (trim_space raw)" and "path_segments (trim_space raw) \<noteq> []"
    and "walk [] (split_char (CHR ''/'') (trim_space raw)) = Some (path_segments (trim_space raw))"
proof -
  let ?p = "trim_space raw"
  have np: "\<not> has_parent_segment ?p" and abs: "path_is_abs ?p" and clean: "path_clean ?p \<noteq> ''/''"
    using assms by (auto simp: validContainerPath_def path_is_abs_def Let_def split: if_splits)
  show "path_is_abs ?p" by (rule abs)
  show "path_segments ?p \<noteq> []" using clean path_clean_abs_no_parent[OF abs np] by auto
  show "walk [] (split_char (CHR ''/'') ?p) = Some (path_segments ?p)" by (rule walk_path_segments[OF np])
qed

lemma validGitBranchName_segments:
  assumes "validGitBranchName raw" and "trim_space raw \<noteq> []"
  shows "walk [] (split_char (CHR ''/'') (trim_space raw)) = Some (split_char (CHR ''/'') (trim_space raw))"
    and "\<not> has_prefix (trim_space raw) ''-''"
    and "c \<in> set (trim_space raw) \<Longrightarrow> 0x20 < byte_of c"
proof -
  let ?p = "trim_space raw"
  have sh: "validGitBranchShape ?p" and comp: "validGitBranchComponents ?p" and ch: "\<not> list_ex invalidGitBranchRune ?p"
    using assms by (auto simp: validGitBranchName_def Let_def)
  have part: "s \<noteq> [] \<and> s \<noteq> ''.'' \<and> s \<noteq> ''..''" if "s \<in> set (split_char (CHR ''/'') ?p)" for s
    using comp that unfolding validGitBranchComponents_def list_all_iff by fastforce
  have "walk [] (split_char (CHR ''/'') ?p) = Some (filter (\<lambda>s. s \<noteq> [] \<and> s \<noteq> ''.'') (split_char (CHR ''/'') ?p))"
    using walk_no_parent[of "split_char (CHR ''/'') ?p" "[]"] part by auto
  then show "walk [] (split_char (CHR ''/'') ?p) = Some (split_char (CHR ''/'') ?p)"
    using part by (simp add: filter_True)
  show "\<not> has_prefix ?p ''-''" using sh by (auto simp: validGitBranchShape_def split: if_splits)
  show "0x20 < byte_of c" if "c \<in> set ?p"
    using ch that by (auto simp: list_ex_iff invalidGitBranchRune_def not_le)
qed

subsection \<open>Properties\<close>

text \<open>A source path label that is accepted and has no template variable names something strictly inside the
checkout: it is relative, and following it segment by segment never leaves the directory it starts from.\<close>

theorem repo_path_stays_inside:
  assumes "validRepoRelativePath raw" and "trim_space raw \<noteq> []" and "\<not> ContainsVariable (trim_space raw)"
  shows "\<exists>segs. segs \<noteq> [] \<and> walk [] (split_char (CHR ''/'') (trim_space raw)) = Some segs \<and>
    \<not> path_is_abs (trim_space raw) \<and> CHR 0x00 \<notin> set (trim_space raw)"
  using validRepoRelativePath_inside[OF assms] by blast

theorem repo_path_stays_inside_witness:
  "\<exists>segs. segs \<noteq> [] \<and> walk [] (split_char (CHR ''/'') (trim_space '' docker//Dockerfile'')) = Some segs"
proof -
  have "validRepoRelativePath '' docker//Dockerfile''" "trim_space '' docker//Dockerfile'' \<noteq> []"
    "\<not> ContainsVariable (trim_space '' docker//Dockerfile'')" by code_simp+
  from repo_path_stays_inside[OF this] show ?thesis by blast
qed

text \<open>A container path label that is accepted and has no template variable is absolute, is not the root, and
resolves without ever going up.\<close>

theorem container_path_below_root:
  assumes "validContainerPath raw" and "trim_space raw \<noteq> []" and "\<not> ContainsVariable (trim_space raw)"
  shows "path_is_abs (trim_space raw) \<and> (\<exists>segs. segs \<noteq> [] \<and>
    walk [] (split_char (CHR ''/'') (trim_space raw)) = Some segs)"
  using validContainerPath_below_root[OF assms] by blast

theorem container_path_below_root_witness:
  "path_is_abs (trim_space ''/app/./src'')"
proof -
  have "validContainerPath ''/app/./src''" "trim_space ''/app/./src'' \<noteq> []"
    "\<not> ContainsVariable (trim_space ''/app/./src'')" by code_simp+
  from container_path_below_root[OF this] show ?thesis by blast
qed

text \<open>An accepted branch name is safe as an argument and as a path: it is no option, has no space or control
byte, and none of its segments is dropped or goes up when it is followed as a path.\<close>

theorem branch_name_safe:
  assumes "validGitBranchName raw" and "trim_space raw \<noteq> []"
  shows "walk [] (split_char (CHR ''/'') (trim_space raw)) = Some (split_char (CHR ''/'') (trim_space raw)) \<and>
    \<not> has_prefix (trim_space raw) ''-'' \<and> (\<forall>c \<in> set (trim_space raw). 0x20 < byte_of c)"
  using validGitBranchName_segments[OF assms] by blast

theorem branch_name_safe_witness:
  "walk [] (split_char (CHR ''/'') (trim_space '' feat/x.y '')) = Some (split_char (CHR ''/'') (trim_space '' feat/x.y ''))"
proof -
  have "validGitBranchName '' feat/x.y ''" "trim_space '' feat/x.y '' \<noteq> []" by code_simp+
  from branch_name_safe[OF this] show ?thesis by blast
qed

text \<open>The two label forms of a Compose file agree: entries written as a list of \<open>KEY=VALUE\<close> items and the same
entries written as a map are read into the same labels.\<close>

theorem label_forms_agree:
  assumes "\<forall>kv \<in> set kvs. plain_label kv"
  shows "NormalizeLabels (ASeq (map (\<lambda>(k, v). AStr (k @ CHR ''='' # v)) kvs)) =
         NormalizeLabels (AMap (map (\<lambda>(k, v). (k, AStr v)) kvs))"
proof -
  have "map (\<lambda>(k, v). AStr (k @ CHR ''='' # v)) kvs = map AStr (map (\<lambda>(k, v). k @ CHR ''='' # v) kvs)"
    by (simp add: case_prod_beta)
  then show ?thesis
    by (simp only: NormalizeLabels_def any.case strings_of_AStr fold_label_list[OF assms] fold_label_map[OF assms])
qed

theorem label_forms_agree_witness:
  "NormalizeLabels (ASeq [AStr ''fibe.gg/port=80'', AStr ''a=b=c'']) =
   NormalizeLabels (AMap [(''fibe.gg/port'', AStr ''80''), (''a'', AStr ''b=c'')])"
proof -
  have "\<forall>kv \<in> set [(''fibe.gg/port'', ''80''), (''a'', ''b=c'')]. plain_label kv" by code_simp
  from label_forms_agree[OF this] show ?thesis by simp
qed

end
