(* ===== verification/ServicePorts.thy ===== *)
theory ServicePorts
  imports ServiceLabels
begin

text \<open>
  \<open>internal/composefile/service\<close>, scalars and ports of overrides: \<open>service_override_values.go\<close>,
  \<open>port_mappings.go\<close> and \<open>port_specs.go\<close>. A port endpoint is a text that reads as a number from 1 to 65535. The
  lemmas bound it, and describe the port list after the mappings of an override.
\<close>

subsection \<open>Scalars (service\_override\_values.go)\<close>

record bool_parse =
  bp_value :: bool
  bp_ok :: bool

definition parseStrictBool :: "string \<Rightarrow> bool_parse" where
  "parseStrictBool raw =
     (let s = to_lower (trim_space raw)
      in if s = ''true'' then \<lparr>bp_value = True, bp_ok = True\<rparr>
         else if s = ''false'' then \<lparr>bp_value = False, bp_ok = True\<rparr>
         else \<lparr>bp_value = False, bp_ok = False\<rparr>)"

definition overrideBool :: "doc \<Rightarrow> string \<Rightarrow> bool_parse" where
  "overrideBool values key =
     (case any_at values key of
        ABool b \<Rightarrow> \<lparr>bp_value = b, bp_ok = True\<rparr>
      | AStr s \<Rightarrow> parseStrictBool s
      | _ \<Rightarrow> \<lparr>bp_value = False, bp_ok = False\<rparr>)"

definition isStringValue :: "any \<Rightarrow> bool" where
  "isStringValue v = (case v of AStr s \<Rightarrow> trim_space s \<noteq> [] | _ \<Rightarrow> False)"

definition isBoolOverrideValue :: "any \<Rightarrow> bool" where
  "isBoolOverrideValue v =
     (case v of ABool _ \<Rightarrow> True
      | AStr s \<Rightarrow> to_lower (trim_space s) = ''true'' \<or> to_lower (trim_space s) = ''false''
      | _ \<Rightarrow> False)"

text \<open>A float is accepted when it is integral and fits an \<open>int64\<close>, that is when its decimal text reads as one.\<close>

definition scalarPortEndpointText :: "any \<Rightarrow> string option" where
  "scalarPortEndpointText v =
     (case v of
        AStr s \<Rightarrow> Some (trim_space s)
      | AInt KInt i \<Rightarrow> Some (itoa i)
      | AInt KInt64 i \<Rightarrow> Some (itoa i)
      | AFloat KFloat64 (FDec s) \<Rightarrow> (case parse_int64 s of Inr i \<Rightarrow> Some (itoa i) | Inl _ \<Rightarrow> None)
      | _ \<Rightarrow> None)"

definition validPortEndpoint :: "string \<Rightarrow> bool" where
  "validPortEndpoint text = (case parse_int64 text of Inr port \<Rightarrow> 1 \<le> port \<and> port \<le> 65535 | Inl _ \<Rightarrow> False)"

definition portEndpointText :: "any \<Rightarrow> string option" where
  "portEndpointText v =
     (case scalarPortEndpointText v of
        None \<Rightarrow> None
      | Some text \<Rightarrow> if validPortEndpoint text then Some text else None)"

definition overrideString :: "doc \<Rightarrow> string \<Rightarrow> string" where
  "overrideString values key = (case any_at values key of AStr s \<Rightarrow> trim_space s | _ \<Rightarrow> [])"

definition overridePortString :: "doc \<Rightarrow> string \<Rightarrow> string" where
  "overridePortString values key =
     (case map_of values key of
        None \<Rightarrow> []
      | Some v \<Rightarrow> (case portEndpointText v of None \<Rightarrow> [] | Some t \<Rightarrow> t))"

definition basicEnvOverrideString :: "any \<Rightarrow> string option" where
  "basicEnvOverrideString v = (case v of AStr s \<Rightarrow> Some s | ABool b \<Rightarrow> Some (format_bool b) | _ \<Rightarrow> None)"

definition signed_kind :: "ikind \<Rightarrow> bool" where
  "signed_kind k = (k \<in> {KInt, KInt8, KInt16, KInt32, KInt64})"

definition signedEnvOverrideString :: "any \<Rightarrow> string option" where
  "signedEnvOverrideString v = (case v of AInt k i \<Rightarrow> if signed_kind k then Some (itoa i) else None | _ \<Rightarrow> None)"

definition unsignedEnvOverrideString :: "any \<Rightarrow> string option" where
  "unsignedEnvOverrideString v = (case v of AInt k i \<Rightarrow> if signed_kind k then None else Some (itoa i) | _ \<Rightarrow> None)"

definition finiteFloatString :: "go_float \<Rightarrow> string option" where
  "finiteFloatString f = (case f of FDec s \<Rightarrow> Some s | _ \<Rightarrow> None)"

definition floatEnvOverrideString :: "any \<Rightarrow> string option" where
  "floatEnvOverrideString v = (case v of AFloat _ f \<Rightarrow> finiteFloatString f | _ \<Rightarrow> None)"

definition envOverrideString :: "any \<Rightarrow> string option" where
  "envOverrideString v =
     (case basicEnvOverrideString v of Some t \<Rightarrow> Some t | None \<Rightarrow>
      (case signedEnvOverrideString v of Some t \<Rightarrow> Some t | None \<Rightarrow>
       (case unsignedEnvOverrideString v of Some t \<Rightarrow> Some t | None \<Rightarrow> floatEnvOverrideString v)))"

subsection \<open>Port mappings (port\_mappings.go)\<close>

record portMapping =
  pm_container :: string
  pm_host :: string

definition newPortMapping :: "any \<Rightarrow> any \<Rightarrow> portMapping option" where
  "newPortMapping container host =
     (case (portEndpointText container, portEndpointText host) of
        (Some c, Some h) \<Rightarrow> Some \<lparr>pm_container = c, pm_host = h\<rparr>
      | _ \<Rightarrow> None)"

definition portMappingsFromStringMap :: "doc \<Rightarrow> portMapping list" where
  "portMappingsFromStringMap values =
     List.map_filter (\<lambda>container. newPortMapping (AStr container) (any_at values container)) (sorted_keys values)"

definition portMappingsFromAnyMap :: "(any \<times> any) list \<Rightarrow> portMapping list" where
  "portMappingsFromAnyMap values =
     portMappingsFromStringMap
       (fold (\<lambda>(k, v) m. case k of AStr s \<Rightarrow> put_key s v m | _ \<Rightarrow> m) values [])"

definition portMappingsFromAnyList :: "any list \<Rightarrow> portMapping list" where
  "portMappingsFromAnyList values =
     List.map_filter (\<lambda>raw. case as_map raw of None \<Rightarrow> None
       | Some item \<Rightarrow> newPortMapping (any_at item ''container'') (any_at item ''host'')) values"

definition portMappingsFromStringMapList :: "doc list \<Rightarrow> portMapping list" where
  "portMappingsFromStringMapList values =
     List.map_filter (\<lambda>item. newPortMapping (any_at item ''container'') (any_at item ''host'')) values"

definition normalizePortMappings :: "any \<Rightarrow> portMapping list" where
  "normalizePortMappings raw =
     (case raw of
        AMap m \<Rightarrow> portMappingsFromStringMap m
      | AAnyMap kvs \<Rightarrow> portMappingsFromAnyMap kvs
      | ASeq vs \<Rightarrow> portMappingsFromAnyList vs
      | AMaps ms \<Rightarrow> portMappingsFromStringMapList ms
      | _ \<Rightarrow> [])"

subsection \<open>Compose ports (port\_specs.go)\<close>

record composePort =
  cp_container :: string
  cp_protocol :: string

definition portProtocolSuffix :: "any \<Rightarrow> string" where
  "portProtocolSuffix raw =
     (case raw of
        AStr s \<Rightarrow> (let p = to_lower (trim_space s) in if p = ''tcp'' \<or> p = ''udp'' then ''/'' @ p else [])
      | _ \<Rightarrow> [])"

definition parseComposePortString :: "string \<Rightarrow> composePort option" where
  "parseComposePortString raw =
     (let (c, protocol, _) = cut_char (CHR ''/'') (after_last_char (CHR '':'') raw);
          container = trim_space c
      in if container = [] then None
         else Some \<lparr>cp_container = container, cp_protocol = portProtocolSuffix (AStr protocol)\<rparr>)"

definition parseComposePortMap :: "doc \<Rightarrow> composePort option" where
  "parseComposePortMap values =
     (case portEndpointText (any_at values ''target'') of
        None \<Rightarrow> None
      | Some t \<Rightarrow> Some \<lparr>cp_container = t, cp_protocol = portProtocolSuffix (any_at values ''protocol'')\<rparr>)"

definition parseComposePort :: "any \<Rightarrow> composePort option" where
  "parseComposePort raw =
     (case raw of
        AStr s \<Rightarrow> parseComposePortString s
      | AMap m \<Rightarrow> parseComposePortMap m
      | AAnyMap kvs \<Rightarrow> parseComposePortMap (case copy_any_map [] kvs of Some m \<Rightarrow> m | None \<Rightarrow> [])
      | _ \<Rightarrow> None)"

definition normalizePorts :: "any \<Rightarrow> any list" where
  "normalizePorts raw = (case raw of ASeq vs \<Rightarrow> vs | AStrs ss \<Rightarrow> map AStr ss | _ \<Rightarrow> [])"

definition maps_container :: "string \<Rightarrow> any \<Rightarrow> bool" where
  "maps_container c raw = (case parseComposePort raw of Some p \<Rightarrow> cp_container p = c | None \<Rightarrow> False)"

fun port_mapping_loop :: "portMapping \<Rightarrow> string \<Rightarrow> any list \<Rightarrow> any list \<Rightarrow> any list" where
  "port_mapping_loop m protocol next [] =
     next @ [AStr (pm_host m @ '':'' @ pm_container m @ protocol)]"
| "port_mapping_loop m protocol next (raw # ports) =
     (case parseComposePort raw of
        Some p \<Rightarrow>
          (if cp_container p = pm_container m
           then port_mapping_loop m (if protocol = [] then cp_protocol p else protocol) next ports
           else port_mapping_loop m protocol (next @ [raw]) ports)
      | None \<Rightarrow> port_mapping_loop m protocol (next @ [raw]) ports)"

definition applyPortMapping :: "any list \<Rightarrow> portMapping \<Rightarrow> any list" where
  "applyPortMapping ports m = port_mapping_loop m [] [] ports"

definition applyPortMappings :: "any \<Rightarrow> portMapping list \<Rightarrow> any list" where
  "applyPortMappings raw mappings = foldl applyPortMapping (normalizePorts raw) mappings"

subsection \<open>Facts\<close>

lemma portEndpointText_valid: "portEndpointText v = Some t \<Longrightarrow> validPortEndpoint t"
  by (auto simp: portEndpointText_def split: option.splits if_splits)

definition mapping_ok :: "portMapping \<Rightarrow> bool" where
  "mapping_ok m = (validPortEndpoint (pm_container m) \<and> validPortEndpoint (pm_host m))"

lemma newPortMapping_ok: "newPortMapping c h = Some m \<Longrightarrow> mapping_ok m"
  by (auto simp: newPortMapping_def mapping_ok_def portEndpointText_valid split: option.splits)

lemma map_filter_all: "(\<And>x y. f x = Some y \<Longrightarrow> P y) \<Longrightarrow> \<forall>y \<in> set (List.map_filter f xs). P y"
  by (auto simp: List.map_filter_def)

lemma port_mappings_from_ok:
  "\<forall>m \<in> set (portMappingsFromStringMap vs). mapping_ok m"
  "\<forall>m \<in> set (portMappingsFromAnyList xs). mapping_ok m"
  "\<forall>m \<in> set (portMappingsFromStringMapList ms). mapping_ok m"
proof -
  show "\<forall>m \<in> set (portMappingsFromStringMap vs). mapping_ok m"
    unfolding portMappingsFromStringMap_def by (rule map_filter_all) (rule newPortMapping_ok)
  show "\<forall>m \<in> set (portMappingsFromStringMapList ms). mapping_ok m"
    unfolding portMappingsFromStringMapList_def by (rule map_filter_all) (rule newPortMapping_ok)
  show "\<forall>m \<in> set (portMappingsFromAnyList xs). mapping_ok m"
    unfolding portMappingsFromAnyList_def
  proof (rule map_filter_all)
    fix x y assume "(case as_map x of None \<Rightarrow> None
      | Some item \<Rightarrow> newPortMapping (any_at item ''container'') (any_at item ''host'')) = Some y"
    then show "mapping_ok y" by (cases "as_map x") (simp_all add: newPortMapping_ok)
  qed
qed

lemma normalizePortMappings_ok: "\<forall>m \<in> set (normalizePortMappings raw). mapping_ok m"
proof (cases raw)
  case (AMap m)
  then show ?thesis unfolding normalizePortMappings_def by (simp only: any.case) (rule port_mappings_from_ok)
next
  case (AAnyMap kvs)
  then show ?thesis unfolding normalizePortMappings_def portMappingsFromAnyMap_def
    by (simp only: any.case) (rule port_mappings_from_ok)
next
  case (ASeq xs)
  then show ?thesis unfolding normalizePortMappings_def by (simp only: any.case) (rule port_mappings_from_ok)
next
  case (AMaps ms)
  then show ?thesis unfolding normalizePortMappings_def by (simp only: any.case) (rule port_mappings_from_ok)
qed (simp_all add: normalizePortMappings_def)

lemma validPortEndpoint_chars:
  assumes "validPortEndpoint t"
  shows "t \<noteq> []" and "\<forall>c \<in> set t. is_digit c \<or> c = CHR ''+'' \<or> c = CHR ''-''"
proof -
  let ?signed = "has_prefix t ''-'' \<or> has_prefix t ''+''"
  have d: "all_digits (if ?signed then tl t else t)"
    using assms by (auto simp: validPortEndpoint_def parse_int64_def Let_def split: sum.splits if_splits)
  show "t \<noteq> []" using d by (auto simp: all_digits_def split: if_splits)
  show "\<forall>c \<in> set t. is_digit c \<or> c = CHR ''+'' \<or> c = CHR ''-''"
  proof (cases ?signed)
    case True
    then obtain s u where "t = s # u" "s = CHR ''-'' \<or> s = CHR ''+''" by (cases t) auto
    with d True show ?thesis by (auto simp: all_digits_def list_all_iff)
  next
    case False
    with d show ?thesis by (auto simp: all_digits_def list_all_iff)
  qed
qed

lemma port_char_plain:
  "is_digit c \<or> c = CHR ''+'' \<or> c = CHR ''-'' \<Longrightarrow> word_char c \<and> c \<noteq> CHR '':'' \<and> c \<noteq> CHR ''/''"
  by (auto simp: is_digit_def word_char_def less_eq_char_def)

lemma portProtocolSuffix_cases: "portProtocolSuffix raw \<in> {[], ''/tcp'', ''/udp''}"
  by (cases raw) (auto simp: portProtocolSuffix_def Let_def)

lemma cp_protocol_cases: "parseComposePort raw = Some p \<Longrightarrow> cp_protocol p \<in> {[], ''/tcp'', ''/udp''}"
proof -
  assume "parseComposePort raw = Some p"
  then obtain raw' where "cp_protocol p = portProtocolSuffix raw'"
    by (cases raw) (fastforce simp: parseComposePort_def parseComposePortString_def parseComposePortMap_def Let_def
        split: prod.splits if_splits option.splits)+
  then show ?thesis using portProtocolSuffix_cases by simp
qed

text \<open>The entry written for a mapping is read back as that container port.\<close>

lemma mapping_entry_parses:
  assumes "validPortEndpoint c" and "protocol \<in> {[], ''/tcp'', ''/udp''}"
  shows "maps_container c (AStr (h @ '':'' @ c @ protocol))"
proof -
  have ch: "\<forall>x \<in> set c. word_char x \<and> x \<noteq> CHR '':'' \<and> x \<noteq> CHR ''/''"
    using validPortEndpoint_chars(2)[OF assms(1)] port_char_plain by blast
  have "CHR '':'' \<notin> set c" "CHR ''/'' \<notin> set c" using ch by blast+
  moreover have "CHR '':'' \<notin> set protocol" using assms(2) by auto
  ultimately have nc: "x \<noteq> CHR '':''" if "x \<in> set (rev (c @ protocol))" for x
    using that by (metis Un_iff set_append set_rev)
  have "takeWhile (\<lambda>x. x \<noteq> CHR '':'') (rev (c @ protocol) @ CHR '':'' # rev h) =
      rev (c @ protocol) @ takeWhile (\<lambda>x. x \<noteq> CHR '':'') (CHR '':'' # rev h)"
    by (rule takeWhile_append2) (rule nc)
  then have last: "after_last_char (CHR '':'') (h @ '':'' @ c @ protocol) = c @ protocol"
    by (simp add: after_last_char_def)
  have "fst (cut_char (CHR ''/'') (c @ protocol)) = c"
    using assms(2) cut_char_absent[OF \<open>CHR ''/'' \<notin> set c\<close>] cut_char_found[OF \<open>CHR ''/'' \<notin> set c\<close>] by auto
  moreover have "trim_space c = c" using ch by (intro trim_space_words) blast
  ultimately show ?thesis
    using last validPortEndpoint_chars(1)[OF assms(1)]
    by (simp add: maps_container_def parseComposePort_def parseComposePortString_def case_prod_beta Let_def)
qed

lemma port_mapping_loop_spec:
  "\<exists>protocol'. port_mapping_loop m protocol next ports =
     next @ filter (\<lambda>raw. \<not> maps_container (pm_container m) raw) ports @
       [AStr (pm_host m @ '':'' @ pm_container m @ protocol')] \<and>
     (protocol' = protocol \<or> protocol = [] \<and> (\<exists>raw p. raw \<in> set ports \<and> parseComposePort raw = Some p \<and>
        cp_container p = pm_container m \<and> protocol' = cp_protocol p))"
proof (induction ports arbitrary: protocol "next")
  case Nil
  then show ?case by simp
next
  case (Cons raw ports)
  show ?case
  proof (cases "maps_container (pm_container m) raw")
    case True
    then obtain p where p: "parseComposePort raw = Some p" "cp_container p = pm_container m"
      by (auto simp: maps_container_def split: option.splits)
    from Cons[of "if protocol = [] then cp_protocol p else protocol" "next"] True p show ?thesis
      by (fastforce split: if_splits)
  next
    case False
    then have "port_mapping_loop m protocol next (raw # ports) = port_mapping_loop m protocol (next @ [raw]) ports"
      by (auto simp: maps_container_def split: option.splits)
    with Cons[of protocol "next @ [raw]"] False show ?thesis by fastforce
  qed
qed

lemma applyPortMapping_spec:
  assumes "mapping_ok m"
  obtains entry where "applyPortMapping ports m = filter (\<lambda>raw. \<not> maps_container (pm_container m) raw) ports @ [entry]"
    and "maps_container (pm_container m) entry" and "\<exists>protocol. entry = AStr (pm_host m @ '':'' @ pm_container m @ protocol)"
proof -
  obtain protocol where eq: "applyPortMapping ports m = filter (\<lambda>raw. \<not> maps_container (pm_container m) raw) ports @
      [AStr (pm_host m @ '':'' @ pm_container m @ protocol)]"
    and pr: "protocol = [] \<or> (\<exists>raw p. raw \<in> set ports \<and> parseComposePort raw = Some p \<and>
        cp_container p = pm_container m \<and> protocol = cp_protocol p)"
    using port_mapping_loop_spec[of m "[]" "[]" ports] unfolding applyPortMapping_def by auto
  from pr have "protocol \<in> {[], ''/tcp'', ''/udp''}" using cp_protocol_cases by blast
  with assms have "maps_container (pm_container m) (AStr (pm_host m @ '':'' @ pm_container m @ protocol))"
    by (intro mapping_entry_parses) (simp add: mapping_ok_def)
  with eq show ?thesis using that by blast
qed

subsection \<open>Properties\<close>

text \<open>A port endpoint taken from an override is the text of a number from 1 to 65535, whatever shape the value
had, and so are both ends of every port mapping.\<close>

theorem port_mappings_in_range:
  assumes "m \<in> set (normalizePortMappings raw)"
  shows "\<exists>c h. parse_int64 (pm_container m) = Inr c \<and> 1 \<le> c \<and> c \<le> 65535 \<and>
    parse_int64 (pm_host m) = Inr h \<and> 1 \<le> h \<and> h \<le> 65535"
proof -
  have "validPortEndpoint (pm_container m)" "validPortEndpoint (pm_host m)"
    using assms normalizePortMappings_ok[of raw] by (auto simp: mapping_ok_def)
  then show ?thesis unfolding validPortEndpoint_def by (auto split: sum.splits)
qed

theorem port_mappings_in_range_witness:
  "\<exists>c. parse_int64 ''80'' = Inr c \<and> c \<le> 65535"
proof -
  have "\<lparr>pm_container = ''80'', pm_host = ''8080''\<rparr> \<in>
    set (normalizePortMappings (AMap [(''80'', AStr ''8080''), (''x'', AStr ''1'')]))" by code_simp
  from port_mappings_in_range[OF this] show ?thesis unfolding portMapping.select_convs by blast
qed

text \<open>Applying a mapping leaves exactly one entry for its container port, the mapping's own with the protocol of
an entry it replaces, and keeps every other entry in order.\<close>

theorem port_mapping_applied_once:
  assumes "m \<in> set (normalizePortMappings raw)"
  shows "\<exists>protocol. filter (maps_container (pm_container m)) (applyPortMapping ports m) =
      [AStr (pm_host m @ '':'' @ pm_container m @ protocol)] \<and>
    filter (\<lambda>p. \<not> maps_container (pm_container m) p) (applyPortMapping ports m) =
      filter (\<lambda>p. \<not> maps_container (pm_container m) p) ports"
proof -
  have "mapping_ok m" using assms normalizePortMappings_ok by blast
  then obtain entry where e: "applyPortMapping ports m =
      filter (\<lambda>raw. \<not> maps_container (pm_container m) raw) ports @ [entry]"
    "maps_container (pm_container m) entry" "\<exists>protocol. entry = AStr (pm_host m @ '':'' @ pm_container m @ protocol)"
    using applyPortMapping_spec by blast
  then show ?thesis by (auto simp: filter_filter)
qed

theorem port_mapping_applied_once_witness:
  "\<exists>protocol. filter (maps_container ''80'') (applyPortMapping [AStr ''80:80/udp'', AStr ''443'', AStr ''81:80'']
     \<lparr>pm_container = ''80'', pm_host = ''8080''\<rparr>) = [AStr (''8080'' @ '':'' @ ''80'' @ protocol)]"
proof -
  have "\<lparr>pm_container = ''80'', pm_host = ''8080''\<rparr> \<in>
    set (normalizePortMappings (AMap [(''80'', AStr ''8080'')]))" by code_simp
  from port_mapping_applied_once[OF this] show ?thesis unfolding portMapping.select_convs by blast
qed

text \<open>The comparison of container ports is by text, so a container port that is accepted in another spelling is
not recognised: mapping \<open>080\<close> or \<open>+80\<close> adds a second mapping of port 80 beside the one the service has.\<close>

theorem port_spelling_not_recognised:
  "\<exists>m. normalizePortMappings (AMap [(''080'', AStr ''9000'')]) = [m] \<and>
     applyPortMappings (ASeq [AStr ''8080:80'']) [m] = [AStr ''8080:80'', AStr ''9000:080'']"
  by (rule exI[of _ "\<lparr>pm_container = ''080'', pm_host = ''9000''\<rparr>"]) (intro conjI; code_simp)

end
