(* ===== verification/ServiceValidation.thy ===== *)
theory ServiceValidation
  imports ServiceTypes GitRepos
begin

text \<open>
  \<open>internal/composefile/service/labels\_validation.go\<close>: the checks of the Fibe labels of a service. A check returns
  its message, or the empty string. The lemmas turn the absence of messages into what the rest of the program relies
  on: a safe branch, source path, mount and repository, a port in range and a rule made of path predicates.
\<close>

definition service_text :: "string \<Rightarrow> string" where
  "service_text name = ''Service '' @ go_quote name @ '': ''"

definition label_text :: "string \<Rightarrow> string \<Rightarrow> string" where
  "label_text name key = service_text name @ ''label '' @ go_quote key @ '' ''"

subsection \<open>Label types\<close>

definition traefikRouterPrefix :: string where
  "traefikRouterPrefix = ''traefik.http.routers.''"

definition rawLabelScalarAllowed :: "any \<Rightarrow> bool" where
  "rawLabelScalarAllowed v =
     (case v of AStr _ \<Rightarrow> True | ABool _ \<Rightarrow> True | AInt k _ \<Rightarrow> k = KInt \<or> k = KInt64
      | AFloat k _ \<Rightarrow> k = KFloat64 | _ \<Rightarrow> False)"

definition rawLabelString :: "any \<Rightarrow> bool" where
  "rawLabelString v = (case v of AStr _ \<Rightarrow> True | _ \<Rightarrow> False)"

definition isTraefikRouterMiddlewareLabel :: "string \<Rightarrow> bool" where
  "isTraefikRouterMiddlewareLabel key = (has_prefix key traefikRouterPrefix \<and> has_suffix key ''.middlewares'')"

definition rawFibeLabelTypeAllowed :: "string \<Rightarrow> any \<Rightarrow> bool" where
  "rawFibeLabelTypeAllowed key v =
     (case v of
        AStr _ \<Rightarrow> True
      | ABool _ \<Rightarrow> key \<in> set booleanFibeLabels
      | AInt k _ \<Rightarrow> (k = KInt \<or> k = KInt64) \<and> key = fibeLabelPort
      | AFloat k _ \<Rightarrow> k = KFloat64 \<and> key = fibeLabelPort
      | _ \<Rightarrow> False)"

definition validateRawFibeLabelType :: "string \<Rightarrow> string \<Rightarrow> any \<Rightarrow> string" where
  "validateRawFibeLabelType name key v =
     (if \<not> has_prefix key ''fibe.gg/'' \<or> rawFibeLabelTypeAllowed key v then []
      else label_text name key @ ''must be a string value'')"

definition validateRawLabelType :: "string \<Rightarrow> string \<Rightarrow> any \<Rightarrow> string" where
  "validateRawLabelType name key0 v =
     (let key = trim_space key0 in
      if key = [] then service_text name @ ''label key must not be blank''
      else if \<not> rawLabelScalarAllowed v then label_text name key @ ''must be a string, number, or boolean value''
      else if isTraefikRouterMiddlewareLabel key \<and> \<not> rawLabelString v
        then label_text name key @ ''must be a string value''
      else validateRawFibeLabelType name key v)"

definition validateLabelMap :: "string \<Rightarrow> (string \<times> 'v) list \<Rightarrow> (string \<Rightarrow> string \<Rightarrow> 'v \<Rightarrow> string) \<Rightarrow> string list" where
  "validateLabelMap name labels check = filter (\<lambda>e. e \<noteq> []) (map (\<lambda>(k, v). check name k v) labels)"

definition validateLabelListTypes :: "string \<Rightarrow> any list \<Rightarrow> string list" where
  "validateLabelListTypes name labels =
     map (\<lambda>(idx, _). service_text name @ ''labels['' @ itoa (int idx) @ ''] must be a string label item'')
       (filter (\<lambda>(_, v). \<not> rawLabelString v) (enumerate 0 labels))"

definition validateAnyMapLabelTypes :: "string \<Rightarrow> (any \<times> any) list \<Rightarrow> string list" where
  "validateAnyMapLabelTypes name kvs =
     (if \<exists>kv \<in> set kvs. string_map_key (fst kv) = None
      then [service_text name @ ''label map keys must be strings''] else []) @
     validateLabelMap name (fold (\<lambda>(k, v). put_key k v) (loose_entries kvs) []) validateRawLabelType"

definition validateFibeLabelRawTypes :: "string \<Rightarrow> any \<Rightarrow> string list" where
  "validateFibeLabelRawTypes name raw =
     (case raw of
        ASeq vs \<Rightarrow> validateLabelListTypes name vs
      | AAnyMap kvs \<Rightarrow> validateAnyMapLabelTypes name kvs
      | _ \<Rightarrow> (case as_map raw of None \<Rightarrow> [] | Some labels \<Rightarrow> validateLabelMap name labels validateRawLabelType))"

subsection \<open>Label values\<close>

definition isFibeLabel :: "string \<Rightarrow> bool" where
  "isFibeLabel key = has_prefix key ''fibe.gg/''"

definition validBoolLabelValue :: "string \<Rightarrow> bool" where
  "validBoolLabelValue v = (let s = to_lower (trim_space v) in s = ''true'' \<or> s = ''false'')"

definition validateFibeLabelValue :: "string \<Rightarrow> string \<Rightarrow> string \<Rightarrow> string" where
  "validateFibeLabelValue name key v =
     (if \<not> isFibeLabel key then []
      else if str_at unsupportedFibeLabelReasons key \<noteq> []
        then label_text name key @ str_at unsupportedFibeLabelReasons key
      else if key \<notin> set allowedFibeLabels then service_text name @ ''unknown label '' @ go_quote key
      else if trim_space v = [] then label_text name key @ ''must not be blank''
      else if key \<in> set booleanFibeLabels \<and> \<not> ContainsVariable v \<and> \<not> validBoolLabelValue v
        then label_text name key @ ''must be boolean true or false''
      else [])"

definition nonempty :: "string list \<Rightarrow> string list" where
  "nonempty errs = filter (\<lambda>e. e \<noteq> []) errs"

definition invalidCloneableRepositoryURL :: "string \<Rightarrow> bool" where
  "invalidCloneableRepositoryURL repoURL =
     (repoURL \<noteq> [] \<and> \<not> ContainsVariable repoURL \<and> \<not> CloneableRepositoryURL repoURL)"

definition validateSourceRepositoryLabels :: "string \<Rightarrow> Definition \<Rightarrow> string smap \<Rightarrow> string \<Rightarrow> string list" where
  "validateSourceRepositoryLabels name d labels repoURL =
     (if repoURL \<noteq> [] \<and> RepositoryURLHasCredentials repoURL
      then [service_text name @ ''fibe.gg/repo_url must not include credentials; use process credentials or SSH access''] else []) @
     (if invalidCloneableRepositoryURL repoURL
      then [service_text name @ ''fibe.gg/repo_url must be a cloneable Git URL or SSH target''] else []) @
     (if def_build d \<noteq> ANil \<and> repoURL = [] then [service_text name @ ''build requires fibe.gg/repo_url''] else []) @
     (if trim_space (str_at labels ''fibe.gg/source_mount'') \<noteq> [] \<and> repoURL = []
      then [service_text name @ ''fibe.gg/source_mount requires fibe.gg/repo_url''] else [])"

definition validateRepoPathLabel :: "string \<Rightarrow> string \<Rightarrow> string \<Rightarrow> string" where
  "validateRepoPathLabel name lab v =
     (if validRepoRelativePath v then []
      else label_text name lab @ ''must be a relative repository path without parent traversal'')"

definition validateRepoPathLabels :: "string \<Rightarrow> string smap \<Rightarrow> string list" where
  "validateRepoPathLabels name labels =
     nonempty (map (\<lambda>l. validateRepoPathLabel name l (str_at labels l)) [''fibe.gg/dockerfile''])"

definition validateSourceBranchLabel :: "string \<Rightarrow> string \<Rightarrow> string" where
  "validateSourceBranchLabel name v =
     (if ContainsVariable v \<or> validGitBranchName v then []
      else label_text name fibeLabelBranch @ ''must be a valid Git branch name'')"

definition validateBuildArgsLabel :: "string \<Rightarrow> string \<Rightarrow> string" where
  "validateBuildArgsLabel name v =
     (if trim_space v = [] \<or> ContainsVariable v \<or> validDockerBuildArgs v then []
      else label_text name fibeLabelBuildArgs @
        ''must contain comma-separated Docker build args in KEY or KEY=VALUE form'')"

definition validateSourceMountLabel :: "string \<Rightarrow> string \<Rightarrow> string" where
  "validateSourceMountLabel name v =
     (if validContainerPath v then []
      else label_text name ''fibe.gg/source_mount'' @ ''must be an absolute container path without parent traversal'')"

definition validateSourceLabels :: "string \<Rightarrow> Definition \<Rightarrow> string smap \<Rightarrow> string list" where
  "validateSourceLabels name d labels =
     validateSourceRepositoryLabels name d labels (trim_space (str_at labels ''fibe.gg/repo_url'')) @
     nonempty [validateSourceBranchLabel name (str_at labels fibeLabelBranch)] @
     validateRepoPathLabels name labels @
     nonempty [validateBuildArgsLabel name (str_at labels fibeLabelBuildArgs)] @
     nonempty [validateSourceMountLabel name (str_at labels ''fibe.gg/source_mount'')]"

subsection \<open>Path rules\<close>

definition allowedPathRulePredicates :: "string list" where
  "allowedPathRulePredicates = [''Path'', ''PathPrefix'', ''PathRegexp'']"

definition forbiddenPathRulePredicates :: "string list" where
  "forbiddenPathRulePredicates =
     [''ClientIP'', ''Headers'', ''HeadersRegexp'', ''Host'', ''HostRegexp'', ''HostSNI'', ''HostSNIRegexp'',
      ''Method'', ''Query'']"

definition isPathRuleQuote :: "char \<Rightarrow> bool" where
  "isPathRuleQuote r = (r = CHR 0x60 \<or> r = CHR 0x27 \<or> r = CHR 0x22)"

definition isPredicateNameByte :: "char \<Rightarrow> bool" where
  "isPredicateNameByte c = (is_upper c \<or> is_lower c \<or> is_digit c \<or> c = CHR ''_'')"

definition predicateNameBeforeParen :: "string \<Rightarrow> string" where
  "predicateNameBeforeParen pre =
     rev (takeWhile isPredicateNameByte (rev (trim_right_set [CHR '' '', CHR 0x09, CHR 0x0D, CHR 0x0A] pre)))"

text \<open>The scan keeps the quote it is in and the text read so far.\<close>

fun path_rule_scan :: "char option \<Rightarrow> string \<Rightarrow> string \<Rightarrow> string list" where
  "path_rule_scan quote seen [] = []"
| "path_rule_scan quote seen (r # rs) =
     (case quote of
        Some q \<Rightarrow> path_rule_scan (if r = q then None else Some q) (seen @ [r]) rs
      | None \<Rightarrow>
          if isPathRuleQuote r then path_rule_scan (Some r) (seen @ [r]) rs
          else if r = CHR ''(''
            then (let n = predicateNameBeforeParen seen; more = path_rule_scan None (seen @ [r]) rs
                  in if n \<noteq> [] then n # more else more)
          else path_rule_scan None (seen @ [r]) rs)"

definition pathRulePredicateNames :: "string \<Rightarrow> string list" where
  "pathRulePredicateNames rule = path_rule_scan None [] rule"

definition validatePathRulePredicateName :: "string \<Rightarrow> string \<Rightarrow> string" where
  "validatePathRulePredicateName name predicate =
     (if predicate \<in> set forbiddenPathRulePredicates then service_text name @ ''fibe.gg/path_rule cannot use '' @ predicate
      else if predicate \<notin> set allowedPathRulePredicates
        then service_text name @ ''fibe.gg/path_rule must use Path, PathPrefix, or PathRegexp''
      else [])"

definition validatePathRulePredicates :: "string \<Rightarrow> string list \<Rightarrow> string" where
  "validatePathRulePredicates name predicates =
     (case nonempty (map (validatePathRulePredicateName name) predicates) of [] \<Rightarrow> [] | e # _ \<Rightarrow> e)"

definition validatePathRuleLabel :: "string \<Rightarrow> string \<Rightarrow> string" where
  "validatePathRuleLabel name rule0 =
     (let rule = trim_space rule0 in
      if rule = [] then []
      else if pathRulePredicateNames rule = []
        then (if ContainsVariable rule then []
              else service_text name @ ''fibe.gg/path_rule must use Path, PathPrefix, or PathRegexp'')
      else validatePathRulePredicates name (pathRulePredicateNames rule))"

subsection \<open>Routing labels\<close>

definition validateVisibilityRequiresPort :: "string \<Rightarrow> string smap \<Rightarrow> string" where
  "validateVisibilityRequiresPort name labels =
     (if trim_space (str_at labels ''fibe.gg/visibility'') = [] \<or> trim_space (str_at labels ''fibe.gg/port'') \<noteq> [] then []
      else service_text name @ ''fibe.gg/visibility requires fibe.gg/port'')"

definition validatePortLabel :: "string \<Rightarrow> string \<Rightarrow> string" where
  "validatePortLabel name rawPort0 =
     (let rawPort = trim_space rawPort0
      in if rawPort = [] \<or> ContainsVariable rawPort \<or> validPortEndpoint rawPort then []
         else service_text name @ ''fibe.gg/port must be between 1 and 65535'')"

definition validateVisibilityLabel :: "string \<Rightarrow> string \<Rightarrow> string" where
  "validateVisibilityLabel name v0 =
     (let v = trim_space v0
      in if v = [] \<or> ContainsVariable v \<or> v = ''external'' \<or> v = ''internal'' then []
         else service_text name @ ''fibe.gg/visibility must be external or internal'')"

definition validateSubdomainLabel :: "string \<Rightarrow> string \<Rightarrow> string" where
  "validateSubdomainLabel name s0 =
     (let s = trim_space s0
      in if s = [] \<or> s = ''@'' \<or> ContainsVariable s \<or> subdomainPattern s then []
         else service_text name @ ''fibe.gg/subdomain must be a valid subdomain'')"

definition validateRoutingLabels :: "string \<Rightarrow> string smap \<Rightarrow> string list" where
  "validateRoutingLabels name labels =
     nonempty
       [validateVisibilityRequiresPort name labels,
        validatePortLabel name (str_at labels ''fibe.gg/port''),
        validatePathRuleLabel name (str_at labels ''fibe.gg/path_rule''),
        validateVisibilityLabel name (str_at labels ''fibe.gg/visibility''),
        validateSubdomainLabel name (str_at labels ''fibe.gg/subdomain'')]"

subsection \<open>A service\<close>

definition validateServiceLabels :: "string \<Rightarrow> Definition \<Rightarrow> string smap \<Rightarrow> string list" where
  "validateServiceLabels name d labels =
     validateFibeLabelRawTypes name (def_labels d) @
     validateLabelMap name labels validateFibeLabelValue @
     validateSourceLabels name d labels @
     validateRoutingLabels name labels"

definition validateUnsupportedServiceRuntimeFields :: "string \<Rightarrow> Definition \<Rightarrow> string list" where
  "validateUnsupportedServiceRuntimeFields name d =
     (if has_key (def_raw d) ''env_file''
      then [service_text name @ ''env_file is not implemented in fibe-distilled; env-file resolution is outside fibe-distilled because fibe-distilled does not fetch or upload env files'']
      else [])"

definition ValidationErrors :: "string \<Rightarrow> Definition \<Rightarrow> string list" where
  "ValidationErrors name d =
     validateUnsupportedServiceRuntimeFields name d @ validateServiceLabels name d (NormalizeLabels (def_labels d))"

subsection \<open>Facts\<close>

lemma nonempty_Nil [simp]: "nonempty errs = [] \<longleftrightarrow> (\<forall>e \<in> set errs. e = [])"
  by (auto simp: nonempty_def filter_empty_conv)

lemma label_text_ne [simp]: "label_text name key @ t \<noteq> []" "service_text name @ t \<noteq> []"
  by (simp_all add: label_text_def service_text_def)

lemma validatePathRulePredicates_Nil:
  "validatePathRulePredicates name ps = [] \<longleftrightarrow> (\<forall>p \<in> set ps. validatePathRulePredicateName name p = [])"
proof -
  have "(case nonempty errs of [] \<Rightarrow> [] | e # _ \<Rightarrow> e) = [] \<longleftrightarrow> (\<forall>e \<in> set errs. e = [])" for errs
    by (induction errs) (auto simp: nonempty_def)
  from this[of "map (validatePathRulePredicateName name) ps"] show ?thesis
    unfolding validatePathRulePredicates_def by simp
qed

lemma accepted_path_rule:
  assumes "validatePathRuleLabel name rule = []" and "trim_space rule \<noteq> []" and "\<not> ContainsVariable (trim_space rule)"
  shows "pathRulePredicateNames (trim_space rule) \<noteq> [] \<and>
    set (pathRulePredicateNames (trim_space rule)) \<subseteq> set allowedPathRulePredicates"
proof -
  have "pathRulePredicateNames (trim_space rule) \<noteq> []"
    and "validatePathRulePredicates name (pathRulePredicateNames (trim_space rule)) = []"
    using assms label_text_ne(2) unfolding validatePathRuleLabel_def Let_def by (metis, metis)
  moreover have "p \<in> set allowedPathRulePredicates" if "validatePathRulePredicateName name p = []" for p
    using that label_text_ne(2) unfolding validatePathRulePredicateName_def by metis
  ultimately show ?thesis using validatePathRulePredicates_Nil by blast
qed

lemma ValidationErrors_Nil:
  assumes "ValidationErrors name d = []"
  shows "validateSourceLabels name d (NormalizeLabels (def_labels d)) = []"
    and "validateRoutingLabels name (NormalizeLabels (def_labels d)) = []"
    and "validateLabelMap name (NormalizeLabels (def_labels d)) validateFibeLabelValue = []"
    and "\<not> has_key (def_raw d) ''env_file''"
  using assms by (auto simp: ValidationErrors_def validateServiceLabels_def
      validateUnsupportedServiceRuntimeFields_def split: if_splits)

text \<open>A label value as later steps read it.\<close>

abbreviation label_of :: "Definition \<Rightarrow> string \<Rightarrow> string" where
  "label_of d key \<equiv> str_at (NormalizeLabels (def_labels d)) key"

lemma validated_source:
  assumes "ValidationErrors name d = []"
  shows "validRepoRelativePath (label_of d ''fibe.gg/dockerfile'')"
    and "validContainerPath (label_of d ''fibe.gg/source_mount'')"
    and "ContainsVariable (label_of d fibeLabelBranch) \<or> validGitBranchName (label_of d fibeLabelBranch)"
    and "trim_space (label_of d ''fibe.gg/repo_url'') \<noteq> [] \<Longrightarrow>
      \<not> RepositoryURLHasCredentials (trim_space (label_of d ''fibe.gg/repo_url'')) \<and>
      \<not> invalidCloneableRepositoryURL (trim_space (label_of d ''fibe.gg/repo_url''))"
    and "def_build d \<noteq> ANil \<Longrightarrow> trim_space (label_of d ''fibe.gg/repo_url'') \<noteq> []"
  using ValidationErrors_Nil(1)[OF assms]
  by (auto simp: validateSourceLabels_def validateSourceRepositoryLabels_def validateRepoPathLabels_def
      validateRepoPathLabel_def validateSourceMountLabel_def validateSourceBranchLabel_def Let_def split: if_splits)

lemma validated_routing:
  assumes "ValidationErrors name d = []"
  shows "validatePortLabel name (label_of d ''fibe.gg/port'') = []"
    and "validatePathRuleLabel name (label_of d ''fibe.gg/path_rule'') = []"
    and "validateVisibilityLabel name (label_of d ''fibe.gg/visibility'') = []"
    and "validateSubdomainLabel name (label_of d ''fibe.gg/subdomain'') = []"
  using ValidationErrors_Nil(2)[OF assms] by (auto simp: validateRoutingLabels_def)

lemma validated_port:
  assumes "ValidationErrors name d = []" and "trim_space (label_of d fibeLabelPort) \<noteq> []"
    and "\<not> ContainsVariable (trim_space (label_of d fibeLabelPort))"
  shows "1 \<le> s_port (summarizeService name d) \<and> s_port (summarizeService name d) \<le> 65535"
proof -
  let ?p = "trim_space (label_of d fibeLabelPort)"
  have "validPortEndpoint ?p"
    using validated_routing(1)[OF assms(1)] assms(2,3)
    by (auto simp: validatePortLabel_def fibeLabelPort_def Let_def split: if_splits)
  then obtain n where "parse_int64 ?p = Inr n" "1 \<le> n" "n \<le> 65535"
    by (auto simp: validPortEndpoint_def split: sum.splits)
  then show ?thesis
    using assms(2) by (simp add: summarizeService_def intLabel_def atoi_value_def Let_def)
qed

lemma validated_visibility:
  assumes "ValidationErrors name d = []" and "\<not> ContainsVariable (trim_space (label_of d fibeLabelVisibility))"
  shows "s_visibility (summarizeService name d) \<in> {''external'', ''internal''}"
  using validated_routing(3)[OF assms(1)] assms(2)
  by (auto simp: validateVisibilityLabel_def summarizeService_def label_or_def fibeLabelVisibility_def
      defaultVisibility_def Let_def split: if_splits)

lemma validated_subdomain:
  assumes "ValidationErrors name d = []" and "trim_space (label_of d fibeLabelSubdomain) \<noteq> []"
    and "\<not> ContainsVariable (trim_space (label_of d fibeLabelSubdomain))"
  shows "s_subdomain (summarizeService name d) = ''@'' \<or> subdomainPattern (s_subdomain (summarizeService name d))"
  using validated_routing(4)[OF assms(1)] assms(2,3)
  by (auto simp: validateSubdomainLabel_def summarizeService_def label_or_def fibeLabelSubdomain_def Let_def
      split: if_splits)

subsection \<open>Properties\<close>

text \<open>When a service passes the label checks, what its source labels name is safe to use, as far as they hold no
template variable: the Dockerfile lies inside the checkout, the mount is an absolute path below the root, the branch
is neither an option nor a traversal, and the repository has no credentials in its URL and can be cloned.\<close>

theorem validated_source_labels_safe:
  assumes "ValidationErrors name d = []"
  shows "(trim_space (label_of d ''fibe.gg/dockerfile'') \<noteq> [] \<and>
        \<not> ContainsVariable (trim_space (label_of d ''fibe.gg/dockerfile'')) \<longrightarrow>
      (\<exists>segs. segs \<noteq> [] \<and>
        walk [] (split_char (CHR ''/'') (trim_space (label_of d ''fibe.gg/dockerfile''))) = Some segs)) \<and>
    (trim_space (label_of d ''fibe.gg/source_mount'') \<noteq> [] \<and>
        \<not> ContainsVariable (trim_space (label_of d ''fibe.gg/source_mount'')) \<longrightarrow>
      path_is_abs (trim_space (label_of d ''fibe.gg/source_mount'')) \<and> (\<exists>segs. segs \<noteq> [] \<and>
        walk [] (split_char (CHR ''/'') (trim_space (label_of d ''fibe.gg/source_mount''))) = Some segs)) \<and>
    (trim_space (label_of d fibeLabelBranch) \<noteq> [] \<and> \<not> ContainsVariable (label_of d fibeLabelBranch) \<longrightarrow>
      walk [] (split_char (CHR ''/'') (trim_space (label_of d fibeLabelBranch))) =
        Some (split_char (CHR ''/'') (trim_space (label_of d fibeLabelBranch))) \<and>
      \<not> has_prefix (trim_space (label_of d fibeLabelBranch)) ''-'') \<and>
    (trim_space (label_of d ''fibe.gg/repo_url'') \<noteq> [] \<longrightarrow>
      \<not> RepositoryURLHasCredentials (trim_space (label_of d ''fibe.gg/repo_url'')) \<and>
      (\<not> ContainsVariable (trim_space (label_of d ''fibe.gg/repo_url'')) \<longrightarrow>
        CloneableRepositoryURL (trim_space (label_of d ''fibe.gg/repo_url''))))"
proof (intro conjI impI)
  note src = validated_source[OF assms]
  let ?dockerfile = "trim_space (label_of d ''fibe.gg/dockerfile'')"
    and ?mount = "trim_space (label_of d ''fibe.gg/source_mount'')" and ?repo = "trim_space (label_of d ''fibe.gg/repo_url'')"
  show "\<exists>segs. segs \<noteq> [] \<and> walk [] (split_char (CHR ''/'') ?dockerfile) = Some segs"
    if "?dockerfile \<noteq> [] \<and> \<not> ContainsVariable ?dockerfile"
    using validRepoRelativePath_inside(1,2)[OF src(1)] that by blast
  show "path_is_abs ?mount" "\<exists>segs. segs \<noteq> [] \<and> walk [] (split_char (CHR ''/'') ?mount) = Some segs"
    if "?mount \<noteq> [] \<and> \<not> ContainsVariable ?mount"
    using validContainerPath_below_root[OF src(2)] that by blast+
  show "walk [] (split_char (CHR ''/'') (trim_space (label_of d fibeLabelBranch))) =
        Some (split_char (CHR ''/'') (trim_space (label_of d fibeLabelBranch)))"
    "\<not> has_prefix (trim_space (label_of d fibeLabelBranch)) ''-''"
    if "trim_space (label_of d fibeLabelBranch) \<noteq> [] \<and> \<not> ContainsVariable (label_of d fibeLabelBranch)"
    using validGitBranchName_segments(1,2) src(3) that by blast+
  show "\<not> RepositoryURLHasCredentials ?repo" if "?repo \<noteq> []" using src(4) that by blast
  show "CloneableRepositoryURL ?repo" if "?repo \<noteq> []" "\<not> ContainsVariable ?repo"
    using src(4)[OF that(1)] that unfolding invalidCloneableRepositoryURL_def by blast
qed

definition demo_service :: Definition where
  "demo_service = zero_definition\<lparr>def_labels := ASeq [AStr ''fibe.gg/repo_url=git@github.com:a/b'',
     AStr ''fibe.gg/dockerfile=d/Dockerfile'', AStr ''fibe.gg/port=3000'',
     AStr ''fibe.gg/visibility=internal'', AStr ''fibe.gg/subdomain=app'']\<rparr>"

lemma demo_service_valid:
  "ValidationErrors ''web'' demo_service = []"
  "trim_space (label_of demo_service ''fibe.gg/dockerfile'') = ''d/Dockerfile''"
  "\<not> ContainsVariable ''d/Dockerfile''"
  "trim_space (label_of demo_service fibeLabelPort) = ''3000''"
  "\<not> ContainsVariable ''3000''"
  by code_simp+

theorem validated_source_labels_safe_witness:
  "\<exists>segs. segs \<noteq> [] \<and> walk [] (split_char (CHR ''/'') ''d/Dockerfile'') = Some segs"
  using validated_source_labels_safe[OF demo_service_valid(1), THEN conjunct1] demo_service_valid(3)
  unfolding demo_service_valid(2) by blast

text \<open>When a service passes the label checks, its summary routes safely, as far as its labels hold no template
variable: the port is from 1 to 65535, the visibility is one of the two known ones, the subdomain is a single DNS
label or the root, and a path rule calls path predicates only.\<close>

theorem validated_routing_labels_safe:
  assumes "ValidationErrors name d = []"
  shows "(trim_space (label_of d fibeLabelPort) \<noteq> [] \<and> \<not> ContainsVariable (trim_space (label_of d fibeLabelPort)) \<longrightarrow>
      1 \<le> s_port (summarizeService name d) \<and> s_port (summarizeService name d) \<le> 65535) \<and>
    (\<not> ContainsVariable (trim_space (label_of d fibeLabelVisibility)) \<longrightarrow>
      s_visibility (summarizeService name d) \<in> {''external'', ''internal''}) \<and>
    (trim_space (label_of d fibeLabelSubdomain) \<noteq> [] \<and>
        \<not> ContainsVariable (trim_space (label_of d fibeLabelSubdomain)) \<longrightarrow>
      s_subdomain (summarizeService name d) = ''@'' \<or> subdomainPattern (s_subdomain (summarizeService name d))) \<and>
    (trim_space (label_of d ''fibe.gg/path_rule'') \<noteq> [] \<and>
        \<not> ContainsVariable (trim_space (label_of d ''fibe.gg/path_rule'')) \<longrightarrow>
      pathRulePredicateNames (trim_space (label_of d ''fibe.gg/path_rule'')) \<noteq> [] \<and>
      set (pathRulePredicateNames (trim_space (label_of d ''fibe.gg/path_rule''))) \<subseteq> set allowedPathRulePredicates)"
  using validated_port[OF assms] validated_visibility[OF assms] validated_subdomain[OF assms]
    accepted_path_rule[OF validated_routing(2)[OF assms]] by blast

theorem validated_routing_labels_safe_witness:
  "s_port (summarizeService ''web'' demo_service) \<le> 65535"
  using validated_routing_labels_safe[OF demo_service_valid(1), THEN conjunct1] demo_service_valid(5)
  unfolding demo_service_valid(4) by blast

end
