(* ===== verification/ServiceRouting.thy ===== *)
theory ServiceRouting
  imports ServiceValidation
begin

text \<open>
  \<open>internal/composefile/service\<close>, routes: \<open>routing.go\<close>, \<open>routing\_auth.go\<close>, \<open>routing\_labels.go\<close> and
  \<open>routing\_urls.go\<close>. A routed service gets the Traefik labels of its route, and an internal one basic
  authentication. The password hash belongs to the \<open>bcrypt\<close> package and is a parameter. The lemmas follow the
  labels that make a route and its authentication through the writes.
\<close>

subsection \<open>URLs and rules\<close>

definition hostRule :: "string \<Rightarrow> string \<Rightarrow> string" where
  "hostRule rootDomain sub = (if sub = [] \<or> sub = ''@'' then rootDomain else sub @ ''.'' @ rootDomain)"

definition serviceURL :: "string \<Rightarrow> string \<Rightarrow> string \<Rightarrow> string" where
  "serviceURL scheme rootDomain sub =
     (if scheme = [] then ''http'' else scheme) @ ''://'' @ hostRule rootDomain sub"

definition routeRule :: "string \<Rightarrow> string \<Rightarrow> string" where
  "routeRule host pathRule =
     ''Host('' @ [CHR 0x60] @ host @ [CHR 0x60] @ '')'' @
     (if trim_space pathRule \<noteq> [] then '' && ('' @ pathRule @ '')'' else [])"

subsection \<open>Authentication (routing\_auth.go)\<close>

definition traefikMiddlewarePrefix :: string where
  "traefikMiddlewarePrefix = ''traefik.http.middlewares.''"

definition traefikMiddlewareSuffix :: string where
  "traefikMiddlewareSuffix = ''.basicauth.users''"

definition traefikServicePrefix :: string where
  "traefikServicePrefix = ''traefik.http.services.''"

definition fibeDistilledManagedLabel :: string where
  "fibeDistilledManagedLabel = ''fibe-distilled.managed''"

definition routerMiddlewareLabel :: "string \<Rightarrow> string \<Rightarrow> string" where
  "routerMiddlewareLabel router scheme =
     (if scheme = ''https'' then traefikRouterPrefix @ router @ ''-secure.middlewares''
      else traefikRouterPrefix @ router @ ''-http.middlewares'')"

definition hasBasicAuthUsers :: "doc \<Rightarrow> bool" where
  "hasBasicAuthUsers labels =
     (\<exists>kv \<in> set labels. has_prefix (fst kv) traefikMiddlewarePrefix \<and> has_suffix (fst kv) traefikMiddlewareSuffix)"

type_synonym hash_function = "string \<Rightarrow> string + string"

definition basicAuthUsers :: "hash_function \<Rightarrow> string \<Rightarrow> int \<Rightarrow> string + string" where
  "basicAuthUsers bcrypt password playgroundID =
     (case bcrypt password of
        Inl e \<Rightarrow> Inl (''generate internal basic auth: '' @ e)
      | Inr h \<Rightarrow>
          Inr (''playground:'' @ replace_all h ''$'' ''$$'' @
            (if playgroundID > 0 then ''-'' @ itoa playgroundID else [])))"

definition middlewareNames :: "any \<Rightarrow> string list" where
  "middlewareNames existing = (case existing of AStr s \<Rightarrow> split_char (CHR '','') s | _ \<Rightarrow> [])"

definition appendMiddleware :: "any \<Rightarrow> string \<Rightarrow> string" where
  "appendMiddleware existing middleware =
     (let names = middlewareNames existing
      in if list_ex (\<lambda>n. trim_space n = middleware) names then join_str '','' (cleanUniqueStrings names)
         else join_str '','' (cleanUniqueStrings (names @ [middleware])))"

definition addInternalRouteAuth ::
    "hash_function \<Rightarrow> doc \<Rightarrow> string \<Rightarrow> string \<Rightarrow> string \<Rightarrow> string \<Rightarrow> int \<Rightarrow> string + doc" where
  "addInternalRouteAuth bcrypt labels router scheme visibility password playgroundID =
     (if visibility \<noteq> ''internal'' \<or> hasBasicAuthUsers labels then Inr labels
      else if trim_space password = []
        then Inl (''internal route '' @ go_quote router @ '' requires a Basic Auth password'')
      else case basicAuthUsers bcrypt password playgroundID of
             Inl e \<Rightarrow> Inl e
           | Inr users \<Rightarrow>
               (let middleware = router @ ''-auth'';
                    key = routerMiddlewareLabel router scheme;
                    labels1 = put_key (traefikMiddlewarePrefix @ middleware @ traefikMiddlewareSuffix) (AStr users) labels
                in Inr (put_key key (AStr (appendMiddleware (any_at labels1 key) middleware)) labels1)))"

subsection \<open>Labels (routing\_labels.go)\<close>

definition put_label :: "string \<Rightarrow> string \<Rightarrow> doc \<Rightarrow> doc" where
  "put_label k v labels = put_key k (AStr v) labels"

definition addHTTPRouterLabels :: "doc \<Rightarrow> string \<Rightarrow> string \<Rightarrow> string \<Rightarrow> int \<Rightarrow> doc" where
  "addHTTPRouterLabels labels router project rule port =
     put_label (traefikServicePrefix @ router @ ''.loadbalancer.server.port'') (itoa port)
     (put_label (traefikRouterPrefix @ router @ ''-http.service'') router
      (put_label (traefikRouterPrefix @ router @ ''-http.entrypoints'') ''web''
       (put_label (traefikRouterPrefix @ router @ ''-http.rule'') rule
        (put_label ''traefik.docker.network'' (project @ ''_default'')
         (put_label ''traefik.enable'' ''true''
          (put_label fibeDistilledManagedLabel ''true'' labels))))))"

definition addHTTPSRouterLabels :: "doc \<Rightarrow> string \<Rightarrow> string \<Rightarrow> doc" where
  "addHTTPSRouterLabels labels router rule =
     (let redirect = router @ ''-redirect'';
          key = traefikRouterPrefix @ router @ ''-http.middlewares'';
          labels1 = put_label (''traefik.http.middlewares.'' @ redirect @ ''.redirectscheme.scheme'') ''https'' labels
      in put_label (traefikRouterPrefix @ router @ ''-secure.service'') router
         (put_label (traefikRouterPrefix @ router @ ''-secure.tls.certresolver'') ''letsencrypt''
          (put_label (traefikRouterPrefix @ router @ ''-secure.tls'') ''true''
           (put_label (traefikRouterPrefix @ router @ ''-secure.entrypoints'') ''websecure''
            (put_label (traefikRouterPrefix @ router @ ''-secure.rule'') rule
             (put_label key (appendMiddleware (any_at labels1 key) redirect) labels1))))))"

subsection \<open>Injection (routing.go)\<close>

definition mutable_service :: "doc \<Rightarrow> string \<Rightarrow> doc option" where
  "mutable_service services name = (case any_at services name of AMap s \<Rightarrow> Some s | _ \<Rightarrow> None)"

definition routedService :: "doc \<Rightarrow> Summary \<Rightarrow> string \<Rightarrow> doc option" where
  "routedService services s rootDomain =
     (if rootDomain = [] \<or> s_port s = 0 then None else mutable_service services (s_name s))"

definition route_labels :: "doc \<Rightarrow> Summary \<Rightarrow> string \<Rightarrow> string \<Rightarrow> string \<Rightarrow> doc" where
  "route_labels raw s project rootDomain scheme =
     (let router = project @ ''-'' @ s_name s;
          rule = routeRule (hostRule rootDomain (s_subdomain s)) (s_path_rule s);
          labels = addHTTPRouterLabels (normalizeLabelsAny (any_at raw ''labels'')) router project rule (s_port s)
      in if scheme = ''https'' then addHTTPSRouterLabels labels router rule else labels)"

definition injectTraefik ::
    "hash_function \<Rightarrow> doc \<Rightarrow> Summary \<Rightarrow> string \<Rightarrow> string \<Rightarrow> string \<Rightarrow> string \<Rightarrow> int \<Rightarrow> string + doc" where
  "injectTraefik bcrypt services s project rootDomain scheme internalPassword playgroundID =
     (case routedService services s rootDomain of
        None \<Rightarrow> Inr services
      | Some raw \<Rightarrow>
          (case addInternalRouteAuth bcrypt (route_labels raw s project rootDomain scheme)
                  (project @ ''-'' @ s_name s) scheme (s_visibility s) internalPassword playgroundID of
             Inl e \<Rightarrow> Inl e
           | Inr labels \<Rightarrow>
               Inr (put_key (s_name s) (AMap (del_key ''ports'' (put_key ''labels'' (AMap labels) raw))) services)))"

subsection \<open>Facts\<close>

lemma any_at_put_label [simp]:
  "any_at (put_label k v m) k' = (if k' = k then AStr v else any_at m k')"
  by (simp add: put_label_def)

lemma split_char_comma_free: "n \<in> set (middlewareNames e) \<Longrightarrow> CHR '','' \<notin> set n"
  by (cases e) (auto simp: middlewareNames_def dest: split_char_parts)

lemma cleanUniqueStrings_ne: "n \<in> set vs \<Longrightarrow> trim_space n \<noteq> [] \<Longrightarrow> cleanUniqueStrings vs \<noteq> []"
proof
  assume n: "n \<in> set vs" "trim_space n \<noteq> []" and "cleanUniqueStrings vs = []"
  then have "set (map trim_space vs) - {[]} = {}" using cleanUniqueStrings_spec(2)[of vs] by simp
  with n show False by auto
qed

text \<open>The middleware appended is a member of the list read back, and the earlier members are kept.\<close>

lemma appendMiddleware_members:
  assumes "CHR '','' \<notin> set mw" and "trim_space mw = mw" and "mw \<noteq> []"
  shows "set (split_char (CHR '','') (appendMiddleware e mw)) =
    insert mw (set (map trim_space (middlewareNames e)) - {[]})"
proof -
  obtain names where app: "appendMiddleware e mw = join_str '','' (cleanUniqueStrings names)"
    and names: "set (map trim_space names) = insert mw (set (map trim_space (middlewareNames e)))"
    and src: "\<forall>n \<in> set names. CHR '','' \<notin> set n"
  proof (cases "list_ex (\<lambda>n. trim_space n = mw) (middlewareNames e)")
    case True
    then have "mw \<in> set (map trim_space (middlewareNames e))" by (auto simp: list_ex_iff)
    then show ?thesis
      using that[of "middlewareNames e"] True split_char_comma_free by (auto simp: appendMiddleware_def)
  next
    case False
    then show ?thesis
      using that[of "middlewareNames e @ [mw]"] split_char_comma_free assms(1,2) by (auto simp: appendMiddleware_def)
  qed
  have mem: "set (cleanUniqueStrings names) = insert mw (set (map trim_space (middlewareNames e)) - {[]})"
    using cleanUniqueStrings_spec(2)[of names] names assms(3) by auto
  then have ne: "cleanUniqueStrings names \<noteq> []" by auto
  have "CHR '','' \<notin> set n" if "n \<in> set (cleanUniqueStrings names)" for n
  proof -
    have "n \<in> set (map trim_space names)" using that cleanUniqueStrings_spec(2)[of names] by blast
    then obtain m where "m \<in> set names" "n = trim_space m" by auto
    then show ?thesis using src trim_space_chars by blast
  qed
  then have "split_char (CHR '','') (join_str '','' (cleanUniqueStrings names)) = cleanUniqueStrings names"
    by (rule split_join[OF ne])
  then show ?thesis using app mem by simp
qed

text \<open>None of the labels of a route is taken for a basic-auth label of the service.\<close>

definition basic_auth_key :: "string \<Rightarrow> bool" where
  "basic_auth_key k = (has_prefix k traefikMiddlewarePrefix \<and> has_suffix k traefikMiddlewareSuffix)"

lemma hasBasicAuthUsers_iff: "hasBasicAuthUsers labels \<longleftrightarrow> (\<exists>k. has_key labels k \<and> basic_auth_key k)"
  by (auto simp: hasBasicAuthUsers_def basic_auth_key_def has_key_iff)

lemma hasBasicAuthUsers_put_label [simp]:
  "hasBasicAuthUsers (put_label k v labels) \<longleftrightarrow> basic_auth_key k \<or> hasBasicAuthUsers labels"
  by (auto simp: hasBasicAuthUsers_iff put_label_def)

lemma not_basic_auth_key [simp]:
  "\<not> basic_auth_key (traefikRouterPrefix @ k)" "\<not> basic_auth_key (traefikServicePrefix @ k)"
  "\<not> basic_auth_key ''traefik.docker.network''" "\<not> basic_auth_key ''traefik.enable''"
  "\<not> basic_auth_key fibeDistilledManagedLabel"
  "\<not> basic_auth_key (a @ ''.redirectscheme.scheme'')"
  by (simp_all add: basic_auth_key_def traefikRouterPrefix_def traefikServicePrefix_def traefikMiddlewarePrefix_def
      fibeDistilledManagedLabel_def traefikMiddlewareSuffix_def has_suffix_def)

lemma route_labels_auth:
  "hasBasicAuthUsers (route_labels raw s project rootDomain scheme) =
   hasBasicAuthUsers (normalizeLabelsAny (any_at raw ''labels''))"
  using not_basic_auth_key(6)[of "''traefik.http.middlewares.'' @ project @ ''-'' @ s_name s @ ''-redirect''"]
  by (simp add: route_labels_def addHTTPRouterLabels_def addHTTPSRouterLabels_def Let_def)

lemma addInternalRouteAuth_internal:
  assumes "addInternalRouteAuth bcrypt labels router scheme ''internal'' password i = Inr labels'"
    and "\<not> hasBasicAuthUsers labels"
    and mw: "CHR '','' \<notin> set router" "trim_space (router @ ''-auth'') = router @ ''-auth''"
  obtains h users mws where "bcrypt password = Inr h" "trim_space password \<noteq> []"
    "any_at labels' (traefikMiddlewarePrefix @ router @ ''-auth'' @ traefikMiddlewareSuffix) = AStr users"
    "has_prefix users ''playground:''" "any_at labels' (routerMiddlewareLabel router scheme) = AStr mws"
    "router @ ''-auth'' \<in> set (split_char (CHR '','') mws)"
proof -
  let ?key = "routerMiddlewareLabel router scheme" and ?mw = "router @ ''-auth''"
  let ?users = "traefikMiddlewarePrefix @ ?mw @ traefikMiddlewareSuffix"
  obtain h users where h: "bcrypt password = Inr h" "trim_space password \<noteq> []"
    "basicAuthUsers bcrypt password i = Inr users"
    and l: "labels' = put_key ?key (AStr (appendMiddleware (any_at (put_key ?users (AStr users) labels) ?key) ?mw))
        (put_key ?users (AStr users) labels)"
    using assms(1,2) by (auto simp: addInternalRouteAuth_def basicAuthUsers_def Let_def split: if_splits sum.splits)
  have "?key \<noteq> ?users"
    by (simp add: routerMiddlewareLabel_def traefikRouterPrefix_def traefikMiddlewarePrefix_def)
  moreover have "has_prefix users ''playground:''"
    using h(1,3) by (auto simp: basicAuthUsers_def)
  moreover have "?mw \<in> set (split_char (CHR '','') (appendMiddleware (any_at (put_key ?users (AStr users) labels) ?key) ?mw))"
    using mw by (subst appendMiddleware_members) auto
  ultimately show ?thesis using that[OF h(1,2)] l by simp
qed

subsection \<open>Properties\<close>


definition routed_summary :: Summary where
  "routed_summary = (summarizeService ''web'' zero_definition)\<lparr>s_port := 80, s_visibility := ''internal''\<rparr>"

lemma routed_summary_simps [simp]:
  "s_name routed_summary = ''web''" "s_port routed_summary = 80" "s_visibility routed_summary = ''internal''"
  by (simp_all add: routed_summary_def summarizeService_def Let_def)


lemma route_labels_middlewares:
  "any_at (route_labels raw s project rootDomain scheme) (routerMiddlewareLabel (project @ ''-'' @ s_name s) scheme) =
   any_at (normalizeLabelsAny (any_at raw ''labels'')) (routerMiddlewareLabel (project @ ''-'' @ s_name s) scheme)"
  by (simp add: route_labels_def addHTTPRouterLabels_def addHTTPSRouterLabels_def routerMiddlewareLabel_def Let_def
      traefikRouterPrefix_def traefikServicePrefix_def fibeDistilledManagedLabel_def)

text \<open>A basic-auth label for any middleware at all switches the protection off: an internal service that declares
one, be it for the middleware of another router, is routed without authentication of its own, its router keeping
whatever middlewares its labels had.\<close>

theorem declared_basic_auth_disables_protection:
  assumes "rootDomain \<noteq> []" and "s_port s \<noteq> 0" and "mutable_service services (s_name s) = Some raw"
    and "hasBasicAuthUsers (normalizeLabelsAny (any_at raw ''labels''))"
  shows "\<exists>labels. injectTraefik bcrypt services s project rootDomain scheme password i =
      Inr (put_key (s_name s) (AMap (del_key ''ports'' (put_key ''labels'' (AMap labels) raw))) services) \<and>
    any_at labels (routerMiddlewareLabel (project @ ''-'' @ s_name s) scheme) =
      any_at (normalizeLabelsAny (any_at raw ''labels'')) (routerMiddlewareLabel (project @ ''-'' @ s_name s) scheme)"
proof -
  have "hasBasicAuthUsers (route_labels raw s project rootDomain scheme)" using assms(4) route_labels_auth by blast
  then have "injectTraefik bcrypt services s project rootDomain scheme password i =
      Inr (put_key (s_name s) (AMap (del_key ''ports'' (put_key ''labels''
        (AMap (route_labels raw s project rootDomain scheme)) raw))) services)"
    using assms(1-3) by (simp add: injectTraefik_def routedService_def addInternalRouteAuth_def)
  with route_labels_middlewares show ?thesis by blast
qed

theorem declared_basic_auth_disables_protection_witness:
  "\<exists>services'. injectTraefik (\<lambda>p. Inr p) [(''web'', AMap [(''labels'',
     AMap [(''traefik.http.middlewares.other.basicauth.users'', AStr ''u:h'')])])]
     routed_summary ''p'' ''example.com'' ''http'' [] 0 = Inr services'"
proof -
  let ?raw = "[(''labels'', AMap [(''traefik.http.middlewares.other.basicauth.users'', AStr ''u:h'')])]"
  have "mutable_service [(''web'', AMap ?raw)] (s_name routed_summary) = Some ?raw"
    by (simp add: mutable_service_def any_at_def)
  moreover have "hasBasicAuthUsers (normalizeLabelsAny (any_at ?raw ''labels''))" by code_simp
  ultimately show ?thesis
    using declared_basic_auth_disables_protection[of "''example.com''" routed_summary "[(''web'', AMap ?raw)]" ?raw
        "\<lambda>p. Inr p" "''p''" "''http''" "[]" 0] by auto
qed

definition escaping_rule :: string where
  "escaping_rule = ''Path('' @ [CHR 0x60] @ ''/a'' @ [CHR 0x60] @ '')) || (PathPrefix('' @ [CHR 0x60] @ ''/'' @ [CHR 0x60] @ '')''"

text \<open>A path rule is checked for the predicates it calls but not for balanced parentheses, so an accepted rule can
close the group it is put in: the rule of the route then matches a path on every host.\<close>

theorem path_rule_escapes_host:
  "validatePathRuleLabel name escaping_rule = [] \<and>
   routeRule host escaping_rule =
     ''Host('' @ [CHR 0x60] @ host @ [CHR 0x60] @ '') && (Path('' @ [CHR 0x60] @ ''/a'' @ [CHR 0x60] @ '')) || (PathPrefix('' @
       [CHR 0x60] @ ''/'' @ [CHR 0x60] @ ''))''"
proof -
  have names: "trim_space escaping_rule = escaping_rule" "escaping_rule \<noteq> []"
    "pathRulePredicateNames escaping_rule = [''Path'', ''PathPrefix'']" by code_simp+
  then have "validatePathRuleLabel name escaping_rule = []"
    by (simp add: validatePathRuleLabel_def validatePathRulePredicates_Nil validatePathRulePredicateName_def
        allowedPathRulePredicates_def forbiddenPathRulePredicates_def Let_def)
  moreover have "routeRule host escaping_rule = ''Host('' @ [CHR 0x60] @ host @ [CHR 0x60] @ '') && ('' @ escaping_rule @ '')''"
    using names(1,2) by (simp add: routeRule_def)
  ultimately show ?thesis by (simp add: escaping_rule_def)
qed

end
