(* ===== verification/ServiceVolumes.thy ===== *)
theory ServiceVolumes
  imports ServiceLabels
begin

text \<open>
  \<open>internal/composefile/service/volumes.go\<close>: reading and rewriting the volumes of a service, in short
  (\<open>source:target:mode\<close>, with colons inside \<open>${...}\<close> ignored) and long syntax. The rewriting functions take the
  decision as a function from the source and the target of an item to the new source, or nothing to keep the item.
  The lemmas say where the mounts of a target come from after a source mount is written or removed.
\<close>

subsection \<open>Short syntax\<close>

record volumeSplit =
  vs_source :: string
  vs_rest :: string
  vs_ok :: bool

fun split_volume_loop :: "nat \<Rightarrow> string \<Rightarrow> string \<Rightarrow> (string \<times> string) option" where
  "split_volume_loop depth acc [] = None"
| "split_volume_loop depth acc (c # s) =
     (if c = CHR ''{'' then split_volume_loop (Suc depth) (acc @ [c]) s
      else if c = CHR ''}'' then split_volume_loop (depth - 1) (acc @ [c]) s
      else if c = CHR '':'' \<and> depth = 0 then Some (acc, s)
      else split_volume_loop depth (acc @ [c]) s)"

definition splitVolume :: "string \<Rightarrow> volumeSplit" where
  "splitVolume spec =
     (case split_volume_loop 0 [] spec of
        None \<Rightarrow> \<lparr>vs_source = [], vs_rest = [], vs_ok = False\<rparr>
      | Some (src, rest) \<Rightarrow> \<lparr>vs_source = src, vs_rest = rest, vs_ok = True\<rparr>)"

definition shortVolumeTarget :: "string \<Rightarrow> string" where
  "shortVolumeTarget spec =
     (let parts = splitVolume spec
      in if \<not> vs_ok parts then trim_space spec
         else let (target, _, ok) = cut_char (CHR '':'') (vs_rest parts)
              in if ok then target else vs_rest parts)"

definition volumeMapTarget :: "doc \<Rightarrow> string" where
  "volumeMapTarget values = (case any_at values ''target'' of AStr s \<Rightarrow> s | _ \<Rightarrow> [])"

definition volumeItemTarget :: "any \<Rightarrow> string" where
  "volumeItemTarget raw =
     (case raw of AStr s \<Rightarrow> shortVolumeTarget s
      | _ \<Rightarrow> (case as_map raw of None \<Rightarrow> [] | Some values \<Rightarrow> volumeMapTarget values))"

subsection \<open>Rewriting\<close>

definition replaceVolume :: "string \<Rightarrow> (string \<Rightarrow> string \<Rightarrow> string option) \<Rightarrow> string \<times> bool" where
  "replaceVolume spec f =
     (let parts = splitVolume spec in
      if \<not> vs_ok parts then
        let target = trim_space spec in
        if target = [] then (spec, False)
        else case f [] target of None \<Rightarrow> (spec, False) | Some src \<Rightarrow> (src @ '':'' @ target, True)
      else
        let (t, m, found) = cut_char (CHR '':'') (vs_rest parts);
            target = (if found then t else vs_rest parts);
            mode = (if found then CHR '':'' # m else [])
        in case f (vs_source parts) target of
             None \<Rightarrow> (spec, False) | Some src \<Rightarrow> (src @ '':'' @ target @ mode, True))"

definition replaceVolumeMap :: "doc \<Rightarrow> (string \<Rightarrow> string \<Rightarrow> string option) \<Rightarrow> doc \<times> bool" where
  "replaceVolumeMap values f =
     (let target = volumeMapTarget values;
          src = (case any_at values ''source'' of AStr s \<Rightarrow> s | _ \<Rightarrow> [])
      in if target = [] then (values, False)
         else case f src target of
                None \<Rightarrow> (values, False)
              | Some new \<Rightarrow> (put_key ''source'' (AStr new) (put_key ''type'' (AStr ''bind'') values), True))"

definition replaceVolumeItem :: "(string \<Rightarrow> string \<Rightarrow> string option) \<Rightarrow> any \<Rightarrow> any \<times> bool" where
  "replaceVolumeItem f raw =
     (case raw of
        AStr s \<Rightarrow> (let (s', ch) = replaceVolume s f in (AStr s', ch))
      | _ \<Rightarrow> (case as_map raw of
               None \<Rightarrow> (raw, False)
             | Some values \<Rightarrow> (let (m, ch) = replaceVolumeMap values f in (AMap m, ch))))"

definition replaceVolumeList :: "('a \<Rightarrow> 'a \<times> bool) \<Rightarrow> 'a list \<Rightarrow> 'a list \<times> bool" where
  "replaceVolumeList g vs = (map (\<lambda>v. fst (g v)) vs, list_ex (\<lambda>v. snd (g v)) vs)"

definition replaceVolumeTargetFunc :: "any \<Rightarrow> (string \<Rightarrow> string \<Rightarrow> string option) \<Rightarrow> any \<times> bool" where
  "replaceVolumeTargetFunc raw f =
     (case raw of
        ASeq vs \<Rightarrow> (let (out, ch) = replaceVolumeList (replaceVolumeItem f) vs in (ASeq out, ch))
      | AStrs ss \<Rightarrow> (let (out, ch) = replaceVolumeList (\<lambda>s. replaceVolume s f) ss in (AStrs out, ch))
      | _ \<Rightarrow> (raw, False))"

definition mount_rule :: "string \<Rightarrow> string \<Rightarrow> string \<Rightarrow> string \<Rightarrow> string option" where
  "mount_rule target source src dst = (if dst = target then Some source else None)"

definition replaceSourceMount :: "any \<Rightarrow> string \<Rightarrow> string \<Rightarrow> any" where
  "replaceSourceMount raw target source =
     (let (replaced, changed) = replaceVolumeTargetFunc raw (mount_rule target source)
      in if changed then replaced
         else case replaced of
                ASeq vs \<Rightarrow> ASeq (vs @ [AStr (source @ '':'' @ target)])
              | AStrs ss \<Rightarrow> AStrs (ss @ [source @ '':'' @ target])
              | _ \<Rightarrow> ASeq [AStr (source @ '':'' @ target)])"

definition removeVolumeItems :: "'a list \<Rightarrow> string \<Rightarrow> ('a \<Rightarrow> string) \<Rightarrow> 'a list \<times> bool" where
  "removeVolumeItems vs target targetOf =
     (filter (\<lambda>v. targetOf v \<noteq> target) vs, list_ex (\<lambda>v. targetOf v = target) vs)"

definition removeVolumeTarget :: "any \<Rightarrow> string \<Rightarrow> any \<times> bool" where
  "removeVolumeTarget raw target =
     (case raw of
        ASeq vs \<Rightarrow> (let (out, ch) = removeVolumeItems vs target volumeItemTarget in (ASeq out, ch))
      | AStrs ss \<Rightarrow> (let (out, ch) = removeVolumeItems ss target shortVolumeTarget in (AStrs out, ch))
      | _ \<Rightarrow> (raw, False))"

definition emptyVolumeList :: "any \<Rightarrow> bool" where
  "emptyVolumeList raw = (case raw of ASeq vs \<Rightarrow> vs = [] | AStrs ss \<Rightarrow> ss = [] | _ \<Rightarrow> False)"

definition removeSourceMount :: "doc \<Rightarrow> string \<Rightarrow> doc" where
  "removeSourceMount s target =
     (let (updated, changed) = removeVolumeTarget (any_at s ''volumes'') target
      in if \<not> changed then s
         else if emptyVolumeList updated then del_key ''volumes'' s
         else put_key ''volumes'' updated s)"

subsection \<open>Path variables\<close>

definition env_rune :: "string \<Rightarrow> char" where
  "env_rune r = (case r of [c] \<Rightarrow> if is_upper c \<or> is_digit c then c else CHR ''_'' | _ \<Rightarrow> CHR ''_'')"

definition envServiceName :: "string \<Rightarrow> string" where
  "envServiceName name = map env_rune (runes (to_upper name))"

definition variable_rule :: "string \<Rightarrow> string \<Rightarrow> string \<Rightarrow> string \<Rightarrow> string option" where
  "variable_rule pre source src dst = (if has_prefix src pre then Some source else None)"

definition replaceVolumeSourcePrefix :: "any \<Rightarrow> string \<Rightarrow> string \<Rightarrow> any" where
  "replaceVolumeSourcePrefix raw pre source = fst (replaceVolumeTargetFunc raw (variable_rule pre source))"

definition path_variable :: "string \<Rightarrow> string" where
  "path_variable name = ''${FIBE_SERVICES_'' @ envServiceName name @ ''_PATH''"

definition replacePathVariables :: "any \<Rightarrow> string smap \<Rightarrow> any" where
  "replacePathVariables raw sourcePaths =
     foldl (\<lambda>raw (name, source). replaceVolumeSourcePrefix raw (path_variable name) source) raw sourcePaths"

subsection \<open>Splitting\<close>

text \<open>The braces opened and not yet closed after reading a text, never below zero.\<close>

fun brace_depth :: "nat \<Rightarrow> string \<Rightarrow> nat" where
  "brace_depth d [] = d"
| "brace_depth d (c # s) =
     brace_depth (if c = CHR ''{'' then Suc d else if c = CHR ''}'' then d - 1 else d) s"

lemma split_volume_loop_Some:
  "split_volume_loop d acc s = Some (a, b) \<Longrightarrow> \<exists>x. a = acc @ x \<and> s = x @ CHR '':'' # b \<and> brace_depth d x = 0"
proof (induction d acc s rule: split_volume_loop.induct)
  case (2 d acc c s)
  have extend: ?case if "\<exists>x. a = (acc @ [c]) @ x \<and> s = x @ CHR '':'' # b \<and>
      brace_depth (if c = CHR ''{'' then Suc d else if c = CHR ''}'' then d - 1 else d) x = 0"
    using that by (metis append.assoc append_Cons append_Nil brace_depth.simps(2))
  show ?case
  proof (cases "c = CHR '':'' \<and> d = 0")
    case True
    with 2(4) show ?thesis by (intro exI[of _ "[]"]) simp
  next
    case False
    with 2 show ?thesis by (intro extend) (auto split: if_splits)
  qed
qed simp

lemma splitVolume_ok:
  "vs_ok (splitVolume spec) \<Longrightarrow>
   spec = vs_source (splitVolume spec) @ CHR '':'' # vs_rest (splitVolume spec) \<and>
   brace_depth 0 (vs_source (splitVolume spec)) = 0"
  using split_volume_loop_Some[of 0 "[]" spec] by (auto simp: splitVolume_def split: option.splits)

definition plain_source :: "string \<Rightarrow> bool" where
  "plain_source s = (CHR '':'' \<notin> set s \<and> CHR ''{'' \<notin> set s \<and> CHR ''}'' \<notin> set s)"

lemma splitVolume_plain:
  "plain_source src \<Longrightarrow> splitVolume (src @ CHR '':'' # rest) = \<lparr>vs_source = src, vs_rest = rest, vs_ok = True\<rparr>"
proof -
  assume p: "plain_source src"
  have "plain_source s \<Longrightarrow> split_volume_loop 0 acc (s @ CHR '':'' # rest) = Some (acc @ s, rest)" for s acc
    by (induction s arbitrary: acc) (auto simp: plain_source_def)
  from this[OF p, of "[]"] show ?thesis by (simp add: splitVolume_def)
qed

subsection \<open>Mounts of a target\<close>

definition volumeItemSource :: "any \<Rightarrow> string" where
  "volumeItemSource raw =
     (case raw of AStr s \<Rightarrow> vs_source (splitVolume s)
      | _ \<Rightarrow> (case as_map raw of None \<Rightarrow> []
             | Some values \<Rightarrow> (case any_at values ''source'' of AStr s \<Rightarrow> s | _ \<Rightarrow> [])))"

text \<open>An item as the rewriting returns it when it keeps it: a loose map is turned into a string-keyed one.\<close>

definition plain_item :: "any \<Rightarrow> any" where
  "plain_item raw = (case as_map raw of Some m \<Rightarrow> AMap m | None \<Rightarrow> raw)"

lemma shortVolumeTarget_written:
  assumes "plain_source src" and "CHR '':'' \<notin> set target" and "mode = [] \<or> (\<exists>m. mode = CHR '':'' # m)"
  shows "shortVolumeTarget (src @ '':'' @ target @ mode) = target"
    and "vs_source (splitVolume (src @ '':'' @ target @ mode)) = src"
  using assms splitVolume_plain[OF assms(1), of "target @ mode"]
  by (auto simp: shortVolumeTarget_def cut_char_found cut_char_absent)

lemma replaceVolume_form:
  "\<exists>mode. (mode = [] \<or> (\<exists>m. mode = CHR '':'' # m)) \<and> replaceVolume spec f =
     (if \<not> vs_ok (splitVolume spec) \<and> shortVolumeTarget spec = [] then (spec, False)
      else case f (vs_source (splitVolume spec)) (shortVolumeTarget spec) of
             None \<Rightarrow> (spec, False)
           | Some src \<Rightarrow> (src @ '':'' @ shortVolumeTarget spec @ mode, True))"
proof (cases "vs_ok (splitVolume spec)")
  case False
  moreover from False have "vs_source (splitVolume spec) = []"
    by (auto simp: splitVolume_def split: option.splits)
  ultimately show ?thesis
    by (intro exI[of _ "[]"]) (simp add: replaceVolume_def shortVolumeTarget_def Let_def split: option.split)
next
  case True
  obtain t m found where "cut_char (CHR '':'') (vs_rest (splitVolume spec)) = (t, m, found)"
    by (metis prod.exhaust)
  with True show ?thesis
    by (intro exI[of _ "if found then CHR '':'' # m else []"])
      (simp add: replaceVolume_def shortVolumeTarget_def Let_def split: option.split)
qed

lemma replaceVolume_other:
  "shortVolumeTarget spec \<noteq> target \<Longrightarrow> replaceVolume spec (mount_rule target source) = (spec, False)"
  using replaceVolume_form[of spec "mount_rule target source"] by (auto simp: mount_rule_def)

lemma replaceVolume_mounted:
  assumes "shortVolumeTarget spec = target" and "target \<noteq> []" and "plain_source source" and "CHR '':'' \<notin> set target"
  obtains s where "replaceVolume spec (mount_rule target source) = (s, True)"
    and "shortVolumeTarget s = target" and "vs_source (splitVolume s) = source"
proof -
  obtain mode where m: "mode = [] \<or> (\<exists>m. mode = CHR '':'' # m)"
    "replaceVolume spec (mount_rule target source) = (source @ '':'' @ target @ mode, True)"
    using replaceVolume_form[of spec "mount_rule target source"] assms(1,2) by (auto simp: mount_rule_def)
  with shortVolumeTarget_written[OF assms(3,4) m(1)] show ?thesis using that by blast
qed

lemma plain_item_target: "volumeItemTarget (plain_item raw) = volumeItemTarget raw"
  and plain_item_source: "volumeItemSource (plain_item raw) = volumeItemSource raw"
  by (cases raw; cases "as_map raw"; simp add: plain_item_def volumeItemTarget_def volumeItemSource_def)+

lemma replaceVolumeItem_other:
  assumes "volumeItemTarget raw \<noteq> target"
  shows "replaceVolumeItem (mount_rule target source) raw = (plain_item raw, False)"
proof (cases "as_map raw")
  case None
  with assms replaceVolume_other[of _ target source] show ?thesis
    by (cases raw) (auto simp: replaceVolumeItem_def plain_item_def volumeItemTarget_def)
next
  case (Some m)
  then have "volumeItemTarget raw = volumeMapTarget m"
    and "replaceVolumeItem (mount_rule target source) raw =
      (let (m, ch) = replaceVolumeMap m (mount_rule target source) in (AMap m, ch))"
    by (cases raw; simp add: volumeItemTarget_def replaceVolumeItem_def)+
  with assms Some show ?thesis by (simp add: replaceVolumeMap_def mount_rule_def plain_item_def Let_def)
qed

lemma replaceVolumeItem_mounted:
  assumes "volumeItemTarget raw = target" and "target \<noteq> []" and "plain_source source" and "CHR '':'' \<notin> set target"
  obtains v where "replaceVolumeItem (mount_rule target source) raw = (v, True)"
    and "volumeItemTarget v = target" and "volumeItemSource v = source"
proof (cases "as_map raw")
  case None
  with assms(1,2) obtain s where raw: "raw = AStr s" by (cases raw) (auto simp: volumeItemTarget_def)
  with assms(1) have "shortVolumeTarget s = target" by (simp add: volumeItemTarget_def)
  then obtain s' where "replaceVolume s (mount_rule target source) = (s', True)"
    "shortVolumeTarget s' = target" "vs_source (splitVolume s') = source"
    using replaceVolume_mounted[OF _ assms(2-4)] by blast
  then show ?thesis
    using that[of "AStr s'"] raw by (simp add: replaceVolumeItem_def volumeItemTarget_def volumeItemSource_def)
next
  case (Some m)
  then have "volumeMapTarget m = target"
    and r: "replaceVolumeItem (mount_rule target source) raw =
      (let (m, ch) = replaceVolumeMap m (mount_rule target source) in (AMap m, ch))"
    using assms(1) by (cases raw; simp add: volumeItemTarget_def replaceVolumeItem_def)+
  then have "replaceVolumeItem (mount_rule target source) raw =
      (AMap (put_key ''source'' (AStr source) (put_key ''type'' (AStr ''bind'') m)), True)"
    using assms(2) by (simp add: replaceVolumeMap_def mount_rule_def Let_def)
  moreover have "any_at (put_key ''source'' (AStr source) (put_key ''type'' (AStr ''bind'') m)) ''target'' = any_at m ''target''"
    by simp
  ultimately show ?thesis
    using that[of "AMap (put_key ''source'' (AStr source) (put_key ''type'' (AStr ''bind'') m))"] \<open>volumeMapTarget m = target\<close>
    by (simp add: volumeItemTarget_def volumeItemSource_def volumeMapTarget_def)
qed

text \<open>The items of a volume list, whichever of the two list types holds them.\<close>

definition volume_items :: "any \<Rightarrow> any list" where
  "volume_items raw = (case raw of ASeq vs \<Rightarrow> vs | AStrs ss \<Rightarrow> map AStr ss | _ \<Rightarrow> [])"

lemma replaceVolumeItem_AStr:
  "replaceVolumeItem f (AStr s) = (AStr (fst (replaceVolume s f)), snd (replaceVolume s f))"
  by (simp add: replaceVolumeItem_def case_prod_beta)

lemma replaceSourceMount_items:
  "volume_items (replaceSourceMount raw target source) =
     map (\<lambda>v. fst (replaceVolumeItem (mount_rule target source) v)) (volume_items raw) @
     (if list_ex (\<lambda>v. snd (replaceVolumeItem (mount_rule target source) v)) (volume_items raw) then []
      else [AStr (source @ '':'' @ target)])"
  by (cases raw) (auto simp: replaceSourceMount_def replaceVolumeTargetFunc_def replaceVolumeList_def
      volume_items_def replaceVolumeItem_AStr list_ex_iff Let_def)

lemma replaceSourceMount_spec:
  assumes "target \<noteq> []" and "plain_source source" and "CHR '':'' \<notin> set target"
  shows "v \<in> set (volume_items (replaceSourceMount raw target source)) \<Longrightarrow> volumeItemTarget v = target \<Longrightarrow>
      volumeItemSource v = source"
    and "\<exists>v \<in> set (volume_items (replaceSourceMount raw target source)). volumeItemTarget v = target"
    and "filter (\<lambda>v. volumeItemTarget v \<noteq> target) (volume_items (replaceSourceMount raw target source)) =
      map plain_item (filter (\<lambda>v. volumeItemTarget v \<noteq> target) (volume_items raw))"
proof -
  let ?g = "replaceVolumeItem (mount_rule target source)"
  let ?new = "AStr (source @ '':'' @ target)"
  have new: "volumeItemTarget ?new = target" "volumeItemSource ?new = source"
    using shortVolumeTarget_written[OF assms(2,3), of "[]"] by (simp_all add: volumeItemTarget_def volumeItemSource_def)
  have other: "?g v = (plain_item v, False)" if "volumeItemTarget v \<noteq> target" for v
    using replaceVolumeItem_other[OF that] .
  have mounted: "snd (?g v) \<and> volumeItemTarget (fst (?g v)) = target \<and> volumeItemSource (fst (?g v)) = source"
    if "volumeItemTarget v = target" for v
    using replaceVolumeItem_mounted[OF that assms] by fastforce
  have g_target: "volumeItemTarget (fst (?g v)) = volumeItemTarget v" for v
    using other[of v] mounted[of v] plain_item_target[of v] by (cases "volumeItemTarget v = target") auto
  show "volumeItemSource v = source"
    if v: "v \<in> set (volume_items (replaceSourceMount raw target source))" "volumeItemTarget v = target"
  proof -
    consider u where "v = fst (?g u)" | "v = ?new"
      using v(1) unfolding replaceSourceMount_items by (auto split: if_splits)
    then show ?thesis
    proof cases
      case 1
      then show ?thesis using v(2) g_target[of u] mounted[of u] by metis
    next
      case 2
      then show ?thesis using new(2) by blast
    qed
  qed
  show "\<exists>v \<in> set (volume_items (replaceSourceMount raw target source)). volumeItemTarget v = target"
  proof (cases "list_ex (\<lambda>v. snd (?g v)) (volume_items raw)")
    case True
    then obtain v where "v \<in> set (volume_items raw)" "snd (?g v)" by (auto simp: list_ex_iff)
    moreover from this(2) other[of v] have "volumeItemTarget v = target" by fastforce
    ultimately show ?thesis using g_target[of v] unfolding replaceSourceMount_items by force
  next
    case False
    then show ?thesis using new(1) unfolding replaceSourceMount_items by auto
  qed
  have "filter (\<lambda>v. volumeItemTarget v \<noteq> target) (map (\<lambda>v. fst (?g v)) vs) =
      map plain_item (filter (\<lambda>v. volumeItemTarget v \<noteq> target) vs)" for vs
    using other by (induction vs) (auto simp: g_target)
  then show "filter (\<lambda>v. volumeItemTarget v \<noteq> target) (volume_items (replaceSourceMount raw target source)) =
      map plain_item (filter (\<lambda>v. volumeItemTarget v \<noteq> target) (volume_items raw))"
    using new(1) unfolding replaceSourceMount_items by simp
qed

lemma removeSourceMount_items:
  "volume_items (any_at (removeSourceMount s target) ''volumes'') =
     filter (\<lambda>v. volumeItemTarget v \<noteq> target) (volume_items (any_at s ''volumes''))"
proof -
  have keep: "filter (\<lambda>v. volumeItemTarget v \<noteq> target) vs = vs" if "\<not> list_ex (\<lambda>v. volumeItemTarget v = target) vs" for vs
    using that by (induction vs) auto
  have keeps: "filter (\<lambda>v. shortVolumeTarget v \<noteq> target) vs = vs" if "\<not> list_ex (\<lambda>v. shortVolumeTarget v = target) vs" for vs
    using that by (induction vs) auto
  have strs: "filter (\<lambda>v. volumeItemTarget v \<noteq> target) (map AStr ss) = map AStr (filter (\<lambda>v. shortVolumeTarget v \<noteq> target) ss)" for ss
    by (induction ss) (auto simp: volumeItemTarget_def)
  show ?thesis
    using keep keeps
    by (cases "any_at s ''volumes''")
      (auto simp: removeSourceMount_def removeVolumeTarget_def removeVolumeItems_def emptyVolumeList_def
        volume_items_def strs Let_def)
qed

subsection \<open>Properties\<close>

text \<open>Splitting a short volume loses nothing: a spec that splits is its source, a colon and the rest, and the
braces of the source are balanced, so a colon inside \<open>${NAME:-default}\<close> is never taken for the separator.\<close>

theorem volume_split_reassembles:
  assumes "vs_ok (splitVolume spec)"
  shows "spec = vs_source (splitVolume spec) @ CHR '':'' # vs_rest (splitVolume spec) \<and>
    brace_depth 0 (vs_source (splitVolume spec)) = 0"
  using splitVolume_ok[OF assms] .

theorem volume_split_reassembles_witness:
  "brace_depth 0 (vs_source (splitVolume ''${D:-./d}:/x:ro'')) = 0"
proof -
  have "vs_ok (splitVolume ''${D:-./d}:/x:ro'')" by code_simp
  from volume_split_reassembles[OF this] show ?thesis by blast
qed

text \<open>Writing a source mount makes the source the only one mounted at its target: afterwards some item is mounted
there, every item mounted there comes from the source, and the items mounted elsewhere are kept in order.\<close>

theorem source_mount_written:
  assumes "target \<noteq> []" and "plain_source source" and "CHR '':'' \<notin> set target"
  shows "(\<exists>v \<in> set (volume_items (replaceSourceMount raw target source)). volumeItemTarget v = target) \<and>
    (\<forall>v \<in> set (volume_items (replaceSourceMount raw target source)).
       volumeItemTarget v = target \<longrightarrow> volumeItemSource v = source) \<and>
    filter (\<lambda>v. volumeItemTarget v \<noteq> target) (volume_items (replaceSourceMount raw target source)) =
      map plain_item (filter (\<lambda>v. volumeItemTarget v \<noteq> target) (volume_items raw))"
  using replaceSourceMount_spec[OF assms] by blast

theorem source_mount_written_witness:
  "\<exists>v \<in> set (volume_items (replaceSourceMount (ASeq [AStr ''.:/app:ro'', AStr ''d:/data'']) ''/app'' ''/opt/x'')).
     volumeItemTarget v = ''/app''"
proof -
  have "''/app'' \<noteq> ([] :: string)" "plain_source ''/opt/x''" "CHR '':'' \<notin> set ''/app''" by code_simp+
  from source_mount_written[OF this] show ?thesis by blast
qed

text \<open>Removing a source mount removes the items mounted at its target and no other, whatever syntax they use.\<close>

theorem source_mount_removed:
  "volume_items (any_at (removeSourceMount s target) ''volumes'') =
     filter (\<lambda>v. volumeItemTarget v \<noteq> target) (volume_items (any_at s ''volumes''))"
  by (rule removeSourceMount_items)

text \<open>A path variable is recognised by the start of its name, and service names are folded to upper case with
underscores: with the services \<open>web\<close> and \<open>web-path-2\<close> the source of one replaces the variable of the other,
and which one wins depends on the order in which the map of sources is visited.\<close>

theorem path_variable_collision:
  "replacePathVariables (ASeq [AStr ''${FIBE_SERVICES_WEB_PATH_2_PATH}:/x'']) [(''web'', ''/a''), (''web-path-2'', ''/b'')] =
     ASeq [AStr ''/a:/x''] \<and>
   replacePathVariables (ASeq [AStr ''${FIBE_SERVICES_WEB_PATH_2_PATH}:/x'']) [(''web-path-2'', ''/b''), (''web'', ''/a'')] =
     ASeq [AStr ''/b:/x'']"
  by (rule conjI; code_simp)

end
