(* ===== verification/ServiceEnv.thy ===== *)
theory ServiceEnv
  imports ServicePorts
begin

text \<open>
  \<open>internal/composefile/service\<close>, environment and commands: \<open>environment.go\<close> and the value part of
  \<open>commands.go\<close>. An environment is read from a map or a list into a map, and overrides are written into that map.
  The lemmas say what a service's environment holds afterwards and which services a launch-wide environment reaches.
\<close>

subsection \<open>Visiting the services of a document\<close>

text \<open>A loop over \<open>services\<close> that changes each service in place: a service that is a \<open>map[string]any\<close> is
changed, the copy made of a \<open>map[any]any\<close> is lost, and the first error ends the loop.\<close>

fun visit_services :: "(string \<Rightarrow> any \<Rightarrow> (string + any) option) \<Rightarrow> doc \<Rightarrow> string + doc" where
  "visit_services f [] = Inr []"
| "visit_services f ((name, raw) # m) =
     (case f name raw of
        Some (Inl e) \<Rightarrow> Inl e
      | Some (Inr raw') \<Rightarrow> map_sum id (\<lambda>m'. (name, raw') # m') (visit_services f m)
      | None \<Rightarrow> map_sum id (\<lambda>m'. (name, raw) # m') (visit_services f m))"

definition in_place :: "(doc \<Rightarrow> string + doc) \<Rightarrow> any \<Rightarrow> (string + any) option" where
  "in_place g raw =
     (case as_map raw of
        None \<Rightarrow> None
      | Some s \<Rightarrow>
          (case g s of
             Inl e \<Rightarrow> Some (Inl e)
           | Inr s' \<Rightarrow> (case raw of AMap _ \<Rightarrow> Some (Inr (AMap s')) | _ \<Rightarrow> Some (Inr raw))))"

subsection \<open>Reading an environment (environment.go)\<close>

definition addEnvironmentString :: "string \<Rightarrow> doc \<Rightarrow> doc" where
  "addEnvironmentString raw out =
     (let (k, v, hasValue) = cut_char (CHR ''='') raw; key = trim_space k
      in if key = [] then out
         else if hasValue then put_key key (AStr v) out
         else put_key key ANil out)"

definition environmentStringListMap :: "string list \<Rightarrow> doc" where
  "environmentStringListMap values = fold addEnvironmentString values []"

fun add_loose_entries :: "string \<Rightarrow> doc \<Rightarrow> (any \<times> any) list \<Rightarrow> string + doc" where
  "add_loose_entries err out [] = Inr out"
| "add_loose_entries err out ((k, v) # kvs) =
     (case string_map_key k of None \<Rightarrow> Inl err | Some t \<Rightarrow> add_loose_entries err (put_key t v out) kvs)"

definition compose_service :: "string \<Rightarrow> string" where
  "compose_service name = ''compose service '' @ go_quote name @ '' ''"

definition looseEnvironmentObjectMap :: "string \<Rightarrow> (any \<times> any) list \<Rightarrow> string + doc" where
  "looseEnvironmentObjectMap name kvs =
     add_loose_entries (compose_service name @ ''environment map keys must be strings'') [] kvs"

definition env_item :: "nat \<Rightarrow> string" where
  "env_item i = ''environment['' @ itoa (int i) @ '']''"

definition addEnvironmentListValue :: "string \<Rightarrow> nat \<Rightarrow> doc \<Rightarrow> any \<Rightarrow> string + doc" where
  "addEnvironmentListValue name idx out v =
     (case v of
        AStr s \<Rightarrow> Inr (addEnvironmentString s out)
      | AMap m \<Rightarrow> Inr (fold (\<lambda>(k, v). put_key k v) m out)
      | AAnyMap kvs \<Rightarrow>
          add_loose_entries (compose_service name @ env_item idx @ '' map keys must be strings'') out kvs
      | _ \<Rightarrow> Inl (compose_service name @ env_item idx @ '' must be a string or string-keyed map''))"

fun environment_list_loop :: "string \<Rightarrow> nat \<Rightarrow> doc \<Rightarrow> any list \<Rightarrow> string + doc" where
  "environment_list_loop name idx out [] = Inr out"
| "environment_list_loop name idx out (v # vs) =
     (case addEnvironmentListValue name idx out v of
        Inl e \<Rightarrow> Inl e | Inr out' \<Rightarrow> environment_list_loop name (Suc idx) out' vs)"

definition environmentAnyListMap :: "string \<Rightarrow> any list \<Rightarrow> string + doc" where
  "environmentAnyListMap name vs = environment_list_loop name 0 [] vs"

text \<open>The environment as a map, or nothing when the value has another shape.\<close>

definition environmentMap :: "string \<Rightarrow> any \<Rightarrow> string + doc option" where
  "environmentMap name raw =
     (case raw of
        AMap m \<Rightarrow> Inr (Some m)
      | AAnyMap kvs \<Rightarrow> map_sum id Some (looseEnvironmentObjectMap name kvs)
      | ASeq vs \<Rightarrow> map_sum id Some (environmentAnyListMap name vs)
      | AStrs ss \<Rightarrow> Inr (Some (environmentStringListMap ss))
      | _ \<Rightarrow> Inr None)"

definition ensureEnvironmentMap :: "string \<Rightarrow> doc \<Rightarrow> string + doc" where
  "ensureEnvironmentMap name s =
     (case environmentMap name (any_at s ''environment'') of
        Inl e \<Rightarrow> Inl e
      | Inr (Some m) \<Rightarrow> Inr m
      | Inr None \<Rightarrow> Inr [])"

subsection \<open>Writing overrides\<close>

definition put_env :: "string \<times> any \<Rightarrow> doc \<Rightarrow> doc" where
  "put_env = (\<lambda>(k, v) e. case envOverrideString v of Some t \<Rightarrow> put_key k (AStr t) e | None \<Rightarrow> e)"

definition applyEnvOverrideValues :: "string \<Rightarrow> doc \<Rightarrow> doc \<Rightarrow> string + doc" where
  "applyEnvOverrideValues name s env =
     (case ensureEnvironmentMap name s of
        Inl e \<Rightarrow> Inl e
      | Inr serviceEnv \<Rightarrow> Inr (put_key ''environment'' (AMap (fold put_env env serviceEnv)) s))"

definition globalServiceOverrideKey :: string where
  "globalServiceOverrideKey = ''_global''"

definition global_env_target :: "string \<Rightarrow> bool" where
  "global_env_target name = (name \<noteq> globalServiceOverrideKey \<and> \<not> has_prefix name ''_'')"

definition globalEnvTargetService :: "string \<Rightarrow> any \<Rightarrow> doc option" where
  "globalEnvTargetService name raw = (if global_env_target name then as_map raw else None)"

definition applyGlobalEnvAny :: "doc \<Rightarrow> doc \<Rightarrow> string + doc" where
  "applyGlobalEnvAny services env =
     (if env = [] then Inr services
      else visit_services (\<lambda>name raw. if globalEnvTargetService name raw = None then None
             else in_place (\<lambda>s. applyEnvOverrideValues name s env) raw) services)"

text \<open>Where \<open>services\<close> is a \<open>map[string]any\<close> the document is changed through it.\<close>

definition in_services :: "(doc \<Rightarrow> string + doc) \<Rightarrow> doc \<Rightarrow> string + doc" where
  "in_services g rendered =
     (case as_map (any_at rendered ''services'') of
        None \<Rightarrow> Inr rendered
      | Some services \<Rightarrow> map_sum id (\<lambda>services'. store_back ''services'' services' rendered) (g services))"

definition ApplyGlobalEnv :: "doc \<Rightarrow> string smap \<Rightarrow> string + doc" where
  "ApplyGlobalEnv rendered env =
     (if env = [] then Inr rendered
      else in_services (\<lambda>services. applyGlobalEnvAny services (map (\<lambda>(k, v). (k, AStr v)) env)) rendered)"

subsection \<open>Commands (commands.go)\<close>

text \<open>The pattern \<open>&&|\|\||[;|><]|\$\(\<close>.\<close>

definition shellOperatorPattern :: "string \<Rightarrow> bool" where
  "shellOperatorPattern s =
     (str_contains s ''&&'' \<or> str_contains s ''||'' \<or> list_ex (\<lambda>c. c \<in> set '';|><'') s \<or> str_contains s ''$('')"

definition validStartCommandArgs :: "string list \<Rightarrow> bool" where
  "validStartCommandArgs args = (args \<noteq> [] \<and> list_all (\<lambda>a. trim_space a \<noteq> []) args)"

definition normalizeStartCommandStringSlice :: "string list \<Rightarrow> any option" where
  "normalizeStartCommandStringSlice cmd = (if \<not> validStartCommandArgs cmd then None else Some (AStrs cmd))"

definition normalizeStartCommandString :: "string \<Rightarrow> any option" where
  "normalizeStartCommandString cmd =
     (if trim_space cmd = [] then None
      else if shellOperatorPattern cmd then Some (AStrs [''sh'', ''-c'', cmd])
      else Some (AStr cmd))"

fun all_strings :: "any list \<Rightarrow> string list option" where
  "all_strings [] = Some []"
| "all_strings (v # vs) =
     (case v of AStr s \<Rightarrow> map_option ((#) s) (all_strings vs) | _ \<Rightarrow> None)"

definition normalizeStartCommandAnySlice :: "any list \<Rightarrow> any option" where
  "normalizeStartCommandAnySlice cmd =
     (if cmd = [] then None
      else case all_strings cmd of None \<Rightarrow> None | Some out \<Rightarrow> normalizeStartCommandStringSlice out)"

definition normalizeStartCommand :: "any \<Rightarrow> any option" where
  "normalizeStartCommand raw =
     (case raw of
        AStr s \<Rightarrow> normalizeStartCommandString s
      | AStrs ss \<Rightarrow> normalizeStartCommandStringSlice ss
      | ASeq vs \<Rightarrow> normalizeStartCommandAnySlice vs
      | _ \<Rightarrow> None)"

definition isStartCommandValue :: "any \<Rightarrow> bool" where
  "isStartCommandValue v = (normalizeStartCommand v \<noteq> None)"

subsection \<open>Facts\<close>

lemma put_env_lookup:
  "map_of (fold put_env env m) k =
     (case map_of (rev (filter (\<lambda>(_, v). envOverrideString v \<noteq> None) env)) k of
        Some v \<Rightarrow> map_option AStr (envOverrideString v)
      | None \<Rightarrow> map_of m k)"
proof (induction env arbitrary: m)
  case Nil
  then show ?case by simp
next
  case (Cons kv env)
  obtain a v where kv: "kv = (a, v)" by (cases kv)
  show ?case
  proof (cases "envOverrideString v")
    case None
    then have "put_env (a, v) m = m" by (simp add: put_env_def)
    with None show ?thesis by (simp add: kv Cons.IH)
  next
    case (Some t)
    then have "put_env (a, v) m = put_key a (AStr t) m" by (simp add: put_env_def)
    with Some show ?thesis
      by (simp add: kv Cons.IH map_of_append map_add_def amap.look_put split: option.split)
  qed
qed

lemma map_of_rev_distinct: "wf_map m \<Longrightarrow> map_of (rev m) = map_of m"
  unfolding wf_map_def by (metis map_of_inject_set distinct_rev rev_map set_rev)

lemma put_env_get:
  assumes "wf_map env" and "map_of env k = Some v" and "envOverrideString v = Some t"
  shows "map_of (fold put_env env m) k = Some (AStr t)"
proof -
  let ?ok = "filter (\<lambda>(_, v). envOverrideString v \<noteq> None) env"
  have d: "wf_map ?ok" using assms(1) by (simp add: wf_map_def distinct_map_filter)
  have "(k, v) \<in> set ?ok" using assms map_of_SomeD by fastforce
  then have "map_of ?ok k = Some v" using d by (simp add: wf_map_def)
  then show ?thesis using put_env_lookup[of env m k] map_of_rev_distinct[OF d] assms(3) by simp
qed

lemma put_env_other: "\<not> has_key env k \<Longrightarrow> map_of (fold put_env env m) k = map_of m k"
proof -
  assume "\<not> has_key env k"
  then have "map_of (rev (filter (\<lambda>(_, v). envOverrideString v \<noteq> None) env)) k = None"
    unfolding has_key_iff map_of_eq_None_iff by auto
  then show ?thesis by (simp add: put_env_lookup)
qed

text \<open>What the environment of a service holds after the overrides are written.\<close>

lemma applyEnvOverrideValues_spec:
  assumes "applyEnvOverrideValues name s env = Inr s'" and "wf_map env"
  obtains e0 e where "ensureEnvironmentMap name s = Inr e0" and "any_at s' ''environment'' = AMap e"
    and "\<And>k v t. map_of env k = Some v \<Longrightarrow> envOverrideString v = Some t \<Longrightarrow> map_of e k = Some (AStr t)"
    and "\<And>k. \<not> has_key env k \<Longrightarrow> map_of e k = map_of e0 k"
    and "\<And>k. k \<noteq> ''environment'' \<Longrightarrow> map_of s' k = map_of s k"
proof -
  obtain e0 where e0: "ensureEnvironmentMap name s = Inr e0"
    and s': "s' = put_key ''environment'' (AMap (fold put_env env e0)) s"
    using assms(1) by (auto simp: applyEnvOverrideValues_def split: sum.splits)
  then show ?thesis
    using that[of e0 "fold put_env env e0"] put_env_get[OF assms(2)] put_env_other by (simp add: amap.look_put)
qed

lemma visit_services_step:
  assumes "visit_services f ((n, r) # m) = Inr m'"
  obtains m1 r1 where "visit_services f m = Inr m1" "m' = (n, r1) # m1"
    and "f n r = None \<and> r1 = r \<or> f n r = Some (Inr r1)"
proof (cases "f n r")
  case None
  with assms obtain m1 where "visit_services f m = Inr m1" "m' = (n, r) # m1"
    by (cases "visit_services f m") simp_all
  with None show ?thesis by (intro that) simp_all
next
  case (Some x)
  with assms obtain r1 where "x = Inr r1" by (cases x) simp_all
  moreover from assms Some this obtain m1 where "visit_services f m = Inr m1" "m' = (n, r1) # m1"
    by (cases "visit_services f m") simp_all
  ultimately show ?thesis using Some by (intro that) simp_all
qed

lemma visit_services_keys: "visit_services f m = Inr m' \<Longrightarrow> map fst m' = map fst m"
proof (induction m arbitrary: m')
  case Nil
  then show ?case by simp
next
  case (Cons nr m)
  obtain n r where nr: "nr = (n, r)" by (cases nr)
  obtain m1 r1 where "visit_services f m = Inr m1" "m' = (n, r1) # m1"
    by (rule visit_services_step[OF Cons.prems[unfolded nr]])
  with Cons.IH[of m1] nr show ?case by simp
qed

lemma visit_services_each:
  assumes "visit_services f m = Inr m'" and "wf_map m" and "map_of m name = Some raw"
  shows "case f name raw of None \<Rightarrow> map_of m' name = Some raw
    | Some r \<Rightarrow> (\<exists>raw'. r = Inr raw' \<and> map_of m' name = Some raw')"
  using assms
proof (induction m arbitrary: m')
  case Nil
  then show ?case by simp
next
  case (Cons nr m)
  obtain n r where nr: "nr = (n, r)" by (cases nr)
  obtain m1 r1 where m1: "visit_services f m = Inr m1" "m' = (n, r1) # m1"
    and r1: "f n r = None \<and> r1 = r \<or> f n r = Some (Inr r1)"
    by (rule visit_services_step[OF Cons.prems(1)[unfolded nr]])
  show ?case
  proof (cases "n = name")
    case True
    with Cons.prems(3) nr have "r = raw" by simp
    with True m1 r1 show ?thesis by (cases "f name raw") auto
  next
    case False
    with Cons.prems nr have "wf_map m" "map_of m name = Some raw" by (simp_all add: wf_map_def)
    from Cons.IH[OF m1(1) this] False m1(2) show ?thesis by (cases "f name raw") simp_all
  qed
qed

lemma validStartCommandArgs_shell: "trim_space cmd \<noteq> [] \<Longrightarrow> validStartCommandArgs [''sh'', ''-c'', cmd]"
  by (simp add: validStartCommandArgs_def trim_space_words word_char_def less_eq_char_def)

lemma normalizeStartCommand_fixed: "normalizeStartCommand raw = Some c \<Longrightarrow> normalizeStartCommand c = Some c"
  using validStartCommandArgs_shell
  by (cases raw) (auto simp: normalizeStartCommand_def normalizeStartCommandString_def
      normalizeStartCommandStringSlice_def normalizeStartCommandAnySlice_def split: if_splits option.splits)

lemma normalizeStartCommand_shape:
  "normalizeStartCommand raw = Some c \<Longrightarrow>
   (\<exists>s. c = AStr s \<and> trim_space s \<noteq> [] \<and> \<not> shellOperatorPattern s) \<or> (\<exists>args. c = AStrs args \<and> validStartCommandArgs args)"
  using validStartCommandArgs_shell
  by (cases raw) (auto simp: normalizeStartCommand_def normalizeStartCommandString_def
      normalizeStartCommandStringSlice_def normalizeStartCommandAnySlice_def split: if_splits option.splits)

subsection \<open>Properties\<close>

text \<open>A launch-wide environment reaches every normal service: when it is applied, the environment of each one
holds every override in text form, keeps its other variables, and no other field of the service changes; a service
whose name starts with an underscore is left as it is.\<close>

theorem global_env_reaches_services:
  assumes "applyGlobalEnvAny services env = Inr services'" and "env \<noteq> []" and "wf_map env" and "wf_map services"
    and "map_of services name = Some (AMap s)"
  shows "(global_env_target name \<longrightarrow> (\<exists>s' e0 e. map_of services' name = Some (AMap s') \<and>
      ensureEnvironmentMap name s = Inr e0 \<and> any_at s' ''environment'' = AMap e \<and>
      (\<forall>k v t. map_of env k = Some v \<and> envOverrideString v = Some t \<longrightarrow> map_of e k = Some (AStr t)) \<and>
      (\<forall>k. \<not> has_key env k \<longrightarrow> map_of e k = map_of e0 k) \<and>
      (\<forall>k. k \<noteq> ''environment'' \<longrightarrow> map_of s' k = map_of s k))) \<and>
    (\<not> global_env_target name \<longrightarrow> map_of services' name = Some (AMap s))"
proof -
  let ?f = "\<lambda>name raw. if globalEnvTargetService name raw = None then None
             else in_place (\<lambda>s. applyEnvOverrideValues name s env) raw"
  have v: "visit_services ?f services = Inr services'" using assms(1,2) by (simp add: applyGlobalEnvAny_def)
  note each = visit_services_each[OF v assms(4,5)]
  show ?thesis
  proof (cases "global_env_target name")
    case False
    with each show ?thesis by (simp add: globalEnvTargetService_def)
  next
    case True
    with each obtain s' where s': "applyEnvOverrideValues name s env = Inr s'" "map_of services' name = Some (AMap s')"
      by (cases "applyEnvOverrideValues name s env") (auto simp: globalEnvTargetService_def in_place_def)
    obtain e0 e where "ensureEnvironmentMap name s = Inr e0" "any_at s' ''environment'' = AMap e"
      "\<And>k v t. map_of env k = Some v \<Longrightarrow> envOverrideString v = Some t \<Longrightarrow> map_of e k = Some (AStr t)"
      "\<And>k. \<not> has_key env k \<Longrightarrow> map_of e k = map_of e0 k"
      "\<And>k. k \<noteq> ''environment'' \<Longrightarrow> map_of s' k = map_of s k"
      using applyEnvOverrideValues_spec[OF s'(1) assms(3)] by blast
    with True s'(2) show ?thesis by blast
  qed
qed

theorem global_env_reaches_services_witness:
  "\<exists>e. any_at [(''environment'', AMap [(''B'', AStr ''2''), (''A'', AStr ''1'')])] ''environment'' = AMap e \<and>
     map_of e ''A'' = Some (AStr ''1'')"
proof -
  let ?s = "[(''web'', AMap [(''environment'', ASeq [AStr ''B=2''])]), (''_x'', AMap [])]"
  let ?web = "[(''environment'', AMap [(''B'', AStr ''2''), (''A'', AStr ''1'')])]"
  let ?out = "[(''web'', AMap ?web), (''_x'', AMap [])]" and ?env = "[(''A'', AStr ''1'')]"
  have run: "applyGlobalEnvAny ?s ?env = Inr ?out" and ok: "?env \<noteq> []" "wf_map ?env" "wf_map ?s"
    "map_of ?s ''web'' = Some (AMap [(''environment'', ASeq [AStr ''B=2''])])" "global_env_target ''web''"
    "map_of ?out ''web'' = Some (AMap ?web)" "map_of ?env ''A'' = Some (AStr ''1'')"
    "envOverrideString (AStr ''1'') = Some ''1''" by code_simp+
  note reached = global_env_reaches_services[OF run ok(1-4), THEN conjunct1, THEN mp, OF ok(5)]
  show ?thesis
  proof (rule reached[THEN exE], elim exE conjE)
    fix s' e assume s': "map_of ?out ''web'' = Some (AMap s')" "any_at s' ''environment'' = AMap e"
      and e: "\<forall>k v t. map_of ?env k = Some v \<and> envOverrideString v = Some t \<longrightarrow> map_of e k = Some (AStr t)"
    have "map_of e ''A'' = Some (AStr ''1'')" by (rule e[rule_format, OF conjI[OF ok(7,8)]])
    moreover have "s' = ?web" using s'(1) unfolding ok(6) by simp
    ultimately show ?thesis using s'(2) by (intro exI[of _ e]) (simp only: simp_thms)
  qed
qed

text \<open>A start command is normalised once and for all: what normalising accepts it leaves as it is afterwards, and
it is either a plain command without shell operators or a list of words none of which is blank.\<close>

theorem start_command_normal_form:
  assumes "normalizeStartCommand raw = Some c"
  shows "normalizeStartCommand c = Some c \<and>
    ((\<exists>s. c = AStr s \<and> trim_space s \<noteq> [] \<and> \<not> shellOperatorPattern s) \<or>
     (\<exists>args. c = AStrs args \<and> validStartCommandArgs args))"
  using normalizeStartCommand_fixed[OF assms] normalizeStartCommand_shape[OF assms] by blast

theorem start_command_normal_form_witness:
  "normalizeStartCommand (AStrs [''sh'', ''-c'', ''a && b'']) = Some (AStrs [''sh'', ''-c'', ''a && b''])"
proof -
  have "normalizeStartCommand (AStr ''a && b'') = Some (AStrs [''sh'', ''-c'', ''a && b''])" by code_simp
  from start_command_normal_form[OF this] show ?thesis by blast
qed

end
