(* ===== verification/ServiceRuntime.thy ===== *)
theory ServiceRuntime
  imports ServiceRouting ServiceVolumes ServiceEnv OptFibe
begin

text \<open>
  \<open>internal/composefile/service\<close>, the runtime services: \<open>runtime\_services.go\<close>, \<open>source\_paths.go\<close> and
  \<open>injectStartCommand\<close> of \<open>commands.go\<close>. Each summarised service loses its host ports, is routed, and gets its
  command and its source checkout. The lemmas follow the services map through the loop: which services change, what
  every step keeps, and what the records returned are.
\<close>

subsection \<open>One service in the map\<close>

text \<open>A change in place of a service that is a \<open>map[string]any\<close>; any other value is left alone.\<close>

definition with_service :: "string \<Rightarrow> (doc \<Rightarrow> doc) \<Rightarrow> doc \<Rightarrow> doc" where
  "with_service name f services =
     (case mutable_service services name of None \<Rightarrow> services | Some s \<Rightarrow> put_key name (AMap (f s)) services)"

definition stripHostPorts :: "doc \<Rightarrow> string \<Rightarrow> doc" where
  "stripHostPorts services name = with_service name (del_key ''ports'') services"

definition disableDockerHealthcheck :: "doc \<Rightarrow> string \<Rightarrow> doc" where
  "disableDockerHealthcheck services name =
     with_service name (put_key ''healthcheck'' (AMap [(''disable'', ABool True)])) services"

definition injectStartCommand :: "doc \<Rightarrow> Summary \<Rightarrow> doc" where
  "injectStartCommand services s =
     (if s_start_command s = [] then services
      else case normalizeStartCommand (AStr (s_start_command s)) of
             None \<Rightarrow> services
           | Some cmd \<Rightarrow> with_service (s_name s) (put_key ''command'' cmd) services)"

subsection \<open>Sources (source\_paths.go)\<close>

definition sourcePath :: "Summary \<Rightarrow> string \<Rightarrow> string" where
  "sourcePath s project = SourceCheckoutPath project (s_repo_url s) (s_branch s)"

definition sourceBuildArgs :: "string \<Rightarrow> string list" where
  "sourceBuildArgs raw =
     (if trim_space raw = [] then []
      else case ParseDockerBuildArgs raw of None \<Rightarrow> [] | Some args \<Rightarrow> args)"

definition sourceBuild :: "string \<Rightarrow> Summary \<Rightarrow> any" where
  "sourceBuild contextPath s =
     (let b0 = [(''context'', AStr contextPath)];
          b1 = (if s_dockerfile s \<noteq> [] then put_key ''dockerfile'' (AStr (s_dockerfile s)) b0 else b0);
          b2 = (if s_build_target s \<noteq> [] then put_key ''target'' (AStr (s_build_target s)) b1 else b1);
          args = sourceBuildArgs (s_build_args s)
      in AMap (if args \<noteq> [] then put_key ''args'' (AStrs args) b2 else b2))"

definition applySourcePath :: "doc \<Rightarrow> Summary \<Rightarrow> string \<Rightarrow> doc" where
  "applySourcePath raw s path =
     (if s_source_mount s \<noteq> [] \<and> \<not> s_production s then
        let raw1 = put_key ''volumes'' (replaceSourceMount (any_at raw ''volumes'') (s_source_mount s) path) raw
        in if s_build s then put_key ''build'' (sourceBuild path s) raw1 else raw1
      else
        let raw1 = (if s_source_mount s \<noteq> [] then removeSourceMount raw (s_source_mount s) else raw)
        in if s_build s \<or> s_production s then put_key ''build'' (sourceBuild path s) raw1 else raw1)"

definition injectSourcePath :: "doc \<Rightarrow> Summary \<Rightarrow> string \<Rightarrow> doc" where
  "injectSourcePath services s project =
     (if s_repo_url s = [] \<or> project = [] then services
      else with_service (s_name s) (\<lambda>raw. applySourcePath raw s (sourcePath s project)) services)"

definition InjectSourcePathVariables :: "doc \<Rightarrow> string smap \<Rightarrow> doc" where
  "InjectSourcePathVariables services sourcePaths =
     (if sourcePaths = [] then services
      else map (\<lambda>(name, raw). (name,
        case raw of
          AMap s \<Rightarrow> (if any_at s ''volumes'' = ANil then raw
                     else AMap (put_key ''volumes'' (replacePathVariables (any_at s ''volumes'') sourcePaths) s))
        | _ \<Rightarrow> raw)) services)"

subsection \<open>Rendering (runtime\_services.go)\<close>

record RuntimeOptions =
  ro_internal_password :: string
  ro_playground_id :: int
  ro_service_passwords :: "string smap"

record RuntimeResult =
  rr_services :: "service_info list"
  rr_urls :: "service_url list"

definition RuntimeSourcePaths :: "Summary list \<Rightarrow> string \<Rightarrow> string smap" where
  "RuntimeSourcePaths summaries project =
     fold (\<lambda>s m. if s_repo_url s \<noteq> [] \<and> s_source_mount s \<noteq> [] \<and> \<not> s_production s
                 then put_key (s_name s) (sourcePath s project) m else m) summaries []"

definition runtimeServiceInfo :: "Summary \<Rightarrow> service_info" where
  "runtimeServiceInfo s =
     \<lparr>svc_name = s_name s, svc_status = ''pending'', svc_image = s_image s, svc_health = ''unknown'',
      svc_running = False, svc_exit_code = None\<rparr>"

definition runtimeServiceURL :: "Summary \<Rightarrow> string \<Rightarrow> string \<Rightarrow> service_url" where
  "runtimeServiceURL s rootDomain scheme =
     \<lparr>url_name = s_name s, url_type = ''http'', url_url = serviceURL scheme rootDomain (s_subdomain s),
      url_visibility = s_visibility s, url_auth_required = (s_visibility s = ''internal''),
      url_status = ''pending'', url_health = ''unknown'', url_running = Some False, url_exit_code = None\<rparr>"

definition runtimeServicePassword :: "string \<Rightarrow> RuntimeOptions \<Rightarrow> string" where
  "runtimeServicePassword name options =
     (let override = trim_space (str_at (ro_service_passwords options) name)
      in if override \<noteq> [] then override else ro_internal_password options)"

definition renderRuntimeRoute ::
    "hash_function \<Rightarrow> doc \<Rightarrow> Summary \<Rightarrow> string \<Rightarrow> string \<Rightarrow> string \<Rightarrow> RuntimeOptions \<Rightarrow> string + doc \<times> service_url option" where
  "renderRuntimeRoute bcrypt services s project rootDomain scheme options =
     (if s_port s = 0 then Inr (services, None)
      else case injectTraefik bcrypt (disableDockerHealthcheck services (s_name s)) s project rootDomain scheme
                  (runtimeServicePassword (s_name s) options) (ro_playground_id options) of
             Inl e \<Rightarrow> Inl e
           | Inr services' \<Rightarrow> Inr (services', Some (runtimeServiceURL s rootDomain scheme)))"

definition renderRuntimeService ::
    "hash_function \<Rightarrow> doc \<Rightarrow> Summary \<Rightarrow> string \<Rightarrow> string \<Rightarrow> string \<Rightarrow> RuntimeOptions \<Rightarrow> string + doc \<times> service_url option" where
  "renderRuntimeService bcrypt services s project rootDomain scheme options =
     (case renderRuntimeRoute bcrypt (stripHostPorts services (s_name s)) s project rootDomain scheme options of
        Inl e \<Rightarrow> Inl e
      | Inr (services', route) \<Rightarrow> Inr (injectSourcePath (injectStartCommand services' s) s project, route))"

fun render_services_loop ::
    "hash_function \<Rightarrow> string \<Rightarrow> string \<Rightarrow> string \<Rightarrow> RuntimeOptions \<Rightarrow> Summary list \<Rightarrow> doc \<times> RuntimeResult
     \<Rightarrow> string + doc \<times> RuntimeResult" where
  "render_services_loop bcrypt project rootDomain scheme options [] acc = Inr acc"
| "render_services_loop bcrypt project rootDomain scheme options (s # ss) (services, res) =
     (case renderRuntimeService bcrypt services s project rootDomain scheme options of
        Inl e \<Rightarrow> Inl e
      | Inr (services', route) \<Rightarrow>
          render_services_loop bcrypt project rootDomain scheme options ss
            (services', \<lparr>rr_services = rr_services res @ [runtimeServiceInfo s],
                         rr_urls = rr_urls res @ (case route of None \<Rightarrow> [] | Some u \<Rightarrow> [u])\<rparr>))"

definition RenderRuntimeServices ::
    "hash_function \<Rightarrow> doc \<Rightarrow> Summary list \<Rightarrow> string \<Rightarrow> string \<Rightarrow> string \<Rightarrow> RuntimeOptions \<Rightarrow> string + doc \<times> RuntimeResult" where
  "RenderRuntimeServices bcrypt services summaries project rootDomain scheme options =
     render_services_loop bcrypt project rootDomain scheme options summaries
       (services, \<lparr>rr_services = [], rr_urls = []\<rparr>)"

subsection \<open>The map of services through the steps\<close>

lemma with_service_other: "k \<noteq> name \<Longrightarrow> map_of (with_service name f services) k = map_of services k"
  by (simp add: with_service_def amap.look_put split: option.split)

lemma mutable_service_put [simp]:
  "mutable_service (put_key n (AMap s) services) k = (if k = n then Some s else mutable_service services k)"
  by (simp add: mutable_service_def)

lemma mutable_with_service:
  "mutable_service (with_service name f services) k =
     (if k = name then map_option f (mutable_service services k) else mutable_service services k)"
  by (simp add: with_service_def split: option.split)

text \<open>A step touches one service, keeps it mutable or not, and never gives it ports.\<close>

definition portless_step :: "string \<Rightarrow> doc \<Rightarrow> doc \<Rightarrow> bool" where
  "portless_step name services services' =
     ((\<forall>k. k \<noteq> name \<longrightarrow> map_of services' k = map_of services k) \<and>
      (mutable_service services name = None \<longrightarrow> mutable_service services' name = None) \<and>
      (\<forall>s. mutable_service services name = Some s \<and> \<not> has_key s ''ports'' \<longrightarrow>
        (\<exists>s'. mutable_service services' name = Some s' \<and> \<not> has_key s' ''ports'')))"

lemma portless_step_refl: "portless_step name m m"
  by (simp add: portless_step_def)

lemma portless_step_trans: "portless_step name a b \<Longrightarrow> portless_step name b c \<Longrightarrow> portless_step name a c"
  unfolding portless_step_def by metis

lemma portless_with_service:
  "(\<And>s. \<not> has_key s ''ports'' \<Longrightarrow> \<not> has_key (f s) ''ports'') \<Longrightarrow> portless_step name m (with_service name f m)"
  by (auto simp: portless_step_def mutable_with_service with_service_other)

lemma removeSourceMount_ports: "has_key (removeSourceMount s target) ''ports'' = has_key s ''ports''"
  by (simp add: removeSourceMount_def case_prod_beta Let_def)

lemma applySourcePath_ports: "has_key (applySourcePath raw s path) ''ports'' = has_key raw ''ports''"
  by (simp add: applySourcePath_def Let_def removeSourceMount_ports)

lemma injectTraefik_step:
  assumes "injectTraefik bcrypt services s project rootDomain scheme password i = Inr services'"
  shows "portless_step (s_name s) services services'"
proof (cases "routedService services s rootDomain")
  case None
  with assms show ?thesis by (simp add: injectTraefik_def portless_step_refl)
next
  case (Some raw)
  then have "mutable_service services (s_name s) = Some raw" by (auto simp: routedService_def split: if_splits)
  with assms Some show ?thesis
    by (auto simp: injectTraefik_def portless_step_def amap.look_put split: sum.splits)
qed

lemma renderRuntimeRoute_step:
  assumes "renderRuntimeRoute bcrypt services s project rootDomain scheme options = Inr (services', route)"
  shows "portless_step (s_name s) services services'"
    and "route = (if s_port s = 0 then None else Some (runtimeServiceURL s rootDomain scheme))"
proof -
  have "portless_step (s_name s) services (disableDockerHealthcheck services (s_name s))"
    unfolding disableDockerHealthcheck_def by (rule portless_with_service) simp
  then show "portless_step (s_name s) services services'"
    using assms injectTraefik_step portless_step_trans portless_step_refl
    by (fastforce simp: renderRuntimeRoute_def split: if_splits sum.splits)
  show "route = (if s_port s = 0 then None else Some (runtimeServiceURL s rootDomain scheme))"
    using assms by (auto simp: renderRuntimeRoute_def split: if_splits sum.splits)
qed

lemma injectStartCommand_step: "portless_step (s_name s) m (injectStartCommand m s)"
proof -
  have "portless_step (s_name s) m (with_service (s_name s) (put_key ''command'' cmd) m)" for cmd
    by (rule portless_with_service) simp
  then show ?thesis by (simp add: injectStartCommand_def portless_step_refl split: option.split)
qed

lemma injectSourcePath_step: "portless_step (s_name s) m (injectSourcePath m s project)"
proof -
  have "portless_step (s_name s) m (with_service (s_name s) (\<lambda>raw. applySourcePath raw s (sourcePath s project)) m)"
    by (rule portless_with_service) (simp add: applySourcePath_ports)
  then show ?thesis by (simp add: injectSourcePath_def portless_step_refl)
qed

text \<open>One service: only it changes, and it has no ports afterwards, whatever it had before.\<close>

lemma renderRuntimeService_spec:
  assumes "renderRuntimeService bcrypt services s project rootDomain scheme options = Inr (services', route)"
  shows "\<And>k. k \<noteq> s_name s \<Longrightarrow> map_of services' k = map_of services k"
    and "\<And>raw. mutable_service services' (s_name s) = Some raw \<Longrightarrow> \<not> has_key raw ''ports''"
    and "route = (if s_port s = 0 then None else Some (runtimeServiceURL s rootDomain scheme))"
proof -
  let ?m0 = "stripHostPorts services (s_name s)"
  obtain m1 where m1: "renderRuntimeRoute bcrypt ?m0 s project rootDomain scheme options = Inr (m1, route)"
    and out: "services' = injectSourcePath (injectStartCommand m1 s) s project"
    using assms by (auto simp: renderRuntimeService_def split: sum.splits)
  have step: "portless_step (s_name s) ?m0 services'"
    using renderRuntimeRoute_step(1)[OF m1] injectStartCommand_step injectSourcePath_step portless_step_trans
    unfolding out by blast
  have strip: "mutable_service ?m0 (s_name s) = map_option (del_key ''ports'') (mutable_service services (s_name s))"
    by (simp add: stripHostPorts_def mutable_with_service)
  show "map_of services' k = map_of services k" if "k \<noteq> s_name s" for k
    using step that with_service_other[OF that] by (simp add: portless_step_def stripHostPorts_def)
  show "\<not> has_key raw ''ports''" if "mutable_service services' (s_name s) = Some raw" for raw
  proof (cases "mutable_service services (s_name s)")
    case None
    with strip step that show ?thesis by (simp add: portless_step_def)
  next
    case (Some r)
    with strip step that show ?thesis by (auto simp: portless_step_def)
  qed
  show "route = (if s_port s = 0 then None else Some (runtimeServiceURL s rootDomain scheme))"
    by (rule renderRuntimeRoute_step(2)[OF m1])
qed

lemma mutable_service_cong: "map_of m k = map_of m' k \<Longrightarrow> mutable_service m k = mutable_service m' k"
  by (simp add: mutable_service_def any_at_def)

lemma render_services_loop_spec:
  assumes "render_services_loop bcrypt project rootDomain scheme options ss (services, res) = Inr (services', res')"
  shows "rr_services res' = rr_services res @ map runtimeServiceInfo ss \<and>
    rr_urls res' = rr_urls res @ map (\<lambda>s. runtimeServiceURL s rootDomain scheme) (filter (\<lambda>s. s_port s \<noteq> 0) ss) \<and>
    (\<forall>k. k \<notin> s_name ` set ss \<longrightarrow> map_of services' k = map_of services k) \<and>
    (\<forall>k raw. k \<in> s_name ` set ss \<and> mutable_service services' k = Some raw \<longrightarrow> \<not> has_key raw ''ports'')"
  using assms
proof (induction ss arbitrary: services res)
  case Nil
  then show ?case by simp
next
  case (Cons s ss)
  obtain m1 route where one: "renderRuntimeService bcrypt services s project rootDomain scheme options = Inr (m1, route)"
    using Cons.prems by (auto split: sum.splits)
  let ?res = "\<lparr>rr_services = rr_services res @ [runtimeServiceInfo s],
      rr_urls = rr_urls res @ (case route of None \<Rightarrow> [] | Some u \<Rightarrow> [u])\<rparr>"
  have rest: "render_services_loop bcrypt project rootDomain scheme options ss (m1, ?res) = Inr (services', res')"
    using Cons.prems one by simp
  note ih = Cons.IH[OF rest] and hd = renderRuntimeService_spec[OF one]
  have ports: "\<not> has_key raw ''ports''" if k: "k \<in> s_name ` set (s # ss)" "mutable_service services' k = Some raw" for k raw
  proof (cases "k \<in> s_name ` set ss")
    case True
    then show ?thesis using ih k(2) by blast
  next
    case False
    then have "k = s_name s" "map_of services' k = map_of m1 k" using ih k(1) by auto
    then show ?thesis using hd(2) k(2) mutable_service_cong by metis
  qed
  have other: "map_of services' k = map_of services k" if "k \<notin> s_name ` set (s # ss)" for k
    using ih hd(1) that by simp
  show ?case using ih hd(3) ports other by auto
qed

subsection \<open>Properties\<close>

text \<open>Rendering the runtime services reports one pending service for each summary, in order, and one URL for each
summary with a port; it changes no service that has no summary, and no summarised service publishes a host port
afterwards.\<close>

theorem runtime_services_rendered:
  assumes "RenderRuntimeServices bcrypt services summaries project rootDomain scheme options = Inr (services', res)"
  shows "rr_services res = map runtimeServiceInfo summaries \<and>
    rr_urls res = map (\<lambda>s. runtimeServiceURL s rootDomain scheme) (filter (\<lambda>s. s_port s \<noteq> 0) summaries) \<and>
    (\<forall>k. k \<notin> s_name ` set summaries \<longrightarrow> map_of services' k = map_of services k) \<and>
    (\<forall>k raw. k \<in> s_name ` set summaries \<and> mutable_service services' k = Some raw \<longrightarrow> \<not> has_key raw ''ports'')"
  using render_services_loop_spec[OF assms[unfolded RenderRuntimeServices_def]] by simp

definition demo_options :: RuntimeOptions where
  "demo_options = \<lparr>ro_internal_password = [], ro_playground_id = 1, ro_service_passwords = []\<rparr>"

theorem runtime_services_rendered_witness:
  "\<exists>services' res. RenderRuntimeServices (\<lambda>p. Inr p) [(''web'', AMap [(''ports'', ASeq [AStr ''80:80''])])]
     [summarizeService ''web'' zero_definition] ''p'' ''example.com'' ''http'' demo_options = Inr (services', res) \<and>
     (\<forall>raw. mutable_service services' ''web'' = Some raw \<longrightarrow> \<not> has_key raw ''ports'')"
proof -
  let ?s = "summarizeService ''web'' zero_definition"
  have s: "s_port ?s = 0" "s_name ?s = ''web''"
    by (simp_all add: summarizeService_def intLabel_def str_at_def NormalizeLabels_def zero_definition_def Let_def)
  then obtain services' res where run: "RenderRuntimeServices (\<lambda>p. Inr p) [(''web'', AMap [(''ports'', ASeq [AStr ''80:80''])])]
     [?s] ''p'' ''example.com'' ''http'' demo_options = Inr (services', res)"
    by (simp add: RenderRuntimeServices_def renderRuntimeService_def renderRuntimeRoute_def)
  from runtime_services_rendered[OF run] s(2) run show ?thesis by auto
qed

text \<open>A service that mounts its source gets it from the checkout of its repository: some volume is mounted at the
source mount, and every one mounted there comes from the checkout path, which is the path the guard accepts.\<close>

theorem source_mounted_from_checkout:
  assumes "s_source_mount s \<noteq> []" and "\<not> s_production s" and "CHR '':'' \<notin> set (s_source_mount s)"
    and "plain_source (sourcePath s project)" and "plain_project project"
  shows "(\<exists>v \<in> set (volume_items (any_at (applySourcePath raw s (sourcePath s project)) ''volumes'')).
      volumeItemTarget v = s_source_mount s) \<and>
    (\<forall>v \<in> set (volume_items (any_at (applySourcePath raw s (sourcePath s project)) ''volumes'')).
      volumeItemTarget v = s_source_mount s \<longrightarrow> volumeItemSource v = sourcePath s project) \<and>
    ValidRemoteCheckoutPath (sourcePath s project) (PlaygroundPath project)"
proof -
  have "any_at (applySourcePath raw s (sourcePath s project)) ''volumes'' =
      replaceSourceMount (any_at raw ''volumes'') (s_source_mount s) (sourcePath s project)"
    using assms(1,2) by (simp add: applySourcePath_def Let_def)
  then show ?thesis
    using replaceSourceMount_spec(1,2)[OF assms(1,4,3)] ValidRemoteCheckoutPath_generated[OF assms(5)]
    by (simp add: sourcePath_def)
qed

theorem source_mounted_from_checkout_witness:
  "ValidRemoteCheckoutPath (sourcePath (summarizeService ''web'' (zero_definition\<lparr>def_labels :=
     AStrs [''fibe.gg/source_mount=/app'', ''fibe.gg/repo_url=a/b'']\<rparr>)) ''demo'') (PlaygroundPath ''demo'')"
proof -
  let ?s = "summarizeService ''web'' (zero_definition\<lparr>def_labels :=
     AStrs [''fibe.gg/source_mount=/app'', ''fibe.gg/repo_url=a/b'']\<rparr>)"
  have "s_source_mount ?s \<noteq> []" "\<not> s_production ?s" "CHR '':'' \<notin> set (s_source_mount ?s)"
    "plain_source (sourcePath ?s ''demo'')" "plain_project ''demo''" by code_simp+
  from source_mounted_from_checkout[OF this] show ?thesis by blast
qed

end
