(* ===== verification/ServiceOverrides.thy ===== *)
theory ServiceOverrides
  imports ServiceRuntime
begin

text \<open>
  \<open>internal/composefile/service\<close>, launch overrides: their checks (\<open>service\_override\_validation.go\<close>,
  \<open>service\_override\_fields.go\<close>, \<open>service\_override\_port\_validation.go\<close>) and their application
  (\<open>service\_overrides.go\<close>, \<open>service\_override\_labels.go\<close>, \<open>service\_override\_runtime.go\<close>,
  \<open>service\_subdomains.go\<close>). A checker returns the paths of the fields it rejects. The lemmas relate what is accepted
  to what is written.
\<close>

subsection \<open>Field checks (service\_override\_fields.go)\<close>

definition exposureOverrideFields :: "string list" where
  "exposureOverrideFields = [''enabled'', ''port'', ''subdomain'', ''visibility'', ''path_rule'']"

definition gitConfigOverrideFields :: "string list" where
  "gitConfigOverrideFields = [''branch_name'']"

definition issue_unless :: "bool \<Rightarrow> string \<Rightarrow> string list" where
  "issue_unless ok path = (if ok then [] else [path])"

definition checkStringAnyMapOverride :: "string \<Rightarrow> any \<Rightarrow> string list" where
  "checkStringAnyMapOverride pre v =
     (case as_map v of
        None \<Rightarrow> [pre]
      | Some flds \<Rightarrow>
          (if flds = [] \<or> hasBlankMapKey flds then [pre]
           else issue_unless (\<forall>kv \<in> set flds. envOverrideString (snd kv) \<noteq> None) pre))"

definition validMapOverrideField :: "string \<Rightarrow> any \<Rightarrow> string list \<Rightarrow> bool" where
  "validMapOverrideField key v allowed =
     (if key \<notin> set allowed then False
      else if key = ''branch_name''
        then (case v of AStr t \<Rightarrow> trim_space t \<noteq> [] \<and> validGitBranchName t | _ \<Rightarrow> False)
      else if key = ''enabled'' then isBoolOverrideValue v
      else if key = ''port'' then portEndpointText v \<noteq> None
      else isStringValue v)"

definition addUnknownMapFields :: "string \<Rightarrow> doc \<Rightarrow> string list \<Rightarrow> string list" where
  "addUnknownMapFields pre flds allowed =
     map (\<lambda>(k, _). pre @ ''.'' @ k) (filter (\<lambda>(k, _). k \<notin> set allowed) flds)"

definition addInvalidKnownMapFields :: "string \<Rightarrow> doc \<Rightarrow> string list \<Rightarrow> string list" where
  "addInvalidKnownMapFields pre flds allowed =
     map (\<lambda>(k, _). pre @ ''.'' @ k)
       (filter (\<lambda>(k, v). k \<in> set allowed \<and> \<not> validMapOverrideField k v allowed) flds)"

text \<open>A nonempty override object, or the issue of its path.\<close>

definition validOverrideObject :: "string \<Rightarrow> any \<Rightarrow> string list + doc" where
  "validOverrideObject pre v =
     (case as_map v of None \<Rightarrow> Inl [pre] | Some flds \<Rightarrow> if flds = [] then Inl [pre] else Inr flds)"

definition addInvalidMapOverrideFields :: "string \<Rightarrow> any \<Rightarrow> string list \<Rightarrow> string list" where
  "addInvalidMapOverrideFields pre v allowed =
     (case validOverrideObject pre v of
        Inl es \<Rightarrow> es
      | Inr flds \<Rightarrow> addUnknownMapFields pre flds allowed @ addInvalidKnownMapFields pre flds allowed)"

definition exposureDisabled :: "doc \<Rightarrow> bool" where
  "exposureDisabled flds = (let e = overrideBool flds ''enabled'' in bp_ok e \<and> \<not> bp_value e)"

definition invalidExposureEnabled :: "doc \<Rightarrow> bool" where
  "invalidExposureEnabled flds = (has_key flds ''enabled'' \<and> \<not> bp_ok (overrideBool flds ''enabled''))"

definition checkExposureMapOverride :: "string \<Rightarrow> any \<Rightarrow> string list" where
  "checkExposureMapOverride pre v =
     (case validOverrideObject pre v of
        Inl es \<Rightarrow> es
      | Inr flds \<Rightarrow>
          addUnknownMapFields pre flds exposureOverrideFields @
          (if invalidExposureEnabled flds then [pre @ ''.enabled'']
           else if exposureDisabled flds then []
           else addInvalidKnownMapFields pre flds exposureOverrideFields))"

definition checkGitConfigMapOverride :: "string \<Rightarrow> any \<Rightarrow> string list" where
  "checkGitConfigMapOverride pre v = addInvalidMapOverrideFields pre v gitConfigOverrideFields"

definition checkStartCommandOverride :: "string \<Rightarrow> any \<Rightarrow> string list" where
  "checkStartCommandOverride pre v = issue_unless (isStartCommandValue v) pre"

definition checkStringOverride :: "string \<Rightarrow> any \<Rightarrow> string list" where
  "checkStringOverride pre v = issue_unless (isStringValue v) pre"

definition checkBoolOverride :: "string \<Rightarrow> any \<Rightarrow> string list" where
  "checkBoolOverride pre v = issue_unless (isBoolOverrideValue v) pre"

definition checkRepoPathOverride :: "string \<Rightarrow> any \<Rightarrow> string list" where
  "checkRepoPathOverride pre v =
     issue_unless (case v of AStr t \<Rightarrow> trim_space t \<noteq> [] \<and> validRepoRelativePath t | _ \<Rightarrow> False) pre"

definition checkBuildArgsOverride :: "string \<Rightarrow> any \<Rightarrow> string list" where
  "checkBuildArgsOverride pre v = issue_unless (case v of AStr t \<Rightarrow> validDockerBuildArgs t | _ \<Rightarrow> False) pre"

definition checkPortEndpointOverride :: "string \<Rightarrow> any \<Rightarrow> string list" where
  "checkPortEndpointOverride pre v = issue_unless (portEndpointText v \<noteq> None) pre"

subsection \<open>Port mapping checks (service\_override\_port\_validation.go)\<close>

definition validPortMappingPair :: "string \<Rightarrow> any \<Rightarrow> bool" where
  "validPortMappingPair container host = (validPortEndpoint container \<and> portEndpointText host \<noteq> None)"

definition addInvalidPortMappingMap :: "string \<Rightarrow> doc \<Rightarrow> string list" where
  "addInvalidPortMappingMap pre values =
     (if values = [] then [pre]
      else map (\<lambda>(k, _). pre @ ''.'' @ trim_space k)
             (filter (\<lambda>(k, host). \<not> validPortMappingPair (trim_space k) host) values))"

definition addInvalidPortMappingAnyMap :: "string \<Rightarrow> (any \<times> any) list \<Rightarrow> string list" where
  "addInvalidPortMappingAnyMap pre values =
     (if values = [] then [pre]
      else concat (map (\<lambda>(k, host). case string_map_key k of
             None \<Rightarrow> [pre @ ''.<non-string-key>'']
           | Some t \<Rightarrow> issue_unless (validPortMappingPair t host) (pre @ ''.'' @ t)) values))"

definition addInvalidPortMappingFields :: "string \<Rightarrow> doc \<Rightarrow> string list" where
  "addInvalidPortMappingFields pre item =
     map (\<lambda>(k, _). pre @ ''.'' @ k) (filter (\<lambda>(k, _). k \<noteq> ''container'' \<and> k \<noteq> ''host'') item)"

definition addMissingPortMappingEndpoints :: "string \<Rightarrow> doc \<Rightarrow> string list" where
  "addMissingPortMappingEndpoints pre item =
     concat (map (\<lambda>key. issue_unless (has_key item key \<and> portEndpointText (any_at item key) \<noteq> None) (pre @ ''.'' @ key))
       [''container'', ''host''])"

definition addInvalidPortMappingItem :: "string \<Rightarrow> doc \<Rightarrow> string list" where
  "addInvalidPortMappingItem pre item = addInvalidPortMappingFields pre item @ addMissingPortMappingEndpoints pre item"

definition addInvalidPortMappingList :: "string \<Rightarrow> any list \<Rightarrow> string list" where
  "addInvalidPortMappingList pre values =
     (if values = [] then [pre]
      else concat (map (\<lambda>(idx, raw). case as_map raw of
             None \<Rightarrow> [pre @ ''.'' @ itoa (int idx)]
           | Some item \<Rightarrow> addInvalidPortMappingItem (pre @ ''.'' @ itoa (int idx)) item) (enumerate 0 values)))"

definition addInvalidPortMappingContent :: "string \<Rightarrow> any \<Rightarrow> string list" where
  "addInvalidPortMappingContent pre v =
     (case v of
        AMap m \<Rightarrow> addInvalidPortMappingMap pre m
      | AAnyMap kvs \<Rightarrow> addInvalidPortMappingAnyMap pre kvs
      | ASeq vs \<Rightarrow> addInvalidPortMappingList pre vs
      | _ \<Rightarrow> [pre])"

definition checkPortMappingsOverride :: "string \<Rightarrow> any \<Rightarrow> string list" where
  "checkPortMappingsOverride pre v = addInvalidPortMappingContent pre v"

subsection \<open>Override objects (service\_override\_validation.go)\<close>

definition serviceOverrideFieldCheckers :: "(string \<Rightarrow> any \<Rightarrow> string list) smap" where
  "serviceOverrideFieldCheckers =
     [(''env_vars'', checkStringAnyMapOverride), (''exposure'', checkExposureMapOverride),
      (''git_config'', checkGitConfigMapOverride), (''port_mappings'', checkPortMappingsOverride),
      (''start_command'', checkStartCommandOverride), (''auth_password'', checkStringOverride),
      (''subdomain'', checkStringOverride), (''exposure_visibility'', checkStringOverride),
      (''path_rule'', checkStringOverride), (''dockerfile_path'', checkRepoPathOverride),
      (''image'', checkStringOverride), (''repo_url'', checkStringOverride),
      (''build_target'', checkStringOverride), (''build_args'', checkBuildArgsOverride),
      (''production'', checkBoolOverride), (''exposure_port'', checkPortEndpointOverride)]"

definition addInvalidGlobalOverrideContent :: "string \<Rightarrow> doc \<Rightarrow> string list" where
  "addInvalidGlobalOverrideContent pre override =
     concat (map (\<lambda>(k, v). if k \<noteq> ''env_vars'' then [pre @ ''.'' @ k]
       else checkStringAnyMapOverride (pre @ ''.'' @ k) v) override)"

definition addInvalidServiceOverrideContent :: "string \<Rightarrow> doc \<Rightarrow> string list" where
  "addInvalidServiceOverrideContent pre override =
     concat (map (\<lambda>(k, v). case map_of serviceOverrideFieldCheckers k of
         Some checker \<Rightarrow> checker (pre @ ''.'' @ k) v
       | None \<Rightarrow> [pre @ ''.'' @ k]) override)"

definition OverrideContentIssuePaths :: "string \<Rightarrow> doc \<Rightarrow> string list" where
  "OverrideContentIssuePaths pre override = sort (addInvalidServiceOverrideContent pre override)"

definition invalidSubdomainOverrideIssue :: "string \<Rightarrow> string \<Rightarrow> string" where
  "invalidSubdomainOverrideIssue name sub =
     (if isBlank name then ''service_subdomains.<blank>''
      else if isBlank sub then ''service_subdomains.'' @ name
      else [])"

definition hasServiceMap :: "doc \<Rightarrow> string \<Rightarrow> bool" where
  "hasServiceMap services name =
     (case map_of services name of None \<Rightarrow> False | Some raw \<Rightarrow> as_map raw \<noteq> None)"

definition malformedOverrideIssue :: "string \<Rightarrow> any \<Rightarrow> string" where
  "malformedOverrideIssue name raw =
     (case as_map raw of
        Some override \<Rightarrow> if override \<noteq> [] then [] else ''services.'' @ name
      | None \<Rightarrow> ''services.'' @ name)"

definition invalidOverrideTargetIssue :: "doc \<Rightarrow> string \<Rightarrow> any \<Rightarrow> string" where
  "invalidOverrideTargetIssue services name raw =
     (if name = globalServiceOverrideKey then malformedOverrideIssue name raw
      else if isBlank name then ''services.<blank>''
      else if \<not> hasServiceMap services name then ''services.'' @ name
      else malformedOverrideIssue name raw)"

definition addInvalidSubdomainTargets :: "doc \<Rightarrow> string smap \<Rightarrow> string list" where
  "addInvalidSubdomainTargets services subdomains =
     concat (map (\<lambda>(name, sub).
       if invalidSubdomainOverrideIssue name sub \<noteq> [] then [invalidSubdomainOverrideIssue name sub]
       else issue_unless (hasServiceMap services name) (''service_subdomains.'' @ name)) subdomains)"

definition addInvalidOverrideTargets :: "doc \<Rightarrow> doc \<Rightarrow> string list" where
  "addInvalidOverrideTargets services overrides =
     nonempty (map (\<lambda>(name, raw). invalidOverrideTargetIssue services name raw) overrides)"

definition addInvalidOverrideContent :: "doc \<Rightarrow> string list" where
  "addInvalidOverrideContent overrides =
     concat (map (\<lambda>(name, raw). case as_map raw of
         None \<Rightarrow> []
       | Some override \<Rightarrow>
           (if name = globalServiceOverrideKey then addInvalidGlobalOverrideContent (''services.'' @ name) override
            else addInvalidServiceOverrideContent (''services.'' @ name) override)) overrides)"

definition validateOverridesWithoutServices :: "string smap \<Rightarrow> doc \<Rightarrow> string option" where
  "validateOverridesWithoutServices subdomains overrides =
     (let issues =
            map (\<lambda>(name, sub). if invalidSubdomainOverrideIssue name sub \<noteq> [] then invalidSubdomainOverrideIssue name sub
                               else ''service_subdomains.'' @ name) subdomains @
            map (\<lambda>(name, _). ''services.'' @ name) (filter (\<lambda>(name, _). name \<noteq> globalServiceOverrideKey) overrides)
      in if issues = [] then None
         else Some (''service overrides require compose services: '' @ join_str '', '' (sort issues)))"

definition ValidateServiceOverrideNames :: "doc \<Rightarrow> string smap \<Rightarrow> doc \<Rightarrow> string option" where
  "ValidateServiceOverrideNames rendered subdomains overrides =
     (case as_map (any_at rendered ''services'') of
        None \<Rightarrow> validateOverridesWithoutServices subdomains overrides
      | Some services \<Rightarrow>
          (let issues = addInvalidSubdomainTargets services subdomains @
                 addInvalidOverrideTargets services overrides @ addInvalidOverrideContent overrides
           in if issues = [] then None
              else Some (''service overrides reference services not present in compose or malformed override objects: '' @
                join_str '', '' (sort issues))))"

fun RejectJobModeServiceOverrides :: "doc \<Rightarrow> string option" where
  "RejectJobModeServiceOverrides [] = None"
| "RejectJobModeServiceOverrides ((name, raw) # overrides) =
     (if name = ''_run'' then Some ''services._run is not implemented in fibe-distilled''
      else case as_map raw of
             Some override \<Rightarrow>
               (if has_key override ''job_watch''
                then Some (''services.'' @ name @ ''.job_watch is not implemented in fibe-distilled'')
                else RejectJobModeServiceOverrides overrides)
           | None \<Rightarrow> RejectJobModeServiceOverrides overrides)"

subsection \<open>Labels (service\_override\_labels.go)\<close>

definition defaultExposurePort :: string where "defaultExposurePort = ''80''"

record overrideLabelMapping =
  om_field :: string
  om_label :: string
  om_port :: bool

definition om :: "string \<Rightarrow> string \<Rightarrow> bool \<Rightarrow> overrideLabelMapping" where
  "om f l p = \<lparr>om_field = f, om_label = ''fibe.gg/'' @ l, om_port = p\<rparr>"

definition directLabelMappings :: "overrideLabelMapping list" where
  "directLabelMappings =
     [om ''subdomain'' ''subdomain'' False, om ''exposure_visibility'' ''visibility'' False,
      om ''path_rule'' ''path_rule'' False, om ''exposure_port'' ''port'' True]"

definition exposureLabelMappings :: "overrideLabelMapping list" where
  "exposureLabelMappings =
     [om ''port'' ''port'' True, om ''subdomain'' ''subdomain'' False,
      om ''visibility'' ''visibility'' False, om ''path_rule'' ''path_rule'' False]"

definition serviceMetadataLabelMappings :: "overrideLabelMapping list" where
  "serviceMetadataLabelMappings =
     [om ''dockerfile_path'' ''dockerfile'' False, om ''repo_url'' ''repo_url'' False,
      om ''build_target'' ''build_target'' False]"

definition exposureLabels :: "string list" where
  "exposureLabels = [''fibe.gg/port'', ''fibe.gg/subdomain'', ''fibe.gg/path_rule'', ''fibe.gg/visibility'']"

text \<open>The labels and whether they changed.\<close>

definition setLabelString :: "string \<Rightarrow> string \<Rightarrow> doc \<times> bool \<Rightarrow> doc \<times> bool" where
  "setLabelString key v = (\<lambda>(labels, changed). if v = [] then (labels, changed) else (put_label key v labels, True))"

definition overrideLabelValue :: "doc \<Rightarrow> overrideLabelMapping \<Rightarrow> string" where
  "overrideLabelValue values m =
     (if om_port m then overridePortString values (om_field m) else overrideString values (om_field m))"

definition applyLabelMappings :: "doc \<Rightarrow> overrideLabelMapping list \<Rightarrow> doc \<times> bool \<Rightarrow> doc \<times> bool" where
  "applyLabelMappings values mappings acc =
     fold (\<lambda>m. setLabelString (om_label m) (overrideLabelValue values m)) mappings acc"

definition applyDirectLabelOverrides :: "doc \<Rightarrow> doc \<times> bool \<Rightarrow> doc \<times> bool" where
  "applyDirectLabelOverrides override = applyLabelMappings override directLabelMappings"

definition clearExposureLabels :: "doc \<Rightarrow> doc" where
  "clearExposureLabels labels = fold del_key exposureLabels labels"

definition defaultExposureLabel :: "doc \<Rightarrow> bool \<Rightarrow> doc \<times> bool \<Rightarrow> doc \<times> bool" where
  "defaultExposureLabel exposure enabled =
     (\<lambda>(labels, changed).
        if \<not> enabled then (labels, changed)
        else if overridePortString exposure ''port'' \<noteq> [] \<or> overridePortString labels ''fibe.gg/port'' \<noteq> []
          then (labels, changed)
        else (put_label ''fibe.gg/port'' defaultExposurePort labels, True))"

definition applyExposureLabelOverride :: "doc \<Rightarrow> doc \<times> bool \<Rightarrow> doc \<times> bool" where
  "applyExposureLabelOverride override acc =
     (case as_map (any_at override ''exposure'') of
        None \<Rightarrow> acc
      | Some exposure \<Rightarrow>
          (let enabled = overrideBool exposure ''enabled''
           in if bp_ok enabled \<and> \<not> bp_value enabled then (clearExposureLabels (fst acc), True)
              else applyLabelMappings exposure exposureLabelMappings
                     (defaultExposureLabel exposure (bp_ok enabled \<and> bp_value enabled) acc)))"

definition applyGitLabelOverride :: "doc \<Rightarrow> doc \<times> bool \<Rightarrow> doc \<times> bool" where
  "applyGitLabelOverride override acc =
     (case as_map (any_at override ''git_config'') of
        None \<Rightarrow> acc
      | Some g \<Rightarrow> setLabelString ''fibe.gg/branch'' (overrideString g ''branch_name'') acc)"

definition applyProductionLabelOverride :: "doc \<Rightarrow> doc \<times> bool \<Rightarrow> doc \<times> bool" where
  "applyProductionLabelOverride override acc =
     (let p = overrideBool override ''production''
      in if \<not> bp_ok p then acc
         else (put_label ''fibe.gg/production'' (if bp_value p then ''true'' else ''false'') (fst acc), True))"

definition applyBuildArgsLabelOverride :: "doc \<Rightarrow> doc \<times> bool \<Rightarrow> doc \<times> bool" where
  "applyBuildArgsLabelOverride override acc =
     (case any_at override ''build_args'' of
        AStr raw \<Rightarrow>
          (case ParseDockerBuildArgs raw of
             None \<Rightarrow> acc
           | Some parts \<Rightarrow>
               (if parts = [] then acc else setLabelString ''fibe.gg/build_args'' (join_str '','' parts) acc))
      | _ \<Rightarrow> acc)"

definition applyMetadataLabelOverrides :: "doc \<Rightarrow> doc \<times> bool \<Rightarrow> doc \<times> bool" where
  "applyMetadataLabelOverrides override acc =
     applyBuildArgsLabelOverride override
       (applyProductionLabelOverride override (applyLabelMappings override serviceMetadataLabelMappings acc))"

definition applyStartCommandLabelOverride :: "doc \<Rightarrow> doc \<times> bool \<Rightarrow> doc \<times> bool" where
  "applyStartCommandLabelOverride override acc =
     (case any_at override ''start_command'' of
        AStr raw \<Rightarrow> setLabelString ''fibe.gg/start_command'' (trim_space raw) acc
      | _ \<Rightarrow> acc)"

definition override_labels :: "doc \<Rightarrow> doc \<Rightarrow> doc \<times> bool" where
  "override_labels labels override =
     applyStartCommandLabelOverride override
       (applyMetadataLabelOverrides override
         (applyGitLabelOverride override
           (applyExposureLabelOverride override
             (applyDirectLabelOverrides override (labels, False)))))"

definition applyServiceLabelOverrides :: "doc \<Rightarrow> doc \<Rightarrow> doc" where
  "applyServiceLabelOverrides s override =
     (let (labels, changed) = override_labels (normalizeLabelsAny (any_at s ''labels'')) override
      in if labels \<noteq> [] \<or> changed then put_key ''labels'' (AMap labels) s else s)"

subsection \<open>Application (service\_overrides.go, service\_override\_runtime.go)\<close>

definition applyServiceEnvOverride :: "string \<Rightarrow> doc \<Rightarrow> doc \<Rightarrow> string + doc" where
  "applyServiceEnvOverride name s override =
     (case as_map (any_at override ''env_vars'') of
        None \<Rightarrow> Inr s
      | Some env \<Rightarrow> applyEnvOverrideValues name s env)"

definition applyServiceRuntimeOverrides :: "doc \<Rightarrow> doc \<Rightarrow> doc" where
  "applyServiceRuntimeOverrides s override =
     (let mappings = normalizePortMappings (any_at override ''port_mappings'');
          s1 = (if mappings \<noteq> [] then put_key ''ports'' (ASeq (applyPortMappings (any_at s ''ports'') mappings)) s else s);
          s2 = (case normalizeStartCommand (any_at override ''start_command'') of
                  None \<Rightarrow> s1 | Some cmd \<Rightarrow> put_key ''command'' cmd s1);
          image = overrideString override ''image''
      in if image \<noteq> [] then put_key ''image'' (AStr image) s2 else s2)"

definition applyServiceOverride :: "string \<Rightarrow> doc \<Rightarrow> doc \<Rightarrow> string + doc" where
  "applyServiceOverride name s override =
     (case applyServiceEnvOverride name s override of
        Inl e \<Rightarrow> Inl e
      | Inr s1 \<Rightarrow> Inr (applyServiceRuntimeOverrides (applyServiceLabelOverrides s1 override) override))"

definition applyNamedServiceOverride :: "doc \<Rightarrow> string \<Rightarrow> any \<Rightarrow> string + doc" where
  "applyNamedServiceOverride services name raw =
     (case as_map (any_at services name) of
        None \<Rightarrow> Inr services
      | Some s \<Rightarrow>
          (case as_map raw of
             None \<Rightarrow> Inr services
           | Some override \<Rightarrow> map_sum id (\<lambda>s'. store_back name s' services) (applyServiceOverride name s override)))"

definition applyGlobalServiceOverride :: "doc \<Rightarrow> any \<Rightarrow> string + doc" where
  "applyGlobalServiceOverride services raw =
     (case as_map raw of
        None \<Rightarrow> Inr services
      | Some override \<Rightarrow>
          (case as_map (any_at override ''env_vars'') of
             None \<Rightarrow> Inr services
           | Some env \<Rightarrow> applyGlobalEnvAny services env))"

definition applyServiceOverrideByName :: "doc \<Rightarrow> string \<Rightarrow> any \<Rightarrow> string + doc" where
  "applyServiceOverrideByName services name raw =
     (if name = globalServiceOverrideKey then applyGlobalServiceOverride services raw
      else applyNamedServiceOverride services name raw)"

fun apply_overrides_loop :: "doc \<Rightarrow> doc \<Rightarrow> string + doc" where
  "apply_overrides_loop services [] = Inr services"
| "apply_overrides_loop services ((name, raw) # overrides) =
     (case applyServiceOverrideByName services name raw of
        Inl e \<Rightarrow> Inl e
      | Inr services' \<Rightarrow> apply_overrides_loop services' overrides)"

definition ApplyServiceOverrides :: "doc \<Rightarrow> doc \<Rightarrow> string + doc" where
  "ApplyServiceOverrides rendered overrides = in_services (\<lambda>services. apply_overrides_loop services overrides) rendered"

subsection \<open>Subdomains (service\_subdomains.go)\<close>

definition errSubdomainPathNotTraversable :: string where
  "errSubdomainPathNotTraversable = ''path was not found or is not traversable''"

definition errBlankSubdomainValue :: string where
  "errBlankSubdomainValue = ''value must not be blank''"

definition mutableServiceLabels :: "doc \<Rightarrow> string + doc" where
  "mutableServiceLabels s =
     (case any_at s ''labels'' of
        ANil \<Rightarrow> Inr []
      | AMap m \<Rightarrow> Inr (normalizeLabelsAny (AMap m))
      | AAnyMap kvs \<Rightarrow> Inr (normalizeLabelsAny (AAnyMap kvs))
      | ASeq vs \<Rightarrow> Inr (normalizeLabelsAny (ASeq vs))
      | AStrs ss \<Rightarrow> Inr (normalizeLabelsAny (AStrs ss))
      | _ \<Rightarrow> Inl errSubdomainPathNotTraversable)"

definition applySubdomain_error :: "string \<Rightarrow> string \<Rightarrow> string" where
  "applySubdomain_error path e = path @ '' could not be written: '' @ e"

definition applyServiceSubdomain :: "doc \<Rightarrow> string \<Rightarrow> string \<Rightarrow> string + doc" where
  "applyServiceSubdomain services name sub =
     (if invalidSubdomainOverrideIssue name sub \<noteq> []
      then Inl (applySubdomain_error (invalidSubdomainOverrideIssue name sub) errBlankSubdomainValue)
      else case as_map (any_at services name) of
             None \<Rightarrow> Inl (applySubdomain_error (''service_subdomains.'' @ name) errSubdomainPathNotTraversable)
           | Some s \<Rightarrow>
               (case mutableServiceLabels s of
                  Inl e \<Rightarrow> Inl (applySubdomain_error (''service_subdomains.'' @ name) e)
                | Inr labels \<Rightarrow>
                    Inr (put_key name (AMap (put_key ''labels''
                      (AMap (put_label ''fibe.gg/subdomain'' sub labels)) s)) services)))"

fun apply_subdomains_loop :: "doc \<Rightarrow> string smap \<Rightarrow> string + doc" where
  "apply_subdomains_loop services [] = Inr services"
| "apply_subdomains_loop services ((name, sub) # subs) =
     (case applyServiceSubdomain services name sub of
        Inl e \<Rightarrow> Inl e
      | Inr services' \<Rightarrow> apply_subdomains_loop services' subs)"

definition ApplyServiceSubdomains :: "doc \<Rightarrow> string smap \<Rightarrow> string + doc" where
  "ApplyServiceSubdomains rendered subdomains =
     (if subdomains = [] then Inr rendered
      else case as_map (any_at rendered ''services'') of
             None \<Rightarrow> Inl errSubdomainPathNotTraversable
           | Some services \<Rightarrow>
               map_sum id (\<lambda>services'. store_back ''services'' services' rendered)
                 (apply_subdomains_loop services subdomains))"


subsection \<open>Facts\<close>

definition overridableServiceKeys :: "string list" where
  "overridableServiceKeys = [''environment'', ''labels'', ''ports'', ''command'', ''image'']"

text \<open>What a run of overrides may do to a services map: every service stays a map and changes only at the keys
overrides speak of; a service the set does not name is the same afterwards.\<close>

definition services_step :: "string set \<Rightarrow> doc \<Rightarrow> doc \<Rightarrow> bool" where
  "services_step named services services' =
     (map fst services' = map fst services \<and>
      (\<forall>name s. map_of services name = Some (AMap s) \<longrightarrow>
        (\<exists>s'. map_of services' name = Some (AMap s') \<and>
          (\<forall>k. k \<notin> set overridableServiceKeys \<longrightarrow> map_of s' k = map_of s k) \<and>
          (name \<notin> named \<and> globalServiceOverrideKey \<notin> named \<longrightarrow> s' = s))))"

lemma services_step_refl: "services_step named m m"
  by (simp add: services_step_def)

lemma services_step_trans:
  assumes "services_step A a b" and "services_step B b c"
  shows "services_step (A \<union> B) a c"
  unfolding services_step_def
proof (intro conjI allI impI)
  show "map fst c = map fst a" using assms by (simp add: services_step_def)
  fix name s assume "map_of a name = Some (AMap s)"
  then obtain s1 where s1: "map_of b name = Some (AMap s1)"
    "\<forall>k. k \<notin> set overridableServiceKeys \<longrightarrow> map_of s1 k = map_of s k"
    "name \<notin> A \<and> globalServiceOverrideKey \<notin> A \<longrightarrow> s1 = s"
    using assms(1) unfolding services_step_def by blast
  then obtain s2 where s2: "map_of c name = Some (AMap s2)"
    "\<forall>k. k \<notin> set overridableServiceKeys \<longrightarrow> map_of s2 k = map_of s1 k"
    "name \<notin> B \<and> globalServiceOverrideKey \<notin> B \<longrightarrow> s2 = s1"
    using assms(2) unfolding services_step_def by blast
  show "\<exists>s'. map_of c name = Some (AMap s') \<and>
      (\<forall>k. k \<notin> set overridableServiceKeys \<longrightarrow> map_of s' k = map_of s k) \<and>
      (name \<notin> A \<union> B \<and> globalServiceOverrideKey \<notin> A \<union> B \<longrightarrow> s' = s)"
    by (intro exI[of _ s2]) (simp add: s1 s2)
qed

lemma services_step_mono: "services_step A m m' \<Longrightarrow> A \<subseteq> B \<Longrightarrow> services_step B m m'"
  using services_step_trans[OF _ services_step_refl] by (metis sup.absorb2)

lemma applyServiceOverride_frame:
  assumes "applyServiceOverride name s override = Inr s'" and "k \<notin> set overridableServiceKeys"
  shows "map_of s' k = map_of s k"
proof -
  have k: "k \<noteq> ''environment''" "k \<noteq> ''labels''" "k \<noteq> ''ports''" "k \<noteq> ''command''" "k \<noteq> ''image''"
    using assms(2) by (auto simp: overridableServiceKeys_def)
  obtain s1 where s1: "applyServiceEnvOverride name s override = Inr s1"
    and s': "s' = applyServiceRuntimeOverrides (applyServiceLabelOverrides s1 override) override"
    using assms(1) by (auto simp: applyServiceOverride_def split: sum.splits)
  have "map_of s1 k = map_of s k"
    using s1 k(1) by (auto simp: applyServiceEnvOverride_def applyEnvOverrideValues_def amap.look_put
        split: option.splits sum.splits)
  moreover have "map_of (applyServiceLabelOverrides s1 override) k = map_of s1 k"
    using k(2) by (simp add: applyServiceLabelOverrides_def case_prod_beta Let_def amap.look_put)
  moreover have "map_of (applyServiceRuntimeOverrides m override) k = map_of m k" for m
    using k(3-5) by (simp add: applyServiceRuntimeOverrides_def Let_def amap.look_put split: option.split)
  ultimately show ?thesis using s' by simp
qed

lemma put_key_keys: "k \<in> fst ` set m \<Longrightarrow> map fst (put_key k v m) = map fst m"
  by (simp add: update_keys)

lemma applyNamedServiceOverride_step:
  assumes "applyNamedServiceOverride services n raw = Inr services'"
  shows "services_step {n} services services'"
proof -
  consider "services' = services"
    | s override s' where "as_map (any_at services n) = Some s" "applyServiceOverride n s override = Inr s'"
        "services' = store_back n s' services"
  proof (cases "as_map (any_at services n)")
    case None
    with assms that(1) show ?thesis by (simp add: applyNamedServiceOverride_def)
  next
    case s: (Some s)
    show ?thesis
    proof (cases "as_map raw")
      case None
      with s assms that(1) show ?thesis by (simp add: applyNamedServiceOverride_def)
    next
      case (Some override)
      with s assms that(2) show ?thesis
        by (cases "applyServiceOverride n s override") (simp_all add: applyNamedServiceOverride_def)
    qed
  qed
  then show ?thesis
  proof cases
    case 1
    then show ?thesis by (simp add: services_step_refl)
  next
    case (2 s override s')
    show ?thesis
    proof (cases "map_of services n")
      case None
      with 2 show ?thesis by (simp add: store_back_def services_step_refl)
    next
      case (Some v)
      show ?thesis
      proof (cases "\<exists>m. v = AMap m")
        case True
        then have v: "map_of services n = Some (AMap s)" using Some 2(1) by (auto simp: any_at_def)
        then have "n \<in> fst ` set services" by (metis has_key_def has_key_iff option.distinct(1))
        with v 2 show ?thesis
          by (auto simp: services_step_def store_back_def put_key_keys amap.look_put
              applyServiceOverride_frame[OF 2(2)])
      next
        case False
        with Some 2(3) have "services' = services" by (cases v) (simp_all add: store_back_def)
        then show ?thesis by (simp add: services_step_refl)
      qed
    qed
  qed
qed

lemma applyGlobalEnvAny_step:
  assumes "applyGlobalEnvAny services env = Inr services'" and "wf_map services"
  shows "services_step {globalServiceOverrideKey} services services'"
proof (cases "env = []")
  case True
  with assms show ?thesis by (simp add: applyGlobalEnvAny_def services_step_refl)
next
  case False
  let ?f = "\<lambda>name raw. if globalEnvTargetService name raw = None then None
             else in_place (\<lambda>s. applyEnvOverrideValues name s env) raw"
  have v: "visit_services ?f services = Inr services'" using assms(1) False by (simp add: applyGlobalEnvAny_def)
  show ?thesis
    unfolding services_step_def
  proof (intro conjI allI impI)
    show "map fst services' = map fst services" by (rule visit_services_keys[OF v])
    fix name s assume s: "map_of services name = Some (AMap s)"
    note each = visit_services_each[OF v assms(2) s]
    consider "map_of services' name = Some (AMap s)"
      | s' where "applyEnvOverrideValues name s env = Inr s'" "map_of services' name = Some (AMap s')"
      using each by (cases "globalEnvTargetService name (AMap s) = None"; cases "applyEnvOverrideValues name s env")
        (auto simp: in_place_def)
    then show "\<exists>s'. map_of services' name = Some (AMap s') \<and>
        (\<forall>k. k \<notin> set overridableServiceKeys \<longrightarrow> map_of s' k = map_of s k) \<and>
        (name \<notin> {globalServiceOverrideKey} \<and> globalServiceOverrideKey \<notin> {globalServiceOverrideKey} \<longrightarrow> s' = s)"
    proof cases
      case 1
      then show ?thesis by simp
    next
      case (2 s')
      have "map_of s' k = map_of s k" if "k \<notin> set overridableServiceKeys" for k
        using 2(1) that by (auto simp: applyEnvOverrideValues_def overridableServiceKeys_def amap.look_put
            split: sum.splits)
      with 2(2) show ?thesis by simp
    qed
  qed
qed

lemma applyServiceOverrideByName_step:
  assumes "applyServiceOverrideByName services n raw = Inr services'" and "wf_map services"
  shows "services_step {n} services services'"
proof (cases "n = globalServiceOverrideKey")
  case False
  with assms(1) show ?thesis by (simp add: applyServiceOverrideByName_def applyNamedServiceOverride_step)
next
  case n: True
  show ?thesis
  proof (cases "as_map raw")
    case None
    with n assms(1) show ?thesis
      by (simp add: applyServiceOverrideByName_def applyGlobalServiceOverride_def services_step_refl)
  next
    case o: (Some override)
    show ?thesis
    proof (cases "as_map (any_at override ''env_vars'')")
      case None
      with n o assms(1) show ?thesis
        by (simp add: applyServiceOverrideByName_def applyGlobalServiceOverride_def services_step_refl)
    next
      case (Some env)
      with n o assms(1) have "applyGlobalEnvAny services env = Inr services'"
        by (simp add: applyServiceOverrideByName_def applyGlobalServiceOverride_def)
      from applyGlobalEnvAny_step[OF this assms(2)] n show ?thesis by simp
    qed
  qed
qed

lemma services_step_wf: "services_step A m m' \<Longrightarrow> wf_map m \<Longrightarrow> wf_map m'"
  by (simp add: services_step_def wf_map_def)

lemma apply_overrides_loop_step:
  "apply_overrides_loop services overrides = Inr services' \<Longrightarrow> wf_map services \<Longrightarrow>
     services_step (fst ` set overrides) services services'"
proof (induction services overrides rule: apply_overrides_loop.induct)
  case (1 services)
  then show ?case by (simp add: services_step_refl)
next
  case (2 services name raw overrides)
  then obtain m where m: "applyServiceOverrideByName services name raw = Inr m"
    and rest: "apply_overrides_loop m overrides = Inr services'" by (auto split: sum.splits)
  note one = applyServiceOverrideByName_step[OF m 2(3)]
  from services_step_trans[OF one 2(1)[OF m rest services_step_wf[OF one 2(3)]]] show ?case by simp
qed

lemma put_label_look: "map_of (put_label k v labels) k' = (if k' = k then Some (AStr v) else map_of labels k')"
  by (simp add: put_label_def amap.look_put)


lemma setLabelString_other: "k \<noteq> key \<Longrightarrow> map_of (fst (setLabelString key v acc)) k = map_of (fst acc) k"
  by (simp add: setLabelString_def case_prod_beta put_label_look)

lemma applyLabelMappings_other:
  "k \<notin> om_label ` set ms \<Longrightarrow> map_of (fst (applyLabelMappings values ms acc)) k = map_of (fst acc) k"
  unfolding applyLabelMappings_def
  by (induction ms arbitrary: acc) (auto simp: setLabelString_other)

lemma exposureLabels_elems:
  "k \<in> set exposureLabels \<Longrightarrow> k \<noteq> ''fibe.gg/branch'' \<and> k \<noteq> ''fibe.gg/production'' \<and> k \<noteq> ''fibe.gg/build_args'' \<and>
     k \<noteq> ''fibe.gg/start_command'' \<and> k \<notin> om_label ` set serviceMetadataLabelMappings"
  by (auto simp: exposureLabels_def serviceMetadataLabelMappings_def om_def)

lemma applyMetadataLabelOverrides_exposure:
  assumes "k \<in> set exposureLabels"
  shows "map_of (fst (applyMetadataLabelOverrides override acc)) k = map_of (fst acc) k"
proof -
  note k = exposureLabels_elems[OF assms]
  have "map_of (fst (applyBuildArgsLabelOverride override a)) k = map_of (fst a) k" for a
    using k by (cases "any_at override ''build_args''")
      (simp_all add: applyBuildArgsLabelOverride_def setLabelString_other split: option.split)
  moreover have "map_of (fst (applyProductionLabelOverride override a)) k = map_of (fst a) k" for a
    using k by (simp add: applyProductionLabelOverride_def Let_def put_label_look)
  ultimately show ?thesis
    using k by (simp add: applyMetadataLabelOverrides_def applyLabelMappings_other)
qed

lemma override_labels_after_exposure:
  assumes "k \<in> set exposureLabels"
  shows "map_of (fst (override_labels labels override)) k =
    map_of (fst (applyExposureLabelOverride override (applyDirectLabelOverrides override (labels, False)))) k"
proof -
  note k = exposureLabels_elems[OF assms]
  have "map_of (fst (applyStartCommandLabelOverride override a)) k = map_of (fst a) k" for a
    using k by (cases "any_at override ''start_command''")
      (simp_all add: applyStartCommandLabelOverride_def setLabelString_other)
  moreover have "map_of (fst (applyGitLabelOverride override a)) k = map_of (fst a) k" for a
    using k by (simp add: applyGitLabelOverride_def setLabelString_other split: option.split)
  ultimately show ?thesis
    by (simp add: override_labels_def applyMetadataLabelOverrides_exposure[OF assms])
qed

lemma clearExposureLabels_get: "k \<in> set exposureLabels \<Longrightarrow> map_of (clearExposureLabels labels) k = None"
  by (simp add: clearExposureLabels_def amap.look_dels)

subsection \<open>Properties\<close>


definition demo_overridden :: doc where
  "demo_overridden = [(''services'', AMap
     [(''web'', AMap [(''image'', AStr ''a''), (''restart'', AStr ''no'')]), (''db'', AMap [(''image'', AStr ''pg'')])])]"


text \<open>An override that switches the exposure of a service off removes every routing label, those other fields of
the same override set included, so that the service is not routed.\<close>

theorem disabled_exposure_unpublishes:
  assumes "as_map (any_at override ''exposure'') = Some exposure" and "exposureDisabled exposure"
  shows "\<exists>labels. any_at (applyServiceLabelOverrides s override) ''labels'' = AMap labels \<and>
    (\<forall>k \<in> set exposureLabels. map_of labels k = None)"
proof -
  let ?l = "override_labels (normalizeLabelsAny (any_at s ''labels'')) override"
  let ?d = "applyDirectLabelOverrides override (normalizeLabelsAny (any_at s ''labels''), False)"
  have off: "applyExposureLabelOverride override ?d = (clearExposureLabels (fst ?d), True)"
    using assms by (simp add: applyExposureLabelOverride_def exposureDisabled_def Let_def)
  have sticky: "snd acc \<Longrightarrow> snd (setLabelString k v acc)" for k v acc
    by (simp add: setLabelString_def case_prod_beta)
  have fold: "snd acc \<Longrightarrow> snd (applyLabelMappings vals ms acc)" for vals ms acc
    unfolding applyLabelMappings_def by (induction ms arbitrary: acc) (simp_all add: sticky)
  have git: "snd acc \<Longrightarrow> snd (applyGitLabelOverride override acc)" for acc
    by (simp add: applyGitLabelOverride_def sticky split: option.split)
  have prod: "snd acc \<Longrightarrow> snd (applyProductionLabelOverride override acc)" for acc
    by (simp add: applyProductionLabelOverride_def Let_def)
  have args: "snd acc \<Longrightarrow> snd (applyBuildArgsLabelOverride override acc)" for acc
    by (cases "any_at override ''build_args''") (simp_all add: applyBuildArgsLabelOverride_def sticky split: option.split)
  have start: "snd acc \<Longrightarrow> snd (applyStartCommandLabelOverride override acc)" for acc
    by (cases "any_at override ''start_command''") (simp_all add: applyStartCommandLabelOverride_def sticky)
  have changed: "snd ?l"
    unfolding override_labels_def off applyMetadataLabelOverrides_def
    by (intro start args prod fold git) simp
  then have "any_at (applyServiceLabelOverrides s override) ''labels'' = AMap (fst ?l)"
    by (simp add: applyServiceLabelOverrides_def case_prod_beta Let_def)
  moreover have "map_of (fst ?l) k = None" if "k \<in> set exposureLabels" for k
    by (simp add: override_labels_after_exposure[OF that] off clearExposureLabels_get[OF that])
  ultimately show ?thesis by blast
qed

theorem disabled_exposure_unpublishes_witness:
  "\<exists>labels. any_at (applyServiceLabelOverrides [(''labels'', AStrs [''fibe.gg/port=80''])]
      [(''exposure'', AMap [(''enabled'', AStr ''false'')]), (''subdomain'', AStr ''a'')]) ''labels'' = AMap labels \<and>
    (\<forall>k \<in> set exposureLabels. map_of labels k = None)"
proof -
  have "as_map (any_at [(''exposure'', AMap [(''enabled'', AStr ''false'')]), (''subdomain'', AStr ''a'')] ''exposure'') =
      Some [(''enabled'', AStr ''false'')]" "exposureDisabled [(''enabled'', AStr ''false'')]" by code_simp+
  from disabled_exposure_unpublishes[OF this] show ?thesis .
qed

text \<open>\<open>ApplyServiceOverrides\<close> runs over a Go map: when \<open>\_global\<close> and a service set the same environment key, the
value the service gets depends on the iteration order.\<close>

theorem override_order_matters:
  "let web = (''web'', AMap [(''env_vars'', AMap [(''A'', AStr ''mine'')])]);
       everyone = (globalServiceOverrideKey, AMap [(''env_vars'', AMap [(''A'', AStr ''ours'')])]);
       rendered = [(''services'', AMap [(''web'', AMap [])])];
       result = (\<lambda>a. [(''services'', AMap [(''web'', AMap [(''environment'', AMap [(''A'', AStr a)])])])])
   in ValidateServiceOverrideNames rendered [] [web, everyone] = None \<and>
      ApplyServiceOverrides rendered [web, everyone] = Inr (result ''ours'') \<and>
      ApplyServiceOverrides rendered [everyone, web] = Inr (result ''mine'')"
  by code_simp

text \<open>The command a service labelled with the start command \<open>old\<close> is deployed with, under an override.\<close>

definition relabelled_command :: "any \<Rightarrow> any" where
  "relabelled_command cmd =
     (case applyServiceOverride ''web'' [(''labels'', AMap [(''fibe.gg/start_command'', AStr ''old'')])]
            [(''start_command'', cmd)] of
        Inl e \<Rightarrow> ANil
      | Inr s \<Rightarrow>
          (case mutable_service (injectStartCommand [(''web'', AMap s)]
                  (summarizeService ''web'' (zero_definition\<lparr>def_labels := any_at s ''labels''\<rparr>))) ''web'' of
             None \<Rightarrow> ANil
           | Some s' \<Rightarrow> any_at s' ''command''))"

text \<open>A start command given as a list is accepted and written to the service, but a service with a
\<open>fibe.gg/start\_command\<close> label gets the command of the label back when the runtime services are rendered; the same
command given as a string changes the label too and survives.\<close>

theorem list_start_command_lost:
  "checkStartCommandOverride [] (ASeq [AStr ''new'']) = [] \<and> relabelled_command (ASeq [AStr ''new'']) = AStr ''old'' \<and>
   relabelled_command (AStr ''new'') = AStr ''new''"
  by code_simp

end
