(* ===== verification/Programs.thy ===== *)
theory Programs
  imports Main
begin

text \<open>
  Programs with effects: \<open>('q, 'r, 'a) program\<close> makes requests of type \<open>'q\<close>, goes on with answers of type \<open>'r\<close> and
  returns an \<open>'a\<close>. The worker and the handlers are such programs over the requests of \<open>WorkerEffects\<close>, the runtime over
  those of \<open>HostEffects\<close>.

  An answer is not constrained: what a program asked for twice may have changed in between, every call may fail. A
  trace is the list of requests and answers of one execution, complete or cut off. \<open>Stuck\<close> ends a run whose fuel is
  used up.

  \<open>wp G Q m h\<close> says that after the history \<open>h\<close> every request of \<open>m\<close> satisfies the guard \<open>G\<close> at the moment it is made,
  and every result the postcondition \<open>Q\<close>; it is computed along the program, and its soundness turns it into a
  statement about every trace.
\<close>

subsection \<open>Programs\<close>

type_synonym ('q, 'r) log = "('q \<times> 'r) list"

datatype ('q, 'r, 'a) program = Ret 'a | Stuck | Call 'q "'r \<Rightarrow> ('q, 'r, 'a) program"

primrec bind :: "('q, 'r, 'a) program \<Rightarrow> ('a \<Rightarrow> ('q, 'r, 'b) program) \<Rightarrow> ('q, 'r, 'b) program" where
  "bind (Ret a) f = f a"
| "bind Stuck f = Stuck"
| "bind (Call q k) f = Call q (\<lambda>r. bind (k r) f)"

lemma bind_assoc: "bind (bind m f) g = bind m (\<lambda>a. bind (f a) g)"
  by (induction m) simp_all

lemma bind_Ret [simp]: "bind m Ret = m"
  by (induction m) simp_all

subsection \<open>Traces\<close>

inductive trace :: "('q, 'r, 'a) program \<Rightarrow> ('q, 'r) log \<Rightarrow> bool" where
  cut: "trace m []"
| call: "trace (k r) es \<Longrightarrow> trace (Call q k) ((q, r) # es)"

inductive runs :: "('q, 'r, 'a) program \<Rightarrow> ('q, 'r) log \<Rightarrow> 'a \<Rightarrow> bool" where
  ret: "runs (Ret a) [] a"
| call: "runs (k r) es a \<Longrightarrow> runs (Call q k) ((q, r) # es) a"

inductive_simps trace_simps: "trace (Ret a) es" "trace Stuck es" "trace (Call q k) es"

inductive_simps runs_simps [simp]: "runs (Ret a) es b" "runs Stuck es b" "runs (Call q k) es b"

inductive_cases trace_CallE: "trace (Call q k) (e # es)"

lemma runs_trace: "runs m es a \<Longrightarrow> trace m es"
  by (induction rule: runs.induct) (auto intro: trace.intros)

lemma runs_bind: "runs (bind m f) es b \<longleftrightarrow> (\<exists>es1 es2 a. es = es1 @ es2 \<and> runs m es1 a \<and> runs (f a) es2 b)"
proof (induction m arbitrary: es)
  case (Ret a)
  then show ?case by auto
next
  case Stuck
  then show ?case by auto
next
  case (Call q k)
  show ?case
  proof
    assume "runs (bind (Call q k) f) es b"
    then obtain r es' where es: "es = (q, r) # es'" "runs (bind (k r) f) es' b" by auto
    then obtain es1 es2 a where "es' = es1 @ es2" "runs (k r) es1 a" "runs (f a) es2 b"
      using Call.IH[of "k r"] by auto
    with es show "\<exists>es1 es2 a. es = es1 @ es2 \<and> runs (Call q k) es1 a \<and> runs (f a) es2 b"
      by (intro exI[of _ "(q, r) # es1"] exI[of _ es2] exI[of _ a]) simp
  next
    assume "\<exists>es1 es2 a. es = es1 @ es2 \<and> runs (Call q k) es1 a \<and> runs (f a) es2 b"
    then obtain r es1 es2 a where "es = ((q, r) # es1) @ es2" "runs (k r) es1 a" "runs (f a) es2 b" by auto
    then show "runs (bind (Call q k) f) es b" using Call.IH[of "k r"] by auto
  qed
qed

text \<open>The result of a handler on given answers, one after the other: what a witness evaluates.\<close>

fun replay :: "('q, 'r, 'a) program \<Rightarrow> 'r list \<Rightarrow> ('q, 'r) log \<times> 'a option" where
  "replay (Ret a) rs = ([], Some a)"
| "replay Stuck rs = ([], None)"
| "replay (Call q k) [] = ([], None)"
| "replay (Call q k) (r # rs) = (case replay (k r) rs of (es, a) \<Rightarrow> ((q, r) # es, a))"

lemma replay_trace: "replay m rs = (es, a) \<Longrightarrow> trace m es"
  by (induction m rs arbitrary: es a rule: replay.induct) (auto intro: trace.intros split: prod.splits)

lemma replay_runs: "replay m rs = (es, Some a) \<Longrightarrow> runs m es a"
  by (induction m rs arbitrary: es a rule: replay.induct) (auto split: prod.splits)

subsection \<open>Guards and postconditions\<close>

primrec wp :: "(('q, 'r) log \<Rightarrow> 'q \<Rightarrow> bool) \<Rightarrow> (('q, 'r) log \<Rightarrow> 'a \<Rightarrow> bool) \<Rightarrow> ('q, 'r, 'a) program \<Rightarrow> ('q, 'r) log \<Rightarrow> bool" where
  "wp G Q (Ret a) = (\<lambda>h. Q h a)"
| "wp G Q Stuck = (\<lambda>h. True)"
| "wp G Q (Call q k) = (\<lambda>h. G h q \<and> (\<forall>r. wp G Q (k r) (h @ [(q, r)])))"

lemma wp_bind [simp]: "wp G Q (bind m f) h = wp G (\<lambda>h a. wp G Q (f a) h) m h"
  by (induction m arbitrary: h) simp_all

lemma wp_mono: "wp G Q m h \<Longrightarrow> (\<And>h a. Q h a \<Longrightarrow> Q' h a) \<Longrightarrow> wp G Q' m h"
  by (induction m arbitrary: h) auto

lemma wp_conj: "wp G Q m h \<and> wp G Q' m h \<longleftrightarrow> wp G (\<lambda>h a. Q h a \<and> Q' h a) m h"
  by (induction m arbitrary: h) auto

lemma wp_post_True:
  assumes "\<And>h q. G h q"
  shows "wp G (\<lambda>_ _. True) m h"
  using assms by (induction m arbitrary: h) auto

text \<open>Soundness: every request of every trace met the guard when it was made.\<close>

lemma wp_trace:
  assumes "wp G Q m h" and "trace m es" and "es = es1 @ (q, r) # es2"
  shows "G (h @ es1) q"
  using assms(2,1,3)
proof (induction arbitrary: h es1 rule: trace.induct)
  case (cut m)
  then show ?case by simp
next
  case (call k r' es q')
  show ?case
  proof (cases es1)
    case Nil
    with call.prems show ?thesis by simp
  next
    case (Cons e es1')
    with call.prems(2) have e: "e = (q', r')" "es = es1' @ (q, r) # es2" by auto
    from call.prems(1) have "wp G Q (k r') (h @ [(q', r')])" by simp
    from call.IH[OF this e(2)] Cons e(1) show ?thesis by simp
  qed
qed

lemma wp_runs: "wp G Q m h \<Longrightarrow> runs m es a \<Longrightarrow> Q (h @ es) a"
proof (induction m arbitrary: h es)
  case (Call q k)
  then obtain r es' where es: "es = (q, r) # es'" "runs (k r) es' a" by auto
  have "wp G Q (k r) (h @ [(q, r)])" using Call.prems(1) by simp
  from Call.IH[OF _ this es(2)] es(1) show ?case by simp
qed auto

text \<open>A guard that holds of every history, whatever a part of a handler does: the rules follow the handler's text.\<close>

definition guarded :: "(('q, 'r) log \<Rightarrow> 'q \<Rightarrow> bool) \<Rightarrow> ('q, 'r, 'a) program \<Rightarrow> bool" where
  "guarded G m = (\<forall>h. wp G (\<lambda>_ _. True) m h)"

named_theorems guarded_rules

lemma guarded_wp: "guarded G m \<Longrightarrow> (\<And>h a. Q h a) \<Longrightarrow> wp G Q m h"
  unfolding guarded_def using wp_mono by metis

lemma guarded_Ret [guarded_rules]: "guarded G (Ret a)"
  by (simp add: guarded_def)

lemma guarded_Stuck [guarded_rules]: "guarded G Stuck"
  by (simp add: guarded_def)

lemma guarded_bind [guarded_rules]: "guarded G m \<Longrightarrow> (\<And>a. guarded G (f a)) \<Longrightarrow> guarded G (bind m f)"
  unfolding guarded_def using guarded_wp[unfolded guarded_def] by (metis wp_bind)

lemma guarded_if [guarded_rules]:
  "(c \<Longrightarrow> guarded G m) \<Longrightarrow> (\<not> c \<Longrightarrow> guarded G n) \<Longrightarrow> guarded G (if c then m else n)"
  by simp

lemma guarded_option [guarded_rules]:
  "(x = None \<Longrightarrow> guarded G m) \<Longrightarrow> (\<And>a. x = Some a \<Longrightarrow> guarded G (f a)) \<Longrightarrow>
     guarded G (case x of None \<Rightarrow> m | Some a \<Rightarrow> f a)"
  by (cases x) simp_all

lemma guarded_sum [guarded_rules]:
  "(\<And>e. x = Inl e \<Longrightarrow> guarded G (f e)) \<Longrightarrow> (\<And>a. x = Inr a \<Longrightarrow> guarded G (g a)) \<Longrightarrow>
     guarded G (case x of Inl e \<Rightarrow> f e | Inr a \<Rightarrow> g a)"
  by (cases x) simp_all

lemma guarded_prod [guarded_rules]:
  "(\<And>a b. x = (a, b) \<Longrightarrow> guarded G (f a b)) \<Longrightarrow> guarded G (case x of (a, b) \<Rightarrow> f a b)"
  by (cases x) simp

lemma guarded_Let [guarded_rules]: "(\<And>y. y = x \<Longrightarrow> guarded G (f y)) \<Longrightarrow> guarded G (let y = x in f y)"
  by simp

lemma guarded_trace: "guarded G m \<Longrightarrow> trace m (es1 @ (q, r) # es2) \<Longrightarrow> G es1 q"
  using wp_trace[of G "\<lambda>_ _. True" m "[]"] by (fastforce simp: guarded_def)

subsection \<open>Parts of a longer run\<close>

text \<open>What was shown of a run from its start holds of it as a part of a longer one, in the terms of that one.\<close>

lemma wp_shift:
  assumes "wp G Q m h" and "\<And>h q. G h q \<Longrightarrow> G' (h0 @ h) q" and "\<And>h x. Q h x \<Longrightarrow> Q' (h0 @ h) x"
  shows "wp G' Q' m (h0 @ h)"
  using assms(1)
proof (induction m arbitrary: h)
  case (Call q k)
  have "wp G' Q' (k r) (h0 @ h @ [(q, r)])" for r
    using Call.prems by (intro Call.IH) auto
  with Call.prems assms(2) show ?case by simp
qed (simp_all add: assms(3))

text \<open>A property of the history that every allowed request keeps.\<close>

lemma wp_invariant:
  assumes "wp G Q m h" and "I h" and "\<And>h q r. I h \<Longrightarrow> G h q \<Longrightarrow> I (h @ [(q, r)])"
  shows "wp G (\<lambda>h x. Q h x \<and> I h) m h"
  using assms(1,2) by (induction m arbitrary: h) (auto intro: assms(3))

lemma wp_guard_mono: "wp G Q m h \<Longrightarrow> (\<And>h q. G h q \<Longrightarrow> G' h q) \<Longrightarrow> wp G' Q m h"
  using wp_shift[of G Q m h G' "[]" Q] by simp

lemma wp_both: "wp G Q m h \<Longrightarrow> wp G' Q' m h \<Longrightarrow> wp G (\<lambda>h x. Q h x \<and> Q' h x) m h"
  by (induction m arbitrary: h) auto

end
