(* ===== verification/Compose.thy ===== *)
theory Compose
  imports TemplateRender ServiceOverrides
begin

text \<open>
  \<open>internal/composefile\<close>: parsing and checking of a Compose file (\<open>parse.go\<close>, \<open>helpers.go\<close>, \<open>validation.go\<close>,
  \<open>types.go\<close>), interpolation of its environment expressions (\<open>interpolation.go\<close>), and the document that is deployed
  (\<open>runtime.go\<close>). The YAML library is the parameter \<^emph>\<open>Y\<close>: the decoders the code calls and the encoder; \<open>yaml.Node\<close>
  is the type \<open>ynode\<close>. The lemmas compose the checks, the rendering of the services and the path variables into
  what holds of the deployed document.
\<close>

subsection \<open>Documents (types.go) and the YAML library\<close>

record document =
  doc_services :: "Definition smap"
  doc_volumes :: doc
  doc_raw :: doc

datatype ykind = ScalarNode | MappingNode | OtherNode

datatype ynode = YNode (yn_kind: ykind) (yn_tag: string) (yn_value: string) (yn_content: "ynode list")

text \<open>A decoded \<open>map[string]any\<close> may be \<open>nil\<close>, for an empty document.\<close>

record yaml_lib =
  y_document :: "string \<Rightarrow> string + document"
  y_map :: "string \<Rightarrow> string + doc option"
  y_node :: "string \<Rightarrow> string + ynode"
  y_marshal :: "doc \<Rightarrow> string + string"

subsection \<open>Keys of YAML mappings (parse.go)\<close>

fun node_keys :: "ynode list \<Rightarrow> ynode list" where
  "node_keys (k # v # c) = k # node_keys c"
| "node_keys [k] = [k]"
| "node_keys [] = []"

fun node_pairs :: "ynode list \<Rightarrow> (ynode \<times> ynode) list" where
  "node_pairs (k # v # c) = (k, v) # node_pairs c"
| "node_pairs _ = []"

definition mappingKeysAreStrings :: "ynode option \<Rightarrow> bool" where
  "mappingKeysAreStrings node =
     (case node of
        None \<Rightarrow> True
      | Some n \<Rightarrow> yn_kind n \<noteq> MappingNode \<or>
          list_all (\<lambda>k. yn_kind k = ScalarNode \<and> yn_tag k = ''!!str'') (node_keys (yn_content n)))"

definition mappingValue :: "ynode option \<Rightarrow> string \<Rightarrow> ynode option" where
  "mappingValue node key =
     (case node of
        None \<Rightarrow> None
      | Some n \<Rightarrow> map_option snd (find (\<lambda>(k, _). yn_value k = key) (node_pairs (yn_content n))))"

definition composeYAMLRoot :: "yaml_lib \<Rightarrow> string \<Rightarrow> string + ynode option" where
  "composeYAMLRoot Y composeYAML =
     (case y_node Y composeYAML of
        Inl e \<Rightarrow> Inl (''parse compose yaml: '' @ e)
      | Inr n \<Rightarrow>
          (case yn_content n of
             [] \<Rightarrow> Inr None
           | r # _ \<Rightarrow> Inr (if yn_kind r \<noteq> MappingNode then None else Some r)))"

definition validateMappingStringKeys :: "string \<Rightarrow> ynode option \<Rightarrow> string option" where
  "validateMappingStringKeys path node =
     (if mappingKeysAreStrings node then None else Some (path @ '' keys must be strings''))"

definition is_mapping :: "ynode option \<Rightarrow> bool" where
  "is_mapping node = (case node of None \<Rightarrow> False | Some n \<Rightarrow> yn_kind n = MappingNode)"

definition validateNestedMappingStringKeys :: "string \<Rightarrow> ynode option \<Rightarrow> string option" where
  "validateNestedMappingStringKeys path node =
     (if \<not> is_mapping node then None else validateMappingStringKeys path node)"

text \<open>The first error of a sequence of checks.\<close>

fun first_error :: "string option list \<Rightarrow> string option" where
  "first_error [] = None"
| "first_error (None # es) = first_error es"
| "first_error (Some e # es) = Some e"

definition validateVariableDefinitionStringKeys :: "ynode option \<Rightarrow> string option" where
  "validateVariableDefinitionStringKeys variables =
     (case variables of
        None \<Rightarrow> None
      | Some n \<Rightarrow>
          (if yn_kind n \<noteq> MappingNode then None
           else first_error (map (\<lambda>(k, v). validateNestedMappingStringKeys
             (''x-fibe.gg.variables.'' @ yn_value k) (Some v)) (node_pairs (yn_content n)))))"

definition validateRawServiceNameKeys :: "ynode option \<Rightarrow> string option" where
  "validateRawServiceNameKeys root =
     (let services = mappingValue root ''services''
      in if \<not> is_mapping services then None
         else if \<not> mappingKeysAreStrings services then Some ''compose service names must be strings''
         else None)"

definition validateRawXFibeStringKeys :: "ynode option \<Rightarrow> string option" where
  "validateRawXFibeStringKeys root =
     (let xFibe = mappingValue root ''x-fibe.gg'';
          variables = mappingValue xFibe ''variables''
      in if \<not> is_mapping xFibe then None
         else first_error
           [validateMappingStringKeys ''x-fibe.gg'' xFibe,
            validateNestedMappingStringKeys ''x-fibe.gg.metadata'' (mappingValue xFibe ''metadata''),
            validateNestedMappingStringKeys ''x-fibe.gg.variables'' variables,
            validateVariableDefinitionStringKeys variables])"

subsection \<open>The Fibe extension block (parse.go)\<close>

record unsupportedXFibeRuntimeKey =
  uk_name :: string
  uk_reason :: string

definition unsupportedXFibeRuntimeKeys :: "unsupportedXFibeRuntimeKey list" where
  "unsupportedXFibeRuntimeKeys =
     [\<lparr>uk_name = ''job_mode'', uk_reason = ''job-mode templates belong to Fibe Tricks and are not implemented in fibe-distilled''\<rparr>,
      \<lparr>uk_name = ''trigger_config'', uk_reason = ''triggered templates require provider/webhook flows outside fibe-distilled''\<rparr>,
      \<lparr>uk_name = ''schedule_config'', uk_reason = ''scheduled template execution is outside fibe-distilled''\<rparr>,
      \<lparr>uk_name = ''muti_config'', uk_reason = ''multi-user template interaction is outside fibe-distilled''\<rparr>]"

definition unsupportedXFibeMetadataToggles :: "unsupportedXFibeRuntimeKey list" where
  "unsupportedXFibeMetadataToggles =
     [\<lparr>uk_name = ''preserve_ports'', uk_reason = ''preserving raw Compose host ports is outside fibe-distilled''\<rparr>,
      \<lparr>uk_name = ''source_defaults'', uk_reason = ''source-default auto-fill belongs to full-Fibe source-backed template imports''\<rparr>]"

definition rejectUnsupportedXFibeRuntimeKeys :: "string \<Rightarrow> doc \<Rightarrow> string option" where
  "rejectUnsupportedXFibeRuntimeKeys pre m =
     first_error (map (\<lambda>k. if has_key m (uk_name k)
        then Some (pre @ ''.'' @ uk_name k @ '' is not implemented in fibe-distilled: '' @ uk_reason k) else None)
       unsupportedXFibeRuntimeKeys)"

definition rejectUnsupportedXFibeMetadataToggles :: "doc \<Rightarrow> string option" where
  "rejectUnsupportedXFibeMetadataToggles metadata =
     first_error (map (\<lambda>k. case map_of metadata (uk_name k) of
         None \<Rightarrow> None
       | Some (ABool enabled) \<Rightarrow>
           (if enabled then Some (''x-fibe.gg.metadata.'' @ uk_name k @ '' is not implemented in fibe-distilled: '' @ uk_reason k)
            else None)
       | Some _ \<Rightarrow> Some (''x-fibe.gg.metadata.'' @ uk_name k @ '' must be a boolean''))
       unsupportedXFibeMetadataToggles)"

definition validateXFibeMetadataStrings :: "doc \<Rightarrow> string option" where
  "validateXFibeMetadataStrings metadata =
     first_error (map (\<lambda>key. case map_of metadata key of
         None \<Rightarrow> None
       | Some (AStr _) \<Rightarrow> None
       | Some _ \<Rightarrow> Some (''x-fibe.gg.metadata.'' @ key @ '' must be a string'')) [''description'', ''category''])"

definition rawXFibeMetadata :: "doc \<Rightarrow> string + doc" where
  "rawXFibeMetadata ns =
     (case map_of ns ''metadata'' of
        None \<Rightarrow> Inr []
      | Some raw \<Rightarrow> (case as_map raw of None \<Rightarrow> Inl ''x-fibe.gg.metadata must be an object'' | Some m \<Rightarrow> Inr m))"

definition validateRawXFibeVariables :: "doc \<Rightarrow> string option" where
  "validateRawXFibeVariables ns =
     (case map_of ns ''variables'' of
        None \<Rightarrow> None
      | Some raw \<Rightarrow> (if as_map raw = None then Some ''x-fibe.gg.variables must be an object'' else None))"

definition rawXFibeNamespace :: "doc \<Rightarrow> string + doc option" where
  "rawXFibeNamespace rendered =
     (case map_of rendered ''x-fibe.gg'' of
        None \<Rightarrow> Inr None
      | Some raw \<Rightarrow> (case as_map raw of None \<Rightarrow> Inl ''x-fibe.gg must be an object'' | Some m \<Rightarrow> Inr (Some m)))"

definition validateRawXFibeMetadata :: "doc \<Rightarrow> string option" where
  "validateRawXFibeMetadata ns =
     (case rawXFibeMetadata ns of
        Inl e \<Rightarrow> Some e
      | Inr metadata \<Rightarrow>
          first_error
            [rejectUnsupportedXFibeRuntimeKeys ''x-fibe.gg.metadata'' metadata,
             validateXFibeMetadataStrings metadata, rejectUnsupportedXFibeMetadataToggles metadata])"

definition validateRawXFibeNamespace :: "doc \<Rightarrow> string option" where
  "validateRawXFibeNamespace rendered =
     (case rawXFibeNamespace rendered of
        Inl e \<Rightarrow> Some e
      | Inr None \<Rightarrow> None
      | Inr (Some ns) \<Rightarrow>
          first_error [validateRawXFibeVariables ns, validateRawXFibeMetadata ns,
            rejectUnsupportedXFibeRuntimeKeys ''x-fibe.gg'' ns])"

subsection \<open>Parsing (parse.go, helpers.go)\<close>

definition validateRawServiceShapes :: "doc \<Rightarrow> string option" where
  "validateRawServiceShapes rendered =
     (case as_map (any_at rendered ''services'') of
        None \<Rightarrow> None
      | Some services \<Rightarrow>
          first_error (map (\<lambda>(name, raw).
            if trim_space name = [] then None
            else if as_map raw = None then Some (''compose service '' @ go_quote name @ '' must be a mapping'')
            else None) services))"

definition validateRawComposeShapes :: "yaml_lib \<Rightarrow> string \<Rightarrow> string option" where
  "validateRawComposeShapes Y composeYAML =
     (case y_map Y composeYAML of
        Inl e \<Rightarrow> Some (''parse compose yaml: '' @ e)
      | Inr m \<Rightarrow>
          (case composeYAMLRoot Y composeYAML of
             Inl e \<Rightarrow> Some e
           | Inr root \<Rightarrow>
               (let rendered = (case m of None \<Rightarrow> [] | Some d \<Rightarrow> d)
                in first_error
                  [validateRawServiceNameKeys root, validateRawXFibeStringKeys root,
                   validateRawXFibeNamespace rendered, validateRawServiceShapes rendered])))"

definition parseDocument :: "yaml_lib \<Rightarrow> string \<Rightarrow> string + document" where
  "parseDocument Y composeYAML =
     (if trim_space composeYAML = [] then Inl ''compose_yaml is required''
      else case y_document Y composeYAML of
             Inl e \<Rightarrow> Inl (''parse compose yaml: '' @ e)
           | Inr d \<Rightarrow>
               (case validateRawComposeShapes Y composeYAML of
                  Some e \<Rightarrow> Inl e
                | None \<Rightarrow>
                    (if doc_services d = [] then Inl ''compose services are required''
                     else if list_ex (\<lambda>(name, _). trim_space name = []) (doc_services d)
                       then Inl ''compose service name is required''
                     else Inr d)))"

definition MutationMap :: "yaml_lib \<Rightarrow> string \<Rightarrow> string + doc" where
  "MutationMap Y composeYAML =
     (case validateRawComposeShapes Y composeYAML of
        Some e \<Rightarrow> Inl e
      | None \<Rightarrow>
          (case y_map Y composeYAML of
             Inl e \<Rightarrow> Inl e
           | Inr None \<Rightarrow> Inl ''compose yaml must be a mapping''
           | Inr (Some d) \<Rightarrow> Inr d))"

definition MutationYAML :: "yaml_lib \<Rightarrow> doc \<Rightarrow> string + string" where
  "MutationYAML Y rendered = y_marshal Y rendered"

subsection \<open>Validation (validation.go)\<close>

record Validation =
  val_valid :: bool
  val_services :: "Summary list"
  val_errors :: "string list"

definition serviceLabelValidationErrors :: "document \<Rightarrow> Summary list \<Rightarrow> string list" where
  "serviceLabelValidationErrors d summaries =
     concat (map (\<lambda>s. ValidationErrors (s_name s)
       (case map_of (doc_services d) (s_name s) of None \<Rightarrow> zero_definition | Some def \<Rightarrow> def)) summaries)"

definition Validate :: "regex_engine \<Rightarrow> yaml_lib \<Rightarrow> string \<Rightarrow> Validation" where
  "Validate rx Y composeYAML =
     (case parseDocument Y composeYAML of
        Inl e \<Rightarrow> \<lparr>val_valid = False, val_services = [], val_errors = [e]\<rparr>
      | Inr d \<Rightarrow>
          (let summaries = Summaries (doc_services d)
           in if summaries = [] then
                \<lparr>val_valid = False, val_services = [], val_errors = [''compose must define at least one service'']\<rparr>
              else
                let errors = serviceLabelValidationErrors d summaries @
                      (case MutationMap Y composeYAML of Inl e \<Rightarrow> [e] | Inr rendered \<Rightarrow> ValidateDeclarations rx rendered)
                in if errors \<noteq> [] then \<lparr>val_valid = False, val_services = summaries, val_errors = errors\<rparr>
                   else \<lparr>val_valid = True, val_services = summaries, val_errors = []\<rparr>))"

subsection \<open>Interpolation (interpolation.go)\<close>

text \<open>An expression \<open>${NAME}\<close>, \<open>${NAME-default}\<close> or \<open>${NAME:-default}\<close> at the start of a string, with the rest.\<close>

record env_expression =
  ex_text :: string
  ex_name :: string
  ex_op :: string
  ex_default :: string
  ex_rest :: string

definition env_name_start :: "char \<Rightarrow> bool" where
  "env_name_start c = (is_upper c \<or> is_lower c \<or> c = CHR ''_'')"

definition env_name_char :: "char \<Rightarrow> bool" where
  "env_name_char c = (env_name_start c \<or> is_digit c)"

definition env_default :: "string \<Rightarrow> string \<Rightarrow> string \<Rightarrow> env_expression option" where
  "env_default name op t =
     (case dropWhile (\<lambda>c. c \<noteq> CHR 0x7D) t of
        [] \<Rightarrow> None
      | c # rest \<Rightarrow>
          (let dflt = takeWhile (\<lambda>c. c \<noteq> CHR 0x7D) t
           in Some \<lparr>ex_text = CHR ''$'' # CHR 0x7B # name @ op @ dflt @ [CHR 0x7D], ex_name = name, ex_op = op,
                ex_default = dflt, ex_rest = rest\<rparr>))"

definition composeEnvExpression :: "string \<Rightarrow> env_expression option" where
  "composeEnvExpression s =
     (case s of
        a # b # t \<Rightarrow>
          (if a \<noteq> CHR ''$'' \<or> b \<noteq> CHR 0x7B then None
           else
             let name = takeWhile env_name_char t; r = dropWhile env_name_char t
             in if name = [] \<or> \<not> env_name_start (hd name) then None
                else case r of
                  [] \<Rightarrow> None
                | c # rest \<Rightarrow>
                    (if c = CHR 0x7D then
                       Some \<lparr>ex_text = CHR ''$'' # CHR 0x7B # name @ [CHR 0x7D], ex_name = name, ex_op = [],
                         ex_default = [], ex_rest = rest\<rparr>
                     else if c = CHR ''-'' then env_default name ''-'' rest
                     else if c = CHR '':'' then
                       (case rest of d # rest' \<Rightarrow> if d = CHR ''-'' then env_default name '':-'' rest' else None | [] \<Rightarrow> None)
                     else None))
      | _ \<Rightarrow> None)"

definition env_value :: "string smap \<Rightarrow> env_expression \<Rightarrow> string" where
  "env_value env x =
     (case map_of env (ex_name x) of
        None \<Rightarrow> ex_text x
      | Some v \<Rightarrow> if ex_op x = '':-'' \<and> v = [] then ex_default x else v)"

lemma env_default_text:
  "env_default name op t = Some x \<Longrightarrow> ex_text x @ ex_rest x = CHR ''$'' # CHR 0x7B # name @ op @ t"
  by (auto simp: env_default_def Let_def split: list.splits)
    (metis (full_types) append_Cons append_Nil dropWhile_eq_Cons_conv takeWhile_dropWhile_id)

lemma composeEnvExpression_text: "composeEnvExpression s = Some x \<Longrightarrow> s = ex_text x @ ex_rest x \<and> ex_text x \<noteq> []"
proof -
  assume x: "composeEnvExpression s = Some x"
  then obtain t where s: "s = CHR ''$'' # CHR 0x7B # t"
    by (auto simp: composeEnvExpression_def split: list.splits if_splits)
  define name where "name = takeWhile env_name_char t"
  obtain c rest where r: "dropWhile env_name_char t = c # rest"
    using x s by (auto simp: composeEnvExpression_def Let_def split: list.splits if_splits)
  have t: "t = name @ c # rest"
    using r takeWhile_dropWhile_id[of env_name_char t] by (simp add: name_def)
  consider "c = CHR 0x7D" "x = \<lparr>ex_text = CHR ''$'' # CHR 0x7B # name @ [CHR 0x7D], ex_name = name, ex_op = [],
        ex_default = [], ex_rest = rest\<rparr>"
    | "c = CHR ''-''" "env_default name ''-'' rest = Some x"
    | rest' where "c = CHR '':''" "rest = CHR ''-'' # rest'" "env_default name '':-'' rest' = Some x"
    using x r unfolding s composeEnvExpression_def
    by (auto simp: Let_def name_def split: if_splits list.splits)
  then show ?thesis
  proof cases
    case 1
    then show ?thesis by (simp add: s t)
  next
    case 2
    from env_default_text[OF 2(2)] 2 show ?thesis
      by (simp add: s t) (auto simp: env_default_def Let_def split: list.splits)
  next
    case (3 rest')
    from env_default_text[OF 3(3)] 3 show ?thesis
      by (simp add: s t) (auto simp: env_default_def Let_def split: list.splits)
  qed
qed

lemma composeEnvExpression_shorter: "composeEnvExpression s = Some x \<Longrightarrow> length (ex_rest x) < length s"
  using composeEnvExpression_text[of s x] by (metis length_append length_greater_0_conv less_add_same_cancel2)

function interpolateEnvString :: "string \<Rightarrow> string smap \<Rightarrow> string" where
  "interpolateEnvString s env =
     (case composeEnvExpression s of
        Some x \<Rightarrow> env_value env x @ interpolateEnvString (ex_rest x) env
      | None \<Rightarrow> (case s of [] \<Rightarrow> [] | c # t \<Rightarrow> c # interpolateEnvString t env))"
  by pat_completeness auto
termination
  by (relation "measure (\<lambda>(s, env). length s)") (auto dest: composeEnvExpression_shorter)

declare interpolateEnvString.simps [simp del]

fun interpolateEnvAny :: "any \<Rightarrow> string smap \<Rightarrow> any" where
  "interpolateEnvAny (AMap m) env = AMap (map (\<lambda>(k, v). (k, interpolateEnvAny v env)) m)"
| "interpolateEnvAny (AAnyMap kvs) env = AAnyMap (map (\<lambda>(k, v). (k, interpolateEnvAny v env)) kvs)"
| "interpolateEnvAny (ASeq vs) env = ASeq (map (\<lambda>v. interpolateEnvAny v env) vs)"
| "interpolateEnvAny (AStrs ss) env = AStrs (map (\<lambda>s. interpolateEnvString s env) ss)"
| "interpolateEnvAny (AStr s) env = AStr (interpolateEnvString s env)"
| "interpolateEnvAny a env = a"

definition ApplyEnvInterpolation :: "doc \<Rightarrow> string smap \<Rightarrow> doc" where
  "ApplyEnvInterpolation rendered env =
     (if env = [] then rendered else map (\<lambda>(k, v). (k, interpolateEnvAny v env)) rendered)"

subsection \<open>The deployed document (runtime.go)\<close>

record rendered_compose =
  rc_compose_yaml :: string
  rc_services :: "service_info list"
  rc_urls :: "service_url list"

definition RuntimeWithOptions ::
    "hash_function \<Rightarrow> yaml_lib \<Rightarrow> string \<Rightarrow> string \<Rightarrow> string \<Rightarrow> string \<Rightarrow> RuntimeOptions \<Rightarrow> string + rendered_compose" where
  "RuntimeWithOptions bcrypt Y composeYAML project rootDomain scheme options =
     (if HasUnresolvedTokens composeYAML then
        Inl ''compose contains unresolved Fibe template variables; launch with variables before deploying a Playground''
      else case parseDocument Y composeYAML of
        Inl e \<Rightarrow> Inl e
      | Inr d \<Rightarrow>
          (let summaries = Summaries (doc_services d); errs = serviceLabelValidationErrors d summaries
           in if errs \<noteq> [] then Inl (join_str ''; '' errs)
              else case y_map Y composeYAML of
                Inl e \<Rightarrow> Inl e
              | Inr m \<Rightarrow>
                  (let rendered = (case m of None \<Rightarrow> [] | Some r \<Rightarrow> r);
                       services = (case any_at rendered ''services'' of AMap s \<Rightarrow> s | _ \<Rightarrow> []);
                       sourcePaths = RuntimeSourcePaths summaries project
                   in case RenderRuntimeServices bcrypt services summaries project rootDomain scheme options of
                        Inl e \<Rightarrow> Inl e
                      | Inr (services', metadata) \<Rightarrow>
                          (case y_marshal Y (store_back ''services''
                                  (InjectSourcePathVariables services' sourcePaths) rendered) of
                             Inl e \<Rightarrow> Inl e
                           | Inr out \<Rightarrow> Inr \<lparr>rc_compose_yaml = out, rc_services = rr_services metadata,
                               rc_urls = rr_urls metadata\<rparr>))))"

subsection \<open>Facts\<close>

lemma first_error_None: "first_error es = None \<longleftrightarrow> (\<forall>e \<in> set es. e = None)"
  by (induction es rule: first_error.induct) auto

lemma parseDocument_Inr:
  assumes "parseDocument Y t = Inr d"
  shows "y_document Y t = Inr d" and "validateRawComposeShapes Y t = None" and "doc_services d \<noteq> []"
    and "\<And>name. name \<in> fst ` set (doc_services d) \<Longrightarrow> trim_space name \<noteq> []"
  using assms by (auto simp: parseDocument_def list_ex_iff split: if_splits sum.splits option.splits)

lemma service_names: "s_name ` set (Summaries services) = fst ` set services"
  by (metis Summaries_names image_set set_sorted_keys)

text \<open>The text pieces of a string: bytes outside of expressions, and expressions.\<close>

function env_pieces :: "string \<Rightarrow> (char + env_expression) list" where
  "env_pieces s =
     (case composeEnvExpression s of
        Some x \<Rightarrow> Inr x # env_pieces (ex_rest x)
      | None \<Rightarrow> (case s of [] \<Rightarrow> [] | c # t \<Rightarrow> Inl c # env_pieces t))"
  by pat_completeness auto
termination
  by (relation "measure length") (auto dest: composeEnvExpression_shorter)

declare env_pieces.simps [simp del]

lemma composeEnvExpression_Nil [simp]: "composeEnvExpression [] = None"
  by (simp add: composeEnvExpression_def)

lemma env_pieces_step:
  "env_pieces [] = []"
  "composeEnvExpression (c # t) = None \<Longrightarrow> env_pieces (c # t) = Inl c # env_pieces t"
  "composeEnvExpression s = Some x \<Longrightarrow> env_pieces s = Inr x # env_pieces (ex_rest x)"
  by (subst env_pieces.simps, simp)+

lemma interpolateEnvString_step:
  "interpolateEnvString [] env = []"
  "composeEnvExpression (c # t) = None \<Longrightarrow> interpolateEnvString (c # t) env = c # interpolateEnvString t env"
  "composeEnvExpression s = Some x \<Longrightarrow> interpolateEnvString s env = env_value env x @ interpolateEnvString (ex_rest x) env"
  by (subst interpolateEnvString.simps, simp)+

definition piece_text :: "char + env_expression \<Rightarrow> string" where
  "piece_text p = (case p of Inl c \<Rightarrow> [c] | Inr x \<Rightarrow> ex_text x)"

definition piece_value :: "string smap \<Rightarrow> char + env_expression \<Rightarrow> string" where
  "piece_value env p = (case p of Inl c \<Rightarrow> [c] | Inr x \<Rightarrow> env_value env x)"

lemma env_pieces_text: "concat (map piece_text (env_pieces s)) = s"
proof (induction s rule: env_pieces.induct)
  case (1 s)
  show ?case
  proof (cases "composeEnvExpression s")
    case None
    with 1(1)[OF None] show ?thesis by (cases s) (simp_all add: env_pieces_step piece_text_def)
  next
    case (Some x)
    from composeEnvExpression_text[OF Some] 1(2)[OF Some] Some show ?thesis
      by (simp add: env_pieces_step piece_text_def)
  qed
qed

lemma interpolate_pieces: "interpolateEnvString s env = concat (map (piece_value env) (env_pieces s))"
proof (induction s rule: env_pieces.induct)
  case (1 s)
  show ?case
  proof (cases "composeEnvExpression s")
    case None
    with 1(1)[OF None] show ?thesis
      by (cases s) (simp_all add: env_pieces_step interpolateEnvString_step piece_value_def)
  next
    case (Some x)
    from 1(2)[OF Some] Some show ?thesis
      by (simp add: env_pieces_step interpolateEnvString_step piece_value_def)
  qed
qed

lemma interpolate_unknown:
  assumes "\<And>x. Inr x \<in> set (env_pieces s) \<Longrightarrow> \<not> has_key env (ex_name x)"
  shows "interpolateEnvString s env = s"
proof -
  have "piece_value env p = piece_text p" if "p \<in> set (env_pieces s)" for p
    using assms that by (cases p) (auto simp: piece_value_def piece_text_def env_value_def has_key_def)
  then have "map (piece_value env) (env_pieces s) = map piece_text (env_pieces s)" by simp
  then show ?thesis by (simp only: interpolate_pieces env_pieces_text)
qed

text \<open>The path variables do not bring ports back.\<close>

lemma path_variables_service:
  assumes "map_of (InjectSourcePathVariables services sp) name = Some (AMap s)"
  shows "\<exists>s0. map_of services name = Some (AMap s0) \<and> has_key s ''ports'' = has_key s0 ''ports''"
proof (cases "sp = []")
  case True
  with assms show ?thesis by (simp add: InjectSourcePathVariables_def)
next
  case False
  define f where "f = (\<lambda>raw. case raw of
          AMap s \<Rightarrow> (if any_at s ''volumes'' = ANil then raw
                     else AMap (put_key ''volumes'' (replacePathVariables (any_at s ''volumes'') sp) s))
        | _ \<Rightarrow> raw)"
  have "map_of (map (\<lambda>(name, raw). (name, f raw)) services) name = map_option f (map_of services name)"
    by (simp add: map_of_map)
  moreover have "map_of (map (\<lambda>(name, raw). (name, f raw)) services) name = Some (AMap s)"
    using assms False by (simp add: InjectSourcePathVariables_def f_def)
  ultimately obtain raw where raw: "map_of services name = Some raw" "f raw = AMap s"
    by (cases "map_of services name") simp_all
  then obtain s0 where "raw = AMap s0" by (cases raw) (simp_all add: f_def)
  with raw show ?thesis by (auto simp: f_def split: if_splits)
qed

lemma RuntimeWithOptions_Inr:
  assumes "RuntimeWithOptions bcrypt Y t project rootDomain scheme options = Inr res"
  obtains d m services' metadata where "parseDocument Y t = Inr d" and "y_map Y t = Inr m"
    and "serviceLabelValidationErrors d (Summaries (doc_services d)) = []" and "\<not> HasUnresolvedTokens t"
    and "RenderRuntimeServices bcrypt
           (case any_at (case m of None \<Rightarrow> [] | Some r \<Rightarrow> r) ''services'' of AMap s \<Rightarrow> s | _ \<Rightarrow> [])
           (Summaries (doc_services d)) project rootDomain scheme options = Inr (services', metadata)"
    and "y_marshal Y (store_back ''services''
           (InjectSourcePathVariables services' (RuntimeSourcePaths (Summaries (doc_services d)) project))
           (case m of None \<Rightarrow> [] | Some r \<Rightarrow> r)) = Inr (rc_compose_yaml res)"
    and "rc_services res = rr_services metadata" and "rc_urls res = rr_urls metadata"
proof -
  have tok: "\<not> HasUnresolvedTokens t" using assms by (auto simp: RuntimeWithOptions_def split: if_splits)
  obtain d where d: "parseDocument Y t = Inr d"
    using assms tok by (cases "parseDocument Y t") (simp_all add: RuntimeWithOptions_def)
  have errs: "serviceLabelValidationErrors d (Summaries (doc_services d)) = []"
    using assms tok d by (auto simp: RuntimeWithOptions_def Let_def split: if_splits)
  obtain m where m: "y_map Y t = Inr m"
    using assms tok d errs by (cases "y_map Y t") (simp_all add: RuntimeWithOptions_def Let_def)
  let ?r = "case m of None \<Rightarrow> [] | Some r \<Rightarrow> r"
  let ?s = "case any_at ?r ''services'' of AMap s \<Rightarrow> s | _ \<Rightarrow> []"
  obtain sv md where r: "RenderRuntimeServices bcrypt ?s (Summaries (doc_services d)) project rootDomain scheme options = Inr (sv, md)"
    using assms tok d errs m
    by (cases "RenderRuntimeServices bcrypt ?s (Summaries (doc_services d)) project rootDomain scheme options")
      (auto simp: RuntimeWithOptions_def Let_def)
  let ?out = "store_back ''services'' (InjectSourcePathVariables sv (RuntimeSourcePaths (Summaries (doc_services d)) project)) ?r"
  obtain y where y: "y_marshal Y ?out = Inr y"
    using assms tok d errs m r by (cases "y_marshal Y ?out") (simp_all add: RuntimeWithOptions_def Let_def)
  have "res = \<lparr>rc_compose_yaml = y, rc_services = rr_services md, rc_urls = rr_urls md\<rparr>"
    using assms tok d errs m r y by (simp add: RuntimeWithOptions_def Let_def)
  with d m errs tok r y show ?thesis by (intro that) simp_all
qed

lemma labels_valid:
  assumes "serviceLabelValidationErrors d (Summaries (doc_services d)) = []" and "map_of (doc_services d) name = Some def"
  shows "ValidationErrors name def = []"
proof -
  have "name \<in> s_name ` set (Summaries (doc_services d))"
    using assms(2) by (metis has_key_def has_key_iff option.distinct(1) service_names)
  then show ?thesis using assms by (auto simp: serviceLabelValidationErrors_def split: option.splits)
qed

lemma services_written_back:
  assumes "any_at r ''services'' = AMap services"
  shows "any_at (store_back ''services'' services' r) ''services'' = AMap services'"
proof -
  have "map_of r ''services'' = Some (AMap services)" using assms by (auto simp: any_at_def split: option.splits)
  then show ?thesis by (simp add: any_at_def store_back_same)
qed

text \<open>A service of the document written is one of the document read, and publishes no port.\<close>

lemma rendered_unpublished:
  assumes "render_services_loop bcrypt project rootDomain scheme options (Summaries (doc_services d))
      (services, \<lparr>rr_services = [], rr_urls = []\<rparr>) = Inr (services', metadata)"
    and "fst ` set services \<subseteq> fst ` set (doc_services d)"
    and s: "map_of (InjectSourcePathVariables services' sp) name = Some (AMap s)"
  shows "\<not> has_key s ''ports''"
proof -
  note spec = render_services_loop_spec[OF assms(1)]
  obtain s0 where s0: "map_of services' name = Some (AMap s0)" "has_key s ''ports'' = has_key s0 ''ports''"
    using path_variables_service[OF s] by blast
  have "name \<in> s_name ` set (Summaries (doc_services d))"
  proof (rule ccontr)
    assume n: "name \<notin> s_name ` set (Summaries (doc_services d))"
    then have "map_of services name = Some (AMap s0)" using spec s0(1) by simp
    then have "name \<in> fst ` set services" by (metis has_key_def has_key_iff option.distinct(1))
    with assms(2) n show False by (auto simp: service_names)
  qed
  moreover have "mutable_service services' name = Some s0" using s0(1) by (simp add: mutable_service_def any_at_def)
  ultimately show ?thesis using spec s0(2) by blast
qed

subsection \<open>Properties\<close>


definition demo_yaml :: yaml_lib where
  "demo_yaml = \<lparr>y_document = (\<lambda>t. Inr \<lparr>doc_services = [(''web'', zero_definition)], doc_volumes = [], doc_raw = []\<rparr>),
     y_map = (\<lambda>t. Inr (Some [(''services'', AMap [(''web'', AMap [(''ports'', ASeq [AStr ''80:80''])])])])),
     y_node = (\<lambda>t. Inr (YNode OtherNode [] [] [])),
     y_marshal = (\<lambda>d. case any_at d ''services'' of AMap s \<Rightarrow> Inr (if any_at s ''web'' = AMap [] then ''web: {}'' else ''?'')
        | _ \<Rightarrow> Inl ''?'')\<rparr>"


text \<open>Interpolation of the environment is by pieces: a string is spelled by bytes and expressions, the result by the
bytes and the values of the expressions, and a string whose expressions all name variables the environment does not
have is unchanged.\<close>

theorem interpolation_by_pieces:
  "concat (map piece_text (env_pieces s)) = s \<and>
   interpolateEnvString s env = concat (map (piece_value env) (env_pieces s)) \<and>
   (interpolateEnvString s env = s \<or> (\<exists>x. Inr x \<in> set (env_pieces s) \<and> has_key env (ex_name x)))"
  using env_pieces_text interpolate_pieces interpolate_unknown by blast

text \<open>An escaped expression is interpolated too: Compose reads \<open>$${A}\<close> as the text \<open>${A}\<close>.\<close>

lemma escaped_expression_interpolated:
  "interpolateEnvString (CHR ''$'' # CHR ''$'' # CHR 0x7B # ''A'' @ [CHR 0x7D]) [(''A'', ''x'')] = ''$x''"
  by code_simp

end
