(* ===== verification/Playguard.thy ===== *)
theory Playguard
  imports Domain
begin

text \<open>
  \<open>internal/playguard\<close>: the decisions of the reconciliation loop (\<open>policy.go\<close>: which rows are synced, refreshed,
  expired, which remote projects are stale; \<open>runtime.go\<close>: which rows are checked for drift and repaired). They are
  pure functions of a row. A duration is an integer of nanoseconds.
\<close>

definition is_some :: "'a option \<Rightarrow> bool" where
  "is_some x = (x \<noteq> None)"

lemma is_some_iff [simp]: "is_some x \<longleftrightarrow> (\<exists>y. x = Some y)"
  by (cases x) (simp_all add: is_some_def)

definition NormalizeInterval :: "int \<Rightarrow> int" where
  "NormalizeInterval interval = (if interval \<le> 0 then 30000000000 else interval)"

definition SourceSyncStateReason :: "playground \<Rightarrow> bool" where
  "SourceSyncStateReason pg =
     (case pg_state_reason pg of None \<Rightarrow> False | Some r \<Rightarrow> has_prefix r ''source_sync_'')"

definition has_runtime :: "playground \<Rightarrow> bool" where
  "has_runtime pg = (is_some (pg_marquee_id pg) \<and> is_some (pg_compose_project pg))"

definition ShouldSyncSources :: "playground \<Rightarrow> bool" where
  "ShouldSyncSources pg =
     (has_runtime pg \<and>
      (pg_status pg = StatusRunning \<or> pg_status pg = StatusHasChanges \<or>
       pg_status pg = StatusError \<and> SourceSyncStateReason pg))"

definition ShouldRefreshRuntime :: "playground \<Rightarrow> bool" where
  "ShouldRefreshRuntime pg =
     (if SourceSyncStateReason pg then False
      else has_runtime pg \<and>
        (pg_status pg = StatusRunning \<or> pg_status pg = StatusError \<or> pg_status pg = StatusStopped))"

definition MatchesRemoteProject :: "playground \<Rightarrow> int \<Rightarrow> string \<Rightarrow> bool" where
  "MatchesRemoteProject pg marqueeID project =
     (pg_marquee_id pg = Some marqueeID \<and>
      (case pg_compose_project pg of None \<Rightarrow> False | Some p \<Rightarrow> trim_space p = trim_space project))"

definition playgroundProject :: "playground \<Rightarrow> string" where
  "playgroundProject pg = (case pg_compose_project pg of None \<Rightarrow> [] | Some p \<Rightarrow> trim_space p)"

definition CurrentRemoteProjects :: "playground list \<Rightarrow> int \<Rightarrow> string set" where
  "CurrentRemoteProjects pgs marqueeID =
     set (map playgroundProject
       (filter (\<lambda>pg. MatchesRemoteProject pg marqueeID (playgroundProject pg)) pgs))"

definition StaleRemoteProjects :: "string list \<Rightarrow> playground list \<Rightarrow> int \<Rightarrow> string list" where
  "StaleRemoteProjects remoteProjects pgs marqueeID =
     (let current = CurrentRemoteProjects pgs marqueeID
      in filter (\<lambda>p. p \<noteq> [] \<and> p \<notin> current) (map trim_space remoteProjects))"

definition ExpirableStatus :: "string \<Rightarrow> bool" where
  "ExpirableStatus s = (s = StatusRunning \<or> s = StatusHasChanges)"

subsection \<open>Runtime drift (runtime.go)\<close>

definition CanRefreshRuntime :: "playground \<Rightarrow> bool \<Rightarrow> bool" where
  "CanRefreshRuntime pg storeAvailable = (has_runtime pg \<and> storeAvailable)"

definition ShouldCheckRuntimeArtifactDrift :: "playground \<Rightarrow> bool" where
  "ShouldCheckRuntimeArtifactDrift pg =
     (has_runtime pg \<and> pg_status pg = StatusRunning \<and> trim_space (pg_generated_compose_yaml pg) \<noteq> [])"

definition ShouldRepairRuntimeArtifacts :: "playground \<Rightarrow> bool \<Rightarrow> bool" where
  "ShouldRepairRuntimeArtifacts pg artifactsMissing = (ShouldCheckRuntimeArtifactDrift pg \<and> artifactsMissing)"

definition serviceImagesByName :: "service_info list \<Rightarrow> string smap" where
  "serviceImagesByName services =
     fold (\<lambda>s out. let name = trim_space (svc_name s); img = trim_space (svc_image s)
                   in if name \<noteq> [] \<and> img \<noteq> [] then put_key name img out else out) services []"

definition ImageDriftDetected :: "service_info list \<Rightarrow> service_info list \<Rightarrow> bool" where
  "ImageDriftDetected expected observed =
     (let expectedImages = serviceImagesByName expected
      in list_ex (\<lambda>s. let e = str_at expectedImages (trim_space (svc_name s)); i = trim_space (svc_image s)
                      in e \<noteq> [] \<and> i \<noteq> [] \<and> i \<noteq> e) observed)"

definition stopped_service :: "string \<Rightarrow> string \<Rightarrow> service_info" where
  "stopped_service name img =
     \<lparr>svc_name = name, svc_status = StatusStopped, svc_image = img, svc_health = [], svc_running = False,
      svc_exit_code = None\<rparr>"

definition StoppedServiceObservations :: "service_info list \<Rightarrow> service_url list \<Rightarrow> service_info list" where
  "StoppedServiceObservations existing urls =
     (let known = filter (\<lambda>s. trim_space (svc_name s) \<noteq> []) existing;
          seen = set (map (\<lambda>s. trim_space (svc_name s)) known)
      in map (\<lambda>s. stopped_service (trim_space (svc_name s)) (svc_image s)) known @
         map (\<lambda>u. stopped_service (trim_space (url_name u)) [])
           (filter (\<lambda>u. trim_space (url_name u) \<noteq> [] \<and> trim_space (url_name u) \<notin> seen) urls))"

definition RuntimeRepairCooldownActive :: "playground \<Rightarrow> int \<Rightarrow> bool" where
  "RuntimeRepairCooldownActive pg now =
     (case pg_repair_lock_until pg of None \<Rightarrow> False | Some t \<Rightarrow> now < t)"

definition MarkRuntimeRepairStarted :: "playground \<Rightarrow> string \<Rightarrow> int \<Rightarrow> int \<Rightarrow> playground" where
  "MarkRuntimeRepairStarted pg reason now cooldown =
     pg\<lparr>pg_repair_reason := Some reason, pg_repair_lock_until := Some (now + cooldown),
        pg_needs_recreation := Some True\<rparr>"

subsection \<open>Facts\<close>

lemma MatchesRemoteProject_own:
  "MatchesRemoteProject pg m (playgroundProject pg) \<longleftrightarrow> pg_marquee_id pg = Some m \<and> pg_compose_project pg \<noteq> None"
  by (auto simp: MatchesRemoteProject_def playgroundProject_def trim_space_idem split: option.splits)

lemma StaleRemoteProjects_iff:
  "p \<in> set (StaleRemoteProjects remote pgs m) \<longleftrightarrow>
     p \<noteq> [] \<and> (\<exists>r \<in> set remote. p = trim_space r) \<and> (\<forall>pg \<in> set pgs. \<not> MatchesRemoteProject pg m p)"
proof -
  have "(\<exists>pg \<in> set pgs. MatchesRemoteProject pg m p) \<longleftrightarrow> p \<in> CurrentRemoteProjects pgs m"
    if "p = trim_space r" for r
  proof -
    have "MatchesRemoteProject pg m p \<longleftrightarrow>
        MatchesRemoteProject pg m (playgroundProject pg) \<and> playgroundProject pg = p" for pg
      unfolding MatchesRemoteProject_own using that
      by (auto simp: MatchesRemoteProject_def playgroundProject_def trim_space_idem split: option.splits)
    then show ?thesis unfolding CurrentRemoteProjects_def by auto
  qed
  then show ?thesis by (auto simp: StaleRemoteProjects_def Let_def)
qed

text \<open>No row is both synced as a failed sync and refreshed: what source sync owns, runtime refresh leaves alone.\<close>

lemma sync_owned_not_refreshed: "SourceSyncStateReason pg \<Longrightarrow> \<not> ShouldRefreshRuntime pg"
  by (simp add: ShouldRefreshRuntime_def)

lemma repair_cooldown_after_mark:
  "now' < now + cooldown \<Longrightarrow> RuntimeRepairCooldownActive (MarkRuntimeRepairStarted pg reason now cooldown) now'"
  by (simp add: RuntimeRepairCooldownActive_def MarkRuntimeRepairStarted_def)

end
