(* ===== verification/WorkerEffects.thy ===== *)
theory WorkerEffects
  imports Programs Compose Playguard
begin

text \<open>
  The effects of the worker (\<open>internal/worker\<close>): what it asks of the store (\<open>internal/storage\<close>), of the local
  runtime (\<open>internal/runtime\<close>), of the clock and of routed services, and the errors they answer with.

  A handler is a program over these requests (type \<open>io\<close>, see \<open>Programs\<close>). Other requests of the program run between any
  two requests of a handler, so an answer is not constrained.
\<close>

subsection \<open>Errors\<close>

text \<open>An error value of Go as far as the worker looks at it: its text, \<open>errors.Is\<close> against the two sentinels, and
\<open>errors.As\<close> against the two structured errors of the package.\<close>

record sync_error =
  se_service :: string
  se_repository_url :: string
  se_branch :: string
  se_path :: string
  se_category :: string
  se_message :: string
  se_output :: string

datatype go_error =
    ErrNotFound
  | ErrRemoteFileMissing string
  | ErrText string
  | ErrUnique string
  | ErrSync sync_error go_error
  | ErrSuperseded int string
  | ErrWrap string go_error
  | ErrJoin "go_error list"

fun error_text :: "go_error \<Rightarrow> string" where
  "error_text ErrNotFound = ''not found''"
| "error_text (ErrRemoteFileMissing t) = t"
| "error_text (ErrText t) = t"
| "error_text (ErrUnique t) = t"
| "error_text (ErrSync s e) = (if se_message s \<noteq> [] then se_message s else error_text e)"
| "error_text (ErrSuperseded i s) =
     ''playground '' @ itoa i @ '' deployment was superseded by status '' @ go_quote s"
| "error_text (ErrWrap t e) = t @ '': '' @ error_text e"
| "error_text (ErrJoin es) = join_str [CHR 0x0A] (map error_text es)"

fun is_not_found :: "go_error \<Rightarrow> bool" where
  "is_not_found ErrNotFound = True"
| "is_not_found (ErrSync s e) = is_not_found e"
| "is_not_found (ErrWrap t e) = is_not_found e"
| "is_not_found (ErrJoin es) = list_ex is_not_found es"
| "is_not_found _ = False"

fun is_file_missing :: "go_error \<Rightarrow> bool" where
  "is_file_missing (ErrRemoteFileMissing t) = True"
| "is_file_missing (ErrSync s e) = is_file_missing e"
| "is_file_missing (ErrWrap t e) = is_file_missing e"
| "is_file_missing (ErrJoin es) = list_ex is_file_missing es"
| "is_file_missing _ = False"

text \<open>\<open>errors.As\<close>: the first error of the kind in a depth-first walk. For the sync errors the walk stops at the
first one; the cause that one wraps is kept for its text.\<close>

fun as_sync :: "go_error \<Rightarrow> (sync_error \<times> go_error) option"
and as_sync_list :: "go_error list \<Rightarrow> (sync_error \<times> go_error) option" where
  "as_sync (ErrSync s e) = Some (s, e)"
| "as_sync (ErrWrap t e) = as_sync e"
| "as_sync (ErrJoin es) = as_sync_list es"
| "as_sync _ = None"
| "as_sync_list [] = None"
| "as_sync_list (e # es) = (case as_sync e of Some s \<Rightarrow> Some s | None \<Rightarrow> as_sync_list es)"

fun as_superseded :: "go_error \<Rightarrow> string option"
and as_superseded_list :: "go_error list \<Rightarrow> string option" where
  "as_superseded (ErrSuperseded i s) = Some s"
| "as_superseded (ErrSync s e) = as_superseded e"
| "as_superseded (ErrWrap t e) = as_superseded e"
| "as_superseded (ErrJoin es) = as_superseded_list es"
| "as_superseded _ = None"
| "as_superseded_list [] = None"
| "as_superseded_list (e # es) = (case as_superseded e of Some s \<Rightarrow> Some s | None \<Rightarrow> as_superseded_list es)"

text \<open>\<open>errors.Join\<close>: nil errors are dropped, and joining only those is nil.\<close>

definition join_errors :: "go_error option list \<Rightarrow> go_error option" where
  "join_errors es =
     (let real = concat (map (\<lambda>e. case e of None \<Rightarrow> [] | Some x \<Rightarrow> [x]) es)
      in if real = [] then None else Some (ErrJoin real))"

subsection \<open>Requests and answers\<close>

record git_request =
  gr_project :: string
  gr_service :: string
  gr_repo_url :: string
  gr_branch :: string
  gr_target :: string
  gr_token :: string

record reuse_query =
  rq_prop_id :: "int option"
  rq_playground_id :: int
  rq_service_name :: string
  rq_branch :: string
  rq_commit_sha :: string
  rq_build_identity_digest :: string
  rq_build_platform :: string

record build_request =
  bq_project :: string
  bq_playground_id :: int
  bq_service_name :: string
  bq_context_path :: string
  bq_commit_sha :: string
  bq_dockerfile :: string
  bq_target :: string
  bq_platform :: string
  bq_build_args :: "string list"
  bq_build_time :: int
  bq_build_identity_digest :: string
  bq_image_ref :: string

record build_result =
  bo_commit_sha :: string
  bo_image_ref :: string
  bo_logs :: string

datatype tick = TickDone go_error | TickTimeout | TickPoll

datatype request =
    GetPlayground int
  | ListPlaygrounds
  | SavePlayground playground
  | SavePlaygroundIfCurrent playground string int
  | DeletePlayground int
  | GetPlayspec int
  | GetRuntimeMarquee
  | TimeNow
  | SyncSource marquee git_request
  | SourceDirtyPaths marquee string "string list"
  | InspectServices marquee string
  | StartCompose marquee string
  | StopCompose marquee string
  | DestroyCompose marquee string
  | DeployCompose marquee string int string
  | RuntimeArtifactDrift marquee string string
  | EnsurePrerequisites marquee
  | PreparePlaygroundWorkspace marquee string int
  | ListPlaygroundProjects marquee
  | RouteProbe string
  | WaitTick
  | RandomText
  | FindPropByRepositoryURL string
  | CreateBuildRecord build_record
  | SaveBuildRecord build_record
  | GetBuildRecord int
  | ListReusableBuildRecords reuse_query
  | ResolveSourceCommit marquee string string
  | ImageExistsForBuild marquee string string string
  | BuildImage marquee build_request
  | DownCompose marquee string
  | GetMarquee int
  | CreateAsync async_operation
  | SaveAsync async_operation
  | FindPlayground string
  | CreatePlayground playground
  | RenameRow int string
  | FindPlayspec string
  | ListPlayspecs
  | CreatePlayspec playspec
  | SavePlayspec playspec
  | RemovePlayspec string
  | CountPlaygroundsForPlayspec int
  | FindMarquee string
  | ComposeLogs marquee string string int
  | ListProps
  | CreateProp source_prop
  | FindProp string
  | SaveProp source_prop
  | RemoveProp string
  | PlayspecsReferencingProp source_prop
  | GetAsync string
  | GitHubRepository string
  | GitHubBranches string
  | OpenFile string

text \<open>What the GitHub client of the repository answers, and a file of the host.\<close>

record github_repository =
  gh_default_branch :: string
  gh_private :: bool
  gh_permissions :: "(string \<times> bool) list"

record github_branch =
  gb_name :: string
  gb_sha :: string

record host_file =
  hf_regular :: "go_error + bool"
  hf_content :: "go_error + string"
  hf_close :: "go_error option"

datatype answer =
    Row "go_error + playground"
  | Rows "go_error + playground list"
  | Swapped "go_error + playground \<times> bool"
  | Done "go_error option"
  | SpecRow "go_error + playspec"
  | MarqueeRow "go_error + marquee option"
  | Clock int
  | Texts "string list \<times> go_error option"
  | Observed "service_info list \<times> go_error option"
  | Http "(int \<times> string) option"
  | Ticked tick
  | Random "go_error + string"
  | PropRow "go_error + int option"
  | BuildRow "build_record \<times> go_error option"
  | BuildRows "go_error + build_record list"
  | Commit "go_error + string"
  | Exists "go_error + bool"
  | Built "go_error + build_result"
  | SpecRows "go_error + playspec list"
  | Counted "go_error + int"
  | PropRecord "go_error + source_prop"
  | PropRecords "go_error + source_prop list"
  | AsyncRow "go_error + async_operation"
  | Repository "go_error + github_repository"
  | Branches "go_error + github_branch list"
  | Opened "go_error + host_file"
  | Names "go_error + string list"

type_synonym history = "(request, answer) log"

type_synonym 'a io = "(request, answer, 'a) program"

text \<open>An answer of another kind than the request asks for does not occur; the handler is not continued with it.\<close>

definition ask_row :: "request \<Rightarrow> (go_error + playground) io" where
  "ask_row q = Call q (\<lambda>r. case r of Row x \<Rightarrow> Ret x | _ \<Rightarrow> Stuck)"

definition ask_rows :: "request \<Rightarrow> (go_error + playground list) io" where
  "ask_rows q = Call q (\<lambda>r. case r of Rows x \<Rightarrow> Ret x | _ \<Rightarrow> Stuck)"

definition ask_swap :: "request \<Rightarrow> (go_error + playground \<times> bool) io" where
  "ask_swap q = Call q (\<lambda>r. case r of Swapped x \<Rightarrow> Ret x | _ \<Rightarrow> Stuck)"

definition ask_done :: "request \<Rightarrow> (go_error option) io" where
  "ask_done q = Call q (\<lambda>r. case r of Done x \<Rightarrow> Ret x | _ \<Rightarrow> Stuck)"

definition ask_spec :: "request \<Rightarrow> (go_error + playspec) io" where
  "ask_spec q = Call q (\<lambda>r. case r of SpecRow x \<Rightarrow> Ret x | _ \<Rightarrow> Stuck)"

definition ask_marquee :: "(go_error + marquee option) io" where
  "ask_marquee = Call GetRuntimeMarquee (\<lambda>r. case r of MarqueeRow x \<Rightarrow> Ret x | _ \<Rightarrow> Stuck)"

definition ask_clock :: "int io" where
  "ask_clock = Call TimeNow (\<lambda>r. case r of Clock x \<Rightarrow> Ret x | _ \<Rightarrow> Stuck)"

definition ask_texts :: "request \<Rightarrow> (string list \<times> go_error option) io" where
  "ask_texts q = Call q (\<lambda>r. case r of Texts x \<Rightarrow> Ret x | _ \<Rightarrow> Stuck)"

definition ask_observed :: "request \<Rightarrow> (service_info list \<times> go_error option) io" where
  "ask_observed q = Call q (\<lambda>r. case r of Observed x \<Rightarrow> Ret x | _ \<Rightarrow> Stuck)"

text \<open>A \<open>GET\<close> of a route: the status and the first bytes of the body, or nothing when the request fails.\<close>

definition ask_probe :: "string \<Rightarrow> (int \<times> string) option io" where
  "ask_probe url = Call (RouteProbe url) (\<lambda>r. case r of Http x \<Rightarrow> Ret x | _ \<Rightarrow> Stuck)"

definition ask_tick :: "tick io" where
  "ask_tick = Call WaitTick (\<lambda>r. case r of Ticked x \<Rightarrow> Ret x | _ \<Rightarrow> Stuck)"

definition ask_random :: "(go_error + string) io" where
  "ask_random = Call RandomText (\<lambda>r. case r of Random x \<Rightarrow> Ret x | _ \<Rightarrow> Stuck)"

text \<open>The store answers a failed save of a build record with the record it was handed, changed or not.\<close>

definition ask_build :: "request \<Rightarrow> (build_record \<times> go_error option) io" where
  "ask_build q = Call q (\<lambda>r. case r of BuildRow x \<Rightarrow> Ret x | _ \<Rightarrow> Stuck)"

definition ask_builds :: "request \<Rightarrow> (go_error + build_record list) io" where
  "ask_builds q = Call q (\<lambda>r. case r of BuildRows x \<Rightarrow> Ret x | _ \<Rightarrow> Stuck)"

definition ask_prop :: "string \<Rightarrow> (go_error + int option) io" where
  "ask_prop url = Call (FindPropByRepositoryURL url) (\<lambda>r. case r of PropRow x \<Rightarrow> Ret x | _ \<Rightarrow> Stuck)"

definition ask_commit :: "request \<Rightarrow> (go_error + string) io" where
  "ask_commit q = Call q (\<lambda>r. case r of Commit x \<Rightarrow> Ret x | _ \<Rightarrow> Stuck)"

definition ask_exists :: "request \<Rightarrow> (go_error + bool) io" where
  "ask_exists q = Call q (\<lambda>r. case r of Exists x \<Rightarrow> Ret x | _ \<Rightarrow> Stuck)"

definition ask_built :: "request \<Rightarrow> (go_error + build_result) io" where
  "ask_built q = Call q (\<lambda>r. case r of Built x \<Rightarrow> Ret x | _ \<Rightarrow> Stuck)"

definition ask_marquee_id :: "int \<Rightarrow> (go_error + marquee option) io" where
  "ask_marquee_id i = Call (GetMarquee i) (\<lambda>r. case r of MarqueeRow x \<Rightarrow> Ret x | _ \<Rightarrow> Stuck)"

definition ask_specs :: "request \<Rightarrow> (go_error + playspec list) io" where
  "ask_specs q = Call q (\<lambda>r. case r of SpecRows x \<Rightarrow> Ret x | _ \<Rightarrow> Stuck)"

definition ask_count :: "request \<Rightarrow> (go_error + int) io" where
  "ask_count q = Call q (\<lambda>r. case r of Counted x \<Rightarrow> Ret x | _ \<Rightarrow> Stuck)"

definition ask_prop_row :: "request \<Rightarrow> (go_error + source_prop) io" where
  "ask_prop_row q = Call q (\<lambda>r. case r of PropRecord x \<Rightarrow> Ret x | _ \<Rightarrow> Stuck)"

definition ask_prop_rows :: "request \<Rightarrow> (go_error + source_prop list) io" where
  "ask_prop_rows q = Call q (\<lambda>r. case r of PropRecords x \<Rightarrow> Ret x | _ \<Rightarrow> Stuck)"

definition ask_async :: "request \<Rightarrow> (go_error + async_operation) io" where
  "ask_async q = Call q (\<lambda>r. case r of AsyncRow x \<Rightarrow> Ret x | _ \<Rightarrow> Stuck)"

definition ask_repository :: "request \<Rightarrow> (go_error + github_repository) io" where
  "ask_repository q = Call q (\<lambda>r. case r of Repository x \<Rightarrow> Ret x | _ \<Rightarrow> Stuck)"

definition ask_branches :: "request \<Rightarrow> (go_error + github_branch list) io" where
  "ask_branches q = Call q (\<lambda>r. case r of Branches x \<Rightarrow> Ret x | _ \<Rightarrow> Stuck)"

definition ask_file :: "request \<Rightarrow> (go_error + host_file) io" where
  "ask_file q = Call q (\<lambda>r. case r of Opened x \<Rightarrow> Ret x | _ \<Rightarrow> Stuck)"

definition ask_names :: "request \<Rightarrow> (go_error + string list) io" where
  "ask_names q = Call q (\<lambda>r. case r of Names x \<Rightarrow> Ret x | _ \<Rightarrow> Stuck)"

text \<open>A Marquee by its name or id; missing is an error here.\<close>

definition ask_marquee_named :: "string \<Rightarrow> (go_error + marquee option) io" where
  "ask_marquee_named t = Call (FindMarquee t) (\<lambda>r. case r of MarqueeRow x \<Rightarrow> Ret x | _ \<Rightarrow> Stuck)"

lemmas ask_defs = ask_row_def ask_rows_def ask_swap_def ask_done_def ask_spec_def ask_marquee_def ask_clock_def
  ask_texts_def ask_observed_def ask_probe_def ask_tick_def ask_random_def
  ask_build_def ask_builds_def ask_prop_def ask_commit_def ask_exists_def ask_built_def ask_marquee_id_def
  ask_specs_def ask_count_def ask_prop_row_def ask_prop_rows_def ask_async_def ask_repository_def ask_branches_def ask_file_def ask_names_def ask_marquee_named_def

text \<open>The requests a guard leaves alone.\<close>

lemma wp_asks [simp]:
  "wp G Q (ask_row q) h \<longleftrightarrow> G h q \<and> (\<forall>x. Q (h @ [(q, Row x)]) x)"
  "wp G QL (ask_rows q) h \<longleftrightarrow> G h q \<and> (\<forall>x. QL (h @ [(q, Rows x)]) x)"
  "wp G QS (ask_swap q) h \<longleftrightarrow> G h q \<and> (\<forall>x. QS (h @ [(q, Swapped x)]) x)"
  "wp G QD (ask_done q) h \<longleftrightarrow> G h q \<and> (\<forall>x. QD (h @ [(q, Done x)]) x)"
  "wp G QP (ask_spec q) h \<longleftrightarrow> G h q \<and> (\<forall>x. QP (h @ [(q, SpecRow x)]) x)"
  "wp G QM ask_marquee h \<longleftrightarrow> G h GetRuntimeMarquee \<and> (\<forall>x. QM (h @ [(GetRuntimeMarquee, MarqueeRow x)]) x)"
  "wp G QC ask_clock h \<longleftrightarrow> G h TimeNow \<and> (\<forall>x. QC (h @ [(TimeNow, Clock x)]) x)"
  "wp G QT (ask_texts q) h \<longleftrightarrow> G h q \<and> (\<forall>x. QT (h @ [(q, Texts x)]) x)"
  "wp G QO (ask_observed q) h \<longleftrightarrow> G h q \<and> (\<forall>x. QO (h @ [(q, Observed x)]) x)"
  "wp G QR (ask_probe u) h \<longleftrightarrow> G h (RouteProbe u) \<and> (\<forall>x. QR (h @ [(RouteProbe u, Http x)]) x)"
  "wp G QK ask_tick h \<longleftrightarrow> G h WaitTick \<and> (\<forall>x. QK (h @ [(WaitTick, Ticked x)]) x)"
  "wp G QN ask_random h \<longleftrightarrow> G h RandomText \<and> (\<forall>x. QN (h @ [(RandomText, Random x)]) x)"
  "wp G QB (ask_build q) h \<longleftrightarrow> G h q \<and> (\<forall>x. QB (h @ [(q, BuildRow x)]) x)"
  "wp G QBs (ask_builds q) h \<longleftrightarrow> G h q \<and> (\<forall>x. QBs (h @ [(q, BuildRows x)]) x)"
  "wp G QF (ask_prop u) h \<longleftrightarrow>
     G h (FindPropByRepositoryURL u) \<and> (\<forall>x. QF (h @ [(FindPropByRepositoryURL u, PropRow x)]) x)"
  "wp G QI (ask_commit q) h \<longleftrightarrow> G h q \<and> (\<forall>x. QI (h @ [(q, Commit x)]) x)"
  "wp G QE (ask_exists q) h \<longleftrightarrow> G h q \<and> (\<forall>x. QE (h @ [(q, Exists x)]) x)"
  "wp G QU (ask_built q) h \<longleftrightarrow> G h q \<and> (\<forall>x. QU (h @ [(q, Built x)]) x)"
  "wp G QJ (ask_marquee_id i) h \<longleftrightarrow> G h (GetMarquee i) \<and> (\<forall>x. QJ (h @ [(GetMarquee i, MarqueeRow x)]) x)"
  by (auto simp: ask_defs split: answer.splits)

lemma wp_asks_more [simp]:
  "wp G QV (ask_specs q) h \<longleftrightarrow> G h q \<and> (\<forall>x. QV (h @ [(q, SpecRows x)]) x)"
  "wp G QW (ask_count q) h \<longleftrightarrow> G h q \<and> (\<forall>x. QW (h @ [(q, Counted x)]) x)"
  "wp G QX (ask_prop_row q) h \<longleftrightarrow> G h q \<and> (\<forall>x. QX (h @ [(q, PropRecord x)]) x)"
  "wp G QY (ask_prop_rows q) h \<longleftrightarrow> G h q \<and> (\<forall>x. QY (h @ [(q, PropRecords x)]) x)"
  "wp G QZ (ask_async q) h \<longleftrightarrow> G h q \<and> (\<forall>x. QZ (h @ [(q, AsyncRow x)]) x)"
  "wp G QG (ask_repository q) h \<longleftrightarrow> G h q \<and> (\<forall>x. QG (h @ [(q, Repository x)]) x)"
  "wp G QH (ask_branches q) h \<longleftrightarrow> G h q \<and> (\<forall>x. QH (h @ [(q, Branches x)]) x)"
  "wp G QQ (ask_file q) h \<longleftrightarrow> G h q \<and> (\<forall>x. QQ (h @ [(q, Opened x)]) x)"
  "wp G QA (ask_names q) h \<longleftrightarrow> G h q \<and> (\<forall>x. QA (h @ [(q, Names x)]) x)"
  "wp G QM (ask_marquee_named t) h \<longleftrightarrow> G h (FindMarquee t) \<and> (\<forall>x. QM (h @ [(FindMarquee t, MarqueeRow x)]) x)"
  by (auto simp: ask_defs split: answer.splits)

lemma replay_asks [simp]:
  "replay (bind (ask_row q) f) (Row x # rs) = (case replay (f x) rs of (es, a) \<Rightarrow> ((q, Row x) # es, a))"
  by (simp add: ask_defs)

lemma guarded_tick [guarded_rules]:
  "(\<And>e. x = TickDone e \<Longrightarrow> guarded G (f e)) \<Longrightarrow> (x = TickTimeout \<Longrightarrow> guarded G m) \<Longrightarrow>
     (x = TickPoll \<Longrightarrow> guarded G n) \<Longrightarrow>
     guarded G (case x of TickDone e \<Rightarrow> f e | TickTimeout \<Rightarrow> m | TickPoll \<Rightarrow> n)"
  by (cases x) simp_all

lemma guarded_asks:
  "guarded G (ask_row q) \<longleftrightarrow> (\<forall>h. G h q)"
  "guarded G (ask_rows q) \<longleftrightarrow> (\<forall>h. G h q)"
  "guarded G (ask_swap q) \<longleftrightarrow> (\<forall>h. G h q)"
  "guarded G (ask_done q) \<longleftrightarrow> (\<forall>h. G h q)"
  "guarded G (ask_spec q) \<longleftrightarrow> (\<forall>h. G h q)"
  "guarded G ask_marquee \<longleftrightarrow> (\<forall>h. G h GetRuntimeMarquee)"
  "guarded G ask_clock \<longleftrightarrow> (\<forall>h. G h TimeNow)"
  "guarded G (ask_texts q) \<longleftrightarrow> (\<forall>h. G h q)"
  "guarded G (ask_observed q) \<longleftrightarrow> (\<forall>h. G h q)"
  "guarded G (ask_probe u) \<longleftrightarrow> (\<forall>h. G h (RouteProbe u))"
  "guarded G ask_tick \<longleftrightarrow> (\<forall>h. G h WaitTick)"
  "guarded G ask_random \<longleftrightarrow> (\<forall>h. G h RandomText)"
  "guarded G (ask_build q) \<longleftrightarrow> (\<forall>h. G h q)"
  "guarded G (ask_builds q) \<longleftrightarrow> (\<forall>h. G h q)"
  "guarded G (ask_prop u) \<longleftrightarrow> (\<forall>h. G h (FindPropByRepositoryURL u))"
  "guarded G (ask_commit q) \<longleftrightarrow> (\<forall>h. G h q)"
  "guarded G (ask_exists q) \<longleftrightarrow> (\<forall>h. G h q)"
  "guarded G (ask_built q) \<longleftrightarrow> (\<forall>h. G h q)"
  "guarded G (ask_marquee_id i) \<longleftrightarrow> (\<forall>h. G h (GetMarquee i))"
  "guarded G (ask_specs q) \<longleftrightarrow> (\<forall>h. G h q)"
  "guarded G (ask_count q) \<longleftrightarrow> (\<forall>h. G h q)"
  "guarded G (ask_prop_row q) \<longleftrightarrow> (\<forall>h. G h q)"
  "guarded G (ask_prop_rows q) \<longleftrightarrow> (\<forall>h. G h q)"
  "guarded G (ask_async q) \<longleftrightarrow> (\<forall>h. G h q)"
  "guarded G (ask_repository q) \<longleftrightarrow> (\<forall>h. G h q)"
  "guarded G (ask_branches q) \<longleftrightarrow> (\<forall>h. G h q)"
  "guarded G (ask_file q) \<longleftrightarrow> (\<forall>h. G h q)"
  "guarded G (ask_names q) \<longleftrightarrow> (\<forall>h. G h q)"
  "guarded G (ask_marquee_named t) \<longleftrightarrow> (\<forall>h. G h (FindMarquee t))"
  by (simp_all add: guarded_def)

lemmas guarded_ask_rules = guarded_asks[THEN iffD2]

subsection \<open>The contract of a guard\<close>

text \<open>Requests that neither write a row nor stop or remove anything.\<close>

definition quiet :: "request \<Rightarrow> bool" where
  "quiet q = (case q of SyncSource _ _ \<Rightarrow> False | DestroyCompose _ _ \<Rightarrow> False | StopCompose _ _ \<Rightarrow> False
     | DeletePlayground _ \<Rightarrow> False | SavePlayground _ \<Rightarrow> False | SavePlaygroundIfCurrent _ _ _ \<Rightarrow> False
     | CreatePlayground _ \<Rightarrow> False | DownCompose _ _ \<Rightarrow> False | RenameRow _ _ \<Rightarrow> False | _ \<Rightarrow> True)"

lemma quiet_simps [simp]:
  "quiet (GetPlayground i)" "quiet ListPlaygrounds"
  "quiet (GetPlayspec i)" "quiet GetRuntimeMarquee" "quiet TimeNow" "quiet (SourceDirtyPaths mq p ps)"
  "quiet (InspectServices mq p)" "quiet (StartCompose mq p)" "quiet (DeployCompose mq p i y)"
  "quiet (RuntimeArtifactDrift mq p y)" "quiet (EnsurePrerequisites mq)" "quiet (PreparePlaygroundWorkspace mq p i)"
  "quiet (ListPlaygroundProjects mq)" "quiet (RouteProbe u)" "quiet WaitTick" "quiet RandomText"
  "quiet (FindPropByRepositoryURL u)" "quiet (CreateBuildRecord b)" "quiet (SaveBuildRecord b)" "quiet (GetBuildRecord i)"
  "quiet (ListReusableBuildRecords rq)" "quiet (ResolveSourceCommit mq p x)" "quiet (ImageExistsForBuild mq p x y)"
  "quiet (BuildImage mq bq)" "quiet (GetMarquee i)" "quiet (CreateAsync a)" "quiet (SaveAsync a)"
  "quiet (FindPlayground t)" "quiet (FindPlayspec t)" "quiet (FindMarquee t)" "quiet (ComposeLogs mq p x n)"
  by (simp_all add: quiet_def)

definition inside_checkouts :: "string \<Rightarrow> string \<Rightarrow> bool" where
  "inside_checkouts project path =
     (\<exists>rest. rest \<noteq> [] \<and> path = trim_right_set ''/'' (PlaygroundPath project) @ ''/props/'' @ rest)"

text \<open>What a property's guard must allow so that the handlers every property shares are inside it: quiet requests,
syncs inside the project's checkouts, and the write of an error state.\<close>

locale worker_guard =
  fixes G :: "history \<Rightarrow> request \<Rightarrow> bool"
  assumes quiet_allowed: "quiet q \<Longrightarrow> G h q"
    and sync_allowed: "inside_checkouts (gr_project g) (gr_target g) \<Longrightarrow> G h (SyncSource mq g)"
    and error_allowed: "pg_status pg = StatusError \<Longrightarrow> G h (SavePlayground pg)"
begin

lemmas quiet_guarded = guarded_ask_rules[OF allI, OF quiet_allowed]

end

text \<open>For refresh and reconciliation: any write of a row, and the clean-up of a row whose last read said it is being
stopped or destroyed.\<close>

locale refresh_guard = worker_guard +
  assumes save_allowed: "G h (SavePlayground pg)"
    and stop_superseded: "pg_status pg = StatusStopping \<or> pg_status pg = StatusStopped \<Longrightarrow>
      G (h @ [(GetPlayground i, Row (Inr pg))]) (StopCompose mq project)"
    and destroy_superseded: "pg_status pg = StatusDestroying \<Longrightarrow>
      G (h @ [(GetPlayground i, Row (Inr pg))]) (DestroyCompose mq project)"
begin

lemma guarded_save: "guarded G (ask_row (SavePlayground pg))"
  by (simp add: guarded_asks save_allowed)

end

end
