(* ===== verification/SourceSync.thy ===== *)
theory SourceSync
  imports WorkerEffects GitRepos
begin

text \<open>
  Source sync of the worker: \<open>internal/worker/source\_sync.go\<close> (plans, the sync itself, the classification of its
  failures) with the helpers it shares (\<open>helpers.go\<close>) and the checked checkout path of the runtime
  (\<open>internal/runtime/build\_types.go\<close>, \<open>project.go\<close>). The lemmas say where a sync may write and what a failure
  report still holds of the credentials git printed.
\<close>

subsection \<open>Text helpers (helpers.go)\<close>

definition firstNonEmpty :: "string list \<Rightarrow> string" where
  "firstNonEmpty values = (case filter (\<lambda>t. t \<noteq> []) (map trim_space values) of [] \<Rightarrow> [] | t # _ \<Rightarrow> t)"

definition containsAny :: "string \<Rightarrow> string list \<Rightarrow> bool" where
  "containsAny haystack needles = list_ex (str_contains haystack) needles"

definition firstLine :: "string \<Rightarrow> string" where
  "firstLine text =
     (case filter (\<lambda>l. l \<noteq> []) (map trim_space (split_char (CHR 0x0A) (trim_space text))) of [] \<Rightarrow> [] | l # _ \<Rightarrow> l)"

definition mergeErrorDetails :: "doc option \<Rightarrow> string \<Rightarrow> any \<Rightarrow> doc" where
  "mergeErrorDetails existing key v = put_key key v (case existing of None \<Rightarrow> [] | Some m \<Rightarrow> m)"

definition playgroundServiceNames :: "service_info list \<Rightarrow> string list" where
  "playgroundServiceNames services = filter (\<lambda>n. trim_space n \<noteq> []) (map svc_name services)"

text \<open>\<open>\s\<close> of a regular expression.\<close>

definition regex_space :: "char \<Rightarrow> bool" where
  "regex_space c = (c = CHR '' '' \<or> c = CHR 0x09 \<or> c = CHR 0x0A \<or> c = CHR 0x0C \<or> c = CHR 0x0D)"

definition userinfo_char :: "char \<Rightarrow> bool" where
  "userinfo_char c = (c \<noteq> CHR ''/'' \<and> c \<noteq> CHR ''@'' \<and> \<not> regex_space c)"

text \<open>\<open>(https?://)[^/@\s]*@\<close> at the start of a string: the scheme and the rest after the match.\<close>

definition gitCredentialURLPattern :: "string \<Rightarrow> (string \<times> string) option" where
  "gitCredentialURLPattern s =
     (let sch = (if has_prefix s ''https://'' then ''https://'' else if has_prefix s ''http://'' then ''http://'' else [])
      in if sch = [] then None
         else case dropWhile userinfo_char (drop (length sch) s) of
                c # rest \<Rightarrow> if c = CHR ''@'' then Some (sch, rest) else None
              | [] \<Rightarrow> None)"

text \<open>\<open>(?i)(authorization:\s*(?:basic|bearer)\s+)[A-Za-z0-9.\_~+/=-]+\<close> at the start of a string: the header and the
rest after the match. Case is folded for ASCII.\<close>

definition token_char :: "char \<Rightarrow> bool" where
  "token_char c = (is_upper c \<or> is_lower c \<or> is_digit c \<or> c \<in> set ''._~+/=-'')"

definition gitAuthHeaderPattern :: "string \<Rightarrow> (string \<times> string) option" where
  "gitAuthHeaderPattern s =
     (if map lower_char (take 14 s) \<noteq> ''authorization:'' then None
      else let s1 = drop 14 s; s2 = dropWhile regex_space s1;
               kind = (if map lower_char (take 5 s2) = ''basic'' then 5
                       else if map lower_char (take 6 s2) = ''bearer'' then 6 else 0::nat);
               s3 = drop kind s2; s4 = dropWhile regex_space s3
           in if kind = 0 \<or> s4 = s3 \<or> takeWhile token_char s4 = [] then None
              else Some (take (length s - length s4) s, dropWhile token_char s4))"

lemma gitCredentialURLPattern_Some:
  assumes "gitCredentialURLPattern s = Some (h, rest)"
  shows "h \<in> {''https://'', ''http://''} \<and> has_prefix s h \<and>
    dropWhile userinfo_char (drop (length h) s) = CHR ''@'' # rest"
  using assms unfolding gitCredentialURLPattern_def Let_def by (auto split: if_splits list.splits)

lemma gitCredentialURLPattern_shorter: "gitCredentialURLPattern s = Some (h, rest) \<Longrightarrow> length rest < length s"
proof -
  assume "gitCredentialURLPattern s = Some (h, rest)"
  then have d: "dropWhile userinfo_char (drop (length h) s) = CHR ''@'' # rest"
    using gitCredentialURLPattern_Some by blast
  have "length (dropWhile userinfo_char (drop (length h) s)) \<le> length (drop (length h) s)"
    by (rule length_dropWhile_le)
  then have "Suc (length rest) \<le> length s - length h" unfolding d by simp
  then show ?thesis by linarith
qed

lemma gitAuthHeaderPattern_shorter: "gitAuthHeaderPattern s = Some (h, rest) \<Longrightarrow> length rest < length s"
proof -
  assume a: "gitAuthHeaderPattern s = Some (h, rest)"
  define s2 where "s2 = dropWhile regex_space (drop 14 s)"
  obtain k where t: "takeWhile token_char (dropWhile regex_space (drop k s2)) \<noteq> []"
    and r: "rest = dropWhile token_char (dropWhile regex_space (drop k s2))"
    using a unfolding gitAuthHeaderPattern_def Let_def s2_def by (auto split: if_splits)
  let ?s4 = "dropWhile regex_space (drop k s2)"
  have "length rest < length ?s4"
    using t r by (metis append_Nil length_dropWhile_le nat_less_le takeWhile_dropWhile_id length_append
        add_cancel_left_left length_0_conv)
  moreover have "length ?s4 \<le> length s"
    by (metis s2_def length_dropWhile_le length_drop diff_le_self order_trans)
  ultimately show ?thesis by simp
qed

function redact_urls :: "string \<Rightarrow> string" where
  "redact_urls s =
     (case gitCredentialURLPattern s of
        Some (h, rest) \<Rightarrow> h @ ''***@'' @ redact_urls rest
      | None \<Rightarrow> (case s of [] \<Rightarrow> [] | c # t \<Rightarrow> c # redact_urls t))"
  by pat_completeness auto
termination
  by (relation "measure length") (auto dest: gitCredentialURLPattern_shorter)

function redact_headers :: "string \<Rightarrow> string" where
  "redact_headers s =
     (case gitAuthHeaderPattern s of
        Some (h, rest) \<Rightarrow> h @ ''***'' @ redact_headers rest
      | None \<Rightarrow> (case s of [] \<Rightarrow> [] | c # t \<Rightarrow> c # redact_headers t))"
  by pat_completeness auto
termination
  by (relation "measure length") (auto dest: gitAuthHeaderPattern_shorter)

declare redact_urls.simps [simp del] redact_headers.simps [simp del]

definition redactGitCredentials :: "string \<Rightarrow> string" where
  "redactGitCredentials s = redact_headers (redact_urls s)"

subsection \<open>Checkout paths (runtime/project.go, runtime/build\_types.go)\<close>

definition invalidComposeProjectRune :: "char \<Rightarrow> bool" where
  "invalidComposeProjectRune c = (\<not> is_lower c \<and> \<not> is_digit c \<and> c \<noteq> CHR ''-'' \<and> c \<noteq> CHR ''_'')"

definition startsWithComposeSeparator :: "string \<Rightarrow> bool" where
  "startsWithComposeSeparator project = (has_prefix project ''-'' \<or> has_prefix project ''_'')"

definition validateComposeProject :: "string \<Rightarrow> string option" where
  "validateComposeProject project0 =
     (let project = trim_space project0
      in if project = [] then Some ''compose project is required''
         else if startsWithComposeSeparator project \<or> list_ex invalidComposeProjectRune project
           then Some (''unsafe compose project '' @ go_quote project)
         else None)"

definition playgroundBase :: "string \<Rightarrow> string + string" where
  "playgroundBase project =
     (case validateComposeProject project of Some e \<Rightarrow> Inl e | None \<Rightarrow> Inr (PlaygroundPath project))"

definition NewRemoteCheckoutPath :: "string \<Rightarrow> string \<Rightarrow> string + string" where
  "NewRemoteCheckoutPath project raw =
     (case playgroundBase project of
        Inl e \<Rightarrow> Inl e
      | Inr base \<Rightarrow>
          (if \<not> ValidRemoteCheckoutPath (trim_space raw) base
           then Inl ''runtime checkout path must be an absolute checkout path under this playground''
           else Inr (path_clean (trim_space raw))))"

subsection \<open>Source paths of a row (helpers.go)\<close>

definition validatedSourceServices :: "regex_engine \<Rightarrow> yaml_lib \<Rightarrow> string \<Rightarrow> string \<Rightarrow> go_error + Summary list" where
  "validatedSourceServices rx Y composeYAML purpose =
     (let validation = Validate rx Y composeYAML
      in if \<not> val_valid validation
         then Inl (ErrText (''validate compose for '' @ purpose @ '': '' @ join_str ''; '' (val_errors validation)))
         else Inr (val_services validation))"

definition sourcePathForSummary :: "string \<Rightarrow> Summary \<Rightarrow> string option" where
  "sourcePathForSummary project s =
     (if s_repo_url s = [] then None else Some (SourceCheckoutPath project (s_repo_url s) (SourceBranch s)))"

definition sourcePathsForSummaries :: "string \<Rightarrow> Summary list \<Rightarrow> string list" where
  "sourcePathsForSummaries project summaries = List.map_filter (sourcePathForSummary project) summaries"

definition sourcePathsForPlayground ::
    "regex_engine \<Rightarrow> yaml_lib \<Rightarrow> playground \<Rightarrow> string \<Rightarrow> go_error + string list" where
  "sourcePathsForPlayground rx Y pg composeYAML =
     (case pg_compose_project pg of
        None \<Rightarrow> Inr []
      | Some project \<Rightarrow>
          (if composeYAML = [] then Inr []
           else map_sum id (sourcePathsForSummaries project)
                  (validatedSourceServices rx Y composeYAML ''source paths'')))"

subsection \<open>Plans (source\_sync.go)\<close>

record sourceSyncPlan =
  sp_project :: string
  sp_service :: string
  sp_repo_url :: string
  sp_branch :: string
  sp_target :: string

definition source_sync_plan :: "string \<Rightarrow> Summary \<Rightarrow> go_error + sourceSyncPlan option" where
  "source_sync_plan project s =
     (if s_repo_url s = [] then Inr None
      else let branch = SourceBranch s
           in case NewRemoteCheckoutPath project (SourceCheckoutPath project (s_repo_url s) branch) of
                Inl e \<Rightarrow> Inl (ErrText e)
              | Inr target \<Rightarrow>
                  Inr (Some \<lparr>sp_project = project, sp_service = s_name s, sp_repo_url = s_repo_url s,
                         sp_branch = branch, sp_target = target\<rparr>))"

fun sourceSyncPlans :: "string \<Rightarrow> Summary list \<Rightarrow> go_error + sourceSyncPlan list" where
  "sourceSyncPlans project [] = Inr []"
| "sourceSyncPlans project (s # ss) =
     (case source_sync_plan project s of
        Inl e \<Rightarrow> Inl e
      | Inr p \<Rightarrow>
          map_sum id (\<lambda>ps. (case p of None \<Rightarrow> ps | Some plan \<Rightarrow> plan # ps)) (sourceSyncPlans project ss))"

subsection \<open>Failures (source\_sync.go)\<close>

definition sourceSyncNextActions :: "string list smap" where
  "sourceSyncNextActions =
     [(''source_sync_dirty_work'', [''commit or discard local changes before source sync can update the branch'']),
      (''source_sync_ahead'', [''push local commits or reset the branch before source sync can pull'']),
      (''source_sync_diverged'', [''resolve branch divergence manually before source sync can continue'']),
      (''source_sync_missing_upstream'', [''check that the configured branch still exists on the remote repository'']),
      (''source_sync_history_unverifiable'', [''inspect the source checkout before source sync can prove branch state'']),
      (''source_sync_git_auth'', [''check GitHub token access for the repository'']),
      (''source_sync_network'', [''check Marquee network access to the Git remote''])]"

definition defaultSourceSyncNextActions :: "string list" where
  "defaultSourceSyncNextActions = [''inspect the source checkout and retry source sync'']"

definition NextActions :: "sync_error \<Rightarrow> string list" where
  "NextActions e =
     (case map_of sourceSyncNextActions (se_category e) of Some a \<Rightarrow> a | None \<Rightarrow> defaultSourceSyncNextActions)"

definition PreservesWork :: "sync_error \<Rightarrow> bool" where
  "PreservesWork e =
     (se_category e \<in> set [''source_sync_dirty_work'', ''source_sync_ahead'', ''source_sync_diverged'',
        ''source_sync_missing_upstream'', ''source_sync_checkout_failed'', ''source_sync_history_unverifiable''])"

definition Details :: "sync_error \<Rightarrow> any" where
  "Details e =
     (let out = [(''category'', AStr (se_category e)), (''service'', AStr (se_service e)),
                 (''repository_url'', AStr (RedactRepositoryCredentials (se_repository_url e))),
                 (''branch'', AStr (se_branch e)), (''path'', AStr (se_path e)), (''message'', AStr (se_message e))]
      in AMap (if trim_space (se_output e) \<noteq> [] then put_key ''output'' (AStr (trim_space (se_output e))) out else out))"

definition matchSourceSyncMarker :: "string \<Rightarrow> string" where
  "matchSourceSyncMarker output =
     (let marker = ''fibe_distilled_source_sync_category=''
      in case filter (\<lambda>l. has_prefix l marker) (map trim_space (split_char (CHR 0x0A) output)) of
           [] \<Rightarrow> []
         | l # _ \<Rightarrow> trim_space (drop (length marker) l))"

record sourceSyncCategoryMatch =
  cm_category :: string
  cm_needles :: "string list"

definition sourceSyncCategoryMatches :: "sourceSyncCategoryMatch list" where
  "sourceSyncCategoryMatches =
     [\<lparr>cm_category = ''source_sync_git_auth'',
       cm_needles = [''authentication failed'', ''could not read username'', ''terminal prompts disabled'', ''permission denied'']\<rparr>,
      \<lparr>cm_category = ''source_sync_repository_not_found'', cm_needles = [''repository not found'', ''not found'']\<rparr>,
      \<lparr>cm_category = ''source_sync_network'',
       cm_needles = [''could not resolve host'', ''failed to connect'', ''connection reset'', ''timed out'']\<rparr>]"

definition sourceSyncCategory :: "string \<Rightarrow> string" where
  "sourceSyncCategory output =
     (if matchSourceSyncMarker output \<noteq> [] then ''source_sync_'' @ matchSourceSyncMarker output
      else case find (\<lambda>m. containsAny (to_lower output) (cm_needles m)) sourceSyncCategoryMatches of
             Some m \<Rightarrow> cm_category m
           | None \<Rightarrow> ''source_sync_failed'')"

definition sourceSyncMessages :: "string smap" where
  "sourceSyncMessages =
     [(''source_sync_dirty_work'', ''Source sync skipped to preserve dirty local work''),
      (''source_sync_ahead'', ''Source sync skipped because the local branch is ahead of upstream''),
      (''source_sync_diverged'', ''Source sync skipped because the local branch diverged from upstream''),
      (''source_sync_missing_upstream'', ''Source sync failed because the upstream branch is missing''),
      (''source_sync_checkout_failed'', ''Source sync failed because the target branch could not be checked out''),
      (''source_sync_history_unverifiable'', ''Source sync skipped because branch history could not be verified''),
      (''source_sync_git_auth'', ''Source sync failed because Git authentication failed''),
      (''source_sync_repository_not_found'', ''Source sync failed because the repository was not found''),
      (''source_sync_network'', ''Source sync failed because the Git remote was unreachable'')]"

definition sourceSyncMessage :: "string \<Rightarrow> string" where
  "sourceSyncMessage category =
     (let m = str_at sourceSyncMessages category in if m \<noteq> [] then m else ''Source sync failed'')"

text \<open>The command result the code builds holds the text of the error as its standard error output.\<close>

definition classifySourceSyncError :: "sourceSyncPlan \<Rightarrow> go_error \<Rightarrow> go_error" where
  "classifySourceSyncError plan err =
     (let output = redactGitCredentials (trim_space (CHR 0x0A # error_text err));
          category = sourceSyncCategory output;
          message = sourceSyncMessage category @ (if trim_space output \<noteq> [] then '': '' @ firstLine output else [])
      in ErrSync \<lparr>se_service = sp_service plan, se_repository_url = sp_repo_url plan, se_branch = sp_branch plan,
           se_path = sp_target plan, se_category = category, se_message = message, se_output = output\<rparr> err)"

subsection \<open>Sync (source\_sync.go)\<close>

text \<open>The fields of the worker the handlers read; \<open>w_fuel\<close> bounds the rounds of a loop that may not end.\<close>

record worker =
  w_has_db :: bool
  w_github_token :: string
  w_fuel :: nat

definition runSourceSync :: "worker \<Rightarrow> marquee \<Rightarrow> sourceSyncPlan \<Rightarrow> go_error option io" where
  "runSourceSync w mq plan =
     bind (ask_done (SyncSource mq \<lparr>gr_project = sp_project plan, gr_service = sp_service plan,
            gr_repo_url = sp_repo_url plan, gr_branch = sp_branch plan, gr_target = sp_target plan,
            gr_token = w_github_token w\<rparr>))
       (\<lambda>err. Ret (case err of None \<Rightarrow> None | Some e \<Rightarrow> Some (classifySourceSyncError plan e)))"

fun runSourceSyncPlans :: "worker \<Rightarrow> marquee \<Rightarrow> sourceSyncPlan list \<Rightarrow> go_error option io" where
  "runSourceSyncPlans w mq [] = Ret None"
| "runSourceSyncPlans w mq (plan # plans) =
     bind (runSourceSync w mq plan)
       (\<lambda>err. case err of Some e \<Rightarrow> Ret (Some e) | None \<Rightarrow> runSourceSyncPlans w mq plans)"

definition syncSources ::
    "regex_engine \<Rightarrow> yaml_lib \<Rightarrow> worker \<Rightarrow> marquee \<Rightarrow> string \<Rightarrow> playspec \<Rightarrow> go_error option io" where
  "syncSources rx Y w mq project ps =
     (case validatedSourceServices rx Y (ps_base_compose_yaml ps) ''source sync'' of
        Inl e \<Rightarrow> Ret (Some e)
      | Inr summaries \<Rightarrow>
          (case sourceSyncPlans project summaries of
             Inl e \<Rightarrow> Ret (Some e)
           | Inr plans \<Rightarrow> runSourceSyncPlans w mq plans))"

subsection \<open>Facts\<close>

text \<open>What a sync of a project asks: a checkout of it, at a path strictly inside its directory of checkouts.\<close>

lemma NewRemoteCheckoutPath_Inr: "NewRemoteCheckoutPath project raw = Inr p \<Longrightarrow> inside_checkouts project p"
proof -
  assume a: "NewRemoteCheckoutPath project raw = Inr p"
  then have v: "ValidRemoteCheckoutPath (trim_space raw) (PlaygroundPath project)" and p: "p = path_clean (trim_space raw)"
    by (auto simp: NewRemoteCheckoutPath_def playgroundBase_def split: sum.splits option.splits if_splits)
  obtain rest where "path_clean (trim_space (trim_space raw)) = trim_right_set ''/'' (PlaygroundPath project) @ ''/props/'' @ rest"
    and "rest \<noteq> []" by (rule ValidRemoteCheckoutPath_below[OF v])
  then show ?thesis by (auto simp: inside_checkouts_def p trim_space_idem)
qed

lemma source_sync_plan_target:
  "source_sync_plan project s = Inr (Some p) \<Longrightarrow> sp_project p = project \<and> inside_checkouts project (sp_target p)"
  by (auto simp: source_sync_plan_def Let_def dest: NewRemoteCheckoutPath_Inr split: if_splits sum.splits)

lemma sourceSyncPlans_targets:
  "sourceSyncPlans project ss = Inr plans \<Longrightarrow> p \<in> set plans \<Longrightarrow>
     sp_project p = project \<and> inside_checkouts project (sp_target p)"
proof (induction ss arbitrary: plans)
  case Nil
  then show ?case by simp
next
  case (Cons s ss)
  then obtain x ps where "source_sync_plan project s = Inr x" "sourceSyncPlans project ss = Inr ps"
    "plans = (case x of None \<Rightarrow> ps | Some plan \<Rightarrow> plan # ps)"
    by (cases "source_sync_plan project s"; cases "sourceSyncPlans project ss") auto
  with Cons.IH[of ps] Cons.prems(2) show ?case
    by (cases x) (auto dest: source_sync_plan_target)
qed

context worker_guard
begin

lemma guarded_runSourceSyncPlans:
  assumes "\<And>p. p \<in> set plans \<Longrightarrow> inside_checkouts (sp_project p) (sp_target p)"
  shows "guarded G (runSourceSyncPlans w mq plans)"
  using assms
proof (induction plans)
  case Nil
  show ?case by (simp add: guarded_Ret)
next
  case (Cons p plans)
  have "guarded G (runSourceSync w mq p)" using Cons.prems[of p]
    unfolding runSourceSync_def
    by (intro guarded_rules) (simp add: guarded_asks sync_allowed)
  moreover have "guarded G (runSourceSyncPlans w mq plans)" using Cons by simp
  ultimately show ?case by (auto intro!: guarded_rules)
qed

lemma guarded_syncSources [guarded_rules]: "guarded G (syncSources rx Y w mq project ps)"
  unfolding syncSources_def
  by (intro guarded_rules guarded_runSourceSyncPlans) (auto dest: sourceSyncPlans_targets)

end

subsection \<open>Properties\<close>

lemma wp_sync_until_failure:
  assumes "\<And>p. p \<in> set plans \<Longrightarrow> sp_project p = project \<and> inside_checkouts project (sp_target p)"
    and "\<forall>e \<in> set h. snd e = Done None"
  shows "wp (\<lambda>h q. (\<forall>e \<in> set h. snd e = Done None) \<and> (\<exists>g. q = SyncSource mq g \<and> gr_project g = project \<and>
      inside_checkouts project (gr_target g) \<and> gr_token g = w_github_token w)) (\<lambda>_ _. True) (runSourceSyncPlans w mq plans) h"
  using assms
proof (induction plans arbitrary: h)
  case (Cons p plans)
  have "\<forall>e \<in> set (h @ [(q, Done None)]). snd e = Done None" for q using Cons.prems(2) by auto
  from Cons.IH[OF _ this] Cons.prems show ?case
    by (auto simp: runSourceSync_def split: option.split)
qed simp

text \<open>The syncs of a project check sources out for that project only, each at a path strictly inside its directory
of checkouts, with the worker's token; and after a sync has failed no other is started.\<close>

theorem syncs_stay_in_checkouts:
  assumes "sourceSyncPlans project summaries = Inr plans"
    and "trace (runSourceSyncPlans w mq plans) (es1 @ (q, r) # es2)"
  shows "(\<forall>e \<in> set es1. snd e = Done None) \<and>
    (\<exists>g. q = SyncSource mq g \<and> gr_project g = project \<and> inside_checkouts project (gr_target g) \<and>
      gr_token g = w_github_token w)"
  using wp_trace[OF wp_sync_until_failure[where h = "[]" and mq = mq and w = w] assms(2) refl]
    sourceSyncPlans_targets[OF assms(1)] by force

definition demo_summary :: Summary where
  "demo_summary = \<lparr>s_name = ''web'', s_type = serviceTypeDynamic, s_image = [], s_build = False, s_port = 0, s_visibility = [],
     s_subdomain = [], s_repo_url = ''https://github.com/acme/demo'', s_branch = ''main'', s_dockerfile = [], s_source_mount = [],
     s_production = False, s_path_rule = [], s_start_command = [], s_build_target = [], s_build_args = []\<rparr>"

definition demo_plan :: sourceSyncPlan where
  "demo_plan = \<lparr>sp_project = ''p-1'', sp_service = ''web'', sp_repo_url = ''https://github.com/acme/demo'', sp_branch = ''main'',
     sp_target = ''/opt/fibe/playgrounds/p-1/props/acme-demo/main''\<rparr>"

definition demo_git_request :: git_request where
  "demo_git_request = \<lparr>gr_project = ''p-1'', gr_service = ''web'', gr_repo_url = ''https://github.com/acme/demo'',
     gr_branch = ''main'', gr_target = ''/opt/fibe/playgrounds/p-1/props/acme-demo/main'', gr_token = ''t''\<rparr>"

theorem syncs_stay_in_checkouts_witness:
  "sourceSyncPlans ''p-1'' [demo_summary] = Inr [demo_plan] \<and>
   inside_checkouts ''p-1'' (gr_target demo_git_request)"
proof -
  have plans: "sourceSyncPlans ''p-1'' [demo_summary] = Inr [demo_plan]" by code_simp
  let ?w = "\<lparr>w_has_db = True, w_github_token = ''t'', w_fuel = 1\<rparr>"
  have "trace (runSourceSyncPlans ?w mq [demo_plan]) ([] @ (SyncSource mq demo_git_request, Done None) # [])" for mq
    by (simp add: runSourceSync_def ask_defs trace_simps demo_plan_def demo_git_request_def)
  from syncs_stay_in_checkouts[OF plans this] plans show ?thesis by auto
qed

end
