(* ===== verification/GoRegexp.thy ===== *)
theory GoRegexp
  imports GoUnicode
begin

text \<open>
  \<open>regexp\<close> of Go's library as far as the failure classifier uses it: character classes, sequences, ordered
  alternatives, greedy repetition, groups, the anchors of a text and word boundaries, with the leftmost-first match
  the library documents. A match is computed as the list of all ways to match at a position, in order of preference.
  Strings are bytes; a class that excludes ASCII characters only takes the bytes of a rune one by one, which captures
  the same text. \<open>(?i)\<close> folds ASCII letters.
\<close>

datatype rx =
    RClass "char \<Rightarrow> bool"
  | REps
  | RSeq rx rx
  | RAlt rx rx
  | RStar rx
  | RGroup rx
  | RBegin
  | REnd
  | RWord

text \<open>A position: the byte before it, what is left, and the texts of the groups closed so far.\<close>

record rx_state =
  rs_prev :: "char option"
  rs_rest :: string
  rs_groups :: "string list"

definition regex_word :: "char option \<Rightarrow> bool" where
  "regex_word c = (case c of None \<Rightarrow> False | Some a \<Rightarrow> is_upper a \<or> is_lower a \<or> is_digit a \<or> a = CHR ''_'')"

definition rx_head :: "rx_state \<Rightarrow> char option" where
  "rx_head s = (case rs_rest s of [] \<Rightarrow> None | c # _ \<Rightarrow> Some c)"

definition rx_shorter :: "rx_state \<Rightarrow> rx_state \<Rightarrow> bool" where
  "rx_shorter a b = (length (rs_rest a) < length (rs_rest b))"

text \<open>Greedy repetition: first one more round, which must consume something, then none.\<close>

fun rx_star :: "(rx_state \<Rightarrow> rx_state list) \<Rightarrow> nat \<Rightarrow> rx_state \<Rightarrow> rx_state list" where
  "rx_star f 0 s = [s]"
| "rx_star f (Suc n) s = concat (map (rx_star f n) (filter (\<lambda>t. rx_shorter t s) (f s))) @ [s]"

primrec rx_matches :: "rx \<Rightarrow> rx_state \<Rightarrow> rx_state list" where
  "rx_matches (RClass p) = (\<lambda>s. case rs_rest s of
      [] \<Rightarrow> [] | c # t \<Rightarrow> if p c then [s\<lparr>rs_prev := Some c, rs_rest := t\<rparr>] else [])"
| "rx_matches REps = (\<lambda>s. [s])"
| "rx_matches (RSeq a b) = (\<lambda>s. concat (map (rx_matches b) (rx_matches a s)))"
| "rx_matches (RAlt a b) = (\<lambda>s. rx_matches a s @ rx_matches b s)"
| "rx_matches (RStar a) = (\<lambda>s. rx_star (rx_matches a) (length (rs_rest s)) s)"
| "rx_matches (RGroup a) = (\<lambda>s. map (\<lambda>t. t\<lparr>rs_groups :=
      rs_groups t @ [take (length (rs_rest s) - length (rs_rest t)) (rs_rest s)]\<rparr>) (rx_matches a s))"
| "rx_matches RBegin = (\<lambda>s. if rs_prev s = None then [s] else [])"
| "rx_matches REnd = (\<lambda>s. if rs_rest s = [] then [s] else [])"
| "rx_matches RWord = (\<lambda>s. if regex_word (rs_prev s) \<noteq> regex_word (rx_head s) then [s] else [])"

text \<open>The leftmost match from a position on: what comes before it, the matched text, the groups, the state after.\<close>

record rx_match =
  rm_before :: string
  rm_text :: string
  rm_groups :: "string list"
  rm_prev :: "char option"
  rm_rest :: string

fun rx_find :: "rx \<Rightarrow> char option \<Rightarrow> string \<Rightarrow> rx_match option" where
  "rx_find r prev s =
     (case rx_matches r \<lparr>rs_prev = prev, rs_rest = s, rs_groups = []\<rparr> of
        t # _ \<Rightarrow> Some \<lparr>rm_before = [], rm_text = take (length s - length (rs_rest t)) s, rm_groups = rs_groups t,
           rm_prev = rs_prev t, rm_rest = rs_rest t\<rparr>
      | [] \<Rightarrow> (case s of [] \<Rightarrow> None
             | c # u \<Rightarrow> map_option (\<lambda>m. m\<lparr>rm_before := c # rm_before m\<rparr>) (rx_find r (Some c) u)))"

declare rx_find.simps [simp del]

definition MatchString :: "rx \<Rightarrow> string \<Rightarrow> bool" where
  "MatchString r s = (rx_find r None s \<noteq> None)"

text \<open>\<open>FindAllStringSubmatch\<close> and \<open>ReplaceAllString\<close> with a constant, for patterns without empty matches; the number
of rounds is bounded by the length of the text.\<close>

fun rx_find_all :: "nat \<Rightarrow> rx \<Rightarrow> char option \<Rightarrow> string \<Rightarrow> string list list" where
  "rx_find_all 0 r prev s = []"
| "rx_find_all (Suc n) r prev s =
     (case rx_find r prev s of None \<Rightarrow> []
      | Some m \<Rightarrow> rm_groups m # rx_find_all n r (rm_prev m) (rm_rest m))"

fun rx_replace :: "nat \<Rightarrow> rx \<Rightarrow> string \<Rightarrow> char option \<Rightarrow> string \<Rightarrow> string" where
  "rx_replace 0 r repl prev s = s"
| "rx_replace (Suc n) r repl prev s =
     (case rx_find r prev s of None \<Rightarrow> s
      | Some m \<Rightarrow> rm_before m @ repl @ rx_replace n r repl (rm_prev m) (rm_rest m))"

definition FindAllSubmatch :: "rx \<Rightarrow> string \<Rightarrow> string list list" where
  "FindAllSubmatch r s = rx_find_all (Suc (length s)) r None s"

definition ReplaceAllString :: "rx \<Rightarrow> string \<Rightarrow> string \<Rightarrow> string" where
  "ReplaceAllString r s repl = rx_replace (Suc (length s)) r repl None s"

subsection \<open>Building patterns\<close>

definition rx_dot :: rx where "rx_dot = RClass (\<lambda>c. c \<noteq> CHR 0x0A)"
definition rx_space_char :: "char \<Rightarrow> bool" where
  "rx_space_char c = (c = CHR '' '' \<or> c = CHR 0x09 \<or> c = CHR 0x0A \<or> c = CHR 0x0C \<or> c = CHR 0x0D)"
definition rx_s :: rx where "rx_s = RClass rx_space_char"
definition rx_plus :: "rx \<Rightarrow> rx" where "rx_plus r = RSeq r (RStar r)"
definition rx_opt :: "rx \<Rightarrow> rx" where "rx_opt r = RAlt r REps"
definition rx_seq :: "rx list \<Rightarrow> rx" where "rx_seq rs = foldr RSeq rs REps"
definition rx_lit :: "string \<Rightarrow> rx" where "rx_lit s = rx_seq (map (\<lambda>c. RClass (\<lambda>d. d = c)) s)"
definition rx_ilit :: "string \<Rightarrow> rx" where "rx_ilit s = rx_seq (map (\<lambda>c. RClass (\<lambda>d. lower_char d = lower_char c)) s)"

fun rx_alts :: "rx list \<Rightarrow> rx" where
  "rx_alts [] = RClass (\<lambda>_. False)"
| "rx_alts [r] = r"
| "rx_alts (r # rs) = RAlt r (rx_alts rs)"

text \<open>\<open>a.*b\<close> for two texts.\<close>

definition rx_gap :: "string \<Rightarrow> string \<Rightarrow> rx" where
  "rx_gap a b = rx_seq [rx_lit a, RStar rx_dot, rx_lit b]"

subsection \<open>Facts\<close>

lemma rx_star_rest:
  assumes "\<And>s t. t \<in> set (f s) \<Longrightarrow> \<exists>w. rs_rest s = w @ rs_rest t"
  shows "t \<in> set (rx_star f n s) \<Longrightarrow> \<exists>w. rs_rest s = w @ rs_rest t"
proof (induction n arbitrary: s)
  case 0
  then show ?case by simp
next
  case (Suc n)
  show ?case
  proof (cases "t = s")
    case True
    then show ?thesis by simp
  next
    case False
    then obtain u where u: "u \<in> set (f s)" "t \<in> set (rx_star f n u)" using Suc.prems by auto
    from assms[OF u(1)] Suc.IH[OF u(2)] show ?thesis by (metis append_assoc)
  qed
qed

text \<open>A match is a part of the text.\<close>

lemma rx_matches_rest: "t \<in> set (rx_matches r s) \<Longrightarrow> \<exists>w. rs_rest s = w @ rs_rest t"
proof (induction r arbitrary: s t)
  case (RClass p)
  then obtain c where "rs_rest s = c # rs_rest t"
    by (cases "rs_rest s") (auto split: if_splits)
  then show ?case by (intro exI[of _ "[c]"]) simp
next
  case (RSeq a b)
  then obtain u where "u \<in> set (rx_matches a s)" "t \<in> set (rx_matches b u)" by auto
  with RSeq.IH show ?case by (metis append_assoc)
next
  case (RStar a)
  then show ?case using rx_star_rest[of "rx_matches a"] by auto
next
  case (RGroup a)
  then obtain u where "u \<in> set (rx_matches a s)" "rs_rest t = rs_rest u" by auto
  with RGroup.IH show ?case by metis
qed (auto split: if_splits)

lemma rx_find_text: "rx_find r prev s = Some m \<Longrightarrow> s = rm_before m @ rm_text m @ rm_rest m"
proof (induction r prev s arbitrary: m rule: rx_find.induct)
  case (1 r prev s)
  let ?ms = "rx_matches r \<lparr>rs_prev = prev, rs_rest = s, rs_groups = []\<rparr>"
  show ?case
  proof (cases ?ms)
    case (Cons t ts)
    then have "t \<in> set ?ms" by simp
    from rx_matches_rest[OF this] obtain w where w: "s = w @ rs_rest t" by auto
    have m: "m = \<lparr>rm_before = [], rm_text = take (length s - length (rs_rest t)) s, rm_groups = rs_groups t,
        rm_prev = rs_prev t, rm_rest = rs_rest t\<rparr>"
      using "1.prems" Cons by (simp add: rx_find.simps[of r prev s])
    show ?thesis unfolding m using w by simp
  next
    case Nil
    then obtain c u m' where s: "s = c # u" and m': "rx_find r (Some c) u = Some m'" "m = m'\<lparr>rm_before := c # rm_before m'\<rparr>"
      using "1.prems" unfolding rx_find.simps[of r prev s] Nil by (cases s) auto
    from "1.IH"[OF Nil s m'(1)] m'(2) s show ?thesis by simp
  qed
qed

end
