(* ===== verification/Details.thy ===== *)
theory Details
  imports GoRegexp GoValues
begin

text \<open>
  \<open>internal/details\<close>: the classification of the output of failed Compose commands (\<open>failure.go\<close>, \<open>text.go\<close>) and the
  error shapes of the compatibility gate (\<open>compat.go\<close>). The patterns are transcribed into GoRegexp. The lemmas say
  that classification is total and ordered, and what the diagnostics always contain.
\<close>

subsection \<open>Text (text.go)\<close>

definition ansiPattern :: rx where
  "ansiPattern = rx_seq [RClass (\<lambda>c. c = CHR 0x1B), RClass (\<lambda>c. c = CHR ''[''),
     RStar (RClass (\<lambda>c. is_digit c \<or> c = CHR '';'')), RClass (\<lambda>c. c \<in> set ''mGKHF'')]"

definition stripANSI :: "string \<Rightarrow> string" where
  "stripANSI text = ReplaceAllString ansiPattern text []"

definition nonEmptyLines :: "string \<Rightarrow> string list" where
  "nonEmptyLines text = filter (\<lambda>l. l \<noteq> []) (map trim_space (split_char (CHR 0x0A) text))"

definition matchGroup :: "string \<Rightarrow> rx \<Rightarrow> string" where
  "matchGroup text pattern =
     (case rx_find pattern None text of
        None \<Rightarrow> []
      | Some m \<Rightarrow> (case rm_groups m of [] \<Rightarrow> [] | g # _ \<Rightarrow> trim_space g))"

fun dedupe_loop :: "string set \<Rightarrow> string list \<Rightarrow> string list" where
  "dedupe_loop seen [] = []"
| "dedupe_loop seen (x # xs) =
     (if x = [] \<or> x \<in> seen then dedupe_loop seen xs else x # dedupe_loop (insert x seen) xs)"

definition uniqueNames :: "string list \<Rightarrow> string list" where
  "uniqueNames names = sort_key (\<lambda>n. - int (length n)) (dedupe_loop {} (map trim_space names))"

definition dedupe :: "string list \<Rightarrow> string list" where
  "dedupe items = dedupe_loop {} items"

subsection \<open>Patterns (failure.go)\<close>

definition rx_quote :: rx where "rx_quote = rx_opt (RClass (\<lambda>c. c = CHR 0x22 \<or> c = CHR 0x27))"

definition rx_not_space :: rx where "rx_not_space = RClass (\<lambda>c. \<not> rx_space_char c)"

definition successfulExitPattern :: rx where
  "successfulExitPattern = rx_seq [rx_lit ''container'', rx_plus rx_s, rx_plus rx_not_space, rx_plus rx_s,
     rx_lit ''exited'', rx_plus rx_s, rx_lit ''(0)'']"

definition benignLifecycleLinePattern :: rx where
  "benignLifecycleLinePattern = rx_seq [RWord, RGroup (rx_alts (map rx_ilit
     [''Creating'', ''Created'', ''Starting'', ''Started'', ''Waiting'', ''Healthy''])), RStar rx_s, REnd]"

definition retryableInfrastructurePattern :: rx where
  "retryableInfrastructurePattern = rx_alts [rx_lit ''connection refused'', rx_lit ''lost connection'',
     rx_lit ''timed out'', rx_gap ''network'' ''failure'', rx_gap ''temporary'' ''failure'', rx_gap ''worker'' ''shutting down'']"

definition dockerPullAuthPattern :: rx where
  "dockerPullAuthPattern = rx_alts [rx_lit ''unauthorized'', rx_lit ''authentication required'',
     rx_lit ''pull access denied'', rx_gap ''requested access'' ''denied'', rx_lit ''access forbidden'',
     rx_lit ''invalid username or password'', rx_lit ''no basic auth credentials'']"

definition dockerPullMissingPattern :: rx where
  "dockerPullMissingPattern = rx_alts [rx_gap ''manifest'' ''not found'', rx_lit ''manifest unknown'',
     rx_lit ''repository does not exist'', rx_lit ''name unknown'']"

definition failedConditionPattern :: rx where
  "failedConditionPattern = rx_seq [rx_ilit ''condition'', rx_plus rx_s, rx_quote,
     RGroup (rx_plus (RClass (\<lambda>c. c \<noteq> CHR 0x22 \<and> c \<noteq> CHR 0x27 \<and> c \<noteq> CHR '','' \<and> c \<noteq> CHR 0x0A))), rx_quote]"

definition dependencyHintPattern :: rx where
  "dependencyHintPattern = rx_seq [rx_ilit ''dependency failed to start:'', RStar rx_s, RGroup (rx_plus rx_dot), REnd]"

definition failedServicePattern :: rx where
  "failedServicePattern = rx_seq [rx_ilit (''service '' @ [CHR 0x22]), RGroup (rx_plus (RClass (\<lambda>c. c \<noteq> CHR 0x22))),
     rx_ilit (CHR 0x22 # '' didn'' @ [CHR 0x27] @ ''t complete successfully'')]"

definition dependsOnServicePattern :: rx where
  "dependsOnServicePattern = rx_seq [rx_ilit ''depends on service'', rx_plus rx_s,
     RGroup (rx_plus (RClass (\<lambda>c. is_lower c \<or> is_upper c \<or> is_digit c \<or> c \<in> set ''_.-'')))]"

definition failedContainerPattern :: rx where
  "failedContainerPattern = rx_seq [rx_ilit ''container'', rx_plus rx_s, rx_quote,
     RGroup (rx_plus (RClass (\<lambda>c. c \<noteq> CHR 0x22 \<and> c \<noteq> CHR 0x27 \<and> \<not> rx_space_char c \<and> c \<noteq> CHR '','' \<and> c \<noteq> CHR '';''))),
     rx_quote, rx_plus rx_s, rx_alts [rx_ilit ''is unhealthy'', rx_ilit ''exited'']]"

record composeFailureRule =
  cr_category :: string
  cr_pattern :: rx

definition failure_rule :: "string \<Rightarrow> rx list \<Rightarrow> composeFailureRule" where
  "failure_rule c rs = \<lparr>cr_category = c, cr_pattern = rx_alts rs\<rparr>"

definition composeFailureRules :: "composeFailureRule list" where
  "composeFailureRules =
     [failure_rule ''timeout'' [rx_lit ''timed out'', rx_lit ''timeout''],
      failure_rule ''registry_rate_limited'' (map rx_lit
        [''toomanyrequests'', ''too many requests'', ''pull rate limit'', ''rate limit'']),
      failure_rule ''image_pull''
        [rx_lit ''pull access denied'', rx_gap ''requested access'' ''denied'', rx_gap ''manifest'' ''not found'',
         rx_lit ''manifest unknown'', rx_lit ''failed to resolve'', rx_lit ''no matching manifest'',
         rx_lit ''repository does not exist'', rx_lit ''unauthorized'', rx_lit ''authentication required'',
         rx_lit ''access forbidden'', rx_lit ''invalid username or password'', rx_lit ''no basic auth credentials'',
         rx_lit ''name unknown''],
      failure_rule ''port_bind'' (map rx_lit
        [''address already in use'', ''port is already allocated'', ''ports are not available'']),
      failure_rule ''container_conflict''
        [rx_gap ''conflict'' ''container'', rx_gap ''container name'' ''already in use'', rx_gap ''container'' ''already exists''],
      failure_rule ''host_init'' (map rx_lit [''docker-init'', ''init-path'']),
      failure_rule ''permission'' (map rx_lit [''permission denied'', ''operation not permitted'']),
      failure_rule ''network''
        [rx_gap ''network'' ''not found'', rx_lit ''failed to create network'', rx_lit ''could not find network''],
      failure_rule ''invalid_compose''
        [rx_lit ''yaml'', rx_lit ''unsupported config option'', rx_gap ''services'' ''must be'',
         rx_lit ''additional property'', rx_gap ''validating '' ''compose''],
      failure_rule ''dependency_unhealthy'' (map rx_lit
        [''dependency failed'', ''unhealthy'', ''condition service_healthy'', ''depends on service'']),
      failure_rule ''service_exit''
        [rx_lit (''didn'' @ [CHR 0x27] @ ''t complete successfully''), rx_lit ''exited'',
         rx_seq [rx_lit ''exit'', rx_plus rx_s, rx_plus (RClass is_digit)]],
      failure_rule ''volume_mount'' (map rx_lit [''mount'', ''volume'', ''no such file or directory''])]"

definition composeFailureActions :: "string smap" where
  "composeFailureActions =
     [(''dependency_unhealthy'', ''inspect dependency healthcheck and startup ordering''),
      (''service_exit'', ''inspect service command, environment, and recent logs''),
      (''image_pull'', ''check image name, tag, registry credentials, and network access''),
      (''registry_rate_limited'', ''configure Docker Hub credentials for the marquee runtime''),
      (''port_bind'', ''check host port conflicts on the marquee''),
      (''container_conflict'', ''retry current compose or remove stale containers for this compose project''),
      (''host_init'', ''configure Docker init-path on the marquee or remove init: true from the compose services''),
      (''volume_mount'', ''check mounted paths, named volumes, and file permissions''),
      (''permission'', ''check container user, host path permissions, and Docker socket access''),
      (''network'', ''check Docker networks and Traefik network availability''),
      (''invalid_compose'', ''validate generated compose YAML''),
      (''timeout'', ''poll playground status and inspect slow-starting services'')]"

subsection \<open>Classification (failure.go)\<close>

definition composeFailureCategory :: "string \<Rightarrow> string" where
  "composeFailureCategory clean =
     (let text = to_lower clean; withoutExits = ReplaceAllString successfulExitPattern text []
      in case find (\<lambda>r. MatchString (cr_pattern r)
             (if cr_category r = ''service_exit'' then withoutExits else text)) composeFailureRules of
           Some r \<Rightarrow> cr_category r
         | None \<Rightarrow> ''unknown'')"

definition decimalSuffix :: "string \<Rightarrow> bool" where
  "decimalSuffix text = (text \<noteq> [] \<and> list_all is_digit text)"

text \<open>What follows the last occurrence of a separator, if there is one.\<close>

fun after_last :: "string \<Rightarrow> string \<Rightarrow> string option" where
  "after_last sep [] = (if sep = [] then Some [] else None)"
| "after_last sep (c # s) =
     (case after_last sep s of
        Some t \<Rightarrow> Some t
      | None \<Rightarrow> if has_prefix (c # s) sep then Some (drop (length sep) (c # s)) else None)"

definition composeContainerMatchesService :: "string \<Rightarrow> string \<Rightarrow> bool" where
  "composeContainerMatchesService container service =
     ((case after_last (CHR ''-'' # service @ ''-'') container of None \<Rightarrow> False | Some t \<Rightarrow> decimalSuffix t) \<or>
      has_prefix container (service @ ''-'') \<and> decimalSuffix (drop (length service + 1) container))"

definition composeFailureContainerService :: "string \<Rightarrow> string list \<Rightarrow> string" where
  "composeFailureContainerService container serviceNames =
     (case find (composeContainerMatchesService container) serviceNames of None \<Rightarrow> [] | Some s \<Rightarrow> s)"

definition composeFailureService :: "string \<Rightarrow> string list \<Rightarrow> string" where
  "composeFailureService clean serviceNames =
     (if matchGroup clean failedServicePattern \<noteq> [] then matchGroup clean failedServicePattern
      else if matchGroup clean dependsOnServicePattern \<noteq> [] then matchGroup clean dependsOnServicePattern
      else let names = uniqueNames serviceNames
           in if names = [] then []
              else case filter (\<lambda>s. s \<noteq> []) (map (\<lambda>gs. composeFailureContainerService (hd gs) names)
                     (FindAllSubmatch failedContainerPattern clean)) of [] \<Rightarrow> [] | s # _ \<Rightarrow> s)"

definition composeErrorLine :: "string \<Rightarrow> bool" where
  "composeErrorLine line =
     (let lower = to_lower line
      in \<not> MatchString benignLifecycleLinePattern line \<and>
         (str_contains lower ''error'' \<or> str_contains lower ''failed'' \<or> str_contains lower ''exit '' \<or>
          str_contains lower ''level=error''))"

definition composeErrorLines :: "string list \<Rightarrow> string list" where
  "composeErrorLines lns = filter composeErrorLine lns"

definition tailLines :: "string list \<Rightarrow> nat \<Rightarrow> string list" where
  "tailLines lns n = drop (length lns - n) lns"

definition extractComposeError :: "string \<Rightarrow> string" where
  "extractComposeError stderr =
     (let lns = nonEmptyLines (stripANSI stderr)
      in if lns = [] then ''unknown error''
         else if composeErrorLines lns \<noteq> [] then join_str ''; '' (composeErrorLines lns)
         else join_str ''; '' (tailLines lns 3))"

definition retryableInfrastructureFailure :: "string \<Rightarrow> bool" where
  "retryableInfrastructureFailure message =
     (let text = to_lower message
      in if str_contains text ''clone failed'' then False else MatchString retryableInfrastructurePattern text)"

definition diskFullFailure :: "string \<Rightarrow> bool" where
  "diskFullFailure message = str_contains (to_lower message) ''no space left on device''"

definition dockerPullErrorType :: "string \<Rightarrow> string" where
  "dockerPullErrorType message =
     (let text = to_lower message
      in if MatchString dockerPullAuthPattern text then ''auth_failed''
         else if MatchString dockerPullMissingPattern text then ''not_found'' else ''unknown'')"

definition dockerPullDiagnostics :: "string \<Rightarrow> string \<Rightarrow> string" where
  "dockerPullDiagnostics message category =
     (let kind = dockerPullErrorType message
      in if kind \<noteq> ''unknown'' then kind else if category = ''image_pull'' then ''unknown'' else [])"

definition composeFailureNextActions :: "string \<Rightarrow> string \<Rightarrow> string list" where
  "composeFailureNextActions category failedService =
     (let action = str_at composeFailureActions category
      in dedupe ((if failedService \<noteq> [] then [''fetch logs for service '' @ failedService] else []) @
                 [if action = [] then ''retry current compose with diagnostics enabled'' else action]))"

record FailureDiagnostics =
  fd_category :: string
  fd_failed_service :: string
  fd_failed_condition :: string
  fd_dependency_hint :: string
  fd_compose_error :: string
  fd_docker_pull_error_type :: string
  fd_next_actions :: "string list"
  fd_retryable_infrastructure :: bool
  fd_disk_full :: bool

definition ClassifyComposeFailure :: "string \<Rightarrow> string list \<Rightarrow> FailureDiagnostics" where
  "ClassifyComposeFailure message serviceNames =
     (let clean = stripANSI message; category = composeFailureCategory clean;
          failedService = composeFailureService clean serviceNames
      in \<lparr>fd_category = category, fd_failed_service = failedService,
          fd_failed_condition = matchGroup clean failedConditionPattern,
          fd_dependency_hint = matchGroup clean dependencyHintPattern,
          fd_compose_error = extractComposeError clean,
          fd_docker_pull_error_type = dockerPullDiagnostics clean category,
          fd_next_actions = composeFailureNextActions category failedService,
          fd_retryable_infrastructure = retryableInfrastructureFailure clean,
          fd_disk_full = diskFullFailure clean\<rparr>)"

definition text_detail :: "string \<Rightarrow> string \<Rightarrow> doc" where
  "text_detail k v = (if v \<noteq> [] then [(k, AStr v)] else [])"

definition addComposeDetails :: "FailureDiagnostics \<Rightarrow> doc" where
  "addComposeDetails d =
     text_detail ''failed_service'' (fd_failed_service d) @ text_detail ''failed_condition'' (fd_failed_condition d) @
     text_detail ''dependency_hint'' (fd_dependency_hint d) @ text_detail ''compose_error'' (fd_compose_error d) @
     text_detail ''docker_pull_error_type'' (fd_docker_pull_error_type d) @
     (if fd_next_actions d \<noteq> [] then [(''next_actions'', AStrs (fd_next_actions d))] else [])"

definition diagnostics_details :: "FailureDiagnostics \<Rightarrow> doc" where
  "diagnostics_details d =
     [(''compose_failure'', AMap ((''category'', AStr (fd_category d)) # addComposeDetails d))] @
     (if fd_retryable_infrastructure d then [(''retryable_infrastructure'', ABool True)] else []) @
     (if fd_disk_full d then [(''disk_full'', ABool True)] else [])"

subsection \<open>Compatibility errors (compat.go)\<close>

definition CodeNotImplemented :: string where "CodeNotImplemented = ''NOT_IMPLEMENTED''"
definition CodePayloadTooLarge :: string where "CodePayloadTooLarge = ''PAYLOAD_TOO_LARGE''"

record APIErrorShape =
  sh_code :: string
  sh_message :: string
  sh_details :: doc

definition DedupeStrings :: "string list \<Rightarrow> string list" where
  "DedupeStrings values = dedupe_loop {} values"

definition PayloadTooLargeShape :: "string \<Rightarrow> string \<Rightarrow> string \<Rightarrow> string \<Rightarrow> int \<Rightarrow> APIErrorShape" where
  "PayloadTooLargeShape meth path resource operation maxBytes =
     \<lparr>sh_code = CodePayloadTooLarge, sh_message = ''request body exceeds fibe-distilled API body limit'',
      sh_details = [(''method'', AStr meth), (''path'', AStr path), (''resource'', AStr resource),
        (''operation'', AStr operation), (''max_bytes'', AInt KInt64 maxBytes),
        (''reason'', AStr ''fibe-distilled must fully inspect mutating API JSON bodies before handlers run'')]\<rparr>"

definition UnsupportedMethodShape :: "string \<Rightarrow> string \<Rightarrow> string \<Rightarrow> string list \<Rightarrow> APIErrorShape" where
  "UnsupportedMethodShape meth path resource supported =
     \<lparr>sh_code = CodeNotImplemented, sh_message = meth @ '' '' @ path @ '' is not supported by fibe-distilled'',
      sh_details = [(''method'', AStr meth), (''path'', AStr path), (''resource'', AStr resource),
        (''operation'', AStr ''method''), (''unsupported'', AStrs [''method:'' @ meth]),
        (''supported_methods'', AStrs supported),
        (''reason'', AStr (''this HTTP method is not part of fibe-distilled'' @ [CHR 0x27] @
           ''s supported API subset for this resource''))]\<rparr>"

definition UnsupportedSurfaceShape ::
    "string \<Rightarrow> string \<Rightarrow> string \<Rightarrow> string \<Rightarrow> string \<Rightarrow> string list \<Rightarrow> APIErrorShape" where
  "UnsupportedSurfaceShape meth path resource operation reason supported =
     \<lparr>sh_code = CodeNotImplemented,
      sh_message = ''fibe-distilled does not support '' @ resource @
        (if operation \<noteq> [] \<and> operation \<noteq> ''api'' then '' '' @ operation else []) @
        (if reason \<noteq> [] then '': '' @ reason else []),
      sh_details = [(''method'', AStr meth), (''path'', AStr path), (''resource'', AStr resource),
        (''operation'', AStr operation), (''unsupported'', AStrs [resource @ '':'' @ operation]), (''reason'', AStr reason)] @
        (if supported \<noteq> [] then [(''supported'', AStrs supported)] else [])\<rparr>"

definition UnsupportedItemsShape ::
    "string \<Rightarrow> string \<Rightarrow> string \<Rightarrow> string \<Rightarrow> string list \<Rightarrow> string list \<Rightarrow> string list \<Rightarrow> APIErrorShape" where
  "UnsupportedItemsShape meth path resource operation unsupported reasons supported =
     (let reason = join_str ''; '' (DedupeStrings reasons)
      in \<lparr>sh_code = CodeNotImplemented,
          sh_message = ''fibe-distilled does not support '' @ resource @ '' '' @ operation @
            (if reason \<noteq> [] then '': '' @ reason else []),
          sh_details = [(''method'', AStr meth), (''path'', AStr path), (''resource'', AStr resource),
            (''operation'', AStr operation), (''unsupported'', AStrs unsupported), (''reason'', AStr reason)] @
            (if supported \<noteq> [] then [(''supported'', AStrs supported)] else [])\<rparr>)"

subsection \<open>Facts\<close>

lemma dedupe_loop_spec:
  "distinct (dedupe_loop seen xs) \<and> set (dedupe_loop seen xs) = set xs - seen - {[]}"
  by (induction seen xs rule: dedupe_loop.induct) auto

lemma composeFailureCategory_known:
  "composeFailureCategory clean \<in> insert ''unknown'' (cr_category ` set composeFailureRules)"
  unfolding composeFailureCategory_def Let_def
  by (simp split: option.split) (auto simp: find_Some_iff)

lemma composeFailureNextActions_ne: "composeFailureNextActions category service \<noteq> []"
proof -
  define action where "action = str_at composeFailureActions category"
  define last where "last = (if action = [] then ''retry current compose with diagnostics enabled'' else action)"
  have "last \<noteq> []" by (simp add: last_def)
  then have "last \<in> set (composeFailureNextActions category service)"
    unfolding composeFailureNextActions_def dedupe_def Let_def action_def[symmetric] last_def[symmetric]
    by (simp add: dedupe_loop_spec)
  then show ?thesis by (metis empty_iff empty_set)
qed

end
