(* ===== verification/WorkerState.thy ===== *)
theory WorkerState
  imports SourceSync Details
begin

text \<open>
  What every handler of the worker does to a row: \<open>refresh_preserve.go\<close> (the fields a re-read row restores),
  \<open>deploy\_failure.go\<close> (guarded progress writes, error states, the clean-up after a superseded deployment),
  \<open>deploy\_steps.go\<close> (creation steps) and the status helpers of \<open>helpers.go\<close>. The lemmas say which requests a
  guarded write makes.
\<close>

subsection \<open>Restored fields (helpers.go, refresh\_preserve.go)\<close>

definition preserveString :: "string \<Rightarrow> string \<Rightarrow> string" where
  "preserveString current latest = (if current \<noteq> [] \<or> latest = [] then current else latest)"

definition preserveSlice :: "'a list \<Rightarrow> 'a list \<Rightarrow> 'a list" where
  "preserveSlice current latest = (if current \<noteq> [] \<or> latest = [] then current else latest)"

definition preservePointer :: "'a option \<Rightarrow> 'a option \<Rightarrow> 'a option" where
  "preservePointer current latest = (if current \<noteq> None \<or> latest = None then current else latest)"

definition preserveLatestRuntimeFieldsFrom :: "playground \<Rightarrow> playground \<Rightarrow> playground" where
  "preserveLatestRuntimeFieldsFrom pg latest =
     pg\<lparr>pg_generated_compose_yaml := preserveString (pg_generated_compose_yaml pg) (pg_generated_compose_yaml latest),
        pg_service_urls := preserveSlice (pg_service_urls pg) (pg_service_urls latest),
        pg_build_statuses := preserveSlice (pg_build_statuses pg) (pg_build_statuses latest),
        pg_services := preserveSlice (pg_services pg) (pg_services latest),
        pg_creation_steps := preserveSlice (pg_creation_steps pg) (pg_creation_steps latest),
        pg_root_domain := preservePointer (pg_root_domain pg) (pg_root_domain latest),
        pg_routing_scheme := preservePointer (pg_routing_scheme pg) (pg_routing_scheme latest),
        pg_internal_password := preservePointer (pg_internal_password pg) (pg_internal_password latest),
        pg_last_applied_at := preservePointer (pg_last_applied_at pg) (pg_last_applied_at latest)\<rparr>"

definition preserveLatestRuntimeFields :: "worker \<Rightarrow> playground \<Rightarrow> (playground \<times> go_error option) io" where
  "preserveLatestRuntimeFields w pg =
     (if \<not> w_has_db w \<or> pg_id pg = 0 then Ret (pg, None)
      else bind (ask_row (GetPlayground (pg_id pg)))
        (\<lambda>r. case r of Inl e \<Rightarrow> Ret (pg, Some e)
             | Inr latest \<Rightarrow> Ret (preserveLatestRuntimeFieldsFrom pg latest, None)))"

definition statusFromPlayground :: "playground \<Rightarrow> playground_status io" where
  "statusFromPlayground pg = bind ask_clock (\<lambda>now. Ret (StatusSnapshot pg now))"

definition runtimeMarqueeForPlayground :: "playground \<Rightarrow> (go_error + marquee) io" where
  "runtimeMarqueeForPlayground pg =
     (if pg_marquee_id pg = None then Ret (Inl ErrNotFound)
      else bind ask_marquee
        (\<lambda>r. Ret (case r of Inl e \<Rightarrow> Inl e | Inr None \<Rightarrow> Inl ErrNotFound | Inr (Some mq) \<Rightarrow> Inr mq)))"

subsection \<open>Guarded progress writes (deploy\_failure.go)\<close>

definition deploymentStatusActive :: "string \<Rightarrow> bool" where
  "deploymentStatusActive s = (s = StatusPending \<or> s = StatusInProgress)"

definition deploymentStartStatusAllowed :: "string \<Rightarrow> bool" where
  "deploymentStartStatusAllowed s =
     (s \<in> set [StatusPending, StatusInProgress, StatusRunning, StatusHasChanges, StatusError, StatusStopped])"

definition preserveLatestDeploymentMetadata :: "playground \<Rightarrow> playground \<Rightarrow> playground" where
  "preserveLatestDeploymentMetadata pg current =
     pg\<lparr>pg_name := pg_name current, pg_playspec_id := pg_playspec_id current, pg_marquee_id := pg_marquee_id current,
        pg_env_overrides := pg_env_overrides current, pg_service_branches := pg_service_branches current,
        pg_expires_at := pg_expires_at current\<rparr>"

text \<open>One attempt: the row to go on with, whether to retry, the error.\<close>

definition trySaveDeploymentProgress ::
    "playground \<Rightarrow> (string \<Rightarrow> bool) \<Rightarrow> (playground \<times> bool \<times> go_error option) io" where
  "trySaveDeploymentProgress pg allowed =
     bind (ask_row (GetPlayground (pg_id pg)))
       (\<lambda>r. case r of
          Inl e \<Rightarrow> Ret (pg, False, Some e)
        | Inr current \<Rightarrow>
            (if \<not> allowed (pg_status current)
             then Ret (current, False, Some (ErrSuperseded (pg_id pg) (pg_status current)))
             else bind (ask_swap (SavePlaygroundIfCurrent (preserveLatestDeploymentMetadata pg current)
                         (pg_status current) (pg_updated_at current)))
               (\<lambda>s. Ret (case s of Inl e \<Rightarrow> (pg, False, Some e) | Inr (saved, ok) \<Rightarrow> (saved, \<not> ok, None)))))"

fun save_progress_loop :: "nat \<Rightarrow> playground \<Rightarrow> (string \<Rightarrow> bool) \<Rightarrow> (playground \<times> go_error option) io" where
  "save_progress_loop 0 pg allowed = Stuck"
| "save_progress_loop (Suc n) pg allowed =
     bind (trySaveDeploymentProgress pg allowed)
       (\<lambda>(saved, retry, err).
          if err \<noteq> None \<or> \<not> retry then Ret (saved, err) else save_progress_loop n pg allowed)"

definition saveDeploymentProgressWhen ::
    "worker \<Rightarrow> playground \<Rightarrow> (string \<Rightarrow> bool) \<Rightarrow> (playground \<times> go_error option) io" where
  "saveDeploymentProgressWhen w pg allowed =
     (if \<not> w_has_db w \<or> pg_id pg = 0 then Ret (pg, None) else save_progress_loop (w_fuel w) pg allowed)"

definition saveDeploymentProgress :: "worker \<Rightarrow> playground \<Rightarrow> (playground \<times> go_error option) io" where
  "saveDeploymentProgress w pg = saveDeploymentProgressWhen w pg deploymentStatusActive"

definition requireActiveDeployment :: "worker \<Rightarrow> playground \<Rightarrow> (playground \<times> go_error option) io" where
  "requireActiveDeployment w pg =
     (if \<not> w_has_db w \<or> pg_id pg = 0 then Ret (pg, None)
      else bind (ask_row (GetPlayground (pg_id pg)))
        (\<lambda>r. case r of
           Inl e \<Rightarrow> Ret (pg, Some e)
         | Inr current \<Rightarrow>
             Ret (current, if deploymentStatusActive (pg_status current) then None
                           else Some (ErrSuperseded (pg_id pg) (pg_status current)))))"

subsection \<open>Creation steps (deploy\_steps.go)\<close>

definition creationStepLabels :: "string smap" where
  "creationStepLabels =
     [(''compose_render'', ''Render compose''), (''host_prerequisites'', ''Check host''),
      (''source_sync'', ''Sync sources''), (''builds'', ''Build images''), (''compose_start'', ''Start compose''),
      (''compose_deploy'', ''Deploy compose''), (''runtime_observe'', ''Observe runtime''), (''finalize'', ''Finalize'')]"

definition creationStepLabel :: "string \<Rightarrow> string" where
  "creationStepLabel name = (case map_of creationStepLabels name of Some l \<Rightarrow> l | None \<Rightarrow> name)"

definition creationStepFinished :: "string \<Rightarrow> bool" where
  "creationStepFinished s = (s = ''completed'' \<or> s = ''error'' \<or> s = ''skipped'')"

definition newCreationStep :: "string \<Rightarrow> string \<Rightarrow> go_error option \<Rightarrow> int \<Rightarrow> creation_step" where
  "newCreationStep name status stepErr now =
     \<lparr>step_name = name, step_label = creationStepLabel name, step_status = status,
      step_started_at = (if status = ''running'' then Some now else None),
      step_completed_at = (if creationStepFinished status then Some now else None),
      step_error_message = (case stepErr of None \<Rightarrow> [] | Some e \<Rightarrow> error_text e)\<rparr>"

fun upsertCreationStep :: "creation_step list \<Rightarrow> creation_step \<Rightarrow> int \<Rightarrow> creation_step list" where
  "upsertCreationStep [] step now =
     [if step_started_at step = None then step\<lparr>step_started_at := Some now\<rparr> else step]"
| "upsertCreationStep (s # ss) step now =
     (if step_name s \<noteq> step_name step then s # upsertCreationStep ss step now
      else (if step_started_at s \<noteq> None then step\<lparr>step_started_at := step_started_at s\<rparr>
            else if step_started_at step = None then step\<lparr>step_started_at := Some now\<rparr> else step) # ss)"

definition recordCreationStepWhen ::
    "worker \<Rightarrow> playground \<Rightarrow> string \<Rightarrow> string \<Rightarrow> go_error option \<Rightarrow> (string \<Rightarrow> bool) \<Rightarrow> (playground \<times> go_error option) io" where
  "recordCreationStepWhen w pg name status stepErr allowed =
     bind ask_clock
       (\<lambda>now. saveDeploymentProgressWhen w
          (pg\<lparr>pg_creation_steps := upsertCreationStep (pg_creation_steps pg) (newCreationStep name status stepErr now) now\<rparr>)
          allowed)"

definition recordCreationStepForStart ::
    "worker \<Rightarrow> playground \<Rightarrow> string \<Rightarrow> string \<Rightarrow> string \<Rightarrow> go_error option \<Rightarrow> (playground \<times> go_error option) io" where
  "recordCreationStepForStart w pg startStatus name status stepErr =
     recordCreationStepWhen w pg name status stepErr
       (\<lambda>current. current = startStatus \<and> deploymentStartStatusAllowed current)"

definition recordCreationStepStrict ::
    "worker \<Rightarrow> playground \<Rightarrow> string \<Rightarrow> string \<Rightarrow> go_error option \<Rightarrow> (playground \<times> go_error option) io" where
  "recordCreationStepStrict w pg name status stepErr =
     recordCreationStepWhen w pg name status stepErr deploymentStatusActive"

definition recordCreationStep ::
    "worker \<Rightarrow> playground \<Rightarrow> string \<Rightarrow> string \<Rightarrow> go_error option \<Rightarrow> (playground \<times> go_error option) io" where
  "recordCreationStep w pg name status stepErr = recordCreationStepStrict w pg name status stepErr"

subsection \<open>Error states (deploy\_failure.go)\<close>

record playgroundErrorState =
  er_message :: string
  er_category :: string
  er_build_warnings :: "string list"
  er_error_details :: doc

definition sourceSyncPlaygroundError :: "sync_error \<Rightarrow> go_error \<Rightarrow> playgroundErrorState" where
  "sourceSyncPlaygroundError s cause =
     \<lparr>er_message = (if se_message s \<noteq> [] then se_message s else error_text (ErrSync s cause)),
      er_category = se_category s, er_build_warnings = NextActions s,
      er_error_details = [(''source_sync'', Details s)]\<rparr>"

definition error_state_row :: "playground \<Rightarrow> playgroundErrorState \<Rightarrow> playground" where
  "error_state_row pg st =
     pg\<lparr>pg_status := StatusError, pg_error_message := Some (er_message st), pg_state_reason := Some (er_category st),
        pg_state_reasons := [er_category st], pg_build_warnings := er_build_warnings st,
        pg_error_details := Some (er_error_details st)\<rparr>"

definition savePlaygroundErrorState ::
    "worker \<Rightarrow> playground \<Rightarrow> playgroundErrorState \<Rightarrow> (playground \<times> go_error option) io" where
  "savePlaygroundErrorState w pg st =
     bind (preserveLatestRuntimeFields w (error_state_row pg st))
       (\<lambda>(pg, err). if err \<noteq> None then Ret (pg, err)
          else bind (ask_row (SavePlayground pg))
            (\<lambda>r. Ret (case r of Inl e \<Rightarrow> (pg, Some e) | Inr saved \<Rightarrow> (saved, None))))"

definition compose_error_state :: "go_error \<Rightarrow> string list \<Rightarrow> playgroundErrorState" where
  "compose_error_state err services =
     (let d = ClassifyComposeFailure (error_text err) services
      in \<lparr>er_message = (if trim_space (fd_compose_error d) = [] \<or> fd_compose_error d = ''unknown error''
                         then error_text err else fd_compose_error d),
          er_category = fd_category d, er_build_warnings = fd_next_actions d,
          er_error_details = diagnostics_details d\<rparr>)"

definition markPlaygroundError ::
    "worker \<Rightarrow> playground \<Rightarrow> go_error \<Rightarrow> string list \<Rightarrow> (playground \<times> go_error option) io" where
  "markPlaygroundError w pg err services =
     savePlaygroundErrorState w pg
       (case as_sync err of
          Some (s, cause) \<Rightarrow> sourceSyncPlaygroundError s cause
        | None \<Rightarrow> compose_error_state err services)"

definition failPlayground ::
    "worker \<Rightarrow> playground \<Rightarrow> go_error \<Rightarrow> string list \<Rightarrow> (playground \<times> go_error option) io" where
  "failPlayground w pg err services =
     bind (markPlaygroundError w pg err services)
       (\<lambda>(marked, saveErr). Ret (marked, join_errors [Some err, saveErr]))"

definition failDeployment ::
    "worker \<Rightarrow> playground \<Rightarrow> go_error \<Rightarrow> string list \<Rightarrow> (playground \<times> go_error option) io" where
  "failDeployment w pg err services =
     bind (requireActiveDeployment w pg)
       (\<lambda>(latest, activeErr). if activeErr \<noteq> None then Ret (latest, activeErr)
          else failPlayground w latest err services)"

definition failDeploymentAfterCreationStep ::
    "worker \<Rightarrow> playground \<Rightarrow> string \<Rightarrow> go_error \<Rightarrow> string list \<Rightarrow> (playground \<times> go_error option) io" where
  "failDeploymentAfterCreationStep w pg name stepErr services =
     bind (recordCreationStep w pg name ''error'' (Some stepErr))
       (\<lambda>(recorded, progressErr).
          bind (failDeployment w recorded stepErr services)
            (\<lambda>(failed, failErr). Ret (failed, join_errors [failErr, progressErr])))"

definition cleanupSupersededRuntimeByStatus :: "string \<Rightarrow> marquee \<Rightarrow> string \<Rightarrow> go_error option io" where
  "cleanupSupersededRuntimeByStatus status mq project =
     (if status = StatusStopping \<or> status = StatusStopped then ask_done (StopCompose mq project)
      else if status = StatusDestroying then ask_done (DestroyCompose mq project)
      else Ret None)"

definition cleanupSupersededRuntime ::
    "playground \<Rightarrow> marquee \<Rightarrow> string \<Rightarrow> go_error option \<Rightarrow> (playground \<times> go_error option) io" where
  "cleanupSupersededRuntime pg mq project err =
     (case err of
        None \<Rightarrow> Ret (pg, None)
      | Some e \<Rightarrow>
          (case as_superseded e of
             None \<Rightarrow> Ret (pg, Some e)
           | Some status \<Rightarrow>
               bind (cleanupSupersededRuntimeByStatus status mq project)
                 (\<lambda>cleanupErr. Ret (pg, join_errors [Some e, cleanupErr]))))"

definition serviceAuthPasswords :: "doc \<Rightarrow> string smap" where
  "serviceAuthPasswords services =
     List.map_filter (\<lambda>(name, raw).
       case raw of
         AMap service \<Rightarrow>
           (case any_at service ''auth_password'' of
              AStr p \<Rightarrow> if trim_space p \<noteq> [] then Some (name, trim_space p) else None
            | _ \<Rightarrow> None)
       | _ \<Rightarrow> None) services"

subsection \<open>Facts\<close>

text \<open>A running row, a marquee and a worker for concrete runs.\<close>

definition demo_row :: playground where
  "demo_row = \<lparr>pg_id = 7, pg_name = ''demo'', pg_status = StatusRunning, pg_state_reason = None, pg_state_reasons = [],
     pg_playspec_id = None, pg_playspec_name = None, pg_marquee_id = Some 1, pg_service_branches = [],
     pg_expires_at = Some 5, pg_created_at = 0, pg_updated_at = 3, pg_compose_project = Some ''p-1'', pg_marquee_name = None,
     pg_root_domain = None, pg_routing_scheme = None, pg_internal_password = None, pg_env_overrides = [],
     pg_last_applied_at = None, pg_error_message = None, pg_error_details = None, pg_build_warnings = [],
     pg_build_statuses = [], pg_service_urls = [], pg_services = [], pg_generated_compose_yaml = [],
     pg_creation_steps = [], pg_repair_reason = None, pg_repair_lock_until = None, pg_needs_recreation = None,
     pg_time_remaining = None, pg_expiration_percentage = None\<rparr>"

definition demo_marquee :: marquee where
  "demo_marquee = \<lparr>mq_id = 1, mq_name = ''m'', mq_host = [], mq_port = 0, mq_user = [], mq_status = [],
     mq_domains_input = Some ''example.com'', mq_https_enabled = None, mq_tls_certificate_source = None, mq_acme_email = None,
     mq_build_platform = None, mq_runtime_launchable = True, mq_chat_launchable = False, mq_created_at = 0, mq_updated_at = 0\<rparr>"

definition demo_worker :: worker where
  "demo_worker = \<lparr>w_has_db = True, w_github_token = [], w_fuel = 3\<rparr>"

definition demo_regex :: regex_engine where "demo_regex = (\<lambda>_. Inl [])"

text \<open>What the handlers of a row ask for under a guard.\<close>

context worker_guard
begin

lemma guarded_preserveLatestRuntimeFields [guarded_rules]: "guarded G (preserveLatestRuntimeFields w pg)"
  unfolding preserveLatestRuntimeFields_def by (intro guarded_rules quiet_guarded) simp_all

lemma guarded_statusFromPlayground [guarded_rules]: "guarded G (statusFromPlayground pg)"
  unfolding statusFromPlayground_def by (intro guarded_rules quiet_guarded) simp_all

lemma guarded_runtimeMarqueeForPlayground [guarded_rules]: "guarded G (runtimeMarqueeForPlayground pg)"
  unfolding runtimeMarqueeForPlayground_def by (intro guarded_rules quiet_guarded) simp_all

lemma guarded_requireActiveDeployment [guarded_rules]: "guarded G (requireActiveDeployment w pg)"
  unfolding requireActiveDeployment_def by (intro guarded_rules quiet_guarded) simp_all

lemma guarded_markPlaygroundError [guarded_rules]: "guarded G (markPlaygroundError w pg e services)"
proof -
  have "wp G (\<lambda>_ _. True) (savePlaygroundErrorState w pg st) h" for st h
    unfolding savePlaygroundErrorState_def preserveLatestRuntimeFields_def
    by (auto simp: quiet_allowed error_state_row_def preserveLatestRuntimeFieldsFrom_def split: sum.split
        intro!: error_allowed)
  then show ?thesis by (simp add: guarded_def markPlaygroundError_def)
qed

lemma guarded_failDeployment [guarded_rules]: "guarded G (failDeployment w pg e services)"
  unfolding failDeployment_def failPlayground_def by (intro guarded_rules)

end

context refresh_guard
begin

text \<open>Right after a read of the row, the clean-up by its status is inside the guard.\<close>

lemma wp_cleanup_after_read:
  assumes "\<And>h a. Q h a"
  shows "wp G Q (cleanupSupersededRuntimeByStatus (pg_status pg) mq project) (h @ [(GetPlayground i, Row (Inr pg))])"
  unfolding cleanupSupersededRuntimeByStatus_def
  by (auto simp: assms stop_superseded destroy_superseded)

end

text \<open>For deployments: the guarded write of progress right after a read of the row, in a status a deployment owns or
started from, with the metadata of that read; and the clean-up of a superseded deployment.\<close>

locale deploy_guard = worker_guard +
  fixes startStatus :: string
  assumes progress_allowed: "deploymentStatusActive (pg_status current) \<or>
      pg_status current = startStatus \<and> deploymentStartStatusAllowed (pg_status current) \<Longrightarrow> pg_id pg = i \<Longrightarrow>
      G (h @ [(GetPlayground i, Row (Inr current))])
        (SavePlaygroundIfCurrent (preserveLatestDeploymentMetadata pg current) (pg_status current) (pg_updated_at current))"
    and stop_allowed: "G h (StopCompose mq project)"
    and destroy_allowed: "G h (DestroyCompose mq project)"
begin

lemma guarded_progress:
  assumes "\<And>s. allowed s \<Longrightarrow> deploymentStatusActive s \<or> s = startStatus \<and> deploymentStartStatusAllowed s"
  shows "guarded G (saveDeploymentProgressWhen w pg allowed)"
proof -
  have attempt: "wp G Q (trySaveDeploymentProgress pg allowed) h" if "\<And>h a. Q h a" for Q h
    unfolding trySaveDeploymentProgress_def
    by (auto simp: quiet_allowed that split: sum.split intro!: progress_allowed dest!: assms)
  have "wp G (\<lambda>_ _. True) (save_progress_loop n pg allowed) h" for n h
  proof (induction n arbitrary: h)
    case (Suc n)
    then show ?case by (auto intro!: attempt)
  qed simp
  then show ?thesis
    unfolding saveDeploymentProgressWhen_def by (intro guarded_rules) (simp add: guarded_def)
qed

lemma guarded_recordCreationStep [guarded_rules]:
  "guarded G (recordCreationStep w pg name st e)"
  "guarded G (recordCreationStepStrict w pg name st e)"
  "guarded G (recordCreationStepForStart w pg startStatus name st e)"
  "guarded G (saveDeploymentProgress w pg)"
  unfolding recordCreationStep_def recordCreationStepStrict_def recordCreationStepForStart_def recordCreationStepWhen_def
    saveDeploymentProgress_def
  by (intro guarded_rules quiet_guarded guarded_progress; simp)+

lemma guarded_failDeploymentAfterCreationStep [guarded_rules]:
  "guarded G (failDeploymentAfterCreationStep w pg name e services)"
  unfolding failDeploymentAfterCreationStep_def by (intro guarded_rules)

lemma guarded_cleanupSupersededRuntime [guarded_rules]: "guarded G (cleanupSupersededRuntime pg mq project err)"
  unfolding cleanupSupersededRuntime_def cleanupSupersededRuntimeByStatus_def
  by (intro guarded_rules) (simp_all add: guarded_asks stop_allowed destroy_allowed)

end

end
