(* ===== verification/WorkerRefresh.thy ===== *)
theory WorkerRefresh
  imports WorkerState
begin

text \<open>
  Runtime refresh of the worker: \<open>refresh.go\<close> (the phases of one refresh), \<open>refresh\_observe.go\<close> (what inspected
  services mean for a row, the wait for routed services), \<open>refresh\_repair.go\<close> (drift and its repair) and
  \<open>route\_probe.go\<close>.
\<close>

subsection \<open>Route probes (route\_probe.go)\<close>

definition routeProbeDefaultNotFound :: "string \<Rightarrow> bool" where
  "routeProbeDefaultNotFound body = (trim_space body = ''404 page not found'')"

definition routeProbeResponseReady :: "int \<Rightarrow> string \<Rightarrow> bool" where
  "routeProbeResponseReady statusCode body =
     (if statusCode \<le> 0 \<or> statusCode \<ge> 500 then False
      else if statusCode = 404 \<and> routeProbeDefaultNotFound body then False
      else True)"

definition maxRouteProbeBodyBytes :: nat where "maxRouteProbeBodyBytes = 4096"

definition routeProbeReady :: "string \<Rightarrow> bool io" where
  "routeProbeReady rawURL =
     (if trim_space rawURL = [] then Ret False
      else bind (ask_probe (trim_space rawURL))
        (\<lambda>resp. Ret (case resp of None \<Rightarrow> False
           | Some (code, body) \<Rightarrow> routeProbeResponseReady code (take maxRouteProbeBodyBytes body))))"

subsection \<open>Services (refresh\_observe.go)\<close>

definition normalizedServiceState :: "string \<Rightarrow> string" where
  "normalizedServiceState s = to_lower (trim_space s)"

definition serviceRunning :: "service_info \<Rightarrow> bool" where
  "serviceRunning s = (svc_running s \<and> normalizedServiceState (svc_status s) = ''running'')"

definition serviceHealthExplicitlyReady :: "string \<Rightarrow> bool" where
  "serviceHealthExplicitlyReady health =
     (normalizedServiceState health = ''running'' \<or> normalizedServiceState health = ''healthy'')"

text \<open>The map the code builds keeps the last service of a name.\<close>

definition playgroundServicesByName :: "service_info list \<Rightarrow> service_info smap" where
  "playgroundServicesByName services = fold (\<lambda>s m. put_key (svc_name s) s m) services []"

definition routedServiceReady :: "service_info smap \<Rightarrow> service_url \<Rightarrow> bool io" where
  "routedServiceReady services url =
     (case map_of services (url_name url) of
        None \<Rightarrow> Ret False
      | Some s \<Rightarrow>
          (if \<not> serviceRunning s then Ret False
           else if serviceHealthExplicitlyReady (svc_health s) then Ret True
           else if trim_space (svc_health s) \<noteq> [] then Ret False
           else routeProbeReady (url_url url)))"

fun routed_urls_ready :: "service_info smap \<Rightarrow> service_url list \<Rightarrow> bool io" where
  "routed_urls_ready services [] = Ret True"
| "routed_urls_ready services (u # us) =
     bind (routedServiceReady services u) (\<lambda>ready. if ready then routed_urls_ready services us else Ret False)"

definition routedServicesReady :: "service_info list \<Rightarrow> service_url list \<Rightarrow> bool io" where
  "routedServicesReady services urls = routed_urls_ready (playgroundServicesByName services) urls"

definition runtimeServicesObservationComplete :: "playground \<Rightarrow> service_info list \<Rightarrow> bool io" where
  "runtimeServicesObservationComplete pg observed =
     (if pg_service_urls pg = [] then Ret True else routedServicesReady observed (pg_service_urls pg))"

definition routedServicesPollTick ::
    "marquee \<Rightarrow> string \<Rightarrow> service_url list \<Rightarrow> (service_info list \<times> bool \<times> go_error option) io" where
  "routedServicesPollTick mq project urls =
     bind (ask_observed (InspectServices mq project))
       (\<lambda>(observed, err). if err \<noteq> None then Ret (observed, True, err)
          else bind (routedServicesReady observed urls) (\<lambda>ready. Ret (observed, ready, None)))"

text \<open>The three cases of the \<open>select\<close>: the context is done, the timer has run out, the ticker has ticked. The timer
of the code ends the loop; here the fuel bounds the number of ticks a run follows.\<close>

fun waitForRoutedServicesReady ::
    "nat \<Rightarrow> marquee \<Rightarrow> string \<Rightarrow> service_url list \<Rightarrow> service_info list \<Rightarrow> (service_info list \<times> go_error option) io" where
  "waitForRoutedServicesReady 0 mq project urls observed = Stuck"
| "waitForRoutedServicesReady (Suc n) mq project urls observed =
     bind ask_tick
       (\<lambda>t. case t of
          TickDone e \<Rightarrow> Ret (observed, Some e)
        | TickTimeout \<Rightarrow>
            Ret (observed, Some (ErrText ''routed services did not become running and healthy before timeout''))
        | TickPoll \<Rightarrow>
            bind (routedServicesPollTick mq project urls)
              (\<lambda>(next_observed, done, err).
                 if done \<or> err \<noteq> None then Ret (next_observed, err)
                 else waitForRoutedServicesReady n mq project urls next_observed))"

definition observeRuntimeServices ::
    "worker \<Rightarrow> marquee \<Rightarrow> string \<Rightarrow> playground \<Rightarrow> (service_info list \<times> go_error option) io" where
  "observeRuntimeServices w mq project pg =
     bind (ask_observed (InspectServices mq project))
       (\<lambda>(observed, err). if err \<noteq> None then Ret (observed, err)
          else bind (runtimeServicesObservationComplete pg observed)
            (\<lambda>complete. if complete then Ret (observed, None)
               else waitForRoutedServicesReady (w_fuel w) mq project (pg_service_urls pg) observed))"

definition mergeServiceImages :: "service_info list \<Rightarrow> service_info list \<Rightarrow> service_info list" where
  "mergeServiceImages existing inspected =
     (let imageByName = serviceImagesByName existing
      in map (\<lambda>s. if svc_image s = [] then s\<lparr>svc_image := str_at imageByName (trim_space (svc_name s))\<rparr> else s) inspected)"

definition mergeServiceURLState :: "service_url list \<Rightarrow> service_info list \<Rightarrow> service_url list" where
  "mergeServiceURLState urls services =
     (let byName = playgroundServicesByName services
      in map (\<lambda>u. case map_of byName (url_name u) of
             None \<Rightarrow> u
           | Some s \<Rightarrow> u\<lparr>url_status := svc_status s, url_health := svc_health s, url_running := Some (svc_running s),
                          url_exit_code := svc_exit_code s\<rparr>) urls)"

definition anyServiceRunning :: "service_info list \<Rightarrow> bool" where
  "anyServiceRunning services = list_ex svc_running services"

definition clearObservedRuntimeError :: "playground \<Rightarrow> playground" where
  "clearObservedRuntimeError pg =
     pg\<lparr>pg_error_message := None, pg_error_details := None, pg_state_reason := None, pg_state_reasons := []\<rparr>"

definition applyObservedRuntimeStatus :: "playground \<Rightarrow> service_info list \<Rightarrow> bool \<Rightarrow> playground" where
  "applyObservedRuntimeStatus pg services routedReady =
     (if anyServiceRunning services
      then (if \<not> routedReady then pg else clearObservedRuntimeError (pg\<lparr>pg_status := StatusRunning\<rparr>))
      else if pg_status pg = StatusRunning \<or> pg_status pg = StatusInProgress then pg\<lparr>pg_status := StatusStopped\<rparr>
      else pg)"

subsection \<open>Refresh targets (refresh.go)\<close>

text \<open>\<open>*pg.ComposeProject\<close>: a nil pointer panics, and the run ends there.\<close>

definition with_project :: "playground \<Rightarrow> (string \<Rightarrow> 'a io) \<Rightarrow> 'a io" where
  "with_project pg k = (case pg_compose_project pg of None \<Rightarrow> Stuck | Some project \<Rightarrow> k project)"

definition currentRefreshPlayground :: "worker \<Rightarrow> playground \<Rightarrow> string \<Rightarrow> (playground \<times> bool \<times> go_error option) io" where
  "currentRefreshPlayground w pg refreshStatus =
     (if \<not> w_has_db w \<or> pg_id pg = 0 then Ret (pg, True, None)
      else bind (ask_row (GetPlayground (pg_id pg)))
        (\<lambda>r. Ret (case r of Inl e \<Rightarrow> (pg, False, Some e)
                  | Inr current \<Rightarrow> (current, pg_status current = refreshStatus, None))))"

definition currentRuntimeRefreshTarget :: "worker \<Rightarrow> playground \<Rightarrow> string \<Rightarrow> (playground \<times> bool \<times> go_error option) io" where
  "currentRuntimeRefreshTarget w pg refreshStatus =
     bind (currentRefreshPlayground w pg refreshStatus)
       (\<lambda>(current, active, err).
          if err \<noteq> None \<or> \<not> active then Ret (current, active, err)
          else if \<not> CanRefreshRuntime current True
            then (if CanRefreshRuntime pg True
                  then Ret (current, False, Some (ErrWrap ''playground runtime dependency changed before refresh'' ErrNotFound))
                  else Ret (current, False, None))
          else Ret (current, True, None))"

subsection \<open>Repair (refresh\_repair.go)\<close>

definition defaultRuntimeRepairCooldown :: int where "defaultRuntimeRepairCooldown = 600000000000"

definition runtimeArtifactsMissing :: "go_error \<Rightarrow> bool" where
  "runtimeArtifactsMissing err =
     (if is_file_missing err then True
      else let message = to_lower (error_text err)
           in if \<not> str_contains message ''no such file or directory'' then False
              else str_contains message ''compose.yml'' \<or> str_contains message (''can'' @ [CHR 0x27] @ ''t cd'') \<or>
                str_contains message (PlaygroundsPath @ ''/''))"

definition waitForRuntimeArtifacts :: "playground \<Rightarrow> go_error \<Rightarrow> bool" where
  "waitForRuntimeArtifacts pg err = (if pg_status pg \<noteq> StatusInProgress then False else runtimeArtifactsMissing err)"

definition del_detail :: "string \<Rightarrow> doc option \<Rightarrow> doc option" where
  "del_detail k d = map_option (del_key k) d"

definition clearRuntimeRepairError :: "playground \<Rightarrow> playground" where
  "clearRuntimeRepairError pg =
     pg\<lparr>pg_status := StatusRunning, pg_error_message := None, pg_state_reason := None, pg_state_reasons := [],
        pg_build_warnings := [], pg_needs_recreation := Some False,
        pg_error_details := del_detail ''source_sync'' (pg_error_details pg)\<rparr>"

text \<open>The results below are the row, whether the refresh still owns it, the error.\<close>

definition redeployRuntimeRepair ::
    "worker \<Rightarrow> playground \<Rightarrow> marquee \<Rightarrow> string \<Rightarrow> (playground \<times> bool \<times> go_error option) io" where
  "redeployRuntimeRepair w pg mq refreshStatus =
     bind (currentRefreshPlayground w pg refreshStatus)
       (\<lambda>(current, active, err).
          if err \<noteq> None \<or> \<not> active then Ret (current, active, err)
          else let pg = preserveLatestRuntimeFieldsFrom pg current
               in with_project pg (\<lambda>project. bind (ask_done (DeployCompose mq project (pg_id pg) (pg_generated_compose_yaml pg)))
                 (\<lambda>deployErr. if deployErr \<noteq> None then Ret (pg, True, deployErr)
                    else bind (currentRefreshPlayground w pg refreshStatus)
                      (\<lambda>(current, active, err).
                         if err \<noteq> None then Ret (pg, True, err)
                         else if \<not> active
                           then bind (cleanupSupersededRuntimeByStatus (pg_status current) mq project)
                             (\<lambda>cleanupErr. Ret (current, False, cleanupErr))
                         else bind (ask_row (SavePlayground (clearRuntimeRepairError pg)))
                           (\<lambda>r. Ret (case r of Inl e \<Rightarrow> (clearRuntimeRepairError pg, True, Some e)
                                     | Inr saved \<Rightarrow> (saved, True, None)))))))"

definition source_preserved_row :: "playground \<Rightarrow> sync_error \<Rightarrow> playground" where
  "source_preserved_row pg classified =
     pg\<lparr>pg_status := StatusHasChanges, pg_error_message := Some (se_message classified),
        pg_state_reason := Some (se_category classified), pg_state_reasons := [se_category classified],
        pg_build_warnings := NextActions classified,
        pg_error_details := Some (mergeErrorDetails (pg_error_details pg) ''source_sync'' (Details classified))\<rparr>"

definition saveRepairSourcePreserved ::
    "worker \<Rightarrow> playground \<Rightarrow> sync_error \<Rightarrow> string \<Rightarrow> (playground \<times> bool \<times> go_error option) io" where
  "saveRepairSourcePreserved w pg0 classified refreshStatus =
     (let pg = source_preserved_row pg0 classified
      in bind (currentRefreshPlayground w pg refreshStatus)
        (\<lambda>(current, active, err).
           if err \<noteq> None \<or> \<not> active then Ret (current, active, err)
           else let pg = preserveLatestRuntimeFieldsFrom pg current
                in bind (ask_row (SavePlayground pg))
                  (\<lambda>r. Ret (case r of Inl e \<Rightarrow> (pg, True, Some e) | Inr saved \<Rightarrow> (saved, True, None)))))"

record repairSourceSyncResult =
  rs_playground :: playground
  rs_active :: bool
  rs_handled :: bool

definition repair_result :: "playground \<Rightarrow> bool \<Rightarrow> bool \<Rightarrow> repairSourceSyncResult" where
  "repair_result pg active handled = \<lparr>rs_playground = pg, rs_active = active, rs_handled = handled\<rparr>"

definition syncRepairSources ::
    "regex_engine \<Rightarrow> yaml_lib \<Rightarrow> worker \<Rightarrow> playground \<Rightarrow> marquee \<Rightarrow> string \<Rightarrow> (repairSourceSyncResult \<times> go_error option) io" where
  "syncRepairSources rx Y w pg mq refreshStatus =
     (case pg_playspec_id pg of
        None \<Rightarrow> Ret (repair_result pg True False, None)
      | Some spec \<Rightarrow>
          bind (ask_spec (GetPlayspec spec))
            (\<lambda>r. case r of
               Inl e \<Rightarrow> Ret (repair_result pg True True, Some e)
             | Inr ps \<Rightarrow>
                 bind (with_project pg (\<lambda>project. syncSources rx Y w mq project ps))
                   (\<lambda>syncErr. case syncErr of
                      None \<Rightarrow> Ret (repair_result pg True False, None)
                    | Some e \<Rightarrow>
                        (case as_sync e of
                           Some (classified, cause) \<Rightarrow>
                             if PreservesWork classified
                             then bind (saveRepairSourcePreserved w pg classified refreshStatus)
                               (\<lambda>(saved, active, err). Ret (repair_result saved active True, err))
                             else Ret (repair_result pg True True, Some e)
                         | None \<Rightarrow> Ret (repair_result pg True True, Some e)))))"

definition repairRuntimeArtifacts ::
    "regex_engine \<Rightarrow> yaml_lib \<Rightarrow> worker \<Rightarrow> playground \<Rightarrow> marquee \<Rightarrow> string \<Rightarrow> int \<Rightarrow> string \<Rightarrow>
       (playground \<times> bool \<times> go_error option) io" where
  "repairRuntimeArtifacts rx Y w pg0 mq reason now refreshStatus =
     (if pg_compose_project pg0 = None
      then Ret (pg0, True, Some (ErrText ''cannot repair runtime artifacts without compose project''))
      else let pg = MarkRuntimeRepairStarted pg0 reason now defaultRuntimeRepairCooldown
           in bind (syncRepairSources rx Y w pg mq refreshStatus)
             (\<lambda>(synced, err).
                if err \<noteq> None \<or> \<not> rs_active synced \<or> rs_handled synced
                then Ret (rs_playground synced, rs_active synced, err)
                else redeployRuntimeRepair w (rs_playground synced) mq refreshStatus))"

definition with_status :: "playground \<Rightarrow> go_error option \<Rightarrow> (playground_status \<times> go_error option) io" where
  "with_status pg err = bind (statusFromPlayground pg) (\<lambda>s. Ret (s, err))"

definition repairRuntimeDrift ::
    "regex_engine \<Rightarrow> yaml_lib \<Rightarrow> worker \<Rightarrow> playground \<Rightarrow> marquee \<Rightarrow> string \<Rightarrow> int \<Rightarrow> string \<Rightarrow>
       (playground_status \<times> go_error option) io" where
  "repairRuntimeDrift rx Y w pg0 mq reason now refreshStatus =
     bind (currentRefreshPlayground w pg0 refreshStatus)
       (\<lambda>(current, active, err).
          if err \<noteq> None then with_status pg0 err
          else if \<not> active then with_status current None
          else let pg = current
               in if RuntimeRepairCooldownActive pg now then with_status pg None
                  else bind (repairRuntimeArtifacts rx Y w pg mq reason now refreshStatus)
                    (\<lambda>(repaired, active, repairErr).
                       if \<not> active then with_status repaired repairErr
                       else case repairErr of
                         None \<Rightarrow> with_status repaired None
                       | Some e \<Rightarrow>
                           bind (markPlaygroundError w repaired e (playgroundServiceNames (pg_services pg)))
                             (\<lambda>(refreshed, saveErr). with_status refreshed (join_errors [Some e, saveErr]))))"

definition refreshRuntimeArtifactDrift ::
    "regex_engine \<Rightarrow> yaml_lib \<Rightarrow> worker \<Rightarrow> playground \<Rightarrow> marquee \<Rightarrow> int \<Rightarrow> string \<Rightarrow> (playground_status \<times> go_error option) io" where
  "refreshRuntimeArtifactDrift rx Y w pg0 mq now refreshStatus =
     (if \<not> ShouldCheckRuntimeArtifactDrift pg0 then with_status pg0 None
      else bind (currentRefreshPlayground w pg0 refreshStatus)
        (\<lambda>(current, active, err).
           if err \<noteq> None then with_status pg0 err
           else if \<not> active then with_status current None
           else bind (with_project current (\<lambda>project.
               ask_texts (RuntimeArtifactDrift mq project (pg_generated_compose_yaml current))))
             (\<lambda>(drift, driftErr).
                if driftErr \<noteq> None then with_status current driftErr
                else if drift = [] then with_status current None
                else repairRuntimeDrift rx Y w current mq ''artifact_drift'' now refreshStatus)))"

subsection \<open>Observation (refresh\_observe.go)\<close>

definition saveObservedRuntimeServices ::
    "worker \<Rightarrow> playground \<Rightarrow> service_info list \<Rightarrow> string \<Rightarrow> bool \<Rightarrow> (playground \<times> bool \<times> go_error option) io" where
  "saveObservedRuntimeServices w pg0 services refreshStatus routedReady =
     bind (currentRefreshPlayground w pg0 refreshStatus)
       (\<lambda>(current, active, err).
          if err \<noteq> None \<or> \<not> active then Ret (current, active, err)
          else let merged = mergeServiceImages (pg_services current) services;
                   pg = current\<lparr>pg_services := merged, pg_service_urls := mergeServiceURLState (pg_service_urls current) merged\<rparr>
               in bind (preserveLatestRuntimeFields w (applyObservedRuntimeStatus pg merged routedReady))
                 (\<lambda>(pg, err). if err \<noteq> None then Ret (pg, True, err)
                    else bind (ask_row (SavePlayground pg))
                      (\<lambda>r. Ret (case r of Inl e \<Rightarrow> (pg, True, Some e) | Inr saved \<Rightarrow> (saved, True, None)))))"

record runtimeServiceObservation =
  ob_playground :: playground
  ob_refresh_status :: string
  ob_status :: playground_status
  ob_done :: bool

definition applyRuntimeServiceObservation ::
    "regex_engine \<Rightarrow> yaml_lib \<Rightarrow> worker \<Rightarrow> playground \<Rightarrow> marquee \<Rightarrow> service_info list \<Rightarrow> int \<Rightarrow> string \<Rightarrow>
       (runtimeServiceObservation \<times> go_error option) io" where
  "applyRuntimeServiceObservation rx Y w pg mq services0 now refreshStatus =
     (let services = (if services0 = [] then StoppedServiceObservations (pg_services pg) (pg_service_urls pg) else services0)
      in if ImageDriftDetected (pg_services pg) services
         then bind (repairRuntimeDrift rx Y w pg mq ''image_drift'' now refreshStatus)
           (\<lambda>(st, err). Ret (\<lparr>ob_playground = pg, ob_refresh_status = refreshStatus, ob_status = st, ob_done = True\<rparr>, err))
         else bind (runtimeServicesObservationComplete pg services)
           (\<lambda>routedReady. bind (saveObservedRuntimeServices w pg services refreshStatus routedReady)
             (\<lambda>(saved, active, err). bind (statusFromPlayground saved)
               (\<lambda>st. Ret (\<lparr>ob_playground = saved,
                    ob_refresh_status = (if err \<noteq> None \<or> \<not> active then refreshStatus else pg_status saved),
                    ob_status = st, ob_done = (err \<noteq> None \<or> \<not> active)\<rparr>, err)))))"

subsection \<open>Refresh (refresh.go)\<close>

record runtimeRefreshTarget =
  rt_playground :: playground
  rt_marquee :: marquee
  rt_refresh_status :: string

text \<open>A phase ends the refresh with a status, or hands a target on.\<close>

datatype 'a phase = Finished playground_status | Proceed 'a

definition finish_with :: "playground \<Rightarrow> go_error option \<Rightarrow> ('a phase \<times> go_error option) io" where
  "finish_with pg err = bind (statusFromPlayground pg) (\<lambda>s. Ret (Finished s, err))"

definition prepareRuntimeRefresh :: "worker \<Rightarrow> playground \<Rightarrow> (runtimeRefreshTarget phase \<times> go_error option) io" where
  "prepareRuntimeRefresh w pg =
     (if \<not> CanRefreshRuntime pg (w_has_db w) then finish_with pg None
      else let refreshStatus = pg_status pg
           in bind (currentRuntimeRefreshTarget w pg refreshStatus)
             (\<lambda>(current, active, err).
                if err \<noteq> None then finish_with pg err
                else if \<not> active then finish_with current None
                else bind (runtimeMarqueeForPlayground current)
                  (\<lambda>m. case m of
                     Inl e \<Rightarrow> finish_with current (Some e)
                   | Inr mq \<Rightarrow> Ret (Proceed \<lparr>rt_playground = current, rt_marquee = mq,
                                         rt_refresh_status = refreshStatus\<rparr>, None))))"

definition handleRuntimeInspectError ::
    "regex_engine \<Rightarrow> yaml_lib \<Rightarrow> worker \<Rightarrow> playground \<Rightarrow> marquee \<Rightarrow> go_error \<Rightarrow> int \<Rightarrow> string \<Rightarrow>
       (playground_status \<times> go_error option) io" where
  "handleRuntimeInspectError rx Y w pg0 mq inspectErr now refreshStatus =
     bind (currentRefreshPlayground w pg0 refreshStatus)
       (\<lambda>(current, active, err).
          if err \<noteq> None then with_status pg0 err
          else if \<not> active then with_status current None
          else if waitForRuntimeArtifacts current inspectErr then with_status current None
          else if ShouldRepairRuntimeArtifacts current (runtimeArtifactsMissing inspectErr)
            then repairRuntimeDrift rx Y w current mq ''runtime_artifacts_missing'' now refreshStatus
          else bind (markPlaygroundError w current inspectErr (playgroundServiceNames (pg_services current)))
            (\<lambda>(refreshed, saveErr). with_status refreshed (join_errors [Some inspectErr, saveErr])))"

definition inspectRuntimeRefreshServices ::
    "regex_engine \<Rightarrow> yaml_lib \<Rightarrow> worker \<Rightarrow> runtimeRefreshTarget \<Rightarrow> int \<Rightarrow> (service_info list phase \<times> go_error option) io" where
  "inspectRuntimeRefreshServices rx Y w target now =
     bind (with_project (rt_playground target) (\<lambda>project. ask_observed (InspectServices (rt_marquee target) project)))
       (\<lambda>(services, inspectErr). case inspectErr of
          None \<Rightarrow> Ret (Proceed services, None)
        | Some e \<Rightarrow>
            bind (handleRuntimeInspectError rx Y w (rt_playground target) (rt_marquee target) e now (rt_refresh_status target))
              (\<lambda>(st, err). Ret (Finished st, err)))"

definition currentObservedRuntimeTarget ::
    "worker \<Rightarrow> runtimeRefreshTarget \<Rightarrow> (runtimeRefreshTarget phase \<times> go_error option) io" where
  "currentObservedRuntimeTarget w target =
     bind (currentRefreshPlayground w (rt_playground target) (rt_refresh_status target))
       (\<lambda>(current, active, err).
          if err \<noteq> None then finish_with (rt_playground target) err
          else if \<not> active then finish_with current None
          else Ret (Proceed (target\<lparr>rt_playground := current\<rparr>), None))"

definition refresh_observed ::
    "regex_engine \<Rightarrow> yaml_lib \<Rightarrow> worker \<Rightarrow> runtimeRefreshTarget \<Rightarrow> service_info list \<Rightarrow> int \<Rightarrow>
       (playground_status \<times> go_error option) io" where
  "refresh_observed rx Y w target services now =
     bind (applyRuntimeServiceObservation rx Y w (rt_playground target) (rt_marquee target) services now
             (rt_refresh_status target))
       (\<lambda>(observation, err).
          if ob_done observation \<or> err \<noteq> None
          then Ret (ob_status observation, err)
          else refreshRuntimeArtifactDrift rx Y w (ob_playground observation) (rt_marquee target) now
                 (ob_refresh_status observation))"

definition RefreshPlayground ::
    "regex_engine \<Rightarrow> yaml_lib \<Rightarrow> worker \<Rightarrow> playground \<Rightarrow> (playground_status \<times> go_error option) io" where
  "RefreshPlayground rx Y w pg =
     bind (prepareRuntimeRefresh w pg)
       (\<lambda>(prepared, err). case prepared of
          Finished st \<Rightarrow> Ret (st, err)
        | Proceed target0 \<Rightarrow>
            bind ask_clock (\<lambda>now.
              bind (inspectRuntimeRefreshServices rx Y w target0 now)
                (\<lambda>(inspected, err). case inspected of
                   Finished st \<Rightarrow> Ret (st, err)
                 | Proceed services \<Rightarrow>
                     bind (currentObservedRuntimeTarget w target0)
                       (\<lambda>(observed, err). case observed of
                          Finished st \<Rightarrow> Ret (st, err)
                        | Proceed target \<Rightarrow> refresh_observed rx Y w target services now))))"

subsection \<open>Facts\<close>

context worker_guard
begin

lemma guarded_with_project [guarded_rules]:
  "(\<And>project. pg_compose_project pg = Some project \<Longrightarrow> guarded G (k project)) \<Longrightarrow> guarded G (with_project pg k)"
  unfolding with_project_def by (intro guarded_rules)

lemma guarded_routedServicesReady [guarded_rules]: "guarded G (routedServicesReady services urls)"
proof -
  have "guarded G (routed_urls_ready m urls)" for m
  proof (induction urls)
    case (Cons u urls)
    have "guarded G (routedServiceReady m u)"
      unfolding routedServiceReady_def routeProbeReady_def by (intro guarded_rules quiet_guarded) simp_all
    with Cons show ?case by (auto intro!: guarded_rules)
  qed (simp add: guarded_Ret)
  then show ?thesis by (simp add: routedServicesReady_def)
qed

lemma guarded_runtimeServicesObservationComplete [guarded_rules]:
  "guarded G (runtimeServicesObservationComplete pg observed)"
  unfolding runtimeServicesObservationComplete_def by (intro guarded_rules)

lemma guarded_observeRuntimeServices [guarded_rules]: "guarded G (observeRuntimeServices w mq project pg)"
proof -
  have "guarded G (waitForRoutedServicesReady n mq project urls observed)" for n urls observed
  proof (induction n arbitrary: observed)
    case (Suc n)
    have "guarded G (routedServicesPollTick mq project urls)"
      unfolding routedServicesPollTick_def by (intro guarded_rules quiet_guarded) simp_all
    with Suc show ?case by (auto intro!: guarded_rules quiet_guarded)
  qed (simp add: guarded_Stuck)
  then show ?thesis
    unfolding observeRuntimeServices_def by (auto intro!: guarded_rules quiet_guarded)
qed

lemma guarded_currentRefreshPlayground [guarded_rules]: "guarded G (currentRefreshPlayground w pg s)"
  unfolding currentRefreshPlayground_def by (intro guarded_rules quiet_guarded) simp_all

lemma wp_currentRefreshPlayground:
  assumes "\<And>h. Q h (pg, True, None)" and "\<And>h e. Q h (pg, False, Some e)"
    and "\<And>h current. pg_status current = s \<Longrightarrow> Q h (current, True, None)"
    and "\<And>current. pg_status current \<noteq> s \<Longrightarrow>
      Q (h @ [(GetPlayground (pg_id pg), Row (Inr current))]) (current, False, None)"
  shows "wp G Q (currentRefreshPlayground w pg s) h"
proof -
  have "Q (h @ [(GetPlayground (pg_id pg), Row (Inr current))]) (current, pg_status current = s, None)" for current
    using assms(3)[of current] assms(4)[of current] by (cases "pg_status current = s") simp_all
  then show ?thesis
    unfolding currentRefreshPlayground_def by (auto simp: assms(1,2) quiet_allowed split: sum.split)
qed

end

context refresh_guard
begin

lemma guarded_redeployRuntimeRepair [guarded_rules]: "guarded G (redeployRuntimeRepair w pg mq s)"
proof -
  have tail: "guarded G (bind (currentRefreshPlayground w pg' s)
      (\<lambda>(current, active, err). if err \<noteq> None then Ret (pg', True, err)
         else if \<not> active
           then bind (cleanupSupersededRuntimeByStatus (pg_status current) mq project)
             (\<lambda>cleanupErr. Ret (current, False, cleanupErr))
         else m))" if "guarded G m" for pg' project and m :: "(playground \<times> bool \<times> go_error option) io"
    unfolding guarded_def wp_bind
    by (intro allI wp_currentRefreshPlayground) (use that in \<open>auto simp: wp_cleanup_after_read guarded_def\<close>)
  show ?thesis
    unfolding redeployRuntimeRepair_def by (intro guarded_rules tail guarded_save quiet_guarded) simp_all
qed

lemma guarded_repairRuntimeArtifacts [guarded_rules]: "guarded G (repairRuntimeArtifacts rx Y w pg mq reason now s)"
  unfolding repairRuntimeArtifacts_def syncRepairSources_def saveRepairSourcePreserved_def
  by (intro guarded_rules guarded_save quiet_guarded) simp_all

lemma guarded_with_status [guarded_rules]: "guarded G (with_status pg err)"
  unfolding with_status_def by (intro guarded_rules)

lemma guarded_finish_with [guarded_rules]: "guarded G (finish_with pg err)"
  unfolding finish_with_def by (intro guarded_rules)

lemma guarded_repairRuntimeDrift [guarded_rules]: "guarded G (repairRuntimeDrift rx Y w pg mq reason now s)"
  unfolding repairRuntimeDrift_def by (intro guarded_rules)

lemma guarded_phase [guarded_rules]:
  "(\<And>st. x = Finished st \<Longrightarrow> guarded G (f st)) \<Longrightarrow> (\<And>a. x = Proceed a \<Longrightarrow> guarded G (g a)) \<Longrightarrow>
     guarded G (case x of Finished st \<Rightarrow> f st | Proceed a \<Rightarrow> g a)"
  by (cases x) simp_all

lemma guarded_RefreshPlayground [guarded_rules]: "guarded G (RefreshPlayground rx Y w pg)"
proof -
  have "guarded G (prepareRuntimeRefresh w pg)"
    unfolding prepareRuntimeRefresh_def currentRuntimeRefreshTarget_def by (intro guarded_rules)
  moreover have "guarded G (inspectRuntimeRefreshServices rx Y w target now)" for target now
    unfolding inspectRuntimeRefreshServices_def handleRuntimeInspectError_def
    by (intro guarded_rules quiet_guarded) simp_all
  moreover have "guarded G (currentObservedRuntimeTarget w target)" for target
    unfolding currentObservedRuntimeTarget_def by (intro guarded_rules)
  moreover have "guarded G (refresh_observed rx Y w target services now)" for target services now
    unfolding refresh_observed_def applyRuntimeServiceObservation_def saveObservedRuntimeServices_def
      refreshRuntimeArtifactDrift_def
    by (intro guarded_rules guarded_save quiet_guarded) simp_all
  ultimately show ?thesis
    unfolding RefreshPlayground_def by (intro guarded_rules quiet_guarded) simp_all
qed

end

subsection \<open>Properties\<close>

definition repair_marked :: "string \<Rightarrow> int \<Rightarrow> playground \<Rightarrow> bool" where
  "repair_marked reason now pg =
     (pg_compose_project pg = None \<or>
      pg_repair_reason pg = Some reason \<and> pg_repair_lock_until pg = Some (now + defaultRuntimeRepairCooldown))"

definition saves_only :: "(playground \<Rightarrow> bool) \<Rightarrow> history \<Rightarrow> request \<Rightarrow> bool" where
  "saves_only P h q = (case q of SavePlayground pg \<Rightarrow> P pg | _ \<Rightarrow> True)"

lemma saves_only_simps [simp]:
  "saves_only P h (SavePlayground pg) = P pg" "saves_only P h (GetPlayground i)" "saves_only P h (GetPlayspec i)"
  "saves_only P h (DeployCompose mq p i y)" "saves_only P h (StopCompose mq p)" "saves_only P h (DestroyCompose mq p)"
  "saves_only P h TimeNow" "saves_only P h (SyncSource mq g)"
  by (simp_all add: saves_only_def)

lemma repair_marked_kept [simp]:
  "repair_marked reason now (preserveLatestRuntimeFieldsFrom pg current) = repair_marked reason now pg"
  "repair_marked reason now (clearRuntimeRepairError pg) = repair_marked reason now pg"
  "repair_marked reason now (source_preserved_row pg e) = repair_marked reason now pg"
  "repair_marked reason now (error_state_row pg st) = repair_marked reason now pg"
  "repair_marked reason now (MarkRuntimeRepairStarted pg reason now defaultRuntimeRepairCooldown)"
  by (simp_all add: repair_marked_def preserveLatestRuntimeFieldsFrom_def clearRuntimeRepairError_def
      source_preserved_row_def error_state_row_def MarkRuntimeRepairStarted_def)

abbreviation marked_guard :: "string \<Rightarrow> int \<Rightarrow> history \<Rightarrow> request \<Rightarrow> bool" where
  "marked_guard reason now \<equiv> saves_only (repair_marked reason now)"

lemma wp_repair_sync:
  "(\<And>h x. Q h x) \<Longrightarrow> wp (marked_guard reason now) Q (syncSources rx Y w mq project ps) h"
proof -
  assume q: "\<And>h x. Q h x"
  have "wp (marked_guard reason now) Q (runSourceSyncPlans w mq plans) h" for plans h
    by (induction plans arbitrary: h) (auto simp: runSourceSync_def q split: option.split)
  then show ?thesis unfolding syncSources_def by (auto simp: q split: sum.split)
qed

lemma wp_repair_current:
  "(\<And>h current active. Q h (current, active, None)) \<Longrightarrow> (\<And>h e. Q h (pg, False, Some e)) \<Longrightarrow>
     wp (marked_guard reason now) Q (currentRefreshPlayground w pg s) h"
  unfolding currentRefreshPlayground_def by (auto split: sum.split)

lemma wp_repair_error:
  "repair_marked reason now pg \<Longrightarrow> (\<And>h x. Q h x) \<Longrightarrow> wp (marked_guard reason now) Q (markPlaygroundError w pg e services) h"
  unfolding markPlaygroundError_def savePlaygroundErrorState_def preserveLatestRuntimeFields_def
  by (auto split: option.split sum.split)

lemma wp_repair_redeploy:
  assumes "repair_marked reason now pg" and "\<And>h p a e. e = None \<or> \<not> a \<or> repair_marked reason now p \<Longrightarrow> Q h (p, a, e)"
  shows "wp (marked_guard reason now) Q (redeployRuntimeRepair w pg mq s) h"
  using assms
  unfolding redeployRuntimeRepair_def wp_bind with_project_def Let_def cleanupSupersededRuntimeByStatus_def
  by (auto intro!: wp_repair_current split: option.split sum.split)

lemma wp_repair_artifacts:
  assumes "\<And>h p a e. e = None \<or> \<not> a \<or> repair_marked reason now p \<Longrightarrow> Q h (p, a, e)"
  shows "wp (marked_guard reason now) Q (repairRuntimeArtifacts rx Y w pg mq reason now s) h"
proof -
  let ?pg = "MarkRuntimeRepairStarted pg reason now defaultRuntimeRepairCooldown"
  have saved: "wp (marked_guard reason now) R (saveRepairSourcePreserved w ?pg c s) h"
    if "\<And>h p a e. e = None \<or> \<not> a \<or> repair_marked reason now p \<Longrightarrow> R h (p, a, e)" for R c h
    unfolding saveRepairSourcePreserved_def Let_def wp_bind
    by (rule wp_repair_current) (auto simp: that split: sum.split)
  have redeploy: "wp (marked_guard reason now) Q (redeployRuntimeRepair w ?pg mq s) h" for h
    by (rule wp_repair_redeploy) (simp_all add: assms(1))
  have "wp (marked_guard reason now) (\<lambda>h (r, err). wp (marked_guard reason now) Q
      (if err \<noteq> None \<or> \<not> rs_active r \<or> rs_handled r then Ret (rs_playground r, rs_active r, err)
       else redeployRuntimeRepair w (rs_playground r) mq s) h) (syncRepairSources rx Y w ?pg mq s) h"
    unfolding syncRepairSources_def with_project_def
    by (auto simp: repair_result_def assms(1) redeploy split: option.split sum.split
        intro!: wp_repair_sync saved)
  then show ?thesis
    unfolding repairRuntimeArtifacts_def Let_def
    by (auto simp: case_prod_unfold repair_marked_def intro!: assms)
qed

text \<open>Every row a repair of runtime drift writes, whatever its outcome, carries the reason of the repair and a lock of
ten minutes, during which no further repair of that row is begun.\<close>

theorem repair_writes_cooldown:
  assumes "trace (repairRuntimeDrift rx Y w pg mq reason now s) (es1 @ (SavePlayground pg', r) # es2)"
    and "pg_compose_project pg' \<noteq> None"
  shows "pg_repair_reason pg' = Some reason \<and> pg_repair_lock_until pg' = Some (now + 600000000000) \<and>
    (\<forall>later < now + 600000000000. RuntimeRepairCooldownActive pg' later)"
proof -
  have "wp (marked_guard reason now) (\<lambda>_ _. True) (repairRuntimeDrift rx Y w pg mq reason now s) []"
    unfolding repairRuntimeDrift_def with_status_def statusFromPlayground_def wp_bind
    by (rule wp_repair_current) (auto intro!: wp_repair_artifacts wp_repair_error split: option.split)
  from wp_trace[OF this assms(1) refl] have "repair_marked reason now pg'" by simp
  then show ?thesis
    using assms(2) by (simp add: repair_marked_def defaultRuntimeRepairCooldown_def RuntimeRepairCooldownActive_def)
qed

text \<open>A repair that redeploys a row without a playspec.\<close>

definition drift_run :: history where
  "drift_run = fst (replay (repairRuntimeDrift demo_regex demo_yaml demo_worker demo_row demo_marquee ''image_drift'' 10 StatusRunning)
     [Row (Inr demo_row), Row (Inr demo_row), Done None, Row (Inr demo_row), Row (Inr demo_row), Clock 11])"

theorem repair_writes_cooldown_witness:
  "\<exists>es1 pg' r es2. drift_run = es1 @ (SavePlayground pg', r) # es2 \<and> RuntimeRepairCooldownActive pg' 20"
proof -
  let ?pg = "clearRuntimeRepairError (MarkRuntimeRepairStarted demo_row ''image_drift'' 10 600000000000)"
  have run: "drift_run = [(GetPlayground 7, Row (Inr demo_row)), (GetPlayground 7, Row (Inr demo_row)),
      (DeployCompose demo_marquee ''p-1'' 7 [], Done None), (GetPlayground 7, Row (Inr demo_row))] @
      (SavePlayground ?pg, Row (Inr demo_row)) # [(TimeNow, Clock 11)]"
    unfolding drift_run_def by code_simp
  have t: "trace (repairRuntimeDrift demo_regex demo_yaml demo_worker demo_row demo_marquee ''image_drift'' 10 StatusRunning) drift_run"
    unfolding drift_run_def by (rule replay_trace) (rule prod.collapse[symmetric])
  have "pg_compose_project ?pg \<noteq> None" by code_simp
  from repair_writes_cooldown[OF t[unfolded run] this] run show ?thesis by fastforce
qed

text \<open>The write of an observation is not guarded: the row read last says the playground is being stopped, and the
handler still writes it as running.\<close>

theorem refresh_overwrites_stop:
  "replay (saveObservedRuntimeServices demo_worker demo_row [(stopped_service ''web'' [])\<lparr>svc_running := True\<rparr>] StatusRunning True)
     [Row (Inr demo_row), Row (Inr (demo_row\<lparr>pg_status := StatusStopping\<rparr>)), Row (Inl ErrNotFound)] =
   ([(GetPlayground 7, Row (Inr demo_row)), (GetPlayground 7, Row (Inr (demo_row\<lparr>pg_status := StatusStopping\<rparr>))),
     (SavePlayground (demo_row\<lparr>pg_services := [(stopped_service ''web'' [])\<lparr>svc_running := True\<rparr>]\<rparr>), Row (Inl ErrNotFound))],
    Some (demo_row\<lparr>pg_services := [(stopped_service ''web'' [])\<lparr>svc_running := True\<rparr>]\<rparr>, True, Some ErrNotFound)) \<and>
   pg_status demo_row = StatusRunning"
  by code_simp

end
