(* ===== verification/WorkerReconcile.thy ===== *)
theory WorkerReconcile
  imports WorkerRefresh
begin

text \<open>
  The reconciliation pass of the worker: \<open>internal/worker/playguard.go\<close>. Source sync of a row, the expiration
  claim and the steps from an expired row to its deletion, the sweep of remote projects no row stands for, and the
  pass over all rows. The lemmas say what a pass may destroy or delete, and that one row's failure stops no other.
\<close>

subsection \<open>Source sync of a row\<close>

definition currentSourceSyncPlayground :: "playground \<Rightarrow> string \<Rightarrow> (playground \<times> bool \<times> go_error option) io" where
  "currentSourceSyncPlayground pg syncStatus =
     bind (ask_row (GetPlayground (pg_id pg)))
       (\<lambda>r. Ret (case r of Inl e \<Rightarrow> (pg, False, Some e)
                 | Inr current \<Rightarrow> (current, pg_status current = syncStatus, None)))"

definition currentSourceSyncTarget :: "playground \<Rightarrow> string \<Rightarrow> (playground \<times> bool \<times> go_error option) io" where
  "currentSourceSyncTarget pg syncStatus =
     bind (currentSourceSyncPlayground pg syncStatus)
       (\<lambda>(current, active, err).
          if err \<noteq> None \<or> \<not> active then Ret (current, active, err)
          else if \<not> ShouldSyncSources current \<or> pg_playspec_id current = None then Ret (current, False, None)
          else Ret (current, True, None))"

definition classifiedSourceSyncFailurePlayground :: "playground \<Rightarrow> sync_error \<Rightarrow> go_error \<Rightarrow> playground" where
  "classifiedSourceSyncFailurePlayground pg s cause =
     pg\<lparr>pg_error_details := Some (mergeErrorDetails (pg_error_details pg) ''source_sync'' (Details s)),
        pg_error_message := Some (firstNonEmpty [se_message s, error_text (ErrSync s cause)]),
        pg_state_reason := Some (se_category s), pg_state_reasons := [se_category s],
        pg_build_warnings := NextActions s,
        pg_status := (if PreservesWork s then StatusHasChanges else StatusError)\<rparr>"

definition genericSourceSyncFailurePlayground :: "playground \<Rightarrow> go_error \<Rightarrow> playground" where
  "genericSourceSyncFailurePlayground pg syncFailure =
     (let message = error_text syncFailure
      in pg\<lparr>pg_status := StatusError, pg_error_message := Some message,
            pg_error_details := Some (mergeErrorDetails (pg_error_details pg) ''source_sync''
              (AMap [(''category'', AStr ''source_sync_failed''), (''message'', AStr message)])),
            pg_state_reason := Some ''source_sync_failed'', pg_state_reasons := [''source_sync_failed'']\<rparr>)"

definition sourceSyncFailurePlayground :: "playground \<Rightarrow> go_error \<Rightarrow> playground" where
  "sourceSyncFailurePlayground pg syncFailure =
     (case as_sync syncFailure of
        Some (s, cause) \<Rightarrow> classifiedSourceSyncFailurePlayground pg s cause
      | None \<Rightarrow> genericSourceSyncFailurePlayground pg syncFailure)"

definition recordSourceSyncFailure :: "playground \<Rightarrow> go_error \<Rightarrow> string \<Rightarrow> go_error option io" where
  "recordSourceSyncFailure pg syncFailure syncStatus =
     bind (currentSourceSyncPlayground pg syncStatus)
       (\<lambda>(current, active, err).
          if err \<noteq> None \<or> \<not> active then Ret err
          else bind (ask_row (SavePlayground (sourceSyncFailurePlayground current syncFailure)))
            (\<lambda>r. Ret (case r of Inl e \<Rightarrow> Some e | Inr saved \<Rightarrow> None)))"

definition resolved_sync_row :: "playground \<Rightarrow> playground" where
  "resolved_sync_row pg =
     pg\<lparr>pg_status := StatusRunning, pg_state_reason := None, pg_state_reasons := [], pg_build_warnings := [],
        pg_error_details := del_detail ''source_sync'' (pg_error_details pg)\<rparr>"

definition clearResolvedSourceSyncFailure :: "playground \<Rightarrow> string \<Rightarrow> go_error option io" where
  "clearResolvedSourceSyncFailure pg syncStatus =
     bind (currentSourceSyncPlayground pg syncStatus)
       (\<lambda>(current, active, err).
          if err \<noteq> None \<or> \<not> active then Ret err
          else if pg_status current = StatusHasChanges \<and> SourceSyncStateReason current
            then bind (ask_row (SavePlayground (resolved_sync_row current)))
              (\<lambda>r. Ret (case r of Inl e \<Rightarrow> Some e | Inr saved \<Rightarrow> None))
          else Ret None)"

record sourceSyncDependencies =
  sd_marquee :: marquee
  sd_playspec :: playspec
  sd_ok :: bool

text \<open>\<open>*pg.PlayspecID\<close>: a nil pointer panics, and the run ends there.\<close>

definition with_playspec_id :: "playground \<Rightarrow> (int \<Rightarrow> 'a io) \<Rightarrow> 'a io" where
  "with_playspec_id pg k = (case pg_playspec_id pg of None \<Rightarrow> Stuck | Some i \<Rightarrow> k i)"

definition playgroundSourceSyncDependencies ::
    "regex_engine \<Rightarrow> yaml_lib \<Rightarrow> playground \<Rightarrow> (go_error + sourceSyncDependencies) io" where
  "playgroundSourceSyncDependencies rx Y pg =
     bind (runtimeMarqueeForPlayground pg)
       (\<lambda>m. case m of
          Inl e \<Rightarrow> Ret (Inl e)
        | Inr mq \<Rightarrow>
            bind (with_playspec_id pg (\<lambda>i. ask_spec (GetPlayspec i)))
              (\<lambda>r. Ret (case r of
                 Inl e \<Rightarrow> Inl e
               | Inr ps \<Rightarrow>
                   (case sourcePathsForPlayground rx Y pg (ps_base_compose_yaml ps) of
                      Inl e \<Rightarrow> Inl e
                    | Inr paths \<Rightarrow> Inr \<lparr>sd_marquee = mq, sd_playspec = ps, sd_ok = (paths \<noteq> [])\<rparr>))))"

definition runPlaygroundSourceSync ::
    "regex_engine \<Rightarrow> yaml_lib \<Rightarrow> worker \<Rightarrow> playground \<Rightarrow> marquee \<Rightarrow> playspec \<Rightarrow> go_error option io" where
  "runPlaygroundSourceSync rx Y w pg mq ps = with_project pg (\<lambda>project. syncSources rx Y w mq project ps)"

definition syncPlaygroundSources :: "regex_engine \<Rightarrow> yaml_lib \<Rightarrow> worker \<Rightarrow> playground \<Rightarrow> go_error option io" where
  "syncPlaygroundSources rx Y w pg =
     (if \<not> w_has_db w then Ret None
      else let syncStatus = pg_status pg
           in bind (currentSourceSyncTarget pg syncStatus)
             (\<lambda>(current, active, err).
                if err \<noteq> None \<or> \<not> active then Ret err
                else bind (playgroundSourceSyncDependencies rx Y current)
                  (\<lambda>r. case r of
                     Inl e \<Rightarrow> Ret (Some e)
                   | Inr deps \<Rightarrow>
                       (if \<not> sd_ok deps then Ret None
                        else bind (runPlaygroundSourceSync rx Y w current (sd_marquee deps) (sd_playspec deps))
                          (\<lambda>syncErr. case syncErr of
                             Some e \<Rightarrow> recordSourceSyncFailure current e syncStatus
                           | None \<Rightarrow> clearResolvedSourceSyncFailure current syncStatus)))))"

text \<open>The row after the sync; \<open>None\<close> is the zero row of a playground that was deleted meanwhile.\<close>

definition reloadPlaygroundAfterSourceSync :: "playground \<Rightarrow> (go_error + playground option) io" where
  "reloadPlaygroundAfterSourceSync pg =
     bind (ask_row (GetPlayground (pg_id pg)))
       (\<lambda>r. Ret (case r of Inl e \<Rightarrow> if is_not_found e then Inr None else Inl e | Inr refreshed \<Rightarrow> Inr (Some refreshed)))"

definition syncPlaygroundSourcesIfNeeded ::
    "regex_engine \<Rightarrow> yaml_lib \<Rightarrow> worker \<Rightarrow> playground \<Rightarrow> (go_error + playground option) io" where
  "syncPlaygroundSourcesIfNeeded rx Y w pg =
     (if \<not> w_has_db w \<or> \<not> ShouldSyncSources pg then Ret (Inr (Some pg))
      else bind (syncPlaygroundSources rx Y w pg)
        (\<lambda>err. case err of Some e \<Rightarrow> Ret (Inl e) | None \<Rightarrow> reloadPlaygroundAfterSourceSync pg))"

subsection \<open>Runtime refresh of a row\<close>

definition refreshFailureWasRecorded :: "int \<Rightarrow> bool io" where
  "refreshFailureWasRecorded i =
     bind (ask_row (GetPlayground i))
       (\<lambda>r. Ret (case r of Inl e \<Rightarrow> False | Inr refreshed \<Rightarrow> pg_status refreshed = StatusError))"

text \<open>The zero row has no runtime, so it is not refreshed.\<close>

definition refreshPlaygroundRuntimeIfNeeded ::
    "regex_engine \<Rightarrow> yaml_lib \<Rightarrow> worker \<Rightarrow> playground option \<Rightarrow> go_error option io" where
  "refreshPlaygroundRuntimeIfNeeded rx Y w row =
     (case row of
        None \<Rightarrow> Ret None
      | Some pg \<Rightarrow>
          (if \<not> ShouldRefreshRuntime pg then Ret None
           else bind (RefreshPlayground rx Y w pg)
             (\<lambda>(st, err). case err of
                None \<Rightarrow> Ret None
              | Some e \<Rightarrow>
                  bind (refreshFailureWasRecorded (pg_id pg)) (\<lambda>recorded. Ret (if recorded then None else Some e)))))"

subsection \<open>Expiration claims\<close>

record expirationClaim =
  cl_playground_id :: int
  cl_status :: string
  cl_expires_at :: "int option"
  cl_marquee_id :: "int option"
  cl_compose_project :: "string option"

definition newExpirationClaim :: "playground \<Rightarrow> expirationClaim" where
  "newExpirationClaim pg =
     \<lparr>cl_playground_id = pg_id pg, cl_status = pg_status pg, cl_expires_at = pg_expires_at pg,
      cl_marquee_id = pg_marquee_id pg, cl_compose_project = pg_compose_project pg\<rparr>"

definition sameRuntimeIdentity :: "expirationClaim \<Rightarrow> playground \<Rightarrow> bool" where
  "sameRuntimeIdentity c pg =
     (if (cl_marquee_id c \<noteq> None) \<noteq> (pg_marquee_id pg \<noteq> None) \<or>
         (cl_compose_project c \<noteq> None) \<noteq> (pg_compose_project pg \<noteq> None) then False
      else if cl_marquee_id c \<noteq> None \<and> pg_marquee_id pg \<noteq> cl_marquee_id c then False
      else cl_compose_project c = None \<or> pg_compose_project pg = cl_compose_project c)"

text \<open>A claim without an expiry holds the zero time, which no expiry of a row equals.\<close>

definition claim_matches :: "expirationClaim \<Rightarrow> playground \<Rightarrow> int \<Rightarrow> bool" where
  "claim_matches c pg now =
     (case pg_expires_at pg of
        None \<Rightarrow> False
      | Some t \<Rightarrow>
          (if pg_id pg \<noteq> cl_playground_id c \<or> pg_status pg \<noteq> cl_status c then False
           else if \<not> ExpirableStatus (pg_status pg) \<or> Some t \<noteq> cl_expires_at c \<or> \<not> now > t then False
           else sameRuntimeIdentity c pg))"

text \<open>The row, if the claim on it still holds.\<close>

definition currentExpirationPlayground :: "expirationClaim \<Rightarrow> int \<Rightarrow> (go_error + playground option) io" where
  "currentExpirationPlayground claim now =
     bind (ask_row (GetPlayground (cl_playground_id claim)))
       (\<lambda>r. Ret (case r of
          Inl e \<Rightarrow> if is_not_found e then Inr None else Inl e
        | Inr current \<Rightarrow> Inr (if claim_matches claim current now then Some current else None)))"

subsection \<open>Expiration\<close>

definition markDestroyedExpirationSuperseded :: "expirationClaim \<Rightarrow> go_error option io" where
  "markDestroyedExpirationSuperseded claim =
     bind (ask_row (GetPlayground (cl_playground_id claim)))
       (\<lambda>r. case r of
          Inl e \<Rightarrow> Ret (if is_not_found e then None else Some e)
        | Inr current \<Rightarrow>
            (if pg_status current \<noteq> cl_status claim \<or> \<not> sameRuntimeIdentity claim current then Ret None
             else bind (ask_row (SavePlayground
                   (current\<lparr>pg_status := StatusStopped, pg_state_reason := None, pg_state_reasons := []\<rparr>)))
               (\<lambda>s. Ret (case s of Inl e \<Rightarrow> Some e | Inr saved \<Rightarrow> None))))"

definition deleteExpiredPlayground :: "expirationClaim \<Rightarrow> int \<Rightarrow> go_error option io" where
  "deleteExpiredPlayground claim now =
     bind (currentExpirationPlayground claim now)
       (\<lambda>r. case r of
          Inl e \<Rightarrow> Ret (Some e)
        | Inr None \<Rightarrow> markDestroyedExpirationSuperseded claim
        | Inr (Some pg) \<Rightarrow> ask_done (DeletePlayground (pg_id pg)))"

definition recordExpirationDestroyError :: "worker \<Rightarrow> expirationClaim \<Rightarrow> int \<Rightarrow> go_error \<Rightarrow> go_error option io" where
  "recordExpirationDestroyError w claim now destroyErr =
     bind (currentExpirationPlayground claim now)
       (\<lambda>r. case r of
          Inl e \<Rightarrow> Ret (Some e)
        | Inr None \<Rightarrow> Ret None
        | Inr (Some pg) \<Rightarrow>
            bind (markPlaygroundError w pg destroyErr (playgroundServiceNames (pg_services pg)))
              (\<lambda>(marked, saveErr). Ret (join_errors [Some destroyErr, saveErr])))"

definition markExpiredDirty :: "playground \<Rightarrow> string list \<Rightarrow> go_error option io" where
  "markExpiredDirty pg dirtyPaths =
     bind (ask_row (SavePlayground (pg\<lparr>pg_status := StatusHasChanges, pg_state_reason := Some ''expiration_skipped_dirty'',
             pg_error_details := Some [(''dirty_paths'', AStrs dirtyPaths)]\<rparr>)))
       (\<lambda>r. Ret (case r of Inl e \<Rightarrow> Some e | Inr saved \<Rightarrow> None))"

record expirationDirtyCheck =
  dc_marquee :: marquee
  dc_dirty :: bool
  dc_paths :: "string list"

text \<open>The playspec's Compose text, empty when the row has no playspec.\<close>

definition expirationDependencies :: "playground \<Rightarrow> (go_error + marquee \<times> string) io" where
  "expirationDependencies pg =
     bind (runtimeMarqueeForPlayground pg)
       (\<lambda>m. case m of
          Inl e \<Rightarrow> Ret (Inl e)
        | Inr mq \<Rightarrow>
            (case pg_playspec_id pg of
               None \<Rightarrow> Ret (Inr (mq, []))
             | Some i \<Rightarrow> bind (ask_spec (GetPlayspec i))
                 (\<lambda>r. Ret (case r of Inl e \<Rightarrow> Inl e | Inr ps \<Rightarrow> Inr (mq, ps_base_compose_yaml ps)))))"

definition expiration_dirty_check ::
    "regex_engine \<Rightarrow> yaml_lib \<Rightarrow> playground \<Rightarrow> (go_error + expirationDirtyCheck) io" where
  "expiration_dirty_check rx Y pg =
     bind (expirationDependencies pg)
       (\<lambda>d. case d of
          Inl e \<Rightarrow> Ret (Inl e)
        | Inr (mq, composeYAML) \<Rightarrow>
            (case sourcePathsForPlayground rx Y pg composeYAML of
               Inl e \<Rightarrow> Ret (Inl e)
             | Inr paths \<Rightarrow>
                 (if paths = [] then Ret (Inr \<lparr>dc_marquee = mq, dc_dirty = False, dc_paths = []\<rparr>)
                  else bind (with_project pg (\<lambda>project. ask_texts (SourceDirtyPaths mq project paths)))
                    (\<lambda>(dirtyPaths, err).
                       Ret (Inr \<lparr>dc_marquee = mq, dc_dirty = (dirtyPaths \<noteq> [] \<or> err \<noteq> None), dc_paths = dirtyPaths\<rparr>)))))"

definition completeRuntimeExpiration ::
    "worker \<Rightarrow> playground \<Rightarrow> expirationClaim \<Rightarrow> int \<Rightarrow> expirationDirtyCheck \<Rightarrow> go_error option io" where
  "completeRuntimeExpiration w pg claim now check =
     (if dc_dirty check then markExpiredDirty pg (dc_paths check)
      else bind (with_project pg (\<lambda>project. ask_done (DestroyCompose (dc_marquee check) project)))
        (\<lambda>err. case err of
           Some e \<Rightarrow> recordExpirationDestroyError w claim now e
         | None \<Rightarrow> deleteExpiredPlayground claim now))"

definition expireRuntimePlayground ::
    "regex_engine \<Rightarrow> yaml_lib \<Rightarrow> worker \<Rightarrow> playground \<Rightarrow> expirationClaim \<Rightarrow> int \<Rightarrow> go_error option io" where
  "expireRuntimePlayground rx Y w pg claim now =
     bind (expiration_dirty_check rx Y pg)
       (\<lambda>c. case c of
          Inl e \<Rightarrow> Ret (Some e)
        | Inr check \<Rightarrow>
            bind (currentExpirationPlayground claim now)
              (\<lambda>r. case r of
                 Inl e \<Rightarrow> Ret (Some e)
               | Inr None \<Rightarrow> Ret None
               | Inr (Some pg) \<Rightarrow> completeRuntimeExpiration w pg claim now check))"

definition markExpiredWithoutRuntime :: "expirationClaim \<Rightarrow> int \<Rightarrow> go_error option io" where
  "markExpiredWithoutRuntime claim now =
     bind (currentExpirationPlayground claim now)
       (\<lambda>r. case r of
          Inl e \<Rightarrow> Ret (Some e)
        | Inr None \<Rightarrow> Ret None
        | Inr (Some pg) \<Rightarrow>
            bind (ask_row (SavePlayground (pg\<lparr>pg_status := StatusStopped\<rparr>)))
              (\<lambda>s. Ret (case s of Inl e \<Rightarrow> Some e | Inr saved \<Rightarrow> None)))"

definition enforceExpiration :: "regex_engine \<Rightarrow> yaml_lib \<Rightarrow> worker \<Rightarrow> playground \<Rightarrow> int \<Rightarrow> go_error option io" where
  "enforceExpiration rx Y w pg0 now =
     (let claim = newExpirationClaim pg0
      in bind (currentExpirationPlayground claim now)
        (\<lambda>r. case r of
           Inl e \<Rightarrow> Ret (Some e)
         | Inr None \<Rightarrow> Ret None
         | Inr (Some pg) \<Rightarrow>
             (if pg_marquee_id pg = None \<or> pg_compose_project pg = None then markExpiredWithoutRuntime claim now
              else expireRuntimePlayground rx Y w pg claim now)))"

subsection \<open>Remote orphans\<close>

definition reapOwnedRemoteProject :: "marquee \<Rightarrow> string \<Rightarrow> go_error option io" where
  "reapOwnedRemoteProject mq project =
     bind (ask_done (DestroyCompose mq project))
       (\<lambda>err. Ret (map_option (ErrWrap (''reap remote playground '' @ project)) err))"

fun reap_errors :: "marquee \<Rightarrow> string list \<Rightarrow> go_error list io" where
  "reap_errors mq [] = Ret []"
| "reap_errors mq (p # ps) =
     bind (reapOwnedRemoteProject mq p)
       (\<lambda>err. bind (reap_errors mq ps) (\<lambda>errs. Ret ((case err of None \<Rightarrow> [] | Some e \<Rightarrow> [e]) @ errs)))"

definition reapOwnedRemoteProjects :: "marquee \<Rightarrow> string list \<Rightarrow> go_error option io" where
  "reapOwnedRemoteProjects mq projects = bind (reap_errors mq projects) (\<lambda>errs. Ret (join_errors (map Some errs)))"

definition remoteOrphanSweepMarquee :: "(go_error + marquee option) io" where
  "remoteOrphanSweepMarquee = ask_marquee"

definition reconcileOwnedRemoteOrphans :: "worker \<Rightarrow> go_error option io" where
  "reconcileOwnedRemoteOrphans w =
     (if \<not> w_has_db w then Ret None
      else bind remoteOrphanSweepMarquee
        (\<lambda>m. case m of
           Inl e \<Rightarrow> Ret (Some e)
         | Inr None \<Rightarrow> Ret None
         | Inr (Some mq) \<Rightarrow>
             bind (ask_texts (ListPlaygroundProjects mq))
               (\<lambda>(projects, err). case err of
                  Some e \<Rightarrow> Ret (Some (ErrWrap ''list remote playgrounds'' e))
                | None \<Rightarrow>
                    bind (ask_rows ListPlaygrounds)
                      (\<lambda>l. case l of
                         Inl e \<Rightarrow> Ret (Some e)
                       | Inr playgrounds \<Rightarrow>
                           reapOwnedRemoteProjects mq (StaleRemoteProjects projects playgrounds (mq_id mq))))))"

subsection \<open>The pass\<close>

definition reconcilePlayground :: "regex_engine \<Rightarrow> yaml_lib \<Rightarrow> worker \<Rightarrow> playground \<Rightarrow> int \<Rightarrow> go_error option io" where
  "reconcilePlayground rx Y w pg now =
     (if (case pg_expires_at pg of None \<Rightarrow> False | Some t \<Rightarrow> now > t) \<and> ExpirableStatus (pg_status pg)
      then enforceExpiration rx Y w pg now
      else bind (syncPlaygroundSourcesIfNeeded rx Y w pg)
        (\<lambda>r. case r of Inl e \<Rightarrow> Ret (Some e) | Inr refreshed \<Rightarrow> refreshPlaygroundRuntimeIfNeeded rx Y w refreshed))"

definition reconcileCurrentPlayground ::
    "regex_engine \<Rightarrow> yaml_lib \<Rightarrow> worker \<Rightarrow> playground \<Rightarrow> int \<Rightarrow> go_error option io" where
  "reconcileCurrentPlayground rx Y w listed now =
     (if \<not> w_has_db w then Ret None
      else bind (ask_row (GetPlayground (pg_id listed)))
        (\<lambda>r. case r of
           Inl e \<Rightarrow> Ret (if is_not_found e then None else Some e)
         | Inr current \<Rightarrow> reconcilePlayground rx Y w current now))"

fun reconcileErrors :: "regex_engine \<Rightarrow> yaml_lib \<Rightarrow> worker \<Rightarrow> playground list \<Rightarrow> int \<Rightarrow> go_error list io" where
  "reconcileErrors rx Y w [] now = Ret []"
| "reconcileErrors rx Y w (pg # pgs) now =
     bind (reconcileCurrentPlayground rx Y w pg now)
       (\<lambda>err. bind (reconcileErrors rx Y w pgs now)
         (\<lambda>errs. Ret ((case err of None \<Rightarrow> []
            | Some e \<Rightarrow> [ErrWrap (''reconcile playground '' @ pg_name pg @ ''/'' @ itoa (pg_id pg)) e]) @ errs)))"

definition ReconcileOnce :: "regex_engine \<Rightarrow> yaml_lib \<Rightarrow> worker \<Rightarrow> int \<Rightarrow> go_error option io" where
  "ReconcileOnce rx Y w now =
     (if \<not> w_has_db w then Ret None
      else bind (ask_rows ListPlaygrounds)
        (\<lambda>l. case l of
           Inl e \<Rightarrow> Ret (Some e)
         | Inr playgrounds \<Rightarrow>
             bind (reconcileErrors rx Y w playgrounds now)
               (\<lambda>errs. bind (reconcileOwnedRemoteOrphans w)
                 (\<lambda>orphanErr. Ret (join_errors (map Some errs @ [orphanErr]))))))"

subsection \<open>What a pass may do\<close>

definition expired :: "playground \<Rightarrow> int \<Rightarrow> bool" where
  "expired pg now =
     (ExpirableStatus (pg_status pg) \<and> (case pg_expires_at pg of None \<Rightarrow> False | Some t \<Rightarrow> now > t))"

text \<open>The history ends with the answer that the source checkouts of the row hold no uncommitted work: the row has no
playspec, its playspec names no repository, or the runtime was asked about exactly its checkouts and found none dirty.\<close>

definition checked_clean :: "regex_engine \<Rightarrow> yaml_lib \<Rightarrow> playground \<Rightarrow> history \<Rightarrow> bool" where
  "checked_clean rx Y pg h =
     (case pg_playspec_id pg of
        None \<Rightarrow> True
      | Some i \<Rightarrow>
          \<exists>h0 mq ps project paths. pg_compose_project pg = Some project \<and>
            sourcePathsForPlayground rx Y pg (ps_base_compose_yaml ps) = Inr paths \<and>
            (paths = [] \<and> h = h0 @ [(GetPlayspec i, SpecRow (Inr ps))] \<or>
             h = h0 @ [(GetPlayspec i, SpecRow (Inr ps)), (SourceDirtyPaths mq project paths, Texts ([], None))]))"

definition destroys_expired :: "regex_engine \<Rightarrow> yaml_lib \<Rightarrow> int \<Rightarrow> history \<Rightarrow> string \<Rightarrow> bool" where
  "destroys_expired rx Y now h project =
     (\<exists>h0 pg0 pg. checked_clean rx Y pg0 h0 \<and> h = h0 @ [(GetPlayground (pg_id pg), Row (Inr pg))] \<and>
        expired pg now \<and> pg_compose_project pg0 = Some project \<and> pg_compose_project pg = Some project)"

definition destroys_orphan :: "history \<Rightarrow> marquee \<Rightarrow> string \<Rightarrow> bool" where
  "destroys_orphan h mq project =
     (\<exists>h0 projects pgs reaped.
        h = h0 @ [(ListPlaygroundProjects mq, Texts (projects, None)), (ListPlaygrounds, Rows (Inr pgs))] @ reaped \<and>
        (\<forall>e \<in> set reaped. \<exists>p. fst e = DestroyCompose mq p) \<and>
        project \<in> set (map trim_space projects) \<and> (\<forall>pg \<in> set pgs. \<not> MatchesRemoteProject pg (mq_id mq) project))"

definition last_read_status :: "history \<Rightarrow> string set \<Rightarrow> bool" where
  "last_read_status h statuses = (\<exists>h0 i pg. h = h0 @ [(GetPlayground i, Row (Inr pg))] \<and> pg_status pg \<in> statuses)"

definition deletes_destroyed :: "int \<Rightarrow> history \<Rightarrow> int \<Rightarrow> bool" where
  "deletes_destroyed now h i =
     (\<exists>h0 mq project pg.
        h = h0 @ [(DestroyCompose mq project, Done None), (GetPlayground i, Row (Inr pg))] \<and>
        pg_id pg = i \<and> pg_compose_project pg = Some project \<and> expired pg now)"

definition reconcile_guard :: "regex_engine \<Rightarrow> yaml_lib \<Rightarrow> int \<Rightarrow> history \<Rightarrow> request \<Rightarrow> bool" where
  "reconcile_guard rx Y now h q =
     (case q of
        SyncSource mq g \<Rightarrow> inside_checkouts (gr_project g) (gr_target g)
      | StopCompose mq project \<Rightarrow> last_read_status h {StatusStopping, StatusStopped}
      | DestroyCompose mq project \<Rightarrow>
          last_read_status h {StatusDestroying} \<or> destroys_expired rx Y now h project \<or> destroys_orphan h mq project
      | DeletePlayground i \<Rightarrow> deletes_destroyed now h i
      | _ \<Rightarrow> True)"

interpretation reconcile: refresh_guard "reconcile_guard rx Y now" for rx Y now
  by unfold_locales (auto simp: reconcile_guard_def quiet_def last_read_status_def split: request.splits)

lemma sameRuntimeIdentity_project:
  "sameRuntimeIdentity c pg \<Longrightarrow> pg_compose_project pg = cl_compose_project c"
  by (auto simp: sameRuntimeIdentity_def split: if_splits)

lemma claim_matches_facts:
  assumes "claim_matches c pg now"
  shows "pg_id pg = cl_playground_id c" and "expired pg now" and "pg_compose_project pg = cl_compose_project c"
proof -
  obtain t where t: "pg_expires_at pg = Some t" using assms by (auto simp: claim_matches_def split: option.splits)
  with assms show "pg_id pg = cl_playground_id c" and "expired pg now"
    by (auto simp: claim_matches_def expired_def split: if_splits)
  show "pg_compose_project pg = cl_compose_project c"
    using assms t by (auto simp: claim_matches_def split: if_splits intro: sameRuntimeIdentity_project)
qed

text \<open>What the parts of an expiration hand on.\<close>

lemma wp_currentExpirationPlayground:
  assumes "\<And>h. reconcile_guard rx Y now h (GetPlayground (cl_playground_id c))"
    and "\<And>h e. Q h (Inl e)" and "\<And>h. Q h (Inr None)"
    and "\<And>pg. claim_matches c pg now \<Longrightarrow> Q (h @ [(GetPlayground (pg_id pg), Row (Inr pg))]) (Inr (Some pg))"
  shows "wp (reconcile_guard rx Y now) Q (currentExpirationPlayground c now) h"
  using assms claim_matches_facts(1)[of c _ now]
  by (auto simp: currentExpirationPlayground_def split: sum.split)

lemma wp_expiration_dirty_check:
  assumes "\<And>h e. Q h (Inl e)" and "\<And>h c. dc_dirty c \<Longrightarrow> Q h (Inr c)"
    and "\<And>h c. checked_clean rx Y pg h \<Longrightarrow> Q h (Inr c)"
    and "pg_compose_project pg = Some project"
  shows "wp (reconcile_guard rx Y now) Q (expiration_dirty_check rx Y pg) h"
proof -
  note quiet = reconcile.quiet_allowed
  have spec: "Q (past @ [(GetPlayspec i, SpecRow (Inr ps))]) (Inr c)"
    if "pg_playspec_id pg = Some i" "sourcePathsForPlayground rx Y pg (ps_base_compose_yaml ps) = Inr []" for past i ps c
    by (rule assms(3)) (use that assms(4) in \<open>auto simp: checked_clean_def\<close>)
  have dirty: "Q (past @ [(GetPlayspec i, SpecRow (Inr ps)), (SourceDirtyPaths mq project paths, Texts ([], None))]) (Inr c)"
    if "pg_playspec_id pg = Some i" "sourcePathsForPlayground rx Y pg (ps_base_compose_yaml ps) = Inr paths" for past i ps c mq paths
    by (rule assms(3)) (use that assms(4) in \<open>auto simp: checked_clean_def\<close>)
  have asked: "Q (past @ [(GetPlayspec i, SpecRow (Inr ps)), (SourceDirtyPaths mq project paths, Texts (d, e))])
      (Inr \<lparr>dc_marquee = mq, dc_dirty = (d \<noteq> [] \<or> e \<noteq> None), dc_paths = d\<rparr>)"
    if "pg_playspec_id pg = Some i" "sourcePathsForPlayground rx Y pg (ps_base_compose_yaml ps) = Inr paths"
    for past i ps mq paths d e
    by (cases "d = [] \<and> e = None") (auto intro: dirty[OF that] assms(2))
  have none: "Q past (Inr c)" if "pg_playspec_id pg = None" for past c
    by (rule assms(3)) (simp add: that checked_clean_def)
  have empty: "sourcePathsForPlayground rx Y pg [] = Inr []"
    by (simp add: sourcePathsForPlayground_def assms(4))
  show ?thesis
    unfolding expiration_dirty_check_def expirationDependencies_def runtimeMarqueeForPlayground_def with_project_def
    using assms(1,4)
    by (auto simp: quiet empty none split: sum.split option.split
        intro: spec[where past = "past @ [x]" for past x, simplified] asked[where past = "past @ [x]" for past x, simplified])
qed

lemma guard_allows:
  "checked_clean rx Y pg0 h \<Longrightarrow> pg_compose_project pg0 = Some project \<Longrightarrow> expired pg now \<Longrightarrow>
     pg_compose_project pg = Some project \<Longrightarrow> pg_id pg = i \<Longrightarrow>
     reconcile_guard rx Y now (h @ [(GetPlayground i, Row (Inr pg))]) (DestroyCompose mq project)"
  "expired pg now \<Longrightarrow> pg_compose_project pg = Some project \<Longrightarrow> pg_id pg = i \<Longrightarrow>
     reconcile_guard rx Y now (h @ [(DestroyCompose mq project, Done None), (GetPlayground i, Row (Inr pg))])
       (DeletePlayground i)"
  unfolding reconcile_guard_def destroys_expired_def deletes_destroyed_def by auto

lemma wp_deleteExpiredPlayground:
  assumes "cl_compose_project c = Some project"
  shows "wp (reconcile_guard rx Y now) (\<lambda>_ _. True) (deleteExpiredPlayground c now)
    (h @ [(DestroyCompose mq project, Done None)])"
proof -
  have superseded: "guarded (reconcile_guard rx Y now) (markDestroyedExpirationSuperseded c)"
    unfolding markDestroyedExpirationSuperseded_def
    by (intro guarded_rules reconcile.guarded_save reconcile.quiet_guarded) simp_all
  show ?thesis
    unfolding deleteExpiredPlayground_def wp_bind
    by (rule wp_currentExpirationPlayground)
      (auto simp: reconcile.quiet_allowed superseded[unfolded guarded_def] claim_matches_facts(2) assms
        claim_matches_facts(3)[of c] intro!: guard_allows(2))
qed

lemma guarded_enforceExpiration: "guarded (reconcile_guard rx Y now) (enforceExpiration rx Y w pg now)"
proof -
  let ?G = "reconcile_guard rx Y now"
  note quiet = reconcile.quiet_allowed
  have dirty: "guarded ?G (markExpiredDirty pg paths)" for pg paths
    unfolding markExpiredDirty_def by (intro guarded_rules reconcile.guarded_save reconcile.quiet_guarded)
  have current: "guarded ?G (currentExpirationPlayground c now)" for c
    unfolding currentExpirationPlayground_def by (intro guarded_rules reconcile.guarded_save reconcile.quiet_guarded) simp_all
  have failed: "guarded ?G (recordExpirationDestroyError w c now e)" for c e
    unfolding recordExpirationDestroyError_def
    by (intro guarded_rules current reconcile.guarded_markPlaygroundError)
  have norun: "guarded ?G (markExpiredWithoutRuntime c now)" for c
    unfolding markExpiredWithoutRuntime_def by (intro guarded_rules current reconcile.guarded_save reconcile.quiet_guarded)
  have complete: "wp ?G (\<lambda>_ _. True) (completeRuntimeExpiration w pg c now check) (h @ [(GetPlayground (pg_id pg), Row (Inr pg))])"
    if "claim_matches c pg now" "cl_compose_project c = Some project" "checked_clean rx Y pg0 h \<or> dc_dirty check"
      "pg_compose_project pg0 = Some project" for c pg pg0 project check h
    using that claim_matches_facts[OF that(1)] dirty[unfolded guarded_def] failed[unfolded guarded_def]
      wp_deleteExpiredPlayground[OF that(2), where h = "h @ [(GetPlayground (pg_id pg), Row (Inr pg))]"]
    by (auto simp: completeRuntimeExpiration_def with_project_def split: option.split intro: guard_allows(1))
  have run: "wp ?G (\<lambda>_ _. True) (expireRuntimePlayground rx Y w pg0 c now) h"
    if "cl_compose_project c = Some project" "pg_compose_project pg0 = Some project" for pg0 c project h
  proof -
    have "wp ?G (\<lambda>h r. wp ?G (\<lambda>_ _. True) (case r of Inl e \<Rightarrow> Ret (Some e) | Inr None \<Rightarrow> Ret None
        | Inr (Some pg) \<Rightarrow> completeRuntimeExpiration w pg c now check) h) (currentExpirationPlayground c now) h"
      if "checked_clean rx Y pg0 h \<or> dc_dirty check" for h check
      by (rule wp_currentExpirationPlayground)
        (use that complete \<open>cl_compose_project c = Some project\<close> \<open>pg_compose_project pg0 = Some project\<close> in
          \<open>auto simp: quiet\<close>)
    then show ?thesis
      unfolding expireRuntimePlayground_def wp_bind
      by (intro wp_expiration_dirty_check[where project = project]) (auto simp: that)
  qed
  have "wp ?G (\<lambda>_ _. True) (enforceExpiration rx Y w pg now) h" for h
    unfolding enforceExpiration_def Let_def wp_bind
  proof (rule wp_currentExpirationPlayground)
    fix pg' assume c: "claim_matches (newExpirationClaim pg) pg' now"
    then have "pg_compose_project pg' = cl_compose_project (newExpirationClaim pg)" by (rule claim_matches_facts(3))
    then show "wp ?G (\<lambda>_ _. True)
       (case Inr (Some pg') of Inl e \<Rightarrow> Ret (Some e) | Inr None \<Rightarrow> Ret None
        | Inr (Some pg'') \<Rightarrow>
            if pg_marquee_id pg'' = None \<or> pg_compose_project pg'' = None
            then markExpiredWithoutRuntime (newExpirationClaim pg) now
            else expireRuntimePlayground rx Y w pg'' (newExpirationClaim pg) now)
       (h @ [(GetPlayground (pg_id pg'), Row (Inr pg'))])"
      using norun[unfolded guarded_def] by (auto intro: run)
  qed (simp_all add: quiet)
  then show ?thesis by (simp add: guarded_def)
qed

lemma wp_reap_errors:
  assumes "\<And>p. p \<in> set ps \<Longrightarrow> p \<in> set (StaleRemoteProjects projects pgs (mq_id mq))"
    and "\<forall>e \<in> set reaped. \<exists>p. fst e = DestroyCompose mq p"
  shows "wp (reconcile_guard rx Y now) (\<lambda>_ _. True) (reap_errors mq ps)
    (h @ [(ListPlaygroundProjects mq, Texts (projects, None)), (ListPlaygrounds, Rows (Inr pgs))] @ reaped)"
  using assms
proof (induction ps arbitrary: reaped)
  case (Cons p ps)
  let ?h = "\<lambda>reaped. h @ [(ListPlaygroundProjects mq, Texts (projects, None)), (ListPlaygrounds, Rows (Inr pgs))] @ reaped"
  have stale: "p \<in> set (StaleRemoteProjects projects pgs (mq_id mq))" using Cons.prems(1) by simp
  have "destroys_orphan (?h reaped) mq p"
    unfolding destroys_orphan_def
    by (intro exI[of _ h] exI[of _ projects] exI[of _ pgs] exI[of _ reaped])
      (use stale Cons.prems(2) in \<open>auto simp: StaleRemoteProjects_iff\<close>)
  then have "reconcile_guard rx Y now (?h reaped) (DestroyCompose mq p)" by (simp add: reconcile_guard_def)
  moreover have "wp (reconcile_guard rx Y now) (\<lambda>_ _. True) (reap_errors mq ps) (?h (reaped @ [(DestroyCompose mq p, Done x)]))" for x
    by (rule Cons.IH) (use Cons.prems in auto)
  ultimately show ?case by (simp add: reapOwnedRemoteProject_def)
qed simp

lemma guarded_reconcileOwnedRemoteOrphans: "guarded (reconcile_guard rx Y now) (reconcileOwnedRemoteOrphans w)"
proof -
  note reap = wp_reap_errors[where reaped = "[]", simplified]
  have "wp (reconcile_guard rx Y now) (\<lambda>_ _. True) (reapOwnedRemoteProjects mq (StaleRemoteProjects projects pgs (mq_id mq)))
      (h @ [(GetRuntimeMarquee, MarqueeRow (Inr (Some mq))), (ListPlaygroundProjects mq, Texts (projects, None)),
            (ListPlaygrounds, Rows (Inr pgs))])" for h mq projects pgs
    using reap[where h = "h @ [(GetRuntimeMarquee, MarqueeRow (Inr (Some mq)))]"]
    by (simp add: reapOwnedRemoteProjects_def)
  then have "wp (reconcile_guard rx Y now) (\<lambda>_ _. True) (reconcileOwnedRemoteOrphans w) h" for h
    unfolding reconcileOwnedRemoteOrphans_def remoteOrphanSweepMarquee_def
    by (auto simp: reconcile.quiet_allowed split: sum.split option.split)
  then show ?thesis by (simp add: guarded_def)
qed

context refresh_guard
begin

lemma guarded_currentSourceSyncPlayground: "guarded G (currentSourceSyncPlayground pg s)"
  unfolding currentSourceSyncPlayground_def by (intro guarded_rules guarded_save quiet_guarded) simp_all

lemma guarded_recordSourceSyncFailure: "guarded G (recordSourceSyncFailure pg e s)"
  unfolding recordSourceSyncFailure_def by (intro guarded_rules guarded_currentSourceSyncPlayground guarded_save)

lemma guarded_clearResolvedSourceSyncFailure: "guarded G (clearResolvedSourceSyncFailure pg s)"
  unfolding clearResolvedSourceSyncFailure_def by (intro guarded_rules guarded_currentSourceSyncPlayground guarded_save)

end

lemma guarded_reconcilePlayground: "guarded (reconcile_guard rx Y now) (reconcilePlayground rx Y w pg now)"
proof -
  let ?G = "reconcile_guard rx Y now"
  have target: "guarded ?G (currentSourceSyncTarget pg s)" for pg s
    unfolding currentSourceSyncTarget_def by (intro guarded_rules reconcile.guarded_currentSourceSyncPlayground)
  have deps: "guarded ?G (playgroundSourceSyncDependencies rx Y pg)" for pg
    unfolding playgroundSourceSyncDependencies_def with_playspec_id_def
    by (intro guarded_rules reconcile.guarded_save reconcile.quiet_guarded reconcile.guarded_runtimeMarqueeForPlayground) simp_all
  have run: "guarded ?G (runPlaygroundSourceSync rx Y w pg mq ps)" for pg mq ps
    unfolding runPlaygroundSourceSync_def
    by (intro reconcile.guarded_with_project reconcile.guarded_syncSources)
  have sync: "guarded ?G (syncPlaygroundSources rx Y w pg)" for pg
    unfolding syncPlaygroundSources_def by (intro guarded_rules target deps run reconcile.guarded_recordSourceSyncFailure
        reconcile.guarded_clearResolvedSourceSyncFailure)
  have reload: "guarded ?G (reloadPlaygroundAfterSourceSync pg)" for pg
    unfolding reloadPlaygroundAfterSourceSync_def by (intro guarded_rules reconcile.guarded_save reconcile.quiet_guarded) simp_all
  have refresh: "guarded ?G (refreshPlaygroundRuntimeIfNeeded rx Y w row)" for row
    unfolding refreshPlaygroundRuntimeIfNeeded_def refreshFailureWasRecorded_def
    by (intro guarded_rules reconcile.guarded_save reconcile.quiet_guarded reconcile.guarded_RefreshPlayground) simp_all
  show ?thesis
    unfolding reconcilePlayground_def syncPlaygroundSourcesIfNeeded_def
    by (intro guarded_rules guarded_enforceExpiration sync reload refresh)
qed

lemma guarded_reconcileCurrentPlayground: "guarded (reconcile_guard rx Y now) (reconcileCurrentPlayground rx Y w pg now)"
  unfolding reconcileCurrentPlayground_def
  by (intro guarded_rules guarded_reconcilePlayground reconcile.guarded_save reconcile.quiet_guarded) simp_all

lemma guarded_reconcileErrors: "guarded (reconcile_guard rx Y now) (reconcileErrors rx Y w pgs now)"
  by (induction pgs) (auto intro!: guarded_rules guarded_reconcileCurrentPlayground)

lemma guarded_ReconcileOnce: "guarded (reconcile_guard rx Y now) (ReconcileOnce rx Y w now)"
  unfolding ReconcileOnce_def
  by (intro guarded_rules guarded_reconcileErrors guarded_reconcileOwnedRemoteOrphans reconcile.guarded_save reconcile.quiet_guarded) simp_all

subsection \<open>Properties\<close>

text \<open>The run of a pass over one expired row without a playspec, up to the deletion of the row.\<close>

definition expiry_answers :: "answer list" where
  "expiry_answers = [Rows (Inr [demo_row]), Row (Inr demo_row), Row (Inr demo_row), MarqueeRow (Inr (Some demo_marquee)),
     Row (Inr demo_row), Done None, Row (Inr demo_row), Done None, MarqueeRow (Inr None)]"

definition expiry_run :: history where
  "expiry_run = fst (replay (ReconcileOnce demo_regex demo_yaml demo_worker 10) expiry_answers)"

lemma expiry_trace: "trace (ReconcileOnce demo_regex demo_yaml demo_worker 10) expiry_run"
  unfolding expiry_run_def by (rule replay_trace) (rule prod.collapse[symmetric])

lemma expiry_run_eq:
  "expiry_run = [(ListPlaygrounds, Rows (Inr [demo_row])), (GetPlayground 7, Row (Inr demo_row)),
     (GetPlayground 7, Row (Inr demo_row)), (GetRuntimeMarquee, MarqueeRow (Inr (Some demo_marquee))),
     (GetPlayground 7, Row (Inr demo_row)), (DestroyCompose demo_marquee ''p-1'', Done None),
     (GetPlayground 7, Row (Inr demo_row)), (DeletePlayground 7, Done None), (GetRuntimeMarquee, MarqueeRow (Inr None))]"
  by code_simp

text \<open>C26: A reconciliation pass deletes a row only right after its Compose project was destroyed without an error and
the row, read once more, was still the same expired row: in an expirable status, past its expiry, with that project.\<close>

theorem pass_deletes_only_destroyed:
  assumes "trace (ReconcileOnce rx Y w now) (es1 @ (DeletePlayground i, r) # es2)"
  shows "\<exists>h mq project pg.
    es1 = h @ [(DestroyCompose mq project, Done None), (GetPlayground i, Row (Inr pg))] \<and>
    pg_id pg = i \<and> pg_compose_project pg = Some project \<and> expired pg now"
  using guarded_trace[OF guarded_ReconcileOnce assms] by (auto simp: reconcile_guard_def deletes_destroyed_def)

theorem pass_deletes_only_destroyed_witness:
  "\<exists>es1 es2 h mq project pg. expiry_run = es1 @ (DeletePlayground 7, Done None) # es2 \<and>
    es1 = h @ [(DestroyCompose mq project, Done None), (GetPlayground 7, Row (Inr pg))] \<and> expired pg 10"
proof -
  obtain es1 es2 where e: "expiry_run = es1 @ (DeletePlayground 7, Done None) # es2"
    unfolding expiry_run_eq by (meson split_list in_set_conv_decomp list.set_intros)
  from pass_deletes_only_destroyed[OF expiry_trace[unfolded e]] e show ?thesis by blast
qed

text \<open>C27: A reconciliation pass destroys a Compose project for one of three reasons only: the last read said its row is
being destroyed; its row is expired, unchanged since the source checkouts were found clean; or the runtime listed the
project and no row listed after that stands for it.\<close>

theorem pass_destroys_only_with_reason:
  assumes "trace (ReconcileOnce rx Y w now) (es1 @ (DestroyCompose mq project, r) # es2)"
  shows "last_read_status es1 {StatusDestroying} \<or> destroys_expired rx Y now es1 project \<or> destroys_orphan es1 mq project"
  using guarded_trace[OF guarded_ReconcileOnce assms] by (simp add: reconcile_guard_def)

theorem pass_destroys_only_with_reason_witness:
  "\<exists>es1 es2. expiry_run = es1 @ (DestroyCompose demo_marquee ''p-1'', Done None) # es2 \<and>
     (last_read_status es1 {StatusDestroying} \<or> destroys_expired demo_regex demo_yaml 10 es1 ''p-1'' \<or>
      destroys_orphan es1 demo_marquee ''p-1'')"
proof -
  obtain es1 es2 where e: "expiry_run = es1 @ (DestroyCompose demo_marquee ''p-1'', Done None) # es2"
    unfolding expiry_run_eq by (meson split_list in_set_conv_decomp list.set_intros)
  from pass_destroys_only_with_reason[OF expiry_trace[unfolded e]] e show ?thesis by blast
qed

lemma runs_answer:
  "runs (case r of Row x \<Rightarrow> Ret x | _ \<Rightarrow> Stuck) es x \<longleftrightarrow> es = [] \<and> r = Row x"
  "runs (case r of Rows x \<Rightarrow> Ret x | _ \<Rightarrow> Stuck) es y \<longleftrightarrow> es = [] \<and> r = Rows y"
  "runs (case r of MarqueeRow x \<Rightarrow> Ret x | _ \<Rightarrow> Stuck) es z \<longleftrightarrow> es = [] \<and> r = MarqueeRow z"
  by (cases r; auto)+

lemma runs_asks:
  "runs (ask_row q) es x \<longleftrightarrow> es = [(q, Row x)]"
  "runs (ask_rows q) es y \<longleftrightarrow> es = [(q, Rows y)]"
  "runs ask_marquee es z \<longleftrightarrow> es = [(GetRuntimeMarquee, MarqueeRow z)]"
  by (auto simp: ask_defs runs_answer)

lemma runs_reconcileErrors_reads:
  assumes "runs (reconcileErrors rx Y w pgs now) es errs" and "w_has_db w" and "pg \<in> set pgs"
  shows "\<exists>r. (GetPlayground (pg_id pg), r) \<in> set es"
  using assms
proof (induction pgs arbitrary: es errs)
  case (Cons p pgs)
  from Cons.prems(1) obtain es1 es2 a b where es: "es = es1 @ es2"
    "runs (reconcileCurrentPlayground rx Y w p now) es1 a" "runs (reconcileErrors rx Y w pgs now) es2 b"
    by (auto simp: runs_bind)
  have "\<exists>r. (GetPlayground (pg_id p), r) \<in> set es1"
    using es(2) Cons.prems(2) by (auto simp: reconcileCurrentPlayground_def runs_bind runs_asks)
  then show ?case using Cons.IH[OF es(3) Cons.prems(2)] Cons.prems(3) es(1) by auto
qed simp



text \<open>A row that a failed source sync put in error stays there: the step after a successful retry only reads the row,
runtime refresh skips it, and the pass retries the sync for ever.\<close>

theorem failed_sync_never_resolved:
  assumes "pg_status pg = StatusError" and "SourceSyncStateReason pg" and "has_runtime pg"
    and "trace (clearResolvedSourceSyncFailure pg (pg_status pg)) es"
  shows "(\<forall>e \<in> set es. fst e = GetPlayground (pg_id pg)) \<and> ShouldSyncSources pg \<and> \<not> ShouldRefreshRuntime pg"
proof -
  have "wp (\<lambda>_ q. q = GetPlayground (pg_id pg)) (\<lambda>_ _. True) (clearResolvedSourceSyncFailure pg (pg_status pg)) []"
    using assms(1)
    by (auto simp: clearResolvedSourceSyncFailure_def currentSourceSyncPlayground_def status_defs split: sum.split)
  from wp_trace[OF this assms(4)] have "fst e = GetPlayground (pg_id pg)" if "e \<in> set es" for e
    using that by (metis in_set_conv_decomp prod.collapse)
  then show ?thesis
    using assms(1-3) by (simp add: ShouldSyncSources_def ShouldRefreshRuntime_def)
qed

definition demo_error_row :: playground where
  "demo_error_row = demo_row\<lparr>pg_status := StatusError, pg_state_reason := Some ''source_sync_network''\<rparr>"

theorem failed_sync_never_resolved_witness:
  "replay (clearResolvedSourceSyncFailure demo_error_row StatusError) [Row (Inr demo_error_row)] =
     ([(GetPlayground 7, Row (Inr demo_error_row))], Some None) \<and> \<not> ShouldRefreshRuntime demo_error_row"
proof -
  have run: "replay (clearResolvedSourceSyncFailure demo_error_row StatusError) [Row (Inr demo_error_row)] =
     ([(GetPlayground 7, Row (Inr demo_error_row))], Some None)" by code_simp
  have status: "pg_status demo_error_row = StatusError" by (simp add: demo_error_row_def)
  have row: "SourceSyncStateReason demo_error_row" "has_runtime demo_error_row" by code_simp+
  from failed_sync_never_resolved[OF status row replay_trace[OF run[folded status]]] run show ?thesis by blast
qed

end
