(* ===== verification/RuntimeBuild.thy ===== *)
theory RuntimeBuild
  imports SourceSync
begin

text \<open>
  Image builds of the runtime: \<open>internal/runtime/build.go\<close>, \<open>build\_types.go\<close>, \<open>helpers.go\<close> and
  \<open>local\_docker\_build.go\<close>. The check of a request, the image reference and the arguments of \<open>docker build\<close>, the
  shell text that runs it, and the evidence an image must carry to be reused. The parser of image references is a
  library: it is the parameter \<open>parse_ref\<close>, which rejects a text or says whether it is a digest reference.
\<close>

type_synonym ref_parser = "string \<Rightarrow> string + bool"

subsection \<open>Helpers (helpers.go)\<close>

definition ShellQuote :: "string \<Rightarrow> string" where
  "ShellQuote s = [CHR 0x27] @ replace_all s [CHR 0x27] [CHR 0x27, CHR 0x22, CHR 0x27, CHR 0x22, CHR 0x27] @ [CHR 0x27]"

definition image_component_char :: "char \<Rightarrow> bool" where
  "image_component_char c = (is_lower c \<or> is_digit c \<or> c \<in> set ''_.-'')"

definition image_tag_char :: "char \<Rightarrow> bool" where
  "image_tag_char c = (is_lower c \<or> is_upper c \<or> is_digit c \<or> c \<in> set ''_.-'')"

definition sanitizeImageComponent :: "string \<Rightarrow> string" where
  "sanitizeImageComponent raw = trim_set ''-'' (squeeze image_component_char False (to_lower (trim_space raw)))"

definition sanitizeImageTag :: "string \<Rightarrow> string" where
  "sanitizeImageTag raw = trim_set ''.-'' (filter image_tag_char (trim_space raw))"

definition validGitCommitID :: "string \<Rightarrow> bool" where
  "validGitCommitID raw = (6 \<le> length raw \<and> length raw \<le> 64 \<and> list_all is_hex raw)"

subsection \<open>Checked paths (build\_types.go)\<close>

text \<open>\<open>fs.ValidPath\<close>: valid UTF-8, and every element between slashes a name; only the whole path may be a dot.\<close>

definition fs_valid_path :: "string \<Rightarrow> bool" where
  "fs_valid_path name =
     (to_valid_runes name = name \<and>
      (name = ''.'' \<or> list_all (\<lambda>e. e \<noteq> [] \<and> e \<noteq> ''.'' \<and> e \<noteq> ''..'') (split_char (CHR ''/'') name)))"

definition validRelativeBuildPath :: "string \<Rightarrow> bool" where
  "validRelativeBuildPath raw0 =
     (let raw = trim_space raw0
      in if raw = [] \<or> CHR 0x00 \<in> set raw \<or> has_prefix raw ''/'' then False
         else if has_parent_segment raw then False
         else path_clean raw \<noteq> ''.'' \<and> fs_valid_path (path_clean raw))"

definition NewRelativeDockerfilePath :: "string \<Rightarrow> string + string" where
  "NewRelativeDockerfilePath raw0 =
     (let raw = firstNonEmpty [raw0, ''Dockerfile'']
      in if \<not> validRelativeBuildPath raw then Inl ''dockerfile path must be relative and stay inside build context''
         else Inr (path_clean raw))"

subsection \<open>Image references (build.go)\<close>

definition validateBuildImageRef :: "ref_parser \<Rightarrow> string \<Rightarrow> string option" where
  "validateBuildImageRef parse_ref raw0 =
     (let raw = trim_space raw0
      in if raw = [] then None
         else case parse_ref raw of
           Inl e \<Rightarrow> Some (''image ref: '' @ e)
         | Inr canonical \<Rightarrow>
             (if canonical then Some ''image ref must be a Docker image name or tag, not a digest reference'' else None))"

definition DeterministicImageRef :: "ref_parser \<Rightarrow> string \<Rightarrow> string \<Rightarrow> string \<Rightarrow> string + string" where
  "DeterministicImageRef parse_ref project service commit =
     (let p = sanitizeImageComponent project; s = sanitizeImageComponent service; tag = sanitizeImageTag commit;
          imageRef = ''fibe-distilled/'' @ p @ ''/'' @ s @ '':'' @ tag
      in if p = [] then Inl ''image ref project component is empty''
         else if s = [] then Inl ''image ref service component is empty''
         else if tag = [] then Inl ''image ref tag is empty''
         else case validateBuildImageRef parse_ref imageRef of Some e \<Rightarrow> Inl e | None \<Rightarrow> Inr imageRef)"

definition buildImageRef :: "ref_parser \<Rightarrow> build_request \<Rightarrow> string \<Rightarrow> string + string" where
  "buildImageRef parse_ref req commit =
     (if trim_space (bq_image_ref req) \<noteq> [] then Inr (trim_space (bq_image_ref req))
      else DeterministicImageRef parse_ref (bq_project req) (bq_service_name req) commit)"

subsection \<open>The request (build.go)\<close>

fun normalizeBuildArgs :: "string list \<Rightarrow> string + string list" where
  "normalizeBuildArgs [] = Inr []"
| "normalizeBuildArgs (arg # args) =
     (case NormalizeDockerBuildArg arg of
        (normalized, ok) \<Rightarrow>
          (if \<not> ok then Inl (''build arg '' @ go_quote arg @ '' must be KEY or KEY=VALUE'')
           else map_sum id (\<lambda>out. normalized # out) (normalizeBuildArgs args)))"

record checkedBuildInputs =
  ci_playground_base :: string
  ci_context_path :: string
  ci_dockerfile :: string
  ci_platform :: build_platform
  ci_build_args :: "string list"

definition validateBuildRequest :: "ref_parser \<Rightarrow> build_request \<Rightarrow> string + checkedBuildInputs" where
  "validateBuildRequest parse_ref req =
     (case playgroundBase (bq_project req) of
        Inl e \<Rightarrow> Inl e
      | Inr base \<Rightarrow>
          (if trim_space (bq_service_name req) = [] then Inl ''build service name is required''
           else case NewRemoteCheckoutPath (bq_project req) (bq_context_path req) of
             Inl e \<Rightarrow> Inl e
           | Inr contextPath \<Rightarrow>
               (case NewRelativeDockerfilePath (bq_dockerfile req) of
                  Inl e \<Rightarrow> Inl e
                | Inr dockerfile \<Rightarrow>
                    (case ParseBuildPlatform (bq_platform req) of
                       Inl e \<Rightarrow> Inl (''build platform: '' @ e)
                     | Inr platform \<Rightarrow>
                         (case normalizeBuildArgs (bq_build_args req) of
                            Inl e \<Rightarrow> Inl e
                          | Inr buildArgs \<Rightarrow>
                              (case validateBuildImageRef parse_ref (bq_image_ref req) of
                                 Some e \<Rightarrow> Inl e
                               | None \<Rightarrow>
                                   Inr \<lparr>ci_playground_base = base, ci_context_path = contextPath, ci_dockerfile = dockerfile,
                                        ci_platform = platform, ci_build_args = buildArgs\<rparr>))))))"

text \<open>The commit of a build, from the request or from what \<open>ResolveSourceCommit\<close> answers.\<close>

definition resolved_commit :: "go_error + string \<Rightarrow> go_error + string" where
  "resolved_commit head =
     (case head of
        Inl e \<Rightarrow> Inl (ErrWrap ''resolve source commit failed'' e)
      | Inr raw \<Rightarrow>
          (if trim_space raw = [] then Inl (ErrText ''resolve source commit failed: empty HEAD'')
           else if \<not> validGitCommitID (trim_space raw) then Inl (ErrText ''resolve source commit failed: invalid HEAD'')
           else Inr (trim_space raw)))"

definition buildCommit :: "build_request \<Rightarrow> go_error + string \<Rightarrow> go_error + string" where
  "buildCommit req resolved =
     (let given = trim_space (bq_commit_sha req)
      in case (if given = [] then resolved else Inr given) of
           Inl e \<Rightarrow> Inl e
         | Inr commit \<Rightarrow>
             (if commit = [] then Inl (ErrText ''resolve source commit failed: empty HEAD'')
              else if \<not> validGitCommitID commit then Inl (ErrText ''build commit must be a single hex git object id'')
              else Inr commit))"

subsection \<open>The arguments of docker build (build.go)\<close>

definition appendBuildArgs :: "string list \<Rightarrow> string list \<Rightarrow> string list" where
  "appendBuildArgs args buildArgs =
     args @ concat (map (\<lambda>a. if trim_space a \<noteq> [] then [''--build-arg'', a] else []) buildArgs)"

definition appendOptionalBuildArg :: "string list \<Rightarrow> string \<Rightarrow> string \<Rightarrow> string list" where
  "appendOptionalBuildArg args key v =
     (if trim_space v \<noteq> [] then args @ [''--build-arg'', key @ ''='' @ trim_space v] else args)"

definition appendOptionalFlag :: "string list \<Rightarrow> string \<Rightarrow> string \<Rightarrow> string list" where
  "appendOptionalFlag args flag v = (if trim_space v \<noteq> [] then args @ [flag, trim_space v] else args)"

definition buildLabels :: "build_request \<Rightarrow> string \<Rightarrow> string list" where
  "buildLabels req commit =
     [''--label'', ''fibe.playground_id='' @ itoa (bq_playground_id req), ''--label'', ''fibe.service='' @ bq_service_name req,
      ''--label'', ''fibe.build.git_commit_sha='' @ commit, ''--label'', ''fibe.source_commit='' @ commit] @
     (if trim_space (bq_build_identity_digest req) \<noteq> []
      then [''--label'', ''fibe.build.identity_digest='' @ trim_space (bq_build_identity_digest req)] else [])"

text \<open>The build time is the time text of the request; its format is the library's.\<close>

definition buildDockerArgs :: "(int \<Rightarrow> string) \<Rightarrow> build_request \<Rightarrow> checkedBuildInputs \<Rightarrow> string \<Rightarrow> string \<Rightarrow> string list" where
  "buildDockerArgs rfc3339 req inputs commit imageRef =
     (let args = [''-t'', imageRef, ''-f'', ci_context_path inputs @ ''/'' @ ci_dockerfile inputs];
          args = appendBuildArgs args (ci_build_args inputs);
          args = appendOptionalBuildArg args ''FIBE_BUILD_TIME'' (rfc3339 (bq_build_time req));
          args = args @ [''--build-arg'', ''FIBE_BUILD_GIT_COMMIT_SHA='' @ commit];
          args = appendOptionalFlag args ''--target'' (bq_target req);
          args = appendOptionalFlag args ''--platform'' (platform_string (ci_platform inputs));
          args = args @ buildLabels req commit
      in args @ [ci_context_path inputs])"

subsection \<open>The shell text (local\_docker\_build.go)\<close>

definition localDockerBuildCommand :: "string \<Rightarrow> string list \<Rightarrow> string" where
  "localDockerBuildCommand base args =
     ''DOCKER_CONFIG='' @ ShellQuote (base @ ''/docker-config'') @ '' docker build '' @ join_str '' '' (map ShellQuote args)"

definition localDockerBuildShell :: "string \<Rightarrow> string \<Rightarrow> string list \<Rightarrow> string" where
  "localDockerBuildShell project base args =
     ''project='' @ ShellQuote project @ '' base='' @ ShellQuote base @
     '' sh -eu <<'' @ [CHR 0x27] @ ''FIBE_DISTILLED_BUILD_IMAGE'' @ [CHR 0x27, CHR 0x0A] @
     localDockerBuildCommand base args @ [CHR 0x0A] @ ''FIBE_DISTILLED_BUILD_IMAGE''"

text \<open>\<open>BuildImage\<close>: the shell text it runs and the image it reports, given the commit the checkout is at.\<close>

definition BuildImageCommand ::
    "ref_parser \<Rightarrow> (int \<Rightarrow> string) \<Rightarrow> build_request \<Rightarrow> go_error + string \<Rightarrow> go_error + string \<times> string \<times> string" where
  "BuildImageCommand parse_ref rfc3339 req resolved =
     (case validateBuildRequest parse_ref req of
        Inl e \<Rightarrow> Inl (ErrText e)
      | Inr inputs \<Rightarrow>
          (case buildCommit req resolved of
             Inl e \<Rightarrow> Inl e
           | Inr commit \<Rightarrow>
               (case buildImageRef parse_ref req commit of
                  Inl e \<Rightarrow> Inl (ErrText e)
                | Inr imageRef \<Rightarrow>
                    Inr (localDockerBuildShell (bq_project req) (ci_playground_base inputs)
                           (buildDockerArgs rfc3339 req inputs commit imageRef), commit, imageRef))))"

subsection \<open>Evidence for reuse (build.go)\<close>

record ImageMetadata =
  im_commit_sha :: string
  im_build_identity_digest :: string

definition imageMetadataMatches :: "ImageMetadata \<Rightarrow> string \<Rightarrow> string \<Rightarrow> bool" where
  "imageMetadataMatches metadata commit identityDigest =
     (if im_commit_sha metadata \<noteq> commit then False
      else if trim_space identityDigest \<noteq> [] \<and> im_build_identity_digest metadata \<noteq> trim_space identityDigest then False
      else True)"

text \<open>\<open>ImageExistsForBuild\<close>, given what the engine says of an image: an error, no image, or its labels.\<close>

definition image_exists_for_build ::
    "(string \<Rightarrow> go_error + ImageMetadata option) \<Rightarrow> string \<Rightarrow> string \<Rightarrow> string \<Rightarrow> go_error + bool" where
  "image_exists_for_build inspect imageRef commit identityDigest =
     (let r = trim_space imageRef; c = trim_space commit
      in if r = [] \<or> c = [] \<or> \<not> validGitCommitID c then Inr False
         else case inspect r of
           Inl e \<Rightarrow> Inl e
         | Inr None \<Rightarrow> Inr False
         | Inr (Some metadata) \<Rightarrow> Inr (imageMetadataMatches metadata c identityDigest))"

subsection \<open>Facts\<close>

lemma replace_char: "replace_all s [c] r = concat (map (\<lambda>x. if x = c then r else [x]) s)"
  by (induction s) (auto simp: has_prefix_def)

lemma takeWhile_stop: "c \<notin> set a \<Longrightarrow> takeWhile (\<lambda>d. d \<noteq> c) (a @ c # t) = a"
  by (induction a) auto

lemma dropWhile_stop: "c \<notin> set a \<Longrightarrow> dropWhile (\<lambda>d. d \<noteq> c) (a @ c # t) = c # t"
  by (induction a) auto

text \<open>The word a POSIX shell reads from a text of single- and double-quoted pieces that hold no expansion.\<close>

function sh_word :: "string \<Rightarrow> string option" where
  "sh_word [] = Some []"
| "sh_word (c # s) =
     (if c = CHR 0x27 \<or> c = CHR 0x22
      then (case dropWhile (\<lambda>d. d \<noteq> c) s of
              [] \<Rightarrow> None
            | _ # rest \<Rightarrow> map_option (\<lambda>w. takeWhile (\<lambda>d. d \<noteq> c) s @ w) (sh_word rest))
      else None)"
  by pat_completeness auto
termination
proof (relation "measure length", goal_cases)
  case (2 c s d rest)
  then have "length (dropWhile (\<lambda>d. d \<noteq> c) s) = Suc (length rest)" by simp
  then show ?case using length_dropWhile_le[of "\<lambda>d. d \<noteq> c" s] by simp
qed simp

lemma sh_word_quoted:
  "sh_word (CHR 0x27 # concat (map (\<lambda>x. if x = CHR 0x27 then [CHR 0x27, CHR 0x22, CHR 0x27, CHR 0x22, CHR 0x27] else [x]) s)
     @ [CHR 0x27]) = Some s"
proof -
  define q where "q x = (if x = CHR 0x27 then [CHR 0x27, CHR 0x22, CHR 0x27, CHR 0x22, CHR 0x27] else [x])" for x :: char
  have "sh_word (CHR 0x27 # a @ concat (map q s) @ [CHR 0x27]) = Some (a @ s)" if "CHR 0x27 \<notin> set a" for a s
    using that
  proof (induction s arbitrary: a)
    case Nil
    then show ?case by (simp add: takeWhile_stop dropWhile_stop)
  next
    case (Cons x s)
    show ?case
    proof (cases "x = CHR 0x27")
      case True
      have "sh_word (CHR 0x27 # [] @ concat (map q s) @ [CHR 0x27]) = Some ([] @ s)" by (rule Cons.IH) simp
      then have tail: "sh_word (CHR 0x22 # CHR 0x27 # CHR 0x22 # CHR 0x27 # concat (map q s) @ [CHR 0x27]) = Some (CHR 0x27 # s)"
        by simp
      have "concat (map q (x # s)) = [CHR 0x27, CHR 0x22, CHR 0x27, CHR 0x22, CHR 0x27] @ concat (map q s)"
        using True by (simp add: q_def)
      with True tail Cons.prems show ?thesis
        by (simp only: append.simps append_assoc sh_word.simps simp_thms if_True takeWhile_stop dropWhile_stop list.case
            option.map char.inject)
    next
      case False
      have "sh_word (CHR 0x27 # (a @ [x]) @ concat (map q s) @ [CHR 0x27]) = Some ((a @ [x]) @ s)"
        by (rule Cons.IH) (use Cons.prems False in auto)
      moreover have "q x = [x]" using False by (simp add: q_def)
      ultimately show ?thesis by simp
    qed
  qed
  from this[of "[]" s] show ?thesis unfolding q_def[abs_def] by simp
qed

lemma sanitizeImageTag_commit:
  assumes "validGitCommitID c"
  shows "sanitizeImageTag c = c"
proof -
  have hex: "image_tag_char x \<and> x \<notin> set ''.-'' \<and> word_char x" if "x \<in> set c" for x
    using that assms by (auto simp: validGitCommitID_def list_all_iff is_hex_def image_tag_char_def is_lower_def is_upper_def
        is_digit_def less_eq_char_def word_char_def)
  have ne: "c \<noteq> []" using assms by (auto simp: validGitCommitID_def)
  have "trim_space c = c" using hex by (simp add: trim_space_words)
  moreover have "filter image_tag_char c = c" using hex by simp
  moreover have "trim_set ''.-'' c = c"
    using hex hd_in_set[OF ne] last_in_set[OF ne] ne
    by (cases c) (auto simp: trim_set_def trim_left_set_def trim_right_set_id)
  ultimately show ?thesis by (simp add: sanitizeImageTag_def)
qed

lemma firstNonEmpty_trimmed: "trim_space (firstNonEmpty vs) = firstNonEmpty vs"
proof (cases "filter (\<lambda>t. t \<noteq> []) (map trim_space vs)")
  case (Cons t ts)
  have "t \<in> set (filter (\<lambda>t. t \<noteq> []) (map trim_space vs))" unfolding Cons by simp
  then have "trim_space t = t" by auto
  with Cons show ?thesis by (simp add: firstNonEmpty_def)
qed (simp add: firstNonEmpty_def)

lemma build_inputs_checked:
  assumes "validateBuildRequest parse_ref req = Inr inputs"
  shows "inside_checkouts (bq_project req) (ci_context_path inputs)"
    and "\<exists>raw. trim_space raw = raw \<and> validRelativeBuildPath raw \<and> ci_dockerfile inputs = path_clean raw"
    and "ci_platform inputs \<in> {PlatformDefault, PlatformLinuxAMD64, PlatformLinuxARM64}"
    and "normalizeBuildArgs (bq_build_args req) = Inr (ci_build_args inputs)"
proof -
  from assms show "inside_checkouts (bq_project req) (ci_context_path inputs)"
    by (auto simp: validateBuildRequest_def dest: NewRemoteCheckoutPath_Inr split: sum.splits if_splits option.splits)
  from assms show "\<exists>raw. trim_space raw = raw \<and> validRelativeBuildPath raw \<and> ci_dockerfile inputs = path_clean raw"
    by (auto simp: validateBuildRequest_def NewRelativeDockerfilePath_def Let_def split: sum.splits if_splits option.splits
        intro!: exI[of _ "firstNonEmpty [bq_dockerfile req, ''Dockerfile'']"] firstNonEmpty_trimmed)
  show "ci_platform inputs \<in> {PlatformDefault, PlatformLinuxAMD64, PlatformLinuxARM64}"
    by (cases "ci_platform inputs") auto
  from assms show "normalizeBuildArgs (bq_build_args req) = Inr (ci_build_args inputs)"
    by (auto simp: validateBuildRequest_def split: sum.splits if_splits option.splits)
qed

subsection \<open>Properties\<close>

text \<open>A quoted argument is one word of the shell: what a POSIX shell reads from \<open>ShellQuote s\<close> is \<open>s\<close>, whatever
quotes and bytes it holds.\<close>

theorem shell_quote_roundtrip: "sh_word (ShellQuote s) = Some s"
  using sh_word_quoted[of s] by (simp add: ShellQuote_def replace_char)

text \<open>A build request that passes the check builds inside the checkouts of its project only: its context is strictly
inside them, and its Dockerfile is named by a relative path without an element that goes up.\<close>

theorem build_inputs_confined:
  assumes "validateBuildRequest parse_ref req = Inr inputs"
  shows "inside_checkouts (bq_project req) (ci_context_path inputs) \<and>
    ''..'' \<notin> set (split_char (CHR ''/'') (ci_dockerfile inputs)) \<and> [] \<notin> set (split_char (CHR ''/'') (ci_dockerfile inputs))"
proof -
  obtain raw where raw: "trim_space raw = raw" "validRelativeBuildPath raw" "ci_dockerfile inputs = path_clean raw"
    using build_inputs_checked(2)[OF assms] by blast
  then have "fs_valid_path (path_clean raw)" "path_clean raw \<noteq> ''.''"
    by (auto simp: validRelativeBuildPath_def Let_def split: if_splits)
  then show ?thesis
    using build_inputs_checked(1)[OF assms] raw(3) by (auto simp: fs_valid_path_def list_all_iff)
qed

definition demo_build_request :: "string \<Rightarrow> build_request" where
  "demo_build_request arg = \<lparr>bq_project = ''p-1'', bq_playground_id = 7, bq_service_name = ''web'',
     bq_context_path = ''/opt/fibe/playgrounds/p-1/props/acme-demo/main'', bq_commit_sha = ''abcdef0123'', bq_dockerfile = ''Dockerfile'',
     bq_target = [], bq_platform = [], bq_build_args = [arg], bq_build_time = 0, bq_build_identity_digest = [], bq_image_ref = []\<rparr>"

theorem build_inputs_confined_witness:
  "\<exists>inputs. validateBuildRequest (\<lambda>_. Inr False) (demo_build_request ''A=1'') = Inr inputs \<and>
     inside_checkouts ''p-1'' (ci_context_path inputs) \<and> ''..'' \<notin> set (split_char (CHR ''/'') (ci_dockerfile inputs))"
proof -
  have "case validateBuildRequest (\<lambda>_. Inr False) (demo_build_request ''A=1'') of Inl _ \<Rightarrow> False | Inr _ \<Rightarrow> True"
    by code_simp
  then obtain inputs where i: "validateBuildRequest (\<lambda>_. Inr False) (demo_build_request ''A=1'') = Inr inputs"
    by (auto split: sum.splits)
  have "bq_project (demo_build_request ''A=1'') = ''p-1''" by (simp add: demo_build_request_def)
  with build_inputs_confined[OF i] i show ?thesis by auto
qed

text \<open>The image reference of a build tells commits apart: for a commit id that passes the check the tag is the commit,
so equal references of one service mean equal commits.\<close>

theorem image_ref_identifies_commit:
  assumes "DeterministicImageRef parse_ref project service commit = Inr r"
    and "DeterministicImageRef parse_ref project service commit' = Inr r"
    and "validGitCommitID commit" and "validGitCommitID commit'"
  shows "commit = commit' \<and> (\<exists>name. r = ''fibe-distilled/'' @ name @ '':'' @ commit)"
  using assms(1,2)
  by (auto simp: DeterministicImageRef_def Let_def sanitizeImageTag_commit[OF assms(3)] sanitizeImageTag_commit[OF assms(4)]
      split: if_splits option.splits)

theorem image_ref_identifies_commit_witness:
  "\<exists>r name. DeterministicImageRef (\<lambda>_. Inr False) ''p-1'' ''web'' ''abcdef0123'' = Inr r \<and>
     r = ''fibe-distilled/'' @ name @ '':'' @ ''abcdef0123''"
proof -
  have r: "DeterministicImageRef (\<lambda>_. Inr False) ''p-1'' ''web'' ''abcdef0123'' = Inr ''fibe-distilled/p-1/web:abcdef0123''"
    and c: "validGitCommitID ''abcdef0123''" by code_simp+
  from image_ref_identifies_commit[OF r r c c] r show ?thesis by blast
qed

text \<open>Quoting does not protect the here-document the build is run from: an accepted build argument with a line break
ends it early, and what follows is run by the shell outside.\<close>

definition heredoc_arg :: string where
  "heredoc_arg = ''A=1'' @ [CHR 0x0A] @ ''FIBE_DISTILLED_BUILD_IMAGE'' @ [CHR 0x0A] @ ''touch x #''"

theorem build_arg_ends_heredoc:
  "case BuildImageCommand (\<lambda>_. Inr False) (\<lambda>_. []) (demo_build_request heredoc_arg) (Inl ErrNotFound) of
     Inl e \<Rightarrow> False
   | Inr (text, commit, imageRef) \<Rightarrow>
       (let lns = split_char (CHR 0x0A) text
        in lns ! 2 = ''FIBE_DISTILLED_BUILD_IMAGE'' \<and> has_prefix (lns ! 3) ''touch x #'' \<and>
           ParseDockerBuildArgs heredoc_arg = Some [heredoc_arg])"
  by code_simp

end
