(* ===== verification/BuildRecords.thy ===== *)
theory BuildRecords
  imports RuntimeBuild
begin

text \<open>
  \<open>internal/buildrecord\<close>: the plan of a build (\<open>plans.go\<close>), the identity digest of its inputs, the record rows and
  their snapshots, and the built images written into a rendered document (\<open>images.go\<close>). SHA-256 in hexadecimal is
  the parameter \<open>sha\<close>; the JSON text it is taken of is \<open>encoding/json\<close>'s.
\<close>

subsection \<open>JSON texts\<close>

definition json_rune :: "string \<Rightarrow> string" where
  "json_rune r =
     (case r of
        [c] \<Rightarrow>
          (if c = CHR 0x22 \<or> c = CHR 0x5C then [CHR 0x5C, c]
           else if c = CHR 0x08 then [CHR 0x5C, CHR ''b''] else if c = CHR 0x0C then [CHR 0x5C, CHR ''f'']
           else if c = CHR 0x0A then [CHR 0x5C, CHR ''n''] else if c = CHR 0x0D then [CHR 0x5C, CHR ''r'']
           else if c = CHR 0x09 then [CHR 0x5C, CHR ''t'']
           else if c < CHR 0x20 \<or> c = CHR ''<'' \<or> c = CHR ''>'' \<or> c = CHR ''&''
             then CHR 0x5C # ''u00'' @ hex2 c
           else if byte_of c < 128 then [c]
           else CHR 0x5C # ''ufffd'')
      | _ \<Rightarrow>
          (if r = [CHR 0xE2, CHR 0x80, CHR 0xA8] then CHR 0x5C # ''u2028''
           else if r = [CHR 0xE2, CHR 0x80, CHR 0xA9] then CHR 0x5C # ''u2029'' else r))"

definition json_string :: "string \<Rightarrow> string" where
  "json_string s = [CHR 0x22] @ concat (map json_rune (runes s)) @ [CHR 0x22]"

text \<open>A \<open>map[string]string\<close> is written in the order of its keys.\<close>

definition json_string_map :: "string smap \<Rightarrow> string" where
  "json_string_map m =
     CHR 0x7B # join_str '','' (map (\<lambda>k. json_string k @ '':'' @ json_string (str_at m k)) (sorted_keys m)) @ [CHR 0x7D]"

subsection \<open>Identity (plans.go)\<close>

record Identity =
  id_dockerfile_path :: string
  id_build_target :: string
  id_build_args :: "string list"
  id_build_args_digest :: string
  id_build_identity_digest :: string

definition normalized_arg :: "string \<Rightarrow> string smap \<Rightarrow> string smap" where
  "normalized_arg arg m =
     (case cut_char (CHR ''='') arg of
        (k, v, ok) \<Rightarrow>
          (if trim_space k = [] then m
           else put_key (trim_space k) (if ok then trim_space v else []) m))"

definition identity_json :: "string \<Rightarrow> string \<Rightarrow> string smap \<Rightarrow> string" where
  "identity_json dockerfilePath buildTarget normalizedArgs =
     CHR 0x7B # json_string ''build_args'' @ '':'' @ json_string_map normalizedArgs @ '','' @
       json_string ''build_target'' @ '':'' @ (if buildTarget \<noteq> [] then json_string buildTarget else ''null'') @ '','' @
       json_string ''dockerfile_path'' @ '':'' @ json_string dockerfilePath @ [CHR 0x7D]"

text \<open>A parse error of the build arguments leaves the list the parser returns with it, which is none.\<close>

definition IdentityForService :: "(string \<Rightarrow> string) \<Rightarrow> Summary \<Rightarrow> Identity" where
  "IdentityForService sha summary =
     (let dockerfilePath = firstNonEmpty [s_dockerfile summary, ''Dockerfile''];
          buildTarget = trim_space (s_build_target summary);
          buildArgs = (case ParseDockerBuildArgs (s_build_args summary) of None \<Rightarrow> [] | Some as \<Rightarrow> as);
          normalizedArgs = fold normalized_arg buildArgs []
      in \<lparr>id_dockerfile_path = dockerfilePath, id_build_target = buildTarget, id_build_args = buildArgs,
          id_build_args_digest = sha (json_string_map normalizedArgs),
          id_build_identity_digest = sha (identity_json dockerfilePath buildTarget normalizedArgs)\<rparr>)"

subsection \<open>Plans (plans.go)\<close>

definition sourceMountedRuntime :: "Summary \<Rightarrow> bool" where
  "sourceMountedRuntime s = (s_source_mount s \<noteq> [] \<and> \<not> s_production s)"

definition NeedsRemoteBuild :: "Summary \<Rightarrow> bool" where
  "NeedsRemoteBuild s = (s_build s \<and> s_repo_url s \<noteq> [] \<and> \<not> sourceMountedRuntime s)"

definition build_summaries :: "regex_engine \<Rightarrow> yaml_lib \<Rightarrow> playspec \<Rightarrow> go_error + Summary list" where
  "build_summaries rx Y ps =
     (let validation = Validate rx Y (ps_base_compose_yaml ps)
      in if \<not> val_valid validation
         then Inl (ErrText (''validate compose for builds: '' @ join_str ''; '' (val_errors validation)))
         else Inr (val_services validation))"

record build_plan =
  bp_project :: string
  bp_playground_id :: int
  bp_prop_id :: "int option"
  bp_service_name :: string
  bp_branch :: string
  bp_source_path :: string
  bp_repository_url :: string
  bp_identity :: Identity
  bp_platform :: string

definition sourceTarget :: "playground \<Rightarrow> Summary \<Rightarrow> string \<Rightarrow> string + string \<times> string" where
  "sourceTarget pg summary branch =
     (case pg_compose_project pg of
        None \<Rightarrow> Inl ''playground compose project is required for dynamic builds''
      | Some raw \<Rightarrow>
          (let project = trim_space raw
           in if project = [] then Inl ''playground compose project is required for dynamic builds''
              else case NewRemoteCheckoutPath project (SourceCheckoutPath project (s_repo_url summary) branch) of
                Inl e \<Rightarrow> Inl e
              | Inr checked \<Rightarrow> Inr (project, checked)))"

definition option_string :: "string option \<Rightarrow> string" where
  "option_string v = (case v of None \<Rightarrow> [] | Some s \<Rightarrow> s)"

definition NewPlan ::
    "ref_parser \<Rightarrow> (string \<Rightarrow> string) \<Rightarrow> playground \<Rightarrow> marquee \<Rightarrow> Summary \<Rightarrow> string + build_plan" where
  "NewPlan parse_ref sha pg mq summary =
     (let branch = SourceBranch summary
      in case sourceTarget pg summary branch of
           Inl e \<Rightarrow> Inl e
         | Inr (project, checkout) \<Rightarrow>
             (case DeterministicImageRef parse_ref project (s_name summary) ''latest'' of
                Inl e \<Rightarrow> Inl e
              | Inr ref \<Rightarrow>
                  Inr \<lparr>bp_project = project, bp_playground_id = pg_id pg, bp_prop_id = None, bp_service_name = s_name summary,
                       bp_branch = branch, bp_source_path = checkout, bp_repository_url = s_repo_url summary,
                       bp_identity = IdentityForService sha summary, bp_platform = option_string (mq_build_platform mq)\<rparr>))"

definition WithPropID :: "build_plan \<Rightarrow> int \<Rightarrow> build_plan" where
  "WithPropID plan i = plan\<lparr>bp_prop_id := Some i\<rparr>"

subsection \<open>Records (plans.go)\<close>

definition NewPendingRecord :: "build_plan \<Rightarrow> int \<Rightarrow> build_record" where
  "NewPendingRecord plan now =
     \<lparr>br_id = 0, br_playground_id = Some (bp_playground_id plan), br_prop_id = bp_prop_id plan,
      br_service_name = bp_service_name plan, br_branch = bp_branch plan, br_commit_sha = [],
      br_status = BuildStatusPending, br_image_ref = [], br_dockerfile_path = id_dockerfile_path (bp_identity plan),
      br_build_target = id_build_target (bp_identity plan), br_build_args_digest = id_build_args_digest (bp_identity plan),
      br_build_identity_digest = id_build_identity_digest (bp_identity plan), br_build_platform = bp_platform plan,
      br_build_cache_key = id_build_identity_digest (bp_identity plan), br_reused = False, br_logs = [],
      br_error_message = None, br_started_at = Some now, br_completed_at = None, br_created_at = 0, br_updated_at = 0\<rparr>"

text \<open>On an error the record still holds the commit.\<close>

definition AttachCommit :: "ref_parser \<Rightarrow> build_plan \<Rightarrow> build_record \<Rightarrow> string \<Rightarrow> build_record \<times> string option" where
  "AttachCommit parse_ref plan record0 commit =
     (let record1 = record0\<lparr>br_commit_sha := commit\<rparr>
      in case DeterministicImageRef parse_ref (bp_project plan) (bp_service_name plan) commit of
           Inl e \<Rightarrow> (record1, Some e)
         | Inr imageRef \<Rightarrow> (record1\<lparr>br_image_ref := imageRef\<rparr>, None))"

definition RuntimeRequest :: "build_plan \<Rightarrow> build_record \<Rightarrow> string + build_request" where
  "RuntimeRequest plan r =
     (case NewRemoteCheckoutPath (bp_project plan) (bp_source_path plan) of
        Inl e \<Rightarrow> Inl e
      | Inr contextPath \<Rightarrow>
          (case NewRelativeDockerfilePath (id_dockerfile_path (bp_identity plan)) of
             Inl e \<Rightarrow> Inl e
           | Inr dockerfilePath \<Rightarrow>
               Inr \<lparr>bq_project = bp_project plan, bq_playground_id = bp_playground_id plan,
                    bq_service_name = bp_service_name plan, bq_context_path = contextPath, bq_commit_sha = br_commit_sha r,
                    bq_dockerfile = dockerfilePath, bq_target = id_build_target (bp_identity plan),
                    bq_platform = br_build_platform r, bq_build_args = id_build_args (bp_identity plan),
                    bq_build_time = br_created_at r, bq_build_identity_digest = br_build_identity_digest r,
                    bq_image_ref = br_image_ref r\<rparr>))"

definition StatusFromRecord :: "string \<Rightarrow> string \<Rightarrow> build_record \<Rightarrow> build_status" where
  "StatusFromRecord serviceName branch r =
     (let snapshot = \<lparr>snap_id = br_id r, snap_service_name = br_service_name r, snap_status = br_status r,
            snap_commit_sha = br_commit_sha r, snap_short_commit_sha = take 12 (br_commit_sha r),
            snap_image_ref = br_image_ref r, snap_error_message = option_string (br_error_message r),
            snap_started_at = br_started_at r, snap_completed_at = br_completed_at r, snap_created_at = Some (br_created_at r)\<rparr>
      in \<lparr>bst_service_name = serviceName, bst_prop_id = 0, bst_prop_name = [], bst_branch = branch, bst_running = None,
          bst_latest = Some snapshot, bst_active = Some snapshot\<rparr>)"

subsection \<open>Built images (images.go)\<close>

fun apply_images_loop :: "doc \<Rightarrow> string smap \<Rightarrow> string + doc" where
  "apply_images_loop services [] = Inr services"
| "apply_images_loop services ((name, imageRef) # refs) =
     (case any_at services name of
        AMap raw \<Rightarrow>
          (if trim_space imageRef = [] then Inl (''built service '' @ go_quote name @ '' has empty image ref'')
           else apply_images_loop
             (put_key name (AMap (put_key ''pull_policy'' (AStr ''never'')
                (put_key ''image'' (AStr imageRef) (del_key ''build'' raw)))) services) refs)
      | _ \<Rightarrow> Inl (''built service '' @ go_quote name @ '' missing from runtime compose''))"

definition ApplyBuildImages :: "yaml_lib \<Rightarrow> string \<Rightarrow> string smap \<Rightarrow> string + string" where
  "ApplyBuildImages Y composeYAML imageRefs =
     (if imageRefs = [] then Inr composeYAML
      else case MutationMap Y composeYAML of
        Inl e \<Rightarrow> Inl e
      | Inr rendered \<Rightarrow>
          (let services = (case as_map (any_at rendered ''services'') of None \<Rightarrow> [] | Some m \<Rightarrow> m)
           in case apply_images_loop services imageRefs of
                Inl e \<Rightarrow> Inl e
              | Inr services' \<Rightarrow> MutationYAML Y (store_back ''services'' services' rendered)))"

subsection \<open>Facts\<close>

lemma apply_images_spec:
  assumes "apply_images_loop services refs = Inr services'" and "distinct (map fst refs)"
  shows "(\<forall>name ref. map_of refs name = Some ref \<longrightarrow>
      (\<exists>raw. mutable_service services' name = Some raw \<and> \<not> has_key raw ''build'' \<and>
         any_at raw ''image'' = AStr ref \<and> any_at raw ''pull_policy'' = AStr ''never'')) \<and>
    (\<forall>name. map_of refs name = None \<longrightarrow> map_of services' name = map_of services name)"
  using assms
proof (induction services refs rule: apply_images_loop.induct)
  case (2 services name imageRef refs)
  from 2(2) obtain raw where raw: "any_at services name = AMap raw" "trim_space imageRef \<noteq> []"
    by (auto split: any.splits if_splits)
  let ?raw = "put_key ''pull_policy'' (AStr ''never'') (put_key ''image'' (AStr imageRef) (del_key ''build'' raw))"
  let ?services = "put_key name (AMap ?raw) services"
  have rest: "apply_images_loop ?services refs = Inr services'" using 2(2) raw by simp
  have fresh: "map_of refs name = None" using 2(3) by (simp add: map_of_eq_None_iff)
  from 2(1)[OF raw rest] 2(3) have IH: "(\<forall>name ref. map_of refs name = Some ref \<longrightarrow>
      (\<exists>raw. mutable_service services' name = Some raw \<and> \<not> has_key raw ''build'' \<and>
         any_at raw ''image'' = AStr ref \<and> any_at raw ''pull_policy'' = AStr ''never''))"
    "\<forall>name. map_of refs name = None \<longrightarrow> map_of services' name = map_of ?services name" by simp_all
  have "map_of services' name = Some (AMap ?raw)" using IH(2) fresh by (simp add: amap.look_put)
  then have "mutable_service services' name = Some ?raw" by (simp add: mutable_service_def any_at_def)
  then show ?case using IH by (auto simp: amap.look_put)
qed simp

subsection \<open>Properties\<close>

text \<open>Writing built images into a document pins every built service to its image: the service runs that image, is
never pulled and never built again, and the services without a build stay as they were, whatever the order of the map.\<close>

theorem built_images_pinned:
  assumes "apply_images_loop services refs = Inr services'" and "distinct (map fst refs)"
    and "map_of refs name = Some ref"
  shows "(\<exists>raw. mutable_service services' name = Some raw \<and> \<not> has_key raw ''build'' \<and>
      any_at raw ''image'' = AStr ref \<and> any_at raw ''pull_policy'' = AStr ''never'') \<and>
    (\<forall>other. map_of refs other = None \<longrightarrow> map_of services' other = map_of services other)"
  using apply_images_spec[OF assms(1,2)] assms(3) by blast

theorem built_images_pinned_witness:
  "\<exists>services' raw. apply_images_loop [(''web'', AMap [(''build'', AStr ''.'')]), (''db'', AMap [])] [(''web'', ''i:1'')] = Inr services' \<and>
     mutable_service services' ''web'' = Some raw \<and> \<not> has_key raw ''build'' \<and> any_at raw ''image'' = AStr ''i:1''"
proof -
  have "case apply_images_loop [(''web'', AMap [(''build'', AStr ''.'')]), (''db'', AMap [])] [(''web'', ''i:1'')] of
      Inl e \<Rightarrow> False | Inr s \<Rightarrow> True" by code_simp
  then obtain s where s: "apply_images_loop [(''web'', AMap [(''build'', AStr ''.'')]), (''db'', AMap [])] [(''web'', ''i:1'')] = Inr s"
    by (auto split: sum.splits)
  have "distinct (map fst [(''web'', ''i:1'')])" and "map_of [(''web'', ''i:1'')] ''web'' = Some ''i:1''" by simp_all
  from built_images_pinned[OF s this] s show ?thesis by blast
qed

end
