(* ===== verification/WorkerBuilds.thy ===== *)
theory WorkerBuilds
  imports WorkerRefresh BuildRecords
begin

text \<open>
  Image builds of the worker: \<open>internal/worker/builds.go\<close>. A service is built by creating a record, resolving the
  commit of its checkout, looking for a build that can be reused (a finished one whose image still exists, or one in
  flight to wait for) and otherwise building. The lemmas say when an image is reused and how a record ends.
\<close>

record build_env =
  be_ref :: ref_parser
  be_sha :: "string \<Rightarrow> string"

record buildServiceResult =
  bsr_status :: "build_status option"
  bsr_image_ref :: string

text \<open>The zero status, with an empty service name, is \<open>None\<close>.\<close>

definition build_outcome :: "string \<Rightarrow> string \<Rightarrow> build_record \<Rightarrow> string \<Rightarrow> buildServiceResult" where
  "build_outcome serviceName branch r imageRef =
     \<lparr>bsr_status = Some (StatusFromRecord serviceName branch r), bsr_image_ref = imageRef\<rparr>"

definition no_outcome :: buildServiceResult where "no_outcome = \<lparr>bsr_status = None, bsr_image_ref = []\<rparr>"

subsection \<open>Records\<close>

definition failBuildRecord ::
    "string \<Rightarrow> string \<Rightarrow> build_record \<Rightarrow> go_error \<Rightarrow> (buildServiceResult \<times> go_error option) io" where
  "failBuildRecord serviceName branch r cause =
     bind ask_clock (\<lambda>completed.
       let failed = r\<lparr>br_status := BuildStatusFailed, br_error_message := Some (error_text cause),
             br_logs := error_text cause, br_completed_at := Some completed\<rparr>
       in bind (ask_build (SaveBuildRecord failed))
         (\<lambda>(saved, err). case err of
            Some e \<Rightarrow> Ret (build_outcome serviceName branch failed [], join_errors [Some cause, Some e])
          | None \<Rightarrow> Ret (build_outcome serviceName branch saved [], Some cause)))"

definition saveReusedBuildRecord :: "build_record \<Rightarrow> build_record \<Rightarrow> (build_record \<times> go_error option) io" where
  "saveReusedBuildRecord r reusable =
     bind ask_clock (\<lambda>completed.
       ask_build (SaveBuildRecord (r\<lparr>br_status := BuildStatusSuccess, br_image_ref := br_image_ref reusable,
         br_logs := ''Reused image from build record '' @ itoa (br_id reusable), br_reused := True,
         br_completed_at := Some completed\<rparr>)))"

definition saveSuccessfulBuildRecord :: "build_record \<Rightarrow> build_result \<Rightarrow> (build_record \<times> go_error option) io" where
  "saveSuccessfulBuildRecord r result =
     bind ask_clock (\<lambda>completed.
       ask_build (SaveBuildRecord (r\<lparr>br_completed_at := Some completed, br_status := BuildStatusSuccess,
         br_commit_sha := bo_commit_sha result, br_image_ref := bo_image_ref result, br_logs := bo_logs result\<rparr>)))"

definition buildPropID :: "worker \<Rightarrow> string \<Rightarrow> (go_error + int option) io" where
  "buildPropID w repositoryURL =
     (if \<not> w_has_db w \<or> trim_space repositoryURL = [] then Ret (Inr None) else ask_prop repositoryURL)"

text \<open>The plan, the record when one was created, the error.\<close>

definition newBuildRecordWithCommit ::
    "build_env \<Rightarrow> worker \<Rightarrow> marquee \<Rightarrow> build_plan \<Rightarrow> (build_plan \<times> build_record option \<times> go_error option) io" where
  "newBuildRecordWithCommit E w mq plan0 =
     bind (buildPropID w (bp_repository_url plan0))
       (\<lambda>p. case p of
          Inl e \<Rightarrow> Ret (plan0, None, Some e)
        | Inr found \<Rightarrow>
            (let plan = (case found of None \<Rightarrow> plan0 | Some i \<Rightarrow> WithPropID plan0 i)
             in bind ask_clock (\<lambda>now. bind (ask_build (CreateBuildRecord (NewPendingRecord plan now)))
               (\<lambda>(r, err). case err of
                  Some e \<Rightarrow> Ret (plan, None, Some e)
                | None \<Rightarrow>
                    bind (ask_commit (ResolveSourceCommit mq (bp_project plan) (bp_source_path plan)))
                      (\<lambda>c. case c of
                         Inl e \<Rightarrow> Ret (plan, Some r, Some e)
                       | Inr commit \<Rightarrow>
                           (case AttachCommit (be_ref E) plan r commit of
                              (r', Some e) \<Rightarrow> Ret (plan, Some r', Some (ErrText e))
                            | (r', None) \<Rightarrow> Ret (plan, Some r', None)))))))"

subsection \<open>Reuse\<close>

definition reusableBuildCandidate :: "build_record \<Rightarrow> string \<Rightarrow> bool" where
  "reusableBuildCandidate candidate status = (br_status candidate = status \<and> trim_space (br_image_ref candidate) \<noteq> [])"

definition reusableBuildImageExists :: "marquee \<Rightarrow> build_record \<Rightarrow> (go_error + bool) io" where
  "reusableBuildImageExists mq c =
     ask_exists (ImageExistsForBuild mq (br_image_ref c) (br_commit_sha c) (br_build_identity_digest c))"

fun verifiedReusableBuildRecord :: "marquee \<Rightarrow> build_record list \<Rightarrow> string \<Rightarrow> (go_error + build_record option) io" where
  "verifiedReusableBuildRecord mq [] status = Ret (Inr None)"
| "verifiedReusableBuildRecord mq (c # cs) status =
     (if \<not> reusableBuildCandidate c status then verifiedReusableBuildRecord mq cs status
      else bind (reusableBuildImageExists mq c)
        (\<lambda>r. case r of
           Inl e \<Rightarrow> Ret (Inl e)
         | Inr found \<Rightarrow> if found then Ret (Inr (Some c)) else verifiedReusableBuildRecord mq cs status))"

definition reloadBuildRecord :: "int \<Rightarrow> (go_error + build_record option) io" where
  "reloadBuildRecord i =
     bind (ask_build (GetBuildRecord i))
       (\<lambda>(r, err). Ret (case err of None \<Rightarrow> Inr (Some r) | Some e \<Rightarrow> if is_not_found e then Inr None else Inl e))"

text \<open>A poll ends the wait with a record or without one, or it goes on.\<close>

definition reusableBuildRecordPollResult :: "marquee \<Rightarrow> int \<Rightarrow> (go_error + build_record option option) io" where
  "reusableBuildRecordPollResult mq candidateID =
     bind (reloadBuildRecord candidateID)
       (\<lambda>r. case r of
          Inl e \<Rightarrow> Ret (Inl e)
        | Inr None \<Rightarrow> Ret (Inr (Some None))
        | Inr (Some current) \<Rightarrow>
            (if br_status current = BuildStatusSuccess
             then bind (verifiedReusableBuildRecord mq [current] BuildStatusSuccess)
               (\<lambda>v. Ret (case v of Inl e \<Rightarrow> Inl e | Inr found \<Rightarrow> Inr (Some found)))
             else if br_status current = BuildStatusFailed then Ret (Inr (Some None))
             else Ret (Inr None)))"

fun pollReusableBuildRecord :: "nat \<Rightarrow> marquee \<Rightarrow> int \<Rightarrow> (go_error + build_record option) io" where
  "pollReusableBuildRecord 0 mq candidateID = Stuck"
| "pollReusableBuildRecord (Suc n) mq candidateID =
     bind ask_tick
       (\<lambda>t. case t of
          TickDone e \<Rightarrow> Ret (Inl e)
        | TickTimeout \<Rightarrow> Ret (Inr None)
        | TickPoll \<Rightarrow>
            bind (reusableBuildRecordPollResult mq candidateID)
              (\<lambda>r. case r of
                 Inl e \<Rightarrow> Ret (Inl e)
               | Inr None \<Rightarrow> pollReusableBuildRecord n mq candidateID
               | Inr (Some found) \<Rightarrow> Ret (Inr found)))"

definition waitForReusableBuildRecord :: "worker \<Rightarrow> marquee \<Rightarrow> build_record \<Rightarrow> (go_error + build_record option) io" where
  "waitForReusableBuildRecord w mq candidate =
     bind (verifiedReusableBuildRecord mq [candidate] BuildStatusBuilding)
       (\<lambda>r. case r of
          Inl e \<Rightarrow> Ret (Inl e)
        | Inr (Some reusable) \<Rightarrow> Ret (Inr (Some reusable))
        | Inr None \<Rightarrow> pollReusableBuildRecord (w_fuel w) mq (br_id candidate))"

definition defaultBuildStaleTimeout :: int where "defaultBuildStaleTimeout = 2700000000000"

definition waitableBuildingRecord :: "build_record \<Rightarrow> int \<Rightarrow> bool" where
  "waitableBuildingRecord candidate now =
     (case br_started_at candidate of None \<Rightarrow> False | Some t \<Rightarrow> \<not> t < now - defaultBuildStaleTimeout)"

fun wait_candidates :: "worker \<Rightarrow> marquee \<Rightarrow> build_record list \<Rightarrow> int \<Rightarrow> int \<Rightarrow> (go_error + build_record option) io" where
  "wait_candidates w mq [] currentID now = Ret (Inr None)"
| "wait_candidates w mq (c # cs) currentID now =
     (if br_id c = currentID \<or> br_status c \<noteq> BuildStatusBuilding \<or> \<not> waitableBuildingRecord c now
      then wait_candidates w mq cs currentID now
      else bind (waitForReusableBuildRecord w mq c)
        (\<lambda>r. case r of
           Inl e \<Rightarrow> Ret (Inl e)
         | Inr (Some reusable) \<Rightarrow> Ret (Inr (Some reusable))
         | Inr None \<Rightarrow> wait_candidates w mq cs currentID now))"

definition waitForReusableBuildCandidates ::
    "worker \<Rightarrow> marquee \<Rightarrow> build_record list \<Rightarrow> int \<Rightarrow> (go_error + build_record option) io" where
  "waitForReusableBuildCandidates w mq candidates currentID =
     bind ask_clock (\<lambda>now. wait_candidates w mq candidates currentID now)"

definition reuse_query_for :: "build_plan \<Rightarrow> build_record \<Rightarrow> reuse_query" where
  "reuse_query_for plan r =
     \<lparr>rq_prop_id = bp_prop_id plan, rq_playground_id = bp_playground_id plan, rq_service_name = bp_service_name plan,
      rq_branch = bp_branch plan, rq_commit_sha = br_commit_sha r, rq_build_identity_digest = br_build_identity_digest r,
      rq_build_platform = br_build_platform r\<rparr>"

definition findReusableBuildRecord ::
    "worker \<Rightarrow> marquee \<Rightarrow> build_plan \<Rightarrow> build_record \<Rightarrow> (go_error + build_record option) io" where
  "findReusableBuildRecord w mq plan r =
     bind (ask_builds (ListReusableBuildRecords (reuse_query_for plan r)))
       (\<lambda>l. case l of
          Inl e \<Rightarrow> Ret (Inl e)
        | Inr candidates \<Rightarrow>
            bind (verifiedReusableBuildRecord mq candidates BuildStatusSuccess)
              (\<lambda>v. case v of
                 Inl e \<Rightarrow> Ret (Inl e)
               | Inr (Some reusable) \<Rightarrow> Ret (Inr (Some reusable))
               | Inr None \<Rightarrow> waitForReusableBuildCandidates w mq candidates (br_id r)))"

text \<open>The record, whether it was reused, the error.\<close>

definition reuseBuildRecord ::
    "worker \<Rightarrow> marquee \<Rightarrow> build_plan \<Rightarrow> build_record \<Rightarrow> (build_record \<times> bool \<times> go_error option) io" where
  "reuseBuildRecord w mq plan r =
     bind (findReusableBuildRecord w mq plan r)
       (\<lambda>f. case f of
          Inl e \<Rightarrow> Ret (r, False, Some e)
        | Inr None \<Rightarrow> Ret (r, False, None)
        | Inr (Some reusable) \<Rightarrow>
            bind (saveReusedBuildRecord r reusable) (\<lambda>(saved, err). Ret (saved, True, err)))"

subsection \<open>Builds\<close>

definition runBuildImage :: "marquee \<Rightarrow> build_plan \<Rightarrow> build_record \<Rightarrow> (go_error + build_result) io" where
  "runBuildImage mq plan r =
     (case RuntimeRequest plan r of Inl e \<Rightarrow> Ret (Inl (ErrText e)) | Inr req \<Rightarrow> ask_built (BuildImage mq req))"

definition runFreshBuildRecord ::
    "marquee \<Rightarrow> build_plan \<Rightarrow> build_record \<Rightarrow> (buildServiceResult \<times> go_error option) io" where
  "runFreshBuildRecord mq plan r0 =
     bind (ask_build (SaveBuildRecord (r0\<lparr>br_status := BuildStatusBuilding\<rparr>)))
       (\<lambda>(r, err). case err of
          Some e \<Rightarrow> Ret (build_outcome (bp_service_name plan) (bp_branch plan) r [], Some e)
        | None \<Rightarrow>
            bind (runBuildImage mq plan r)
              (\<lambda>b. case b of
                 Inl e \<Rightarrow> failBuildRecord (bp_service_name plan) (bp_branch plan) r e
               | Inr result \<Rightarrow>
                   bind (saveSuccessfulBuildRecord r result)
                     (\<lambda>(saved, err). Ret (build_outcome (bp_service_name plan) (bp_branch plan) saved
                        (if err \<noteq> None then [] else bo_image_ref result), err))))"

definition buildService ::
    "build_env \<Rightarrow> worker \<Rightarrow> playground \<Rightarrow> marquee \<Rightarrow> Summary \<Rightarrow> (buildServiceResult \<times> go_error option) io" where
  "buildService E w pg mq summary =
     (case NewPlan (be_ref E) (be_sha E) pg mq summary of
        Inl e \<Rightarrow> Ret (no_outcome, Some (ErrText e))
      | Inr plan0 \<Rightarrow>
          bind (newBuildRecordWithCommit E w mq plan0)
            (\<lambda>(plan, pending, err). case (pending, err) of
               (None, _) \<Rightarrow> Ret (no_outcome, err)
             | (Some r, Some e) \<Rightarrow>
                 (if br_id r = 0 then Ret (no_outcome, Some e)
                  else failBuildRecord (bp_service_name plan) (bp_branch plan) r e)
             | (Some r0, None) \<Rightarrow>
                 bind (reuseBuildRecord w mq plan r0)
                   (\<lambda>(r, reused, err). case err of
                      Some e \<Rightarrow>
                        (if \<not> reused then failBuildRecord (bp_service_name plan) (bp_branch plan) r e
                         else Ret (build_outcome (bp_service_name plan) (bp_branch plan) r [], Some e))
                    | None \<Rightarrow>
                        (if reused then Ret (build_outcome (bp_service_name plan) (bp_branch plan) r (br_image_ref r), None)
                         else runFreshBuildRecord mq plan r))))"

record buildServicesResult =
  bss_statuses :: "build_status list"
  bss_image_refs :: "string smap"

definition recordServiceImageRef :: "string smap \<Rightarrow> string \<Rightarrow> string \<Rightarrow> string smap" where
  "recordServiceImageRef imageRefs serviceName imageRef =
     (if imageRef \<noteq> [] then put_key serviceName imageRef imageRefs else imageRefs)"

definition add_outcome :: "buildServicesResult \<Rightarrow> Summary \<Rightarrow> buildServiceResult \<Rightarrow> buildServicesResult" where
  "add_outcome out summary r =
     \<lparr>bss_statuses = bss_statuses out @ (case bsr_status r of None \<Rightarrow> [] | Some s \<Rightarrow> [s]),
      bss_image_refs = recordServiceImageRef (bss_image_refs out) (s_name summary) (bsr_image_ref r)\<rparr>"

fun build_services_loop ::
    "build_env \<Rightarrow> worker \<Rightarrow> playground \<Rightarrow> marquee \<Rightarrow> Summary list \<Rightarrow> buildServicesResult \<Rightarrow>
       (buildServicesResult \<times> go_error option) io" where
  "build_services_loop E w pg mq [] out = Ret (out, None)"
| "build_services_loop E w pg mq (s # ss) out =
     (if \<not> NeedsRemoteBuild s then build_services_loop E w pg mq ss out
      else bind (buildService E w pg mq s)
        (\<lambda>(r, err). if err \<noteq> None then Ret (add_outcome out s r, err)
           else build_services_loop E w pg mq ss (add_outcome out s r)))"

definition buildServices ::
    "regex_engine \<Rightarrow> yaml_lib \<Rightarrow> build_env \<Rightarrow> worker \<Rightarrow> playground \<Rightarrow> playspec \<Rightarrow> marquee \<Rightarrow>
       (buildServicesResult \<times> go_error option) io" where
  "buildServices rx Y E w pg ps mq =
     (case build_summaries rx Y ps of
        Inl e \<Rightarrow> Ret (\<lparr>bss_statuses = [], bss_image_refs = []\<rparr>, Some e)
      | Inr services \<Rightarrow> build_services_loop E w pg mq services \<lparr>bss_statuses = [], bss_image_refs = []\<rparr>)"

subsection \<open>When a record succeeds\<close>

text \<open>The history ends with the runtime having confirmed an image, or having built it.\<close>

definition confirmed_image :: "string \<Rightarrow> history \<Rightarrow> bool" where
  "confirmed_image imageRef h =
     (\<exists>h0 mq commit digest. h = h0 @ [(ImageExistsForBuild mq imageRef commit digest, Exists (Inr True))])"

definition built_image :: "build_result \<Rightarrow> history \<Rightarrow> bool" where
  "built_image result h = (\<exists>h0 mq req. h = h0 @ [(BuildImage mq req, Built (Inr result))])"

definition success_guard :: "history \<Rightarrow> request \<Rightarrow> bool" where
  "success_guard h q =
     (case q of
        SaveBuildRecord r \<Rightarrow> br_status r = BuildStatusSuccess \<longrightarrow>
          (\<exists>h0 t. h = h0 @ [(TimeNow, t)] \<and>
             (confirmed_image (br_image_ref r) h0 \<or>
              (\<exists>result. built_image result h0 \<and> br_image_ref r = bo_image_ref result \<and> br_commit_sha r = bo_commit_sha result)))
      | _ \<Rightarrow> True)"

lemma success_guard_other:
  "(\<And>r. q \<noteq> SaveBuildRecord r) \<Longrightarrow> success_guard h q"
  by (simp add: success_guard_def split: request.split)

lemma success_guard_save:
  "br_status r \<noteq> BuildStatusSuccess \<Longrightarrow> success_guard h (SaveBuildRecord r)"
  "confirmed_image (br_image_ref r) h \<Longrightarrow> success_guard (h @ [(TimeNow, t)]) (SaveBuildRecord r)"
  "built_image result h \<Longrightarrow> br_image_ref r = bo_image_ref result \<Longrightarrow> br_commit_sha r = bo_commit_sha result \<Longrightarrow>
     success_guard (h @ [(TimeNow, t)]) (SaveBuildRecord r)"
  by (auto simp: success_guard_def)

lemma guarded_failBuildRecord: "guarded success_guard (failBuildRecord n b r e)"
proof -
  have "wp success_guard (\<lambda>_ _. True) (failBuildRecord n b r e) h" for h
    by (simp add: failBuildRecord_def success_guard_other success_guard_save(1) BuildStatusFailed_def BuildStatusSuccess_def
        Let_def split: option.split prod.split)
  then show ?thesis by (simp add: guarded_def)
qed

text \<open>A search ends with nothing, with an error, or with a record whose image was just confirmed.\<close>

lemma wp_verifiedReusableBuildRecord:
  assumes "\<And>h e. Q h (Inl e)" and "\<And>h. Q h (Inr None)"
    and "\<And>h c. confirmed_image (br_image_ref c) h \<Longrightarrow> Q h (Inr (Some c))"
  shows "wp success_guard Q (verifiedReusableBuildRecord mq cs st) h"
proof (induction cs arbitrary: h)
  case (Cons c cs)
  have found: "Q (h @ [(ImageExistsForBuild mq (br_image_ref c) (br_commit_sha c) (br_build_identity_digest c), Exists (Inr True))])
      (Inr (Some c))"
    by (rule assms(3)) (auto simp: confirmed_image_def)
  have "wp success_guard Q (case r of Inl e \<Rightarrow> Ret (Inl e)
      | Inr found \<Rightarrow> if found then Ret (Inr (Some c)) else verifiedReusableBuildRecord mq cs st)
      (h @ [(ImageExistsForBuild mq (br_image_ref c) (br_commit_sha c) (br_build_identity_digest c), Exists r)])" for r
  proof (cases r)
    case (Inr b)
    with found Cons show ?thesis by (cases b) simp_all
  qed (simp add: assms(1))
  then show ?case using Cons
    by (simp add: reusableBuildImageExists_def success_guard_other)
qed (simp add: assms(2))

declare verifiedReusableBuildRecord.simps [simp del]

lemma wp_pollReusableBuildRecord:
  assumes "\<And>h e. Q h (Inl e)" and "\<And>h. Q h (Inr None)"
    and "\<And>h c. confirmed_image (br_image_ref c) h \<Longrightarrow> Q h (Inr (Some c))"
  shows "wp success_guard Q (pollReusableBuildRecord n mq i) h"
proof (induction n arbitrary: h)
  case (Suc n)
  have poll: "wp success_guard R (reusableBuildRecordPollResult mq i) h"
    if "\<And>h e. R h (Inl e)" "\<And>h. R h (Inr None)" "\<And>h. R h (Inr (Some None))"
      "\<And>h c. confirmed_image (br_image_ref c) h \<Longrightarrow> R h (Inr (Some (Some c)))" for R h
    unfolding reusableBuildRecordPollResult_def reloadBuildRecord_def
    by (auto simp: success_guard_other that split: sum.split option.split
        intro!: wp_verifiedReusableBuildRecord)
  show ?case
    by (auto simp: success_guard_other assms Suc split: tick.split intro!: poll)
qed simp

lemma wp_waitForReusableBuildRecord:
  assumes "\<And>h e. Q h (Inl e)" and "\<And>h. Q h (Inr None)"
    and "\<And>h c. confirmed_image (br_image_ref c) h \<Longrightarrow> Q h (Inr (Some c))"
  shows "wp success_guard Q (waitForReusableBuildRecord w mq c) h"
  unfolding waitForReusableBuildRecord_def wp_bind
  by (rule wp_verifiedReusableBuildRecord) (auto simp: assms intro!: wp_pollReusableBuildRecord)

lemma wp_wait_candidates:
  assumes "\<And>h e. Q h (Inl e)" and "\<And>h. Q h (Inr None)"
    and "\<And>h c. confirmed_image (br_image_ref c) h \<Longrightarrow> Q h (Inr (Some c))"
  shows "wp success_guard Q (wait_candidates w mq cs i now) h"
proof (induction cs arbitrary: h)
  case (Cons c cs)
  then show ?case
    by (auto simp: assms intro!: wp_waitForReusableBuildRecord)
qed (simp add: assms)

lemma wp_findReusableBuildRecord:
  assumes "\<And>h e. Q h (Inl e)" and "\<And>h. Q h (Inr None)"
    and "\<And>h c. confirmed_image (br_image_ref c) h \<Longrightarrow> Q h (Inr (Some c))"
  shows "wp success_guard Q (findReusableBuildRecord w mq plan r) h"
  unfolding findReusableBuildRecord_def waitForReusableBuildCandidates_def
  by (auto simp: success_guard_other assms split: sum.split intro!: wp_verifiedReusableBuildRecord wp_wait_candidates)

lemma guarded_reuseBuildRecord: "guarded success_guard (reuseBuildRecord w mq plan r)"
  unfolding guarded_def reuseBuildRecord_def wp_bind
  by (intro allI wp_findReusableBuildRecord)
    (auto simp: saveReusedBuildRecord_def success_guard_other intro!: success_guard_save(2))

lemma guarded_runFreshBuildRecord: "guarded success_guard (runFreshBuildRecord mq plan r)"
proof -
  have built: "wp success_guard R (runBuildImage mq plan r) h"
    if "\<And>h e. R h (Inl e)" "\<And>h result. built_image result h \<Longrightarrow> R h (Inr result)" for R r h
  proof -
    have "R (h @ [(BuildImage mq req, Built x)]) x" for req x
      by (cases x) (auto simp: that(1) built_image_def intro!: that(2))
    then show ?thesis
      by (auto simp: runBuildImage_def that(1) success_guard_other split: sum.split)
  qed
  have "wp success_guard (\<lambda>_ _. True) (runFreshBuildRecord mq plan r) h" for h
    unfolding runFreshBuildRecord_def
    by (auto simp: success_guard_save(1) BuildStatusBuilding_def BuildStatusSuccess_def saveSuccessfulBuildRecord_def
        success_guard_other guarded_failBuildRecord[unfolded guarded_def] split: option.split
        intro!: built success_guard_save(3))
  then show ?thesis by (simp add: guarded_def)
qed

lemma guarded_newBuildRecordWithCommit: "guarded success_guard (newBuildRecordWithCommit E w mq plan)"
  unfolding newBuildRecordWithCommit_def buildPropID_def Let_def
  by (intro guarded_rules) (simp_all add: guarded_asks success_guard_other)

lemma guarded_buildService: "guarded success_guard (buildService E w pg mq summary)"
proof -
  have rest: "guarded success_guard (case (pending, err) of
      (None, _) \<Rightarrow> Ret (no_outcome, err)
    | (Some r, Some e) \<Rightarrow> if br_id r = 0 then Ret (no_outcome, Some e) else failBuildRecord n b r e
    | (Some r0, None) \<Rightarrow> m r0)" if "\<And>r. guarded success_guard (m r)" for pending err n b m
    by (cases pending; cases err) (auto intro!: guarded_rules guarded_failBuildRecord that)
  show ?thesis
    unfolding buildService_def
    by (intro guarded_rules guarded_newBuildRecordWithCommit rest guarded_reuseBuildRecord guarded_failBuildRecord
        guarded_runFreshBuildRecord)
qed

lemma guarded_build_services_loop: "guarded success_guard (build_services_loop E w pg mq ss out)"
  by (induction ss arbitrary: out) (auto intro!: guarded_rules guarded_buildService)

lemma guarded_buildServices: "guarded success_guard (buildServices rx Y E w pg ps mq)"
  unfolding buildServices_def by (intro guarded_rules guarded_build_services_loop)

subsection \<open>Properties\<close>

text \<open>C29: A build record is written as successful only right after the runtime either confirmed that the image it names
exists for the commit and digest of a matching record, or built that image from that commit; no race with another
deployment can make a record claim an image nobody has seen.\<close>

theorem success_means_seen_image:
  assumes "trace (buildService E w pg mq summary) (es1 @ (SaveBuildRecord r, x) # es2)"
    and "br_status r = BuildStatusSuccess"
  shows "\<exists>h t. es1 = h @ [(TimeNow, t)] \<and>
    (confirmed_image (br_image_ref r) h \<or>
     (\<exists>result. built_image result h \<and> br_image_ref r = bo_image_ref result \<and> br_commit_sha r = bo_commit_sha result))"
  using guarded_trace[OF guarded_buildService assms(1)] assms(2) by (simp add: success_guard_def)

definition demo_build_env :: build_env where "demo_build_env = \<lparr>be_ref = (\<lambda>_. Inr False), be_sha = (\<lambda>s. s)\<rparr>"

definition demo_build_record :: "int \<Rightarrow> string \<Rightarrow> string \<Rightarrow> build_record" where
  "demo_build_record i status imageRef =
     \<lparr>br_id = i, br_playground_id = Some 7, br_prop_id = None, br_service_name = ''web'', br_branch = ''main'',
      br_commit_sha = ''abcdef0123'', br_status = status, br_image_ref = imageRef, br_dockerfile_path = ''Dockerfile'',
      br_build_target = [], br_build_args_digest = [], br_build_identity_digest = [], br_build_platform = [],
      br_build_cache_key = [], br_reused = False, br_logs = [], br_error_message = None, br_started_at = Some 1,
      br_completed_at = None, br_created_at = 1, br_updated_at = 1\<rparr>"

definition build_run :: history where
  "build_run = fst (replay (buildService demo_build_env demo_worker demo_row demo_marquee demo_summary)
     [PropRow (Inr None), Clock 1, BuildRow (demo_build_record 4 BuildStatusPending [], None), Commit (Inr ''abcdef0123''),
      BuildRows (Inr [demo_build_record 3 BuildStatusSuccess ''i:1'']), Exists (Inr True), Clock 2,
      BuildRow (demo_build_record 4 BuildStatusSuccess ''i:1'', None)])"

theorem success_means_seen_image_witness:
  "\<exists>h t r x. build_run = h @ [(TimeNow, t), (SaveBuildRecord r, x)] \<and> br_status r = BuildStatusSuccess \<and>
     (confirmed_image (br_image_ref r) h \<or> (\<exists>result. built_image result h))"
proof -
  have "case rev build_run of (SaveBuildRecord r, x) # _ \<Rightarrow> br_status r = BuildStatusSuccess | _ \<Rightarrow> False"
    by code_simp
  then obtain r x es where e: "build_run = es @ (SaveBuildRecord r, x) # []" and ok: "br_status r = BuildStatusSuccess"
    by (auto simp: rev_swap split: list.splits prod.splits request.splits)
  have t: "trace (buildService demo_build_env demo_worker demo_row demo_marquee demo_summary) build_run"
    unfolding build_run_def by (rule replay_trace) (rule prod.collapse[symmetric])
  from success_means_seen_image[OF t[unfolded e] ok] obtain h u where "es = h @ [(TimeNow, u)]"
    "confirmed_image (br_image_ref r) h \<or> (\<exists>result. built_image result h)" by blast
  with e ok show ?thesis by (intro exI[of _ h] exI[of _ u] exI[of _ r] exI[of _ x]) simp
qed

end
