(* ===== verification/WorkerDeploy.thy ===== *)
theory WorkerDeploy
  imports WorkerBuilds
begin

text \<open>
  Deployment by the worker: \<open>deploy\_render.go\<close> (the rendering of a row with its overrides,
  \<open>internal/playground/overrides.go\<close>), \<open>deploy.go\<close> (the phases of a deployment) and \<open>start.go\<close> (the start of an
  existing Compose project). Every phase records a creation step by a guarded write and reads the row again before
  it touches the runtime. The lemmas say what a deployment may overwrite and when it stops or destroys a project.
\<close>

record deploy_env =
  de_rx :: regex_engine
  de_yaml :: yaml_lib
  de_bcrypt :: hash_function
  de_build :: build_env

subsection \<open>Overrides (playground/overrides.go)\<close>

definition ApplyOverrides :: "yaml_lib \<Rightarrow> string \<Rightarrow> string smap \<Rightarrow> doc \<Rightarrow> string + string" where
  "ApplyOverrides Y composeYAML globalEnv serviceOverrides =
     (if globalEnv = [] \<and> serviceOverrides = [] then Inr composeYAML
      else case RejectJobModeServiceOverrides serviceOverrides of
        Some e \<Rightarrow> Inl e
      | None \<Rightarrow>
          (case MutationMap Y composeYAML of
             Inl e \<Rightarrow> Inl e
           | Inr rendered0 \<Rightarrow>
               (case ValidateServiceOverrideNames rendered0 [] serviceOverrides of
                  Some e \<Rightarrow> Inl e
                | None \<Rightarrow>
                    (case ApplyGlobalEnv (ApplyEnvInterpolation rendered0 globalEnv) globalEnv of
                       Inl e \<Rightarrow> Inl e
                     | Inr rendered1 \<Rightarrow>
                         (case ApplyServiceOverrides rendered1 serviceOverrides of
                            Inl e \<Rightarrow> Inl e
                          | Inr rendered2 \<Rightarrow> MutationYAML Y rendered2)))))"

subsection \<open>Rendering (deploy\_render.go)\<close>

definition effectivePlaygroundPlayspec :: "regex_engine \<Rightarrow> yaml_lib \<Rightarrow> playspec \<Rightarrow> playground \<Rightarrow> go_error + playspec" where
  "effectivePlaygroundPlayspec rx Y ps pg =
     (case ApplyOverrides Y (ps_base_compose_yaml ps) (pg_env_overrides pg) (pg_service_branches pg) of
        Inl e \<Rightarrow> Inl (ErrText e)
      | Inr patched \<Rightarrow>
          (if HasUnresolvedTokens patched
           then Inl (ErrText ''compose contains unresolved Fibe template variables; launch with variables before deploying a Playground'')
           else let validation = Validate rx Y patched
                in if \<not> val_valid validation then Inl (ErrText (join_str ''; '' (val_errors validation)))
                   else Inr (ps\<lparr>ps_base_compose_yaml := patched\<rparr>)))"

text \<open>The twenty-four random letters and digits are drawn by the library.\<close>

definition newInternalPassword :: "(go_error + string) io" where
  "newInternalPassword =
     bind ask_random (\<lambda>r. Ret (case r of Inl e \<Rightarrow> Inl (ErrWrap ''generate internal password'' e) | Inr p \<Rightarrow> Inr p))"

definition ensureInternalPassword :: "playground \<Rightarrow> (playground \<times> go_error option) io" where
  "ensureInternalPassword pg =
     (if pg_internal_password pg \<noteq> None \<and> pg_internal_password pg \<noteq> Some [] then Ret (pg, None)
      else bind newInternalPassword
        (\<lambda>r. Ret (case r of Inl e \<Rightarrow> (pg, Some e) | Inr p \<Rightarrow> (pg\<lparr>pg_internal_password := Some p\<rparr>, None))))"

definition preparedRenderInputs ::
    "regex_engine \<Rightarrow> yaml_lib \<Rightarrow> playspec \<Rightarrow> playground \<Rightarrow> (playground \<times> (go_error + playspec)) io" where
  "preparedRenderInputs rx Y ps pg0 =
     bind (ensureInternalPassword pg0)
       (\<lambda>(pg, err). Ret (case err of
          Some e \<Rightarrow> (pg, Inl e)
        | None \<Rightarrow> (pg, effectivePlaygroundPlayspec rx Y ps pg)))"

definition configurePlaygroundRouting :: "playground \<Rightarrow> marquee \<Rightarrow> playground \<times> string \<times> string" where
  "configurePlaygroundRouting pg mq =
     (let rootDomain = FirstDomainFromInput (mq_domains_input mq)
      in (pg\<lparr>pg_root_domain := Some rootDomain, pg_routing_scheme := Some ''https''\<rparr>, rootDomain, ''https''))"

definition row_project :: "playground \<Rightarrow> string" where
  "row_project pg = (case pg_compose_project pg of None \<Rightarrow> [] | Some p \<Rightarrow> p)"

definition runtimeComposeForPlayground ::
    "deploy_env \<Rightarrow> playspec \<Rightarrow> playground \<Rightarrow> string \<Rightarrow> string \<Rightarrow> string \<Rightarrow> string + rendered_compose" where
  "runtimeComposeForPlayground D ps pg project rootDomain scheme =
     RuntimeWithOptions (de_bcrypt D) (de_yaml D) (ps_base_compose_yaml ps) project rootDomain scheme
       \<lparr>ro_internal_password = option_string (pg_internal_password pg), ro_playground_id = pg_id pg,
        ro_service_passwords = serviceAuthPasswords (pg_service_branches pg)\<rparr>"

record renderedPlayground =
  rp_playspec :: playspec
  rp_project :: string
  rp_compose_yaml :: string
  rp_services :: "service_info list"

definition failComposeRender ::
    "worker \<Rightarrow> playground \<Rightarrow> go_error \<Rightarrow> service_info list \<Rightarrow> (playground \<times> go_error option) io" where
  "failComposeRender w pg err services =
     bind (recordCreationStep w pg ''compose_render'' ''error'' (Some err))
       (\<lambda>(recorded, progressErr).
          bind (failDeployment w recorded err (playgroundServiceNames services))
            (\<lambda>(failed, failErr). Ret (failed, join_errors [failErr, progressErr])))"

text \<open>The row, and the error or what later phases need.\<close>

definition renderPlayground ::
    "deploy_env \<Rightarrow> worker \<Rightarrow> playground \<Rightarrow> playspec \<Rightarrow> marquee \<Rightarrow> (playground \<times> (go_error option + renderedPlayground)) io" where
  "renderPlayground D w pg00 ps mq =
     (let (pg0, rootDomain, scheme) = configurePlaygroundRouting pg00 mq; project = row_project pg0;
          fail = (\<lambda>pg e services. bind (failComposeRender w pg e services) (\<lambda>(pg, err). Ret (pg, Inl err)))
      in bind (preparedRenderInputs (de_rx D) (de_yaml D) ps pg0)
        (\<lambda>(pg, inputs). case inputs of
           Inl e \<Rightarrow> fail pg e []
         | Inr spec \<Rightarrow>
             (case runtimeComposeForPlayground D spec pg project rootDomain scheme of
                Inl e \<Rightarrow> fail pg (ErrText e) []
              | Inr rendered \<Rightarrow>
                  (if rootDomain = [] \<and> rc_urls rendered \<noteq> []
                   then fail pg (ErrText (''marquee '' @ go_quote (mq_name mq) @
                     '' has no domains_input; exposed services cannot be routed (set domains on the marquee)'')) (rc_services rendered)
                   else bind (recordCreationStep w
                       (pg\<lparr>pg_generated_compose_yaml := rc_compose_yaml rendered, pg_services := rc_services rendered,
                           pg_service_urls := rc_urls rendered\<rparr>) ''compose_render'' ''completed'' None)
                     (\<lambda>(saved, err). Ret (saved, if err \<noteq> None then Inl err
                        else Inr \<lparr>rp_playspec = spec, rp_project = project, rp_compose_yaml = rc_compose_yaml rendered,
                                 rp_services = rc_services rendered\<rparr>))))))"

subsection \<open>Phases (deploy.go)\<close>

definition successfulDeploymentPlayground :: "playground \<Rightarrow> playground" where
  "successfulDeploymentPlayground pg =
     pg\<lparr>pg_status := StatusRunning, pg_error_message := None, pg_state_reason := None, pg_state_reasons := [],
        pg_build_warnings := [], pg_error_details := None\<rparr>"

definition runCreationStep ::
    "worker \<Rightarrow> playground \<Rightarrow> string \<Rightarrow> string list \<Rightarrow> (playground \<Rightarrow> go_error option io) \<Rightarrow> (playground \<times> go_error option) io" where
  "runCreationStep w pg0 step serviceNames run =
     bind (recordCreationStep w pg0 step ''running'' None)
       (\<lambda>(pg, err). if err \<noteq> None then Ret (pg, err)
          else bind (requireActiveDeployment w pg)
            (\<lambda>(current, activeErr). if activeErr \<noteq> None then Ret (current, activeErr)
               else bind (run pg)
                 (\<lambda>runErr. case runErr of
                    Some e \<Rightarrow> failDeploymentAfterCreationStep w pg step e serviceNames
                  | None \<Rightarrow> recordCreationStep w pg step ''completed'' None)))"

text \<open>The Compose text with the built images, the row, the error.\<close>

definition buildRenderedPlayground ::
    "deploy_env \<Rightarrow> worker \<Rightarrow> playground \<Rightarrow> playspec \<Rightarrow> marquee \<Rightarrow> string \<Rightarrow> string list \<Rightarrow>
       (string \<times> playground \<times> go_error option) io" where
  "buildRenderedPlayground D w pg0 ps mq rendered serviceNames =
     bind (recordCreationStep w pg0 ''builds'' ''running'' None)
       (\<lambda>(pg, err). if err \<noteq> None then Ret (rendered, pg, err)
          else bind (requireActiveDeployment w pg)
            (\<lambda>(current, activeErr). if activeErr \<noteq> None then Ret (rendered, current, activeErr)
               else bind (buildServices (de_rx D) (de_yaml D) (de_build D) w pg ps mq)
                 (\<lambda>(builds, buildErr).
                    let pg1 = pg\<lparr>pg_build_statuses := bss_statuses builds\<rparr>;
                        fail = (\<lambda>e. bind (failDeploymentAfterCreationStep w pg1 ''builds'' e serviceNames)
                                  (\<lambda>(failed, failErr). Ret (rendered, failed, failErr)))
                    in case buildErr of
                         Some e \<Rightarrow> fail e
                       | None \<Rightarrow>
                           (case ApplyBuildImages (de_yaml D) rendered (bss_image_refs builds) of
                              Inl e \<Rightarrow> fail (ErrText e)
                            | Inr withImages \<Rightarrow>
                                (let pg2 = pg1\<lparr>pg_generated_compose_yaml := withImages\<rparr>
                                 in bind (saveDeploymentProgress w pg2)
                                   (\<lambda>(saved, saveErr). if saveErr \<noteq> None then Ret (withImages, pg2, saveErr)
                                      else bind (recordCreationStep w saved ''builds'' ''completed'' None)
                                        (\<lambda>(done_pg, doneErr). Ret (withImages, done_pg, doneErr))))))))"

definition observeDeployedCompose ::
    "worker \<Rightarrow> playground \<Rightarrow> marquee \<Rightarrow> string \<Rightarrow> service_info list \<Rightarrow> string list \<Rightarrow> (playground \<times> go_error option) io" where
  "observeDeployedCompose w pg0 mq project services serviceNames =
     bind (recordCreationStep w pg0 ''runtime_observe'' ''running'' None)
       (\<lambda>(pg, err). if err \<noteq> None then cleanupSupersededRuntime pg mq project err
          else bind (requireActiveDeployment w pg)
            (\<lambda>(current, activeErr). if activeErr \<noteq> None then cleanupSupersededRuntime current mq project activeErr
               else bind (observeRuntimeServices w mq project pg)
                 (\<lambda>(observed, obsErr). case obsErr of
                    Some e \<Rightarrow>
                      bind (failDeploymentAfterCreationStep w pg ''runtime_observe'' e serviceNames)
                        (\<lambda>(failed, failErr). cleanupSupersededRuntime failed mq project failErr)
                  | None \<Rightarrow>
                      (let merged = mergeServiceImages services observed;
                           pg1 = (if observed = [] then pg
                                  else pg\<lparr>pg_services := merged, pg_service_urls := mergeServiceURLState (pg_service_urls pg) merged\<rparr>)
                       in bind (recordCreationStep w pg1 ''runtime_observe'' ''completed'' None)
                         (\<lambda>(pg2, doneErr). if doneErr \<noteq> None then cleanupSupersededRuntime pg2 mq project doneErr
                            else bind (requireActiveDeployment w pg2)
                              (\<lambda>(current, activeErr). if activeErr \<noteq> None
                                 then cleanupSupersededRuntime current mq project activeErr
                                 else Ret (pg2, None)))))))"

definition deployAndObserveCompose ::
    "worker \<Rightarrow> playground \<Rightarrow> marquee \<Rightarrow> string \<Rightarrow> string \<Rightarrow> service_info list \<Rightarrow> string list \<Rightarrow>
       (playground \<times> go_error option) io" where
  "deployAndObserveCompose w pg0 mq project rendered services serviceNames =
     bind (recordCreationStep w pg0 ''compose_deploy'' ''running'' None)
       (\<lambda>(pg, err). if err \<noteq> None then Ret (pg, err)
          else bind (requireActiveDeployment w pg)
            (\<lambda>(current, activeErr). if activeErr \<noteq> None then Ret (current, activeErr)
               else bind (ask_done (DeployCompose mq project (pg_id pg) rendered))
                 (\<lambda>deployErr. case deployErr of
                    Some e \<Rightarrow> failDeploymentAfterCreationStep w pg ''compose_deploy'' e serviceNames
                  | None \<Rightarrow>
                      bind (recordCreationStep w pg ''compose_deploy'' ''completed'' None)
                        (\<lambda>(pg1, doneErr). if doneErr \<noteq> None then cleanupSupersededRuntime pg1 mq project doneErr
                           else bind (requireActiveDeployment w pg1)
                             (\<lambda>(checked, activeErr). if activeErr \<noteq> None
                                then cleanupSupersededRuntime checked mq project activeErr
                                else observeDeployedCompose w checked mq project services serviceNames)))))"

definition sync_deployed_sources ::
    "deploy_env \<Rightarrow> worker \<Rightarrow> marquee \<Rightarrow> string \<Rightarrow> playspec \<Rightarrow> playground \<Rightarrow> go_error option io" where
  "sync_deployed_sources D w mq project ps active =
     bind (ask_done (PreparePlaygroundWorkspace mq project (pg_id active)))
       (\<lambda>err. if err \<noteq> None then Ret err else syncSources (de_rx D) (de_yaml D) w mq project ps)"

definition deployRenderedPlayground ::
    "deploy_env \<Rightarrow> worker \<Rightarrow> playground \<Rightarrow> marquee \<Rightarrow> renderedPlayground \<Rightarrow> (playground \<times> go_error option) io" where
  "deployRenderedPlayground D w pg0 mq render =
     (let serviceNames = playgroundServiceNames (rp_services render); project = rp_project render
      in bind (runCreationStep w pg0 ''host_prerequisites'' serviceNames (\<lambda>_. ask_done (EnsurePrerequisites mq)))
        (\<lambda>(pg1, err). if err \<noteq> None then Ret (pg1, err)
           else bind (runCreationStep w pg1 ''source_sync'' serviceNames
                  (\<lambda>active. sync_deployed_sources D w mq project (rp_playspec render) active))
             (\<lambda>(pg2, err). if err \<noteq> None then Ret (pg2, err)
                else bind (buildRenderedPlayground D w pg2 (rp_playspec render) mq (rp_compose_yaml render) serviceNames)
                  (\<lambda>(composeYAML, pg3, err). if err \<noteq> None then Ret (pg3, err)
                     else deployAndObserveCompose w pg3 mq project composeYAML (rp_services render) serviceNames))))"

definition DeployPlayground ::
    "deploy_env \<Rightarrow> worker \<Rightarrow> playground \<Rightarrow> playspec \<Rightarrow> marquee option \<Rightarrow> (playground \<times> go_error option) io" where
  "DeployPlayground D w pg0 ps marquee =
     (case marquee of
        None \<Rightarrow> Ret (pg0, Some (ErrText ''marquee is required for playground deployment''))
      | Some mq \<Rightarrow>
          bind ask_clock (\<lambda>now.
            bind (recordCreationStepForStart w (pg0\<lparr>pg_status := StatusInProgress, pg_last_applied_at := Some now\<rparr>)
                    (pg_status pg0) ''compose_render'' ''running'' None)
              (\<lambda>(pg1, err). if err \<noteq> None then Ret (pg1, err)
                 else bind (renderPlayground D w pg1 ps mq)
                   (\<lambda>(pg2, render). case render of
                      Inl err \<Rightarrow> Ret (pg2, err)
                    | Inr r \<Rightarrow>
                        bind (saveDeploymentProgress w pg2)
                          (\<lambda>(pg3, err). if err \<noteq> None then Ret (pg3, err)
                             else bind (deployRenderedPlayground D w pg3 mq r)
                               (\<lambda>(pg4, err). if err \<noteq> None then Ret (pg4, err)
                                  else recordCreationStepStrict w (successfulDeploymentPlayground pg4)
                                         ''finalize'' ''completed'' None))))))"

subsection \<open>Starting an existing project (start.go)\<close>

definition runtimeStartComposeProject :: "playground \<Rightarrow> marquee option \<Rightarrow> string + string" where
  "runtimeStartComposeProject pg marquee =
     (if marquee = None then Inl ''marquee is required for playground start''
      else case pg_compose_project pg of
        None \<Rightarrow> Inl ''playground has no compose project to start''
      | Some p \<Rightarrow> (if trim_space p = [] then Inl ''playground has no compose project to start'' else Inr (trim_space p)))"

text \<open>The row, its service names, the error.\<close>

definition prepareRuntimeStart :: "worker \<Rightarrow> playground \<Rightarrow> (playground \<times> string list \<times> go_error option) io" where
  "prepareRuntimeStart w pg0 =
     (let startStatus = pg_status pg0
      in bind (preserveLatestRuntimeFields w pg0)
        (\<lambda>(pg1, err). if err \<noteq> None then Ret (pg1, [], err)
           else let serviceNames = playgroundServiceNames (pg_services pg1)
                in bind (recordCreationStepForStart w (pg1\<lparr>pg_status := StatusInProgress\<rparr>) startStatus ''compose_start'' ''running'' None)
                  (\<lambda>(pg2, err). if err \<noteq> None then Ret (pg2, [], err)
                     else bind (requireActiveDeployment w pg2) (\<lambda>(pg3, err). Ret (pg3, serviceNames, err)))))"

definition observeRuntimeStart ::
    "worker \<Rightarrow> playground \<Rightarrow> marquee \<Rightarrow> string \<Rightarrow> string list \<Rightarrow> (playground \<times> go_error option) io" where
  "observeRuntimeStart w pg0 mq project serviceNames =
     bind (recordCreationStep w pg0 ''compose_start'' ''completed'' None)
       (\<lambda>(pg1, err). if err \<noteq> None then Ret (pg1, err)
          else bind (preserveLatestRuntimeFields w pg1)
            (\<lambda>(pg2, err). if err \<noteq> None then Ret (pg2, err)
               else bind (observeDeployedCompose w pg2 mq project (pg_services pg2) serviceNames)
                 (\<lambda>(pg3, err). if err \<noteq> None then Ret (pg3, err)
                    else recordCreationStepStrict w (successfulDeploymentPlayground pg3) ''finalize'' ''completed'' None)))"

definition StartRuntimePlayground ::
    "worker \<Rightarrow> playground \<Rightarrow> marquee option \<Rightarrow> (playground \<times> go_error option) io" where
  "StartRuntimePlayground w pg0 marquee =
     (case runtimeStartComposeProject pg0 marquee of
        Inl e \<Rightarrow> Ret (pg0, Some (ErrText e))
      | Inr project \<Rightarrow>
          (case marquee of
             None \<Rightarrow> Stuck
           | Some mq \<Rightarrow>
               bind (prepareRuntimeStart w pg0)
                 (\<lambda>(pg, serviceNames, err). if err \<noteq> None then Ret (pg, err)
                    else bind (ask_done (StartCompose mq project))
                      (\<lambda>startErr. case startErr of
                         Some e \<Rightarrow> failDeploymentAfterCreationStep w pg ''compose_start'' e serviceNames
                       | None \<Rightarrow> observeRuntimeStart w pg mq project serviceNames))))"

subsection \<open>Facts\<close>

context worker_guard
begin

lemma allowed_verified: "guarded G (verifiedReusableBuildRecord mq cs st)"
  by (induction cs) (auto simp: verifiedReusableBuildRecord.simps reusableBuildImageExists_def intro!: guarded_rules quiet_guarded)

lemma allowed_wait: "guarded G (waitForReusableBuildRecord w mq c)"
proof -
  have "guarded G (pollReusableBuildRecord n mq i)" for n i
  proof (induction n)
    case (Suc n)
    have "guarded G (reusableBuildRecordPollResult mq i)"
      unfolding reusableBuildRecordPollResult_def reloadBuildRecord_def
      by (intro guarded_rules allowed_verified quiet_guarded) simp_all
    with Suc show ?case by (auto intro!: guarded_rules quiet_guarded)
  qed (simp add: guarded_Stuck)
  then show ?thesis
    unfolding waitForReusableBuildRecord_def by (intro guarded_rules allowed_verified)
qed

lemma allowed_candidates: "guarded G (wait_candidates w mq cs i now)"
  by (induction cs) (auto intro!: guarded_rules allowed_wait)

lemma allowed_failBuildRecord: "guarded G (failBuildRecord n b r e)"
  unfolding failBuildRecord_def by (intro guarded_rules quiet_guarded) simp_all

lemma allowed_reuse: "guarded G (reuseBuildRecord w mq plan r)"
  unfolding reuseBuildRecord_def findReusableBuildRecord_def waitForReusableBuildCandidates_def saveReusedBuildRecord_def
  by (intro guarded_rules allowed_verified allowed_candidates quiet_guarded) simp_all

lemma allowed_fresh: "guarded G (runFreshBuildRecord mq plan r)"
  unfolding runFreshBuildRecord_def runBuildImage_def saveSuccessfulBuildRecord_def
  by (intro guarded_rules allowed_failBuildRecord quiet_guarded) simp_all

lemma allowed_buildService: "guarded G (buildService E w pg mq summary)"
proof -
  have created: "guarded G (newBuildRecordWithCommit E w mq plan)" for plan
    unfolding newBuildRecordWithCommit_def buildPropID_def by (intro guarded_rules quiet_guarded) simp_all
  show ?thesis
    unfolding buildService_def
    by (intro guarded_rules created allowed_reuse allowed_failBuildRecord allowed_fresh)
qed

lemma allowed_buildServices [guarded_rules]: "guarded G (buildServices rx Y E w pg ps mq)"
proof -
  have "guarded G (build_services_loop E w pg mq ss out)" for ss out
    by (induction ss arbitrary: out) (auto intro!: guarded_rules allowed_buildService)
  then show ?thesis unfolding buildServices_def by (intro guarded_rules)
qed

end

context deploy_guard
begin

lemma guarded_runCreationStep:
  "(\<And>pg. guarded G (run pg)) \<Longrightarrow> guarded G (runCreationStep w pg step names run)"
  unfolding runCreationStep_def by (intro guarded_rules)

lemma guarded_renderPlayground [guarded_rules]: "guarded G (renderPlayground D w pg ps mq)"
proof -
  have "guarded G (preparedRenderInputs (de_rx D) (de_yaml D) ps pg)" for pg
    unfolding preparedRenderInputs_def ensureInternalPassword_def newInternalPassword_def
    by (intro guarded_rules quiet_guarded) simp_all
  moreover have "guarded G (failComposeRender w pg e services)" for pg e services
    unfolding failComposeRender_def by (intro guarded_rules)
  ultimately show ?thesis
    unfolding renderPlayground_def by (intro guarded_rules) (auto intro!: guarded_rules)
qed

lemma guarded_observeDeployedCompose [guarded_rules]:
  "guarded G (observeDeployedCompose w pg mq project services names)"
  unfolding observeDeployedCompose_def by (intro guarded_rules)

lemma guarded_deployRenderedPlayground [guarded_rules]: "guarded G (deployRenderedPlayground D w pg mq render)"
proof -
  have "guarded G (deployAndObserveCompose w pg mq project yaml services names)" for pg project yaml services names
    unfolding deployAndObserveCompose_def by (intro guarded_rules quiet_guarded) simp_all
  moreover have "guarded G (sync_deployed_sources D w mq project ps pg)" for project ps pg
    unfolding sync_deployed_sources_def by (intro guarded_rules quiet_guarded) simp_all
  moreover have "guarded G (buildRenderedPlayground D w pg ps mq yaml names)" for pg ps yaml names
    unfolding buildRenderedPlayground_def by (intro guarded_rules) (auto intro!: guarded_rules)
  ultimately show ?thesis
    unfolding deployRenderedPlayground_def by (intro guarded_rules guarded_runCreationStep quiet_guarded) simp_all
qed

lemma guarded_DeployPlayground:
  "pg_status pg = startStatus \<Longrightarrow> guarded G (DeployPlayground D w pg ps marquee)"
  unfolding DeployPlayground_def by (intro guarded_rules quiet_guarded) (simp_all add: guarded_recordCreationStep)

lemma guarded_StartRuntimePlayground:
  "pg_status pg = startStatus \<Longrightarrow> guarded G (StartRuntimePlayground w pg marquee)"
proof -
  assume "pg_status pg = startStatus"
  then have "guarded G (prepareRuntimeStart w pg)"
    unfolding prepareRuntimeStart_def Let_def by (intro guarded_rules) (simp_all add: guarded_recordCreationStep)
  moreover have "guarded G (observeRuntimeStart w pg mq project names)" for pg mq project names
    unfolding observeRuntimeStart_def by (intro guarded_rules)
  ultimately show ?thesis
    unfolding StartRuntimePlayground_def by (intro guarded_rules quiet_guarded) simp_all
qed

end

subsection \<open>What a deployment may write\<close>

definition same_metadata :: "playground \<Rightarrow> playground \<Rightarrow> bool" where
  "same_metadata pg current =
     (pg_name pg = pg_name current \<and> pg_playspec_id pg = pg_playspec_id current \<and> pg_marquee_id pg = pg_marquee_id current \<and>
      pg_env_overrides pg = pg_env_overrides current \<and> pg_service_branches pg = pg_service_branches current \<and>
      pg_expires_at pg = pg_expires_at current)"

definition guarded_write :: "string \<Rightarrow> history \<Rightarrow> playground \<Rightarrow> string \<Rightarrow> int \<Rightarrow> bool" where
  "guarded_write start h pg status updated =
     (\<exists>h0 current. h = h0 @ [(GetPlayground (pg_id pg), Row (Inr current))] \<and>
        status = pg_status current \<and> updated = pg_updated_at current \<and>
        (deploymentStatusActive status \<or> status = start \<and> deploymentStartStatusAllowed status) \<and>
        same_metadata pg current)"

definition deployment_guard :: "string \<Rightarrow> history \<Rightarrow> request \<Rightarrow> bool" where
  "deployment_guard start h q =
     (case q of
        SavePlaygroundIfCurrent pg status updated \<Rightarrow> guarded_write start h pg status updated
      | SavePlayground pg \<Rightarrow> pg_status pg = StatusError
      | SyncSource mq g \<Rightarrow> inside_checkouts (gr_project g) (gr_target g)
      | DeletePlayground i \<Rightarrow> False
      | _ \<Rightarrow> True)"

interpretation deployment: deploy_guard "deployment_guard start" start for start
proof unfold_locales
  fix q :: request and h
  show "quiet q \<Longrightarrow> deployment_guard start h q"
    by (simp add: deployment_guard_def quiet_def split: request.splits)
next
  fix current pg :: playground and i h
  assume s: "deploymentStatusActive (pg_status current) \<or>
      pg_status current = start \<and> deploymentStartStatusAllowed (pg_status current)" "pg_id pg = i"
  have "pg_id (preserveLatestDeploymentMetadata pg current) = i"
    and "same_metadata (preserveLatestDeploymentMetadata pg current) current"
    using s(2) by (simp_all add: preserveLatestDeploymentMetadata_def same_metadata_def)
  with s show "deployment_guard start (h @ [(GetPlayground i, Row (Inr current))])
      (SavePlaygroundIfCurrent (preserveLatestDeploymentMetadata pg current) (pg_status current) (pg_updated_at current))"
    by (simp add: deployment_guard_def guarded_write_def)
qed (simp_all add: deployment_guard_def)

subsection \<open>The clean-up after a superseded deployment\<close>

text \<open>An error that says the row was stopped or destroyed comes with the matching request to the runtime.\<close>

definition cleaned :: "marquee \<Rightarrow> string \<Rightarrow> history \<Rightarrow> go_error option \<Rightarrow> bool" where
  "cleaned mq project h err =
     (\<forall>s. err \<noteq> None \<and> as_superseded (the err) = Some s \<longrightarrow>
        (s = StatusStopping \<or> s = StatusStopped \<longrightarrow> (\<exists>x. (StopCompose mq project, x) \<in> set h)) \<and>
        (s = StatusDestroying \<longrightarrow> (\<exists>x. (DestroyCompose mq project, x) \<in> set h)))"

definition ends_cleaned :: "marquee \<Rightarrow> string \<Rightarrow> (playground \<times> go_error option) io \<Rightarrow> bool" where
  "ends_cleaned mq project m = (\<forall>h. wp (\<lambda>_ _. True) (\<lambda>h (pg, err). cleaned mq project h err) m h)"

named_theorems cleaned_rules

lemma wp_any: "(\<And>h a. Q h a) \<Longrightarrow> wp (\<lambda>_ _. True) Q m h"
  by (induction m arbitrary: h) auto

lemma ends_cleaned_bind [cleaned_rules]: "(\<And>a. ends_cleaned mq project (f a)) \<Longrightarrow> ends_cleaned mq project (bind m f)"
proof -
  assume each: "\<And>a. ends_cleaned mq project (f a)"
  have "wp (\<lambda>_ _. True) (\<lambda>h (pg, err). cleaned mq project h err) (f a) h" for a h
    using each[of a] by (simp add: ends_cleaned_def)
  then have "wp (\<lambda>_ _. True) (\<lambda>h (pg, err). cleaned mq project h err) (bind m f) h" for h
    by (simp add: wp_any)
  then show ?thesis by (simp add: ends_cleaned_def)
qed

lemma ends_cleaned_None [cleaned_rules]: "ends_cleaned mq project (Ret (pg, None))"
  by (simp add: ends_cleaned_def cleaned_def)

lemma ends_cleaned_if [cleaned_rules]:
  "(c \<Longrightarrow> ends_cleaned mq project m) \<Longrightarrow> (\<not> c \<Longrightarrow> ends_cleaned mq project n) \<Longrightarrow> ends_cleaned mq project (if c then m else n)"
  by simp

lemma ends_cleaned_prod [cleaned_rules]:
  "(\<And>a b. x = (a, b) \<Longrightarrow> ends_cleaned mq project (f a b)) \<Longrightarrow> ends_cleaned mq project (case x of (a, b) \<Rightarrow> f a b)"
  by (cases x) simp

lemma ends_cleaned_option [cleaned_rules]:
  "(x = None \<Longrightarrow> ends_cleaned mq project m) \<Longrightarrow> (\<And>a. x = Some a \<Longrightarrow> ends_cleaned mq project (f a)) \<Longrightarrow>
     ends_cleaned mq project (case x of None \<Rightarrow> m | Some a \<Rightarrow> f a)"
  by (cases x) simp_all

lemma ends_cleaned_Let [cleaned_rules]:
  "(\<And>y. y = x \<Longrightarrow> ends_cleaned mq project (f y)) \<Longrightarrow> ends_cleaned mq project (let y = x in f y)"
  by simp

lemma join_superseded:
  "as_superseded e = Some s \<Longrightarrow> join_errors [Some e, c] = Some j \<Longrightarrow> as_superseded j = Some s"
  by (cases c) (auto simp: join_errors_def)

lemma ends_cleaned_cleanup [cleaned_rules]: "ends_cleaned mq project (cleanupSupersededRuntime pg mq project err)"
proof (cases err)
  case (Some e)
  show ?thesis
  proof (cases "as_superseded e")
    case None
    then show ?thesis by (simp add: Some ends_cleaned_def cleanupSupersededRuntime_def cleaned_def)
  next
    case (Some s)
    have joined: "as_superseded (the (join_errors [Some e, c])) = Some s \<and> join_errors [Some e, c] \<noteq> None" for c
      using join_superseded[OF Some, of c] by (cases c) (auto simp: join_errors_def)
    have "wp (\<lambda>_ _. True) (\<lambda>h (pg, err). cleaned mq project h err)
        (bind (cleanupSupersededRuntimeByStatus s mq project) (\<lambda>c. Ret (pg, join_errors [Some e, c]))) h" for h
      using joined
      by (auto simp: cleanupSupersededRuntimeByStatus_def cleaned_def status_defs)
    then show ?thesis by (simp add: \<open>err = Some e\<close> Some ends_cleaned_def cleanupSupersededRuntime_def)
  qed
qed (simp add: ends_cleaned_def cleanupSupersededRuntime_def cleaned_def)

lemma ends_cleaned_observe: "ends_cleaned mq project (observeDeployedCompose w pg mq project services names)"
  unfolding observeDeployedCompose_def by (intro cleaned_rules)

subsection \<open>Properties\<close>


text \<open>The guard of a progress write alone, for the proofs about runs on the store.\<close>

lemma deployment_guarded:
  "trace (DeployPlayground D w pg ps marquee) (es1 @ (SavePlaygroundIfCurrent row status updated, r) # es2) \<Longrightarrow>
     guarded_write (pg_status pg) es1 row status updated"
  using guarded_trace[OF deployment.guarded_DeployPlayground[OF refl]] by (fastforce simp: deployment_guard_def)

definition demo_deploy_env :: deploy_env where
  "demo_deploy_env = \<lparr>de_rx = demo_regex, de_yaml = demo_yaml, de_bcrypt = (\<lambda>p. Inr p), de_build = demo_build_env\<rparr>"

definition demo_playspec :: playspec where
  "demo_playspec = \<lparr>ps_id = Some 2, ps_name = ''s'', ps_description = None, ps_locked = None, ps_persist_volumes = None,
     ps_playground_count = None, ps_created_at = None, ps_updated_at = None, ps_services = [], ps_base_compose_yaml = ''x''\<rparr>"

text \<open>The first guarded write of a deployment whose row was renamed meanwhile.\<close>

definition deploy_run :: history where
  "deploy_run = fst (replay (DeployPlayground demo_deploy_env demo_worker demo_row demo_playspec (Some demo_marquee))
     [Clock 10, Clock 11, Row (Inr (demo_row\<lparr>pg_name := ''renamed''\<rparr>)), Swapped (Inl ErrNotFound)])"


text \<open>When the observation of a deployed project is superseded, the project does not stay up behind the row's back:
whatever error it ends with, if that says the row was stopped the run has asked the runtime to stop the project, and
if it says the row is being destroyed it has asked to destroy it.\<close>

theorem superseded_observation_cleaned:
  assumes "runs (observeDeployedCompose w pg mq project services names) es (pg', Some e)"
    and "as_superseded e = Some s"
  shows "(s = StatusStopping \<or> s = StatusStopped \<longrightarrow> (\<exists>x. (StopCompose mq project, x) \<in> set es)) \<and>
    (s = StatusDestroying \<longrightarrow> (\<exists>x. (DestroyCompose mq project, x) \<in> set es))"
  using wp_runs[OF ends_cleaned_observe[unfolded ends_cleaned_def, rule_format, of mq project w pg services names "[]"] assms(1)]
    assms(2) by (simp add: cleaned_def)

definition observe_run :: history where
  "observe_run = fst (replay (observeDeployedCompose demo_worker demo_row demo_marquee ''p-1'' [] [])
     [Clock 10, Row (Inr (demo_row\<lparr>pg_status := StatusStopped\<rparr>)), Done None])"

theorem superseded_observation_cleaned_witness:
  "\<exists>x. (StopCompose demo_marquee ''p-1'', x) \<in> set observe_run"
proof -
  have r: "replay (observeDeployedCompose demo_worker demo_row demo_marquee ''p-1'' [] [])
     [Clock 10, Row (Inr (demo_row\<lparr>pg_status := StatusStopped\<rparr>)), Done None] =
     (observe_run, Some (demo_row\<lparr>pg_status := StatusStopped\<rparr>, Some (ErrJoin [ErrSuperseded 7 StatusStopped])))"
    unfolding observe_run_def by code_simp
  have "as_superseded (ErrJoin [ErrSuperseded 7 StatusStopped]) = Some StatusStopped" by simp
  from superseded_observation_cleaned[OF replay_runs[OF r] this] show ?thesis by simp
qed

text \<open>A start that is superseded right after Compose came up is not cleaned up: the row says stopped, the handler
returns, and nothing asks the runtime to stop the project it has just started.\<close>

theorem superseded_start_left_running:
  "case replay (StartRuntimePlayground demo_worker demo_row (Some demo_marquee))
      [Row (Inr demo_row), Clock 10, Row (Inr demo_row), Swapped (Inr (demo_row\<lparr>pg_status := StatusInProgress\<rparr>, True)),
       Row (Inr (demo_row\<lparr>pg_status := StatusInProgress\<rparr>)), Done None, Clock 11,
       Row (Inr (demo_row\<lparr>pg_status := StatusStopped\<rparr>))] of
     (es, Some (pg, Some (ErrSuperseded i s))) \<Rightarrow>
       s = StatusStopped \<and> map fst es ! 5 = StartCompose demo_marquee ''p-1'' \<and> length es = 8 \<and>
       list_all (\<lambda>e. case fst e of StopCompose _ _ \<Rightarrow> False | _ \<Rightarrow> True) es
   | _ \<Rightarrow> False"
  by code_simp

end
