(* ===== verification/WorkerWebhook.thy ===== *)
theory WorkerWebhook
  imports WorkerReconcile WorkerDeploy
begin

text \<open>
  The handling of a GitHub push by the worker: \<open>internal/worker/github\_webhook.go\<close>. A push is normalised, every listed
  row is read again and matched by the repository and branch of its services, the checkouts of the matches are synced,
  their images built and recorded, and the runtime refreshed. The lemmas say which checkouts a push may touch, what it
  may do to a runtime, and what the record of a build keeps.
\<close>

record GitHubPushEvent =
  pe_repository :: string
  pe_branch :: string
  pe_after :: string

record GitHubPushResult =
  pr_matched :: int
  pr_synced :: int
  pr_built :: int
  pr_failed :: int

definition no_push_work :: GitHubPushResult where
  "no_push_work = \<lparr>pr_matched = 0, pr_synced = 0, pr_built = 0, pr_failed = 0\<rparr>"

record githubPushServiceMatch =
  pm_summary :: Summary
  pm_sync :: bool
  pm_build :: bool

definition webhookBuildReadyReason :: string where "webhookBuildReadyReason = ''webhook_build_ready''"

definition webhookBuildFailedReason :: string where "webhookBuildFailedReason = ''webhook_build_failed''"

subsection \<open>The event\<close>

definition allZeroCommit :: "string \<Rightarrow> bool" where
  "allZeroCommit raw = list_all (\<lambda>c. c = CHR ''0'') (trim_space raw)"

definition normalizedGitHubPushEvent :: "GitHubPushEvent \<Rightarrow> GitHubPushEvent option" where
  "normalizedGitHubPushEvent event =
     (let branch = trim_space (pe_branch event); after = trim_space (pe_after event)
      in case RepositoryFullName (pe_repository event) of
           None \<Rightarrow> None
         | Some fullName \<Rightarrow>
             (if branch = [] \<or> allZeroCommit after then None
              else Some \<lparr>pe_repository = to_lower fullName, pe_branch = branch, pe_after = after\<rparr>))"

definition shouldHandleGitHubPushPlayground :: "playground \<Rightarrow> bool" where
  "shouldHandleGitHubPushPlayground pg =
     (pg_playspec_id pg \<noteq> None \<and> pg_marquee_id pg \<noteq> None \<and> pg_compose_project pg \<noteq> None \<and>
      (pg_status pg = StatusRunning \<or> pg_status pg = StatusHasChanges \<or>
       (pg_status pg = StatusError \<and> SourceSyncStateReason pg)))"

subsection \<open>Matching services\<close>

definition githubPushMatchesService :: "GitHubPushEvent \<Rightarrow> Summary \<Rightarrow> bool" where
  "githubPushMatchesService event s =
     (case RepositoryFullName (s_repo_url s) of
        None \<Rightarrow> False
      | Some fullName \<Rightarrow> equal_fold fullName (pe_repository event) \<and> SourceBranch s = pe_branch event)"

definition githubPushSyncsSource :: "Summary \<Rightarrow> bool" where
  "githubPushSyncsSource s = (trim_space (s_source_mount s) \<noteq> [] \<and> \<not> s_production s)"

definition githubPushBuildsService :: "Summary \<Rightarrow> bool" where
  "githubPushBuildsService s = NeedsRemoteBuild s"

definition push_match :: "Summary \<Rightarrow> githubPushServiceMatch" where
  "push_match s = \<lparr>pm_summary = s, pm_sync = githubPushSyncsSource s, pm_build = githubPushBuildsService s\<rparr>"

text \<open>A service without a plan ends the loop with no match at all and no error.\<close>

fun push_matches_loop ::
    "string \<Rightarrow> GitHubPushEvent \<Rightarrow> githubPushServiceMatch list \<Rightarrow> Summary list \<Rightarrow> go_error + githubPushServiceMatch list" where
  "push_matches_loop project event matches [] = Inr matches"
| "push_matches_loop project event matches (s # ss) =
     (if \<not> githubPushMatchesService event s then push_matches_loop project event matches ss
      else if \<not> pm_sync (push_match s) \<and> \<not> pm_build (push_match s) then push_matches_loop project event matches ss
      else case source_sync_plan project s of
        Inl e \<Rightarrow> Inl e
      | Inr None \<Rightarrow> Inr []
      | Inr (Some _) \<Rightarrow> push_matches_loop project event (matches @ [push_match s]) ss)"

definition githubPushServiceMatches ::
    "string \<Rightarrow> GitHubPushEvent \<Rightarrow> Summary list \<Rightarrow> go_error + githubPushServiceMatch list" where
  "githubPushServiceMatches project event summaries = push_matches_loop project event [] summaries"

subsection \<open>Syncing the matches\<close>

fun push_plans_loop ::
    "string \<Rightarrow> string set \<Rightarrow> githubPushServiceMatch list \<Rightarrow> go_error + sourceSyncPlan list" where
  "push_plans_loop project seen [] = Inr []"
| "push_plans_loop project seen (m # ms) =
     (if \<not> pm_sync m \<and> \<not> pm_build m then push_plans_loop project seen ms
      else case source_sync_plan project (pm_summary m) of
        Inl e \<Rightarrow> Inl e
      | Inr None \<Rightarrow> push_plans_loop project seen ms
      | Inr (Some plan) \<Rightarrow>
          (if sp_target plan \<in> seen then push_plans_loop project seen ms
           else map_sum id ((#) plan) (push_plans_loop project (insert (sp_target plan) seen) ms)))"

definition githubPushSourceSyncPlans ::
    "string \<Rightarrow> githubPushServiceMatch list \<Rightarrow> go_error + sourceSyncPlan list" where
  "githubPushSourceSyncPlans project matches = push_plans_loop project {} matches"

definition syncGitHubPushSources ::
    "worker \<Rightarrow> marquee \<Rightarrow> playground \<Rightarrow> githubPushServiceMatch list \<Rightarrow> (int \<times> go_error option) io" where
  "syncGitHubPushSources w mq pg matches =
     with_project pg (\<lambda>project.
       case githubPushSourceSyncPlans project matches of
         Inl e \<Rightarrow> Ret (0, Some e)
       | Inr plans \<Rightarrow>
           (if plans = [] then Ret (0, None)
            else bind (runSourceSyncPlans w mq plans)
              (\<lambda>err. case err of
                 Some e \<Rightarrow> bind (recordSourceSyncFailure pg e (pg_status pg))
                   (\<lambda>saved. Ret (int (length plans), join_errors [Some e, saved]))
               | None \<Rightarrow> bind (clearResolvedSourceSyncFailure pg (pg_status pg))
                   (\<lambda>cleared. Ret (int (length plans), cleared)))))"

subsection \<open>The record of a build\<close>

definition same_build_target :: "build_status \<Rightarrow> build_status \<Rightarrow> bool" where
  "same_build_target s t = (bst_service_name s = bst_service_name t \<and> bst_branch s = bst_branch t)"

fun merge_status_loop :: "build_status list \<Rightarrow> build_status \<Rightarrow> build_status list" where
  "merge_status_loop [] replacement = [replacement]"
| "merge_status_loop (s # ss) replacement =
     (if \<not> same_build_target s replacement then s # merge_status_loop ss replacement
      else replacement\<lparr>bst_active := bst_active s\<rparr> # ss)"

definition mergeGitHubPushBuildStatus :: "build_status list \<Rightarrow> build_status \<Rightarrow> build_status list" where
  "mergeGitHubPushBuildStatus statuses replacement = merge_status_loop statuses (replacement\<lparr>bst_active := None\<rparr>)"

definition withoutErrorDetails :: "doc option \<Rightarrow> string list \<Rightarrow> doc option" where
  "withoutErrorDetails existing keys =
     (case existing of
        None \<Rightarrow> None
      | Some m \<Rightarrow> (let out = filter (\<lambda>(k, _). k \<notin> set keys) m in if out = [] then None else Some out))"

definition githubPushBuildReadyPlayground :: "playground \<Rightarrow> playground" where
  "githubPushBuildReadyPlayground pg =
     pg\<lparr>pg_status := StatusHasChanges, pg_state_reason := Some webhookBuildReadyReason,
        pg_state_reasons := [webhookBuildReadyReason], pg_error_message := None, pg_build_warnings := [],
        pg_error_details := withoutErrorDetails (pg_error_details pg) [''source_sync'', ''webhook_build'']\<rparr>"

definition githubPushBuildFailedPlayground :: "playground \<Rightarrow> build_status \<Rightarrow> go_error \<Rightarrow> playground" where
  "githubPushBuildFailedPlayground pg status buildErr =
     pg\<lparr>pg_build_warnings := [''GitHub push build failed; fix the build and push again or redeploy manually''],
        pg_error_details := Some (mergeErrorDetails (pg_error_details pg) ''webhook_build''
          (AMap [(''category'', AStr webhookBuildFailedReason), (''service'', AStr (bst_service_name status)),
                 (''branch'', AStr (bst_branch status)), (''message'', AStr (error_text buildErr))]))\<rparr>"

text \<open>A row that is gone is the zero row, here no row.\<close>

definition currentGitHubPushPlayground :: "int \<Rightarrow> (go_error + playground option) io" where
  "currentGitHubPushPlayground i =
     bind (ask_row (GetPlayground i))
       (\<lambda>r. Ret (case r of Inl e \<Rightarrow> if is_not_found e then Inr None else Inl e | Inr pg \<Rightarrow> Inr (Some pg)))"

definition push_build_row :: "playground \<Rightarrow> build_status \<Rightarrow> go_error option \<Rightarrow> playground" where
  "push_build_row current st buildErr =
     (let merged = current\<lparr>pg_build_statuses := mergeGitHubPushBuildStatus (pg_build_statuses current) st\<rparr>
      in case buildErr of
           None \<Rightarrow> githubPushBuildReadyPlayground merged
         | Some e \<Rightarrow> githubPushBuildFailedPlayground merged st e)"

definition saveGitHubPushBuildResult :: "playground \<Rightarrow> build_status option \<Rightarrow> go_error option \<Rightarrow> go_error option io" where
  "saveGitHubPushBuildResult pg status buildErr =
     (case status of
        None \<Rightarrow> Ret None
      | Some st \<Rightarrow>
          (if bst_service_name st = [] then Ret None
           else bind (currentGitHubPushPlayground (pg_id pg))
             (\<lambda>r. case r of
                Inl e \<Rightarrow> Ret (Some e)
              | Inr None \<Rightarrow> Ret None
              | Inr (Some current) \<Rightarrow>
                  (if pg_id current = 0 then Ret None
                   else bind (ask_row (SavePlayground (push_build_row current st buildErr)))
                          (\<lambda>saved. Ret (case saved of Inl e \<Rightarrow> Some e | Inr _ \<Rightarrow> None))))))"

definition buildGitHubPushService ::
    "build_env \<Rightarrow> worker \<Rightarrow> marquee \<Rightarrow> int \<Rightarrow> githubPushServiceMatch \<Rightarrow> (GitHubPushResult \<times> go_error option) io" where
  "buildGitHubPushService E w mq i m =
     (if \<not> pm_build m then Ret (no_push_work, None)
      else bind (currentGitHubPushPlayground i)
        (\<lambda>r. case r of
           Inl e \<Rightarrow> Ret (no_push_work, Some e)
         | Inr None \<Rightarrow> Ret (no_push_work, None)
         | Inr (Some current) \<Rightarrow>
             (if \<not> shouldHandleGitHubPushPlayground current then Ret (no_push_work, None)
              else bind (buildService E w current mq (pm_summary m))
                (\<lambda>(build, buildErr).
                   bind (saveGitHubPushBuildResult current (bsr_status build) buildErr)
                     (\<lambda>saveErr. Ret (if buildErr \<noteq> None then no_push_work\<lparr>pr_failed := 1\<rparr> else no_push_work\<lparr>pr_built := 1\<rparr>,
                        saveErr))))))"

fun push_builds_loop ::
    "build_env \<Rightarrow> worker \<Rightarrow> marquee \<Rightarrow> int \<Rightarrow> GitHubPushResult \<Rightarrow> go_error list \<Rightarrow> githubPushServiceMatch list \<Rightarrow>
       (GitHubPushResult \<times> go_error option) io" where
  "push_builds_loop E w mq i res errs [] = Ret (res, join_errors (map Some errs))"
| "push_builds_loop E w mq i res errs (m # ms) =
     bind (buildGitHubPushService E w mq i m)
       (\<lambda>(one, err). push_builds_loop E w mq i
          (res\<lparr>pr_built := pr_built res + pr_built one, pr_failed := pr_failed res + pr_failed one\<rparr>)
          (case err of None \<Rightarrow> errs | Some e \<Rightarrow> errs @ [e]) ms)"

definition buildGitHubPushServices ::
    "build_env \<Rightarrow> worker \<Rightarrow> marquee \<Rightarrow> playground \<Rightarrow> githubPushServiceMatch list \<Rightarrow> (GitHubPushResult \<times> go_error option) io" where
  "buildGitHubPushServices E w mq pg matches = push_builds_loop E w mq (pg_id pg) no_push_work [] matches"

subsection \<open>One row, every row\<close>

definition githubPushHasSourceMountedMatch :: "githubPushServiceMatch list \<Rightarrow> bool" where
  "githubPushHasSourceMountedMatch matches = list_ex pm_sync matches"

definition refreshGitHubPushPlayground :: "regex_engine \<Rightarrow> yaml_lib \<Rightarrow> worker \<Rightarrow> int \<Rightarrow> go_error option io" where
  "refreshGitHubPushPlayground rx Y w i =
     bind (currentGitHubPushPlayground i)
       (\<lambda>r. case r of
          Inl e \<Rightarrow> Ret (Some e)
        | Inr None \<Rightarrow> Ret None
        | Inr (Some current) \<Rightarrow>
            (if pg_id current = 0 \<or> \<not> ShouldRefreshRuntime current then Ret None
             else bind (RefreshPlayground rx Y w current) (\<lambda>(_, err). Ret err)))"

record githubPushPlaygroundContextResult =
  pc_marquee :: marquee
  pc_playground :: playground
  pc_summaries :: "Summary list"

definition githubPushPlaygroundServiceContext ::
    "deploy_env \<Rightarrow> playground \<Rightarrow> marquee \<Rightarrow> (go_error + githubPushPlaygroundContextResult) io" where
  "githubPushPlaygroundServiceContext D current mq =
     bind (with_playspec_id current (\<lambda>i. ask_spec (GetPlayspec i)))
       (\<lambda>r. Ret (case r of
          Inl e \<Rightarrow> Inl e
        | Inr ps0 \<Rightarrow>
            (case effectivePlaygroundPlayspec (de_rx D) (de_yaml D) ps0 current of
               Inl e \<Rightarrow> Inl e
             | Inr ps \<Rightarrow>
                 map_sum id (\<lambda>summaries. \<lparr>pc_marquee = mq, pc_playground = current, pc_summaries = summaries\<rparr>)
                   (validatedSourceServices (de_rx D) (de_yaml D) (ps_base_compose_yaml ps) ''GitHub webhook''))))"

definition githubPushPlaygroundContext ::
    "deploy_env \<Rightarrow> worker \<Rightarrow> playground \<Rightarrow> (go_error + githubPushPlaygroundContextResult option) io" where
  "githubPushPlaygroundContext D w pg =
     (if \<not> w_has_db w \<or> pg_id pg = 0 then Ret (Inr None)
      else bind (ask_row (GetPlayground (pg_id pg)))
        (\<lambda>r. case r of
           Inl e \<Rightarrow> Ret (if is_not_found e then Inr None else Inl e)
         | Inr current \<Rightarrow>
             (if \<not> shouldHandleGitHubPushPlayground current then Ret (Inr None)
              else bind (runtimeMarqueeForPlayground current)
                (\<lambda>m. case m of
                   Inl e \<Rightarrow> Ret (Inl e)
                 | Inr mq \<Rightarrow> bind (githubPushPlaygroundServiceContext D current mq) (\<lambda>c. Ret (map_sum id Some c))))))"

definition handleGitHubPushPlayground ::
    "deploy_env \<Rightarrow> worker \<Rightarrow> GitHubPushEvent \<Rightarrow> playground \<Rightarrow> (GitHubPushResult \<times> go_error option) io" where
  "handleGitHubPushPlayground D w event pg =
     bind (githubPushPlaygroundContext D w pg)
       (\<lambda>c. case c of
          Inl e \<Rightarrow> Ret (no_push_work, Some e)
        | Inr None \<Rightarrow> Ret (no_push_work, None)
        | Inr (Some ctx) \<Rightarrow>
            (let current = pc_playground ctx; mq = pc_marquee ctx
             in with_project current (\<lambda>project.
               case githubPushServiceMatches project event (pc_summaries ctx) of
                 Inl e \<Rightarrow> Ret (no_push_work, Some e)
               | Inr matches \<Rightarrow>
                   (if matches = [] then Ret (no_push_work, None)
                    else bind (syncGitHubPushSources w mq current matches)
                      (\<lambda>(synced, syncErr).
                         let res = no_push_work\<lparr>pr_matched := 1, pr_synced := synced\<rparr>
                         in if syncErr \<noteq> None then Ret (res, syncErr)
                            else bind (buildGitHubPushServices (de_build D) w mq current matches)
                              (\<lambda>(built, err).
                                 let res' = res\<lparr>pr_built := pr_built built, pr_failed := pr_failed built\<rparr>
                                 in if err \<noteq> None then Ret (res', err)
                                    else if pr_built built = 0 \<and> githubPushHasSourceMountedMatch matches
                                      then bind (refreshGitHubPushPlayground (de_rx D) (de_yaml D) w (pg_id current))
                                        (\<lambda>refreshErr. Ret (res', refreshErr))
                                    else Ret (res', None))))))) "

fun push_rows_loop ::
    "deploy_env \<Rightarrow> worker \<Rightarrow> GitHubPushEvent \<Rightarrow> GitHubPushResult \<Rightarrow> go_error list \<Rightarrow> playground list \<Rightarrow>
       (GitHubPushResult \<times> go_error option) io" where
  "push_rows_loop D w event res errs [] = Ret (res, join_errors (map Some errs))"
| "push_rows_loop D w event res errs (pg # pgs) =
     bind (handleGitHubPushPlayground D w event pg)
       (\<lambda>(one, err). push_rows_loop D w event
          \<lparr>pr_matched = pr_matched res + pr_matched one, pr_synced = pr_synced res + pr_synced one,
           pr_built = pr_built res + pr_built one, pr_failed = pr_failed res + pr_failed one\<rparr>
          (case err of None \<Rightarrow> errs | Some e \<Rightarrow> errs @ [e]) pgs)"

definition HandleGitHubPush ::
    "deploy_env \<Rightarrow> worker \<Rightarrow> GitHubPushEvent \<Rightarrow> (GitHubPushResult \<times> go_error option) io" where
  "HandleGitHubPush D w raw =
     (case normalizedGitHubPushEvent raw of
        None \<Rightarrow> Ret (no_push_work, None)
      | Some event \<Rightarrow>
          (if \<not> w_has_db w then Ret (no_push_work, None)
           else bind (ask_rows ListPlaygrounds)
             (\<lambda>l. case l of
                Inl e \<Rightarrow> Ret (no_push_work, Some e)
              | Inr pgs \<Rightarrow> push_rows_loop D w event no_push_work [] pgs)))"

subsection \<open>Facts\<close>

lemma push_matches_match:
  "push_matches_loop project event acc ss = Inr ms \<Longrightarrow> m \<in> set ms \<Longrightarrow>
     m \<in> set acc \<or> (\<exists>s \<in> set ss. m = push_match s \<and> githubPushMatchesService event s)"
  by (induction project event acc ss rule: push_matches_loop.induct)
    (auto split: if_splits sum.splits option.splits)

lemma push_plans_each:
  "push_plans_loop project seen ms = Inr plans \<Longrightarrow>
     distinct (map sp_target plans) \<and>
     (\<forall>p \<in> set plans. sp_target p \<notin> seen \<and> (\<exists>m \<in> set ms. source_sync_plan project (pm_summary m) = Inr (Some p)))"
proof (induction ms arbitrary: seen plans)
  case (Cons m ms)
  show ?case
  proof (cases "pm_sync m \<or> pm_build m")
    case False
    then show ?thesis using Cons.IH[of seen plans] Cons.prems by auto
  next
    case True
    then obtain x where x: "source_sync_plan project (pm_summary m) = Inr x"
      using Cons.prems by (cases "source_sync_plan project (pm_summary m)") auto
    show ?thesis
    proof (cases "\<exists>plan. x = Some plan \<and> sp_target plan \<notin> seen")
      case False
      then show ?thesis using Cons.IH[of seen plans] Cons.prems True x by (cases x) auto
    next
      case fresh: True
      then obtain plan where plan: "x = Some plan" "sp_target plan \<notin> seen" by blast
      with Cons.prems True x obtain ps where ps: "push_plans_loop project (insert (sp_target plan) seen) ms = Inr ps"
        and plans: "plans = plan # ps"
        by (cases "push_plans_loop project (insert (sp_target plan) seen) ms") auto
      from Cons.IH[OF ps] show ?thesis unfolding plans using plan x by auto
    qed
  qed
qed simp

definition sync_request :: "worker \<Rightarrow> sourceSyncPlan \<Rightarrow> git_request" where
  "sync_request w p = \<lparr>gr_project = sp_project p, gr_service = sp_service p, gr_repo_url = sp_repo_url p,
     gr_branch = sp_branch p, gr_target = sp_target p, gr_token = w_github_token w\<rparr>"

text \<open>The sync of a plan that is one of the plans, at a checkout the history has not synced.\<close>

definition fresh_sync :: "worker \<Rightarrow> marquee \<Rightarrow> sourceSyncPlan list \<Rightarrow> history \<Rightarrow> request \<Rightarrow> bool" where
  "fresh_sync w mq plans h q =
     (case q of
        SyncSource mq' g \<Rightarrow> mq' = mq \<and> (\<exists>p \<in> set plans. g = sync_request w p) \<and>
          (\<forall>e \<in> set h. case fst e of SyncSource _ g' \<Rightarrow> gr_target g' \<noteq> gr_target g | _ \<Rightarrow> True)
      | _ \<Rightarrow> True)"

lemma fresh_sync_other: "(\<And>mq g. q \<noteq> SyncSource mq g) \<Longrightarrow> fresh_sync w mq plans h q"
  by (simp add: fresh_sync_def split: request.split)

lemma wp_fresh_syncs:
  assumes "distinct (map sp_target ps)" and "set ps \<subseteq> set plans"
    and "\<forall>e \<in> set h. case fst e of SyncSource _ g \<Rightarrow> gr_target g \<notin> set (map sp_target ps) | _ \<Rightarrow> True"
  shows "wp (fresh_sync w mq plans) (\<lambda>_ _. True) (runSourceSyncPlans w mq ps) h"
  using assms
proof (induction ps arbitrary: h)
  case (Cons p ps)
  have now: "fresh_sync w mq plans h (SyncSource mq (sync_request w p))"
    using Cons.prems(2,3) by (fastforce simp: fresh_sync_def sync_request_def split: request.splits)
  have "wp (fresh_sync w mq plans) (\<lambda>_ _. True) (runSourceSyncPlans w mq ps) (h @ [(SyncSource mq (sync_request w p), r)])" for r
    using Cons.prems
    by (intro Cons.IH) (fastforce simp: sync_request_def split: request.splits)+
  with now show ?case
    by (auto simp: runSourceSync_def sync_request_def split: option.split)
qed simp

lemma wp_syncGitHubPushSources:
  assumes "pg_compose_project pg = Some project" and "githubPushSourceSyncPlans project matches = Inr plans"
  shows "wp (fresh_sync w mq plans) (\<lambda>_ _. True) (syncGitHubPushSources w mq pg matches) []"
proof -
  have "distinct (map sp_target plans)"
    using push_plans_each assms(2) unfolding githubPushSourceSyncPlans_def by blast
  moreover have "wp (fresh_sync w mq plans) (\<lambda>_ _. True)
      (case err of Some e \<Rightarrow> bind (recordSourceSyncFailure pg e s) (\<lambda>saved. Ret (n, join_errors [Some e, saved]))
         | None \<Rightarrow> bind (clearResolvedSourceSyncFailure pg s) (\<lambda>cleared. Ret (n, cleared))) h" for err s n h
    by (auto simp: recordSourceSyncFailure_def clearResolvedSourceSyncFailure_def currentSourceSyncPlayground_def
        fresh_sync_other split: option.split sum.split)
  ultimately show ?thesis
    using assms unfolding syncGitHubPushSources_def with_project_def
    by (auto intro!: wp_mono[OF wp_fresh_syncs])
qed

subsection \<open>Properties\<close>

text \<open>A push syncs only what it was about: every checkout it syncs belongs to a service of the row whose repository is
the pushed one and whose branch is the pushed branch, lies strictly inside the checkouts of the project, and is synced
once, however many services share it.\<close>

theorem push_syncs_only_matching:
  assumes "githubPushServiceMatches project event summaries = Inr matches"
    and "pg_compose_project pg = Some project"
    and "trace (syncGitHubPushSources w mq pg matches) (es1 @ (SyncSource mq' g, r) # es2)"
  shows "mq' = mq \<and> inside_checkouts project (gr_target g) \<and> gr_branch g = pe_branch event \<and>
    (\<exists>s \<in> set summaries. gr_service g = s_name s \<and> gr_repo_url g = s_repo_url s \<and>
      (\<exists>name. RepositoryFullName (s_repo_url s) = Some name \<and> equal_fold name (pe_repository event))) \<and>
    (\<forall>e \<in> set es1. case fst e of SyncSource _ g' \<Rightarrow> gr_target g' \<noteq> gr_target g | _ \<Rightarrow> True)"
proof -
  have "\<not> (\<exists>e. githubPushSourceSyncPlans project matches = Inl e)"
    using assms(2,3) by (auto simp: syncGitHubPushSources_def with_project_def trace_simps)
  then obtain plans where plans: "githubPushSourceSyncPlans project matches = Inr plans"
    by (cases "githubPushSourceSyncPlans project matches") auto
  from wp_trace[OF wp_syncGitHubPushSources[OF assms(2) plans] assms(3) refl]
  obtain p where p: "p \<in> set plans" "g = sync_request w p" and mq: "mq' = mq"
    and once: "\<forall>e \<in> set es1. case fst e of SyncSource _ g' \<Rightarrow> gr_target g' \<noteq> gr_target g | _ \<Rightarrow> True"
    by (auto simp: fresh_sync_def)
  from push_plans_each[OF plans[unfolded githubPushSourceSyncPlans_def]] p(1) obtain m
    where m: "m \<in> set matches" "source_sync_plan project (pm_summary m) = Inr (Some p)" by blast
  from push_matches_match[OF assms(1)[unfolded githubPushServiceMatches_def] m(1)] obtain s
    where s: "s \<in> set summaries" "m = push_match s" "githubPushMatchesService event s" by auto
  from m(2) s(2) have plan: "source_sync_plan project s = Inr (Some p)" by (simp add: push_match_def)
  then have "sp_service p = s_name s" "sp_repo_url p = s_repo_url s" "sp_branch p = SourceBranch s"
    by (auto simp: source_sync_plan_def Let_def split: if_splits sum.splits)
  moreover have "inside_checkouts project (sp_target p)" using source_sync_plan_target[OF plan] by simp
  moreover obtain name where "RepositoryFullName (s_repo_url s) = Some name" "equal_fold name (pe_repository event)"
    "SourceBranch s = pe_branch event"
    using s(3) by (auto simp: githubPushMatchesService_def split: option.splits)
  ultimately show ?thesis using s(1) p(2) mq once by (auto simp: sync_request_def)
qed

text \<open>A push to the main branch of the demo repository, and the run of its sync on a row with two services on it.\<close>

definition demo_push :: GitHubPushEvent where
  "demo_push = \<lparr>pe_repository = ''acme/demo'', pe_branch = ''main'', pe_after = ''abc''\<rparr>"

definition mounted_summary :: "string \<Rightarrow> Summary" where
  "mounted_summary name = demo_summary\<lparr>s_name := name, s_source_mount := ''/app''\<rparr>"

definition push_run :: history where
  "push_run = fst (replay (syncGitHubPushSources demo_worker demo_marquee demo_row
     (map push_match [mounted_summary ''web'', mounted_summary ''job''])) [Done None, Row (Inl ErrNotFound)])"

theorem push_syncs_only_matching_witness:
  "\<exists>g r es2. push_run = (SyncSource demo_marquee g, r) # es2 \<and> inside_checkouts ''p-1'' (gr_target g) \<and>
     gr_branch g = ''main'' \<and> length es2 = 1"
proof -
  have matches: "githubPushServiceMatches ''p-1'' demo_push [mounted_summary ''web'', mounted_summary ''job''] =
      Inr (map push_match [mounted_summary ''web'', mounted_summary ''job''])" by code_simp
  have project: "pg_compose_project demo_row = Some ''p-1''" by (simp add: demo_row_def)
  have "case push_run of (SyncSource mq g, r) # es \<Rightarrow> length es = 1 | _ \<Rightarrow> False" by code_simp
  then obtain mq g r es where e: "push_run = [] @ (SyncSource mq g, r) # es" and one: "length es = 1"
    by (auto split: list.splits prod.splits request.splits)
  have t: "trace (syncGitHubPushSources demo_worker demo_marquee demo_row
     (map push_match [mounted_summary ''web'', mounted_summary ''job''])) push_run"
    unfolding push_run_def by (rule replay_trace) (rule prod.collapse[symmetric])
  have "pe_branch demo_push = ''main''" by (simp add: demo_push_def)
  with push_syncs_only_matching[OF matches project t[unfolded e]] e one show ?thesis by auto
qed

text \<open>What a push may do to a runtime and to the rows.\<close>

definition push_guard :: "history \<Rightarrow> request \<Rightarrow> bool" where
  "push_guard h q =
     (case q of
        SyncSource mq g \<Rightarrow> inside_checkouts (gr_project g) (gr_target g)
      | StopCompose mq project \<Rightarrow> last_read_status h {StatusStopping, StatusStopped}
      | DestroyCompose mq project \<Rightarrow> last_read_status h {StatusDestroying}
      | DeletePlayground i \<Rightarrow> False
      | SavePlaygroundIfCurrent row status updated \<Rightarrow> False
      | _ \<Rightarrow> True)"

interpretation push: refresh_guard push_guard
  by unfold_locales (auto simp: push_guard_def quiet_def last_read_status_def split: request.splits)

lemma guarded_currentGitHubPushPlayground: "guarded push_guard (currentGitHubPushPlayground i)"
  unfolding currentGitHubPushPlayground_def by (intro guarded_rules push.quiet_guarded) simp_all

lemma guarded_syncGitHubPushSources: "guarded push_guard (syncGitHubPushSources w mq pg matches)"
proof -
  have "guarded push_guard (runSourceSyncPlans w mq plans)"
    if made: "githubPushSourceSyncPlans project matches = Inr plans" for project plans
  proof (rule push.guarded_runSourceSyncPlans)
    fix p assume "p \<in> set plans"
    then obtain m :: githubPushServiceMatch where "source_sync_plan project (pm_summary m) = Inr (Some p)"
      using push_plans_each[OF made[unfolded githubPushSourceSyncPlans_def]] by blast
    then show "inside_checkouts (sp_project p) (sp_target p)" using source_sync_plan_target by simp
  qed
  then show ?thesis
    unfolding syncGitHubPushSources_def
    by (intro guarded_rules push.guarded_with_project push.guarded_recordSourceSyncFailure
        push.guarded_clearResolvedSourceSyncFailure)
qed

lemma guarded_buildGitHubPushServices: "guarded push_guard (buildGitHubPushServices E w mq pg matches)"
proof -
  have save: "guarded push_guard (saveGitHubPushBuildResult pg st e)" for pg st e
    unfolding saveGitHubPushBuildResult_def by (intro guarded_rules guarded_currentGitHubPushPlayground push.guarded_save)
  have "guarded push_guard (buildGitHubPushService E w mq i m)" for i m
    unfolding buildGitHubPushService_def
    by (intro guarded_rules guarded_currentGitHubPushPlayground push.allowed_buildService save)
  then have "guarded push_guard (push_builds_loop E w mq i res errs matches)" for i res errs
    by (induction matches arbitrary: res errs) (auto intro!: guarded_rules)
  then show ?thesis by (simp add: buildGitHubPushServices_def)
qed

lemma guarded_HandleGitHubPush: "guarded push_guard (HandleGitHubPush D w raw)"
proof -
  have spec: "guarded push_guard (with_playspec_id pg (\<lambda>i. ask_spec (GetPlayspec i)))" for pg
    unfolding with_playspec_id_def by (intro guarded_rules push.quiet_guarded) simp_all
  have found: "guarded push_guard (githubPushPlaygroundContext D w pg)" for pg
    unfolding githubPushPlaygroundContext_def githubPushPlaygroundServiceContext_def
    by (intro guarded_rules spec push.guarded_runtimeMarqueeForPlayground push.quiet_guarded) simp_all
  have refresh: "guarded push_guard (refreshGitHubPushPlayground rx Y w i)" for rx Y i
    unfolding refreshGitHubPushPlayground_def
    by (intro guarded_rules guarded_currentGitHubPushPlayground push.guarded_RefreshPlayground)
  have "guarded push_guard (handleGitHubPushPlayground D w event pg)" for event pg
    unfolding handleGitHubPushPlayground_def
    by (intro guarded_rules found push.guarded_with_project guarded_syncGitHubPushSources guarded_buildGitHubPushServices refresh)
  then have "guarded push_guard (push_rows_loop D w event res errs pgs)" for event res errs pgs
    by (induction pgs arbitrary: res errs) (auto intro!: guarded_rules)
  then show ?thesis unfolding HandleGitHubPush_def by (intro guarded_rules push.quiet_guarded) simp_all
qed

text \<open>A push takes nothing down: it deletes no row, stops a project only right after it read its row as stopping or
stopped and destroys one only right after it read it as being destroyed; its syncs stay inside checkouts.\<close>

theorem push_takes_nothing_down:
  assumes "trace (HandleGitHubPush D w event) (es1 @ (q, r) # es2)"
  shows "case q of
      SyncSource mq g \<Rightarrow> inside_checkouts (gr_project g) (gr_target g)
    | StopCompose mq project \<Rightarrow> last_read_status es1 {StatusStopping, StatusStopped}
    | DestroyCompose mq project \<Rightarrow> last_read_status es1 {StatusDestroying}
    | DeletePlayground i \<Rightarrow> False
    | _ \<Rightarrow> True"
  using guarded_trace[OF guarded_HandleGitHubPush assms] by (cases q) (simp_all add: push_guard_def)

theorem push_takes_nothing_down_witness:
  "\<exists>r. trace (HandleGitHubPush demo_deploy_env demo_worker demo_push) ([] @ (ListPlaygrounds, r) # []) \<and>
     (case ListPlaygrounds of DeletePlayground i \<Rightarrow> False | _ \<Rightarrow> True)"
proof -
  have run: "replay (HandleGitHubPush demo_deploy_env demo_worker demo_push) [Rows (Inr [])] =
      ([(ListPlaygrounds, Rows (Inr []))], Some (no_push_work, None))" by code_simp
  from replay_trace[OF run] push_takes_nothing_down[of demo_deploy_env demo_worker demo_push "[]" ListPlaygrounds "Rows (Inr [])" "[]"]
  show ?thesis by auto
qed

lemma merge_status_loop_active:
  "(\<forall>i < length statuses. bst_active (merge_status_loop statuses t ! i) = bst_active (statuses ! i)) \<and>
   length (merge_status_loop statuses t) =
     length statuses + (if list_ex (\<lambda>s. same_build_target s t) statuses then 0 else 1)"
proof (induction statuses)
  case (Cons s ss)
  then show ?case by (auto simp: nth_Cons split: nat.split)
qed simp

lemma merge_status_loop_found:
  "\<exists>s \<in> set (merge_status_loop statuses t). same_build_target s t \<and> bst_latest s = bst_latest t"
  by (induction statuses) (auto simp: same_build_target_def)

text \<open>The record of a push build never changes what is deployed: the image recorded as active of each service stays,
the latest build of the pushed service is the new one, and a failed build keeps the status of the row as it was read.\<close>

theorem push_build_keeps_active:
  assumes "trace (saveGitHubPushBuildResult pg (Some st) buildErr) (es1 @ (SavePlayground row, r) # es2)"
  shows "\<exists>current. es1 = [(GetPlayground (pg_id pg), Row (Inr current))] \<and>
    (\<forall>i < length (pg_build_statuses current).
       bst_active (pg_build_statuses row ! i) = bst_active (pg_build_statuses current ! i)) \<and>
    (\<exists>s \<in> set (pg_build_statuses row). same_build_target s st \<and> bst_latest s = bst_latest st) \<and>
    pg_status row = (if buildErr = None then StatusHasChanges else pg_status current)"
proof -
  have "wp (\<lambda>h q. q = SavePlayground row \<longrightarrow>
      (\<exists>current. h = [(GetPlayground (pg_id pg), Row (Inr current))] \<and> row = push_build_row current st buildErr))
    (\<lambda>_ _. True) (saveGitHubPushBuildResult pg (Some st) buildErr) []"
    by (auto simp: saveGitHubPushBuildResult_def currentGitHubPushPlayground_def split: sum.split option.split)
  from wp_trace[OF this assms refl] obtain current
    where es1: "es1 = [(GetPlayground (pg_id pg), Row (Inr current))]" and row: "row = push_build_row current st buildErr"
    by auto
  have statuses: "pg_build_statuses row = mergeGitHubPushBuildStatus (pg_build_statuses current) st"
    using row by (simp add: push_build_row_def Let_def githubPushBuildReadyPlayground_def githubPushBuildFailedPlayground_def split: option.split)
  have "pg_status row = (if buildErr = None then StatusHasChanges else pg_status current)"
    using row by (simp add: push_build_row_def Let_def githubPushBuildReadyPlayground_def githubPushBuildFailedPlayground_def split: option.split)
  then show ?thesis
    using es1 merge_status_loop_active merge_status_loop_found[of "pg_build_statuses current" "st\<lparr>bst_active := None\<rparr>"]
    unfolding statuses mergeGitHubPushBuildStatus_def by (auto simp: same_build_target_def)
qed

definition demo_status :: "string \<Rightarrow> build_status" where
  "demo_status name = \<lparr>bst_service_name = name, bst_prop_id = 0, bst_prop_name = [], bst_branch = ''main'',
     bst_running = None, bst_latest = None, bst_active = None\<rparr>"

definition save_run :: history where
  "save_run = fst (replay (saveGitHubPushBuildResult demo_row (Some (demo_status ''web'')) (Some ErrNotFound))
     [Row (Inr demo_row), Row (Inl ErrNotFound)])"

theorem push_build_keeps_active_witness:
  "\<exists>row r. save_run = [(GetPlayground 7, Row (Inr demo_row)), (SavePlayground row, r)] \<and> pg_status row = StatusRunning \<and>
     (\<exists>s \<in> set (pg_build_statuses row). bst_service_name s = ''web'')"
proof -
  have "case save_run of [e, (SavePlayground row, r)] \<Rightarrow> e = (GetPlayground 7, Row (Inr demo_row)) | _ \<Rightarrow> False"
    by code_simp
  then obtain e row r where run: "save_run = [e] @ (SavePlayground row, r) # []" and e: "e = (GetPlayground 7, Row (Inr demo_row))"
    by (auto split: list.splits prod.splits request.splits)
  have "trace (saveGitHubPushBuildResult demo_row (Some (demo_status ''web'')) (Some ErrNotFound)) save_run"
    unfolding save_run_def by (rule replay_trace) (rule prod.collapse[symmetric])
  from push_build_keeps_active[OF this[unfolded run]] e
  have "pg_status row = pg_status demo_row" "\<exists>s \<in> set (pg_build_statuses row). same_build_target s (demo_status ''web'')"
    by auto
  moreover have "pg_status demo_row = StatusRunning" by (simp add: demo_row_def)
  ultimately show ?thesis using run e by (auto simp: same_build_target_def demo_status_def)
qed

text \<open>A push of a deleted branch asks for nothing.\<close>

lemma deleted_branch_ignored:
  "allZeroCommit (trim_space (pe_after event)) \<Longrightarrow> HandleGitHubPush D w event = Ret (no_push_work, None)"
  by (simp add: HandleGitHubPush_def normalizedGitHubPushEvent_def Let_def split: option.split)

text \<open>The row a build result is saved on was read again, and its status is not looked at: a row stopped during the build is
written as one with changes.\<close>

theorem push_build_overwrites_stop:
  "case replay (saveGitHubPushBuildResult demo_row (Some (demo_status ''web'')) None)
      [Row (Inr (demo_row\<lparr>pg_status := StatusStopped\<rparr>)), Row (Inl ErrNotFound)] of
     ([e, (SavePlayground row, r)], res) \<Rightarrow> pg_status row = StatusHasChanges
   | _ \<Rightarrow> False"
  by code_simp

text \<open>One push, two services: the success of the second build removes what the failure of the first left on the row.\<close>

theorem push_success_hides_failure:
  "pg_build_warnings (push_build_row (push_build_row pg a (Some e)) b None) = [] \<and>
   (case pg_error_details (push_build_row (push_build_row pg a (Some e)) b None) of
      None \<Rightarrow> True | Some d \<Rightarrow> ''webhook_build'' \<notin> fst ` set d)"
  by (auto simp: push_build_row_def Let_def githubPushBuildReadyPlayground_def withoutErrorDetails_def split: option.split)

end
