(* ===== verification/PlaygroundRows.thy ===== *)
theory PlaygroundRows
  imports OptFibe WorkerState
begin

text \<open>
  The rows of playgrounds in the store: \<open>internal/storage\<close> (\<open>store\_playgrounds.go\<close>, \<open>store\_recovery.go\<close>,
  \<open>scans\_playgrounds.go\<close>, \<open>json\_columns.go\<close>, \<open>sql\_values.go\<close>, \<open>identifiers.go\<close>, \<open>names.go\<close>). A SQL statement is a
  function on the tables: SQLite runs one at a time. A JSON column holds the value it decodes to; what a document becomes
  when \<open>encoding/json\<close> writes and reads it is a parameter, as are \<open>float64\<close> arithmetic and the text of a time. The
  constraints of the schema (unique names, foreign keys, growing ids) are part of the statements.

  The locale \<open>versioned_rows\<close> is what a writer that compares and swaps a row may rely on; the store is its instance.
\<close>

subsection \<open>Tables\<close>

record storage_env =
  sv_json :: "doc \<Rightarrow> string + doc"
  sv_seconds :: "int \<Rightarrow> go_float"
  sv_percent :: "int \<Rightarrow> int \<Rightarrow> go_float"
  sv_time_text :: "int \<Rightarrow> string"

record playground_row =
  rw_id :: int
  rw_name :: string
  rw_status :: string
  rw_playspec_id :: "int option"
  rw_marquee_id :: "int option"
  rw_compose_project :: "string option"
  rw_root_domain :: "string option"
  rw_routing_scheme :: "string option"
  rw_internal_password :: "string option"
  rw_env_overrides :: "string smap"
  rw_service_branches :: doc
  rw_generated_compose_yaml :: string
  rw_services :: "service_info list"
  rw_service_urls :: "service_url list"
  rw_build_statuses :: "build_status list"
  rw_creation_steps :: "creation_step list"
  rw_expires_at :: "int option"
  rw_last_applied_at :: "int option"
  rw_error_message :: "string option"
  rw_state_reason :: "string option"
  rw_state_reasons :: "string list"
  rw_build_warnings :: "string list"
  rw_error_details :: doc
  rw_repair_reason :: "string option"
  rw_repair_lock_until :: "int option"
  rw_needs_recreation :: bool
  rw_created_at :: int
  rw_updated_at :: int

record tables =
  tb_playgrounds :: "playground_row list"
  tb_next_playground :: int
  tb_playspecs :: "playspec list"
  tb_marquees :: "marquee list"

definition get_row :: "int \<Rightarrow> tables \<Rightarrow> playground_row option" where
  "get_row i db = find (\<lambda>r. rw_id r = i) (tb_playgrounds db)"

definition put_row :: "playground_row \<Rightarrow> tables \<Rightarrow> tables" where
  "put_row row db = db\<lparr>tb_playgrounds := map (\<lambda>r. if rw_id r = rw_id row then row else r) (tb_playgrounds db)\<rparr>"

text \<open>\<open>UNIQUE\<close> on the name, and the foreign keys of the playspec and the Marquee.\<close>

definition violates :: "playground_row \<Rightarrow> tables \<Rightarrow> go_error option" where
  "violates row db =
     (if list_ex (\<lambda>r. rw_id r \<noteq> rw_id row \<and> rw_name r = rw_name row) (tb_playgrounds db)
      then Some (ErrUnique ''UNIQUE constraint failed: playgrounds.name'')
      else if (case rw_playspec_id row of None \<Rightarrow> False
               | Some i \<Rightarrow> \<not> list_ex (\<lambda>ps. ps_id ps = Some i) (tb_playspecs db)) \<or>
              (case rw_marquee_id row of None \<Rightarrow> False
               | Some i \<Rightarrow> \<not> list_ex (\<lambda>m. mq_id m = i) (tb_marquees db))
      then Some (ErrText ''FOREIGN KEY constraint failed'')
      else None)"

subsection \<open>Values (sql\_values.go, json\_columns.go)\<close>

definition boolValue :: "bool option \<Rightarrow> bool" where
  "boolValue p = (p = Some True)"

definition encodeStoredJSON :: "storage_env \<Rightarrow> string \<Rightarrow> doc option \<Rightarrow> go_error + doc" where
  "encodeStoredJSON E field v =
     (case v of
        None \<Rightarrow> Inr []
      | Some d \<Rightarrow> (case sv_json E d of Inl e \<Rightarrow> Inl (ErrText (''encode '' @ field @ '': '' @ e)) | Inr d' \<Rightarrow> Inr d'))"

record playgroundJSONFields =
  jf_env :: "string smap"
  jf_branches :: doc
  jf_services :: "service_info list"
  jf_urls :: "service_url list"
  jf_builds :: "build_status list"
  jf_steps :: "creation_step list"
  jf_state_reasons :: "string list"
  jf_build_warnings :: "string list"
  jf_error_details :: doc

definition encodePlaygroundJSON :: "storage_env \<Rightarrow> playground \<Rightarrow> go_error + playgroundJSONFields" where
  "encodePlaygroundJSON E p =
     (case encodeStoredJSON E ''playgrounds.service_branches_json'' (Some (pg_service_branches p)) of
        Inl e \<Rightarrow> Inl e
      | Inr branches \<Rightarrow>
          (case encodeStoredJSON E ''playgrounds.error_details_json'' (pg_error_details p) of
             Inl e \<Rightarrow> Inl e
           | Inr details \<Rightarrow>
               Inr \<lparr>jf_env = pg_env_overrides p, jf_branches = branches, jf_services = pg_services p,
                    jf_urls = pg_service_urls p, jf_builds = pg_build_statuses p, jf_steps = pg_creation_steps p,
                    jf_state_reasons = pg_state_reasons p, jf_build_warnings = pg_build_warnings p,
                    jf_error_details = details\<rparr>))"

text \<open>The columns a write sets, for a row with the given id and times.\<close>

definition written_row :: "playground \<Rightarrow> playgroundJSONFields \<Rightarrow> int \<Rightarrow> int \<Rightarrow> playground_row" where
  "written_row p f created now =
     \<lparr>rw_id = pg_id p, rw_name = pg_name p, rw_status = pg_status p, rw_playspec_id = pg_playspec_id p,
      rw_marquee_id = pg_marquee_id p, rw_compose_project = pg_compose_project p, rw_root_domain = pg_root_domain p,
      rw_routing_scheme = pg_routing_scheme p, rw_internal_password = pg_internal_password p,
      rw_env_overrides = jf_env f, rw_service_branches = jf_branches f,
      rw_generated_compose_yaml = pg_generated_compose_yaml p, rw_services = jf_services f, rw_service_urls = jf_urls f,
      rw_build_statuses = jf_builds f, rw_creation_steps = jf_steps f, rw_expires_at = pg_expires_at p,
      rw_last_applied_at = pg_last_applied_at p, rw_error_message = pg_error_message p,
      rw_state_reason = pg_state_reason p, rw_state_reasons = jf_state_reasons f,
      rw_build_warnings = jf_build_warnings f, rw_error_details = jf_error_details f,
      rw_repair_reason = pg_repair_reason p, rw_repair_lock_until = pg_repair_lock_until p,
      rw_needs_recreation = boolValue (pg_needs_recreation p), rw_created_at = created, rw_updated_at = now\<rparr>"

subsection \<open>Reading (scans\_playgrounds.go)\<close>

definition nonNegativeSeconds :: "storage_env \<Rightarrow> int \<Rightarrow> go_float" where
  "nonNegativeSeconds E duration = sv_seconds E (if duration < 0 then 0 else duration)"

text \<open>\<open>sv_percent E elapsed total\<close> is \<open>(elapsed / total) * 100\<close>; it is asked for \<open>0 \<le> elapsed < total\<close> only, or for a
lifetime that starts in the future, and clamped.\<close>

definition expirationPercentage :: "storage_env \<Rightarrow> int \<Rightarrow> int \<Rightarrow> int \<Rightarrow> go_float" where
  "expirationPercentage E createdAt expiresAt now =
     (let total = expiresAt - createdAt
      in if total \<le> 0 \<or> \<not> now < expiresAt then FDec ''100''
         else sv_percent E (if now - createdAt < 0 then 0 else now - createdAt) total)"

definition decoratePlaygroundExpiration :: "storage_env \<Rightarrow> playground \<Rightarrow> int \<Rightarrow> playground" where
  "decoratePlaygroundExpiration E p now =
     (case pg_expires_at p of
        None \<Rightarrow> p\<lparr>pg_time_remaining := None, pg_expiration_percentage := None\<rparr>
      | Some t \<Rightarrow>
          p\<lparr>pg_time_remaining := Some (nonNegativeSeconds E (t - now)),
             pg_expiration_percentage := Some (expirationPercentage E (pg_created_at p) t now)\<rparr>)"

lemma decorated [simp]:
  "pg_status (decoratePlaygroundExpiration E p now) = pg_status p"
  "pg_updated_at (decoratePlaygroundExpiration E p now) = pg_updated_at p"
  "pg_id (decoratePlaygroundExpiration E p now) = pg_id p"
  by (simp_all add: decoratePlaygroundExpiration_def split: option.split)

text \<open>The row joined with the names of its playspec and Marquee, as \<open>applyPlaygroundScalars\<close> and \<open>decodePlaygroundJSON\<close>
fill it in.\<close>

definition scanPlayground :: "storage_env \<Rightarrow> tables \<Rightarrow> int \<Rightarrow> playground_row \<Rightarrow> playground" where
  "scanPlayground E db now row =
     decoratePlaygroundExpiration E
       \<lparr>pg_id = rw_id row, pg_name = rw_name row, pg_status = rw_status row, pg_state_reason = rw_state_reason row,
        pg_state_reasons = rw_state_reasons row, pg_playspec_id = rw_playspec_id row,
        pg_playspec_name = (case rw_playspec_id row of None \<Rightarrow> None
          | Some i \<Rightarrow> map_option ps_name (find (\<lambda>ps. ps_id ps = Some i) (tb_playspecs db))),
        pg_marquee_id = rw_marquee_id row, pg_service_branches = rw_service_branches row,
        pg_expires_at = rw_expires_at row, pg_created_at = rw_created_at row, pg_updated_at = rw_updated_at row,
        pg_compose_project = rw_compose_project row,
        pg_marquee_name = (case rw_marquee_id row of None \<Rightarrow> None
          | Some i \<Rightarrow> map_option mq_name (find (\<lambda>m. mq_id m = i) (tb_marquees db))),
        pg_root_domain = rw_root_domain row, pg_routing_scheme = rw_routing_scheme row,
        pg_internal_password = rw_internal_password row, pg_env_overrides = rw_env_overrides row,
        pg_last_applied_at = rw_last_applied_at row, pg_error_message = rw_error_message row,
        pg_error_details = Some (rw_error_details row), pg_build_warnings = rw_build_warnings row,
        pg_build_statuses = rw_build_statuses row, pg_service_urls = rw_service_urls row,
        pg_services = rw_services row, pg_generated_compose_yaml = rw_generated_compose_yaml row,
        pg_creation_steps = rw_creation_steps row, pg_repair_reason = rw_repair_reason row,
        pg_repair_lock_until = rw_repair_lock_until row,
        pg_needs_recreation = (if rw_needs_recreation row then Some True else None),
        pg_time_remaining = None, pg_expiration_percentage = None\<rparr> now"

subsection \<open>Lookups (identifiers.go)\<close>

text \<open>The predicate of a lookup by name or id: a text that reads as a number is an id.\<close>

definition identifierWhere :: "string \<Rightarrow> playground_row \<Rightarrow> bool" where
  "identifierWhere identifier row =
     (case parse_int64 identifier of Inr i \<Rightarrow> rw_id row = i | Inl _ \<Rightarrow> rw_name row = identifier)"

definition read_playground :: "storage_env \<Rightarrow> string \<Rightarrow> int \<Rightarrow> tables \<Rightarrow> go_error + playground" where
  "read_playground E identifier now db =
     (case find (identifierWhere identifier) (tb_playgrounds db) of
        None \<Rightarrow> Inl ErrNotFound
      | Some row \<Rightarrow> Inr (scanPlayground E db now row))"

definition list_playgrounds :: "storage_env \<Rightarrow> int \<Rightarrow> tables \<Rightarrow> playground list" where
  "list_playgrounds E now db = map (scanPlayground E db now) (sort_key rw_id (tb_playgrounds db))"

definition requireRowsAffected :: "nat \<Rightarrow> go_error option" where
  "requireRowsAffected n = (if n = 0 then Some ErrNotFound else None)"

definition deleteByIdentifier :: "string \<Rightarrow> tables \<Rightarrow> go_error option \<times> tables" where
  "deleteByIdentifier identifier db =
     (let hit = filter (identifierWhere identifier) (tb_playgrounds db)
      in (requireRowsAffected (length hit),
          db\<lparr>tb_playgrounds := filter (\<lambda>r. \<not> identifierWhere identifier r) (tb_playgrounds db)\<rparr>))"

subsection \<open>Creation (store\_playgrounds.go, names.go)\<close>

definition slug_char :: "char \<Rightarrow> bool" where
  "slug_char c = (is_lower c \<or> is_digit c)"

definition slug :: "string \<Rightarrow> string" where
  "slug s =
     (let out = trim_set ''-'' (squeeze slug_char False (to_lower (trim_space s)))
      in if out = [] then ''fibe-distilled'' else out)"

definition base36_digit :: "nat \<Rightarrow> char" where
  "base36_digit d = (if d < 10 then digit_char d else char_of (97 + (d - 10)))"

fun base36 :: "nat \<Rightarrow> string" where
  "base36 n = (if n < 36 then [base36_digit n] else base36 (n div 36) @ [base36_digit (n mod 36)])"

declare base36.simps [simp del]

text \<open>\<open>strconv.FormatInt(now.Unix(), 36)\<close>, a time after 1970.\<close>

definition unix36 :: "int \<Rightarrow> string" where
  "unix36 now = base36 (nat (now div 1000000000))"

definition playgroundForInsert :: "playground \<Rightarrow> int \<Rightarrow> playground" where
  "playgroundForInsert p now =
     (let named = p\<lparr>pg_name := trim_space (pg_name p), pg_created_at := now, pg_updated_at := now,
                    pg_status := (if pg_status p = [] then StatusPending else pg_status p)\<rparr>
      in named\<lparr>pg_compose_project := (case pg_compose_project p of
                 None \<Rightarrow> Some (slug (pg_name named) @ ''-'' @ unix36 now)
               | Some project \<Rightarrow> Some project)\<rparr>)"

text \<open>Operations take the time they start at and the time the row is shown at; a failed statement changes nothing.\<close>

definition create_playground ::
    "storage_env \<Rightarrow> int \<Rightarrow> int \<Rightarrow> playground \<Rightarrow> tables \<Rightarrow> (go_error + playground) \<times> tables" where
  "create_playground E now shown p0 db =
     (let p = playgroundForInsert p0 now
      in case encodePlaygroundJSON E p of
           Inl e \<Rightarrow> (Inl e, db)
         | Inr f \<Rightarrow>
             (let row = written_row (p\<lparr>pg_id := tb_next_playground db\<rparr>) f now now
              in case violates row db of
                   Some e \<Rightarrow> (Inl e, db)
                 | None \<Rightarrow>
                     (Inr (decoratePlaygroundExpiration E (p\<lparr>pg_id := tb_next_playground db\<rparr>) shown),
                      db\<lparr>tb_playgrounds := tb_playgrounds db @ [row], tb_next_playground := tb_next_playground db + 1\<rparr>)))"

subsection \<open>Saving (store\_playgrounds.go)\<close>

text \<open>\<open>UPDATE playgrounds SET \<dots> WHERE id=?\<close> with a condition on the row it finds: the number of rows changed.\<close>

definition update_playground ::
    "playground \<Rightarrow> playgroundJSONFields \<Rightarrow> int \<Rightarrow> (playground_row \<Rightarrow> bool) \<Rightarrow> tables \<Rightarrow> (go_error + nat) \<times> tables" where
  "update_playground p f now cond db =
     (case get_row (pg_id p) db of
        None \<Rightarrow> (Inr 0, db)
      | Some old \<Rightarrow>
          (if \<not> cond old then (Inr 0, db)
           else let row = written_row p f (rw_created_at old) now
                in case violates row db of Some e \<Rightarrow> (Inl e, db) | None \<Rightarrow> (Inr 1, put_row row db)))"

text \<open>\<open>SavePlayground\<close> reads the row before it writes it, to keep a newer name; \<open>seen\<close> is what it read, other writers may
have come in between.\<close>

definition save_playground ::
    "storage_env \<Rightarrow> go_error + playground \<Rightarrow> int \<Rightarrow> int \<Rightarrow> playground \<Rightarrow> tables \<Rightarrow> (go_error + playground) \<times> tables" where
  "save_playground E seen now shown p0 db =
     (let write = (\<lambda>name.
            let p = p0\<lparr>pg_name := trim_space name\<rparr>
            in case encodePlaygroundJSON E p of
                 Inl e \<Rightarrow> (Inl e, db)
               | Inr f \<Rightarrow>
                   (case update_playground p f now (\<lambda>_. True) db of
                      (Inl e, db') \<Rightarrow> (Inl e, db')
                    | (Inr n, db') \<Rightarrow>
                        (case requireRowsAffected n of
                           Some e \<Rightarrow> (Inl e, db')
                         | None \<Rightarrow> (Inr (decoratePlaygroundExpiration E (p\<lparr>pg_updated_at := now\<rparr>) shown), db'))))
      in case seen of
           Inl e \<Rightarrow> if is_not_found e then write (pg_name p0) else (Inl e, db)
         | Inr current \<Rightarrow> write (if pg_updated_at current > pg_updated_at p0 then pg_name current else pg_name p0))"

definition save_if_current ::
    "storage_env \<Rightarrow> int \<Rightarrow> int \<Rightarrow> playground \<Rightarrow> string \<Rightarrow> int \<Rightarrow> tables \<Rightarrow> (go_error + playground \<times> bool) \<times> tables" where
  "save_if_current E now shown p0 status updatedAt db =
     (let p = p0\<lparr>pg_name := trim_space (pg_name p0)\<rparr>
      in case encodePlaygroundJSON E p of
           Inl e \<Rightarrow> (Inl e, db)
         | Inr f \<Rightarrow>
             (case update_playground p f now (\<lambda>r. rw_status r = status \<and> rw_updated_at r = updatedAt) db of
                (Inl e, db') \<Rightarrow> (Inl e, db')
              | (Inr n, db') \<Rightarrow>
                  (if n = 0 then
                     (case read_playground E (itoa (pg_id p)) shown db' of
                        Inl e \<Rightarrow> (Inl e, db')
                      | Inr current \<Rightarrow> (Inr (current, False), db'))
                   else (Inr (decoratePlaygroundExpiration E (p\<lparr>pg_updated_at := now\<rparr>) shown, True), db'))))"

definition RenamePlayground ::
    "storage_env \<Rightarrow> int \<Rightarrow> int \<Rightarrow> int \<Rightarrow> string \<Rightarrow> tables \<Rightarrow> (go_error + playground) \<times> tables" where
  "RenamePlayground E now shown i name db =
     (case get_row i db of
        None \<Rightarrow> (Inl ErrNotFound, db)
      | Some old \<Rightarrow>
          (let row = old\<lparr>rw_name := trim_space name, rw_updated_at := now\<rparr>
           in case violates row db of
                Some e \<Rightarrow> (Inl e, db)
              | None \<Rightarrow> (read_playground E (itoa i) shown (put_row row db), put_row row db)))"

subsection \<open>Recovery after a restart (store\_recovery.go)\<close>

definition interrupted_message :: string where
  "interrupted_message = ''playground deployment was interrupted by fibe-distilled restart''"

definition interrupted_reason :: string where "interrupted_reason = ''lifecycle_interrupted''"

definition interruptedPlaygrounds :: "tables \<Rightarrow> playground_row list" where
  "interruptedPlaygrounds db =
     sort_key rw_id (filter (\<lambda>r. rw_status r = StatusPending \<or> rw_status r = StatusInProgress) (tb_playgrounds db))"

definition open_step :: "creation_step \<Rightarrow> bool" where
  "open_step s = (step_status s = ''running'' \<or> step_status s = ''pending'')"

definition markInterruptedCreationSteps :: "creation_step list \<Rightarrow> int \<Rightarrow> string \<Rightarrow> creation_step list" where
  "markInterruptedCreationSteps steps now message =
     (case find (\<lambda>i. open_step (steps ! i)) (rev [0..<length steps]) of
        Some i \<Rightarrow> steps[i := (steps ! i)\<lparr>step_status := ''error'', step_completed_at := Some now,
                              step_error_message := message\<rparr>]
      | None \<Rightarrow> steps @ [\<lparr>step_name = ''startup_recovery'', step_label = ''Startup recovery'', step_status = ''error'',
                          step_started_at = Some now, step_completed_at = Some now, step_error_message = message\<rparr>])"

definition mergeInterruptedDetails :: "storage_env \<Rightarrow> doc \<Rightarrow> string \<Rightarrow> int \<Rightarrow> string \<Rightarrow> go_error + doc" where
  "mergeInterruptedDetails E details previousStatus now message =
     encodeStoredJSON E ''playgrounds.error_details_json''
       (Some (put_key ''interrupted''
          (AMap [(''category'', AStr ''lifecycle_interrupted''), (''code'', AStr ''INTERRUPTED''), (''message'', AStr message),
                 (''previous_status'', AStr previousStatus), (''recovered_at'', AStr (sv_time_text E now)),
                 (''recoverable'', ABool False)]) details))"

text \<open>The statement on one candidate: it is read again by its condition, and left alone when it has moved on.\<close>

definition recoverInterruptedPlayground :: "int \<Rightarrow> int \<Rightarrow> creation_step list \<Rightarrow> doc \<Rightarrow> tables \<Rightarrow> nat \<times> tables" where
  "recoverInterruptedPlayground i now steps details db =
     (case get_row i db of
        None \<Rightarrow> (0, db)
      | Some row \<Rightarrow>
          (if rw_status row = StatusPending \<or> rw_status row = StatusInProgress
           then (1, put_row (row\<lparr>rw_status := StatusError, rw_error_message := Some interrupted_message,
                       rw_state_reason := Some interrupted_reason, rw_state_reasons := [interrupted_reason],
                       rw_creation_steps := steps, rw_error_details := details, rw_updated_at := now\<rparr>) db)
           else (0, db)))"

fun recoverInterruptedCandidates ::
    "storage_env \<Rightarrow> int \<Rightarrow> playground_row list \<Rightarrow> tables \<Rightarrow> (nat \<times> go_error list) \<times> tables" where
  "recoverInterruptedCandidates E now [] db = ((0, []), db)"
| "recoverInterruptedCandidates E now (c # cs) db =
     (case mergeInterruptedDetails E (rw_error_details c) (rw_status c) now interrupted_message of
        Inl e \<Rightarrow> (case recoverInterruptedCandidates E now cs db of ((n, es), db') \<Rightarrow> ((n, e # es), db'))
      | Inr details \<Rightarrow>
          (case recoverInterruptedPlayground (rw_id c) now
                  (markInterruptedCreationSteps (rw_creation_steps c) now interrupted_message) details db of
             (k, db1) \<Rightarrow>
               (case recoverInterruptedCandidates E now cs db1 of ((n, es), db') \<Rightarrow> ((k + n, es), db'))))"

definition RecoverInterruptedPlaygrounds :: "storage_env \<Rightarrow> int \<Rightarrow> tables \<Rightarrow> (nat \<times> go_error option) \<times> tables" where
  "RecoverInterruptedPlaygrounds E now db =
     (case recoverInterruptedCandidates E now (interruptedPlaygrounds db) db of
        ((n, es), db') \<Rightarrow> ((n, join_errors (map Some es)), db'))"

subsection \<open>Well-formed tables\<close>

definition wf_tables :: "tables \<Rightarrow> bool" where
  "wf_tables db =
     (distinct (map rw_id (tb_playgrounds db)) \<and> distinct (map rw_name (tb_playgrounds db)) \<and>
      (\<forall>r \<in> set (tb_playgrounds db). rw_id r < tb_next_playground db \<and> violates r db = None))"

lemma get_row_Some: "get_row i db = Some r \<Longrightarrow> r \<in> set (tb_playgrounds db) \<and> rw_id r = i"
  by (auto simp: get_row_def find_Some_iff)

lemma get_row_None: "get_row i db = None \<longleftrightarrow> (\<forall>r \<in> set (tb_playgrounds db). rw_id r \<noteq> i)"
  by (auto simp: get_row_def find_None_iff)

lemma get_row_iff: "wf_tables db \<Longrightarrow> get_row i db = Some r \<longleftrightarrow> r \<in> set (tb_playgrounds db) \<and> rw_id r = i"
  using get_row_Some[of i db] get_row_None[of i db]
  by (cases "get_row i db") (auto simp: wf_tables_def distinct_map dest: inj_onD)

lemma find_map_same: "(\<And>x. P (f x) = P x) \<Longrightarrow> find P (map f xs) = map_option f (find P xs)"
  by (induction xs) auto

lemma get_row_put [simp]:
  "get_row i (put_row row db) = (if i = rw_id row then map_option (\<lambda>_. row) (get_row i db) else get_row i db)"
proof -
  have "find (\<lambda>r. rw_id r = i) (map (\<lambda>r. if rw_id r = rw_id row then row else r) rs) =
      (if i = rw_id row then map_option (\<lambda>_. row) (find (\<lambda>r. rw_id r = i) rs) else find (\<lambda>r. rw_id r = i) rs)" for rs
    by (induction rs) auto
  then show ?thesis by (simp add: get_row_def put_row_def)
qed

lemma ids_put [simp]: "map rw_id (tb_playgrounds (put_row row db)) = map rw_id (tb_playgrounds db)"
  by (simp add: put_row_def)

lemma put_row_other [simp]:
  "tb_next_playground (put_row row db) = tb_next_playground db" "tb_playspecs (put_row row db) = tb_playspecs db"
  "tb_marquees (put_row row db) = tb_marquees db"
  by (simp_all add: put_row_def)

lemma violates_None:
  "violates row db = None \<longleftrightarrow>
     (\<forall>r \<in> set (tb_playgrounds db). rw_id r \<noteq> rw_id row \<longrightarrow> rw_name r \<noteq> rw_name row) \<and>
     (\<forall>i. rw_playspec_id row = Some i \<longrightarrow> (\<exists>ps \<in> set (tb_playspecs db). ps_id ps = Some i)) \<and>
     (\<forall>i. rw_marquee_id row = Some i \<longrightarrow> (\<exists>m \<in> set (tb_marquees db). mq_id m = i))"
  by (auto simp: violates_def list_ex_iff split: option.split)

lemma set_put_row: "set (tb_playgrounds (put_row row db)) \<subseteq> insert row (set (tb_playgrounds db))"
  by (auto simp: put_row_def)

lemma wf_put_row:
  assumes "wf_tables db" and "violates row db = None" and "get_row (rw_id row) db \<noteq> None"
  shows "wf_tables (put_row row db)"
proof -
  let ?f = "\<lambda>r. if rw_id r = rw_id row then row else r"
  have ids: "distinct (map rw_id (tb_playgrounds db))" and names: "distinct (map rw_name (tb_playgrounds db))"
    and each: "\<forall>r \<in> set (tb_playgrounds db). rw_id r < tb_next_playground db \<and> violates r db = None"
    using assms(1) by (auto simp: wf_tables_def)
  have inj: "inj_on (\<lambda>r. rw_name (?f r)) (set (tb_playgrounds db))"
  proof (rule inj_onI)
    fix r r' assume r: "r \<in> set (tb_playgrounds db)" "r' \<in> set (tb_playgrounds db)" "rw_name (?f r) = rw_name (?f r')"
    have same: "rw_id a = rw_id b \<Longrightarrow> a = b" if "a \<in> set (tb_playgrounds db)" "b \<in> set (tb_playgrounds db)" for a b
      using ids that by (auto simp: distinct_map dest: inj_onD)
    show "r = r'"
    proof (cases "rw_id r = rw_id row \<or> rw_id r' = rw_id row")
      case True
      then show ?thesis using r same assms(2) by (auto simp: violates_None split: if_splits)
    next
      case False
      then show ?thesis using r names by (auto simp: distinct_map dest: inj_onD)
    qed
  qed
  have "distinct (map rw_name (tb_playgrounds (put_row row db)))"
    using inj ids by (simp add: put_row_def distinct_map comp_def inj_on_def)
  moreover have "rw_id r < tb_next_playground db \<and> violates r (put_row row db) = None"
    if r: "r \<in> set (tb_playgrounds (put_row row db))" for r
  proof -
    obtain old where old: "get_row (rw_id row) db = Some old" using assms(3) by blast
    then have "rw_id row < tb_next_playground db" using each get_row_Some by metis
    moreover have "violates r (put_row row db) = None"
      using calculation r set_put_row[of row db] assms(2) each by (auto simp: violates_None put_row_def split: if_splits)
    ultimately show ?thesis using r set_put_row[of row db] each by auto
  qed
  ultimately show ?thesis using ids by (simp add: wf_tables_def)
qed

lemma update_playground_cases:
  assumes "update_playground p f now cond db = (res, db')"
  obtains (failed) e where "res = Inl e" "db' = db"
    | (missed) "res = Inr 0" "db' = db" "\<forall>old. get_row (pg_id p) db = Some old \<longrightarrow> \<not> cond old"
    | (written) old where "res = Inr 1" "get_row (pg_id p) db = Some old" "cond old"
        "violates (written_row p f (rw_created_at old) now) db = None"
        "db' = put_row (written_row p f (rw_created_at old) now) db"
proof (cases "get_row (pg_id p) db")
  case None
  then show ?thesis using assms by (intro missed) (simp_all add: update_playground_def)
next
  case (Some old)
  show ?thesis
  proof (cases "cond old")
    case False
    then show ?thesis using assms Some by (intro missed) (simp_all add: update_playground_def)
  next
    case hit: True
    show ?thesis
    proof (cases "violates (written_row p f (rw_created_at old) now) db")
      case None
      then show ?thesis using assms Some hit by (intro written[of old]) (simp_all add: update_playground_def Let_def)
    next
      case e: (Some e)
      then show ?thesis using assms Some hit by (intro failed[of e]) (simp_all add: update_playground_def Let_def)
    qed
  qed
qed

lemma written_row_id [simp]: "rw_id (written_row p f created now) = pg_id p"
  by (simp add: written_row_def)

lemma wf_update_playground:
  assumes "wf_tables db" and "update_playground p f now cond db = (res, db')"
  shows "wf_tables db'"
  using assms(2,1) by (cases rule: update_playground_cases) (auto intro!: wf_put_row)

lemma get_row_appended:
  "get_row i (db\<lparr>tb_playgrounds := tb_playgrounds db @ [row], tb_next_playground := n\<rparr>) =
     (case get_row i db of Some r \<Rightarrow> Some r | None \<Rightarrow> if rw_id row = i then Some row else None)"
proof -
  have "find P (rs @ [row]) = (case find P rs of Some r \<Rightarrow> Some r | None \<Rightarrow> if P row then Some row else None)" for P rs
    by (induction rs) auto
  then show ?thesis by (simp add: get_row_def)
qed

subsection \<open>Operations keep the tables well formed\<close>

lemma wf_create:
  assumes "wf_tables db" and "create_playground E now shown p db = (res, db')"
  shows "wf_tables db'"
proof (cases res)
  case (Inl e)
  then show ?thesis using assms by (auto simp: create_playground_def Let_def split: sum.splits option.splits)
next
  case (Inr q)
  then obtain row where row: "violates row db = None" "rw_id row = tb_next_playground db"
    and db': "db' = db\<lparr>tb_playgrounds := tb_playgrounds db @ [row], tb_next_playground := tb_next_playground db + 1\<rparr>"
    using assms(2) by (auto simp: create_playground_def Let_def written_row_def split: sum.splits option.splits)
  have below: "\<forall>r \<in> set (tb_playgrounds db). rw_id r < tb_next_playground db \<and> violates r db = None"
    using assms(1) by (simp add: wf_tables_def)
  then have fresh: "\<forall>r \<in> set (tb_playgrounds db). rw_id r \<noteq> rw_id row" using row(2) by auto
  then have "\<forall>r \<in> set (tb_playgrounds db). rw_name r \<noteq> rw_name row" using row(1) by (auto simp: violates_None)
  then show ?thesis
    using assms(1) fresh below row unfolding db'
    by (auto simp: wf_tables_def violates_None image_iff) 
qed

lemma wf_save:
  assumes "wf_tables db" and "save_playground E seen now shown p db = (res, db')"
  shows "wf_tables db'"
  using assms
  by (auto simp: save_playground_def Let_def split: sum.splits prod.splits option.splits if_splits dest: wf_update_playground)

lemma wf_save_if_current:
  assumes "wf_tables db" and "save_if_current E now shown p status t db = (res, db')"
  shows "wf_tables db'"
  using assms
  by (auto simp: save_if_current_def Let_def split: sum.splits prod.splits if_splits dest: wf_update_playground)

lemma wf_rename:
  assumes "wf_tables db" and "RenamePlayground E now shown i name db = (res, db')"
  shows "wf_tables db'"
  using assms get_row_Some[of i db]
  by (auto simp: RenamePlayground_def Let_def split: option.splits intro!: wf_put_row)

lemma wf_delete:
  assumes "wf_tables db" and "deleteByIdentifier identifier db = (res, db')"
  shows "wf_tables db'"
  using assms by (auto simp: deleteByIdentifier_def Let_def wf_tables_def violates_None distinct_map_filter)

lemma wf_recoverInterruptedPlayground:
  assumes "wf_tables db" and "recoverInterruptedPlayground i now steps details db = (n, db')"
  shows "wf_tables db'"
proof (cases "get_row i db")
  case (Some row)
  then have "row \<in> set (tb_playgrounds db)" "rw_id row = i" using get_row_Some by auto
  moreover have "violates row db = None" using assms(1) \<open>row \<in> _\<close> by (simp add: wf_tables_def)
  ultimately show ?thesis
    using assms Some
    by (auto simp: recoverInterruptedPlayground_def violates_None split: if_splits intro!: wf_put_row)
qed (use assms in \<open>simp add: recoverInterruptedPlayground_def\<close>)

lemma wf_recoverInterruptedCandidates:
  "wf_tables db \<Longrightarrow> recoverInterruptedCandidates E now cs db = (r, db') \<Longrightarrow> wf_tables db'"
proof (induction cs arbitrary: db db' r)
  case (Cons c cs)
  show ?case
  proof (cases "mergeInterruptedDetails E (rw_error_details c) (rw_status c) now interrupted_message")
    case (Inl e)
    then show ?thesis using Cons by (auto split: prod.splits)
  next
    case (Inr details)
    obtain k db1 where one: "recoverInterruptedPlayground (rw_id c) now
        (markInterruptedCreationSteps (rw_creation_steps c) now interrupted_message) details db = (k, db1)" by fastforce
    then have "wf_tables db1" using Cons.prems(1) wf_recoverInterruptedPlayground by blast
    with Cons.IH[OF this] Cons.prems(2) Inr one show ?thesis by (auto split: prod.splits)
  qed
qed simp

subsection \<open>Compare and swap\<close>

text \<open>What a writer may rely on that reads the version of a row and then swaps the row: the swap happens only on that
version, it leaves a version of its own behind, and nothing happens when it misses.\<close>

locale versioned_rows =
  fixes version :: "'s \<Rightarrow> int \<Rightarrow> (string \<times> int) option"
    and target :: "'p \<Rightarrow> int"
    and new_status :: "'p \<Rightarrow> string"
    and swap :: "int \<Rightarrow> 'p \<Rightarrow> string \<Rightarrow> int \<Rightarrow> 's \<Rightarrow> bool \<times> 's"
  assumes swap_hit: "swap now p st t s = (True, s') \<Longrightarrow> version s (target p) = Some (st, t)"
    and swap_written: "swap now p st t s = (True, s') \<Longrightarrow> version s' (target p) = Some (new_status p, now)"
    and swap_missed: "swap now p st t s = (False, s') \<Longrightarrow> s' = s"
begin

text \<open>Writers that all read the same version of a row, one after the other.\<close>

fun swaps :: "(int \<times> 'p) list \<Rightarrow> string \<Rightarrow> int \<Rightarrow> 's \<Rightarrow> bool list \<times> 's" where
  "swaps [] st t s = ([], s)"
| "swaps ((now, p) # ws) st t s =
     (case swap now p st t s of (b, s1) \<Rightarrow> (case swaps ws st t s1 of (bs, s2) \<Rightarrow> (b # bs, s2)))"

lemma swaps_after_write:
  assumes "version s i = Some (st', t')" and "(st', t') \<noteq> (st, t)" and "\<forall>(now, p) \<in> set ws. target p = i"
  shows "swaps ws st t s = (replicate (length ws) False, s)"
  using assms
proof (induction ws)
  case (Cons w ws)
  obtain now p where w: "w = (now, p)" by (cases w) auto
  have "\<not> fst (swap now p st t s)"
    using swap_hit[of now p st t s "snd (swap now p st t s)"] Cons.prems w by (cases "swap now p st t s") auto
  then obtain s1 where "swap now p st t s = (False, s1)" by (cases "swap now p st t s") auto
  moreover from this have "s1 = s" using swap_missed by blast
  ultimately show ?case using Cons w by simp
qed simp

lemma one_swap_wins:
  assumes "\<forall>(now, p) \<in> set ws. target p = i \<and> now \<noteq> t" and "swaps ws st t s = (bs, s')"
  shows "length (filter id bs) \<le> 1"
  using assms
proof (induction ws arbitrary: s bs)
  case (Cons w ws)
  obtain now p where w: "w = (now, p)" by (cases w) auto
  obtain b s1 where one: "swap now p st t s = (b, s1)" by fastforce
  show ?case
  proof (cases b)
    case True
    then have "version s1 i = Some (new_status p, now)" using swap_written one Cons.prems(1) w by auto
    moreover have "now \<noteq> t" using Cons.prems(1) w by auto
    ultimately have "swaps ws st t s1 = (replicate (length ws) False, s1)"
      using swaps_after_write Cons.prems(1) by fastforce
    then show ?thesis using Cons.prems(2) w one True by auto
  next
    case False
    then show ?thesis using Cons w one by (auto split: prod.splits)
  qed
qed simp

end

definition row_version :: "tables \<Rightarrow> int \<Rightarrow> (string \<times> int) option" where
  "row_version db i = map_option (\<lambda>r. (rw_status r, rw_updated_at r)) (get_row i db)"

definition swap_playground :: "storage_env \<Rightarrow> int \<Rightarrow> playground \<Rightarrow> string \<Rightarrow> int \<Rightarrow> tables \<Rightarrow> bool \<times> tables" where
  "swap_playground E now p st t db =
     (case save_if_current E now now p st t db of (Inr (q, b), db') \<Rightarrow> (b, db') | (Inl e, db') \<Rightarrow> (False, db'))"

text \<open>The three ways a conditional save ends.\<close>

lemma save_if_current_cases:
  assumes "save_if_current E now shown p st t db = (res, db')"
  obtains (failed) e where "res = Inl e" "db' = db"
    | (missed) q where "res = Inr (q, False)" "db' = db" "row_version db (pg_id p) \<noteq> Some (st, t)"
        "read_playground E (itoa (pg_id p)) shown db = Inr q"
    | (written) f old where "res = Inr (decoratePlaygroundExpiration E
            (p\<lparr>pg_name := trim_space (pg_name p), pg_updated_at := now\<rparr>) shown, True)"
        "encodePlaygroundJSON E (p\<lparr>pg_name := trim_space (pg_name p)\<rparr>) = Inr f"
        "get_row (pg_id p) db = Some old" "rw_status old = st" "rw_updated_at old = t"
        "db' = put_row (written_row (p\<lparr>pg_name := trim_space (pg_name p)\<rparr>) f (rw_created_at old) now) db"
proof -
  let ?p = "p\<lparr>pg_name := trim_space (pg_name p)\<rparr>"
  show ?thesis
  proof (cases "encodePlaygroundJSON E ?p")
    case (Inl e)
    then show ?thesis using assms by (intro failed[of e]) (simp_all add: save_if_current_def Let_def)
  next
    case (Inr f)
    obtain n db1 where up: "update_playground ?p f now (\<lambda>r. rw_status r = st \<and> rw_updated_at r = t) db = (n, db1)" by fastforce
    from up show ?thesis
    proof (cases rule: update_playground_cases)
      case (failed e)
      then show ?thesis using assms up Inr that(1)[of e] by (simp add: save_if_current_def Let_def)
    next
      case missed
      then have v: "row_version db (pg_id p) \<noteq> Some (st, t)" by (auto simp: row_version_def)
      show ?thesis
      proof (cases "read_playground E (itoa (pg_id p)) shown db")
        case (Inl e)
        then show ?thesis using assms up Inr missed that(1)[of e] \<open>encodePlaygroundJSON E ?p = Inr f\<close>
          by (simp add: save_if_current_def Let_def)
      next
        case (Inr q)
        then show ?thesis using assms up missed v that(2)[of q] \<open>encodePlaygroundJSON E ?p = Inr f\<close>
          by (simp add: save_if_current_def Let_def)
      qed
    next
      case (written old)
      then show ?thesis using assms up Inr that(3)[of f old] by (simp add: save_if_current_def Let_def)
    qed
  qed
qed

interpretation stored: versioned_rows row_version pg_id pg_status "swap_playground E" for E
proof unfold_locales
  fix now p st t s s'
  assume "swap_playground E now p st t s = (True, s')"
  then obtain q where saved: "save_if_current E now now p st t s = (Inr (q, True), s')"
    by (auto simp: swap_playground_def split: prod.splits sum.splits)
  from saved show "row_version s (pg_id p) = Some (st, t)"
    by (cases rule: save_if_current_cases) (auto simp: row_version_def)
  from saved show "row_version s' (pg_id p) = Some (pg_status p, now)"
    by (cases rule: save_if_current_cases) (auto simp: row_version_def written_row_def)
next
  fix now p st t s s'
  assume "swap_playground E now p st t s = (False, s')"
  then obtain res where saved: "save_if_current E now now p st t s = (res, s')" and "\<forall>q. res \<noteq> Inr (q, True)"
    by (auto simp: swap_playground_def split: prod.splits sum.splits)
  from saved show "s' = s" by (cases rule: save_if_current_cases) (use \<open>\<forall>q. res \<noteq> Inr (q, True)\<close> in auto)
qed

subsection \<open>Reading and recovery\<close>

lemma find_identifier:
  assumes "min_int64 \<le> i" and "i \<le> max_int64"
  shows "find (identifierWhere (itoa i)) (tb_playgrounds db) = get_row i db"
proof -
  have "identifierWhere (itoa i) = (\<lambda>r. rw_id r = i)"
    using parse_itoa[OF assms] by (simp add: identifierWhere_def fun_eq_iff)
  then show ?thesis by (simp add: get_row_def)
qed

definition interrupted :: "playground_row \<Rightarrow> bool" where
  "interrupted r = (rw_status r = StatusPending \<or> rw_status r = StatusInProgress)"

definition recovered_row :: "storage_env \<Rightarrow> int \<Rightarrow> playground_row \<Rightarrow> playground_row \<Rightarrow> bool" where
  "recovered_row E now c r =
     (\<exists>details. mergeInterruptedDetails E (rw_error_details c) (rw_status c) now interrupted_message = Inr details \<and>
        r = c\<lparr>rw_status := StatusError, rw_error_message := Some interrupted_message,
              rw_state_reason := Some interrupted_reason, rw_state_reasons := [interrupted_reason],
              rw_creation_steps := markInterruptedCreationSteps (rw_creation_steps c) now interrupted_message,
              rw_error_details := details, rw_updated_at := now\<rparr>)"

lemma recoverInterruptedCandidates_rows:
  assumes "recoverInterruptedCandidates E now cs db = ((n, []), db')" and "distinct (map rw_id cs)"
    and "\<forall>c \<in> set cs. interrupted c \<and> get_row (rw_id c) db = Some c"
  shows "n = length cs \<and> (\<forall>c \<in> set cs. \<exists>r. get_row (rw_id c) db' = Some r \<and> recovered_row E now c r) \<and>
    (\<forall>i. i \<notin> rw_id ` set cs \<longrightarrow> get_row i db' = get_row i db)"
  using assms
proof (induction cs arbitrary: db n)
  case (Cons c cs)
  obtain details where details:
      "mergeInterruptedDetails E (rw_error_details c) (rw_status c) now interrupted_message = Inr details"
    using Cons.prems(1) by (cases "mergeInterruptedDetails E (rw_error_details c) (rw_status c) now interrupted_message")
      (simp_all split: prod.splits)
  define row where "row = c\<lparr>rw_status := StatusError, rw_error_message := Some interrupted_message,
              rw_state_reason := Some interrupted_reason, rw_state_reasons := [interrupted_reason],
              rw_creation_steps := markInterruptedCreationSteps (rw_creation_steps c) now interrupted_message,
              rw_error_details := details, rw_updated_at := now\<rparr>"
  have one: "recoverInterruptedPlayground (rw_id c) now
      (markInterruptedCreationSteps (rw_creation_steps c) now interrupted_message) details db = (1, put_row row db)"
    using Cons.prems(3) by (auto simp: recoverInterruptedPlayground_def interrupted_def row_def)
  obtain k es db2 where run: "recoverInterruptedCandidates E now cs (put_row row db) = ((k, es), db2)"
    by (metis prod.exhaust)
  have "((1 + k, es), db2) = ((n, []), db')"
    using Cons.prems(1) by (simp add: details one run)
  then have rest: "recoverInterruptedCandidates E now cs (put_row row db) = ((k, []), db')" and n: "n = Suc k"
    using run by simp_all
  have row_id: "rw_id row = rw_id c" by (simp add: row_def)
  have others: "\<forall>c' \<in> set cs. interrupted c' \<and> get_row (rw_id c') (put_row row db) = Some c'"
  proof
    fix c' assume c': "c' \<in> set cs"
    then have "rw_id c' \<noteq> rw_id c" using Cons.prems(2) by (metis distinct.simps(2) image_eqI list.set_map list.simps(9))
    then show "interrupted c' \<and> get_row (rw_id c') (put_row row db) = Some c'" using Cons.prems(3) c' row_id by simp
  qed
  have "distinct (map rw_id cs)" using Cons.prems(2) by simp
  note IH = Cons.IH[OF rest this others]
  have "rw_id c \<notin> rw_id ` set cs" using Cons.prems(2) by simp
  then have "get_row (rw_id c) db' = get_row (rw_id c) (put_row row db)" using IH by blast
  then have "get_row (rw_id c) db' = Some row" using Cons.prems(3) row_id by simp
  moreover have "recovered_row E now c row" using details by (auto simp: recovered_row_def row_def)
  moreover have "get_row i db' = get_row i db" if "i \<notin> rw_id ` set (c # cs)" for i
    using IH that row_id by simp
  ultimately show ?case using IH n by simp
qed simp

lemma marked_step:
  "\<exists>s \<in> set (markInterruptedCreationSteps steps now message).
     step_status s = ''error'' \<and> step_completed_at s = Some now \<and> step_error_message s = message"
proof (cases "find (\<lambda>i. open_step (steps ! i)) (rev [0..<length steps])")
  case (Some i)
  then have "i < length steps" by (auto simp: find_Some_iff rev_nth)
  then show ?thesis
    using set_update_memI[of i steps] Some by (force simp: markInterruptedCreationSteps_def)
qed (auto simp: markInterruptedCreationSteps_def)

subsection \<open>Properties\<close>


text \<open>C30: The conditional save refines the abstract compare and swap on a table of rows by id: it writes the row exactly
when the stored row has the status and the time the writer has read, keeps the time of creation and every other row, and
otherwise changes nothing and answers with the row as it is.\<close>

theorem conditional_save_refines:
  assumes "save_if_current E now shown p status updatedAt db = (Inr (q, saved), db')"
  shows "saved = (row_version db (pg_id p) = Some (status, updatedAt)) \<and>
    (if saved
     then \<exists>f old. get_row (pg_id p) db = Some old \<and>
       encodePlaygroundJSON E (p\<lparr>pg_name := trim_space (pg_name p)\<rparr>) = Inr f \<and>
       (\<lambda>i. get_row i db') = (\<lambda>i. get_row i db)
         (pg_id p \<mapsto> written_row (p\<lparr>pg_name := trim_space (pg_name p)\<rparr>) f (rw_created_at old) now)
     else db' = db \<and> read_playground E (itoa (pg_id p)) shown db = Inr q)"
  using assms
proof (cases rule: save_if_current_cases)
  case (written f old)
  then have "(\<lambda>i. get_row i db') = (\<lambda>i. get_row i db)
         (pg_id p \<mapsto> written_row (p\<lparr>pg_name := trim_space (pg_name p)\<rparr>) f (rw_created_at old) now)"
    by (auto simp: fun_eq_iff)
  then show ?thesis using written by (auto simp: row_version_def)
qed auto

text \<open>Of any number of writers that have read the same version of a row, one at most is written, whatever each of
them wants to write, as long as the clock has moved since that version.\<close>

theorem one_writer_wins:
  assumes "\<forall>(now, p) \<in> set ws. pg_id p = i \<and> now \<noteq> t" and "stored.swaps E ws st t db = (bs, db')"
  shows "length (filter id bs) \<le> 1"
  by (rule stored.one_swap_wins[OF assms])


text \<open>C39: Recovery after a restart leaves no row in a state only a running deployment owns: when every details document
could be written, each interrupted row is in error with a step that says so, every other row is as it was, and the count
is the number of interrupted rows.\<close>

theorem recovery_closes_interrupted:
  assumes "wf_tables db" and "RecoverInterruptedPlaygrounds E now db = ((n, None), db')"
  shows "n = length (filter interrupted (tb_playgrounds db)) \<and>
    (\<forall>i r. get_row i db = Some r \<longrightarrow>
      (if interrupted r
       then \<exists>r'. get_row i db' = Some r' \<and> rw_status r' = StatusError \<and> rw_name r' = rw_name r \<and> rw_updated_at r' = now \<and>
         (\<exists>s \<in> set (rw_creation_steps r'). step_status s = ''error'' \<and> step_error_message s = interrupted_message)
       else get_row i db' = Some r))"
proof -
  let ?cs = "interruptedPlaygrounds db"
  obtain es where run: "recoverInterruptedCandidates E now ?cs db = ((n, es), db')" and "join_errors (map Some es) = None"
    using assms(2) by (auto simp: RecoverInterruptedPlaygrounds_def split: prod.splits)
  then have "es = []" by (cases es) (auto simp: join_errors_def)
  with run have run: "recoverInterruptedCandidates E now ?cs db = ((n, []), db')" by simp
  have set_cs: "set ?cs = {r \<in> set (tb_playgrounds db). interrupted r}"
    by (auto simp: interruptedPlaygrounds_def interrupted_def)
  have "distinct (map rw_id (filter interrupted (tb_playgrounds db)))"
    using assms(1) by (simp add: wf_tables_def distinct_map_filter)
  then have "distinct (map rw_id ?cs)"
    by (simp add: interruptedPlaygrounds_def interrupted_def[abs_def] distinct_map)
  moreover have "\<forall>c \<in> set ?cs. interrupted c \<and> get_row (rw_id c) db = Some c"
    using set_cs get_row_iff[OF assms(1)] by auto
  ultimately have rows: "n = length ?cs" "\<forall>c \<in> set ?cs. \<exists>r. get_row (rw_id c) db' = Some r \<and> recovered_row E now c r"
    "\<forall>i. i \<notin> rw_id ` set ?cs \<longrightarrow> get_row i db' = get_row i db"
    using recoverInterruptedCandidates_rows[OF run] by auto
  have "n = length (filter interrupted (tb_playgrounds db))"
    using rows(1) by (simp add: interruptedPlaygrounds_def interrupted_def[abs_def])
  moreover have "\<exists>r'. get_row i db' = Some r' \<and> rw_status r' = StatusError \<and> rw_name r' = rw_name r \<and>
      rw_updated_at r' = now \<and> (\<exists>s \<in> set (rw_creation_steps r'). step_status s = ''error'' \<and>
        step_error_message s = interrupted_message)" if "get_row i db = Some r" "interrupted r" for i r
  proof -
    have "r \<in> set ?cs" "rw_id r = i" using that set_cs get_row_Some by auto
    then show ?thesis
      using rows(2) marked_step[of "rw_creation_steps r" now interrupted_message] by (fastforce simp: recovered_row_def)
  qed
  moreover have "get_row i db' = Some r" if "get_row i db = Some r" "\<not> interrupted r" for i r
  proof -
    have "i \<notin> rw_id ` set ?cs" using that set_cs get_row_iff[OF assms(1)] by fastforce
    then show ?thesis using rows(3) that(1) by simp
  qed
  ultimately show ?thesis by auto
qed

subsection \<open>Concrete runs\<close>

definition demo_storage :: storage_env where
  "demo_storage = \<lparr>sv_json = Inr, sv_seconds = (\<lambda>d. FDec (itoa d)), sv_percent = (\<lambda>a b. FDec ''0''), sv_time_text = itoa\<rparr>"

definition loose_row :: playground where
  "loose_row = demo_row\<lparr>pg_playspec_id := None, pg_marquee_id := None\<rparr>"

text \<open>One row, number 7, with a status and the time 10.\<close>

definition demo_tables :: "string \<Rightarrow> tables" where
  "demo_tables status =
     (case encodePlaygroundJSON demo_storage loose_row of
        Inl e \<Rightarrow> \<lparr>tb_playgrounds = [], tb_next_playground = 8, tb_playspecs = [], tb_marquees = []\<rparr>
      | Inr f \<Rightarrow> \<lparr>tb_playgrounds = [(written_row loose_row f 5 10)\<lparr>rw_status := status\<rparr>], tb_next_playground = 8,
                   tb_playspecs = [], tb_marquees = []\<rparr>)"

lemma wf_demo_tables: "wf_tables (demo_tables status)"
  by (simp add: wf_tables_def demo_tables_def encodePlaygroundJSON_def encodeStoredJSON_def demo_storage_def loose_row_def
      written_row_def violates_def demo_row_def split: option.split)


definition demo_saved :: "(go_error + playground \<times> bool) \<times> tables" where
  "demo_saved = save_if_current demo_storage 20 21 (loose_row\<lparr>pg_status := StatusStopped\<rparr>) StatusRunning 10 (demo_tables StatusRunning)"

theorem conditional_save_refines_witness:
  "\<exists>q db'. demo_saved = (Inr (q, True), db') \<and> row_version (demo_tables StatusRunning) 7 = Some (StatusRunning, 10)"
proof -
  have "case demo_saved of (Inr (q, b), db') \<Rightarrow> b | _ \<Rightarrow> False" by code_simp
  then obtain q db' where e: "demo_saved = (Inr (q, True), db')" by (auto split: prod.splits sum.splits)
  have "pg_id (loose_row\<lparr>pg_status := StatusStopped\<rparr>) = 7" by (simp add: loose_row_def demo_row_def)
  with conditional_save_refines[OF e[unfolded demo_saved_def]] e show ?thesis by auto
qed

theorem one_writer_wins_witness:
  "\<exists>bs db'. stored.swaps demo_storage [(20, loose_row), (21, loose_row\<lparr>pg_status := StatusStopped\<rparr>)] StatusRunning 10
     (demo_tables StatusRunning) = (bs, db') \<and> length (filter id bs) \<le> 1"
proof -
  obtain bs db' where e: "stored.swaps demo_storage [(20, loose_row), (21, loose_row\<lparr>pg_status := StatusStopped\<rparr>)]
      StatusRunning 10 (demo_tables StatusRunning) = (bs, db')" by fastforce
  have "pg_id loose_row = 7" by (simp add: loose_row_def demo_row_def)
  then show ?thesis using e one_writer_wins[OF _ e, of 7] by simp
qed


theorem recovery_closes_interrupted_witness:
  "\<exists>db'. RecoverInterruptedPlaygrounds demo_storage 20 (demo_tables StatusPending) = ((1, None), db') \<and>
     (\<exists>r'. get_row 7 db' = Some r' \<and> rw_status r' = StatusError)"
proof -
  have "case RecoverInterruptedPlaygrounds demo_storage 20 (demo_tables StatusPending) of
      ((n, None), db') \<Rightarrow> n = 1 | _ \<Rightarrow> False" by code_simp
  then obtain db' where e: "RecoverInterruptedPlaygrounds demo_storage 20 (demo_tables StatusPending) = ((1, None), db')"
    by (auto split: prod.splits option.splits)
  have "case get_row 7 (demo_tables StatusPending) of Some r \<Rightarrow> interrupted r | None \<Rightarrow> False" by code_simp
  then obtain r where "get_row 7 (demo_tables StatusPending) = Some r" "interrupted r" by (auto split: option.splits)
  with recovery_closes_interrupted[OF wf_demo_tables e] e show ?thesis by fastforce
qed

end
