(* ===== verification/StoredRuns.thy ===== *)
theory StoredRuns
  imports PlaygroundRows WorkerDeploy
begin

text \<open>
  The worker on the store: histories of a handler whose row requests are answered by the tables of
  \<open>PlaygroundRows\<close>, while other parts of the program (the API, the background pass, other deployments) run statements
  of their own in between. The clock has moved whenever a row is written again. The properties are what a deployment
  promises to those others: it writes over the row they left, or not at all.
\<close>

subsection \<open>Statements of the store\<close>

text \<open>The row with the id, if there is one, was last written before.\<close>

definition ahead :: "int \<Rightarrow> tables \<Rightarrow> int \<Rightarrow> bool" where
  "ahead now db i = (\<forall>r. get_row i db = Some r \<longrightarrow> rw_updated_at r < now)"

inductive statement :: "storage_env \<Rightarrow> tables \<Rightarrow> tables \<Rightarrow> bool" for E where
  created: "create_playground E now shown p db = (res, db') \<Longrightarrow> statement E db db'"
| saved: "save_playground E seen now shown p db = (res, db') \<Longrightarrow> ahead now db (pg_id p) \<Longrightarrow> statement E db db'"
| swapped: "save_if_current E now shown p st t db = (res, db') \<Longrightarrow> ahead now db (pg_id p) \<Longrightarrow> statement E db db'"
| renamed: "RenamePlayground E now shown i name db = (res, db') \<Longrightarrow> ahead now db i \<Longrightarrow> statement E db db'"
| deleted: "deleteByIdentifier identifier db = (res, db') \<Longrightarrow> statement E db db'"

text \<open>A request of a handler and its answer: reads and writes of rows go to the tables, or fail and change nothing;
everything else leaves them alone.\<close>

definition row_request :: "request \<Rightarrow> bool" where
  "row_request q = (case q of GetPlayground _ \<Rightarrow> True | ListPlaygrounds \<Rightarrow> True | SavePlayground _ \<Rightarrow> True
     | SavePlaygroundIfCurrent _ _ _ \<Rightarrow> True | DeletePlayground _ \<Rightarrow> True | _ \<Rightarrow> False)"

inductive served :: "storage_env \<Rightarrow> tables \<Rightarrow> request \<Rightarrow> answer \<Rightarrow> tables \<Rightarrow> bool" for E where
  other: "\<not> row_request q \<Longrightarrow> served E db q r db"
| failed: "row_request q \<Longrightarrow> r \<in> {Row (Inl e), Rows (Inl e), Swapped (Inl e), Done (Some e)} \<Longrightarrow> served E db q r db"
| got: "served E db (GetPlayground i) (Row (read_playground E (itoa i) now db)) db"
| listed: "served E db ListPlaygrounds (Rows (Inr (list_playgrounds E now db))) db"
| saved: "save_playground E seen now shown p db = (x, db') \<Longrightarrow> ahead now db (pg_id p) \<Longrightarrow>
    served E db (SavePlayground p) (Row x) db'"
| swapped: "save_if_current E now shown p st t db = (x, db') \<Longrightarrow> ahead now db (pg_id p) \<Longrightarrow>
    served E db (SavePlaygroundIfCurrent p st t) (Swapped x) db'"
| deleted: "deleteByIdentifier (itoa i) db = (x, db') \<Longrightarrow> served E db (DeletePlayground i) (Done x) db'"

text \<open>A history on the tables, with statements of others anywhere in between.\<close>

inductive serves :: "storage_env \<Rightarrow> tables \<Rightarrow> history \<Rightarrow> tables \<Rightarrow> bool" for E where
  nothing: "serves E db [] db"
| others: "statement E db db1 \<Longrightarrow> serves E db1 es db' \<Longrightarrow> serves E db es db'"
| own: "served E db q r db1 \<Longrightarrow> serves E db1 es db' \<Longrightarrow> serves E db ((q, r) # es) db'"

inductive_cases served_getE: "served E db (GetPlayground i) (Row (Inr pg)) db'"
inductive_cases served_swapE: "served E db (SavePlaygroundIfCurrent p st t) (Swapped (Inr x)) db'"

subsection \<open>Rows move forward\<close>

text \<open>Ids are given out once, and a row that has changed carries a later time.\<close>

definition moved_on :: "tables \<Rightarrow> tables \<Rightarrow> bool" where
  "moved_on db db' =
     (tb_next_playground db \<le> tb_next_playground db' \<and>
      (\<forall>i < tb_next_playground db. case get_row i db' of None \<Rightarrow> True
         | Some r' \<Rightarrow> (\<exists>r. get_row i db = Some r \<and> (r' = r \<or> rw_updated_at r < rw_updated_at r'))))"

lemma moved_on_refl: "moved_on db db"
  by (auto simp: moved_on_def split: option.split)

lemma moved_on_trans:
  assumes "moved_on db1 db2" and "moved_on db2 db3"
  shows "moved_on db1 db3"
  unfolding moved_on_def
proof (intro conjI allI impI)
  show "tb_next_playground db1 \<le> tb_next_playground db3" using assms by (simp add: moved_on_def)
  fix i assume i: "i < tb_next_playground db1"
  then have "i < tb_next_playground db2" using assms(1) by (simp add: moved_on_def)
  show "case get_row i db3 of None \<Rightarrow> True
         | Some r' \<Rightarrow> (\<exists>r. get_row i db1 = Some r \<and> (r' = r \<or> rw_updated_at r < rw_updated_at r'))"
  proof (cases "get_row i db3")
    case (Some r3)
    then obtain r2 where r2: "get_row i db2 = Some r2" "r3 = r2 \<or> rw_updated_at r2 < rw_updated_at r3"
      using assms(2) \<open>i < tb_next_playground db2\<close> by (fastforce simp: moved_on_def)
    then obtain r1 where "get_row i db1 = Some r1" "r2 = r1 \<or> rw_updated_at r1 < rw_updated_at r2"
      using assms(1) i by (fastforce simp: moved_on_def)
    with r2 Some show ?thesis by auto
  qed simp
qed

lemma moved_on_put:
  assumes "get_row (rw_id row) db = Some old" and "rw_updated_at old < rw_updated_at row"
  shows "moved_on db (put_row row db)"
  using assms by (auto simp: moved_on_def split: option.split)

lemma moved_on_update:
  assumes "update_playground p f now cond db = (res, db')" and "ahead now db (pg_id p)"
  shows "moved_on db db'"
  using assms(1)
proof (cases rule: update_playground_cases)
  case (written old)
  then show ?thesis using assms(2) by (auto simp: ahead_def written_row_def intro!: moved_on_put)
qed (simp_all add: moved_on_refl)

lemma moved_on_create:
  assumes "create_playground E now shown p db = (res, db')"
  shows "moved_on db db'"
proof -
  show ?thesis
  proof (cases res)
    case (Inl e)
    then have "db' = db" using assms by (auto simp: create_playground_def Let_def split: sum.splits option.splits)
    then show ?thesis by (simp add: moved_on_refl)
  next
    case (Inr q)
    then obtain f where f: "db' = db\<lparr>tb_playgrounds := tb_playgrounds db @
        [written_row (playgroundForInsert p now\<lparr>pg_id := tb_next_playground db\<rparr>) f now now],
        tb_next_playground := tb_next_playground db + 1\<rparr>"
      using assms by (auto simp: create_playground_def Let_def split: sum.splits option.splits)
    define row where "row = written_row (playgroundForInsert p now\<lparr>pg_id := tb_next_playground db\<rparr>) f now now"
    have row: "rw_id row = tb_next_playground db"
      and db': "db' = db\<lparr>tb_playgrounds := tb_playgrounds db @ [row], tb_next_playground := tb_next_playground db + 1\<rparr>"
      unfolding row_def f by simp_all
    show ?thesis unfolding db' moved_on_def get_row_appended using row by (auto split: option.split)
  qed
qed

lemma moved_on_save:
  assumes "save_playground E seen now shown p db = (res, db')" and "ahead now db (pg_id p)"
  shows "moved_on db db'"
  using assms moved_on_update[where p = "p\<lparr>pg_name := n\<rparr>" for n]
  by (auto simp: save_playground_def Let_def moved_on_refl split: sum.splits prod.splits option.splits if_splits)

lemma moved_on_swap:
  assumes "save_if_current E now shown p st t db = (res, db')" and "ahead now db (pg_id p)"
  shows "moved_on db db'"
  using assms(1)
proof (cases rule: save_if_current_cases)
  case (written f old)
  then show ?thesis using assms(2) by (auto simp: ahead_def written_row_def intro!: moved_on_put)
qed (simp_all add: moved_on_refl)

lemma moved_on_delete:
  assumes "deleteByIdentifier identifier db = (res, db')" and "wf_tables db"
  shows "moved_on db db'"
proof -
  have wf: "wf_tables db'" using wf_delete assms by blast
  have "get_row i db' = Some r \<Longrightarrow> get_row i db = Some r" for i r
    using assms get_row_iff[OF wf] get_row_iff[OF assms(2)]
    by (auto simp: deleteByIdentifier_def Let_def)
  moreover have "tb_next_playground db' = tb_next_playground db"
    using assms(1) by (auto simp: deleteByIdentifier_def Let_def)
  ultimately show ?thesis by (auto simp: moved_on_def split: option.split)
qed

lemma statement_forward:
  "statement E db db' \<Longrightarrow> wf_tables db \<Longrightarrow> wf_tables db' \<and> moved_on db db'"
proof (induction rule: statement.induct)
  case (renamed now shown i name db res db')
  have "moved_on db db'"
    using renamed get_row_Some[of i db]
    by (auto simp: RenamePlayground_def Let_def moved_on_refl ahead_def split: option.splits intro!: moved_on_put)
  then show ?case using renamed wf_rename by blast
qed (blast intro: wf_create wf_save wf_save_if_current wf_delete moved_on_create moved_on_save moved_on_swap moved_on_delete)+

lemma served_forward:
  "served E db q r db' \<Longrightarrow> wf_tables db \<Longrightarrow> wf_tables db' \<and> moved_on db db'"
  by (induction rule: served.induct)
    (blast intro: wf_save wf_save_if_current wf_delete moved_on_refl moved_on_save moved_on_swap moved_on_delete)+

lemma serves_forward:
  "serves E db es db' \<Longrightarrow> wf_tables db \<Longrightarrow> wf_tables db' \<and> moved_on db db'"
proof (induction rule: serves.induct)
  case (nothing db)
  then show ?case by (simp add: moved_on_refl)
next
  case (others db db1 es db')
  then show ?case using statement_forward moved_on_trans by blast
next
  case (own db q r db1 es db')
  then show ?case using served_forward moved_on_trans by blast
qed

lemma serves_append:
  "serves E db (es1 @ es2) db' \<Longrightarrow> \<exists>db1. serves E db es1 db1 \<and> serves E db1 es2 db'"
proof (induction db "es1 @ es2" db' arbitrary: es1 rule: serves.induct)
  case (nothing db)
  then show ?case by (auto intro: serves.nothing)
next
  case (others db db1 es db')
  then show ?case by (meson serves.others)
next
  case (own db q r db1 es db')
  show ?case
  proof (cases es1)
    case Nil
    then show ?thesis using own.hyps by (metis append_Nil serves.nothing serves.own)
  next
    case (Cons e es1')
    then show ?thesis using own by (metis append_Cons list.inject serves.own)
  qed
qed

text \<open>The first request of a history, after whatever the others did before it.\<close>

lemma serves_Cons:
  "serves E db ((q, r) # es) db' \<Longrightarrow> wf_tables db \<Longrightarrow>
     \<exists>db1 db2. wf_tables db1 \<and> moved_on db db1 \<and> served E db1 q r db2 \<and> serves E db2 es db'"
proof (induction db "(q, r) # es" db' rule: serves.induct)
  case (others db db1 db')
  then show ?case using statement_forward moved_on_trans by meson
next
  case (own db db1 db')
  then show ?case using moved_on_refl by blast
qed

text \<open>A row read by a handler is a row of the tables.\<close>

lemma served_get:
  assumes "served E db (GetPlayground i) (Row (Inr pg)) db'" and "min_int64 \<le> i" and "i \<le> max_int64"
  shows "db' = db \<and> (\<exists>row now. get_row i db = Some row \<and> pg = scanPlayground E db now row)"
  using assms(1) find_identifier[OF assms(2,3), of db]
  by (elim served_getE) (auto simp: row_request_def read_playground_def split: option.splits)

lemma swap_version:
  assumes "save_if_current E now shown p st t db = (Inr (q, True), db')"
  shows "\<exists>old. get_row (pg_id p) db = Some old \<and> rw_status old = st \<and> rw_updated_at old = t"
  using assms by (cases rule: save_if_current_cases) auto

lemma served_swap:
  assumes "served E db (SavePlaygroundIfCurrent p st t) (Swapped (Inr (q, True))) db'"
  shows "\<exists>old. get_row (pg_id p) db = Some old \<and> rw_status old = st \<and> rw_updated_at old = t"
  using assms by (elim served_swapE) (auto simp: row_request_def dest: swap_version)

lemma scanned [simp]:
  "pg_name (scanPlayground E db now row) = rw_name row" "pg_playspec_id (scanPlayground E db now row) = rw_playspec_id row"
  "pg_marquee_id (scanPlayground E db now row) = rw_marquee_id row"
  "pg_env_overrides (scanPlayground E db now row) = rw_env_overrides row"
  "pg_service_branches (scanPlayground E db now row) = rw_service_branches row"
  "pg_expires_at (scanPlayground E db now row) = rw_expires_at row" "pg_status (scanPlayground E db now row) = rw_status row"
  "pg_updated_at (scanPlayground E db now row) = rw_updated_at row" "pg_id (scanPlayground E db now row) = rw_id row"
  by (simp_all add: scanPlayground_def decoratePlaygroundExpiration_def split: option.split)

subsection \<open>Properties\<close>


text \<open>The first progress write of a deployment on the tables.\<close>

definition stored_answers :: "answer \<Rightarrow> answer list" where
  "stored_answers last_answer =
     [Clock 40, Clock 41, Row (read_playground demo_storage (itoa 7) 41 (demo_tables StatusRunning)), last_answer]"

definition stored_deployment :: "answer \<Rightarrow> history" where
  "stored_deployment last_answer =
     fst (replay (DeployPlayground demo_deploy_env demo_worker loose_row demo_playspec (Some demo_marquee))
       (stored_answers last_answer))"

definition stored_write :: playground where
  "stored_write = (case rev (stored_deployment (Done None)) of
     (SavePlaygroundIfCurrent row st t, r) # _ \<Rightarrow> row | _ \<Rightarrow> loose_row)"

definition stored_swap :: "(go_error + playground \<times> bool) \<times> tables" where
  "stored_swap = save_if_current demo_storage 42 43 stored_write StatusRunning 10 (demo_tables StatusRunning)"

definition stored_run :: history where "stored_run = stored_deployment (Swapped (fst stored_swap))"

lemma quiet_start: "\<not> row_request (fst (stored_run ! 0)) \<and> \<not> row_request (fst (stored_run ! 1))"
  by code_simp


end
