(* ===== verification/ApiReplies.thy ===== *)
theory ApiReplies
  imports WorkerEffects
begin

text \<open>
  \<open>internal/api/response\<close>: what a handler answers. A reply is its status and what \<open>encoding/json\<close> is handed for the
  body. Parameters: whether that can be encoded, what a document and a text are after they were written as JSON and read
  again, the text of a time, and the instant of an RFC 3339 text that can be written back. The headers (content type,
  request id) are left out.
\<close>

subsection \<open>Replies (response.go)\<close>

datatype body =
    NoBody
  | BodyPlayground playground
  | BodyStatus playground_status
  | BodyPlayspec playspec
  | BodyProp source_prop
  | BodyMarquee marquee
  | BodyDoc doc
  | BodyAnys "any list"
  | BodyBranches "prop_branch list"
  | BodyError api_error
  | BodyPage "body list" int int int

record reply =
  rp_status :: int
  rp_body :: body

record api_env =
  av_marshal :: "body \<Rightarrow> string option"
  av_details :: "doc \<Rightarrow> doc"
  av_text :: "string \<Rightarrow> string"
  av_time_text :: "int \<Rightarrow> string"
  av_rfc3339 :: "string \<Rightarrow> int option"

definition api_error_of :: "string \<Rightarrow> string \<Rightarrow> doc option \<Rightarrow> api_error" where
  "api_error_of code message details = \<lparr>ae_code = code, ae_message = message, ae_details = details\<rparr>"

definition JSON :: "api_env \<Rightarrow> int \<Rightarrow> body \<Rightarrow> reply" where
  "JSON E status v =
     (case av_marshal E v of
        None \<Rightarrow> \<lparr>rp_status = status, rp_body = v\<rparr>
      | Some err \<Rightarrow>
          \<lparr>rp_status = 500, rp_body = BodyError (api_error_of ''INTERNAL_ERROR'' (''encode response: '' @ err) None)\<rparr>)"

definition NoContent :: reply where
  "NoContent = \<lparr>rp_status = 204, rp_body = NoBody\<rparr>"

definition Error :: "api_env \<Rightarrow> int \<Rightarrow> string \<Rightarrow> string \<Rightarrow> doc option \<Rightarrow> reply" where
  "Error E status code message details = JSON E status (BodyError (api_error_of code message details))"

definition BadRequest :: "api_env \<Rightarrow> string \<Rightarrow> reply" where
  "BadRequest E message = Error E 400 ''BAD_REQUEST'' message None"

definition Unauthorized :: "api_env \<Rightarrow> reply" where
  "Unauthorized E = Error E 401 ''UNAUTHORIZED'' ''valid bearer token required'' None"

definition NotFound :: "api_env \<Rightarrow> string \<Rightarrow> reply" where
  "NotFound E resource = Error E 404 ''RESOURCE_NOT_FOUND'' (resource @ '' not found'') None"

definition NotImplemented :: "api_env \<Rightarrow> string \<Rightarrow> reply" where
  "NotImplemented E surface = Error E 501 ''NOT_IMPLEMENTED'' (surface @ '' is outside fibe-distilled minimal scope'') None"

definition ServerError :: "api_env \<Rightarrow> go_error \<Rightarrow> reply" where
  "ServerError E err = Error E 500 ''INTERNAL_ERROR'' (error_text err) None"

subsection \<open>Errors of the handlers\<close>

text \<open>The error values of the resource packages: the three kinds the interfaces of \<open>response.go\<close> tell apart, and any
other error. A status of 0 is the default.\<close>

datatype fault =
    ConflictError string
  | ValidationError int string string "doc option"
  | BadRequestError string
  | Cause go_error

fun fault_text :: "fault \<Rightarrow> string" where
  "fault_text (ConflictError m) = m"
| "fault_text (ValidationError status code m details) = m"
| "fault_text (BadRequestError m) = m"
| "fault_text (Cause e) = error_text e"

fun WriteValidationError :: "api_env \<Rightarrow> fault \<Rightarrow> reply option" where
  "WriteValidationError E (ValidationError status code message details) =
     Some (Error E (if status = 0 then 422 else status) code message details)"
| "WriteValidationError E _ = None"

definition ValidationOrBadRequest :: "api_env \<Rightarrow> fault \<Rightarrow> reply" where
  "ValidationOrBadRequest E err =
     (case WriteValidationError E err of Some r \<Rightarrow> r | None \<Rightarrow> BadRequest E (fault_text err))"

definition ValidationOrServerError :: "api_env \<Rightarrow> fault \<Rightarrow> reply" where
  "ValidationOrServerError E err =
     (case WriteValidationError E err of Some r \<Rightarrow> r | None \<Rightarrow> Error E 500 ''INTERNAL_ERROR'' (fault_text err) None)"

fun CreateDependencyError :: "api_env \<Rightarrow> string \<Rightarrow> fault \<Rightarrow> reply" where
  "CreateDependencyError E dependency (ConflictError m) = Error E 409 ''RESOURCE_IN_USE'' m None"
| "CreateDependencyError E dependency (ValidationError status code m details) =
     Error E (if status = 0 then 422 else status) code m details"
| "CreateDependencyError E dependency (BadRequestError m) = BadRequest E m"
| "CreateDependencyError E dependency (Cause e) = (if is_not_found e then NotFound E dependency else ServerError E e)"

text \<open>\<open>writeStoreErr\<close>, the same in every resource package.\<close>

definition writeStoreErr :: "api_env \<Rightarrow> string \<Rightarrow> go_error \<Rightarrow> reply" where
  "writeStoreErr E resource err = (if is_not_found err then NotFound E resource else ServerError E err)"

text \<open>A handler step either goes on with a value or has answered.\<close>

definition stop_with :: "reply \<Rightarrow> (reply + 'a) io" where
  "stop_with r = Ret (Inl r)"

definition and_then :: "(reply + 'a) io \<Rightarrow> ('a \<Rightarrow> (reply + 'b) io) \<Rightarrow> (reply + 'b) io" where
  "and_then m f = bind m (\<lambda>x. case x of Inl r \<Rightarrow> Ret (Inl r) | Inr a \<Rightarrow> f a)"

text \<open>The reply a handler has written, on either way out.\<close>

definition answered :: "(reply + reply) io \<Rightarrow> reply io" where
  "answered m = bind m (\<lambda>x. case x of Inl r \<Rightarrow> Ret r | Inr r \<Rightarrow> Ret r)"

lemma wp_and_then [simp]:
  "wp G Q (and_then m f) h \<longleftrightarrow> wp G (\<lambda>h x. case x of Inl r \<Rightarrow> Q h (Inl r) | Inr a \<Rightarrow> wp G Q (f a) h) m h"
proof -
  have "(\<lambda>h x. wp G Q (case x of Inl r \<Rightarrow> Ret (Inl r) | Inr a \<Rightarrow> f a) h) =
        (\<lambda>h x. case x of Inl r \<Rightarrow> Q h (Inl r) | Inr a \<Rightarrow> wp G Q (f a) h)"
    by (intro ext) (simp split: sum.split)
  then show ?thesis by (simp add: and_then_def)
qed

lemmas wp_and_thenI = wp_and_then[THEN iffD2]

lemma wp_stop_with [simp]: "wp G Q (stop_with r) h \<longleftrightarrow> Q h (Inl r)"
  by (simp add: stop_with_def)

lemma guarded_and_then [guarded_rules]:
  "guarded G m \<Longrightarrow> (\<And>a. guarded G (f a)) \<Longrightarrow> guarded G (and_then m f)"
  unfolding and_then_def by (intro guarded_rules) auto

lemma guarded_stop_with [guarded_rules]: "guarded G (stop_with r)"
  by (simp add: stop_with_def guarded_rules)

lemma guarded_answered [guarded_rules]: "guarded G m \<Longrightarrow> guarded G (answered m)"
  unfolding answered_def by (intro guarded_rules) auto

lemma runs_and_then:
  "runs (and_then m f) es x \<longleftrightarrow>
     (\<exists>r. x = Inl r \<and> runs m es (Inl r)) \<or> (\<exists>es1 es2 a. es = es1 @ es2 \<and> runs m es1 (Inr a) \<and> runs (f a) es2 x)"
  (is "?L \<longleftrightarrow> ?R")
proof
  assume ?L
  then obtain es1 es2 y where y: "es = es1 @ es2" "runs m es1 y"
      "runs (case y of Inl r \<Rightarrow> Ret (Inl r) | Inr a \<Rightarrow> f a) es2 x"
    by (auto simp: and_then_def runs_bind)
  then show ?R by (cases y) auto
next
  assume ?R
  then show ?L
  proof (elim disjE exE conjE)
    fix r assume "x = Inl r" "runs m es (Inl r)"
    then show ?L unfolding and_then_def runs_bind by (intro exI[of _ es] exI[of _ "[]"] exI[of _ "Inl r"]) simp
  next
    fix es1 es2 a assume "es = es1 @ es2" "runs m es1 (Inr a)" "runs (f a) es2 x"
    then show ?L unfolding and_then_def runs_bind by (intro exI[of _ es1] exI[of _ es2] exI[of _ "Inr a"]) simp
  qed
qed

subsection \<open>Queries and pages (pagination.go)\<close>

text \<open>The values of a query, in their order; \<open>Get\<close> gives the first.\<close>

type_synonym query = "(string \<times> string list) list"

definition q_has :: "query \<Rightarrow> string \<Rightarrow> bool" where
  "q_has q k = has_key q k"

definition q_get :: "query \<Rightarrow> string \<Rightarrow> string" where
  "q_get q k = (case map_of q k of Some (v # _) \<Rightarrow> v | _ \<Rightarrow> [])"

definition maxPage :: int where "maxPage = 1000"

definition maxPerPage :: int where "maxPerPage = 100"

record paginationParams =
  pp_page :: int
  pp_per_page :: int

definition positiveCappedQueryInt :: "string \<Rightarrow> bool \<Rightarrow> string \<Rightarrow> int \<Rightarrow> int \<Rightarrow> string + int" where
  "positiveCappedQueryInt raw0 present field fallback capValue =
     (if \<not> present then Inr fallback
      else let raw = trim_space raw0; bad = Inl (field @ '' must be a positive integer'')
           in if raw = [] then bad
              else (case parse_int64 raw of
                      Inl _ \<Rightarrow> bad
                    | Inr parsed \<Rightarrow>
                        if parsed \<le> 0 then bad else if parsed > capValue then Inr capValue else Inr parsed))"

definition listPagination :: "query \<Rightarrow> string + paginationParams" where
  "listPagination q =
     (case positiveCappedQueryInt (q_get q ''page'') (q_has q ''page'') ''page'' 1 maxPage of
        Inl e \<Rightarrow> Inl e
      | Inr page \<Rightarrow>
          (case positiveCappedQueryInt (q_get q ''per_page'') (q_has q ''per_page'') ''per_page'' 25 maxPerPage of
             Inl e \<Rightarrow> Inl e
           | Inr perPage \<Rightarrow> Inr \<lparr>pp_page = page, pp_per_page = perPage\<rparr>))"

text \<open>The slice of \<open>List\<close>; \<open>start\<close> and \<open>end\<close> are inside the slice when it is taken.\<close>

definition page_of :: "paginationParams \<Rightarrow> 'a list \<Rightarrow> 'a list" where
  "page_of p data =
     (if pp_per_page p > 0 then
        let start = (pp_page p - 1) * pp_per_page p; total = int (length data)
        in if start \<ge> total then []
           else let last = min (start + pp_per_page p) total
                in take (nat last - nat start) (drop (nat start) data)
      else data)"

definition list_reply :: "api_env \<Rightarrow> query \<Rightarrow> ('a \<Rightarrow> body) \<Rightarrow> 'a list \<Rightarrow> reply" where
  "list_reply E q enc data =
     (case listPagination q of
        Inl e \<Rightarrow> BadRequest E e
      | Inr p \<Rightarrow>
          JSON E 200 (BodyPage (map enc (page_of p data)) (pp_page p) (pp_per_page p) (int (length data))))"

subsection \<open>Pages\<close>

lemma positiveCapped_bounds:
  assumes "positiveCappedQueryInt raw present field fallback capValue = Inr n" "0 < fallback" "fallback \<le> capValue"
  shows "0 < n \<and> n \<le> capValue"
  using assms by (auto simp: positiveCappedQueryInt_def Let_def split: if_splits sum.splits)

lemma listPagination_bounds:
  assumes "listPagination q = Inr p"
  shows "0 < pp_page p \<and> pp_page p \<le> maxPage \<and> 0 < pp_per_page p \<and> pp_per_page p \<le> maxPerPage"
proof -
  obtain page perPage where
      page: "positiveCappedQueryInt (q_get q ''page'') (q_has q ''page'') ''page'' 1 maxPage = Inr page" and
      per: "positiveCappedQueryInt (q_get q ''per_page'') (q_has q ''per_page'') ''per_page'' 25 maxPerPage = Inr perPage"
      and p: "p = \<lparr>pp_page = page, pp_per_page = perPage\<rparr>"
    using assms by (auto simp: listPagination_def split: sum.splits)
  show ?thesis
    using positiveCapped_bounds[OF page] positiveCapped_bounds[OF per] p by (simp add: maxPage_def maxPerPage_def)
qed

lemma page_of_slice:
  assumes "0 < n"
  shows "page_of \<lparr>pp_page = 1 + int k, pp_per_page = int n\<rparr> data = take n (drop (k * n) data)"
proof -
  have start: "(1 + int k - 1) * int n = int (k * n)" by simp
  show ?thesis
  proof (cases "length data \<le> k * n")
    case True
    then have "int (length data) \<le> int (k * n)" by (simp only: of_nat_le_iff)
    then show ?thesis using assms True unfolding page_of_def Let_def paginationParams.simps start
      by (simp del: of_nat_mult)
  next
    case False
    then have gt: "\<not> int (length data) \<le> int (k * n)" by linarith
    have cut: "nat (min (int (k * n) + int n) (int (length data))) - nat (int (k * n)) = min n (length data - k * n)"
      using False by linarith
    show ?thesis
      using assms gt unfolding page_of_def Let_def paginationParams.simps start cut
      by (simp add: min_def del: of_nat_mult)
  qed
qed

lemma slices_cover: "0 < n \<Longrightarrow> concat (map (\<lambda>k. take n (drop (k * n) xs)) [0..<m]) = take (m * n) xs"
proof (induction m)
  case (Suc m)
  have "take (Suc m * n) xs = take (m * n + n) xs" by (simp add: add.commute)
  with Suc show ?case by (simp add: take_add)
qed simp

end
