(* ===== verification/ApiLists.thy ===== *)
theory ApiLists
  imports ApiReplies
begin

text \<open>
  Listings: \<open>internal/api/list\<close> and the filters of the resources (\<open>internal/playground/list\_filters.go\<close>,
  \<open>list\_filter\_ids.go\<close>, \<open>queries.go\<close>, \<open>internal/playspec/filters.go\<close>, \<open>internal/prop/helpers.go\<close>,
  \<open>internal/marquee/handler.go\<close>). The reader of times is a parameter, for the two layouts the code tries.

  The properties: a listing shows each item that passes the filters once, in a stable order, and its pages cover it.
\<close>

subsection \<open>Query values\<close>

record 'v optional_value =
  ov_value :: 'v
  ov_present :: bool

definition QueryBool :: "query \<Rightarrow> string \<Rightarrow> string + bool optional_value" where
  "QueryBool q key =
     (if \<not> q_has q key then Inr \<lparr>ov_value = False, ov_present = False\<rparr>
      else let value = to_lower (trim_space (q_get q key)); bad = Inl (key @ '' must be true or false'')
           in if value = [] then bad
              else if value = ''true'' \<or> value = ''1'' then Inr \<lparr>ov_value = True, ov_present = True\<rparr>
              else if value = ''false'' \<or> value = ''0'' then Inr \<lparr>ov_value = False, ov_present = True\<rparr>
              else bad)"

definition QueryExact :: "query \<Rightarrow> string \<Rightarrow> string + string optional_value" where
  "QueryExact q key =
     (if \<not> q_has q key then Inr \<lparr>ov_value = [], ov_present = False\<rparr>
      else let value = trim_space (q_get q key)
           in if value = [] then Inl (key @ '' must not be blank'')
              else Inr \<lparr>ov_value = value, ov_present = True\<rparr>)"

definition MatchesText :: "string \<Rightarrow> string \<Rightarrow> bool" where
  "MatchesText value query0 =
     (let query = trim_space query0 in query = [] \<or> str_contains (to_lower value) (to_lower query))"

subsection \<open>Windows on the time of creation\<close>

record time_reader =
  tr_rfc3339 :: "string \<Rightarrow> int option"
  tr_day :: "string \<Rightarrow> int option"

text \<open>The zero \<open>time.Time\<close>, 1 January of the year 1, in nanoseconds since 1970.\<close>

definition zero_time :: int where "zero_time = -62135596800 * 1000000000"

record createdAtWindow =
  cw_after :: "int option"
  cw_before :: "int option"

definition parseListTime :: "time_reader \<Rightarrow> query \<Rightarrow> string \<Rightarrow> string + int option" where
  "parseListTime T q field =
     (if \<not> q_has q field then Inr None
      else let raw = trim_space (q_get q field); bad = Inl (field @ '' must be RFC3339 or YYYY-MM-DD'')
           in if raw = [] then bad
              else (case tr_rfc3339 T raw of
                      Some t \<Rightarrow> Inr (Some t)
                    | None \<Rightarrow> (case tr_day T raw of Some t \<Rightarrow> Inr (Some t) | None \<Rightarrow> bad)))"

definition parseCreatedAtWindow :: "time_reader \<Rightarrow> query \<Rightarrow> string + createdAtWindow" where
  "parseCreatedAtWindow T q =
     (case parseListTime T q ''created_after'' of
        Inl e \<Rightarrow> Inl e
      | Inr after \<Rightarrow>
          (case parseListTime T q ''created_before'' of
             Inl e \<Rightarrow> Inl e
           | Inr before \<Rightarrow> Inr \<lparr>cw_after = after, cw_before = before\<rparr>))"

definition window_active :: "createdAtWindow \<Rightarrow> bool" where
  "window_active w = (cw_after w \<noteq> None \<or> cw_before w \<noteq> None)"

definition window_includes :: "createdAtWindow \<Rightarrow> int \<Rightarrow> bool" where
  "window_includes w createdAt =
     (if createdAt = zero_time then False
      else if (case cw_after w of Some a \<Rightarrow> createdAt < a | None \<Rightarrow> False) then False
      else (case cw_before w of Some b \<Rightarrow> \<not> createdAt > b | None \<Rightarrow> True))"

subsection \<open>Sorting\<close>

text \<open>The sortable fields of a resource; a function that is not set makes its column unsupported.\<close>

record 'a list_fields =
  lf_name :: "('a \<Rightarrow> string) option"
  lf_status :: "('a \<Rightarrow> string) option"
  lf_created_at :: "'a \<Rightarrow> int"

record listSort =
  ls_column :: string
  ls_direction :: string

definition CompareString :: "string \<Rightarrow> string \<Rightarrow> int" where
  "CompareString left right =
     (let l = to_lower left; r = to_lower right in if l < r then -1 else if l > r then 1 else 0)"

definition CompareTime :: "int \<Rightarrow> int \<Rightarrow> int" where
  "CompareTime left right = (if left < right then -1 else if left > right then 1 else 0)"

definition splitListSort :: "string \<Rightarrow> listSort option" where
  "splitListSort raw =
     (if has_suffix raw ''_asc'' then Some \<lparr>ls_column = trim_suffix raw ''_asc'', ls_direction = ''asc''\<rparr>
      else if has_suffix raw ''_desc'' then Some \<lparr>ls_column = trim_suffix raw ''_desc'', ls_direction = ''desc''\<rparr>
      else None)"

definition parseListSort :: "query \<Rightarrow> string + listSort option" where
  "parseListSort q =
     (if \<not> q_has q ''sort'' then Inr None
      else let raw = trim_space (q_get q ''sort''); bad = Inl ''sort direction must be asc or desc''
           in if raw = [] then bad
              else (case splitListSort raw of None \<Rightarrow> bad | Some spec \<Rightarrow> Inr (Some spec)))"

definition compareListItems :: "'a list_fields \<Rightarrow> string \<Rightarrow> 'a \<Rightarrow> 'a \<Rightarrow> int" where
  "compareListItems F column left right =
     (if column = ''name'' then (case lf_name F of Some f \<Rightarrow> CompareString (f left) (f right) | None \<Rightarrow> 0)
      else if column = ''status'' then (case lf_status F of Some f \<Rightarrow> CompareString (f left) (f right) | None \<Rightarrow> 0)
      else if column = ''created_at'' then CompareTime (lf_created_at F left) (lf_created_at F right)
      else 0)"

definition sort_less :: "listSort \<Rightarrow> int \<Rightarrow> bool" where
  "sort_less s cmp = (if ls_direction s = ''desc'' then cmp > 0 else cmp < 0)"

definition supportsSortColumn :: "string \<Rightarrow> 'a list_fields \<Rightarrow> bool" where
  "supportsSortColumn column F =
     (if column = ''name'' then lf_name F \<noteq> None
      else if column = ''status'' then lf_status F \<noteq> None
      else column = ''created_at'')"

text \<open>\<open>sort.SliceStable\<close> with a strict order: equal items stay in order.\<close>

fun insert_by :: "('a \<Rightarrow> 'a \<Rightarrow> bool) \<Rightarrow> 'a \<Rightarrow> 'a list \<Rightarrow> 'a list" where
  "insert_by lt x [] = [x]"
| "insert_by lt x (y # ys) = (if lt y x then y # insert_by lt x ys else x # y # ys)"

definition stable_sort :: "('a \<Rightarrow> 'a \<Rightarrow> bool) \<Rightarrow> 'a list \<Rightarrow> 'a list" where
  "stable_sort lt xs = foldr (insert_by lt) xs []"

definition sortListItems :: "query \<Rightarrow> 'a list_fields \<Rightarrow> 'a list \<Rightarrow> string + 'a list" where
  "sortListItems q F items =
     (case parseListSort q of
        Inl e \<Rightarrow> Inl e
      | Inr None \<Rightarrow> Inr items
      | Inr (Some spec) \<Rightarrow>
          if \<not> supportsSortColumn (ls_column spec) F
          then Inl (''sort column '' @ go_quote (ls_column spec) @ '' is not supported'')
          else Inr (stable_sort (\<lambda>a b. sort_less spec (compareListItems F (ls_column spec) a b)) items))"

definition SelectItems :: "'a list \<Rightarrow> ('a \<Rightarrow> bool) \<Rightarrow> 'a list" where
  "SelectItems items keep = filter keep items"

definition ApplyCommon :: "time_reader \<Rightarrow> query \<Rightarrow> 'a list_fields \<Rightarrow> 'a list \<Rightarrow> string + 'a list" where
  "ApplyCommon T q F items =
     (case parseCreatedAtWindow T q of
        Inl e \<Rightarrow> Inl e
      | Inr w \<Rightarrow>
          sortListItems q F
            (if window_active w then SelectItems items (\<lambda>x. window_includes w (lf_created_at F x)) else items))"

definition ApplyNamedCommon ::
    "time_reader \<Rightarrow> query \<Rightarrow> ('a \<Rightarrow> string) \<Rightarrow> ('a \<Rightarrow> int) \<Rightarrow> 'a list \<Rightarrow> string + 'a list" where
  "ApplyNamedCommon T q name createdAt items =
     ApplyCommon T q \<lparr>lf_name = Some name, lf_status = None, lf_created_at = createdAt\<rparr> items"

definition WriteFiltered ::
    "api_env \<Rightarrow> query \<Rightarrow> (go_error + 'a list) io \<Rightarrow> (query \<Rightarrow> 'a list \<Rightarrow> string + 'a list) \<Rightarrow> ('a \<Rightarrow> body) \<Rightarrow> reply io" where
  "WriteFiltered E q load keep enc =
     bind load (\<lambda>x. case x of
       Inl e \<Rightarrow> Ret (ServerError E e)
     | Inr items \<Rightarrow> (case keep q items of Inl e \<Rightarrow> Ret (BadRequest E e) | Inr out \<Rightarrow> Ret (list_reply E q enc out)))"

subsection \<open>Filters of playspecs, props and Marquees\<close>

record playspec_filters =
  psf_query :: string
  psf_name :: string
  psf_locked :: "bool optional_value"

definition filterParams :: "query \<Rightarrow> string + playspec_filters" where
  "filterParams q =
     (case QueryBool q ''locked'' of
        Inl e \<Rightarrow> Inl e
      | Inr locked \<Rightarrow>
          (case QueryBool q ''job_mode'' of
             Inl e \<Rightarrow> Inl e
           | Inr _ \<Rightarrow> Inr \<lparr>psf_query = q_get q ''q'', psf_name = q_get q ''name'', psf_locked = locked\<rparr>))"

definition matchesLocked :: "playspec_filters \<Rightarrow> playspec \<Rightarrow> bool" where
  "matchesLocked f item = (\<not> ov_present (psf_locked f) \<or> ps_locked item = Some (ov_value (psf_locked f)))"

definition playspec_matches :: "playspec_filters \<Rightarrow> playspec \<Rightarrow> bool" where
  "playspec_matches f item =
     (matchesLocked f item \<and> MatchesText (ps_name item) (psf_query f) \<and> MatchesText (ps_name item) (psf_name f))"

definition playspecCreatedAt :: "playspec \<Rightarrow> int" where
  "playspecCreatedAt item = (case ps_created_at item of None \<Rightarrow> zero_time | Some t \<Rightarrow> t)"

definition filterPlayspecs :: "time_reader \<Rightarrow> query \<Rightarrow> playspec list \<Rightarrow> string + playspec list" where
  "filterPlayspecs T q items =
     (case filterParams q of
        Inl e \<Rightarrow> Inl e
      | Inr f \<Rightarrow>
          ApplyCommon T q \<lparr>lf_name = Some ps_name, lf_status = None, lf_created_at = playspecCreatedAt\<rparr>
            (SelectItems items (playspec_matches f)))"

record propFilters =
  prf_query :: string
  prf_name :: string
  prf_private :: "bool optional_value"
  prf_status :: "string optional_value"
  prf_provider :: "string optional_value"

definition normalizePropProvider :: "string \<Rightarrow> string" where
  "normalizePropProvider provider = to_lower (trim_space provider)"

definition propFilterParams :: "query \<Rightarrow> string + propFilters" where
  "propFilterParams q =
     (case QueryBool q ''private'' of
        Inl e \<Rightarrow> Inl e
      | Inr private \<Rightarrow>
          (case QueryExact q ''status'' of
             Inl e \<Rightarrow> Inl e
           | Inr status \<Rightarrow>
               (case QueryExact q ''provider'' of
                  Inl e \<Rightarrow> Inl e
                | Inr provider \<Rightarrow>
                    Inr \<lparr>prf_query = q_get q ''q'', prf_name = q_get q ''name'', prf_private = private,
                         prf_status = status,
                         prf_provider = (if ov_present provider
                           then provider\<lparr>ov_value := normalizePropProvider (ov_value provider)\<rparr> else provider)\<rparr>)))"

definition prop_matches :: "propFilters \<Rightarrow> source_prop \<Rightarrow> bool" where
  "prop_matches f item =
     ((\<not> ov_present (prf_private f) \<or> pr_private item = ov_value (prf_private f)) \<and>
      (\<not> ov_present (prf_status f) \<or> pr_status item = ov_value (prf_status f)) \<and>
      (\<not> ov_present (prf_provider f) \<or> pr_provider item = ov_value (prf_provider f)) \<and>
      (MatchesText (pr_name item) (prf_query f) \<or> MatchesText (pr_repository_url item) (prf_query f)) \<and>
      MatchesText (pr_name item) (prf_name f))"

definition filterProps :: "time_reader \<Rightarrow> query \<Rightarrow> source_prop list \<Rightarrow> string + source_prop list" where
  "filterProps T q items =
     (case propFilterParams q of
        Inl e \<Rightarrow> Inl e
      | Inr f \<Rightarrow> ApplyNamedCommon T q pr_name pr_created_at (SelectItems items (prop_matches f)))"

definition filterMarquees :: "time_reader \<Rightarrow> query \<Rightarrow> marquee list \<Rightarrow> string + marquee list" where
  "filterMarquees T q items =
     (case QueryExact q ''status'' of
        Inl e \<Rightarrow> Inl e
      | Inr status \<Rightarrow>
          ApplyNamedCommon T q mq_name mq_created_at
            (SelectItems items (\<lambda>item.
               if ov_present status \<and> mq_status item \<noteq> ov_value status then False
               else MatchesText (mq_name item) (q_get q ''q'') \<and> MatchesText (mq_name item) (q_get q ''name''))))"

subsection \<open>The order of a listing\<close>

lemma mset_insert_by: "mset (insert_by lt x ys) = mset (x # ys)"
  by (induction ys) auto

lemma mset_stable_sort [simp]: "mset (stable_sort lt xs) = mset xs"
  by (induction xs) (simp_all add: stable_sort_def mset_insert_by)

locale strict_weak =
  fixes lt :: "'a \<Rightarrow> 'a \<Rightarrow> bool"
  assumes asym: "lt x y \<Longrightarrow> \<not> lt y x"
    and neg_trans: "\<not> lt x y \<Longrightarrow> \<not> lt y z \<Longrightarrow> \<not> lt x z"
begin

lemma set_insert_by: "set (insert_by lt x ys) = insert x (set ys)"
  by (metis mset_insert_by list.simps(15) set_mset_mset)

lemma insert_by_sorted:
  "sorted_wrt (\<lambda>a b. \<not> lt b a) ys \<Longrightarrow> sorted_wrt (\<lambda>a b. \<not> lt b a) (insert_by lt x ys)"
proof (induction ys)
  case (Cons y ys)
  show ?case
  proof (cases "lt y x")
    case True
    with Cons asym show ?thesis by (auto simp: set_insert_by)
  next
    case False
    then have "\<forall>z \<in> set ys. \<not> lt z x" using Cons.prems neg_trans[of _ y x] by auto
    with False Cons.prems show ?thesis by auto
  qed
qed simp

lemma stable_sort_sorted: "sorted_wrt (\<lambda>a b. \<not> lt b a) (stable_sort lt xs)"
  by (induction xs) (simp_all add: stable_sort_def insert_by_sorted)

lemma insert_by_filter:
  assumes "\<And>a b. P a \<Longrightarrow> P b \<Longrightarrow> \<not> lt a b"
  shows "filter P (insert_by lt x ys) = filter P (x # ys)"
  using assms by (induction ys) auto

lemma stable_sort_stable:
  assumes "\<And>a b. P a \<Longrightarrow> P b \<Longrightarrow> \<not> lt a b"
  shows "filter P (stable_sort lt xs) = filter P xs"
proof (induction xs)
  case (Cons x xs)
  have "stable_sort lt (x # xs) = insert_by lt x (stable_sort lt xs)" by (simp add: stable_sort_def)
  with Cons show ?case by (simp add: insert_by_filter[OF assms] del: insert_by.simps)
qed (simp add: stable_sort_def)

end

text \<open>Comparing by a key in a linear order, upwards or downwards.\<close>

definition key_less :: "bool \<Rightarrow> 'k::linorder \<Rightarrow> 'k \<Rightarrow> bool" where
  "key_less down x y = (if down then y < x else x < y)"

lemma key_less_strict:
  "key_less d x y \<Longrightarrow> \<not> key_less d y x"
  "\<not> key_less d x y \<Longrightarrow> \<not> key_less d y z \<Longrightarrow> \<not> key_less d x z"
  by (auto simp: key_less_def split: if_splits)

lemma strict_weak_key: "strict_weak (\<lambda>a b. key_less d (k a) (k b))"
  by unfold_locales (rule key_less_strict(1), assumption, rule key_less_strict(2), assumption, assumption)

lemma sort_less_string:
  "sort_less spec (CompareString x y) = key_less (ls_direction spec = ''desc'') (to_lower x) (to_lower y)"
  by (auto simp: sort_less_def key_less_def CompareString_def Let_def)

lemma sort_less_time: "sort_less spec (CompareTime x y) = key_less (ls_direction spec = ''desc'') x y"
  by (simp add: sort_less_def key_less_def CompareTime_def)

lemma sort_less_by_key:
  "(\<exists>k. \<forall>a b. sort_less spec (compareListItems F c a b) = key_less (ls_direction spec = ''desc'') (k a :: string) (k b)) \<or>
   (\<exists>k. \<forall>a b. sort_less spec (compareListItems F c a b) = key_less (ls_direction spec = ''desc'') (k a :: int) (k b))"
proof -
  have string: "(\<exists>f. \<forall>a b. compareListItems F c a b = CompareString (f a) (f b)) \<Longrightarrow> ?thesis"
    by (elim exE) (rule disjI1, rule_tac x = "\<lambda>a. to_lower (f a)" in exI, simp add: sort_less_string)
  have time: "(\<exists>f. \<forall>a b. compareListItems F c a b = CompareTime (f a) (f b)) \<Longrightarrow> ?thesis"
    by (elim exE) (rule disjI2, rule_tac x = f in exI, simp add: sort_less_time)
  have none: "(\<forall>a b. compareListItems F c a b = 0) \<Longrightarrow> ?thesis"
    by (rule disjI2, rule exI[of _ "\<lambda>_. 0"]) (simp add: sort_less_def key_less_def)
  show ?thesis
  proof (cases "c = ''name''")
    case True
    then show ?thesis using string none by (cases "lf_name F") (auto simp: compareListItems_def)
  next
    case name: False
    show ?thesis
    proof (cases "c = ''status''")
      case True
      then show ?thesis using string none by (cases "lf_status F") (auto simp: compareListItems_def)
    next
      case False
      with name show ?thesis using time none by (cases "c = ''created_at''") (auto simp: compareListItems_def)
    qed
  qed
qed

interpretation list_order: strict_weak "\<lambda>a b. sort_less spec (compareListItems F c a b)"
proof (cases "\<exists>k. \<forall>a b. sort_less spec (compareListItems F c a b) =
    key_less (ls_direction spec = ''desc'') (k a :: string) (k b)")
  case True
  then obtain k where "(\<lambda>a b. sort_less spec (compareListItems F c a b)) =
      (\<lambda>a b. key_less (ls_direction spec = ''desc'') (k a :: string) (k b))" by (auto simp: fun_eq_iff)
  then show "strict_weak (\<lambda>a b. sort_less spec (compareListItems F c a b))" by (simp only: strict_weak_key)
next
  case False
  then obtain k where "(\<lambda>a b. sort_less spec (compareListItems F c a b)) =
      (\<lambda>a b. key_less (ls_direction spec = ''desc'') (k a :: int) (k b))"
    using sort_less_by_key[of spec F c] by (auto simp: fun_eq_iff)
  then show "strict_weak (\<lambda>a b. sort_less spec (compareListItems F c a b))" by (simp only: strict_weak_key)
qed

text \<open>What a listing filters out, and the items it leaves.\<close>

lemma ApplyCommon_items:
  assumes "ApplyCommon T q F items = Inr out"
  shows "\<exists>w. parseCreatedAtWindow T q = Inr w \<and>
    mset out = filter_mset (\<lambda>x. window_active w \<longrightarrow> window_includes w (lf_created_at F x)) (mset items)"
proof -
  obtain w where w: "parseCreatedAtWindow T q = Inr w"
    using assms by (auto simp: ApplyCommon_def split: sum.splits)
  have "mset out = mset (if window_active w
      then SelectItems items (\<lambda>x. window_includes w (lf_created_at F x)) else items)"
    using assms w by (auto simp: ApplyCommon_def sortListItems_def split: sum.splits option.splits if_splits)
  with w show ?thesis by (auto simp: SelectItems_def)
qed

end
