(* ===== verification/ApiRequests.thy ===== *)
theory ApiRequests
  imports ApiReplies
begin

text \<open>
  \<open>internal/api/request\<close> and the part of \<open>encoding/json\<close> the payloads rely on. The body of a request is the tree the
  decoder reads; an object keeps its members in order, repeated keys included, because the decoder does not treat them
  alike everywhere: a \<open>map[string]any\<close> of a decoded value keeps the last one, a struct field that is a map collects the
  entries of all of them. A struct field takes the members whose key equals its name up to case.

  Parameters: the \<open>float64\<close> of a number, and the texts of the decoder's own errors.
\<close>

subsection \<open>Trees\<close>

datatype json = JNull | JBool bool | JNum string | JStr string | JArr "json list" | JObj "(string \<times> json) list"

datatype json_error = JsonSyntax | JsonType | JsonText string

record json_lib =
  jl_float :: "string \<Rightarrow> go_float option"
  jl_syntax_text :: string
  jl_type_text :: string

fun json_error_text :: "json_lib \<Rightarrow> json_error \<Rightarrow> string" where
  "json_error_text L JsonSyntax = jl_syntax_text L"
| "json_error_text L JsonType = jl_type_text L"
| "json_error_text L (JsonText t) = t"

text \<open>What a Go map holds after the members are stored one after the other.\<close>

definition last_members :: "(string \<times> 'v) list \<Rightarrow> 'v smap" where
  "last_members kvs = fold (\<lambda>(k, v) m. put_key k v m) kvs []"

lemma map_of_last_members: "map_of (last_members kvs) = map_of (rev kvs)"
proof -
  have "map_of (fold (\<lambda>(k, v) m. put_key k v m) kvs m) = map_of m ++ map_of (rev kvs)" for m
    by (induction kvs arbitrary: m) (auto simp: update_conv' map_add_def fun_eq_iff split: option.split)
  then show ?thesis by (simp add: last_members_def)
qed

lemma wf_last_members: "wf_map (last_members kvs)"
proof -
  have "wf_map m \<Longrightarrow> wf_map (fold (\<lambda>(k, v) m. put_key k v m) kvs m)" for m
    by (induction kvs arbitrary: m) auto
  then show ?thesis by (simp add: last_members_def)
qed

text \<open>A tree as a value of type \<open>any\<close>; a number out of the range of \<open>float64\<close> is a type error.\<close>

fun json_any :: "json_lib \<Rightarrow> json \<Rightarrow> any option"
and json_anys :: "json_lib \<Rightarrow> json list \<Rightarrow> any list option"
and json_members :: "json_lib \<Rightarrow> (string \<times> json) list \<Rightarrow> (string \<times> any) list option" where
  "json_any L JNull = Some ANil"
| "json_any L (JBool b) = Some (ABool b)"
| "json_any L (JNum t) = map_option (AFloat KFloat64) (jl_float L t)"
| "json_any L (JStr s) = Some (AStr s)"
| "json_any L (JArr xs) = map_option ASeq (json_anys L xs)"
| "json_any L (JObj kvs) = map_option (\<lambda>m. AMap (last_members m)) (json_members L kvs)"
| "json_anys L [] = Some []"
| "json_anys L (x # xs) =
     (case json_any L x of None \<Rightarrow> None | Some v \<Rightarrow> map_option ((#) v) (json_anys L xs))"
| "json_members L [] = Some []"
| "json_members L ((k, x) # kvs) =
     (case json_any L x of None \<Rightarrow> None | Some v \<Rightarrow> map_option ((#) (k, v)) (json_members L kvs))"

text \<open>The folding of member names: ASCII case, and the two letters outside ASCII that fold into it.\<close>

fun json_fold :: "string \<Rightarrow> string" where
  "json_fold [] = []"
| "json_fold [c] = to_lower [c]"
| "json_fold [c, d] =
     (if c = CHR 0xC5 \<and> d = CHR 0xBF then ''s'' else to_lower [c] @ to_lower [d])"
| "json_fold (c # d # e # s) =
     (if c = CHR 0xC5 \<and> d = CHR 0xBF then CHR ''s'' # json_fold (e # s)
      else if c = CHR 0xE2 \<and> d = CHR 0x84 \<and> e = CHR 0xAA then CHR ''k'' # json_fold s
      else to_lower [c] @ json_fold (d # e # s))"

definition json_field :: "string \<Rightarrow> (string \<times> json) list \<Rightarrow> json list" where
  "json_field f kvs = map snd (filter (\<lambda>(k, _). json_fold k = f) kvs)"

subsection \<open>Fields of a struct\<close>

text \<open>A field after every member for it was decoded into it, one after the other.\<close>

fun decode_into :: "('a \<Rightarrow> json \<Rightarrow> json_error + 'a) \<Rightarrow> 'a \<Rightarrow> json list \<Rightarrow> json_error + 'a" where
  "decode_into dec v [] = Inr v"
| "decode_into dec v (x # xs) = (case dec v x of Inl e \<Rightarrow> Inl e | Inr v' \<Rightarrow> decode_into dec v' xs)"

fun into_string :: "string \<Rightarrow> json \<Rightarrow> json_error + string" where
  "into_string v (JStr s) = Inr s"
| "into_string v JNull = Inr v"
| "into_string v _ = Inl JsonType"

fun into_string_ptr :: "string option \<Rightarrow> json \<Rightarrow> json_error + string option" where
  "into_string_ptr v (JStr s) = Inr (Some s)"
| "into_string_ptr v JNull = Inr None"
| "into_string_ptr v _ = Inl JsonType"

fun into_bool_ptr :: "bool option \<Rightarrow> json \<Rightarrow> json_error + bool option" where
  "into_bool_ptr v (JBool b) = Inr (Some b)"
| "into_bool_ptr v JNull = Inr None"
| "into_bool_ptr v _ = Inl JsonType"

fun into_int_ptr :: "int option \<Rightarrow> json \<Rightarrow> json_error + int option" where
  "into_int_ptr v (JNum t) = (case parse_int64 t of Inl _ \<Rightarrow> Inl JsonType | Inr i \<Rightarrow> Inr (Some i))"
| "into_int_ptr v JNull = Inr None"
| "into_int_ptr v _ = Inl JsonType"

definition into_any :: "json_lib \<Rightarrow> any \<Rightarrow> json \<Rightarrow> json_error + any" where
  "into_any L v x = (case json_any L x of None \<Rightarrow> Inl JsonType | Some a \<Rightarrow> Inr a)"

text \<open>\<open>map[string]any\<close> and \<open>map[string]string\<close>: the entries are added to those the field has.\<close>

fun into_doc :: "json_lib \<Rightarrow> doc option \<Rightarrow> json \<Rightarrow> json_error + doc option" where
  "into_doc L v (JObj kvs) =
     (case json_members L kvs of
        None \<Rightarrow> Inl JsonType
      | Some ms \<Rightarrow> Inr (Some (fold (\<lambda>(k, a) m. put_key k a m) ms (case v of None \<Rightarrow> [] | Some m \<Rightarrow> m))))"
| "into_doc L v JNull = Inr None"
| "into_doc L v _ = Inl JsonType"

fun string_members :: "(string \<times> json) list \<Rightarrow> (string \<times> string) list option" where
  "string_members [] = Some []"
| "string_members ((k, x) # kvs) =
     (case x of JStr s \<Rightarrow> map_option ((#) (k, s)) (string_members kvs)
      | JNull \<Rightarrow> map_option ((#) (k, [])) (string_members kvs)
      | _ \<Rightarrow> None)"

fun into_string_map :: "string smap option \<Rightarrow> json \<Rightarrow> json_error + string smap option" where
  "into_string_map v (JObj kvs) =
     (case string_members kvs of
        None \<Rightarrow> Inl JsonType
      | Some ms \<Rightarrow> Inr (Some (fold (\<lambda>(k, a) m. put_key k a m) ms (case v of None \<Rightarrow> [] | Some m \<Rightarrow> m))))"
| "into_string_map v JNull = Inr None"
| "into_string_map v _ = Inl JsonType"

fun into_anys :: "json_lib \<Rightarrow> any list option \<Rightarrow> json \<Rightarrow> json_error + any list option" where
  "into_anys L v (JArr xs) = (case json_anys L xs of None \<Rightarrow> Inl JsonType | Some as \<Rightarrow> Inr (Some as))"
| "into_anys L v JNull = Inr None"
| "into_anys L v _ = Inl JsonType"

text \<open>The elements of a \<open>[]string\<close>; a null leaves the empty text.\<close>

fun json_strings :: "json list \<Rightarrow> string list option" where
  "json_strings [] = Some []"
| "json_strings (x # xs) =
     (case x of JStr s \<Rightarrow> map_option ((#) s) (json_strings xs) | JNull \<Rightarrow> map_option ((#) []) (json_strings xs)
      | _ \<Rightarrow> None)"

fun into_strings :: "string list \<Rightarrow> json \<Rightarrow> json_error + string list" where
  "into_strings v (JArr xs) = (case json_strings xs of None \<Rightarrow> Inl JsonType | Some ss \<Rightarrow> Inr ss)"
| "into_strings v JNull = Inr []"
| "into_strings v _ = Inl JsonType"

text \<open>A \<open>json.RawMessage\<close>: the last member, null included.\<close>

definition raw_field :: "string \<Rightarrow> (string \<times> json) list \<Rightarrow> json option" where
  "raw_field f kvs = (case rev (json_field f kvs) of [] \<Rightarrow> None | x # _ \<Rightarrow> Some x)"

subsection \<open>Bodies (decode.go)\<close>

text \<open>The body of a request: nothing, a single value, or something the decoder refuses (a syntax error, a second value,
what is left after the first).\<close>

datatype request_body = EmptyBody | JsonBody json | BadBody json_error

definition decodeSingleJSONValue ::
    "request_body \<Rightarrow> (json \<Rightarrow> json_error + 'a) \<Rightarrow> 'a \<Rightarrow> bool \<Rightarrow> json_error + 'a" where
  "decodeSingleJSONValue b dec zero allowEmpty =
     (case b of
        EmptyBody \<Rightarrow> if allowEmpty then Inr zero else Inl (JsonText ''EOF'')
      | BadBody e \<Rightarrow> Inl e
      | JsonBody v \<Rightarrow>
          if v = JNull then Inl (JsonText ''top-level JSON null is not a valid request body'') else dec v)"

definition decodeRequestJSON ::
    "api_env \<Rightarrow> json_lib \<Rightarrow> request_body \<Rightarrow> (json \<Rightarrow> json_error + 'a) \<Rightarrow> 'a \<Rightarrow> bool \<Rightarrow> reply + 'a" where
  "decodeRequestJSON E L b dec zero allowEmpty =
     (case decodeSingleJSONValue b dec zero allowEmpty of
        Inl e \<Rightarrow> Inl (BadRequest E (''invalid JSON: '' @ json_error_text L e))
      | Inr v \<Rightarrow> Inr v)"

text \<open>A struct with one payload in the field \<open>root\<close>, whose own decoder reads every member of that name.\<close>

definition decode_wrapped :: "string \<Rightarrow> (json \<Rightarrow> json_error + 'a) \<Rightarrow> 'a \<Rightarrow> json \<Rightarrow> json_error + 'a" where
  "decode_wrapped root dec zero v =
     (case v of JObj kvs \<Rightarrow> decode_into (\<lambda>_. dec) zero (json_field root kvs) | _ \<Rightarrow> Inl JsonType)"

subsection \<open>Presence of fields (presence.go)\<close>

definition DecodeJSONFields :: "json \<Rightarrow> json_error + string list" where
  "DecodeJSONFields v =
     (case v of
        JNull \<Rightarrow> Inl (JsonText ''payload must be a JSON object'')
      | JObj kvs \<Rightarrow> Inr (map fst kvs)
      | _ \<Rightarrow> Inl JsonType)"

definition Has :: "string list \<Rightarrow> string \<Rightarrow> bool" where
  "Has fs name = (name \<in> set fs)"

definition HasAny :: "string list \<Rightarrow> string list \<Rightarrow> bool" where
  "HasAny fs names = list_ex (Has fs) names"

definition presentBlankString :: "string list \<Rightarrow> string \<Rightarrow> string \<Rightarrow> bool" where
  "presentBlankString fs name value = (Has fs name \<and> trim_space value = [])"

definition presentBlankStringPtr :: "string list \<Rightarrow> string \<Rightarrow> string option \<Rightarrow> bool" where
  "presentBlankStringPtr fs name value =
     (Has fs name \<and> (case value of None \<Rightarrow> True | Some s \<Rightarrow> trim_space s = []))"

subsection \<open>Scalars (scalars.go)\<close>

definition jsonNumberString :: "json_lib \<Rightarrow> string \<Rightarrow> string" where
  "jsonNumberString L number =
     (case parse_int64 number of
        Inr i \<Rightarrow> itoa i
      | Inl _ \<Rightarrow> (case jl_float L number of Some (FDec t) \<Rightarrow> t | _ \<Rightarrow> number))"

fun decodeJSONStringScalar :: "json_lib \<Rightarrow> json \<Rightarrow> string option" where
  "decodeJSONStringScalar L (JStr s) = Some s"
| "decodeJSONStringScalar L (JBool b) = Some (format_bool b)"
| "decodeJSONStringScalar L (JNum t) = Some (jsonNumberString L t)"
| "decodeJSONStringScalar L _ = None"

fun decode_scalars :: "json_lib \<Rightarrow> string \<Rightarrow> (string \<times> json) list \<Rightarrow> string + string smap" where
  "decode_scalars L field [] = Inr []"
| "decode_scalars L field ((k, x) # kvs) =
     (case decodeJSONStringScalar L x of
        None \<Rightarrow> Inl (field @ ''.'' @ k @ '' must be a string, number, or boolean'')
      | Some s \<Rightarrow> (case decode_scalars L field kvs of Inl e \<Rightarrow> Inl e | Inr m \<Rightarrow> Inr ((k, s) # m)))"

definition DecodeJSONStringScalarMap :: "json_lib \<Rightarrow> json option \<Rightarrow> string \<Rightarrow> string + string smap" where
  "DecodeJSONStringScalarMap L raw field =
     (case raw of
        Some (JObj kvs) \<Rightarrow> decode_scalars L field (last_members kvs)
      | _ \<Rightarrow> Inl (field @ '' must be an object''))"

definition ValidateStringMapField :: "bool \<Rightarrow> string smap option \<Rightarrow> string \<Rightarrow> bool \<Rightarrow> string option" where
  "ValidateStringMapField present values field allowEmpty =
     (if \<not> present then None
      else case values of
             None \<Rightarrow> Some (field @ '' must be an object'')
           | Some m \<Rightarrow>
               if \<not> allowEmpty \<and> m = [] then Some (field @ '' must not be empty'')
               else if list_ex (\<lambda>(k, _). trim_space k = []) m then Some (field @ '' keys must not be blank'')
               else None)"

definition ValidateNonEmptyObjectMapField :: "bool \<Rightarrow> doc option \<Rightarrow> string \<Rightarrow> string option" where
  "ValidateNonEmptyObjectMapField present values field =
     (if \<not> present then None
      else case values of
             None \<Rightarrow> Some (field @ '' must be an object'')
           | Some m \<Rightarrow> if m = [] then Some (field @ '' must not be empty'') else None)"

subsection \<open>What decoding keeps\<close>

lemma decode_into_map:
  "decode_into (into_doc L) v (map JObj objs) = Inr w \<Longrightarrow> (v = None \<Longrightarrow> objs \<noteq> []) \<Longrightarrow> \<exists>m. w = Some m"
proof (induction objs arbitrary: v)
  case Nil
  then show ?case by (cases v) auto
next
  case (Cons o' objs)
  obtain v' where v': "into_doc L v (JObj o') = Inr v'" "decode_into (into_doc L) v' (map JObj objs) = Inr w"
    using Cons.prems(1) by (auto split: sum.splits)
  have "v' \<noteq> None" using v'(1) by (auto split: option.splits)
  with Cons.IH[OF v'(2)] show ?case by simp
qed

lemma scalar_map_keys:
  "decode_scalars L field kvs = Inr m \<Longrightarrow> map fst m = map fst kvs"
  by (induction L field kvs arbitrary: m rule: decode_scalars.induct) (auto split: option.splits sum.splits)

end
