(* ===== verification/PlaygroundPayload.thy ===== *)
theory PlaygroundPayload
  imports ApiRequests ApiLists
begin

text \<open>
  The payloads of playground requests: \<open>internal/playground\<close> (\<open>payload.go\<close>, \<open>payload\_times.go\<close>, \<open>references.go\<close>,
  \<open>requests.go\<close>), decoded from the body of a request, checked, and applied to a row. A nil map is \<open>None\<close>.
\<close>

subsection \<open>References (references.go)\<close>

definition positiveIDReference :: "int \<Rightarrow> string \<Rightarrow> json_error + int option \<times> string" where
  "positiveIDReference i field =
     (if i \<le> 0 then Inl (JsonText (field @ '' must be a positive integer id or name'')) else Inr (Some i, []))"

definition textIDReference :: "string \<Rightarrow> string \<Rightarrow> json_error + int option \<times> string" where
  "textIDReference text0 field =
     (let t = trim_space text0
      in if t = [] then Inr (None, [])
         else case parse_int64 t of Inr i \<Rightarrow> positiveIDReference i field | Inl _ \<Rightarrow> Inr (None, t))"

definition numericIDReference :: "string \<Rightarrow> string \<Rightarrow> json_error + int option \<times> string" where
  "numericIDReference number field =
     (case parse_int64 number of
        Inl _ \<Rightarrow> Inl (JsonText (field @ '' must be an integer id or name''))
      | Inr i \<Rightarrow> positiveIDReference i field)"

definition parseIDReference :: "json option \<Rightarrow> string \<Rightarrow> json_error + int option \<times> string" where
  "parseIDReference raw field =
     (case raw of
        None \<Rightarrow> Inr (None, [])
      | Some v \<Rightarrow>
          (case v of
             JNull \<Rightarrow> Inr (None, [])
           | JStr t \<Rightarrow> textIDReference t field
           | JNum n \<Rightarrow> numericIDReference n field
           | _ \<Rightarrow> Inl (JsonText (field @ '' must be an integer id or name''))))"

definition blankJSONReference :: "json option \<Rightarrow> bool" where
  "blankJSONReference raw = (case raw of Some (JStr t) \<Rightarrow> trim_space t = [] | _ \<Rightarrow> False)"

subsection \<open>Times (payload\_times.go)\<close>

definition minPayloadUnixTimestamp :: int where "minPayloadUnixTimestamp = -62167219200"
definition maxPayloadUnixTimestamp :: int where "maxPayloadUnixTimestamp = 253402300799"

definition second :: int where "second = 1000000000"
definition hour :: int where "hour = 3600 * second"

text \<open>Every instant inside the bounds lies in the years 0 to 9999, which \<open>MarshalJSON\<close> writes.\<close>

definition unixPayloadTime :: "int \<Rightarrow> int option" where
  "unixPayloadTime seconds =
     (if seconds < minPayloadUnixTimestamp \<or> seconds > maxPayloadUnixTimestamp then None else Some (seconds * second))"

definition parsePayloadTimeString :: "api_env \<Rightarrow> string \<Rightarrow> int option" where
  "parsePayloadTimeString E value0 =
     (let value = trim_space value0 in if value = [] then None else av_rfc3339 E value)"

text \<open>A finite \<open>float64\<close> is a whole number when its shortest decimal text is one.\<close>

definition parsePayloadTimeFloat :: "go_float \<Rightarrow> int option" where
  "parsePayloadTimeFloat value =
     (case value of
        FDec t \<Rightarrow> (case parse_int64 t of Inr seconds \<Rightarrow> unixPayloadTime seconds | Inl _ \<Rightarrow> None)
      | _ \<Rightarrow> None)"

text \<open>The outer option says whether the value is a time at all; nil is one that is not set.\<close>

definition parsePayloadTime :: "api_env \<Rightarrow> any \<Rightarrow> int option option" where
  "parsePayloadTime E value =
     (case value of
        ANil \<Rightarrow> Some None
      | AStr s \<Rightarrow> map_option Some (parsePayloadTimeString E s)
      | AFloat KFloat64 f \<Rightarrow> map_option Some (parsePayloadTimeFloat f)
      | AInt KInt64 i \<Rightarrow> map_option Some (unixPayloadTime i)
      | _ \<Rightarrow> None)"

subsection \<open>The payload of a playground (payload.go)\<close>

record playgroundPayload =
  py_name :: string
  py_playspec_id :: "int option"
  py_marquee_id :: "int option"
  py_expires_at :: any
  py_never_expire :: "bool option"
  py_env_overrides :: "string smap option"
  py_services :: "doc option"
  py_playspec_identifier :: string
  py_marquee_identifier :: string
  py_blank_playspec_id :: bool
  py_blank_marquee_id :: bool
  py_expires_at_set :: bool
  py_invalid_env_overrides :: string
  py_fields :: "string list"

definition zero_payload :: playgroundPayload where
  "zero_payload = \<lparr>py_name = [], py_playspec_id = None, py_marquee_id = None, py_expires_at = ANil, py_never_expire = None,
     py_env_overrides = None, py_services = None, py_playspec_identifier = [], py_marquee_identifier = [],
     py_blank_playspec_id = False, py_blank_marquee_id = False, py_expires_at_set = False, py_invalid_env_overrides = [],
     py_fields = []\<rparr>"

definition decode_playground_payload :: "json_lib \<Rightarrow> json \<Rightarrow> json_error + playgroundPayload" where
  "decode_playground_payload L v =
     (case DecodeJSONFields v of
        Inl e \<Rightarrow> Inl e
      | Inr fs \<Rightarrow>
          (let kvs = (case v of JObj kvs \<Rightarrow> kvs | _ \<Rightarrow> []);
               playspecRaw = raw_field ''playspec_id'' kvs; marqueeRaw = raw_field ''marquee_id'' kvs;
               env = (if Has fs ''env_overrides''
                 then (case DecodeJSONStringScalarMap L (raw_field ''env_overrides'' kvs) ''env_overrides'' of
                         Inl e \<Rightarrow> (None, e) | Inr m \<Rightarrow> (Some m, []))
                 else (None, []))
           in case decode_into into_string [] (json_field ''name'' kvs) of Inl e \<Rightarrow> Inl e | Inr name \<Rightarrow>
             (case decode_into (into_any L) ANil (json_field ''expires_at'' kvs) of Inl e \<Rightarrow> Inl e | Inr expires \<Rightarrow>
             (case decode_into into_bool_ptr None (json_field ''never_expire'' kvs) of Inl e \<Rightarrow> Inl e | Inr never \<Rightarrow>
             (case decode_into (into_doc L) None (json_field ''services'' kvs) of Inl e \<Rightarrow> Inl e | Inr services \<Rightarrow>
             (case parseIDReference playspecRaw ''playspec_id'' of Inl e \<Rightarrow> Inl e | Inr (psid, psname) \<Rightarrow>
             (case parseIDReference marqueeRaw ''marquee_id'' of Inl e \<Rightarrow> Inl e | Inr (mqid, mqname) \<Rightarrow>
               Inr \<lparr>py_name = name, py_playspec_id = psid, py_marquee_id = mqid, py_expires_at = expires,
                    py_never_expire = never, py_env_overrides = fst env, py_services = services,
                    py_playspec_identifier = psname, py_marquee_identifier = mqname,
                    py_blank_playspec_id = blankJSONReference playspecRaw,
                    py_blank_marquee_id = blankJSONReference marqueeRaw,
                    py_expires_at_set = Has fs ''expires_at'', py_invalid_env_overrides = snd env,
                    py_fields = fs\<rparr>)))))))"

definition hasUpdateFields :: "playgroundPayload \<Rightarrow> bool" where
  "hasUpdateFields p =
     (HasAny (py_fields p) [''name'', ''playspec_id'', ''marquee_id'', ''never_expire'', ''env_overrides''] \<or>
      (Has (py_fields p) ''services'' \<and> py_services p \<noteq> None \<and> py_services p \<noteq> Some []) \<or>
      (py_expires_at_set p \<and> py_expires_at p \<noteq> ANil))"

definition mutatesRuntimeConfig :: "playgroundPayload \<Rightarrow> bool" where
  "mutatesRuntimeConfig p =
     (py_playspec_id p \<noteq> None \<or> py_marquee_id p \<noteq> None \<or> py_env_overrides p \<noteq> None \<or>
      (py_services p \<noteq> None \<and> py_services p \<noteq> Some []))"

definition copyAnyMap :: "doc option \<Rightarrow> doc" where
  "copyAnyMap m = (case m of None \<Rightarrow> [] | Some d \<Rightarrow> d)"

text \<open>Entries of the incoming map replace those of the base, maps on both sides are merged.\<close>

fun mergeAnyMaps :: "doc \<Rightarrow> doc \<Rightarrow> doc" where
  "mergeAnyMaps out [] = out"
| "mergeAnyMaps out ((key, AMap n) # incoming) =
     mergeAnyMaps (put_key key
       (AMap (case map_of out key of Some (AMap current) \<Rightarrow> mergeAnyMaps current n | _ \<Rightarrow> n)) out) incoming"
| "mergeAnyMaps out ((key, v) # incoming) = mergeAnyMaps (put_key key v out) incoming"

definition expiration :: "api_env \<Rightarrow> playgroundPayload \<Rightarrow> int option" where
  "expiration E p = (case parsePayloadTime E (py_expires_at p) of Some (Some t) \<Rightarrow> Some t | _ \<Rightarrow> None)"

definition defaultPlaygroundTTL :: int where "defaultPlaygroundTTL = 8 * hour"

definition applyExpiration :: "api_env \<Rightarrow> playgroundPayload \<Rightarrow> playground \<Rightarrow> int \<Rightarrow> playground" where
  "applyExpiration E p pg now =
     (case py_never_expire p of
        Some True \<Rightarrow> pg\<lparr>pg_expires_at := None\<rparr>
      | Some False \<Rightarrow>
          pg\<lparr>pg_expires_at := Some (case expiration E p of Some t \<Rightarrow> t | None \<Rightarrow> now + defaultPlaygroundTTL)\<rparr>
      | None \<Rightarrow> (case expiration E p of Some t \<Rightarrow> pg\<lparr>pg_expires_at := Some t\<rparr> | None \<Rightarrow> pg))"

definition apply_payload :: "api_env \<Rightarrow> playgroundPayload \<Rightarrow> playground \<Rightarrow> int \<Rightarrow> playground" where
  "apply_payload E p pg0 now =
     (let pg1 = (if py_name p \<noteq> [] then pg0\<lparr>pg_name := trim_space (py_name p)\<rparr> else pg0);
          pg2 = (if py_playspec_id p \<noteq> None then pg1\<lparr>pg_playspec_id := py_playspec_id p\<rparr> else pg1);
          pg3 = (if py_marquee_id p \<noteq> None then pg2\<lparr>pg_marquee_id := py_marquee_id p\<rparr> else pg2);
          pg4 = (case py_env_overrides p of None \<Rightarrow> pg3 | Some m \<Rightarrow> pg3\<lparr>pg_env_overrides := m\<rparr>);
          pg5 = (case py_services p of None \<Rightarrow> pg4
                 | Some m \<Rightarrow> pg4\<lparr>pg_service_branches := mergeAnyMaps (pg_service_branches pg4) m\<rparr>)
      in applyExpiration E p pg5 now)"

definition zero_playground :: playground where
  "zero_playground = \<lparr>pg_id = 0, pg_name = [], pg_status = [], pg_state_reason = None, pg_state_reasons = [],
     pg_playspec_id = None, pg_playspec_name = None, pg_marquee_id = None, pg_service_branches = [], pg_expires_at = None,
     pg_created_at = zero_time, pg_updated_at = zero_time, pg_compose_project = None, pg_marquee_name = None,
     pg_root_domain = None, pg_routing_scheme = None, pg_internal_password = None, pg_env_overrides = [],
     pg_last_applied_at = None, pg_error_message = None, pg_error_details = None, pg_build_warnings = [],
     pg_build_statuses = [], pg_service_urls = [], pg_services = [], pg_generated_compose_yaml = [],
     pg_creation_steps = [], pg_repair_reason = None, pg_repair_lock_until = None, pg_needs_recreation = None,
     pg_time_remaining = None, pg_expiration_percentage = None\<rparr>"

definition toDomain :: "api_env \<Rightarrow> playgroundPayload \<Rightarrow> playground" where
  "toDomain E p =
     zero_playground\<lparr>pg_name := trim_space (py_name p), pg_playspec_id := py_playspec_id p,
       pg_marquee_id := py_marquee_id p, pg_expires_at := expiration E p, pg_env_overrides := (case py_env_overrides p of None \<Rightarrow> [] | Some m \<Rightarrow> m),
       pg_service_branches := copyAnyMap (py_services p)\<rparr>"

subsection \<open>Checks of the payload (payload.go)\<close>

definition first_fault :: "fault option list \<Rightarrow> fault option" where
  "first_fault fs = (case concat (map (\<lambda>f. case f of None \<Rightarrow> [] | Some x \<Rightarrow> [x]) fs) of [] \<Rightarrow> None | x # _ \<Rightarrow> Some x)"

definition bad_when :: "bool \<Rightarrow> string \<Rightarrow> fault option" where
  "bad_when c message = (if c then Some (BadRequestError message) else None)"

definition validatePlaygroundScalarFields :: "playgroundPayload \<Rightarrow> fault option" where
  "validatePlaygroundScalarFields p =
     first_fault
       [bad_when (presentBlankString (py_fields p) ''name'' (py_name p)) ''name must not be blank'',
        bad_when (Has (py_fields p) ''never_expire'' \<and> py_never_expire p = None) ''never_expire must be true or false'',
        bad_when (py_invalid_env_overrides p \<noteq> []) (py_invalid_env_overrides p),
        map_option BadRequestError
          (ValidateStringMapField (Has (py_fields p) ''env_overrides'') (py_env_overrides p) ''env_overrides'' True)]"

definition validatePlaygroundReferenceFields :: "playgroundPayload \<Rightarrow> fault option" where
  "validatePlaygroundReferenceFields p =
     first_fault [bad_when (py_blank_playspec_id p) ''playspec_id must not be blank'',
                  bad_when (py_blank_marquee_id p) ''marquee_id must not be blank'']"

definition validatePlaygroundExpiration :: "api_env \<Rightarrow> playgroundPayload \<Rightarrow> fault option" where
  "validatePlaygroundExpiration E p =
     bad_when (py_expires_at_set p \<and> (py_expires_at p = ANil \<or> parsePayloadTime E (py_expires_at p) = None))
       ''expires_at must be an RFC3339 timestamp or integer Unix timestamp''"

definition validatePlaygroundPayload :: "api_env \<Rightarrow> playgroundPayload \<Rightarrow> fault option" where
  "validatePlaygroundPayload E p =
     first_fault
       [validatePlaygroundScalarFields p,
        map_option BadRequestError (ValidateNonEmptyObjectMapField (Has (py_fields p) ''services'') (py_services p) ''services''),
        validatePlaygroundReferenceFields p,
        validatePlaygroundExpiration E p]"

definition validatePlaygroundCreatePayload :: "playgroundPayload \<Rightarrow> fault option" where
  "validatePlaygroundCreatePayload p =
     bad_when (Has (py_fields p) ''env_overrides'' \<and> (py_env_overrides p = None \<or> py_env_overrides p = Some []))
       ''env_overrides must not be empty''"

subsection \<open>The payloads of actions, logs and extensions\<close>

record playgroundOperationPayload =
  po_action_type :: string
  po_force :: "bool option"
  po_playground :: "doc option"
  po_fields :: "string list"

definition decode_operation_payload :: "json_lib \<Rightarrow> json \<Rightarrow> json_error + playgroundOperationPayload" where
  "decode_operation_payload L v =
     (case DecodeJSONFields v of
        Inl e \<Rightarrow> Inl e
      | Inr fs \<Rightarrow>
          (let kvs = (case v of JObj kvs \<Rightarrow> kvs | _ \<Rightarrow> [])
           in case decode_into into_string [] (json_field ''action_type'' kvs) of Inl e \<Rightarrow> Inl e | Inr action \<Rightarrow>
             (case decode_into into_bool_ptr None (json_field ''force'' kvs) of Inl e \<Rightarrow> Inl e | Inr force \<Rightarrow>
             (case decode_into (into_doc L) None (json_field ''playground'' kvs) of Inl e \<Rightarrow> Inl e | Inr nested \<Rightarrow>
               Inr \<lparr>po_action_type = action, po_force = force, po_playground = nested, po_fields = fs\<rparr>))))"

definition force :: "playgroundOperationPayload \<Rightarrow> bool" where
  "force p = (po_force p = Some True)"

record playgroundLogsPayload =
  pl_service :: "string option"
  pl_tail :: "int option"
  pl_fields :: "string list"

definition decode_logs_payload :: "json \<Rightarrow> json_error + playgroundLogsPayload" where
  "decode_logs_payload v =
     (case DecodeJSONFields v of
        Inl e \<Rightarrow> Inl e
      | Inr fs \<Rightarrow>
          (let kvs = (case v of JObj kvs \<Rightarrow> kvs | _ \<Rightarrow> [])
           in case decode_into into_string_ptr None (json_field ''service'' kvs) of Inl e \<Rightarrow> Inl e | Inr service \<Rightarrow>
             (case decode_into into_int_ptr None (json_field ''tail'' kvs) of Inl e \<Rightarrow> Inl e | Inr tail \<Rightarrow>
               Inr \<lparr>pl_service = service, pl_tail = tail, pl_fields = fs\<rparr>)))"

record playgroundExpirationPayload =
  pe_duration_hours :: "int option"
  pe_fields :: "string list"

definition decode_expiration_payload :: "json \<Rightarrow> json_error + playgroundExpirationPayload" where
  "decode_expiration_payload v =
     (case DecodeJSONFields v of
        Inl e \<Rightarrow> Inl e
      | Inr fs \<Rightarrow>
          (let kvs = (case v of JObj kvs \<Rightarrow> kvs | _ \<Rightarrow> [])
           in case decode_into into_int_ptr None (json_field ''duration_hours'' kvs) of Inl e \<Rightarrow> Inl e | Inr hours \<Rightarrow>
             Inr \<lparr>pe_duration_hours = hours, pe_fields = fs\<rparr>))"

subsection \<open>Facts\<close>

lemma first_fault_None: "first_fault fs = None \<longleftrightarrow> list_all (\<lambda>f. f = None) fs"
  by (induction fs) (auto simp: first_fault_def split: option.splits list.splits)

lemma bad_when_None [simp]: "bad_when c m = None \<longleftrightarrow> \<not> c"
  by (simp add: bad_when_def)

text \<open>A decoded reference is a positive id or a name that does not read as a number, or it is not there.\<close>

lemma parsed_reference:
  assumes "parseIDReference raw field = Inr (i, name)"
  shows "(case i of Some n \<Rightarrow> 0 < n \<and> n \<le> max_int64 \<and> name = [] | None \<Rightarrow> True) \<and>
    (name \<noteq> [] \<longrightarrow> i = None \<and> trim_space name = name \<and> (\<exists>e. parse_int64 name = Inl e))"
proof -
  have bound: "n \<le> max_int64" if "parse_int64 t = Inr n" for t n
    using that by (auto simp: parse_int64_def Let_def split: if_splits)
  show ?thesis
    using assms
    by (auto simp: parseIDReference_def textIDReference_def numericIDReference_def positiveIDReference_def Let_def
      split: option.splits json.splits sum.splits if_splits dest: bound)
qed

lemma expiration_in_range:
  assumes "parsePayloadTime E (AFloat KFloat64 f) = Some (Some t)"
  shows "minPayloadUnixTimestamp * second \<le> t \<and> t \<le> maxPayloadUnixTimestamp * second"
  using assms
  by (auto simp: parsePayloadTime_def parsePayloadTimeFloat_def unixPayloadTime_def second_def
    minPayloadUnixTimestamp_def maxPayloadUnixTimestamp_def split: go_float.splits sum.splits if_splits)

text \<open>Merging keeps what the incoming map does not speak of, and takes its other values.\<close>

lemma mergeAnyMaps_other: "k \<notin> fst ` set incoming \<Longrightarrow> map_of (mergeAnyMaps out incoming) k = map_of out k"
  by (induction out incoming rule: mergeAnyMaps.induct) (auto simp: update_conv')

lemma wf_mergeAnyMaps: "wf_map out \<Longrightarrow> wf_map (mergeAnyMaps out incoming)"
  by (induction out incoming rule: mergeAnyMaps.induct) auto

end
