(* ===== verification/AsyncRuns.thy ===== *)
theory AsyncRuns
  imports ApiReplies
begin

text \<open>
  Asynchronous operations: \<open>internal/worker/async.go\<close> and what \<open>internal/async/handler.go\<close> shows of them.

  A job is a handler of its own; it runs beside the request that enqueued it. The deferred \<open>recover\<close> of \<open>runAsync\<close> turns
  a run of the job that ends in a panic into the value \<open>None\<close>.

  \<open>settles\<close> says that a handler comes to a result whatever it is answered, as long as every answer is of the kind its
  request asks for: no run of it ends in \<open>Stuck\<close>. \<open>drive\<close> runs a handler against such an environment.
\<close>

subsection \<open>Environments\<close>

datatype answer_kind = KRow | KRows | KSwapped | KDone | KSpec | KMarquee | KClock | KTexts | KObserved | KHttp | KTicked
  | KRandom | KProp | KBuild | KBuilds | KCommit | KExists | KBuilt | KSpecs | KCount | KPropRow | KPropRows | KAsync
  | KRepository | KBranches | KOpened | KNames

definition asked_kind :: "request \<Rightarrow> answer_kind" where
  "asked_kind q =
     (case q of
        GetPlayground _ \<Rightarrow> KRow | SavePlayground _ \<Rightarrow> KRow | FindPlayground _ \<Rightarrow> KRow | CreatePlayground _ \<Rightarrow> KRow
      | RenameRow _ _ \<Rightarrow> KRow | ListPlaygrounds \<Rightarrow> KRows | SavePlaygroundIfCurrent _ _ _ \<Rightarrow> KSwapped
      | GetPlayspec _ \<Rightarrow> KSpec | FindPlayspec _ \<Rightarrow> KSpec | CreatePlayspec _ \<Rightarrow> KSpec | SavePlayspec _ \<Rightarrow> KSpec
      | ListPlayspecs \<Rightarrow> KSpecs | CountPlaygroundsForPlayspec _ \<Rightarrow> KCount
      | GetRuntimeMarquee \<Rightarrow> KMarquee | GetMarquee _ \<Rightarrow> KMarquee | FindMarquee _ \<Rightarrow> KMarquee
      | TimeNow \<Rightarrow> KClock | SourceDirtyPaths _ _ _ \<Rightarrow> KTexts | ListPlaygroundProjects _ \<Rightarrow> KTexts
      | RuntimeArtifactDrift _ _ _ \<Rightarrow> KTexts | ComposeLogs _ _ _ _ \<Rightarrow> KTexts
      | InspectServices _ _ \<Rightarrow> KObserved | RouteProbe _ \<Rightarrow> KHttp | WaitTick \<Rightarrow> KTicked | RandomText \<Rightarrow> KRandom
      | FindPropByRepositoryURL _ \<Rightarrow> KProp
      | CreateBuildRecord _ \<Rightarrow> KBuild | SaveBuildRecord _ \<Rightarrow> KBuild | GetBuildRecord _ \<Rightarrow> KBuild
      | ListReusableBuildRecords _ \<Rightarrow> KBuilds | ResolveSourceCommit _ _ _ \<Rightarrow> KCommit
      | ImageExistsForBuild _ _ _ _ \<Rightarrow> KExists | BuildImage _ _ \<Rightarrow> KBuilt
      | ListProps \<Rightarrow> KPropRows | CreateProp _ \<Rightarrow> KPropRow | FindProp _ \<Rightarrow> KPropRow | SaveProp _ \<Rightarrow> KPropRow
      | PlayspecsReferencingProp _ \<Rightarrow> KNames | GetAsync _ \<Rightarrow> KAsync
      | GitHubRepository _ \<Rightarrow> KRepository | GitHubBranches _ \<Rightarrow> KBranches | OpenFile _ \<Rightarrow> KOpened
      | _ \<Rightarrow> KDone)"

definition answered_kind :: "answer \<Rightarrow> answer_kind" where
  "answered_kind r =
     (case r of
        Row _ \<Rightarrow> KRow | Rows _ \<Rightarrow> KRows | Swapped _ \<Rightarrow> KSwapped | Done _ \<Rightarrow> KDone | SpecRow _ \<Rightarrow> KSpec
      | MarqueeRow _ \<Rightarrow> KMarquee | Clock _ \<Rightarrow> KClock | Texts _ \<Rightarrow> KTexts | Observed _ \<Rightarrow> KObserved | Http _ \<Rightarrow> KHttp
      | Ticked _ \<Rightarrow> KTicked | Random _ \<Rightarrow> KRandom | PropRow _ \<Rightarrow> KProp | BuildRow _ \<Rightarrow> KBuild | BuildRows _ \<Rightarrow> KBuilds
      | Commit _ \<Rightarrow> KCommit | Exists _ \<Rightarrow> KExists | Built _ \<Rightarrow> KBuilt | SpecRows _ \<Rightarrow> KSpecs | Counted _ \<Rightarrow> KCount
      | PropRecord _ \<Rightarrow> KPropRow | PropRecords _ \<Rightarrow> KPropRows | AsyncRow _ \<Rightarrow> KAsync | Repository _ \<Rightarrow> KRepository
      | Branches _ \<Rightarrow> KBranches | Opened _ \<Rightarrow> KOpened | Names _ \<Rightarrow> KNames)"

type_synonym environment = "history \<Rightarrow> request \<Rightarrow> answer"

definition in_kind :: "environment \<Rightarrow> bool" where
  "in_kind env = (\<forall>h q. answered_kind (env h q) = asked_kind q)"

primrec drive :: "environment \<Rightarrow> 'a io \<Rightarrow> history \<Rightarrow> history \<times> 'a option" where
  "drive env (Ret a) = (\<lambda>h. (h, Some a))"
| "drive env Stuck = (\<lambda>h. (h, None))"
| "drive env (Call q k) = (\<lambda>h. drive env (k (env h q)) (h @ [(q, env h q)]))"

primrec settles :: "'a io \<Rightarrow> bool" where
  "settles (Ret a) = True"
| "settles Stuck = False"
| "settles (Call q k) = (\<forall>r. answered_kind r = asked_kind q \<longrightarrow> settles (k r))"

named_theorems settles_rules

lemma settles_drive: "settles m \<Longrightarrow> in_kind env \<Longrightarrow> \<exists>es a. drive env m h = (h @ es, Some a) \<and> runs m es a"
proof (induction m arbitrary: h)
  case (Call q k)
  have "settles (k (env h q))" using Call.prems by (simp add: in_kind_def)
  from Call.IH[OF _ this Call.prems(2), of "h @ [(q, env h q)]"] obtain es a where
    "drive env (k (env h q)) (h @ [(q, env h q)]) = ((h @ [(q, env h q)]) @ es, Some a)" "runs (k (env h q)) es a" by auto
  then show ?case by (intro exI[of _ "(q, env h q) # es"] exI[of _ a]) simp
qed auto

lemma settles_bind [settles_rules]: "settles m \<Longrightarrow> (\<And>a. settles (f a)) \<Longrightarrow> settles (bind m f)"
  by (induction m) auto

lemma settles_and_then [settles_rules]: "settles m \<Longrightarrow> (\<And>a. settles (f a)) \<Longrightarrow> settles (and_then m f)"
  unfolding and_then_def by (intro settles_bind) (auto split: sum.split)

lemma settles_Ret [settles_rules]: "settles (Ret a)"
  by simp

lemma settles_stop_with [settles_rules]: "settles (stop_with r)"
  by (simp add: stop_with_def)

lemma settles_answered [settles_rules]: "settles m \<Longrightarrow> settles (answered m)"
  unfolding answered_def by (intro settles_bind) (auto split: sum.split)

lemma settles_if [settles_rules]: "(c \<Longrightarrow> settles m) \<Longrightarrow> (\<not> c \<Longrightarrow> settles n) \<Longrightarrow> settles (if c then m else n)"
  by simp

lemma settles_option [settles_rules]:
  "(x = None \<Longrightarrow> settles m) \<Longrightarrow> (\<And>a. x = Some a \<Longrightarrow> settles (f a)) \<Longrightarrow> settles (case x of None \<Rightarrow> m | Some a \<Rightarrow> f a)"
  by (cases x) simp_all

lemma settles_sum [settles_rules]:
  "(\<And>e. x = Inl e \<Longrightarrow> settles (f e)) \<Longrightarrow> (\<And>a. x = Inr a \<Longrightarrow> settles (g a)) \<Longrightarrow>
     settles (case x of Inl e \<Rightarrow> f e | Inr a \<Rightarrow> g a)"
  by (cases x) simp_all

lemma settles_prod [settles_rules]:
  "(\<And>a b. x = (a, b) \<Longrightarrow> settles (f a b)) \<Longrightarrow> settles (case x of (a, b) \<Rightarrow> f a b)"
  by (cases x) simp

lemma settles_Let [settles_rules]: "(\<And>y. y = x \<Longrightarrow> settles (f y)) \<Longrightarrow> settles (let y = x in f y)"
  by simp

lemma settles_call: "(\<And>r. answered_kind r = K \<Longrightarrow> settles (k r)) \<Longrightarrow> asked_kind q = K \<Longrightarrow> settles (Call q k)"
  by simp

lemma settles_asks [settles_rules]:
  "asked_kind q = KRow \<Longrightarrow> settles (ask_row q)"
  "asked_kind q = KRows \<Longrightarrow> settles (ask_rows q)"
  "asked_kind q = KDone \<Longrightarrow> settles (ask_done q)"
  "asked_kind q = KSpec \<Longrightarrow> settles (ask_spec q)"
  "asked_kind q = KTexts \<Longrightarrow> settles (ask_texts q)"
  "asked_kind q = KSpecs \<Longrightarrow> settles (ask_specs q)"
  "asked_kind q = KCount \<Longrightarrow> settles (ask_count q)"
  "asked_kind q = KPropRow \<Longrightarrow> settles (ask_prop_row q)"
  "asked_kind q = KPropRows \<Longrightarrow> settles (ask_prop_rows q)"
  "asked_kind q = KAsync \<Longrightarrow> settles (ask_async q)"
  "asked_kind q = KNames \<Longrightarrow> settles (ask_names q)"
  "asked_kind q = KRepository \<Longrightarrow> settles (ask_repository q)"
  "asked_kind q = KBranches \<Longrightarrow> settles (ask_branches q)"
  "asked_kind q = KOpened \<Longrightarrow> settles (ask_file q)"
  unfolding ask_defs by (erule settles_call[rotated], case_tac r; simp add: answered_kind_def)+

lemma settles_fixed_asks [settles_rules]:
  "settles ask_marquee" "settles (ask_marquee_named t)" "settles (ask_marquee_id i)" "settles ask_clock" "settles ask_random"
  unfolding ask_defs
  by (rule settles_call[rotated, OF refl], case_tac r; simp add: answered_kind_def asked_kind_def)+

subsection \<open>Jobs (worker/async.go)\<close>

type_synonym job = "(doc option \<times> api_error option) io"

definition RandomID :: "string \<Rightarrow> string io" where
  "RandomID p =
     bind ask_random (\<lambda>x. case x of
       Inr b \<Rightarrow> Ret (p @ concat (map hex2 b))
     | Inl _ \<Rightarrow> bind ask_clock (\<lambda>now. Ret (p @ itoa now)))"

definition asyncStatusURL :: "string \<Rightarrow> string" where
  "asyncStatusURL i = ''/api/async_requests/'' @ i"

definition Enqueue :: "(go_error + async_operation) io" where
  "Enqueue =
     bind (RandomID ''req_'') (\<lambda>i.
       let op = \<lparr>ao_id = i, ao_status = AsyncQueued, ao_status_url = asyncStatusURL i, ao_payload = Some [],
                 ao_error = None, ao_created_at = 0, ao_updated_at = 0\<rparr>
       in bind (ask_done (CreateAsync op)) (\<lambda>err. Ret (case err of Some e \<Rightarrow> Inl e | None \<Rightarrow> Inr op)))"

text \<open>A run of the job, or nothing when it panics.\<close>

primrec recovered :: "'a io \<Rightarrow> 'a option io" where
  "recovered (Ret a) = Ret (Some a)"
| "recovered Stuck = Ret None"
| "recovered (Call q k) = Call q (\<lambda>r. recovered (k r))"

definition finishAsyncPersistenceError :: "async_operation \<Rightarrow> go_error \<Rightarrow> unit io" where
  "finishAsyncPersistenceError op err =
     (if ao_status op = AsyncError then Ret ()
      else bind (ask_done (SaveAsync (op\<lparr>ao_status := AsyncError,
               ao_error := Some (api_error_of ''INTERNAL_ERROR'' ''async operation result could not be persisted''
                 (Some [(''cause'', AStr (error_text err))])),
               ao_payload := Some [], ao_status_url := asyncStatusURL (ao_id op)\<rparr>)))
             (\<lambda>_. Ret ()))"

definition finished :: "async_operation \<Rightarrow> doc option \<Rightarrow> api_error option \<Rightarrow> async_operation" where
  "finished op payload apiErr =
     (case apiErr of
        Some e \<Rightarrow> op\<lparr>ao_status := AsyncError, ao_error := Some e, ao_payload := Some []\<rparr>
      | None \<Rightarrow> op\<lparr>ao_status := AsyncSuccess, ao_error := None,
                  ao_payload := Some (case payload of None \<Rightarrow> [] | Some p \<Rightarrow> p)\<rparr>)
     \<lparr>ao_status_url := asyncStatusURL (ao_id op)\<rparr>"

definition finishAsync :: "async_operation \<Rightarrow> doc option \<Rightarrow> api_error option \<Rightarrow> unit io" where
  "finishAsync op payload apiErr =
     bind (ask_done (SaveAsync (finished op payload apiErr)))
       (\<lambda>err. case err of None \<Rightarrow> Ret () | Some e \<Rightarrow> finishAsyncPersistenceError (finished op payload apiErr) e)"

definition runAsync :: "async_operation \<Rightarrow> job \<Rightarrow> unit io" where
  "runAsync op0 job =
     (let op = op0\<lparr>ao_status := AsyncRunning, ao_status_url := asyncStatusURL (ao_id op0)\<rparr>
      in bind (ask_done (SaveAsync op)) (\<lambda>_.
           bind (recovered job) (\<lambda>r. case r of
             None \<Rightarrow> finishAsync op None (Some (api_error_of ''INTERNAL_ERROR'' ''async operation failed unexpectedly'' None))
           | Some (payload, apiErr) \<Rightarrow> finishAsync op payload apiErr)))"

subsection \<open>What a client is shown (async/handler.go)\<close>

definition async_error_body :: "async_operation \<Rightarrow> doc" where
  "async_error_body op =
     (let base = [(''request_id'', AStr (ao_id op)), (''status'', AStr ''error'')]
      in case ao_error op of
           None \<Rightarrow> base
         | Some e \<Rightarrow> base @ [(''error'', AStr (ae_message e)), (''error_code'', AStr (ae_code e)),
             (''error_details'', case ae_details e of None \<Rightarrow> ANil | Some d \<Rightarrow> AMap d), (''error_status'', AInt KInt 422)])"

definition async_success_body :: "async_operation \<Rightarrow> doc" where
  "async_success_body op =
     (let body = fold (\<lambda>(k, v) m. put_key k v m) (case ao_payload op of None \<Rightarrow> [] | Some p \<Rightarrow> p)
                   [(''request_id'', AStr (ao_id op))]
      in if has_key body ''status'' then body else body @ [(''status'', AStr ''success'')])"

definition async_pending_body :: "async_operation \<Rightarrow> doc" where
  "async_pending_body op =
     [(''request_id'', AStr (ao_id op)), (''status'', AStr (ao_status op)), (''status_url'', AStr (ao_status_url op))]"

definition responseBody :: "async_operation \<Rightarrow> doc" where
  "responseBody op =
     (if ao_status op = AsyncError then async_error_body op
      else if ao_status op = AsyncSuccess then async_success_body op
      else async_pending_body op)"

definition async_show :: "api_env \<Rightarrow> string \<Rightarrow> reply io" where
  "async_show E i =
     bind (ask_async (GetAsync i)) (\<lambda>x. case x of
       Inl e \<Rightarrow> Ret (if is_not_found e then NotFound E ''async request'' else ServerError E e)
     | Inr op \<Rightarrow> Ret (JSON E 200 (BodyDoc (responseBody op))))"

subsection \<open>Facts\<close>

lemma runs_ask_done [simp]: "runs (ask_done q) es a \<longleftrightarrow> es = [(q, Done a)]"
proof
  assume "runs (ask_done q) es a"
  then obtain r es' where "es = (q, r) # es'" "runs (case r of Done x \<Rightarrow> Ret x | _ \<Rightarrow> Stuck) es' a"
    by (auto simp: ask_done_def)
  then show "es = [(q, Done a)]" by (cases r) auto
qed (auto simp: ask_done_def)

lemma recovered_runs: "runs (recovered m) es (Some a) \<longleftrightarrow> runs m es a"
proof (induction m arbitrary: es)
  case (Call q k)
  then show ?case by auto
qed auto

text \<open>A job settles when it settles or panics: only its answers must be of the right kind.\<close>

primrec answers_only :: "'a io \<Rightarrow> bool" where
  "answers_only (Ret a) = True"
| "answers_only Stuck = True"
| "answers_only (Call q k) = (\<forall>r. answered_kind r = asked_kind q \<longrightarrow> answers_only (k r))"

lemma recovered_settles [settles_rules]: "settles (recovered m)"
  by (induction m) auto

lemma settles_RandomID [settles_rules]: "settles (RandomID p)"
  unfolding RandomID_def by (intro settles_rules; simp)

lemma settles_Enqueue [settles_rules]: "settles Enqueue"
  unfolding Enqueue_def by (intro settles_rules; simp add: asked_kind_def)

lemma settles_finishAsync [settles_rules]: "settles (finishAsync op p e)"
  unfolding finishAsync_def finishAsyncPersistenceError_def by (intro settles_rules; simp add: asked_kind_def)

lemma settles_runAsync [settles_rules]: "settles (runAsync op job)"
  unfolding runAsync_def by (intro settles_rules; simp add: asked_kind_def)

text \<open>The saves of a run that set the operation to a terminal state.\<close>

definition terminal_save :: "string \<Rightarrow> request \<times> answer \<Rightarrow> bool" where
  "terminal_save i e =
     (\<exists>op x. e = (SaveAsync op, Done x) \<and> ao_id op = i \<and> (ao_status op = AsyncSuccess \<or> ao_status op = AsyncError))"

text \<open>How a run ends: with a save of the result or the error that was answered without an error, or with the save of
an error that the store refused.\<close>

definition ends_terminal :: "string \<Rightarrow> history \<Rightarrow> bool" where
  "ends_terminal i es =
     (\<exists>es' op x. es = es' @ [(SaveAsync op, Done x)] \<and> ao_id op = i \<and>
        (ao_status op = AsyncSuccess \<and> x = None \<or> ao_status op = AsyncError))"

lemma finishAsync_ends:
  assumes "runs (finishAsync op p e) es a"
  shows "ends_terminal (ao_id op) es"
proof -
  define op' where "op' = finished op p e"
  have op': "ao_id op' = ao_id op" "ao_status op' = (if e = None then AsyncSuccess else AsyncError)"
    by (auto simp: op'_def finished_def split: option.split)
  obtain x es2 where es: "es = (SaveAsync op', Done x) # es2"
      "runs (case x of None \<Rightarrow> Ret () | Some er \<Rightarrow> finishAsyncPersistenceError op' er) es2 a"
    using assms unfolding finishAsync_def op'_def[symmetric] runs_bind by auto
  show ?thesis
  proof (cases x)
    case None
    with es op' show ?thesis by (auto simp: ends_terminal_def)
  next
    case (Some er)
    show ?thesis
    proof (cases "ao_status op' = AsyncError")
      case True
      with es Some op' show ?thesis by (auto simp: ends_terminal_def finishAsyncPersistenceError_def)
    next
      case False
      with es(2) Some obtain op2 y where "es2 = [(SaveAsync op2, Done y)]" "ao_id op2 = ao_id op" "ao_status op2 = AsyncError"
        by (auto simp: finishAsyncPersistenceError_def runs_bind op')
      with es(1) show ?thesis by (auto simp: ends_terminal_def)
    qed
  qed
qed

lemma runAsync_ends:
  assumes "runs (runAsync op job) es a"
  shows "ends_terminal (ao_id op) es"
proof -
  define op1 where "op1 = op\<lparr>ao_status := AsyncRunning, ao_status_url := asyncStatusURL (ao_id op)\<rparr>"
  obtain x es1 es2 r where es: "es = (SaveAsync op1, Done x) # es1 @ es2"
      "runs (case r of None \<Rightarrow> finishAsync op1 None (Some (api_error_of ''INTERNAL_ERROR'' ''async operation failed unexpectedly'' None))
         | Some (payload, apiErr) \<Rightarrow> finishAsync op1 payload apiErr) es2 a"
    using assms unfolding runAsync_def Let_def op1_def[symmetric] runs_bind by auto
  then obtain p e where "runs (finishAsync op1 p e) es2 a" by (auto split: option.splits prod.splits)
  then have "ends_terminal (ao_id op1) es2" by (rule finishAsync_ends)
  then obtain es' op' y where "es2 = es' @ [(SaveAsync op', Done y)]" "ao_id op' = ao_id op"
      "ao_status op' = AsyncSuccess \<and> y = None \<or> ao_status op' = AsyncError"
    by (auto simp: ends_terminal_def op1_def)
  with es(1) show ?thesis
    unfolding ends_terminal_def by (intro exI[of _ "(SaveAsync op1, Done x) # es1 @ es'"] exI[of _ op'] exI[of _ y]) simp
qed

text \<open>Whatever a job does, panics included, and whatever the store and the runtime answer, its operation comes to an end: the last request of the run saves a success that the store accepts, or an error.\<close>

theorem async_operation_terminates:
  assumes "in_kind env"
  shows "\<exists>es. drive env (runAsync op job) [] = (es, Some ()) \<and> ends_terminal (ao_id op) es"
  using settles_drive[OF settles_runAsync assms, of op job "[]"] runAsync_ends by fastforce

definition demo_operation :: async_operation where
  "demo_operation = \<lparr>ao_id = ''req_1'', ao_status = AsyncQueued, ao_status_url = [], ao_payload = None, ao_error = None,
     ao_created_at = 0, ao_updated_at = 0\<rparr>"

text \<open>An environment that answers every request with an error.\<close>

definition no_build :: build_record where
  "no_build = \<lparr>br_id = 0, br_playground_id = None, br_prop_id = None, br_service_name = [], br_branch = [], br_commit_sha = [],
     br_status = [], br_image_ref = [], br_dockerfile_path = [], br_build_target = [], br_build_args_digest = [],
     br_build_identity_digest = [], br_build_platform = [], br_build_cache_key = [], br_reused = False, br_logs = [],
     br_error_message = None, br_started_at = None, br_completed_at = None, br_created_at = 0, br_updated_at = 0\<rparr>"

definition demo_failing :: environment where
  "demo_failing h q =
     (let e = ErrText ''offline''
      in case asked_kind q of
        KRow \<Rightarrow> Row (Inl e) | KRows \<Rightarrow> Rows (Inl e) | KSwapped \<Rightarrow> Swapped (Inl e) | KDone \<Rightarrow> Done (Some e)
      | KSpec \<Rightarrow> SpecRow (Inl e) | KMarquee \<Rightarrow> MarqueeRow (Inl e) | KClock \<Rightarrow> Clock 0 | KTexts \<Rightarrow> Texts ([], Some e)
      | KObserved \<Rightarrow> Observed ([], Some e) | KHttp \<Rightarrow> Http None | KTicked \<Rightarrow> Ticked TickTimeout | KRandom \<Rightarrow> Random (Inl e)
      | KProp \<Rightarrow> PropRow (Inl e) | KBuild \<Rightarrow> BuildRow (no_build, Some e) | KBuilds \<Rightarrow> BuildRows (Inl e)
      | KCommit \<Rightarrow> Commit (Inl e) | KExists \<Rightarrow> Exists (Inl e) | KBuilt \<Rightarrow> Built (Inl e) | KSpecs \<Rightarrow> SpecRows (Inl e)
      | KCount \<Rightarrow> Counted (Inl e) | KPropRow \<Rightarrow> PropRecord (Inl e) | KPropRows \<Rightarrow> PropRecords (Inl e)
      | KAsync \<Rightarrow> AsyncRow (Inl e) | KRepository \<Rightarrow> Repository (Inl e) | KBranches \<Rightarrow> Branches (Inl e)
      | KOpened \<Rightarrow> Opened (Inl e) | KNames \<Rightarrow> Names (Inl e))"

lemma demo_failing_in_kind: "in_kind demo_failing"
  by (simp add: in_kind_def demo_failing_def Let_def answered_kind_def split: answer_kind.split)

theorem async_operation_terminates_witness:
  "\<exists>es. drive demo_failing (runAsync demo_operation Stuck) [] = (es, Some ()) \<and> ends_terminal ''req_1'' es"
  using async_operation_terminates[OF demo_failing_in_kind, of demo_operation Stuck]
  by (simp add: demo_operation_def)

end
