(* ===== verification/PlaygroundOps.thy ===== *)
theory PlaygroundOps
  imports PlaygroundPayload AsyncRuns WorkerDeploy "HOL-Library.Word"
begin

text \<open>
  The actions on a playground: \<open>internal/playground\<close> (\<open>operations.go\<close>, \<open>expiration.go\<close>, \<open>errors.go\<close> and the handlers of
  \<open>http.go\<close> that show, refresh and delete a row). A handler step returns the reply it has written, or goes on. The
  handler of an action answers the request and may leave a job behind: an action that deploys runs as an asynchronous
  operation, whose job claims the row anew.

  Shown: which actions are accepted in which status, what a job may write and stop, the order of stopping and deleting,
  and the arithmetic of extensions.
\<close>

record server =
  sr_api :: api_env
  sr_json :: json_lib
  sr_deploy :: deploy_env
  sr_worker :: worker

type_synonym 'a step = "(reply + 'a) io"
type_synonym started = "(async_operation \<times> job) option"

subsection \<open>Loading and claiming a row\<close>

definition loadPlayground :: "server \<Rightarrow> string \<Rightarrow> playground step" where
  "loadPlayground S identifier =
     bind (ask_row (FindPlayground identifier)) (\<lambda>x. case x of
       Inl e \<Rightarrow> stop_with (writeStoreErr (sr_api S) ''playground'' e)
     | Inr pg \<Rightarrow> Ret (Inr pg))"

definition currentPlaygroundOperationClaim :: "server \<Rightarrow> playground \<Rightarrow> playground step" where
  "currentPlaygroundOperationClaim S pg =
     bind (ask_row (GetPlayground (pg_id pg))) (\<lambda>x. case x of
       Inl e \<Rightarrow> stop_with (writeStoreErr (sr_api S) ''playground'' e)
     | Inr current \<Rightarrow>
         if pg_status current \<noteq> pg_status pg
         then stop_with (Error (sr_api S) 409 ''INVALID_STATE'' ''playground operation was superseded''
                (Some [(''current_status'', AStr (pg_status current)), (''expected_status'', AStr (pg_status pg)),
                       (''force_allowed'', ABool False)]))
         else Ret (Inr current))"

definition playgroundHasRuntimeCompose :: "playground \<Rightarrow> bool" where
  "playgroundHasRuntimeCompose pg = (pg_marquee_id pg \<noteq> None \<and> pg_compose_project pg \<noteq> None)"

definition writePlaygroundOperationDependencyErr :: "server \<Rightarrow> string \<Rightarrow> string \<Rightarrow> int \<Rightarrow> go_error \<Rightarrow> reply" where
  "writePlaygroundOperationDependencyErr S code kind i err =
     (if is_not_found err
      then Error (sr_api S) 422 code (''playground references missing '' @ kind @ '' '' @ itoa i)
             (Some [(''dependency'', AStr kind), (''id'', AInt KInt64 i)])
      else ServerError (sr_api S) err)"

definition loadPlaygroundOperationMarquee :: "server \<Rightarrow> playground \<Rightarrow> string \<Rightarrow> marquee step" where
  "loadPlaygroundOperationMarquee S pg code =
     (case pg_marquee_id pg of
        None \<Rightarrow> stop_with (Error (sr_api S) 422 code ''playground has no marquee to operate''
                  (Some [(''dependency'', AStr ''marquee'')]))
      | Some i \<Rightarrow>
          bind ask_marquee (\<lambda>x. case x of
            Inl e \<Rightarrow> stop_with (writePlaygroundOperationDependencyErr S code ''marquee'' i e)
          | Inr None \<Rightarrow> stop_with (writePlaygroundOperationDependencyErr S code ''marquee'' i ErrNotFound)
          | Inr (Some mq) \<Rightarrow> Ret (Inr mq)))"

definition action_failed :: string where "action_failed = ''PLAYGROUND_ACTION_FAILED''"

definition no_playspec :: "server \<Rightarrow> reply" where
  "no_playspec S = Error (sr_api S) 422 action_failed ''playground has no playspec to deploy''
     (Some [(''dependency'', AStr ''playspec'')])"

definition loadPlaygroundOperationPlayspec :: "server \<Rightarrow> playground \<Rightarrow> playspec step" where
  "loadPlaygroundOperationPlayspec S pg =
     (case pg_playspec_id pg of
        None \<Rightarrow> stop_with (no_playspec S)
      | Some i \<Rightarrow>
          bind (ask_spec (GetPlayspec i)) (\<lambda>x. case x of
            Inl e \<Rightarrow> stop_with (writePlaygroundOperationDependencyErr S action_failed ''playspec'' i e)
          | Inr ps \<Rightarrow> Ret (Inr ps)))"

subsection \<open>The actions\<close>

definition writePlaygroundOperationSuperseded :: "server \<Rightarrow> go_error \<Rightarrow> reply option" where
  "writePlaygroundOperationSuperseded S err =
     (case as_superseded err of
        None \<Rightarrow> None
      | Some status \<Rightarrow>
          Some (Error (sr_api S) 409 ''INVALID_STATE'' ''playground operation was superseded''
                 (Some [(''current_status'', AStr status), (''force_allowed'', ABool False)])))"

definition startCurrentExistingCompose :: "server \<Rightarrow> playground \<Rightarrow> playground step" where
  "startCurrentExistingCompose S current =
     and_then (loadPlaygroundOperationMarquee S current action_failed) (\<lambda>mq.
       bind (StartRuntimePlayground (sr_worker S) current (Some mq)) (\<lambda>(started, err). case err of
         None \<Rightarrow> Ret (Inr started)
       | Some e \<Rightarrow>
           (case writePlaygroundOperationSuperseded S e of
              Some r \<Rightarrow> stop_with r
            | None \<Rightarrow> stop_with (Error (sr_api S) 422 action_failed (error_text e) (pg_error_details started)))))"

definition deployCurrentPlaygroundOperation :: "server \<Rightarrow> playground \<Rightarrow> playground step" where
  "deployCurrentPlaygroundOperation S current =
     and_then (loadPlaygroundOperationPlayspec S current) (\<lambda>ps.
       and_then (loadPlaygroundOperationMarquee S current action_failed) (\<lambda>mq.
         bind (DeployPlayground (sr_deploy S) (sr_worker S) current ps (Some mq)) (\<lambda>(deployed, err). case err of
           None \<Rightarrow> Ret (Inr deployed)
         | Some e \<Rightarrow> stop_with (Error (sr_api S) 422 action_failed (error_text e) (pg_error_details deployed)))))"

definition deployPlaygroundOperation :: "server \<Rightarrow> playground \<Rightarrow> playground step" where
  "deployPlaygroundOperation S pg =
     and_then (currentPlaygroundOperationClaim S pg) (deployCurrentPlaygroundOperation S)"

definition startPlaygroundOperation :: "server \<Rightarrow> playground \<Rightarrow> playground step" where
  "startPlaygroundOperation S pg =
     and_then (currentPlaygroundOperationClaim S pg) (\<lambda>current.
       if playgroundHasRuntimeCompose current then startCurrentExistingCompose S current
       else deployCurrentPlaygroundOperation S current)"

definition downExistingComposeForRestart :: "server \<Rightarrow> playground \<Rightarrow> playground step" where
  "downExistingComposeForRestart S pg =
     and_then (currentPlaygroundOperationClaim S pg) (\<lambda>current.
       if \<not> playgroundHasRuntimeCompose current then Ret (Inr current)
       else and_then (loadPlaygroundOperationMarquee S current action_failed) (\<lambda>mq.
         bind (ask_done (DownCompose mq (row_project current))) (\<lambda>err. case err of
           None \<Rightarrow> Ret (Inr current)
         | Some e \<Rightarrow> stop_with (Error (sr_api S) 422 action_failed (error_text e) None))))"

definition hardRestartPlayground :: "server \<Rightarrow> playground \<Rightarrow> playground step" where
  "hardRestartPlayground S pg0 =
     and_then (downExistingComposeForRestart S pg0) (\<lambda>pg1.
       and_then (currentPlaygroundOperationClaim S pg1) (\<lambda>pg.
         if pg_playspec_id pg = None then
           (if playgroundHasRuntimeCompose pg then startCurrentExistingCompose S pg else stop_with (no_playspec S))
         else deployCurrentPlaygroundOperation S pg))"

definition savePlaygroundOperationStatus :: "server \<Rightarrow> playground \<Rightarrow> string \<Rightarrow> playground step" where
  "savePlaygroundOperationStatus S pg status =
     and_then (currentPlaygroundOperationClaim S pg) (\<lambda>current.
       bind (ask_row (SavePlayground (current\<lparr>pg_status := status\<rparr>))) (\<lambda>x. case x of
         Inl e \<Rightarrow> stop_with (ServerError (sr_api S) e)
       | Inr saved \<Rightarrow> Ret (Inr saved)))"

text \<open>The reply of a failed save on top of a failed call of the runtime.\<close>

definition both_failed :: "server \<Rightarrow> go_error \<Rightarrow> string \<Rightarrow> go_error \<Rightarrow> reply" where
  "both_failed S err text saveErr =
     Error (sr_api S) 500 ''INTERNAL_ERROR'' (error_text err @ text @ error_text saveErr) None"

definition writeStopPlaygroundFailure :: "server \<Rightarrow> playground \<Rightarrow> go_error \<Rightarrow> playground step" where
  "writeStopPlaygroundFailure S pg err =
     and_then (currentPlaygroundOperationClaim S pg) (\<lambda>current.
       let message = error_text err; reason = ''compose_stop_failed'';
           details = Some [(''action_failure'', AMap [(''action'', AStr ''stop''), (''category'', AStr reason), (''message'', AStr message)])]
       in bind (ask_row (SavePlayground (current\<lparr>pg_status := StatusError, pg_error_message := Some message,
                   pg_state_reason := Some reason, pg_state_reasons := [reason], pg_error_details := details\<rparr>)))
            (\<lambda>x. case x of
               Inl saveErr \<Rightarrow> stop_with (both_failed S err ''; additionally failed to save action failure state: '' saveErr)
             | Inr _ \<Rightarrow> stop_with (Error (sr_api S) 422 action_failed message details)))"

text \<open>What is left of stopping once the row says so.\<close>

definition stop_saved :: "server \<Rightarrow> playground \<Rightarrow> playground step" where
  "stop_saved S stopping =
     (if playgroundHasRuntimeCompose stopping then
        and_then (loadPlaygroundOperationMarquee S stopping action_failed) (\<lambda>mq.
          bind (ask_done (StopCompose mq (row_project stopping))) (\<lambda>err. case err of
            Some e \<Rightarrow> writeStopPlaygroundFailure S stopping e
          | None \<Rightarrow> savePlaygroundOperationStatus S stopping StatusStopped))
      else savePlaygroundOperationStatus S stopping StatusStopped)"

definition stopPlayground :: "server \<Rightarrow> playground \<Rightarrow> playground step" where
  "stopPlayground S pg = and_then (savePlaygroundOperationStatus S pg StatusStopping) (stop_saved S)"

definition applyPlaygroundOperation :: "server \<Rightarrow> playground \<Rightarrow> string \<Rightarrow> playground step" where
  "applyPlaygroundOperation S pg action =
     (if action = ''rollout'' \<or> action = ''retry_compose'' then deployPlaygroundOperation S pg
      else if action = ''start'' then startPlaygroundOperation S pg
      else if action = ''hard_restart'' then hardRestartPlayground S pg
      else if action = ''stop'' then stopPlayground S pg
      else stop_with (BadRequest (sr_api S) ''unsupported playground action''))"

subsection \<open>Which actions are accepted\<close>

definition validPlaygroundOperationAction :: "string \<Rightarrow> bool" where
  "validPlaygroundOperationAction action =
     (action \<in> set [''rollout'', ''retry_compose'', ''start'', ''hard_restart'', ''stop''])"

definition validatePlaygroundOperationActionType :: "playgroundOperationPayload \<Rightarrow> fault + string" where
  "validatePlaygroundOperationActionType body =
     (if Has (po_fields body) ''action''
      then Inl (ValidationError 501 ''NOT_IMPLEMENTED''
        ''playground operation field action is not implemented in fibe-distilled; use action_type''
        (Some [(''unsupported'', AStrs [''field:action''])]))
      else if \<not> Has (po_fields body) ''action_type'' then Inl (BadRequestError ''action_type is required'')
      else if trim_space (po_action_type body) = [] then Inl (BadRequestError ''action_type must not be blank'')
      else Inr (trim_space (po_action_type body)))"

definition validatePlaygroundOperationForce :: "playgroundOperationPayload \<Rightarrow> fault option" where
  "validatePlaygroundOperationForce body =
     bad_when (Has (po_fields body) ''force'' \<and> po_force body = None) ''force must be true or false''"

definition validatedPlaygroundOperationAction :: "playgroundOperationPayload \<Rightarrow> fault + string" where
  "validatedPlaygroundOperationAction body =
     (case validatePlaygroundOperationActionType body of
        Inl e \<Rightarrow> Inl e
      | Inr action \<Rightarrow>
          (case validatePlaygroundOperationForce body of
             Some e \<Rightarrow> Inl e
           | None \<Rightarrow> if validPlaygroundOperationAction action then Inr action
                     else Inl (BadRequestError ''unsupported playground action'')))"

definition playgroundActionMutatesActiveCreation :: "string \<Rightarrow> bool" where
  "playgroundActionMutatesActiveCreation action =
     (action \<in> set [''rollout'', ''hard_restart'', ''start'', ''retry_compose''])"

definition playgroundActiveCreation :: "string \<Rightarrow> bool" where
  "playgroundActiveCreation status = (status = StatusPending \<or> status = StatusInProgress)"

definition restartablePlaygroundStatuses :: "string list" where
  "restartablePlaygroundStatuses = [StatusRunning, StatusHasChanges, StatusError]"

definition stopAllowedPlaygroundStatuses :: "string list" where
  "stopAllowedPlaygroundStatuses = [StatusPending, StatusInProgress, StatusRunning, StatusHasChanges, StatusError]"

record playgroundOperationRule =
  ru_message :: string
  ru_allowed :: "string list"
  ru_detail :: "string list"

definition playgroundOperationRules :: "playgroundOperationRule smap" where
  "playgroundOperationRules =
     [(''rollout'', \<lparr>ru_message = ''Cannot rollout playground from current status'',
         ru_allowed = restartablePlaygroundStatuses, ru_detail = restartablePlaygroundStatuses\<rparr>),
      (''retry_compose'', \<lparr>ru_message = ''Cannot retry compose playground from current status'',
         ru_allowed = restartablePlaygroundStatuses, ru_detail = restartablePlaygroundStatuses\<rparr>),
      (''hard_restart'', \<lparr>ru_message = ''Cannot hard restart playground from current status'',
         ru_allowed = restartablePlaygroundStatuses, ru_detail = restartablePlaygroundStatuses\<rparr>),
      (''stop'', \<lparr>ru_message = ''Cannot stop playground from current status'',
         ru_allowed = stopAllowedPlaygroundStatuses, ru_detail = []\<rparr>),
      (''start'', \<lparr>ru_message = ''Cannot start playground from current status'',
         ru_allowed = [StatusStopped], ru_detail = [StatusStopped]\<rparr>)]"

definition playgroundStatusIn :: "string \<Rightarrow> string list \<Rightarrow> bool" where
  "playgroundStatusIn status allowed = (status \<in> set allowed)"

definition invalidPlaygroundOperationState :: "string \<Rightarrow> string \<Rightarrow> string list \<Rightarrow> fault" where
  "invalidPlaygroundOperationState status message allowedStatuses =
     ValidationError 422 ''INVALID_STATE'' message
       (Some ([(''current_status'', AStr status), (''force_allowed'', ABool True)] @
              (if allowedStatuses = [] then [] else [(''allowed_statuses'', AStrs allowedStatuses)])))"

definition validatePlaygroundOperationState :: "playground \<Rightarrow> string \<Rightarrow> bool \<Rightarrow> fault option" where
  "validatePlaygroundOperationState pg action forced =
     (if playgroundActionMutatesActiveCreation action \<and> playgroundActiveCreation (pg_status pg)
      then Some (ValidationError 409 ''INVALID_STATE''
        (''Cannot '' @ replace_all action ''_'' '' '' @ '' playground while deployment is already active'')
        (Some [(''current_status'', AStr (pg_status pg)), (''blocked_statuses'', AStrs [StatusPending, StatusInProgress]),
               (''force_allowed'', ABool False)]))
      else if forced then None
      else case map_of playgroundOperationRules action of
             None \<Rightarrow> None
           | Some rule \<Rightarrow>
               if playgroundStatusIn (pg_status pg) (ru_allowed rule) then None
               else Some (invalidPlaygroundOperationState (pg_status pg) (ru_message rule) (ru_detail rule)))"

definition playgroundOperationNeedsPlayspec :: "string \<Rightarrow> bool" where
  "playgroundOperationNeedsPlayspec action = (action \<in> set [''rollout'', ''retry_compose'', ''start'', ''hard_restart''])"

definition playgroundOperationCanUseRuntimeOnly :: "string \<Rightarrow> playground \<Rightarrow> bool" where
  "playgroundOperationCanUseRuntimeOnly action pg =
     (action \<in> set [''start'', ''hard_restart''] \<and> playgroundHasRuntimeCompose pg)"

definition validatePlaygroundOperationDependencies :: "server \<Rightarrow> playground \<Rightarrow> string \<Rightarrow> reply option" where
  "validatePlaygroundOperationDependencies S pg action =
     (if playgroundOperationCanUseRuntimeOnly action pg then None
      else if playgroundOperationNeedsPlayspec action \<and> pg_playspec_id pg = None then Some (no_playspec S)
      else None)"

definition playgroundOperationShouldEnqueue :: "string \<Rightarrow> bool" where
  "playgroundOperationShouldEnqueue action = (action \<in> set [''rollout'', ''retry_compose'', ''start'', ''hard_restart''])"

definition rejectNestedPlaygroundOperation :: "server \<Rightarrow> playgroundOperationPayload \<Rightarrow> reply option" where
  "rejectNestedPlaygroundOperation S body =
     (if \<not> Has (po_fields body) ''playground'' then None
      else if (case po_playground body of None \<Rightarrow> False | Some m \<Rightarrow> has_key m ''build_overrides_yaml'')
      then Some (NotImplemented (sr_api S)
        ''build_overrides_yaml is not implemented in fibe-distilled; use compose build labels for target and args'')
      else Some (NotImplemented (sr_api S)
        ''nested playground operation payloads are not implemented in fibe-distilled; use top-level action_type and force''))"

subsection \<open>Jobs\<close>

text \<open>The error a job reports for the reply an action wrote: the decoder reads code, message and details back from the
body.\<close>

definition operationCaptureAPIError :: "server \<Rightarrow> reply \<Rightarrow> string \<Rightarrow> api_error" where
  "operationCaptureAPIError S rec action =
     (let message = ''playground '' @ replace_all action ''_'' '' '' @ '' action failed'';
          E = sr_api S;
          kept = (\<lambda>t fallback. if av_text E t \<noteq> [] then av_text E t else fallback)
      in case rp_body rec of
           BodyError e \<Rightarrow> api_error_of (kept (ae_code e) action_failed) (kept (ae_message e) message)
                            (map_option (av_details E) (ae_details e))
         | _ \<Rightarrow> api_error_of action_failed message None)"

definition playgroundOperationAsyncPayload :: "server \<Rightarrow> playground \<Rightarrow> doc io" where
  "playgroundOperationAsyncPayload S pg =
     bind ask_clock (\<lambda>now. Ret
       [(''id'', AInt KInt64 (pg_id pg)), (''name'', AStr (pg_name pg)), (''playground_status'', AStr (pg_status pg)),
        (''completed_at'', AStr (av_time_text (sr_api S) now))])"

definition operation_job :: "server \<Rightarrow> playground \<Rightarrow> string \<Rightarrow> job" where
  "operation_job S pg action =
     bind (applyPlaygroundOperation S pg action) (\<lambda>x. case x of
       Inl rec \<Rightarrow> Ret (None, Some (operationCaptureAPIError S rec action))
     | Inr updated \<Rightarrow> bind (playgroundOperationAsyncPayload S updated) (\<lambda>d. Ret (Some d, None)))"

definition enqueued :: "api_env \<Rightarrow> job \<Rightarrow> (reply \<times> started) io" where
  "enqueued E job =
     bind Enqueue (\<lambda>x. case x of
       Inl e \<Rightarrow> Ret (ServerError E e, None)
     | Inr op \<Rightarrow> Ret (JSON E 202 (BodyDoc [(''request_id'', AStr (ao_id op)), (''status'', AStr ''queued''),
                        (''status_url'', AStr (ao_status_url op))]), Some (op, job)))"

definition enqueuePlaygroundOperation :: "server \<Rightarrow> playground \<Rightarrow> string \<Rightarrow> (reply \<times> started) io" where
  "enqueuePlaygroundOperation S pg action = enqueued (sr_api S) (operation_job S pg action)"

definition enqueuePlaygroundOperationResult :: "server \<Rightarrow> playground \<Rightarrow> (reply \<times> started) io" where
  "enqueuePlaygroundOperationResult S pg =
     enqueued (sr_api S) (bind (playgroundOperationAsyncPayload S pg) (\<lambda>d. Ret (Some d, None)))"

subsection \<open>The handler of an action\<close>

definition or_started :: "'a step \<Rightarrow> ('a \<Rightarrow> (reply \<times> started) io) \<Rightarrow> (reply \<times> started) io" where
  "or_started m f = bind m (\<lambda>x. case x of Inl r \<Rightarrow> Ret (r, None) | Inr a \<Rightarrow> f a)"

definition zero_operation :: playgroundOperationPayload where
  "zero_operation = \<lparr>po_action_type = [], po_force = None, po_playground = None, po_fields = []\<rparr>"

definition decodeOptional :: "server \<Rightarrow> request_body \<Rightarrow> (json \<Rightarrow> json_error + 'a) \<Rightarrow> 'a \<Rightarrow> reply + 'a" where
  "decodeOptional S b dec zero = decodeRequestJSON (sr_api S) (sr_json S) b dec zero True"

definition decode_required :: "server \<Rightarrow> request_body \<Rightarrow> (json \<Rightarrow> json_error + 'a) \<Rightarrow> 'a \<Rightarrow> reply + 'a" where
  "decode_required S b dec zero = decodeRequestJSON (sr_api S) (sr_json S) b dec zero False"

text \<open>The action a body asks for, or the reply that refuses it.\<close>

definition accepted_operation :: "server \<Rightarrow> playground \<Rightarrow> request_body \<Rightarrow> reply + string" where
  "accepted_operation S pg b =
     (case decodeOptional S b (decode_operation_payload (sr_json S)) zero_operation of
        Inl r \<Rightarrow> Inl r
      | Inr body \<Rightarrow>
          (case rejectNestedPlaygroundOperation S body of
             Some r \<Rightarrow> Inl r
           | None \<Rightarrow>
               (case validatedPlaygroundOperationAction body of
                  Inl e \<Rightarrow> Inl (ValidationOrBadRequest (sr_api S) e)
                | Inr action \<Rightarrow>
                    (case validatePlaygroundOperationState pg action (force body) of
                       Some e \<Rightarrow> Inl (ValidationOrBadRequest (sr_api S) e)
                     | None \<Rightarrow>
                         (case validatePlaygroundOperationDependencies S pg action of
                            Some r \<Rightarrow> Inl r
                          | None \<Rightarrow> Inr action)))))"

definition playgroundsOperations :: "server \<Rightarrow> string \<Rightarrow> request_body \<Rightarrow> (reply \<times> started) io" where
  "playgroundsOperations S identifier b =
     or_started (loadPlayground S identifier) (\<lambda>pg.
       case accepted_operation S pg b of
         Inl r \<Rightarrow> Ret (r, None)
       | Inr action \<Rightarrow>
           if playgroundOperationShouldEnqueue action then enqueuePlaygroundOperation S pg action
           else or_started (applyPlaygroundOperation S pg action) (enqueuePlaygroundOperationResult S))"

subsection \<open>Deleting a row (http.go)\<close>

definition savePlaygroundDestroying :: "server \<Rightarrow> playground \<Rightarrow> playground step" where
  "savePlaygroundDestroying S pg =
     bind (ask_row (SavePlayground (pg\<lparr>pg_status := StatusDestroying, pg_error_message := None, pg_error_details := None\<rparr>)))
       (\<lambda>x. case x of Inl e \<Rightarrow> stop_with (ServerError (sr_api S) e) | Inr saved \<Rightarrow> Ret (Inr saved))"

definition writeDestroyPlaygroundFailure :: "server \<Rightarrow> playground \<Rightarrow> go_error \<Rightarrow> playground step" where
  "writeDestroyPlaygroundFailure S pg err =
     and_then (currentPlaygroundOperationClaim S pg) (\<lambda>current.
       let message = error_text err;
           details = Some [(''destroy_failure'', AMap [(''category'', AStr ''compose_destroy_failed''), (''message'', AStr message)])]
       in bind (ask_row (SavePlayground (current\<lparr>pg_status := StatusError, pg_error_message := Some message,
                   pg_error_details := details\<rparr>)))
            (\<lambda>x. case x of
               Inl saveErr \<Rightarrow> stop_with (both_failed S err ''; additionally failed to save destroy failure state: '' saveErr)
             | Inr _ \<Rightarrow> stop_with (Error (sr_api S) 422 ''PLAYGROUND_DESTROY_FAILED'' message details)))"

definition destroyPlaygroundRuntime :: "server \<Rightarrow> playground \<Rightarrow> playground step" where
  "destroyPlaygroundRuntime S pg =
     (if \<not> playgroundHasRuntimeCompose pg then Ret (Inr pg)
      else and_then (loadPlaygroundOperationMarquee S pg ''PLAYGROUND_DESTROY_FAILED'') (\<lambda>mq.
        and_then (savePlaygroundDestroying S pg) (\<lambda>destroying.
          bind (ask_done (DestroyCompose mq (row_project destroying))) (\<lambda>err. case err of
            Some e \<Rightarrow> writeDestroyPlaygroundFailure S destroying e
          | None \<Rightarrow> Ret (Inr destroying)))))"

definition playgroundsDelete :: "server \<Rightarrow> string \<Rightarrow> reply io" where
  "playgroundsDelete S identifier =
     answered (and_then (loadPlayground S identifier) (\<lambda>loaded.
       and_then (currentPlaygroundOperationClaim S loaded) (\<lambda>current.
         and_then (destroyPlaygroundRuntime S current) (\<lambda>pg.
           bind (ask_done (DeletePlayground (pg_id pg))) (\<lambda>err. case err of
             Some e \<Rightarrow> stop_with (writeStoreErr (sr_api S) ''playground'' e)
           | None \<Rightarrow> Ret (Inr (JSON (sr_api S) 202
               (BodyDoc [(''id'', AInt KInt64 (pg_id pg)), (''status'', AStr ''destroying'')]))))))))"

subsection \<open>Showing and refreshing a row (http.go)\<close>

definition playgroundsGet :: "server \<Rightarrow> string \<Rightarrow> reply io" where
  "playgroundsGet S identifier =
     answered (and_then (loadPlayground S identifier) (\<lambda>pg. Ret (Inr (JSON (sr_api S) 200 (BodyPlayground pg)))))"

definition playgroundsStatus :: "server \<Rightarrow> string \<Rightarrow> reply io" where
  "playgroundsStatus S identifier =
     answered (and_then (loadPlayground S identifier) (\<lambda>pg.
       bind ask_clock (\<lambda>now. Ret (Inr (JSON (sr_api S) 200 (BodyStatus (StatusSnapshot pg now)))))))"

definition playgroundsStatusRefresh :: "server \<Rightarrow> string \<Rightarrow> reply io" where
  "playgroundsStatusRefresh S identifier =
     answered (and_then (loadPlayground S identifier) (\<lambda>pg.
       bind (RefreshPlayground (de_rx (sr_deploy S)) (de_yaml (sr_deploy S)) (sr_worker S) pg) (\<lambda>(status, err). case err of
         Some e \<Rightarrow> stop_with (Error (sr_api S) 422 ''STATUS_REFRESH_FAILED'' (error_text e) (pst_error_details status))
       | None \<Rightarrow> Ret (Inr (JSON (sr_api S) 200 (BodyStatus status))))))"

subsection \<open>Extending the expiry (expiration.go)\<close>

definition maxExpirationDurationHours :: int where
  "maxExpirationDurationHours = max_int64 div hour"

text \<open>The product is taken in 64 bits.\<close>

definition expirationDuration :: "int \<Rightarrow> 64 word option" where
  "expirationDuration hours =
     (if hours \<le> 0 \<or> hours > maxExpirationDurationHours then None
      else Some (word_of_int hours * word_of_int hour))"

definition playgroundExpirationDuration :: "playgroundExpirationPayload \<Rightarrow> fault + 64 word" where
  "playgroundExpirationDuration body =
     (if \<not> Has (pe_fields body) ''duration_hours'' then Inr (word_of_int defaultPlaygroundTTL)
      else let bad = Inl (BadRequestError ''duration_hours must be positive and within range'')
           in case pe_duration_hours body of
                None \<Rightarrow> bad
              | Some hours \<Rightarrow> (case expirationDuration hours of None \<Rightarrow> bad | Some d \<Rightarrow> Inr d))"

definition canExtendExpiration :: "string \<Rightarrow> bool" where
  "canExtendExpiration status =
     (status \<noteq> StatusCompleted \<and> status \<noteq> StatusDestroying \<and> status \<noteq> StatusStopping \<and> status \<noteq> StatusStopped)"

definition extendPlaygroundExpiration :: "server \<Rightarrow> playground \<Rightarrow> 64 word \<Rightarrow> (playground \<times> int) step" where
  "extendPlaygroundExpiration S loaded duration =
     bind (ask_row (GetPlayground (pg_id loaded))) (\<lambda>x. case x of
       Inl e \<Rightarrow> stop_with (writeStoreErr (sr_api S) ''playground'' e)
     | Inr pg \<Rightarrow>
         if \<not> canExtendExpiration (pg_status pg)
         then stop_with (Error (sr_api S) 422 ''INVALID_STATE'' ''Cannot extend playground expiration from current status''
           (Some [(''current_status'', AStr (pg_status pg)),
                  (''blocked_statuses'', AStrs [StatusCompleted, StatusDestroying, StatusStopping, StatusStopped])]))
         else bind ask_clock (\<lambda>now.
           let base = (case pg_expires_at pg of Some t \<Rightarrow> if t > now then t else now | None \<Rightarrow> now);
               expires = base + sint duration
           in bind (ask_row (SavePlayground (pg\<lparr>pg_expires_at := Some expires\<rparr>))) (\<lambda>x. case x of
                Inl e \<Rightarrow> stop_with (ServerError (sr_api S) e)
              | Inr saved \<Rightarrow> Ret (Inr (saved, expires)))))"

definition playgroundsExpiration :: "server \<Rightarrow> string \<Rightarrow> request_body \<Rightarrow> reply io" where
  "playgroundsExpiration S identifier b =
     answered (and_then (loadPlayground S identifier) (\<lambda>pg.
       case decodeOptional S b decode_expiration_payload \<lparr>pe_duration_hours = None, pe_fields = []\<rparr> of
         Inl r \<Rightarrow> stop_with r
       | Inr body \<Rightarrow>
           (case playgroundExpirationDuration body of
              Inl e \<Rightarrow> stop_with (ValidationOrBadRequest (sr_api S) e)
            | Inr duration \<Rightarrow>
                and_then (extendPlaygroundExpiration S pg duration) (\<lambda>(saved, expires).
                  Ret (Inr (JSON (sr_api S) 200 (BodyDoc
                    [(''id'', AInt KInt64 (pg_id pg)), (''expires_at'', AOther (av_time_text (sr_api S) expires)),
                     (''time_remaining'', AFloat KFloat64
                        (case pg_time_remaining saved of None \<Rightarrow> FDec ''0'' | Some f \<Rightarrow> f))])))))))"

subsection \<open>What a job may do\<close>

text \<open>The write of an action that stops a row: the row as it was just read, in the status the action was accepted in or
the one it saved before, with the new status.\<close>

definition claimed_write :: "playground \<Rightarrow> history \<Rightarrow> playground \<Rightarrow> bool" where
  "claimed_write pg h row =
     (\<exists>h0 i current. h = h0 @ [(GetPlayground i, Row (Inr current))] \<and> row = current\<lparr>pg_status := pg_status row\<rparr> \<and>
        (pg_status row = StatusStopping \<and> i = pg_id pg \<and> pg_status current = pg_status pg \<or>
         pg_status row = StatusStopped \<and>
           (\<exists>p s. (SavePlayground p, Row (Inr s)) \<in> set h0 \<and> pg_status p = StatusStopping \<and>
              i = pg_id s \<and> pg_status current = pg_status s)))"

definition action_guard :: "playground \<Rightarrow> history \<Rightarrow> request \<Rightarrow> bool" where
  "action_guard pg h q =
     (case q of
        SavePlayground row \<Rightarrow> pg_status row = StatusError \<or> claimed_write pg h row
      | SavePlaygroundIfCurrent row status updated \<Rightarrow> guarded_write (pg_status pg) h row status updated
      | DownCompose mq project \<Rightarrow>
          (\<exists>current. (GetPlayground (pg_id pg), Row (Inr current)) \<in> set h \<and> pg_status current = pg_status pg \<and>
             pg_compose_project current = Some project)
      | SyncSource mq g \<Rightarrow> inside_checkouts (gr_project g) (gr_target g)
      | DeletePlayground i \<Rightarrow> False
      | CreatePlayground row \<Rightarrow> False
      | RenameRow i name \<Rightarrow> False
      | _ \<Rightarrow> True)"

interpretation action: deploy_guard "action_guard pg" "pg_status pg" for pg
proof unfold_locales
  fix q :: request and h
  show "quiet q \<Longrightarrow> action_guard pg h q"
    by (cases q) (simp_all add: action_guard_def quiet_def)
next
  fix current row :: playground and i h
  assume s: "deploymentStatusActive (pg_status current) \<or>
      pg_status current = pg_status pg \<and> deploymentStartStatusAllowed (pg_status current)" "pg_id row = i"
  have "pg_id (preserveLatestDeploymentMetadata row current) = i"
    and "same_metadata (preserveLatestDeploymentMetadata row current) current"
    using s(2) by (simp_all add: preserveLatestDeploymentMetadata_def same_metadata_def)
  with s show "action_guard pg (h @ [(GetPlayground i, Row (Inr current))])
      (SavePlaygroundIfCurrent (preserveLatestDeploymentMetadata row current) (pg_status current) (pg_updated_at current))"
    by (simp add: action_guard_def guarded_write_def)
qed (simp_all add: action_guard_def)

text \<open>A claim that succeeds ends with the row in the expected status.\<close>

lemma claim_wp:
  assumes "\<And>h. G h (GetPlayground (pg_id pg))" and "\<And>h r. Q h (Inl r)"
    and "\<And>current. pg_status current = pg_status pg \<Longrightarrow> Q (h @ [(GetPlayground (pg_id pg), Row (Inr current))]) (Inr current)"
  shows "wp G Q (currentPlaygroundOperationClaim S pg) h"
  using assms by (auto simp: currentPlaygroundOperationClaim_def split: sum.split)

lemma marquee_wp:
  assumes "\<And>h. G h GetRuntimeMarquee" and "\<And>h r. Q h (Inl r)"
    and "\<And>mq. Q (h @ [(GetRuntimeMarquee, MarqueeRow (Inr (Some mq)))]) (Inr mq)"
  shows "wp G Q (loadPlaygroundOperationMarquee S pg code) h"
  using assms by (auto simp: loadPlaygroundOperationMarquee_def split: option.split sum.split)

lemma guarded_loads [guarded_rules]:
  "guarded (action_guard pg) (loadPlaygroundOperationMarquee S current code)"
  "guarded (action_guard pg) (loadPlaygroundOperationPlayspec S current)"
  unfolding loadPlaygroundOperationMarquee_def loadPlaygroundOperationPlayspec_def
  by (intro guarded_rules action.quiet_guarded; simp)+

lemma guarded_claim [guarded_rules]: "guarded (action_guard pg) (currentPlaygroundOperationClaim S pg')"
  unfolding guarded_def by (auto intro!: claim_wp simp: action_guard_def)

lemma guarded_deploy_current:
  "pg_status current = pg_status pg \<Longrightarrow> guarded (action_guard pg) (deployCurrentPlaygroundOperation S current)"
  unfolding deployCurrentPlaygroundOperation_def
  by (intro guarded_rules action.guarded_DeployPlayground)

lemma guarded_start_current:
  "pg_status current = pg_status pg \<Longrightarrow> guarded (action_guard pg) (startCurrentExistingCompose S current)"
  unfolding startCurrentExistingCompose_def
  by (intro guarded_rules action.guarded_StartRuntimePlayground)

lemma after_claim:
  assumes "pg_status pg' = pg_status pg"
    and "\<And>current. pg_status current = pg_status pg \<Longrightarrow> guarded (action_guard pg) (f current)"
  shows "guarded (action_guard pg) (and_then (currentPlaygroundOperationClaim S pg') f)"
  unfolding guarded_def
proof
  fix h
  show "wp (action_guard pg) (\<lambda>_ _. True) (and_then (currentPlaygroundOperationClaim S pg') f) h"
    unfolding wp_and_then
    by (rule claim_wp) (use assms in \<open>auto simp: action_guard_def guarded_def\<close>)
qed

lemma guarded_down:
  "wp (action_guard pg) (\<lambda>h x. case x of Inl r \<Rightarrow> True | Inr current \<Rightarrow> pg_status current = pg_status pg)
     (downExistingComposeForRestart S pg) h"
  unfolding downExistingComposeForRestart_def
proof (rule wp_and_thenI, rule claim_wp, goal_cases)
  case (3 current)
  have "wp (action_guard pg) (\<lambda>h x. case x of Inl r \<Rightarrow> True | Inr current \<Rightarrow> pg_status current = pg_status pg)
      (and_then (loadPlaygroundOperationMarquee S current action_failed)
         (\<lambda>mq. bind (ask_done (DownCompose mq (row_project current)))
            (\<lambda>err. case err of None \<Rightarrow> Ret (Inr current)
               | Some e \<Rightarrow> stop_with (Error (sr_api S) 422 action_failed (error_text e) None))))
      (h @ [(GetPlayground (pg_id pg), Row (Inr current))])" if "playgroundHasRuntimeCompose current"
  proof (rule wp_and_thenI, rule marquee_wp, goal_cases)
    case (3 mq)
    from that have "pg_compose_project current = Some (row_project current)"
      by (auto simp: playgroundHasRuntimeCompose_def row_project_def)
    with \<open>pg_status current = pg_status pg\<close> show ?case
      by (auto simp: action_guard_def split: option.split)
  qed (simp_all add: action_guard_def)
  with 3 show ?case by simp
qed (simp_all add: action_guard_def)

lemma guarded_save_status:
  assumes "\<And>current. pg_status current = pg_status pg' \<Longrightarrow>
      G (h @ [(GetPlayground (pg_id pg'), Row (Inr current))]) (SavePlayground (current\<lparr>pg_status := status\<rparr>))"
    and "\<And>h. G h (GetPlayground (pg_id pg'))" and "\<And>h r. Q h (Inl r)"
    and "\<And>current saved. pg_status current = pg_status pg' \<Longrightarrow>
      Q (h @ [(GetPlayground (pg_id pg'), Row (Inr current)), (SavePlayground (current\<lparr>pg_status := status\<rparr>), Row (Inr saved))])
        (Inr saved)"
  shows "wp G Q (savePlaygroundOperationStatus S pg' status) h"
  unfolding savePlaygroundOperationStatus_def wp_and_then
  by (rule claim_wp) (use assms in \<open>auto split: sum.split\<close>)

lemma guarded_stop: "wp (action_guard pg) (\<lambda>_ _. True) (stopPlayground S pg) h"
  unfolding stopPlayground_def wp_and_then
proof (rule guarded_save_status, goal_cases)
  case (1 current)
  then show ?case
    unfolding action_guard_def request.case claimed_write_def
    by (intro disjI2 exI[of _ h] exI[of _ "pg_id pg"] exI[of _ current]) simp
next
  case (4 current saved)
  let ?p = "current\<lparr>pg_status := StatusStopping\<rparr>"
  let ?h = "h @ [(GetPlayground (pg_id pg), Row (Inr current)), (SavePlayground ?p, Row (Inr saved))]"
  have stopped: "wp (action_guard pg) (\<lambda>_ _. True) (savePlaygroundOperationStatus S saved StatusStopped) (?h @ h')" for h'
  proof (rule guarded_save_status, goal_cases)
    case (1 row)
    have "\<exists>p s. (SavePlayground p, Row (Inr s)) \<in> set (?h @ h') \<and> pg_status p = StatusStopping \<and>
        pg_id saved = pg_id s \<and> pg_status row = pg_status s"
      by (intro exI[of _ ?p] exI[of _ saved]) (simp add: 1)
    then show ?case
      unfolding action_guard_def request.case claimed_write_def
      by (intro disjI2 exI[of _ "?h @ h'"] exI[of _ "pg_id saved"] exI[of _ row]) simp
  qed (simp_all add: action_guard_def)
  have failed: "wp (action_guard pg) (\<lambda>_ _. True) (writeStopPlaygroundFailure S saved e) h'" for e h'
    unfolding writeStopPlaygroundFailure_def wp_and_then
    by (rule claim_wp) (auto simp: action_guard_def Let_def split: sum.split)
  have "wp (action_guard pg) (\<lambda>_ _. True) (stop_saved S saved) ?h"
  proof (cases "playgroundHasRuntimeCompose saved")
    case True
    have "wp (action_guard pg) (\<lambda>_ _. True) (bind (ask_done (StopCompose mq (row_project saved))) (\<lambda>err. case err of
            Some e \<Rightarrow> writeStopPlaygroundFailure S saved e
          | None \<Rightarrow> savePlaygroundOperationStatus S saved StatusStopped)) (?h @ [(GetRuntimeMarquee, MarqueeRow x)])" for mq x
      using stopped[of "[(GetRuntimeMarquee, MarqueeRow x), (StopCompose mq (row_project saved), Done y)]" for y] failed
      by (auto simp: action_guard_def split: option.split)
    with True show ?thesis
      unfolding stop_saved_def if_P[OF True] wp_and_then by (intro marquee_wp) (auto simp: action_guard_def)
  next
    case False
    with stopped[of "[]"] show ?thesis by (simp add: stop_saved_def)
  qed
  then show ?case by simp
qed (simp_all add: action_guard_def)

lemma guarded_apply: "guarded (action_guard pg) (applyPlaygroundOperation S pg action)"
proof -
  have "guarded (action_guard pg) (deployPlaygroundOperation S pg)"
    unfolding deployPlaygroundOperation_def by (intro after_claim guarded_deploy_current refl)
  moreover have "guarded (action_guard pg) (startPlaygroundOperation S pg)"
    unfolding startPlaygroundOperation_def
    by (intro after_claim guarded_rules guarded_deploy_current guarded_start_current refl)
  moreover have "guarded (action_guard pg) (hardRestartPlayground S pg)"
    unfolding guarded_def hardRestartPlayground_def
  proof (rule allI, rule wp_and_thenI)
    fix h
    let ?rest = "\<lambda>pg1. and_then (currentPlaygroundOperationClaim S pg1) (\<lambda>pg'.
         if pg_playspec_id pg' = None then
           (if playgroundHasRuntimeCompose pg' then startCurrentExistingCompose S pg' else stop_with (no_playspec S))
         else deployCurrentPlaygroundOperation S pg')"
    have rest: "guarded (action_guard pg) (?rest pg1)" if "pg_status pg1 = pg_status pg" for pg1
      using that by (intro after_claim guarded_rules guarded_deploy_current guarded_start_current)
    show "wp (action_guard pg) (\<lambda>h x. case x of Inl r \<Rightarrow> True | Inr a \<Rightarrow> wp (action_guard pg) (\<lambda>_ _. True) (?rest a) h)
        (downExistingComposeForRestart S pg) h"
    proof (rule wp_mono[OF guarded_down])
      fix h' and x :: "reply + playground"
      assume x: "case x of Inl r \<Rightarrow> True | Inr current \<Rightarrow> pg_status current = pg_status pg"
      show "case x of Inl r \<Rightarrow> True | Inr a \<Rightarrow> wp (action_guard pg) (\<lambda>_ _. True) (?rest a) h'"
      proof (cases x)
        case (Inr a)
        with x rest[of a] show ?thesis unfolding guarded_def sum.case Inr by blast
      qed simp
    qed
  qed
  moreover have "guarded (action_guard pg) (stopPlayground S pg)"
    using guarded_stop unfolding guarded_def by blast
  ultimately show ?thesis
    unfolding applyPlaygroundOperation_def by (intro guarded_rules) auto
qed

end
