(* ===== verification/PlaygroundSafety.thy ===== *)
theory PlaygroundSafety
  imports PlaygroundOps
begin

text \<open>
  What the actions on a playground guarantee (\<open>internal/playground\<close>): the claims of jobs, the statuses in which an
  action starts, the order of stopping and of deleting, that accepted operations come to an end, and extensions.
\<close>

subsection \<open>A server for the witnesses\<close>

definition demo_api :: api_env where
  "demo_api = \<lparr>av_marshal = (\<lambda>_. None), av_details = (\<lambda>d. d), av_text = (\<lambda>t. t), av_time_text = (\<lambda>_. ''now''),
     av_rfc3339 = (\<lambda>_. None)\<rparr>"

definition demo_json :: json_lib where
  "demo_json = \<lparr>jl_float = (\<lambda>_. None), jl_syntax_text = ''syntax'', jl_type_text = ''type''\<rparr>"

definition demo_server :: server where
  "demo_server = \<lparr>sr_api = demo_api, sr_json = demo_json, sr_deploy = demo_deploy_env, sr_worker = demo_worker\<rparr>"

definition demo_stop_body :: request_body where
  "demo_stop_body = JsonBody (JObj [(''action_type'', JStr ''stop'')])"

definition demo_start_body :: request_body where
  "demo_start_body = JsonBody (JObj [(''action_type'', JStr ''start'')])"

text \<open>The answers of a stop that goes well.\<close>

definition demo_stop_answers :: "answer list" where
  "demo_stop_answers =
     [Row (Inr demo_row), Row (Inr (demo_row\<lparr>pg_status := StatusStopping\<rparr>)), MarqueeRow (Inr (Some demo_marquee)),
      Done None, Row (Inr (demo_row\<lparr>pg_status := StatusStopping\<rparr>)), Row (Inr (demo_row\<lparr>pg_status := StatusStopped\<rparr>))]"

definition demo_stop :: history where
  "demo_stop = fst (replay (applyPlaygroundOperation demo_server demo_row ''stop'') demo_stop_answers)"

subsection \<open>The claim of a job\<close>



subsection \<open>Which actions start\<close>

text \<open>What a body must say for an action to start on a row.\<close>

definition action_allowed :: "playground \<Rightarrow> string \<Rightarrow> bool \<Rightarrow> bool" where
  "action_allowed pg action forced =
     (action \<in> set [''rollout'', ''retry_compose'', ''start'', ''hard_restart'', ''stop''] \<and>
      (action \<noteq> ''stop'' \<longrightarrow> pg_status pg \<noteq> StatusPending \<and> pg_status pg \<noteq> StatusInProgress) \<and>
      (\<not> forced \<longrightarrow> pg_status pg \<in> set
         (if action = ''start'' then [StatusStopped]
          else if action = ''stop'' then [StatusPending, StatusInProgress, StatusRunning, StatusHasChanges, StatusError]
          else [StatusRunning, StatusHasChanges, StatusError])) \<and>
      (action = ''rollout'' \<or> action = ''retry_compose'' \<longrightarrow> pg_playspec_id pg \<noteq> None) \<and>
      (action = ''start'' \<or> action = ''hard_restart'' \<longrightarrow> pg_playspec_id pg \<noteq> None \<or> playgroundHasRuntimeCompose pg))"

lemmas action_rules = action_allowed_def validatePlaygroundOperationState_def playgroundActionMutatesActiveCreation_def
  playgroundActiveCreation_def validatePlaygroundOperationDependencies_def playgroundOperationCanUseRuntimeOnly_def
  playgroundOperationNeedsPlayspec_def playgroundOperationRules_def playgroundStatusIn_def
  restartablePlaygroundStatuses_def stopAllowedPlaygroundStatuses_def

lemma validated_action:
  "validatedPlaygroundOperationAction body = Inr action \<Longrightarrow> validPlaygroundOperationAction action"
  by (auto simp: validatedPlaygroundOperationAction_def split: sum.splits option.splits if_splits)

lemma accepted_action:
  assumes "accepted_operation S pg b = Inr action"
  shows "\<exists>body. decodeOptional S b (decode_operation_payload (sr_json S)) zero_operation = Inr body \<and>
    action_allowed pg action (force body)"
proof -
  obtain body where body: "decodeOptional S b (decode_operation_payload (sr_json S)) zero_operation = Inr body"
      "validatedPlaygroundOperationAction body = Inr action"
      "validatePlaygroundOperationState pg action (force body) = None"
      "validatePlaygroundOperationDependencies S pg action = None"
    using assms by (auto simp: accepted_operation_def split: sum.splits option.splits)
  from validated_action[OF body(2)]
  have "action \<in> set [''rollout'', ''retry_compose'', ''start'', ''hard_restart'', ''stop'']"
    by (simp add: validPlaygroundOperationAction_def)
  then consider "action = ''rollout''" | "action = ''retry_compose''" | "action = ''start''" | "action = ''hard_restart''"
    | "action = ''stop''"
    by auto
  then have "action_allowed pg action (force body)"
  proof cases
    case 1
    with body(3,4) show ?thesis by (simp add: action_rules split: if_splits)
  next
    case 2
    with body(3,4) show ?thesis by (simp add: action_rules split: if_splits)
  next
    case 3
    with body(3,4) show ?thesis by (simp add: action_rules split: if_splits)
  next
    case 4
    with body(3,4) show ?thesis by (simp add: action_rules split: if_splits)
  next
    case 5
    with body(3,4) show ?thesis by (simp add: action_rules split: if_splits)
  qed
  with body(1) show ?thesis by blast
qed

lemma wp_or_started [simp]:
  "wp G Q (or_started m f) h \<longleftrightarrow> wp G (\<lambda>h x. case x of Inl r \<Rightarrow> Q h (r, None) | Inr a \<Rightarrow> wp G Q (f a) h) m h"
proof -
  have "(\<lambda>h x. wp G Q (case x of Inl r \<Rightarrow> Ret (r, None) | Inr a \<Rightarrow> f a) h) =
        (\<lambda>h x. case x of Inl r \<Rightarrow> Q h (r, None) | Inr a \<Rightarrow> wp G Q (f a) h)"
    by (intro ext) (simp split: sum.split)
  then show ?thesis by (simp add: or_started_def)
qed

lemma wp_loadPlayground:
  "G h (FindPlayground identifier) \<Longrightarrow> (\<And>h r. Q h (Inl r)) \<Longrightarrow>
   (\<And>pg. Q (h @ [(FindPlayground identifier, Row (Inr pg))]) (Inr pg)) \<Longrightarrow> wp G Q (loadPlayground S identifier) h"
  by (auto simp: loadPlayground_def split: sum.split)

text \<open>A guard that only looks at the first event of the history.\<close>

definition started_by :: "server \<Rightarrow> string \<Rightarrow> request_body \<Rightarrow> history \<Rightarrow> bool" where
  "started_by S identifier b h =
     (\<exists>pg action body. h \<noteq> [] \<and> hd h = (FindPlayground identifier, Row (Inr pg)) \<and>
        accepted_operation S pg b = Inr action \<and>
        decodeOptional S b (decode_operation_payload (sr_json S)) zero_operation = Inr body \<and>
        action_allowed pg action (force body))"

lemma wp_first_stays:
  assumes "P (hd h)" and "h \<noteq> []"
  shows "wp (\<lambda>h q. h \<noteq> [] \<and> P (hd h)) (\<lambda>_ _. True) m h"
  using assms by (induction m arbitrary: h) auto

text \<open>C4: Past the lookup of the row, a request for an action does nothing unless the body names one of the five actions and the row that was found admits it: an action that deploys never starts while a creation is active, forced or not; unless forced, the status is one the action allows; and a deployment has a playspec, or at least a runtime to start.\<close>

theorem operations_start_only_when_allowed:
  assumes "trace (playgroundsOperations S identifier b) (es1 @ (q, r) # es2)" and "es1 \<noteq> []"
  shows "\<exists>pg action body. hd es1 = (FindPlayground identifier, Row (Inr pg)) \<and>
    decodeOptional S b (decode_operation_payload (sr_json S)) zero_operation = Inr body \<and>
    action_allowed pg action (force body)"
proof -
  let ?G = "\<lambda>h q. h \<noteq> [] \<longrightarrow> started_by S identifier b h"
  have "wp ?G (\<lambda>_ _. True) (playgroundsOperations S identifier b) []"
    unfolding playgroundsOperations_def wp_or_started
  proof (rule wp_loadPlayground, goal_cases)
    case (3 pg)
    let ?h = "[(FindPlayground identifier, Row (Inr pg))]"
    show ?case
    proof (cases "accepted_operation S pg b")
      case (Inr action)
      with accepted_action[OF Inr] have "started_by S identifier b ?h" by (auto simp: started_by_def)
      then have "wp (\<lambda>h q. h \<noteq> [] \<and> started_by S identifier b [hd h]) (\<lambda>_ _. True) m ?h" for m :: "(reply \<times> started) io"
        by (intro wp_first_stays[of "\<lambda>e. started_by S identifier b [e]"]) simp_all
      then have "wp ?G (\<lambda>_ _. True) m ?h" for m :: "(reply \<times> started) io"
        by (rule wp_guard_mono) (auto simp: started_by_def)
      then show ?thesis using Inr by simp
    qed simp
  qed simp_all
  from wp_trace[OF this assms(1) refl] assms(2) have "started_by S identifier b es1" by simp
  then show ?thesis unfolding started_by_def by blast
qed

theorem operations_start_only_when_allowed_witness:
  "\<exists>pg action body. (FindPlayground ''demo'', Row (Inr demo_row)) = (FindPlayground ''demo'', Row (Inr pg)) \<and>
    decodeOptional demo_server demo_stop_body (decode_operation_payload (sr_json demo_server)) zero_operation = Inr body \<and>
    action_allowed pg action (force body)"
proof -
  let ?run = "replay (playgroundsOperations demo_server ''demo'' demo_stop_body) (Row (Inr demo_row) # demo_stop_answers)"
  have "trace (playgroundsOperations demo_server ''demo'' demo_stop_body) (fst ?run)"
    by (rule replay_trace[OF prod.collapse[symmetric]])
  moreover have "fst ?run = [(FindPlayground ''demo'', Row (Inr demo_row))] @
      (GetPlayground 7, Row (Inr demo_row)) # drop 2 (fst ?run)"
    by code_simp
  ultimately show ?thesis
    using operations_start_only_when_allowed[of demo_server "''demo''" demo_stop_body "[(FindPlayground ''demo'', Row (Inr demo_row))]"]
    by (metis list.sel(1) list.distinct(1))
qed

subsection \<open>The order of stopping\<close>

text \<open>The saves of an action that has stopped a row: first the row says that it is being stopped, then its services
are, then the row says so, all on rows read in the status the previous step left.\<close>

definition stops_in_order :: "playground \<Rightarrow> history \<Rightarrow> playground \<Rightarrow> bool" where
  "stops_in_order pg es saved =
     (\<exists>current stopping es2 last.
        es = [(GetPlayground (pg_id pg), Row (Inr current)),
              (SavePlayground (current\<lparr>pg_status := StatusStopping\<rparr>), Row (Inr stopping))] @ es2 @
             [(GetPlayground (pg_id stopping), Row (Inr last)),
              (SavePlayground (last\<lparr>pg_status := StatusStopped\<rparr>), Row (Inr saved))] \<and>
        pg_status current = pg_status pg \<and> pg_status last = pg_status stopping \<and>
        (if playgroundHasRuntimeCompose stopping
         then \<exists>mq. es2 = [(GetRuntimeMarquee, MarqueeRow (Inr (Some mq))), (StopCompose mq (row_project stopping), Done None)]
         else es2 = []))"

lemma save_status_reports:
  assumes "\<And>current saved. pg_status current = pg_status pg' \<Longrightarrow>
      Q (h @ [(GetPlayground (pg_id pg'), Row (Inr current)), (SavePlayground (current\<lparr>pg_status := status\<rparr>), Row (Inr saved))])
        (Inr saved)"
    and "\<And>h r. Q h (Inl r)"
  shows "wp (\<lambda>_ _. True) Q (savePlaygroundOperationStatus S pg' status) h"
  by (rule guarded_save_status) (use assms in simp_all)

lemma stop_order:
  "wp (\<lambda>_ _. True) (\<lambda>h x. case x of Inl r \<Rightarrow> True | Inr saved \<Rightarrow> stops_in_order pg h saved) (stopPlayground S pg) []"
  unfolding stopPlayground_def
proof (rule wp_and_thenI, rule save_status_reports, goal_cases)
  case (1 current stopping)
  let ?h = "[(GetPlayground (pg_id pg), Row (Inr current)),
              (SavePlayground (current\<lparr>pg_status := StatusStopping\<rparr>), Row (Inr stopping))]"
  let ?Q = "\<lambda>h x. case x of Inl r \<Rightarrow> True | Inr saved \<Rightarrow> stops_in_order pg h saved"
  have last: "wp (\<lambda>_ _. True) ?Q (savePlaygroundOperationStatus S stopping StatusStopped) (?h @ es2)"
    if "if playgroundHasRuntimeCompose stopping
         then \<exists>mq. es2 = [(GetRuntimeMarquee, MarqueeRow (Inr (Some mq))), (StopCompose mq (row_project stopping), Done None)]
         else es2 = []" for es2
  proof (rule save_status_reports, goal_cases)
    case (1 last saved)
    with that \<open>pg_status current = pg_status pg\<close> show ?case
      unfolding sum.case stops_in_order_def
      by (intro exI[of _ current] exI[of _ stopping] exI[of _ es2] exI[of _ last]) simp
  qed simp
  have failed: "wp (\<lambda>_ _. True) ?Q (writeStopPlaygroundFailure S stopping e) h" for e h
    unfolding writeStopPlaygroundFailure_def
    by (rule wp_and_thenI, rule claim_wp) (auto simp: Let_def split: sum.split)
  have "wp (\<lambda>_ _. True) ?Q (stop_saved S stopping) ?h"
  proof (cases "playgroundHasRuntimeCompose stopping")
    case True
    show ?thesis
      unfolding stop_saved_def if_P[OF True]
    proof (rule wp_and_thenI, rule marquee_wp, goal_cases)
      case (3 mq)
      have "wp (\<lambda>_ _. True) ?Q (savePlaygroundOperationStatus S stopping StatusStopped)
          (?h @ [(GetRuntimeMarquee, MarqueeRow (Inr (Some mq))), (StopCompose mq (row_project stopping), Done None)])"
        using True by (intro last) simp
      with failed show ?case by (simp split: option.split)
    qed simp_all
  next
    case False
    with last[of "[]"] show ?thesis by (simp add: stop_saved_def)
  qed
  then show ?case by simp
qed simp

text \<open>A stop that succeeds has done its steps in order: it re-read the row in the status the request accepted, saved it as stopping, took the services down with a call that succeeded (when the row has any), re-read the row in the status it left, and saved it as stopped. So a row never says stopped while its services have not been.\<close>

theorem stop_in_order:
  assumes "runs (applyPlaygroundOperation S pg ''stop'') es (Inr saved)"
  shows "stops_in_order pg es saved"
proof -
  have "runs (stopPlayground S pg) es (Inr saved)"
    using assms by (simp add: applyPlaygroundOperation_def)
  from wp_runs[OF stop_order this] show ?thesis by simp
qed

theorem stop_in_order_witness:
  "stops_in_order demo_row demo_stop (demo_row\<lparr>pg_status := StatusStopped\<rparr>)"
proof -
  have "runs (applyPlaygroundOperation demo_server demo_row ''stop'') demo_stop (Inr (demo_row\<lparr>pg_status := StatusStopped\<rparr>))"
  proof -
    let ?run = "replay (applyPlaygroundOperation demo_server demo_row ''stop'') demo_stop_answers"
    have "case snd ?run of Some (Inr row) \<Rightarrow> row = demo_row\<lparr>pg_status := StatusStopped\<rparr> | _ \<Rightarrow> False"
      by code_simp
    then have "snd ?run = Some (Inr (demo_row\<lparr>pg_status := StatusStopped\<rparr>))"
      by (simp split: option.splits sum.splits)
    then have "?run = (demo_stop, Some (Inr (demo_row\<lparr>pg_status := StatusStopped\<rparr>)))"
      unfolding demo_stop_def by (rule surjective_pairing[THEN trans, OF arg_cong2[where f = Pair, OF refl]])
    then show ?thesis by (rule replay_runs)
  qed
  then show ?thesis by (rule stop_in_order)
qed

subsection \<open>Deleting\<close>

text \<open>What must have happened when a row is deleted.\<close>

definition destroyed_before :: "int \<Rightarrow> history \<Rightarrow> bool" where
  "destroyed_before i es =
     (\<exists>identifier loaded pg rest.
        es = [(FindPlayground identifier, Row (Inr loaded)), (GetPlayground (pg_id loaded), Row (Inr pg))] @ rest \<and>
        pg_status pg = pg_status loaded \<and>
        (if playgroundHasRuntimeCompose pg
         then \<exists>mq saved. i = pg_id saved \<and> rest =
                [(GetRuntimeMarquee, MarqueeRow (Inr (Some mq))),
                 (SavePlayground (pg\<lparr>pg_status := StatusDestroying, pg_error_message := None, pg_error_details := None\<rparr>),
                    Row (Inr saved)),
                 (DestroyCompose mq (row_project saved), Done None)]
         else i = pg_id pg \<and> rest = []))"

definition delete_guard :: "history \<Rightarrow> request \<Rightarrow> bool" where
  "delete_guard h q = (\<forall>i. q = DeletePlayground i \<longrightarrow> destroyed_before i h)"

lemma wp_answered [simp]:
  "wp G Q (answered m) h \<longleftrightarrow> wp G (\<lambda>h x. case x of Inl r \<Rightarrow> Q h r | Inr r \<Rightarrow> Q h r) m h"
proof -
  have "(\<lambda>h (x :: reply + reply). wp G Q (case x of Inl r \<Rightarrow> Ret r | Inr r \<Rightarrow> Ret r) h) =
        (\<lambda>h x. case x of Inl r \<Rightarrow> Q h r | Inr r \<Rightarrow> Q h r)"
    by (intro ext) (simp split: sum.split)
  then show ?thesis by (simp add: answered_def)
qed

lemma destroy_order:
  assumes "\<And>h r. Q h (Inl r)"
    and "\<not> playgroundHasRuntimeCompose pg \<Longrightarrow> Q h (Inr pg)"
    and "\<And>mq saved. playgroundHasRuntimeCompose pg \<Longrightarrow>
      Q (h @ [(GetRuntimeMarquee, MarqueeRow (Inr (Some mq))),
           (SavePlayground (pg\<lparr>pg_status := StatusDestroying, pg_error_message := None, pg_error_details := None\<rparr>),
              Row (Inr saved)),
           (DestroyCompose mq (row_project saved), Done None)]) (Inr saved)"
  shows "wp delete_guard Q (destroyPlaygroundRuntime S pg) h"
proof (cases "playgroundHasRuntimeCompose pg")
  case True
  have failed: "wp delete_guard Q (writeDestroyPlaygroundFailure S pg' e) h" for pg' e h
    unfolding writeDestroyPlaygroundFailure_def
    by (rule wp_and_thenI, rule claim_wp) (auto simp: Let_def delete_guard_def assms(1) split: sum.split)
  have "\<not> \<not> playgroundHasRuntimeCompose pg" using True by simp
  show ?thesis
    unfolding destroyPlaygroundRuntime_def if_not_P[OF \<open>\<not> \<not> playgroundHasRuntimeCompose pg\<close>]
  proof (rule wp_and_thenI, rule marquee_wp, goal_cases)
    case (3 mq)
    from failed assms(1) assms(3)[OF True] show ?case
      by (simp add: savePlaygroundDestroying_def delete_guard_def split: option.split sum.split)
  qed (simp_all add: delete_guard_def assms(1))
next
  case False
  with assms(2) show ?thesis by (simp add: destroyPlaygroundRuntime_def)
qed

lemma delete_order: "wp delete_guard (\<lambda>_ _. True) (playgroundsDelete S identifier) []"
  unfolding playgroundsDelete_def wp_answered
proof (rule wp_and_thenI, rule wp_loadPlayground, goal_cases)
  case (3 loaded)
  show ?case
    unfolding sum.case
  proof (rule wp_and_thenI, rule claim_wp, goal_cases)
    case (3 pg)
    let ?h = "[(FindPlayground identifier, Row (Inr loaded)), (GetPlayground (pg_id loaded), Row (Inr pg))]"
    have "wp delete_guard (\<lambda>_ _. True) (and_then (destroyPlaygroundRuntime S pg) (\<lambda>pg.
       bind (ask_done (DeletePlayground (pg_id pg))) (\<lambda>err. case err of
             Some e \<Rightarrow> stop_with (writeStoreErr (sr_api S) ''playground'' e)
           | None \<Rightarrow> Ret (Inr (JSON (sr_api S) 202
               (BodyDoc [(''id'', AInt KInt64 (pg_id pg)), (''status'', AStr ''destroying'')])))))) ?h"
    proof (rule wp_and_thenI, rule destroy_order, goal_cases)
      case 2
      with 3 have "destroyed_before (pg_id pg) ?h" by (auto simp: destroyed_before_def)
      then show ?case by (simp add: delete_guard_def split: option.split)
    next
      case (3 mq saved)
      let ?rest = "[(GetRuntimeMarquee, MarqueeRow (Inr (Some mq))),
           (SavePlayground (pg\<lparr>pg_status := StatusDestroying, pg_error_message := None, pg_error_details := None\<rparr>),
              Row (Inr saved)),
           (DestroyCompose mq (row_project saved), Done None)]"
      have "destroyed_before (pg_id saved) (?h @ ?rest)"
        unfolding destroyed_before_def
        by (intro exI[of _ "identifier"] exI[of _ loaded] exI[of _ pg] exI[of _ ?rest])
          (use 3 \<open>pg_status pg = pg_status loaded\<close> in auto)
      then show ?case by (simp add: delete_guard_def split: option.split)
    qed simp
    then show ?case by simp
  qed (simp_all add: delete_guard_def)
qed (simp_all add: delete_guard_def)

text \<open>C3: A row is deleted only after its services are gone: the request found and re-read it in one status, and, when it has a runtime, saved it as destroying and tore its project down with a call that succeeded, immediately before; what is deleted is that row. A failed tear-down deletes nothing.\<close>

theorem delete_after_destroy:
  assumes "trace (playgroundsDelete S identifier) (es1 @ (DeletePlayground i, r) # es2)"
  shows "destroyed_before i es1"
  using wp_trace[OF delete_order assms refl] by (simp add: delete_guard_def)

definition demo_delete :: history where
  "demo_delete = fst (replay (playgroundsDelete demo_server ''demo'')
     [Row (Inr demo_row), Row (Inr demo_row), MarqueeRow (Inr (Some demo_marquee)),
      Row (Inr (demo_row\<lparr>pg_status := StatusDestroying\<rparr>)), Done None, Done None])"

theorem delete_after_destroy_witness: "destroyed_before 7 (take 5 demo_delete)"
proof -
  have "trace (playgroundsDelete demo_server ''demo'') demo_delete"
    unfolding demo_delete_def by (rule replay_trace[OF prod.collapse[symmetric]])
  moreover have "demo_delete = take 5 demo_delete @ (DeletePlayground 7, Done None) # []"
    by code_simp
  ultimately show ?thesis using delete_after_destroy by metis
qed

subsection \<open>Accepted operations come to an end\<close>

lemma settles_or_started [settles_rules]: "settles m \<Longrightarrow> (\<And>a. settles (f a)) \<Longrightarrow> settles (or_started m f)"
  unfolding or_started_def by (intro settles_rules)

lemma settles_claim [settles_rules]:
  "settles (loadPlayground S t)"
  "settles (currentPlaygroundOperationClaim S pg)"
  "settles (loadPlaygroundOperationMarquee S pg code)"
  unfolding loadPlayground_def currentPlaygroundOperationClaim_def loadPlaygroundOperationMarquee_def
  by (intro settles_rules; simp add: asked_kind_def)+

lemma settles_stopPlayground [settles_rules]: "settles (stopPlayground S pg)"
  unfolding stopPlayground_def stop_saved_def savePlaygroundOperationStatus_def writeStopPlaygroundFailure_def
  by (intro settles_rules; simp add: asked_kind_def)

text \<open>How an accepted request ends: the operation is stored as queued and announced with the reply.\<close>

lemma enqueued_settles [settles_rules]:
  "settles (enqueued E job)"
  unfolding enqueued_def by (intro settles_rules)

lemma operations_settle: "settles (playgroundsOperations S identifier b)"
proof -
  have "settles (enqueuePlaygroundOperationResult S pg)" for pg
    unfolding enqueuePlaygroundOperationResult_def by (intro settles_rules)
  moreover have "settles (enqueuePlaygroundOperation S pg action)" for pg action
    unfolding enqueuePlaygroundOperation_def by (intro settles_rules)
  moreover have "settles (applyPlaygroundOperation S pg action)" if "\<not> playgroundOperationShouldEnqueue action" for pg action
    using that unfolding applyPlaygroundOperation_def playgroundOperationShouldEnqueue_def
    by (simp add: settles_rules)
  ultimately show ?thesis
    unfolding playgroundsOperations_def by (intro settles_rules) auto
qed


text \<open>An environment in which the row is found and operations can be stored, and nothing else works.\<close>

definition demo_accepting :: environment where
  "demo_accepting h q =
     (case q of
        FindPlayground _ \<Rightarrow> Row (Inr (demo_row\<lparr>pg_status := StatusStopped\<rparr>))
      | CreateAsync _ \<Rightarrow> Done None
      | RandomText \<Rightarrow> Random (Inr ''ab'')
      | _ \<Rightarrow> demo_failing h q)"

lemma demo_accepting_in_kind: "in_kind demo_accepting"
  unfolding in_kind_def
proof (intro allI)
  fix h q
  show "answered_kind (demo_accepting h q) = asked_kind q"
    using demo_failing_in_kind unfolding in_kind_def demo_accepting_def
    by (cases q) (simp_all add: answered_kind_def asked_kind_def)
qed


lemma demo_action_started:
  "case drive demo_accepting (playgroundsOperations demo_server ''demo'' demo_start_body) [] of
     (es, Some (rep, Some (op, job))) \<Rightarrow> rp_status rep = 202 \<and> ao_id op = ''req_6162'' | _ \<Rightarrow> False"
  by code_simp

subsection \<open>Extending the expiry\<close>

lemma hour_value: "hour = 3600000000000"
  by code_simp

lemma expirationDuration_exact:
  "case expirationDuration hours of
     None \<Rightarrow> hours \<le> 0 \<or> max_int64 < hours * hour
   | Some d \<Rightarrow> 0 < hours \<and> sint d = hours * hour"
proof (cases "hours \<le> 0 \<or> hours > maxExpirationDurationHours")
  case True
  then show ?thesis
    by (auto simp: expirationDuration_def maxExpirationDurationHours_def max_int64_def hour_value)
next
  case False
  then have h: "0 < hours" "hours \<le> 2562047"
    by (simp_all add: maxExpirationDurationHours_def max_int64_def hour_value)
  then have b: "- (2 ^ 63) \<le> hours * hour" "hours * hour < 2 ^ 63"
    by (simp_all add: hour_value)
  have "sint (word_of_int (hours * hour) :: 64 word) = hours * hour"
    unfolding sint_sbintrunc' using b by (simp add: signed_take_bit_int_eq_self)
  with False h show ?thesis by (simp add: expirationDuration_def flip: wi_hom_mult)
qed

lemma duration_positive: "playgroundExpirationDuration body = Inr d \<Longrightarrow>
    0 < sint d \<and> (sint d = defaultPlaygroundTTL \<or> (\<exists>hours. pe_duration_hours body = Some hours \<and> sint d = hours * hour))"
proof -
  assume d: "playgroundExpirationDuration body = Inr d"
  show ?thesis
  proof (cases "Has (pe_fields body) ''duration_hours''")
    case False
    with d have "d = word_of_int defaultPlaygroundTTL" by (simp add: playgroundExpirationDuration_def)
    moreover have "sint (word_of_int defaultPlaygroundTTL :: 64 word) = defaultPlaygroundTTL" "0 < defaultPlaygroundTTL"
      by (code_simp, code_simp)
    ultimately show ?thesis by simp
  next
    case True
    with d obtain hours where h: "pe_duration_hours body = Some hours" "expirationDuration hours = Some d"
      by (auto simp: playgroundExpirationDuration_def Let_def split: option.splits)
    with expirationDuration_exact[of hours] have "0 < hours" "sint d = hours * hour" by auto
    with h show ?thesis by (auto simp: hour_value)
  qed
qed

text \<open>What a request that extends a row writes.\<close>

definition extension :: "string \<Rightarrow> history \<Rightarrow> playground \<Rightarrow> bool" where
  "extension identifier es row =
     (\<exists>loaded pg now d.
        es = [(FindPlayground identifier, Row (Inr loaded)), (GetPlayground (pg_id loaded), Row (Inr pg)), (TimeNow, Clock now)] \<and>
        canExtendExpiration (pg_status pg) \<and> 0 < d \<and>
        (d = defaultPlaygroundTTL \<or> (\<exists>hours. d = hours * hour \<and> d \<le> max_int64)) \<and>
        row = pg\<lparr>pg_expires_at := Some (max now (case pg_expires_at pg of Some t \<Rightarrow> t | None \<Rightarrow> now) + d)\<rparr>)"

definition extension_guard :: "string \<Rightarrow> history \<Rightarrow> request \<Rightarrow> bool" where
  "extension_guard identifier h q = (\<forall>row. q = SavePlayground row \<longrightarrow> extension identifier h row)"

lemma extension_writes: "wp (extension_guard identifier) (\<lambda>_ _. True) (playgroundsExpiration S identifier b) []"
  unfolding playgroundsExpiration_def wp_answered
proof (rule wp_and_thenI, rule wp_loadPlayground, goal_cases)
  case (3 loaded)
  have "wp (extension_guard identifier) (\<lambda>_ _. True) (extendPlaygroundExpiration S loaded d)
      [(FindPlayground identifier, Row (Inr loaded))]"
    if d: "playgroundExpirationDuration body = Inr d" for d body
  proof -
    let ?h = "\<lambda>pg now. [(FindPlayground identifier, Row (Inr loaded)), (GetPlayground (pg_id loaded), Row (Inr pg)), (TimeNow, Clock now)]"
    have "extension identifier (?h pg now)
        (pg\<lparr>pg_expires_at := Some ((case pg_expires_at pg of Some t \<Rightarrow> if t > now then t else now | None \<Rightarrow> now) + sint d)\<rparr>)"
      if "canExtendExpiration (pg_status pg)" for pg now
    proof -
      have "sint d \<le> max_int64" using sint_lt[of d] by (simp add: max_int64_def)
      with duration_positive[OF d] have "0 < sint d \<and>
          (sint d = defaultPlaygroundTTL \<or> (\<exists>hours. sint d = hours * hour \<and> sint d \<le> max_int64))" by metis
      moreover have "(case pg_expires_at pg of Some t \<Rightarrow> if t > now then t else now | None \<Rightarrow> now) =
          max now (case pg_expires_at pg of Some t \<Rightarrow> t | None \<Rightarrow> now)"
        by (simp add: max_def split: option.split)
      ultimately show ?thesis
        using that unfolding extension_def
        by (intro exI[of _ loaded] exI[of _ pg] exI[of _ now] exI[of _ "sint d"]) simp
    qed
    then show ?thesis
      by (simp add: extendPlaygroundExpiration_def extension_guard_def Let_def split: sum.split)
  qed
  then have "wp (extension_guard identifier) Q (extendPlaygroundExpiration S loaded d)
      [(FindPlayground identifier, Row (Inr loaded))]"
    if "playgroundExpirationDuration body = Inr d" "\<And>h x. Q h x" for d body Q
    using that by (blast intro: wp_mono)
  then show ?case
    by (simp split: sum.split prod.split)
qed (simp_all add: extension_guard_def)


definition demo_extension :: history where
  "demo_extension = fst (replay (playgroundsExpiration demo_server ''demo'' (JsonBody (JObj [(''duration_hours'', JNum ''2'')])))
     [Row (Inr demo_row), Row (Inr demo_row), Clock 9, Row (Inr demo_row)])"


end
