(* ===== verification/GateTables.thy ===== *)
theory GateTables
  imports ApiRequests Compose GoUnicode Details
begin

text \<open>
  The tables and the payload checks of the compatibility gate: \<open>internal/compatgate\<close> (\<open>registry.go\<close>, \<open>payload_checks.go\<close>,
  \<open>helpers.go\<close>, \<open>strict.go\<close>, \<open>strict_body.go\<close>). The gate decides on a request before any handler sees it.

  The gate reads a body into maps; of several members of one name the last is kept (\<open>last_members\<close>). Numbers stay texts:
  \<open>gl_true\<close> says which of them are numbers other than zero to \<open>strconv.ParseFloat\<close>.
\<close>

record gate_lib =
  gl_true :: "string \<Rightarrow> bool"
  gl_yaml :: yaml_lib

subsection \<open>Items (helpers.go, gate.go)\<close>

record unsupportedItem =
  ui_key :: string
  ui_reason :: string

definition item :: "string \<Rightarrow> string \<Rightarrow> unsupportedItem" where
  "item key reason = \<lparr>ui_key = key, ui_reason = reason\<rparr>"

type_synonym members = "json smap"

fun json_map :: "json \<Rightarrow> members option" where
  "json_map (JObj kvs) = Some (last_members kvs)"
| "json_map _ = None"

definition unwrap :: "members \<Rightarrow> string \<Rightarrow> members" where
  "unwrap body root =
     (case map_of body root of
        None \<Rightarrow> body
      | Some v \<Rightarrow> (case json_map v of None \<Rightarrow> body | Some m \<Rightarrow> m))"

definition appendIfPresent :: "members \<Rightarrow> string \<Rightarrow> string \<Rightarrow> unsupportedItem list" where
  "appendIfPresent payload field reason = (if has_key payload field then [item (''field:'' @ field) reason] else [])"

fun truthyField :: "gate_lib \<Rightarrow> json \<Rightarrow> bool" where
  "truthyField L (JBool b) = b"
| "truthyField L (JStr s) = equal_fold (trim_space s) ''true''"
| "truthyField L (JNum t) = gl_true L t"
| "truthyField L _ = False"

definition appendIfTrue :: "gate_lib \<Rightarrow> members \<Rightarrow> string \<Rightarrow> string \<Rightarrow> unsupportedItem list" where
  "appendIfTrue L payload field reason =
     (case map_of payload field of
        None \<Rightarrow> []
      | Some v \<Rightarrow> if truthyField L v then [item (''field:'' @ field) reason] else [])"

fun stringValue :: "json option \<Rightarrow> string" where
  "stringValue (Some (JStr s)) = trim_space s"
| "stringValue _ = []"

definition excludedGitProviderName :: string where "excludedGitProviderName = ''gitea''"

definition propProviderUnsupportedItem :: "string \<Rightarrow> string \<Rightarrow> unsupportedItem option" where
  "propProviderUnsupportedItem raw pre =
     (let provider = to_lower (trim_space raw)
      in if provider = [] \<or> provider = ''github'' \<or> provider = ''git'' then None
         else if provider = excludedGitProviderName
         then Some (item (pre @ excludedGitProviderName)
           ''this git provider is excluded from fibe-distilled; use provider=github, provider=git, or omit provider'')
         else Some (item (pre @ provider)
           ''this Prop provider is not implemented in fibe-distilled; use provider=github, provider=git, or omit provider''))"

text \<open>Items with the same key keep the order they were found in; the code sorts them with an unstable sort.\<close>

definition sortUnsupported :: "unsupportedItem list \<Rightarrow> unsupportedItem list" where
  "sortUnsupported items = sort_key ui_key items"

subsection \<open>Payload checks (payload\_checks.go)\<close>

definition checkPropBody :: "gate_lib \<Rightarrow> members \<Rightarrow> unsupportedItem list" where
  "checkPropBody L body =
     (let payload = unwrap body ''prop''
      in (case propProviderUnsupportedItem (stringValue (map_of payload ''provider'')) ''field:provider='' of
            Some i \<Rightarrow> [i] | None \<Rightarrow> []) @
         appendIfPresent payload ''credentials'' ''per-Prop credentials are outside fibe-distilled; GitHub access uses the process GITHUB_TOKEN'')"

definition checkPlayspecBody :: "gate_lib \<Rightarrow> members \<Rightarrow> unsupportedItem list" where
  "checkPlayspecBody L body =
     (let payload = unwrap body ''playspec'' in
     appendIfPresent payload ''job_mode'' ''job-mode Playspecs belong to Fibe Tricks and are not implemented in fibe-distilled'' @
     appendIfPresent payload ''target_type'' ''target_type belongs to full-Fibe compose/template and Tricks flows outside fibe-distilled'' @
     appendIfPresent payload ''trigger_config'' ''triggered Playspecs require webhook/provider flows outside fibe-distilled'' @
     appendIfPresent payload ''muti_config'' ''multi-user template interaction is outside fibe-distilled'' @
     appendIfPresent payload ''schedule_config'' ''scheduled Playspec execution is outside fibe-distilled'' @
     appendIfPresent payload ''mounted_files'' ''hosted mounted-file management is outside fibe-distilled'' @
     appendIfPresent payload ''credentials'' ''per-Playspec registry credentials are outside fibe-distilled; use process-level DockerHub credentials'' @
     appendIfPresent payload ''registry_credentials'' ''per-Playspec registry credentials are outside fibe-distilled; use process-level DockerHub credentials'' @
     appendIfPresent payload ''source_template_version_id'' ''template marketplace lineage is outside fibe-distilled'' @
     appendIfTrue L payload ''persist_volumes'' ''fibe-distilled Playgrounds and Playspecs are stateless; persistent-volume Playspec mode is not supported'')"

definition checkLaunchBody :: "gate_lib \<Rightarrow> members \<Rightarrow> unsupportedItem list" where
  "checkLaunchBody L body =
     appendIfPresent body ''job_mode'' ''job-mode launch belongs to Fibe Tricks and is not implemented in fibe-distilled'' @
     appendIfPresent body ''target_type'' ''target_type belongs to full-Fibe compose/template and Tricks flows outside fibe-distilled'' @
     (if stringValue (map_of body ''repository_url'') \<noteq> [] \<and> stringValue (map_of body ''compose_yaml'') = []
      then [item ''field:repository_url''
        ''launch requires caller-supplied compose_yaml; fibe-distilled does not fetch Compose files from repositories'']
      else []) @
     appendIfPresent body ''config_path'' ''repository config-file launch is outside fibe-distilled; send caller-supplied compose_yaml instead'' @
     appendIfPresent body ''github_ref'' ''repository config-ref launch is outside fibe-distilled; send caller-supplied compose_yaml instead'' @
     appendIfPresent body ''apiSubdomain'' ''apiSubdomain is ambiguous and service-name-specific; use service_subdomains keyed by the actual Compose service name'' @
     appendIfPresent body ''frontendSubdomain'' ''frontendSubdomain is ambiguous and service-name-specific; use service_subdomains keyed by the actual Compose service name'' @
     appendIfPresent body ''github_installation_id'' ''GitHub App installations are outside fibe-distilled; use repository_url with the process GITHUB_TOKEN'' @
     appendIfPresent body ''github_account'' ''GitHub App account selection is outside fibe-distilled; use repository_url with the process GITHUB_TOKEN'' @
     appendIfPresent body ''prop_mappings'' ''template Prop mapping/provisioning is outside fibe-distilled; use explicit Compose labels and stored Props'' @
     appendIfPresent body ''template_id'' ''template marketplace launch is outside fibe-distilled; launch from compose_yaml or repository_url'' @
     appendIfPresent body ''template_id_or_name'' ''template marketplace launch is outside fibe-distilled; launch from compose_yaml or repository_url'' @
     appendIfPresent body ''template_version_id'' ''template marketplace launch is outside fibe-distilled; launch from compose_yaml or repository_url'' @
     appendIfPresent body ''template_body'' ''template marketplace launch is outside fibe-distilled; launch from compose_yaml or repository_url'' @
     appendIfPresent body ''import_template_id'' ''template marketplace launch is outside fibe-distilled; launch from compose_yaml or repository_url'' @
     appendIfPresent body ''provision_inputs'' ''managed Git-service provisioning is outside fibe-distilled'' @
     appendIfPresent body ''provision_missing_props'' ''managed Git-service provisioning is outside fibe-distilled'' @
     appendIfTrue L body ''persist_volumes'' ''fibe-distilled Playgrounds and Playspecs are stateless; persistent-volume Playspec mode is not supported'' @
     (case map_of body ''git_provider'' of
        None \<Rightarrow> []
      | Some v \<Rightarrow>
          if equal_fold (stringValue (Some v)) excludedGitProviderName
          then [item (''field:git_provider='' @ excludedGitProviderName) ''this git provider is excluded from fibe-distilled'']
          else [item ''field:git_provider''
            ''launch provider selection is outside fibe-distilled; use repository_url with caller-supplied compose_yaml''])"

definition checkPlaygroundBody :: "gate_lib \<Rightarrow> members \<Rightarrow> unsupportedItem list" where
  "checkPlaygroundBody L body =
     (let payload = unwrap body ''playground'' in
     appendIfPresent payload ''job_mode'' ''job-mode Playgrounds belong to Fibe Tricks and are not implemented in fibe-distilled'' @
     appendIfPresent payload ''target_type'' ''target_type belongs to full-Fibe compose/template and Tricks flows outside fibe-distilled'' @
     appendIfPresent payload ''only_services'' ''job-mode service selectors belong to Fibe Tricks and are not implemented in fibe-distilled'' @
     appendIfPresent payload ''except_services'' ''job-mode service selectors belong to Fibe Tricks and are not implemented in fibe-distilled'' @
     appendIfPresent payload ''build_overrides_yaml'' ''build_overrides_yaml is outside fibe-distilled; use compose build labels for target and args'' @
     appendIfPresent payload ''template_version_id'' ''template switching is outside fibe-distilled'' @
     appendIfPresent payload ''target_template_version_id'' ''template switching is outside fibe-distilled'' @
     appendIfPresent payload ''source_template_version_id'' ''template lineage is outside fibe-distilled'')"

definition checkPlaygroundOperationBody :: "gate_lib \<Rightarrow> members \<Rightarrow> unsupportedItem list" where
  "checkPlaygroundOperationBody L body =
     (let action = stringValue (map_of body ''action_type'')
      in (if action \<in> set [''enable_maintenance'', ''disable_maintenance'']
          then [item (''action:'' @ action) ''maintenance mode is not part of fibe-distilled runtime scope'']
          else if action \<in> set [''switch_template'', ''template_switch'', ''switch_template_version'']
          then [item (''action:'' @ action) ''template switching is outside fibe-distilled'']
          else []) @
     appendIfPresent body ''build_overrides_yaml'' ''build_overrides_yaml is outside fibe-distilled; use compose build labels for target and args'' @
     (if has_key body ''playground''
      then [item ''field:playground''
        ''nested playground operation payloads are outside fibe-distilled; use top-level action_type and force'']
      else []))"

subsection \<open>Field checks (strict.go, strict\_body.go)\<close>

type_synonym nestedFieldChecker = "json \<Rightarrow> string \<Rightarrow> unsupportedItem list"

definition extra_field :: string where
  "extra_field = ''extra JSON field is not part of fibe-distilled'' @ [CHR 0x27] @ ''s supported API contract''"

definition rejectMapFields ::
    "members \<Rightarrow> string list \<Rightarrow> string \<Rightarrow> nestedFieldChecker smap \<Rightarrow> unsupportedItem list" where
  "rejectMapFields ms allowed pre nested =
     concat (map (\<lambda>(key, value).
       if key \<notin> set allowed then [item (pre @ key) extra_field]
       else case map_of nested key of Some check \<Rightarrow> check value (pre @ key) | None \<Rightarrow> []) ms)"

definition exposure_fields :: "string list" where
  "exposure_fields = [''enabled'', ''port'', ''subdomain'', ''visibility'', ''path_rule'']"

definition checkExposureMap :: nestedFieldChecker where
  "checkExposureMap value pre =
     (case json_map value of None \<Rightarrow> [] | Some payload \<Rightarrow> rejectMapFields payload exposure_fields (pre @ ''.'') [])"

definition present_items :: "members \<Rightarrow> string \<Rightarrow> string list \<Rightarrow> string \<Rightarrow> unsupportedItem list" where
  "present_items ms pre keys reason =
     concat (map (\<lambda>key. if has_key ms key then [item (pre @ ''.'' @ key) reason] else []) keys)"

definition checkGitConfigMap :: nestedFieldChecker where
  "checkGitConfigMap value pre =
     (case json_map value of
        None \<Rightarrow> []
      | Some payload \<Rightarrow>
          rejectMapFields payload [''branch_name'', ''base_branch_name'', ''create_branch''] (pre @ ''.'') [] @
          present_items payload pre [''base_branch_name'']
            ''branch creation/rebase helpers are outside fibe-distilled; provide an existing branch_name'' @
          present_items payload pre [''create_branch'']
            ''branch creation helpers are outside fibe-distilled; provide an existing branch_name'')"

fun json_items :: "json \<Rightarrow> json list option" where
  "json_items (JArr xs) = Some xs"
| "json_items _ = None"

definition indexed :: "json list \<Rightarrow> (nat \<times> json) list" where
  "indexed xs = zip [0..<length xs] xs"

definition checkPortMappings :: nestedFieldChecker where
  "checkPortMappings value pre =
     (case json_items value of
        None \<Rightarrow> []
      | Some xs \<Rightarrow>
          concat (map (\<lambda>(idx, raw). case json_map raw of
              None \<Rightarrow> []
            | Some payload \<Rightarrow> rejectMapFields payload [''container'', ''host''] (pre @ ''.'' @ itoa (int idx) @ ''.'') [])
            (indexed xs)))"

definition env_file_reason :: string where
  "env_file_reason =
     ''env-file default resolution is outside fibe-distilled; use explicit launch env overrides or Compose environment values''"

definition rejectUnsupportedServiceOverrideFields :: "members \<Rightarrow> string \<Rightarrow> unsupportedItem list" where
  "rejectUnsupportedServiceOverrideFields override pre =
     present_items override pre [''job_watch'']
       ''job-watch service overrides belong to Fibe Tricks/job-mode Playgrounds and are not implemented in fibe-distilled'' @
     present_items override pre [''env_file_path''] env_file_reason @
     present_items override pre [''zerodowntime'', ''healthcheck_path'', ''healthcheck_interval'', ''healthcheck_timeout'',
         ''healthcheck_retries'', ''healthcheck_start_period'']
       (''zero-downtime and healthcheck override parameters are outside fibe-distilled'' @ [CHR 0x27] @
        ''s stateless runtime scope'')"

definition globalServiceOverrideFields :: "string list" where
  "globalServiceOverrideFields = [''env_vars'']"

definition regularServiceOverrideFields :: "string list" where
  "regularServiceOverrideFields =
     [''subdomain'', ''exposure_visibility'', ''path_rule'', ''start_command'', ''dockerfile_path'',
      ''env_file_path'', ''image'', ''env_vars'', ''auth_password'', ''exposure'', ''git_config'', ''port_mappings'',
      ''repo_url'', ''build_target'', ''build_args'', ''exposure_port'', ''healthcheck_path'', ''healthcheck_interval'',
      ''healthcheck_timeout'', ''healthcheck_retries'', ''healthcheck_start_period'', ''zerodowntime'', ''job_watch'']"

definition serviceOverrideNestedFields :: "nestedFieldChecker smap" where
  "serviceOverrideNestedFields =
     [(''exposure'', checkExposureMap), (''git_config'', checkGitConfigMap), (''port_mappings'', checkPortMappings)]"

definition checkRegularServiceOverrideMap :: "members \<Rightarrow> string \<Rightarrow> unsupportedItem list" where
  "checkRegularServiceOverrideMap override pre =
     rejectMapFields override regularServiceOverrideFields (pre @ ''.'') serviceOverrideNestedFields @
     rejectUnsupportedServiceOverrideFields override pre"

definition checkServiceOverrideEntry :: "string \<Rightarrow> json \<Rightarrow> string \<Rightarrow> unsupportedItem list" where
  "checkServiceOverrideEntry serviceName raw pre =
     (if serviceName = ''_run''
      then [item pre ''services._run belongs to Fibe job-mode Playgrounds and is not implemented in fibe-distilled'']
      else case json_map raw of
             None \<Rightarrow> []
           | Some override \<Rightarrow>
               if serviceName = ''_global'' then rejectMapFields override globalServiceOverrideFields (pre @ ''.'') []
               else checkRegularServiceOverrideMap override pre)"

definition checkServiceOverrideMap :: nestedFieldChecker where
  "checkServiceOverrideMap value pre =
     (case json_map value of
        None \<Rightarrow> []
      | Some services \<Rightarrow>
          concat (map (\<lambda>(name, raw). checkServiceOverrideEntry name raw (pre @ ''.'' @ name)) services))"

definition rejectUnsupportedPlayspecServiceFields :: "members \<Rightarrow> string \<Rightarrow> unsupportedItem list" where
  "rejectUnsupportedPlayspecServiceFields service pre =
     present_items service pre [''prop_id'', ''workdir'', ''workflow'']
       ''dynamic Playspec service classification fields are outside fibe-distilled; declare runtime source/build behavior with Compose build, fibe.gg/repo_url, and fibe.gg/source_mount labels'' @
     present_items service pre [''job_watch'']
       ''job-watch services belong to Fibe Tricks/job-mode Playgrounds and are not implemented in fibe-distilled'' @
     present_items service pre [''env_file_path''] env_file_reason"

definition playspec_service_fields :: "string list" where
  "playspec_service_fields =
     [''name'', ''type'', ''prop_id'', ''workdir'', ''workflow'', ''repo_url'', ''env_file_path'', ''dockerfile_path'',
      ''start_command'', ''build_target'', ''build_args'', ''image'', ''exposure'', ''production'', ''job_watch'']"

definition checkPlayspecServices :: nestedFieldChecker where
  "checkPlayspecServices value pre =
     (case json_items value of
        None \<Rightarrow> []
      | Some xs \<Rightarrow>
          concat (map (\<lambda>(idx, raw). case json_map raw of
              None \<Rightarrow> []
            | Some service \<Rightarrow>
                (let itemPrefix = pre @ ''.'' @ itoa (int idx)
                 in rejectMapFields service playspec_service_fields (itemPrefix @ ''.'') [(''exposure'', checkExposureMap)] @
                    rejectUnsupportedPlayspecServiceFields service itemPrefix))
            (indexed xs)))"

record bodyFieldSpec =
  bs_root :: string
  bs_allowed :: "string list"
  bs_nested :: "nestedFieldChecker smap"

definition strictBodyFieldSpecs :: "bodyFieldSpec smap" where
  "strictBodyFieldSpecs =
     [(''props:create'', \<lparr>bs_root = ''prop'',
          bs_allowed = [''repository_url'', ''name'', ''private'', ''default_branch'', ''provider'', ''credentials''],
          bs_nested = []\<rparr>),
      (''props:update'', \<lparr>bs_root = ''prop'',
          bs_allowed = [''repository_url'', ''name'', ''private'', ''default_branch'', ''provider'', ''credentials''],
          bs_nested = []\<rparr>),
      (''playspecs:create'', \<lparr>bs_root = ''playspec'',
          bs_allowed = [''name'', ''description'', ''base_compose_yaml'', ''persist_volumes'', ''job_mode'', ''target_type'', ''services'',
           ''trigger_config'', ''muti_config'', ''schedule_config'', ''mounted_files'', ''credentials'', ''registry_credentials'',
           ''source_template_version_id''],
          bs_nested = [(''services'', checkPlayspecServices)]\<rparr>),
      (''playspecs:update'', \<lparr>bs_root = ''playspec'',
          bs_allowed = [''name'', ''description'', ''base_compose_yaml'', ''persist_volumes'', ''job_mode'', ''target_type'', ''services'',
           ''trigger_config'', ''muti_config'', ''schedule_config'', ''mounted_files'', ''credentials'', ''registry_credentials'',
           ''source_template_version_id''],
          bs_nested = [(''services'', checkPlayspecServices)]\<rparr>),
      (''repo_status_checks:check'', \<lparr>bs_root = [],
          bs_allowed = [''github_urls''],
          bs_nested = []\<rparr>),
      (''launches:create'', \<lparr>bs_root = [],
          bs_allowed = [''compose_yaml'', ''name'', ''repository_url'', ''job_mode'', ''target_type'', ''marquee_id'', ''create_playground'',
           ''persist_volumes'', ''env_overrides'', ''variables'', ''service_subdomains'', ''apiSubdomain'', ''frontendSubdomain'', ''services'',
           ''config_path'', ''github_ref'', ''github_installation_id'', ''github_account'', ''prop_mappings'', ''template_id'',
           ''template_id_or_name'', ''template_version_id'', ''template_body'', ''import_template_id'', ''provision_inputs'',
           ''provision_missing_props'', ''git_provider''],
          bs_nested = [(''services'', checkServiceOverrideMap)]\<rparr>),
      (''playgrounds:create'', \<lparr>bs_root = ''playground'',
          bs_allowed = [''name'', ''playspec_id'', ''marquee_id'', ''expires_at'', ''never_expire'', ''env_overrides'', ''services'', ''job_mode'',
           ''target_type'', ''only_services'', ''except_services'', ''build_overrides_yaml'', ''template_version_id'',
           ''target_template_version_id'', ''source_template_version_id''],
          bs_nested = [(''services'', checkServiceOverrideMap)]\<rparr>),
      (''playgrounds:update'', \<lparr>bs_root = ''playground'',
          bs_allowed = [''name'', ''playspec_id'', ''marquee_id'', ''expires_at'', ''never_expire'', ''env_overrides'', ''services'', ''job_mode'',
           ''target_type'', ''only_services'', ''except_services'', ''build_overrides_yaml'', ''template_version_id'',
           ''target_template_version_id'', ''source_template_version_id''],
          bs_nested = [(''services'', checkServiceOverrideMap)]\<rparr>),
      (''playgrounds:logs'', \<lparr>bs_root = [],
          bs_allowed = [''service'', ''tail''],
          bs_nested = []\<rparr>),
      (''playgrounds:operation'', \<lparr>bs_root = [],
          bs_allowed = [''action_type'', ''force'', ''build_overrides_yaml'', ''playground''],
          bs_nested = []\<rparr>),
      (''playgrounds:expiration'', \<lparr>bs_root = [],
          bs_allowed = [''duration_hours''],
          bs_nested = []\<rparr>)]"

subsection \<open>The registry (registry.go)\<close>

record operationSpec =
  os_operation :: string
  os_check :: "(gate_lib \<Rightarrow> members \<Rightarrow> unsupportedItem list) option"

record routeSpec =
  rs_segments :: "string list"
  rs_resource :: string
  rs_methods :: "operationSpec smap"

record unsupportedRoute =
  ur_segments :: "string list"
  ur_methods :: "string list"
  ur_resource :: string
  ur_operation :: string
  ur_reason :: string
  ur_supported :: "string list"

record unsupportedSurface =
  us_resource :: string
  us_operation :: string
  us_reason :: string
  us_supported :: "string list"

definition surface :: "string \<Rightarrow> string \<Rightarrow> string \<Rightarrow> string \<Rightarrow> string \<times> unsupportedSurface" where
  "surface name resource operation reason =
     (name, \<lparr>us_resource = resource, us_operation = operation, us_reason = reason, us_supported = []\<rparr>)"

definition configuredMarqueeReason :: string where
  "configuredMarqueeReason =
     ''fibe-distilled uses one startup-configured local Marquee from FIBE_ROOT_DOMAIN, FIBE_ACME_EMAIL, and optional FIBE_BUILD_PLATFORM; the runtime is the local /var/run/docker.sock plus /opt/fibe, HTTPS is always enabled, and per-Marquee Docker credential changes are unavailable''"

definition supportedMarqueeDiscovery :: "string list" where
  "supportedMarqueeDiscovery = [''GET /api/marquees'', ''GET /api/marquees/:id'']"

definition routes :: "routeSpec list" where
  "routes =
     [\<lparr>rs_segments = [''me''], rs_resource = ''auth'',
        rs_methods = [(''GET'', \<lparr>os_operation = ''me'', os_check = None\<rparr>)]\<rparr>,
      \<lparr>rs_segments = [''status''], rs_resource = ''status'',
        rs_methods = [(''GET'', \<lparr>os_operation = ''status'', os_check = None\<rparr>)]\<rparr>,
      \<lparr>rs_segments = [''server-info''], rs_resource = ''server-info'',
        rs_methods = [(''GET'', \<lparr>os_operation = ''show'', os_check = None\<rparr>)]\<rparr>,
      \<lparr>rs_segments = [''async_requests'', '':id''], rs_resource = ''async_requests'',
        rs_methods = [(''GET'', \<lparr>os_operation = ''show'', os_check = None\<rparr>)]\<rparr>,
      \<lparr>rs_segments = [''marquees''], rs_resource = ''marquees'',
        rs_methods = [(''GET'', \<lparr>os_operation = ''list'', os_check = None\<rparr>)]\<rparr>,
      \<lparr>rs_segments = [''marquees'', '':identifier''], rs_resource = ''marquees'',
        rs_methods = [(''GET'', \<lparr>os_operation = ''show'', os_check = None\<rparr>)]\<rparr>,
      \<lparr>rs_segments = [''props''], rs_resource = ''props'',
        rs_methods = [(''GET'', \<lparr>os_operation = ''list'', os_check = None\<rparr>),
           (''POST'', \<lparr>os_operation = ''create'', os_check = Some checkPropBody\<rparr>)]\<rparr>,
      \<lparr>rs_segments = [''props'', '':identifier''], rs_resource = ''props'',
        rs_methods = [(''GET'', \<lparr>os_operation = ''show'', os_check = None\<rparr>),
           (''PATCH'', \<lparr>os_operation = ''update'', os_check = Some checkPropBody\<rparr>),
           (''DELETE'', \<lparr>os_operation = ''delete'', os_check = None\<rparr>)]\<rparr>,
      \<lparr>rs_segments = [''props'', '':identifier'', ''branches''], rs_resource = ''props'',
        rs_methods = [(''GET'', \<lparr>os_operation = ''branches'', os_check = None\<rparr>)]\<rparr>,
      \<lparr>rs_segments = [''props'', '':identifier'', ''syncs''], rs_resource = ''props'',
        rs_methods = [(''POST'', \<lparr>os_operation = ''sync'', os_check = None\<rparr>)]\<rparr>,
      \<lparr>rs_segments = [''repo_status_checks''], rs_resource = ''repo_status_checks'',
        rs_methods = [(''POST'', \<lparr>os_operation = ''check'', os_check = None\<rparr>)]\<rparr>,
      \<lparr>rs_segments = [''playspecs''], rs_resource = ''playspecs'',
        rs_methods = [(''GET'', \<lparr>os_operation = ''list'', os_check = None\<rparr>),
           (''POST'', \<lparr>os_operation = ''create'', os_check = Some checkPlayspecBody\<rparr>)]\<rparr>,
      \<lparr>rs_segments = [''playspecs'', '':identifier''], rs_resource = ''playspecs'',
        rs_methods = [(''GET'', \<lparr>os_operation = ''show'', os_check = None\<rparr>),
           (''PATCH'', \<lparr>os_operation = ''update'', os_check = Some checkPlayspecBody\<rparr>),
           (''DELETE'', \<lparr>os_operation = ''delete'', os_check = None\<rparr>)]\<rparr>,
      \<lparr>rs_segments = [''playspecs'', '':identifier'', ''services''], rs_resource = ''playspecs'',
        rs_methods = [(''GET'', \<lparr>os_operation = ''services'', os_check = None\<rparr>)]\<rparr>,
      \<lparr>rs_segments = [''launches''], rs_resource = ''launches'',
        rs_methods = [(''POST'', \<lparr>os_operation = ''create'', os_check = Some checkLaunchBody\<rparr>)]\<rparr>,
      \<lparr>rs_segments = [''playgrounds''], rs_resource = ''playgrounds'',
        rs_methods = [(''GET'', \<lparr>os_operation = ''list'', os_check = None\<rparr>),
           (''POST'', \<lparr>os_operation = ''create'', os_check = Some checkPlaygroundBody\<rparr>)]\<rparr>,
      \<lparr>rs_segments = [''playgrounds'', '':identifier''], rs_resource = ''playgrounds'',
        rs_methods = [(''GET'', \<lparr>os_operation = ''show'', os_check = None\<rparr>),
           (''PATCH'', \<lparr>os_operation = ''update'', os_check = Some checkPlaygroundBody\<rparr>),
           (''DELETE'', \<lparr>os_operation = ''delete'', os_check = None\<rparr>)]\<rparr>,
      \<lparr>rs_segments = [''playgrounds'', '':identifier'', ''status''], rs_resource = ''playgrounds'',
        rs_methods = [(''GET'', \<lparr>os_operation = ''status'', os_check = None\<rparr>),
           (''POST'', \<lparr>os_operation = ''status_refresh'', os_check = None\<rparr>)]\<rparr>,
      \<lparr>rs_segments = [''playgrounds'', '':identifier'', ''logs''], rs_resource = ''playgrounds'',
        rs_methods = [(''POST'', \<lparr>os_operation = ''logs'', os_check = None\<rparr>)]\<rparr>,
      \<lparr>rs_segments = [''playgrounds'', '':identifier'', ''operations''], rs_resource = ''playgrounds'',
        rs_methods = [(''POST'', \<lparr>os_operation = ''operation'', os_check = Some checkPlaygroundOperationBody\<rparr>)]\<rparr>,
      \<lparr>rs_segments = [''playgrounds'', '':identifier'', ''expiration''], rs_resource = ''playgrounds'',
        rs_methods = [(''POST'', \<lparr>os_operation = ''expiration'', os_check = None\<rparr>)]\<rparr>]"

definition unsupportedRoutes :: "unsupportedRoute list" where
  "unsupportedRoutes =
     [\<lparr>ur_segments = [''compose_validations''], ur_methods = [], ur_resource = ''compose_validations'', ur_operation = ''validate'',
        ur_reason = ''public Compose validation is outside fibe-distilled; Playspec, Launch, and runtime writes validate Compose internally'',
        ur_supported = []\<rparr>,
      \<lparr>ur_segments = [''marquees''], ur_methods = [''POST''], ur_resource = ''marquees'', ur_operation = ''create'',
        ur_reason = configuredMarqueeReason,
        ur_supported = supportedMarqueeDiscovery\<rparr>,
      \<lparr>ur_segments = [''marquees'', '':identifier''], ur_methods = [''PATCH''], ur_resource = ''marquees'', ur_operation = ''update'',
        ur_reason = configuredMarqueeReason,
        ur_supported = supportedMarqueeDiscovery\<rparr>,
      \<lparr>ur_segments = [''marquees'', '':identifier''], ur_methods = [''DELETE''], ur_resource = ''marquees'', ur_operation = ''delete'',
        ur_reason = configuredMarqueeReason,
        ur_supported = supportedMarqueeDiscovery\<rparr>,
      \<lparr>ur_segments = [''marquees'', '':identifier'',
           ''connection_tests''], ur_methods = [], ur_resource = ''marquees'', ur_operation = ''connection_test'',
        ur_reason = configuredMarqueeReason,
        ur_supported = [''startup performs local Docker, Compose, /opt/fibe, and Traefik checks'']\<rparr>,
      \<lparr>ur_segments = [''marquees'', '':identifier'',
           ''ssh_keys''], ur_methods = [], ur_resource = ''marquees'', ur_operation = ''ssh_key_generation'',
        ur_reason = configuredMarqueeReason,
        ur_supported = [''external host keys are not managed; fibe-distilled manages the local Docker host mounted into the container'']\<rparr>,
      \<lparr>ur_segments = [''props'', ''attachments''], ur_methods = [''POST''], ur_resource = ''props'', ur_operation = ''attach'',
        ur_reason = ''GitHub App repository attachment is outside fibe-distilled; create a Prop with repository_url and the process GITHUB_TOKEN'',
        ur_supported = []\<rparr>,
      \<lparr>ur_segments = [''props'', '':identifier'', ''sync''], ur_methods = [''POST''], ur_resource = ''props'', ur_operation = ''sync'',
        ur_reason = ''the Fibe API Prop sync route is /api/props/:id/syncs; fibe-distilled does not expose the web/UI singular sync alias'',
        ur_supported = [''POST /api/props/:id/syncs'']\<rparr>,
      \<lparr>ur_segments = [''props'', '':identifier'', ''env_defaults''], ur_methods = [], ur_resource = ''props'', ur_operation = ''env_defaults'',
        ur_reason = ''fibe-distilled does not fetch env files from GitHub; provide explicit launch env overrides or Compose environment values'',
        ur_supported = [''GET /api/props/:id/branches'', ''POST /api/props/:id/syncs'']\<rparr>,
      \<lparr>ur_segments = [''props'', ''mirrors''], ur_methods = [''POST''], ur_resource = ''props'', ur_operation = ''mirror'',
        ur_reason = ''managed repository mirroring/provisioning is outside fibe-distilled; create a Prop from an existing git repository URL'',
        ur_supported = []\<rparr>,
      \<lparr>ur_segments = [''playspecs'', '':identifier'',
           ''template_switch_previews''], ur_methods = [], ur_resource = ''playspecs'', ur_operation = ''template_switch_preview'',
        ur_reason = ''template marketplace and template-version switching are outside fibe-distilled runtime scope'',
        ur_supported = []\<rparr>,
      \<lparr>ur_segments = [''playspecs'', '':identifier'',
           ''template_switches''], ur_methods = [], ur_resource = ''playspecs'', ur_operation = ''template_switch'',
        ur_reason = ''template marketplace and template-version switching are outside fibe-distilled runtime scope'',
        ur_supported = []\<rparr>,
      \<lparr>ur_segments = [''playspecs'', '':identifier'', ''mounts''], ur_methods = [], ur_resource = ''playspecs'', ur_operation = ''mounted_files'',
        ur_reason = ''hosted mounted-file management is outside fibe-distilled runtime scope'',
        ur_supported = []\<rparr>,
      \<lparr>ur_segments = [''playspecs'', '':identifier'',
           ''registry_credentials''], ur_methods = [], ur_resource = ''playspecs'', ur_operation = ''registry_credentials'',
        ur_reason = ''fibe-distilled uses process-level DockerHub credentials instead of per-Playspec registry credentials'',
        ur_supported = []\<rparr>,
      \<lparr>ur_segments = [''playgrounds'', '':identifier'',
           ''compose''], ur_methods = [], ur_resource = ''playgrounds'', ur_operation = ''compose'',
        ur_reason = ''public generated-Compose inspection is outside fibe-distilled; generated Compose remains internal runtime state'',
        ur_supported = []\<rparr>,
      \<lparr>ur_segments = [''playgrounds'', '':identifier'', ''debug''], ur_methods = [], ur_resource = ''playgrounds'', ur_operation = ''debug'',
        ur_reason = ''public debug inspection is outside fibe-distilled; use status, logs, and stored error details'',
        ur_supported = []\<rparr>,
      \<lparr>ur_segments = [''playgrounds'', '':identifier'',
           ''env_metadata''], ur_methods = [], ur_resource = ''playgrounds'', ur_operation = ''env_metadata'',
        ur_reason = ''public environment metadata inspection is outside fibe-distilled; use Playground service and env fields from supported resource responses'',
        ur_supported = []\<rparr>,
      \<lparr>ur_segments = [''playgrounds'', '':identifier'', ''template_switches''], ur_methods = [], ur_resource = ''playgrounds'', ur_operation = ''template_switch'',
        ur_reason = ''template marketplace and brownfield template switching are outside fibe-distilled runtime scope'',
        ur_supported = []\<rparr>]"

definition unsupportedSurfaces :: "unsupportedSurface smap" where
  "unsupportedSurfaces =
     [surface ''agent_defaults'' ''agents'' ''defaults''
        ''this resource family is outside fibe-distilled minimal scope'',
      surface ''agents'' ''agents'' ''api''
        ''this resource family is outside fibe-distilled minimal scope'',
      surface ''api_keys'' ''api_keys'' ''crud''
        ''fibe-distilled uses one startup bearer token and does not manage API keys'',
      surface ''artefacts'' ''artefacts'' ''api''
        ''artefact APIs are outside fibe-distilled minimal scope'',
      surface ''audit_logs'' ''audit_logs'' ''list''
        ''multi-tenant audit logging is outside fibe-distilled minimal scope'',
      surface ''autoconnect_tokens'' ''marquees'' ''autoconnect_token''
        configuredMarqueeReason,
      surface ''billing'' ''billing'' ''api''
        ''billing is outside fibe-distilled minimal scope'',
      surface ''categories'' ''templates'' ''categories''
        ''template marketplace categories are outside fibe-distilled minimal scope'',
      surface ''checkout_sessions'' ''billing'' ''checkout''
        ''billing is outside fibe-distilled minimal scope'',
      surface ''events'' ''events'' ''monitor''
        ''live monitor/event stream APIs are outside fibe-distilled minimal scope'',
      surface ''feedbacks'' ''feedbacks'' ''api''
        ''feedback APIs are outside fibe-distilled minimal scope'',
      surface ''gitea'' ''gitea'' ''api''
        ''this git provider is excluded from fibe-distilled'',
      surface ''gitea_repositories'' ''gitea'' ''repositories''
        ''this git provider is excluded from fibe-distilled'',
      surface ''github_apps'' ''github_apps'' ''api''
        ''GitHub App and OAuth flows are outside fibe-distilled; use the process GITHUB_TOKEN'',
      surface ''github_repositories'' ''github_repositories'' ''discovery''
        ''GitHub App repository discovery is outside fibe-distilled; use repository_url and GITHUB_TOKEN'',
      surface ''github_token'' ''github_token'' ''installation_token''
        ''GitHub App installation tokens are outside fibe-distilled; use the process GITHUB_TOKEN'',
      surface ''greenfields'' ''greenfields'' ''create''
        ''managed greenfield provisioning and templates are outside fibe-distilled minimal scope'',
      surface ''import_template_versions'' ''templates'' ''versions''
        ''Bazaar/import-template flows are outside fibe-distilled minimal scope'',
      surface ''import_templates'' ''templates'' ''api''
        ''Bazaar/import-template flows are outside fibe-distilled minimal scope'',
      surface ''installations'' ''installations'' ''api''
        ''GitHub App installations are outside fibe-distilled; use repository_url and GITHUB_TOKEN'',
      surface ''job_env'' ''job_env'' ''api''
        ''fibe-distilled does not manage global job environment secrets'',
      surface ''job_envs'' ''job_env'' ''api''
        ''fibe-distilled does not manage global job environment secrets'',
      surface ''memories'' ''memories'' ''api''
        ''memory APIs are outside fibe-distilled minimal scope'',
      surface ''monitors'' ''monitors'' ''api''
        ''monitoring surfaces are outside fibe-distilled minimal scope'',
      surface ''mutters'' ''mutters'' ''api''
        ''mutter APIs are outside fibe-distilled minimal scope'',
      surface ''oauth'' ''oauth'' ''api''
        ''OAuth flows are outside fibe-distilled minimal scope'',
      surface ''players'' ''players'' ''api''
        ''multi-user account lifecycle is outside fibe-distilled minimal scope'',
      surface ''secrets'' ''secrets'' ''api''
        ''secret management is outside fibe-distilled minimal scope'',
      surface ''subscriptions'' ''billing'' ''subscriptions''
        ''billing is outside fibe-distilled minimal scope'',
      surface ''teams'' ''teams'' ''api''
        ''teams and multi-tenancy are outside fibe-distilled minimal scope'',
      surface ''template_categories'' ''templates'' ''categories''
        ''template marketplace categories are outside fibe-distilled minimal scope'',
      surface ''template_sources'' ''templates'' ''sources''
        ''template source publishing is outside fibe-distilled minimal scope'',
      surface ''template_versions'' ''templates'' ''versions''
        ''template marketplace versions are outside fibe-distilled minimal scope'',
      surface ''templates'' ''templates'' ''api''
        ''template marketplace APIs are outside fibe-distilled minimal scope'',
      surface ''tricks'' ''tricks'' ''api''
        ''Fibe Tricks/job-mode Playgrounds are outside fibe-distilled scope'',
      surface ''webhook_deliveries'' ''webhooks'' ''deliveries''
        ''webhook delivery is outside fibe-distilled minimal scope'',
      surface ''webhook_endpoints'' ''webhooks'' ''endpoints''
        ''webhook endpoints are outside fibe-distilled minimal scope'',
      surface ''webhook_event_types'' ''webhooks'' ''event_types''
        ''webhooks are outside fibe-distilled minimal scope'',
      surface ''webhooks'' ''webhooks'' ''api''
        ''webhooks are outside fibe-distilled minimal scope'']"

end
