(* ===== verification/CompatGate.thy ===== *)
theory CompatGate
  imports GateTables
begin

text \<open>
  The compatibility gate: \<open>internal/compatgate\<close> (\<open>gate.go\<close>, \<open>body.go\<close>, \<open>strict.go\<close>, \<open>strict_body.go\<close>, \<open>strict_query.go\<close>,
  \<open>compose_payload.go\<close>). It lets a request through, or answers it with what of it is not supported.

  A request is what the gate looks at: method, path, parsed query, length, and the body as the JSON decoder reads it.
\<close>

subsection \<open>Requests\<close>

text \<open>\<open>Stream n b\<close> is a body of \<open>n\<close> bytes that reads as \<open>b\<close>; \<open>NoStream\<close> is \<open>http.NoBody\<close>.\<close>

datatype body_stream = NilStream | NoStream | Stream int request_body | BrokenStream

record http_request =
  hq_method :: string
  hq_path :: string
  hq_query :: "string list smap"
  hq_length :: int
  hq_chunked :: bool
  hq_stream :: body_stream

subsection \<open>Bodies (body.go, helpers.go)\<close>

definition maxJSONBodyBytes :: int where "maxJSONBodyBytes = 16 * 1024 * 1024"

record bodyInspection =
  bi_body :: members
  bi_parsed :: bool
  bi_tooLarge :: bool

definition not_inspected :: bodyInspection where
  "not_inspected = \<lparr>bi_body = [], bi_parsed = False, bi_tooLarge = False\<rparr>"

definition methodMayHaveBody :: "string \<Rightarrow> bool" where
  "methodMayHaveBody meth = (meth \<in> set [''POST'', ''PUT'', ''PATCH''])"

fun decodeJSONMap :: "request_body \<Rightarrow> members option" where
  "decodeJSONMap (JsonBody (JObj kvs)) = Some (last_members kvs)"
| "decodeJSONMap (JsonBody JNull) = Some []"
| "decodeJSONMap _ = None"

definition inspectableJSONBody :: "http_request \<Rightarrow> bodyInspection" where
  "inspectableJSONBody r =
     (if \<not> methodMayHaveBody (hq_method r) then not_inspected
      else case hq_stream r of
             NilStream \<Rightarrow> not_inspected
           | s \<Rightarrow>
               if hq_length r > maxJSONBodyBytes then not_inspected\<lparr>bi_tooLarge := True\<rparr>
               else (case s of
                       Stream n b \<Rightarrow>
                         if n = 0 then not_inspected
                         else if n > maxJSONBodyBytes then not_inspected\<lparr>bi_tooLarge := True\<rparr>
                         else (case decodeJSONMap b of
                                 None \<Rightarrow> not_inspected
                               | Some m \<Rightarrow> not_inspected\<lparr>bi_body := m, bi_parsed := True\<rparr>)
                     | _ \<Rightarrow> not_inspected))"

definition requestBodyPresent :: "http_request \<Rightarrow> bool" where
  "requestBodyPresent r =
     (hq_length r > 0 \<or> hq_chunked r \<or>
      hq_length r < 0 \<and> hq_stream r \<noteq> NilStream \<and> hq_stream r \<noteq> NoStream)"

subsection \<open>Queries (strict.go, strict\_query.go)\<close>

definition route_key :: "routeSpec \<Rightarrow> operationSpec \<Rightarrow> string" where
  "route_key route op = rs_resource route @ '':'' @ os_operation op"

definition rejectQueryPresence :: "string list smap \<Rightarrow> string \<Rightarrow> string \<Rightarrow> unsupportedItem list" where
  "rejectQueryPresence q key reason = (if has_key q key then [item (''query:'' @ key) reason] else [])"

definition query_first :: "string list smap \<Rightarrow> string \<Rightarrow> string" where
  "query_first q key = (case map_of q key of Some (v # _) \<Rightarrow> v | _ \<Rightarrow> [])"

definition rejectTruthyQuery :: "string list smap \<Rightarrow> string \<Rightarrow> string \<Rightarrow> unsupportedItem list" where
  "rejectTruthyQuery q key reason =
     (if has_key q key \<and> to_lower (trim_space (query_first q key)) \<in> set [''true'', ''1'']
      then [item (''query:'' @ key) reason] else [])"

definition unsupportedPropProviderQuery :: "string list smap \<Rightarrow> unsupportedItem list" where
  "unsupportedPropProviderQuery q =
     concat (map (\<lambda>provider. case propProviderUnsupportedItem provider ''query:provider='' of Some i \<Rightarrow> [i] | None \<Rightarrow> [])
       (case map_of q ''provider'' of Some vs \<Rightarrow> vs | None \<Rightarrow> []))"

definition unsupportedQueryForOperation :: "string \<Rightarrow> string list smap \<Rightarrow> unsupportedItem list" where
  "unsupportedQueryForOperation operation q =
     (if operation = ''props:list'' then unsupportedPropProviderQuery q
      else if operation = ''playspecs:list''
      then rejectTruthyQuery q ''job_mode'' ''job-mode Playspec filtering belongs to Fibe Tricks and is not implemented in fibe-distilled''
      else if operation = ''playgrounds:list''
      then rejectTruthyQuery q ''job_mode'' ''job-mode Playground filtering belongs to Fibe Tricks and is not implemented in fibe-distilled'' @
           rejectQueryPresence q ''result_status'' ''JobResult filtering belongs to Fibe Tricks and is not implemented in fibe-distilled''
      else [])"

definition allowedQueryFields :: "routeSpec \<Rightarrow> operationSpec \<Rightarrow> string list" where
  "allowedQueryFields route op =
     (let listCommon = [''q'', ''name'', ''sort'', ''created_after'', ''created_before'', ''page'', ''per_page''];
          key = route_key route op
      in if key = ''marquees:list'' then listCommon @ [''status'']
         else if key = ''props:list'' then listCommon @ [''status'', ''provider'', ''private'']
         else if key = ''playspecs:list'' then listCommon @ [''job_mode'', ''locked'']
         else if key = ''playgrounds:list''
         then listCommon @ [''status'', ''job_mode'', ''playspec_id'', ''marquee_id'', ''result_status'']
         else if key = ''props:branches'' then [''query'', ''limit'']
         else [])"

definition contract_text :: "string \<Rightarrow> string \<Rightarrow> string" where
  "contract_text a b = a @ '' fibe-distilled'' @ [CHR 0x27] @ ''s supported API contract'' @ b"

definition rejectRepeatedQuery :: "http_request \<Rightarrow> unsupportedItem list" where
  "rejectRepeatedQuery r =
     sortUnsupported (concat (map (\<lambda>(key, values). if length values > 1
       then [item (''query:'' @ key @ ''[]'') (contract_text ''query parameters in'' '' must be supplied at most once'')] else [])
       (hq_query r)))"

definition rejectUnknownQuery :: "http_request \<Rightarrow> string list \<Rightarrow> unsupportedItem list" where
  "rejectUnknownQuery r allowed =
     sortUnsupported (concat (map (\<lambda>(key, _). if key \<notin> set allowed
       then [item (''query:'' @ key) (contract_text ''extra query parameter is not part of'' [])] else []) (hq_query r)))"

definition rejectUnsupportedQuery :: "http_request \<Rightarrow> routeSpec \<Rightarrow> operationSpec \<Rightarrow> unsupportedItem list" where
  "rejectUnsupportedQuery r route op = sortUnsupported (unsupportedQueryForOperation (route_key route op) (hq_query r))"

subsection \<open>Fields of the body (strict\_body.go)\<close>

definition operationMayHaveBody :: "routeSpec \<Rightarrow> operationSpec \<Rightarrow> bool" where
  "operationMayHaveBody route op =
     (route_key route op \<in> set
        [''props:create'', ''props:update'', ''repo_status_checks:check'', ''playspecs:create'', ''playspecs:update'',
         ''launches:create'', ''playgrounds:create'', ''playgrounds:update'', ''playgrounds:logs'',
         ''playgrounds:operation'', ''playgrounds:expiration''])"

definition rejectUnexpectedBody :: "http_request \<Rightarrow> routeSpec \<Rightarrow> operationSpec \<Rightarrow> unsupportedItem list" where
  "rejectUnexpectedBody r route op =
     (if \<not> requestBodyPresent r \<or> operationMayHaveBody route op then []
      else [item ''body'' (contract_text ''request body is not part of'' '' for this operation'')])"

definition strictBodyFieldSpec :: "routeSpec \<Rightarrow> operationSpec \<Rightarrow> bodyFieldSpec" where
  "strictBodyFieldSpec route op =
     (case map_of strictBodyFieldSpecs (route_key route op) of
        Some spec \<Rightarrow> spec
      | None \<Rightarrow> \<lparr>bs_root = [], bs_allowed = [], bs_nested = []\<rparr>)"

definition rejectWrappedBodyFields ::
    "members \<Rightarrow> string \<Rightarrow> string list \<Rightarrow> nestedFieldChecker smap \<Rightarrow> unsupportedItem list" where
  "rejectWrappedBodyFields body root allowed nested =
     sortUnsupported (concat (map (\<lambda>(key, _). if key \<noteq> root
         then [item (''field:'' @ key)
           (contract_text ''extra top-level JSON field is not part of'' (''; wrap payload fields under '' @ root))] else []) body) @
       (case map_of body root of
          None \<Rightarrow> []
        | Some raw \<Rightarrow> (case json_map raw of None \<Rightarrow> [] | Some payload \<Rightarrow> rejectMapFields payload allowed ''field:'' nested)))"

definition rejectRawBodyFields :: "members \<Rightarrow> string list \<Rightarrow> nestedFieldChecker smap \<Rightarrow> unsupportedItem list" where
  "rejectRawBodyFields body allowed nested = sortUnsupported (rejectMapFields body allowed ''field:'' nested)"

definition rejectUnknownBodyFields :: "routeSpec \<Rightarrow> operationSpec \<Rightarrow> members \<Rightarrow> unsupportedItem list" where
  "rejectUnknownBodyFields route op body =
     (let spec = strictBodyFieldSpec route op
      in if bs_root spec \<noteq> [] then rejectWrappedBodyFields body (bs_root spec) (bs_allowed spec) (bs_nested spec)
         else rejectRawBodyFields body (bs_allowed spec) (bs_nested spec))"

definition checkStrictRequest ::
    "http_request \<Rightarrow> routeSpec \<Rightarrow> operationSpec \<Rightarrow> members \<Rightarrow> bool \<Rightarrow> unsupportedItem list" where
  "checkStrictRequest r route op body bodyParsed =
     rejectUnexpectedBody r route op @ rejectRepeatedQuery r @ rejectUnknownQuery r (allowedQueryFields route op) @
     rejectUnsupportedQuery r route op @
     (if bodyParsed then rejectUnknownBodyFields route op body else [])"

subsection \<open>Compose payloads (compose\_payload.go)\<close>

definition unsupportedComposeLabelReason :: "string \<Rightarrow> string" where
  "unsupportedComposeLabelReason key =
     (if key = ''fibe.gg/env_file'' then env_file_reason
      else if key = ''fibe.gg/job_watch''
      then ''fibe.gg/job_watch belongs to Fibe Tricks/job-mode Playgrounds and is not implemented in fibe-distilled''
      else if key \<in> set [''fibe.gg/zerodowntime'', ''fibe.gg/healthcheck_path'', ''fibe.gg/healthcheck_interval'',
           ''fibe.gg/healthcheck_timeout'', ''fibe.gg/healthcheck_retries'', ''fibe.gg/healthcheck_start_period'']
      then ''zero-downtime and healthcheck labels are outside fibe-distilled'' @ [CHR 0x27] @ ''s stateless runtime scope''
      else [])"

definition unsupportedComposeLabelItems :: "string \<Rightarrow> string \<Rightarrow> any \<Rightarrow> unsupportedItem list" where
  "unsupportedComposeLabelItems field serviceName rawLabels =
     concat (map (\<lambda>(key, _). let reason = unsupportedComposeLabelReason key
       in if reason \<noteq> [] then [item (field @ ''.services.'' @ serviceName @ ''.labels.'' @ key) reason] else [])
       (NormalizeLabels rawLabels))"

text \<open>What is found in each service that is a map.\<close>

definition in_each_service :: "(string \<Rightarrow> doc \<Rightarrow> unsupportedItem list) \<Rightarrow> doc \<Rightarrow> unsupportedItem list" where
  "in_each_service f d =
     (case as_map (any_at d ''services'') of
        None \<Rightarrow> []
      | Some services \<Rightarrow> concat (map (\<lambda>(name, raw). case as_map raw of None \<Rightarrow> [] | Some service \<Rightarrow> f name service) services))"

definition unsupportedComposeServiceFields :: "string \<Rightarrow> doc \<Rightarrow> unsupportedItem list" where
  "unsupportedComposeServiceFields field =
     in_each_service (\<lambda>name service. if has_key service ''env_file''
       then [item (field @ ''.services.'' @ name @ ''.env_file'')
         ''Compose env_file is outside fibe-distilled because fibe-distilled does not fetch or upload env files; use explicit launch env_overrides or Compose environment values'']
       else [])"

definition unsupportedComposeServiceLabels :: "string \<Rightarrow> doc \<Rightarrow> unsupportedItem list" where
  "unsupportedComposeServiceLabels field =
     in_each_service (\<lambda>name service. unsupportedComposeLabelItems field name (any_at service ''labels''))"

definition unsupportedXFibeKeys :: "string list" where
  "unsupportedXFibeKeys = [''job_mode'', ''trigger_config'', ''schedule_config'', ''muti_config'']"

definition unsupportedXFibeReasons :: "string smap" where
  "unsupportedXFibeReasons =
     (let settings = ''scheduled, triggered, and multi-user template execution settings are outside fibe-distilled''
      in [(''job_mode'', ''job-mode templates belong to Fibe Tricks and are not implemented in fibe-distilled''),
          (''trigger_config'', settings), (''schedule_config'', settings), (''muti_config'', settings)])"

definition unsupportedXFibeKeyItems :: "string \<Rightarrow> doc \<Rightarrow> unsupportedItem list" where
  "unsupportedXFibeKeyItems pre ms =
     concat (map (\<lambda>key. if has_key ms key then [item (pre @ key) (str_at unsupportedXFibeReasons key)] else [])
       unsupportedXFibeKeys)"

definition gateXFibeMetadataToggles :: "string \<Rightarrow> doc \<Rightarrow> unsupportedItem list" where
  "gateXFibeMetadataToggles field metadata =
     concat (map (\<lambda>(key, reason). if map_of metadata key = Some (ABool True)
         then [item (field @ ''.x-fibe.gg.metadata.'' @ key) reason] else [])
       [(''preserve_ports'', ''preserving raw Compose host ports is outside fibe-distilled; fibe-distilled always strips service ports so Traefik owns routed exposure''),
        (''source_defaults'', ''source-default auto-fill belongs to full-Fibe source-backed template imports'')])"

definition unsupportedXFibeFeatures :: "string \<Rightarrow> doc \<Rightarrow> unsupportedItem list" where
  "unsupportedXFibeFeatures field xFibe =
     unsupportedXFibeKeyItems (field @ ''.x-fibe.gg.'') xFibe @
     (case as_map (any_at xFibe ''metadata'') of
        None \<Rightarrow> []
      | Some metadata \<Rightarrow>
          unsupportedXFibeKeyItems (field @ ''.x-fibe.gg.metadata.'') metadata @
          gateXFibeMetadataToggles field metadata)"

definition unsupportedComposeFeatures :: "gate_lib \<Rightarrow> string \<Rightarrow> string \<Rightarrow> unsupportedItem list" where
  "unsupportedComposeFeatures L field composeYAML =
     (case y_map (gl_yaml L) composeYAML of
        Inl e \<Rightarrow> []
      | Inr m \<Rightarrow>
          (let d = (case m of None \<Rightarrow> [] | Some d \<Rightarrow> d)
           in (case as_map (any_at d ''x-fibe.gg'') of None \<Rightarrow> [] | Some x \<Rightarrow> unsupportedXFibeFeatures field x) @
              unsupportedComposeServiceFields field d @ unsupportedComposeServiceLabels field d))"

definition playspecComposePayload :: "routeSpec \<Rightarrow> operationSpec \<Rightarrow> bool" where
  "playspecComposePayload route op =
     (rs_resource route = ''playspecs'' \<and> (os_operation op = ''create'' \<or> os_operation op = ''update''))"

definition launchComposePayload :: "routeSpec \<Rightarrow> operationSpec \<Rightarrow> bool" where
  "launchComposePayload route op = (rs_resource route = ''launches'' \<and> os_operation op = ''create'')"

definition wrappedStringField :: "members \<Rightarrow> string \<Rightarrow> string \<Rightarrow> string" where
  "wrappedStringField body wrapper field = stringValue (map_of (unwrap body wrapper) field)"

definition composePayloadField :: "routeSpec \<Rightarrow> operationSpec \<Rightarrow> members \<Rightarrow> string \<times> string" where
  "composePayloadField route op body =
     (if playspecComposePayload route op
      then (''field:base_compose_yaml'', wrappedStringField body ''playspec'' ''base_compose_yaml'')
      else if launchComposePayload route op then (''field:compose_yaml'', stringValue (map_of body ''compose_yaml''))
      else ([], []))"

definition composePayloads :: "routeSpec \<Rightarrow> operationSpec \<Rightarrow> members \<Rightarrow> string smap" where
  "composePayloads route op body =
     (case composePayloadField route op body of (field, value) \<Rightarrow> if value = [] then [] else [(field, value)])"

definition checkUnsupportedComposePayloads ::
    "gate_lib \<Rightarrow> routeSpec \<Rightarrow> operationSpec \<Rightarrow> members \<Rightarrow> bool \<Rightarrow> unsupportedItem list" where
  "checkUnsupportedComposePayloads L route op body bodyParsed =
     (if \<not> bodyParsed then []
      else sortUnsupported (concat (map (\<lambda>(field, yaml). unsupportedComposeFeatures L field yaml)
             (composePayloads route op body))))"

subsection \<open>Decisions (gate.go)\<close>

record Decision =
  dc_allowed :: bool
  dc_status :: int
  dc_code :: string
  dc_message :: string
  dc_details :: doc

definition allowed_decision :: Decision where
  "allowed_decision = \<lparr>dc_allowed = True, dc_status = 0, dc_code = [], dc_message = [], dc_details = []\<rparr>"

definition shape_decision :: "int \<Rightarrow> APIErrorShape \<Rightarrow> Decision" where
  "shape_decision status s =
     \<lparr>dc_allowed = False, dc_status = status, dc_code = sh_code s, dc_message = sh_message s, dc_details = sh_details s\<rparr>"

definition payloadTooLargeDecision :: "http_request \<Rightarrow> string \<Rightarrow> string \<Rightarrow> Decision" where
  "payloadTooLargeDecision r resource operation =
     shape_decision 413 (PayloadTooLargeShape (hq_method r) (hq_path r) resource operation maxJSONBodyBytes)"

definition unsupportedMethodDecision :: "http_request \<Rightarrow> routeSpec \<Rightarrow> string list \<Rightarrow> Decision" where
  "unsupportedMethodDecision r route supported =
     shape_decision 501 (UnsupportedMethodShape (hq_method r) (hq_path r) (rs_resource route) supported)"

definition unsupportedSurfaceDecision ::
    "http_request \<Rightarrow> string \<Rightarrow> string \<Rightarrow> string \<Rightarrow> string list \<Rightarrow> Decision" where
  "unsupportedSurfaceDecision r resource operation reason supported =
     shape_decision 501 (UnsupportedSurfaceShape (hq_method r) (hq_path r) resource operation reason supported)"

definition unsupportedItemsDecision ::
    "http_request \<Rightarrow> string \<Rightarrow> string \<Rightarrow> unsupportedItem list \<Rightarrow> string list \<Rightarrow> Decision" where
  "unsupportedItemsDecision r resource operation items supported =
     shape_decision 501 (UnsupportedItemsShape (hq_method r) (hq_path r) resource operation (map ui_key items)
       (filter (\<lambda>reason. reason \<noteq> []) (map ui_reason items)) supported)"

definition supportedMethods :: "operationSpec smap \<Rightarrow> string list" where
  "supportedMethods ms = sort (map fst ms)"

definition supportedPlaygroundActions :: "string list" where
  "supportedPlaygroundActions = [''hard_restart'', ''retry_compose'', ''rollout'', ''start'', ''stop'']"

definition supportedOperations :: "routeSpec \<Rightarrow> operationSpec \<Rightarrow> string list" where
  "supportedOperations route op =
     (if rs_resource route = ''playgrounds'' \<and> os_operation op = ''operation'' then supportedPlaygroundActions else [])"

definition apiSegments :: "string \<Rightarrow> string list" where
  "apiSegments path =
     (let p = trim_right_set ''/'' (trim_left_set ''/'' (trim_prefix path ''/api/''))
      in if p = [] then [] else split_char (CHR ''/'') p)"

definition matchSegments :: "string list \<Rightarrow> string list \<Rightarrow> bool" where
  "matchSegments pattern actual =
     list_all2 (\<lambda>part value. if has_prefix part '':'' then value \<noteq> [] else part = value) pattern actual"

definition matchUnsupportedRoute :: "unsupportedRoute \<Rightarrow> string \<Rightarrow> string list \<Rightarrow> bool" where
  "matchUnsupportedRoute route meth segments =
     (matchSegments (ur_segments route) segments \<and> (ur_methods route = [] \<or> meth \<in> set (ur_methods route)))"

definition checkSupportedRoute :: "gate_lib \<Rightarrow> http_request \<Rightarrow> routeSpec \<Rightarrow> Decision" where
  "checkSupportedRoute L r route =
     (case map_of (rs_methods route) (hq_method r) of
        None \<Rightarrow> unsupportedMethodDecision r route (supportedMethods (rs_methods route))
      | Some op \<Rightarrow>
          (let inspection = inspectableJSONBody r;
               strict = checkStrictRequest r route op (bi_body inspection) (bi_parsed inspection);
               compose = checkUnsupportedComposePayloads L route op (bi_body inspection) (bi_parsed inspection);
               reject = unsupportedItemsDecision r (rs_resource route) (os_operation op)
           in if bi_tooLarge inspection then payloadTooLargeDecision r (rs_resource route) (os_operation op)
              else if strict \<noteq> [] then reject strict []
              else if compose \<noteq> [] then reject compose []
              else case os_check op of
                     None \<Rightarrow> allowed_decision
                   | Some check \<Rightarrow>
                       (let unsupported = check L (bi_body inspection)
                        in if unsupported = [] then allowed_decision
                           else reject unsupported (supportedOperations route op))))"

definition unknownSurfaceDecision :: "http_request \<Rightarrow> string list \<Rightarrow> Decision" where
  "unknownSurfaceDecision r segments =
     (let unknown =
            (let s = trim_prefix (trim_prefix (hq_path r) ''/api/'') ''/''; surface = (if s = [] then ''api'' else s)
             in unsupportedSurfaceDecision r surface ''unknown'' (surface @ '' is outside fibe-distilled minimal scope'') [])
      in case segments of
           [] \<Rightarrow> unknown
         | s # _ \<Rightarrow>
             (case map_of unsupportedSurfaces s of
                Some u \<Rightarrow> unsupportedSurfaceDecision r (us_resource u) (us_operation u) (us_reason u) (us_supported u)
              | None \<Rightarrow>
                  if s = ''marquees''
                  then unsupportedSurfaceDecision r ''marquees'' ''management'' configuredMarqueeReason supportedMarqueeDiscovery
                  else unknown))"

definition unsupportedRouteDecision :: "http_request \<Rightarrow> string list \<Rightarrow> Decision option" where
  "unsupportedRouteDecision r segments =
     (case find (\<lambda>route. matchUnsupportedRoute route (hq_method r) segments) unsupportedRoutes of
        None \<Rightarrow> None
      | Some u \<Rightarrow> Some (unsupportedSurfaceDecision r (ur_resource u) (ur_operation u) (ur_reason u) (ur_supported u)))"

definition supportedRouteDecision :: "gate_lib \<Rightarrow> http_request \<Rightarrow> string list \<Rightarrow> Decision option" where
  "supportedRouteDecision L r segments =
     (case find (\<lambda>route. matchSegments (rs_segments route) segments) routes of
        None \<Rightarrow> None
      | Some route \<Rightarrow> Some (checkSupportedRoute L r route))"

definition Check :: "gate_lib \<Rightarrow> http_request \<Rightarrow> Decision" where
  "Check L r =
     (if \<not> has_prefix (hq_path r) ''/api/'' then allowed_decision
      else let segments = apiSegments (hq_path r)
           in case unsupportedRouteDecision r segments of
                Some d \<Rightarrow> d
              | None \<Rightarrow>
                  (case supportedRouteDecision L r segments of
                     Some d \<Rightarrow> d
                   | None \<Rightarrow> unknownSurfaceDecision r segments))"

end
