(* ===== verification/GateSafety.thy ===== *)
theory GateSafety
  imports CompatGate PlaygroundPayload WorkerDeploy
begin

text \<open>
  What the compatibility gate guarantees (\<open>internal/compatgate\<close>), and what of it reaches the handlers of playgrounds.
\<close>

subsection \<open>What passes\<close>

lemma sortUnsupported_Nil [simp]: "sortUnsupported xs = [] \<longleftrightarrow> xs = []"
  unfolding sortUnsupported_def by (metis set_empty set_sort)

lemma item_if_Nil [simp]:
  "(if c then [i] else []) = [] \<longleftrightarrow> \<not> c"
  "(if c then [] else [i]) = [] \<longleftrightarrow> c"
  by simp_all

lemma rejectMapFields_Nil:
  "rejectMapFields ms allowed pre nested = [] \<longleftrightarrow>
     (\<forall>(key, value) \<in> set ms. key \<in> set allowed \<and>
        (\<forall>check. map_of nested key = Some check \<longrightarrow> check value (pre @ key) = []))"
  by (auto simp: rejectMapFields_def split: option.splits if_splits)

text \<open>The members of a body the contract of an operation knows.\<close>

definition known_members :: "bodyFieldSpec \<Rightarrow> members \<Rightarrow> bool" where
  "known_members spec ms =
     (\<forall>(key, value) \<in> set ms. key \<in> set (bs_allowed spec) \<and>
        (\<forall>check. map_of (bs_nested spec) key = Some check \<longrightarrow> check value (''field:'' @ key) = []))"

definition known_body :: "bodyFieldSpec \<Rightarrow> members \<Rightarrow> bool" where
  "known_body spec body =
     (if bs_root spec = [] then known_members spec body
      else (\<forall>(key, value) \<in> set body. key = bs_root spec) \<and>
        (\<forall>value ms. map_of body (bs_root spec) = Some value \<and> json_map value = Some ms \<longrightarrow> known_members spec ms))"

lemma rejectUnknownBodyFields_Nil:
  "rejectUnknownBodyFields route op body = [] \<longleftrightarrow> known_body (strictBodyFieldSpec route op) body"
  by (auto simp: rejectUnknownBodyFields_def Let_def rejectWrappedBodyFields_def rejectRawBodyFields_def known_body_def
      known_members_def rejectMapFields_Nil split: option.splits)

definition within_contract :: "gate_lib \<Rightarrow> http_request \<Rightarrow> routeSpec \<Rightarrow> operationSpec \<Rightarrow> bool" where
  "within_contract L r route op =
     ((\<forall>(key, values) \<in> set (hq_query r). key \<in> set (allowedQueryFields route op) \<and> length values \<le> 1) \<and>
      (requestBodyPresent r \<longrightarrow> operationMayHaveBody route op) \<and>
      \<not> bi_tooLarge (inspectableJSONBody r) \<and>
      (bi_parsed (inspectableJSONBody r) \<longrightarrow>
         known_body (strictBodyFieldSpec route op) (bi_body (inspectableJSONBody r))) \<and>
      (\<forall>check. os_check op = Some check \<longrightarrow> check L (bi_body (inspectableJSONBody r)) = []))"

lemma shape_decision_rejects [simp]: "\<not> dc_allowed (shape_decision status s)"
  by (simp add: shape_decision_def)

lemma rejections [simp]:
  "\<not> dc_allowed (unsupportedSurfaceDecision r a b c d)"
  "\<not> dc_allowed (unsupportedItemsDecision r a b i d)"
  "\<not> dc_allowed (unsupportedMethodDecision r route ms)"
  "\<not> dc_allowed (payloadTooLargeDecision r a b)"
  by (simp_all add: unsupportedSurfaceDecision_def unsupportedItemsDecision_def unsupportedMethodDecision_def
      payloadTooLargeDecision_def)

lemma supported_route_contract:
  assumes "dc_allowed (checkSupportedRoute L r route)"
  shows "\<exists>op. map_of (rs_methods route) (hq_method r) = Some op \<and> within_contract L r route op"
proof -
  obtain op where op: "map_of (rs_methods route) (hq_method r) = Some op"
    using assms by (auto simp: checkSupportedRoute_def split: option.splits)
  let ?i = "inspectableJSONBody r"
  have i: "\<not> bi_tooLarge ?i" "checkStrictRequest r route op (bi_body ?i) (bi_parsed ?i) = []"
    "\<forall>check. os_check op = Some check \<longrightarrow> check L (bi_body ?i) = []"
    using assms op by (auto simp: checkSupportedRoute_def Let_def split: option.splits if_splits)
  from i(2) have s: "rejectUnexpectedBody r route op = []" "rejectRepeatedQuery r = []"
    "rejectUnknownQuery r (allowedQueryFields route op) = []"
    "bi_parsed ?i \<longrightarrow> rejectUnknownBodyFields route op (bi_body ?i) = []"
    by (auto simp: checkStrictRequest_def split: if_splits)
  have "key \<in> set (allowedQueryFields route op) \<and> length values \<le> 1" if "(key, values) \<in> set (hq_query r)" for key "values"
    using s(2,3) that by (force simp: rejectRepeatedQuery_def rejectUnknownQuery_def)
  with i s op show ?thesis
    by (auto simp: within_contract_def rejectUnexpectedBody_def rejectUnknownBodyFields_Nil)
qed

lemma unknown_surface_rejected [simp]: "\<not> dc_allowed (unknownSurfaceDecision r segments)"
  by (simp add: unknownSurfaceDecision_def Let_def split: list.split option.split)

lemma allowed_cases:
  assumes "dc_allowed (Check L r)" and "has_prefix (hq_path r) ''/api/''"
  shows "find (\<lambda>u. matchUnsupportedRoute u (hq_method r) (apiSegments (hq_path r))) unsupportedRoutes = None \<and>
    (\<exists>route. find (\<lambda>route. matchSegments (rs_segments route) (apiSegments (hq_path r))) routes = Some route \<and>
       dc_allowed (checkSupportedRoute L r route))"
  using assms by (auto simp: Check_def Let_def unsupportedRouteDecision_def supportedRouteDecision_def split: option.splits)


definition demo_gate :: gate_lib where
  "demo_gate = \<lparr>gl_true = (\<lambda>t. t \<noteq> ''0''), gl_yaml = demo_yaml\<rparr>"

definition demo_create :: http_request where
  "demo_create = \<lparr>hq_method = ''POST'', hq_path = ''/api/playgrounds'', hq_query = [], hq_length = 40, hq_chunked = False,
     hq_stream = Stream 40 (JsonBody (JObj [(''playground'', JObj [(''name'', JStr ''demo''), (''playspec_id'', JNum ''2'')])]))\<rparr>"

lemma demo_create_allowed: "dc_allowed (Check demo_gate demo_create)"
  by code_simp


subsection \<open>What a playground handler gets\<close>

definition admitted_playground_fields :: "string list" where
  "admitted_playground_fields =
     [''name'', ''playspec_id'', ''marquee_id'', ''expires_at'', ''never_expire'', ''env_overrides'', ''services'']"

definition refused_playground_fields :: "string list" where
  "refused_playground_fields =
     [''job_mode'', ''target_type'', ''only_services'', ''except_services'', ''build_overrides_yaml'', ''template_version_id'',
      ''target_template_version_id'', ''source_template_version_id'']"

definition admitted_override_fields :: "string list" where
  "admitted_override_fields =
     [''subdomain'', ''exposure_visibility'', ''path_rule'', ''start_command'', ''dockerfile_path'', ''image'', ''env_vars'',
      ''auth_password'', ''exposure'', ''git_config'', ''port_mappings'', ''repo_url'', ''build_target'', ''build_args'',
      ''exposure_port'']"

text \<open>An override of a service that the gate lets through.\<close>

definition admitted_override :: "string \<Rightarrow> json \<Rightarrow> bool" where
  "admitted_override name v =
     (name \<noteq> ''_run'' \<and>
      (\<forall>ms key value. json_map v = Some ms \<and> (key, value) \<in> set ms \<longrightarrow>
         key \<in> set (if name = ''_global'' then [''env_vars''] else admitted_override_fields)))"

lemma present_items_Nil: "present_items ms pre keys reason = [] \<longleftrightarrow> (\<forall>key \<in> set keys. \<not> has_key ms key)"
  by (auto simp: present_items_def)

lemma has_key_in: "(key, value) \<in> set ms \<Longrightarrow> has_key ms key"
  using weak_map_of_SomeI[of key "value" ms] by (auto simp: has_key_def)

lemma regular_override_admitted:
  assumes "checkRegularServiceOverrideMap ms pre = []" and "(key, value) \<in> set ms"
  shows "key \<in> set admitted_override_fields"
proof -
  from assms(1) have k: "key \<in> set regularServiceOverrideFields"
    and none: "\<forall>k \<in> set ([''job_watch''] @ [''env_file_path''] @ [''zerodowntime'', ''healthcheck_path'', ''healthcheck_interval'',
      ''healthcheck_timeout'', ''healthcheck_retries'', ''healthcheck_start_period'']). \<not> has_key ms k"
    using assms(2) by (auto simp: checkRegularServiceOverrideMap_def rejectMapFields_Nil rejectUnsupportedServiceOverrideFields_def present_items_Nil)
  from none has_key_in[OF assms(2)] have "key \<notin> set ([''job_watch''] @ [''env_file_path''] @ [''zerodowntime'',
      ''healthcheck_path'', ''healthcheck_interval'', ''healthcheck_timeout'', ''healthcheck_retries'', ''healthcheck_start_period''])"
    by blast
  moreover have "set regularServiceOverrideFields \<subseteq> set admitted_override_fields \<union> set ([''job_watch''] @ [''env_file_path''] @
      [''zerodowntime'', ''healthcheck_path'', ''healthcheck_interval'', ''healthcheck_timeout'', ''healthcheck_retries'',
       ''healthcheck_start_period''])"
    by code_simp
  ultimately show ?thesis using k by blast
qed

lemma override_admitted:
  assumes "checkServiceOverrideEntry name v pre = []"
  shows "admitted_override name v"
proof (cases "name = ''_run''")
  case True
  with assms show ?thesis by (simp add: checkServiceOverrideEntry_def)
next
  case False
  then show ?thesis
    using assms regular_override_admitted
    by (auto simp: checkServiceOverrideEntry_def admitted_override_def rejectMapFields_Nil globalServiceOverrideFields_def
        split: option.splits if_splits)
qed

lemma override_map_admitted:
  assumes "checkServiceOverrideMap v pre = []" and "json_map v = Some services" and "(name, w) \<in> set services"
  shows "admitted_override name w"
  using assms override_admitted by (auto simp: checkServiceOverrideMap_def)

lemma create_playground_spec:
  "map_of strictBodyFieldSpecs ''playgrounds:create'' = Some \<lparr>bs_root = ''playground'',
     bs_allowed = admitted_playground_fields @ refused_playground_fields,
     bs_nested = [(''services'', checkServiceOverrideMap)]\<rparr>"
  by (simp add: strictBodyFieldSpecs_def admitted_playground_fields_def refused_playground_fields_def)

lemma create_playground_route:
  assumes "dc_allowed (Check L r)" and "hq_path r = ''/api/playgrounds''" and "hq_method r = ''POST''"
  shows "within_contract L r \<lparr>rs_segments = [''playgrounds''], rs_resource = ''playgrounds'',
      rs_methods = [(''GET'', \<lparr>os_operation = ''list'', os_check = None\<rparr>),
        (''POST'', \<lparr>os_operation = ''create'', os_check = Some checkPlaygroundBody\<rparr>)]\<rparr>
    \<lparr>os_operation = ''create'', os_check = Some checkPlaygroundBody\<rparr>"
proof -
  have seg: "apiSegments ''/api/playgrounds'' = [''playgrounds'']" by code_simp
  have "find (\<lambda>route. matchSegments (rs_segments route) [''playgrounds'']) routes =
      Some \<lparr>rs_segments = [''playgrounds''], rs_resource = ''playgrounds'',
        rs_methods = [(''GET'', \<lparr>os_operation = ''list'', os_check = None\<rparr>),
          (''POST'', \<lparr>os_operation = ''create'', os_check = Some checkPlaygroundBody\<rparr>)]\<rparr>"
    by (simp add: routes_def matchSegments_def)
  with allowed_cases[OF assms(1)] assms(2) seg
  have "dc_allowed (checkSupportedRoute L r \<lparr>rs_segments = [''playgrounds''], rs_resource = ''playgrounds'',
        rs_methods = [(''GET'', \<lparr>os_operation = ''list'', os_check = None\<rparr>),
          (''POST'', \<lparr>os_operation = ''create'', os_check = Some checkPlaygroundBody\<rparr>)]\<rparr>)"
    by simp
  from supported_route_contract[OF this] assms(3) show ?thesis by simp
qed

lemma playground_body_refused:
  assumes "checkPlaygroundBody L [(''playground'', JObj kvs)] = []"
    and "key \<in> set refused_playground_fields"
  shows "\<not> has_key (last_members kvs) key"
proof -
  have "\<forall>key \<in> set refused_playground_fields. \<not> has_key (last_members kvs) key"
    using assms(1) unfolding refused_playground_fields_def checkPlaygroundBody_def Let_def
    by (simp add: unwrap_def appendIfPresent_def split: if_splits)
  with assms(2) show ?thesis by blast
qed

lemma last_members_keys: "fst ` set (last_members kvs) = fst ` set kvs"
  using arg_cong[OF map_of_last_members[of kvs], of dom] by (simp add: dom_map_of_conv_image_fst)

text \<open>What the gate lets through to the creation of a playground is what its handler knows how to read: of the payload the handler decodes every member has one of seven names, exactly spelt, and the service overrides the gate has seen name no job service and speak only of supported fields. So no refused field can reach the handler under its own or any other spelling.\<close>

theorem admitted_playground_payload:
  assumes "dc_allowed (Check L r)" and "hq_path r = ''/api/playgrounds''" and "hq_method r = ''POST''"
    and "hq_stream r = Stream n (JsonBody (JObj [(''playground'', JObj kvs)]))" and "n \<noteq> 0"
    and "decode_playground_payload J (JObj kvs) = Inr p"
  shows "set (py_fields p) \<subseteq> set admitted_playground_fields \<and>
    (\<forall>v services name w. map_of (last_members kvs) ''services'' = Some v \<and> json_map v = Some services \<and>
       (name, w) \<in> set services \<longrightarrow> admitted_override name w)"
proof -
  let ?body = "[(''playground'', JObj kvs)]"
  let ?ms = "last_members kvs"
  note c = create_playground_route[OF assms(1-3)]
  have single: "last_members ?body = ?body" by (simp add: last_members_def)
  from c assms(3-5) have i: "bi_parsed (inspectableJSONBody r)" "bi_body (inspectableJSONBody r) = ?body"
    by (auto simp: within_contract_def inspectableJSONBody_def methodMayHaveBody_def not_inspected_def single split: if_splits)
  from c i have k: "known_body (strictBodyFieldSpec \<lparr>rs_segments = [''playgrounds''], rs_resource = ''playgrounds'',
      rs_methods = [(''GET'', \<lparr>os_operation = ''list'', os_check = None\<rparr>),
        (''POST'', \<lparr>os_operation = ''create'', os_check = Some checkPlaygroundBody\<rparr>)]\<rparr>
    \<lparr>os_operation = ''create'', os_check = Some checkPlaygroundBody\<rparr>) ?body"
    and refused: "checkPlaygroundBody L ?body = []"
    by (simp_all add: within_contract_def)
  from k have "known_members \<lparr>bs_root = ''playground'', bs_allowed = admitted_playground_fields @ refused_playground_fields,
     bs_nested = [(''services'', checkServiceOverrideMap)]\<rparr> ?ms"
    by (simp add: strictBodyFieldSpec_def route_key_def create_playground_spec known_body_def)
  then have known: "key \<in> set admitted_playground_fields \<union> set refused_playground_fields"
    "key = ''services'' \<longrightarrow> checkServiceOverrideMap value ''field:services'' = []"
    if "(key, value) \<in> set ?ms" for key "value"
    using that unfolding known_members_def by fastforce+
  have admitted: "key \<in> set admitted_playground_fields" if "(key, value) \<in> set ?ms" for key "value"
    using known(1)[OF that] playground_body_refused[OF refused] has_key_in[OF that] by blast
  have "py_fields p = map fst kvs"
    using assms(6) by (auto simp: decode_playground_payload_def DecodeJSONFields_def Let_def split: sum.splits prod.splits)
  then have "set (py_fields p) = fst ` set ?ms" by (simp add: last_members_keys)
  with admitted have "set (py_fields p) \<subseteq> set admitted_playground_fields" by fastforce
  moreover have "admitted_override name w"
    if "map_of ?ms ''services'' = Some v" "json_map v = Some services" "(name, w) \<in> set services" for v services name w
    using known(2)[OF map_of_SomeD[OF that(1)]] override_map_admitted that(2,3) by blast
  ultimately show ?thesis by blast
qed

definition demo_payload :: playgroundPayload where
  "demo_payload = \<lparr>py_name = ''demo'', py_playspec_id = Some 2, py_marquee_id = None, py_expires_at = ANil,
     py_never_expire = None, py_env_overrides = None, py_services = None, py_playspec_identifier = [],
     py_marquee_identifier = [], py_blank_playspec_id = False, py_blank_marquee_id = False, py_expires_at_set = False,
     py_invalid_env_overrides = [], py_fields = [''name'', ''playspec_id'']\<rparr>"

definition json_texts :: json_lib where
  "json_texts = \<lparr>jl_float = (\<lambda>_. None), jl_syntax_text = ''syntax'', jl_type_text = ''type''\<rparr>"

theorem admitted_playground_payload_witness:
  "set (py_fields demo_payload) \<subseteq> set admitted_playground_fields"
proof -
  have "case decode_playground_payload json_texts (JObj [(''name'', JStr ''demo''), (''playspec_id'', JNum ''2'')]) of
      Inr p \<Rightarrow> p = demo_payload | Inl _ \<Rightarrow> False"
    by code_simp
  then have "decode_playground_payload json_texts (JObj [(''name'', JStr ''demo''), (''playspec_id'', JNum ''2'')]) = Inr demo_payload"
    by (simp split: sum.splits)
  from admitted_playground_payload[OF demo_create_allowed _ _ _ _ this, of 40] show ?thesis
    by (simp add: demo_create_def)
qed

text \<open>A field given twice: the gate keeps the second value, the decoder of the handler merges both.\<close>

definition demo_twice :: "(string \<times> json) list" where
  "demo_twice = [(''name'', JStr ''demo''), (''services'', JObj [(''web'', JObj [(''zerodowntime'', JBool True)])]),
     (''services'', JObj [])]"

theorem repeated_member_passes_gate:
  "dc_allowed (Check demo_gate (demo_create\<lparr>hq_stream := Stream 40 (JsonBody (JObj [(''playground'', JObj demo_twice)]))\<rparr>)) \<and>
   (case decode_playground_payload json_texts (JObj demo_twice) of
      Inr p \<Rightarrow> py_services p = Some [(''web'', AMap [(''zerodowntime'', ABool True)])] | Inl _ \<Rightarrow> False)"
  by code_simp

end
