(* ===== verification/Marquees.thy ===== *)
theory Marquees
  imports ApiLists
begin

text \<open>
  The read-only Marquee of a server: \<open>internal/marquee/handler.go\<close>. There is one configured Marquee; it is the only one
  clients see, and every reference a client gives is resolved to it or refused.
\<close>

definition marquee_store_error :: "api_env \<Rightarrow> go_error \<Rightarrow> reply" where
  "marquee_store_error E err = writeStoreErr E ''marquee'' err"

definition ConfiguredList :: "(go_error + marquee list) io" where
  "ConfiguredList =
     bind ask_marquee (\<lambda>x. Ret (case x of
       Inl e \<Rightarrow> Inl e
     | Inr None \<Rightarrow> Inr []
     | Inr (Some configured) \<Rightarrow> Inr [configured]))"

definition marquee_list :: "api_env \<Rightarrow> time_reader \<Rightarrow> query \<Rightarrow> reply io" where
  "marquee_list E T q = WriteFiltered E q ConfiguredList (filterMarquees T) BodyMarquee"

definition sameConfigured :: "marquee option \<Rightarrow> marquee \<Rightarrow> bool" where
  "sameConfigured configured candidate =
     (case configured of None \<Rightarrow> False | Some c \<Rightarrow> mq_id c = mq_id candidate)"

definition Visible :: "marquee \<Rightarrow> (go_error + bool) io" where
  "Visible candidate =
     bind ask_marquee (\<lambda>x. Ret (case x of Inl e \<Rightarrow> Inl e | Inr configured \<Rightarrow> Inr (sameConfigured configured candidate)))"

text \<open>\<open>GetMarquee\<close> by name or id; the store answers a missing row with \<open>ErrNotFound\<close>.\<close>

definition find_marquee :: "string \<Rightarrow> (go_error + marquee) io" where
  "find_marquee identifier =
     bind (ask_marquee_named identifier) (\<lambda>x. Ret (case x of
       Inl e \<Rightarrow> Inl e
     | Inr None \<Rightarrow> Inl ErrNotFound
     | Inr (Some m) \<Rightarrow> Inr m))"

definition marquee_get :: "api_env \<Rightarrow> string \<Rightarrow> reply io" where
  "marquee_get E identifier =
     bind (find_marquee identifier) (\<lambda>x. case x of
       Inl e \<Rightarrow> Ret (marquee_store_error E e)
     | Inr m \<Rightarrow>
         bind (Visible m) (\<lambda>v. Ret (case v of
           Inl e \<Rightarrow> ServerError E e
         | Inr visible \<Rightarrow> if \<not> visible then NotFound E ''marquee'' else JSON E 200 (BodyMarquee m))))"

subsection \<open>References of launches and playgrounds\<close>

definition explicitConfiguredID :: "int \<Rightarrow> marquee option \<Rightarrow> go_error + int option" where
  "explicitConfiguredID i configured =
     (case configured of
        None \<Rightarrow> Inr (Some i)
      | Some c \<Rightarrow> if i \<le> 0 then Inl ErrNotFound else Inr (Some (mq_id c)))"

definition namedConfiguredID :: "string \<Rightarrow> marquee option \<Rightarrow> (go_error + int option) io" where
  "namedConfiguredID identifier configured =
     bind (find_marquee identifier) (\<lambda>x. Ret (case x of
       Inl e \<Rightarrow> Inl e
     | Inr mq \<Rightarrow>
         (case configured of
            None \<Rightarrow> Inr (Some (mq_id mq))
          | Some c \<Rightarrow> if mq_id mq \<noteq> mq_id c then Inl ErrNotFound else Inr (Some (mq_id mq)))))"

definition defaultConfiguredID :: "marquee option \<Rightarrow> int option" where
  "defaultConfiguredID configured = map_option mq_id configured"

definition ResolveConfiguredID :: "int option \<Rightarrow> string \<Rightarrow> (go_error + int option) io" where
  "ResolveConfiguredID marqueeID identifier =
     bind ask_marquee (\<lambda>x. case x of
       Inl e \<Rightarrow> Ret (Inl e)
     | Inr configured \<Rightarrow>
         (case marqueeID of
            Some i \<Rightarrow> Ret (explicitConfiguredID i configured)
          | None \<Rightarrow>
              if identifier \<noteq> [] then namedConfiguredID identifier configured
              else Ret (Inr (defaultConfiguredID configured))))"

lemma runs_ask_marquee_named: "runs (ask_marquee_named t) es a \<longleftrightarrow> es = [(FindMarquee t, MarqueeRow a)]"
proof
  assume "runs (ask_marquee_named t) es a"
  then obtain r es' where "es = (FindMarquee t, r) # es'" "runs (case r of MarqueeRow x \<Rightarrow> Ret x | _ \<Rightarrow> Stuck) es' a"
    by (auto simp: ask_marquee_named_def)
  then show "es = [(FindMarquee t, MarqueeRow a)]" by (cases r) auto
qed (auto simp: ask_marquee_named_def)

text \<open>Whatever a client names, with a configured Marquee a reference resolves to it or is refused.\<close>

lemma resolved_is_configured:
  assumes "runs (ResolveConfiguredID marqueeID identifier) ((GetRuntimeMarquee, MarqueeRow (Inr (Some c))) # es) (Inr (Some i))"
  shows "i = mq_id c"
proof (cases marqueeID)
  case (Some j)
  with assms show ?thesis
    by (auto simp: ResolveConfiguredID_def ask_defs explicitConfiguredID_def split: if_splits)
next
  case None
  show ?thesis
  proof (cases "identifier = []")
    case True
    with None assms show ?thesis by (auto simp: ResolveConfiguredID_def ask_defs defaultConfiguredID_def)
  next
    case False
    with None assms have "runs (namedConfiguredID identifier (Some c)) es (Inr (Some i))"
      by (auto simp: ResolveConfiguredID_def ask_defs)
    then show ?thesis
      by (auto simp: namedConfiguredID_def find_marquee_def runs_bind runs_ask_marquee_named
          split: sum.splits option.splits if_splits) (metis old.sum.exhaust)
  qed
qed

end
