(* ===== verification/ApiServer.thy ===== *)
theory ApiServer
  imports GateSafety Marquees WorkerWebhook
begin

text \<open>
  The boundary of the server: \<open>internal/api\<close> (\<open>server.go\<close>, \<open>routes.go\<close>, \<open>auth.go\<close>, \<open>auth/token.go\<close>,
  \<open>handlers_github_webhooks.go\<close>) and the deliveries of GitHub (\<open>internal/github/webhook.go\<close>).

  The router is the library chi: \<open>rt_find\<close> gives what it finds for a method and a path among registered patterns. The
  digests are parameters. An endpoint names the handler a pattern was registered with.
\<close>

subsection \<open>Authorization (auth/token.go)\<close>

record crypto =
  cr_sha256 :: "string \<Rightarrow> string"
  cr_hmac :: "string \<Rightarrow> string \<Rightarrow> string"

definition equalSecret :: "crypto \<Rightarrow> string \<Rightarrow> string \<Rightarrow> bool" where
  "equalSecret C a b = (cr_sha256 C a = cr_sha256 C b)"

definition Authorized :: "crypto \<Rightarrow> string \<Rightarrow> string \<Rightarrow> bool" where
  "Authorized C header token =
     (if \<not> has_prefix header ''Bearer '' then False else equalSecret C (trim_prefix header ''Bearer '') token)"

subsection \<open>Routes (routes.go)\<close>

datatype endpoint =
    Up | GithubWebhook | Me | ApiStatus | ServerInfo | AsyncShow | MarqueeList | MarqueeGet
  | PropList | PropCreate | PropGet | PropUpdate | PropDelete | PropBranches | PropSync | RepoStatus
  | PlayspecList | PlayspecCreate | PlayspecGet | PlayspecUpdate | PlayspecDelete | PlayspecServices | LaunchCreate
  | PlaygroundList | PlaygroundCreate | PlaygroundGet | PlaygroundUpdate | PlaygroundDelete | PlaygroundStatus
  | PlaygroundRefresh | PlaygroundLogs | PlaygroundOperations | PlaygroundExpiration

type_synonym registration = "string \<times> string \<times> endpoint"

definition registered_routes :: "registration list" where
  "registered_routes =
     [(''GET'', ''/up.json'', Up), (''POST'', ''/webhooks/github'', GithubWebhook),
      (''GET'', ''/api/me'', Me), (''GET'', ''/api/status'', ApiStatus), (''GET'', ''/api/server-info'', ServerInfo),
      (''GET'', ''/api/async_requests/{id}'', AsyncShow),
      (''GET'', ''/api/marquees'', MarqueeList), (''GET'', ''/api/marquees/{identifier}'', MarqueeGet),
      (''GET'', ''/api/props'', PropList), (''POST'', ''/api/props'', PropCreate),
      (''GET'', ''/api/props/{identifier}'', PropGet), (''PATCH'', ''/api/props/{identifier}'', PropUpdate),
      (''DELETE'', ''/api/props/{identifier}'', PropDelete),
      (''GET'', ''/api/props/{identifier}/branches'', PropBranches), (''POST'', ''/api/props/{identifier}/syncs'', PropSync),
      (''POST'', ''/api/repo_status_checks'', RepoStatus),
      (''GET'', ''/api/playspecs'', PlayspecList), (''POST'', ''/api/playspecs'', PlayspecCreate),
      (''GET'', ''/api/playspecs/{identifier}'', PlayspecGet), (''PATCH'', ''/api/playspecs/{identifier}'', PlayspecUpdate),
      (''DELETE'', ''/api/playspecs/{identifier}'', PlayspecDelete),
      (''GET'', ''/api/playspecs/{identifier}/services'', PlayspecServices),
      (''POST'', ''/api/launches'', LaunchCreate),
      (''GET'', ''/api/playgrounds'', PlaygroundList), (''POST'', ''/api/playgrounds'', PlaygroundCreate),
      (''GET'', ''/api/playgrounds/{identifier}'', PlaygroundGet),
      (''PATCH'', ''/api/playgrounds/{identifier}'', PlaygroundUpdate),
      (''DELETE'', ''/api/playgrounds/{identifier}'', PlaygroundDelete),
      (''GET'', ''/api/playgrounds/{identifier}/status'', PlaygroundStatus),
      (''POST'', ''/api/playgrounds/{identifier}/status'', PlaygroundRefresh),
      (''POST'', ''/api/playgrounds/{identifier}/logs'', PlaygroundLogs),
      (''POST'', ''/api/playgrounds/{identifier}/operations'', PlaygroundOperations),
      (''POST'', ''/api/playgrounds/{identifier}/expiration'', PlaygroundExpiration)]"

text \<open>What the router finds: a registered handler, one registered for all methods (the catch-all \<open>/api/*\<close>), a pattern
for another method only, or nothing.\<close>

datatype found = Handler endpoint | CatchAll | OtherMethod | NoRoute

type_synonym router = "registration list \<Rightarrow> string list \<Rightarrow> string \<Rightarrow> string \<Rightarrow> found"

definition catch_all_patterns :: "string list" where
  "catch_all_patterns = [''/api/*'']"

definition apiNotImplemented :: "api_env \<Rightarrow> http_request \<Rightarrow> reply" where
  "apiNotImplemented E r = NotImplemented E (trim_prefix (hq_path r) ''/api/'')"

definition route_not_found :: "api_env \<Rightarrow> reply" where
  "route_not_found E = NotFound E ''route''"

definition method_not_allowed :: "api_env \<Rightarrow> http_request \<Rightarrow> reply" where
  "method_not_allowed E r =
     Error E 405 ''METHOD_NOT_ALLOWED'' ''method is not allowed for route'' (Some [(''method'', AStr (hq_method r))])"

subsection \<open>Requests (server.go)\<close>

record api_server =
  as_token :: string
  as_webhook_secret :: string
  as_crypto :: crypto
  as_gate :: gate_lib
  as_api :: api_env
  as_router :: router

definition authorized :: "api_server \<Rightarrow> string \<Rightarrow> bool" where
  "authorized S header = Authorized (as_crypto S) header (as_token S)"

text \<open>A request is answered at the boundary or handed to the handler of an endpoint.\<close>

datatype dispatch = Answered reply | Dispatched endpoint

definition ServeHTTP :: "api_server \<Rightarrow> string \<Rightarrow> http_request \<Rightarrow> dispatch" where
  "ServeHTTP S header r =
     (let E = as_api S; decision = Check (as_gate S) r
      in if has_prefix (hq_path r) ''/api/'' \<and> \<not> authorized S header then Answered (Unauthorized E)
         else if has_prefix (hq_path r) ''/api/'' \<and> \<not> dc_allowed decision
         then Answered (Error E (dc_status decision) (dc_code decision) (dc_message decision) (Some (dc_details decision)))
         else case as_router S registered_routes catch_all_patterns (hq_method r) (hq_path r) of
                Handler e \<Rightarrow> Dispatched e
              | CatchAll \<Rightarrow> Answered (apiNotImplemented E r)
              | OtherMethod \<Rightarrow> Answered (method_not_allowed E r)
              | NoRoute \<Rightarrow> Answered (route_not_found E))"

subsection \<open>Small handlers (server.go)\<close>

definition up :: "api_env \<Rightarrow> reply" where
  "up E = JSON E 200 (BodyDoc [(''status'', AStr ''ok'')])"

definition me :: "api_env \<Rightarrow> reply" where
  "me E = JSON E 200 (BodyDoc
     [(''id'', AInt KInt 1), (''username'', AStr ''fibe-distilled-owner''), (''email'', AStr ''owner@fibe-distilled.local''),
      (''name'', AStr ''fibe-distilled owner''), (''role'', AStr ''owner''), (''api_key_scopes'', AStrs [''*''])])"

record playgroundStatusSummary =
  st_total :: int
  st_active :: int
  st_stopped :: int

definition playgroundStatusCounts :: "playground list \<Rightarrow> playgroundStatusSummary" where
  "playgroundStatusCounts playgrounds =
     fold (\<lambda>pg counts.
         if pg_status pg \<in> set [StatusRunning, StatusInProgress, StatusPending, StatusHasChanges]
         then counts\<lparr>st_active := st_active counts + 1\<rparr>
         else if pg_status pg = StatusStopped then counts\<lparr>st_stopped := st_stopped counts + 1\<rparr>
         else counts)
       playgrounds \<lparr>st_total = int (length playgrounds), st_active = 0, st_stopped = 0\<rparr>"

definition statusPayload :: "playgroundStatusSummary \<Rightarrow> int \<Rightarrow> int \<Rightarrow> int \<Rightarrow> doc" where
  "statusPayload counts props playspecs marquees =
     [(''status'', AStr ''ok''), (''server'', AStr ''fibe-distilled''), (''version'', AStr ''0.1.0''),
      (''playgrounds'', AMap [(''total'', AInt KInt (st_total counts)), (''active'', AInt KInt (st_active counts)),
         (''stopped'', AInt KInt (st_stopped counts))]),
      (''props'', AInt KInt props), (''playspecs'', AInt KInt playspecs), (''marquees'', AInt KInt marquees),
      (''secrets'', AInt KInt 0), (''api_keys'', AInt KInt 0),
      (''subscription'', AMap [(''plan'', AStr ''fibe-distilled''), (''playground_limit'', AInt KInt 0)])]"

definition api_status :: "api_env \<Rightarrow> reply io" where
  "api_status E =
     bind (ask_rows ListPlaygrounds) (\<lambda>x. case x of Inl e \<Rightarrow> Ret (ServerError E e) | Inr playgrounds \<Rightarrow>
     bind (ask_prop_rows ListProps) (\<lambda>x. case x of Inl e \<Rightarrow> Ret (ServerError E e) | Inr props \<Rightarrow>
     bind (ask_specs ListPlayspecs) (\<lambda>x. case x of Inl e \<Rightarrow> Ret (ServerError E e) | Inr playspecs \<Rightarrow>
     bind ConfiguredList (\<lambda>x. case x of Inl e \<Rightarrow> Ret (ServerError E e) | Inr marquees \<Rightarrow>
       Ret (JSON E 200 (BodyDoc (statusPayload (playgroundStatusCounts playgrounds) (int (length props))
         (int (length playspecs)) (int (length marquees)))))))))"

subsection \<open>Deliveries of GitHub (github/webhook.go, handlers\_github\_webhooks.go)\<close>

record webhookPayload =
  wh_ref :: string
  wh_after :: string
  wh_full_name :: string

definition zero_webhook :: webhookPayload where
  "zero_webhook = \<lparr>wh_ref = [], wh_after = [], wh_full_name = []\<rparr>"

fun into_repository :: "string \<Rightarrow> json \<Rightarrow> json_error + string" where
  "into_repository v (JObj kvs) = decode_into into_string v (json_field ''full_name'' kvs)"
| "into_repository v JNull = Inr v"
| "into_repository v _ = Inl JsonType"

fun decode_webhook :: "json \<Rightarrow> json_error + webhookPayload" where
  "decode_webhook (JObj kvs) =
     (case decode_into into_string [] (json_field ''ref'' kvs) of Inl e \<Rightarrow> Inl e | Inr ref \<Rightarrow>
     (case decode_into into_string [] (json_field ''after'' kvs) of Inl e \<Rightarrow> Inl e | Inr after \<Rightarrow>
     (case decode_into into_repository [] (json_field ''repository'' kvs) of Inl e \<Rightarrow> Inl e | Inr name \<Rightarrow>
        Inr \<lparr>wh_ref = ref, wh_after = after, wh_full_name = name\<rparr>)))"
| "decode_webhook JNull = Inr zero_webhook"
| "decode_webhook _ = Inl JsonType"

definition ValidWebhookSignature :: "crypto \<Rightarrow> string \<Rightarrow> string \<Rightarrow> string \<Rightarrow> bool" where
  "ValidWebhookSignature C secret0 signature0 body =
     (let secret = trim_space secret0; signature = trim_space signature0
      in if secret = [] \<or> signature = [] then False else signature = ''sha256='' @ cr_hmac C secret body)"

definition allZeroGitHubSHA :: "string \<Rightarrow> bool" where
  "allZeroGitHubSHA raw = (let s = trim_space raw in s = [] \<or> list_all (\<lambda>c. c = CHR ''0'') s)"

definition actionablePushPayload :: "string \<Rightarrow> webhookPayload \<Rightarrow> bool" where
  "actionablePushPayload event payload =
     (if trim_space event \<noteq> ''push'' then False
      else case cut_prefix (trim_space (wh_ref payload)) ''refs/heads/'' of
             (branch, ok) \<Rightarrow>
               if \<not> ok \<or> trim_space branch = [] \<or> allZeroGitHubSHA (wh_after payload) then False
               else RepositoryFullName (wh_full_name payload) \<noteq> None)"

definition no_push :: GitHubPushEvent where
  "no_push = \<lparr>pe_repository = [], pe_branch = [], pe_after = []\<rparr>"

definition pushEventFromPayload :: "string \<Rightarrow> webhookPayload \<Rightarrow> GitHubPushEvent" where
  "pushEventFromPayload event payload =
     (if \<not> actionablePushPayload event payload then no_push
      else \<lparr>pe_repository = (case RepositoryFullName (wh_full_name payload) of None \<Rightarrow> [] | Some n \<Rightarrow> n),
            pe_branch = trim_space (fst (cut_prefix (trim_space (wh_ref payload)) ''refs/heads/'')),
            pe_after = trim_space (wh_after payload)\<rparr>)"

text \<open>The parser of the JSON library reads a body into a tree.\<close>

definition PushEventFromWebhook ::
    "(string \<Rightarrow> json_error + json) \<Rightarrow> string \<Rightarrow> string \<Rightarrow> json_error + GitHubPushEvent \<times> bool" where
  "PushEventFromWebhook parse event body =
     (case parse body of
        Inl e \<Rightarrow> Inl e
      | Inr v \<Rightarrow>
          (case decode_webhook v of
             Inl e \<Rightarrow> Inl e
           | Inr payload \<Rightarrow> Inr (pushEventFromPayload event payload, actionablePushPayload event payload)))"

record delivery =
  dl_body :: "string option"
  dl_signature :: string
  dl_event :: string

text \<open>The reply and the event handed to the worker, if any; a body over 1 MiB or one that cannot be read is \<open>None\<close>.\<close>

definition githubWebhook :: "api_server \<Rightarrow> (string \<Rightarrow> json_error + json) \<Rightarrow> delivery \<Rightarrow> reply \<times> GitHubPushEvent option" where
  "githubWebhook S parse d =
     (let E = as_api S
      in case dl_body d of
           None \<Rightarrow> (BadRequest E ''invalid GitHub webhook body'', None)
         | Some body \<Rightarrow>
             if \<not> ValidWebhookSignature (as_crypto S) (as_webhook_secret S) (dl_signature d) body
             then (Unauthorized E, None)
             else (case PushEventFromWebhook parse (dl_event d) body of
                     Inl e \<Rightarrow> (BadRequest E ''invalid GitHub webhook JSON'', None)
                   | Inr (event, actionable) \<Rightarrow>
                       (JSON E 200 (BodyDoc [(''status'', AStr ''ok'')]), if actionable then Some event else None)))"

subsection \<open>Patterns\<close>

type_synonym path_pattern = "string option list"

definition pattern_matches :: "path_pattern \<Rightarrow> string list \<Rightarrow> bool" where
  "pattern_matches p segs = list_all2 (\<lambda>part value. case part of None \<Rightarrow> value \<noteq> [] | Some t \<Rightarrow> t = value) p segs"

definition overlapping :: "path_pattern \<Rightarrow> path_pattern \<Rightarrow> bool" where
  "overlapping p q = list_all2 (\<lambda>a b. a = None \<or> b = None \<or> a = b) p q"

definition route_pattern :: "string \<Rightarrow> path_pattern" where
  "route_pattern p = map (\<lambda>part. if has_prefix part ''{'' then None else Some part) (split_char (CHR ''/'') (trim_prefix p ''/''))"

definition gate_pattern :: "string list \<Rightarrow> path_pattern" where
  "gate_pattern segs = map (\<lambda>part. if has_prefix part '':'' then None else Some part) segs"

lemma matching_overlap: "pattern_matches p segs \<Longrightarrow> pattern_matches q segs \<Longrightarrow> overlapping p q"
  unfolding pattern_matches_def overlapping_def list_all2_conv_all_nth
  by (auto split: option.splits) (metis option.exhaust)

lemma matchSegments_pattern: "matchSegments segs actual \<longleftrightarrow> pattern_matches (gate_pattern segs) actual"
  unfolding matchSegments_def pattern_matches_def gate_pattern_def
  by (simp add: list_all2_map1 if_distrib cong: if_cong)

text \<open>What the documentation of chi says of named placeholders: \<open>{name}\<close> stands for one non-empty part of the path. Of
patterns that never match the same path the registered one is found.\<close>

definition plain_segments :: "string list \<Rightarrow> bool" where
  "plain_segments segs = (segs \<noteq> [] \<and> (\<forall>s \<in> set segs. s \<noteq> [] \<and> CHR ''/'' \<notin> set s))"

definition unambiguous :: "registration list \<Rightarrow> bool" where
  "unambiguous regs =
     list_all (\<lambda>(m, p, e). list_all (\<lambda>(m', p', e').
       m = m' \<and> overlapping (route_pattern p) (route_pattern p') \<longrightarrow> p = p' \<and> e = e') regs) regs"

definition documented_router :: "router \<Rightarrow> bool" where
  "documented_router R =
     (\<forall>regs any m segs e. unambiguous regs \<and> plain_segments segs \<longrightarrow>
        (R regs any m (''/'' @ join_str ''/'' segs) = Handler e \<longleftrightarrow>
         (\<exists>p. (m, p, e) \<in> set regs \<and> pattern_matches (route_pattern p) segs)))"

lemma registered_unambiguous: "unambiguous registered_routes"
  by code_simp

text \<open>The two tables, each as methods with patterns.\<close>

definition gate_table :: "(string \<times> path_pattern) list" where
  "gate_table = concat (map (\<lambda>route. map (\<lambda>(m, _). (m, gate_pattern (rs_segments route))) (rs_methods route)) routes)"

definition route_table :: "(string \<times> path_pattern) list" where
  "route_table = map (\<lambda>(m, p, _). (m, tl (route_pattern p))) (filter (\<lambda>(_, p, _). has_prefix p ''/api/'') registered_routes)"

lemma tables_agree: "set gate_table = set route_table"
  by code_simp

lemma registered_api: "list_all (\<lambda>(m, p, e). has_prefix p ''/api/'' \<longleftrightarrow> hd (route_pattern p) = Some ''api'') registered_routes \<and>
    list_all (\<lambda>(m, p, e). route_pattern p \<noteq> []) registered_routes"
  by code_simp

lemma registered_heads: "list_all (\<lambda>(m, p, e). hd (route_pattern p) \<noteq> None) registered_routes"
  by code_simp

lemma gate_patterns_distinct:
  "distinct (map (\<lambda>route. gate_pattern (rs_segments route)) routes) \<and>
   list_all (\<lambda>r. list_all (\<lambda>r'. overlapping (gate_pattern (rs_segments r)) (gate_pattern (rs_segments r')) \<longrightarrow>
     gate_pattern (rs_segments r) = gate_pattern (rs_segments r')) routes) routes"
  by code_simp

lemma refused_apart:
  "list_all (\<lambda>u. list_all (\<lambda>(m, p). \<not> (overlapping (gate_pattern (ur_segments u)) p \<and> (ur_methods u = [] \<or> m \<in> set (ur_methods u))))
     gate_table) unsupportedRoutes"
  by code_simp

subsection \<open>The gate and the routes\<close>

lemma apiSegments_join:
  assumes "plain_segments segs"
  shows "apiSegments (''/api/'' @ join_str ''/'' segs) = segs"
proof -
  have first: "join_str ''/'' segs = c # s \<Longrightarrow> c \<noteq> CHR ''/''" for c s
    using assms by (cases segs; cases "hd segs"; cases "tl segs") (auto simp: plain_segments_def)
  have last: "join_str ''/'' segs \<noteq> [] \<and> last (join_str ''/'' segs) \<noteq> CHR ''/''"
    using assms
  proof (induction segs rule: induct_list012)
    case (3 x y zs)
    then have "plain_segments (y # zs)" by (simp add: plain_segments_def)
    with 3 show ?case by (simp add: last_append)
  qed (auto simp: plain_segments_def intro: last_in_set dest: last_in_set)
  have "trim_left_set ''/'' (join_str ''/'' segs) = join_str ''/'' segs"
    using first by (cases "join_str ''/'' segs") (auto simp: trim_left_set_def)
  moreover have "trim_right_set ''/'' (join_str ''/'' segs) = join_str ''/'' segs"
  proof -
    obtain s c where "join_str ''/'' segs = s @ [c]" "c \<noteq> CHR ''/''"
      using last by (metis append_butlast_last_id)
    then show ?thesis by (simp add: trim_right_set_def)
  qed
  moreover have "split_char (CHR ''/'') (join_str ''/'' segs) = segs"
    using assms by (intro split_join) (auto simp: plain_segments_def)
  ultimately show ?thesis using last unfolding apiSegments_def trim_prefix_append Let_def by simp
qed

text \<open>The registered operation of a method on a path, as the gate finds it.\<close>

definition registered_operation :: "string \<Rightarrow> string list \<Rightarrow> bool" where
  "registered_operation m segs =
     ((\<forall>u \<in> set unsupportedRoutes. \<not> matchUnsupportedRoute u m segs) \<and>
      (\<exists>route op. find (\<lambda>route. matchSegments (rs_segments route) segs) routes = Some route \<and> map_of (rs_methods route) m = Some op))"

lemma registered_operation_table:
  "registered_operation m segs \<longleftrightarrow> (\<exists>p. (m, p) \<in> set gate_table \<and> pattern_matches p segs)"
proof
  assume "registered_operation m segs"
  then obtain route op where "find (\<lambda>route. matchSegments (rs_segments route) segs) routes = Some route"
      "map_of (rs_methods route) m = Some op" by (auto simp: registered_operation_def)
  then have "route \<in> set routes" "pattern_matches (gate_pattern (rs_segments route)) segs" "(m, op) \<in> set (rs_methods route)"
    by (auto simp: find_Some_iff matchSegments_pattern map_of_SomeD)
  then show "\<exists>p. (m, p) \<in> set gate_table \<and> pattern_matches p segs"
    by (force simp: gate_table_def)
next
  assume "\<exists>p. (m, p) \<in> set gate_table \<and> pattern_matches p segs"
  then obtain r op where r: "r \<in> set routes" "(m, op) \<in> set (rs_methods r)" and
    t: "(m, gate_pattern (rs_segments r)) \<in> set gate_table" "pattern_matches (gate_pattern (rs_segments r)) segs"
    by (force simp: gate_table_def)
  obtain route where route: "find (\<lambda>route. matchSegments (rs_segments route) segs) routes = Some route"
    using r(1) t(2) by (cases "find (\<lambda>route. matchSegments (rs_segments route) segs) routes")
      (auto simp: find_None_iff matchSegments_pattern)
  then have "route \<in> set routes" "pattern_matches (gate_pattern (rs_segments route)) segs"
    by (auto simp: find_Some_iff matchSegments_pattern)
  with r(1) t(2) gate_patterns_distinct have "route = r"
    unfolding distinct_map list_all_iff by (meson inj_onD matching_overlap)
  moreover have "\<not> matchUnsupportedRoute u m segs" if "u \<in> set unsupportedRoutes" for u
  proof
    assume "matchUnsupportedRoute u m segs"
    then have "overlapping (gate_pattern (ur_segments u)) (gate_pattern (rs_segments r))" "ur_methods u = [] \<or> m \<in> set (ur_methods u)"
      using t(2) matching_overlap by (auto simp: matchUnsupportedRoute_def matchSegments_pattern)
    with that t(1) refused_apart show False by (auto simp: list_all_iff)
  qed
  moreover have "\<exists>op. map_of (rs_methods r) m = Some op"
    using weak_map_of_SomeI[OF r(2)] by auto
  ultimately show "registered_operation m segs" using route by (auto simp: registered_operation_def)
qed


text \<open>A router that does what the documentation says.\<close>

definition pattern_router :: router where
  "pattern_router regs any m path =
     (case find (\<lambda>(m', p, e). m' = m \<and> pattern_matches (route_pattern p) (split_char (CHR ''/'') (trim_prefix path ''/''))) regs of
        Some (m', p, e) \<Rightarrow> Handler e
      | None \<Rightarrow> if has_prefix path ''/api/'' then CatchAll else NoRoute)"

lemma pattern_router_documented: "documented_router pattern_router"
  unfolding documented_router_def
proof (intro allI impI, elim conjE)
  fix regs :: "registration list" and any segs :: "string list" and m :: string and e
  assume u: "unambiguous regs" and plain: "plain_segments segs"
  let ?P = "\<lambda>(m', p, e :: endpoint). m' = m \<and> pattern_matches (route_pattern p) segs"
  have segs: "split_char (CHR ''/'') (trim_prefix (''/'' @ join_str ''/'' segs) ''/'') = segs"
    unfolding trim_prefix_append using plain by (intro split_join) (auto simp: plain_segments_def)
  have same: "e' = e" if "(m, p, e) \<in> set regs" "(m, p', e') \<in> set regs" "pattern_matches (route_pattern p) segs"
      "pattern_matches (route_pattern p') segs" for p p' e e'
    using u that matching_overlap[OF that(3,4)] unfolding unambiguous_def list_all_iff by fastforce
  show "pattern_router regs any m (''/'' @ join_str ''/'' segs) = Handler e \<longleftrightarrow>
      (\<exists>p. (m, p, e) \<in> set regs \<and> pattern_matches (route_pattern p) segs)"
  proof (cases "find ?P regs")
    case None
    then have "\<not> (\<exists>p. (m, p, e) \<in> set regs \<and> pattern_matches (route_pattern p) segs)"
      unfolding find_None_iff by blast
    moreover have "pattern_router regs any m (''/'' @ join_str ''/'' segs) \<noteq> Handler e"
      unfolding pattern_router_def segs None option.case by simp
    ultimately show ?thesis by blast
  next
    case (Some t)
    obtain m' p e' where t: "t = (m', p, e')" by (cases t)
    with Some have "(m, p, e') \<in> set regs" "pattern_matches (route_pattern p) segs"
      by (auto simp: find_Some_iff in_set_conv_nth)
    moreover have "pattern_router regs any m (''/'' @ join_str ''/'' segs) = Handler e'"
      unfolding pattern_router_def segs Some t option.case prod.case ..
    ultimately show ?thesis using same by auto
  qed
qed


subsection \<open>The boundary\<close>

text \<open>C18: No handler of the API runs without the token: a request below /api that is dispatched carries a bearer token with the digest of the server's, and the gate has let it through, so it is one of the contract.\<close>

theorem api_needs_the_token:
  assumes "ServeHTTP S header r = Dispatched e" and "has_prefix (hq_path r) ''/api/''"
  shows "(\<exists>t. header = ''Bearer '' @ t \<and> cr_sha256 (as_crypto S) t = cr_sha256 (as_crypto S) (as_token S)) \<and>
    (\<exists>route op. route \<in> set routes \<and> matchSegments (rs_segments route) (apiSegments (hq_path r)) \<and>
       map_of (rs_methods route) (hq_method r) = Some op \<and> within_contract (as_gate S) r route op)"
proof -
  from assms have a: "authorized S header" and c: "dc_allowed (Check (as_gate S) r)"
    by (auto simp: ServeHTTP_def Let_def split: if_splits)
  from a obtain t where "header = ''Bearer '' @ t" "cr_sha256 (as_crypto S) t = cr_sha256 (as_crypto S) (as_token S)"
    unfolding authorized_def Authorized_def equalSecret_def
    by (metis has_prefix_iff trim_prefix_append)
  moreover from supported_route_contract allowed_cases[OF c assms(2)]
  have "\<exists>route op. route \<in> set routes \<and> matchSegments (rs_segments route) (apiSegments (hq_path r)) \<and>
       map_of (rs_methods route) (hq_method r) = Some op \<and> within_contract (as_gate S) r route op"
    by (metis (mono_tags, lifting) find_Some_iff nth_mem)
  ultimately show ?thesis by blast
qed

definition demo_crypto :: crypto where
  "demo_crypto = \<lparr>cr_sha256 = (\<lambda>t. t), cr_hmac = (\<lambda>k b. k @ b)\<rparr>"

definition demo_api_server :: api_server where
  "demo_api_server = \<lparr>as_token = ''secret'', as_webhook_secret = ''hook'', as_crypto = demo_crypto, as_gate = demo_gate,
     as_api = \<lparr>av_marshal = (\<lambda>_. None), av_details = (\<lambda>d. d), av_text = (\<lambda>t. t), av_time_text = (\<lambda>_. ''now''),
       av_rfc3339 = (\<lambda>_. None)\<rparr>, as_router = pattern_router\<rparr>"

theorem api_needs_the_token_witness:
  "(\<exists>t. ''Bearer secret'' = ''Bearer '' @ t \<and> cr_sha256 demo_crypto t = cr_sha256 demo_crypto ''secret'') \<and>
    (\<exists>route op. route \<in> set routes \<and> matchSegments (rs_segments route) (apiSegments (hq_path demo_create)) \<and>
       map_of (rs_methods route) (hq_method demo_create) = Some op \<and> within_contract demo_gate demo_create route op)"
proof -
  have "case ServeHTTP demo_api_server ''Bearer secret'' demo_create of Dispatched e \<Rightarrow> e = PlaygroundCreate | Answered _ \<Rightarrow> False"
    by code_simp
  then have "ServeHTTP demo_api_server ''Bearer secret'' demo_create = Dispatched PlaygroundCreate"
    by (simp split: dispatch.splits)
  from api_needs_the_token[OF this] show ?thesis
    by (simp add: demo_api_server_def demo_create_def)
qed

text \<open>C20: A delivery starts work only when it is signed: the server has a secret that is not blank, the signature is the one of the body under it, and what is handed to the worker is a push to a branch that still exists, with the branch and the commit the body names.\<close>

theorem webhook_work_is_signed:
  assumes "githubWebhook S parse d = (rep, Some ev)"
  shows "\<exists>body payload. dl_body d = Some body \<and> trim_space (as_webhook_secret S) \<noteq> [] \<and>
    trim_space (dl_signature d) = ''sha256='' @ cr_hmac (as_crypto S) (trim_space (as_webhook_secret S)) body \<and>
    trim_space (dl_event d) = ''push'' \<and>
    (\<exists>v. parse body = Inr v \<and> decode_webhook v = Inr payload) \<and>
    RepositoryFullName (wh_full_name payload) = Some (pe_repository ev) \<and>
    (\<exists>branch. trim_space (wh_ref payload) = ''refs/heads/'' @ branch \<and> pe_branch ev = trim_space branch) \<and> pe_branch ev \<noteq> [] \<and>
    pe_after ev = trim_space (wh_after payload) \<and> \<not> list_all (\<lambda>c. c = CHR ''0'') (pe_after ev)"
proof -
  obtain body where b: "dl_body d = Some body"
      "ValidWebhookSignature (as_crypto S) (as_webhook_secret S) (dl_signature d) body"
    using assms by (auto simp: githubWebhook_def Let_def split: option.splits if_splits)
  then obtain v payload where p: "parse body = Inr v" "decode_webhook v = Inr payload"
      "actionablePushPayload (dl_event d) payload" "ev = pushEventFromPayload (dl_event d) payload"
    using assms by (auto simp: githubWebhook_def Let_def PushEventFromWebhook_def split: sum.splits if_splits)
  from p(3) obtain branch where br: "trim_space (wh_ref payload) = ''refs/heads/'' @ branch" "trim_space branch \<noteq> []"
      "\<not> allZeroGitHubSHA (wh_after payload)" "RepositoryFullName (wh_full_name payload) \<noteq> None" "trim_space (dl_event d) = ''push''"
    unfolding actionablePushPayload_def cut_prefix_def has_prefix_iff by (auto split: if_splits)
  moreover have "fst (cut_prefix (trim_space (wh_ref payload)) ''refs/heads/'') = branch"
    unfolding br(1) cut_prefix_def by simp
  ultimately show ?thesis
    using b p by (auto simp: ValidWebhookSignature_def Let_def pushEventFromPayload_def allZeroGitHubSHA_def split: if_splits)
qed

definition demo_delivery :: delivery where
  "demo_delivery = \<lparr>dl_body = Some ''p'', dl_signature = '' sha256=hookp'', dl_event = ''push''\<rparr>"

definition demo_push_json :: json where
  "demo_push_json = JObj [(''ref'', JStr ''refs/heads/main''), (''after'', JStr ''abc1''),
     (''repository'', JObj [(''full_name'', JStr ''acme/web'')])]"

definition demo_pushed :: GitHubPushEvent where
  "demo_pushed = \<lparr>pe_repository = ''acme/web'', pe_branch = ''main'', pe_after = ''abc1''\<rparr>"

theorem webhook_work_is_signed_witness:
  "\<exists>body payload. dl_body demo_delivery = Some body \<and> trim_space (as_webhook_secret demo_api_server) \<noteq> [] \<and>
    trim_space (dl_signature demo_delivery) =
      ''sha256='' @ cr_hmac (as_crypto demo_api_server) (trim_space (as_webhook_secret demo_api_server)) body \<and>
    trim_space (dl_event demo_delivery) = ''push'' \<and>
    (\<exists>v. (Inr demo_push_json :: json_error + json) = Inr v \<and> decode_webhook v = Inr payload) \<and>
    RepositoryFullName (wh_full_name payload) = Some (pe_repository demo_pushed) \<and>
    (\<exists>branch. trim_space (wh_ref payload) = ''refs/heads/'' @ branch \<and> pe_branch demo_pushed = trim_space branch) \<and>
    pe_branch demo_pushed \<noteq> [] \<and> pe_after demo_pushed = trim_space (wh_after payload) \<and>
    \<not> list_all (\<lambda>c. c = CHR ''0'') (pe_after demo_pushed)"
proof -
  have "case githubWebhook demo_api_server (\<lambda>_. Inr demo_push_json) demo_delivery of (rep, ev) \<Rightarrow> ev = Some demo_pushed"
    by code_simp
  then have "githubWebhook demo_api_server (\<lambda>_. Inr demo_push_json) demo_delivery =
      (fst (githubWebhook demo_api_server (\<lambda>_. Inr demo_push_json) demo_delivery), Some demo_pushed)"
    by (simp split: prod.splits)
  from webhook_work_is_signed[OF this] show ?thesis .
qed

end
