(* ===== verification/PlaygroundLists.thy ===== *)
theory PlaygroundLists
  imports PlaygroundOps ApiLists
begin

text \<open>
  Listing playgrounds and reading their logs: \<open>internal/playground\<close> (\<open>list_filters.go\<close>, \<open>list_filter_ids.go\<close>,
  \<open>queries.go\<close>, \<open>logs.go\<close>, and the list handler of \<open>http.go\<close>).
\<close>

subsection \<open>Filters by id or name (queries.go, list\_filter\_ids.go)\<close>

text \<open>The value of a filter that is given, trimmed.\<close>

definition resourceFilterValue :: "query \<Rightarrow> string \<Rightarrow> fault + string option" where
  "resourceFilterValue q key =
     (case map_of q key of
        None \<Rightarrow> Inr None
      | Some [] \<Rightarrow> Inl (BadRequestError (key @ '' must be an id or name''))
      | Some (v # _) \<Rightarrow>
          if trim_space v = [] then Inl (BadRequestError (key @ '' must be an id or name''))
          else Inr (Some (trim_space v)))"

definition signedIntegerDigits :: "string \<Rightarrow> string" where
  "signedIntegerDigits value =
     (case value of c # s \<Rightarrow> if c = CHR ''+'' \<or> c = CHR ''-'' then s else value | [] \<Rightarrow> [])"

definition looksLikeSignedInteger :: "string \<Rightarrow> bool" where
  "looksLikeSignedInteger value =
     (let digits = signedIntegerDigits value in digits \<noteq> [] \<and> list_all (\<lambda>c. CHR ''0'' \<le> c \<and> c \<le> CHR ''9'') digits)"

definition positiveResourceFilterID :: "string \<Rightarrow> string \<Rightarrow> fault + int option" where
  "positiveResourceFilterID value key =
     (if \<not> looksLikeSignedInteger value then Inr None
      else let bad = Inl (BadRequestError (key @ '' must be a positive id or name''))
           in case parse_int64 value of
                Inl _ \<Rightarrow> bad
              | Inr i \<Rightarrow> if i \<le> 0 then bad else Inr (Some i))"

record resourceFilterIDResult =
  rf_id :: int
  rf_present :: bool
  rf_matchable :: bool

definition matching_id :: "int \<Rightarrow> resourceFilterIDResult" where
  "matching_id i = \<lparr>rf_id = i, rf_present = True, rf_matchable = True\<rparr>"

definition matching_none :: resourceFilterIDResult where
  "matching_none = \<lparr>rf_id = 0, rf_present = True, rf_matchable = False\<rparr>"

definition no_filter :: resourceFilterIDResult where
  "no_filter = \<lparr>rf_id = 0, rf_present = False, rf_matchable = False\<rparr>"

definition queryResourceFilterID ::
    "query \<Rightarrow> string \<Rightarrow> (string \<Rightarrow> (go_error + int) io) \<Rightarrow> (fault + resourceFilterIDResult) io" where
  "queryResourceFilterID q key lookup =
     (case resourceFilterValue q key of
        Inl e \<Rightarrow> Ret (Inl e)
      | Inr None \<Rightarrow> Ret (Inr no_filter)
      | Inr (Some value) \<Rightarrow>
          (case positiveResourceFilterID value key of
             Inl e \<Rightarrow> Ret (Inl e)
           | Inr (Some i) \<Rightarrow> Ret (Inr (matching_id i))
           | Inr None \<Rightarrow>
               bind (lookup value) (\<lambda>x. Ret (case x of
                 Inl e \<Rightarrow> if is_not_found e then Inr matching_none else Inl (Cause e)
               | Inr i \<Rightarrow> Inr (matching_id i)))))"

definition queryPlayspecFilterID :: "query \<Rightarrow> (fault + resourceFilterIDResult) io" where
  "queryPlayspecFilterID q =
     queryResourceFilterID q ''playspec_id'' (\<lambda>identifier.
       bind (ask_spec (FindPlayspec identifier)) (\<lambda>x. Ret (case x of
         Inl e \<Rightarrow> Inl e
       | Inr ps \<Rightarrow> (case ps_id ps of None \<Rightarrow> Inl ErrNotFound | Some i \<Rightarrow> Inr i))))"

definition resolveNamedMarqueeFilterID :: "string \<Rightarrow> marquee option \<Rightarrow> (fault + resourceFilterIDResult) io" where
  "resolveNamedMarqueeFilterID value configured =
     (case configured of
        None \<Rightarrow> Ret (Inr matching_none)
      | Some c \<Rightarrow>
          bind (ask_marquee_named value) (\<lambda>x. Ret (case x of
            Inl e \<Rightarrow> if is_not_found e then Inr matching_none else Inl (Cause e)
          | Inr None \<Rightarrow> Inr matching_none
          | Inr (Some mq) \<Rightarrow> Inr (if mq_id mq \<noteq> mq_id c then matching_none\<lparr>rf_id := mq_id mq\<rparr> else matching_id (mq_id mq)))))"

definition resolveMarqueeFilterID :: "string \<Rightarrow> (fault + resourceFilterIDResult) io" where
  "resolveMarqueeFilterID value =
     bind ask_marquee (\<lambda>x. case x of
       Inl e \<Rightarrow> Ret (Inl (Cause e))
     | Inr configured \<Rightarrow>
         (case positiveResourceFilterID value ''marquee_id'' of
            Inl e \<Rightarrow> Ret (Inl e)
          | Inr (Some i) \<Rightarrow> Ret (Inr (case configured of None \<Rightarrow> matching_none | Some c \<Rightarrow> matching_id (mq_id c)))
          | Inr None \<Rightarrow> resolveNamedMarqueeFilterID value configured))"

definition queryMarqueeFilterID :: "query \<Rightarrow> (fault + resourceFilterIDResult) io" where
  "queryMarqueeFilterID q =
     (case resourceFilterValue q ''marquee_id'' of
        Inl e \<Rightarrow> Ret (Inl e)
      | Inr None \<Rightarrow> Ret (Inr no_filter)
      | Inr (Some value) \<Rightarrow> resolveMarqueeFilterID value)"

subsection \<open>Filters (list\_filters.go)\<close>

record playgroundFilters =
  pf_query :: string
  pf_name :: string
  pf_status :: "string optional_value"
  pf_playspec :: resourceFilterIDResult
  pf_marquee :: resourceFilterIDResult

definition playgroundFilterParams :: "query \<Rightarrow> (fault + playgroundFilters) io" where
  "playgroundFilterParams q =
     bind (queryPlayspecFilterID q) (\<lambda>x. case x of Inl e \<Rightarrow> Ret (Inl e) | Inr playspec \<Rightarrow>
     bind (queryMarqueeFilterID q) (\<lambda>x. case x of Inl e \<Rightarrow> Ret (Inl e) | Inr marquee \<Rightarrow>
       Ret (case QueryBool q ''job_mode'' of
         Inl e \<Rightarrow> Inl (BadRequestError e)
       | Inr _ \<Rightarrow>
           (case QueryExact q ''status'' of
              Inl e \<Rightarrow> Inl (BadRequestError e)
            | Inr status \<Rightarrow> Inr \<lparr>pf_query = q_get q ''q'', pf_name = q_get q ''name'', pf_status = status,
                pf_playspec = playspec, pf_marquee = marquee\<rparr>))))"

definition matchesOptionalIDFilter :: "resourceFilterIDResult \<Rightarrow> int option \<Rightarrow> bool" where
  "matchesOptionalIDFilter f itemID =
     (if \<not> rf_present f then True else rf_matchable f \<and> itemID = Some (rf_id f))"

definition matchesPlaygroundStatus :: "playground \<Rightarrow> playgroundFilters \<Rightarrow> bool" where
  "matchesPlaygroundStatus item f = (\<not> ov_present (pf_status f) \<or> pg_status item = ov_value (pf_status f))"

definition matchesPlaygroundFilters :: "playground \<Rightarrow> playgroundFilters \<Rightarrow> bool" where
  "matchesPlaygroundFilters item f =
     (MatchesText (pg_name item) (pf_query f) \<and> MatchesText (pg_name item) (pf_name f) \<and>
      matchesPlaygroundStatus item f \<and> matchesOptionalIDFilter (pf_playspec f) (pg_playspec_id item) \<and>
      matchesOptionalIDFilter (pf_marquee f) (pg_marquee_id item))"

definition playground_list_fields :: "playground list_fields" where
  "playground_list_fields = \<lparr>lf_name = Some pg_name, lf_status = Some pg_status, lf_created_at = pg_created_at\<rparr>"

definition filterPlaygrounds :: "time_reader \<Rightarrow> query \<Rightarrow> playground list \<Rightarrow> (fault + playground list) io" where
  "filterPlaygrounds T q items =
     bind (playgroundFilterParams q) (\<lambda>x. Ret (case x of
       Inl e \<Rightarrow> Inl e
     | Inr f \<Rightarrow>
         (case ApplyCommon T q playground_list_fields (SelectItems items (\<lambda>item. matchesPlaygroundFilters item f)) of
            Inl e \<Rightarrow> Inl (BadRequestError e)
          | Inr out \<Rightarrow> Inr out)))"

definition playgroundsList :: "server \<Rightarrow> time_reader \<Rightarrow> query \<Rightarrow> reply io" where
  "playgroundsList S T q =
     bind (ask_rows ListPlaygrounds) (\<lambda>x. case x of
       Inl e \<Rightarrow> Ret (ServerError (sr_api S) e)
     | Inr items \<Rightarrow>
         bind (filterPlaygrounds T q items) (\<lambda>y. Ret (case y of
           Inl (Cause e) \<Rightarrow> ServerError (sr_api S) e
         | Inl e \<Rightarrow> ValidationOrBadRequest (sr_api S) e
         | Inr out \<Rightarrow> list_reply (sr_api S) q BodyPlayground out)))"

subsection \<open>Logs (logs.go)\<close>

definition appendServiceName :: "string \<Rightarrow> string list \<Rightarrow> string list" where
  "appendServiceName raw names =
     (let name = trim_space raw in if name = [] \<or> name \<in> set names then names else names @ [name])"

definition playgroundLogServiceNames :: "playground \<Rightarrow> string list" where
  "playgroundLogServiceNames pg =
     sort (fold appendServiceName (map url_name (pg_service_urls pg)) (fold appendServiceName (map svc_name (pg_services pg)) []))"

definition playgroundHasService :: "playground \<Rightarrow> string \<Rightarrow> bool" where
  "playgroundHasService pg service = (service \<in> set (playgroundLogServiceNames pg))"

definition log_service :: "playgroundLogsPayload \<Rightarrow> string" where
  "log_service p = (case pl_service p of None \<Rightarrow> [] | Some s \<Rightarrow> trim_space s)"

definition playgroundLogsOptions :: "playgroundLogsPayload \<Rightarrow> fault + string \<times> int" where
  "playgroundLogsOptions body =
     (let bad = Inl (BadRequestError ''tail must be a non-negative integer'');
          tail = (case pl_tail body of None \<Rightarrow> 5000 | Some n \<Rightarrow> n)
      in if presentBlankStringPtr (pl_fields body) ''service'' (pl_service body)
         then Inl (BadRequestError ''service must not be blank'')
         else if Has (pl_fields body) ''tail'' \<and> pl_tail body = None then bad
         else if tail < 0 then bad
         else Inr (log_service body, tail))"

definition currentPlaygroundForLogs :: "int \<Rightarrow> (api_error + playground) io" where
  "currentPlaygroundForLogs i =
     bind (ask_row (GetPlayground i)) (\<lambda>x. Ret (case x of
       Inr pg \<Rightarrow> Inr pg
     | Inl e \<Rightarrow>
         if is_not_found e
         then Inl (api_error_of ''RESOURCE_NOT_FOUND'' ''playground not found''
                (Some [(''resource'', AStr ''playground''), (''id'', AInt KInt64 i)]))
         else Inl (api_error_of ''INTERNAL_ERROR'' (error_text e) None)))"

text \<open>The store answers an error together with \<open>found = false\<close>, which is looked at first.\<close>

definition liveServiceLogLines :: "playground \<Rightarrow> int \<Rightarrow> string \<Rightarrow> string \<Rightarrow> int \<Rightarrow> (api_error + string list) io" where
  "liveServiceLogLines pg mqid project service tail =
     bind ask_marquee (\<lambda>x. case x of
       Inr (Some mq) \<Rightarrow>
         bind (ask_texts (ComposeLogs mq project service tail)) (\<lambda>(lines, err). Ret (case err of
           None \<Rightarrow> Inr lines
         | Some e \<Rightarrow> Inl (api_error_of ''LOGS_UNAVAILABLE'' (error_text e)
             (Some [(''compose_project'', AStr project), (''service'', AStr service)]))))
     | _ \<Rightarrow> Ret (Inl (api_error_of ''LOGS_UNAVAILABLE'' (''playground references missing marquee '' @ itoa mqid)
              (Some [(''dependency'', AStr ''marquee''), (''id'', AInt KInt64 mqid)]))))"

definition serviceLogPayload :: "int \<Rightarrow> string \<Rightarrow> string list \<Rightarrow> string \<Rightarrow> doc" where
  "serviceLogPayload i service lines source =
     [(''playground_id'', AInt KInt64 i), (''service'', AStr service), (''lines'', AStrs lines), (''source'', AStr source)]"

definition stringSlice :: "any \<Rightarrow> string list" where
  "stringSlice value = (case value of AStrs ss \<Rightarrow> ss | _ \<Rightarrow> [])"

definition doc_text :: "doc \<Rightarrow> string \<Rightarrow> string" where
  "doc_text d k = (case any_at d k of AStr s \<Rightarrow> s | _ \<Rightarrow> [])"

definition aggregateLogSource :: "string list \<Rightarrow> string" where
  "aggregateLogSource sources =
     (case remdups sources of [] \<Rightarrow> ''none'' | [only] \<Rightarrow> only | _ \<Rightarrow> ''mixed'')"

definition aggregateLogPayload :: "int \<Rightarrow> doc list \<Rightarrow> doc" where
  "aggregateLogPayload i payloads =
     (let lines = concat (map (\<lambda>p. map (\<lambda>line. ''['' @ doc_text p ''service'' @ ''] '' @ line) (stringSlice (any_at p ''lines''))) payloads);
          entries = concat (map (\<lambda>p. map (\<lambda>line. [(''service'', AStr (doc_text p ''service'')), (''line'', AStr line),
              (''source'', AStr (doc_text p ''source''))]) (stringSlice (any_at p ''lines''))) payloads);
          diagnostics = fold (\<lambda>p m. put_key (doc_text p ''service'') (AMap [(''source'', AStr (doc_text p ''source''))]) m) payloads [];
          sources = filter (\<lambda>s. s \<noteq> []) (map (\<lambda>p. doc_text p ''source'') payloads)
      in [(''playground_id'', AInt KInt64 i), (''service'', AStr []), (''lines'', AStrs lines),
          (''source'', AStr (aggregateLogSource sources)), (''entries'', AMaps entries),
          (''diagnostics'', AMap [(''services'', AMap diagnostics)])])"

definition singlePlaygroundLogsPayload :: "playground \<Rightarrow> string \<Rightarrow> int \<Rightarrow> (api_error + doc) io" where
  "singlePlaygroundLogsPayload pg service tail =
     (case (pg_marquee_id pg, pg_compose_project pg) of
        (Some mqid, Some project) \<Rightarrow>
          bind (liveServiceLogLines pg mqid project service tail) (\<lambda>x. Ret (case x of
            Inl e \<Rightarrow> Inl e
          | Inr lines \<Rightarrow> Inr (serviceLogPayload (pg_id pg) service lines ''docker'')))
      | _ \<Rightarrow> Ret (Inr (serviceLogPayload (pg_id pg) service [] ''cached'')))"

fun live_payloads :: "playground \<Rightarrow> int \<Rightarrow> string \<Rightarrow> int \<Rightarrow> string list \<Rightarrow> (api_error + doc list) io" where
  "live_payloads pg mqid project tail [] = Ret (Inr [])"
| "live_payloads pg mqid project tail (service # services) =
     bind (liveServiceLogLines pg mqid project service tail) (\<lambda>x. case x of
       Inl e \<Rightarrow> Ret (Inl e)
     | Inr lines \<Rightarrow>
         bind (live_payloads pg mqid project tail services) (\<lambda>y. Ret (case y of
           Inl e \<Rightarrow> Inl e
         | Inr ps \<Rightarrow> Inr (serviceLogPayload (pg_id pg) service lines ''docker'' # ps))))"

definition allPlaygroundLogsPayload :: "playground \<Rightarrow> int \<Rightarrow> (api_error + doc) io" where
  "allPlaygroundLogsPayload pg tail =
     (case (pg_marquee_id pg, pg_compose_project pg) of
        (Some mqid, Some project) \<Rightarrow>
          bind (live_payloads pg mqid project tail (playgroundLogServiceNames pg)) (\<lambda>x. Ret (case x of
            Inl e \<Rightarrow> Inl e
          | Inr ps \<Rightarrow> Inr (aggregateLogPayload (pg_id pg) ps)))
      | _ \<Rightarrow> Ret (Inr (aggregateLogPayload (pg_id pg) [])))"

definition playground_logs_payload :: "int \<Rightarrow> string \<Rightarrow> int \<Rightarrow> (api_error + doc) io" where
  "playground_logs_payload i service tail =
     bind (currentPlaygroundForLogs i) (\<lambda>x. case x of
       Inl e \<Rightarrow> Ret (Inl e)
     | Inr current \<Rightarrow>
         if service \<noteq> [] \<and> \<not> playgroundHasService current service
         then Ret (Inl (api_error_of ''SERVICE_NOT_FOUND'' (''service '' @ service @ '' not found'') None))
         else if service = [] then allPlaygroundLogsPayload current tail
         else singlePlaygroundLogsPayload current service tail)"

definition logs_job :: "int \<Rightarrow> string \<Rightarrow> int \<Rightarrow> job" where
  "logs_job i service tail =
     bind (playground_logs_payload i service tail) (\<lambda>x. Ret (case x of Inl e \<Rightarrow> (None, Some e) | Inr d \<Rightarrow> (Some d, None)))"

definition playgroundLogsTarget :: "server \<Rightarrow> playground \<Rightarrow> string \<Rightarrow> playground step" where
  "playgroundLogsTarget S loaded service =
     (if service = [] then Ret (Inr loaded)
      else bind (ask_row (GetPlayground (pg_id loaded))) (\<lambda>x. case x of
        Inl e \<Rightarrow> stop_with (writeStoreErr (sr_api S) ''playground'' e)
      | Inr current \<Rightarrow>
          if \<not> playgroundHasService current service
          then stop_with (Error (sr_api S) 422 ''SERVICE_NOT_FOUND'' (''service '' @ service @ '' not found'') None)
          else Ret (Inr current)))"

definition playgroundsLogs :: "server \<Rightarrow> string \<Rightarrow> request_body \<Rightarrow> (reply \<times> started) io" where
  "playgroundsLogs S identifier b =
     or_started (loadPlayground S identifier) (\<lambda>pg.
       case decodeOptional S b decode_logs_payload \<lparr>pl_service = None, pl_tail = None, pl_fields = []\<rparr> of
         Inl r \<Rightarrow> Ret (r, None)
       | Inr body \<Rightarrow>
           (case playgroundLogsOptions body of
              Inl e \<Rightarrow> Ret (ValidationOrBadRequest (sr_api S) e, None)
            | Inr (service, tail) \<Rightarrow>
                or_started (playgroundLogsTarget S pg service) (\<lambda>target.
                  enqueued (sr_api S) (logs_job (pg_id target) service tail))))"

subsection \<open>Listings\<close>

lemma pages_cover:
  assumes "0 < n" and "length data \<le> m * n"
  shows "concat (map (\<lambda>k. page_of \<lparr>pp_page = 1 + int k, pp_per_page = int n\<rparr> data) [0..<m]) = data"
  using slices_cover[OF assms(1), of data m] assms by (simp add: page_of_slice)


subsection \<open>Which logs are read\<close>

definition logs_guard :: "int \<Rightarrow> history \<Rightarrow> request \<Rightarrow> bool" where
  "logs_guard i h q =
     (case q of
        ComposeLogs mq project service tail \<Rightarrow>
          (\<exists>current rest. h = (GetPlayground i, Row (Inr current)) # rest \<and> pg_compose_project current = Some project \<and>
             pg_marquee_id current \<noteq> None \<and> service \<in> set (playgroundLogServiceNames current) \<and> rest \<noteq> [] \<and>
             last rest = (GetRuntimeMarquee, MarqueeRow (Inr (Some mq))))
      | GetPlayground j \<Rightarrow> j = i \<and> h = []
      | GetRuntimeMarquee \<Rightarrow> True
      | _ \<Rightarrow> False)"

lemma live_lines_wp:
  assumes "h = (GetPlayground i, Row (Inr current)) # rest" "pg_compose_project current = Some project"
    "pg_marquee_id current \<noteq> None" "service \<in> set (playgroundLogServiceNames current)"
    and "\<And>rest' x. Q ((GetPlayground i, Row (Inr current)) # rest') x"
  shows "wp (logs_guard i) Q (liveServiceLogLines current mqid project service tail) h"
  using assms by (auto simp: liveServiceLogLines_def logs_guard_def split: sum.split option.split)

lemma live_payloads_wp:
  assumes "pg_compose_project current = Some project" "pg_marquee_id current \<noteq> None"
    "set services \<subseteq> set (playgroundLogServiceNames current)"
  shows "wp (logs_guard i) (\<lambda>_ _. True) (live_payloads current mqid project tail services)
    ((GetPlayground i, Row (Inr current)) # rest)"
  using assms(3)
proof (induction services arbitrary: rest)
  case (Cons service services)
  then have "wp (logs_guard i) (\<lambda>_ _. True) (live_payloads current mqid project tail services)
      ((GetPlayground i, Row (Inr current)) # rest')" for rest'
    by simp
  then have "wp (logs_guard i) (\<lambda>h a. a = a) (live_payloads current mqid project tail services)
      ((GetPlayground i, Row (Inr current)) # rest')" for rest' by simp
  with Cons.prems show ?case
    by (auto intro!: live_lines_wp[OF refl assms(1,2)] split: sum.split)
qed simp

lemma logs_wp: "wp (logs_guard i) (\<lambda>_ _. True) (logs_job i service tail) []"
proof -
  have "wp (logs_guard i) (\<lambda>_ _. True) (allPlaygroundLogsPayload current tail) [(GetPlayground i, Row (Inr current))]" for current
    using live_payloads_wp[of current _ _ i _ tail "[]"]
    by (auto simp: allPlaygroundLogsPayload_def split: option.split)
  moreover have "wp (logs_guard i) (\<lambda>_ _. True) (singlePlaygroundLogsPayload current service tail) [(GetPlayground i, Row (Inr current))]"
    if "playgroundHasService current service" for current
    using that by (auto simp: singlePlaygroundLogsPayload_def playgroundHasService_def split: option.split intro!: live_lines_wp[OF refl])
  ultimately show ?thesis
    by (auto simp: logs_job_def playground_logs_payload_def currentPlaygroundForLogs_def logs_guard_def split: sum.split)
qed

text \<open>Reading logs touches nothing and reads nothing else: the job reads the row again, once, and asks the runtime only for the logs of services that row lists, in the project that row names, on the Marquee it has just looked up; it makes no other request.\<close>

theorem logs_only_of_listed_services:
  assumes "trace (logs_job i service tail) (es1 @ (q, r) # es2)"
  shows "logs_guard i es1 q"
  using wp_trace[OF logs_wp assms refl] by simp

definition demo_times :: time_reader where
  "demo_times = \<lparr>tr_rfc3339 = (\<lambda>_. None), tr_day = (\<lambda>_. None)\<rparr>"

definition demo_query :: query where
  "demo_query = [(''status'', [''running'']), (''playspec_id'', [''shop'']), (''sort'', [''name_desc''])]"

definition demo_shop :: playground where
  "demo_shop = demo_row\<lparr>pg_id := 8, pg_name := ''shop'', pg_playspec_id := Some 2\<rparr>"


definition demo_web :: playground where
  "demo_web = demo_row\<lparr>pg_services := [\<lparr>svc_name = ''web'', svc_status = [], svc_image = [], svc_health = [], svc_running = True,
     svc_exit_code = None\<rparr>]\<rparr>"

definition demo_logs :: history where
  "demo_logs = fst (replay (logs_job 7 [] 10)
     [Row (Inr demo_web), MarqueeRow (Inr (Some demo_marquee)), Texts ([''ready''], None)])"

theorem logs_only_of_listed_services_witness: "logs_guard 7 (take 2 demo_logs) (ComposeLogs demo_marquee ''p-1'' ''web'' 10)"
proof -
  have "trace (logs_job 7 [] 10) demo_logs"
    unfolding demo_logs_def by (rule replay_trace[OF prod.collapse[symmetric]])
  moreover have "demo_logs = take 2 demo_logs @ (ComposeLogs demo_marquee ''p-1'' ''web'' 10, Texts ([''ready''], None)) # []"
    by code_simp
  ultimately show ?thesis using logs_only_of_listed_services by metis
qed

text \<open>A failure of the store while the Marquee is looked up is reported as a missing Marquee.\<close>

theorem store_failure_reported_as_missing:
  "case replay (logs_job 7 ''web'' 10) [Row (Inr demo_web), MarqueeRow (Inl (ErrText ''disk I/O error''))] of
     (_, Some (None, Some e)) \<Rightarrow> ae_message e = ''playground references missing marquee 1'' | _ \<Rightarrow> False"
  by code_simp

end
