(* ===== verification/CheckedSteps.thy ===== *)
theory CheckedSteps
  imports Marquees
begin

text \<open>
  Steps of the resource packages that return an error value instead of a reply: \<open>and_go\<close> is the early return
  \<open>if err != nil\<close>, \<open>caused\<close> the error of a call passed on, \<open>pass_when\<close> a check. And \<open>IsUniqueConstraint\<close> of
  \<open>internal/storage/store.go\<close>, by which creations notice a name that is taken.
\<close>

type_synonym 'a check = "(fault + 'a) io"

definition and_go :: "'a check \<Rightarrow> ('a \<Rightarrow> 'b check) \<Rightarrow> 'b check" where
  "and_go m f = bind m (\<lambda>x. case x of Inl e \<Rightarrow> Ret (Inl e) | Inr a \<Rightarrow> f a)"

definition pass_when :: "fault option \<Rightarrow> unit check" where
  "pass_when e = Ret (case e of None \<Rightarrow> Inr () | Some x \<Rightarrow> Inl x)"

definition caused :: "(go_error + 'a) io \<Rightarrow> 'a check" where
  "caused m = bind m (\<lambda>x. Ret (case x of Inl e \<Rightarrow> Inl (Cause e) | Inr a \<Rightarrow> Inr a))"

fun IsUniqueConstraint :: "go_error \<Rightarrow> bool" where
  "IsUniqueConstraint (ErrUnique t) = True"
| "IsUniqueConstraint (ErrSync s e) = IsUniqueConstraint e"
| "IsUniqueConstraint (ErrWrap t e) = IsUniqueConstraint e"
| "IsUniqueConstraint (ErrJoin es) = list_ex IsUniqueConstraint es"
| "IsUniqueConstraint _ = False"

lemma wp_and_go [simp]:
  "wp G Q (and_go m f) h \<longleftrightarrow> wp G (\<lambda>h x. case x of Inl e \<Rightarrow> Q h (Inl e) | Inr a \<Rightarrow> wp G Q (f a) h) m h"
proof -
  have "(\<lambda>h x. wp G Q (case x of Inl e \<Rightarrow> Ret (Inl e) | Inr a \<Rightarrow> f a) h) =
        (\<lambda>h x. case x of Inl e \<Rightarrow> Q h (Inl e) | Inr a \<Rightarrow> wp G Q (f a) h)"
    by (intro ext) (simp split: sum.split)
  then show ?thesis by (simp add: and_go_def)
qed

lemmas wp_and_goI = wp_and_go[THEN iffD2]

lemma wp_pass_when [simp]:
  "wp G Q (pass_when e) h \<longleftrightarrow> (case e of None \<Rightarrow> Q h (Inr ()) | Some x \<Rightarrow> Q h (Inl x))"
  by (simp add: pass_when_def split: option.split)

lemma wp_caused [simp]:
  "wp G Q (caused m) h \<longleftrightarrow> wp G (\<lambda>h x. case x of Inl e \<Rightarrow> Q h (Inl (Cause e)) | Inr a \<Rightarrow> Q h (Inr a)) m h"
proof -
  have "(\<lambda>h x. wp G Q (Ret (case x of Inl e \<Rightarrow> Inl (Cause e) | Inr a \<Rightarrow> Inr a)) h) =
        (\<lambda>h x. case x of Inl e \<Rightarrow> Q h (Inl (Cause e)) | Inr a \<Rightarrow> Q h (Inr a))"
    by (intro ext) (simp split: sum.split)
  then show ?thesis by (simp add: caused_def)
qed

lemma guarded_and_go [guarded_rules]: "guarded G m \<Longrightarrow> (\<And>a. guarded G (f a)) \<Longrightarrow> guarded G (and_go m f)"
  unfolding and_go_def by (intro guarded_rules) auto

lemma guarded_caused [guarded_rules]: "guarded G m \<Longrightarrow> guarded G (caused m)"
  unfolding caused_def by (intro guarded_rules) auto

lemma guarded_pass_when [guarded_rules]: "guarded G (pass_when e)"
  by (simp add: pass_when_def guarded_rules)

lemma wp_find_marquee [simp]:
  "wp G Q (find_marquee t) h \<longleftrightarrow> G h (FindMarquee t) \<and> (\<forall>x. Q (h @ [(FindMarquee t, MarqueeRow x)])
     (case x of Inl e \<Rightarrow> Inl e | Inr None \<Rightarrow> Inl ErrNotFound | Inr (Some m) \<Rightarrow> Inr m))"
  by (simp add: find_marquee_def)

text \<open>Resolving a Marquee only looks.\<close>

lemma guarded_find_marquee: "(\<And>h. G h (FindMarquee t)) \<Longrightarrow> guarded G (find_marquee t)"
  by (simp add: guarded_def)

lemma guarded_ResolveConfiguredID:
  assumes "\<And>h. G h GetRuntimeMarquee" and "\<And>h t. G h (FindMarquee t)"
  shows "guarded G (ResolveConfiguredID i t)"
  unfolding ResolveConfiguredID_def namedConfiguredID_def
  by (intro guarded_rules guarded_find_marquee) (simp_all add: assms guarded_asks guarded_rules)

end
