(* ===== verification/PlaygroundCreate.thy ===== *)
theory PlaygroundCreate
  imports PlaygroundSafety CheckedSteps
begin

text \<open>
  Creating and changing playgrounds: \<open>internal/playground\<close> (\<open>creation.go\<close> and the create and update handlers of
  \<open>http.go\<close>). A creation stores a pending row and leaves a job behind that deploys it; a creation of a name that is
  taken answers with the row that has it when the intent is the same.

  Shown: what is stored, what is deployed, when a row is replayed, and what an update may change.
\<close>

subsection \<open>Deep equality of decoded values\<close>

text \<open>\<open>reflect.DeepEqual\<close> on values of one JSON decoder: maps are compared by keys, floats by value.\<close>

fun float_equal :: "go_float \<Rightarrow> go_float \<Rightarrow> bool" where
  "float_equal (FDec t) (FDec u) = (t = u \<or> {t, u} = {''0'', ''-0''})"
| "float_equal (FInf s) (FInf t) = (s = t)"
| "float_equal _ _ = False"

fun deep_equal :: "any \<Rightarrow> any \<Rightarrow> bool"
and deep_maps :: "doc \<Rightarrow> doc \<Rightarrow> bool"
and deep_lists :: "any list \<Rightarrow> any list \<Rightarrow> bool" where
  "deep_equal (AMap m) (AMap n) = (length m = length n \<and> deep_maps m n)"
| "deep_equal (ASeq xs) (ASeq ys) = deep_lists xs ys"
| "deep_equal (AFloat k x) (AFloat l y) = (k = l \<and> float_equal x y)"
| "deep_equal (AMap m) _ = False"
| "deep_equal (ASeq xs) _ = False"
| "deep_equal (AFloat k x) _ = False"
| "deep_equal v w = (v = w)"
| "deep_maps [] n = True"
| "deep_maps ((k, v) # m) n = ((case map_of n k of None \<Rightarrow> False | Some w \<Rightarrow> deep_equal v w) \<and> deep_maps m n)"
| "deep_lists [] ys = (ys = [])"
| "deep_lists (x # xs) ys = (case ys of [] \<Rightarrow> False | y # zs \<Rightarrow> deep_equal x y \<and> deep_lists xs zs)"

definition sameAnyMap :: "doc \<Rightarrow> doc \<Rightarrow> bool" where
  "sameAnyMap a b = (a = [] \<and> b = [] \<or> deep_equal (AMap a) (AMap b))"

definition sameStringMap :: "string smap \<Rightarrow> string smap \<Rightarrow> bool" where
  "sameStringMap a b = (length a = length b \<and> list_all (\<lambda>(k, v). map_of b k = Some v) a)"

subsection \<open>Checks (creation.go)\<close>

definition invalid_overrides :: "string \<Rightarrow> doc option \<Rightarrow> fault" where
  "invalid_overrides message details = ValidationError 0 ''INVALID_SERVICE_OVERRIDES'' message details"

definition playground_validation_error :: "string \<Rightarrow> fault" where
  "playground_validation_error message = ValidationError 0 ''VALIDATION_ERROR'' message None"

definition rejectReservedRunServiceOverride :: "playgroundPayload \<Rightarrow> fault option" where
  "rejectReservedRunServiceOverride p =
     (case py_services p of
        None \<Rightarrow> None
      | Some services \<Rightarrow>
          if \<not> has_key services ''_run'' then None
          else Some (invalid_overrides
            ''services._run belongs to Fibe job-mode Playgrounds and is not implemented in fibe-distilled''
            (Some [(''unsupported'', AStrs [''field:services._run''])])))"

definition build_overrides_fault :: fault where
  "build_overrides_fault = ValidationError 501 ''NOT_IMPLEMENTED''
     ''build_overrides_yaml is not implemented in fibe-distilled; use compose build labels for target and args'' None"

definition validatePlaygroundCreateIntent :: "api_env \<Rightarrow> playgroundPayload \<Rightarrow> fault option" where
  "validatePlaygroundCreateIntent E p =
     (if py_name p = [] then Some (playground_validation_error ''playground name is required'')
      else first_fault [validatePlaygroundPayload E p, validatePlaygroundCreatePayload p, rejectReservedRunServiceOverride p])"

definition validatePlaygroundOverridesAgainstPlayspec :: "regex_engine \<Rightarrow> yaml_lib \<Rightarrow> playground \<Rightarrow> playspec \<Rightarrow> fault option" where
  "validatePlaygroundOverridesAgainstPlayspec rx Y pg ps =
     (case ApplyOverrides Y (ps_base_compose_yaml ps) (pg_env_overrides pg) (pg_service_branches pg) of
        Inl e \<Rightarrow> Some (invalid_overrides e None)
      | Inr patched \<Rightarrow>
          if HasUnresolvedTokens patched
          then Some (invalid_overrides
            (''playspec contains unresolved Fibe template variables; launch with variables through /api/launches before creating '' @
             ''a Playground'') (Some [(''unsupported'', AStrs [''unresolved_template_variables''])]))
          else let v = Validate rx Y patched
               in if val_valid v then None
                  else Some (invalid_overrides (join_str ''; '' (val_errors v)) (Some [(''errors'', AStrs (val_errors v))])))"

subsection \<open>References and dependencies\<close>

definition resolvePlaygroundPlayspec :: "playgroundPayload \<Rightarrow> playgroundPayload check" where
  "resolvePlaygroundPlayspec p =
     (if py_playspec_id p = None \<and> py_playspec_identifier p \<noteq> []
      then and_go (caused (ask_spec (FindPlayspec (py_playspec_identifier p)))) (\<lambda>ps.
             Ret (Inr (p\<lparr>py_playspec_id := ps_id ps\<rparr>)))
      else Ret (Inr p))"

definition resolvePlaygroundReferences :: "playgroundPayload \<Rightarrow> playgroundPayload check" where
  "resolvePlaygroundReferences p =
     and_go (resolvePlaygroundPlayspec p) (\<lambda>p1.
       and_go (caused (ResolveConfiguredID (py_marquee_id p1) (py_marquee_identifier p1))) (\<lambda>i.
         Ret (Inr (p1\<lparr>py_marquee_id := i\<rparr>))))"

definition loadRequiredMarquee :: "int option \<Rightarrow> marquee check" where
  "loadRequiredMarquee i =
     (case i of
        None \<Rightarrow> Ret (Inl (playground_validation_error ''marquee_id is required''))
      | Some n \<Rightarrow> caused (find_marquee (itoa n)))"

definition loadPlaygroundCreateDependencies :: "playgroundPayload \<Rightarrow> (playspec \<times> marquee) check" where
  "loadPlaygroundCreateDependencies p =
     (case py_playspec_id p of
        None \<Rightarrow> Ret (Inl (playground_validation_error ''playspec_id is required''))
      | Some i \<Rightarrow>
          and_go (caused (ask_spec (FindPlayspec (itoa i)))) (\<lambda>ps.
            and_go (loadRequiredMarquee (py_marquee_id p)) (\<lambda>mq. Ret (Inr (ps, mq)))))"

definition preparePlaygroundCreate :: "api_env \<Rightarrow> playgroundPayload \<Rightarrow> (playgroundPayload \<times> playspec \<times> marquee) check" where
  "preparePlaygroundCreate E p =
     and_go (pass_when (validatePlaygroundCreateIntent E p)) (\<lambda>_.
       and_go (resolvePlaygroundReferences p) (\<lambda>p1.
         and_go (loadPlaygroundCreateDependencies p1) (\<lambda>(ps, mq). Ret (Inr (p1, ps, mq)))))"

subsection \<open>Rows that exist\<close>

definition sameExpirationIntent :: "int option \<Rightarrow> int option \<Rightarrow> playgroundPayload \<Rightarrow> bool" where
  "sameExpirationIntent existing requested p =
     (case py_never_expire p of
        Some True \<Rightarrow> existing = None
      | Some False \<Rightarrow> existing \<noteq> None
      | None \<Rightarrow> if py_expires_at p \<noteq> ANil then existing = requested else existing = None)"

definition samePlaygroundCreateIntent :: "playground \<Rightarrow> playground \<Rightarrow> playgroundPayload \<Rightarrow> bool" where
  "samePlaygroundCreateIntent existing requested p =
     (pg_playspec_id existing = pg_playspec_id requested \<and> pg_marquee_id existing = pg_marquee_id requested \<and>
      sameExpirationIntent (pg_expires_at existing) (pg_expires_at requested) p \<and>
      sameStringMap (pg_env_overrides existing) (pg_env_overrides requested) \<and>
      sameAnyMap (pg_service_branches existing) (pg_service_branches requested))"

definition name_taken :: fault where
  "name_taken = ConflictError ''playground name already exists''"

text \<open>The row to answer with, or \<open>None\<close> when the name is free.\<close>

definition compatibleExistingPlayground :: "playground \<Rightarrow> playgroundPayload \<Rightarrow> playground option check" where
  "compatibleExistingPlayground requested p =
     bind (ask_row (FindPlayground (pg_name requested))) (\<lambda>x. Ret (case x of
       Inl e \<Rightarrow> if is_not_found e then Inr None else Inl (Cause e)
     | Inr existing \<Rightarrow> if samePlaygroundCreateIntent existing requested p then Inr (Some existing) else Inl name_taken))"

subsection \<open>Creation\<close>

record playgroundCreateResult =
  cr_playground :: playground
  cr_playspec :: playspec
  cr_marquee :: marquee
  cr_created :: bool

definition replayed :: "playground \<Rightarrow> playspec \<Rightarrow> marquee \<Rightarrow> playgroundCreateResult" where
  "replayed existing ps mq = \<lparr>cr_playground = existing, cr_playspec = ps, cr_marquee = mq, cr_created = False\<rparr>"

definition handleCreatePlaygroundConflict ::
    "playspec \<Rightarrow> marquee \<Rightarrow> playground \<Rightarrow> playgroundPayload \<Rightarrow> go_error \<Rightarrow> playgroundCreateResult check" where
  "handleCreatePlaygroundConflict ps mq pg p err =
     (if \<not> IsUniqueConstraint err then Ret (Inl (Cause err))
      else and_go (compatibleExistingPlayground pg p) (\<lambda>found. Ret (case found of
             Some existing \<Rightarrow> Inr (replayed existing ps mq)
           | None \<Rightarrow> Inl name_taken)))"

text \<open>The row that is asked for: the payload with its expiry at \<open>now\<close>.\<close>

definition requested_row :: "api_env \<Rightarrow> playgroundPayload \<Rightarrow> int \<Rightarrow> playground" where
  "requested_row E p now = applyExpiration E p (toDomain E p) now"

definition store_playground :: "server \<Rightarrow> playgroundPayload \<Rightarrow> playspec \<Rightarrow> marquee \<Rightarrow> playground \<Rightarrow> playgroundCreateResult check" where
  "store_playground S p ps mq requested =
     and_go (compatibleExistingPlayground requested p) (\<lambda>found. case found of
       Some existing \<Rightarrow> Ret (Inr (replayed existing ps mq))
     | None \<Rightarrow>
         (let pg = requested\<lparr>pg_status := StatusPending\<rparr>
          in bind (ask_row (CreatePlayground pg)) (\<lambda>x. case x of
               Inl err \<Rightarrow> handleCreatePlaygroundConflict ps mq pg p err
             | Inr created \<Rightarrow>
                 Ret (Inr \<lparr>cr_playground = created, cr_playspec = ps, cr_marquee = mq, cr_created = True\<rparr>))))"

definition createPlaygroundRecord :: "server \<Rightarrow> playgroundPayload \<Rightarrow> playgroundCreateResult check" where
  "createPlaygroundRecord S p0 =
     and_go (preparePlaygroundCreate (sr_api S) p0) (\<lambda>(p, ps, mq).
       if Has (py_fields p) ''build_overrides_yaml'' then Ret (Inl build_overrides_fault)
       else and_go (pass_when (validatePlaygroundOverridesAgainstPlayspec (de_rx (sr_deploy S)) (de_yaml (sr_deploy S))
                       (toDomain (sr_api S) p) ps)) (\<lambda>_.
              bind ask_clock (\<lambda>now. store_playground S p ps mq (requested_row (sr_api S) p now))))"

type_synonym deployment = "(playground \<times> go_error option) io"

definition deploy_created :: "server \<Rightarrow> playgroundCreateResult \<Rightarrow> deployment" where
  "deploy_created S c = DeployPlayground (sr_deploy S) (sr_worker S) (cr_playground c) (cr_playspec c) (Some (cr_marquee c))"

text \<open>What \<open>createAndDeployPlaygroundAsync\<close> answers, and the deployment it leaves running.\<close>

definition createAndDeployPlaygroundAsync :: "server \<Rightarrow> playgroundPayload \<Rightarrow> (playground \<times> deployment option) check" where
  "createAndDeployPlaygroundAsync S p =
     and_go (createPlaygroundRecord S p) (\<lambda>c. Ret (Inr (cr_playground c, if cr_created c then Some (deploy_created S c) else None)))"

text \<open>The synchronous variant.\<close>

definition createAndDeployPlayground :: "server \<Rightarrow> playgroundPayload \<Rightarrow> playground check" where
  "createAndDeployPlayground S p =
     and_go (createPlaygroundRecord S p) (\<lambda>c.
       if \<not> cr_created c then Ret (Inr (cr_playground c))
       else bind (deploy_created S c) (\<lambda>(pg, err). Ret (case err of None \<Rightarrow> Inr pg | Some e \<Rightarrow> Inl (Cause e))))"

record CreatePayload =
  cp_name :: string
  cp_playspec_id :: "int option"
  cp_marquee_id :: "int option"
  cp_env_overrides :: "string smap option"
  cp_services :: "doc option"

definition toInternal :: "CreatePayload \<Rightarrow> playgroundPayload" where
  "toInternal c =
     zero_payload\<lparr>py_name := cp_name c, py_playspec_id := cp_playspec_id c, py_marquee_id := cp_marquee_id c,
       py_env_overrides := cp_env_overrides c, py_services := cp_services c\<rparr>"

definition CreateAndDeploy :: "server \<Rightarrow> CreatePayload \<Rightarrow> playground check" where
  "CreateAndDeploy S c = createAndDeployPlayground S (toInternal c)"

definition CreateAndDeployDetached :: "server \<Rightarrow> CreatePayload \<Rightarrow> (playground \<times> deployment option) check" where
  "CreateAndDeployDetached S c = createAndDeployPlaygroundAsync S (toInternal c)"

definition writeCreatePlaygroundErr :: "api_env \<Rightarrow> fault \<Rightarrow> reply" where
  "writeCreatePlaygroundErr E err = CreateDependencyError E ''playground dependency'' err"

definition decode_playground_body :: "server \<Rightarrow> request_body \<Rightarrow> reply + playgroundPayload" where
  "decode_playground_body S b =
     decode_required S b (decode_wrapped ''playground'' (decode_playground_payload (sr_json S)) zero_payload) zero_payload"

definition playgroundsCreate :: "server \<Rightarrow> request_body \<Rightarrow> (reply \<times> deployment option) io" where
  "playgroundsCreate S b =
     (case decode_playground_body S b of
        Inl r \<Rightarrow> Ret (r, None)
      | Inr p \<Rightarrow>
          bind (createAndDeployPlaygroundAsync S p) (\<lambda>x. Ret (case x of
            Inl e \<Rightarrow> (writeCreatePlaygroundErr (sr_api S) e, None)
          | Inr (pg, d) \<Rightarrow> (JSON (sr_api S) 201 (BodyPlayground pg), d))))"

subsection \<open>Updates (http.go)\<close>

definition validatePlaygroundPatchIntent :: "api_env \<Rightarrow> playgroundPayload \<Rightarrow> fault option" where
  "validatePlaygroundPatchIntent E p =
     first_fault
       [if Has (py_fields p) ''build_overrides_yaml'' then Some build_overrides_fault else None,
        validatePlaygroundPayload E p, rejectReservedRunServiceOverride p,
        if \<not> hasUpdateFields p then Some (Cause (ErrText ''playground update requires at least one field'')) else None]"

definition decodePlaygroundUpdatePayload :: "server \<Rightarrow> request_body \<Rightarrow> playgroundPayload step" where
  "decodePlaygroundUpdatePayload S b =
     (case decode_playground_body S b of
        Inl r \<Rightarrow> stop_with r
      | Inr p \<Rightarrow>
          (case validatePlaygroundPatchIntent (sr_api S) p of
             Some e \<Rightarrow> stop_with (ValidationOrBadRequest (sr_api S) e)
           | None \<Rightarrow>
               bind (resolvePlaygroundReferences p) (\<lambda>x. case x of
                 Inr q \<Rightarrow> Ret (Inr q)
               | Inl (Cause e) \<Rightarrow>
                   stop_with (if is_not_found e then NotFound (sr_api S) ''playground dependency'' else ServerError (sr_api S) e)
               | Inl f \<Rightarrow> stop_with (Error (sr_api S) 500 ''INTERNAL_ERROR'' (fault_text f) None))))"

definition validatePlaygroundUpdate :: "server \<Rightarrow> playground \<Rightarrow> unit check" where
  "validatePlaygroundUpdate S pg =
     (case pg_playspec_id pg of
        None \<Rightarrow> Ret (Inr ())
      | Some i \<Rightarrow>
          and_go (caused (ask_spec (FindPlayspec (itoa i)))) (\<lambda>ps.
            pass_when (validatePlaygroundOverridesAgainstPlayspec (de_rx (sr_deploy S)) (de_yaml (sr_deploy S)) pg ps)))"

definition playgroundRuntimeConfigChanged :: "playground \<Rightarrow> playground \<Rightarrow> bool" where
  "playgroundRuntimeConfigChanged before after =
     (pg_playspec_id before \<noteq> pg_playspec_id after \<or> pg_marquee_id before \<noteq> pg_marquee_id after \<or>
      \<not> sameStringMap (pg_env_overrides before) (pg_env_overrides after) \<or>
      \<not> deep_equal (AMap (pg_service_branches before)) (AMap (pg_service_branches after)))"

definition markRuntimeConfigChanged :: "playground \<Rightarrow> playground \<Rightarrow> playgroundPayload \<Rightarrow> playground" where
  "markRuntimeConfigChanged pg before p =
     (if \<not> mutatesRuntimeConfig p \<or> \<not> playgroundRuntimeConfigChanged before pg then pg
      else if pg_status pg \<in> {StatusPending, StatusInProgress, StatusRunning}
      then pg\<lparr>pg_status := StatusHasChanges, pg_state_reason := Some ''playground_config_changed''\<rparr>
      else pg)"

definition savePlaygroundUpdateRow :: "server \<Rightarrow> playground \<Rightarrow> playgroundPayload \<Rightarrow> playground step" where
  "savePlaygroundUpdateRow S current p =
     bind (ask_row (SavePlayground current)) (\<lambda>x. case x of
       Inl e \<Rightarrow> stop_with (ServerError (sr_api S) e)
     | Inr updated \<Rightarrow>
         if py_name p \<noteq> [] \<and> pg_name updated \<noteq> trim_space (py_name p)
         then bind (ask_row (RenameRow (pg_id updated) (py_name p))) (\<lambda>y. case y of
                Inl e \<Rightarrow> stop_with (ServerError (sr_api S) e)
              | Inr renamed \<Rightarrow> Ret (Inr renamed))
         else Ret (Inr updated))"

text \<open>The end of \<open>savePlaygroundUpdate\<close>: the check of the changed row and its save.\<close>

definition save_checked_update :: "server \<Rightarrow> playgroundPayload \<Rightarrow> playground \<Rightarrow> playground \<Rightarrow> playground step" where
  "save_checked_update S p before current =
     bind (validatePlaygroundUpdate S current) (\<lambda>v. case v of
       Inl (Cause e) \<Rightarrow>
         stop_with (if is_not_found e then NotFound (sr_api S) ''playspec'' else ValidationOrBadRequest (sr_api S) (Cause e))
     | Inl f \<Rightarrow> stop_with (ValidationOrBadRequest (sr_api S) f)
     | Inr _ \<Rightarrow> savePlaygroundUpdateRow S (markRuntimeConfigChanged current before p) p)"

definition savePlaygroundUpdate :: "server \<Rightarrow> playground \<Rightarrow> playgroundPayload \<Rightarrow> playground step" where
  "savePlaygroundUpdate S loaded p =
     bind (ask_row (GetPlayground (pg_id loaded))) (\<lambda>x. case x of
       Inl e \<Rightarrow> stop_with (writeStoreErr (sr_api S) ''playground'' e)
     | Inr before \<Rightarrow>
         bind ask_clock (\<lambda>now.
           let applied = apply_payload (sr_api S) p before now
           in if py_name p \<noteq> []
              then bind ask_clock (\<lambda>t. save_checked_update S p before (applied\<lparr>pg_updated_at := t\<rparr>))
              else save_checked_update S p before applied))"

definition playgroundsUpdate :: "server \<Rightarrow> string \<Rightarrow> request_body \<Rightarrow> reply io" where
  "playgroundsUpdate S identifier b =
     answered (and_then (loadPlayground S identifier) (\<lambda>pg.
       and_then (decodePlaygroundUpdatePayload S b) (\<lambda>p.
         and_then (savePlaygroundUpdate S pg p) (\<lambda>updated. Ret (Inr (JSON (sr_api S) 200 (BodyPlayground updated)))))))"

subsection \<open>What is stored and what is replayed\<close>

text \<open>A row that may be stored: it is pending and bare, it names a playspec and a Marquee that were read, its overrides
were checked against that playspec, and its name was free a moment ago.\<close>

definition creatable :: "regex_engine \<Rightarrow> yaml_lib \<Rightarrow> history \<Rightarrow> playground \<Rightarrow> bool" where
  "creatable rx Y h pg =
     (pg_status pg = StatusPending \<and> trim_space (pg_name pg) = pg_name pg \<and> pg_compose_project pg = None \<and> pg_services pg = [] \<and>
      (\<exists>i j ps mq. pg_playspec_id pg = Some i \<and> (FindPlayspec (itoa i), SpecRow (Inr ps)) \<in> set h \<and>
         validatePlaygroundOverridesAgainstPlayspec rx Y pg ps = None \<and>
         pg_marquee_id pg = Some j \<and> (FindMarquee (itoa j), MarqueeRow (Inr (Some mq))) \<in> set h) \<and>
      (\<exists>h0 e. h = h0 @ [(FindPlayground (pg_name pg), Row (Inl e))] \<and> is_not_found e))"

definition create_guard :: "regex_engine \<Rightarrow> yaml_lib \<Rightarrow> history \<Rightarrow> request \<Rightarrow> bool" where
  "create_guard rx Y h q =
     (case q of
        CreatePlayground pg \<Rightarrow> creatable rx Y h pg
      | FindPlayspec _ \<Rightarrow> True | FindMarquee _ \<Rightarrow> True | GetRuntimeMarquee \<Rightarrow> True | TimeNow \<Rightarrow> True | FindPlayground _ \<Rightarrow> True
      | _ \<Rightarrow> False)"

lemma create_guard_reads [simp]:
  "create_guard rx Y h (FindPlayspec t)" "create_guard rx Y h (FindMarquee t)" "create_guard rx Y h GetRuntimeMarquee"
  "create_guard rx Y h TimeNow" "create_guard rx Y h (FindPlayground t)"
  by (simp_all add: create_guard_def)

text \<open>How a creation ends well: the row was stored by the last request, or it is the one that bears the name and was
asked for with the same intent.\<close>

definition creation_outcome :: "regex_engine \<Rightarrow> yaml_lib \<Rightarrow> playgroundPayload \<Rightarrow> history \<Rightarrow> playgroundCreateResult \<Rightarrow> bool" where
  "creation_outcome rx Y p h c =
     (if cr_created c
      then \<exists>h0 pg. h = h0 @ [(CreatePlayground pg, Row (Inr (cr_playground c)))] \<and> creatable rx Y h0 pg \<and>
             pg_name pg = trim_space (py_name p)
      else \<exists>h0 requested q. h = h0 @ [(FindPlayground (trim_space (py_name p)), Row (Inr (cr_playground c)))] \<and>
             samePlaygroundCreateIntent (cr_playground c) requested q \<and>
             pg_env_overrides requested = (case py_env_overrides p of None \<Rightarrow> [] | Some m \<Rightarrow> m) \<and>
             pg_service_branches requested = copyAnyMap (py_services p) \<and>
             (\<forall>i. py_playspec_id p = Some i \<longrightarrow> pg_playspec_id requested = Some i) \<and>
             (\<forall>pg r. (CreatePlayground pg, Row (Inr r)) \<notin> set h))"

lemma prepared:
  assumes "\<And>h q. create_guard rx Y h q \<Longrightarrow> G h q"
  shows "wp G (\<lambda>h x. \<forall>p ps mq. x = Inr (p, ps, mq) \<longrightarrow>
      (\<exists>i j. p = p0\<lparr>py_playspec_id := Some i, py_marquee_id := Some j\<rparr> \<and> (\<forall>k. py_playspec_id p0 = Some k \<longrightarrow> i = k) \<and>
         (FindPlayspec (itoa i), SpecRow (Inr ps)) \<in> set h \<and> (FindMarquee (itoa j), MarqueeRow (Inr (Some mq))) \<in> set h) \<and>
      (\<forall>pg r. (CreatePlayground pg, r) \<notin> set h))
    (preparePlaygroundCreate E p0) []"
proof -
  let ?reads = "\<lambda>h :: history. \<forall>pg r. (CreatePlayground pg, r) \<notin> set h"
  have G [simp]: "G h (FindPlayspec t)" "G h (FindMarquee t)" "G h GetRuntimeMarquee" for h t
    using assms by simp_all
  have spec: "wp G (\<lambda>h x. \<forall>p. x = Inr p \<longrightarrow> (\<exists>i. p = p0\<lparr>py_playspec_id := i\<rparr> \<and> (\<forall>k. py_playspec_id p0 = Some k \<longrightarrow> i = Some k)) \<and> ?reads h)
      (resolvePlaygroundPlayspec p0) []"
    by (auto simp: resolvePlaygroundPlayspec_def split: sum.split) (metis playgroundPayload.surjective playgroundPayload.update_convs(2))
  have mq: "wp G (\<lambda>h x. ?reads h) (ResolveConfiguredID i t) h" if "?reads h" for i t h
    using that unfolding ResolveConfiguredID_def namedConfiguredID_def by (simp split: sum.split option.split)
  have refs: "wp G (\<lambda>h x. \<forall>p. x = Inr p \<longrightarrow>
      (\<exists>i j. p = p0\<lparr>py_playspec_id := i, py_marquee_id := j\<rparr> \<and> (\<forall>k. py_playspec_id p0 = Some k \<longrightarrow> i = Some k)) \<and> ?reads h)
      (resolvePlaygroundReferences p0) []"
    unfolding resolvePlaygroundReferences_def
  proof (rule wp_and_goI, rule wp_mono[OF spec], goal_cases)
    case (1 h x)
    show ?case
    proof (cases x)
      case (Inr p1)
      with 1 obtain i where i: "p1 = p0\<lparr>py_playspec_id := i\<rparr>" "\<forall>k. py_playspec_id p0 = Some k \<longrightarrow> i = Some k" "?reads h" by auto
      then show ?thesis
        unfolding Inr sum.case wp_and_go wp_caused
        by (intro wp_mono[OF mq[OF i(3)]]) (auto split: sum.split)
    qed simp
  qed
  have deps: "wp G (\<lambda>h x. \<forall>ps mq. x = Inr (ps, mq) \<longrightarrow> (\<exists>i j. py_playspec_id p = Some i \<and> py_marquee_id p = Some j \<and>
         (FindPlayspec (itoa i), SpecRow (Inr ps)) \<in> set h \<and> (FindMarquee (itoa j), MarqueeRow (Inr (Some mq))) \<in> set h) \<and> ?reads h)
      (loadPlaygroundCreateDependencies p) h" if "?reads h" for p h
    using that by (auto simp: loadPlaygroundCreateDependencies_def loadRequiredMarquee_def split: option.split sum.split)
  show ?thesis
    unfolding preparePlaygroundCreate_def wp_and_go wp_pass_when
  proof (cases "validatePlaygroundCreateIntent E p0", goal_cases)
    case 1
    show ?case
      unfolding 1 option.case sum.case wp_and_go
    proof (rule wp_mono[OF refs], goal_cases)
      case (1 h x)
      show ?case
      proof (cases x)
        case (Inr p1)
        with 1 obtain i j where p1: "p1 = p0\<lparr>py_playspec_id := i, py_marquee_id := j\<rparr>"
            "\<forall>k. py_playspec_id p0 = Some k \<longrightarrow> i = Some k" "?reads h" by auto
        show ?thesis
          unfolding Inr sum.case wp_and_go
        proof (rule wp_mono[OF deps[OF p1(3), of p1]], goal_cases)
          case (1 h' y)
          show ?case
          proof (cases y)
            case (Inr z)
            obtain ps mq where z: "z = (ps, mq)" by (cases z)
            with 1 Inr p1(1) obtain k l where kl: "i = Some k" "j = Some l" "(FindPlayspec (itoa k), SpecRow (Inr ps)) \<in> set h'"
                "(FindMarquee (itoa l), MarqueeRow (Inr (Some mq))) \<in> set h'" "?reads h'" by auto
            with p1(1,2) have "p1 = p0\<lparr>py_playspec_id := Some k, py_marquee_id := Some l\<rparr>" "\<forall>m. py_playspec_id p0 = Some m \<longrightarrow> k = m"
              by auto
            with kl show ?thesis unfolding Inr z sum.case prod.case wp.simps by (intro allI impI conjI exI[of _ k] exI[of _ l]) auto
          qed simp
        qed
      qed simp
    qed
  qed simp
qed

lemma requested_facts [simp]:
  "pg_name (requested_row E p now) = trim_space (py_name p)"
  "pg_playspec_id (requested_row E p now) = py_playspec_id p" "pg_marquee_id (requested_row E p now) = py_marquee_id p"
  "pg_env_overrides (requested_row E p now) = (case py_env_overrides p of None \<Rightarrow> [] | Some m \<Rightarrow> m)"
  "pg_service_branches (requested_row E p now) = copyAnyMap (py_services p)"
  "pg_compose_project (requested_row E p now) = None" "pg_services (requested_row E p now) = []"
  by (simp_all add: requested_row_def applyExpiration_def toDomain_def zero_playground_def split: option.split bool.split)

lemma overrides_of_requested:
  "validatePlaygroundOverridesAgainstPlayspec rx Y ((requested_row E p now)\<lparr>pg_status := st\<rparr>) ps =
   validatePlaygroundOverridesAgainstPlayspec rx Y (toDomain E p) ps"
  by (simp add: validatePlaygroundOverridesAgainstPlayspec_def) (simp add: toDomain_def)

lemma creation_wp:
  fixes S :: server
  defines "rx \<equiv> de_rx (sr_deploy S)" and "Y \<equiv> de_yaml (sr_deploy S)"
  shows "wp (create_guard rx Y) (\<lambda>h x. \<forall>c. x = Inr c \<longrightarrow> creation_outcome rx Y p0 h c) (createPlaygroundRecord S p0) []"
  unfolding createPlaygroundRecord_def
proof (rule wp_and_goI, rule wp_mono[OF prepared[where rx = rx and Y = Y]], assumption, goal_cases)
  case (1 h x)
  show ?case
  proof (cases x)
    case (Inr y)
    obtain p ps mq where y: "y = (p, ps, mq)" by (cases y)
    with 1 Inr obtain i j where p: "p = p0\<lparr>py_playspec_id := Some i, py_marquee_id := Some j\<rparr>"
        "\<forall>k. py_playspec_id p0 = Some k \<longrightarrow> i = k"
        "(FindPlayspec (itoa i), SpecRow (Inr ps)) \<in> set h" "(FindMarquee (itoa j), MarqueeRow (Inr (Some mq))) \<in> set h"
        "\<forall>pg r. (CreatePlayground pg, r) \<notin> set h" by auto
    let ?E = "sr_api S"
    have stored: "wp (create_guard rx Y) (\<lambda>h x. \<forall>c. x = Inr c \<longrightarrow> creation_outcome rx Y p0 h c)
        (store_playground S p ps mq (requested_row ?E p now)) (h @ [(TimeNow, Clock now)])"
      if "validatePlaygroundOverridesAgainstPlayspec rx Y (toDomain ?E p) ps = None" for now
    proof -
      let ?pg = "(requested_row ?E p now)\<lparr>pg_status := StatusPending\<rparr>"
      let ?h = "h @ [(TimeNow, Clock now)]"
      have creatable: "creatable rx Y (?h @ [(FindPlayground (trim_space (py_name p)), Row (Inl e))]) ?pg" if "is_not_found e" for e
        unfolding creatable_def
        using that p \<open>validatePlaygroundOverridesAgainstPlayspec rx Y (toDomain ?E p) ps = None\<close>
        by (auto simp: overrides_of_requested)
      have found: "creation_outcome rx Y p0 (h' @ [(FindPlayground (trim_space (py_name p)), Row (Inr existing))]) (replayed existing ps mq)"
        if "samePlaygroundCreateIntent existing requested p" "requested = requested_row ?E p now \<or> requested = ?pg"
          "\<forall>pg r. (CreatePlayground pg, Row (Inr r)) \<notin> set h'" for existing requested h'
      proof -
        from that(2) have facts: "pg_env_overrides requested = (case py_env_overrides p0 of None \<Rightarrow> [] | Some m \<Rightarrow> m)"
            "pg_service_branches requested = copyAnyMap (py_services p0)" "pg_playspec_id requested = Some i"
          by (auto simp: p(1))
        show ?thesis
          unfolding creation_outcome_def replayed_def playgroundCreateResult.simps
          using that(1,3) facts p(1,2)
          by (auto intro!: exI[of _ h'] exI[of _ requested] exI[of _ p])
      qed
      have made: "creation_outcome rx Y p0 (h' @ [(CreatePlayground ?pg, Row (Inr created))])
          \<lparr>cr_playground = created, cr_playspec = ps, cr_marquee = mq, cr_created = True\<rparr>"
        if "creatable rx Y h' ?pg" for h' created
        using that by (simp add: creation_outcome_def p(1))
      have none: "\<forall>pg r. (CreatePlayground pg, Row (Inr r)) \<notin> set ?h" using p(5) by auto
      show ?thesis
        unfolding store_playground_def wp_and_go compatibleExistingPlayground_def handleCreatePlaygroundConflict_def Let_def
        using creatable found[of _ _ ?h] found made none
        by (auto simp: create_guard_def simp del: append_assoc split: sum.split)
    qed
    show ?thesis
      unfolding Inr y sum.case prod.case
      using stored by (auto simp: rx_def Y_def split: option.split)
  qed simp
qed


definition demo_new :: playgroundPayload where
  "demo_new = zero_payload\<lparr>py_name := '' shop '', py_playspec_id := Some 2\<rparr>"

definition demo_creation :: "playgroundCreateResult check \<Rightarrow> history \<times> (fault + playgroundCreateResult) option" where
  "demo_creation m = replay m
     [MarqueeRow (Inr (Some demo_marquee)), SpecRow (Inr demo_playspec), MarqueeRow (Inr (Some demo_marquee)), Clock 9,
      Row (Inl ErrNotFound), Row (Inr (demo_row\<lparr>pg_name := ''shop'', pg_status := StatusPending\<rparr>))]"


subsection \<open>What an update may change\<close>

text \<open>The rows agree but for the name, the references, the overrides, the expiry, the status with its reason and the
time of the update.\<close>

definition config_frame :: "playground \<Rightarrow> playground \<Rightarrow> bool" where
  "config_frame before row =
     (row\<lparr>pg_name := pg_name before, pg_status := pg_status before, pg_state_reason := pg_state_reason before,
          pg_playspec_id := pg_playspec_id before, pg_marquee_id := pg_marquee_id before,
          pg_env_overrides := pg_env_overrides before, pg_service_branches := pg_service_branches before,
          pg_expires_at := pg_expires_at before, pg_updated_at := pg_updated_at before\<rparr> = before)"

definition updated_from :: "regex_engine \<Rightarrow> yaml_lib \<Rightarrow> history \<Rightarrow> playground \<Rightarrow> playground \<Rightarrow> bool" where
  "updated_from rx Y h before row =
     (config_frame before row \<and>
      (pg_status row = pg_status before \<and> pg_state_reason row = pg_state_reason before \<or>
       pg_status row = StatusHasChanges \<and> pg_status before \<in> {StatusPending, StatusInProgress, StatusRunning} \<and>
       playgroundRuntimeConfigChanged before row) \<and>
      (\<forall>i. pg_playspec_id row = Some i \<longrightarrow> (\<exists>h0 ps. h = h0 @ [(FindPlayspec (itoa i), SpecRow (Inr ps))] \<and>
         validatePlaygroundOverridesAgainstPlayspec rx Y row ps = None)))"

definition update_guard :: "regex_engine \<Rightarrow> yaml_lib \<Rightarrow> history \<Rightarrow> request \<Rightarrow> bool" where
  "update_guard rx Y h q =
     (case q of
        SavePlayground row \<Rightarrow> \<exists>i before. (GetPlayground i, Row (Inr before)) \<in> set h \<and> updated_from rx Y h before row
      | RenameRow i name \<Rightarrow> \<exists>h0 row saved. h = h0 @ [(SavePlayground row, Row (Inr saved))] \<and> i = pg_id saved \<and>
          pg_name row = trim_space name \<and> pg_name saved \<noteq> pg_name row
      | FindPlayground _ \<Rightarrow> True | GetPlayground _ \<Rightarrow> True | FindPlayspec _ \<Rightarrow> True | FindMarquee _ \<Rightarrow> True
      | GetRuntimeMarquee \<Rightarrow> True | TimeNow \<Rightarrow> True
      | _ \<Rightarrow> False)"

lemma update_guard_reads [simp]:
  "update_guard rx Y h (FindPlayground t)" "update_guard rx Y h (GetPlayground i)" "update_guard rx Y h (FindPlayspec t)"
  "update_guard rx Y h (FindMarquee t)" "update_guard rx Y h GetRuntimeMarquee" "update_guard rx Y h TimeNow"
  by (simp_all add: update_guard_def)

lemma guarded_references: "guarded (update_guard rx Y) (resolvePlaygroundReferences p)"
  unfolding resolvePlaygroundReferences_def resolvePlaygroundPlayspec_def
  by (intro guarded_rules guarded_ResolveConfiguredID) (simp_all add: guarded_asks guarded_rules)

lemma config_frame_updates [simp]:
  "config_frame b (r\<lparr>pg_name := n\<rparr>) = config_frame b r"
  "config_frame b (r\<lparr>pg_status := st\<rparr>) = config_frame b r"
  "config_frame b (r\<lparr>pg_state_reason := sr\<rparr>) = config_frame b r"
  "config_frame b (r\<lparr>pg_playspec_id := i\<rparr>) = config_frame b r"
  "config_frame b (r\<lparr>pg_marquee_id := j\<rparr>) = config_frame b r"
  "config_frame b (r\<lparr>pg_env_overrides := e\<rparr>) = config_frame b r"
  "config_frame b (r\<lparr>pg_service_branches := s\<rparr>) = config_frame b r"
  "config_frame b (r\<lparr>pg_expires_at := t\<rparr>) = config_frame b r"
  "config_frame b (r\<lparr>pg_updated_at := u\<rparr>) = config_frame b r"
  "config_frame b b"
  by (simp_all add: config_frame_def)

lemma status_after_cases:
  "config_frame b (if c then x else y) = (if c then config_frame b x else config_frame b y)"
  "config_frame b (case o1 of None \<Rightarrow> x | Some a \<Rightarrow> f a) = (case o1 of None \<Rightarrow> config_frame b x | Some a \<Rightarrow> config_frame b (f a))"
  "pg_status (if c then x else y) = (if c then pg_status x else pg_status y)"
  "pg_status (case o1 of None \<Rightarrow> x | Some a \<Rightarrow> f a) = (case o1 of None \<Rightarrow> pg_status x | Some a \<Rightarrow> pg_status (f a))"
  "pg_state_reason (if c then x else y) = (if c then pg_state_reason x else pg_state_reason y)"
  "pg_state_reason (case o1 of None \<Rightarrow> x | Some a \<Rightarrow> f a) = (case o1 of None \<Rightarrow> pg_state_reason x | Some a \<Rightarrow> pg_state_reason (f a))"
  "(case o1 of None \<Rightarrow> z | Some a \<Rightarrow> z) = z" "(case bo of True \<Rightarrow> z | False \<Rightarrow> z) = z"
  by (cases o1; simp) (cases o1; cases bo; simp)+

lemma expiration_keeps:
  "config_frame b (applyExpiration E p pg now) = config_frame b pg"
  "pg_status (applyExpiration E p pg now) = pg_status pg"
  "pg_state_reason (applyExpiration E p pg now) = pg_state_reason pg"
  by (simp_all add: applyExpiration_def split: option.split bool.split)

lemma applied_keeps:
  "config_frame before (apply_payload E p before now)"
  "pg_status (apply_payload E p before now) = pg_status before"
  "pg_state_reason (apply_payload E p before now) = pg_state_reason before"
  by (simp_all add: apply_payload_def Let_def expiration_keeps status_after_cases cong: option.case_cong)

lemma marked_keeps:
  "config_frame before (markRuntimeConfigChanged pg before p) = config_frame before pg"
  "pg_playspec_id (markRuntimeConfigChanged pg before p) = pg_playspec_id pg"
  "playgroundRuntimeConfigChanged before (markRuntimeConfigChanged pg before p) = playgroundRuntimeConfigChanged before pg"
  "validatePlaygroundOverridesAgainstPlayspec rx Y (markRuntimeConfigChanged pg before p) ps =
   validatePlaygroundOverridesAgainstPlayspec rx Y pg ps"
  by (simp_all add: markRuntimeConfigChanged_def playgroundRuntimeConfigChanged_def
      validatePlaygroundOverridesAgainstPlayspec_def)

lemma marked_from:
  assumes "config_frame before pg" "pg_status pg = pg_status before" "pg_state_reason pg = pg_state_reason before"
    and "\<And>i. pg_playspec_id pg = Some i \<Longrightarrow> \<exists>h0 ps. h = h0 @ [(FindPlayspec (itoa i), SpecRow (Inr ps))] \<and>
      validatePlaygroundOverridesAgainstPlayspec rx Y pg ps = None"
  shows "updated_from rx Y h before (markRuntimeConfigChanged pg before p)"
proof -
  let ?row = "markRuntimeConfigChanged pg before p"
  have "pg_status ?row = pg_status before \<and> pg_state_reason ?row = pg_state_reason before \<or>
      pg_status ?row = StatusHasChanges \<and> pg_status before \<in> {StatusPending, StatusInProgress, StatusRunning} \<and>
      playgroundRuntimeConfigChanged before pg"
    using assms(2,3) by (simp add: markRuntimeConfigChanged_def)
  with assms(1,4) show ?thesis by (simp add: updated_from_def marked_keeps)
qed

lemma save_update_row_wp:
  assumes "G = update_guard rx Y" and "G h (SavePlayground row)" and "py_name p \<noteq> [] \<Longrightarrow> pg_name row = trim_space (py_name p)"
  shows "wp G (\<lambda>_ _. True) (savePlaygroundUpdateRow S row p) h"
  using assms by (auto simp: savePlaygroundUpdateRow_def update_guard_def split: sum.split)

lemma applied_name: "py_name p \<noteq> [] \<Longrightarrow> pg_name (apply_payload E p before now) = trim_space (py_name p)"
  by (simp add: apply_payload_def applyExpiration_def Let_def split: option.split bool.split)

lemma checked_update_wp:
  fixes S :: server
  defines "rx \<equiv> de_rx (sr_deploy S)" and "Y \<equiv> de_yaml (sr_deploy S)"
  assumes frame: "config_frame before current" "pg_status current = pg_status before" "pg_state_reason current = pg_state_reason before"
    and name: "py_name p \<noteq> [] \<Longrightarrow> pg_name current = trim_space (py_name p)"
    and read: "(GetPlayground i, Row (Inr before)) \<in> set h"
  shows "wp (update_guard rx Y) (\<lambda>_ _. True) (save_checked_update S p before current) h"
proof -
  let ?G = "update_guard rx Y" and ?row = "markRuntimeConfigChanged current before p"
  have finish: "wp ?G (\<lambda>_ _. True) (savePlaygroundUpdateRow S ?row p) h'"
    if "(GetPlayground i, Row (Inr before)) \<in> set h'"
      "\<And>i. pg_playspec_id current = Some i \<Longrightarrow> \<exists>h0 ps. h' = h0 @ [(FindPlayspec (itoa i), SpecRow (Inr ps))] \<and>
        validatePlaygroundOverridesAgainstPlayspec rx Y current ps = None" for h'
  proof (rule save_update_row_wp[OF refl])
    from marked_from[OF frame that(2)] that(1) show "?G h' (SavePlayground ?row)"
      by (auto simp: update_guard_def)
    show "pg_name ?row = trim_space (py_name p)" if "py_name p \<noteq> []"
      using name[OF that] by (simp add: markRuntimeConfigChanged_def)
  qed
  show ?thesis
  proof (cases "pg_playspec_id current")
    case None
    with finish[of h] read show ?thesis by (simp add: save_checked_update_def validatePlaygroundUpdate_def)
  next
    case (Some n)
    have "wp ?G (\<lambda>_ _. True) (savePlaygroundUpdateRow S ?row p) (h @ [(FindPlayspec (itoa n), SpecRow (Inr ps))])"
      if "validatePlaygroundOverridesAgainstPlayspec rx Y current ps = None" for ps
      by (rule finish) (use that Some read in auto)
    with Some show ?thesis
      by (auto simp: save_checked_update_def validatePlaygroundUpdate_def rx_def Y_def split: sum.split option.split fault.split)
  qed
qed

lemma update_saves:
  "guarded (update_guard (de_rx (sr_deploy S)) (de_yaml (sr_deploy S))) (savePlaygroundUpdate S loaded p)"
  unfolding guarded_def savePlaygroundUpdate_def
  by (auto simp: Let_def applied_keeps applied_name split: sum.split intro!: checked_update_wp)

lemma patch_guarded:
  "guarded (update_guard (de_rx (sr_deploy S)) (de_yaml (sr_deploy S))) (playgroundsUpdate S identifier b)"
  unfolding playgroundsUpdate_def decodePlaygroundUpdatePayload_def loadPlayground_def
  by (intro guarded_rules update_saves) (auto simp: guarded_asks guarded_rules guarded_references split: fault.split intro!: guarded_rules guarded_references)

text \<open>C7: An update changes what it is asked to change and nothing else: the row it saves is the one it has read again, and differs from it at most in name, references, overrides, expiry and time of update; the status stays, except that a row that is pending, in progress or running and whose configuration really differs is marked as changed; a row with a playspec is saved only right after its overrides were checked against that playspec; and a row is renamed only when the save did not take the name it was asked for.\<close>

theorem update_changes_only_configuration:
  assumes "trace (playgroundsUpdate S identifier b) (es1 @ (q, r) # es2)"
  shows "update_guard (de_rx (sr_deploy S)) (de_yaml (sr_deploy S)) es1 q"
  by (rule guarded_trace[OF patch_guarded assms])

definition demo_patch :: history where
  "demo_patch = fst (replay (playgroundsUpdate demo_server ''demo''
       (JsonBody (JObj [(''playground'', JObj [(''env_overrides'', JObj [(''A'', JStr ''1'')])])])))
     [Row (Inr demo_row), MarqueeRow (Inr (Some demo_marquee)), Row (Inr demo_row), Clock 9, Row (Inr demo_row)])"

theorem update_changes_only_configuration_witness:
  "\<exists>row. update_guard demo_regex demo_yaml (take 4 demo_patch) (SavePlayground row) \<and> pg_status row = StatusHasChanges"
proof -
  have "case demo_patch ! 4 of (SavePlayground row, _) \<Rightarrow> pg_status row = StatusHasChanges | _ \<Rightarrow> False" by code_simp
  then obtain row r where row: "demo_patch ! 4 = (SavePlayground row, r)" "pg_status row = StatusHasChanges"
    by (auto split: prod.splits request.splits)
  have "4 < length demo_patch" by code_simp
  from id_take_nth_drop[OF this] have demo: "demo_patch = take 4 demo_patch @ (SavePlayground row, r) # drop 5 demo_patch"
    by (simp add: row(1))
  have "trace (playgroundsUpdate demo_server ''demo''
      (JsonBody (JObj [(''playground'', JObj [(''env_overrides'', JObj [(''A'', JStr ''1'')])])]))) demo_patch"
    unfolding demo_patch_def by (rule replay_trace[OF prod.collapse[symmetric]])
  then have "trace (playgroundsUpdate demo_server ''demo''
      (JsonBody (JObj [(''playground'', JObj [(''env_overrides'', JObj [(''A'', JStr ''1'')])])])))
      (take 4 demo_patch @ (SavePlayground row, r) # drop 5 demo_patch)" by (subst demo[symmetric])
  from update_changes_only_configuration[OF this] row(2) show ?thesis
    by (auto simp: demo_server_def demo_deploy_env_def)
qed

text \<open>A name that reads as a number is looked up as an id: the row that is answered bears another name.\<close>

theorem numeric_name_replays_other_row:
  "case snd (replay (createPlaygroundRecord demo_server (demo_new\<lparr>py_name := ''7''\<rparr>))
      [MarqueeRow (Inr (Some demo_marquee)), SpecRow (Inr demo_playspec), MarqueeRow (Inr (Some demo_marquee)), Clock 9,
       Row (Inr (demo_row\<lparr>pg_playspec_id := Some 2, pg_expires_at := None\<rparr>))]) of
     Some (Inr c) \<Rightarrow> \<not> cr_created c \<and> pg_id (cr_playground c) = 7 \<and> pg_name (cr_playground c) = ''demo''
   | _ \<Rightarrow> False"
  by code_simp

text \<open>With \<open>never_expire: false\<close> the time a creation asks for is not compared.\<close>

theorem replay_ignores_expiry:
  "sameExpirationIntent (Some 5) (Some t) (zero_payload\<lparr>py_never_expire := Some False, py_expires_at := AInt KInt64 s\<rparr>)"
  by (simp add: sameExpirationIntent_def)

end
