(* ===== verification/Playspecs.thy ===== *)
theory Playspecs
  imports PlaygroundSafety ApiLists
begin

text \<open>
  Playspecs: \<open>internal/playspec\<close> (\<open>handler.go\<close>, \<open>payload.go\<close>, \<open>services.go\<close>, \<open>resource.go\<close>, \<open>errors.go\<close>,
  \<open>request_fields.go\<close>). A playspec keeps a Compose document; metadata of its services are folded into the document as
  overrides, and what is stored has passed the checks of \<open>composefile\<close>.
\<close>

subsection \<open>Service metadata (services.go)\<close>

definition playspecServiceOverrideKeys :: "string list" where
  "playspecServiceOverrideKeys =
     [''repo_url'', ''dockerfile_path'', ''start_command'', ''build_target'', ''build_args'', ''production'', ''image'', ''exposure'']"

definition playspecServiceMetadataFields :: "string list" where
  "playspecServiceMetadataFields =
     [''name'', ''type'', ''repo_url'', ''dockerfile_path'', ''start_command'', ''build_target'', ''build_args'', ''production'',
      ''image'', ''exposure'']"

definition service_at :: "nat \<Rightarrow> string" where
  "service_at idx = ''services['' @ itoa (int idx) @ '']''"

definition parsePlayspecServiceMetadata :: "nat \<Rightarrow> any \<Rightarrow> string + doc \<times> string" where
  "parsePlayspecServiceMetadata idx raw =
     (case as_map raw of
        None \<Rightarrow> Inl (service_at idx @ '' must be an object'')
      | Some service \<Rightarrow>
          (case map_of service ''name'' of
             None \<Rightarrow> Inl (service_at idx @ ''.name is required'')
           | Some ANil \<Rightarrow> Inl (service_at idx @ ''.name is required'')
           | Some (AStr s) \<Rightarrow>
               if trim_space s = [] then Inl (service_at idx @ ''.name is required'') else Inr (service, trim_space s)
           | Some _ \<Rightarrow> Inl (service_at idx @ ''.name must be a string'')))"

definition validatePlayspecServiceType :: "nat \<Rightarrow> any option \<Rightarrow> string option" where
  "validatePlayspecServiceType idx rawType =
     (case rawType of
        None \<Rightarrow> None
      | Some (AStr s) \<Rightarrow>
          (let t = trim_space s
           in if t = ''static'' \<or> t = ''dynamic'' then None
              else if t = [] then Some (service_at idx @ ''.type is required when present'')
              else Some (service_at idx @ ''.type must be static or dynamic''))
      | Some _ \<Rightarrow> Some (service_at idx @ ''.type must be a string''))"

definition playspecServiceOverride :: "doc \<Rightarrow> doc" where
  "playspecServiceOverride service =
     concat (map (\<lambda>key. case map_of service key of None \<Rightarrow> [] | Some v \<Rightarrow> [(key, v)]) playspecServiceOverrideKeys)"

definition validatePlayspecServiceMetadataContent :: "nat \<Rightarrow> doc \<Rightarrow> string option" where
  "validatePlayspecServiceMetadataContent idx service =
     (let issues = map (\<lambda>(key, _). service_at idx @ ''.'' @ key)
              (filter (\<lambda>(key, _). key \<notin> set playspecServiceMetadataFields) service) @
            OverrideContentIssuePaths (service_at idx) (playspecServiceOverride service)
      in if issues = [] then None
         else Some (service_at idx @ '' has unsupported or malformed metadata fields: '' @ join_str '', '' (sort issues)))"

definition validatePlayspecServiceMetadata :: "nat \<Rightarrow> string \<Rightarrow> doc \<Rightarrow> string set \<Rightarrow> doc \<Rightarrow> string option" where
  "validatePlayspecServiceMetadata idx name service seen composeServices =
     (if name \<in> seen then Some (service_at idx @ ''.name duplicates '' @ go_quote name)
      else if \<not> has_key composeServices name
      then Some (service_at idx @ ''.name '' @ go_quote name @ '' is not present in compose'')
      else case validatePlayspecServiceType idx (map_of service ''type'') of
             Some e \<Rightarrow> Some e
           | None \<Rightarrow>
               if has_key service ''job_watch'' then Some (service_at idx @ ''.job_watch is not implemented in fibe-distilled'')
               else validatePlayspecServiceMetadataContent idx service)"

fun service_overrides_loop :: "nat \<Rightarrow> string set \<Rightarrow> doc \<Rightarrow> doc \<Rightarrow> any list \<Rightarrow> string + doc" where
  "service_overrides_loop idx seen composeServices overrides [] = Inr overrides"
| "service_overrides_loop idx seen composeServices overrides (raw # services) =
     (case parsePlayspecServiceMetadata idx raw of
        Inl e \<Rightarrow> Inl e
      | Inr (service, name) \<Rightarrow>
          (case validatePlayspecServiceMetadata idx name service seen composeServices of
             Some e \<Rightarrow> Inl e
           | None \<Rightarrow>
               (let override = playspecServiceOverride service
                in service_overrides_loop (Suc idx) (insert name seen) composeServices
                     (if override = [] then overrides else put_key name (AMap override) overrides) services)))"

definition playspecServiceOverrides :: "any list \<Rightarrow> doc \<Rightarrow> string + doc" where
  "playspecServiceOverrides services composeServices = service_overrides_loop 0 {} composeServices [] services"

definition ApplyPlayspecServices :: "yaml_lib \<Rightarrow> string \<Rightarrow> any list \<Rightarrow> string + string" where
  "ApplyPlayspecServices Y composeYAML services =
     (if services = [] then Inr composeYAML
      else case MutationMap Y composeYAML of
             Inl e \<Rightarrow> Inl e
           | Inr rendered \<Rightarrow>
               (case as_map (any_at rendered ''services'') of
                  None \<Rightarrow> Inl ''services metadata require compose services''
                | Some composeServices \<Rightarrow>
                    (case playspecServiceOverrides services composeServices of
                       Inl e \<Rightarrow> Inl e
                     | Inr overrides \<Rightarrow>
                         (case ApplyServiceOverrides rendered overrides of
                            Inl e \<Rightarrow> Inl e
                          | Inr rendered' \<Rightarrow> MutationYAML Y rendered'))))"

subsection \<open>Payloads (payload.go, resource.go)\<close>

record playspecPayload =
  sp_name :: string
  sp_description :: "string option"
  sp_base_compose_yaml :: string
  sp_persist_volumes :: "bool option"
  sp_services :: "any list option"
  sp_fields :: "string list"

definition zero_playspec_payload :: playspecPayload where
  "zero_playspec_payload = \<lparr>sp_name = [], sp_description = None, sp_base_compose_yaml = [], sp_persist_volumes = None,
     sp_services = None, sp_fields = []\<rparr>"

definition decode_playspec_payload :: "json_lib \<Rightarrow> json \<Rightarrow> json_error + playspecPayload" where
  "decode_playspec_payload L v =
     (case DecodeJSONFields v of
        Inl e \<Rightarrow> Inl e
      | Inr fs \<Rightarrow>
          (let kvs = (case v of JObj kvs \<Rightarrow> kvs | _ \<Rightarrow> [])
           in case decode_into into_string [] (json_field ''name'' kvs) of Inl e \<Rightarrow> Inl e | Inr name \<Rightarrow>
             (case decode_into into_string_ptr None (json_field ''description'' kvs) of Inl e \<Rightarrow> Inl e | Inr description \<Rightarrow>
             (case decode_into into_string [] (json_field ''base_compose_yaml'' kvs) of Inl e \<Rightarrow> Inl e | Inr yaml \<Rightarrow>
             (case decode_into into_bool_ptr None (json_field ''persist_volumes'' kvs) of Inl e \<Rightarrow> Inl e | Inr persist \<Rightarrow>
             (case decode_into (into_anys L) None (json_field ''services'' kvs) of Inl e \<Rightarrow> Inl e | Inr services \<Rightarrow>
               Inr \<lparr>sp_name = name, sp_description = description, sp_base_compose_yaml = yaml,
                    sp_persist_volumes = persist, sp_services = services, sp_fields = fs\<rparr>))))))"

definition playspec_update_fields :: "playspecPayload \<Rightarrow> bool" where
  "playspec_update_fields p =
     HasAny (sp_fields p) [''name'', ''description'', ''base_compose_yaml'', ''persist_volumes'', ''services'']"

definition validatePayload :: "playspecPayload \<Rightarrow> fault option" where
  "validatePayload p =
     (if presentBlankString (sp_fields p) ''name'' (sp_name p) then Some (BadRequestError ''name must not be blank'')
      else if presentBlankString (sp_fields p) ''base_compose_yaml'' (sp_base_compose_yaml p)
      then Some (BadRequestError ''base_compose_yaml must not be blank'')
      else if Has (sp_fields p) ''persist_volumes'' \<and> sp_persist_volumes p = None
      then Some (BadRequestError ''persist_volumes must be true or false'')
      else if Has (sp_fields p) ''services'' \<and> sp_services p = None
      then Some (BadRequestError ''services must be an array'')
      else None)"

definition rejectPersistVolumes :: "bool option \<Rightarrow> fault option" where
  "rejectPersistVolumes value =
     (if value \<noteq> Some True then None
      else Some (ValidationError 501 ''NOT_IMPLEMENTED''
        ''fibe-distilled Playgrounds and Playspecs are stateless; persist_volumes=true is not implemented''
        (Some [(''unsupported'', AStrs [''field:persist_volumes''])])))"

definition addNonEmptyMapValue :: "string \<Rightarrow> string \<Rightarrow> doc" where
  "addNonEmptyMapValue key value = (if value \<noteq> [] then [(key, AStr value)] else [])"

definition addDynamicServiceFields :: "Summary \<Rightarrow> doc" where
  "addDynamicServiceFields s =
     [(''repo_url'', AStr (s_repo_url s))] @ (if s_production s then [(''production'', ABool True)] else []) @
     addNonEmptyMapValue ''dockerfile_path'' (s_dockerfile s) @ addNonEmptyMapValue ''start_command'' (s_start_command s) @
     addNonEmptyMapValue ''build_target'' (s_build_target s) @ addNonEmptyMapValue ''build_args'' (s_build_args s)"

definition serviceFromSummary :: "Summary \<Rightarrow> doc" where
  "serviceFromSummary s =
     [(''name'', AStr (s_name s)), (''type'', AStr (s_type s)), (''image'', AStr (s_image s)),
      (''exposure'', AMap [(''enabled'', ABool (s_port s > 0)), (''port'', AInt KInt (s_port s)),
         (''subdomain'', AStr (s_subdomain s)), (''visibility'', AStr (s_visibility s))])] @
     (if s_type s = ''dynamic'' then addDynamicServiceFields s else [])"

definition servicesForValidation :: "Validation \<Rightarrow> any list \<Rightarrow> any list" where
  "servicesForValidation v provided =
     (if provided \<noteq> [] then provided else map (\<lambda>s. AMap (serviceFromSummary s)) (val_services v))"

definition given_services :: "playspecPayload \<Rightarrow> any list" where
  "given_services p = (case sp_services p of None \<Rightarrow> [] | Some ss \<Rightarrow> ss)"

text \<open>The document and the services to store, after the checks.\<close>

definition checked_compose :: "regex_engine \<Rightarrow> yaml_lib \<Rightarrow> string \<Rightarrow> any list \<Rightarrow> fault + string \<times> any list" where
  "checked_compose rx Y base services =
     (case ApplyPlayspecServices Y base services of
        Inl e \<Rightarrow> Inl (Cause (ErrText e))
      | Inr composeYAML \<Rightarrow>
          (let v = Validate rx Y composeYAML
           in if \<not> val_valid v then Inl (Cause (ErrText (join_str ''; '' (val_errors v))))
              else Inr (composeYAML, servicesForValidation v services)))"

definition zero_playspec :: playspec where
  "zero_playspec = \<lparr>ps_id = None, ps_name = [], ps_description = None, ps_locked = None, ps_persist_volumes = None,
     ps_playground_count = None, ps_created_at = None, ps_updated_at = None, ps_services = [], ps_base_compose_yaml = []\<rparr>"

definition playspec_from_payload :: "regex_engine \<Rightarrow> yaml_lib \<Rightarrow> playspecPayload \<Rightarrow> fault + playspec" where
  "playspec_from_payload rx Y p =
     (case rejectPersistVolumes (sp_persist_volumes p) of
        Some e \<Rightarrow> Inl e
      | None \<Rightarrow>
          (case checked_compose rx Y (sp_base_compose_yaml p) (given_services p) of
             Inl e \<Rightarrow> Inl e
           | Inr (yaml, services) \<Rightarrow>
               Inr (zero_playspec\<lparr>ps_name := trim_space (sp_name p), ps_description := sp_description p,
                 ps_base_compose_yaml := yaml, ps_persist_volumes := sp_persist_volumes p, ps_services := services\<rparr>)))"

text \<open>\<open>NewResource\<close>, for launches.\<close>

definition NewResource :: "regex_engine \<Rightarrow> yaml_lib \<Rightarrow> string \<Rightarrow> string option \<Rightarrow> string \<Rightarrow> bool option \<Rightarrow> any list option \<Rightarrow> fault + playspec" where
  "NewResource rx Y name description yaml persist services =
     playspec_from_payload rx Y (zero_playspec_payload\<lparr>sp_name := name, sp_description := description,
       sp_base_compose_yaml := yaml, sp_persist_volumes := persist, sp_services := services\<rparr>)"

definition composeYAMLForUpdate :: "playspecPayload \<Rightarrow> string \<Rightarrow> string option" where
  "composeYAMLForUpdate p current =
     (if sp_base_compose_yaml p \<noteq> [] then Some (sp_base_compose_yaml p)
      else if sp_services p \<noteq> None then Some current else None)"

definition applyCompose :: "regex_engine \<Rightarrow> yaml_lib \<Rightarrow> playspecPayload \<Rightarrow> string \<Rightarrow> playspec \<Rightarrow> fault + playspec" where
  "applyCompose rx Y p base ps =
     (case checked_compose rx Y base (given_services p) of
        Inl e \<Rightarrow> Inl e
      | Inr (yaml, services) \<Rightarrow> Inr (ps\<lparr>ps_base_compose_yaml := yaml, ps_services := services\<rparr>))"

definition apply_playspec_payload :: "regex_engine \<Rightarrow> yaml_lib \<Rightarrow> playspecPayload \<Rightarrow> playspec \<Rightarrow> fault + playspec" where
  "apply_playspec_payload rx Y p ps0 =
     (case rejectPersistVolumes (sp_persist_volumes p) of
        Some e \<Rightarrow> Inl e
      | None \<Rightarrow>
          (let ps1 = (if sp_name p \<noteq> [] then ps0\<lparr>ps_name := trim_space (sp_name p)\<rparr> else ps0);
               ps2 = (if Has (sp_fields p) ''description'' then ps1\<lparr>ps_description := sp_description p\<rparr> else ps1);
               persist = (\<lambda>ps. if sp_persist_volumes p \<noteq> None then ps\<lparr>ps_persist_volumes := sp_persist_volumes p\<rparr> else ps)
           in case composeYAMLForUpdate p (ps_base_compose_yaml ps2) of
                None \<Rightarrow> Inr (persist ps2)
              | Some base \<Rightarrow> (case applyCompose rx Y p base ps2 of Inl e \<Rightarrow> Inl e | Inr ps3 \<Rightarrow> Inr (persist ps3))))"

subsection \<open>Handlers (handler.go)\<close>

definition decode_playspec_body :: "server \<Rightarrow> request_body \<Rightarrow> reply + playspecPayload" where
  "decode_playspec_body S b =
     decode_required S b (decode_wrapped ''playspec'' (decode_playspec_payload (sr_json S)) zero_playspec_payload) zero_playspec_payload"

definition playspec_list :: "server \<Rightarrow> time_reader \<Rightarrow> query \<Rightarrow> reply io" where
  "playspec_list S T q = WriteFiltered (sr_api S) q (ask_specs ListPlayspecs) (filterPlayspecs T) BodyPlayspec"

definition playspec_create :: "server \<Rightarrow> request_body \<Rightarrow> reply io" where
  "playspec_create S b =
     (let E = sr_api S; rx = de_rx (sr_deploy S); Y = de_yaml (sr_deploy S)
      in case decode_playspec_body S b of
           Inl r \<Rightarrow> Ret r
         | Inr p \<Rightarrow>
             (case validatePayload p of
                Some e \<Rightarrow> Ret (ValidationOrBadRequest E e)
              | None \<Rightarrow>
                  if trim_space (sp_name p) = [] \<or> trim_space (sp_base_compose_yaml p) = []
                  then Ret (BadRequest E ''playspec name and base_compose_yaml are required'')
                  else (case playspec_from_payload rx Y p of
                          Inl e \<Rightarrow> Ret (ValidationOrBadRequest E e)
                        | Inr ps \<Rightarrow>
                            bind (ask_spec (CreatePlayspec ps)) (\<lambda>x. Ret (case x of
                              Inl e \<Rightarrow> ServerError E e
                            | Inr created \<Rightarrow> JSON E 201 (BodyPlayspec created))))))"

definition load_playspec :: "server \<Rightarrow> string \<Rightarrow> (reply + playspec) io" where
  "load_playspec S identifier =
     bind (ask_spec (FindPlayspec identifier)) (\<lambda>x. case x of
       Inl e \<Rightarrow> stop_with (writeStoreErr (sr_api S) ''playspec'' e)
     | Inr ps \<Rightarrow> Ret (Inr ps))"

definition playspec_get :: "server \<Rightarrow> string \<Rightarrow> reply io" where
  "playspec_get S identifier =
     answered (and_then (load_playspec S identifier) (\<lambda>ps. Ret (Inr (JSON (sr_api S) 200 (BodyPlayspec ps)))))"

definition playspec_services :: "server \<Rightarrow> string \<Rightarrow> reply io" where
  "playspec_services S identifier =
     answered (and_then (load_playspec S identifier) (\<lambda>ps. Ret (Inr (JSON (sr_api S) 200 (BodyAnys (ps_services ps))))))"

text \<open>The update of a row as it is read again.\<close>

definition saveUpdate :: "server \<Rightarrow> playspec \<Rightarrow> playspecPayload \<Rightarrow> (reply + playspec) io" where
  "saveUpdate S loaded p =
     (case ps_id loaded of
        None \<Rightarrow> stop_with (writeStoreErr (sr_api S) ''playspec'' ErrNotFound)
      | Some i \<Rightarrow>
          bind (ask_spec (FindPlayspec (itoa i))) (\<lambda>x. case x of
            Inl e \<Rightarrow> stop_with (writeStoreErr (sr_api S) ''playspec'' e)
          | Inr current \<Rightarrow>
              (case apply_playspec_payload (de_rx (sr_deploy S)) (de_yaml (sr_deploy S)) p current of
                 Inl e \<Rightarrow> stop_with (ValidationOrBadRequest (sr_api S) e)
               | Inr ps \<Rightarrow>
                   bind (ask_spec (SavePlayspec ps)) (\<lambda>y. case y of
                     Inl e \<Rightarrow> stop_with (writeStoreErr (sr_api S) ''playspec'' e)
                   | Inr saved \<Rightarrow> Ret (Inr saved)))))"

definition playspec_update :: "server \<Rightarrow> string \<Rightarrow> request_body \<Rightarrow> reply io" where
  "playspec_update S identifier b =
     answered (and_then (load_playspec S identifier) (\<lambda>ps.
       case decode_playspec_body S b of
         Inl r \<Rightarrow> stop_with r
       | Inr p \<Rightarrow>
           (case validatePayload p of
              Some e \<Rightarrow> stop_with (ValidationOrBadRequest (sr_api S) e)
            | None \<Rightarrow>
                if \<not> playspec_update_fields p
                then stop_with (BadRequest (sr_api S) ''playspec update requires at least one field'')
                else and_then (saveUpdate S ps p) (\<lambda>updated. Ret (Inr (JSON (sr_api S) 200 (BodyPlayspec updated)))))))"

text \<open>A row without an id is not stored; the code dereferences the id.\<close>

definition playspec_delete :: "server \<Rightarrow> string \<Rightarrow> reply io" where
  "playspec_delete S identifier =
     answered (and_then (load_playspec S identifier) (\<lambda>ps.
       case ps_id ps of
         None \<Rightarrow> Stuck
       | Some i \<Rightarrow>
           bind (ask_count (CountPlaygroundsForPlayspec i)) (\<lambda>x. case x of
             Inl e \<Rightarrow> stop_with (ServerError (sr_api S) e)
           | Inr n \<Rightarrow>
               if n > 0
               then stop_with (Error (sr_api S) 409 ''RESOURCE_IN_USE'' ''cannot delete playspec while playgrounds reference it''
                      (Some [(''playgrounds_count'', AInt KInt n)]))
               else bind (ask_done (RemovePlayspec identifier)) (\<lambda>err. case err of
                      Some e \<Rightarrow> stop_with (writeStoreErr (sr_api S) ''playspec'' e)
                    | None \<Rightarrow> Ret (Inr NoContent)))))"

subsection \<open>What is stored\<close>

lemma checked_compose_valid:
  "checked_compose rx Y base services = Inr (yaml, ss) \<Longrightarrow> val_valid (Validate rx Y yaml)"
  by (auto simp: checked_compose_def Let_def split: sum.splits if_splits)

lemma rejectPersistVolumes_None [simp]: "rejectPersistVolumes v = None \<longleftrightarrow> v \<noteq> Some True"
  by (simp add: rejectPersistVolumes_def)

lemma from_payload_valid:
  assumes "playspec_from_payload rx Y p = Inr ps"
  shows "val_valid (Validate rx Y (ps_base_compose_yaml ps)) \<and> ps_persist_volumes ps \<noteq> Some True \<and> ps_name ps = trim_space (sp_name p)"
  using assms checked_compose_valid by (auto simp: playspec_from_payload_def split: option.splits sum.splits prod.splits)

lemma apply_payload_valid:
  assumes "apply_playspec_payload rx Y p current = Inr ps"
  shows "ps_id ps = ps_id current \<and>
    (val_valid (Validate rx Y (ps_base_compose_yaml ps)) \<or>
     ps_base_compose_yaml ps = ps_base_compose_yaml current \<and> ps_services ps = ps_services current) \<and>
    (ps_persist_volumes ps \<noteq> Some True \<or> ps_persist_volumes ps = ps_persist_volumes current)"
proof -
  define ps1 where "ps1 = (if sp_name p \<noteq> [] then current\<lparr>ps_name := trim_space (sp_name p)\<rparr> else current)"
  define ps2 where "ps2 = (if Has (sp_fields p) ''description'' then ps1\<lparr>ps_description := sp_description p\<rparr> else ps1)"
  define persist where "persist = (\<lambda>ps :: playspec. if sp_persist_volumes p \<noteq> None then ps\<lparr>ps_persist_volumes := sp_persist_volumes p\<rparr> else ps)"
  have same: "ps_id ps2 = ps_id current" "ps_base_compose_yaml ps2 = ps_base_compose_yaml current"
    "ps_services ps2 = ps_services current" "ps_persist_volumes ps2 = ps_persist_volumes current"
    by (simp_all add: ps1_def ps2_def)
  have persists: "sp_persist_volumes p \<noteq> Some True" 
    using assms by (auto simp: apply_playspec_payload_def split: option.splits)
  then have none: "rejectPersistVolumes (sp_persist_volumes p) = None" by simp
  from persists have keeps: "ps_id (persist x) = ps_id x" "ps_base_compose_yaml (persist x) = ps_base_compose_yaml x"
    "ps_services (persist x) = ps_services x"
    "ps_persist_volumes (persist x) \<noteq> Some True \<or> ps_persist_volumes (persist x) = ps_persist_volumes x" for x
    by (auto simp: persist_def)
  have "(case composeYAMLForUpdate p (ps_base_compose_yaml ps2) of
           None \<Rightarrow> Inr (persist ps2)
         | Some base \<Rightarrow> (case applyCompose rx Y p base ps2 of Inl e \<Rightarrow> Inl e | Inr ps3 \<Rightarrow> Inr (persist ps3))) = Inr ps"
    using assms unfolding apply_playspec_payload_def none option.case Let_def ps2_def ps1_def persist_def .
  then consider "ps = persist ps2" | base ps3 where "applyCompose rx Y p base ps2 = Inr ps3" "ps = persist ps3"
    by (auto split: option.splits sum.splits)
  then show ?thesis
  proof cases
    case 1
    with keeps[of ps2] same show ?thesis by simp
  next
    case 2
    then have "val_valid (Validate rx Y (ps_base_compose_yaml ps3))" "ps_id ps3 = ps_id ps2"
      "ps_persist_volumes ps3 = ps_persist_volumes ps2"
      using checked_compose_valid by (auto simp: applyCompose_def split: sum.splits prod.splits)
    with 2 keeps[of ps3] same show ?thesis by simp
  qed
qed

text \<open>The writes of the handlers, at the moment they are made.\<close>

definition playspec_guard :: "regex_engine \<Rightarrow> yaml_lib \<Rightarrow> history \<Rightarrow> request \<Rightarrow> bool" where
  "playspec_guard rx Y h q =
     (case q of
        CreatePlayspec ps \<Rightarrow>
          val_valid (Validate rx Y (ps_base_compose_yaml ps)) \<and> ps_persist_volumes ps \<noteq> Some True \<and>
          ps_name ps \<noteq> [] \<and> trim_space (ps_name ps) = ps_name ps
      | SavePlayspec ps \<Rightarrow>
          (\<exists>h0 i current. h = h0 @ [(FindPlayspec i, SpecRow (Inr current))] \<and> ps_id ps = ps_id current \<and>
             (val_valid (Validate rx Y (ps_base_compose_yaml ps)) \<or>
              ps_base_compose_yaml ps = ps_base_compose_yaml current \<and> ps_services ps = ps_services current) \<and>
             (ps_persist_volumes ps \<noteq> Some True \<or> ps_persist_volumes ps = ps_persist_volumes current))
      | RemovePlayspec t \<Rightarrow>
          (\<exists>ps i n. h = [(FindPlayspec t, SpecRow (Inr ps)), (CountPlaygroundsForPlayspec i, Counted (Inr n))] \<and>
             ps_id ps = Some i \<and> n \<le> 0)
      | FindPlayspec _ \<Rightarrow> True
      | CountPlaygroundsForPlayspec _ \<Rightarrow> True
      | _ \<Rightarrow> False)"

lemma create_guarded:
  "wp (playspec_guard (de_rx (sr_deploy S)) (de_yaml (sr_deploy S))) (\<lambda>_ _. True) (playspec_create S b) []"
proof (cases "decode_playspec_body S b")
  case (Inr p)
  have "trim_space (sp_name p) \<noteq> [] \<Longrightarrow> playspec_from_payload (de_rx (sr_deploy S)) (de_yaml (sr_deploy S)) p = Inr ps \<Longrightarrow>
      playspec_guard (de_rx (sr_deploy S)) (de_yaml (sr_deploy S)) h (CreatePlayspec ps)" for ps h
    using from_payload_valid by (auto simp: playspec_guard_def)
  with Inr show ?thesis by (auto simp: playspec_create_def Let_def split: option.split sum.split)
qed (simp add: playspec_create_def)

lemma load_playspec_wp:
  "wp (playspec_guard rx Y) Q (load_playspec S t) h \<longleftrightarrow>
     (\<forall>e. Q (h @ [(FindPlayspec t, SpecRow (Inl e))]) (Inl (writeStoreErr (sr_api S) ''playspec'' e))) \<and>
     (\<forall>ps. Q (h @ [(FindPlayspec t, SpecRow (Inr ps))]) (Inr ps))"
  by (auto simp: load_playspec_def playspec_guard_def split: sum.split)

lemma saveUpdate_guarded:
  "wp (playspec_guard (de_rx (sr_deploy S)) (de_yaml (sr_deploy S))) (\<lambda>_ _. True) (saveUpdate S loaded p) h"
proof (cases "ps_id loaded")
  case (Some i)
  have "apply_playspec_payload (de_rx (sr_deploy S)) (de_yaml (sr_deploy S)) p current = Inr ps \<Longrightarrow>
      playspec_guard (de_rx (sr_deploy S)) (de_yaml (sr_deploy S)) (h @ [(FindPlayspec (itoa i), SpecRow (Inr current))]) (SavePlayspec ps)"
    for current ps
    unfolding playspec_guard_def request.case using apply_payload_valid[of _ _ p current ps]
    by (intro exI[of _ h] exI[of _ "itoa i"] exI[of _ current]) simp
  moreover have "playspec_guard rx Y h (FindPlayspec t)" for rx Y h t by (simp add: playspec_guard_def)
  ultimately show ?thesis using Some by (auto simp: saveUpdate_def split: sum.split)
qed (simp add: saveUpdate_def)

lemma update_guarded:
  "wp (playspec_guard (de_rx (sr_deploy S)) (de_yaml (sr_deploy S))) (\<lambda>_ _. True) (playspec_update S t b) []"
proof -
  have "wp (playspec_guard (de_rx (sr_deploy S)) (de_yaml (sr_deploy S))) (\<lambda>h x. case x of Inl r \<Rightarrow> True | Inr a \<Rightarrow> True)
      (saveUpdate S loaded p) h" for loaded p h
    by (rule wp_mono[OF saveUpdate_guarded]) (simp split: sum.split)
  then show ?thesis
    unfolding playspec_update_def
    by (auto simp: answered_def load_playspec_wp split: sum.split option.split intro!: wp_mono[OF saveUpdate_guarded])
qed

lemma delete_guarded:
  "wp (playspec_guard rx Y) (\<lambda>_ _. True) (playspec_delete S t) []"
  unfolding playspec_delete_def
  by (auto simp: answered_def load_playspec_wp playspec_guard_def split: sum.split option.split)


definition demo_playspec_body :: request_body where
  "demo_playspec_body =
     JsonBody (JObj [(''playspec'', JObj [(''name'', JStr '' shop ''), (''base_compose_yaml'', JStr ''x'')])])"

definition demo_playspec_run :: history where
  "demo_playspec_run = fst (replay (playspec_create demo_server demo_playspec_body) [SpecRow (Inr demo_playspec)])"


end
