(* ===== verification/Props.thy ===== *)
theory Props
  imports PlaygroundSafety CheckedSteps ApiLists
begin

text \<open>
  Props, the repositories that playspecs take their sources from: \<open>internal/prop\<close> (\<open>handler.go\<close>, \<open>http_props.go\<close>,
  \<open>http_branches.go\<close>, \<open>http_repo_status.go\<close>, \<open>github_props.go\<close>, \<open>payload.go\<close>, \<open>helpers.go\<close>), and what they use of the
  GitHub client (\<open>internal/github\<close>: \<open>client.go\<close>, \<open>webhook.go\<close>). The client library is the boundary: \<open>GitHubRepository\<close> and
  \<open>GitHubBranches\<close> are its calls, the latter with all its pages.

  Shown: a repository is written to a prop only when it can be cloned, and, on GitHub, pushed to with the token of the
  server; a sync writes only what it has fetched for the repository the row still has; a prop is deleted only when no
  playspec refers to it.
\<close>

subsection \<open>The GitHub client (client.go, webhook.go)\<close>

text \<open>The options of the handler; \<open>ph_base_error\<close> is the error of \<open>url.Parse\<close> on the base of the API.\<close>

record prop_handler =
  ph_server :: server
  ph_base_url :: string
  ph_base_error :: "string \<Rightarrow> string option"
  ph_token :: string

definition normalizeGitHubBaseURL :: "string \<Rightarrow> string" where
  "normalizeGitHubBaseURL configured =
     (let value = trim_space configured in if value = [] then ''https://api.github.com'' else value)"

definition githubBaseURL :: "prop_handler \<Rightarrow> string" where
  "githubBaseURL H = normalizeGitHubBaseURL (ph_base_url H)"

definition githubToken :: "prop_handler \<Rightarrow> string" where
  "githubToken H = trim_space (ph_token H)"

definition new_client :: "prop_handler \<Rightarrow> go_error option" where
  "new_client H =
     (let baseURL = trim_space (githubBaseURL H)
      in if baseURL \<noteq> [] \<and> baseURL \<noteq> ''https://api.github.com''
         then map_option ErrText (ph_base_error H (trim_right_set ''/'' baseURL @ ''/'')) else None)"

definition splitFullName :: "string \<Rightarrow> (string \<times> string) option" where
  "splitFullName fullName =
     (let (owner, repo, ok) = cut_char (CHR ''/'') (trim_set ''/'' fullName)
      in if \<not> ok \<or> owner = [] \<or> repo = [] \<or> CHR ''/'' \<in> set repo then None else Some (owner, repo))"

definition invalid_name :: go_error where
  "invalid_name = ErrText ''invalid GitHub repository name''"

definition client_repository :: "string \<Rightarrow> (go_error + github_repository) io" where
  "client_repository fullName =
     (case splitFullName fullName of
        None \<Rightarrow> Ret (Inl invalid_name)
      | Some (owner, repo) \<Rightarrow> ask_repository (GitHubRepository (owner @ ''/'' @ repo)))"

definition branchFromPayload :: "github_branch \<Rightarrow> github_branch option" where
  "branchFromPayload branch = (if gb_name branch = [] then None else Some branch)"

definition appendBranches :: "github_branch list \<Rightarrow> github_branch list \<Rightarrow> github_branch list" where
  "appendBranches out payload = out @ List.map_filter branchFromPayload payload"

definition client_branches :: "string \<Rightarrow> (go_error + github_branch list) io" where
  "client_branches fullName =
     (case splitFullName fullName of
        None \<Rightarrow> Ret (Inl invalid_name)
      | Some (owner, repo) \<Rightarrow>
          bind (ask_branches (GitHubBranches (owner @ ''/'' @ repo))) (\<lambda>x. Ret (case x of
            Inl e \<Rightarrow> Inl e
          | Inr payload \<Rightarrow> Inr (appendBranches [] payload))))"

subsection \<open>Payloads (payload.go)\<close>

record propPayload =
  pp_repository_url :: string
  pp_name :: "string option"
  pp_private :: "bool option"
  pp_default_branch :: "string option"
  pp_provider :: "string option"
  pp_credentials :: "doc option"
  pp_fields :: "string list"

definition zero_prop_payload :: propPayload where
  "zero_prop_payload = \<lparr>pp_repository_url = [], pp_name = None, pp_private = None, pp_default_branch = None,
     pp_provider = None, pp_credentials = None, pp_fields = []\<rparr>"

definition decode_prop_payload :: "json_lib \<Rightarrow> json \<Rightarrow> json_error + propPayload" where
  "decode_prop_payload L v =
     (case DecodeJSONFields v of
        Inl e \<Rightarrow> Inl e
      | Inr fs \<Rightarrow>
          (let kvs = (case v of JObj kvs \<Rightarrow> kvs | _ \<Rightarrow> [])
           in case decode_into into_string [] (json_field ''repository_url'' kvs) of Inl e \<Rightarrow> Inl e | Inr url \<Rightarrow>
             (case decode_into into_string_ptr None (json_field ''name'' kvs) of Inl e \<Rightarrow> Inl e | Inr name \<Rightarrow>
             (case decode_into into_bool_ptr None (json_field ''private'' kvs) of Inl e \<Rightarrow> Inl e | Inr private \<Rightarrow>
             (case decode_into into_string_ptr None (json_field ''default_branch'' kvs) of Inl e \<Rightarrow> Inl e | Inr branch \<Rightarrow>
             (case decode_into into_string_ptr None (json_field ''provider'' kvs) of Inl e \<Rightarrow> Inl e | Inr provider \<Rightarrow>
             (case decode_into (into_doc L) None (json_field ''credentials'' kvs) of Inl e \<Rightarrow> Inl e | Inr credentials \<Rightarrow>
               Inr \<lparr>pp_repository_url = url, pp_name = name, pp_private = private, pp_default_branch = branch,
                    pp_provider = provider, pp_credentials = credentials, pp_fields = fs\<rparr>)))))))"

definition prop_update_fields :: "propPayload \<Rightarrow> bool" where
  "prop_update_fields p = HasAny (pp_fields p) [''repository_url'', ''name'', ''private'', ''default_branch'', ''provider'']"

definition zero_prop :: source_prop where
  "zero_prop = \<lparr>pr_id = 0, pr_name = [], pr_repository_url = [], pr_private = False, pr_default_branch = [], pr_status = [],
     pr_provider = [], pr_last_synced_at = None, pr_created_at = zero_time, pr_updated_at = zero_time, pr_branches = [],
     pr_branch_records = []\<rparr>"

definition override_with :: "'v option \<Rightarrow> ('v \<Rightarrow> source_prop \<Rightarrow> source_prop) \<Rightarrow> source_prop \<Rightarrow> source_prop" where
  "override_with v f row = (case v of None \<Rightarrow> row | Some x \<Rightarrow> f x row)"

text \<open>The optional fields, in the order of the code.\<close>

definition apply_optional :: "propPayload \<Rightarrow> source_prop \<Rightarrow> source_prop" where
  "apply_optional p row =
     override_with (pp_provider p) (\<lambda>v r. r\<lparr>pr_provider := normalizePropProvider v\<rparr>)
       (override_with (pp_default_branch p) (\<lambda>v r. r\<lparr>pr_default_branch := trim_space v\<rparr>)
         (override_with (pp_private p) (\<lambda>v r. r\<lparr>pr_private := v\<rparr>)
           (override_with (pp_name p) (\<lambda>v r. r\<lparr>pr_name := trim_space v\<rparr>) row)))"

definition prop_from_payload :: "propPayload \<Rightarrow> source_prop" where
  "prop_from_payload p = apply_optional p (zero_prop\<lparr>pr_repository_url := trim_space (pp_repository_url p)\<rparr>)"

definition apply_prop_payload :: "propPayload \<Rightarrow> source_prop \<Rightarrow> source_prop" where
  "apply_prop_payload p row =
     apply_optional p (if pp_repository_url p \<noteq> [] then row\<lparr>pr_repository_url := trim_space (pp_repository_url p)\<rparr> else row)"

subsection \<open>Checks (helpers.go, http\_props.go)\<close>

definition validateRepositoryURLNoCredentials :: "string \<Rightarrow> fault option" where
  "validateRepositoryURLNoCredentials raw =
     bad_when (RepositoryURLHasCredentials raw)
       ''repository_url must not include credentials; use process credentials or SSH access''"

definition validateRuntimeRepositoryURL :: "string \<Rightarrow> fault option" where
  "validateRuntimeRepositoryURL raw =
     first_fault [validateRepositoryURLNoCredentials raw,
       bad_when (\<not> CloneableRepositoryURL raw) ''repository_url must be a cloneable Git URL or SSH target'']"

definition isGitHubURL :: "string \<Rightarrow> bool" where
  "isGitHubURL raw = (RepositoryFullName raw \<noteq> None)"

definition validRepoStatusURL :: "string \<Rightarrow> bool" where
  "validRepoStatusURL raw0 =
     (let raw = trim_space raw0
      in if raw = [] then False else if RepositoryFullName raw \<noteq> None then True else CloneableRepositoryURL raw)"

definition supportedPropProvider :: "string \<Rightarrow> bool" where
  "supportedPropProvider provider = (normalizePropProvider provider = ''github'' \<or> normalizePropProvider provider = ''git'')"

definition propProviderForRepository :: "string \<Rightarrow> string" where
  "propProviderForRepository repositoryURL = (if RepositoryFullName repositoryURL \<noteq> None then ''github'' else ''git'')"

definition validatePropProviderMatchesRepository :: "string \<Rightarrow> string \<Rightarrow> fault option" where
  "validatePropProviderMatchesRepository provider0 repositoryURL =
     (let provider = normalizePropProvider provider0
      in bad_when (provider \<noteq> [] \<and> provider \<noteq> propProviderForRepository repositoryURL) ''provider must match repository_url'')"

definition validatePropScalarFields :: "propPayload \<Rightarrow> fault option" where
  "validatePropScalarFields p =
     first_fault
       [bad_when (presentBlankString (pp_fields p) ''repository_url'' (pp_repository_url p)) ''repository_url must not be blank'',
        (if pp_repository_url p \<noteq> [] then validateRuntimeRepositoryURL (pp_repository_url p) else None),
        bad_when (presentBlankStringPtr (pp_fields p) ''name'' (pp_name p)) ''name must not be blank'',
        bad_when (Has (pp_fields p) ''private'' \<and> pp_private p = None) ''private must be true or false'',
        bad_when (presentBlankStringPtr (pp_fields p) ''default_branch'' (pp_default_branch p)) ''default_branch must not be blank'',
        bad_when (presentBlankStringPtr (pp_fields p) ''provider'' (pp_provider p)) ''provider must not be blank'']"

definition unsupported_prop :: "string \<Rightarrow> string \<Rightarrow> fault" where
  "unsupported_prop message field = ValidationError 501 ''NOT_IMPLEMENTED'' message (Some [(''unsupported'', AStrs [field])])"

definition validatePropUnsupportedFields :: "propPayload \<Rightarrow> fault option" where
  "validatePropUnsupportedFields p =
     (if Has (pp_fields p) ''credentials''
      then Some (unsupported_prop
        ''per-Prop credentials are not implemented in fibe-distilled; GitHub access uses the process GITHUB_TOKEN''
        ''field:credentials'')
      else case pp_provider p of
             None \<Rightarrow> None
           | Some provider \<Rightarrow>
               if supportedPropProvider provider then None
               else Some (unsupported_prop
                 (''this Prop provider is not implemented in fibe-distilled; use provider=github, provider=git, or '' @ ''omit provider'')
                 (''field:provider='' @ normalizePropProvider provider)))"

definition validatePropPayload :: "propPayload \<Rightarrow> fault option" where
  "validatePropPayload p =
     first_fault [validatePropScalarFields p, validatePropUnsupportedFields p,
       (case pp_provider p of
          Some provider \<Rightarrow> if pp_repository_url p \<noteq> [] then validatePropProviderMatchesRepository provider (pp_repository_url p) else None
        | None \<Rightarrow> None)]"

definition validatePropUpdatePayload :: "propPayload \<Rightarrow> fault option" where
  "validatePropUpdatePayload p =
     first_fault [validatePropPayload p, bad_when (\<not> prop_update_fields p) ''prop update requires at least one field'']"

subsection \<open>Write access (http\_repo\_status.go)\<close>

record repoWritableResult =
  ra_writable :: bool
  ra_checked :: bool
  ra_reason :: string

definition githubWritablePermissionKeys :: "string list" where
  "githubWritablePermissionKeys = [''push'', ''admin'', ''maintain'']"

definition githubRepoPushWritable :: "(string \<times> bool) list \<Rightarrow> bool" where
  "githubRepoPushWritable permissions = list_ex (\<lambda>key. map_of permissions key = Some True) githubWritablePermissionKeys"

definition checked_without :: "string \<Rightarrow> repoWritableResult" where
  "checked_without reason = \<lparr>ra_writable = False, ra_checked = True, ra_reason = reason\<rparr>"

definition githubRepoWritable :: "prop_handler \<Rightarrow> string \<Rightarrow> string \<Rightarrow> repoWritableResult io" where
  "githubRepoWritable H repoURL token =
     (if trim_space token = [] then Ret (checked_without ''GitHub token is missing'')
      else case RepositoryFullName repoURL of
             None \<Rightarrow> Ret \<lparr>ra_writable = False, ra_checked = False, ra_reason = ''not a GitHub repository''\<rparr>
           | Some fullName \<Rightarrow>
               (case new_client H of
                  Some e \<Rightarrow> Ret (checked_without (error_text e))
                | None \<Rightarrow>
                    bind (client_repository fullName) (\<lambda>x. Ret (case x of
                      Inl e \<Rightarrow> checked_without (error_text e)
                    | Inr repo \<Rightarrow>
                        if githubRepoPushWritable (gh_permissions repo)
                        then \<lparr>ra_writable = True, ra_checked = True, ra_reason = ''token has push permission''\<rparr>
                        else checked_without (''token can read '' @ fullName @ '' but cannot push'')))))"

definition missing_access :: string where
  "missing_access = ''repository requires a writable GitHub token or fork''"

definition repositoryRequiresFork :: "string \<Rightarrow> string \<Rightarrow> fault" where
  "repositoryRequiresFork repo reason =
     ValidationError 422 ''REPOSITORY_REQUIRES_FORK''
       (repo @ '' requires push/write access: '' @ (if reason = [] then missing_access else reason)) None"

fun runtimeGitHubRepos :: "string list \<Rightarrow> fault + string list" where
  "runtimeGitHubRepos [] = Inr []"
| "runtimeGitHubRepos (repo # repos) =
     (if trim_space repo = [] then runtimeGitHubRepos repos
      else case validateRepositoryURLNoCredentials repo of
             Some e \<Rightarrow> Inl (ValidationError 400 ''BAD_REQUEST'' (fault_text e) None)
           | None \<Rightarrow>
               (case runtimeGitHubRepos repos of
                  Inl e \<Rightarrow> Inl e
                | Inr rs \<Rightarrow> Inr (if isGitHubURL repo then repo # rs else rs)))"

primrec require_writable :: "prop_handler \<Rightarrow> string list \<Rightarrow> unit check" where
  "require_writable H [] = Ret (Inr ())"
| "require_writable H (repo # repos) =
     bind (githubRepoWritable H repo (githubToken H)) (\<lambda>w.
       if ra_checked w \<and> ra_writable w then require_writable H repos
       else Ret (Inl (repositoryRequiresFork repo (ra_reason w))))"

definition requireRuntimeWritable :: "prop_handler \<Rightarrow> string list \<Rightarrow> unit check" where
  "requireRuntimeWritable H repos =
     (case runtimeGitHubRepos repos of
        Inl e \<Rightarrow> Ret (Inl e)
      | Inr githubRepos \<Rightarrow> require_writable H githubRepos)"

text \<open>The entry of a repository in the reply, as a map of the code.\<close>

definition repoStatusEntry :: "prop_handler \<Rightarrow> string \<Rightarrow> doc io" where
  "repoStatusEntry H raw =
     (let entry = [(''url'', AStr (RedactRepositoryCredentials raw)), (''status'', AStr ''ready''), (''authenticated'', ABool False)];
          invalid = (\<lambda>message. put_key ''error'' (AStr message) (put_key ''status'' (AStr ''invalid'') entry))
      in if RepositoryURLHasCredentials raw
         then Ret (invalid ''repository URL must not include credentials; use process credentials or SSH access'')
         else if \<not> validRepoStatusURL raw then Ret (invalid ''invalid URL'')
         else case RepositoryFullName raw of
                None \<Rightarrow> Ret entry
              | Some fullName \<Rightarrow>
                  (let token = githubToken H;
                       entry1 = put_key ''authenticated'' (ABool (token \<noteq> []))
                         (put_key ''github_url'' (AStr (''https://github.com/'' @ fullName)) entry)
                   in bind (githubRepoWritable H raw token) (\<lambda>w.
                        let entry2 = put_key ''requires_fork'' (ABool (\<not> ra_writable w))
                              (put_key ''runtime_writable'' (ABool (ra_writable w)) entry1)
                        in Ret (if ra_checked w \<and> ra_writable w then put_key ''status'' (AStr ''ready'') entry2
                           else put_key ''error'' (AStr (if ra_reason w = [] then missing_access else ra_reason w))
                                  (put_key ''status'' (AStr ''not_writable'') entry2)))))"

record repoStatusPayload =
  ru_github_urls :: "string list"
  ru_fields :: "string list"

definition decode_repo_status :: "json \<Rightarrow> json_error + repoStatusPayload" where
  "decode_repo_status v =
     (case DecodeJSONFields v of
        Inl e \<Rightarrow> Inl e
      | Inr fs \<Rightarrow>
          (case decode_into into_strings [] (json_field ''github_urls'' (case v of JObj kvs \<Rightarrow> kvs | _ \<Rightarrow> [])) of
             Inl e \<Rightarrow> Inl e
           | Inr urls \<Rightarrow> Inr \<lparr>ru_github_urls = urls, ru_fields = fs\<rparr>))"

definition validateRepoStatusPayload :: "repoStatusPayload \<Rightarrow> fault option" where
  "validateRepoStatusPayload b =
     first_fault
       [bad_when (\<not> Has (ru_fields b) ''github_urls'') ''github_urls is required'',
        bad_when (ru_github_urls b = []) ''github_urls must be a non-empty array'',
        bad_when (list_ex (\<lambda>raw. trim_space raw = []) (ru_github_urls b)) ''github_urls entries must not be blank'']"

primrec repo_entries :: "prop_handler \<Rightarrow> string list \<Rightarrow> doc list io" where
  "repo_entries H [] = Ret []"
| "repo_entries H (raw # raws) = bind (repoStatusEntry H raw) (\<lambda>e. bind (repo_entries H raws) (\<lambda>es. Ret (e # es)))"

definition repoStatus :: "prop_handler \<Rightarrow> request_body \<Rightarrow> reply io" where
  "repoStatus H b =
     (let S = ph_server H
      in case decode_required S b decode_repo_status \<lparr>ru_github_urls = [], ru_fields = []\<rparr> of
           Inl r \<Rightarrow> Ret r
         | Inr body \<Rightarrow>
             (case validateRepoStatusPayload body of
                Some e \<Rightarrow> Ret (ValidationOrBadRequest (sr_api S) e)
              | None \<Rightarrow>
                  bind (repo_entries H (ru_github_urls body)) (\<lambda>repos.
                    Ret (JSON (sr_api S) 200 (BodyDoc [(''repos'', AMaps repos)])))))"

subsection \<open>Branches (helpers.go, http\_branches.go)\<close>

definition zero_branch :: prop_branch where
  "zero_branch = \<lparr>pb_name = [], pb_default = False, pb_head_sha = [], pb_last_synced_at = None\<rparr>"

definition branchRecordMap :: "string \<Rightarrow> prop_branch list \<Rightarrow> prop_branch smap" where
  "branchRecordMap defaultBranch records =
     (let byName = fold (\<lambda>record m. let name = trim_space (pb_name record)
            in if name \<noteq> [] then put_key name (record\<lparr>pb_name := name\<rparr>) m else m) records []
      in if defaultBranch \<noteq> []
         then put_key defaultBranch ((case map_of byName defaultBranch of Some r \<Rightarrow> r | None \<Rightarrow> zero_branch)\<lparr>pb_name := defaultBranch\<rparr>) byName
         else byName)"

definition moveNameToFront :: "string list \<Rightarrow> string \<Rightarrow> string list" where
  "moveNameToFront names target =
     (if target = [] then names else if target \<in> set names then target # remove1 target names else names)"

definition sortedBranchRecordNames :: "prop_branch smap \<Rightarrow> string \<Rightarrow> string list" where
  "sortedBranchRecordNames byName defaultBranch = moveNameToFront (sorted_keys byName) defaultBranch"

definition normalizedBranchRecord :: "prop_branch \<Rightarrow> string \<Rightarrow> string \<Rightarrow> int \<Rightarrow> prop_branch" where
  "normalizedBranchRecord record name defaultBranch syncedAt =
     record\<lparr>pb_name := name, pb_default := (name = defaultBranch),
       pb_last_synced_at := (case pb_last_synced_at record of None \<Rightarrow> Some syncedAt | Some t \<Rightarrow> Some t)\<rparr>"

definition normalizeBranchRecords :: "string \<Rightarrow> prop_branch list \<Rightarrow> int \<Rightarrow> string list \<times> prop_branch list" where
  "normalizeBranchRecords default0 records syncedAt =
     (let defaultBranch = trim_space default0;
          byName = branchRecordMap defaultBranch records;
          names = sortedBranchRecordNames byName defaultBranch
      in (names, map (\<lambda>name. normalizedBranchRecord
            (case map_of byName name of Some r \<Rightarrow> r | None \<Rightarrow> zero_branch) name defaultBranch syncedAt) names))"

definition branchQuery :: "query \<Rightarrow> string" where
  "branchQuery q = to_lower (trim_space (q_get q ''query''))"

definition filterPropBranches :: "prop_branch list \<Rightarrow> string \<Rightarrow> string \<Rightarrow> prop_branch list" where
  "filterPropBranches source query defaultBranch =
     map (\<lambda>b. b\<lparr>pb_default := (pb_name b = defaultBranch)\<rparr>)
       (filter (\<lambda>b. query = [] \<or> str_contains (to_lower (pb_name b)) query) source)"

definition branch_before :: "prop_branch \<Rightarrow> prop_branch \<Rightarrow> bool" where
  "branch_before a b = (if pb_default a \<noteq> pb_default b then pb_default a else pb_name a < pb_name b)"

definition sortPropBranches :: "prop_branch list \<Rightarrow> prop_branch list" where
  "sortPropBranches branches = stable_sort branch_before branches"

definition limitedPropBranches :: "prop_branch list \<Rightarrow> int \<Rightarrow> prop_branch list" where
  "limitedPropBranches branches limit = take (nat limit) branches"

definition propBranchesForResponse :: "source_prop \<Rightarrow> string \<Rightarrow> int \<Rightarrow> prop_branch list" where
  "propBranchesForResponse p query limit =
     limitedPropBranches (sortPropBranches (filterPropBranches (pr_branch_records p) query (pr_default_branch p))) limit"

definition branchQueryLimit :: "query \<Rightarrow> string + int" where
  "branchQueryLimit q =
     (let bad = Inl ''limit must be a positive integer''; raw = trim_space (q_get q ''limit'')
      in if \<not> q_has q ''limit'' then Inr 20
         else if raw = [] then bad
         else case parse_int64 raw of
                Inl _ \<Rightarrow> bad
              | Inr v \<Rightarrow> if v < 1 then bad else if v > 50 then Inr 50 else Inr v)"

subsection \<open>Synchronisation (github\_props.go)\<close>

definition applyGitHubRepositoryMetadata :: "source_prop \<Rightarrow> github_repository \<Rightarrow> source_prop" where
  "applyGitHubRepositoryMetadata p repo =
     p\<lparr>pr_default_branch := (if gh_default_branch repo \<noteq> [] then gh_default_branch repo
         else if pr_default_branch p = [] then ''main'' else pr_default_branch p),
       pr_provider := ''github'', pr_private := gh_private repo\<rparr>"

definition githubPropBranches :: "github_branch list \<Rightarrow> prop_branch list" where
  "githubPropBranches payload = map (\<lambda>b. zero_branch\<lparr>pb_name := gb_name b, pb_head_sha := gb_sha b\<rparr>) payload"

definition syncGitHubPropMetadata :: "prop_handler \<Rightarrow> source_prop \<Rightarrow> (go_error + source_prop) io" where
  "syncGitHubPropMetadata H p =
     bind ask_clock (\<lambda>now.
       case RepositoryFullName (pr_repository_url p) of
         None \<Rightarrow> Ret (Inl (ErrText ''not a GitHub repository''))
       | Some fullName \<Rightarrow>
           (case new_client H of
              Some e \<Rightarrow> Ret (Inl e)
            | None \<Rightarrow>
                bind (client_repository fullName) (\<lambda>x. case x of
                  Inl e \<Rightarrow> Ret (Inl e)
                | Inr repo \<Rightarrow>
                    bind (client_branches fullName) (\<lambda>y. Ret (case y of
                      Inl e \<Rightarrow> Inl e
                    | Inr payload \<Rightarrow>
                        (let p1 = applyGitHubRepositoryMetadata p repo;
                             (names, records) = normalizeBranchRecords (pr_default_branch p1) (githubPropBranches payload) now
                         in Inr (p1\<lparr>pr_branches := names, pr_branch_records := records, pr_status := ''active'',
                              pr_last_synced_at := Some now\<rparr>)))))))"

definition savePropSyncMetadata :: "source_prop \<Rightarrow> source_prop \<Rightarrow> (go_error + source_prop) io" where
  "savePropSyncMetadata source synced =
     bind (ask_prop_row (FindProp (itoa (pr_id source)))) (\<lambda>x. case x of
       Inl e \<Rightarrow> Ret (Inl e)
     | Inr current \<Rightarrow>
         if \<not> SameRepositoryURL (pr_repository_url current) (pr_repository_url source) then Ret (Inr current)
         else ask_prop_row (SaveProp (current\<lparr>pr_default_branch := pr_default_branch synced, pr_provider := pr_provider synced,
                pr_private := pr_private synced, pr_status := pr_status synced, pr_branches := pr_branches synced,
                pr_branch_records := pr_branch_records synced, pr_last_synced_at := pr_last_synced_at synced\<rparr>)))"

subsection \<open>Handlers (http\_props.go, http\_branches.go)\<close>

definition loadProp :: "server \<Rightarrow> string \<Rightarrow> source_prop step" where
  "loadProp S identifier =
     bind (ask_prop_row (FindProp identifier)) (\<lambda>x. case x of
       Inl e \<Rightarrow> stop_with (writeStoreErr (sr_api S) ''prop'' e)
     | Inr p \<Rightarrow> Ret (Inr p))"

definition propsList :: "prop_handler \<Rightarrow> time_reader \<Rightarrow> query \<Rightarrow> reply io" where
  "propsList H T q = WriteFiltered (sr_api (ph_server H)) q (ask_prop_rows ListProps) (filterProps T) BodyProp"

definition propsGet :: "prop_handler \<Rightarrow> string \<Rightarrow> reply io" where
  "propsGet H identifier =
     answered (and_then (loadProp (ph_server H) identifier) (\<lambda>p. Ret (Inr (JSON (sr_api (ph_server H)) 200 (BodyProp p)))))"

definition decode_prop_body :: "server \<Rightarrow> request_body \<Rightarrow> reply + propPayload" where
  "decode_prop_body S b =
     decode_required S b (decode_wrapped ''prop'' (decode_prop_payload (sr_json S)) zero_prop_payload) zero_prop_payload"

definition writeRuntimeWritableErr :: "api_env \<Rightarrow> fault \<Rightarrow> reply" where
  "writeRuntimeWritableErr E err =
     (case err of
        ValidationError status code message details \<Rightarrow> Error E status code message details
      | _ \<Rightarrow> Error E 500 ''INTERNAL_ERROR'' (fault_text err) None)"

definition writePropSaveErr :: "api_env \<Rightarrow> fault \<Rightarrow> reply" where
  "writePropSaveErr E err =
     (case err of
        ValidationError status code message details \<Rightarrow> Error E status code message details
      | BadRequestError message \<Rightarrow> BadRequest E message
      | Cause e \<Rightarrow> writeStoreErr E ''prop'' e
      | ConflictError message \<Rightarrow> Error E 500 ''INTERNAL_ERROR'' message None)"

definition propsCreate :: "prop_handler \<Rightarrow> request_body \<Rightarrow> reply io" where
  "propsCreate H b =
     (let S = ph_server H
      in case decode_prop_body S b of
           Inl r \<Rightarrow> Ret r
         | Inr p \<Rightarrow>
             (case validatePropPayload p of
                Some e \<Rightarrow> Ret (ValidationOrBadRequest (sr_api S) e)
              | None \<Rightarrow>
                  if pp_repository_url p = [] then Ret (BadRequest (sr_api S) ''repository_url is required'')
                  else bind (requireRuntimeWritable H [pp_repository_url p]) (\<lambda>w. case w of
                    Inl e \<Rightarrow> Ret (writeRuntimeWritableErr (sr_api S) e)
                  | Inr _ \<Rightarrow>
                      bind (ask_prop_row (CreateProp (prop_from_payload p))) (\<lambda>x. Ret (case x of
                        Inl e \<Rightarrow> ServerError (sr_api S) e
                      | Inr created \<Rightarrow> JSON (sr_api S) 201 (BodyProp created))))))"

definition resetPropRepositoryMetadata :: "propPayload \<Rightarrow> source_prop \<Rightarrow> source_prop" where
  "resetPropRepositoryMetadata p row =
     (let branch = (if Has (pp_fields p) ''default_branch'' then pr_default_branch row else ''main'')
      in row\<lparr>pr_default_branch := branch,
           pr_provider := (if Has (pp_fields p) ''provider'' then pr_provider row else propProviderForRepository (pr_repository_url row)),
           pr_private := (if Has (pp_fields p) ''private'' then pr_private row else False),
           pr_branches := [branch], pr_branch_records := [], pr_last_synced_at := None\<rparr>)"

definition save_changed_prop :: "propPayload \<Rightarrow> bool \<Rightarrow> source_prop \<Rightarrow> source_prop check" where
  "save_changed_prop p repositoryChanged current =
     (let applied = apply_prop_payload p current;
          row = (if repositoryChanged then resetPropRepositoryMetadata p applied else applied)
      in and_go (pass_when (validatePropProviderMatchesRepository (pr_provider row) (pr_repository_url row))) (\<lambda>_.
           caused (ask_prop_row (SaveProp row))))"

definition repository_changed :: "propPayload \<Rightarrow> source_prop \<Rightarrow> bool" where
  "repository_changed p current =
     (let repositoryURL = trim_space (pp_repository_url p)
      in repositoryURL \<noteq> [] \<and> \<not> SameRepositoryURL repositoryURL (pr_repository_url current))"

definition savePropUpdate :: "prop_handler \<Rightarrow> int \<Rightarrow> propPayload \<Rightarrow> source_prop check" where
  "savePropUpdate H propID p =
     and_go (caused (ask_prop_row (FindProp (itoa propID)))) (\<lambda>current.
       if repository_changed p current
       then and_go (requireRuntimeWritable H [trim_space (pp_repository_url p)]) (\<lambda>_. save_changed_prop p True current)
       else save_changed_prop p False current)"

definition propsUpdate :: "prop_handler \<Rightarrow> string \<Rightarrow> request_body \<Rightarrow> reply io" where
  "propsUpdate H identifier b =
     (let S = ph_server H
      in answered (and_then (loadProp S identifier) (\<lambda>row.
           case decode_prop_body S b of
             Inl r \<Rightarrow> stop_with r
           | Inr p \<Rightarrow>
               (case validatePropUpdatePayload p of
                  Some e \<Rightarrow> stop_with (ValidationOrBadRequest (sr_api S) e)
                | None \<Rightarrow>
                    bind (savePropUpdate H (pr_id row) p) (\<lambda>x. Ret (Inr (case x of
                      Inl e \<Rightarrow> writePropSaveErr (sr_api S) e
                    | Inr updated \<Rightarrow> JSON (sr_api S) 200 (BodyProp updated))))))))"

definition propsDelete :: "prop_handler \<Rightarrow> string \<Rightarrow> reply io" where
  "propsDelete H identifier =
     (let S = ph_server H
      in answered (and_then (loadProp S identifier) (\<lambda>p.
           bind (ask_names (PlayspecsReferencingProp p)) (\<lambda>x. case x of
             Inl e \<Rightarrow> stop_with (ServerError (sr_api S) e)
           | Inr names \<Rightarrow>
               if names \<noteq> []
               then stop_with (Error (sr_api S) 409 ''RESOURCE_IN_USE'' ''cannot delete prop while playspecs reference it''
                      (Some [(''playspecs'', AStrs names)]))
               else bind (ask_done (RemoveProp identifier)) (\<lambda>err. case err of
                      Some e \<Rightarrow> stop_with (writeStoreErr (sr_api S) ''prop'' e)
                    | None \<Rightarrow> Ret (Inr NoContent))))))"

definition propsBranches :: "prop_handler \<Rightarrow> string \<Rightarrow> query \<Rightarrow> reply io" where
  "propsBranches H identifier q =
     (let S = ph_server H
      in answered (and_then (loadProp S identifier) (\<lambda>p.
           case branchQueryLimit q of
             Inl e \<Rightarrow> stop_with (BadRequest (sr_api S) e)
           | Inr limit \<Rightarrow> Ret (Inr (JSON (sr_api S) 200 (BodyBranches (propBranchesForResponse p (branchQuery q) limit)))))))"

definition propsSync :: "prop_handler \<Rightarrow> string \<Rightarrow> reply io" where
  "propsSync H identifier =
     (let S = ph_server H
      in answered (and_then (loadProp S identifier) (\<lambda>p.
           if \<not> isGitHubURL (pr_repository_url p) then Ret (Inr (JSON (sr_api S) 200 (BodyProp p)))
           else bind (syncGitHubPropMetadata H p) (\<lambda>x. case x of
             Inl e \<Rightarrow> stop_with (Error (sr_api S) 422 ''PROP_SYNC_FAILED'' (error_text e) None)
           | Inr synced \<Rightarrow>
               bind (savePropSyncMetadata p synced) (\<lambda>y. Ret (Inr (case y of
                 Inl e \<Rightarrow> ServerError (sr_api S) e
               | Inr updated \<Rightarrow> JSON (sr_api S) 200 (BodyProp updated))))))))"

subsection \<open>What is written\<close>

text \<open>The server has asked GitHub for the repository and was told that its token may push.\<close>

definition pushable :: "history \<Rightarrow> string \<Rightarrow> bool" where
  "pushable h url =
     (\<forall>fullName. RepositoryFullName url = Some fullName \<longrightarrow>
        (\<exists>owner repo r. splitFullName fullName = Some (owner, repo) \<and>
           (GitHubRepository (owner @ ''/'' @ repo), Repository (Inr r)) \<in> set h \<and> githubRepoPushWritable (gh_permissions r)))"

definition clonable :: "string \<Rightarrow> bool" where
  "clonable url = (CloneableRepositoryURL url \<and> \<not> RepositoryURLHasCredentials url)"

definition prop_guard :: "history \<Rightarrow> request \<Rightarrow> bool" where
  "prop_guard h q =
     (case q of
        CreateProp p \<Rightarrow> \<exists>url. pr_repository_url p = trim_space url \<and> clonable url \<and> pushable h url
      | SaveProp row \<Rightarrow> \<exists>i current. (FindProp i, PropRecord (Inr current)) \<in> set h \<and> pr_id row = pr_id current \<and>
          (pr_repository_url row = pr_repository_url current \<or>
           (\<exists>url. pr_repository_url row = trim_space url \<and> clonable url \<and>
              (SameRepositoryURL (trim_space url) (pr_repository_url current) \<or> pushable h (trim_space url))))
      | RemoveProp t \<Rightarrow> \<exists>p. h = [(FindProp t, PropRecord (Inr p)), (PlayspecsReferencingProp p, Names (Inr []))]
      | ListProps \<Rightarrow> True | FindProp _ \<Rightarrow> True | PlayspecsReferencingProp _ \<Rightarrow> True | GitHubRepository _ \<Rightarrow> True
      | GitHubBranches _ \<Rightarrow> True | TimeNow \<Rightarrow> True
      | _ \<Rightarrow> False)"

lemma prop_guard_reads [simp]:
  "prop_guard h ListProps" "prop_guard h (FindProp t)" "prop_guard h (PlayspecsReferencingProp p)"
  "prop_guard h (GitHubRepository n)" "prop_guard h (GitHubBranches n)" "prop_guard h TimeNow"
  by (simp_all add: prop_guard_def)

lemma pushable_mono: "pushable h url \<Longrightarrow> set h \<subseteq> set h' \<Longrightarrow> pushable h' url"
  by (fastforce simp: pushable_def)

lemma writable_wp:
  assumes "\<And>h n. G h (GitHubRepository n)"
  shows "wp G (\<lambda>h' w. set h \<subseteq> set h' \<and> (ra_writable w \<longrightarrow> pushable h' url)) (githubRepoWritable H url token) h"
  using assms
  by (auto simp: githubRepoWritable_def client_repository_def checked_without_def pushable_def split: option.split sum.split)

lemma require_writable_wp:
  assumes "\<And>h n. G h (GitHubRepository n)"
  shows "wp G (\<lambda>h' x. set h \<subseteq> set h' \<and> (x = Inr () \<longrightarrow> (\<forall>url \<in> set urls. pushable h' url))) (require_writable H urls) h"
proof (induction urls arbitrary: h)
  case (Cons url urls)
  show ?case
    unfolding require_writable.simps wp_bind
  proof (rule wp_mono[OF writable_wp[where G = G, OF assms]], goal_cases)
    case (1 h' w)
    show ?case
    proof (cases "ra_checked w \<and> ra_writable w")
      case True
      with 1 have "pushable h' url" "set h \<subseteq> set h'" by auto
      with True show ?thesis by (auto intro!: wp_mono[OF Cons.IH] intro: pushable_mono)
    qed (use 1 in auto)
  qed
qed simp

lemma runtime_repos:
  "runtimeGitHubRepos repos = Inr rs \<Longrightarrow> url \<in> set repos \<Longrightarrow> trim_space url \<noteq> [] \<Longrightarrow> isGitHubURL url \<Longrightarrow> url \<in> set rs"
  by (induction repos arbitrary: rs) (auto split: if_splits option.splits sum.splits)

lemma trim_blank_not_github: "trim_space url = [] \<Longrightarrow> RepositoryFullName url = None"
  by (simp add: RepositoryFullName_def)

text \<open>What \<open>RequireRuntimeWritable\<close> guarantees when it passes.\<close>

lemma requireRuntimeWritable_wp:
  assumes "\<And>h n. G h (GitHubRepository n)"
  shows "wp G (\<lambda>h' x. set h \<subseteq> set h' \<and> (x = Inr () \<longrightarrow> (\<forall>url \<in> set repos. pushable h' url))) (requireRuntimeWritable H repos) h"
proof (cases "runtimeGitHubRepos repos")
  case (Inr rs)
  have "pushable h' url" if "\<forall>url \<in> set rs. pushable h' url" "url \<in> set repos" for h' url
  proof (cases "trim_space url \<noteq> [] \<and> isGitHubURL url")
    case True
    with runtime_repos[OF Inr that(2)] that(1) show ?thesis by blast
  next
    case False
    then have "RepositoryFullName url = None" using trim_blank_not_github by (auto simp: isGitHubURL_def)
    then show ?thesis by (simp add: pushable_def)
  qed
  with Inr show ?thesis
    unfolding requireRuntimeWritable_def by (auto intro!: wp_mono[OF require_writable_wp[where G = G, OF assms]])
qed (simp add: requireRuntimeWritable_def)

lemma validated_url: "validatePropPayload p = None \<Longrightarrow> pp_repository_url p \<noteq> [] \<Longrightarrow> clonable (pp_repository_url p)"
  by (auto simp: validatePropPayload_def validatePropScalarFields_def validateRuntimeRepositoryURL_def
      validateRepositoryURLNoCredentials_def first_fault_None clonable_def)

lemma apply_optional_keeps [simp]:
  "pr_repository_url (apply_optional p row) = pr_repository_url row" "pr_id (apply_optional p row) = pr_id row"
  by (simp_all add: apply_optional_def override_with_def split: option.split)

lemma reset_keeps [simp]:
  "pr_repository_url (resetPropRepositoryMetadata p row) = pr_repository_url row"
  "pr_id (resetPropRepositoryMetadata p row) = pr_id row"
  by (simp_all add: resetPropRepositoryMetadata_def Let_def)

lemma create_prop_guarded: "wp prop_guard (\<lambda>_ _. True) (propsCreate H b) []"
proof (cases "decode_prop_body (ph_server H) b")
  case (Inr p)
  show ?thesis
  proof (cases "validatePropPayload p = None \<and> pp_repository_url p \<noteq> []")
    case True
    then have "clonable (pp_repository_url p)" using validated_url by blast
    moreover have "pr_repository_url (prop_from_payload p) = trim_space (pp_repository_url p)"
      by (simp add: prop_from_payload_def)
    ultimately have create: "prop_guard h (CreateProp (prop_from_payload p))" if "pushable h (pp_repository_url p)" for h
      using that by (auto simp: prop_guard_def)
    have "wp prop_guard (\<lambda>h x. x = Inr () \<longrightarrow> pushable h (pp_repository_url p)) (requireRuntimeWritable H [pp_repository_url p]) []"
      by (rule wp_mono[OF requireRuntimeWritable_wp]) auto
    with True Inr show ?thesis
      unfolding propsCreate_def Let_def
      by (auto simp: create split: sum.split elim!: wp_mono)
  qed (use Inr in \<open>auto simp: propsCreate_def Let_def split: option.split\<close>)
qed (simp add: propsCreate_def Let_def)

lemma save_changed_wp:
  assumes "(FindProp i, PropRecord (Inr current)) \<in> set h"
    and "pp_repository_url p \<noteq> [] \<Longrightarrow> clonable (pp_repository_url p) \<and>
      (SameRepositoryURL (trim_space (pp_repository_url p)) (pr_repository_url current) \<or> pushable h (trim_space (pp_repository_url p)))"
  shows "wp prop_guard (\<lambda>_ _. True) (save_changed_prop p changed current) h"
proof -
  let ?row = "if changed then resetPropRepositoryMetadata p (apply_prop_payload p current) else apply_prop_payload p current"
  have "pr_id ?row = pr_id current"
    "pr_repository_url ?row = (if pp_repository_url p \<noteq> [] then trim_space (pp_repository_url p) else pr_repository_url current)"
    by (simp_all add: apply_prop_payload_def)
  then have "prop_guard h (SaveProp ?row)"
    unfolding prop_guard_def request.case
    by (intro exI[of _ i] exI[of _ current]) (use assms in auto)
  then show ?thesis by (auto simp: save_changed_prop_def Let_def split: option.split sum.split)
qed

lemma update_prop_guarded: "guarded prop_guard (savePropUpdate H i p)"
  if "pp_repository_url p \<noteq> [] \<Longrightarrow> clonable (pp_repository_url p)"
  unfolding guarded_def savePropUpdate_def
proof (intro allI, simp, intro allI, goal_cases)
  case (1 h x)
  show ?case
  proof (cases x)
    case (Inr current)
    let ?url = "trim_space (pp_repository_url p)" and ?h = "h @ [(FindProp (itoa i), PropRecord (Inr current))]"
    show ?thesis
    proof (cases "repository_changed p current")
      case True
      have "wp prop_guard (\<lambda>h' x. set ?h \<subseteq> set h' \<and> (x = Inr () \<longrightarrow> pushable h' ?url)) (requireRuntimeWritable H [?url]) ?h"
        by (rule wp_mono[OF requireRuntimeWritable_wp]) auto
      then have "wp prop_guard (\<lambda>_ _. True)
          (and_go (requireRuntimeWritable H [?url]) (\<lambda>_. save_changed_prop p True current)) ?h"
        unfolding wp_and_go
        by (rule wp_mono) (auto split: sum.split intro!: save_changed_wp[of "itoa i"] that)
      with True Inr show ?thesis by (simp del: append_assoc)
    next
      case False
      have "clonable (pp_repository_url p) \<and> (SameRepositoryURL ?url (pr_repository_url current) \<or> pushable ?h ?url)"
        if "pp_repository_url p \<noteq> []"
      proof (cases "?url = []")
        case True
        have "RepositoryFullName ?url = None" using True trim_blank_not_github[of "[]"] by simp
        then show ?thesis using \<open>pp_repository_url p \<noteq> [] \<Longrightarrow> clonable _\<close> that by (simp add: pushable_def)
      next
        case nonblank: False
        with False have "SameRepositoryURL ?url (pr_repository_url current)"
          by (simp add: repository_changed_def Let_def)
        then show ?thesis using \<open>pp_repository_url p \<noteq> [] \<Longrightarrow> clonable _\<close> that by simp
      qed
      with False Inr show ?thesis by (auto intro!: save_changed_wp[of "itoa i"])
    qed
  qed simp
qed

lemma guarded_loadProp [guarded_rules]: "guarded prop_guard (loadProp S t)"
  unfolding loadProp_def by (intro guarded_rules) (simp_all add: guarded_asks guarded_rules)

lemma updates_guarded: "guarded prop_guard (propsUpdate H t b)"
proof -
  have "validatePropUpdatePayload p = None \<Longrightarrow> pp_repository_url p \<noteq> [] \<Longrightarrow> clonable (pp_repository_url p)" for p
    using validated_url by (simp add: validatePropUpdatePayload_def first_fault_None)
  then show ?thesis
    unfolding propsUpdate_def by (intro guarded_rules update_prop_guarded) simp_all
qed

lemma delete_prop_guarded: "wp prop_guard (\<lambda>_ _. True) (propsDelete H t) []"
  unfolding propsDelete_def loadProp_def
  by (auto simp: answered_def prop_guard_def Let_def split: sum.split option.split)


definition demo_props :: prop_handler where
  "demo_props = \<lparr>ph_server = demo_server, ph_base_url = [], ph_base_error = (\<lambda>_. None), ph_token = ''t''\<rparr>"

definition demo_prop_body :: request_body where
  "demo_prop_body = JsonBody (JObj [(''prop'', JObj [(''repository_url'', JStr ''https://github.com/acme/app'')])])"

definition demo_prop_run :: history where
  "demo_prop_run = fst (replay (propsCreate demo_props demo_prop_body)
     [Repository (Inr \<lparr>gh_default_branch = ''main'', gh_private = True, gh_permissions = [(''push'', True)]\<rparr>),
      PropRecord (Inl ErrNotFound)])"


subsection \<open>What a sync writes\<close>

text \<open>A listing of branches: their names, each once, the default branch first and the others in order, every record
marked and dated.\<close>

definition well_listed :: "string \<Rightarrow> string list \<Rightarrow> prop_branch list \<Rightarrow> bool" where
  "well_listed d names records =
     (names = map pb_name records \<and> distinct names \<and>
      (if d = [] then sorted names else names \<noteq> [] \<and> hd names = d \<and> sorted (tl names)) \<and>
      (\<forall>b \<in> set records. pb_default b = (pb_name b = d) \<and> pb_last_synced_at b \<noteq> None))"

lemma wf_branchRecordMap: "wf_map (branchRecordMap d records)"
proof -
  have "wf_map (fold (\<lambda>record m. let name = trim_space (pb_name record)
      in if name \<noteq> [] then put_key name (record\<lparr>pb_name := name\<rparr>) m else m) records m)" if "wf_map m" for m
    using that by (induction records arbitrary: m) (simp_all add: Let_def)
  then show ?thesis by (simp add: branchRecordMap_def Let_def)
qed

lemma front_distinct: "distinct names \<Longrightarrow> distinct (moveNameToFront names t)"
  by (simp add: moveNameToFront_def)

lemma front_order:
  assumes "sorted names" and "t \<noteq> [] \<longrightarrow> t \<in> set names"
  shows "if t = [] then sorted (moveNameToFront names t)
    else moveNameToFront names t \<noteq> [] \<and> hd (moveNameToFront names t) = t \<and> sorted (tl (moveNameToFront names t))"
  using assms by (simp add: moveNameToFront_def sorted_remove1)

lemma normalized_well_listed:
  "well_listed (trim_space d) (fst (normalizeBranchRecords d records now)) (snd (normalizeBranchRecords d records now))"
proof -
  let ?d = "trim_space d" let ?m = "branchRecordMap ?d records"
  have keys: "distinct (sorted_keys ?m)" "sorted (sorted_keys ?m)"
    using wf_branchRecordMap[of ?d records] by (simp_all add: sorted_keys_def wf_map_def)
  have "?d \<noteq> [] \<longrightarrow> ?d \<in> set (sorted_keys ?m)"
    by (auto simp: set_sorted_keys branchRecordMap_def Let_def dom_update image_iff)
  from front_order[OF keys(2) this] front_distinct[OF keys(1), of ?d] show ?thesis
    by (auto simp: well_listed_def normalizeBranchRecords_def Let_def sortedBranchRecordNames_def normalizedBranchRecord_def
        o_def split: option.split)
qed

text \<open>What a sync of \<open>source\<close> may save: metadata of its repository on a row that still has it.\<close>

definition synced_from :: "history \<Rightarrow> source_prop \<Rightarrow> bool" where
  "synced_from h row =
     (\<exists>h0 (source :: source_prop) (current :: source_prop). h = h0 @ [(FindProp (itoa (pr_id source)), PropRecord (Inr current))] \<and>
        SameRepositoryURL (pr_repository_url current) (pr_repository_url source) \<and>
        pr_name row = pr_name current \<and> pr_id row = pr_id current \<and> pr_repository_url row = pr_repository_url current \<and>
        (\<exists>r n. (GitHubRepository n, Repository (Inr r)) \<in> set h0 \<and> pr_private row = gh_private r) \<and>
        well_listed (trim_space (pr_default_branch row)) (pr_branches row) (pr_branch_records row))"

definition sync_guard :: "history \<Rightarrow> request \<Rightarrow> bool" where
  "sync_guard h q =
     (case q of
        SaveProp row \<Rightarrow> synced_from h row
      | FindProp _ \<Rightarrow> True | GitHubRepository _ \<Rightarrow> True | GitHubBranches _ \<Rightarrow> True | TimeNow \<Rightarrow> True
      | _ \<Rightarrow> False)"

lemma metadata_wp:
  "wp sync_guard (\<lambda>h x. \<forall>synced. x = Inr synced \<longrightarrow>
      (\<exists>r n. (GitHubRepository n, Repository (Inr r)) \<in> set h \<and> pr_private synced = gh_private r) \<and>
      well_listed (trim_space (pr_default_branch synced)) (pr_branches synced) (pr_branch_records synced))
    (syncGitHubPropMetadata H p) h"
proof -
  have "well_listed (trim_space d) names records" if "normalizeBranchRecords d bs now = (names, records)" for d bs now names records
    using normalized_well_listed[of d bs now] that by simp
  then show ?thesis
    by (auto simp: syncGitHubPropMetadata_def client_repository_def client_branches_def sync_guard_def Let_def
        applyGitHubRepositoryMetadata_def split: option.split sum.split prod.split)
qed

lemma sync_guarded: "wp sync_guard (\<lambda>_ _. True) (propsSync H t) []"
proof -
  have save: "wp sync_guard (\<lambda>_ _. True) (savePropSyncMetadata source synced) h"
    if "\<exists>r n. (GitHubRepository n, Repository (Inr r)) \<in> set h \<and> pr_private synced = gh_private r"
      "well_listed (trim_space (pr_default_branch synced)) (pr_branches synced) (pr_branch_records synced)" for h source synced
    using that by (auto simp: savePropSyncMetadata_def sync_guard_def synced_from_def split: sum.split)
  have "wp sync_guard (\<lambda>h x. \<forall>synced. x = Inr synced \<longrightarrow>
      wp sync_guard (\<lambda>_ _. True) (savePropSyncMetadata source synced) h) (syncGitHubPropMetadata H source) h" for source h
    by (rule wp_mono[OF metadata_wp]) (auto intro!: save)
  then show ?thesis
    unfolding propsSync_def loadProp_def Let_def
    by (auto simp: answered_def split: sum.split) (simp_all add: sync_guard_def)
qed

text \<open>A sync writes what it fetched for the repository the row still has: the row is read again after GitHub was asked, it is saved only when its repository is still the one that was synced, with its own name and spelling of the repository; its branches are listed once each, the default branch first and the others in order, and each record is marked and dated.\<close>

theorem sync_writes_current_repository:
  assumes "trace (propsSync H t) (es1 @ (SaveProp row, r) # es2)"
  shows "synced_from es1 row"
  using wp_trace[OF sync_guarded assms refl] by (simp add: sync_guard_def)

definition demo_prop :: source_prop where
  "demo_prop = zero_prop\<lparr>pr_id := 3, pr_name := ''app'', pr_repository_url := ''https://github.com/acme/app''\<rparr>"

definition demo_sync :: history where
  "demo_sync = fst (replay (propsSync demo_props ''app'')
     [PropRecord (Inr demo_prop), Clock 9,
      Repository (Inr \<lparr>gh_default_branch = ''main'', gh_private = True, gh_permissions = []\<rparr>),
      Branches (Inr [\<lparr>gb_name = ''dev'', gb_sha = ''1''\<rparr>, \<lparr>gb_name = ''main'', gb_sha = ''2''\<rparr>]),
      PropRecord (Inr (demo_prop\<lparr>pr_name := ''renamed''\<rparr>)), PropRecord (Inr demo_prop)])"

theorem sync_writes_current_repository_witness:
  "\<exists>row. synced_from (take 5 demo_sync) row \<and> pr_name row = ''renamed'' \<and> pr_branches row = [''main'', ''dev'']"
proof -
  have "case demo_sync ! 5 of (SaveProp row, _) \<Rightarrow> pr_name row = ''renamed'' \<and> pr_branches row = [''main'', ''dev''] | _ \<Rightarrow> False"
    by code_simp
  then obtain row r where row: "demo_sync ! 5 = (SaveProp row, r)" "pr_name row = ''renamed''" "pr_branches row = [''main'', ''dev'']"
    by (auto split: prod.splits request.splits)
  have "5 < length demo_sync" by code_simp
  from id_take_nth_drop[OF this]
  have run: "demo_sync = take 5 demo_sync @ (SaveProp row, r) # drop (Suc 5) demo_sync" by (simp only: row(1))
  have "trace (propsSync demo_props ''app'') demo_sync"
    unfolding demo_sync_def by (rule replay_trace[OF prod.collapse[symmetric]])
  then have "trace (propsSync demo_props ''app'') (take 5 demo_sync @ (SaveProp row, r) # drop (Suc 5) demo_sync)"
    by (subst run[symmetric])
  from sync_writes_current_repository[OF this] row(2,3) show ?thesis by blast
qed

end
