(* ===== verification/Launches.thy ===== *)
theory Launches
  imports PlaygroundCreate Playspecs Props TemplateRender
begin

text \<open>
  Launches: \<open>internal/launch\<close> (\<open>handler.go\<close>, \<open>http.go\<close>, \<open>helpers.go\<close>, \<open>overrides.go\<close>, \<open>payload.go\<close>, \<open>repositories.go\<close>,
  \<open>validation.go\<close>). A launch renders a Compose document with its variables and overrides, stores it as a playspec, its
  repository as a prop, and creates a playground from them; when a step fails, what the launch has created is removed.
  Random bytes of the template and whether the peer of the request is a loopback address are parameters.

  Shown: nothing is created before every GitHub repository of the document was found writable, and a failed launch
  leaves nothing behind that it created.
\<close>

record 'r launcher =
  lh_props :: prop_handler
  lh_random :: "'r random_source"
  lh_entropy :: 'r

subsection \<open>The payload (payload.go, helpers.go)\<close>

record launchPayload =
  lp_compose_yaml :: string
  lp_name :: string
  lp_repository_url :: string
  lp_marquee_id :: "int option"
  lp_create_playground :: "bool option"
  lp_persist_volumes :: "bool option"
  lp_env_overrides :: "string smap option"
  lp_variables :: "string smap option"
  lp_service_subdomains :: "string smap option"
  lp_services :: "doc option"
  lp_marquee_identifier :: string
  lp_blank_marquee_id :: bool
  lp_null_subdomains :: bool
  lp_blank_subdomains :: bool
  lp_ambiguous_subdomains :: bool
  lp_invalid_env :: string
  lp_invalid_variables :: string
  lp_fields :: "string list"

definition hasBlankServiceSubdomains :: "string smap \<Rightarrow> bool" where
  "hasBlankServiceSubdomains values = list_ex (\<lambda>(service, subdomain). trim_space service = [] \<or> trim_space subdomain = []) values"

definition hasTrimmedStringMapKeyCollision :: "string smap \<Rightarrow> bool" where
  "hasTrimmedStringMapKeyCollision values =
     (\<not> distinct (filter (\<lambda>key. key \<noteq> []) (map (\<lambda>(key, _). trim_space key) values)))"

definition normalizedServiceSubdomains :: "string smap \<Rightarrow> string smap option" where
  "normalizedServiceSubdomains values =
     (let out = fold (\<lambda>(service, subdomain) m.
            if trim_space service = [] \<or> trim_space subdomain = [] then m
            else put_key (trim_space service) (trim_space subdomain) m) values []
      in if out = [] then None else Some out)"

definition launch_reference :: "json option \<Rightarrow> string \<Rightarrow> json_error + int option \<times> string" where
  "launch_reference raw field =
     (let bad = Inl (JsonText (field @ '' must be a positive id or name''))
      in case raw of
           None \<Rightarrow> Inr (None, [])
         | Some JNull \<Rightarrow> Inr (None, [])
         | Some (JNum n) \<Rightarrow> (case parse_int64 n of Inl _ \<Rightarrow> bad | Inr i \<Rightarrow> if i \<le> 0 then bad else Inr (Some i, []))
         | Some (JStr t) \<Rightarrow> Inr (None, trim_space t)
         | Some _ \<Rightarrow> bad)"

text \<open>A map of scalars that is given: its entries, or the text that says which is none.\<close>

definition scalar_field :: "json_lib \<Rightarrow> string list \<Rightarrow> (string \<times> json) list \<Rightarrow> string \<Rightarrow> string smap option \<times> string" where
  "scalar_field L fs kvs field =
     (if \<not> Has fs field then (None, [])
      else case DecodeJSONStringScalarMap L (raw_field field kvs) field of Inl e \<Rightarrow> (None, e) | Inr m \<Rightarrow> (Some m, []))"

definition decode_launch_payload :: "json_lib \<Rightarrow> json \<Rightarrow> json_error + launchPayload" where
  "decode_launch_payload L v =
     (case DecodeJSONFields v of
        Inl e \<Rightarrow> Inl e
      | Inr fs \<Rightarrow>
          (let kvs = (case v of JObj kvs \<Rightarrow> kvs | _ \<Rightarrow> []);
               env = scalar_field L fs kvs ''env_overrides''; variables = scalar_field L fs kvs ''variables'';
               marqueeRaw = raw_field ''marquee_id'' kvs
           in case decode_into into_string [] (json_field ''compose_yaml'' kvs) of Inl e \<Rightarrow> Inl e | Inr yaml \<Rightarrow>
             (case decode_into into_string [] (json_field ''name'' kvs) of Inl e \<Rightarrow> Inl e | Inr name \<Rightarrow>
             (case decode_into into_string [] (json_field ''repository_url'' kvs) of Inl e \<Rightarrow> Inl e | Inr url \<Rightarrow>
             (case decode_into into_bool_ptr None (json_field ''create_playground'' kvs) of Inl e \<Rightarrow> Inl e | Inr create \<Rightarrow>
             (case decode_into into_bool_ptr None (json_field ''persist_volumes'' kvs) of Inl e \<Rightarrow> Inl e | Inr persist \<Rightarrow>
             (case decode_into into_string_map None (json_field ''service_subdomains'' kvs) of Inl e \<Rightarrow> Inl e | Inr subdomains \<Rightarrow>
             (case decode_into (into_doc L) None (json_field ''services'' kvs) of Inl e \<Rightarrow> Inl e | Inr services \<Rightarrow>
             (case launch_reference marqueeRaw ''marquee_id'' of Inl e \<Rightarrow> Inl e | Inr (mqid, mqname) \<Rightarrow>
               (let given = (case subdomains of None \<Rightarrow> [] | Some m \<Rightarrow> m)
                in Inr \<lparr>lp_compose_yaml = yaml, lp_name = name, lp_repository_url = url, lp_marquee_id = mqid,
                    lp_create_playground = create, lp_persist_volumes = persist, lp_env_overrides = fst env,
                    lp_variables = fst variables, lp_service_subdomains = normalizedServiceSubdomains given,
                    lp_services = services, lp_marquee_identifier = mqname,
                    lp_blank_marquee_id = blankJSONReference marqueeRaw,
                    lp_null_subdomains = (Has fs ''service_subdomains'' \<and> subdomains = None),
                    lp_blank_subdomains = hasBlankServiceSubdomains given,
                    lp_ambiguous_subdomains = hasTrimmedStringMapKeyCollision given,
                    lp_invalid_env = snd env, lp_invalid_variables = snd variables, lp_fields = fs\<rparr>))))))))))"

definition zero_launch :: launchPayload where
  "zero_launch = \<lparr>lp_compose_yaml = [], lp_name = [], lp_repository_url = [], lp_marquee_id = None,
     lp_create_playground = None, lp_persist_volumes = None, lp_env_overrides = None, lp_variables = None,
     lp_service_subdomains = None, lp_services = None, lp_marquee_identifier = [], lp_blank_marquee_id = False,
     lp_null_subdomains = False, lp_blank_subdomains = False, lp_ambiguous_subdomains = False, lp_invalid_env = [],
     lp_invalid_variables = [], lp_fields = []\<rparr>"

text \<open>The last part of the path of a repository.\<close>

definition nameFromRepo :: "string \<Rightarrow> string" where
  "nameFromRepo repo0 =
     (let repo = trim_suffix (trim_right_set ''/'' (trim_space repo0)) ''.git''
      in last (split_char (CHR ''/'') (trim_set ''/'' repo)))"

subsection \<open>Checks (validation.go)\<close>

definition validateLaunchComposeYAMLField :: "launchPayload \<Rightarrow> fault option" where
  "validateLaunchComposeYAMLField b =
     bad_when (trim_space (lp_compose_yaml b) = [])
       (if Has (lp_fields b) ''compose_yaml'' then ''compose_yaml must not be blank'' else ''compose_yaml is required'')"

definition validateLaunchNameField :: "launchPayload \<Rightarrow> fault option" where
  "validateLaunchNameField b =
     first_fault
       [bad_when (presentBlankString (lp_fields b) ''name'' (lp_name b)) ''name must not be blank'',
        bad_when (trim_space (lp_name b) = [] \<and> trim_space (lp_repository_url b) = []) ''name is required'']"

definition validateLaunchRepositoryField :: "launchPayload \<Rightarrow> fault option" where
  "validateLaunchRepositoryField b =
     bad_when (presentBlankString (lp_fields b) ''repository_url'' (lp_repository_url b)) ''repository_url must not be blank''"

definition validateLaunchMarqueeField :: "launchPayload \<Rightarrow> fault option" where
  "validateLaunchMarqueeField b = bad_when (lp_blank_marquee_id b) ''marquee_id must not be blank''"

definition validateLaunchIdentityFields :: "launchPayload \<Rightarrow> fault option" where
  "validateLaunchIdentityFields b =
     first_fault [validateLaunchComposeYAMLField b, validateLaunchNameField b, validateLaunchRepositoryField b,
       validateLaunchMarqueeField b]"

definition validateLaunchBooleanFields :: "launchPayload \<Rightarrow> fault option" where
  "validateLaunchBooleanFields b =
     first_fault
       [bad_when (Has (lp_fields b) ''create_playground'' \<and> lp_create_playground b = None) ''create_playground must be true or false'',
        bad_when (Has (lp_fields b) ''persist_volumes'' \<and> lp_persist_volumes b = None) ''persist_volumes must be true or false'']"

definition validateLaunchObjectFields :: "launchPayload \<Rightarrow> fault option" where
  "validateLaunchObjectFields b =
     first_fault
       [bad_when (lp_invalid_env b \<noteq> []) (lp_invalid_env b),
        map_option BadRequestError (ValidateStringMapField (Has (lp_fields b) ''env_overrides'') (lp_env_overrides b) ''env_overrides'' False),
        bad_when (lp_invalid_variables b \<noteq> []) (lp_invalid_variables b),
        map_option BadRequestError (ValidateStringMapField (Has (lp_fields b) ''variables'') (lp_variables b) ''variables'' False),
        map_option BadRequestError (ValidateNonEmptyObjectMapField (Has (lp_fields b) ''services'') (lp_services b) ''services'')]"

definition validateLaunchSubdomainFields :: "launchPayload \<Rightarrow> fault option" where
  "validateLaunchSubdomainFields b =
     first_fault
       [bad_when (lp_null_subdomains b) ''service_subdomains must be an object'',
        bad_when (Has (lp_fields b) ''service_subdomains'' \<and> lp_service_subdomains b = None) ''service_subdomains must not be empty'',
        bad_when (lp_blank_subdomains b) ''service_subdomains keys and values must not be blank'',
        bad_when (lp_ambiguous_subdomains b) ''service_subdomains keys must be unique after trimming'']"

definition validateLaunchPayload :: "launchPayload \<Rightarrow> fault option" where
  "validateLaunchPayload b =
     first_fault [validateLaunchIdentityFields b, validateLaunchBooleanFields b, validateLaunchObjectFields b,
       validateLaunchSubdomainFields b]"

definition launchRuntimeOnlyFields :: "launchPayload \<Rightarrow> string list" where
  "launchRuntimeOnlyFields b =
     sort ((if Has (lp_fields b) ''env_overrides'' then [''field:env_overrides''] else []) @
       concat (map (\<lambda>(serviceName, raw). case raw of
           AMap override \<Rightarrow> if has_key override ''auth_password'' then [''field:services.'' @ serviceName @ ''.auth_password''] else []
         | _ \<Rightarrow> []) (case lp_services b of None \<Rightarrow> [] | Some d \<Rightarrow> d)))"

definition validateLaunchRuntimeFields :: "launchPayload \<Rightarrow> fault option" where
  "validateLaunchRuntimeFields b =
     (if lp_create_playground b \<noteq> Some False \<or> launchRuntimeOnlyFields b = [] then None
      else Some (ValidationError 400 ''BAD_REQUEST'' ''runtime-only launch fields require create_playground=true''
             (Some [(''fields'', AStrs (launchRuntimeOnlyFields b))])))"

definition validateLaunchRequest :: "launchPayload \<Rightarrow> fault option" where
  "validateLaunchRequest b = first_fault [validateLaunchPayload b, validateLaunchRuntimeFields b]"

definition validateLaunchRepository :: "string \<Rightarrow> fault option" where
  "validateLaunchRepository repositoryURL =
     (if repositoryURL = [] then None else validateRuntimeRepositoryURL repositoryURL)"

subsection \<open>Rendering (overrides.go, repositories.go)\<close>

definition LaunchOverrides ::
    "regex_engine \<Rightarrow> yaml_lib \<Rightarrow> 'r launcher \<Rightarrow> string \<Rightarrow> string smap \<Rightarrow> string smap \<Rightarrow> doc \<Rightarrow> string \<Rightarrow> string + string" where
  "LaunchOverrides rx Y L composeYAML variables subdomains overrides rootDomain =
     (case RejectJobModeServiceOverrides overrides of
        Some e \<Rightarrow> Inl e
      | None \<Rightarrow>
     (case MutationMap Y composeYAML of
        Inl e \<Rightarrow> Inl e
      | Inr rendered0 \<Rightarrow>
     (case ApplyVariables rx (lh_random L) rendered0 variables (lh_entropy L) of
        Inl e \<Rightarrow> Inl e
      | Inr rendered1 \<Rightarrow>
     (case ApplyRootDomainToken rendered1 rootDomain of
        Inl e \<Rightarrow> Inl e
      | Inr rendered2 \<Rightarrow>
     (case ValidateServiceOverrideNames rendered2 subdomains overrides of
        Some e \<Rightarrow> Inl e
      | None \<Rightarrow>
     (case ApplyServiceSubdomains rendered2 subdomains of
        Inl e \<Rightarrow> Inl e
      | Inr rendered3 \<Rightarrow>
     (case ApplyServiceOverrides rendered3 overrides of
        Inl e \<Rightarrow> Inl e
      | Inr rendered4 \<Rightarrow> MutationYAML Y rendered4)))))))"

definition github_source :: "string \<Rightarrow> bool" where
  "github_source url = (RepositoryFullName url \<noteq> None \<and> CloneableRepositoryURL url)"

definition GitHubRepositoryURLs :: "regex_engine \<Rightarrow> yaml_lib \<Rightarrow> string \<Rightarrow> string list" where
  "GitHubRepositoryURLs rx Y composeYAML =
     fold (\<lambda>summary out. let url = s_repo_url summary
        in if \<not> github_source url \<or> url \<in> set out then out else out @ [url])
       (val_services (Validate rx Y composeYAML)) []"

subsection \<open>The plan of a launch (http.go)\<close>

record launchPlan =
  ln_name :: string
  ln_compose_yaml :: string
  ln_repository_url :: string
  ln_marquee_id :: "int option"
  ln_create_playground :: bool
  ln_persist_volumes :: "bool option"
  ln_env_overrides :: "string smap option"
  ln_services :: "doc option"

definition newLaunchPlan :: "launchPayload \<Rightarrow> launchPlan" where
  "newLaunchPlan b =
     (let given = trim_space (lp_name b)
      in \<lparr>ln_name = (if given = [] then nameFromRepo (lp_repository_url b) else given),
          ln_compose_yaml = lp_compose_yaml b, ln_repository_url = trim_space (lp_repository_url b),
          ln_marquee_id = lp_marquee_id b, ln_create_playground = (lp_create_playground b \<noteq> Some False),
          ln_persist_volumes = lp_persist_volumes b, ln_env_overrides = lp_env_overrides b, ln_services = lp_services b\<rparr>)"

text \<open>\<open>filepath.Ext\<close>: what follows the last dot of the last part of a path, the dot included.\<close>

definition path_ext :: "string \<Rightarrow> string" where
  "path_ext path =
     (let tail = takeWhile (\<lambda>c. c \<noteq> CHR ''.'' \<and> c \<noteq> CHR ''/'') (rev path);
          rest = drop (length tail) (rev path)
      in case rest of c # _ \<Rightarrow> if c = CHR ''.'' then CHR ''.'' # rev tail else [] | [] \<Rightarrow> [])"

definition looksLikeComposePath :: "string \<Rightarrow> bool" where
  "looksLikeComposePath v =
     (CHR 0x0A \<notin> set v \<and> CHR 0x0D \<notin> set v \<and> to_lower (path_ext v) \<in> {''.yml'', ''.yaml''})"

definition maxLocalComposeFileBytes :: int where "maxLocalComposeFileBytes = 16777216"

definition joined :: "go_error \<Rightarrow> go_error option \<Rightarrow> go_error" where
  "joined e closeErr = ErrJoin (e # (case closeErr of None \<Rightarrow> [] | Some c \<Rightarrow> [c]))"

definition readLocalComposeFile :: "string \<Rightarrow> (go_error + string) io" where
  "readLocalComposeFile path =
     bind (ask_file (OpenFile path)) (\<lambda>x. Ret (case x of
       Inl e \<Rightarrow> Inl e
     | Inr f \<Rightarrow>
         (case hf_regular f of
            Inl statErr \<Rightarrow> Inl (joined statErr (hf_close f))
          | Inr regular \<Rightarrow>
              if \<not> regular then Inl (joined (ErrText ''not a regular file'') (hf_close f))
              else case hf_content f of
                Inl readErr \<Rightarrow> Inl (joined readErr (hf_close f))
              | Inr content \<Rightarrow>
                  (case hf_close f of
                     Some closeErr \<Rightarrow> Inl closeErr
                   | None \<Rightarrow>
                       if int (length content) > maxLocalComposeFileBytes
                       then Inl (ErrText (''file exceeds '' @ itoa maxLocalComposeFileBytes @ '' byte limit''))
                       else Inr content))))"

definition resolveLaunchComposePath :: "bool \<Rightarrow> launchPlan \<Rightarrow> (go_error + launchPlan) io" where
  "resolveLaunchComposePath loopback plan =
     (let v = trim_space (ln_compose_yaml plan)
      in if \<not> looksLikeComposePath v then Ret (Inr plan)
         else if \<not> loopback
         then Ret (Inl (ErrText
           (''compose_yaml local paths are only supported from loopback requests; pass compose YAML content '' @ ''instead'')))
         else bind (readLocalComposeFile v) (\<lambda>x. Ret (case x of
                Inl e \<Rightarrow> Inl (ErrWrap (''read compose_yaml path '' @ go_quote v) e)
              | Inr data \<Rightarrow>
                  if trim_space data = [] then Inl (ErrText (''compose_yaml path '' @ go_quote v @ '' is empty''))
                  else Inr (plan\<lparr>ln_compose_yaml := data\<rparr>))))"

definition launchRootDomain :: "int option \<Rightarrow> (go_error + string) io" where
  "launchRootDomain marqueeID =
     (case marqueeID of
        None \<Rightarrow> Ret (Inr [])
      | Some i \<Rightarrow>
          bind (find_marquee (itoa i)) (\<lambda>x. Ret (case x of
            Inl e \<Rightarrow> Inl e | Inr mq \<Rightarrow> Inr (FirstDomainFromInput (mq_domains_input mq)))))"

text \<open>The id of the Marquee and its root domain.\<close>

definition resolveLaunchRootDomain :: "server \<Rightarrow> launchPayload \<Rightarrow> (int option \<times> string) step" where
  "resolveLaunchRootDomain S b =
     bind (ResolveConfiguredID (lp_marquee_id b) (lp_marquee_identifier b)) (\<lambda>x. case x of
       Inl e \<Rightarrow> stop_with (writeStoreErr (sr_api S) ''marquee'' e)
     | Inr i \<Rightarrow>
         bind (launchRootDomain i) (\<lambda>y. case y of
           Inl e \<Rightarrow> stop_with (if is_not_found e then NotFound (sr_api S) ''marquee'' else ServerError (sr_api S) e)
         | Inr root \<Rightarrow> Ret (Inr (i, root))))"

definition requireLaunchRepositoriesWritable :: "'r launcher \<Rightarrow> launchPlan \<Rightarrow> unit check" where
  "requireLaunchRepositoriesWritable L plan =
     (let S = ph_server (lh_props L); D = sr_deploy S
      in and_go (requireRuntimeWritable (lh_props L) (GitHubRepositoryURLs (de_rx D) (de_yaml D) (ln_compose_yaml plan))) (\<lambda>_.
           if ln_repository_url plan = [] then Ret (Inr ())
           else requireRuntimeWritable (lh_props L) [ln_repository_url plan]))"

definition renderLaunchCompose :: "'r launcher \<Rightarrow> launchPayload \<Rightarrow> launchPlan \<Rightarrow> string \<Rightarrow> string + string" where
  "renderLaunchCompose L b plan rootDomain =
     (let D = sr_deploy (ph_server (lh_props L)); given = (\<lambda>m. case m of None \<Rightarrow> [] | Some x \<Rightarrow> x)
      in LaunchOverrides (de_rx D) (de_yaml D) L (ln_compose_yaml plan) (given (lp_variables b))
           (given (lp_service_subdomains b)) (copyAnyMap (lp_services b)) rootDomain)"

definition prepareLaunchPlan :: "'r launcher \<Rightarrow> bool \<Rightarrow> launchPayload \<Rightarrow> launchPlan step" where
  "prepareLaunchPlan L loopback b =
     (let S = ph_server (lh_props L); E = sr_api S
      in case validateLaunchRequest b of
           Some e \<Rightarrow> stop_with (ValidationOrBadRequest E e)
         | None \<Rightarrow>
             (case validateLaunchRepository (lp_repository_url b) of
                Some e \<Rightarrow> stop_with (BadRequest E (fault_text e))
              | None \<Rightarrow>
                  bind (resolveLaunchComposePath loopback (newLaunchPlan b)) (\<lambda>x. case x of
                    Inl e \<Rightarrow> stop_with (BadRequest E (error_text e))
                  | Inr plan0 \<Rightarrow>
                      and_then (resolveLaunchRootDomain S b) (\<lambda>(marqueeID, rootDomain).
                        let plan1 = plan0\<lparr>ln_marquee_id := marqueeID\<rparr>
                        in case renderLaunchCompose L b plan1 rootDomain of
                             Inl e \<Rightarrow> stop_with (BadRequest E e)
                           | Inr patched \<Rightarrow>
                               (let plan = plan1\<lparr>ln_compose_yaml := patched\<rparr>
                                in bind (requireLaunchRepositoriesWritable L plan) (\<lambda>w. case w of
                                     Inl e \<Rightarrow> stop_with (ValidationOrServerError E e)
                                   | Inr _ \<Rightarrow> Ret (Inr plan)))))))"

subsection \<open>Resources and their removal\<close>

record launchResources =
  lr_playspec :: playspec
  lr_playspec_created :: bool
  lr_prop_ids :: "int list"
  lr_playground_id :: int

definition ignoreNotFound :: "go_error option \<Rightarrow> go_error option" where
  "ignoreNotFound err = (case err of None \<Rightarrow> None | Some e \<Rightarrow> if is_not_found e then None else Some e)"

definition cleanupLaunchPlayspec :: "int option \<Rightarrow> (go_error option) io" where
  "cleanupLaunchPlayspec playspecID =
     (case playspecID of
        None \<Rightarrow> Ret None
      | Some i \<Rightarrow> bind (ask_done (RemovePlayspec (itoa i))) (\<lambda>err. Ret (ignoreNotFound err)))"

primrec cleanupLaunchProps :: "int list \<Rightarrow> (go_error option) io" where
  "cleanupLaunchProps [] = Ret None"
| "cleanupLaunchProps (i # ids) =
     (if i = 0 then cleanupLaunchProps ids
      else bind (ask_done (RemoveProp (itoa i))) (\<lambda>err. case ignoreNotFound err of
             Some e \<Rightarrow> Ret (Some e) | None \<Rightarrow> cleanupLaunchProps ids))"

definition cleanupLaunchResources :: "int option \<Rightarrow> int list \<Rightarrow> (go_error option) io" where
  "cleanupLaunchResources playspecID propIDs =
     bind (cleanupLaunchPlayspec playspecID) (\<lambda>err. case err of
       Some e \<Rightarrow> Ret (Some e) | None \<Rightarrow> cleanupLaunchProps propIDs)"

definition createdPlayspecID :: "launchResources \<Rightarrow> int option" where
  "createdPlayspecID resources = (if \<not> lr_playspec_created resources then None else ps_id (lr_playspec resources))"

definition cleanup_failed :: "go_error \<Rightarrow> go_error" where
  "cleanup_failed e = ErrWrap ''cleanup launch resources'' e"

definition name_details :: "launchPlan \<Rightarrow> doc option" where
  "name_details plan = Some [(''name'', AStr (ln_name plan))]"

definition sameLaunchPlayspec :: "playspec \<Rightarrow> playspec \<Rightarrow> bool" where
  "sameLaunchPlayspec existing requested =
     (trim_space (ps_base_compose_yaml existing) = trim_space (ps_base_compose_yaml requested) \<and>
      ps_persist_volumes existing \<noteq> Some True \<and> ps_persist_volumes requested \<noteq> Some True)"

definition createLaunchPlayspec :: "server \<Rightarrow> launchPlan \<Rightarrow> (playspec \<times> bool) step" where
  "createLaunchPlayspec S plan =
     (let E = sr_api S
      in case NewResource (de_rx (sr_deploy S)) (de_yaml (sr_deploy S)) (ln_name plan) None (ln_compose_yaml plan)
                (ln_persist_volumes plan) None of
           Inl e \<Rightarrow> stop_with (ValidationOrBadRequest E e)
         | Inr playspec \<Rightarrow>
             bind (ask_spec (CreatePlayspec playspec)) (\<lambda>x. case x of
               Inr created \<Rightarrow> Ret (Inr (created, True))
             | Inl err \<Rightarrow>
                 if \<not> IsUniqueConstraint err then stop_with (ServerError E err)
                 else bind (ask_spec (FindPlayspec (ln_name plan))) (\<lambda>y. case y of
                        Inl getErr \<Rightarrow> stop_with (ServerError E (ErrJoin [err, getErr]))
                      | Inr existing \<Rightarrow>
                          if \<not> sameLaunchPlayspec existing playspec
                          then stop_with (Error E 409 ''RESOURCE_IN_USE'' ''launch playspec name already exists for a different compose''
                                 (name_details plan))
                          else Ret (Inr (existing, False)))))"

definition ensureLaunchProp :: "string \<Rightarrow> string \<Rightarrow> (source_prop \<times> bool) check" where
  "ensureLaunchProp name repositoryURL =
     bind (ask_prop_row (CreateProp (zero_prop\<lparr>pr_repository_url := repositoryURL, pr_name := name\<rparr>))) (\<lambda>x. case x of
       Inr prop \<Rightarrow> Ret (Inr (prop, True))
     | Inl err \<Rightarrow>
         if \<not> IsUniqueConstraint err then Ret (Inl (Cause err))
         else bind (ask_prop_row (FindProp name)) (\<lambda>y. Ret (case y of
                Inl getErr \<Rightarrow> Inl (Cause (ErrJoin [err, getErr]))
              | Inr existing \<Rightarrow>
                  if \<not> SameRepositoryURL (pr_repository_url existing) repositoryURL
                  then Inl (ConflictError ''launch prop name already exists for a different repository'')
                  else Inr (existing, False))))"

definition writeLaunchPropCreateErr :: "server \<Rightarrow> launchPlan \<Rightarrow> launchResources \<Rightarrow> fault \<Rightarrow> launchResources step" where
  "writeLaunchPropCreateErr S plan resources err =
     bind (cleanupLaunchResources (createdPlayspecID resources) []) (\<lambda>c. case c of
       Some cleanupErr \<Rightarrow>
         stop_with (ServerError (sr_api S) (ErrJoin
           [(case err of Cause e \<Rightarrow> e | _ \<Rightarrow> ErrText (fault_text err)), cleanup_failed cleanupErr]))
     | None \<Rightarrow>
         stop_with (case err of
             ConflictError message \<Rightarrow> Error (sr_api S) 409 ''RESOURCE_IN_USE'' message (name_details plan)
           | _ \<Rightarrow> Error (sr_api S) 500 ''INTERNAL_ERROR'' (fault_text err) None))"

definition createLaunchPropResource :: "server \<Rightarrow> launchPlan \<Rightarrow> launchResources \<Rightarrow> launchResources step" where
  "createLaunchPropResource S plan resources =
     bind (ensureLaunchProp (ln_name plan) (ln_repository_url plan)) (\<lambda>x. case x of
       Inl err \<Rightarrow> writeLaunchPropCreateErr S plan resources err
     | Inr (prop, created) \<Rightarrow>
         Ret (Inr (if created then resources\<lparr>lr_prop_ids := lr_prop_ids resources @ [pr_id prop]\<rparr> else resources)))"

definition createLaunchResources :: "server \<Rightarrow> launchPlan \<Rightarrow> launchResources step" where
  "createLaunchResources S plan =
     and_then (createLaunchPlayspec S plan) (\<lambda>(playspec, created).
       let resources = \<lparr>lr_playspec = playspec, lr_playspec_created = created, lr_prop_ids = [], lr_playground_id = 0\<rparr>
       in if ln_repository_url plan = [] then Ret (Inr resources) else createLaunchPropResource S plan resources)"

text \<open>The error of a failed creation, joined with the one of the cleanup: its kind stays that of the creation.\<close>

definition with_cleanup_error :: "fault \<Rightarrow> go_error option \<Rightarrow> fault" where
  "with_cleanup_error err cleanupErr =
     (case cleanupErr of
        None \<Rightarrow> err
      | Some c \<Rightarrow> (case err of Cause e \<Rightarrow> Cause (ErrJoin [e, cleanup_failed c]) | _ \<Rightarrow> err))"

text \<open>A creation that fails returns a playground without an id.\<close>

definition createLaunchPlayground :: "server \<Rightarrow> launchPlan \<Rightarrow> launchResources \<Rightarrow> (launchResources \<times> deployment option) step" where
  "createLaunchPlayground S plan resources =
     bind (CreateAndDeployDetached S \<lparr>cp_name = ln_name plan, cp_playspec_id = ps_id (lr_playspec resources),
             cp_marquee_id = ln_marquee_id plan, cp_env_overrides = ln_env_overrides plan, cp_services = ln_services plan\<rparr>) (\<lambda>x. case x of
       Inl err \<Rightarrow>
         bind (cleanupLaunchResources (createdPlayspecID resources) (lr_prop_ids resources)) (\<lambda>c.
           stop_with (writeCreatePlaygroundErr (sr_api S) (with_cleanup_error err c)))
     | Inr (pg, d) \<Rightarrow> Ret (Inr (resources\<lparr>lr_playground_id := pg_id pg\<rparr>, d)))"

definition launch_created :: "launchPlan \<Rightarrow> launchResources \<Rightarrow> int \<Rightarrow> doc" where
  "launch_created plan resources playspecID =
     [(''playspec_id'', AInt KInt64 playspecID),
      (''playground_id'', if lr_playground_id resources = 0 then ANil else AInt KInt64 (lr_playground_id resources)),
      (''props_created'', ASeq (map (AInt KInt64) (lr_prop_ids resources)))] @
     (if ln_repository_url plan = [] then []
      else [(''source'', AMap [(''repository_url'', AStr (ln_repository_url plan))])])"

text \<open>The steps of \<open>Create\<close> up to its success reply.\<close>

definition launch_steps :: "'r launcher \<Rightarrow> bool \<Rightarrow> launchPayload \<Rightarrow> (launchPlan \<times> launchResources \<times> deployment option) step" where
  "launch_steps L loopback b =
     (let S = ph_server (lh_props L)
      in and_then (prepareLaunchPlan L loopback b) (\<lambda>plan.
           and_then (createLaunchResources S plan) (\<lambda>resources.
             if ln_create_playground plan
             then and_then (createLaunchPlayground S plan resources) (\<lambda>(created, d). Ret (Inr (plan, created, d)))
             else Ret (Inr (plan, resources, None)))))"

text \<open>The success reply dereferences the id of the playspec.\<close>

definition launch_create :: "'r launcher \<Rightarrow> bool \<Rightarrow> request_body \<Rightarrow> (reply \<times> deployment option) io" where
  "launch_create L loopback b =
     (let S = ph_server (lh_props L)
      in case decode_required S b (decode_launch_payload (sr_json S)) zero_launch of
           Inl r \<Rightarrow> Ret (r, None)
         | Inr body \<Rightarrow>
             bind (launch_steps L loopback body) (\<lambda>x. case x of
               Inl r \<Rightarrow> Ret (r, None)
             | Inr (plan, resources, d) \<Rightarrow>
                 (case ps_id (lr_playspec resources) of
                    None \<Rightarrow> Stuck
                  | Some i \<Rightarrow> Ret (JSON (sr_api S) 201 (BodyDoc (launch_created plan resources i)), d))))"

subsection \<open>What a launch may ask\<close>

definition specs_made :: "history \<Rightarrow> int set" where
  "specs_made h = {i. \<exists>ps c. (CreatePlayspec ps, SpecRow (Inr c)) \<in> set h \<and> ps_id c = Some i}"

definition props_made :: "history \<Rightarrow> int set" where
  "props_made h = {i. \<exists>p c. (CreateProp p, PropRecord (Inr c)) \<in> set h \<and> pr_id c = i}"

definition playgrounds_made :: "history \<Rightarrow> int set" where
  "playgrounds_made h = {i. \<exists>pg c. (CreatePlayground pg, Row (Inr c)) \<in> set h \<and> pg_id c = i}"

text \<open>A file is opened for a client of the same host only; a playspec is stored when GitHub confirmed the right to push
to every repository of its document, a prop likewise; a playground as \<open>creatable\<close> says; and only what the launch itself
has created is removed.\<close>

definition launch_guard :: "regex_engine \<Rightarrow> yaml_lib \<Rightarrow> bool \<Rightarrow> history \<Rightarrow> request \<Rightarrow> bool" where
  "launch_guard rx Y loopback h q =
     (case q of
        OpenFile path \<Rightarrow> loopback \<and> looksLikeComposePath path
      | CreatePlayspec ps \<Rightarrow> val_valid (Validate rx Y (ps_base_compose_yaml ps)) \<and>
          (\<forall>url \<in> set (GitHubRepositoryURLs rx Y (ps_base_compose_yaml ps)). pushable h url)
      | CreateProp p \<Rightarrow> pushable h (pr_repository_url p)
      | CreatePlayground pg \<Rightarrow> \<exists>h1 h2. h = h1 @ h2 \<and> creatable rx Y h2 pg
      | RemovePlayspec t \<Rightarrow> \<exists>i \<in> specs_made h. t = itoa i
      | RemoveProp t \<Rightarrow> \<exists>i \<in> props_made h. t = itoa i
      | FindMarquee _ \<Rightarrow> True | GetRuntimeMarquee \<Rightarrow> True | GitHubRepository _ \<Rightarrow> True | FindPlayspec _ \<Rightarrow> True
      | FindProp _ \<Rightarrow> True | TimeNow \<Rightarrow> True | FindPlayground _ \<Rightarrow> True
      | _ \<Rightarrow> False)"

definition removed :: "history \<Rightarrow> request \<Rightarrow> bool" where
  "removed h q = (\<exists>r. (q, r) \<in> set h)"

text \<open>The removal of a playspec failed, and not because it was gone.\<close>

definition stuck_removal :: "history \<Rightarrow> bool" where
  "stuck_removal h = (\<exists>t e. (RemovePlayspec t, Done (Some e)) \<in> set h \<and> \<not> is_not_found e)"

definition rolled_back :: "history \<Rightarrow> bool" where
  "rolled_back h =
     (playgrounds_made h = {} \<and> (\<forall>i \<in> specs_made h. removed h (RemovePlayspec (itoa i))) \<and>
      (\<forall>i \<in> props_made h. i = 0 \<or> removed h (RemoveProp (itoa i)) \<or> stuck_removal h))"

lemma launch_guard_simps [simp]:
  "launch_guard rx Y lb h (OpenFile path) = (lb \<and> looksLikeComposePath path)"
  "launch_guard rx Y lb h (CreatePlayspec ps) = (val_valid (Validate rx Y (ps_base_compose_yaml ps)) \<and>
     (\<forall>url \<in> set (GitHubRepositoryURLs rx Y (ps_base_compose_yaml ps)). pushable h url))"
  "launch_guard rx Y lb h (RemovePlayspec t) = (\<exists>i \<in> specs_made h. t = itoa i)"
  "launch_guard rx Y lb h (RemoveProp t) = (\<exists>i \<in> props_made h. t = itoa i)"
  "launch_guard rx Y lb h (CreateProp p) = pushable h (pr_repository_url p)"
  "launch_guard rx Y lb h (FindMarquee t)" "launch_guard rx Y lb h GetRuntimeMarquee" "launch_guard rx Y lb h (GitHubRepository t)"
  "launch_guard rx Y lb h (FindPlayspec t)" "launch_guard rx Y lb h (FindProp t)" "launch_guard rx Y lb h TimeNow"
  "launch_guard rx Y lb h (FindPlayground t)"
  by (simp_all add: launch_guard_def)

lemma made_Nil [simp]: "specs_made [] = {}" "props_made [] = {}" "playgrounds_made [] = {}"
  by (simp_all add: specs_made_def props_made_def playgrounds_made_def)

lemma made_append [simp]:
  "specs_made (h @ h') = specs_made h \<union> specs_made h'"
  "props_made (h @ h') = props_made h \<union> props_made h'"
  "playgrounds_made (h @ h') = playgrounds_made h \<union> playgrounds_made h'"
  by (auto simp: specs_made_def props_made_def playgrounds_made_def)

lemma made_Cons [simp]:
  "specs_made ((q, r) # h) = {i. \<exists>ps c. q = CreatePlayspec ps \<and> r = SpecRow (Inr c) \<and> ps_id c = Some i} \<union> specs_made h"
  "props_made ((q, r) # h) = {i. \<exists>p c. q = CreateProp p \<and> r = PropRecord (Inr c) \<and> pr_id c = i} \<union> props_made h"
  "playgrounds_made ((q, r) # h) = {i. \<exists>pg c. q = CreatePlayground pg \<and> r = Row (Inr c) \<and> pg_id c = i} \<union> playgrounds_made h"
  by (auto simp: specs_made_def props_made_def playgrounds_made_def)

definition made_nothing :: "history \<Rightarrow> bool" where
  "made_nothing h = (specs_made h = {} \<and> props_made h = {} \<and> playgrounds_made h = {})"

subsection \<open>Preparation\<close>

text \<open>While the launch is prepared, only reads.\<close>

definition looks :: "bool \<Rightarrow> request \<Rightarrow> bool" where
  "looks loopback q =
     (case q of OpenFile path \<Rightarrow> loopback \<and> looksLikeComposePath path
      | FindMarquee _ \<Rightarrow> True | GetRuntimeMarquee \<Rightarrow> True | GitHubRepository _ \<Rightarrow> True | _ \<Rightarrow> False)"

lemma looks_guard: "looks lb q \<Longrightarrow> launch_guard rx Y lb h q"
  by (cases q) (simp_all add: looks_def)

lemma looks_nothing: "looks lb q \<Longrightarrow> made_nothing h \<Longrightarrow> made_nothing (h @ [(q, r)])"
  by (cases q) (auto simp: looks_def made_nothing_def)

definition writable_plan :: "regex_engine \<Rightarrow> yaml_lib \<Rightarrow> history \<Rightarrow> launchPlan \<Rightarrow> bool" where
  "writable_plan rx Y h plan =
     ((\<forall>url \<in> set (GitHubRepositoryURLs rx Y (ln_compose_yaml plan)). pushable h url) \<and>
      (ln_repository_url plan \<noteq> [] \<longrightarrow> pushable h (ln_repository_url plan)))"

lemma guarded_find_marquee_looks [guarded_rules]: "guarded (\<lambda>_. looks lb) (find_marquee t)"
  by (rule guarded_find_marquee) (simp add: looks_def)

lemma guarded_looks [guarded_rules]:
  "guarded (\<lambda>_. looks lb) (resolveLaunchComposePath lb plan)"
  "guarded (\<lambda>_. looks lb) (resolveLaunchRootDomain S b)"
proof -
  show "guarded (\<lambda>_. looks lb) (resolveLaunchComposePath lb plan)"
    unfolding resolveLaunchComposePath_def readLocalComposeFile_def Let_def
    by (intro guarded_rules) (auto simp: guarded_asks looks_def)
  show "guarded (\<lambda>_. looks lb) (resolveLaunchRootDomain S b)"
    unfolding resolveLaunchRootDomain_def launchRootDomain_def
    by (intro guarded_rules guarded_ResolveConfiguredID) (simp_all add: looks_def)
qed

lemma repositories_wp:
  "wp (\<lambda>_. looks lb) (\<lambda>h x. x = Inr () \<longrightarrow> writable_plan (de_rx (sr_deploy (ph_server (lh_props L)))) (de_yaml (sr_deploy (ph_server (lh_props L)))) h plan)
     (requireLaunchRepositoriesWritable L plan) h"
proof -
  have G: "looks lb (GitHubRepository n)" for n by (simp add: looks_def)
  note writable = requireRuntimeWritable_wp[where G = "\<lambda>_. looks lb", OF G]
  show ?thesis
    unfolding requireLaunchRepositoriesWritable_def Let_def
    by (intro wp_and_goI wp_mono[OF writable])
       (auto simp: writable_plan_def split: sum.split intro!: wp_mono[OF writable] intro: pushable_mono)
qed

lemma prepare_wp:
  "wp (\<lambda>_. looks lb) (\<lambda>h x. \<forall>plan. x = Inr plan \<longrightarrow> writable_plan (de_rx (sr_deploy (ph_server (lh_props L)))) (de_yaml (sr_deploy (ph_server (lh_props L)))) h plan)
     (prepareLaunchPlan L lb b) []"
proof -
  let ?Q = "\<lambda>h x. \<forall>plan. x = Inr plan \<longrightarrow> writable_plan (de_rx (sr_deploy (ph_server (lh_props L)))) (de_yaml (sr_deploy (ph_server (lh_props L)))) h plan"
  have after: "wp (\<lambda>_. looks lb) Q (bind m f) h"
    if "guarded (\<lambda>_. looks lb) m" "\<And>h x. wp (\<lambda>_. looks lb) Q (f x) h"
    for m :: "'x io" and f :: "'x \<Rightarrow> (reply + launchPlan) io" and Q h
    using that by (simp add: guarded_wp)
  have checked: "wp (\<lambda>_. looks lb) ?Q (bind (requireLaunchRepositoriesWritable L plan) (\<lambda>w. case w of
      Inl e \<Rightarrow> stop_with (ValidationOrServerError E e) | Inr _ \<Rightarrow> Ret (Inr plan))) h" for E plan h
    unfolding wp_bind by (rule wp_mono[OF repositories_wp]) (auto split: sum.split)
  show ?thesis
    unfolding prepareLaunchPlan_def Let_def and_then_def
    by (auto simp del: wp_bind split: option.split sum.split
        intro!: after[OF guarded_looks(1)] after[OF guarded_looks(2)] checked)
qed

subsection \<open>Removal of what was created\<close>

text \<open>The resources account for everything the launch has stored so far.\<close>

definition accounted :: "history \<Rightarrow> int option \<Rightarrow> int list \<Rightarrow> bool" where
  "accounted h playspecID propIDs =
     (playgrounds_made h = {} \<and> specs_made h = set_option playspecID \<and> props_made h = set propIDs \<and> length propIDs \<le> 1)"

lemma removed_append [simp]: "removed (h @ h') q = (removed h q \<or> removed h' q)"
  by (auto simp: removed_def)

lemma removed_Cons [simp]: "removed ((q', r) # h) q = (q = q' \<or> removed h q)"
  by (auto simp: removed_def)

lemma stuck_removal_append [simp]: "stuck_removal (h @ h') = (stuck_removal h \<or> stuck_removal h')"
  by (auto simp: stuck_removal_def)

lemma stuck_removal_Cons [simp]: "stuck_removal ((RemovePlayspec t, Done (Some e)) # h) = (\<not> is_not_found e \<or> stuck_removal h)"
  by (auto simp: stuck_removal_def)

lemma ignoreNotFound_Some: "ignoreNotFound x = Some e \<Longrightarrow> x = Some e \<and> \<not> is_not_found e"
  by (simp add: ignoreNotFound_def split: option.splits if_splits)

lemma cleanup_wp:
  assumes "accounted h playspecID propIDs"
  shows "wp (launch_guard rx Y lb) (\<lambda>h x. rolled_back h) (cleanupLaunchResources playspecID propIDs) h"
proof -
  have ids: "propIDs = [] \<or> (\<exists>i. propIDs = [i])"
    using assms by (cases propIDs) (auto simp: accounted_def)
  have props: "wp (launch_guard rx Y lb) (\<lambda>h x. rolled_back h) (cleanupLaunchProps propIDs) h'"
    if "playgrounds_made h' = {}" "props_made h' = set propIDs" "\<forall>i \<in> specs_made h'. removed h' (RemovePlayspec (itoa i))" for h'
    using ids that by (elim disjE exE) (auto simp: rolled_back_def split: option.split)
  show ?thesis
    using assms props unfolding cleanupLaunchResources_def cleanupLaunchPlayspec_def accounted_def
    by (cases playspecID) (auto simp: rolled_back_def split: option.split dest!: ignoreNotFound_Some)
qed

subsection \<open>Creation\<close>

lemma pushable_later: "pushable h url \<Longrightarrow> pushable (h @ h') url"
  by (erule pushable_mono) auto

lemma writable_plan_later: "writable_plan rx Y h plan \<Longrightarrow> writable_plan rx Y (h @ h') plan"
  by (auto simp: writable_plan_def pushable_later)

lemma new_resource:
  "NewResource rx Y name None yaml persist None = Inr ps \<Longrightarrow> ps_base_compose_yaml ps = yaml \<and> val_valid (Validate rx Y yaml)"
  by (auto simp: NewResource_def playspec_from_payload_def checked_compose_def ApplyPlayspecServices_def given_services_def Let_def
      zero_playspec_payload_def split: option.splits if_splits)

lemma playspec_wp:
  fixes S :: server
  defines "rx \<equiv> de_rx (sr_deploy S)" and "Y \<equiv> de_yaml (sr_deploy S)"
  assumes "made_nothing h" and "writable_plan rx Y h plan"
  shows "wp (launch_guard rx Y lb) (\<lambda>h x. case x of Inl _ \<Rightarrow> rolled_back h
     | Inr (ps, created) \<Rightarrow> writable_plan rx Y h plan \<and> accounted h (if created then ps_id ps else None) [])
     (createLaunchPlayspec S plan) h"
  using assms(3,4) unfolding createLaunchPlayspec_def Let_def
  by (auto simp: rolled_back_def accounted_def made_nothing_def writable_plan_later rx_def[symmetric] Y_def[symmetric]
      writable_plan_def pushable_later dest!: new_resource split: sum.split)

lemma prop_error_wp:
  assumes "accounted h (createdPlayspecID res) []" and "\<And>h r. rolled_back h \<Longrightarrow> Q h (Inl r)"
  shows "wp (launch_guard rx Y lb) Q (writeLaunchPropCreateErr S plan res err) h"
  unfolding writeLaunchPropCreateErr_def wp_bind
  by (rule wp_mono[OF cleanup_wp[OF assms(1)]]) (simp add: assms(2) split: option.split)

lemma accounted_same:
  "accounted h i js \<Longrightarrow> accounted (h @ [(CreateProp p, PropRecord (Inl e))]) i js"
  "accounted h i js \<Longrightarrow> accounted (h @ [(FindProp t, r)]) i js"
  by (auto simp: accounted_def)

lemma prop_resource_wp:
  assumes "writable_plan rx Y h plan" and "accounted h (createdPlayspecID res) []" and "lr_prop_ids res = []"
    and "ln_repository_url plan \<noteq> []"
  shows "wp (launch_guard rx Y lb) (\<lambda>h x. case x of Inl _ \<Rightarrow> rolled_back h
     | Inr made \<Rightarrow> accounted h (createdPlayspecID made) (lr_prop_ids made)) (createLaunchPropResource S plan res) h"
proof -
  have "pushable h (ln_repository_url plan)" using assms(1,4) by (simp add: writable_plan_def)
  moreover have "createdPlayspecID (res\<lparr>lr_prop_ids := js\<rparr>) = createdPlayspecID res" for js
    by (simp add: createdPlayspecID_def)
  moreover have "accounted (h @ [(CreateProp p, PropRecord (Inr c))]) (createdPlayspecID res) [pr_id c]" for p c
    using assms(2) by (simp add: accounted_def)
  moreover have "wp (launch_guard rx Y lb) (\<lambda>h x. case x of Inl _ \<Rightarrow> rolled_back h
     | Inr made \<Rightarrow> accounted h (createdPlayspecID made) (lr_prop_ids made)) (writeLaunchPropCreateErr S plan res err) h'"
    if "accounted h' (createdPlayspecID res) []" for err h'
    using that by (rule prop_error_wp) simp
  ultimately show ?thesis
    using assms(2,3) unfolding createLaunchPropResource_def ensureLaunchProp_def
    by (auto simp: accounted_same split: sum.split simp del: append_assoc)
qed

text \<open>A creation of a playground that fails has stored none, and a creation makes neither playspecs nor props.\<close>

lemma failed_creation:
  "wp (\<lambda>_ _. True) (\<lambda>h x. (\<exists>e. x = Inl e) \<longrightarrow> playgrounds_made h = {}) (createPlaygroundRecord S p0) []"
proof -
  let ?Q = "\<lambda>h (x :: fault + playgroundCreateResult). (\<exists>e. x = Inl e) \<longrightarrow> playgrounds_made h = {}"
  have store: "wp (\<lambda>_ _. True) ?Q (store_playground S p ps mq row) h" if "playgrounds_made h = {}" for p ps mq row h
    using that unfolding store_playground_def compatibleExistingPlayground_def handleCreatePlaygroundConflict_def Let_def
    by (auto split: sum.split)
  have reads: "guarded (\<lambda>h q. \<not> (\<exists>pg. q = CreatePlayground pg)) (preparePlaygroundCreate E p0)" for E
    unfolding preparePlaygroundCreate_def resolvePlaygroundReferences_def resolvePlaygroundPlayspec_def
      loadPlaygroundCreateDependencies_def loadRequiredMarquee_def
    by (intro guarded_rules guarded_ResolveConfiguredID guarded_find_marquee) (simp_all add: guarded_asks guarded_rules)
  have "wp (\<lambda>h q. \<not> (\<exists>pg. q = CreatePlayground pg)) (\<lambda>h x. True \<and> playgrounds_made h = {}) (preparePlaygroundCreate E p0) []" for E
    by (rule wp_invariant[where I = "\<lambda>h. playgrounds_made h = {}", OF reads[unfolded guarded_def, rule_format]]) auto
  then have prepared: "wp (\<lambda>_ _. True) (\<lambda>h x. playgrounds_made h = {}) (preparePlaygroundCreate E p0) []" for E
    by (rule wp_guard_mono[OF wp_mono]) simp_all
  show ?thesis
    unfolding createPlaygroundRecord_def
    by (intro wp_and_goI wp_mono[OF prepared]) (auto simp: store split: sum.split option.split)
qed

lemma deployed_wp:
  fixes S :: server
  defines "rx \<equiv> de_rx (sr_deploy S)" and "Y \<equiv> de_yaml (sr_deploy S)"
  shows "wp (launch_guard rx Y lb) (\<lambda>h' x. \<forall>e. x = Inl e \<longrightarrow> (\<exists>h1. h' = h @ h1 \<and> made_nothing h1)) (CreateAndDeployDetached S c) h"
proof -
  let ?m = "createPlaygroundRecord S (toInternal c)"
  have "wp (create_guard rx Y) (\<lambda>h x. (True \<and> specs_made h = {} \<and> props_made h = {}) \<and> ((\<exists>e. x = Inl e) \<longrightarrow> playgrounds_made h = {})) ?m []"
    unfolding rx_def Y_def
    by (rule wp_both[OF wp_invariant[OF wp_mono[OF creation_wp]] failed_creation]) (auto simp: create_guard_def)
  then have "wp (launch_guard rx Y lb) (\<lambda>h' x. \<forall>e. x = Inl e \<longrightarrow> (\<exists>h1. h' = h @ h1 \<and> made_nothing h1)) ?m (h @ [])"
    by (rule wp_shift) (auto simp: made_nothing_def create_guard_def launch_guard_def split: request.splits)
  then show ?thesis
    unfolding CreateAndDeployDetached_def createAndDeployPlaygroundAsync_def
    by (auto elim!: wp_mono split: sum.split)
qed

lemma playground_wp:
  fixes S :: server
  defines "rx \<equiv> de_rx (sr_deploy S)" and "Y \<equiv> de_yaml (sr_deploy S)"
  assumes "accounted h (createdPlayspecID res) (lr_prop_ids res)"
  shows "wp (launch_guard rx Y lb) (\<lambda>h x. \<forall>r. x = Inl r \<longrightarrow> rolled_back h) (createLaunchPlayground S plan res) h"
proof -
  have "accounted (h @ h1) (createdPlayspecID res) (lr_prop_ids res)" if "made_nothing h1" for h1
    using assms(3) that by (simp add: accounted_def made_nothing_def)
  then show ?thesis
    unfolding createLaunchPlayground_def wp_bind rx_def Y_def
    by (intro wp_mono[OF deployed_wp]) (auto split: sum.split intro!: wp_mono[OF cleanup_wp])
qed

lemma nothing_rolled_back: "made_nothing h \<Longrightarrow> rolled_back h"
  by (simp add: made_nothing_def rolled_back_def)

lemma launch_wp:
  fixes L :: "'r launcher"
  defines "D \<equiv> sr_deploy (ph_server (lh_props L))"
  shows "wp (launch_guard (de_rx D) (de_yaml D) lb) (\<lambda>h x. \<forall>r. x = Inl r \<longrightarrow> rolled_back h) (launch_steps L lb b) []"
proof -
  let ?G = "launch_guard (de_rx D) (de_yaml D) lb" and ?S = "ph_server (lh_props L)"
  let ?Q = "\<lambda>h (x :: reply + launchPlan \<times> launchResources \<times> deployment option). \<forall>r. x = Inl r \<longrightarrow> rolled_back h"
  have prepared: "wp ?G (\<lambda>h x. (\<forall>plan. x = Inr plan \<longrightarrow> writable_plan (de_rx D) (de_yaml D) h plan) \<and> made_nothing h) (prepareLaunchPlan L lb b) []"
    unfolding D_def
    by (rule wp_guard_mono[OF wp_invariant[OF prepare_wp]]) (auto simp: looks_nothing looks_guard made_nothing_def[of "[]"])
  have resources: "wp ?G (\<lambda>h x. case x of Inl _ \<Rightarrow> rolled_back h | Inr made \<Rightarrow> accounted h (createdPlayspecID made) (lr_prop_ids made))
      (createLaunchResources ?S plan) h" if "made_nothing h" "writable_plan (de_rx D) (de_yaml D) h plan" for plan h
    unfolding createLaunchResources_def D_def Let_def
    by (intro wp_and_thenI wp_mono[OF playspec_wp[OF that[unfolded D_def]]])
       (auto simp: createdPlayspecID_def split: sum.split intro!: wp_mono[OF prop_resource_wp])
  have playground: "wp ?G (\<lambda>h x. case x of Inl r \<Rightarrow> rolled_back h | Inr _ \<Rightarrow> True) (createLaunchPlayground ?S plan res) h"
    if "accounted h (createdPlayspecID res) (lr_prop_ids res)" for plan res h
    unfolding D_def by (rule wp_mono[OF playground_wp[OF that]]) (auto split: sum.split)
  show ?thesis
    unfolding launch_steps_def Let_def
    by (intro wp_and_thenI wp_mono[OF prepared])
       (auto simp: nothing_rolled_back split: sum.split prod.split intro!: wp_mono[OF resources] wp_mono[OF playground])
qed

lemma launch_create_guarded:
  fixes L :: "'r launcher"
  defines "D \<equiv> sr_deploy (ph_server (lh_props L))"
  shows "wp (launch_guard (de_rx D) (de_yaml D) lb) (\<lambda>_ _. True) (launch_create L lb b) []"
  unfolding launch_create_def Let_def D_def
  by (auto split: sum.split option.split intro!: wp_mono[OF launch_wp])


text \<open>C9: A launch that does not succeed, whatever of its steps failed, leaves nothing of its own behind: it has created no playground, it has asked the store to remove the playspec if it created one, and the prop likewise unless the store refused to remove the playspec.\<close>

theorem failed_launch_rolled_back:
  assumes "runs (launch_steps L loopback b) es (Inl reply)"
  shows "rolled_back es"
  using wp_runs[OF launch_wp assms] by simp

definition demo_launcher :: "unit launcher" where
  "demo_launcher = \<lparr>lh_props = demo_props, lh_random = demo_random, lh_entropy = ()\<rparr>"

definition demo_launch :: launchPayload where
  "demo_launch = zero_launch\<lparr>lp_compose_yaml := ''x'', lp_name := ''shop'', lp_repository_url := ''https://github.com/acme/app''\<rparr>"

text \<open>The playspec of the new playground cannot be read back.\<close>

definition demo_launch_answers :: "answer list" where
  "demo_launch_answers =
     [MarqueeRow (Inr (Some demo_marquee)), MarqueeRow (Inr (Some demo_marquee)),
      Repository (Inr \<lparr>gh_default_branch = ''main'', gh_private = True, gh_permissions = [(''push'', True)]\<rparr>),
      SpecRow (Inr demo_playspec), PropRecord (Inr (zero_prop\<lparr>pr_id := 5\<rparr>)),
      MarqueeRow (Inr (Some demo_marquee)), SpecRow (Inl (ErrText ''disk'')), Done None, Done None]"

definition demo_launch_run :: "history \<times> (reply + launchPlan \<times> launchResources \<times> deployment option) option" where
  "demo_launch_run = replay (launch_steps demo_launcher False demo_launch) demo_launch_answers"

lemma made_at:
  "case h ! n of (CreatePlayspec _, SpecRow (Inr ps)) \<Rightarrow> ps_id ps = Some i | _ \<Rightarrow> False \<Longrightarrow> n < length h \<Longrightarrow> i \<in> specs_made h"
  "case h ! n of (CreateProp _, PropRecord (Inr p)) \<Rightarrow> pr_id p = i | _ \<Rightarrow> False \<Longrightarrow> n < length h \<Longrightarrow> i \<in> props_made h"
  unfolding specs_made_def props_made_def using nth_mem[of n h]
  by (fastforce split: prod.splits request.splits answer.splits sum.splits)+

theorem failed_launch_rolled_back_witness:
  "rolled_back (fst demo_launch_run) \<and> 2 \<in> specs_made (fst demo_launch_run) \<and> 5 \<in> props_made (fst demo_launch_run)"
proof -
  let ?h = "fst demo_launch_run"
  have "(\<lambda>(h, x). (case x of Some (Inl r) \<Rightarrow> True | _ \<Rightarrow> False) \<and> 4 < length h \<and>
      (case h ! 3 of (CreatePlayspec _, SpecRow (Inr ps)) \<Rightarrow> ps_id ps = Some 2 | _ \<Rightarrow> False) \<and>
      (case h ! 4 of (CreateProp _, PropRecord (Inr p)) \<Rightarrow> pr_id p = 5 | _ \<Rightarrow> False)) demo_launch_run"
    by code_simp
  then have facts: "case snd demo_launch_run of Some (Inl r) \<Rightarrow> True | _ \<Rightarrow> False" "4 < length ?h"
      "case ?h ! 3 of (CreatePlayspec _, SpecRow (Inr ps)) \<Rightarrow> ps_id ps = Some 2 | _ \<Rightarrow> False"
      "case ?h ! 4 of (CreateProp _, PropRecord (Inr p)) \<Rightarrow> pr_id p = 5 | _ \<Rightarrow> False"
    by (simp_all only: case_prod_unfold)
  have made: "2 \<in> specs_made ?h" "5 \<in> props_made ?h"
    by (rule made_at(1)[OF facts(3)], use facts(2) in simp) (rule made_at(2)[OF facts(4) facts(2)])
  from facts(1) obtain r where "snd demo_launch_run = Some (Inl r)"
    by (auto split: option.splits sum.splits)
  then have "demo_launch_run = (?h, Some (Inl r))" by (metis prod.collapse)
  then have "runs (launch_steps demo_launcher False demo_launch) ?h (Inl r)"
    unfolding demo_launch_run_def by (rule replay_runs)
  from failed_launch_rolled_back[OF this] made show ?thesis by simp
qed

definition demo_launch_body :: request_body where
  "demo_launch_body = JsonBody (JObj [(''compose_yaml'', JStr ''x''), (''name'', JStr ''shop''),
     (''repository_url'', JStr ''https://github.com/acme/app'')])"

definition demo_created_run :: history where
  "demo_created_run = fst (replay (launch_create demo_launcher False demo_launch_body) demo_launch_answers)"


end
