(* ===== verification/HostEffects.thy ===== *)
theory HostEffects
  imports WorkerEffects RuntimeBuild
begin

text \<open>
  The effects of the runtime (\<open>internal/runtime\<close>): what its adapters ask of the host. They are the methods of \<open>RemoteFS\<close>
  and \<open>Executor\<close> (\<open>runtime.go\<close>), the processes of Git, the calls of the Git library, the local staging directory of a
  clone, and the calls of the Docker client. The adapters take a Marquee they do not look at; it is left out, as are
  contexts and their deadlines.

  Here are also the pieces of the Go library the package uses on the way: \<open>strings.Fields\<close>, \<open>strconv.ParseUint\<close>,
  \<open>path.Join\<close>, \<open>path.Dir\<close> and the standard encoding of \<open>encoding/base64\<close>.
\<close>

subsection \<open>Library\<close>

text \<open>\<open>strings.Fields\<close>: the words between runs of white space.\<close>

function words_acc :: "string \<Rightarrow> string \<Rightarrow> string list" where
  "words_acc acc s =
     (case skip_seq space_seqs s of
        Some rest \<Rightarrow> (if acc = [] then [] else [rev acc]) @ words_acc [] rest
      | None \<Rightarrow> (case s of [] \<Rightarrow> if acc = [] then [] else [rev acc] | c # t \<Rightarrow> words_acc (c # acc) t))"
  by pat_completeness auto
termination
  by (relation "measure (\<lambda>(acc, s). length s)") (auto dest: skip_seq_shorter)

declare words_acc.simps [simp del]

definition str_fields :: "string \<Rightarrow> string list" where
  "str_fields s = words_acc [] s"

text \<open>\<open>strconv.ParseUint(s, 10, 64)\<close>.\<close>

definition parse_uint64 :: "string \<Rightarrow> go_error + nat" where
  "parse_uint64 s =
     (if \<not> all_digits s then Inl (ErrText (''strconv.ParseUint: parsing '' @ go_quote s @ '': invalid syntax''))
      else if int (digits_val s) > 18446744073709551615 then Inl (ErrText (''strconv.ParseUint: parsing '' @ go_quote s @ '': value out of range''))
      else Inr (digits_val s))"

definition path_join :: "string \<Rightarrow> string \<Rightarrow> string" where
  "path_join a b =
     (if a = [] \<and> b = [] then []
      else path_clean (if a = [] then b else if b = [] then a else a @ ''/'' @ b))"

definition path_dir :: "string \<Rightarrow> string" where
  "path_dir p = path_clean (rev (dropWhile (\<lambda>c. c \<noteq> CHR ''/'') (rev p)))"

definition base64_alphabet :: string where
  "base64_alphabet = ''ABCDEFGHIJKLMNOPQRSTUVWXYZabcdefghijklmnopqrstuvwxyz0123456789+/''"

definition base64_char :: "nat \<Rightarrow> char" where
  "base64_char n = base64_alphabet ! n"

fun base64_encode :: "string \<Rightarrow> string" where
  "base64_encode [] = []"
| "base64_encode [a] =
     [base64_char (byte_of a div 4), base64_char (byte_of a mod 4 * 16), CHR ''='', CHR ''='']"
| "base64_encode [a, b] =
     [base64_char (byte_of a div 4), base64_char (byte_of a mod 4 * 16 + byte_of b div 16),
      base64_char (byte_of b mod 16 * 4), CHR ''='']"
| "base64_encode (a # b # c # s) =
     base64_char (byte_of a div 4) # base64_char (byte_of a mod 4 * 16 + byte_of b div 16) #
     base64_char (byte_of b mod 16 * 4 + byte_of c div 64) # base64_char (byte_of c mod 64) # base64_encode s"

subsection \<open>Requests and answers\<close>

text \<open>What a directory listing or \<open>Stat\<close> tells of an entry, and what a walk of a local directory tells: the path, the
path relative to the root of the walk, and the permissions.\<close>

record file_info =
  fi_name :: string
  fi_dir :: bool
  fi_symlink :: bool
  fi_perm :: int

record local_entry =
  le_path :: string
  le_rel :: "go_error + string"
  le_perm :: "go_error + int"
  le_dir :: bool
  le_symlink :: bool

record CommandResult =
  co_stdout :: string
  co_stderr :: string
  co_exit_code :: int

text \<open>The end of a call of the Git library: \<open>NoErrAlreadyUpToDate\<close> is told from other errors.\<close>

datatype git_end = GitDone | GitUpToDate | GitFailed go_error

text \<open>What the Docker client answers about a container, and what is asked to be created.\<close>

record container_state =
  ct_running :: bool
  ct_config :: "(string smap \<times> string list) option"
  ct_args :: "string list"

record container_spec =
  cs_name :: string
  cs_image :: string
  cs_env :: "string list"
  cs_labels :: "string smap"
  cs_cmd :: "string list"
  cs_binds :: "string list"
  cs_network_mode :: string
  cs_restart_policy :: string

datatype docker_kind = Containers | Networks | Volumes

datatype host_request =
    MkdirAll string int
  | WriteRemoteFile string string int
  | ReadRemoteFile string
  | RemoveAll string
  | RenameFile string string
  | Chmod string int
  | StatFile string
  | ReadDir string
  | RunCommand string
  | LookGit
  | RunGit "string list"
  | MkdirTemp string
  | RemoveTemp string
  | MkdirLocal string int
  | WriteLocal string string int
  | ReadLocal string
  | WalkLocal string
  | PlainClone string string string "string option"
  | PlainOpen string
  | OpenWorktree string
  | WorktreeStatus string
  | DeleteRemote string
  | CreateRemote string string
  | FetchRefs string "string option"
  | ReadReference string string
  | CheckoutBranch string string
  | CreateBranch string string string
  | PullBranch string string "string option"
  | LogFrom string string
  | HeadRef string
  | OpenDocker
  | DockerPing
  | InspectImage string
  | PullImage string string
  | InspectContainer string
  | CreateContainer container_spec
  | StartContainer string
  | RemoveContainer string
  | ListLabelled docker_kind string
  | RemoveNetwork string
  | RemoveVolume string
  | StatSocket string

datatype host_answer =
    Ended "go_error option"
  | Content "go_error + string"
  | Info "go_error + file_info"
  | Entries "go_error + file_info list"
  | Ran "CommandResult \<times> go_error option"
  | Present bool
  | Output "string \<times> go_error option"
  | Walked "(go_error + local_entry) list"
  | Synced git_end
  | Checked "go_error + bool"
  | Hash "go_error + string"
  | Hashes "go_error + string list"
  | Labels "go_error + string smap option"
  | Inspected "go_error + container_state"
  | Created "go_error + string"
  | Listed "go_error + (string \<times> string) list"

type_synonym 'a host = "(host_request, host_answer, 'a) program"

type_synonym host_log = "(host_request, host_answer) log"

text \<open>An answer of another kind than the request asks for does not occur; the program is not continued with it.\<close>

definition end_of :: "host_request \<Rightarrow> (go_error option) host" where
  "end_of q = Call q (\<lambda>r. case r of Ended x \<Rightarrow> Ret x | _ \<Rightarrow> Stuck)"

definition content_of :: "host_request \<Rightarrow> (go_error + string) host" where
  "content_of q = Call q (\<lambda>r. case r of Content x \<Rightarrow> Ret x | _ \<Rightarrow> Stuck)"

definition info_of :: "host_request \<Rightarrow> (go_error + file_info) host" where
  "info_of q = Call q (\<lambda>r. case r of Info x \<Rightarrow> Ret x | _ \<Rightarrow> Stuck)"

definition entries_of :: "host_request \<Rightarrow> (go_error + file_info list) host" where
  "entries_of q = Call q (\<lambda>r. case r of Entries x \<Rightarrow> Ret x | _ \<Rightarrow> Stuck)"

definition result_of :: "host_request \<Rightarrow> (CommandResult \<times> go_error option) host" where
  "result_of q = Call q (\<lambda>r. case r of Ran x \<Rightarrow> Ret x | _ \<Rightarrow> Stuck)"

definition present :: "host_request \<Rightarrow> bool host" where
  "present q = Call q (\<lambda>r. case r of Present x \<Rightarrow> Ret x | _ \<Rightarrow> Stuck)"

definition output_of :: "host_request \<Rightarrow> (string \<times> go_error option) host" where
  "output_of q = Call q (\<lambda>r. case r of Output x \<Rightarrow> Ret x | _ \<Rightarrow> Stuck)"

definition walk_of :: "host_request \<Rightarrow> (go_error + local_entry) list host" where
  "walk_of q = Call q (\<lambda>r. case r of Walked x \<Rightarrow> Ret x | _ \<Rightarrow> Stuck)"

definition git_end_of :: "host_request \<Rightarrow> git_end host" where
  "git_end_of q = Call q (\<lambda>r. case r of Synced x \<Rightarrow> Ret x | _ \<Rightarrow> Stuck)"

definition checked_of :: "host_request \<Rightarrow> (go_error + bool) host" where
  "checked_of q = Call q (\<lambda>r. case r of Checked x \<Rightarrow> Ret x | _ \<Rightarrow> Stuck)"

definition hash_of :: "host_request \<Rightarrow> (go_error + string) host" where
  "hash_of q = Call q (\<lambda>r. case r of Hash x \<Rightarrow> Ret x | _ \<Rightarrow> Stuck)"

definition hashes_of :: "host_request \<Rightarrow> (go_error + string list) host" where
  "hashes_of q = Call q (\<lambda>r. case r of Hashes x \<Rightarrow> Ret x | _ \<Rightarrow> Stuck)"

definition labels_of :: "host_request \<Rightarrow> (go_error + string smap option) host" where
  "labels_of q = Call q (\<lambda>r. case r of Labels x \<Rightarrow> Ret x | _ \<Rightarrow> Stuck)"

definition inspected_of :: "host_request \<Rightarrow> (go_error + container_state) host" where
  "inspected_of q = Call q (\<lambda>r. case r of Inspected x \<Rightarrow> Ret x | _ \<Rightarrow> Stuck)"

definition created_of :: "host_request \<Rightarrow> (go_error + string) host" where
  "created_of q = Call q (\<lambda>r. case r of Created x \<Rightarrow> Ret x | _ \<Rightarrow> Stuck)"

definition listed_of :: "host_request \<Rightarrow> (go_error + (string \<times> string) list) host" where
  "listed_of q = Call q (\<lambda>r. case r of Listed x \<Rightarrow> Ret x | _ \<Rightarrow> Stuck)"

lemmas host_ask_defs = end_of_def content_of_def info_of_def entries_of_def result_of_def present_def output_of_def
  walk_of_def git_end_of_def checked_of_def hash_of_def hashes_of_def labels_of_def inspected_of_def created_of_def listed_of_def

lemma wp_answer:
  assumes "\<And>x. k (c x) = Ret x" and "\<And>r. r \<notin> range c \<Longrightarrow> k r = Stuck"
  shows "wp G Q (Call q k) h \<longleftrightarrow> G h q \<and> (\<forall>x. Q (h @ [(q, c x)]) x)"
proof -
  have "(\<forall>r. wp G Q (k r) (h @ [(q, r)])) \<longleftrightarrow> (\<forall>x. Q (h @ [(q, c x)]) x)"
    using assms by (metis (no_types, opaque_lifting) rangeE wp.simps(1,2))
  then show ?thesis by simp
qed

lemma wp_end_of [simp]: "wp G Q (end_of q) h \<longleftrightarrow> G h q \<and> (\<forall>x. Q (h @ [(q, Ended x)]) x)"
  unfolding end_of_def by (rule wp_answer) (auto split: host_answer.split)

lemma wp_content_of [simp]: "wp G Q (content_of q) h \<longleftrightarrow> G h q \<and> (\<forall>x. Q (h @ [(q, Content x)]) x)"
  unfolding content_of_def by (rule wp_answer) (auto split: host_answer.split)

lemma wp_info_of [simp]: "wp G Q (info_of q) h \<longleftrightarrow> G h q \<and> (\<forall>x. Q (h @ [(q, Info x)]) x)"
  unfolding info_of_def by (rule wp_answer) (auto split: host_answer.split)

lemma wp_entries_of [simp]: "wp G Q (entries_of q) h \<longleftrightarrow> G h q \<and> (\<forall>x. Q (h @ [(q, Entries x)]) x)"
  unfolding entries_of_def by (rule wp_answer) (auto split: host_answer.split)

lemma wp_result_of [simp]: "wp G Q (result_of q) h \<longleftrightarrow> G h q \<and> (\<forall>x. Q (h @ [(q, Ran x)]) x)"
  unfolding result_of_def by (rule wp_answer) (auto split: host_answer.split)

lemma wp_present [simp]: "wp G Q (present q) h \<longleftrightarrow> G h q \<and> (\<forall>x. Q (h @ [(q, Present x)]) x)"
  unfolding present_def by (rule wp_answer) (auto split: host_answer.split)

lemma wp_output_of [simp]: "wp G Q (output_of q) h \<longleftrightarrow> G h q \<and> (\<forall>x. Q (h @ [(q, Output x)]) x)"
  unfolding output_of_def by (rule wp_answer) (auto split: host_answer.split)

lemma wp_walk_of [simp]: "wp G Q (walk_of q) h \<longleftrightarrow> G h q \<and> (\<forall>x. Q (h @ [(q, Walked x)]) x)"
  unfolding walk_of_def by (rule wp_answer) (auto split: host_answer.split)

lemma wp_git_end_of [simp]: "wp G Q (git_end_of q) h \<longleftrightarrow> G h q \<and> (\<forall>x. Q (h @ [(q, Synced x)]) x)"
  unfolding git_end_of_def by (rule wp_answer) (auto split: host_answer.split)

lemma wp_checked_of [simp]: "wp G Q (checked_of q) h \<longleftrightarrow> G h q \<and> (\<forall>x. Q (h @ [(q, Checked x)]) x)"
  unfolding checked_of_def by (rule wp_answer) (auto split: host_answer.split)

lemma wp_hash_of [simp]: "wp G Q (hash_of q) h \<longleftrightarrow> G h q \<and> (\<forall>x. Q (h @ [(q, Hash x)]) x)"
  unfolding hash_of_def by (rule wp_answer) (auto split: host_answer.split)

lemma wp_hashes_of [simp]: "wp G Q (hashes_of q) h \<longleftrightarrow> G h q \<and> (\<forall>x. Q (h @ [(q, Hashes x)]) x)"
  unfolding hashes_of_def by (rule wp_answer) (auto split: host_answer.split)

lemma wp_labels_of [simp]: "wp G Q (labels_of q) h \<longleftrightarrow> G h q \<and> (\<forall>x. Q (h @ [(q, Labels x)]) x)"
  unfolding labels_of_def by (rule wp_answer) (auto split: host_answer.split)

lemma wp_inspected_of [simp]: "wp G Q (inspected_of q) h \<longleftrightarrow> G h q \<and> (\<forall>x. Q (h @ [(q, Inspected x)]) x)"
  unfolding inspected_of_def by (rule wp_answer) (auto split: host_answer.split)

lemma wp_created_of [simp]: "wp G Q (created_of q) h \<longleftrightarrow> G h q \<and> (\<forall>x. Q (h @ [(q, Created x)]) x)"
  unfolding created_of_def by (rule wp_answer) (auto split: host_answer.split)

lemma wp_listed_of [simp]: "wp G Q (listed_of q) h \<longleftrightarrow> G h q \<and> (\<forall>x. Q (h @ [(q, Listed x)]) x)"
  unfolding listed_of_def by (rule wp_answer) (auto split: host_answer.split)

subsection \<open>Early returns\<close>

text \<open>\<open>if err != nil { return err }\<close> between calls that only fail or succeed, and the wrapping of the error of a call.\<close>

definition and_next :: "('q, 'r, 'e option) program \<Rightarrow> ('q, 'r, 'e option) program \<Rightarrow> ('q, 'r, 'e option) program" where
  "and_next m n = bind m (\<lambda>err. case err of Some e \<Rightarrow> Ret (Some e) | None \<Rightarrow> n)"

definition on_value :: "('q, 'r, 'd + 'a) program \<Rightarrow> ('d \<Rightarrow> 'e) \<Rightarrow> ('a \<Rightarrow> ('q, 'r, 'e option) program) \<Rightarrow> ('q, 'r, 'e option) program" where
  "on_value m wrap f = bind m (\<lambda>x. case x of Inl e \<Rightarrow> Ret (Some (wrap e)) | Inr a \<Rightarrow> f a)"

definition wrapped :: "string \<Rightarrow> ('q, 'r, go_error option) program \<Rightarrow> ('q, 'r, go_error option) program" where
  "wrapped t m = bind m (\<lambda>err. Ret (map_option (ErrWrap t) err))"

text \<open>A step for each item, up to the first that fails.\<close>

primrec each_until :: "('a \<Rightarrow> ('q, 'r, 'e option) program) \<Rightarrow> 'a list \<Rightarrow> ('q, 'r, 'e option) program" where
  "each_until f [] = Ret None"
| "each_until f (x # xs) = and_next (f x) (each_until f xs)"

lemma wp_and_next [simp]:
  "wp G Q (and_next m n) h \<longleftrightarrow> wp G (\<lambda>h err. case err of Some e \<Rightarrow> Q h (Some e) | None \<Rightarrow> wp G Q n h) m h"
proof -
  have "(\<lambda>h err. wp G Q (case err of Some e \<Rightarrow> Ret (Some e) | None \<Rightarrow> n) h) =
        (\<lambda>h err. case err of Some e \<Rightarrow> Q h (Some e) | None \<Rightarrow> wp G Q n h)"
    by (intro ext) (simp split: option.split)
  then show ?thesis by (simp add: and_next_def)
qed

lemmas wp_and_nextI = wp_and_next[THEN iffD2]

lemma wp_on_value [simp]:
  "wp G Q (on_value m wrap f) h \<longleftrightarrow> wp G (\<lambda>h x. case x of Inl e \<Rightarrow> Q h (Some (wrap e)) | Inr a \<Rightarrow> wp G Q (f a) h) m h"
proof -
  have "(\<lambda>h x. wp G Q (case x of Inl e \<Rightarrow> Ret (Some (wrap e)) | Inr a \<Rightarrow> f a) h) =
        (\<lambda>h x. case x of Inl e \<Rightarrow> Q h (Some (wrap e)) | Inr a \<Rightarrow> wp G Q (f a) h)"
    by (intro ext) (simp split: sum.split)
  then show ?thesis by (simp add: on_value_def)
qed

lemma wp_wrapped [simp]: "wp G Q (wrapped t m) h \<longleftrightarrow> wp G (\<lambda>h err. Q h (map_option (ErrWrap t) err)) m h"
  by (simp add: wrapped_def)

lemma wp_each_until:
  assumes "I h" and "\<And>x h. x \<in> set xs \<Longrightarrow> I h \<Longrightarrow> wp G (\<lambda>h err. I h) (f x) h"
  shows "wp G (\<lambda>h err. I h) (each_until f xs) h"
  using assms
proof (induction xs arbitrary: h)
  case (Cons x xs)
  have "wp G (\<lambda>h err. I h) (f x) h" using Cons.prems by simp
  moreover have "wp G (\<lambda>h err. I h) (each_until f xs) h'" if "I h'" for h'
    by (rule Cons.IH[OF that]) (use Cons.prems(2) in simp)
  ultimately show ?case unfolding each_until.simps
    by (intro wp_and_nextI) (erule wp_mono, simp split: option.split)
qed simp

lemma wp_each_collects:
  assumes "\<And>x h. x \<in> set xs \<Longrightarrow> wp G (\<lambda>h' err. set h \<subseteq> set h' \<and> (err = None \<longrightarrow> P x (set h'))) (f x) h"
    and "\<And>x es es'. P x es \<Longrightarrow> es \<subseteq> es' \<Longrightarrow> P x es'"
  shows "wp G (\<lambda>h' err. set h \<subseteq> set h' \<and> (err = None \<longrightarrow> (\<forall>x \<in> set xs. P x (set h')))) (each_until f xs) h"
  using assms(1)
proof (induction xs arbitrary: h)
  case (Cons x xs)
  have first: "wp G (\<lambda>h' err. set h \<subseteq> set h' \<and> (err = None \<longrightarrow> P x (set h'))) (f x) h" using Cons.prems by simp
  have rest: "wp G (\<lambda>h'' err. set h' \<subseteq> set h'' \<and> (err = None \<longrightarrow> (\<forall>x \<in> set xs. P x (set h'')))) (each_until f xs) h'" for h'
    by (rule Cons.IH) (use Cons.prems in simp)
  show ?case unfolding each_until.simps
  proof (intro wp_and_nextI wp_mono[OF first], goal_cases)
    case (1 h' err)
    show ?case
    proof (cases err)
      case None
      with 1 have "set h \<subseteq> set h'" "P x (set h')" by auto
      then show ?thesis unfolding None option.case
        by (intro wp_mono[OF rest]) (auto intro: assms(2))
    qed (use 1 in simp)
  qed
qed simp

text \<open>One step after the other, each of which adds to the history; what the first has reached is given to the second.\<close>

lemma wp_then_next:
  assumes "wp G (\<lambda>h' err. set h \<subseteq> set h' \<and> (err = None \<longrightarrow> P h')) m h"
    and "\<And>h'. set h \<subseteq> set h' \<Longrightarrow> P h' \<Longrightarrow> wp G (\<lambda>h'' err. set h' \<subseteq> set h'' \<and> (err = None \<longrightarrow> R h'')) n h'"
  shows "wp G (\<lambda>h' err. set h \<subseteq> set h' \<and> (err = None \<longrightarrow> R h')) (and_next m n) h"
proof (intro wp_and_nextI wp_mono[OF assms(1)], goal_cases)
  case (1 h' err)
  then show ?case
    by (cases err) (auto intro: wp_mono[OF assms(2)])
qed

lemma guarded_and_next [guarded_rules]: "guarded G m \<Longrightarrow> guarded G n \<Longrightarrow> guarded G (and_next m n)"
  unfolding and_next_def by (intro guarded_rules)

lemma guarded_on_value [guarded_rules]: "guarded G m \<Longrightarrow> (\<And>a. guarded G (f a)) \<Longrightarrow> guarded G (on_value m wrap f)"
  unfolding on_value_def by (intro guarded_rules)

lemma guarded_wrapped [guarded_rules]: "guarded G m \<Longrightarrow> guarded G (wrapped t m)"
  unfolding wrapped_def by (intro guarded_rules)

lemma guarded_each_until: "(\<And>x. x \<in> set xs \<Longrightarrow> guarded G (f x)) \<Longrightarrow> guarded G (each_until f xs)"
  by (induction xs) (auto intro!: guarded_rules)

lemma guarded_host_asks:
  "guarded G (end_of q) \<longleftrightarrow> (\<forall>h. G h q)"
  "guarded G (content_of q) \<longleftrightarrow> (\<forall>h. G h q)"
  "guarded G (info_of q) \<longleftrightarrow> (\<forall>h. G h q)"
  "guarded G (entries_of q) \<longleftrightarrow> (\<forall>h. G h q)"
  "guarded G (result_of q) \<longleftrightarrow> (\<forall>h. G h q)"
  "guarded G (present q) \<longleftrightarrow> (\<forall>h. G h q)"
  "guarded G (output_of q) \<longleftrightarrow> (\<forall>h. G h q)"
  "guarded G (walk_of q) \<longleftrightarrow> (\<forall>h. G h q)"
  "guarded G (git_end_of q) \<longleftrightarrow> (\<forall>h. G h q)"
  "guarded G (checked_of q) \<longleftrightarrow> (\<forall>h. G h q)"
  "guarded G (hash_of q) \<longleftrightarrow> (\<forall>h. G h q)"
  "guarded G (hashes_of q) \<longleftrightarrow> (\<forall>h. G h q)"
  "guarded G (labels_of q) \<longleftrightarrow> (\<forall>h. G h q)"
  "guarded G (inspected_of q) \<longleftrightarrow> (\<forall>h. G h q)"
  "guarded G (created_of q) \<longleftrightarrow> (\<forall>h. G h q)"
  "guarded G (listed_of q) \<longleftrightarrow> (\<forall>h. G h q)"
  by (simp_all add: guarded_def)

lemmas guarded_host_rules = guarded_host_asks[THEN iffD2]

text \<open>A guard that only has to hold while something is known of the history that is never forgotten.\<close>

lemma wp_under:
  assumes "wp (\<lambda>h q. I h \<longrightarrow> G h q) Q m h" and "I h" and "\<And>h q r. I h \<Longrightarrow> I (h @ [(q, r)])"
  shows "wp G Q m h"
  using assms(1,2) by (induction m arbitrary: h) (auto intro: assms(3))

end
