(* ===== verification/GitCheckouts.thy ===== *)
theory GitCheckouts
  imports HostEffects
begin

text \<open>
  Source checkouts on the host: \<open>internal/runtime/git_runtime.go\<close> and \<open>source_dirty.go\<close>. A sync clones a repository into
  a staging directory and moves it into place, or brings an existing checkout up to date, by the Git of the host when
  there is one and by the Git library otherwise. Reading a remote tree descends as deep as the tree is; the depth is
  bounded by a parameter, which a tree of path names the host can open never exceeds.

  Shown: a sync never gives up work that only exists in a checkout, credentials go to GitHub over HTTPS only, and a
  checkout that is called clean was seen clean.
\<close>

subsection \<open>Errors\<close>

text \<open>An error of the package: \<open>GitSyncError\<close> with its category, its message and the error it wraps, or another one.\<close>

datatype git_error = GitSyncError string string "go_error option" | GitPlain go_error

fun git_error_text :: "git_error \<Rightarrow> string" where
  "git_error_text (GitSyncError category message err) =
     (if message \<noteq> [] then message else case err of Some e \<Rightarrow> error_text e | None \<Rightarrow> ''source sync failed'')"
| "git_error_text (GitPlain e) = error_text e"

definition sync_failure :: "string \<Rightarrow> go_error option \<Rightarrow> git_error" where
  "sync_failure category err = GitSyncError category (''fibe_distilled_source_sync_category='' @ category) err"

definition classifyGoGitError :: "go_error \<Rightarrow> git_error" where
  "classifyGoGitError err =
     (let lower = to_lower (error_text err)
      in if containsAny lower [''authentication'', ''authorization'', ''could not read username'', ''permission denied'']
           then sync_failure ''git_auth'' (Some err)
         else if containsAny lower [''repository not found'', ''not found'']
           then GitSyncError ''repository_not_found'' ''repository not found'' (Some err)
         else if containsAny lower [''could not resolve host'', ''connection'', ''timeout'']
           then GitSyncError ''network'' ''network failure'' (Some err)
         else GitPlain err)"

definition classified :: "go_error option \<Rightarrow> git_error option" where
  "classified err = map_option classifyGoGitError err"

subsection \<open>URLs and credentials\<close>

definition isGitHubHTTPSURL :: "string \<Rightarrow> bool" where
  "isGitHubHTTPSURL raw =
     (case url_parse (trim_space raw) of
        None \<Rightarrow> False
      | Some u \<Rightarrow>
          (let host = to_lower (url_hostname u)
           in u_scheme u = ''https'' \<and> (host = ''github.com'' \<or> has_suffix host ''.github.com'')))"

definition gitRemoteURL :: "string \<Rightarrow> string" where
  "gitRemoteURL raw =
     (case url_parse (trim_space raw) of None \<Rightarrow> raw | Some u \<Rightarrow> url_string (u\<lparr>u_user := None\<rparr>))"

definition gitAuthHeader :: "string \<Rightarrow> string \<Rightarrow> string" where
  "gitAuthHeader repoURL token0 =
     (if \<not> isGitHubHTTPSURL repoURL then []
      else let token = trim_space token0
           in if token = [] then [] else ''Authorization: Basic '' @ base64_encode (''x-access-token:'' @ token))"

text \<open>The password of the user \<open>x-access-token\<close>.\<close>

definition gitAuth :: "string \<Rightarrow> string \<Rightarrow> string option" where
  "gitAuth repoURL token0 =
     (if \<not> isGitHubHTTPSURL repoURL then None
      else let token = trim_space token0 in if token = [] then None else Some token)"

definition auth_of :: "git_request \<Rightarrow> string option" where
  "auth_of req = gitAuth (gr_repo_url req) (gr_token req)"

definition branch_ref :: "string \<Rightarrow> string" where
  "branch_ref branch = ''refs/heads/'' @ branch"

definition origin_branch :: "string \<Rightarrow> string" where
  "origin_branch branch = ''origin/'' @ branch"

definition upstream_ref :: "string \<Rightarrow> string" where
  "upstream_ref branch = ''refs/remotes/origin/'' @ branch"

subsection \<open>Native Git\<close>

definition git_argv :: "string \<Rightarrow> git_request \<Rightarrow> bool \<Rightarrow> string list \<Rightarrow> string list" where
  "git_argv local req withAuth args =
     (let header = gitAuthHeader (gr_repo_url req) (gr_token req)
      in (if withAuth \<and> header \<noteq> [] then [''-c'', ''http.extraHeader='' @ header] else []) @ [''-C'', local] @ args)"

definition runGitCLIOutput :: "string \<Rightarrow> git_request \<Rightarrow> bool \<Rightarrow> string list \<Rightarrow> (go_error + string) host" where
  "runGitCLIOutput local req withAuth args =
     bind (output_of (RunGit (git_argv local req withAuth args))) (\<lambda>(output, err). Ret (case err of
       Some e \<Rightarrow> Inl (ErrText (''git '' @ (case args of [] \<Rightarrow> ''command'' | a # _ \<Rightarrow> a) @ '' failed: '' @ error_text e @ '': '' @
         trim_space output))
     | None \<Rightarrow> Inr output))"

definition runGitCLI :: "string \<Rightarrow> git_request \<Rightarrow> bool \<Rightarrow> string list \<Rightarrow> (go_error option) host" where
  "runGitCLI local req withAuth args =
     bind (runGitCLIOutput local req withAuth args) (\<lambda>x. Ret (case x of Inl e \<Rightarrow> Some e | Inr _ \<Rightarrow> None))"

definition zero_git_request :: git_request where
  "zero_git_request = \<lparr>gr_project = [], gr_service = [], gr_repo_url = [], gr_branch = [], gr_target = [], gr_token = []\<rparr>"

definition status_args :: "string list" where
  "status_args = [''status'', ''--porcelain=v1'', ''--untracked-files=all'']"

text \<open>Whether the worktree is clean, whether Git was there to ask, and the error.\<close>

definition cleanGitWorktreeWithCLI :: "string \<Rightarrow> (bool \<times> bool \<times> git_error option) host" where
  "cleanGitWorktreeWithCLI local =
     bind (present LookGit) (\<lambda>available.
       if \<not> available then Ret (False, False, None)
       else bind (runGitCLIOutput local zero_git_request False status_args) (\<lambda>x. Ret (case x of
              Inl e \<Rightarrow> (False, True, Some (classifyGoGitError e))
            | Inr output \<Rightarrow> (trim_space output = [], True, None))))"

definition requireCleanGitCLIWorktree :: "string \<Rightarrow> (git_error option) host" where
  "requireCleanGitCLIWorktree local =
     bind (cleanGitWorktreeWithCLI local) (\<lambda>(clean, _, err). Ret (case err of
       Some e \<Rightarrow> Some e
     | None \<Rightarrow> if \<not> clean then Some (sync_failure ''dirty_work'' None) else None))"

text \<open>A call whose error is replaced.\<close>

definition failing_as :: "(go_error \<Rightarrow> git_error) \<Rightarrow> (go_error option) host \<Rightarrow> (git_error option) host" where
  "failing_as f m = bind m (\<lambda>err. Ret (map_option f err))"

definition refreshGitCLIOrigin :: "string \<Rightarrow> git_request \<Rightarrow> string \<Rightarrow> (git_error option) host" where
  "refreshGitCLIOrigin local req upstream =
     and_next (failing_as classifyGoGitError
         (runGitCLI local req False [''remote'', ''set-url'', ''origin'', gitRemoteURL (gr_repo_url req)]))
       (and_next (failing_as classifyGoGitError (runGitCLI local req True [''fetch'', ''--all'', ''--prune'']))
         (failing_as (\<lambda>e. sync_failure ''missing_upstream'' (Some e))
           (runGitCLI local req False [''rev-parse'', ''--verify'', upstream])))"

definition checkoutGitCLIBranch :: "string \<Rightarrow> git_request \<Rightarrow> string \<Rightarrow> (git_error option) host" where
  "checkoutGitCLIBranch local req upstream =
     bind (runGitCLI local req False [''checkout'', gr_branch req]) (\<lambda>err. case err of
       None \<Rightarrow> Ret None
     | Some e \<Rightarrow>
         failing_as (\<lambda>createErr. sync_failure ''checkout_failed'' (Some (ErrJoin [e, createErr])))
           (runGitCLI local req False [''checkout'', ''-b'', gr_branch req, upstream]))"

definition history_unverifiable :: "go_error \<Rightarrow> git_error" where
  "history_unverifiable e = sync_failure ''history_unverifiable'' (Some e)"

text \<open>What the two counts of \<open>rev-list\<close> say: the commits only the checkout has, and those only the upstream has.\<close>

definition counted_relation :: "string \<Rightarrow> git_error + string" where
  "counted_relation output =
     (case str_fields (trim_space output) of
        [a, b] \<Rightarrow>
          (case (parse_uint64 a, parse_uint64 b) of
             (Inr ahead, Inr behind) \<Rightarrow> Inr (if ahead > 0 \<and> behind > 0 then ''diverged'' else if ahead > 0 then ''ahead'' else ''ok'')
           | (x, y) \<Rightarrow> Inl (history_unverifiable (ErrJoin
               ((case x of Inl e \<Rightarrow> [e] | Inr _ \<Rightarrow> []) @ (case y of Inl e \<Rightarrow> [e] | Inr _ \<Rightarrow> [])))))
      | _ \<Rightarrow> Inl (history_unverifiable (ErrText ''unexpected rev-list count output'')))"

definition count_args :: "string \<Rightarrow> string list" where
  "count_args upstream = [''rev-list'', ''--left-right'', ''--count'', ''HEAD...'' @ upstream]"

definition gitCLIBranchRelation :: "string \<Rightarrow> git_request \<Rightarrow> string \<Rightarrow> (git_error + string) host" where
  "gitCLIBranchRelation local req upstream =
     bind (runGitCLIOutput local req False (count_args upstream)) (\<lambda>x. Ret (case x of
       Inl e \<Rightarrow> Inl (history_unverifiable e) | Inr output \<Rightarrow> counted_relation output))"

text \<open>The relations that stop a sync.\<close>

definition relation_failure :: "string \<Rightarrow> git_error option" where
  "relation_failure relation =
     (if relation = ''ahead'' \<or> relation = ''diverged'' then Some (sync_failure relation None) else None)"

definition ensureGitCLIFFOnlyBranch :: "string \<Rightarrow> git_request \<Rightarrow> string \<Rightarrow> (git_error option) host" where
  "ensureGitCLIFFOnlyBranch local req upstream =
     on_value (gitCLIBranchRelation local req upstream) (\<lambda>e. e) (\<lambda>relation. Ret (relation_failure relation))"

text \<open>\<open>None\<close> when Git is not there.\<close>

definition updateGitCheckoutWithCLI :: "string \<Rightarrow> git_request \<Rightarrow> (git_error option option) host" where
  "updateGitCheckoutWithCLI local req =
     (let upstream = origin_branch (gr_branch req)
      in bind (present LookGit) (\<lambda>available.
           if \<not> available then Ret None
           else bind (and_next (requireCleanGitCLIWorktree local)
                  (and_next (refreshGitCLIOrigin local req upstream)
                    (and_next (checkoutGitCLIBranch local req upstream)
                      (and_next (ensureGitCLIFFOnlyBranch local req upstream)
                        (failing_as classifyGoGitError
                          (runGitCLI local req True [''pull'', ''--ff-only'', ''origin'', gr_branch req]))))))
                  (\<lambda>err. Ret (Some err))))"

subsection \<open>The Git library\<close>

definition unless_up_to_date :: "git_end \<Rightarrow> git_error option" where
  "unless_up_to_date r = (case r of GitFailed e \<Rightarrow> Some (classifyGoGitError e) | _ \<Rightarrow> None)"

text \<open>The worktree that is opened stands for the repository it belongs to.\<close>

definition cleanGitWorktree :: "string \<Rightarrow> (git_error option) host" where
  "cleanGitWorktree local =
     and_next (failing_as classifyGoGitError (end_of (OpenWorktree local)))
       (on_value (checked_of (WorktreeStatus local)) classifyGoGitError
         (\<lambda>clean. Ret (if \<not> clean then Some (sync_failure ''dirty_work'' None) else None)))"

definition resetOrigin :: "string \<Rightarrow> string \<Rightarrow> (go_error option) host" where
  "resetOrigin local url = bind (end_of (DeleteRemote local)) (\<lambda>_. end_of (CreateRemote local url))"

definition fetchOrigin :: "string \<Rightarrow> git_request \<Rightarrow> (git_error option) host" where
  "fetchOrigin local req = bind (git_end_of (FetchRefs local (auth_of req))) (\<lambda>r. Ret (unless_up_to_date r))"

definition checkoutBranch :: "string \<Rightarrow> string \<Rightarrow> string \<Rightarrow> (go_error option) host" where
  "checkoutBranch local branchRef upstreamRef =
     bind (end_of (CheckoutBranch local branchRef)) (\<lambda>err. case err of
       None \<Rightarrow> Ret None
     | Some _ \<Rightarrow>
         on_value (hash_of (ReadReference local upstreamRef)) (\<lambda>e. e)
           (\<lambda>hash. end_of (CreateBranch local branchRef hash)))"

definition checkoutRequestedBranch :: "string \<Rightarrow> string \<Rightarrow> (git_error option) host" where
  "checkoutRequestedBranch local branch =
     on_value (hash_of (ReadReference local (upstream_ref branch))) (\<lambda>e. sync_failure ''missing_upstream'' (Some e))
       (\<lambda>_. failing_as (\<lambda>e. sync_failure ''checkout_failed'' (Some e))
              (checkoutBranch local (branch_ref branch) (upstream_ref branch)))"

text \<open>How the history of the branch relates to that of its upstream.\<close>

definition branchRelation :: "string \<Rightarrow> string \<Rightarrow> string \<Rightarrow> (go_error + string) host" where
  "branchRelation dir branchRef upstreamRef =
     bind (hash_of (ReadReference dir branchRef)) (\<lambda>x. case x of Inl e \<Rightarrow> Ret (Inl e) | Inr local \<Rightarrow>
     bind (hash_of (ReadReference dir upstreamRef)) (\<lambda>y. case y of Inl e \<Rightarrow> Ret (Inl e) | Inr upstream \<Rightarrow>
       if local = upstream then Ret (Inr ''same'')
       else bind (hashes_of (LogFrom dir local)) (\<lambda>a. case a of Inl e \<Rightarrow> Ret (Inl e) | Inr localAncestors \<Rightarrow>
            bind (hashes_of (LogFrom dir upstream)) (\<lambda>b. case b of Inl e \<Rightarrow> Ret (Inl e) | Inr upstreamAncestors \<Rightarrow>
              Ret (Inr (if local \<in> set upstreamAncestors then ''behind''
                        else if upstream \<in> set localAncestors then ''ahead'' else ''diverged''))))))"

definition verifyBranchRelation :: "string \<Rightarrow> string \<Rightarrow> string \<Rightarrow> (git_error option) host" where
  "verifyBranchRelation local branchRef upstreamRef =
     on_value (branchRelation local branchRef upstreamRef) history_unverifiable (\<lambda>state. Ret (relation_failure state))"

definition pullGitBranch :: "string \<Rightarrow> string \<Rightarrow> git_request \<Rightarrow> (git_error option) host" where
  "pullGitBranch local branchRef req =
     bind (git_end_of (PullBranch local branchRef (auth_of req))) (\<lambda>r. Ret (unless_up_to_date r))"

definition syncGitBranch :: "string \<Rightarrow> git_request \<Rightarrow> (git_error option) host" where
  "syncGitBranch local req =
     (let branchRef = branch_ref (gr_branch req); upstreamRef = upstream_ref (gr_branch req)
      in and_next (checkoutRequestedBranch local (gr_branch req))
           (and_next (verifyBranchRelation local branchRef upstreamRef) (pullGitBranch local branchRef req)))"

definition updateGitCheckoutWithGoGit :: "string \<Rightarrow> git_request \<Rightarrow> (git_error option) host" where
  "updateGitCheckoutWithGoGit local req =
     and_next (failing_as classifyGoGitError (end_of (PlainOpen local)))
       (and_next (cleanGitWorktree local)
         (and_next (failing_as classifyGoGitError (resetOrigin local (gitRemoteURL (gr_repo_url req))))
           (and_next (fetchOrigin local req) (syncGitBranch local req))))"

definition updateGitCheckout :: "string \<Rightarrow> git_request \<Rightarrow> (git_error option) host" where
  "updateGitCheckout local req =
     bind (updateGitCheckoutWithCLI local req) (\<lambda>r. case r of
       Some err \<Rightarrow> Ret err | None \<Rightarrow> updateGitCheckoutWithGoGit local req)"

definition cloneGitCheckout :: "string \<Rightarrow> git_request \<Rightarrow> (git_error option) host" where
  "cloneGitCheckout local req =
     failing_as classifyGoGitError
       (end_of (PlainClone local (gitRemoteURL (gr_repo_url req)) (branch_ref (gr_branch req)) (auth_of req)))"

subsection \<open>Trees of files\<close>

definition remotePathExists :: "string \<Rightarrow> (go_error + bool) host" where
  "remotePathExists path =
     bind (info_of (StatFile path)) (\<lambda>x. Ret (case x of
       Inr _ \<Rightarrow> Inr True | Inl e \<Rightarrow> if is_file_missing e then Inr False else Inl e))"

definition downloadRemoteFile :: "string \<Rightarrow> string \<Rightarrow> file_info \<Rightarrow> (go_error option) host" where
  "downloadRemoteFile remotePath localPath info =
     on_value (content_of (ReadRemoteFile remotePath)) (\<lambda>e. e) (\<lambda>content. end_of (WriteLocal localPath content (fi_perm info)))"

text \<open>Symbolic links are left out.\<close>

primrec downloadRemoteDir :: "nat \<Rightarrow> string \<Rightarrow> string \<Rightarrow> (go_error option) host" where
  "downloadRemoteDir 0 remotePath localPath = Stuck"
| "downloadRemoteDir (Suc depth) remotePath localPath =
     on_value (info_of (StatFile remotePath)) (\<lambda>e. e) (\<lambda>info.
       if \<not> fi_dir info then downloadRemoteFile remotePath localPath info
       else and_next (end_of (MkdirLocal localPath (fi_perm info)))
         (on_value (entries_of (ReadDir remotePath)) (\<lambda>e. e)
           (each_until (\<lambda>entry.
              if fi_symlink entry then Ret None
              else downloadRemoteDir depth (path_join remotePath (fi_name entry)) (path_join localPath (fi_name entry))))))"

definition remoteEntryTarget :: "string \<Rightarrow> go_error + string \<Rightarrow> go_error + string" where
  "remoteEntryTarget remoteRoot rel =
     (case rel of Inl e \<Rightarrow> Inl e | Inr r \<Rightarrow> Inr (if r = ''.'' then remoteRoot else path_join remoteRoot r))"

definition uploadLocalEntry :: "string \<Rightarrow> local_entry \<Rightarrow> (go_error option) host" where
  "uploadLocalEntry remoteRoot entry =
     (case remoteEntryTarget remoteRoot (le_rel entry) of
        Inl e \<Rightarrow> Ret (Some e)
      | Inr target \<Rightarrow>
          (case le_perm entry of
             Inl e \<Rightarrow> Ret (Some e)
           | Inr perm \<Rightarrow>
               if le_dir entry then end_of (MkdirAll target perm)
               else if le_symlink entry then Ret None
               else on_value (content_of (ReadLocal (le_path entry))) (\<lambda>e. e)
                      (\<lambda>content. end_of (WriteRemoteFile target content perm))))"

definition uploadLocalDir :: "string \<Rightarrow> string \<Rightarrow> (go_error option) host" where
  "uploadLocalDir remotePath localPath =
     bind (walk_of (WalkLocal localPath)) (\<lambda>steps.
       each_until (\<lambda>step. case step of Inl walkErr \<Rightarrow> Ret (Some walkErr) | Inr entry \<Rightarrow> uploadLocalEntry remotePath entry) steps)"

definition sync_tmp :: "string \<Rightarrow> string" where
  "sync_tmp remotePath = remotePath @ ''.fibe-distilled-sync-tmp''"

text \<open>A step after which the staged tree is removed when it fails.\<close>

definition or_remove :: "string \<Rightarrow> (go_error option) host \<Rightarrow> (go_error option) host" where
  "or_remove tmp m =
     bind m (\<lambda>err. case err of None \<Rightarrow> Ret None | Some e \<Rightarrow> bind (end_of (RemoveAll tmp)) (\<lambda>_. Ret (Some e)))"

definition replaceRemoteDir :: "string \<Rightarrow> string \<Rightarrow> (go_error option) host" where
  "replaceRemoteDir remotePath localPath =
     (let tmp = sync_tmp remotePath
      in and_next (end_of (RemoveAll tmp))
         (and_next (or_remove tmp (uploadLocalDir tmp localPath))
         (and_next (or_remove tmp (end_of (RemoveAll remotePath)))
         (and_next (or_remove tmp (end_of (MkdirAll (path_dir remotePath) 493)))
           (or_remove tmp (end_of (RenameFile tmp remotePath)))))))"

subsection \<open>Syncs\<close>

definition prepareGitSyncRequest :: "git_request \<Rightarrow> go_error + git_request" where
  "prepareGitSyncRequest req0 =
     (let branch = trim_space (gr_branch req0);
          req = req0\<lparr>gr_branch := (if branch = [] then ''main'' else branch)\<rparr>
      in case playgroundBase (gr_project req) of
           Inl e \<Rightarrow> Inl (ErrText e)
         | Inr base \<Rightarrow>
             if \<not> ValidRemoteCheckoutPath (gr_target req) base
             then Inl (ErrText ''source sync path must be an absolute checkout path under this playground'')
             else Inr req)"

text \<open>A fresh clone, moved into place; the staging directory is removed in any case.\<close>

definition clone_into_place :: "git_request \<Rightarrow> (git_error option) host" where
  "clone_into_place req =
     on_value (content_of (MkdirTemp ''fibe-distilled-source-*'')) GitPlain (\<lambda>local.
       bind (and_next (cloneGitCheckout local req) (failing_as GitPlain (replaceRemoteDir (gr_target req) local))) (\<lambda>err.
         bind (end_of (RemoveTemp local)) (\<lambda>_. Ret err)))"

definition Sync :: "git_request \<Rightarrow> (git_error option) host" where
  "Sync req =
     (case prepareGitSyncRequest req of
        Inl e \<Rightarrow> Ret (Some (GitPlain e))
      | Inr prepared \<Rightarrow>
          on_value (remotePathExists (gr_target prepared)) GitPlain (\<lambda>targetExists.
          on_value (remotePathExists (gr_target prepared @ ''/.git'')) GitPlain (\<lambda>gitExists.
            if targetExists \<and> \<not> gitExists
            then Ret (Some (sync_failure ''checkout_failed'' (Some (ErrText ''source path exists without .git''))))
            else if gitExists then updateGitCheckout (gr_target prepared) prepared
            else clone_into_place prepared)))"

definition sync_source :: "git_request \<Rightarrow> (git_error option) host" where
  "sync_source req =
     (case playgroundBase (gr_project req) of Inl e \<Rightarrow> Ret (Some (GitPlain (ErrText e))) | Inr _ \<Rightarrow> Sync req)"

subsection \<open>Dirty checkouts and heads\<close>

text \<open>Whether there is something to look into.\<close>

definition remoteCheckoutReady :: "string \<Rightarrow> (bool \<times> go_error option) host" where
  "remoteCheckoutReady path =
     bind (remotePathExists path) (\<lambda>x. case x of
       Inl e \<Rightarrow> Ret (False, Some e)
     | Inr exists \<Rightarrow>
         if \<not> exists then Ret (False, None)
         else bind (remotePathExists (path @ ''/.git'')) (\<lambda>y. Ret (True, case y of Inl e \<Rightarrow> Some e | Inr _ \<Rightarrow> None)))"

text \<open>The staged copy, looked at by Git, or by the library when there is no Git.\<close>

definition staged_status :: "string \<Rightarrow> (bool \<times> git_error option) host" where
  "staged_status local =
     bind (cleanGitWorktreeWithCLI local) (\<lambda>(clean, ok, err).
       if ok then Ret (\<not> clean, err)
       else bind (end_of (PlainOpen local)) (\<lambda>e. case e of Some x \<Rightarrow> Ret (True, Some (GitPlain x)) | None \<Rightarrow>
            bind (end_of (OpenWorktree local)) (\<lambda>e. case e of Some x \<Rightarrow> Ret (True, Some (GitPlain x)) | None \<Rightarrow>
            bind (checked_of (WorktreeStatus local)) (\<lambda>s. Ret (case s of
              Inl x \<Rightarrow> (True, Some (GitPlain x)) | Inr c \<Rightarrow> (\<not> c, None))))))"

definition stagedCheckoutDirty :: "nat \<Rightarrow> string \<Rightarrow> (bool \<times> git_error option) host" where
  "stagedCheckoutDirty depth path =
     bind (content_of (MkdirTemp ''fibe-distilled-dirty-*'')) (\<lambda>x. case x of
       Inl e \<Rightarrow> Ret (False, Some (GitPlain e))
     | Inr local \<Rightarrow>
         bind (bind (downloadRemoteDir depth path local) (\<lambda>err. case err of
             Some e \<Rightarrow> Ret (True, Some (GitPlain e))
           | None \<Rightarrow> staged_status local)) (\<lambda>result.
           bind (end_of (RemoveTemp local)) (\<lambda>_. Ret result)))"

definition remoteCheckoutDirty :: "nat \<Rightarrow> string \<Rightarrow> (bool \<times> git_error option) host" where
  "remoteCheckoutDirty depth path =
     bind (remoteCheckoutReady path) (\<lambda>(ready, err).
       if err \<noteq> None \<or> \<not> ready then Ret (\<not> ready, map_option GitPlain err)
       else stagedCheckoutDirty depth path)"

definition dirty_path_error :: "string \<Rightarrow> string \<Rightarrow> go_error" where
  "dirty_path_error path base = ErrText (''source dirty path '' @ go_quote path @ '' must be under '' @ base @ ''/props'')"

primrec dirty_paths :: "nat \<Rightarrow> string \<Rightarrow> string list \<Rightarrow> string list \<Rightarrow> (go_error + string list) host" where
  "dirty_paths depth base dirty [] = Ret (Inr dirty)"
| "dirty_paths depth base dirty (p # ps) =
     (if \<not> ValidRemoteCheckoutPath p base then Ret (Inl (dirty_path_error p base))
      else bind (remoteCheckoutDirty depth p) (\<lambda>(isDirty, err).
             dirty_paths depth base (if err \<noteq> None \<or> isDirty then dirty @ [p] else dirty) ps))"

definition DirtyPaths :: "nat \<Rightarrow> string \<Rightarrow> string list \<Rightarrow> (go_error + string list) host" where
  "DirtyPaths depth project sourcePaths =
     (case playgroundBase project of
        Inl e \<Rightarrow> Ret (Inl (ErrText e))
      | Inr base \<Rightarrow> dirty_paths depth base [] sourcePaths)"

definition source_dirty_paths :: "nat \<Rightarrow> string \<Rightarrow> string list \<Rightarrow> (go_error + string list) host" where
  "source_dirty_paths depth project paths =
     (case playgroundBase project of Inl e \<Rightarrow> Ret (Inl (ErrText e)) | Inr _ \<Rightarrow> DirtyPaths depth project paths)"

definition Head :: "nat \<Rightarrow> string \<Rightarrow> string \<Rightarrow> (go_error + string) host" where
  "Head depth project path =
     (case playgroundBase project of
        Inl e \<Rightarrow> Ret (Inl (ErrText e))
      | Inr base \<Rightarrow>
          if \<not> ValidRemoteCheckoutPath path base
          then Ret (Inl (ErrText ''source commit path must be an absolute checkout path under this playground''))
          else bind (content_of (MkdirTemp ''fibe-distilled-head-*'')) (\<lambda>x. case x of
                 Inl e \<Rightarrow> Ret (Inl e)
               | Inr local \<Rightarrow>
                   bind (bind (downloadRemoteDir depth path local) (\<lambda>err. case err of
                       Some e \<Rightarrow> Ret (Inl e)
                     | None \<Rightarrow> bind (end_of (PlainOpen local)) (\<lambda>opened. case opened of
                         Some e \<Rightarrow> Ret (Inl e) | None \<Rightarrow> hash_of (HeadRef local)))) (\<lambda>result.
                     bind (end_of (RemoveTemp local)) (\<lambda>_. Ret result))))"

subsection \<open>What a sync may do to a checkout\<close>

text \<open>The directory and the command of an argument vector.\<close>

definition git_dir :: "string list \<Rightarrow> string" where
  "git_dir argv = (if take 1 argv = [''-c''] then argv ! 3 else argv ! 1)"

definition git_command :: "string list \<Rightarrow> string list" where
  "git_command argv = (if take 1 argv = [''-c''] then drop 4 argv else drop 2 argv)"

lemma git_argv_parts [simp]:
  "git_dir (git_argv local req a args) = local" "git_command (git_argv local req a args) = args"
  by (simp_all add: git_argv_def git_dir_def git_command_def Let_def numeral_eq_Suc)

definition seen_clean :: "host_log \<Rightarrow> string \<Rightarrow> bool" where
  "seen_clean h local =
     ((\<exists>argv output. (RunGit argv, Output (output, None)) \<in> set h \<and> git_dir argv = local \<and> git_command argv = status_args \<and>
         trim_space output = []) \<or>
      (WorktreeStatus local, Checked (Inr True)) \<in> set h)"

text \<open>The branch that is checked out has no commit its upstream does not have.\<close>

definition seen_contained :: "host_log \<Rightarrow> string \<Rightarrow> string \<Rightarrow> bool" where
  "seen_contained h local branch =
     ((\<exists>argv output. (RunGit argv, Output (output, None)) \<in> set h \<and> git_dir argv = local \<and>
         git_command argv = count_args (origin_branch branch) \<and> counted_relation output = Inr ''ok'') \<or>
      (\<exists>l u. (ReadReference local (branch_ref branch), Hash (Inr l)) \<in> set h \<and>
         (ReadReference local (upstream_ref branch), Hash (Inr u)) \<in> set h \<and>
         (l = u \<or> (\<exists>cs. (LogFrom local u, Hashes (Inr cs)) \<in> set h \<and> l \<in> set cs))))"

definition seen_absent :: "host_log \<Rightarrow> string \<Rightarrow> bool" where
  "seen_absent h path = (\<exists>e. (StatFile path, Info (Inl e)) \<in> set h \<and> is_file_missing e)"

definition below :: "string \<Rightarrow> string \<Rightarrow> bool" where
  "below root path = (path = root \<or> (\<exists>rel. path = path_join root rel))"

definition checkout_guard :: "string \<Rightarrow> string \<Rightarrow> host_log \<Rightarrow> host_request \<Rightarrow> bool" where
  "checkout_guard target branch h q =
     (case q of
        RunGit argv \<Rightarrow> git_dir argv = target \<and>
          (git_command argv = status_args \<or>
           seen_clean h target \<and>
           (hd (git_command argv) = ''pull'' \<longrightarrow>
              git_command argv = [''pull'', ''--ff-only'', ''origin'', branch] \<and> seen_contained h target branch))
      | PullBranch local ref _ \<Rightarrow> local = target \<and> ref = branch_ref branch \<and> seen_clean h target \<and> seen_contained h target branch
      | CheckoutBranch local _ \<Rightarrow> local = target \<and> seen_clean h target
      | CreateBranch local _ _ \<Rightarrow> local = target \<and> seen_clean h target
      | DeleteRemote local \<Rightarrow> local = target \<and> seen_clean h target
      | CreateRemote local _ \<Rightarrow> local = target \<and> seen_clean h target
      | FetchRefs local _ \<Rightarrow> local = target \<and> seen_clean h target
      | RemoveAll path \<Rightarrow> path = sync_tmp target \<or>
          path = target \<and> seen_absent h target \<and> seen_absent h (target @ ''/.git'')
      | MkdirAll path _ \<Rightarrow> below (sync_tmp target) path \<or> path = path_dir target
      | WriteRemoteFile path _ _ \<Rightarrow> below (sync_tmp target) path
      | RenameFile from to \<Rightarrow> from = sync_tmp target \<and> to = target \<and> seen_absent h target \<and> seen_absent h (target @ ''/.git'')
      | PlainClone local _ _ _ \<Rightarrow> \<exists>t. (MkdirTemp t, Content (Inr local)) \<in> set h
      | RemoveTemp local \<Rightarrow> \<exists>t. (MkdirTemp t, Content (Inr local)) \<in> set h
      | StatFile _ \<Rightarrow> True | LookGit \<Rightarrow> True | MkdirTemp _ \<Rightarrow> True | WalkLocal _ \<Rightarrow> True | ReadLocal _ \<Rightarrow> True
      | PlainOpen _ \<Rightarrow> True | OpenWorktree _ \<Rightarrow> True | WorktreeStatus _ \<Rightarrow> True | ReadReference _ _ \<Rightarrow> True | LogFrom _ _ \<Rightarrow> True
      | _ \<Rightarrow> False)"

lemma checkout_guard_simps [simp]:
  "checkout_guard t b h (StatFile p)" "checkout_guard t b h LookGit" "checkout_guard t b h (MkdirTemp p)" "checkout_guard t b h (WalkLocal p)"
  "checkout_guard t b h (ReadLocal p)" "checkout_guard t b h (PlainOpen p)" "checkout_guard t b h (OpenWorktree p)"
  "checkout_guard t b h (WorktreeStatus p)" "checkout_guard t b h (ReadReference p x)" "checkout_guard t b h (LogFrom p x)"
  "checkout_guard t b h (CheckoutBranch d x) = (d = t \<and> seen_clean h t)"
  "checkout_guard t b h (CreateBranch d x y) = (d = t \<and> seen_clean h t)"
  "checkout_guard t b h (DeleteRemote d) = (d = t \<and> seen_clean h t)"
  "checkout_guard t b h (CreateRemote d u) = (d = t \<and> seen_clean h t)"
  "checkout_guard t b h (FetchRefs d a) = (d = t \<and> seen_clean h t)"
  "checkout_guard t b h (PullBranch d x a) = (d = t \<and> x = branch_ref b \<and> seen_clean h t \<and> seen_contained h t b)"
  "checkout_guard t b h (PlainClone d u x a) = (\<exists>n. (MkdirTemp n, Content (Inr d)) \<in> set h)"
  "checkout_guard t b h (RemoveTemp d) = (\<exists>n. (MkdirTemp n, Content (Inr d)) \<in> set h)"
  "checkout_guard t b h (WriteRemoteFile p c m) = below (sync_tmp t) p"
  "checkout_guard t b h (MkdirAll p m) = (below (sync_tmp t) p \<or> p = path_dir t)"
  "checkout_guard t b h (RemoveAll p) = (p = sync_tmp t \<or> p = t \<and> seen_absent h t \<and> seen_absent h (t @ ''/.git''))"
  "checkout_guard t b h (RenameFile p p') = (p = sync_tmp t \<and> p' = t \<and> seen_absent h t \<and> seen_absent h (t @ ''/.git''))"
  by (simp_all add: checkout_guard_def)

lemma checkout_guard_git [simp]:
  "checkout_guard t b h (RunGit (git_argv d req a args)) =
     (d = t \<and> (args = status_args \<or> seen_clean h t \<and>
        (hd args = ''pull'' \<longrightarrow> args = [''pull'', ''--ff-only'', ''origin'', b] \<and> seen_contained h t b)))"
  by (simp add: checkout_guard_def)

lemma seen_mono:
  "seen_clean h d \<Longrightarrow> set h \<subseteq> set h' \<Longrightarrow> seen_clean h' d"
  "seen_contained h d b \<Longrightarrow> set h \<subseteq> set h' \<Longrightarrow> seen_contained h' d b"
  "seen_absent h d \<Longrightarrow> set h \<subseteq> set h' \<Longrightarrow> seen_absent h' d"
  unfolding seen_clean_def seen_contained_def seen_absent_def by blast+

lemma seen_append [simp]:
  "seen_clean h d \<Longrightarrow> seen_clean (h @ h') d"
  "seen_contained h d b \<Longrightarrow> seen_contained (h @ h') d b"
  "seen_absent h d \<Longrightarrow> seen_absent (h @ h') d"
  by (auto elim: seen_mono)

lemma seen_last [simp]:
  "trim_space out = [] \<Longrightarrow> seen_clean (h @ [(RunGit (git_argv d req a status_args), Output (out, None))]) d"
  "seen_clean (h @ [(WorktreeStatus d, Checked (Inr True))]) d"
  "counted_relation out = Inr ''ok'' \<Longrightarrow>
     seen_contained (h @ [(RunGit (git_argv d req a (count_args (origin_branch b))), Output (out, None))]) d b"
  "is_file_missing e \<Longrightarrow> seen_absent (h @ [(StatFile p, Info (Inl e))]) p"
  by (fastforce simp: seen_clean_def seen_contained_def seen_absent_def)+

lemma wp_git [simp]:
  "wp G Q (runGitCLIOutput d req a args) h \<longleftrightarrow> G h (RunGit (git_argv d req a args)) \<and>
     (\<forall>out err. Q (h @ [(RunGit (git_argv d req a args), Output (out, err))])
        (case err of Some e \<Rightarrow> Inl (ErrText (''git '' @ (case args of [] \<Rightarrow> ''command'' | x # _ \<Rightarrow> x) @ '' failed: '' @ error_text e @ '': '' @
           trim_space out)) | None \<Rightarrow> Inr out))"
  by (simp add: runGitCLIOutput_def)

lemma wp_runGitCLI:
  assumes "G h (RunGit (git_argv d req a args))"
    and "\<And>out err e. Q (h @ [(RunGit (git_argv d req a args), Output (out, err))]) e"
  shows "wp G Q (runGitCLI d req a args) h"
  using assms by (simp add: runGitCLI_def)

lemma wp_failing_as [simp]: "wp G Q (failing_as f m) h \<longleftrightarrow> wp G (\<lambda>h err. Q h (map_option f err)) m h"
  by (simp add: failing_as_def)

text \<open>Steps that keep what was seen.\<close>

definition keeps_clean :: "string \<Rightarrow> string \<Rightarrow> (git_error option) host \<Rightarrow> bool" where
  "keeps_clean t b m = (\<forall>h. seen_clean h t \<longrightarrow> wp (checkout_guard t b) (\<lambda>h err. seen_clean h t) m h)"

lemma clean_cli: "wp (checkout_guard t b) (\<lambda>h err. err = None \<longrightarrow> seen_clean h t) (requireCleanGitCLIWorktree t) h"
  by (auto simp: requireCleanGitCLIWorktree_def cleanGitWorktreeWithCLI_def simp del: append_assoc split: option.split sum.split)

lemma refresh_cli: "keeps_clean t b (refreshGitCLIOrigin t req upstream)"
  unfolding keeps_clean_def refreshGitCLIOrigin_def runGitCLI_def by (auto simp del: append_assoc split: option.split)

lemma checkout_cli: "keeps_clean t b (checkoutGitCLIBranch t req upstream)"
  unfolding keeps_clean_def checkoutGitCLIBranch_def runGitCLI_def by (auto simp del: append_assoc split: option.split sum.split)

lemma relation_ok: "counted_relation out = Inr x \<Longrightarrow> relation_failure x = None \<Longrightarrow> counted_relation out = Inr ''ok''"
  by (auto simp: counted_relation_def relation_failure_def split: list.splits sum.splits if_splits)

lemma count_hd [simp]: "hd (count_args u) \<noteq> ''pull''"
  by (simp add: count_args_def)

lemma contained_cli:
  assumes "seen_clean h t"
  shows "wp (checkout_guard t b) (\<lambda>h err. seen_clean h t \<and> (err = None \<longrightarrow> seen_contained h t b))
     (ensureGitCLIFFOnlyBranch t req (origin_branch b)) h"
  using assms unfolding ensureGitCLIFFOnlyBranch_def gitCLIBranchRelation_def
  by (auto simp del: append_assoc split: option.split sum.split intro: seen_last(3)[OF relation_ok])

lemma update_cli_wp:
  assumes "gr_branch req = b"
  shows "wp (checkout_guard t b) (\<lambda>_ _. True) (updateGitCheckoutWithCLI t req) h"
proof -
  let ?G = "checkout_guard t b"
  have step: "wp ?G (\<lambda>_ _. True) (and_next m n) h"
    if "keeps_clean t b m" "\<And>h. seen_clean h t \<Longrightarrow> wp ?G (\<lambda>_ _. True) n h" "seen_clean h t" for m n h
    using that unfolding keeps_clean_def wp_and_next by (auto split: option.split elim!: wp_mono)
  have pull: "wp ?G (\<lambda>_ _. True) (failing_as f (runGitCLI t req True [''pull'', ''--ff-only'', ''origin'', gr_branch req])) h"
    if "seen_clean h t" "seen_contained h t b" for f h
    using that assms by (simp add: runGitCLI_def)
  have relation: "wp ?G (\<lambda>_ _. True) (and_next (ensureGitCLIFFOnlyBranch t req (origin_branch (gr_branch req)))
      (failing_as f (runGitCLI t req True [''pull'', ''--ff-only'', ''origin'', gr_branch req]))) h"
    if "seen_clean h t" for f h
    unfolding assms by (intro wp_and_nextI wp_mono[OF contained_cli[OF that]]) (use pull in \<open>auto simp: assms split: option.split\<close>)
  have cleaned: "wp ?G (\<lambda>_ _. True) (and_next (requireCleanGitCLIWorktree t)
      (and_next (refreshGitCLIOrigin t req (origin_branch (gr_branch req)))
        (and_next (checkoutGitCLIBranch t req (origin_branch (gr_branch req)))
          (and_next (ensureGitCLIFFOnlyBranch t req (origin_branch (gr_branch req)))
            (failing_as f (runGitCLI t req True [''pull'', ''--ff-only'', ''origin'', gr_branch req])))))) h" for f h
    unfolding wp_and_next[of _ _ "requireCleanGitCLIWorktree t"]
    by (rule wp_mono[OF clean_cli])
       (auto split: option.split simp del: wp_and_next intro!: step[OF refresh_cli] step[OF checkout_cli] relation)
  show ?thesis
    unfolding updateGitCheckoutWithCLI_def Let_def using cleaned by (simp del: wp_and_next)
qed

subsection \<open>The same with the Git library\<close>

lemma clean_library: "wp (checkout_guard t b) (\<lambda>h err. err = None \<longrightarrow> seen_clean h t) (cleanGitWorktree t) h"
  by (auto simp: cleanGitWorktree_def simp del: append_assoc split: option.split sum.split)

lemma origin_library: "seen_clean h t \<Longrightarrow> wp (checkout_guard t b) (\<lambda>h err. seen_clean h t) (resetOrigin t url) h"
  by (simp add: resetOrigin_def)

lemma fetch_library: "seen_clean h t \<Longrightarrow> wp (checkout_guard t b) (\<lambda>h err. seen_clean h t) (fetchOrigin t req) h"
  by (simp add: fetchOrigin_def)

lemma checkout_library: "seen_clean h t \<Longrightarrow> wp (checkout_guard t b) (\<lambda>h err. seen_clean h t) (checkoutRequestedBranch t b') h"
  by (auto simp: checkoutRequestedBranch_def checkoutBranch_def split: option.split sum.split)

lemma seen_equal:
  "(ReadReference d (branch_ref b), Hash (Inr l)) \<in> set h \<Longrightarrow> (ReadReference d (upstream_ref b), Hash (Inr l)) \<in> set h \<Longrightarrow>
     seen_contained h d b"
  unfolding seen_contained_def by blast

lemma seen_behind:
  "(ReadReference d (branch_ref b), Hash (Inr l)) \<in> set h \<Longrightarrow> (ReadReference d (upstream_ref b), Hash (Inr u)) \<in> set h \<Longrightarrow>
     (LogFrom d u, Hashes (Inr cs)) \<in> set h \<Longrightarrow> l \<in> set cs \<Longrightarrow> seen_contained h d b"
  unfolding seen_contained_def by blast

lemma relation_library:
  "wp (checkout_guard t b) (\<lambda>h' err. set h \<subseteq> set h' \<and> (err = None \<longrightarrow> seen_contained h' t b))
     (verifyBranchRelation t (branch_ref b) (upstream_ref b)) h"
  unfolding verifyBranchRelation_def branchRelation_def
  by (auto simp: relation_failure_def intro: seen_equal seen_behind split: option.split sum.split)

lemma update_library_wp:
  assumes "gr_branch req = b"
  shows "wp (checkout_guard t b) (\<lambda>_ _. True) (updateGitCheckoutWithGoGit t req) h"
proof -
  let ?G = "checkout_guard t b"
  have branch: "wp ?G (\<lambda>_ _. True) (syncGitBranch t req) h" if "seen_clean h t" for h
  proof -
    have pull: "wp ?G (\<lambda>_ _. True) (and_next (verifyBranchRelation t (branch_ref b) (upstream_ref b)) (pullGitBranch t (branch_ref b) req)) h"
      if "seen_clean h t" for h
      using that
      by (intro wp_and_nextI wp_mono[OF relation_library]) (auto simp: pullGitBranch_def split: option.split intro: seen_mono)
    show ?thesis
      unfolding syncGitBranch_def Let_def assms
      by (intro wp_and_nextI wp_mono[OF checkout_library[OF that]]) (use pull in \<open>auto split: option.split\<close>)
  qed
  have fetched: "wp ?G (\<lambda>_ _. True) (and_next (fetchOrigin t req) (syncGitBranch t req)) h" if "seen_clean h t" for h
    by (intro wp_and_nextI wp_mono[OF fetch_library[OF that]]) (use branch in \<open>auto split: option.split\<close>)
  have origin: "wp ?G (\<lambda>_ _. True) (and_next (failing_as f (resetOrigin t url)) (and_next (fetchOrigin t req) (syncGitBranch t req))) h"
    if "seen_clean h t" for f url h
    unfolding wp_and_next wp_failing_as
    by (rule wp_mono[OF origin_library[OF that]]) (use fetched in \<open>auto split: option.split\<close>)
  show ?thesis
    unfolding updateGitCheckoutWithGoGit_def
    by (auto split: option.split simp del: wp_and_next intro!: wp_and_nextI wp_mono[OF clean_library] origin)
qed

lemma update_wp: "gr_branch req = b \<Longrightarrow> wp (checkout_guard t b) (\<lambda>_ _. True) (updateGitCheckout t req) h"
  unfolding updateGitCheckout_def
  by (auto intro!: wp_mono[OF update_cli_wp] simp: update_library_wp split: option.split)

subsection \<open>Clones\<close>

lemma below_tmp: "remoteEntryTarget root rel = Inr target \<Longrightarrow> below root target"
  by (auto simp: remoteEntryTarget_def below_def split: sum.splits if_splits)

lemma guarded_upload: "guarded (\<lambda>h q. I h \<longrightarrow> checkout_guard t b h q) (uploadLocalDir (sync_tmp t) local)"
  unfolding uploadLocalDir_def uploadLocalEntry_def
  by (intro guarded_rules guarded_each_until guarded_host_rules) (auto simp: guarded_host_asks below_tmp)

text \<open>Nothing was there, and the staging directory is one the host made.\<close>

definition free_target :: "string \<Rightarrow> string \<Rightarrow> host_log \<Rightarrow> bool" where
  "free_target t local h =
     (seen_absent h t \<and> seen_absent h (t @ ''/.git'') \<and> (\<exists>n. (MkdirTemp n, Content (Inr local)) \<in> set h))"

lemma guarded_replace: "guarded (\<lambda>h q. free_target t local h \<longrightarrow> checkout_guard t b h q) (replaceRemoteDir t local)"
  unfolding replaceRemoteDir_def Let_def or_remove_def
  by (intro guarded_rules guarded_upload) (auto simp: guarded_host_asks free_target_def)

lemma clone_wp:
  assumes "seen_absent h (gr_target req)" and "seen_absent h (gr_target req @ ''/.git'')"
  shows "wp (checkout_guard (gr_target req) b) (\<lambda>_ _. True) (clone_into_place req) h"
proof -
  let ?t = "gr_target req"
  have body: "guarded (\<lambda>h q. free_target ?t local h \<longrightarrow> checkout_guard ?t b h q)
      (bind (and_next (cloneGitCheckout local req) (failing_as GitPlain (replaceRemoteDir ?t local))) (\<lambda>err.
         bind (end_of (RemoveTemp local)) (\<lambda>_. Ret err)))" for local
    unfolding cloneGitCheckout_def failing_as_def
    by (intro guarded_rules guarded_replace) (auto simp: guarded_host_asks free_target_def)
  have cloned: "wp (checkout_guard ?t b) (\<lambda>_ _. True) (bind (and_next (cloneGitCheckout local req) (failing_as GitPlain (replaceRemoteDir ?t local))) (\<lambda>err.
         bind (end_of (RemoveTemp local)) (\<lambda>_. Ret err))) h'" if "free_target ?t local h'" for local h'
    by (rule wp_under[where I = "free_target ?t local"]) (use body that in \<open>auto simp: guarded_def free_target_def simp del: wp_bind\<close>)
  have "free_target ?t local (h @ [(MkdirTemp n, Content (Inr local))])" for local n
    using assms by (auto simp: free_target_def)
  then show ?thesis
    unfolding clone_into_place_def wp_on_value
    using cloned by (auto simp del: wp_bind split: sum.split)
qed

definition effective_branch :: "git_request \<Rightarrow> string" where
  "effective_branch req = (if trim_space (gr_branch req) = [] then ''main'' else trim_space (gr_branch req))"

lemma prepared_parts:
  "prepareGitSyncRequest req = Inr p \<Longrightarrow> p = req\<lparr>gr_branch := effective_branch req\<rparr>"
  by (auto simp: prepareGitSyncRequest_def effective_branch_def Let_def split: sum.splits if_splits)

lemma exists_wp:
  assumes "\<And>h. G h (StatFile p)"
  shows "wp G (\<lambda>h' x. set h \<subseteq> set h' \<and> (x = Inr False \<longrightarrow> seen_absent h' p)) (remotePathExists p) h"
  using assms by (auto simp: remotePathExists_def split: sum.split)

lemma sync_wp: "wp (checkout_guard (gr_target req) (effective_branch req)) (\<lambda>_ _. True) (Sync req) []"
proof (cases "prepareGitSyncRequest req")
  case (Inr p)
  let ?t = "gr_target req" and ?G = "checkout_guard (gr_target req) (effective_branch req)"
  have p: "gr_target p = ?t" "gr_branch p = effective_branch req" using prepared_parts[OF Inr] by simp_all
  have go: "wp ?G (\<lambda>_ _. True) (if targetExists \<and> \<not> gitExists then Ret (Some e) else if gitExists then updateGitCheckout ?t p else clone_into_place p) h"
    if "\<not> targetExists \<longrightarrow> seen_absent h ?t" "\<not> gitExists \<longrightarrow> seen_absent h (?t @ ''/.git'')" for targetExists gitExists e h
    using that update_wp[of p "effective_branch req" ?t h] clone_wp[of h p "effective_branch req"] p by auto
  have second: "wp ?G (\<lambda>_ _. True) (on_value (remotePathExists (?t @ ''/.git'')) GitPlain (\<lambda>gitExists.
      if targetExists \<and> \<not> gitExists then Ret (Some e) else if gitExists then updateGitCheckout ?t p else clone_into_place p)) h"
    if "\<not> targetExists \<longrightarrow> seen_absent h ?t" for targetExists e h
    unfolding wp_on_value
  proof (rule wp_mono[OF exists_wp[where G = ?G]], simp, goal_cases)
    case (1 h' x)
    then show ?case
    proof (cases x)
      case (Inr gitExists)
      show ?thesis unfolding Inr sum.case by (rule go) (use 1 Inr that in \<open>auto intro: seen_mono\<close>)
    qed simp
  qed
  show ?thesis
    unfolding Sync_def Inr sum.case p wp_on_value[of _ _ "remotePathExists ?t"]
  proof (rule wp_mono[OF exists_wp[where G = ?G]], simp, goal_cases)
    case (1 h' x)
    then show ?case
    proof (cases x)
      case (Inr targetExists)
      show ?thesis unfolding Inr sum.case by (rule second) (use 1 Inr in auto)
    qed simp
  qed
qed (simp add: Sync_def)

text \<open>C11: A sync never gives up work that exists only in a checkout. It works in the one checkout it was asked for. A checkout that is there is switched to another branch, pulled or given another origin only after its status was read, in the same sync, as clean, and it is pulled only after its branch was seen to have no commit the upstream does not have. A directory is removed or moved over only where the host said, in the same sync, that neither the directory nor a repository in it exists; anything else that is written or removed lies in the temporary tree beside it.\<close>

theorem sync_keeps_local_work:
  assumes "trace (sync_source req) (es1 @ (q, r) # es2)"
  shows "checkout_guard (gr_target req) (effective_branch req) es1 q"
proof -
  have "wp (checkout_guard (gr_target req) (effective_branch req)) (\<lambda>_ _. True) (sync_source req) []"
    unfolding sync_source_def using sync_wp by (auto split: sum.split)
  from wp_trace[OF this assms refl] show ?thesis by simp
qed

subsection \<open>Where credentials go\<close>

text \<open>The URL that is handed to Git: the one that was asked for without its user, and nothing in the part that names the
host reads as one.\<close>

definition bare_url :: "string \<Rightarrow> string \<Rightarrow> bool" where
  "bare_url raw url =
     (case url_parse (trim_space raw) of
        None \<Rightarrow> url = raw
      | Some u \<Rightarrow> url = url_string (u\<lparr>u_user := None\<rparr>) \<and> CHR ''@'' \<notin> set (url_authority (u\<lparr>u_user := None\<rparr>)))"

definition own_auth :: "git_request \<Rightarrow> string option \<Rightarrow> bool" where
  "own_auth req auth =
     (auth = None \<or> isGitHubHTTPSURL (gr_repo_url req) \<and> auth = Some (trim_space (gr_token req)))"

definition credential_guard :: "git_request \<Rightarrow> host_request \<Rightarrow> bool" where
  "credential_guard req q =
     (case q of
        RunGit argv \<Rightarrow>
          (argv ! 0 = ''-c'' \<longrightarrow> isGitHubHTTPSURL (gr_repo_url req) \<and>
             argv ! 1 = ''http.extraHeader=Authorization: Basic '' @ base64_encode (''x-access-token:'' @ trim_space (gr_token req))) \<and>
          (\<forall>url. git_command argv = [''remote'', ''set-url'', ''origin'', url] \<longrightarrow> bare_url (gr_repo_url req) url)
      | PlainClone _ url _ auth \<Rightarrow> bare_url (gr_repo_url req) url \<and> own_auth req auth
      | CreateRemote _ url \<Rightarrow> bare_url (gr_repo_url req) url
      | FetchRefs _ auth \<Rightarrow> own_auth req auth
      | PullBranch _ _ auth \<Rightarrow> own_auth req auth
      | _ \<Rightarrow> True)"

lemma credential_guard_simps [simp]:
  "credential_guard req (StatFile p)" "credential_guard req LookGit" "credential_guard req (MkdirTemp p)"
  "credential_guard req (WalkLocal p)" "credential_guard req (ReadLocal p)" "credential_guard req (PlainOpen p)"
  "credential_guard req (OpenWorktree p)" "credential_guard req (WorktreeStatus p)" "credential_guard req (ReadReference p x)"
  "credential_guard req (LogFrom p x)" "credential_guard req (CheckoutBranch p x)" "credential_guard req (CreateBranch p x y)"
  "credential_guard req (DeleteRemote p)" "credential_guard req (RemoveTemp p)" "credential_guard req (RemoveAll p)"
  "credential_guard req (MkdirAll p m)" "credential_guard req (WriteRemoteFile p c m)" "credential_guard req (RenameFile p x)"
  by (simp_all add: credential_guard_def)

lemma escaped_byte: "CHR ''@'' \<notin> set (if should_escape UrlHost c then [CHR ''%'', upper_hex (byte_of c div 16), upper_hex (byte_of c mod 16)] else [c])"
proof -
  have hex: "upper_hex n \<noteq> CHR ''@''" if "n < 16" for n
  proof -
    have "list_all (\<lambda>n. upper_hex n \<noteq> CHR ''@'') [0..<16]" by code_simp
    then show ?thesis using that by (simp add: list_all_iff)
  qed
  have "should_escape UrlHost (CHR ''@'')" by code_simp
  moreover have "byte_of c < 256" by simp
  then have "byte_of c div 16 < 16" "byte_of c mod 16 < 16"
    using less_mult_imp_div_less[of "byte_of c" 16 16] by simp_all
  ultimately show ?thesis using hex[of "byte_of c div 16"] hex[of "byte_of c mod 16"] by auto
qed

lemma escaped_chars: "CHR ''@'' \<notin> set (escape_part UrlHost s)"
  unfolding escape_part_def using escaped_byte by (induction s) (simp_all only: list.map concat.simps set_append Un_iff, simp_all)

lemma bare_remote: "bare_url raw (gitRemoteURL raw)"
  using escaped_chars by (auto simp: bare_url_def gitRemoteURL_def url_authority_def split: option.split)

lemma own_auth_of: "own_auth req (gitAuth (gr_repo_url req) (gr_token req))"
  by (simp add: own_auth_def gitAuth_def Let_def)

lemma header_guard:
  assumes "\<And>url. args = [''remote'', ''set-url'', ''origin'', url] \<Longrightarrow> bare_url (gr_repo_url req) url"
  shows "credential_guard req (RunGit (git_argv local req a args))" "credential_guard req (RunGit (git_argv local zero_git_request False status_args))"
proof -
  have "git_argv local req a args ! 0 = ''-c'' \<Longrightarrow> isGitHubHTTPSURL (gr_repo_url req) \<and>
      git_argv local req a args ! 1 = ''http.extraHeader=Authorization: Basic '' @ base64_encode (''x-access-token:'' @ trim_space (gr_token req))"
    by (auto simp: git_argv_def gitAuthHeader_def Let_def split: if_splits)
  with assms show "credential_guard req (RunGit (git_argv local req a args))" by (simp add: credential_guard_def)
  show "credential_guard req (RunGit (git_argv local zero_git_request False status_args))"
    by (simp add: credential_guard_def) (simp add: git_argv_def status_args_def Let_def)
qed

lemma credentials_with_branch [simp]: "credential_guard (req\<lparr>gr_branch := b\<rparr>) = credential_guard req"
proof
  fix q
  show "credential_guard (req\<lparr>gr_branch := b\<rparr>) q = credential_guard req q"
    by (cases q) (simp_all add: credential_guard_def own_auth_def)
qed

lemma guarded_runGit [guarded_rules]:
  "(\<And>h. G h (RunGit (git_argv local req a args))) \<Longrightarrow> guarded G (runGitCLIOutput local req a args)"
  "(\<And>h. G h (RunGit (git_argv local req a args))) \<Longrightarrow> guarded G (runGitCLI local req a args)"
  by (auto simp: guarded_def runGitCLI_def)

lemma guarded_failing_as [guarded_rules]: "guarded G m \<Longrightarrow> guarded G (failing_as f m)"
  unfolding failing_as_def by (intro guarded_rules)

lemma sync_credentials: "guarded (\<lambda>_. credential_guard req) (Sync req)"
proof (cases "prepareGitSyncRequest req")
  case (Inr p)
  let ?G = "\<lambda>_ :: host_log. credential_guard p"
  note p = prepared_parts[OF Inr]
  have cli: "guarded ?G (updateGitCheckoutWithCLI t p)" for t
    unfolding updateGitCheckoutWithCLI_def Let_def requireCleanGitCLIWorktree_def cleanGitWorktreeWithCLI_def refreshGitCLIOrigin_def
      checkoutGitCLIBranch_def ensureGitCLIFFOnlyBranch_def gitCLIBranchRelation_def
    by (intro guarded_rules) (auto simp: guarded_host_asks count_args_def bare_remote intro!: header_guard)
  have library: "guarded ?G (updateGitCheckoutWithGoGit t p)" for t
    unfolding updateGitCheckoutWithGoGit_def cleanGitWorktree_def resetOrigin_def fetchOrigin_def syncGitBranch_def Let_def
      checkoutRequestedBranch_def checkoutBranch_def verifyBranchRelation_def branchRelation_def pullGitBranch_def auth_of_def
    by (intro guarded_rules) (auto simp: guarded_host_asks credential_guard_def bare_remote own_auth_of)
  have clone: "guarded ?G (clone_into_place p)"
    unfolding clone_into_place_def cloneGitCheckout_def replaceRemoteDir_def Let_def or_remove_def uploadLocalDir_def uploadLocalEntry_def auth_of_def
    by (intro guarded_rules guarded_each_until)
       (auto simp: guarded_host_asks credential_guard_def bare_remote own_auth_of split: sum.split intro!: guarded_rules)
  have "guarded ?G (Sync req)"
    unfolding Sync_def Inr sum.case updateGitCheckout_def remotePathExists_def
    by (intro guarded_rules cli library clone) (auto simp: guarded_host_asks)
  then show ?thesis using p by simp
qed (simp add: Sync_def guarded_rules)


subsection \<open>Checkouts that are called clean\<close>

text \<open>A tree of the host was copied: a file with its content, a directory with every entry that is no symbolic link.\<close>

inductive copied :: "(host_request \<times> host_answer) set \<Rightarrow> string \<Rightarrow> string \<Rightarrow> bool" for es where
  copied_file: "(StatFile p, Info (Inr info)) \<in> es \<Longrightarrow> \<not> fi_dir info \<Longrightarrow> (ReadRemoteFile p, Content (Inr content)) \<in> es \<Longrightarrow>
    (WriteLocal l content (fi_perm info), Ended None) \<in> es \<Longrightarrow> copied es p l"
| copied_dir: "(StatFile p, Info (Inr info)) \<in> es \<Longrightarrow> fi_dir info \<Longrightarrow> (MkdirLocal l (fi_perm info), Ended None) \<in> es \<Longrightarrow>
    (ReadDir p, Entries (Inr entries)) \<in> es \<Longrightarrow>
    (\<And>e. e \<in> set entries \<Longrightarrow> \<not> fi_symlink e \<Longrightarrow> copied es (path_join p (fi_name e)) (path_join l (fi_name e))) \<Longrightarrow> copied es p l"

lemma copied_mono: "copied es p l \<Longrightarrow> es \<subseteq> es' \<Longrightarrow> copied es' p l"
proof (induction rule: copied.induct)
  case (copied_file p info content l)
  then show ?case by (intro copied.copied_file[of p info es' content]) auto
next
  case (copied_dir p info l entries)
  then show ?case by (intro copied.copied_dir[of p info es' l entries]) auto
qed

text \<open>What the history shows of each item after a loop over the items that did not fail.\<close>

lemma download_wp:
  "wp (\<lambda>_ _. True) (\<lambda>h' err. set h \<subseteq> set h' \<and> (err = None \<longrightarrow> copied (set h') p l)) (downloadRemoteDir depth p l) h"
proof (induction depth arbitrary: p l h)
  case (Suc depth)
  let ?f = "\<lambda>entry. if fi_symlink entry then Ret None
      else downloadRemoteDir depth (path_join p (fi_name entry)) (path_join l (fi_name entry))"
  let ?P = "\<lambda>entry es. \<not> fi_symlink entry \<longrightarrow> copied es (path_join p (fi_name entry)) (path_join l (fi_name entry))"
  have loop: "wp (\<lambda>_ _. True) (\<lambda>h' err. set h \<subseteq> set h' \<and> (err = None \<longrightarrow> (\<forall>e \<in> set entries. ?P e (set h')))) (each_until ?f entries) h"
    for entries h
    by (rule wp_each_collects) (auto intro: wp_mono[OF Suc.IH] copied_mono)
  have single: "wp (\<lambda>_ _. True) (\<lambda>h' err. set h \<subseteq> set h' \<and> (err = None \<longrightarrow> copied (set h') p l)) (downloadRemoteFile p l info) h"
    if "(StatFile p, Info (Inr info)) \<in> set h" "\<not> fi_dir info" for info h
    using that by (auto simp: downloadRemoteFile_def split: sum.split intro: copied_file)
  have dir: "wp (\<lambda>_ _. True) (\<lambda>h' err. set h \<subseteq> set h' \<and> (err = None \<longrightarrow> copied (set h') p l))
      (and_next (end_of (MkdirLocal l (fi_perm info))) (on_value (entries_of (ReadDir p)) (\<lambda>e. e) (each_until ?f))) h"
    if "(StatFile p, Info (Inr info)) \<in> set h" "fi_dir info" for info h
  proof -
    have complete: "copied (set h') p l" if "set (h @ [(MkdirLocal l (fi_perm info), Ended None), (ReadDir p, Entries (Inr entries))]) \<subseteq> set h'"
      "\<forall>e \<in> set entries. ?P e (set h')" for entries h'
      using \<open>(StatFile p, Info (Inr info)) \<in> set h\<close> \<open>fi_dir info\<close> that by (intro copied_dir[of p info "set h'" l entries]) auto
    have "wp (\<lambda>_ _. True) (\<lambda>h' err. set h \<subseteq> set h' \<and> (err = None \<longrightarrow> copied (set h') p l)) (each_until ?f entries)
        (h @ [(MkdirLocal l (fi_perm info), Ended None), (ReadDir p, Entries (Inr entries))])" for entries
      by (rule wp_mono[OF loop]) (use complete in auto)
    then show ?thesis by (auto split: option.split sum.split)
  qed
  have body: "wp (\<lambda>_ _. True) (\<lambda>h' err. set h \<subseteq> set h' \<and> (err = None \<longrightarrow> copied (set h') p l))
      (if \<not> fi_dir info then downloadRemoteFile p l info
       else and_next (end_of (MkdirLocal l (fi_perm info))) (on_value (entries_of (ReadDir p)) (\<lambda>e. e) (each_until ?f)))
      (h @ [(StatFile p, Info (Inr info))])" for info
    by (cases "fi_dir info"; simp only: if_True if_False not_True_eq_False not_False_eq_True)
       (rule wp_mono[OF dir] wp_mono[OF single]; auto)+
  show ?case
    unfolding downloadRemoteDir.simps wp_on_value[of _ _ "info_of _"] wp_info_of
  proof (intro conjI allI TrueI, goal_cases)
    case (1 x)
    show ?case
    proof (cases x)
      case (Inr info)
      show ?thesis unfolding Inr sum.case by (rule body)
    qed auto
  qed
qed simp

definition seen_clean_copy :: "host_log \<Rightarrow> string \<Rightarrow> bool" where
  "seen_clean_copy h p = (\<exists>n local. (MkdirTemp n, Content (Inr local)) \<in> set h \<and> copied (set h) p local \<and> seen_clean h local)"

lemma seen_clean_copy_mono: "seen_clean_copy h p \<Longrightarrow> set h \<subseteq> set h' \<Longrightarrow> seen_clean_copy h' p"
  unfolding seen_clean_copy_def using copied_mono seen_mono(1) by blast

definition clean_post :: "host_log \<Rightarrow> (host_log \<Rightarrow> bool) \<Rightarrow> host_log \<Rightarrow> bool \<times> git_error option \<Rightarrow> bool" where
  "clean_post h P h' result = (set h \<subseteq> set h' \<and> (result = (False, None) \<longrightarrow> P h'))"

lemma status_wp: "wp (\<lambda>_ _. True) (clean_post h (\<lambda>h. seen_clean h local)) (staged_status local) h"
proof -
  have "seen_clean (h @ [(q, r), (RunGit (git_argv local zero_git_request False status_args), Output (out, None))]) local"
    if "trim_space out = []" for q r out
    using seen_last(1)[OF that, of "h @ [(q, r)]"] by simp
  moreover have "seen_clean (h @ [e, e', e'', (WorktreeStatus local, Checked (Inr True))]) local" for e e' e''
    using seen_last(2)[of "h @ [e, e', e'']"] by simp
  ultimately show ?thesis
    unfolding staged_status_def cleanGitWorktreeWithCLI_def clean_post_def
    by (auto split: option.split sum.split)
qed

lemma staged_wp: "wp (\<lambda>_ _. True) (clean_post h (\<lambda>h. seen_clean_copy h p)) (stagedCheckoutDirty depth p) h"
proof -
  have "wp (\<lambda>_ _. True) (clean_post h (\<lambda>h. seen_clean_copy h p)) (bind (bind (downloadRemoteDir depth p local) (\<lambda>err. case err of
         Some e \<Rightarrow> Ret (True, Some (GitPlain e)) | None \<Rightarrow> staged_status local)) (\<lambda>result. bind (end_of (RemoveTemp local)) (\<lambda>_. Ret result))) h'"
    if "set h \<subseteq> set h'" "(MkdirTemp n, Content (Inr local)) \<in> set h'" for n local h'
    unfolding wp_bind
  proof (rule wp_mono[OF download_wp], goal_cases)
    case (1 h1 err)
    show ?case
    proof (cases err)
      case None
      have "seen_clean_copy (h2 @ [e]) p" if "set h1 \<subseteq> set h2" "seen_clean h2 local" for h2 e
        using 1 None that \<open>(MkdirTemp n, Content (Inr local)) \<in> set h'\<close> unfolding seen_clean_copy_def
        by (intro exI[of _ n] exI[of _ local]) (auto intro: copied_mono seen_append)
      then have after: "clean_post h (\<lambda>h. seen_clean_copy h p) (h2 @ [e]) result"
        if "clean_post h1 (\<lambda>h. seen_clean h local) h2 result" for h2 e result
        using that 1 \<open>set h \<subseteq> set h'\<close> unfolding clean_post_def by (metis Un_upper1 order_trans set_append)
      show ?thesis
        unfolding None option.case by (rule wp_mono[OF status_wp]) (simp add: after)
    qed (use 1 that in \<open>auto simp: clean_post_def\<close>)
  qed
  note copied_then = this[of "h @ [(MkdirTemp n, Content (Inr local))]" n local for n local]
  show ?thesis
    unfolding stagedCheckoutDirty_def wp_bind[of _ _ "content_of _"] wp_content_of
  proof (intro conjI allI TrueI, goal_cases)
    case (1 x)
    show ?case
    proof (cases x)
      case (Inr local)
      show ?thesis unfolding Inr sum.case by (rule copied_then) auto
    qed (auto simp: clean_post_def)
  qed
qed

lemma dirty_wp: "wp (\<lambda>_ _. True) (clean_post h (\<lambda>h. seen_clean_copy h p)) (remoteCheckoutDirty depth p) h"
proof -
  have ready: "wp (\<lambda>_ _. True) (\<lambda>h' x. set h \<subseteq> set h') (remoteCheckoutReady p) h"
    unfolding remoteCheckoutReady_def remotePathExists_def by (auto split: sum.split)
  have staged: "wp (\<lambda>_ _. True) (clean_post h (\<lambda>h. seen_clean_copy h p)) (stagedCheckoutDirty depth p) h'"
    if "set h \<subseteq> set h'" for h'
    using that by (intro wp_mono[OF staged_wp]) (auto simp: clean_post_def)
  show ?thesis
    unfolding remoteCheckoutDirty_def wp_bind
    by (rule wp_mono[OF ready]) (auto simp: staged clean_post_def split: prod.split)
qed

lemma dirty_paths_wp:
  "wp (\<lambda>_ _. True) (\<lambda>h' x. \<forall>found. x = Inr found \<longrightarrow> set dirty \<subseteq> set found \<and> set h \<subseteq> set h' \<and>
     (\<forall>p \<in> set ps. p \<in> set found \<or> seen_clean_copy h' p)) (dirty_paths depth base dirty ps) h"
proof (induction ps arbitrary: dirty h)
  case (Cons p ps)
  show ?case
  proof (cases "ValidRemoteCheckoutPath p base")
    case True
    have step: "wp (\<lambda>_ _. True) (\<lambda>h'' x. \<forall>found. x = Inr found \<longrightarrow> set dirty \<subseteq> set found \<and> set h \<subseteq> set h'' \<and>
       (\<forall>q \<in> set (p # ps). q \<in> set found \<or> seen_clean_copy h'' q))
       (dirty_paths depth base (if err \<noteq> None \<or> isDirty then dirty @ [p] else dirty) ps) h'"
      if "clean_post h (\<lambda>h. seen_clean_copy h p) h' (isDirty, err)" for h' isDirty err
      using that by (intro wp_mono[OF Cons.IH]) (auto simp: clean_post_def intro: seen_clean_copy_mono split: if_splits)
    have eq: "dirty_paths depth base dirty (p # ps) = bind (remoteCheckoutDirty depth p) (\<lambda>(isDirty, err).
        dirty_paths depth base (if err \<noteq> None \<or> isDirty then dirty @ [p] else dirty) ps)"
      using True by simp
    show ?thesis
      unfolding eq wp_bind
    proof (rule wp_mono[OF dirty_wp], goal_cases)
      case (1 h' result)
      obtain isDirty err where r: "result = (isDirty, err)" by (cases result)
      show ?case unfolding r prod.case by (rule step) (use 1 r in simp)
    qed
  qed simp
qed simp

text \<open>C16: When the dirty checkouts of a project are listed, each path that was asked about and is not on the list was copied in full, symbolic links aside, into a staging directory of the same run, and Git said of that copy that nothing in it is changed or untracked. Whatever could not be read is on the list.\<close>

theorem clean_checkouts_were_seen:
  assumes "runs (source_dirty_paths depth project paths) es (Inr found)" and "p \<in> set paths"
  shows "p \<in> set found \<or> seen_clean_copy es p"
proof -
  have "wp (\<lambda>_ _. True) (\<lambda>h x. \<forall>found. x = Inr found \<longrightarrow> (\<forall>p \<in> set paths. p \<in> set found \<or> seen_clean_copy h p))
      (source_dirty_paths depth project paths) []"
    unfolding source_dirty_paths_def DirtyPaths_def by (auto split: sum.split intro!: wp_mono[OF dirty_paths_wp])
  from wp_runs[OF this assms(1)] assms(2) show ?thesis by simp
qed

subsection \<open>Two consequences of the code\<close>

text \<open>A symbolic link of a clone is never written to the host: the checkout lacks it, Git reports it as deleted, and the
next sync finds the checkout dirty.\<close>

lemma clone_drops_symlinks:
  assumes "le_symlink entry" and "\<not> le_dir entry" and "le_rel entry = Inr rel" and "le_perm entry = Inr perm"
  shows "uploadLocalEntry root entry = Ret None"
  using assms by (simp add: uploadLocalEntry_def remoteEntryTarget_def)

text \<open>The header with the token is set for the whole command, and the command fetches from every remote of the checkout.\<close>

lemma fetch_all_carries_header:
  assumes "isGitHubHTTPSURL (gr_repo_url req)" and "trim_space (gr_token req) \<noteq> []"
  shows "git_argv local req True [''fetch'', ''--all'', ''--prune''] =
    [''-c'', ''http.extraHeader=Authorization: Basic '' @ base64_encode (''x-access-token:'' @ trim_space (gr_token req)),
     ''-C'', local, ''fetch'', ''--all'', ''--prune'']"
  using assms by (simp add: git_argv_def gitAuthHeader_def Let_def)

subsection \<open>Examples\<close>

definition demo_sync_request :: git_request where
  "demo_sync_request = \<lparr>gr_project = ''shop'', gr_service = ''web'', gr_repo_url = ''https://u:p@github.com/acme/app'',
     gr_branch = ''main'', gr_target = ''/opt/fibe/playgrounds/shop/props/app/main'', gr_token = ''t''\<rparr>"

definition demo_info :: file_info where
  "demo_info = \<lparr>fi_name = ''main'', fi_dir = True, fi_symlink = False, fi_perm = 493\<rparr>"

text \<open>A clean checkout that is two commits behind.\<close>

definition demo_sync_run :: host_log where
  "demo_sync_run = fst (replay (sync_source demo_sync_request)
     ([Info (Inr demo_info), Info (Inr demo_info), Present True, Present True, Output ([CHR 0x0A], None)] @
      replicate 4 (Output ([], None)) @ [Output (''0'' @ [CHR 0x09] @ ''2'' @ [CHR 0x0A], None), Output ([], None)]))"

lemma demo_sync_trace: "trace (sync_source demo_sync_request) demo_sync_run"
  unfolding demo_sync_run_def by (rule replay_trace[OF prod.collapse[symmetric]])

lemma demo_sync_step:
  assumes "n < length demo_sync_run"
  shows "trace (sync_source demo_sync_request) (take n demo_sync_run @ (fst (demo_sync_run ! n), snd (demo_sync_run ! n)) # drop (Suc n) demo_sync_run)"
  using demo_sync_trace id_take_nth_drop[OF assms] by (simp only: prod.collapse)

theorem sync_keeps_local_work_witness:
  "\<exists>argv. git_command argv = [''pull'', ''--ff-only'', ''origin'', ''main''] \<and> seen_clean (take 10 demo_sync_run) (git_dir argv) \<and>
     seen_contained (take 10 demo_sync_run) (git_dir argv) ''main''"
proof -
  have facts: "case demo_sync_run ! 10 of (RunGit argv, _) \<Rightarrow> git_command argv = [''pull'', ''--ff-only'', ''origin'', ''main''] | _ \<Rightarrow> False"
    "10 < length demo_sync_run"
    by code_simp+
  from facts(1) obtain argv where argv: "fst (demo_sync_run ! 10) = RunGit argv" "git_command argv = [''pull'', ''--ff-only'', ''origin'', ''main'']"
    by (auto split: prod.splits host_request.splits)
  have "status_args \<noteq> [''pull'', ''--ff-only'', ''origin'', ''main'']" by (simp add: status_args_def)
  moreover have "effective_branch demo_sync_request = ''main''" by code_simp
  ultimately show ?thesis
    using sync_keeps_local_work[OF demo_sync_step[OF facts(2)]] argv
    by (intro exI[of _ argv]) (simp add: checkout_guard_def)
qed


definition demo_dirty_run :: "host_log \<times> (go_error + string list) option" where
  "demo_dirty_run = replay (source_dirty_paths 5 ''shop'' [gr_target demo_sync_request])
     [Info (Inr demo_info), Info (Inr demo_info), Content (Inr ''/tmp/d''), Info (Inr demo_info), Ended None, Entries (Inr []),
      Present True, Output ([], None), Ended None]"

theorem clean_checkouts_were_seen_witness:
  "seen_clean_copy (fst demo_dirty_run) (gr_target demo_sync_request)"
proof -
  have "snd demo_dirty_run = Some (Inr [])" by code_simp
  then have "demo_dirty_run = (fst demo_dirty_run, Some (Inr []))" by (metis prod.collapse)
  then have "runs (source_dirty_paths 5 ''shop'' [gr_target demo_sync_request]) (fst demo_dirty_run) (Inr [])"
    unfolding demo_dirty_run_def by (rule replay_runs)
  from clean_checkouts_were_seen[OF this, of "gr_target demo_sync_request"] show ?thesis by simp
qed

end
