(* ===== verification/HostRuntime.thy ===== *)
theory HostRuntime
  imports HostEffects ApiRequests
begin

text \<open>
  What the local runtime (\<open>internal/runtime\<close>) runs and reads on the host: the Docker credentials (\<open>docker_config.go\<close>), the
  commands of \<open>docker compose\<close> and what is told of their failure (\<open>compose_runtime.go\<close>), and the states of services from the
  JSON of \<open>docker compose ps\<close> and the rows of \<open>docker ps\<close> (\<open>inspect.go\<close>). The syntax of JSON texts and the encoding of the
  registry credentials are parameters. What holds of these programs is shown where they are put together, in \<open>HostDeploy\<close>.
\<close>

record checker =
  ck_username :: string
  ck_token :: string
  ck_parse_json :: "string \<Rightarrow> json_error + json"
  ck_json :: json_lib
  ck_registry_json :: "string \<Rightarrow> string \<Rightarrow> string"

subsection \<open>Credentials (docker\_config.go)\<close>

definition json_quoted :: "string \<Rightarrow> string" where
  "json_quoted s = CHR 0x22 # s @ [CHR 0x22]"

definition dockerConfigJSON :: "checker \<Rightarrow> string" where
  "dockerConfigJSON C =
     (let username = trim_space (ck_username C); token = trim_space (ck_token C);
          entry = (\<lambda>host auth. json_quoted host @ '':{'' @ json_quoted ''auth'' @ '':'' @ json_quoted auth @ ''}'')
      in if username = [] \<or> token = [] then ''{}''
         else let auth = base64_encode (username @ '':'' @ token)
              in ''{'' @ json_quoted ''auths'' @ '':{'' @ entry ''https://index.docker.io/v1/'' auth @ '','' @
                 entry ''registry-1.docker.io'' auth @ ''}}'')"

definition writeDockerConfigDir :: "checker \<Rightarrow> string \<Rightarrow> (go_error option) host" where
  "writeDockerConfigDir C dir = end_of (WriteRemoteFile (dir @ ''/config.json'') (dockerConfigJSON C) 384)"

subsection \<open>Compose (compose\_runtime.go)\<close>

definition composeBaseCommand :: "string \<Rightarrow> string \<Rightarrow> string" where
  "composeBaseCommand project base = ''cd '' @ ShellQuote base @ '' && docker compose -f compose.yml -p '' @ ShellQuote project"

definition composeUpCommand :: "string \<Rightarrow> string \<Rightarrow> string" where
  "composeUpCommand project base =
     ''cd '' @ ShellQuote base @ '' && DOCKER_CONFIG='' @ ShellQuote (base @ ''/docker-config'') @
     '' docker compose -f compose.yml -p '' @ ShellQuote project @ '' up -d --remove-orphans --pull missing''"

definition composeStopCommand :: "string \<Rightarrow> string \<Rightarrow> string" where
  "composeStopCommand project base = composeBaseCommand project base @ '' stop''"

definition composeDownCommand :: "string \<Rightarrow> string \<Rightarrow> bool \<Rightarrow> string" where
  "composeDownCommand project base removeVolumes =
     composeBaseCommand project base @ '' '' @ ''down --remove-orphans'' @ (if removeVolumes then '' -v'' else [])"

definition dockerProjectServicesCommand :: "string \<Rightarrow> string" where
  "dockerProjectServicesCommand project =
     (let t = [CHR 0x09]; q = [CHR 0x22]
      in ''docker ps -a --filter '' @ ShellQuote (''label=com.docker.compose.project='' @ project) @ '' --format '' @
         ShellQuote (''{{.Label '' @ q @ ''com.docker.compose.service'' @ q @ ''}}'' @ t @ ''{{.Names}}'' @ t @ ''{{.Image}}'' @ t @
           ''{{.State}}'' @ t @ ''{{.HealthStatus}}'' @ t @ ''{{.Status}}''))"

definition commandOutputError :: "CommandResult \<Rightarrow> go_error option \<Rightarrow> go_error option" where
  "commandOutputError result err =
     (let output = trim_space (co_stdout result @ [CHR 0x0A] @ co_stderr result)
      in if output \<noteq> [] then Some (ErrText output)
         else case err of
                Some e \<Rightarrow> Some e
              | None \<Rightarrow> if co_exit_code result \<noteq> 0 then Some (ErrText (''command exited with status '' @ itoa (co_exit_code result)))
                        else None)"

text \<open>The standard output of a command, or the error that is told of it.\<close>

definition command_output :: "string \<Rightarrow> (go_error + string) host" where
  "command_output command =
     bind (result_of (RunCommand command)) (\<lambda>(result, err). Ret (case err of
       None \<Rightarrow> Inr (co_stdout result)
     | Some e \<Rightarrow> Inl (case commandOutputError result err of Some x \<Rightarrow> x | None \<Rightarrow> e)))"

definition run_command :: "string \<Rightarrow> (go_error option) host" where
  "run_command command = bind (command_output command) (\<lambda>x. Ret (case x of Inl e \<Rightarrow> Some e | Inr _ \<Rightarrow> None))"

definition splitLogLines :: "string \<Rightarrow> string list" where
  "splitLogLines logs = (if logs = [] then [] else split_char (CHR 0x0A) (trim_right_set [CHR 0x0A] logs))"

definition compose_logs :: "string \<Rightarrow> string \<Rightarrow> string \<Rightarrow> string \<Rightarrow> (go_error + string list) host" where
  "compose_logs project base service tail =
     bind (command_output (join_str '' '' ([composeBaseCommand project base, ''logs'', ''--no-color'', ''--tail'', ShellQuote tail] @
         (if trim_space service \<noteq> [] then [ShellQuote service] else [])))) (\<lambda>x.
       Ret (case x of Inl e \<Rightarrow> Inl e | Inr out \<Rightarrow> Inr (splitLogLines out)))"

subsection \<open>Service states (inspect.go)\<close>

record ComposeServiceState =
  cv_service :: string
  cv_name :: string
  cv_image :: string
  cv_state :: string
  cv_health :: string
  cv_exit_code :: int

definition into_int :: "int \<Rightarrow> json \<Rightarrow> json_error + int" where
  "into_int v x =
     (case x of JNum t \<Rightarrow> (case parse_int64 t of Inl _ \<Rightarrow> Inl JsonType | Inr i \<Rightarrow> Inr i) | JNull \<Rightarrow> Inr v | _ \<Rightarrow> Inl JsonType)"

definition ps_error :: "string \<Rightarrow> string \<Rightarrow> go_error" where
  "ps_error label text = ErrText (''parse docker compose ps JSON '' @ label @ '': '' @ text)"

text \<open>An element of an array, or the JSON value a line holds: what has no brace in front is refused before it is decoded.\<close>

definition decode_service_state :: "checker \<Rightarrow> json \<Rightarrow> json_error + ComposeServiceState" where
  "decode_service_state C v =
     (let kvs = (case v of JObj kvs \<Rightarrow> kvs | _ \<Rightarrow> [])
      in case decode_into into_string [] (json_field ''service'' kvs) of Inl e \<Rightarrow> Inl e | Inr service \<Rightarrow>
        (case decode_into into_string [] (json_field ''name'' kvs) of Inl e \<Rightarrow> Inl e | Inr name \<Rightarrow>
        (case decode_into into_string [] (json_field ''image'' kvs) of Inl e \<Rightarrow> Inl e | Inr img \<Rightarrow>
        (case decode_into into_string [] (json_field ''state'' kvs) of Inl e \<Rightarrow> Inl e | Inr state \<Rightarrow>
        (case decode_into into_string [] (json_field ''health'' kvs) of Inl e \<Rightarrow> Inl e | Inr health \<Rightarrow>
        (case decode_into into_int 0 (json_field ''exitcode'' kvs) of Inl e \<Rightarrow> Inl e | Inr code \<Rightarrow>
           Inr \<lparr>cv_service = service, cv_name = name, cv_image = img, cv_state = state, cv_health = health,
             cv_exit_code = code\<rparr>))))))"

definition checked_state :: "checker \<Rightarrow> string \<Rightarrow> json_error + json \<Rightarrow> go_error + ComposeServiceState" where
  "checked_state C label parsed =
     (case (case parsed of Inl e \<Rightarrow> Inl e | Inr v \<Rightarrow> decode_service_state C v) of
        Inl e \<Rightarrow> Inl (ps_error label (json_error_text (ck_json C) e))
      | Inr state \<Rightarrow>
          if firstNonEmpty [cv_service state, cv_name state] = [] then Inl (ps_error label ''missing service name'') else Inr state)"

definition state_of_item :: "checker \<Rightarrow> string \<Rightarrow> json \<Rightarrow> go_error + ComposeServiceState" where
  "state_of_item C label v =
     (case v of JObj _ \<Rightarrow> checked_state C label (Inr v) | _ \<Rightarrow> Inl (ps_error label ''expected object''))"

definition parseComposeServiceState :: "checker \<Rightarrow> string \<Rightarrow> string \<Rightarrow> go_error + ComposeServiceState" where
  "parseComposeServiceState C raw label =
     (if \<not> has_prefix (trim_space raw) ''{'' then Inl (ps_error label ''expected object'')
      else checked_state C label (ck_parse_json C raw))"

text \<open>Numbered items decoded up to the first that fails.\<close>

fun all_states :: "(nat \<Rightarrow> 'a \<Rightarrow> go_error + ComposeServiceState) \<Rightarrow> nat \<Rightarrow> 'a list \<Rightarrow> go_error + ComposeServiceState list" where
  "all_states f n [] = Inr []"
| "all_states f n (x # xs) =
     (case f n x of
        Inl e \<Rightarrow> Inl e
      | Inr s \<Rightarrow> (case all_states f (Suc n) xs of Inl e \<Rightarrow> Inl e | Inr ss \<Rightarrow> Inr (s # ss)))"

definition parseComposeServiceStateArray :: "checker \<Rightarrow> string \<Rightarrow> go_error + ComposeServiceState list" where
  "parseComposeServiceStateArray C raw =
     (case ck_parse_json C raw of
        Inl e \<Rightarrow> Inl (ps_error ''array'' (json_error_text (ck_json C) e))
      | Inr (JArr items) \<Rightarrow> all_states (\<lambda>n. state_of_item C (''array item '' @ itoa (int n))) 1 items
      | Inr _ \<Rightarrow> Inl (ps_error ''array'' (json_error_text (ck_json C) JsonType)))"

text \<open>The lines that are not blank, with their numbers.\<close>

definition numbered_lines :: "string \<Rightarrow> (nat \<times> string) list" where
  "numbered_lines raw =
     (let lns = split_char (CHR 0x0A) raw
      in filter (\<lambda>(_, line). line \<noteq> []) (zip [1..<Suc (length lns)] (map trim_space lns)))"

definition parseComposeServiceStateLines :: "checker \<Rightarrow> string \<Rightarrow> go_error + ComposeServiceState list" where
  "parseComposeServiceStateLines C raw =
     all_states (\<lambda>_ (n, line). parseComposeServiceState C line (''line '' @ itoa (int n))) 0 (numbered_lines raw)"

definition ParseComposeServiceStates :: "checker \<Rightarrow> string \<Rightarrow> go_error + ComposeServiceState list" where
  "ParseComposeServiceStates C raw0 =
     (let raw = trim_space raw0
      in if raw = [] then Inr []
         else if has_prefix raw ''['' then parseComposeServiceStateArray C raw
         else parseComposeServiceStateLines C raw)"

definition normalizedDockerPSHealth :: "string \<Rightarrow> string" where
  "normalizedDockerPSHealth v = (if equal_fold (trim_space v) ''none'' then [] else trim_space v)"

text \<open>The text between the first opening and the first closing parenthesis, when it is a number.\<close>

definition dockerPSExitCode :: "string \<Rightarrow> int" where
  "dockerPSExitCode status0 =
     (let status = trim_space status0;
          before = takeWhile (\<lambda>c. c \<noteq> CHR ''('') status; until = takeWhile (\<lambda>c. c \<noteq> CHR '')'') status;
          start = length before; stop = length until
      in if start = length status \<or> stop = length status \<or> stop \<le> start + 1 then 0
         else case parse_int64 (trim_space (drop (Suc start) until)) of Inl _ \<Rightarrow> 0 | Inr code \<Rightarrow> code)"

text \<open>\<open>strings.SplitN\<close> with a limit of at least one.\<close>

fun split_n :: "nat \<Rightarrow> char \<Rightarrow> string \<Rightarrow> string list" where
  "split_n n c s =
     (if n \<le> 1 \<or> c \<notin> set s then [s]
      else takeWhile (\<lambda>d. d \<noteq> c) s # split_n (n - 1) c (tl (dropWhile (\<lambda>d. d \<noteq> c) s)))"

declare split_n.simps [simp del]

definition ps_row_error :: "nat \<Rightarrow> string \<Rightarrow> go_error" where
  "ps_row_error index text = ErrText (''parse docker ps service row '' @ itoa (int index) @ '': '' @ text)"

definition parseDockerPSServiceRow :: "string \<Rightarrow> nat \<Rightarrow> go_error + ComposeServiceState" where
  "parseDockerPSServiceRow line index =
     (case split_n 6 (CHR 0x09) line of
        [service, name, img, state, health, status] \<Rightarrow>
          if trim_space service = [] \<and> trim_space name = [] then Inl (ps_row_error index ''missing service name'')
          else Inr \<lparr>cv_service = trim_space service, cv_name = trim_space name, cv_image = trim_space img,
                 cv_state = trim_space state, cv_health = normalizedDockerPSHealth health,
                 cv_exit_code = dockerPSExitCode (trim_space status)\<rparr>
      | _ \<Rightarrow> Inl (ps_row_error index ''expected 6 tab-separated fields''))"

definition ParseDockerPSServiceRows :: "string \<Rightarrow> go_error + ComposeServiceState list" where
  "ParseDockerPSServiceRows raw0 =
     (let raw = trim_space raw0
      in if raw = [] then Inr []
         else all_states (\<lambda>_ (n, line). parseDockerPSServiceRow line n) 0 (numbered_lines raw))"

definition composeStatesToDomain :: "ComposeServiceState list \<Rightarrow> service_info list" where
  "composeStatesToDomain states =
     concat (map (\<lambda>state.
       let name = trim_space (firstNonEmpty [cv_service state, cv_name state]); status = trim_space (cv_state state)
       in if name = [] then []
          else [\<lparr>svc_name = name, svc_status = status, svc_image = cv_image state,
                 svc_health = to_lower (trim_space (cv_health state)), svc_running = equal_fold status ''running'',
                 svc_exit_code = (if cv_exit_code state \<noteq> 0 then Some (cv_exit_code state) else None)\<rparr>]) states)"

definition dockerProjectServiceStates :: "string \<Rightarrow> (go_error + ComposeServiceState list) host" where
  "dockerProjectServiceStates project =
     bind (command_output (dockerProjectServicesCommand project)) (\<lambda>x. Ret (case x of
       Inl e \<Rightarrow> Inl e | Inr out \<Rightarrow> ParseDockerPSServiceRows out))"

definition compose_services :: "checker \<Rightarrow> string \<Rightarrow> string \<Rightarrow> (go_error + service_info list) host" where
  "compose_services C project base =
     bind (command_output (composeBaseCommand project base @ '' ps --all --format json'')) (\<lambda>x. case x of
       Inl e \<Rightarrow> Ret (Inl e)
     | Inr out \<Rightarrow>
         (case ParseComposeServiceStates C out of
            Inl e \<Rightarrow> Ret (Inl e)
          | Inr states \<Rightarrow>
              if states \<noteq> [] then Ret (Inr (composeStatesToDomain states))
              else bind (dockerProjectServiceStates project) (\<lambda>y. Ret (case y of
                     Inl e \<Rightarrow> Inl e | Inr ss \<Rightarrow> Inr (composeStatesToDomain ss)))))"

end
