(* ===== verification/HostDeploy.thy ===== *)
theory HostDeploy
  imports HostRuntime
begin

text \<open>
  What the worker asks of the runtime (\<open>internal/runtime\<close>): the Docker client (\<open>docker_transport.go\<close>), Traefik
  (\<open>traefik.go\<close>), the checks of the host (\<open>prerequisites.go\<close>), deployment (\<open>deploy_compose.go\<close>), start, stop, logs and
  inspection (\<open>compose_actions.go\<close>, \<open>logs.go\<close>, \<open>inspect.go\<close>), teardown (\<open>compose_teardown.go\<close>), the directories of the
  projects (\<open>playground_projects.go\<close>) and the drift of written files (\<open>artifacts.go\<close>, \<open>artifact_drift.go\<close>).

  Shown: what a deployment writes and when it starts the project, that a teardown stays with its project and keeps its
  volumes unless it destroys, and that the drift that is told is the one the files have.
\<close>

subsection \<open>The Docker client (docker\_transport.go)\<close>

definition traefik_name :: string where "traefik_name = ''fibe-distilled-traefik''"
definition traefikImage :: string where "traefikImage = ''traefik:v3.7''"
definition traefikDockerAPIVersion :: string where "traefikDockerAPIVersion = ''1.40''"
definition managedLabel :: string where "managedLabel = ''fibe-distilled.managed''"

text \<open>Standard base64 with the two letters of the URL alphabet.\<close>

definition base64_url :: "string \<Rightarrow> string" where
  "base64_url s = map (\<lambda>c. if c = CHR ''+'' then CHR ''-'' else if c = CHR ''/'' then CHR ''_'' else c) (base64_encode s)"

definition registryAuthHeader :: "checker \<Rightarrow> string" where
  "registryAuthHeader C =
     (let username = trim_space (ck_username C); token = trim_space (ck_token C)
      in if username = [] \<or> token = [] then [] else base64_url (ck_registry_json C username token))"

text \<open>A client is opened for each operation.\<close>

definition withClient :: "(go_error option) host \<Rightarrow> (go_error option) host" where
  "withClient run = and_next (end_of OpenDocker) run"

definition Ping :: "(go_error option) host" where
  "Ping = withClient (end_of DockerPing)"

definition stringLabelValue :: "string smap \<Rightarrow> string \<Rightarrow> string" where
  "stringLabelValue labels key = trim_space (case map_of labels key of None \<Rightarrow> [] | Some v \<Rightarrow> v)"

primrec firstStringLabelValue :: "string smap \<Rightarrow> string list \<Rightarrow> string" where
  "firstStringLabelValue labels [] = []"
| "firstStringLabelValue labels (key # keys) =
     (let v = stringLabelValue labels key in if v \<noteq> [] then v else firstStringLabelValue labels keys)"

text \<open>\<open>None\<close> when there is no such image.\<close>

definition image_metadata :: "string \<Rightarrow> (go_error + ImageMetadata option) host" where
  "image_metadata imageRef =
     bind (end_of OpenDocker) (\<lambda>err. case err of
       Some e \<Rightarrow> Ret (Inl e)
     | None \<Rightarrow>
         bind (labels_of (InspectImage imageRef)) (\<lambda>x. Ret (case x of
           Inl e \<Rightarrow> if is_not_found e then Inr None else Inl e
         | Inr given \<Rightarrow>
             (let labels = (case given of None \<Rightarrow> [] | Some m \<Rightarrow> m)
              in Inr (Some \<lparr>im_commit_sha = firstStringLabelValue labels [''fibe.build.git_commit_sha'', ''fibe.source_commit''],
                       im_build_identity_digest = stringLabelValue labels ''fibe.build.identity_digest''\<rparr>)))))"

definition pullImage :: "checker \<Rightarrow> string \<Rightarrow> (go_error option) host" where
  "pullImage C imageRef = end_of (PullImage imageRef (registryAuthHeader C))"

definition traefikContainerReady :: "string list \<Rightarrow> (go_error + bool) host" where
  "traefikContainerReady args =
     bind (inspected_of (InspectContainer traefik_name)) (\<lambda>x. Ret (case x of
       Inl e \<Rightarrow> if is_not_found e then Inr False else Inl e
     | Inr st \<Rightarrow>
         Inr (ct_running st \<and>
           (case ct_config st of
              None \<Rightarrow> False
            | Some (labels, env) \<Rightarrow>
                map_of labels managedLabel = Some ''true'' \<and>
                (''DOCKER_API_VERSION='' @ traefikDockerAPIVersion) \<in> set env \<and> ct_args st = args))))"

text \<open>A call for which a missing object is no failure.\<close>

definition unless_missing :: "(go_error option) host \<Rightarrow> (go_error option) host" where
  "unless_missing m = bind m (\<lambda>err. Ret (case err of None \<Rightarrow> None | Some e \<Rightarrow> if is_not_found e then None else Some e))"

definition removeContainerIfPresent :: "string \<Rightarrow> (go_error option) host" where
  "removeContainerIfPresent name = unless_missing (end_of (RemoveContainer name))"

definition traefik_container :: "string list \<Rightarrow> container_spec" where
  "traefik_container args =
     \<lparr>cs_name = traefik_name, cs_image = traefikImage, cs_env = [''DOCKER_API_VERSION='' @ traefikDockerAPIVersion],
      cs_labels = [(managedLabel, ''true'')], cs_cmd = args,
      cs_binds = [''/var/run/docker.sock:/var/run/docker.sock:ro'', TraefikPath @ '':/etc/traefik''],
      cs_network_mode = ''host'', cs_restart_policy = ''unless-stopped''\<rparr>"

definition EnsureTraefik :: "checker \<Rightarrow> string list \<Rightarrow> (go_error option) host" where
  "EnsureTraefik C args =
     withClient (and_next (pullImage C traefikImage)
       (on_value (traefikContainerReady args) (\<lambda>e. e) (\<lambda>ready.
          if ready then Ret None
          else and_next (removeContainerIfPresent traefik_name)
                 (on_value (created_of (CreateContainer (traefik_container args))) (\<lambda>e. e)
                    (\<lambda>i. end_of (StartContainer i))))))"

definition cleanupProjectContainers :: "string \<Rightarrow> (go_error option) host" where
  "cleanupProjectContainers project =
     on_value (listed_of (ListLabelled Containers project)) (\<lambda>e. e)
       (each_until (\<lambda>(i, _). unless_missing (end_of (RemoveContainer i))))"

definition cleanupProjectNetworks :: "string \<Rightarrow> (go_error option) host" where
  "cleanupProjectNetworks project =
     on_value (listed_of (ListLabelled Networks project)) (\<lambda>e. e)
       (each_until (\<lambda>(i, name). wrapped (''remove network '' @ name) (unless_missing (end_of (RemoveNetwork i)))))"

definition cleanupProjectVolumes :: "string \<Rightarrow> (go_error option) host" where
  "cleanupProjectVolumes project =
     on_value (listed_of (ListLabelled Volumes project)) (\<lambda>e. e)
       (each_until (\<lambda>(_, name). wrapped (''remove volume '' @ name) (unless_missing (end_of (RemoveVolume name)))))"

definition CleanupProject :: "string \<Rightarrow> bool \<Rightarrow> (go_error option) host" where
  "CleanupProject project removeVolumes =
     withClient (and_next (cleanupProjectContainers project)
       (and_next (cleanupProjectNetworks project)
         (if removeVolumes then cleanupProjectVolumes project else Ret None)))"

subsection \<open>Traefik (traefik.go)\<close>

definition traefikArgs :: "marquee \<Rightarrow> go_error + string list" where
  "traefikArgs mq =
     (let email = (case mq_acme_email mq of None \<Rightarrow> [] | Some e \<Rightarrow> trim_space e)
      in if email = [] then Inl (ErrText (''marquee '' @ go_quote (mq_name mq) @ '' requires acme_email for HTTPS routing''))
         else Inr
           [''--api=false'', ''--providers.docker=true'', ''--providers.docker.exposedbydefault=false'',
            ''--providers.docker.constraints=Label('' @ [CHR 0x60] @ managedLabel @ [CHR 0x60] @ '','' @ [CHR 0x60] @ ''true'' @ [CHR 0x60] @ '')'',
            ''--entrypoints.web.address=:80'', ''--entrypoints.websecure.address=:443'',
            ''--entrypoints.web.http.redirections.entrypoint.to=websecure'',
            ''--entrypoints.web.http.redirections.entrypoint.scheme=https'',
            ''--certificatesresolvers.letsencrypt.acme.email='' @ email,
            ''--certificatesresolvers.letsencrypt.acme.storage=/etc/traefik/acme.json'',
            ''--certificatesresolvers.letsencrypt.acme.httpchallenge=true'',
            ''--certificatesresolvers.letsencrypt.acme.httpchallenge.entrypoint=web''])"

definition prepareTraefikRuntime :: "checker \<Rightarrow> (go_error option) host" where
  "prepareTraefikRuntime C =
     and_next (wrapped ''prepare traefik runtime failed'' (end_of (MkdirAll TraefikDockerConfigDir 448)))
       (and_next (bind (content_of (ReadRemoteFile TraefikACMEPath)) (\<lambda>x. case x of
            Inl e \<Rightarrow>
              if is_file_missing e
              then wrapped ''prepare traefik acme storage failed'' (end_of (WriteRemoteFile TraefikACMEPath [] 384))
              else Ret (Some (ErrWrap ''prepare traefik acme storage failed'' e))
          | Inr _ \<Rightarrow> wrapped ''prepare traefik acme permissions failed'' (end_of (Chmod TraefikACMEPath 384))))
         (writeDockerConfigDir C TraefikDockerConfigDir))"

definition ensureTraefik :: "checker \<Rightarrow> marquee \<Rightarrow> (go_error option) host" where
  "ensureTraefik C mq =
     (if FirstDomainFromInput (mq_domains_input mq) = [] then Ret None
      else and_next (prepareTraefikRuntime C)
             (case traefikArgs mq of
                Inl e \<Rightarrow> Ret (Some e)
              | Inr args \<Rightarrow> wrapped ''start traefik runtime failed'' (EnsureTraefik C args)))"

subsection \<open>Checks of the host (prerequisites.go)\<close>

definition ensure_prerequisites :: "(go_error option) host" where
  "ensure_prerequisites =
     and_next (wrapped ''docker daemon ping failed'' Ping)
       (each_until (\<lambda>dir. wrapped (''prepare runtime directory '' @ dir) (end_of (MkdirAll dir 493))) RuntimePrerequisiteDirs)"

definition dockerSocketPath :: string where "dockerSocketPath = ''/var/run/docker.sock''"

definition ensureDockerSocket :: "(go_error option) host" where
  "ensureDockerSocket =
     on_value (info_of (StatSocket dockerSocketPath)) (ErrWrap (''docker socket '' @ dockerSocketPath @ '' is required'')) (\<lambda>info.
       Ret (if fi_dir info then Some (ErrText (''docker socket '' @ dockerSocketPath @ '' is a directory'')) else None))"

definition ensureDockerCLI :: "(go_error option) host" where
  "ensureDockerCLI =
     each_until (\<lambda>(name, command). wrapped (name @ '' check failed'') (run_command command))
       [(''docker CLI'', ''docker version --format '' @ [CHR 0x27] @ ''{{.Client.Version}}'' @ [CHR 0x27]),
        (''docker compose plugin'', ''docker compose version --short'')]"

definition hostPathProbeImage :: string where "hostPathProbeImage = ''alpine:3.24''"
definition probe_path :: string where "probe_path = ''/opt/fibe/.fibe-distilled-host-path-probe''"

definition ensureHostPathParity :: "(go_error option) host" where
  "ensureHostPathParity =
     and_next (wrapped ''write /opt/fibe host-path probe'' (end_of (WriteRemoteFile probe_path (''ok'' @ [CHR 0x0A]) 384)))
       (bind (wrapped ''/opt/fibe must be bind-mounted at /opt/fibe for the Docker daemon''
           (run_command (''docker run --rm --pull missing -v /opt/fibe:/opt/fibe:ro '' @ ShellQuote hostPathProbeImage @
              '' test -f '' @ ShellQuote probe_path))) (\<lambda>err.
         bind (end_of (RemoveAll probe_path)) (\<lambda>_. Ret err)))"

definition EnsureLocalRuntimeBootstrap :: "checker \<Rightarrow> marquee \<Rightarrow> (go_error option) host" where
  "EnsureLocalRuntimeBootstrap C mq =
     and_next ensureDockerSocket (and_next ensure_prerequisites (and_next ensureDockerCLI
       (and_next ensureHostPathParity (ensureTraefik C mq))))"

subsection \<open>Deployment (deploy\_compose.go)\<close>

text \<open>A project that is not one is refused before anything else.\<close>

definition in_base :: "string \<Rightarrow> (string \<Rightarrow> (go_error option) host) \<Rightarrow> (go_error option) host" where
  "in_base project f = (case playgroundBase project of Inl e \<Rightarrow> Ret (Some (ErrText e)) | Inr base \<Rightarrow> f base)"

definition prepare_workspace :: "checker \<Rightarrow> string \<Rightarrow> string \<Rightarrow> (go_error option) host" where
  "prepare_workspace C base project =
     and_next (end_of (MkdirAll (base @ ''/props'') 493))
       (and_next (end_of (MkdirAll (DockerConfigDir project) 448))
         (and_next (end_of (MkdirAll BuildsPath 493)) (writeDockerConfigDir C (DockerConfigDir project))))"

definition prepare_playground_workspace :: "checker \<Rightarrow> string \<Rightarrow> (go_error option) host" where
  "prepare_playground_workspace C project = in_base project (\<lambda>base. prepare_workspace C base project)"

definition deploy_compose :: "checker \<Rightarrow> marquee \<Rightarrow> string \<Rightarrow> string \<Rightarrow> (go_error option) host" where
  "deploy_compose C mq project composeYAML =
     in_base project (\<lambda>base.
       and_next (ensureTraefik C mq)
         (and_next (prepare_workspace C base project)
           (and_next (end_of (WriteRemoteFile (base @ ''/compose.yml'') composeYAML 420))
             (wrapped ''docker compose up failed'' (run_command (composeUpCommand project base))))))"

subsection \<open>Start, stop, logs, inspection\<close>

definition projectComposeYAML :: "string \<Rightarrow> (go_error + string \<times> string) host" where
  "projectComposeYAML project =
     (case playgroundBase project of
        Inl e \<Rightarrow> Ret (Inl (ErrText e))
      | Inr base \<Rightarrow>
          bind (content_of (ReadRemoteFile (base @ ''/compose.yml''))) (\<lambda>x. Ret (case x of
            Inl e \<Rightarrow> Inl (ErrWrap ''read compose.yml failed'' e) | Inr content \<Rightarrow> Inr (base, content))))"

definition runComposeAction :: "string \<Rightarrow> string \<Rightarrow> (string \<Rightarrow> string \<Rightarrow> string) \<Rightarrow> (go_error option) host" where
  "runComposeAction project action command =
     on_value (projectComposeYAML project) (\<lambda>e. e) (\<lambda>(base, _).
       wrapped (''docker compose '' @ action @ '' failed'') (run_command (command project base)))"

definition start_compose :: "string \<Rightarrow> (go_error option) host" where
  "start_compose project = runComposeAction project ''start'' composeUpCommand"

definition stop_compose :: "string \<Rightarrow> (go_error option) host" where
  "stop_compose project = runComposeAction project ''stop'' composeStopCommand"

definition runtime_logs :: "string \<Rightarrow> string \<Rightarrow> int \<Rightarrow> (go_error + string list) host" where
  "runtime_logs project service tail =
     (if tail < 0 then Ret (Inl (ErrText ''tail must be non-negative''))
      else bind (projectComposeYAML project) (\<lambda>x. case x of
             Inl e \<Rightarrow> Ret (Inl e)
           | Inr (base, _) \<Rightarrow> compose_logs project base service (if tail = 0 then ''all'' else itoa tail)))"

definition inspect_services :: "checker \<Rightarrow> string \<Rightarrow> (go_error + service_info list) host" where
  "inspect_services C project =
     bind (projectComposeYAML project) (\<lambda>x. case x of
       Inl e \<Rightarrow> Ret (Inl e)
     | Inr (base, _) \<Rightarrow>
         bind (compose_services C project base) (\<lambda>y. Ret (case y of
           Inl e \<Rightarrow> Inl (ErrWrap ''inspect compose services failed'' e) | Inr services \<Rightarrow> Inr services)))"

subsection \<open>Teardown (compose\_teardown.go)\<close>

definition downExistingCompose :: "string \<Rightarrow> string \<Rightarrow> bool \<Rightarrow> (go_error option) host" where
  "downExistingCompose project base destroyFiles =
     bind (content_of (ReadRemoteFile (base @ ''/compose.yml''))) (\<lambda>x. case x of
       Inl e \<Rightarrow> Ret (if is_file_missing e then None else Some (ErrWrap ''read compose.yml failed'' e))
     | Inr _ \<Rightarrow> wrapped ''compose teardown failed'' (run_command (composeDownCommand project base destroyFiles)))"

definition teardownCompose :: "string \<Rightarrow> bool \<Rightarrow> (go_error option) host" where
  "teardownCompose project destroyFiles =
     in_base project (\<lambda>base.
       and_next (downExistingCompose project base destroyFiles)
         (and_next (wrapped ''docker cleanup failed'' (CleanupProject project destroyFiles))
           (if destroyFiles then wrapped ''remove playground files failed'' (end_of (RemoveAll base)) else Ret None)))"

definition destroy_compose :: "string \<Rightarrow> (go_error option) host" where
  "destroy_compose project = teardownCompose project True"

definition down_compose :: "string \<Rightarrow> (go_error option) host" where
  "down_compose project = teardownCompose project False"

subsection \<open>Directories of projects (playground\_projects.go)\<close>

definition safeProjectName :: "file_info \<Rightarrow> string option" where
  "safeProjectName entry =
     (if \<not> fi_dir entry then None
      else case playgroundBase (trim_space (fi_name entry)) of Inl _ \<Rightarrow> None | Inr _ \<Rightarrow> Some (trim_space (fi_name entry)))"

definition safeProjectNames :: "file_info list \<Rightarrow> string list" where
  "safeProjectNames entries = concat (map (\<lambda>e. case safeProjectName e of None \<Rightarrow> [] | Some p \<Rightarrow> [p]) entries)"

definition playground_projects :: "(go_error + string list) host" where
  "playground_projects =
     bind (entries_of (ReadDir PlaygroundsPath)) (\<lambda>x. Ret (case x of
       Inl e \<Rightarrow> if is_file_missing e then Inr [] else Inl e
     | Inr entries \<Rightarrow> Inr (safeProjectNames entries)))"

subsection \<open>Drift (artifacts.go, artifact\_drift.go)\<close>

record runtimeArtifact =
  ra_name :: string
  ra_path :: string
  ra_content :: string

definition artifacts :: "string \<Rightarrow> string \<Rightarrow> string \<Rightarrow> runtimeArtifact list" where
  "artifacts base composeYAML dockerConfig =
     [\<lparr>ra_name = ''compose'', ra_path = base @ ''/compose.yml'', ra_content = composeYAML\<rparr>,
      \<lparr>ra_name = ''docker_config'', ra_path = base @ ''/docker-config/config.json'', ra_content = dockerConfig\<rparr>]"

definition compareRemoteArtifact :: "runtimeArtifact \<Rightarrow> (go_error + string) host" where
  "compareRemoteArtifact artifact =
     bind (content_of (ReadRemoteFile (ra_path artifact))) (\<lambda>x. Ret (case x of
       Inl e \<Rightarrow> if is_file_missing e then Inr ''missing'' else Inl (ErrWrap (''read '' @ ra_name artifact) e)
     | Inr actual \<Rightarrow> Inr (if actual \<noteq> ra_content artifact then ''drift'' else [])))"

primrec check_artifacts :: "string smap \<Rightarrow> runtimeArtifact list \<Rightarrow> (go_error + string smap) host" where
  "check_artifacts drift [] = Ret (Inr drift)"
| "check_artifacts drift (artifact # rest) =
     bind (compareRemoteArtifact artifact) (\<lambda>x. case x of
       Inl e \<Rightarrow> Ret (Inl (ErrWrap ''runtime artifact drift check failed'' e))
     | Inr status \<Rightarrow> check_artifacts (if status \<noteq> [] then put_key (ra_name artifact) status drift else drift) rest)"

definition runtime_artifact_drift :: "checker \<Rightarrow> string \<Rightarrow> string \<Rightarrow> (go_error + string smap) host" where
  "runtime_artifact_drift C project composeYAML =
     (case playgroundBase project of
        Inl e \<Rightarrow> Ret (Inl (ErrText e))
      | Inr base \<Rightarrow> check_artifacts [] (artifacts base composeYAML (dockerConfigJSON C)))"

subsection \<open>What a teardown removes\<close>

text \<open>A request after which the object is gone: it succeeded, or there was none.\<close>

definition gone :: "host_log \<Rightarrow> host_request \<Rightarrow> bool" where
  "gone h q = ((q, Ended None) \<in> set h \<or> (\<exists>e. (q, Ended (Some e)) \<in> set h \<and> is_not_found e))"

text \<open>The objects of a kind were listed for the project, and each of them is gone.\<close>

definition cleared :: "docker_kind \<Rightarrow> (string \<times> string \<Rightarrow> host_request) \<Rightarrow> string \<Rightarrow> host_log \<Rightarrow> bool" where
  "cleared kind request project h =
     (\<exists>found. (ListLabelled kind project, Listed (Inr found)) \<in> set h \<and> (\<forall>entry \<in> set found. gone h (request entry)))"

definition all_cleared :: "string \<Rightarrow> bool \<Rightarrow> host_log \<Rightarrow> bool" where
  "all_cleared project destroyFiles h =
     (cleared Containers (\<lambda>entry. RemoveContainer (fst entry)) project h \<and>
      cleared Networks (\<lambda>entry. RemoveNetwork (fst entry)) project h \<and>
      (destroyFiles \<longrightarrow> cleared Volumes (\<lambda>entry. RemoveVolume (snd entry)) project h))"

definition was_listed :: "docker_kind \<Rightarrow> string \<Rightarrow> (string \<times> string \<Rightarrow> bool) \<Rightarrow> host_log \<Rightarrow> bool" where
  "was_listed kind project P h = (\<exists>found. (ListLabelled kind project, Listed (Inr found)) \<in> set h \<and> (\<exists>entry \<in> set found. P entry))"

definition teardown_guard :: "string \<Rightarrow> bool \<Rightarrow> host_log \<Rightarrow> host_request \<Rightarrow> bool" where
  "teardown_guard project destroyFiles h q =
     (case q of
        ReadRemoteFile p \<Rightarrow> p = PlaygroundPath project @ ''/compose.yml''
      | RunCommand c \<Rightarrow> c = composeDownCommand project (PlaygroundPath project) destroyFiles \<and>
          (\<exists>content. (ReadRemoteFile (PlaygroundPath project @ ''/compose.yml''), Content (Inr content)) \<in> set h)
      | OpenDocker \<Rightarrow> True
      | ListLabelled kind p \<Rightarrow> p = project \<and> (kind = Volumes \<longrightarrow> destroyFiles)
      | RemoveContainer i \<Rightarrow> was_listed Containers project (\<lambda>entry. fst entry = i) h
      | RemoveNetwork i \<Rightarrow> was_listed Networks project (\<lambda>entry. fst entry = i) h
      | RemoveVolume name \<Rightarrow> destroyFiles \<and> was_listed Volumes project (\<lambda>entry. snd entry = name) h
      | RemoveAll p \<Rightarrow> destroyFiles \<and> p = PlaygroundPath project \<and> all_cleared project True h
      | _ \<Rightarrow> False)"

lemma gone_mono: "gone h q \<Longrightarrow> set h \<subseteq> set h' \<Longrightarrow> gone h' q"
  unfolding gone_def by blast

lemma cleared_mono: "cleared k f p h \<Longrightarrow> set h \<subseteq> set h' \<Longrightarrow> cleared k f p h'"
  unfolding cleared_def using gone_mono by blast

lemma wp_unless_missing [simp]:
  "wp G Q (unless_missing (end_of q)) h \<longleftrightarrow> G h q \<and> Q (h @ [(q, Ended None)]) None \<and>
     (\<forall>e. Q (h @ [(q, Ended (Some e))]) (if is_not_found e then None else Some e))"
  unfolding unless_missing_def by (auto split: option.split)

lemma cleared_wp:
  assumes listing: "\<And>h. G h (ListLabelled kind project)"
    and allowed: "\<And>h found entry. (ListLabelled kind project, Listed (Inr found)) \<in> set h \<Longrightarrow> entry \<in> set found \<Longrightarrow> G h (request entry)"
    and step: "\<And>entry G h Q. wp G Q (f entry) h \<longleftrightarrow> G h (request entry) \<and> Q (h @ [(request entry, Ended None)]) None \<and>
      (\<forall>e. Q (h @ [(request entry, Ended (Some e))]) (if is_not_found e then None else Some (g entry e)))"
  shows "wp G (\<lambda>h' err. set h \<subseteq> set h' \<and> (err = None \<longrightarrow> cleared kind request project h'))
    (on_value (listed_of (ListLabelled kind project)) (\<lambda>e. e) (each_until f)) h"
proof -
  have "wp G (\<lambda>h' err. set h \<subseteq> set h' \<and> (err = None \<longrightarrow> cleared kind request project h')) (each_until f found)
      (h @ [(ListLabelled kind project, Listed (Inr found))])" (is "wp _ _ _ ?h") for found
  proof (rule wp_under[where I = "\<lambda>h. (ListLabelled kind project, Listed (Inr found)) \<in> set h"])
    have "wp (\<lambda>h q. (ListLabelled kind project, Listed (Inr found)) \<in> set h \<longrightarrow> G h q)
        (\<lambda>h' err. set ?h \<subseteq> set h' \<and> (err = None \<longrightarrow> (\<forall>x \<in> set found. (request x, Ended None) \<in> set h' \<or>
           (\<exists>e. (request x, Ended (Some e)) \<in> set h' \<and> is_not_found e)))) (each_until f found) ?h"
      by (rule wp_each_collects) (auto simp: step allowed)
    then show "wp (\<lambda>h q. (ListLabelled kind project, Listed (Inr found)) \<in> set h \<longrightarrow> G h q)
        (\<lambda>h' err. set h \<subseteq> set h' \<and> (err = None \<longrightarrow> cleared kind request project h')) (each_until f found) ?h"
      by (rule wp_mono) (auto simp: cleared_def gone_def)
  qed auto
  then show ?thesis by (auto simp: listing split: sum.split)
qed

lemma project_cleanup_wp:
  "wp (teardown_guard project destroyFiles) (\<lambda>h' err. set h \<subseteq> set h' \<and> (err = None \<longrightarrow> all_cleared project destroyFiles h'))
     (CleanupProject project destroyFiles) h"
proof -
  let ?G = "teardown_guard project destroyFiles"
  have containers: "wp ?G (\<lambda>h' err. set h \<subseteq> set h' \<and> (err = None \<longrightarrow> cleared Containers (\<lambda>entry. RemoveContainer (fst entry)) project h'))
      (cleanupProjectContainers project) h" for h
    unfolding cleanupProjectContainers_def
    by (rule cleared_wp[where g = "\<lambda>_ e. e"]) (auto simp: teardown_guard_def was_listed_def removeContainerIfPresent_def split: prod.split)
  have networks: "wp ?G (\<lambda>h' err. set h \<subseteq> set h' \<and> (err = None \<longrightarrow> cleared Networks (\<lambda>entry. RemoveNetwork (fst entry)) project h'))
      (cleanupProjectNetworks project) h" for h
    unfolding cleanupProjectNetworks_def
    by (rule cleared_wp[where g = "\<lambda>entry e. ErrWrap (''remove network '' @ snd entry) e"])
       (auto simp: teardown_guard_def was_listed_def split: prod.split)
  have volumes: "wp ?G (\<lambda>h' err. set h \<subseteq> set h' \<and> (err = None \<longrightarrow> cleared Volumes (\<lambda>entry. RemoveVolume (snd entry)) project h'))
      (cleanupProjectVolumes project) h" if destroyFiles for h
    unfolding cleanupProjectVolumes_def using that
    by (intro cleared_wp[where g = "\<lambda>entry e. ErrWrap (''remove volume '' @ snd entry) e"])
       (auto simp: teardown_guard_def was_listed_def split: prod.split)
  have last: "wp ?G (\<lambda>h' err. set h \<subseteq> set h' \<and> (err = None \<longrightarrow> all_cleared project destroyFiles h'))
      (if destroyFiles then cleanupProjectVolumes project else Ret None) h"
    if "cleared Containers (\<lambda>entry. RemoveContainer (fst entry)) project h"
      "cleared Networks (\<lambda>entry. RemoveNetwork (fst entry)) project h" for h
  proof (cases destroyFiles)
    case True
    then have "wp ?G (\<lambda>h' err. set h \<subseteq> set h' \<and> (err = None \<longrightarrow> all_cleared project destroyFiles h')) (cleanupProjectVolumes project) h"
      by (intro wp_mono[OF volumes]) (auto simp: all_cleared_def intro: cleared_mono[OF that(1)] cleared_mono[OF that(2)])
    with True show ?thesis by simp
  qed (use that in \<open>simp add: all_cleared_def\<close>)
  have "wp ?G (\<lambda>h' err. set h \<subseteq> set h' \<and> (err = None \<longrightarrow> True)) (end_of OpenDocker) h"
    by (auto simp: teardown_guard_def)
  then show ?thesis
    unfolding CleanupProject_def withClient_def
  proof (rule wp_then_next)
    fix h1
    show "wp ?G (\<lambda>h' err. set h1 \<subseteq> set h' \<and> (err = None \<longrightarrow> all_cleared project destroyFiles h')) (and_next (cleanupProjectContainers project)
       (and_next (cleanupProjectNetworks project) (if destroyFiles then cleanupProjectVolumes project else Ret None))) h1"
    proof (rule wp_then_next[OF containers], rule wp_then_next)
      fix h2
      assume c: "cleared Containers (\<lambda>entry. RemoveContainer (fst entry)) project h2"
      show "wp ?G (\<lambda>h' err. set h2 \<subseteq> set h' \<and> (err = None \<longrightarrow> cleared Containers (\<lambda>entry. RemoveContainer (fst entry)) project h' \<and>
          cleared Networks (\<lambda>entry. RemoveNetwork (fst entry)) project h')) (cleanupProjectNetworks project) h2"
        by (rule wp_mono[OF networks]) (auto intro: cleared_mono[OF c])
    qed (use last in blast)
  qed
qed

text \<open>C13: A teardown stays with its project, and only a destruction loses data. It runs no command but \<open>docker compose down\<close> of this project, and only where its compose file could be read; it removes only containers, networks and volumes the Docker daemon has listed in this run for the project; volumes are removed, by the command's \<open>-v\<close> or by name, only when the project is destroyed; and the only directory that is ever removed is the project's own, in a destruction, after every container, network and volume that was listed for it is gone. A teardown that reports no error has left no listed container and network, and, in a destruction, no listed volume and no directory.\<close>

theorem teardown_stays_with_project:
  assumes "trace (teardownCompose project destroyFiles) es"
  shows "(\<forall>es1 q r es2. es = es1 @ (q, r) # es2 \<longrightarrow> teardown_guard project destroyFiles es1 q) \<and>
    (runs (teardownCompose project destroyFiles) es None \<longrightarrow> all_cleared project destroyFiles es \<and>
       (destroyFiles \<longrightarrow> (RemoveAll (PlaygroundPath project), Ended None) \<in> set es))"
proof -
  let ?base = "PlaygroundPath project" and ?G = "teardown_guard project destroyFiles"
  let ?P = "\<lambda>h. all_cleared project destroyFiles h \<and> (destroyFiles \<longrightarrow> (RemoveAll ?base, Ended None) \<in> set h)"
  have down: "wp ?G (\<lambda>h' err. set h \<subseteq> set h' \<and> (err = None \<longrightarrow> True)) (downExistingCompose project ?base destroyFiles) h" for h
    unfolding downExistingCompose_def run_command_def command_output_def
    by (auto simp: teardown_guard_def split: sum.split)
  have files: "wp ?G (\<lambda>h' err. set h \<subseteq> set h' \<and> (err = None \<longrightarrow> ?P h'))
      (if destroyFiles then wrapped t (end_of (RemoveAll ?base)) else Ret None) h" if "all_cleared project destroyFiles h" for h t
    using that by (auto simp: teardown_guard_def all_cleared_def intro: cleared_mono)
  have "wp ?G (\<lambda>h' err. set h \<subseteq> set h' \<and> (err = None \<longrightarrow> ?P h')) (teardownCompose project destroyFiles) h" for h
  proof (cases "playgroundBase project")
    case (Inr base)
    then have base: "base = ?base" by (simp add: playgroundBase_def split: option.splits)
    have clean: "wp ?G (\<lambda>h' err. set h \<subseteq> set h' \<and> (err = None \<longrightarrow> all_cleared project destroyFiles h'))
        (wrapped t (CleanupProject project destroyFiles)) h" for t h
      unfolding wp_wrapped by (rule wp_mono[OF project_cleanup_wp]) auto
    show ?thesis
      unfolding teardownCompose_def in_base_def Inr sum.case base
      by (rule wp_then_next[OF down], rule wp_then_next[OF clean], rule files)
  qed (simp add: teardownCompose_def in_base_def)
  from this[of "[]"] have "wp ?G (\<lambda>h' err. err = None \<longrightarrow> ?P h') (teardownCompose project destroyFiles) []"
    by (rule wp_mono) simp
  with assms show ?thesis using wp_trace wp_runs by fastforce
qed

subsection \<open>What a deployment writes\<close>

definition docker_config_paths :: "string \<Rightarrow> string set" where
  "docker_config_paths project = {DockerConfigDir project @ ''/config.json'', TraefikDockerConfigDir @ ''/config.json''}"

text \<open>Credentials are readable by their owner only, in directories only the owner can enter; the project is started after its
files were written.\<close>

definition deploy_guard :: "checker \<Rightarrow> string \<Rightarrow> string \<Rightarrow> host_log \<Rightarrow> host_request \<Rightarrow> bool" where
  "deploy_guard C project composeYAML h q =
     (case q of
        MkdirAll p mode \<Rightarrow>
          (p, mode) \<in> {(PlaygroundPath project @ ''/props'', 493), (DockerConfigDir project, 448), (BuildsPath, 493), (TraefikDockerConfigDir, 448)}
      | WriteRemoteFile p content mode \<Rightarrow>
          p = PlaygroundPath project @ ''/compose.yml'' \<and> content = composeYAML \<and> mode = 420 \<or>
          p = DockerConfigDir project @ ''/config.json'' \<and> content = dockerConfigJSON C \<and> mode = 384 \<and>
            (MkdirAll (DockerConfigDir project) 448, Ended None) \<in> set h \<or>
          p = TraefikDockerConfigDir @ ''/config.json'' \<and> content = dockerConfigJSON C \<and> mode = 384 \<and>
            (MkdirAll TraefikDockerConfigDir 448, Ended None) \<in> set h \<or>
          p = TraefikACMEPath \<and> content = [] \<and> mode = 384 \<and>
            (\<exists>e. (ReadRemoteFile TraefikACMEPath, Content (Inl e)) \<in> set h \<and> is_file_missing e)
      | RunCommand c \<Rightarrow> c = composeUpCommand project (PlaygroundPath project) \<and>
          (WriteRemoteFile (PlaygroundPath project @ ''/compose.yml'') composeYAML 420, Ended None) \<in> set h \<and>
          (WriteRemoteFile (DockerConfigDir project @ ''/config.json'') (dockerConfigJSON C) 384, Ended None) \<in> set h
      | ReadRemoteFile p \<Rightarrow> p = TraefikACMEPath
      | Chmod p mode \<Rightarrow> p = TraefikACMEPath \<and> mode = 384
      | PullImage img _ \<Rightarrow> img = traefikImage
      | RemoveContainer name \<Rightarrow> name = traefik_name
      | InspectContainer name \<Rightarrow> name = traefik_name
      | CreateContainer spec \<Rightarrow> cs_name spec = traefik_name
      | StartContainer i \<Rightarrow> \<exists>spec. (CreateContainer spec, Created (Inr i)) \<in> set h
      | OpenDocker \<Rightarrow> True
      | _ \<Rightarrow> False)"

lemma config_wp:
  assumes "dir \<in> {DockerConfigDir project, TraefikDockerConfigDir}" and "(MkdirAll dir 448, Ended None) \<in> set h"
  shows "wp (deploy_guard C project yaml) (\<lambda>h' err. set h \<subseteq> set h' \<and>
    (err = None \<longrightarrow> (WriteRemoteFile (dir @ ''/config.json'') (dockerConfigJSON C) 384, Ended None) \<in> set h')) (writeDockerConfigDir C dir) h"
  using assms by (auto simp: writeDockerConfigDir_def deploy_guard_def)

lemma traefik_wp: "wp (deploy_guard C project yaml) (\<lambda>h' err. set h \<subseteq> set h' \<and> (err = None \<longrightarrow> True)) (ensureTraefik C mq) h"
proof -
  let ?G = "deploy_guard C project yaml"
  have mk: "wp ?G (\<lambda>h' err. set h \<subseteq> set h' \<and> (err = None \<longrightarrow> (MkdirAll TraefikDockerConfigDir 448, Ended None) \<in> set h'))
      (wrapped t (end_of (MkdirAll TraefikDockerConfigDir 448))) h" for h t
    by (auto simp: deploy_guard_def)
  have acme: "wp ?G (\<lambda>h' err. set h \<subseteq> set h' \<and> (err = None \<longrightarrow> (MkdirAll TraefikDockerConfigDir 448, Ended None) \<in> set h'))
      (bind (content_of (ReadRemoteFile TraefikACMEPath)) (\<lambda>x. case x of
            Inl e \<Rightarrow>
              if is_file_missing e
              then wrapped t (end_of (WriteRemoteFile TraefikACMEPath [] 384))
              else Ret (Some (ErrWrap t e))
          | Inr _ \<Rightarrow> wrapped t' (end_of (Chmod TraefikACMEPath 384)))) h"
    if "(MkdirAll TraefikDockerConfigDir 448, Ended None) \<in> set h" for h t t'
    using that by (auto simp: deploy_guard_def split: sum.split)
  have prepare: "wp ?G (\<lambda>h' err. set h \<subseteq> set h' \<and> (err = None \<longrightarrow> True)) (prepareTraefikRuntime C) h" for h
    unfolding prepareTraefikRuntime_def
    by (rule wp_then_next[OF mk], rule wp_then_next[OF acme], assumption, rule wp_mono[OF config_wp]) auto
  have run: "wp ?G (\<lambda>h' err. set h \<subseteq> set h' \<and> (err = None \<longrightarrow> True)) (wrapped t (EnsureTraefik C args)) h" for h t args
    unfolding EnsureTraefik_def withClient_def pullImage_def traefikContainerReady_def removeContainerIfPresent_def
    by (auto simp: deploy_guard_def traefik_container_def split: option.split sum.split)
  have args: "wp ?G (\<lambda>h' err. set h \<subseteq> set h' \<and> (err = None \<longrightarrow> True))
      (case traefikArgs mq of Inl e \<Rightarrow> Ret (Some e) | Inr args \<Rightarrow> wrapped t (EnsureTraefik C args)) h" for h t
    using run by (cases "traefikArgs mq") (simp_all del: wp_wrapped)
  show ?thesis
    unfolding ensureTraefik_def
    by (rule if_split[where P = "\<lambda>m. wp ?G (\<lambda>h' err. set h \<subseteq> set h' \<and> (err = None \<longrightarrow> True)) m h", THEN iffD2])
      (intro conjI impI wp_then_next[OF prepare args], simp)
qed

lemma deploy_wp:
  "wp (deploy_guard C project composeYAML) (\<lambda>h err. err = None \<longrightarrow>
     (WriteRemoteFile (PlaygroundPath project @ ''/compose.yml'') composeYAML 420, Ended None) \<in> set h \<and>
     (WriteRemoteFile (DockerConfigDir project @ ''/config.json'') (dockerConfigJSON C) 384, Ended None) \<in> set h)
   (deploy_compose C mq project composeYAML) []"
proof -
  let ?base = "PlaygroundPath project" and ?G = "deploy_guard C project composeYAML"
  let ?config = "(WriteRemoteFile (DockerConfigDir project @ ''/config.json'') (dockerConfigJSON C) 384, Ended None)"
  let ?mk = "(MkdirAll (DockerConfigDir project) 448, Ended None)"
  let ?yaml = "(WriteRemoteFile (?base @ ''/compose.yml'') composeYAML 420, Ended None)"
  have prepare: "wp ?G (\<lambda>h' err. set h \<subseteq> set h' \<and> (err = None \<longrightarrow> ?config \<in> set h')) (prepare_workspace C ?base project) h" for h
    unfolding prepare_workspace_def
  proof (rule wp_then_next[where P = "\<lambda>_. True"], goal_cases)
    case (2 h1)
    show ?case
    proof (rule wp_then_next[where P = "\<lambda>h. ?mk \<in> set h"], goal_cases)
      case (2 h2)
      show ?case
        by (rule wp_then_next[where P = "\<lambda>h. ?mk \<in> set h"])
          (use 2 in \<open>auto simp: deploy_guard_def intro!: config_wp[of "DockerConfigDir project"]\<close>)
    qed (auto simp: deploy_guard_def)
  qed (auto simp: deploy_guard_def)
  have compose: "wp ?G (\<lambda>h' err. set h \<subseteq> set h' \<and> (err = None \<longrightarrow> ?yaml \<in> set h' \<and> ?config \<in> set h'))
      (end_of (WriteRemoteFile (?base @ ''/compose.yml'') composeYAML 420)) h" if "?config \<in> set h" for h
    using that by (auto simp: deploy_guard_def)
  have up: "wp ?G (\<lambda>h' err. set h \<subseteq> set h' \<and> (err = None \<longrightarrow> ?yaml \<in> set h' \<and> ?config \<in> set h'))
      (wrapped t (run_command (composeUpCommand project ?base))) h" if "?yaml \<in> set h \<and> ?config \<in> set h" for t h
    using that by (auto simp: run_command_def command_output_def deploy_guard_def)
  show ?thesis
  proof (cases "playgroundBase project")
    case (Inr base)
    then have base: "base = ?base" by (simp add: playgroundBase_def split: option.splits)
    show ?thesis
      unfolding deploy_compose_def in_base_def Inr sum.case base
      by (rule wp_mono[OF wp_then_next[OF traefik_wp wp_then_next[OF prepare wp_then_next[OF compose up]]]]) auto
  qed (simp add: deploy_compose_def in_base_def)
qed

text \<open>C14: A deployment starts the project only after it wrote, without an error, exactly the compose document it was given into the project's own directory, and the registry credentials the checker holds into the project's Docker configuration. Everything it writes lies in the directories of this project, the builds and Traefik; credentials are written readable by their owner only, into a directory that was made for its owner only; the storage of certificates is emptied only when there was none; and the one container it removes, creates or starts itself is Traefik's.\<close>

theorem deployment_starts_what_it_wrote:
  assumes "trace (deploy_compose C mq project composeYAML) (es1 @ (q, r) # es2)"
  shows "deploy_guard C project composeYAML es1 q"
  using wp_trace[OF deploy_wp assms refl] by simp

subsection \<open>Drift after a deployment\<close>

text \<open>What the file system holds after the requests of a history, of the files they wrote.\<close>

primrec written :: "host_log \<Rightarrow> string \<Rightarrow> string option" where
  "written [] p = None"
| "written (e # h) p =
     (case written h p of
        Some c \<Rightarrow> Some c
      | None \<Rightarrow> (case e of (WriteRemoteFile path content _, Ended None) \<Rightarrow> if path = p then Some content else None | _ \<Rightarrow> None))"

text \<open>The reads of a later history find the files as they were written.\<close>

definition reads_written :: "host_log \<Rightarrow> host_log \<Rightarrow> bool" where
  "reads_written h h' =
     (\<forall>(q, r) \<in> set h'. case q of
        ReadRemoteFile p \<Rightarrow> (case written h p of Some c \<Rightarrow> r = Content (Inr c) | None \<Rightarrow> True)
      | _ \<Rightarrow> True)"

lemma written_once:
  assumes "(WriteRemoteFile p content mode, Ended None) \<in> set h"
    and "\<And>c m r. (WriteRemoteFile p c m, r) \<in> set h \<Longrightarrow> c = content"
  shows "written h p = Some content"
proof -
  have "written h p \<noteq> None" using assms(1) by (induction h) (auto split: option.split)
  moreover have "\<exists>m r. (WriteRemoteFile p c m, r) \<in> set h" if "written h p = Some c" for c
    using that by (induction h) (auto split: option.splits prod.splits host_request.splits host_answer.splits if_splits)
  ultimately show ?thesis using assms(2) by blast
qed

lemma deployed_files:
  assumes "runs (deploy_compose C mq project yaml) es None"
  shows "written es (PlaygroundPath project @ ''/compose.yml'') = Some yaml"
    and "written es (DockerConfigDir project @ ''/config.json'') = Some (dockerConfigJSON C)"
proof -
  have guard: "\<exists>h. deploy_guard C project yaml h q" if "(q, r) \<in> set es" for q r
    using wp_trace[OF deploy_wp runs_trace[OF assms]] split_list[OF that] by blast
  have done_: "(WriteRemoteFile (PlaygroundPath project @ ''/compose.yml'') yaml 420, Ended None) \<in> set es"
    "(WriteRemoteFile (DockerConfigDir project @ ''/config.json'') (dockerConfigJSON C) 384, Ended None) \<in> set es"
    using wp_runs[OF deploy_wp assms] by simp_all
  show "written es (PlaygroundPath project @ ''/compose.yml'') = Some yaml"
  proof (rule written_once[OF done_(1)])
    fix c m r assume "(WriteRemoteFile (PlaygroundPath project @ ''/compose.yml'') c m, r) \<in> set es"
    from guard[OF this] show "c = yaml"
      by (auto simp: deploy_guard_def DockerConfigDir_def TraefikDockerConfigDir_def TraefikACMEPath_def dest: arg_cong[where f = last])
  qed
  show "written es (DockerConfigDir project @ ''/config.json'') = Some (dockerConfigJSON C)"
  proof (rule written_once[OF done_(2)])
    fix c m r assume "(WriteRemoteFile (DockerConfigDir project @ ''/config.json'') c m, r) \<in> set es"
    from guard[OF this] show "c = dockerConfigJSON C"
      by (auto simp: deploy_guard_def DockerConfigDir_def TraefikDockerConfigDir_def TraefikACMEPath_def
          dest: arg_cong[where f = last] arg_cong[where f = "\<lambda>s. rev s ! 5"])
  qed
qed

lemma runs_content_of: "runs (content_of q) es x \<longleftrightarrow> es = [(q, Content x)]"
proof
  assume "runs (content_of q) es x"
  then obtain r es' where es: "es = (q, r) # es'" and rest: "runs (case r of Content x \<Rightarrow> Ret x | _ \<Rightarrow> Stuck) es' x"
    by (auto simp: content_of_def)
  from rest show "es = [(q, Content x)]" by (cases r) (auto simp: es)
qed (simp add: content_of_def)

lemma drift_told:
  assumes "runs (compareRemoteArtifact a) es' (Inr status)" and "reads_written es es'" and "written es (ra_path a) = Some content"
  shows "status = (if content = ra_content a then [] else ''drift'')"
proof -
  from assms(1) obtain x where x: "(ReadRemoteFile (ra_path a), Content x) \<in> set es'"
    and status: "(case x of Inl e \<Rightarrow> if is_file_missing e then Inr ''missing'' else Inl (ErrWrap (''read '' @ ra_name a) e)
      | Inr actual \<Rightarrow> Inr (if actual \<noteq> ra_content a then ''drift'' else [])) = (Inr status :: go_error + string)"
    by (force simp: compareRemoteArtifact_def runs_content_of runs_bind)
  from assms(2,3) x have "x = Inr content" by (force simp: reads_written_def)
  with status show ?thesis by (auto split: if_splits)
qed

lemma runs_check_artifacts:
  "runs (check_artifacts d (a # as)) es (Inr res) \<longleftrightarrow> (\<exists>es1 es2 s. es = es1 @ es2 \<and> runs (compareRemoteArtifact a) es1 (Inr s) \<and>
     runs (check_artifacts (if s \<noteq> [] then put_key (ra_name a) s d else d) as) es2 (Inr res))"
proof -
  have "runs (case x of Inl e \<Rightarrow> Ret (Inl (ErrWrap t e)) | Inr s \<Rightarrow> f s) es2 (Inr res) \<longleftrightarrow> (\<exists>s. x = Inr s \<and> runs (f s) es2 (Inr res))"
    for x :: "go_error + string" and f :: "string \<Rightarrow> (go_error + string smap) host" and es2 t
    by (cases x) auto
  then show ?thesis unfolding check_artifacts.simps runs_bind by (simp only:) (iprover)
qed

text \<open>C15: What a deployment wrote is what the next drift check compares with: when the files are found as the deployment left them, the check reports no drift for the same compose document, and for another one it reports the compose file, and only that, as drifted.\<close>

theorem no_drift_after_deployment:
  assumes "runs (deploy_compose C mq project yaml) es None"
    and "runs (runtime_artifact_drift C project yaml') es' (Inr drift)" and "reads_written es es'"
  shows "drift = (if yaml' = yaml then [] else [(''compose'', ''drift'')])"
proof (cases "playgroundBase project")
  case (Inr base)
  then have base: "base = PlaygroundPath project" by (simp add: playgroundBase_def split: option.splits)
  let ?as = "artifacts base yaml' (dockerConfigJSON C)"
  have found: "written es (ra_path (?as ! 0)) = Some yaml" "written es (ra_path (?as ! 1)) = Some (dockerConfigJSON C)"
    using deployed_files[OF assms(1)] by (simp_all add: artifacts_def base DockerConfigDir_def)
  obtain es1 es2 es3 s1 s2 where run: "es' = es1 @ es2" "runs (compareRemoteArtifact (?as ! 0)) es1 (Inr s1)"
      "runs (compareRemoteArtifact (?as ! 1)) es2 (Inr s2)"
      "drift = (let d = (if s1 \<noteq> [] then put_key ''compose'' s1 [] else []) in if s2 \<noteq> [] then put_key ''docker_config'' s2 d else d)"
    using assms(2) Inr by (auto simp: runtime_artifact_drift_def artifacts_def runs_check_artifacts Let_def simp del: check_artifacts.simps(2))
  have reads: "reads_written es es1" "reads_written es es2" using assms(3) run(1) by (auto simp: reads_written_def)
  show ?thesis
    using drift_told[OF run(2) reads(1) found(1)] drift_told[OF run(3) reads(2) found(2)] run(4)
    by (auto simp: artifacts_def)
qed (use assms in \<open>simp add: runtime_artifact_drift_def\<close>)

subsection \<open>Examples\<close>

definition demo_checker :: checker where
  "demo_checker = \<lparr>ck_username = ''u'', ck_token = ''t'', ck_parse_json = (\<lambda>_. Inl JsonSyntax),
     ck_json = \<lparr>jl_float = (\<lambda>_. None), jl_syntax_text = ''syntax'', jl_type_text = ''type''\<rparr>, ck_registry_json = (\<lambda>_ _. ''{}'')\<rparr>"

definition demo_host :: marquee where
  "demo_host = \<lparr>mq_id = 1, mq_name = ''m'', mq_host = [], mq_port = 0, mq_user = [], mq_status = [],
     mq_domains_input = Some ''example.com'', mq_https_enabled = None, mq_tls_certificate_source = None,
     mq_acme_email = Some ''ops@example.com'', mq_build_platform = None, mq_runtime_launchable = True,
     mq_chat_launchable = False, mq_created_at = 0, mq_updated_at = 0\<rparr>"

text \<open>A destruction: one container that vanishes on its own, one network, one volume.\<close>

definition demo_teardown_run :: "host_log \<times> (go_error option) option" where
  "demo_teardown_run = replay (destroy_compose ''shop'')
     [Content (Inr ''services: {}''), Ran (\<lparr>co_stdout = [], co_stderr = [], co_exit_code = 0\<rparr>, None), Ended None,
      Listed (Inr [(''c1'', [])]), Ended (Some ErrNotFound), Listed (Inr [(''n1'', ''shop_default'')]), Ended None,
      Listed (Inr [(''shop_data'', ''shop_data'')]), Ended None, Ended None]"

theorem teardown_stays_with_project_witness:
  "all_cleared ''shop'' True (fst demo_teardown_run) \<and> all_cleared ''shop'' True (take 9 (fst demo_teardown_run))"
proof -
  have facts: "snd demo_teardown_run = Some None \<and> 9 < length (fst demo_teardown_run) \<and>
      (case fst demo_teardown_run ! 9 of (RemoveAll _, _) \<Rightarrow> True | _ \<Rightarrow> False)"
    by code_simp
  then have "demo_teardown_run = (fst demo_teardown_run, Some None)" by (metis prod.collapse)
  then have run: "runs (teardownCompose ''shop'' True) (fst demo_teardown_run) None"
    unfolding demo_teardown_run_def destroy_compose_def by (rule replay_runs)
  note shown = teardown_stays_with_project[OF runs_trace[OF run]]
  from facts obtain p r where last: "fst demo_teardown_run ! 9 = (RemoveAll p, r)" by (auto split: prod.splits host_request.splits)
  have "fst demo_teardown_run = take 9 (fst demo_teardown_run) @ (RemoveAll p, r) # drop 10 (fst demo_teardown_run)"
    using id_take_nth_drop[of 9 "fst demo_teardown_run"] facts last by simp
  with shown have "teardown_guard ''shop'' True (take 9 (fst demo_teardown_run)) (RemoveAll p)" by blast
  with shown run show ?thesis by (simp add: teardown_guard_def)
qed

definition demo_deploy_run :: "host_log \<times> (go_error option) option" where
  "demo_deploy_run = replay (deploy_compose demo_checker demo_host ''shop'' ''services: {}'')
     [Ended None, Content (Inl (ErrRemoteFileMissing [])), Ended None, Ended None, Ended None, Ended None, Inspected (Inl ErrNotFound),
      Ended (Some ErrNotFound), Created (Inr ''i''), Ended None, Ended None, Ended None, Ended None, Ended None, Ended None,
      Ran (\<lparr>co_stdout = [], co_stderr = [], co_exit_code = 0\<rparr>, None)]"

lemma demo_deploy_facts:
  "snd demo_deploy_run = Some None \<and> 15 < length (fst demo_deploy_run) \<and>
     (case fst demo_deploy_run ! 15 of (RunCommand _, _) \<Rightarrow> True | _ \<Rightarrow> False)"
  by code_simp

lemma demo_deploy_runs:
  "runs (deploy_compose demo_checker demo_host ''shop'' ''services: {}'') (fst demo_deploy_run) None"
proof -
  have "demo_deploy_run = (fst demo_deploy_run, Some None)" using demo_deploy_facts by (metis prod.collapse)
  then show ?thesis unfolding demo_deploy_run_def by (rule replay_runs)
qed

theorem deployment_starts_what_it_wrote_witness:
  "(WriteRemoteFile (PlaygroundPath ''shop'' @ ''/compose.yml'') ''services: {}'' 420, Ended None) \<in> set (take 15 (fst demo_deploy_run))"
proof -
  from demo_deploy_facts obtain c r where last: "fst demo_deploy_run ! 15 = (RunCommand c, r)" by (auto split: prod.splits host_request.splits)
  have "fst demo_deploy_run = take 15 (fst demo_deploy_run) @ (RunCommand c, r) # drop 16 (fst demo_deploy_run)"
    using id_take_nth_drop[of 15 "fst demo_deploy_run"] demo_deploy_facts last by simp
  then have "trace (deploy_compose demo_checker demo_host ''shop'' ''services: {}'')
      (take 15 (fst demo_deploy_run) @ (RunCommand c, r) # drop 16 (fst demo_deploy_run))"
    using runs_trace[OF demo_deploy_runs] by simp
  from deployment_starts_what_it_wrote[OF this] show ?thesis by (simp add: deploy_guard_def)
qed

definition demo_drift_run :: "host_log \<times> (go_error + string smap) option" where
  "demo_drift_run = replay (runtime_artifact_drift demo_checker ''shop'' ''services: {a: {}}'')
     [Content (Inr ''services: {}''), Content (Inr (dockerConfigJSON demo_checker))]"

theorem no_drift_after_deployment_witness:
  "snd demo_drift_run = Some (Inr [(''compose'', ''drift'')])"
proof -
  have facts: "case snd demo_drift_run of Some (Inr d) \<Rightarrow> True | _ \<Rightarrow> False"
    by code_simp
  then obtain d where told: "snd demo_drift_run = Some (Inr d)"
    by (auto split: option.splits sum.splits)
  then have d: "demo_drift_run = (fst demo_drift_run, Some (Inr d))" by (metis prod.collapse)
  then have run: "runs (runtime_artifact_drift demo_checker ''shop'' ''services: {a: {}}'') (fst demo_drift_run) (Inr d)"
    unfolding demo_drift_run_def by (rule replay_runs)
  have "fst demo_drift_run = [(ReadRemoteFile (PlaygroundPath ''shop'' @ ''/compose.yml''), Content (Inr ''services: {}'')),
      (ReadRemoteFile (DockerConfigDir ''shop'' @ ''/config.json''), Content (Inr (dockerConfigJSON demo_checker)))]"
    by code_simp
  then have "reads_written (fst demo_deploy_run) (fst demo_drift_run)"
    by (simp add: reads_written_def deployed_files[OF demo_deploy_runs])
  from no_drift_after_deployment[OF demo_deploy_runs run this] have "d = [(''compose'', ''drift'')]" by simp
  with told show ?thesis by simp
qed

end
