(* ===== verification/Settings.thy ===== *)
theory Settings
  imports HostDeploy
begin

text \<open>
  The configuration of the process (\<open>internal/config\<close>): \<open>config.go\<close> and \<open>helpers.go\<close>. The environment is given as the
  record \<open>env.Parse\<close> fills in. \<open>url.ParseQuery\<close> and the part of \<open>mail.ParseAddress\<close> that decides whether an address comes
  back as it was written are modelled here; which bracketed texts are domain literals is a parameter, and only chooses
  between two error texts.

  Shown: what an accepted configuration has, up to the domain that is routed and the arguments Traefik is started with.
\<close>

subsection \<open>Library\<close>

text \<open>\<open>url.ParseQuery\<close>: \<open>None\<close> when a part of the query is malformed.\<close>

definition query_unescape :: "string \<Rightarrow> string option" where
  "query_unescape s = unescape (map (\<lambda>c. if c = CHR ''+'' then CHR '' '' else c) s)"

fun query_parts :: "string list \<Rightarrow> (string \<times> string) list option" where
  "query_parts [] = Some []"
| "query_parts (part # parts) =
     (if part = [] then query_parts parts
      else if CHR '';'' \<in> set part then None
      else case cut_char (CHR ''='') part of (key, value, _) \<Rightarrow>
        (case (query_unescape key, query_unescape value, query_parts parts) of
           (Some k, Some v, Some rest) \<Rightarrow> Some ((k, v) # rest)
         | _ \<Rightarrow> None))"

definition ParseQuery :: "string \<Rightarrow> (string \<times> string) list option" where
  "ParseQuery s = query_parts (split_char (CHR ''&'') s)"

text \<open>A run of atoms and single dots, as \<open>net/mail\<close> reads a local part or a domain: visible runes but the special ones of
RFC 5322, and no rune that is not valid UTF-8.\<close>

definition atom_rune :: "string \<Rightarrow> bool" where
  "atom_rune r =
     (case r of
        [c] \<Rightarrow> 0x21 \<le> byte_of c \<and> byte_of c \<le> 0x7E \<and> c \<notin> set ''()<>[]:;@,'' \<and> c \<noteq> CHR 0x5C \<and> c \<noteq> CHR 0x22
      | _ \<Rightarrow> length r > 1)"

definition dot_atom :: "string \<Rightarrow> bool" where
  "dot_atom s =
     (s \<noteq> [] \<and> list_all atom_rune (runes s) \<and> \<not> has_prefix s ''.'' \<and> \<not> str_contains s ''..'' \<and> \<not> has_suffix s ''.'')"

text \<open>\<open>mail.ParseAddress\<close> succeeds and gives back the text it was given: a display name, a comment, quotes or blanks would
make the address a shorter one.\<close>

definition unchanged_address :: "(string \<Rightarrow> bool) \<Rightarrow> string \<Rightarrow> bool" where
  "unchanged_address literal email =
     (case cut_char (CHR ''@'') email of (local_part, domain_part, found) \<Rightarrow>
        found \<and> dot_atom local_part \<and> (if has_prefix domain_part ''['' then literal domain_part else dot_atom domain_part))"

subsection \<open>DNS names (helpers.go)\<close>

definition maxDNSNameLength :: nat where "maxDNSNameLength = 253"
definition maxDNSLabelLength :: nat where "maxDNSLabelLength = 63"
definition maxPlayguardIntervalSeconds :: int where "maxPlayguardIntervalSeconds = 9223372036"

definition isDNSLabelChar :: "char \<Rightarrow> bool" where
  "isDNSLabelChar r = (is_lower r \<or> is_upper r \<or> is_digit r \<or> r = CHR ''-'')"

definition validDNSLabel :: "string \<Rightarrow> bool" where
  "validDNSLabel name =
     (\<not> (name = [] \<or> length name > maxDNSLabelLength \<or> has_prefix name ''-'' \<or> has_suffix name ''-'') \<and>
      list_all isDNSLabelChar name)"

definition validEmailDomain :: "string \<Rightarrow> bool" where
  "validEmailDomain domainValue =
     (\<not> (length domainValue > maxDNSNameLength \<or> \<not> str_contains domainValue ''.'') \<and>
      list_all validDNSLabel (split_char (CHR ''.'') domainValue))"

definition contains_any :: "string \<Rightarrow> string \<Rightarrow> bool" where
  "contains_any s cs = list_ex (\<lambda>c. c \<in> set cs) s"

definition validateMarqueeDomainShape :: "string \<Rightarrow> string option" where
  "validateMarqueeDomainShape domainValue =
     (if domainValue = [] then Some ''FIBE_ROOT_DOMAIN is required''
      else if contains_any domainValue [CHR '','', CHR '' '', CHR 0x09, CHR 0x0D, CHR 0x0A]
        then Some ''FIBE_ROOT_DOMAIN must contain exactly one domain''
      else if str_contains domainValue ''://'' \<or> contains_any domainValue [CHR ''/'', CHR 0x5C]
        then Some ''FIBE_ROOT_DOMAIN must be a hostname, not a URL''
      else if str_contains domainValue '':'' then Some ''FIBE_ROOT_DOMAIN must not include a port''
      else if length domainValue > maxDNSNameLength then Some ''FIBE_ROOT_DOMAIN is too long''
      else if \<not> str_contains domainValue ''.'' then Some ''FIBE_ROOT_DOMAIN must be a DNS hostname with at least one dot''
      else None)"

definition validateMarqueeDomainLabels :: "string \<Rightarrow> string option" where
  "validateMarqueeDomainLabels domainValue =
     (if list_all validDNSLabel (split_char (CHR ''.'') domainValue) then None
      else Some ''FIBE_ROOT_DOMAIN has an invalid DNS label'')"

definition validateMarqueeDomain :: "string \<Rightarrow> string option" where
  "validateMarqueeDomain domainValue =
     (case validateMarqueeDomainShape domainValue of Some e \<Rightarrow> Some e | None \<Rightarrow> validateMarqueeDomainLabels domainValue)"

definition validateACMEEmail :: "(string \<Rightarrow> bool) \<Rightarrow> string \<Rightarrow> string option" where
  "validateACMEEmail literal email =
     (if \<not> unchanged_address literal email then Some ''FIBE_ACME_EMAIL must be a plain email address''
      else case cut_char (CHR ''@'') email of (_, domainPart, ok) \<Rightarrow>
        if \<not> ok \<or> \<not> validEmailDomain domainPart then Some ''FIBE_ACME_EMAIL must use a DNS hostname domain'' else None)"

subsection \<open>Paths and numbers (helpers.go)\<close>

definition sqliteQueryUsesMemory :: "string \<Rightarrow> bool" where
  "sqliteQueryUsesMemory query =
     (case ParseQuery query of
        None \<Rightarrow> False
      | Some entries \<Rightarrow> equal_fold (case map_of entries ''mode'' of None \<Rightarrow> [] | Some v \<Rightarrow> v) ''memory'')"

definition sqliteFileDSNPath :: "string \<Rightarrow> string option" where
  "sqliteFileDSNPath dbPath =
     (case cut_char (CHR ''?'') (trim_prefix dbPath ''file:'') of (name, query, _) \<Rightarrow>
        if name = [] \<or> has_prefix name '':'' \<or> sqliteQueryUsesMemory query then None else Some name)"

definition databaseDir :: "string \<Rightarrow> string" where
  "databaseDir raw =
     (let dbPath = trim_space raw
      in if dbPath = [] \<or> dbPath = '':memory:'' then []
         else if \<not> has_prefix dbPath ''file:'' then path_dir dbPath
         else case sqliteFileDSNPath dbPath of None \<Rightarrow> [] | Some name \<Rightarrow> path_dir name)"

definition withDefault :: "string \<Rightarrow> string \<Rightarrow> string" where
  "withDefault v fallback = (if trim_space v = [] then fallback else trim_space v)"

definition playguardInterval :: "int \<Rightarrow> string + int" where
  "playguardInterval seconds =
     (if seconds \<le> 0 \<or> seconds > maxPlayguardIntervalSeconds
      then Inl ''FIBE_PLAYGUARD_INTERVAL_SECONDS must be positive and within range''
      else Inr (seconds * 1000000000))"

subsection \<open>Configuration (config.go)\<close>

record MarqueeConfig =
  mc_name :: string
  mc_domain :: string
  mc_user :: string
  mc_host :: string
  mc_port :: int
  mc_acme_email :: string
  mc_build_platform :: string

record Config =
  cfg_addr :: string
  cfg_db_path :: string
  cfg_data_dir :: string
  cfg_api_token :: string
  cfg_github_token :: string
  cfg_webhook_secret :: string
  cfg_docker_username :: string
  cfg_docker_token :: string
  cfg_playguard_interval :: int
  cfg_marquee :: MarqueeConfig

record rawEnvConfig =
  env_db_path :: string
  env_data_dir :: string
  env_api_token :: string
  env_github_token :: string
  env_webhook_secret :: string
  env_docker_username :: string
  env_docker_token :: string
  env_playguard_seconds :: int
  env_root_domain :: string
  env_acme_email :: string
  env_build_platform :: string

definition defaultAddr :: string where "defaultAddr = '':2402''"
definition defaultDBPath :: string where "defaultDBPath = ''data/fibe-distilled.sqlite3''"
definition defaultDataDir :: string where "defaultDataDir = ''data''"

definition loadMarqueeConfig :: "(string \<Rightarrow> bool) \<Rightarrow> string \<Rightarrow> string \<Rightarrow> string \<Rightarrow> string + MarqueeConfig" where
  "loadMarqueeConfig literal domain0 email0 platform0 =
     (let domainValue = trim_space domain0; acmeEmail = trim_space email0; buildPlatform = trim_space platform0
      in case validateMarqueeDomain domainValue of
           Some e \<Rightarrow> Inl e
         | None \<Rightarrow>
             if acmeEmail = [] then Inl ''FIBE_ACME_EMAIL is required''
             else case validateACMEEmail literal acmeEmail of
                    Some e \<Rightarrow> Inl e
                  | None \<Rightarrow>
                      (case ParseBuildPlatform buildPlatform of
                         Inl e \<Rightarrow> Inl (''FIBE_BUILD_PLATFORM: '' @ e)
                       | Inr platform \<Rightarrow>
                           Inr \<lparr>mc_name = ''default'', mc_domain = domainValue, mc_user = ''local'', mc_host = ''localhost'',
                                mc_port = 0, mc_acme_email = acmeEmail, mc_build_platform = platform_string platform\<rparr>))"

text \<open>The configuration is used only when there is no error; the partial one the code returns beside an error is left out.\<close>

definition configFromRawEnv :: "(string \<Rightarrow> bool) \<Rightarrow> rawEnvConfig \<Rightarrow> string + Config" where
  "configFromRawEnv literal raw =
     (case loadMarqueeConfig literal (env_root_domain raw) (env_acme_email raw) (env_build_platform raw) of
        Inl e \<Rightarrow> Inl e
      | Inr marquee \<Rightarrow>
          (case playguardInterval (env_playguard_seconds raw) of
             Inl e \<Rightarrow> Inl e
           | Inr interval \<Rightarrow>
               if trim_space (env_api_token raw) = [] then Inl ''FIBE_API_KEY is required''
               else Inr \<lparr>cfg_addr = defaultAddr, cfg_db_path = withDefault (env_db_path raw) defaultDBPath,
                    cfg_data_dir = withDefault (env_data_dir raw) defaultDataDir,
                    cfg_api_token = trim_space (env_api_token raw), cfg_github_token = trim_space (env_github_token raw),
                    cfg_webhook_secret = trim_space (env_webhook_secret raw),
                    cfg_docker_username = trim_space (env_docker_username raw),
                    cfg_docker_token = trim_space (env_docker_token raw), cfg_playguard_interval = interval,
                    cfg_marquee = marquee\<rparr>))"

definition ToDomain :: "MarqueeConfig \<Rightarrow> marquee" where
  "ToDomain m =
     \<lparr>mq_id = 0, mq_name = (if trim_space (mc_name m) = [] then ''default'' else trim_space (mc_name m)),
      mq_host = trim_space (mc_host m), mq_port = mc_port m, mq_user = trim_space (mc_user m), mq_status = ''active'',
      mq_domains_input = Some (trim_space (mc_domain m)), mq_https_enabled = Some True,
      mq_tls_certificate_source = Some ''automatic'', mq_acme_email = Some (trim_space (mc_acme_email m)),
      mq_build_platform = (if trim_space (mc_build_platform m) = [] then None else Some (trim_space (mc_build_platform m))),
      mq_runtime_launchable = False, mq_chat_launchable = False, mq_created_at = 0, mq_updated_at = 0\<rparr>"

definition prepareLocalPaths :: "Config \<Rightarrow> (go_error option) host" where
  "prepareLocalPaths cfg =
     and_next (wrapped ''create data dir'' (end_of (MkdirLocal (cfg_data_dir cfg) 448)))
       (if databaseDir (cfg_db_path cfg) \<noteq> []
        then wrapped ''create database dir'' (end_of (MkdirLocal (databaseDir (cfg_db_path cfg)) 448)) else Ret None)"

subsection \<open>What an accepted configuration has\<close>

definition dns_name :: "string \<Rightarrow> bool" where
  "dns_name name =
     (length name \<le> 253 \<and> length (split_char (CHR ''.'') name) \<ge> 2 \<and>
      (\<forall>l \<in> set (split_char (CHR ''.'') name). 0 < length l \<and> length l \<le> 63 \<and> hd l \<noteq> CHR ''-'' \<and> last l \<noteq> CHR ''-'' \<and>
         (\<forall>c \<in> set l. is_lower c \<or> is_upper c \<or> is_digit c \<or> c = CHR ''-'')))"

lemma valid_label:
  assumes "validDNSLabel l"
  shows "0 < length l \<and> length l \<le> 63 \<and> hd l \<noteq> CHR ''-'' \<and> last l \<noteq> CHR ''-'' \<and>
    (\<forall>c \<in> set l. is_lower c \<or> is_upper c \<or> is_digit c \<or> c = CHR ''-'')"
proof -
  from assms have parts: "l \<noteq> []" "length l \<le> 63" "\<not> has_prefix l ''-''" "\<not> has_suffix l ''-''" "list_all isDNSLabelChar l"
    by (simp_all add: validDNSLabel_def maxDNSLabelLength_def)
  have "hd l \<noteq> CHR ''-''" using parts(1,3) by (cases l) auto
  moreover have "last l \<noteq> CHR ''-''" using parts(1,4) by (auto simp: has_suffix_iff) (metis append_butlast_last_id)
  ultimately show ?thesis using parts by (auto simp: list_all_iff isDNSLabelChar_def)
qed

lemma dns_name_valid:
  assumes "length s \<le> maxDNSNameLength" and "str_contains s ''.''" and "list_all validDNSLabel (split_char (CHR ''.'') s)"
  shows "dns_name s"
proof -
  from assms(2) obtain a b where s: "s = a @ CHR ''.'' # b" by (auto simp: str_contains_iff)
  have "length (split_char (CHR ''.'') s) \<ge> 2"
    unfolding s split_char_app using split_char_ne[of "CHR ''.''" a] split_char_ne[of "CHR ''.''" b]
    by (cases "split_char (CHR ''.'') a"; cases "split_char (CHR ''.'') b") auto
  with assms(1,3) show ?thesis
    using valid_label by (auto simp: dns_name_def maxDNSNameLength_def list_all_iff)
qed

lemma domain_accepted:
  assumes "validateMarqueeDomain d = None"
  shows "dns_name d" and "\<not> contains_any d [CHR '','', CHR '' '', CHR 0x09, CHR 0x0D, CHR 0x0A]" and "d \<noteq> []"
  using assms
  by (auto simp: validateMarqueeDomain_def validateMarqueeDomainShape_def validateMarqueeDomainLabels_def
      split: option.splits if_splits intro: dns_name_valid)

lemma email_accepted:
  assumes "validateACMEEmail literal email = None"
  obtains l d where "email = l @ CHR ''@'' # d" and "dot_atom l" and "dns_name d"
proof (cases rule: cut_char_cases[of "CHR ''@''" email])
  case absent
  with assms show ?thesis by (simp add: validateACMEEmail_def unchanged_address_def split: if_splits)
next
  case (found l d)
  with assms have "dot_atom l" "validEmailDomain d"
    by (auto simp: validateACMEEmail_def unchanged_address_def split: if_splits)
  with found(1) show ?thesis
    by (intro that) (auto simp: validEmailDomain_def intro: dns_name_valid)
qed

lemma fields_acc_single:
  "list_all (\<lambda>c. \<not> sep c) s \<Longrightarrow> fields_acc sep acc s = (if acc = [] \<and> s = [] then [] else [rev acc @ s])"
  by (induction s arbitrary: acc) auto

lemma first_domain_single:
  assumes "d \<noteq> []" and "trim_space d = d" and "\<not> contains_any d [CHR '','', CHR '' '', CHR 0x09, CHR 0x0D, CHR 0x0A]"
  shows "FirstDomainFromInput (Some d) = d"
proof -
  have "list_all (\<lambda>c. \<not> marqueeDomainSeparator c) d"
    using assms(3) by (auto simp: contains_any_def marqueeDomainSeparator_def list_all_iff list_ex_iff)
  from fields_acc_single[OF this] assms(1,2) show ?thesis by (simp add: FirstDomainFromInput_def fields_func_def)
qed

text \<open>C34: An accepted configuration is usable. The API token is not blank; the interval of the background pass is the configured number of seconds, positive, and its nanoseconds fit 64 bits; the domain and the domain of the mail address are DNS names of at least two labels, each of 1 to 63 letters, digits and inner hyphens, 253 bytes at most; the domain the runtime takes from the stored Marquee is exactly the configured one; Traefik's arguments can be made from it and carry the configured address; and the platform is one the builds know.\<close>

theorem accepted_configuration:
  assumes "configFromRawEnv literal raw = Inr cfg"
  shows "cfg_api_token cfg \<noteq> [] \<and> cfg_playguard_interval cfg = env_playguard_seconds raw * 1000000000 \<and>
    0 < cfg_playguard_interval cfg \<and> cfg_playguard_interval cfg \<le> 9223372036854775807 \<and>
    dns_name (mc_domain (cfg_marquee cfg)) \<and>
    (\<exists>l d. mc_acme_email (cfg_marquee cfg) = l @ CHR ''@'' # d \<and> dot_atom l \<and> dns_name d) \<and>
    FirstDomainFromInput (mq_domains_input (ToDomain (cfg_marquee cfg))) = mc_domain (cfg_marquee cfg) \<and>
    (\<exists>args. traefikArgs (ToDomain (cfg_marquee cfg)) = Inr args \<and>
       ''--certificatesresolvers.letsencrypt.acme.email='' @ mc_acme_email (cfg_marquee cfg) \<in> set args) \<and>
    (\<exists>p. ParseBuildPlatform (mc_build_platform (cfg_marquee cfg)) = Inr p)"
proof -
  from assms obtain m interval where m: "loadMarqueeConfig literal (env_root_domain raw) (env_acme_email raw) (env_build_platform raw) = Inr m"
    and interval: "playguardInterval (env_playguard_seconds raw) = Inr interval"
    and cfg: "cfg_marquee cfg = m" "cfg_playguard_interval cfg = interval" "cfg_api_token cfg \<noteq> []"
    by (auto simp: configFromRawEnv_def split: sum.splits if_splits)
  from m obtain p where accepted: "validateMarqueeDomain (mc_domain m) = None" "validateACMEEmail literal (mc_acme_email m) = None"
      "mc_acme_email m \<noteq> []" "mc_build_platform m = platform_string p"
    and trimmed: "trim_space (mc_domain m) = mc_domain m" "trim_space (mc_acme_email m) = mc_acme_email m"
    by (auto simp: loadMarqueeConfig_def Let_def trim_space_idem split: option.splits sum.splits if_splits)
  from email_accepted[OF accepted(2)] obtain l d where "mc_acme_email m = l @ CHR ''@'' # d" "dot_atom l" "dns_name d" .
  moreover have "interval = env_playguard_seconds raw * 1000000000 \<and> 0 < interval \<and> interval \<le> 9223372036854775807"
    using interval by (auto simp: playguardInterval_def maxPlayguardIntervalSeconds_def split: if_splits)
  moreover have "FirstDomainFromInput (mq_domains_input (ToDomain m)) = mc_domain m"
    using first_domain_single[OF domain_accepted(3)[OF accepted(1)] trimmed(1) domain_accepted(2)[OF accepted(1)]] trimmed(1)
    by (simp add: ToDomain_def)
  moreover have "\<exists>args. traefikArgs (ToDomain m) = Inr args \<and> ''--certificatesresolvers.letsencrypt.acme.email='' @ mc_acme_email m \<in> set args"
    using trimmed(2) accepted(3) by (simp add: traefikArgs_def ToDomain_def)
  ultimately show ?thesis
    using domain_accepted(1)[OF accepted(1)] accepted(4) ParseBuildPlatform_string[of p] cfg(3) unfolding cfg(1,2) by metis
qed

definition demo_env :: rawEnvConfig where
  "demo_env = \<lparr>env_db_path = [], env_data_dir = [], env_api_token = '' k '', env_github_token = [], env_webhook_secret = [],
     env_docker_username = [], env_docker_token = [], env_playguard_seconds = 30, env_root_domain = ''a-1.example'',
     env_acme_email = ''ops@example.org'', env_build_platform = ''linux/arm64''\<rparr>"

theorem accepted_configuration_witness:
  "\<exists>cfg. configFromRawEnv (\<lambda>_. False) demo_env = Inr cfg \<and> cfg_playguard_interval cfg = 30000000000 \<and>
     dns_name (mc_domain (cfg_marquee cfg))"
proof -
  have "case configFromRawEnv (\<lambda>_. False) demo_env of Inr _ \<Rightarrow> env_playguard_seconds demo_env = 30 | Inl _ \<Rightarrow> False"
    by code_simp
  then obtain cfg where "configFromRawEnv (\<lambda>_. False) demo_env = Inr cfg" "env_playguard_seconds demo_env = 30"
    by (auto split: sum.splits)
  with accepted_configuration[OF this(1)] show ?thesis by auto
qed

end
