(* ===== verification/Startup.thy ===== *)
theory Startup
  imports Settings
begin

text \<open>
  From the start of the process to its end (\<open>cmd/fibe-distilled/main.go\<close>, \<open>store_cleanup.go\<close>): the configuration is read,
  the store opened, the configured Marquee written, the host prepared, interrupted work closed, the background pass
  started, and requests are served until the process is told to stop. What the host does is the program of \<open>HostDeploy\<close>;
  the operations of the store are requests with any answer. Logging is left out.

  Shown: nothing is served, and the background pass not started, before all of that is done, and an opened store is closed.
\<close>

subsection \<open>Requests\<close>

datatype startup_request =
    ReadEnv
  | OnHost host_request
  | OpenStore string
  | StoredServerID
  | EnsureConfigured marquee
  | RecoverAsyncOperations
  | RecoverPlaygrounds
  | BeginPlayguard int
  | ServeHTTP string
  | ShutdownServer
  | CloseStore

datatype startup_answer =
    Env "go_error + rawEnvConfig"
  | HostSaid host_answer
  | Went "go_error option"
  | Told "go_error + string"
  | Configured "go_error + marquee"

type_synonym 'a startup = "(startup_request, startup_answer, 'a) program"

type_synonym startup_log = "(startup_request, startup_answer) log"

definition went :: "startup_request \<Rightarrow> (go_error option) startup" where
  "went q = Call q (\<lambda>r. case r of Went x \<Rightarrow> Ret x | _ \<Rightarrow> Stuck)"

definition read_env :: "(go_error + rawEnvConfig) startup" where
  "read_env = Call ReadEnv (\<lambda>r. case r of Env x \<Rightarrow> Ret x | _ \<Rightarrow> Stuck)"

definition told :: "startup_request \<Rightarrow> (go_error + string) startup" where
  "told q = Call q (\<lambda>r. case r of Told x \<Rightarrow> Ret x | _ \<Rightarrow> Stuck)"

definition ensure_configured :: "marquee \<Rightarrow> (go_error + marquee) startup" where
  "ensure_configured m = Call (EnsureConfigured m) (\<lambda>r. case r of Configured x \<Rightarrow> Ret x | _ \<Rightarrow> Stuck)"

text \<open>A program of the host as a part of the start.\<close>

primrec on_host :: "'a host \<Rightarrow> 'a startup" where
  "on_host (Ret a) = Ret a"
| "on_host Stuck = Stuck"
| "on_host (Call q k) = Call (OnHost q) (\<lambda>r. case r of HostSaid x \<Rightarrow> on_host (k x) | _ \<Rightarrow> Stuck)"

subsection \<open>Reading the configuration (config.go)\<close>

definition Load :: "(string \<Rightarrow> bool) \<Rightarrow> (go_error + Config) startup" where
  "Load literal =
     bind read_env (\<lambda>x. case x of
       Inl e \<Rightarrow> Ret (Inl e)
     | Inr raw \<Rightarrow>
         (case configFromRawEnv literal raw of
            Inl e \<Rightarrow> Ret (Inl (ErrText e))
          | Inr cfg \<Rightarrow> bind (on_host (prepareLocalPaths cfg)) (\<lambda>err. Ret (case err of Some e \<Rightarrow> Inl e | None \<Rightarrow> Inr cfg))))"

subsection \<open>The store (main.go, store\_cleanup.go)\<close>

definition closeStoreAfterOpenError :: "go_error \<Rightarrow> go_error startup" where
  "closeStoreAfterOpenError cause =
     bind (went CloseStore) (\<lambda>err. Ret (case err of Some e \<Rightarrow> ErrJoin [cause, ErrWrap ''close database'' e] | None \<Rightarrow> cause))"

definition openStore :: "Config \<Rightarrow> (go_error + string \<times> marquee) startup" where
  "openStore cfg =
     bind (went (OpenStore (cfg_db_path cfg))) (\<lambda>err. case err of
       Some e \<Rightarrow> Ret (Inl (ErrWrap ''database'' e))
     | None \<Rightarrow>
         bind (told StoredServerID) (\<lambda>x. case x of
           Inl e \<Rightarrow> bind (closeStoreAfterOpenError (ErrWrap ''server identity'' e)) (\<lambda>e. Ret (Inl e))
         | Inr serverID \<Rightarrow>
             bind (ensure_configured (ToDomain (cfg_marquee cfg))) (\<lambda>y. case y of
               Inl e \<Rightarrow> bind (closeStoreAfterOpenError (ErrWrap ''configured marquee'' e)) (\<lambda>e. Ret (Inl e))
             | Inr m \<Rightarrow> Ret (Inr (serverID, m)))))"

text \<open>A recovery that fails is logged and does not stop the start.\<close>

definition recoverInterruptedState :: "unit startup" where
  "recoverInterruptedState = bind (went RecoverAsyncOperations) (\<lambda>_. bind (went RecoverPlaygrounds) (\<lambda>_. Ret ()))"

subsection \<open>Serving (main.go)\<close>

text \<open>\<open>None\<close> when the process was told to stop, an error when the server failed.\<close>

definition serve :: "string \<Rightarrow> (go_error option) startup" where
  "serve addr =
     bind (went (ServeHTTP addr)) (\<lambda>err. case err of
       Some e \<Rightarrow> Ret (Some (ErrWrap ''server'' e))
     | None \<Rightarrow> bind (went ShutdownServer) (\<lambda>_. Ret None))"

definition checker_of :: "Config \<Rightarrow> checker \<Rightarrow> checker" where
  "checker_of cfg C = C\<lparr>ck_username := cfg_docker_username cfg, ck_token := cfg_docker_token cfg\<rparr>"

text \<open>What happens while the store is open.\<close>

definition run_opened :: "checker \<Rightarrow> Config \<Rightarrow> marquee \<Rightarrow> (go_error option) startup" where
  "run_opened C cfg m =
     bind (on_host (EnsureLocalRuntimeBootstrap (checker_of cfg C) m)) (\<lambda>err. case err of
       Some e \<Rightarrow> Ret (Some (ErrWrap ''local runtime bootstrap'' e))
     | None \<Rightarrow>
         bind recoverInterruptedState (\<lambda>_.
           bind (went (BeginPlayguard (NormalizeInterval (cfg_playguard_interval cfg)))) (\<lambda>_. serve (cfg_addr cfg))))"

definition run :: "(string \<Rightarrow> bool) \<Rightarrow> checker \<Rightarrow> (go_error option) startup" where
  "run literal C =
     bind (Load literal) (\<lambda>x. case x of
       Inl e \<Rightarrow> Ret (Some (ErrWrap ''config'' e))
     | Inr cfg \<Rightarrow>
         bind (openStore cfg) (\<lambda>y. case y of
           Inl e \<Rightarrow> Ret (Some e)
         | Inr (_, m) \<Rightarrow> bind (run_opened C cfg m) (\<lambda>result. bind (went CloseStore) (\<lambda>_. Ret result))))"

subsection \<open>Ready to serve\<close>

definition at_host :: "host_request \<times> host_answer \<Rightarrow> startup_request \<times> startup_answer" where
  "at_host e = (OnHost (fst e), HostSaid (snd e))"

text \<open>The configuration was accepted, the store opened at its path, and the configured Marquee is in it.\<close>

definition opened :: "(string \<Rightarrow> bool) \<Rightarrow> Config \<Rightarrow> marquee \<Rightarrow> startup_log \<Rightarrow> bool" where
  "opened literal cfg m h =
     ((\<exists>raw. (ReadEnv, Env (Inr raw)) \<in> set h \<and> configFromRawEnv literal raw = Inr cfg) \<and>
      (OpenStore (cfg_db_path cfg), Went None) \<in> set h \<and>
      (EnsureConfigured (ToDomain (cfg_marquee cfg)), Configured (Inr m)) \<in> set h)"

text \<open>After that, the whole preparation of the host ran to its end without an error.\<close>

definition prepared :: "(string \<Rightarrow> bool) \<Rightarrow> checker \<Rightarrow> Config \<Rightarrow> startup_log \<Rightarrow> bool" where
  "prepared literal C cfg h =
     (\<exists>m h1 es h2. h = h1 @ map at_host es @ h2 \<and> opened literal cfg m h1 \<and>
        runs (EnsureLocalRuntimeBootstrap (checker_of cfg C) m) es None)"

definition recovery_asked :: "startup_log \<Rightarrow> bool" where
  "recovery_asked h = ({RecoverAsyncOperations, RecoverPlaygrounds} \<subseteq> fst ` set h)"

definition start_guard :: "(string \<Rightarrow> bool) \<Rightarrow> checker \<Rightarrow> startup_log \<Rightarrow> startup_request \<Rightarrow> bool" where
  "start_guard literal C h q =
     (case q of
        RecoverAsyncOperations \<Rightarrow> \<exists>cfg. prepared literal C cfg h
      | RecoverPlaygrounds \<Rightarrow> \<exists>cfg. prepared literal C cfg h
      | BeginPlayguard i \<Rightarrow> \<exists>cfg. prepared literal C cfg h \<and> recovery_asked h \<and> i = cfg_playguard_interval cfg
      | ServeHTTP addr \<Rightarrow> (\<exists>cfg. prepared literal C cfg h \<and> recovery_asked h \<and>
          (BeginPlayguard (cfg_playguard_interval cfg)) \<in> fst ` set h) \<and> addr = '':2402''
      | _ \<Rightarrow> True)"

definition store_opened :: "startup_log \<Rightarrow> bool" where
  "store_opened h = (\<exists>p. (OpenStore p, Went None) \<in> set h)"

lemma wp_went [simp]: "wp G Q (went q) h \<longleftrightarrow> G h q \<and> (\<forall>x. Q (h @ [(q, Went x)]) x)"
  unfolding went_def by (rule wp_answer) (auto split: startup_answer.split)

lemma wp_read_env [simp]: "wp G Q read_env h \<longleftrightarrow> G h ReadEnv \<and> (\<forall>x. Q (h @ [(ReadEnv, Env x)]) x)"
  unfolding read_env_def by (rule wp_answer) (auto split: startup_answer.split)

lemma wp_told [simp]: "wp G Q (told q) h \<longleftrightarrow> G h q \<and> (\<forall>x. Q (h @ [(q, Told x)]) x)"
  unfolding told_def by (rule wp_answer) (auto split: startup_answer.split)

lemma wp_ensure_configured [simp]:
  "wp G Q (ensure_configured m) h \<longleftrightarrow> G h (EnsureConfigured m) \<and> (\<forall>x. Q (h @ [(EnsureConfigured m, Configured x)]) x)"
  unfolding ensure_configured_def by (rule wp_answer) (auto split: startup_answer.split)

lemma wp_on_host:
  assumes "\<And>h q. G h (OnHost q)"
  shows "wp G (\<lambda>h' x. \<exists>es. h' = h @ map at_host es \<and> runs m es x) (on_host m) h"
proof (induction m arbitrary: h)
  case (Call q k)
  have "wp G (\<lambda>h' x. \<exists>es. h' = h @ map at_host es \<and> runs (Call q k) es x) (on_host (k y)) (h @ [(OnHost q, HostSaid y)])" for y
    by (rule wp_mono[OF Call.IH[OF rangeI]]) (force simp: at_host_def)
  then show ?case by (auto simp: assms split: startup_answer.split)
qed simp_all

lemma opened_mono: "opened literal cfg m h \<Longrightarrow> opened literal cfg m (h @ h')"
  by (auto simp: opened_def)

lemma prepared_mono: "prepared literal C cfg h \<Longrightarrow> prepared literal C cfg (h @ h')"
  unfolding prepared_def by (metis append.assoc)

lemma interval_normal: "configFromRawEnv literal raw = Inr cfg \<Longrightarrow> NormalizeInterval (cfg_playguard_interval cfg) = cfg_playguard_interval cfg \<and> cfg_addr cfg = '':2402''"
  by (auto simp: configFromRawEnv_def playguardInterval_def NormalizeInterval_def defaultAddr_def split: sum.splits if_splits)

lemma run_opened_wp:
  assumes "opened literal cfg m h"
  shows "wp (start_guard literal C) (\<lambda>_ _. True) (run_opened C cfg m) h"
proof -
  let ?G = "start_guard literal C"
  have normal: "NormalizeInterval (cfg_playguard_interval cfg) = cfg_playguard_interval cfg" "cfg_addr cfg = '':2402''"
    using assms interval_normal by (auto simp: opened_def)
  have rest: "wp ?G (\<lambda>_ _. True) (bind recoverInterruptedState (\<lambda>_.
      bind (went (BeginPlayguard (NormalizeInterval (cfg_playguard_interval cfg)))) (\<lambda>_. serve (cfg_addr cfg)))) h'"
    if "prepared literal C cfg h'" for h'
    using that prepared_mono[OF that]
    by (force simp: recoverInterruptedState_def serve_def normal start_guard_def recovery_asked_def split: option.split)
  have boot: "wp ?G (\<lambda>h' err. err = None \<longrightarrow> prepared literal C cfg h') (on_host (EnsureLocalRuntimeBootstrap (checker_of cfg C) m)) h"
  proof (rule wp_mono[OF wp_on_host], goal_cases)
    case (2 h' err)
    then obtain es where es: "h' = h @ map at_host es @ []" "runs (EnsureLocalRuntimeBootstrap (checker_of cfg C) m) es err" by auto
    show ?case unfolding prepared_def using es assms by blast
  qed (simp add: start_guard_def)
  show ?thesis
    unfolding run_opened_def wp_bind[of _ _ "on_host _"]
    by (rule wp_mono[OF boot]) (auto split: option.split intro!: rest simp del: wp_bind)
qed

text \<open>What a start knows of the store before it is opened: nothing was; after it was opened, it is closed at the end.\<close>

lemma not_opened_on_host: "\<not> store_opened h \<Longrightarrow> \<not> store_opened (h @ map at_host es)"
  by (auto simp: store_opened_def at_host_def)

lemma run_wp:
  "wp (start_guard literal C) (\<lambda>h result. store_opened h \<longrightarrow> fst (last h) = CloseStore) (run literal C) []"
proof -
  let ?G = "start_guard literal C" and ?Q = "\<lambda>h (result :: go_error option). store_opened h \<longrightarrow> fst (last h) = CloseStore"
  have body: "wp ?G ?Q (bind (run_opened C cfg m) (\<lambda>result. bind (went CloseStore) (\<lambda>_. Ret result))) h"
    if "opened literal cfg m h" for cfg m h
    unfolding wp_bind by (rule wp_mono[OF run_opened_wp[OF that]]) (simp add: start_guard_def)
  have store: "wp ?G ?Q (bind (openStore cfg) (\<lambda>y. case y of
           Inl e \<Rightarrow> Ret (Some e)
         | Inr (_, m) \<Rightarrow> bind (run_opened C cfg m) (\<lambda>result. bind (went CloseStore) (\<lambda>_. Ret result)))) h"
    if "(ReadEnv, Env (Inr raw)) \<in> set h" "configFromRawEnv literal raw = Inr cfg" "\<not> store_opened h" for cfg raw h
  proof -
    have "wp ?G (\<lambda>h' y. case y of Inl e \<Rightarrow> ?Q h' None | Inr (_, m) \<Rightarrow> opened literal cfg m h') (openStore cfg) h"
      using that by (auto simp: openStore_def closeStoreAfterOpenError_def start_guard_def opened_def store_opened_def split: option.split sum.split)
    then show ?thesis
      unfolding wp_bind[of _ _ "openStore cfg"]
      by (rule wp_mono) (auto split: sum.splits prod.splits intro!: body simp del: wp_bind)
  qed
  have load: "wp ?G (\<lambda>h x. \<not> store_opened h \<and> (\<forall>cfg. x = Inr cfg \<longrightarrow>
      (\<exists>raw. (ReadEnv, Env (Inr raw)) \<in> set h \<and> configFromRawEnv literal raw = Inr cfg))) (Load literal) []"
  proof -
    have paths: "wp ?G (\<lambda>h err. \<not> store_opened h \<and> (ReadEnv, Env (Inr raw)) \<in> set h) (on_host (prepareLocalPaths cfg))
        [(ReadEnv, Env (Inr raw))]" for cfg raw
      by (rule wp_mono[OF wp_on_host]) (auto simp: start_guard_def store_opened_def at_host_def)
    have configured: "wp ?G (\<lambda>h x. \<not> store_opened h \<and> (\<forall>cfg. x = Inr cfg \<longrightarrow>
        (\<exists>raw. (ReadEnv, Env (Inr raw)) \<in> set h \<and> configFromRawEnv literal raw = Inr cfg)))
        (bind (on_host (prepareLocalPaths cfg)) (\<lambda>err. Ret (case err of Some e \<Rightarrow> Inl e | None \<Rightarrow> Inr cfg))) [(ReadEnv, Env (Inr raw))]"
      if "configFromRawEnv literal raw = Inr cfg" for cfg raw
      unfolding wp_bind by (rule wp_mono[OF paths]) (use that in \<open>auto split: option.split\<close>)
    have unopened: "\<not> store_opened [(ReadEnv, Env x)]" for x by (simp add: store_opened_def)
    show ?thesis
      unfolding Load_def wp_bind[of _ _ read_env] wp_read_env
      by (auto simp: start_guard_def unopened split: sum.split intro!: configured simp del: wp_bind)
  qed
  show ?thesis
    unfolding run_def wp_bind[of _ _ "Load literal"]
  proof (rule wp_mono[OF load], goal_cases)
    case (1 h x)
    show ?case
    proof (cases x)
      case (Inr cfg)
      with 1 obtain raw where "(ReadEnv, Env (Inr raw)) \<in> set h" "configFromRawEnv literal raw = Inr cfg" by auto
      then show ?thesis unfolding Inr sum.case by (rule store) (use 1 in simp)
    qed (use 1 in simp)
  qed
qed

text \<open>C19: Requests are served, on the fixed address, and the background pass is started, at the configured interval, only after the environment gave an accepted configuration, the store was opened at its path, the configured Marquee was written to it, the whole preparation of the host for that Marquee ran to its end without an error, and the recovery of interrupted operations and playgrounds was asked for, in this order; and recovery itself waits for the prepared host. Whenever a start that returns has opened the store, closing it is the last thing it does.\<close>

theorem served_when_ready:
  assumes "trace (run literal C) es"
  shows "(\<forall>es1 q r es2. es = es1 @ (q, r) # es2 \<longrightarrow> start_guard literal C es1 q) \<and>
    (\<forall>result. runs (run literal C) es result \<longrightarrow> store_opened es \<longrightarrow> fst (last es) = CloseStore)"
  using wp_trace[OF run_wp assms] wp_runs[OF run_wp] by simp

definition demo_start :: "startup_log \<times> (go_error option) option" where
  "demo_start = replay (run (\<lambda>_. False) demo_checker)
     ([Env (Inr demo_env), HostSaid (Ended None), HostSaid (Ended None), Went None, Told (Inr ''id''),
       Configured (Inr ((ToDomain (cfg_marquee (case configFromRawEnv (\<lambda>_. False) demo_env of Inr cfg \<Rightarrow> cfg)))\<lparr>mq_domains_input := None\<rparr>)),
       HostSaid (Info (Inr \<lparr>fi_name = ''docker.sock'', fi_dir = False, fi_symlink = False, fi_perm = 432\<rparr>))] @
      replicate 5 (HostSaid (Ended None)) @ replicate 2 (HostSaid (Ran (\<lparr>co_stdout = [], co_stderr = [], co_exit_code = 0\<rparr>, None))) @
      [HostSaid (Ended None), HostSaid (Ran (\<lparr>co_stdout = [], co_stderr = [], co_exit_code = 0\<rparr>, None)), HostSaid (Ended None)] @
      replicate 6 (Went None))"

lemma demo_opened:
  "list_ex (\<lambda>(q, r). case (q, r) of (OpenStore _, Went None) \<Rightarrow> True | _ \<Rightarrow> False) h \<Longrightarrow> store_opened h"
proof -
  have "e = (OpenStore (case fst e of OpenStore p \<Rightarrow> p), Went None)"
    if "(case e of (q, r) \<Rightarrow> case (q, r) of (OpenStore _, Went None) \<Rightarrow> True | _ \<Rightarrow> False)" for e
    using that by (cases e; cases "fst e"; cases "snd e") (auto split: option.splits)
  then show "list_ex (\<lambda>(q, r). case (q, r) of (OpenStore _, Went None) \<Rightarrow> True | _ \<Rightarrow> False) h \<Longrightarrow> store_opened h"
    unfolding store_opened_def list_ex_iff by metis
qed

theorem served_when_ready_witness:
  "\<exists>h cfg. prepared (\<lambda>_. False) demo_checker cfg h \<and> recovery_asked h \<and> fst (last (fst demo_start)) = CloseStore"
proof -
  have facts: "snd demo_start = Some None \<and>
      list_ex (\<lambda>(q, r). case q of ServeHTTP _ \<Rightarrow> True | _ \<Rightarrow> False) (fst demo_start) \<and>
      list_ex (\<lambda>(q, r). case (q, r) of (OpenStore _, Went None) \<Rightarrow> True | _ \<Rightarrow> False) (fst demo_start)"
    by code_simp
  then have "demo_start = (fst demo_start, Some None)" by (metis prod.collapse)
  then have run: "runs (run (\<lambda>_. False) demo_checker) (fst demo_start) None"
    unfolding demo_start_def by (rule replay_runs)
  note shown = served_when_ready[OF runs_trace[OF run]]
  from facts obtain addr r where "(ServeHTTP addr, r) \<in> set (fst demo_start)"
    by (force simp: list_ex_iff split: startup_request.splits)
  then obtain es1 es2 where "fst demo_start = es1 @ (ServeHTTP addr, r) # es2" by (meson split_list)
  with shown have "start_guard (\<lambda>_. False) demo_checker es1 (ServeHTTP addr)" by blast
  moreover have "store_opened (fst demo_start)"
    using facts demo_opened by blast
  ultimately show ?thesis using shown run by (auto simp: start_guard_def)
qed

end
