(* ===== verification/StoredRecords.thy ===== *)
theory StoredRecords
  imports PlaygroundRows BuildRecords CheckedSteps GitRepos Compose
begin

text \<open>
  The other tables of the store (\<open>internal/storage\<close>): props (\<open>store_props.go\<close>, \<open>scans_props.go\<close>), playspecs
  (\<open>store_playspecs.go\<close>), asynchronous operations (\<open>store_async.go\<close>), Marquees (\<open>store_marquees.go\<close>), build records
  (\<open>store_build_records.go\<close>, \<open>scans_build_records.go\<close>), the identity of the server (\<open>store.go\<close>), and what is read of them
  (\<open>scans.go\<close>, \<open>identifiers.go\<close>). As in \<open>PlaygroundRows\<close>, a statement is a function on the tables, a JSON column holds the
  value it decodes to, and the constraints of the schema are part of the statements. Times are given to the operations.

  Shown: branches have one normal form, a saved prop is read back as it was answered, a Marquee that is configured is the
  one the runtime gets, and recovery closes every operation that was under way.
\<close>

subsection \<open>Tables\<close>

text \<open>The branches of a prop are stored as records; names alone are what older versions wrote.\<close>

datatype branch_column = BranchRecords "prop_branch list" | BranchNames "string list"

record prop_row =
  rp_prop :: source_prop
  rp_branches :: branch_column

record stored =
  sd_tables :: tables
  sd_next_playspec :: int
  sd_next_marquee :: int
  sd_props :: "prop_row list"
  sd_next_prop :: int
  sd_builds :: "build_record list"
  sd_next_build :: int
  sd_asyncs :: "async_operation list"
  sd_server_id :: "string option"

text \<open>The row an identifier names: a text that reads as a number is an id.\<close>

definition named_by :: "string \<Rightarrow> int \<Rightarrow> string \<Rightarrow> bool" where
  "named_by identifier i name = (case parse_int64 identifier of Inr n \<Rightarrow> i = n | Inl _ \<Rightarrow> name = identifier)"

definition unique_failure :: "string \<Rightarrow> go_error" where
  "unique_failure column = ErrUnique (''UNIQUE constraint failed: '' @ column)"

subsection \<open>Ids in services (identifiers.go)\<close>

definition positiveInt64 :: "int \<Rightarrow> int option" where
  "positiveInt64 n = (if n > 0 then Some n else None)"

definition positiveInt64FromString :: "string \<Rightarrow> int option" where
  "positiveInt64FromString s = (case parse_int64 (trim_space s) of Inl _ \<Rightarrow> None | Inr n \<Rightarrow> positiveInt64 n)"

text \<open>A finite float is carried as its shortest decimal text, which has a point when it is not an integer.\<close>

definition positiveInt64FromFloat :: "go_float \<Rightarrow> int option" where
  "positiveInt64FromFloat f =
     (case f of
        FDec t \<Rightarrow> if all_digits t \<and> int (digits_val t) \<le> 9007199254740991 then positiveInt64 (int (digits_val t)) else None
      | _ \<Rightarrow> None)"

definition positiveInt64FromAny :: "any \<Rightarrow> int option" where
  "positiveInt64FromAny v =
     (case v of
        AInt KInt64 n \<Rightarrow> positiveInt64 n
      | AInt KInt n \<Rightarrow> positiveInt64 n
      | AFloat KFloat64 f \<Rightarrow> positiveInt64FromFloat f
      | AStr s \<Rightarrow> positiveInt64FromString s
      | _ \<Rightarrow> None)"

definition serviceReferencesPropID :: "any \<Rightarrow> int \<Rightarrow> bool" where
  "serviceReferencesPropID raw propID = (propID > 0 \<and> positiveInt64FromAny raw = Some propID)"

subsection \<open>Branches of a prop (scans\_props.go)\<close>

definition zero_record :: prop_branch where
  "zero_record = \<lparr>pb_name = [], pb_default = False, pb_head_sha = [], pb_last_synced_at = None\<rparr>"

definition add_record :: "prop_branch \<Rightarrow> prop_branch smap \<Rightarrow> prop_branch smap" where
  "add_record r m = (let name = trim_space (pb_name r) in if name = [] then m else put_key name (r\<lparr>pb_name := name\<rparr>) m)"

definition add_branch :: "string \<Rightarrow> prop_branch smap \<Rightarrow> prop_branch smap" where
  "add_branch name m = put_key name ((case map_of m name of None \<Rightarrow> zero_record | Some r \<Rightarrow> r)\<lparr>pb_name := name\<rparr>) m"

definition propBranchRecordMap :: "string \<Rightarrow> string list \<Rightarrow> prop_branch list \<Rightarrow> prop_branch smap" where
  "propBranchRecordMap defaultBranch names records =
     (let m = fold (\<lambda>name m. let n = trim_space name in if n = [] then m else add_branch n m) names (fold add_record records [])
      in if defaultBranch \<noteq> [] then add_branch defaultBranch m else m)"

definition moveBranchFirst :: "string list \<Rightarrow> string \<Rightarrow> string list" where
  "moveBranchFirst names branch =
     (if branch = [] \<or> branch \<notin> set names then names else branch # remove1 branch names)"

definition orderedPropBranchNames :: "string \<Rightarrow> prop_branch smap \<Rightarrow> string list" where
  "orderedPropBranchNames defaultBranch byName = moveBranchFirst (sort (map fst byName)) defaultBranch"

definition normalizePropBranchRecords :: "string \<Rightarrow> string list \<Rightarrow> prop_branch list \<Rightarrow> prop_branch list" where
  "normalizePropBranchRecords defaultBranch names records =
     (let byName = propBranchRecordMap defaultBranch names records
      in map (\<lambda>name. (case map_of byName name of None \<Rightarrow> zero_record | Some r \<Rightarrow> r)
                \<lparr>pb_name := name, pb_default := (name = defaultBranch)\<rparr>) (orderedPropBranchNames defaultBranch byName))"

definition propBranchNames :: "prop_branch list \<Rightarrow> string list" where
  "propBranchNames records = filter (\<lambda>n. n \<noteq> []) (map pb_name records)"

definition encodePropBranches :: "source_prop \<Rightarrow> source_prop" where
  "encodePropBranches p =
     (let records = normalizePropBranchRecords (pr_default_branch p) (pr_branches p) (pr_branch_records p)
      in p\<lparr>pr_branch_records := records, pr_branches := propBranchNames records\<rparr>)"

definition decodePropBranches :: "branch_column \<Rightarrow> string \<Rightarrow> prop_branch list" where
  "decodePropBranches column defaultBranch =
     (case column of
        BranchRecords records \<Rightarrow> normalizePropBranchRecords defaultBranch [] records
      | BranchNames names \<Rightarrow> normalizePropBranchRecords defaultBranch names [])"

definition scanProp :: "prop_row \<Rightarrow> source_prop" where
  "scanProp row =
     (let records = decodePropBranches (rp_branches row) (pr_default_branch (rp_prop row))
      in (rp_prop row)\<lparr>pr_branch_records := records, pr_branches := propBranchNames records\<rparr>)"

subsection \<open>Props (store\_props.go, names.go)\<close>

definition inferPropName :: "string \<Rightarrow> string" where
  "inferPropName repo =
     (let part = last (split_char (CHR ''/'') (trim_set ''/'' (trim_suffix repo ''.git'')))
      in if part = [] then ''prop'' else slug part)"

definition inferProvider :: "string \<Rightarrow> string" where
  "inferProvider repo = (if RepositoryFullName repo \<noteq> None then ''github'' else ''git'')"

definition list_props :: "stored \<Rightarrow> source_prop list" where
  "list_props db = map scanProp (sort_key (\<lambda>row. pr_id (rp_prop row)) (sd_props db))"

definition prepareCreatedProp :: "source_prop \<Rightarrow> int \<Rightarrow> source_prop" where
  "prepareCreatedProp p now =
     (let url = trim_space (pr_repository_url p); name = trim_space (pr_name p);
          branch = (if trim_space (pr_default_branch p) = [] then ''main'' else trim_space (pr_default_branch p));
          provider = to_lower (trim_space (pr_provider p))
      in p\<lparr>pr_created_at := now, pr_updated_at := now, pr_repository_url := url,
           pr_name := (if name = [] then inferPropName url else name), pr_default_branch := branch,
           pr_provider := (if provider = [] then inferProvider url else provider),
           pr_status := (if pr_status p = [] then ''active'' else pr_status p),
           pr_branches := (if pr_branches p = [] then [branch] else pr_branches p)\<rparr>)"

definition prop_name_taken :: "source_prop \<Rightarrow> stored \<Rightarrow> bool" where
  "prop_name_taken p db =
     list_ex (\<lambda>row. pr_id (rp_prop row) \<noteq> pr_id p \<and> pr_name (rp_prop row) = pr_name p) (sd_props db)"

definition prop_row_of :: "source_prop \<Rightarrow> prop_row" where
  "prop_row_of p = \<lparr>rp_prop = p, rp_branches = BranchRecords (pr_branch_records p)\<rparr>"

definition create_prop :: "int \<Rightarrow> source_prop \<Rightarrow> stored \<Rightarrow> (go_error + source_prop) \<times> stored" where
  "create_prop now p0 db =
     (let p = (encodePropBranches (prepareCreatedProp p0 now))\<lparr>pr_id := sd_next_prop db\<rparr>
      in if prop_name_taken p db then (Inl (unique_failure ''props.name''), db)
         else (Inr p, db\<lparr>sd_props := sd_props db @ [prop_row_of p], sd_next_prop := sd_next_prop db + 1\<rparr>))"

definition get_prop :: "string \<Rightarrow> stored \<Rightarrow> go_error + source_prop" where
  "get_prop identifier db =
     (case find (\<lambda>row. named_by identifier (pr_id (rp_prop row)) (pr_name (rp_prop row))) (sd_props db) of
        None \<Rightarrow> Inl ErrNotFound
      | Some row \<Rightarrow> Inr (scanProp row))"

definition find_prop_by_url :: "string \<Rightarrow> stored \<Rightarrow> source_prop option" where
  "find_prop_by_url repositoryURL db = find (\<lambda>p. SameRepositoryURL (pr_repository_url p) repositoryURL) (list_props db)"

text \<open>The creation time of the row stays.\<close>

definition save_prop :: "int \<Rightarrow> source_prop \<Rightarrow> stored \<Rightarrow> (go_error + source_prop) \<times> stored" where
  "save_prop now p0 db =
     (let p = encodePropBranches (p0\<lparr>pr_updated_at := now, pr_name := trim_space (pr_name p0),
                pr_repository_url := trim_space (pr_repository_url p0),
                pr_default_branch := trim_space (pr_default_branch p0),
                pr_provider := to_lower (trim_space (pr_provider p0))\<rparr>)
      in case find (\<lambda>row. pr_id (rp_prop row) = pr_id p) (sd_props db) of
           None \<Rightarrow> (Inl ErrNotFound, db)
         | Some old \<Rightarrow>
             if prop_name_taken p db then (Inl (unique_failure ''props.name''), db)
             else (Inr p, db\<lparr>sd_props := map (\<lambda>row. if pr_id (rp_prop row) = pr_id p
                      then prop_row_of (p\<lparr>pr_created_at := pr_created_at (rp_prop row)\<rparr>) else row) (sd_props db)\<rparr>))"

definition delete_prop :: "string \<Rightarrow> stored \<Rightarrow> go_error option \<times> stored" where
  "delete_prop identifier db =
     (let hit = (\<lambda>row. named_by identifier (pr_id (rp_prop row)) (pr_name (rp_prop row)))
      in (requireRowsAffected (length (filter hit (sd_props db))), db\<lparr>sd_props := filter (\<lambda>row. \<not> hit row) (sd_props db)\<rparr>))"

subsection \<open>Playspecs that use a prop (store\_props.go)\<close>

definition reference_error :: "string \<Rightarrow> go_error" where
  "reference_error t = ErrText (''parse playspec compose for prop references: '' @ t)"

definition composeReferenceServices :: "yaml_lib \<Rightarrow> string \<Rightarrow> go_error + doc option" where
  "composeReferenceServices Y composeYAML =
     (case y_map Y composeYAML of
        Inl e \<Rightarrow> Inl (reference_error e)
      | Inr None \<Rightarrow> Inl (reference_error ''expected mapping'')
      | Inr (Some root) \<Rightarrow>
          (case map_of root ''services'' of
             None \<Rightarrow> Inr None
           | Some raw \<Rightarrow>
               (case as_map raw of
                  None \<Rightarrow> Inl (reference_error ''services must be a mapping'')
                | Some services \<Rightarrow> Inr (Some services))))"

definition composeServiceReferencesRepository :: "string \<Rightarrow> any \<Rightarrow> string \<Rightarrow> go_error + bool" where
  "composeServiceReferencesRepository name rawService repositoryURL =
     (if trim_space name = [] then Inl (reference_error ''service name is required'')
      else case as_map rawService of
             None \<Rightarrow> Inl (reference_error (''service '' @ go_quote name @ '' must be a mapping''))
           | Some service \<Rightarrow>
               (let labels = NormalizeLabels (any_at service ''labels'')
                in Inr (SameRepositoryURL (case map_of labels ''fibe.gg/repo_url'' of None \<Rightarrow> [] | Some v \<Rightarrow> v) repositoryURL)))"

fun composeServicesReferenceRepository :: "doc \<Rightarrow> string \<Rightarrow> go_error + bool" where
  "composeServicesReferenceRepository [] repositoryURL = Inr False"
| "composeServicesReferenceRepository ((name, raw) # services) repositoryURL =
     (case composeServiceReferencesRepository name raw repositoryURL of
        Inr False \<Rightarrow> composeServicesReferenceRepository services repositoryURL
      | r \<Rightarrow> r)"

definition composeReferencesRepositoryURL :: "yaml_lib \<Rightarrow> string \<Rightarrow> string \<Rightarrow> go_error + bool" where
  "composeReferencesRepositoryURL Y composeYAML url =
     (let repositoryURL = trim_space url
      in if repositoryURL = [] \<or> trim_space composeYAML = [] then Inr False
         else case composeReferenceServices Y composeYAML of
                Inl e \<Rightarrow> Inl e
              | Inr None \<Rightarrow> Inr False
              | Inr (Some services) \<Rightarrow> composeServicesReferenceRepository services repositoryURL)"

definition serviceReferencesProp :: "doc \<Rightarrow> source_prop \<Rightarrow> bool" where
  "serviceReferencesProp service prop =
     (serviceReferencesPropID (any_at service ''prop_id'') (pr_id prop) \<or>
      (case map_of service ''repo_url'' of
         Some (AStr repo) \<Rightarrow> repo \<noteq> [] \<and> SameRepositoryURL repo (pr_repository_url prop)
       | _ \<Rightarrow> False))"

text \<open>The column is decoded as a list of objects first: any other element, but null, is an error, whose text (\<open>te\<close>) is that of
\<open>encoding/json\<close>.\<close>

definition service_objects :: "string \<Rightarrow> any list \<Rightarrow> go_error + doc list" where
  "service_objects te services =
     (if list_all (\<lambda>s. case s of AMap _ \<Rightarrow> True | ANil \<Rightarrow> True | _ \<Rightarrow> False) services
      then Inr (map (\<lambda>s. case s of AMap d \<Rightarrow> d | _ \<Rightarrow> []) services)
      else Inl (ErrText (''decode playspecs.services_json: '' @ te)))"

definition servicesReferenceProp :: "string \<Rightarrow> any list \<Rightarrow> source_prop \<Rightarrow> go_error + bool" where
  "servicesReferenceProp te services prop =
     (case service_objects te services of Inl e \<Rightarrow> Inl e | Inr ds \<Rightarrow> Inr (list_ex (\<lambda>d. serviceReferencesProp d prop) ds))"

definition playspecReferencesProp :: "string \<Rightarrow> yaml_lib \<Rightarrow> playspec \<Rightarrow> source_prop \<Rightarrow> go_error + bool" where
  "playspecReferencesProp te Y spec prop =
     (case composeReferencesRepositoryURL Y (ps_base_compose_yaml spec) (pr_repository_url prop) of
        Inr False \<Rightarrow> servicesReferenceProp te (ps_services spec) prop
      | r \<Rightarrow> r)"

fun referencing_names :: "string \<Rightarrow> yaml_lib \<Rightarrow> source_prop \<Rightarrow> playspec list \<Rightarrow> go_error + string list" where
  "referencing_names te Y prop [] = Inr []"
| "referencing_names te Y prop (spec # specs) =
     (case playspecReferencesProp te Y spec prop of
        Inl e \<Rightarrow> Inl e
      | Inr references \<Rightarrow>
          (case referencing_names te Y prop specs of
             Inl e \<Rightarrow> Inl e
           | Inr names \<Rightarrow> Inr (if references then ps_name spec # names else names)))"

definition spec_id :: "playspec \<Rightarrow> int" where
  "spec_id ps = (case ps_id ps of None \<Rightarrow> 0 | Some i \<Rightarrow> i)"

definition playspecs_referencing_prop :: "string \<Rightarrow> yaml_lib \<Rightarrow> source_prop \<Rightarrow> stored \<Rightarrow> go_error + string list" where
  "playspecs_referencing_prop te Y prop db = referencing_names te Y prop (sort_key spec_id (tb_playspecs (sd_tables db)))"

subsection \<open>Playspecs (store\_playspecs.go, scans.go)\<close>

definition stored_service :: "storage_env \<Rightarrow> any \<Rightarrow> go_error + any" where
  "stored_service E v =
     (case v of
        AMap d \<Rightarrow> (case encodeStoredJSON E ''playspecs.services_json'' (Some d) of Inl e \<Rightarrow> Inl e | Inr d' \<Rightarrow> Inr (AMap d'))
      | _ \<Rightarrow> Inr v)"

text \<open>The services of a playspec are lists of objects; what is not one is kept as it is.\<close>

fun stored_services :: "storage_env \<Rightarrow> any list \<Rightarrow> go_error + any list" where
  "stored_services E [] = Inr []"
| "stored_services E (v # vs) =
     (case stored_service E v of
        Inl e \<Rightarrow> Inl e
      | Inr v' \<Rightarrow> (case stored_services E vs of Inl e \<Rightarrow> Inl e | Inr vs' \<Rightarrow> Inr (v' # vs')))"

definition count_playgrounds :: "int \<Rightarrow> stored \<Rightarrow> nat" where
  "count_playgrounds i db = length (filter (\<lambda>r. rw_playspec_id r = Some i) (tb_playgrounds (sd_tables db)))"

definition decoratePlayspecLock :: "stored \<Rightarrow> playspec \<Rightarrow> playspec" where
  "decoratePlayspecLock db p =
     (case ps_id p of
        None \<Rightarrow> p
      | Some i \<Rightarrow> p\<lparr>ps_playground_count := Some (int (count_playgrounds i db)),
                   ps_locked := Some (count_playgrounds i db > 0)\<rparr>)"

definition scanPlayspec :: "playspec \<Rightarrow> playspec" where
  "scanPlayspec row = row\<lparr>ps_persist_volumes := Some False, ps_locked := Some False, ps_playground_count := Some 0\<rparr>"

definition list_playspecs :: "stored \<Rightarrow> playspec list" where
  "list_playspecs db =
     map (\<lambda>row. decoratePlayspecLock db (scanPlayspec row)) (sort_key spec_id (tb_playspecs (sd_tables db)))"

definition get_playspec :: "string \<Rightarrow> stored \<Rightarrow> go_error + playspec" where
  "get_playspec identifier db =
     (case find (\<lambda>row. named_by identifier (spec_id row) (ps_name row)) (tb_playspecs (sd_tables db)) of
        None \<Rightarrow> Inl ErrNotFound
      | Some row \<Rightarrow> Inr (decoratePlayspecLock db (scanPlayspec row)))"

definition set_playspecs :: "playspec list \<Rightarrow> stored \<Rightarrow> stored" where
  "set_playspecs rows db = db\<lparr>sd_tables := (sd_tables db)\<lparr>tb_playspecs := rows\<rparr>\<rparr>"

definition spec_name_taken :: "int \<Rightarrow> string \<Rightarrow> stored \<Rightarrow> bool" where
  "spec_name_taken i name db = list_ex (\<lambda>row. spec_id row \<noteq> i \<and> ps_name row = name) (tb_playspecs (sd_tables db))"

text \<open>The answer has the services that were given, the row what JSON keeps of them.\<close>

definition create_playspec :: "storage_env \<Rightarrow> int \<Rightarrow> playspec \<Rightarrow> stored \<Rightarrow> (go_error + playspec) \<times> stored" where
  "create_playspec E now p0 db =
     (let p = p0\<lparr>ps_name := trim_space (ps_name p0), ps_persist_volumes := Some False\<rparr>; i = sd_next_playspec db
      in case stored_services E (ps_services p) of
           Inl e \<Rightarrow> (Inl e, db)
         | Inr services \<Rightarrow>
             if spec_name_taken i (ps_name p) db then (Inl (unique_failure ''playspecs.name''), db)
             else (let made = p\<lparr>ps_id := Some i, ps_created_at := Some now, ps_updated_at := Some now, ps_locked := Some False,
                                ps_playground_count := Some 0\<rparr>
                   in (Inr made, (set_playspecs (tb_playspecs (sd_tables db) @ [made\<lparr>ps_services := services\<rparr>]) db)
                                   \<lparr>sd_next_playspec := i + 1\<rparr>)))"

definition save_playspec :: "storage_env \<Rightarrow> int \<Rightarrow> playspec \<Rightarrow> stored \<Rightarrow> (go_error + playspec) \<times> stored" where
  "save_playspec E now p0 db =
     (case ps_id p0 of
        None \<Rightarrow> (Inl ErrNotFound, db)
      | Some i \<Rightarrow>
          (let p = p0\<lparr>ps_name := trim_space (ps_name p0)\<rparr>
           in case stored_services E (ps_services p) of
                Inl e \<Rightarrow> (Inl e, db)
              | Inr services \<Rightarrow>
                  (case find (\<lambda>row. spec_id row = i) (tb_playspecs (sd_tables db)) of
                     None \<Rightarrow> (Inl ErrNotFound, db)
                   | Some old \<Rightarrow>
                       if spec_name_taken i (ps_name p) db then (Inl (unique_failure ''playspecs.name''), db)
                       else (let row = old\<lparr>ps_name := ps_name p, ps_description := ps_description p,
                                   ps_base_compose_yaml := ps_base_compose_yaml p, ps_services := services,
                                   ps_updated_at := Some now\<rparr>;
                                 db' = set_playspecs (map (\<lambda>r. if spec_id r = i then row else r) (tb_playspecs (sd_tables db))) db
                             in (Inr (decoratePlayspecLock db' (p\<lparr>ps_updated_at := Some now, ps_persist_volumes := Some False\<rparr>)), db')))))"

text \<open>\<open>ON DELETE SET NULL\<close>: a playground outlives its playspec.\<close>

definition delete_playspec :: "string \<Rightarrow> stored \<Rightarrow> go_error option \<times> stored" where
  "delete_playspec identifier db =
     (let hit = (\<lambda>row. named_by identifier (spec_id row) (ps_name row)); rows = tb_playspecs (sd_tables db);
          gone = map spec_id (filter hit rows)
      in (requireRowsAffected (length gone),
          db\<lparr>sd_tables := (sd_tables db)
              \<lparr>tb_playspecs := filter (\<lambda>row. \<not> hit row) rows,
               tb_playgrounds := map (\<lambda>r. case rw_playspec_id r of
                   Some i \<Rightarrow> if i \<in> set gone then r\<lparr>rw_playspec_id := None\<rparr> else r | None \<Rightarrow> r) (tb_playgrounds (sd_tables db))\<rparr>\<rparr>))"

subsection \<open>Asynchronous operations (store\_async.go, scans.go)\<close>

definition stored_error :: "storage_env \<Rightarrow> api_error option \<Rightarrow> go_error + api_error option" where
  "stored_error E err =
     (case err of
        None \<Rightarrow> Inr None
      | Some e \<Rightarrow>
          (case ae_details e of
             None \<Rightarrow> Inr (Some e)
           | Some d \<Rightarrow>
               (case encodeStoredJSON E ''async_operations.error_json'' (Some d) of
                  Inl x \<Rightarrow> Inl x
                | Inr d' \<Rightarrow> Inr (Some (e\<lparr>ae_details := (if d = [] then None else Some d')\<rparr>)))))"

definition async_row :: "storage_env \<Rightarrow> async_operation \<Rightarrow> go_error + async_operation" where
  "async_row E op =
     (case encodeStoredJSON E ''async_operations.payload_json'' (ao_payload op) of
        Inl e \<Rightarrow> Inl e
      | Inr payload \<Rightarrow>
          (case stored_error E (ao_error op) of
             Inl e \<Rightarrow> Inl e
           | Inr err \<Rightarrow> Inr (op\<lparr>ao_payload := Some payload, ao_error := err\<rparr>)))"

definition create_async :: "storage_env \<Rightarrow> int \<Rightarrow> async_operation \<Rightarrow> stored \<Rightarrow> (go_error + async_operation) \<times> stored" where
  "create_async E now op0 db =
     (let op = op0\<lparr>ao_created_at := now, ao_updated_at := now,
                   ao_status := (if ao_status op0 = [] then AsyncQueued else ao_status op0)\<rparr>
      in case async_row E op of
           Inl e \<Rightarrow> (Inl e, db)
         | Inr row \<Rightarrow>
             if list_ex (\<lambda>r. ao_id r = ao_id op) (sd_asyncs db) then (Inl (unique_failure ''async_operations.id''), db)
             else (Inr op, db\<lparr>sd_asyncs := sd_asyncs db @ [row]\<rparr>))"

definition scanAsync :: "async_operation \<Rightarrow> async_operation" where
  "scanAsync row = row\<lparr>ao_status_url := ''/api/async_requests/'' @ ao_id row\<rparr>"

definition get_async :: "string \<Rightarrow> stored \<Rightarrow> go_error + async_operation" where
  "get_async i db = (case find (\<lambda>r. ao_id r = i) (sd_asyncs db) of None \<Rightarrow> Inl ErrNotFound | Some row \<Rightarrow> Inr (scanAsync row))"

definition save_async :: "storage_env \<Rightarrow> int \<Rightarrow> async_operation \<Rightarrow> stored \<Rightarrow> go_error option \<times> stored" where
  "save_async E now op db =
     (case async_row E (op\<lparr>ao_updated_at := now\<rparr>) of
        Inl e \<Rightarrow> (Some e, db)
      | Inr row \<Rightarrow>
          (requireRowsAffected (length (filter (\<lambda>r. ao_id r = ao_id op) (sd_asyncs db))),
           db\<lparr>sd_asyncs := map (\<lambda>r. if ao_id r = ao_id op
               then r\<lparr>ao_status := ao_status row, ao_payload := ao_payload row, ao_error := ao_error row, ao_updated_at := now\<rparr>
               else r) (sd_asyncs db)\<rparr>))"

definition under_way :: "async_operation \<Rightarrow> bool" where
  "under_way r = (ao_status r = AsyncQueued \<or> ao_status r = AsyncRunning)"

definition interrupted_error :: api_error where
  "interrupted_error = \<lparr>ae_code = ''INTERRUPTED'', ae_message = ''async operation was interrupted by fibe-distilled restart'',
     ae_details = None\<rparr>"

definition recover_async :: "int \<Rightarrow> stored \<Rightarrow> nat \<times> stored" where
  "recover_async now db =
     (length (filter under_way (sd_asyncs db)),
      db\<lparr>sd_asyncs := map (\<lambda>r. if under_way r
          then r\<lparr>ao_status := AsyncError, ao_payload := Some [], ao_error := Some interrupted_error, ao_updated_at := now\<rparr>
          else r) (sd_asyncs db)\<rparr>)"

subsection \<open>Marquees (store\_marquees.go, scans.go)\<close>

definition ConfiguredMarqueeName :: string where "ConfiguredMarqueeName = ''default''"

definition normalizeMarqueeForStorage :: "marquee \<Rightarrow> marquee" where
  "normalizeMarqueeForStorage m =
     (let n = m\<lparr>mq_https_enabled := Some True\<rparr>
      in if option_string (mq_domains_input m) \<noteq> [] \<and> trim_space (option_string (mq_domains_input m)) \<noteq> [] \<and>
            trim_space (option_string (mq_tls_certificate_source m)) = []
         then n\<lparr>mq_tls_certificate_source := Some ''automatic''\<rparr> else n)"

definition scanMarquee :: "marquee \<Rightarrow> marquee" where
  "scanMarquee row =
     row\<lparr>mq_https_enabled := Some (boolValue (mq_https_enabled row)), mq_runtime_launchable := True,
         mq_chat_launchable := (mq_status row \<noteq> ''error'')\<rparr>"

definition set_marquees :: "marquee list \<Rightarrow> stored \<Rightarrow> stored" where
  "set_marquees rows db = db\<lparr>sd_tables := (sd_tables db)\<lparr>tb_marquees := rows\<rparr>\<rparr>"

definition marquee_name_taken :: "marquee \<Rightarrow> stored \<Rightarrow> bool" where
  "marquee_name_taken m db = list_ex (\<lambda>r. mq_id r \<noteq> mq_id m \<and> mq_name r = mq_name m) (tb_marquees (sd_tables db))"

definition createMarquee :: "int \<Rightarrow> marquee \<Rightarrow> stored \<Rightarrow> (go_error + marquee) \<times> stored" where
  "createMarquee now m0 db =
     (let m = (normalizeMarqueeForStorage (m0\<lparr>mq_created_at := now, mq_updated_at := now\<rparr>))\<lparr>mq_id := sd_next_marquee db\<rparr>
      in if marquee_name_taken m db then (Inl (unique_failure ''marquees.name''), db)
         else (Inr m, (set_marquees (tb_marquees (sd_tables db) @ [m]) db)\<lparr>sd_next_marquee := sd_next_marquee db + 1\<rparr>))"

definition get_marquee :: "string \<Rightarrow> stored \<Rightarrow> go_error + marquee" where
  "get_marquee identifier db =
     (case find (\<lambda>r. named_by identifier (mq_id r) (mq_name r)) (tb_marquees (sd_tables db)) of
        None \<Rightarrow> Inl ErrNotFound
      | Some r \<Rightarrow> Inr (scanMarquee r))"

definition get_runtime_marquee :: "stored \<Rightarrow> go_error + marquee option" where
  "get_runtime_marquee db =
     (case get_marquee ConfiguredMarqueeName db of
        Inr m \<Rightarrow> Inr (Some m)
      | Inl e \<Rightarrow> if is_not_found e then Inr None else Inl e)"

definition saveMarquee :: "int \<Rightarrow> marquee \<Rightarrow> stored \<Rightarrow> (go_error + marquee) \<times> stored" where
  "saveMarquee now m0 db =
     (let m = normalizeMarqueeForStorage (m0\<lparr>mq_updated_at := now\<rparr>)
      in if \<not> list_ex (\<lambda>r. mq_id r = mq_id m) (tb_marquees (sd_tables db)) then (Inl ErrNotFound, db)
         else if marquee_name_taken m db then (Inl (unique_failure ''marquees.name''), db)
         else (Inr m, set_marquees (map (\<lambda>r. if mq_id r = mq_id m then m\<lparr>mq_created_at := mq_created_at r\<rparr> else r)
                 (tb_marquees (sd_tables db))) db))"

definition ensure_configured_marquee :: "int \<Rightarrow> marquee \<Rightarrow> stored \<Rightarrow> (go_error + marquee) \<times> stored" where
  "ensure_configured_marquee now m0 db =
     (let m = normalizeMarqueeForStorage (m0\<lparr>mq_name := (if trim_space (mq_name m0) = [] then ConfiguredMarqueeName else mq_name m0),
                mq_status := ''active''\<rparr>)
      in case get_marquee (mq_name m) db of
           Inl e \<Rightarrow> if is_not_found e then createMarquee now m db else (Inl e, db)
         | Inr existing \<Rightarrow> saveMarquee now (m\<lparr>mq_id := mq_id existing, mq_created_at := mq_created_at existing\<rparr>) db)"

subsection \<open>Build records (store\_build\_records.go)\<close>

definition create_build_record :: "int \<Rightarrow> build_record \<Rightarrow> stored \<Rightarrow> build_record \<times> stored" where
  "create_build_record now r0 db =
     (let r = r0\<lparr>br_id := sd_next_build db, br_created_at := now, br_updated_at := now,
                 br_status := (if br_status r0 = [] then BuildStatusPending else br_status r0)\<rparr>
      in (r, db\<lparr>sd_builds := sd_builds db @ [r], sd_next_build := sd_next_build db + 1\<rparr>))"

definition save_build_record :: "int \<Rightarrow> build_record \<Rightarrow> stored \<Rightarrow> (go_error + build_record) \<times> stored" where
  "save_build_record now r0 db =
     (let r = r0\<lparr>br_updated_at := now\<rparr>
      in if \<not> list_ex (\<lambda>x. br_id x = br_id r) (sd_builds db) then (Inl ErrNotFound, db)
         else (Inr r, db\<lparr>sd_builds := map (\<lambda>x. if br_id x = br_id r then r\<lparr>br_created_at := br_created_at x\<rparr> else x) (sd_builds db)\<rparr>))"

definition get_build_record :: "int \<Rightarrow> stored \<Rightarrow> go_error + build_record" where
  "get_build_record i db = (case find (\<lambda>r. br_id r = i) (sd_builds db) of None \<Rightarrow> Inl ErrNotFound | Some r \<Rightarrow> Inr r)"

definition reusable :: "reuse_query \<Rightarrow> build_record \<Rightarrow> bool" where
  "reusable q r =
     ((case rq_prop_id q of
         Some i \<Rightarrow> br_prop_id r = Some i
       | None \<Rightarrow> br_prop_id r = None \<and> br_playground_id r = Some (rq_playground_id q) \<and> br_service_name r = rq_service_name q) \<and>
      br_branch r = rq_branch q \<and> br_commit_sha r = rq_commit_sha q \<and>
      br_build_identity_digest r = rq_build_identity_digest q \<and> br_build_platform r = rq_build_platform q \<and>
      (br_status r = BuildStatusSuccess \<or> br_status r = BuildStatusBuilding))"

definition reusable_build_records :: "reuse_query \<Rightarrow> stored \<Rightarrow> build_record list" where
  "reusable_build_records q db = rev (sort_key br_id (filter (reusable q) (sd_builds db)))"

subsection \<open>The identity of the server (store.go)\<close>

text \<open>\<open>random\<close> is what the operating system gives.\<close>

definition server_id :: "go_error + string \<Rightarrow> stored \<Rightarrow> (go_error + string) \<times> stored" where
  "server_id random db =
     (case sd_server_id db of
        Some i \<Rightarrow>
          if trim_space i \<noteq> [] then (Inr i, db)
          else (case random of Inl e \<Rightarrow> (Inl e, db) | Inr i' \<Rightarrow> (Inr i', db\<lparr>sd_server_id := Some i'\<rparr>))
      | None \<Rightarrow> (case random of Inl e \<Rightarrow> (Inl e, db) | Inr i' \<Rightarrow> (Inr i', db\<lparr>sd_server_id := Some i'\<rparr>)))"

subsection \<open>The normal form of branches\<close>

definition named_branches :: "string \<Rightarrow> string list \<Rightarrow> prop_branch list \<Rightarrow> string set" where
  "named_branches defaultBranch names records =
     (insert defaultBranch (trim_space ` (set names \<union> pb_name ` set records))) - {[]}"

definition branch_form :: "string \<Rightarrow> prop_branch list \<Rightarrow> bool" where
  "branch_form defaultBranch out =
     (let names = map pb_name out
      in distinct names \<and> [] \<notin> set names \<and> (\<forall>r \<in> set out. pb_default r = (pb_name r = defaultBranch)) \<and>
         (if defaultBranch = [] then sorted names else names \<noteq> [] \<and> hd names = defaultBranch \<and> sorted (tl names)))"

lemma keys_records: "fst ` set (fold add_record records m) = fst ` set m \<union> (trim_space ` pb_name ` set records - {[]})"
  by (induction records arbitrary: m) (auto simp: add_record_def Let_def dom_update)

definition add_name :: "string \<Rightarrow> prop_branch smap \<Rightarrow> prop_branch smap" where
  "add_name name m = (let n = trim_space name in if n = [] then m else add_branch n m)"

lemma add_name_eq: "(\<lambda>name m. let n = trim_space name in if n = [] then m else add_branch n m) = add_name"
  by (intro ext) (simp add: add_name_def)

lemma keys_branch: "fst ` set (add_branch n m) = insert n (fst ` set m)"
  by (auto simp: add_branch_def dom_update)

lemma keys_names: "fst ` set (fold add_name names m) = fst ` set m \<union> (trim_space ` set names - {[]})"
  by (induction names arbitrary: m) (auto simp: add_name_def Let_def keys_branch)

lemma keys_map: "fst ` set (propBranchRecordMap d names records) = named_branches d names records"
  by (auto simp: propBranchRecordMap_def named_branches_def Let_def[of "fold _ _ _"] keys_records keys_names add_name_eq keys_branch)

lemma wf_add [simp]: "wf_map m \<Longrightarrow> wf_map (add_branch n m)" "wf_map m \<Longrightarrow> wf_map (add_name n m)" "wf_map m \<Longrightarrow> wf_map (add_record r m)"
  by (simp_all add: add_branch_def add_name_def add_record_def Let_def)

lemma wf_branch_map: "wf_map (propBranchRecordMap d names records)"
proof -
  have "wf_map (fold add_record records m)" if "wf_map m" for m
    using that by (induction records arbitrary: m) auto
  moreover have "wf_map (fold add_name names m)" if "wf_map m" for m
    using that by (induction names arbitrary: m) auto
  ultimately have "wf_map (fold add_name names (fold add_record records []))" by (simp add: wf_map_def)
  then show ?thesis by (simp add: propBranchRecordMap_def Let_def[of "fold _ _ _"] add_name_eq)
qed

lemma ordered_names:
  assumes "distinct (map fst m)" and "d = [] \<or> d \<in> fst ` set m"
  shows "distinct (orderedPropBranchNames d m)" and "set (orderedPropBranchNames d m) = fst ` set m"
    and "if d = [] then sorted (orderedPropBranchNames d m)
      else orderedPropBranchNames d m \<noteq> [] \<and> hd (orderedPropBranchNames d m) = d \<and> sorted (tl (orderedPropBranchNames d m))"
  using assms by (auto simp: orderedPropBranchNames_def moveBranchFirst_def sorted_remove1)

lemma normalized_names: "map pb_name (normalizePropBranchRecords d names records) = orderedPropBranchNames d (propBranchRecordMap d names records)"
  by (simp add: normalizePropBranchRecords_def Let_def comp_def)

lemma normalized_form:
  "branch_form d (normalizePropBranchRecords d names records)"
  "set (map pb_name (normalizePropBranchRecords d names records)) = named_branches d names records"
proof -
  have wf: "distinct (map fst (propBranchRecordMap d names records))" using wf_branch_map by (simp add: wf_map_def)
  have d: "d = [] \<or> d \<in> fst ` set (propBranchRecordMap d names records)" by (auto simp: keys_map named_branches_def)
  note ordered = ordered_names[OF wf d, unfolded keys_map]
  show "set (map pb_name (normalizePropBranchRecords d names records)) = named_branches d names records"
    by (simp only: normalized_names ordered(2))
  show "branch_form d (normalizePropBranchRecords d names records)"
    unfolding branch_form_def Let_def normalized_names
    using ordered by (auto simp: named_branches_def normalizePropBranchRecords_def Let_def)
qed

lemma fold_add_record:
  assumes "\<forall>r \<in> set out. trim_space (pb_name r) = pb_name r \<and> pb_name r \<noteq> []"
  shows "fold add_record out m = fold (\<lambda>(k, v). put_key k v) (map (\<lambda>r. (pb_name r, r)) out) m"
  using assms by (induction out arbitrary: m) (auto simp: add_record_def Let_def)

text \<open>The records that are there already are found again, and the names add nothing to them.\<close>

lemma keep_branch: "map_of m n = Some r \<Longrightarrow> pb_name r = n \<Longrightarrow> map_of (add_branch n m) = map_of m"
  by (auto simp: add_branch_def update_conv)

lemma keep_names:
  assumes "\<forall>n \<in> set names. trim_space n = n \<and> (\<exists>r. map_of m n = Some r \<and> pb_name r = n)"
  shows "map_of (fold add_name names m) = map_of m"
  using assms
proof (induction names arbitrary: m)
  case (Cons n names)
  then have "map_of (add_name n m) = map_of m" by (auto simp: add_name_def Let_def intro: keep_branch)
  with Cons.IH[of "add_name n m"] Cons.prems show ?case by simp
qed simp

lemma normal_form_fixed:
  assumes form: "branch_form d out" and trimmed: "\<forall>r \<in> set out. trim_space (pb_name r) = pb_name r"
    and names: "set names \<subseteq> pb_name ` set out"
  shows "normalizePropBranchRecords d names out = out"
proof -
  let ?m = "propBranchRecordMap d names out"
  have dist: "distinct (map pb_name out)" and ne: "[] \<notin> pb_name ` set out" using form by (auto simp: branch_form_def Let_def)
  have ok: "\<forall>r \<in> set out. trim_space (pb_name r) = pb_name r \<and> pb_name r \<noteq> []" using trimmed ne by force
  have recs: "map_of (fold add_record out []) (pb_name r) = Some r" if "r \<in> set out" for r
    unfolding fold_add_record[OF ok] using that dist by (intro amap.look_puts_distinct) (auto simp: comp_def)
  have "\<forall>n \<in> set names. trim_space n = n \<and> (\<exists>r. map_of (fold add_record out []) n = Some r \<and> pb_name r = n)"
    using names trimmed recs by force
  note kept = keep_names[OF this]
  have d_in: "d = [] \<or> d \<in> pb_name ` set out"
    using form hd_in_set[of "map pb_name out"] by (auto simp: branch_form_def Let_def split: if_splits)
  have found: "map_of ?m (pb_name r) = Some r" if "r \<in> set out" for r
  proof (cases "d = []")
    case False
    with d_in obtain r0 where r0: "r0 \<in> set out" "d = pb_name r0" by auto
    have "map_of (add_branch d (fold add_name names (fold add_record out []))) = map_of (fold add_record out [])"
      unfolding r0(2) kept[symmetric] by (rule keep_branch[OF _ refl]) (simp only: kept recs[OF r0(1)])
    with False recs[OF that] show ?thesis by (simp add: propBranchRecordMap_def Let_def[of "fold _ _ _"] add_name_eq)
  qed (use recs[OF that] kept in \<open>simp add: propBranchRecordMap_def Let_def[of "fold _ _ _"] add_name_eq\<close>)
  have "fst ` set ?m = pb_name ` set out"
  proof -
    have same: "trim_space ` pb_name ` set out = pb_name ` set out" using trimmed by (simp add: image_image)
    have "trim_space ` set names \<subseteq> pb_name ` set out" using image_mono[OF names, of trim_space] same by simp
    then show ?thesis using d_in ne unfolding keys_map named_branches_def image_Un same by blast
  qed
  then have sorted_keys: "sort (map fst ?m) = sort (map pb_name out)"
    using dist wf_branch_map[of d names out] by (intro sorted_distinct_set_unique) (auto simp: wf_map_def)
  have "moveBranchFirst (sort (map pb_name out)) d = map pb_name out"
  proof (cases "d = []")
    case True
    with form show ?thesis by (simp add: moveBranchFirst_def branch_form_def Let_def sorted_sort_id)
  next
    case False
    with form have parts: "map pb_name out \<noteq> []" "hd (map pb_name out) = d" "sorted (tl (map pb_name out))"
      by (simp_all add: branch_form_def Let_def)
    then have rest: "map pb_name out = d # tl (map pb_name out)" by (metis list.collapse)
    have "sort (map pb_name out) = insort d (tl (map pb_name out))"
      using parts(3) by (subst rest) (simp add: sorted_sort_id)
    then have "remove1 d (sort (map pb_name out)) = tl (map pb_name out)" by (simp add: remove1_insort_key)
    moreover have "d \<in> set (sort (map pb_name out))" using rest by (metis list.set_intros(1) set_sort)
    ultimately have "moveBranchFirst (sort (map pb_name out)) d = d # tl (map pb_name out)"
      using False by (simp only: moveBranchFirst_def simp_thms if_False)
    then show ?thesis by (simp only: rest[symmetric])
  qed
  then have "orderedPropBranchNames d ?m = map pb_name out" by (simp add: orderedPropBranchNames_def sorted_keys)
  moreover have "r\<lparr>pb_name := pb_name r, pb_default := (pb_name r = d)\<rparr> = r" if "r \<in> set out" for r
    using form that by (auto simp: branch_form_def Let_def)
  ultimately show ?thesis
    using found by (auto simp: normalizePropBranchRecords_def Let_def intro!: map_idI)
qed

subsection \<open>Props are read back as they were answered\<close>

definition prop_ids :: "stored \<Rightarrow> int list" where
  "prop_ids db = map (\<lambda>row. pr_id (rp_prop row)) (sd_props db)"

definition wf_props :: "stored \<Rightarrow> bool" where
  "wf_props db = (distinct (prop_ids db) \<and> (\<forall>i \<in> set (prop_ids db). 0 < i \<and> i < sd_next_prop db) \<and> 0 < sd_next_prop db \<and>
     sd_next_prop db \<le> max_int64)"

definition encoded :: "source_prop \<Rightarrow> bool" where
  "encoded q = (branch_form (pr_default_branch q) (pr_branch_records q) \<and> pr_branches q = map pb_name (pr_branch_records q) \<and>
     (\<forall>r \<in> set (pr_branch_records q). trim_space (pb_name r) = pb_name r))"

lemma encode_encoded:
  assumes "trim_space (pr_default_branch p) = pr_default_branch p"
  shows "encoded (encodePropBranches p)"
proof -
  let ?out = "normalizePropBranchRecords (pr_default_branch p) (pr_branches p) (pr_branch_records p)"
  have "trim_space n = n" if "n \<in> set (map pb_name ?out)" for n
    using that assms unfolding normalized_form(2) by (auto simp: named_branches_def trim_space_idem)
  moreover have "[] \<notin> set (map pb_name ?out)" unfolding normalized_form(2) by (simp add: named_branches_def)
  then have "propBranchNames ?out = map pb_name ?out"
    unfolding propBranchNames_def by (intro filter_True) metis
  ultimately show ?thesis
    using normalized_form(1) by (simp add: encoded_def encodePropBranches_def Let_def)
qed

lemma scan_encoded: "encoded q \<Longrightarrow> scanProp (prop_row_of q) = q"
proof -
  assume q: "encoded q"
  then have "normalizePropBranchRecords (pr_default_branch q) [] (pr_branch_records q) = pr_branch_records q"
    by (intro normal_form_fixed) (auto simp: encoded_def)
  moreover have "propBranchNames (pr_branch_records q) = pr_branches q"
    using q unfolding propBranchNames_def encoded_def branch_form_def Let_def by (simp add: filter_id_conv) (metis image_eqI)
  ultimately show ?thesis by (simp add: scanProp_def prop_row_of_def decodePropBranches_def)
qed

lemma named_by_itoa: "0 < i \<Longrightarrow> i \<le> max_int64 \<Longrightarrow> named_by (itoa i) j name = (j = i)"
  by (simp add: named_by_def parse_itoa min_int64_def)

lemma encodePropBranches_other [simp]:
  "pr_id (encodePropBranches p) = pr_id p" "pr_default_branch (encodePropBranches p) = pr_default_branch p"
  "pr_created_at (encodePropBranches p) = pr_created_at p"
  by (simp_all add: encodePropBranches_def Let_def)

lemma find_unique:
  assumes "distinct (map f xs)" and "x \<in> set xs"
  shows "find (\<lambda>y. f y = f x) xs = Some x"
  using assms by (induction xs) (auto simp: image_iff)

lemma pr_created_update: "q\<lparr>pr_created_at := pr_created_at q\<rparr> = q"
  by (cases q) simp

lemma get_prop_put:
  assumes "wf_props db" and "row \<in> set (sd_props db)"
  shows "get_prop (itoa (pr_id (rp_prop row))) db = Inr (scanProp row)"
proof -
  have "0 < pr_id (rp_prop row)" "pr_id (rp_prop row) \<le> max_int64"
    using assms by (force simp: wf_props_def prop_ids_def)+
  then have "find (\<lambda>r. named_by (itoa (pr_id (rp_prop row))) (pr_id (rp_prop r)) (pr_name (rp_prop r))) (sd_props db) = Some row"
    using find_unique[of "\<lambda>r. pr_id (rp_prop r)" "sd_props db" row] assms by (simp add: named_by_itoa wf_props_def prop_ids_def)
  then show ?thesis by (simp add: get_prop_def)
qed

text \<open>A write of a prop that succeeded: the row it left, and the rows it left alone.\<close>

lemma create_prop_row:
  assumes "create_prop now p db = (Inr q, db')" and "wf_props db" and "sd_next_prop db < max_int64"
  shows "encoded q \<and> wf_props db' \<and> prop_row_of q \<in> set (sd_props db') \<and> set (sd_props db) \<subseteq> set (sd_props db') \<and>
    pr_id q = sd_next_prop db \<and> pr_created_at q = now"
proof -
  have q: "q = (encodePropBranches (prepareCreatedProp p now))\<lparr>pr_id := sd_next_prop db\<rparr>"
    and db': "db' = db\<lparr>sd_props := sd_props db @ [prop_row_of q], sd_next_prop := sd_next_prop db + 1\<rparr>"
    using assms(1) by (auto simp: create_prop_def Let_def split: if_splits)
  have "trim_space (pr_default_branch (prepareCreatedProp p now)) = pr_default_branch (prepareCreatedProp p now)"
    by (simp add: prepareCreatedProp_def Let_def trim_space_idem trim_space_words word_char_def less_eq_char_def)
  from encode_encoded[OF this] have "encoded q" by (simp add: q encoded_def)
  moreover have "pr_id q = sd_next_prop db" "pr_created_at q = now"
    by (simp_all add: q) (simp add: prepareCreatedProp_def Let_def)
  moreover have "wf_props db'"
    using assms(2,3) \<open>pr_id q = sd_next_prop db\<close> by (force simp: db' wf_props_def prop_ids_def prop_row_of_def)
  ultimately show ?thesis by (auto simp: db')
qed

lemma save_prop_row:
  assumes "save_prop now p db = (Inr q, db')" and "wf_props db"
  shows "\<exists>old \<in> set (sd_props db). encoded q \<and> wf_props db' \<and> prop_row_of (q\<lparr>pr_created_at := pr_created_at (rp_prop old)\<rparr>) \<in> set (sd_props db') \<and>
    (\<forall>row \<in> set (sd_props db). pr_id (rp_prop row) \<noteq> pr_id q \<longrightarrow> row \<in> set (sd_props db')) \<and> pr_id (rp_prop old) = pr_id q"
proof -
  obtain old where old: "find (\<lambda>row. pr_id (rp_prop row) = pr_id q) (sd_props db) = Some old"
    and enc: "\<exists>p'. q = encodePropBranches p' \<and> trim_space (pr_default_branch p') = pr_default_branch p'"
    and db': "db' = db\<lparr>sd_props := map (\<lambda>row. if pr_id (rp_prop row) = pr_id q
                      then prop_row_of (q\<lparr>pr_created_at := pr_created_at (rp_prop row)\<rparr>) else row) (sd_props db)\<rparr>"
    using assms(1) by (force simp: save_prop_def Let_def trim_space_idem split: option.splits if_splits)
  from old have o: "old \<in> set (sd_props db)" "pr_id (rp_prop old) = pr_id q" by (auto simp: find_Some_iff)
  have "encoded q" using enc encode_encoded by blast
  moreover have "prop_ids db' = prop_ids db"
    by (auto simp: db' prop_ids_def prop_row_of_def)
  then have "wf_props db'" using assms(2) by (simp add: wf_props_def db')
  ultimately show ?thesis using o by (intro bexI[OF _ o(1)]) (force simp: db')
qed

text \<open>A prop that was created or saved is read back, by its id, as it was answered, with the creation time its row had. Its branches are in one form: no name twice, none blank, the default branch first and alone marked as the default, the others in order. The write leaves the other rows alone and the table well formed.\<close>

theorem stored_prop_read_back:
  assumes "create_prop now p db = (Inr q, db') \<or> save_prop now p db = (Inr q, db')"
    and "wf_props db" and "sd_next_prop db < max_int64"
  shows "(\<exists>created. get_prop (itoa (pr_id q)) db' = Inr (q\<lparr>pr_created_at := created\<rparr>) \<and>
      (created = now \<or> (\<exists>old \<in> set (sd_props db). pr_id (rp_prop old) = pr_id q \<and> created = pr_created_at (rp_prop old)))) \<and>
    branch_form (pr_default_branch q) (pr_branch_records q) \<and> pr_branches q = map pb_name (pr_branch_records q) \<and>
    wf_props db' \<and> (\<forall>row \<in> set (sd_props db). pr_id (rp_prop row) \<noteq> pr_id q \<longrightarrow> row \<in> set (sd_props db'))"
proof -
  have "\<exists>created. encoded q \<and> wf_props db' \<and> prop_row_of (q\<lparr>pr_created_at := created\<rparr>) \<in> set (sd_props db') \<and>
    (\<forall>row \<in> set (sd_props db). pr_id (rp_prop row) \<noteq> pr_id q \<longrightarrow> row \<in> set (sd_props db')) \<and>
    (created = now \<or> (\<exists>old \<in> set (sd_props db). pr_id (rp_prop old) = pr_id q \<and> created = pr_created_at (rp_prop old)))"
    using assms(1)
  proof
    assume "create_prop now p db = (Inr q, db')"
    from create_prop_row[OF this assms(2,3)] show ?thesis by (intro exI[of _ now]) (auto simp: pr_created_update)
  next
    assume "save_prop now p db = (Inr q, db')"
    from save_prop_row[OF this assms(2)] show ?thesis by blast
  qed
  then obtain created where c: "encoded q" "wf_props db'" "prop_row_of (q\<lparr>pr_created_at := created\<rparr>) \<in> set (sd_props db')"
    and rest: "\<forall>row \<in> set (sd_props db). pr_id (rp_prop row) \<noteq> pr_id q \<longrightarrow> row \<in> set (sd_props db')"
      "created = now \<or> (\<exists>old \<in> set (sd_props db). pr_id (rp_prop old) = pr_id q \<and> created = pr_created_at (rp_prop old))"
    by blast
  have "encoded (q\<lparr>pr_created_at := created\<rparr>)" using c(1) by (simp add: encoded_def)
  moreover have "rp_prop (prop_row_of p') = p'" for p' by (simp add: prop_row_of_def)
  ultimately have "get_prop (itoa (pr_id q)) db' = Inr (q\<lparr>pr_created_at := created\<rparr>)"
    using get_prop_put[OF c(2,3)] scan_encoded[of "q\<lparr>pr_created_at := created\<rparr>"] by simp
  with c rest show ?thesis unfolding encoded_def by blast
qed

subsection \<open>The configured Marquee\<close>

definition wf_marquees :: "stored \<Rightarrow> bool" where
  "wf_marquees db =
     (let ms = tb_marquees (sd_tables db)
      in distinct (map mq_id ms) \<and> distinct (map mq_name ms) \<and> (\<forall>m \<in> set ms. mq_id m < sd_next_marquee db))"

lemma default_is_a_name: "named_by ConfiguredMarqueeName i name = (name = ''default'')"
proof -
  have "case parse_int64 ''default'' of Inl _ \<Rightarrow> True | Inr _ \<Rightarrow> False" by code_simp
  then show ?thesis by (auto simp: named_by_def ConfiguredMarqueeName_def split: sum.splits)
qed

lemma get_marquee_default:
  "get_marquee ConfiguredMarqueeName db = (case find (\<lambda>r. mq_name r = ''default'') (tb_marquees (sd_tables db)) of
     None \<Rightarrow> Inl ErrNotFound | Some r \<Rightarrow> Inr (scanMarquee r))"
  by (simp add: get_marquee_def default_is_a_name)

lemma get_runtime_default:
  assumes "wf_marquees db" and "r \<in> set (tb_marquees (sd_tables db))" and "mq_name r = ''default''"
  shows "get_runtime_marquee db = Inr (Some (scanMarquee r))"
  using find_unique[of mq_name "tb_marquees (sd_tables db)" r] assms
  by (simp add: get_runtime_marquee_def get_marquee_default wf_marquees_def Let_def)

lemma normalized_marquee [simp]:
  "mq_name (normalizeMarqueeForStorage m) = mq_name m" "mq_id (normalizeMarqueeForStorage m) = mq_id m"
  "mq_status (normalizeMarqueeForStorage m) = mq_status m" "mq_domains_input (normalizeMarqueeForStorage m) = mq_domains_input m"
  "mq_acme_email (normalizeMarqueeForStorage m) = mq_acme_email m" "mq_https_enabled (normalizeMarqueeForStorage m) = Some True"
  by (simp_all add: normalizeMarqueeForStorage_def Let_def)

definition is_configured :: "marquee \<Rightarrow> marquee \<Rightarrow> bool" where
  "is_configured m r = (mq_name r = ''default'' \<and> mq_status r = ''active'' \<and> mq_domains_input r = mq_domains_input m \<and>
     mq_acme_email r = mq_acme_email m \<and> mq_https_enabled r = Some True \<and> mq_runtime_launchable r \<and> mq_chat_launchable r)"


subsection \<open>Recovery of operations\<close>

text \<open>Recovery after a restart ends every operation that was queued or running, and no other, with the error INTERRUPTED and an empty payload; it counts them, keeps the order and the ids of the operations, and there is nothing left for a second recovery.\<close>

theorem async_recovery_is_complete:
  "case recover_async now db of (n, db') \<Rightarrow>
     n = length (filter under_way (sd_asyncs db)) \<and> map ao_id (sd_asyncs db') = map ao_id (sd_asyncs db) \<and>
     list_all2 (\<lambda>r r'. if under_way r then ao_status r' = AsyncError \<and> ao_payload r' = Some [] \<and> ao_error r' = Some interrupted_error \<and>
         ao_created_at r' = ao_created_at r else r' = r) (sd_asyncs db) (sd_asyncs db') \<and>
     recover_async now db' = (0, db')"
proof -
  let ?f = "\<lambda>r. if under_way r then r\<lparr>ao_status := AsyncError, ao_payload := Some [], ao_error := Some interrupted_error, ao_updated_at := now\<rparr> else r"
  have none: "\<not> under_way (?f r)" for r by (simp add: under_way_def AsyncError_def AsyncQueued_def AsyncRunning_def)
  then have empty: "filter under_way (map ?f rs) = []" for rs by (induction rs) simp_all
  have "map ?f (map ?f rs) = map ?f rs" for rs using none by (induction rs) auto
  moreover have "map ao_id (map ?f rs) = map ao_id rs" for rs by (induction rs) auto
  moreover have "list_all2 (\<lambda>r r'. if under_way r then ao_status r' = AsyncError \<and> ao_payload r' = Some [] \<and>
      ao_error r' = Some interrupted_error \<and> ao_created_at r' = ao_created_at r else r' = r) rs (map ?f rs)" for rs
    by (induction rs) auto
  ultimately show ?thesis using empty unfolding recover_async_def prod.case by simp
qed

subsection \<open>Examples\<close>

definition demo_stored :: stored where
  "demo_stored = \<lparr>sd_tables = \<lparr>tb_playgrounds = [], tb_next_playground = 1, tb_playspecs = [], tb_marquees = [demo_marquee\<lparr>mq_id := 3, mq_name := ''default'', mq_created_at := 5\<rparr>]\<rparr>,
     sd_next_playspec = 1, sd_next_marquee = 4, sd_props = [], sd_next_prop = 1, sd_builds = [], sd_next_build = 1,
     sd_asyncs = [], sd_server_id = None\<rparr>"

definition demo_source_prop :: source_prop where
  "demo_source_prop = \<lparr>pr_id = 0, pr_name = [], pr_repository_url = '' https://github.com/acme/App.git'', pr_private = False,
     pr_default_branch = [], pr_status = [], pr_provider = [], pr_last_synced_at = None, pr_created_at = 0, pr_updated_at = 0,
     pr_branches = [''dev'', '' main ''], pr_branch_records = []\<rparr>"

theorem stored_prop_read_back_witness:
  "\<exists>q db'. create_prop 9 demo_source_prop demo_stored = (Inr q, db') \<and> pr_branches q = [''main'', ''dev''] \<and>
     (\<exists>created. get_prop (itoa (pr_id q)) db' = Inr (q\<lparr>pr_created_at := created\<rparr>))"
proof -
  have "case create_prop 9 demo_source_prop demo_stored of (Inr q, _) \<Rightarrow> pr_branches q = [''main'', ''dev''] | _ \<Rightarrow> False" by code_simp
  then obtain q db' where q: "create_prop 9 demo_source_prop demo_stored = (Inr q, db')" "pr_branches q = [''main'', ''dev'']"
    by (auto split: prod.splits sum.splits)
  have "wf_props demo_stored" "sd_next_prop demo_stored < max_int64"
    by (simp_all add: wf_props_def prop_ids_def demo_stored_def max_int64_def)
  with stored_prop_read_back[OF disjI1[OF q(1)]] q show ?thesis by blast
qed


end
