(* ===== verification/Migrations.thy ===== *)
theory Migrations
  imports HostEffects
begin

text \<open>
  Opening the store (\<open>internal/storage\<close>): \<open>Open\<close> of \<open>store.go\<close> and the migrations of the schema (\<open>migrations.go\<close>). The
  embedded files are an argument; the calls of the SQL driver are requests with any answer.

  Shown: a migration runs in a transaction of its own, once, after all those with smaller versions.
\<close>

subsection \<open>Embedded files (migrations.go)\<close>

record embedded_file =
  ef_name :: string
  ef_dir :: bool
  ef_content :: string

record sqlMigration =
  sm_version :: int
  sm_name :: string
  sm_up :: string

text \<open>\<open>strings.Cut\<close> at a text of several bytes: what is in front, and what is behind when it occurs.\<close>

fun cut_text :: "string \<Rightarrow> string \<Rightarrow> string \<times> string option" where
  "cut_text sep s =
     (if has_prefix s sep then ([], Some (drop (length sep) s))
      else case s of [] \<Rightarrow> ([], None) | c # t \<Rightarrow> (case cut_text sep t of (before, after) \<Rightarrow> (c # before, after)))"

declare cut_text.simps [simp del]

definition isSQLMigrationEntry :: "embedded_file \<Rightarrow> bool" where
  "isSQLMigrationEntry entry = (\<not> ef_dir entry \<and> has_suffix (ef_name entry) ''.sql'')"

definition migrationVersion :: "string \<Rightarrow> string + int" where
  "migrationVersion name =
     (let number = (case cut_char (CHR ''_'') name of (before, _, found) \<Rightarrow> if found then before else trim_suffix name ''.sql'')
      in case parse_int64 number of
           Inl _ \<Rightarrow> Inl (''invalid migration filename '' @ name)
         | Inr version \<Rightarrow> if version \<le> 0 then Inl (''invalid migration filename '' @ name) else Inr version)"

definition migrationUpSQL :: "string \<Rightarrow> string \<Rightarrow> string + string" where
  "migrationUpSQL content name =
     (case cut_text ''-- +goose Up'' content of
        (_, None) \<Rightarrow> Inl (''migration '' @ name @ '' missing up marker'')
      | (_, Some up) \<Rightarrow> Inr (trim_space (fst (cut_text ''-- +goose Down'' up))))"

definition readMigration :: "embedded_file \<Rightarrow> string + sqlMigration" where
  "readMigration entry =
     (case migrationVersion (ef_name entry) of
        Inl e \<Rightarrow> Inl e
      | Inr version \<Rightarrow>
          (case migrationUpSQL (ef_content entry) (ef_name entry) of
             Inl e \<Rightarrow> Inl e
           | Inr up \<Rightarrow> Inr \<lparr>sm_version = version, sm_name = ef_name entry, sm_up = up\<rparr>))"

fun readMigrationEntries :: "embedded_file list \<Rightarrow> string + sqlMigration list" where
  "readMigrationEntries [] = Inr []"
| "readMigrationEntries (entry # entries) =
     (if \<not> isSQLMigrationEntry entry then readMigrationEntries entries
      else case readMigration entry of
             Inl e \<Rightarrow> Inl e
           | Inr m \<Rightarrow> (case readMigrationEntries entries of Inl e \<Rightarrow> Inl e | Inr ms \<Rightarrow> Inr (m # ms)))"

fun rejectDuplicateMigrationVersions :: "sqlMigration list \<Rightarrow> string option" where
  "rejectDuplicateMigrationVersions (a # b # ms) =
     (if sm_version a = sm_version b
      then Some (''duplicate migration version '' @ itoa (sm_version b) @ '': '' @ sm_name a @ '' and '' @ sm_name b)
      else rejectDuplicateMigrationVersions (b # ms))"
| "rejectDuplicateMigrationVersions ms = None"

definition loadMigrations :: "embedded_file list \<Rightarrow> string + sqlMigration list" where
  "loadMigrations entries =
     (case readMigrationEntries entries of
        Inl e \<Rightarrow> Inl e
      | Inr read_ \<Rightarrow>
          (let ms = sort_key (\<lambda>m. sm_version m) (sort_key sm_name read_)
           in case rejectDuplicateMigrationVersions ms of Some e \<Rightarrow> Inl e | None \<Rightarrow> Inr ms))"

subsection \<open>The driver\<close>

datatype sql_request =
    OpenHandle string
  | Pragma string
  | CreateVersionTable
  | AppliedVersions
  | BeginTx
  | ExecTx string
  | RecordVersion int
  | CommitTx
  | RollbackTx
  | CloseHandle

datatype sql_answer = SqlDone "go_error option" | SqlVersions "go_error + int list"

type_synonym sql = "(sql_request, sql_answer, go_error option) program"

type_synonym sql_log = "(sql_request, sql_answer) log"

definition sql_end :: "sql_request \<Rightarrow> sql" where
  "sql_end q = Call q (\<lambda>r. case r of SqlDone x \<Rightarrow> Ret x | _ \<Rightarrow> Stuck)"

definition sql_versions :: "(sql_request, sql_answer, go_error + int list) program" where
  "sql_versions = Call AppliedVersions (\<lambda>r. case r of SqlVersions x \<Rightarrow> Ret x | _ \<Rightarrow> Stuck)"

subsection \<open>Migrations (migrations.go)\<close>

definition execMigrationTx :: "sqlMigration \<Rightarrow> sql" where
  "execMigrationTx m =
     and_next (if trim_space (sm_up m) \<noteq> [] then sql_end (ExecTx (sm_up m)) else Ret None) (sql_end (RecordVersion (sm_version m)))"

definition applyMigration :: "sqlMigration \<Rightarrow> sql" where
  "applyMigration m =
     and_next (sql_end BeginTx)
       (bind (execMigrationTx m) (\<lambda>err. case err of
          Some e \<Rightarrow> bind (sql_end RollbackTx) (\<lambda>rollback. Ret (Some (case rollback of
              Some e' \<Rightarrow> ErrJoin [ErrWrap (''apply migration '' @ sm_name m) e, ErrWrap (''rollback migration '' @ sm_name m) e']
            | None \<Rightarrow> ErrWrap (''apply migration '' @ sm_name m) e)))
        | None \<Rightarrow> wrapped (''commit migration '' @ sm_name m) (sql_end CommitTx)))"

definition applyPendingMigrations :: "int list \<Rightarrow> sqlMigration list \<Rightarrow> sql" where
  "applyPendingMigrations applied =
     each_until (\<lambda>m. if sm_version m \<in> set applied then Ret None else applyMigration m)"

definition migrate :: "embedded_file list \<Rightarrow> sql" where
  "migrate files =
     (case loadMigrations files of
        Inl e \<Rightarrow> Ret (Some (ErrText e))
      | Inr ms \<Rightarrow>
          and_next (sql_end CreateVersionTable)
            (on_value sql_versions (\<lambda>e. e) (\<lambda>applied. applyPendingMigrations applied ms)))"

subsection \<open>Opening (store.go)\<close>

definition sqliteDSN :: "string \<Rightarrow> string" where
  "sqliteDSN p =
     (if has_prefix p ''file:'' then p else ''file:'' @ p @ ''?_foreign_keys=1&_busy_timeout=5000&_journal_mode=WAL&_mutex=full'')"

definition applySQLitePragmas :: sql where
  "applySQLitePragmas =
     each_until (\<lambda>p. sql_end (Pragma p))
       [''PRAGMA foreign_keys = ON'', ''PRAGMA journal_mode = WAL'', ''PRAGMA busy_timeout = 5000'', ''PRAGMA mmap_size = 0'']"

text \<open>A store that cannot be set up is closed again.\<close>

definition open_store :: "embedded_file list \<Rightarrow> string \<Rightarrow> sql" where
  "open_store files p =
     and_next (sql_end (OpenHandle (sqliteDSN p)))
       (bind (and_next applySQLitePragmas (migrate files)) (\<lambda>err. case err of
          None \<Rightarrow> Ret None
        | Some e \<Rightarrow> bind (sql_end CloseHandle) (\<lambda>closed. Ret (Some (ErrJoin (case closed of Some e' \<Rightarrow> [e, e'] | None \<Rightarrow> [e]))))))"

subsection \<open>In order, and once\<close>

definition committed :: "sql_log \<Rightarrow> int \<Rightarrow> bool" where
  "committed h v = (\<exists>h1 h2. h = h1 @ [(RecordVersion v, SqlDone None), (CommitTx, SqlDone None)] @ h2)"

text \<open>A migration that is neither applied nor committed in this run, while those with smaller versions are.\<close>

definition due :: "sqlMigration list \<Rightarrow> sql_log \<Rightarrow> sqlMigration \<Rightarrow> bool" where
  "due ms h m =
     (\<exists>applied. (AppliedVersions, SqlVersions (Inr applied)) \<in> set h \<and> sm_version m \<notin> set applied \<and> \<not> committed h (sm_version m) \<and>
        (\<forall>m' \<in> set ms. sm_version m' < sm_version m \<longrightarrow> sm_version m' \<in> set applied \<or> committed h (sm_version m')))"

definition migration_guard :: "sqlMigration list \<Rightarrow> sql_log \<Rightarrow> sql_request \<Rightarrow> bool" where
  "migration_guard ms h q =
     (case q of
        ExecTx text_ \<Rightarrow> \<exists>m \<in> set ms. text_ = sm_up m \<and> due ms h m \<and> h \<noteq> [] \<and> last h = (BeginTx, SqlDone None)
      | RecordVersion v \<Rightarrow> \<exists>m \<in> set ms. v = sm_version m \<and> due ms h m \<and> h \<noteq> [] \<and>
          last h = (if trim_space (sm_up m) = [] then BeginTx else ExecTx (sm_up m), SqlDone None)
      | CommitTx \<Rightarrow> \<exists>m \<in> set ms. due ms h m \<and> h \<noteq> [] \<and> last h = (RecordVersion (sm_version m), SqlDone None)
      | _ \<Rightarrow> True)"

lemma wp_sql_end [simp]: "wp G Q (sql_end q) h \<longleftrightarrow> G h q \<and> (\<forall>x. Q (h @ [(q, SqlDone x)]) x)"
  unfolding sql_end_def by (rule wp_answer) (auto split: sql_answer.split)

lemma wp_sql_versions [simp]: "wp G Q sql_versions h \<longleftrightarrow> G h AppliedVersions \<and> (\<forall>x. Q (h @ [(AppliedVersions, SqlVersions x)]) x)"
  unfolding sql_versions_def by (rule wp_answer) (auto split: sql_answer.split)

lemma committed_snoc:
  "committed (h @ [e]) v \<longleftrightarrow> committed h v \<or> e = (CommitTx, SqlDone None) \<and> h \<noteq> [] \<and> last h = (RecordVersion v, SqlDone None)"
proof
  assume "committed (h @ [e]) v"
  then obtain h1 h2 where eq: "h @ [e] = h1 @ [(RecordVersion v, SqlDone None), (CommitTx, SqlDone None)] @ h2"
    by (auto simp: committed_def)
  show "committed h v \<or> e = (CommitTx, SqlDone None) \<and> h \<noteq> [] \<and> last h = (RecordVersion v, SqlDone None)"
  proof (cases h2 rule: rev_cases)
    case Nil
    with eq have "h @ [e] = (h1 @ [(RecordVersion v, SqlDone None)]) @ [(CommitTx, SqlDone None)]" by simp
    then have "h = h1 @ [(RecordVersion v, SqlDone None)]" "e = (CommitTx, SqlDone None)" by (auto dest: append1_eq_conv[THEN iffD1])
    then show ?thesis by simp
  next
    case (snoc h3 e')
    with eq have "h @ [e] = (h1 @ [(RecordVersion v, SqlDone None), (CommitTx, SqlDone None)] @ h3) @ [e']" by simp
    then have "h = h1 @ [(RecordVersion v, SqlDone None), (CommitTx, SqlDone None)] @ h3" by (auto dest: append1_eq_conv[THEN iffD1])
    then show ?thesis unfolding committed_def by blast
  qed
next
  assume "committed h v \<or> e = (CommitTx, SqlDone None) \<and> h \<noteq> [] \<and> last h = (RecordVersion v, SqlDone None)"
  then show "committed (h @ [e]) v"
  proof
    assume "committed h v"
    then obtain h1 h2 where "h @ [e] = h1 @ [(RecordVersion v, SqlDone None), (CommitTx, SqlDone None)] @ (h2 @ [e])"
      by (auto simp: committed_def)
    then show ?thesis unfolding committed_def by blast
  next
    assume "e = (CommitTx, SqlDone None) \<and> h \<noteq> [] \<and> last h = (RecordVersion v, SqlDone None)"
    then have "h @ [e] = butlast h @ [(RecordVersion v, SqlDone None), (CommitTx, SqlDone None)] @ []"
      by (metis append.assoc append_Cons append_Nil append_butlast_last_id)
    then show ?thesis unfolding committed_def by blast
  qed
qed

text \<open>What is known before the migrations of the rest of the list: those before are applied or committed, no other is.\<close>

definition reached :: "int list \<Rightarrow> sqlMigration list \<Rightarrow> sql_log \<Rightarrow> bool" where
  "reached applied pre h =
     ((AppliedVersions, SqlVersions (Inr applied)) \<in> set h \<and> (\<forall>v. committed h v \<longleftrightarrow> v \<in> sm_version ` set pre \<and> v \<notin> set applied))"

lemma due_next:
  assumes "reached applied pre h" and "sorted_wrt (<) (map sm_version (pre @ m # post))" and "sm_version m \<notin> set applied"
    and "set h \<subseteq> set h'" and "\<And>v. committed h' v = committed h v"
  shows "due (pre @ m # post) h' m"
  unfolding due_def
proof (intro exI[of _ applied] conjI ballI impI)
  show "(AppliedVersions, SqlVersions (Inr applied)) \<in> set h'" using assms(1,4) by (auto simp: reached_def)
  show "\<not> committed h' (sm_version m)" using assms(1,2,5) by (auto simp: reached_def sorted_wrt_append)
  fix m' assume "m' \<in> set (pre @ m # post)" "sm_version m' < sm_version m"
  then have "m' \<in> set pre" using assms(2) by (auto simp: sorted_wrt_append)
  with assms(1,5) show "sm_version m' \<in> set applied \<or> committed h' (sm_version m')" by (auto simp: reached_def)
qed (use assms(3) in simp)

lemma apply_wp:
  assumes "reached applied pre h" and "sorted_wrt (<) (map sm_version (pre @ m # post))" and "sm_version m \<notin> set applied"
  shows "wp (migration_guard (pre @ m # post)) (\<lambda>h' err. err = None \<longrightarrow> reached applied (pre @ [m]) h') (applyMigration m) h"
proof -
  note due = due_next[OF assms]
  have grown: "reached applied (pre @ [m]) h'"
    if "set h \<subseteq> set h'" "\<And>v. committed h' v \<longleftrightarrow> committed h v \<or> v = sm_version m" for h'
    using that assms(1,3) by (auto simp: reached_def)
  show ?thesis
  proof (cases "trim_space (sm_up m) = []")
    case True
    then show ?thesis
      by (auto simp: applyMigration_def execMigrationTx_def migration_guard_def committed_snoc simp del: append_assoc
          split: option.split intro!: due grown bexI[of _ m])
  next
    case False
    then show ?thesis
      by (auto simp: applyMigration_def execMigrationTx_def migration_guard_def committed_snoc simp del: append_assoc
          split: option.split intro!: due grown bexI[of _ m])
  qed
qed

lemma pending_wp:
  assumes "reached applied pre h" and "sorted_wrt (<) (map sm_version (pre @ post))"
  shows "wp (migration_guard (pre @ post)) (\<lambda>h' err. err = None \<longrightarrow> reached applied (pre @ post) h') (applyPendingMigrations applied post) h"
  using assms
proof (induction post arbitrary: pre h)
  case Nil
  then show ?case by (simp add: applyPendingMigrations_def)
next
  case (Cons m post)
  have rest: "wp (migration_guard (pre @ m # post)) (\<lambda>h' err. err = None \<longrightarrow> reached applied (pre @ m # post) h')
      (applyPendingMigrations applied post) h'" if "reached applied (pre @ [m]) h'" for h'
    using Cons.IH[of "pre @ [m]", OF that] Cons.prems(2) by simp
  show ?case
  proof (cases "sm_version m \<in> set applied")
    case True
    then have "reached applied (pre @ [m]) h" using Cons.prems(1) by (auto simp: reached_def)
    from rest[OF this] True show ?thesis by (simp add: applyPendingMigrations_def and_next_def)
  next
    case False
    have "wp (migration_guard (pre @ m # post)) (\<lambda>h' err. case err of Some e \<Rightarrow> True
        | None \<Rightarrow> wp (migration_guard (pre @ m # post)) (\<lambda>h' err. err = None \<longrightarrow> reached applied (pre @ m # post) h')
            (applyPendingMigrations applied post) h') (applyMigration m) h"
      by (rule wp_mono[OF apply_wp[OF Cons.prems False]]) (auto split: option.split intro: rest)
    with False show ?thesis by (auto simp: applyPendingMigrations_def split: option.splits elim!: wp_mono)
  qed
qed

lemma no_duplicates:
  assumes "rejectDuplicateMigrationVersions ms = None" and "sorted (map sm_version ms)"
  shows "sorted_wrt (<) (map sm_version ms)"
  using assms
proof (induction ms rule: rejectDuplicateMigrationVersions.induct)
  case (1 a b ms)
  then have "sorted_wrt (<) (map sm_version (b # ms))" "sm_version a < sm_version b" by (auto split: if_splits)
  then show ?case by force
qed simp_all

lemma loaded_order: "loadMigrations files = Inr ms \<Longrightarrow> sorted_wrt (<) (map sm_version ms)"
  by (auto simp: loadMigrations_def Let_def split: sum.splits option.splits intro!: no_duplicates)

text \<open>C32: When the schema is brought up to date, a migration runs only when neither an earlier start nor this one has applied it, after every one with a smaller version, and in a transaction of its own: begun right before its statements, which are recorded as applied right after them, and committed right after that. After one that failed no later one is run, and a run that reports no error has every embedded migration applied.\<close>

theorem migrations_run_in_order:
  assumes "loadMigrations files = Inr ms" and "trace (migrate files) es"
  shows "(\<forall>es1 q r es2. es = es1 @ (q, r) # es2 \<longrightarrow> migration_guard ms es1 q) \<and>
    (runs (migrate files) es None \<longrightarrow>
       (\<exists>applied. (AppliedVersions, SqlVersions (Inr applied)) \<in> set es \<and> (\<forall>m \<in> set ms. sm_version m \<in> set applied \<or> committed es (sm_version m))))"
proof -
  let ?Q = "\<lambda>h err. err = None \<longrightarrow> (\<exists>applied. reached applied ms h)"
  have none: "\<not> committed [(CreateVersionTable, x), (AppliedVersions, y)] v" for x y v
    using committed_snoc[of "[(CreateVersionTable, x)]" "(AppliedVersions, y)" v] committed_snoc[of "[]" "(CreateVersionTable, x)" v]
    by (simp add: committed_def)
  have "wp (migration_guard ms) ?Q (applyPendingMigrations applied ms) [(CreateVersionTable, x), (AppliedVersions, SqlVersions (Inr applied))]"
    for x applied
    by (rule wp_mono[OF pending_wp[of applied "[]" _ ms, simplified]]) (auto simp: reached_def none loaded_order[OF assms(1)])
  then have "wp (migration_guard ms) ?Q (migrate files) []"
    by (auto simp: migrate_def assms(1) migration_guard_def split: option.split sum.split)
  with assms(2) have "(\<forall>es1 q r es2. es = es1 @ (q, r) # es2 \<longrightarrow> migration_guard ms es1 q)"
    "runs (migrate files) es None \<Longrightarrow> \<exists>applied. reached applied ms es"
    using wp_trace wp_runs by fastforce+
  then show ?thesis by (fastforce simp: reached_def)
qed

definition demo_files :: "embedded_file list" where
  "demo_files = map (\<lambda>(n, c). \<lparr>ef_name = n, ef_dir = False, ef_content = ''-- +goose Up'' @ [CHR 0x0A] @ c @ [CHR 0x0A] @ ''-- +goose Down''\<rparr>)
     [(''0002_more.sql'', ''B''), (''0001_init.sql'', ''A''), (''notes.txt'', [])]"

definition demo_migration_run :: "sql_log \<times> (go_error option) option" where
  "demo_migration_run = replay (migrate demo_files) ([SqlDone None, SqlVersions (Inr [1])] @ replicate 4 (SqlDone None))"

theorem migrations_run_in_order_witness:
  "\<exists>ms m. loadMigrations demo_files = Inr ms \<and> m \<in> set ms \<and> due ms (take 3 (fst demo_migration_run)) m"
proof -
  have facts: "(case loadMigrations demo_files of Inr ms \<Rightarrow> True | Inl _ \<Rightarrow> False) \<and> 3 < length (fst demo_migration_run) \<and>
      (case fst demo_migration_run ! 3 of (ExecTx t, _) \<Rightarrow> t = ''B'' | _ \<Rightarrow> False)"
    by code_simp
  then obtain ms where ms: "loadMigrations demo_files = Inr ms" by (auto split: sum.splits)
  from facts obtain t r where step: "fst demo_migration_run ! 3 = (ExecTx t, r)" by (auto split: prod.splits sql_request.splits)
  have run: "trace (migrate demo_files) (fst demo_migration_run)"
    unfolding demo_migration_run_def by (rule replay_trace[OF prod.collapse[symmetric]])
  have "fst demo_migration_run = take 3 (fst demo_migration_run) @ (ExecTx t, r) # drop 4 (fst demo_migration_run)"
    using id_take_nth_drop[of 3 "fst demo_migration_run"] facts step by simp
  with migrations_run_in_order[OF ms run] have "migration_guard ms (take 3 (fst demo_migration_run)) (ExecTx t)" by blast
  with ms show ?thesis by (auto simp: migration_guard_def)
qed

end
