(* ===== verification/SyncLocks.thy ===== *)
theory SyncLocks
  imports Main
begin

text \<open>
  The locks that keep two source syncs out of one checkout (\<open>worker/source_sync.go\<close>: \<open>keyedSourceSyncLocks\<close>). Any number
  of goroutines call \<open>withLock\<close> with the path of a checkout. A step is what happens in one critical section of the table's
  own mutex, or the taking or releasing of the mutex of an entry, which waits while another goroutine holds it; steps of
  different goroutines come in any order.

  Shown: two syncs never run on one path at a time, the table holds an entry exactly as long as someone uses it, and the
  goroutines never block each other for ever.
\<close>

subsection \<open>State\<close>

text \<open>Where a goroutine is: outside, waiting for the entry it counted itself in, running, or on its way out between the two
critical sections of the release. Entries are numbered as they are made.\<close>

datatype place = Outside | Waiting string nat | Running string nat | Leaving string nat

record lock_table =
  lt_locks :: "(string \<times> nat) list"
  lt_refs :: "nat \<Rightarrow> int"
  lt_holder :: "nat \<Rightarrow> nat option"
  lt_next :: nat
  lt_places :: "place list"

definition no_locks :: "nat \<Rightarrow> lock_table" where
  "no_locks n = \<lparr>lt_locks = [], lt_refs = (\<lambda>_. 0), lt_holder = (\<lambda>_. None), lt_next = 0, lt_places = replicate n Outside\<rparr>"

definition uses :: "nat \<Rightarrow> place \<Rightarrow> bool" where
  "uses e p = (case p of Outside \<Rightarrow> False | Waiting _ e' \<Rightarrow> e' = e | Running _ e' \<Rightarrow> e' = e | Leaving _ e' \<Rightarrow> e' = e)"

definition key_of :: "place \<Rightarrow> string option" where
  "key_of p = (case p of Outside \<Rightarrow> None | Waiting k _ \<Rightarrow> Some k | Running k _ \<Rightarrow> Some k | Leaving k _ \<Rightarrow> Some k)"

subsection \<open>Steps\<close>

text \<open>The first critical section of \<open>lock\<close>: the entry of the key is found or made, and counted.\<close>

definition count_in :: "nat \<Rightarrow> string \<Rightarrow> lock_table \<Rightarrow> lock_table" where
  "count_in t key s =
     (case map_of (lt_locks s) key of
        Some e \<Rightarrow> s\<lparr>lt_refs := (lt_refs s)(e := lt_refs s e + 1), lt_places := (lt_places s)[t := Waiting key e]\<rparr>
      | None \<Rightarrow>
          (let e = lt_next s
           in s\<lparr>lt_locks := (key, e) # lt_locks s, lt_refs := (lt_refs s)(e := 1), lt_holder := (lt_holder s)(e := None),
                lt_next := e + 1, lt_places := (lt_places s)[t := Waiting key e]\<rparr>))"

definition take_entry :: "nat \<Rightarrow> string \<Rightarrow> nat \<Rightarrow> lock_table \<Rightarrow> lock_table" where
  "take_entry t key e s = s\<lparr>lt_holder := (lt_holder s)(e := Some t), lt_places := (lt_places s)[t := Running key e]\<rparr>"

definition release_entry :: "nat \<Rightarrow> string \<Rightarrow> nat \<Rightarrow> lock_table \<Rightarrow> lock_table" where
  "release_entry t key e s = s\<lparr>lt_holder := (lt_holder s)(e := None), lt_places := (lt_places s)[t := Leaving key e]\<rparr>"

text \<open>The second critical section of the release: the last user deletes whatever the table has under its key.\<close>

definition count_out :: "nat \<Rightarrow> string \<Rightarrow> nat \<Rightarrow> lock_table \<Rightarrow> lock_table" where
  "count_out t key e s =
     (let refs = lt_refs s e - 1
      in s\<lparr>lt_refs := (lt_refs s)(e := refs), lt_places := (lt_places s)[t := Outside],
           lt_locks := (if refs = 0 then filter (\<lambda>(k, _). k \<noteq> key) (lt_locks s) else lt_locks s)\<rparr>)"

definition at_place :: "lock_table \<Rightarrow> nat \<Rightarrow> place \<Rightarrow> bool" where
  "at_place s t p = (t < length (lt_places s) \<and> lt_places s ! t = p)"

inductive lock_step :: "lock_table \<Rightarrow> lock_table \<Rightarrow> bool" where
  enter: "at_place s t Outside \<Longrightarrow> lock_step s (count_in t key s)"
| acquire: "at_place s t (Waiting key e) \<Longrightarrow> lt_holder s e = None \<Longrightarrow> lock_step s (take_entry t key e s)"
| unlock: "at_place s t (Running key e) \<Longrightarrow> lock_step s (release_entry t key e s)"
| leave: "at_place s t (Leaving key e) \<Longrightarrow> lock_step s (count_out t key e s)"

inductive reached_from :: "lock_table \<Rightarrow> lock_table \<Rightarrow> bool" for s0 where
  start: "reached_from s0 s0"
| next_: "reached_from s0 s \<Longrightarrow> lock_step s s' \<Longrightarrow> reached_from s0 s'"

inductive_cases lock_stepE: "lock_step s s'"

subsection \<open>What every reachable state keeps\<close>

definition users :: "nat \<Rightarrow> lock_table \<Rightarrow> nat" where
  "users e s = length (filter (uses e) (lt_places s))"

definition entry_of :: "place \<Rightarrow> (string \<times> nat) option" where
  "entry_of p = (case p of Outside \<Rightarrow> None | Waiting k e \<Rightarrow> Some (k, e) | Running k e \<Rightarrow> Some (k, e) | Leaving k e \<Rightarrow> Some (k, e))"

definition lock_inv :: "lock_table \<Rightarrow> bool" where
  "lock_inv s =
     (distinct (map fst (lt_locks s)) \<and> distinct (map snd (lt_locks s)) \<and>
      (\<forall>(k, e) \<in> set (lt_locks s). e < lt_next s \<and> 0 < users e s \<and> lt_refs s e = int (users e s)) \<and>
      (\<forall>p \<in> set (lt_places s). \<forall>ke. entry_of p = Some ke \<longrightarrow> ke \<in> set (lt_locks s)) \<and>
      (\<forall>t k e. at_place s t (Running k e) \<longrightarrow> lt_holder s e = Some t) \<and>
      (\<forall>e t. lt_holder s e = Some t \<longrightarrow> (\<exists>k. at_place s t (Running k e))))"

lemma count_update:
  assumes "t < length xs"
  shows "length (filter P (xs[t := x])) + (if P (xs ! t) then 1 else 0) = length (filter P xs) + (if P x then 1 else 0)"
proof -
  have "length (filter P (xs[t := x])) = length (filter P (take t xs @ x # drop (Suc t) xs))"
    using assms by (simp only: upd_conv_take_nth_drop)
  moreover have "length (filter P xs) = length (filter P (take t xs @ xs ! t # drop (Suc t) xs))"
    using id_take_nth_drop[OF assms] by simp
  ultimately show ?thesis by simp
qed

lemma uses_entry: "uses e p = (\<exists>k. entry_of p = Some (k, e))"
  by (cases p) (auto simp: uses_def entry_of_def)

lemma users_moved:
  assumes "at_place s t p" and "lt_places s' = (lt_places s)[t := p']"
  shows "users e s' + (if uses e p then 1 else 0) = users e s + (if uses e p' then 1 else 0)"
  using assms count_update[of t "lt_places s" "uses e" p'] by (auto simp: at_place_def users_def)

lemma at_moved:
  assumes "at_place s t p" and "lt_places s' = (lt_places s)[t := p']"
  shows "at_place s' u q \<longleftrightarrow> (if u = t then q = p' else at_place s u q)"
  using assms by (auto simp: at_place_def)

lemma places_moved:
  assumes "at_place s t p" and "lt_places s' = (lt_places s)[t := p']"
  shows "set (lt_places s') \<subseteq> insert p' (set (lt_places s))"
  using assms by (simp add: set_update_subset_insert)

lemma at_place_in: "at_place s t p \<Longrightarrow> p \<in> set (lt_places s)"
  by (auto simp: at_place_def)

lemma user_there: "p \<in> set (lt_places s) \<Longrightarrow> uses e p \<Longrightarrow> 0 < users e s"
  by (auto simp: users_def filter_empty_conv)

lemma lock_invD:
  assumes "lock_inv s"
  shows "distinct (map fst (lt_locks s))" "distinct (map snd (lt_locks s))"
    "(k, e) \<in> set (lt_locks s) \<Longrightarrow> e < lt_next s \<and> 0 < users e s \<and> lt_refs s e = int (users e s)"
    "p \<in> set (lt_places s) \<Longrightarrow> entry_of p = Some ke \<Longrightarrow> ke \<in> set (lt_locks s)"
    "at_place s t (Running k' e') \<Longrightarrow> lt_holder s e' = Some t"
    "lt_holder s e' = Some t \<Longrightarrow> \<exists>k. at_place s t (Running k e')"
  using assms unfolding lock_inv_def by blast+

lemma lock_invI:
  assumes "distinct (map fst (lt_locks s))" "distinct (map snd (lt_locks s))"
    "\<And>k e. (k, e) \<in> set (lt_locks s) \<Longrightarrow> e < lt_next s \<and> 0 < users e s \<and> lt_refs s e = int (users e s)"
    "\<And>p ke. p \<in> set (lt_places s) \<Longrightarrow> entry_of p = Some ke \<Longrightarrow> ke \<in> set (lt_locks s)"
    "\<And>t k e. at_place s t (Running k e) \<Longrightarrow> lt_holder s e = Some t"
    "\<And>e t. lt_holder s e = Some t \<Longrightarrow> \<exists>k. at_place s t (Running k e)"
  shows "lock_inv s"
  using assms unfolding lock_inv_def by blast

lemma holder_runs: "lock_inv s \<Longrightarrow> at_place s t p \<Longrightarrow> lt_holder s e = Some t \<Longrightarrow> \<exists>k. p = Running k e"
  using lock_invD(6) by (fastforce simp: at_place_def)

lemma count_in_inv:
  assumes inv: "lock_inv s" and at: "at_place s t Outside"
  shows "lock_inv (count_in t key s)"
proof (cases "map_of (lt_locks s) key")
  case (Some e)
  let ?s = "count_in t key s"
  have s: "lt_locks ?s = lt_locks s" "lt_refs ?s = (lt_refs s)(e := lt_refs s e + 1)" "lt_holder ?s = lt_holder s"
    "lt_next ?s = lt_next s" "lt_places ?s = (lt_places s)[t := Waiting key e]"
    using Some by (simp_all add: count_in_def)
  have mem: "(key, e) \<in> set (lt_locks s)" using Some by (rule map_of_SomeD)
  have users: "users e' ?s = users e' s + (if e' = e then 1 else 0)" for e'
    using users_moved[OF at s(5), of e'] by (auto simp: uses_def)
  show ?thesis
    unfolding lock_inv_def s(1,3,4)
    using lock_invD[OF inv] holder_runs[OF inv at] mem places_moved[OF at s(5)]
    by (auto simp: users at_moved[OF at s(5)] s(2) entry_of_def)
next
  case None
  let ?s = "count_in t key s" and ?e = "lt_next s"
  have s: "lt_locks ?s = (key, ?e) # lt_locks s" "lt_refs ?s = (lt_refs s)(?e := 1)" "lt_holder ?s = (lt_holder s)(?e := None)"
    "lt_next ?s = ?e + 1" "lt_places ?s = (lt_places s)[t := Waiting key ?e]"
    using None by (simp_all add: count_in_def Let_def)
  have fresh: "\<not> uses ?e p" if "p \<in> set (lt_places s)" for p
    using lock_invD(4)[OF inv that] by (auto simp: uses_entry dest: lock_invD(3)[OF inv])
  then have zero: "users ?e s = 0" by (auto simp: users_def filter_empty_conv)
  then have users: "users e' ?s = users e' s + (if e' = ?e then 1 else 0)" "users ?e ?s = 1" for e'
    using users_moved[OF at s(5), of e'] users_moved[OF at s(5), of ?e] by (auto simp: uses_def)
  have key: "key \<notin> fst ` set (lt_locks s)" using None by (simp add: map_of_eq_None_iff)
  have "?e \<notin> snd ` set (lt_locks s)" by (auto dest: lock_invD(3)[OF inv])
  moreover have "e \<noteq> ?e" if "at_place s u (Running k e)" for u k e
    using fresh[OF at_place_in[OF that]] by (auto simp: uses_def)
  ultimately show ?thesis
    unfolding lock_inv_def s(1,4)
    using lock_invD[OF inv] holder_runs[OF inv at] key zero places_moved[OF at s(5)]
    by (auto simp: users at_moved[OF at s(5)] s(2,3) entry_of_def less_Suc_eq split: if_splits)
qed

lemma take_entry_inv:
  assumes inv: "lock_inv s" and at: "at_place s t (Waiting key e)" and free: "lt_holder s e = None"
  shows "lock_inv (take_entry t key e s)"
proof -
  let ?s = "take_entry t key e s"
  have s: "lt_locks ?s = lt_locks s" "lt_refs ?s = lt_refs s" "lt_holder ?s = (lt_holder s)(e := Some t)"
    "lt_next ?s = lt_next s" "lt_places ?s = (lt_places s)[t := Running key e]"
    by (simp_all add: take_entry_def)
  have mem: "(key, e) \<in> set (lt_locks s)" using lock_invD(4)[OF inv at_place_in[OF at]] by (simp add: entry_of_def)
  have users: "users e' ?s = users e' s" for e'
    using users_moved[OF at s(5), of e'] by (auto simp: uses_def)
  have others: "e' \<noteq> e" if "at_place s u (Running k e')" for u k e'
    using lock_invD(5)[OF inv that] free by auto
  show ?thesis
    unfolding lock_inv_def s(1,2,4)
    using lock_invD[OF inv] holder_runs[OF inv at] mem others places_moved[OF at s(5)]
    by (auto simp: users at_moved[OF at s(5)] s(3) entry_of_def)
qed

lemma release_entry_inv:
  assumes inv: "lock_inv s" and at: "at_place s t (Running key e)"
  shows "lock_inv (release_entry t key e s)"
proof -
  let ?s = "release_entry t key e s"
  have s: "lt_locks ?s = lt_locks s" "lt_refs ?s = lt_refs s" "lt_holder ?s = (lt_holder s)(e := None)"
    "lt_next ?s = lt_next s" "lt_places ?s = (lt_places s)[t := Leaving key e]"
    by (simp_all add: release_entry_def)
  have mem: "(key, e) \<in> set (lt_locks s)" using lock_invD(4)[OF inv at_place_in[OF at]] by (simp add: entry_of_def)
  have users: "users e' ?s = users e' s" for e'
    using users_moved[OF at s(5), of e'] by (auto simp: uses_def)
  show ?thesis
  proof (rule lock_invI)
    fix u k e' assume run: "at_place ?s u (Running k e')"
    then have "at_place s u (Running k e')" "u \<noteq> t" by (auto simp: at_moved[OF at s(5)] split: if_splits)
    with lock_invD(5)[OF inv this(1)] lock_invD(5)[OF inv at] have "lt_holder s e' = Some u" "e' \<noteq> e" by auto
    then show "lt_holder ?s e' = Some u" by (simp add: s(3))
  next
    fix e' u assume "lt_holder ?s e' = Some u"
    then have h: "lt_holder s e' = Some u" "e' \<noteq> e" by (auto simp: s(3) split: if_splits)
    then have "u \<noteq> t" using holder_runs[OF inv at] by auto
    with lock_invD(6)[OF inv h(1)] show "\<exists>k. at_place ?s u (Running k e')" by (simp add: at_moved[OF at s(5)])
  next
    fix p ke assume "p \<in> set (lt_places ?s)" "entry_of p = Some ke"
    then show "ke \<in> set (lt_locks ?s)"
      using places_moved[OF at s(5)] lock_invD(4)[OF inv] mem by (auto simp: s(1) entry_of_def split: place.splits)
  qed (use lock_invD(1,2,3)[OF inv] in \<open>auto simp: s(1,2,4) users\<close>)
qed

lemma count_out_inv:
  assumes inv: "lock_inv s" and at: "at_place s t (Leaving key e)"
  shows "lock_inv (count_out t key e s)"
proof -
  let ?s = "count_out t key e s"
  have s: "lt_refs ?s = (lt_refs s)(e := lt_refs s e - 1)" "lt_holder ?s = lt_holder s"
    "lt_next ?s = lt_next s" "lt_places ?s = (lt_places s)[t := Outside]"
    by (simp_all add: count_out_def Let_def)
  have mem: "(key, e) \<in> set (lt_locks s)" using lock_invD(4)[OF inv at_place_in[OF at]] by (simp add: entry_of_def)
  note entry = lock_invD(3)[OF inv mem]
  have users: "users e' ?s = (if e' = e then users e s - 1 else users e' s)" for e'
    using users_moved[OF at s(4), of e'] entry by (auto simp: uses_def)
  have only: "k = key \<longleftrightarrow> e' = e" if "(k, e') \<in> set (lt_locks s)" for k e'
    using that mem lock_invD(1,2)[OF inv] by (metis (mono_tags, lifting) distinct_map eq_key_imp_eq_value fst_conv inj_onD snd_conv)
  have locks: "set (lt_locks ?s) = {(k, e') \<in> set (lt_locks s). users e s = 1 \<longrightarrow> e' \<noteq> e}"
    using entry only by (auto simp: count_out_def Let_def)
  have gone: "\<not> uses e p" if "users e s = 1" "p \<in> set (lt_places ?s)" for p
    using user_there[OF that(2), of e] users[of e] that(1) by auto
  have "distinct (map fst (lt_locks ?s))" "distinct (map snd (lt_locks ?s))"
    using lock_invD(1,2)[OF inv] by (auto simp: count_out_def Let_def distinct_map_filter)
  moreover have "ke \<in> set (lt_locks ?s)" if "p \<in> set (lt_places ?s)" "entry_of p = Some ke" for p ke
  proof -
    have "p \<in> set (lt_places s)" using that places_moved[OF at s(4)] by (auto simp: entry_of_def)
    then have "ke \<in> set (lt_locks s)" using lock_invD(4)[OF inv] that(2) by blast
    then show ?thesis using gone[OF _ that(1)] that(2) by (cases ke) (auto simp: locks uses_entry)
  qed
  ultimately show ?thesis
    unfolding lock_inv_def
    using lock_invD(3,5,6)[OF inv] holder_runs[OF inv at] entry
    by (auto simp: users at_moved[OF at s(4)] s(1,2,3) locks)
qed

lemma lock_step_inv: "lock_step s s' \<Longrightarrow> lock_inv s \<Longrightarrow> lock_inv s'"
  by (induction rule: lock_step.induct) (simp_all add: count_in_inv take_entry_inv release_entry_inv count_out_inv)

lemma no_locks_inv: "lock_inv (no_locks n)"
  by (auto simp: lock_inv_def no_locks_def at_place_def entry_of_def)

lemma reached_inv: "reached_from s0 s \<Longrightarrow> lock_inv s0 \<Longrightarrow> lock_inv s"
  by (induction rule: reached_from.induct) (auto intro: lock_step_inv)

lemma key_entry: "(key_of p = Some k) = (\<exists>e. entry_of p = Some (k, e))"
  by (cases p) (auto simp: key_of_def entry_of_def)

lemma entry_while_used:
  assumes "lock_inv s"
  shows "(\<exists>e. (k, e) \<in> set (lt_locks s)) \<longleftrightarrow> (\<exists>p \<in> set (lt_places s). key_of p = Some k)"
proof
  assume "\<exists>e. (k, e) \<in> set (lt_locks s)"
  then obtain e where e: "(k, e) \<in> set (lt_locks s)" by blast
  then have "0 < users e s" using lock_invD(3)[OF assms] by blast
  then obtain p k' where p: "p \<in> set (lt_places s)" "entry_of p = Some (k', e)"
    by (auto simp: users_def filter_empty_conv uses_entry)
  then have "(k', e) \<in> set (lt_locks s)" using lock_invD(4)[OF assms] by blast
  with e lock_invD(2)[OF assms] have "k' = k" by (metis distinct_map inj_onD prod.inject snd_conv)
  with p show "\<exists>p \<in> set (lt_places s). key_of p = Some k" by (auto simp: key_entry)
next
  assume "\<exists>p \<in> set (lt_places s). key_of p = Some k"
  then show "\<exists>e. (k, e) \<in> set (lt_locks s)" using lock_invD(4)[OF assms] by (auto simp: key_entry)
qed

text \<open>Who waits for a free entry takes it, who waits for a held one has its holder to wait for, and the holder can go on.\<close>

lemma can_go_on:
  assumes "at_place s t p" and "p = Running k e \<or> p = Leaving k e \<or> p = Waiting k e \<and> lt_holder s e = None"
  shows "\<exists>s'. lock_step s s' \<and> \<not> at_place s' t p"
  using assms
proof (elim disjE conjE)
  assume p: "p = Running k e"
  with assms(1) have "lock_step s (release_entry t k e s)" by (auto intro: lock_step.unlock)
  moreover have "\<not> at_place (release_entry t k e s) t p" using p assms(1) by (auto simp: at_place_def release_entry_def)
  ultimately show ?thesis by blast
next
  assume p: "p = Leaving k e"
  with assms(1) have "lock_step s (count_out t k e s)" by (auto intro: lock_step.leave)
  moreover have "\<not> at_place (count_out t k e s) t p" using p assms(1) by (auto simp: at_place_def count_out_def Let_def)
  ultimately show ?thesis by blast
next
  assume p: "p = Waiting k e" and free: "lt_holder s e = None"
  with assms(1) have "lock_step s (take_entry t k e s)" by (auto intro: lock_step.acquire)
  moreover have "\<not> at_place (take_entry t k e s) t p" using p assms(1) by (auto simp: at_place_def take_entry_def)
  ultimately show ?thesis by blast
qed

lemma some_step:
  assumes "lock_inv s" and "at_place s t p" and "p \<noteq> Outside"
  shows "\<exists>t p s'. at_place s t p \<and> p \<noteq> Outside \<and> lock_step s s' \<and> \<not> at_place s' t p"
proof (cases "\<exists>k e u. p = Waiting k e \<and> lt_holder s e = Some u")
  case True
  then obtain e u where "lt_holder s e = Some u" by blast
  from lock_invD(6)[OF assms(1) this] obtain k where "at_place s u (Running k e)" by blast
  with can_go_on[OF this] show ?thesis by blast
next
  case False
  with assms(3) obtain k e where "p = Running k e \<or> p = Leaving k e \<or> p = Waiting k e \<and> lt_holder s e = None"
    by (cases p) auto
  from can_go_on[OF assms(2) this] assms(2,3) show ?thesis by blast
qed

text \<open>C33: However many syncs there are and however their steps interleave, no two of them run for one checkout path at the same time; the table has an entry for a path exactly while some sync waits for it, runs or is on its way out, counted right, so that none is lost and none is left behind; and there is always a step to take for one of the syncs that are inside, so that they never wait for each other for ever.\<close>

theorem syncs_of_a_path_exclude_each_other:
  assumes "reached_from (no_locks n) s"
  shows "(\<forall>t u k e e'. at_place s t (Running k e) \<and> at_place s u (Running k e') \<longrightarrow> t = u) \<and>
    (\<forall>k. (\<exists>e. (k, e) \<in> set (lt_locks s)) \<longleftrightarrow> (\<exists>p \<in> set (lt_places s). key_of p = Some k)) \<and>
    (\<forall>(k, e) \<in> set (lt_locks s). lt_refs s e = int (users e s)) \<and>
    ((\<exists>t p. at_place s t p \<and> p \<noteq> Outside) \<longrightarrow> (\<exists>t p s'. at_place s t p \<and> p \<noteq> Outside \<and> lock_step s s' \<and> \<not> at_place s' t p))"
proof -
  have inv: "lock_inv s" using reached_inv[OF assms no_locks_inv] .
  have "t = u" if "at_place s t (Running k e)" "at_place s u (Running k e')" for t u k e e'
  proof -
    have "(k, e) \<in> set (lt_locks s)" "(k, e') \<in> set (lt_locks s)"
      using lock_invD(4)[OF inv at_place_in] that by (force simp: entry_of_def)+
    then have "e = e'" using lock_invD(1)[OF inv] eq_key_imp_eq_value by metis
    then show "t = u" using lock_invD(5)[OF inv that(1)] lock_invD(5)[OF inv that(2)] by simp
  qed
  moreover have "(\<exists>e. (k, e) \<in> set (lt_locks s)) \<longleftrightarrow> (\<exists>p \<in> set (lt_places s). key_of p = Some k)" for k
    by (rule entry_while_used[OF inv])
  moreover have "\<exists>t p s'. at_place s t p \<and> p \<noteq> Outside \<and> lock_step s s' \<and> \<not> at_place s' t p" if "at_place s t p" "p \<noteq> Outside" for t p
    by (rule some_step[OF inv that])
  ultimately show ?thesis using lock_invD(3)[OF inv] by blast
qed

text \<open>Two syncs of one path: the second waits for the first.\<close>

definition demo_locks :: lock_table where
  "demo_locks = count_in 1 ''app'' (take_entry 0 ''app'' 0 (count_in 0 ''app'' (no_locks 2)))"

theorem syncs_of_a_path_exclude_each_other_witness:
  "reached_from (no_locks 2) demo_locks \<and> lt_places demo_locks = [Running ''app'' 0, Waiting ''app'' 0] \<and>
     (\<exists>t p s'. at_place demo_locks t p \<and> p \<noteq> Outside \<and> lock_step demo_locks s' \<and> \<not> at_place s' t p)"
proof -
  have facts: "at_place (no_locks 2) 0 Outside" "at_place (count_in 0 ''app'' (no_locks 2)) 0 (Waiting ''app'' 0)"
    "lt_holder (count_in 0 ''app'' (no_locks 2)) 0 = None"
    "at_place (take_entry 0 ''app'' 0 (count_in 0 ''app'' (no_locks 2))) 1 Outside"
    "lt_places demo_locks = [Running ''app'' 0, Waiting ''app'' 0]"
    by (simp_all add: at_place_def no_locks_def count_in_def take_entry_def demo_locks_def Let_def numeral_2_eq_2)
  have reached: "reached_from (no_locks 2) demo_locks"
    unfolding demo_locks_def
    by (rule reached_from.next_[OF reached_from.next_[OF reached_from.next_[OF reached_from.start]]])
      (rule lock_step.enter[OF facts(1)] lock_step.acquire[OF facts(2,3)] lock_step.enter[OF facts(4)])+
  have "at_place demo_locks 0 (Running ''app'' 0)" using facts(5) by (simp add: at_place_def)
  then have "\<exists>t p. at_place demo_locks t p \<and> p \<noteq> Outside" by blast
  with syncs_of_a_path_exclude_each_other[OF reached] reached facts(5) show ?thesis by blast
qed

end
